(* ===== verification/Go_Prelude.thy ===== *)
theory Go_Prelude
  imports
    Main
    "HOL-Library.AList"
    "HOL-Library.Char_ord"
    "HOL-Library.List_Lexorder"
    "HOL-Library.Signed_Division"
    "HOL-Library.Sublist"
begin

text \<open>
  What every component of Syrogo uses of the Go language and of its standard library, and the
  interfaces (locales) that several components implement:
  \<^item> \<open>int\<close>/\<open>int64\<close> arithmetic with its wrap-around (\<open>wrap64\<close>);
  \<^item> Go strings as byte lists, with the functions of package \<open>strings\<close> the code calls;
  \<^item> Go maps that are iterated, as association lists with distinct keys (the list order
    stands for the unspecified iteration order);
  \<^item> \<open>keep_last\<close>, the bounded append that the event log, the latency store and the usage
    store share, and the locale \<open>bounded_log\<close> that states its contract;
  \<^item> the locale \<open>invariant_machine\<close>: what every step keeps, every run keeps.
\<close>

named_theorems go_simps \<open>unfolding of the Go-level helper operations\<close>
named_theorems frame_simps \<open>fields an operation leaves unchanged\<close>

section \<open>64-bit integers\<close>

text \<open>Go's \<open>int\<close> and \<open>int64\<close> are two's complement: results are reduced into the range.\<close>

definition wrap64 :: "int \<Rightarrow> int" where
  "wrap64 x = (x + 2 ^ 63) mod 2 ^ 64 - 2 ^ 63"

definition int64 :: "int \<Rightarrow> bool" where
  "int64 x \<longleftrightarrow> - (2 ^ 63) \<le> x \<and> x < 2 ^ 63"

lemma wrap64_id [simp]: "int64 x \<Longrightarrow> wrap64 x = x"
  by (simp add: wrap64_def int64_def)

lemma int64_wrap64 [simp]: "int64 (wrap64 x)"
proof -
  have "0 \<le> (x + 2 ^ 63) mod 2 ^ 64" "(x + 2 ^ 63) mod 2 ^ 64 < 2 ^ 64"
    by simp_all
  then show ?thesis by (simp add: wrap64_def int64_def)
qed

lemma wrap64_add_left [simp]: "wrap64 (wrap64 a + b) = wrap64 (a + b)"
proof -
  have "wrap64 a + b + 2 ^ 63 = (a + 2 ^ 63) mod 2 ^ 64 + b"
    by (simp add: wrap64_def)
  also have "\<dots> mod 2 ^ 64 = (a + 2 ^ 63 + b) mod 2 ^ 64"
    by (rule mod_add_left_eq)
  finally show ?thesis by (simp add: wrap64_def ac_simps)
qed

lemma wrap64_add_right [simp]: "wrap64 (a + wrap64 b) = wrap64 (a + b)"
  using wrap64_add_left [of b a] by (simp only: add.commute)

lemma int64_0 [simp]: "int64 0"
  by (simp add: int64_def)

lemma int64_between: "int64 b \<Longrightarrow> 0 \<le> a \<Longrightarrow> a \<le> b \<Longrightarrow> int64 a"
  by (simp add: int64_def)

section \<open>Strings\<close>

text \<open>A Go string is a sequence of bytes; \<open>char\<close> is a byte.\<close>

definition HasPrefix :: "string \<Rightarrow> string \<Rightarrow> bool" where
  "HasPrefix s p = (take (length p) s = p)"

definition HasSuffix :: "string \<Rightarrow> string \<Rightarrow> bool" where
  "HasSuffix s p = (length p \<le> length s \<and> drop (length s - length p) s = p)"

lemma HasPrefix_iff: "HasPrefix s p \<longleftrightarrow> (\<exists>r. s = p @ r)"
proof
  assume "HasPrefix s p"
  then have "s = p @ drop (length p) s"
    using append_take_drop_id [of "length p" s] by (simp add: HasPrefix_def)
  then show "\<exists>r. s = p @ r" ..
qed (auto simp: HasPrefix_def)

lemma HasSuffix_iff: "HasSuffix s p \<longleftrightarrow> (\<exists>r. s = r @ p)"
proof
  assume "HasSuffix s p"
  then have "s = take (length s - length p) s @ p"
    using append_take_drop_id [of "length s - length p" s] by (simp add: HasSuffix_def)
  then show "\<exists>r. s = r @ p" ..
qed (auto simp: HasSuffix_def)

text \<open>\<open>strings.Index\<close>: the position of the first occurrence, \<open>None\<close> for the result -1.\<close>

fun Index :: "string \<Rightarrow> string \<Rightarrow> nat option" where
  "Index s p =
     (if HasPrefix s p then Some 0
      else (case s of [] \<Rightarrow> None | _ # s' \<Rightarrow> map_option Suc (Index s' p)))"

declare Index.simps [simp del]

lemma Index_Nil [code]: "Index [] p = (if p = [] then Some 0 else None)"
  by (simp add: Index.simps [of "[]"] HasPrefix_def)

lemma Index_Cons [code]:
  "Index (c # s) p = (if HasPrefix (c # s) p then Some 0 else map_option Suc (Index s p))"
  by (simp add: Index.simps [of "c # s"])

lemma Index_SomeD: "Index s p = Some i \<Longrightarrow> \<exists>r. s = take i s @ p @ r \<and> length (take i s) = i"
proof (induction s arbitrary: i)
  case Nil
  then show ?case by (simp add: Index_Nil split: if_splits)
next
  case (Cons c s)
  then show ?case by (auto simp: Index_Cons HasPrefix_iff split: if_splits)
qed

lemma Index_least:
  assumes "s = u @ p @ r"
  shows "\<exists>i. Index s p = Some i \<and> i \<le> length u"
  using assms
proof (induction u arbitrary: s)
  case Nil
  then have "HasPrefix s p" by (auto simp: HasPrefix_iff)
  then show ?case by (auto simp: Index.simps [of s])
next
  case (Cons c u)
  then obtain s' where s: "s = c # s'" "s' = u @ p @ r" by simp
  from Cons.IH [OF s(2)] obtain i where "Index s' p = Some i" "i \<le> length u" by blast
  then show ?case using s by (auto simp: Index_Cons)
qed

definition Contains :: "string \<Rightarrow> string \<Rightarrow> bool" where
  "Contains s p = (Index s p \<noteq> None)"

lemma Contains_iff: "Contains s p \<longleftrightarrow> (\<exists>u r. s = u @ p @ r)"
  using Index_least by (fastforce simp: Contains_def dest: Index_SomeD)

text \<open>
  \<open>strings.TrimSpace\<close> removes leading and trailing Unicode white space. The UTF-8 encodings of
  the code points with the property White_Space are listed as byte sequences.
\<close>

definition bytes_of :: "nat list \<Rightarrow> string" where
  "bytes_of ns = map char_of ns"

definition white_space_seqs :: "string list" where
  "white_space_seqs = map bytes_of
     ([[9], [10], [11], [12], [13], [32], [194, 133], [194, 160], [225, 154, 128]]
      @ map (\<lambda>n. [226, 128, n]) [128, 129, 130, 131, 132, 133, 134, 135, 136, 137, 138, 168, 169, 175]
      @ [[226, 129, 159], [227, 128, 128]])"

lemma white_space_seqs_nonempty: "w \<in> set white_space_seqs \<Longrightarrow> w \<noteq> []"
  by (auto simp: white_space_seqs_def bytes_of_def)

function TrimLeftSpace :: "string \<Rightarrow> string" where
  "TrimLeftSpace s =
     (case find (HasPrefix s) white_space_seqs of
        None \<Rightarrow> s
      | Some w \<Rightarrow> TrimLeftSpace (drop (length w) s))"
  by pat_completeness auto
termination
proof (relation "measure length")
  fix s w
  assume w: "find (HasPrefix s) white_space_seqs = Some w"
  then have "w \<in> set white_space_seqs" "HasPrefix s w"
    by (auto simp: find_Some_iff)
  then have "w \<noteq> []" "s \<noteq> []"
    using white_space_seqs_nonempty [of w] by (auto simp: HasPrefix_def)
  then show "(drop (length w) s, s) \<in> measure length" by simp
qed simp

function TrimRightSpace :: "string \<Rightarrow> string" where
  "TrimRightSpace s =
     (case find (HasSuffix s) white_space_seqs of
        None \<Rightarrow> s
      | Some w \<Rightarrow> TrimRightSpace (take (length s - length w) s))"
  by pat_completeness auto
termination
proof (relation "measure length")
  fix s w
  assume w: "find (HasSuffix s) white_space_seqs = Some w"
  then have "w \<in> set white_space_seqs" "HasSuffix s w"
    by (auto simp: find_Some_iff)
  then have "w \<noteq> []" "length w \<le> length s"
    using white_space_seqs_nonempty by (auto simp: HasSuffix_def)
  then show "(take (length s - length w) s, s) \<in> measure length"
    by (cases w) auto
qed simp

declare TrimLeftSpace.simps [simp del] TrimRightSpace.simps [simp del]

definition TrimSpace :: "string \<Rightarrow> string" where
  "TrimSpace s = TrimRightSpace (TrimLeftSpace s)"

text \<open>Text that begins and ends with a visible ASCII character is already trimmed.\<close>

definition printable :: "char \<Rightarrow> bool" where
  "printable c \<longleftrightarrow> 33 \<le> (of_char c :: nat) \<and> (of_char c :: nat) \<le> 126"

lemma white_space_not_printable: "\<forall>w\<in>set white_space_seqs. \<not> printable (hd w) \<and> \<not> printable (last w)"
  by (simp add: white_space_seqs_def bytes_of_def printable_def)

lemma TrimSpace_printable:
  assumes "s \<noteq> []" "printable (hd s)" "printable (last s)"
  shows "TrimSpace s = s"
proof -
  have "\<not> HasPrefix s w \<and> \<not> HasSuffix s w" if "w \<in> set white_space_seqs" for w
    using that assms white_space_seqs_nonempty [OF that] white_space_not_printable
    by (auto simp: HasPrefix_iff HasSuffix_iff)
  then have "find (HasPrefix s) white_space_seqs = None" "find (HasSuffix s) white_space_seqs = None"
    by (simp_all add: find_None_iff)
  then show ?thesis by (simp add: TrimSpace_def TrimLeftSpace.simps [of s] TrimRightSpace.simps [of s])
qed

lemma TrimSpace_Nil: "TrimSpace [] = []"
proof -
  have "find (HasPrefix []) white_space_seqs = None" "find (HasSuffix []) white_space_seqs = None"
    using white_space_seqs_nonempty by (auto simp: find_None_iff HasPrefix_iff HasSuffix_iff)
  then show ?thesis by (simp add: TrimSpace_def TrimLeftSpace.simps [of "[]"] TrimRightSpace.simps [of "[]"])
qed

lemmas trim_eval = TrimSpace_printable TrimSpace_Nil printable_def

text \<open>\<open>strings.Split\<close> with a one-byte separator.\<close>

fun Split :: "string \<Rightarrow> char \<Rightarrow> string list" where
  "Split [] c = [[]]"
| "Split (x # xs) c =
     (if x = c then [] # Split xs c
      else (case Split xs c of [] \<Rightarrow> [[x]] | p # ps \<Rightarrow> (x # p) # ps))"

lemma Split_nonempty [simp]: "Split s c \<noteq> []"
  by (induction s) (auto split: list.splits)

text \<open>\<open>strings.ToLower\<close> on ASCII letters; other bytes are kept.\<close>

definition to_lower_char :: "char \<Rightarrow> char" where
  "to_lower_char c =
     (let n = (of_char c :: nat) in if 65 \<le> n \<and> n \<le> 90 then char_of (n + 32) else c)"

text \<open>Decimal printing (\<open>%d\<close> on a non-negative number).\<close>

definition digit_char :: "int \<Rightarrow> char" where
  "digit_char d = ''0123456789'' ! nat d"

function show_uint :: "int \<Rightarrow> string" where
  "show_uint n = (if n < 10 then [digit_char n] else show_uint (n div 10) @ [digit_char (n mod 10)])"
  by pat_completeness auto
termination
  by (relation "measure nat") auto

declare show_uint.simps [simp del]

definition show_int :: "int \<Rightarrow> string" where
  "show_int n = (if n < 0 then CHR ''-'' # show_uint (- n) else show_uint n)"

text \<open>\<open>strconv.ParseUint(s, 10, 64)\<close>.\<close>

definition digit_value :: "char \<Rightarrow> int" where
  "digit_value c = int (of_char c) - 48"

definition is_digit :: "char \<Rightarrow> bool" where
  "is_digit c = (0 \<le> digit_value c \<and> digit_value c \<le> 9)"

definition digits_value :: "string \<Rightarrow> int" where
  "digits_value s = foldl (\<lambda>acc c. acc * 10 + digit_value c) 0 s"

definition ParseUint :: "string \<Rightarrow> int option" where
  "ParseUint s =
     (if s \<noteq> [] \<and> list_all is_digit s \<and> digits_value s < 2 ^ 64 then Some (digits_value s) else None)"

text \<open>Left padding with zeros to a minimal width (\<open>%06d\<close> and the layouts of package \<open>time\<close>).\<close>

definition pad_zero :: "nat \<Rightarrow> string \<Rightarrow> string" where
  "pad_zero w s = replicate (w - length s) (CHR ''0'') @ s"

text \<open>\<open>strings.TrimRight(s, "0")\<close>.\<close>

definition TrimRightChar :: "string \<Rightarrow> char \<Rightarrow> string" where
  "TrimRightChar s c = rev (dropWhile (\<lambda>x. x = c) (rev s))"

text \<open>\<open>%q\<close> on printable ASCII: double quotes, with quote and backslash escaped.\<close>

definition quoted :: "string \<Rightarrow> string" where
  "quoted s = CHR 34 # concat (map (\<lambda>c. if c = CHR 34 \<or> c = CHR 92 then [CHR 92, c] else [c]) s) @ [CHR 34]"

definition nonEmpty :: "string \<Rightarrow> string \<Rightarrow> string" where
  "nonEmpty val fallback = (if val \<noteq> [] then val else fallback)"

section \<open>Maps that are iterated\<close>

text \<open>
  A Go map the code ranges over is an association list with distinct keys. Reading is
  \<open>map_of\<close>, storing is \<open>AList.update\<close>, \<open>delete\<close> is \<open>AList.delete\<close>.
\<close>

definition keys_ok :: "('k \<times> 'v) list \<Rightarrow> bool" where
  "keys_ok m = distinct (map fst m)"

lemma keys_ok_Nil [simp]: "keys_ok []"
  by (simp add: keys_ok_def)

lemma keys_ok_update [simp]: "keys_ok m \<Longrightarrow> keys_ok (AList.update k v m)"
  unfolding keys_ok_def by (rule distinct_update)

lemma map_of_update [simp]: "map_of (AList.update k v m) = (map_of m)(k \<mapsto> v)"
  by (simp add: update_conv')

lemma update_nonmem: "k \<notin> set (map fst m) \<Longrightarrow> AList.update k v m = m @ [(k, v)]"
  by (induction m) auto

lemma keys_ok_map_snd [simp]: "keys_ok (map (\<lambda>(k, v). (k, f k v)) m) = keys_ok m"
  by (simp add: keys_ok_def comp_def case_prod_beta)

lemma map_of_map_snd: "map_of (map (\<lambda>(k, v). (k, f k v)) m) k = map_option (f k) (map_of m k)"
  by (induction m) auto

section \<open>Bounded logs\<close>

definition keep_last :: "nat \<Rightarrow> 'a list \<Rightarrow> 'a list" where
  "keep_last n xs = drop (length xs - n) xs"

lemma length_keep_last [simp]: "length (keep_last n xs) = min n (length xs)"
  by (simp add: keep_last_def)

lemma keep_last_short [simp]: "length xs \<le> n \<Longrightarrow> keep_last n xs = xs"
  by (simp add: keep_last_def)

lemma keep_last_append: "keep_last n (keep_last n xs @ ys) = keep_last n (xs @ ys)"
  by (cases "length xs \<le> n") (auto simp: keep_last_def add.commute)

lemma set_keep_last: "set (keep_last n xs) \<subseteq> set xs"
  by (simp add: keep_last_def set_drop_subset)

lemma keep_last_snoc_full: "length xs = n \<Longrightarrow> 0 < n \<Longrightarrow> keep_last n (xs @ [x]) = tl xs @ [x]"
  by (cases xs) (auto simp: keep_last_def)

text \<open>
  The contract of a bounded log: pushing an item appends its entry and keeps the last \<open>cap\<close>
  entries, oldest first; the capacity never changes. Several components of Syrogo implement it.
\<close>

locale bounded_log =
  fixes contents :: "'s \<Rightarrow> 'a list"
    and push :: "'i \<Rightarrow> 's \<Rightarrow> 's"
    and entry :: "'i \<Rightarrow> 'a"
    and cap :: "'s \<Rightarrow> nat"
    and wf :: "'s \<Rightarrow> bool"
  assumes contents_push: "wf s \<Longrightarrow> contents (push x s) = keep_last (cap s) (contents s @ [entry x])"
    and cap_push: "wf s \<Longrightarrow> cap (push x s) = cap s"
    and wf_push: "wf s \<Longrightarrow> wf (push x s)"
    and wf_length: "wf s \<Longrightarrow> length (contents s) \<le> cap s"
begin

lemma wf_push_all: "wf s \<Longrightarrow> wf (fold push xs s) \<and> cap (fold push xs s) = cap s"
  by (induction xs arbitrary: s) (auto simp: wf_push cap_push)

lemma contents_push_all:
  "wf s \<Longrightarrow> contents (fold push xs s) = keep_last (cap s) (contents s @ map entry xs)"
proof (induction xs arbitrary: s)
  case Nil
  then show ?case by (simp add: wf_length)
next
  case (Cons x xs)
  have "contents (fold push (x # xs) s) = keep_last (cap (push x s)) (contents (push x s) @ map entry xs)"
    using Cons.IH [OF wf_push [OF Cons.prems]] by simp
  also have "\<dots> = keep_last (cap s) (keep_last (cap s) (contents s @ [entry x]) @ map entry xs)"
    by (simp add: cap_push contents_push Cons.prems)
  also have "\<dots> = keep_last (cap s) (contents s @ map entry (x # xs))"
    by (simp add: keep_last_append)
  finally show ?case .
qed

lemma never_longer: "wf s \<Longrightarrow> length (contents (fold push xs s)) \<le> cap s"
  using wf_push_all [of s xs] wf_length [of "fold push xs s"] by simp

lemma newest_kept: "wf s \<Longrightarrow> 0 < cap s \<Longrightarrow> entry x \<in> set (contents (push x s))"
  by (simp add: contents_push keep_last_def drop_append)

end

section \<open>Machines with an invariant\<close>

locale invariant_machine =
  fixes step :: "'e \<Rightarrow> 's \<Rightarrow> 's"
    and ok :: "'s \<Rightarrow> bool"
  assumes step_ok: "ok s \<Longrightarrow> ok (step e s)"
begin

lemma run_ok: "ok s \<Longrightarrow> ok (fold step es s)"
  by (induction es arbitrary: s) (auto simp: step_ok)

end

text \<open>
  A component that keeps one state per key (a tracker's subjects, a store's sessions): an
  operation concerns one key, works on that key's part alone, and leaves the others as they
  are. Then a run over many keys, seen at one key, is the run of that key's operations.
\<close>

locale keyed_machine =
  fixes step :: "'e \<Rightarrow> 's \<Rightarrow> 's"
    and key_of :: "'e \<Rightarrow> 'k"
    and view :: "'k \<Rightarrow> 's \<Rightarrow> 'v"
    and local_step :: "'e \<Rightarrow> 'v \<Rightarrow> 'v"
  assumes other_key: "key_of e \<noteq> k \<Longrightarrow> view k (step e s) = view k s"
    and same_key: "view (key_of e) (step e s) = local_step e (view (key_of e) s)"
begin

lemma view_run:
  "view k (fold step es s) = fold local_step (filter (\<lambda>e. key_of e = k) es) (view k s)"
  by (induction es arbitrary: s) (auto simp: other_key same_key)

lemma run_other_keys: "(\<And>e. e \<in> set es \<Longrightarrow> key_of e \<noteq> k) \<Longrightarrow> view k (fold step es s) = view k s"
  by (induction es arbitrary: s) (auto simp: other_key)

end

text \<open>
  A lock on one key's state: only releasing operations undo it. Both admission gates of Syrogo
  (outbound health and outbound quota) hand out recovery probes this way.
\<close>

locale probe_lock = keyed_machine step key_of view local_step
  for step :: "'e \<Rightarrow> 's \<Rightarrow> 's" and key_of :: "'e \<Rightarrow> 'k"
    and view :: "'k \<Rightarrow> 's \<Rightarrow> 'v" and local_step :: "'e \<Rightarrow> 'v \<Rightarrow> 'v" +
  fixes locked :: "'v \<Rightarrow> bool"
    and releases :: "'e \<Rightarrow> bool"
  assumes lock_kept: "locked v \<Longrightarrow> \<not> releases e \<Longrightarrow> locked (local_step e v)"
begin

lemma locked_run:
  assumes "locked (view k s)" and "\<And>e. e \<in> set es \<Longrightarrow> key_of e = k \<Longrightarrow> \<not> releases e"
  shows "locked (view k (fold step es s))"
  using assms
proof (induction es arbitrary: s)
  case Nil
  then show ?case by simp
next
  case (Cons e es)
  have "locked (view k (step e s))"
  proof (cases "key_of e = k")
    case True
    then show ?thesis using Cons.prems lock_kept same_key [of e s] by auto
  next
    case False
    then show ?thesis using Cons.prems(1) by (simp add: other_key)
  qed
  then show ?case using Cons.IH Cons.prems(2) by simp
qed

end

section \<open>Ordered lists of timed items\<close>

lemma dropWhile_sorted_filter:
  fixes f :: "'a \<Rightarrow> 'b::linorder"
  assumes "sorted (map f xs)"
  shows "dropWhile (\<lambda>x. f x < c) xs = filter (\<lambda>x. \<not> f x < c) xs"
    and "dropWhile (\<lambda>x. f x \<le> c) xs = filter (\<lambda>x. \<not> f x \<le> c) xs"
  using assms by (induction xs) (auto simp: filter_empty_conv intro!: filter_True [symmetric])

lemma sorted_map_dropWhile: "sorted (map f xs) \<Longrightarrow> sorted (map f (dropWhile P xs))"
  by (metis sorted_wrt_append map_append takeWhile_dropWhile_id)

lemma sorted_map_snoc:
  "sorted (map f (xs @ [x])) \<longleftrightarrow> sorted (map f xs) \<and> (\<forall>y \<in> set xs. f y \<le> f x)"
  by (simp add: sorted_append)

end
