(* ===== verification/Go_Time.thy ===== *)
theory Go_Time
  imports Go_Prelude
begin

text \<open>
  Package \<open>time\<close> as Syrogo uses it. An instant is the number of nanoseconds since
  0001-01-01T00:00:00Z, so that the zero \<open>time.Time\<close> is \<open>0\<close>; \<open>Before\<close> and \<open>After\<close> are
  \<open><\<close> and \<open>>\<close>. A \<open>time.Duration\<close> is a number of nanoseconds. The proleptic Gregorian
  calendar, \<open>time.Date\<close>, \<open>AddDate\<close>, the layout \<open>RFC3339Nano\<close> and \<open>Duration.String\<close> are
  defined, time zones are given by their offset table (\<open>location\<close>).
\<close>

type_synonym gotime = int
type_synonym duration = int

abbreviation (input) zeroTime :: gotime where
  "zeroTime \<equiv> 0"

definition IsZero :: "gotime \<Rightarrow> bool" where
  "IsZero t = (t = zeroTime)"

text \<open>\<open>t.Sub(u)\<close> saturates at the extreme durations.\<close>

definition maxDuration :: duration where
  "maxDuration = 2 ^ 63 - 1"

definition minDuration :: duration where
  "minDuration = - (2 ^ 63)"

definition time_Sub :: "gotime \<Rightarrow> gotime \<Rightarrow> duration" where
  "time_Sub t u = max minDuration (min maxDuration (t - u))"

definition Nanosecond :: duration where "Nanosecond = 1"
definition Second :: duration where "Second = 1000000000"
definition Minute :: duration where "Minute = 60 * Second"
definition Hour :: duration where "Hour = 60 * Minute"

lemmas duration_defs = Nanosecond_def Second_def Minute_def Hour_def maxDuration_def minDuration_def

text \<open>\<open>Duration.Milliseconds\<close> truncates towards zero.\<close>

definition Milliseconds :: "duration \<Rightarrow> int" where
  "Milliseconds d = d sdiv 1000000"

lemma time_Sub_exact: "int64 (t - u) \<Longrightarrow> time_Sub t u = t - u"
  by (simp add: time_Sub_def int64_def duration_defs)

section \<open>The calendar\<close>

text \<open>Days are counted from 0001-01-01; internally from 0000-03-01, 306 days earlier.\<close>

definition days_from_civil :: "int \<Rightarrow> int \<Rightarrow> int \<Rightarrow> int" where
  "days_from_civil y m d =
     (let y' = (if m \<le> 2 then y - 1 else y);
          era = y' div 400;
          yoe = y' mod 400;
          mp = (m + 9) mod 12;
          doy = (153 * mp + 2) div 5 + d - 1
      in era * 146097 + (yoe * 365 + yoe div 4 - yoe div 100 + doy) - 306)"

definition civil_from_days :: "int \<Rightarrow> int \<times> int \<times> int" where
  "civil_from_days n =
     (let z = n + 306;
          era = z div 146097;
          doe = z mod 146097;
          c = min 3 (doe div 36524);
          doc = doe - c * 36524;
          q = doc div 1461;
          doq = doc mod 1461;
          a = min 3 (doq div 365);
          doy = doq - a * 365;
          yoe = 100 * c + 4 * q + a;
          mp = (5 * doy + 2) div 153;
          d = doy - (153 * mp + 2) div 5 + 1;
          m = (if mp < 10 then mp + 3 else mp - 9);
          y = yoe + era * 400
      in (if m \<le> 2 then y + 1 else y, m, d))"

lemma days_from_civil_day: "days_from_civil y m (d + k) = days_from_civil y m d + k"
  by (simp add: days_from_civil_def Let_def)

lemma month_index_roundtrip:
  fixes mp :: int
  assumes "0 \<le> mp" "mp \<le> 11"
  shows "((if mp < 10 then mp + 3 else mp - 9) + 9) mod 12 = mp"
    and "(if mp < 10 then mp + 3 else mp - 9) \<le> 2 \<longleftrightarrow> 10 \<le> mp"
  using assms by auto

lemma year_split:
  fixes c q a :: int
  assumes "0 \<le> c" "c \<le> 3" "0 \<le> q" "q \<le> 24" "0 \<le> a" "a \<le> 3"
  shows "(100 * c + 4 * q + a) div 4 = 25 * c + q" "(100 * c + 4 * q + a) div 100 = c"
    "(100 * c + 4 * q + a + era * 400) div 400 = era"
    "(100 * c + 4 * q + a + era * 400) mod 400 = 100 * c + 4 * q + a"
  using assms
  by (auto intro: int_div_pos_eq [where r = a] int_div_pos_eq [where r = "4 * q + a"]
      int_div_pos_eq [where r = "100 * c + 4 * q + a"])

lemma civil_parts:
  assumes "civil_from_days n = (y, m, d)"
  obtains era c q a doy mp where
    "0 \<le> c" "c \<le> 3" "0 \<le> q" "q \<le> 24" "0 \<le> a" "a \<le> 3" "0 \<le> doy" "doy \<le> 365" "0 \<le> mp" "mp \<le> 11"
    "n + 306 = era * 146097 + (c * 36524 + (q * 1461 + (a * 365 + doy)))"
    "mp = (5 * doy + 2) div 153"
    "doy = 365 \<Longrightarrow> a = 3" "doy = 365 \<Longrightarrow> q = 24 \<Longrightarrow> c = 3"
    "y = 100 * c + 4 * q + a + era * 400 + (if 10 \<le> mp then 1 else 0)"
    "m = (if mp < 10 then mp + 3 else mp - 9)" "d = doy - (153 * mp + 2) div 5 + 1"
proof -
  define z where "z = n + 306"
  define era where "era = z div 146097"
  define doe where "doe = z mod 146097"
  define c where "c = min 3 (doe div 36524)"
  define doc where "doc = doe - c * 36524"
  define q where "q = doc div 1461"
  define doq where "doq = doc mod 1461"
  define a where "a = min 3 (doq div 365)"
  define doy where "doy = doq - a * 365"
  define mp where "mp = (5 * doy + 2) div 153"
  define Y where "Y = 100 * c + 4 * q + a + era * 400"
  have doe: "0 \<le> doe" "doe < 146097" by (simp_all add: doe_def)
  have c: "0 \<le> c" "c \<le> 3" "0 \<le> doc" "doc \<le> 36524" using doe
    unfolding doc_def c_def by (auto simp: min_def)
  have c3: "c = 3" if "doc = 36524"
  proof (rule ccontr)
    assume "c \<noteq> 3"
    then have "c = doe div 36524" by (auto simp: c_def)
    then have "doc = doe mod 36524" by (simp add: doc_def minus_div_mult_eq_mod)
    then show False using that by simp
  qed
  from c have q: "0 \<le> q" "q \<le> 24" "0 \<le> doq" "doq \<le> 1460" "doc = q * 1461 + doq"
    unfolding q_def doq_def by auto
  then have a: "0 \<le> a" "a \<le> 3" "0 \<le> doy" "doy \<le> 365" "doy = 365 \<Longrightarrow> a = 3 \<and> doq = 1460"
    unfolding doy_def a_def by (auto simp: min_def split: if_splits)
  then have mp: "0 \<le> mp" "mp \<le> 11" unfolding mp_def by auto
  have "civil_from_days n =
      (if (if mp < 10 then mp + 3 else mp - 9) \<le> 2 then Y + 1 else Y,
       if mp < 10 then mp + 3 else mp - 9, doy - (153 * mp + 2) div 5 + 1)"
    unfolding civil_from_days_def Let_def z_def [symmetric] era_def [symmetric] doe_def [symmetric]
      c_def [symmetric] doc_def [symmetric] q_def [symmetric] doq_def [symmetric] a_def [symmetric]
      doy_def [symmetric] mp_def [symmetric] Y_def [symmetric]
    by (rule refl)
  then have ymd: "y = Y + (if 10 \<le> mp then 1 else 0)"
    "m = (if mp < 10 then mp + 3 else mp - 9)" "d = doy - (153 * mp + 2) div 5 + 1"
    using assms month_index_roundtrip(2) [OF mp] by simp_all
  have n: "n + 306 = era * 146097 + (c * 36524 + (q * 1461 + (a * 365 + doy)))"
  proof -
    have "z = era * 146097 + doe" by (simp add: era_def doe_def)
    also have "doe = c * 36524 + doc" by (simp add: doc_def)
    finally show ?thesis using q(5) by (simp add: doy_def z_def)
  qed
  show ?thesis
    by (rule that [OF c(1,2) q(1,2) a(1-4) mp n mp_def _ _ _ ymd(2,3)])
      (use a(5) q(5) c3 ymd(1) in \<open>auto simp: Y_def\<close>)
qed

lemma civil_roundtrip:
  assumes "civil_from_days n = (y, m, d)"
  shows "days_from_civil y m d = n"
  using assms
proof (cases rule: civil_parts)
  case (1 era c q a doy mp)
  have "(if m \<le> 2 then y - 1 else y) = 100 * c + 4 * q + a + era * 400" "(m + 9) mod 12 = mp"
    using month_index_roundtrip [OF 1(9,10)] by (simp_all add: 1(15,16))
  then show ?thesis
    using year_split [OF 1(1-6)] 1(11) by (simp add: days_from_civil_def Let_def 1(17))
qed

section \<open>Locations, \<open>time.Date\<close> and \<open>AddDate\<close>\<close>

text \<open>
  A location is its name and its zone table: \<open>loc_lookup s\<close> is the offset in force at second
  \<open>s\<close> and the half-open interval of seconds for which that entry is valid. The tables of the
  time zone database are data outside the repository, so a location is an argument of every
  definition that needs one. UTC is the location with offset 0.
\<close>

record location =
  loc_name :: string
  loc_lookup :: "int \<Rightarrow> int \<times> int \<times> int"

definition UTC :: location where
  "UTC = \<lparr>loc_name = ''UTC'', loc_lookup = (\<lambda>s. (0, minDuration, maxDuration))\<rparr>"

definition seconds_of :: "gotime \<Rightarrow> int" where
  "seconds_of t = t div Second"

definition nsec_of :: "gotime \<Rightarrow> int" where
  "nsec_of t = t mod Second"

text \<open>The wall clock at \<open>loc\<close>, in seconds since 0001-01-01T00:00:00 local time.\<close>

definition local_seconds :: "location \<Rightarrow> gotime \<Rightarrow> int" where
  "local_seconds loc t = seconds_of t + fst (loc_lookup loc (seconds_of t))"

definition local_date :: "location \<Rightarrow> gotime \<Rightarrow> int \<times> int \<times> int" where
  "local_date loc t = civil_from_days (local_seconds loc t div 86400)"

definition local_clock :: "location \<Rightarrow> gotime \<Rightarrow> int \<times> int \<times> int" where
  "local_clock loc t =
     (let s = local_seconds loc t mod 86400 in (s div 3600, s mod 3600 div 60, s mod 60))"

text \<open>Sunday is 0; 0001-01-01 was a Monday.\<close>

definition local_weekday :: "location \<Rightarrow> gotime \<Rightarrow> int" where
  "local_weekday loc t = (local_seconds loc t div 86400 + 1) mod 7"

definition time_Date ::
  "int \<Rightarrow> int \<Rightarrow> int \<Rightarrow> int \<Rightarrow> int \<Rightarrow> int \<Rightarrow> int \<Rightarrow> location \<Rightarrow> gotime" where
  "time_Date year month day hour mnt sec nsec loc =
     (let unix = days_from_civil year month day * 86400 + hour * 3600 + mnt * 60 + sec;
          (offset, start, finish) = loc_lookup loc unix;
          utc = unix - offset;
          off = (if offset = 0 then 0
                 else if utc < start \<or> finish \<le> utc then fst (loc_lookup loc utc)
                 else offset)
      in (unix - off) * Second + nsec)"

text \<open>\<open>t.AddDate(0, 0, n)\<close> for an instant in location \<open>loc\<close>.\<close>

definition add_days :: "location \<Rightarrow> gotime \<Rightarrow> int \<Rightarrow> gotime" where
  "add_days loc t n =
     (case local_date loc t of (y, m, d) \<Rightarrow>
      case local_clock loc t of (h, mi, s) \<Rightarrow> time_Date y m (d + n) h mi s (nsec_of t) loc)"

lemma seconds_nsec: "seconds_of t * Second + nsec_of t = t"
  by (simp add: seconds_of_def nsec_of_def)

lemma clock_split: "(s::int) mod 86400 div 3600 * 3600 + s mod 86400 mod 3600 div 60 * 60
    + s mod 86400 mod 60 = s mod 86400"
proof -
  have "s mod 86400 mod 60 = s mod 86400 mod 3600 mod 60"
    by (simp add: mod_mod_cancel)
  then show ?thesis
    by (metis (no_types, opaque_lifting) add.assoc div_mult_mod_eq)
qed

lemma local_seconds_UTC [simp]: "local_seconds UTC t = seconds_of t"
  by (simp add: local_seconds_def UTC_def)

lemma time_Date_UTC:
  "time_Date y m d h mi s ns UTC = (days_from_civil y m d * 86400 + h * 3600 + mi * 60 + s) * Second + ns"
  by (simp add: time_Date_def UTC_def Let_def)

text \<open>In UTC, the civil fields determine the instant, and a calendar day is 24 hours.\<close>

lemma add_days_UTC: "add_days UTC t n = t + n * (86400 * Second)"
proof -
  obtain y m d where ymd: "civil_from_days (seconds_of t div 86400) = (y, m, d)"
    by (cases "civil_from_days (seconds_of t div 86400)") auto
  let ?s = "seconds_of t mod 86400"
  have "add_days UTC t n =
      (days_from_civil y m d * 86400 + n * 86400 + (?s div 3600 * 3600 + ?s mod 3600 div 60 * 60
        + ?s mod 60)) * Second + nsec_of t"
    by (simp add: add_days_def local_date_def local_clock_def ymd time_Date_UTC Let_def
        days_from_civil_day algebra_simps)
  also have "\<dots> = (seconds_of t div 86400 * 86400 + ?s + n * 86400) * Second + nsec_of t"
    unfolding clock_split civil_roundtrip [OF ymd] by (simp add: algebra_simps)
  also have "\<dots> = seconds_of t * Second + nsec_of t + n * (86400 * Second)"
    by (simp add: algebra_simps)
  finally show ?thesis by (simp add: seconds_nsec)
qed

section \<open>\<open>Format(time.RFC3339Nano)\<close> and \<open>Duration.String\<close>\<close>

definition show_fixed :: "nat \<Rightarrow> int \<Rightarrow> string" where
  "show_fixed w n =
     (if n < 0 then CHR ''-'' # pad_zero w (show_uint (- n)) else pad_zero w (show_uint n))"

text \<open>A fraction of \<open>w\<close> digits with the trailing zeros removed, and no point for zero.\<close>

definition show_fraction :: "nat \<Rightarrow> int \<Rightarrow> string" where
  "show_fraction w n =
     (let s = TrimRightChar (pad_zero w (show_uint n)) (CHR ''0'')
      in if s = [] then [] else CHR ''.'' # s)"

definition format_RFC3339Nano :: "gotime \<Rightarrow> string" where
  "format_RFC3339Nano t =
     (case local_date UTC t of (y, m, d) \<Rightarrow>
      case local_clock UTC t of (h, mi, s) \<Rightarrow>
        show_fixed 4 y @ ''-'' @ show_fixed 2 m @ ''-'' @ show_fixed 2 d @ ''T''
        @ show_fixed 2 h @ '':'' @ show_fixed 2 mi @ '':'' @ show_fixed 2 s
        @ show_fraction 9 (nsec_of t) @ ''Z'')"

definition Duration_String :: "duration \<Rightarrow> string" where
  "Duration_String d =
     (let u = \<bar>d\<bar>;
          body =
            (if u = 0 then ''0s''
             else if u < 1000 then show_uint u @ ''ns''
             else if u < 1000000 then
               show_uint (u div 1000) @ show_fraction 3 (u mod 1000) @ bytes_of [194, 181] @ ''s''
             else if u < Second then
               show_uint (u div 1000000) @ show_fraction 6 (u mod 1000000) @ ''ms''
             else
               (let total = u div Second;
                    mins = total div 60;
                    secs = show_uint (total mod 60) @ show_fraction 9 (u mod Second) @ ''s''
                in if mins = 0 then secs
                   else if mins div 60 = 0 then show_uint mins @ ''m'' @ secs
                   else show_uint (mins div 60) @ ''h'' @ show_uint (mins mod 60) @ ''m'' @ secs))
      in if d < 0 then CHR ''-'' # body else body)"

text \<open>
  The formatting helper every package of Syrogo repeats: the zero time is the empty string
  (\<open>formatTime\<close>, \<open>formatHealthTime\<close>, \<open>formatRetryAfter\<close>).
\<close>

definition format_or_empty :: "gotime \<Rightarrow> string" where
  "format_or_empty t = (if IsZero t then [] else format_RFC3339Nano t)"

lemma format_RFC3339Nano_nonempty: "format_RFC3339Nano t \<noteq> []"
  by (simp add: format_RFC3339Nano_def split: prod.split)

lemma format_or_empty_Nil [simp]: "format_or_empty t = [] \<longleftrightarrow> IsZero t"
  by (simp add: format_or_empty_def format_RFC3339Nano_nonempty)

end
