(* ===== verification/Provider_Errors.thy ===== *)
theory Provider_Errors
  imports Go_Prelude
begin

text \<open>
  Package \<open>internal/provider\<close>, file \<open>errors.go\<close>: the kinds of upstream errors, the error
  chain, its normalisation, the fallback rule, and the response metadata copied into an error.
\<close>

datatype ErrorKind =
    ErrorKindUnknown
  | ErrorKindRetryable
  | ErrorKindTimeout
  | ErrorKindQuotaExceeded
  | ErrorKindUpstreamServerError
  | ErrorKindAuthFailed
  | ErrorKindCapabilityUnsupported
  | ErrorKindModelUnavailable
  | ErrorKindFatal

fun kind_string :: "ErrorKind \<Rightarrow> string" where
  "kind_string ErrorKindUnknown = ''unknown''"
| "kind_string ErrorKindRetryable = ''retryable''"
| "kind_string ErrorKindTimeout = ''timeout''"
| "kind_string ErrorKindQuotaExceeded = ''quota_exceeded''"
| "kind_string ErrorKindUpstreamServerError = ''upstream_server_error''"
| "kind_string ErrorKindAuthFailed = ''auth_failed''"
| "kind_string ErrorKindCapabilityUnsupported = ''capability_unsupported''"
| "kind_string ErrorKindModelUnavailable = ''model_unavailable''"
| "kind_string ErrorKindFatal = ''fatal''"

text \<open>
  A non-nil Go \<open>error\<close>: a message, an error that wraps another one (\<open>Unwrap\<close> may return
  nil), a \<open>net.Error\<close> with its \<open>Timeout\<close> flag, \<open>context.DeadlineExceeded\<close>, a
  \<open>*ProviderError\<close> (kind, \<open>Err\<close>, status code, request id, retry-after) or the nil pointer of
  that type. A nil \<open>error\<close> is \<open>None\<close> of \<open>go_error option\<close>.
\<close>

datatype go_error =
    PlainError string
  | WrapError string "go_error option"
  | NetError string bool "go_error option"
  | DeadlineExceeded
  | ProviderError ErrorKind "go_error option" int string string
  | NilProviderError

fun Error :: "go_error \<Rightarrow> string" where
  "Error (PlainError m) = m"
| "Error (WrapError m _) = m"
| "Error (NetError m _ _) = m"
| "Error DeadlineExceeded = ''context deadline exceeded''"
| "Error (ProviderError _ None _ _ _) = ''provider error''"
| "Error (ProviderError _ (Some e) _ _ _) = Error e"
| "Error NilProviderError = ''provider error''"

fun Unwrap :: "go_error \<Rightarrow> go_error option" where
  "Unwrap (WrapError _ e) = e"
| "Unwrap (NetError _ _ e) = e"
| "Unwrap (ProviderError _ e _ _ _) = e"
| "Unwrap _ = None"

definition NewRetryableError :: "go_error option \<Rightarrow> go_error" where
  "NewRetryableError e = ProviderError ErrorKindRetryable e 0 [] []"

definition NewTimeoutError :: "go_error option \<Rightarrow> go_error" where
  "NewTimeoutError e = ProviderError ErrorKindTimeout e 0 [] []"

definition NewQuotaExceededError :: "go_error option \<Rightarrow> go_error" where
  "NewQuotaExceededError e = ProviderError ErrorKindQuotaExceeded e 0 [] []"

definition NewUpstreamServerError :: "go_error option \<Rightarrow> go_error" where
  "NewUpstreamServerError e = ProviderError ErrorKindUpstreamServerError e 0 [] []"

definition NewAuthFailedError :: "go_error option \<Rightarrow> go_error" where
  "NewAuthFailedError e = ProviderError ErrorKindAuthFailed e 0 [] []"

definition NewCapabilityUnsupportedError :: "go_error option \<Rightarrow> go_error" where
  "NewCapabilityUnsupportedError e = ProviderError ErrorKindCapabilityUnsupported e 0 [] []"

definition NewModelUnavailableError :: "go_error option \<Rightarrow> go_error" where
  "NewModelUnavailableError e = ProviderError ErrorKindModelUnavailable e 0 [] []"

definition NewFatalError :: "go_error option \<Rightarrow> go_error" where
  "NewFatalError e = ProviderError ErrorKindFatal e 0 [] []"

lemmas new_error_defs = NewRetryableError_def NewTimeoutError_def NewQuotaExceededError_def
  NewUpstreamServerError_def NewAuthFailedError_def NewCapabilityUnsupportedError_def
  NewModelUnavailableError_def NewFatalError_def

text \<open>\<open>errors.Is(err, context.DeadlineExceeded)\<close> and \<open>errors.As(err, &netErr)\<close> walk the chain.\<close>

fun is_deadline :: "go_error \<Rightarrow> bool" where
  "is_deadline DeadlineExceeded = True"
| "is_deadline (WrapError _ (Some e)) = is_deadline e"
| "is_deadline (NetError _ _ (Some e)) = is_deadline e"
| "is_deadline (ProviderError _ (Some e) _ _ _) = is_deadline e"
| "is_deadline _ = False"

fun as_net_timeout :: "go_error \<Rightarrow> bool option" where
  "as_net_timeout DeadlineExceeded = Some True"
| "as_net_timeout (NetError _ b _) = Some b"
| "as_net_timeout (WrapError _ (Some e)) = as_net_timeout e"
| "as_net_timeout (ProviderError _ (Some e) _ _ _) = as_net_timeout e"
| "as_net_timeout _ = None"

definition NewTransientError :: "go_error option \<Rightarrow> go_error option" where
  "NewTransientError err =
     (case err of
        None \<Rightarrow> None
      | Some e \<Rightarrow>
          if is_deadline e then Some (NewTimeoutError err)
          else if as_net_timeout e = Some True then Some (NewTimeoutError err)
          else Some (NewRetryableError err))"

text \<open>\<open>AsProviderError\<close>: the first \<open>*ProviderError\<close> of the chain, possibly the nil pointer.\<close>

fun AsProviderError :: "go_error \<Rightarrow> go_error option" where
  "AsProviderError (ProviderError k e c r a) = Some (ProviderError k e c r a)"
| "AsProviderError NilProviderError = Some NilProviderError"
| "AsProviderError (WrapError _ (Some e)) = AsProviderError e"
| "AsProviderError (NetError _ _ (Some e)) = AsProviderError e"
| "AsProviderError _ = None"

definition NormalizeError :: "go_error option \<Rightarrow> ErrorKind" where
  "NormalizeError err =
     (case err of
        None \<Rightarrow> ErrorKindUnknown
      | Some e \<Rightarrow>
          (case AsProviderError e of
             Some (ProviderError k _ _ _ _) \<Rightarrow> k
           | _ \<Rightarrow> ErrorKindUnknown))"

fun isRecoverable :: "ErrorKind \<Rightarrow> bool" where
  "isRecoverable ErrorKindRetryable = True"
| "isRecoverable ErrorKindTimeout = True"
| "isRecoverable ErrorKindQuotaExceeded = True"
| "isRecoverable ErrorKindUpstreamServerError = True"
| "isRecoverable ErrorKindModelUnavailable = True"
| "isRecoverable _ = False"

text \<open>\<open>FallbackAllowed\<close> panics (\<open>None\<close>) on a condition it does not know.\<close>

definition FallbackAllowed :: "string \<Rightarrow> ErrorKind \<Rightarrow> bool \<Rightarrow> bool option" where
  "FallbackAllowed cond kind isLast =
     (if isLast then Some False
      else if cond = '''' \<or> cond = ''always'' then Some (isRecoverable kind)
      else if cond = ''retryable'' then Some (isRecoverable kind)
      else if cond = ''quota_exceeded'' then Some (kind = ErrorKindQuotaExceeded)
      else None)"

section \<open>Response metadata\<close>

record responseMetadata =
  md_StatusCode :: int
  md_RequestID :: string
  md_RetryAfter :: string

definition maxUpstreamMetadataLength :: nat where
  "maxUpstreamMetadataLength = 256"

definition has_line_break :: "string \<Rightarrow> bool" where
  "has_line_break s = (\<exists>c \<in> set s. c = CHR 13 \<or> c = CHR 10)"

definition safeMetadataValue :: "string \<Rightarrow> string" where
  "safeMetadataValue val =
     (let v = TrimSpace val
      in if v = [] \<or> maxUpstreamMetadataLength < length v \<or> has_line_break v then [] else v)"

text \<open>
  \<open>parseTime\<close> stands for \<open>http.ParseTime\<close> followed by \<open>UTC().Format(http.TimeFormat)\<close>: the
  normalised date, or \<open>None\<close> when the value is no HTTP date.
\<close>

definition safeRetryAfter :: "(string \<Rightarrow> string option) \<Rightarrow> string \<Rightarrow> string" where
  "safeRetryAfter parseTime val =
     (let v = safeMetadataValue val
      in if v = [] then []
         else (case ParseUint v of
                 Some n \<Rightarrow> show_uint n
               | None \<Rightarrow> (case parseTime v of Some s \<Rightarrow> s | None \<Rightarrow> [])))"

text \<open>A header is its \<open>Get\<close> function: the first value of a name, or the empty string.\<close>

fun firstSafeHeaderValue :: "(string \<Rightarrow> string) \<Rightarrow> string list \<Rightarrow> string" where
  "firstSafeHeaderValue header [] = []"
| "firstSafeHeaderValue header (n # ns) =
     (let v = safeMetadataValue (header n) in if v \<noteq> [] then v else firstSafeHeaderValue header ns)"

record http_response =
  hr_StatusCode :: int
  hr_Header :: "string \<Rightarrow> string"

definition extractResponseMetadata ::
  "(string \<Rightarrow> string option) \<Rightarrow> http_response option \<Rightarrow> responseMetadata" where
  "extractResponseMetadata parseTime resp =
     (case resp of
        None \<Rightarrow> \<lparr>md_StatusCode = 0, md_RequestID = [], md_RetryAfter = []\<rparr>
      | Some r \<Rightarrow>
          \<lparr>md_StatusCode = hr_StatusCode r,
           md_RequestID = firstSafeHeaderValue (hr_Header r) [''Request-Id'', ''X-Request-Id''],
           md_RetryAfter = safeRetryAfter parseTime (hr_Header r ''Retry-After'')\<rparr>)"

text \<open>The first \<open>*ProviderError\<close> of the chain is updated in place.\<close>

fun set_metadata :: "responseMetadata \<Rightarrow> go_error \<Rightarrow> go_error" where
  "set_metadata md (ProviderError k e c r a) =
     ProviderError k e (md_StatusCode md) (md_RequestID md) (md_RetryAfter md)"
| "set_metadata md (WrapError m (Some e)) = WrapError m (Some (set_metadata md e))"
| "set_metadata md (NetError m b (Some e)) = NetError m b (Some (set_metadata md e))"
| "set_metadata md e = e"

definition withResponseMetadata ::
  "(string \<Rightarrow> string option) \<Rightarrow> go_error option \<Rightarrow> http_response option \<Rightarrow> go_error option" where
  "withResponseMetadata parseTime err resp =
     (case err of
        None \<Rightarrow> None
      | Some e \<Rightarrow> Some (set_metadata (extractResponseMetadata parseTime resp) e))"

section \<open>Lemmas\<close>

lemma NormalizeError_None [simp]: "NormalizeError None = ErrorKindUnknown"
  by (simp add: NormalizeError_def)

lemma NormalizeError_ProviderError [simp]: "NormalizeError (Some (ProviderError k e c r a)) = k"
  by (simp add: NormalizeError_def)

lemma FallbackAllowed_last [simp]: "FallbackAllowed cond kind True = Some False"
  by (simp add: FallbackAllowed_def)

lemma FallbackAllowed_retryable [simp]:
  "FallbackAllowed ''retryable'' kind False = Some (isRecoverable kind)"
  by (simp add: FallbackAllowed_def)

lemma Error_ProviderError:
  "Error (ProviderError k e c r a) = (case e of None \<Rightarrow> ''provider error'' | Some e' \<Rightarrow> Error e')"
  by (cases e) simp_all

lemma Error_set_metadata: "Error (set_metadata md e) = Error e"
  by (induction md e rule: set_metadata.induct) (simp_all add: Error_ProviderError)

lemma AsProviderError_set_metadata:
  "NormalizeError (Some (set_metadata md e)) = NormalizeError (Some e)"
  by (induction md e rule: set_metadata.induct) (auto simp: NormalizeError_def)

lemma safeMetadataValue_safe:
  "length (safeMetadataValue v) \<le> 256" "\<not> has_line_break (safeMetadataValue v)"
  by (auto simp: safeMetadataValue_def Let_def maxUpstreamMetadataLength_def has_line_break_def)

lemma firstSafeHeaderValue_safe:
  "length (firstSafeHeaderValue h ns) \<le> 256 \<and> \<not> has_line_break (firstSafeHeaderValue h ns)"
  by (induction h ns rule: firstSafeHeaderValue.induct)
    (use safeMetadataValue_safe in \<open>auto simp: Let_def has_line_break_def\<close>)

end
