(* ===== verification/Provider_Health.thy ===== *)
theory Provider_Health
  imports Go_Time Provider_Errors
begin

text \<open>
  Package \<open>internal/provider\<close>, file \<open>health.go\<close>: the health tracker, a circuit breaker per
  outbound. Three consecutive recoverable failures degrade an outbound; a degraded outbound is
  probed by one request at a time, no earlier than the probe interval after the last failure.
  A nil \<open>*HealthTracker\<close> is \<open>None\<close>; the clock reading of a call is its argument \<open>now\<close>.
\<close>

definition DefaultHealthFailureThreshold :: int where
  "DefaultHealthFailureThreshold = 3"

definition DefaultHealthProbeInterval :: duration where
  "DefaultHealthProbeInterval = Minute"

record HealthDecision =
  hd_Allowed :: bool
  hd_Reason :: string
  hd_Probe :: bool
  hd_NextProbeAt :: gotime
  hd_RetryAfter :: gotime
  hd_FailureCount :: int

definition health_allow :: HealthDecision where
  "health_allow = \<lparr>hd_Allowed = True, hd_Reason = [], hd_Probe = False, hd_NextProbeAt = zeroTime,
     hd_RetryAfter = zeroTime, hd_FailureCount = 0\<rparr>"

text \<open>\<open>lastErrorKind\<close> is the empty string (\<open>None\<close>) when the last outcome was a success.\<close>

record healthState =
  hs_name :: string
  hs_lastSuccessAt :: gotime
  hs_lastFailureAt :: gotime
  hs_lastErrorKind :: "ErrorKind option"
  hs_consecutiveFailures :: int
  hs_nextProbeAt :: gotime
  hs_probeInFlight :: bool

record HealthTracker =
  ht_probeInterval :: duration
  ht_outbounds :: "(string \<times> healthState) list"

definition new_healthState :: "string \<Rightarrow> healthState" where
  "new_healthState n = \<lparr>hs_name = n, hs_lastSuccessAt = zeroTime, hs_lastFailureAt = zeroTime,
     hs_lastErrorKind = None, hs_consecutiveFailures = 0, hs_nextProbeAt = zeroTime,
     hs_probeInFlight = False\<rparr>"

definition newHealthTracker :: "string list \<Rightarrow> duration \<Rightarrow> HealthTracker option" where
  "newHealthTracker names probeInterval =
     (if names = [] then None
      else Some \<lparr>ht_probeInterval =
                   (if probeInterval \<le> 0 then DefaultHealthProbeInterval else probeInterval),
                 ht_outbounds = fold (\<lambda>n. AList.update n (new_healthState n)) names []\<rparr>)"

definition blockDecision :: "healthState \<Rightarrow> HealthDecision" where
  "blockDecision s = \<lparr>hd_Allowed = False, hd_Reason = ''degraded'', hd_Probe = False,
     hd_NextProbeAt = hs_nextProbeAt s, hd_RetryAfter = hs_nextProbeAt s,
     hd_FailureCount = hs_consecutiveFailures s\<rparr>"

text \<open>The part of \<open>BeforeAttempt\<close> that works on the state of the outbound.\<close>

definition health_before_state :: "gotime \<Rightarrow> healthState \<Rightarrow> HealthDecision \<times> healthState" where
  "health_before_state now s =
     (if hs_consecutiveFailures s < DefaultHealthFailureThreshold then (health_allow, s)
      else if hs_probeInFlight s then (blockDecision s, s)
      else if IsZero (hs_nextProbeAt s) \<or> \<not> now < hs_nextProbeAt s then
        (\<lparr>hd_Allowed = True, hd_Reason = ''probing'', hd_Probe = True,
          hd_NextProbeAt = hs_nextProbeAt s, hd_RetryAfter = zeroTime,
          hd_FailureCount = hs_consecutiveFailures s\<rparr>,
         s\<lparr>hs_probeInFlight := True\<rparr>)
      else (blockDecision s, s))"

definition health_BeforeAttempt ::
  "gotime \<Rightarrow> string \<Rightarrow> HealthTracker option \<Rightarrow> HealthDecision \<times> HealthTracker option" where
  "health_BeforeAttempt now outbound tracker =
     (case tracker of
        None \<Rightarrow> (health_allow, None)
      | Some t \<Rightarrow>
          (case map_of (ht_outbounds t) outbound of
             None \<Rightarrow> (health_allow, Some t)
           | Some s \<Rightarrow>
               (case health_before_state now s of (d, s') \<Rightarrow>
                  (d, Some (t\<lparr>ht_outbounds := AList.update outbound s' (ht_outbounds t)\<rparr>)))))"

definition health_success_state :: "gotime \<Rightarrow> healthState \<Rightarrow> healthState" where
  "health_success_state now s =
     s\<lparr>hs_lastSuccessAt := now, hs_lastErrorKind := None, hs_consecutiveFailures := 0,
       hs_nextProbeAt := zeroTime, hs_probeInFlight := False\<rparr>"

definition health_RecordSuccess ::
  "gotime \<Rightarrow> string \<Rightarrow> HealthTracker option \<Rightarrow> HealthTracker option" where
  "health_RecordSuccess now outbound tracker =
     (case tracker of
        None \<Rightarrow> None
      | Some t \<Rightarrow>
          (case map_of (ht_outbounds t) outbound of
             None \<Rightarrow> Some t
           | Some s \<Rightarrow>
               Some (t\<lparr>ht_outbounds :=
                 AList.update outbound (health_success_state now s) (ht_outbounds t)\<rparr>)))"

definition health_failure_state ::
  "duration \<Rightarrow> gotime \<Rightarrow> ErrorKind \<Rightarrow> healthState \<Rightarrow> healthState" where
  "health_failure_state interval now kind s =
     (let s' = s\<lparr>hs_lastFailureAt := now, hs_lastErrorKind := Some kind,
                 hs_consecutiveFailures := hs_consecutiveFailures s + 1,
                 hs_probeInFlight := False\<rparr>
      in if DefaultHealthFailureThreshold \<le> hs_consecutiveFailures s'
         then s'\<lparr>hs_nextProbeAt := hs_lastFailureAt s' + interval\<rparr> else s')"

definition health_RecordFailure ::
  "gotime \<Rightarrow> string \<Rightarrow> ErrorKind \<Rightarrow> HealthTracker option \<Rightarrow> HealthTracker option" where
  "health_RecordFailure now outbound kind tracker =
     (case tracker of
        None \<Rightarrow> None
      | Some t \<Rightarrow>
          if \<not> isRecoverable kind then Some t
          else
            (case map_of (ht_outbounds t) outbound of
               None \<Rightarrow> Some t
             | Some s \<Rightarrow>
                 Some (t\<lparr>ht_outbounds :=
                   AList.update outbound (health_failure_state (ht_probeInterval t) now kind s)
                     (ht_outbounds t)\<rparr>)))"

record HealthSnapshotItem =
  hsi_Outbound :: string
  hsi_State :: string
  hsi_LastSuccessAt :: string
  hsi_LastFailureAt :: string
  hsi_LastErrorKind :: string
  hsi_ConsecutiveFailures :: int
  hsi_NextProbeAt :: string

definition health_state_name :: "gotime \<Rightarrow> healthState \<Rightarrow> string" where
  "health_state_name now s =
     (if DefaultHealthFailureThreshold \<le> hs_consecutiveFailures s then
        (if hs_probeInFlight s \<or> IsZero (hs_nextProbeAt s) \<or> \<not> now < hs_nextProbeAt s
         then ''probing'' else ''degraded'')
      else if 0 < hs_consecutiveFailures s then ''degraded''
      else ''available'')"

definition health_snapshot_item :: "gotime \<Rightarrow> healthState \<Rightarrow> HealthSnapshotItem" where
  "health_snapshot_item now s =
     \<lparr>hsi_Outbound = hs_name s,
      hsi_State = health_state_name now s,
      hsi_LastSuccessAt = format_or_empty (hs_lastSuccessAt s),
      hsi_LastFailureAt = format_or_empty (hs_lastFailureAt s),
      hsi_LastErrorKind = (case hs_lastErrorKind s of None \<Rightarrow> [] | Some k \<Rightarrow> kind_string k),
      hsi_ConsecutiveFailures = hs_consecutiveFailures s,
      hsi_NextProbeAt = format_or_empty (hs_nextProbeAt s)\<rparr>"

text \<open>\<open>Snapshot\<close> reads the clock once per outbound: \<open>clock n\<close> is the reading for outbound \<open>n\<close>.\<close>

definition health_Snapshot ::
  "(string \<Rightarrow> gotime) \<Rightarrow> HealthTracker option \<Rightarrow> HealthSnapshotItem list" where
  "health_Snapshot clock tracker =
     (case tracker of
        None \<Rightarrow> []
      | Some t \<Rightarrow>
          sort_key hsi_Outbound (map (\<lambda>(n, s). health_snapshot_item (clock n) s) (ht_outbounds t)))"

section \<open>The tracker as a machine\<close>

datatype health_op =
    HBefore gotime string
  | HSuccess gotime string
  | HFailure gotime string ErrorKind

fun health_step :: "health_op \<Rightarrow> HealthTracker option \<Rightarrow> HealthTracker option" where
  "health_step (HBefore now n) t = snd (health_BeforeAttempt now n t)"
| "health_step (HSuccess now n) t = health_RecordSuccess now n t"
| "health_step (HFailure now n k) t = health_RecordFailure now n k t"

fun health_key :: "health_op \<Rightarrow> string" where
  "health_key (HBefore _ n) = n"
| "health_key (HSuccess _ n) = n"
| "health_key (HFailure _ n _) = n"

text \<open>What the tracker holds for one outbound: the probe interval and its state.\<close>

definition health_view :: "string \<Rightarrow> HealthTracker option \<Rightarrow> (duration \<times> healthState) option" where
  "health_view n tracker =
     (case tracker of
        None \<Rightarrow> None
      | Some t \<Rightarrow> map_option (\<lambda>s. (ht_probeInterval t, s)) (map_of (ht_outbounds t) n))"

fun health_local :: "health_op \<Rightarrow> duration \<times> healthState \<Rightarrow> duration \<times> healthState" where
  "health_local (HBefore now _) (i, s) = (i, snd (health_before_state now s))"
| "health_local (HSuccess now _) (i, s) = (i, health_success_state now s)"
| "health_local (HFailure now _ k) (i, s) =
     (i, if isRecoverable k then health_failure_state i now k s else s)"

lemmas health_op_defs = health_BeforeAttempt_def health_RecordSuccess_def health_RecordFailure_def

lemma health_view_other: "health_key e \<noteq> n \<Longrightarrow> health_view n (health_step e t) = health_view n t"
  by (cases e) (auto simp: health_view_def health_op_defs split: option.splits prod.splits)

lemma health_view_same:
  "health_view (health_key e) (health_step e t) =
     map_option (health_local e) (health_view (health_key e) t)"
  by (cases e) (auto simp: health_view_def health_op_defs split: option.splits prod.splits)

text \<open>An outbound whose probe is in flight stays blocked until an outcome releases it.\<close>

fun health_locked :: "(duration \<times> healthState) option \<Rightarrow> bool" where
  "health_locked None = False"
| "health_locked (Some (_, s)) =
     (DefaultHealthFailureThreshold \<le> hs_consecutiveFailures s \<and> hs_probeInFlight s)"

fun health_releases :: "health_op \<Rightarrow> bool" where
  "health_releases (HBefore _ _) = False"
| "health_releases (HSuccess _ _) = True"
| "health_releases (HFailure _ _ k) = isRecoverable k"

interpretation health: probe_lock health_step health_key health_view
  "\<lambda>e. map_option (health_local e)" health_locked health_releases
proof unfold_locales
  fix v e
  assume "health_locked v" "\<not> health_releases e"
  then show "health_locked (map_option (health_local e) v)"
    by (cases v rule: health_locked.cases; cases e) (auto simp: health_before_state_def)
qed (auto simp: health_view_other health_view_same)

lemma health_BeforeAttempt_view:
  "fst (health_BeforeAttempt now n t) =
     (case health_view n t of None \<Rightarrow> health_allow | Some (_, s) \<Rightarrow> fst (health_before_state now s))"
  by (auto simp: health_BeforeAttempt_def health_view_def split: option.splits prod.splits)

section \<open>The tracker against the history of outcomes\<close>

text \<open>
  The reference reading of the tracker: the recoverable failures an outbound has had since its
  last success, newest first, computed from the whole history of calls.
\<close>

fun is_success :: "health_op \<Rightarrow> bool" where
  "is_success (HSuccess _ _) = True"
| "is_success _ = False"

fun recoverable_failure :: "health_op \<Rightarrow> bool" where
  "recoverable_failure (HFailure _ _ k) = isRecoverable k"
| "recoverable_failure _ = False"

definition failures_since_success :: "string \<Rightarrow> health_op list \<Rightarrow> health_op list" where
  "failures_since_success n es =
     filter recoverable_failure
       (takeWhile (\<lambda>e. \<not> is_success e) (rev (filter (\<lambda>e. health_key e = n) es)))"

fun op_time :: "health_op \<Rightarrow> gotime" where
  "op_time (HBefore t _) = t"
| "op_time (HSuccess t _) = t"
| "op_time (HFailure t _ _) = t"

text \<open>What the state of an outbound holds of its history.\<close>

definition health_tracks :: "health_op list \<Rightarrow> healthState \<Rightarrow> duration \<Rightarrow> bool" where
  "health_tracks fs s i \<longleftrightarrow>
     hs_consecutiveFailures s = int (length fs) \<and>
     (fs \<noteq> [] \<longrightarrow> hs_lastFailureAt s = op_time (hd fs)) \<and>
     (DefaultHealthFailureThreshold \<le> hs_consecutiveFailures s \<longrightarrow>
        hs_nextProbeAt s = hs_lastFailureAt s + i)"

lemma failures_since_success_Nil [simp]: "failures_since_success n [] = []"
  by (simp add: failures_since_success_def)

lemma failures_since_success_snoc:
  "failures_since_success n (es @ [e]) =
     (if health_key e \<noteq> n then failures_since_success n es
      else if is_success e then []
      else if recoverable_failure e then e # failures_since_success n es
      else failures_since_success n es)"
  by (simp add: failures_since_success_def)

lemma health_tracks_local:
  assumes "health_tracks fs s i"
  shows "health_local e (i, s) = (i, s') \<Longrightarrow>
    health_tracks (if is_success e then [] else if recoverable_failure e then e # fs else fs) s' i"
  using assms
  by (cases e)
    (auto simp: health_tracks_def health_before_state_def health_success_state_def
      health_failure_state_def DefaultHealthFailureThreshold_def Let_def split: if_splits)

lemma health_local_interval: "\<exists>s'. health_local e (i, s) = (i, s')"
  by (cases e) auto

lemma newHealthTracker_view:
  assumes "newHealthTracker names iv = Some t" and "n \<in> set names"
  shows "health_view n (Some t) = Some (ht_probeInterval t, new_healthState n)"
proof -
  have "map_of (fold (\<lambda>n. AList.update n (new_healthState n)) names acc) n =
      (if n \<in> set names then Some (new_healthState n) else map_of acc n)" for names acc
    by (induction names arbitrary: acc) auto
  then show ?thesis using assms by (auto simp: newHealthTracker_def health_view_def split: if_splits)
qed

lemma health_run_tracks:
  assumes "newHealthTracker names iv = Some t" and "n \<in> set names"
  shows "\<exists>s. health_view n (fold health_step es (Some t)) = Some (ht_probeInterval t, s)
           \<and> health_tracks (failures_since_success n es) s (ht_probeInterval t)"
proof (induction es rule: rev_induct)
  case Nil
  then show ?case using newHealthTracker_view [OF assms]
    by (auto simp: health_tracks_def new_healthState_def DefaultHealthFailureThreshold_def)
next
  case (snoc e es)
  then obtain s where s: "health_view n (fold health_step es (Some t)) = Some (ht_probeInterval t, s)"
    "health_tracks (failures_since_success n es) s (ht_probeInterval t)" by blast
  show ?case
  proof (cases "health_key e = n")
    case True
    obtain s' where s': "health_local e (ht_probeInterval t, s) = (ht_probeInterval t, s')"
      using health_local_interval by blast
    then have "health_view n (fold health_step (es @ [e]) (Some t)) = Some (ht_probeInterval t, s')"
      using health.same_key [of e "fold health_step es (Some t)"] True s(1) by simp
    then show ?thesis using health_tracks_local [OF s(2) s'] True by (simp add: failures_since_success_snoc)
  next
    case False
    then show ?thesis using s by (simp add: failures_since_success_snoc health.other_key)
  qed
qed

lemma health_locked_blocks:
  assumes "health_locked (health_view n t)"
  shows "\<not> hd_Allowed (fst (health_BeforeAttempt now n t))"
  using assms
  by (cases "health_view n t" rule: health_locked.cases)
    (auto simp: health_BeforeAttempt_view health_before_state_def blockDecision_def)

lemma probe_locks:
  assumes "hd_Probe (fst (health_BeforeAttempt now n t))"
  shows "health_locked (health_view n (snd (health_BeforeAttempt now n t)))"
proof -
  obtain i s where v: "health_view n t = Some (i, s)" and p: "hd_Probe (fst (health_before_state now s))"
    using assms by (auto simp: health_BeforeAttempt_view health_allow_def split: option.splits)
  have "health_view n (snd (health_BeforeAttempt now n t)) = Some (i, snd (health_before_state now s))"
    using health.same_key [of "HBefore now n" t] v by simp
  then show ?thesis
    using p by (auto simp: health_before_state_def health_allow_def blockDecision_def split: if_splits)
qed

text \<open>The outbounds of a tracker never change, and each state carries the name of its key.\<close>

definition health_wf :: "string set \<Rightarrow> HealthTracker option \<Rightarrow> bool" where
  "health_wf N tracker \<longleftrightarrow>
     (case tracker of
        None \<Rightarrow> True
      | Some t \<Rightarrow> keys_ok (ht_outbounds t) \<and> set (map fst (ht_outbounds t)) = N
                  \<and> (\<forall>(n, s) \<in> set (ht_outbounds t). hs_name s = n))"

lemma health_state_name_kept:
  "hs_name (snd (health_before_state now s)) = hs_name s"
  "hs_name (health_success_state now s) = hs_name s"
  "hs_name (health_failure_state i now k s) = hs_name s"
  by (simp_all add: health_before_state_def health_success_state_def health_failure_state_def Let_def)

lemma set_update_subset: "set (AList.update k v m) \<subseteq> insert (k, v) (set m)"
  by (induction m) auto

lemma health_wf_update:
  assumes "health_wf N (Some t)" and "map_of (ht_outbounds t) n = Some s" and "hs_name s' = hs_name s"
  shows "health_wf N (Some (t\<lparr>ht_outbounds := AList.update n s' (ht_outbounds t)\<rparr>))"
proof -
  have "(n, s) \<in> set (ht_outbounds t)" using assms(2) by (rule map_of_SomeD)
  then have n: "n \<in> fst ` set (ht_outbounds t)" "hs_name s' = n"
    using assms(1,3) unfolding health_wf_def option.case by (metis fst_conv image_eqI, auto)
  have "\<forall>(k, x) \<in> set (AList.update n s' (ht_outbounds t)). hs_name x = k"
    using set_update_subset [of n s' "ht_outbounds t"] assms(1) n(2) by (fastforce simp: health_wf_def)
  moreover have "fst ` set (AList.update n s' (ht_outbounds t)) = fst ` set (ht_outbounds t)"
    using n(1) dom_update [of n s' "ht_outbounds t"] by auto
  ultimately show ?thesis using assms(1) by (simp add: health_wf_def)
qed

interpretation health_inv: invariant_machine health_step "health_wf N" for N
proof
  fix s e
  assume wf: "health_wf N s"
  show "health_wf N (health_step e s)"
  proof (cases s)
    case (Some t)
    note upd = health_wf_update [OF wf [unfolded Some]]
    have before: "hs_name s' = hs_name s" if "health_before_state now s = (d, s')" for now s d s'
      using health_state_name_kept(1) [of now s] that by simp
    show ?thesis
    proof (cases e)
      case (HBefore now n)
      then show ?thesis using Some wf by (auto simp: health_op_defs split: option.splits prod.splits intro!: upd dest: before)
    qed (use Some wf in \<open>auto simp: health_op_defs health_state_name_kept split: option.splits intro!: upd\<close>)
  qed (cases e; simp add: health_wf_def health_op_defs)
qed

lemma newHealthTracker_wf: "newHealthTracker names iv = Some t \<Longrightarrow> health_wf (set names) (Some t)"
proof -
  have "set (map fst (fold (\<lambda>n. AList.update n (new_healthState n)) ns acc)) = set (map fst acc) \<union> set ns
     \<and> (keys_ok acc \<longrightarrow> keys_ok (fold (\<lambda>n. AList.update n (new_healthState n)) ns acc))
     \<and> ((\<forall>(n, s) \<in> set acc. hs_name s = n) \<longrightarrow>
         (\<forall>(n, s) \<in> set (fold (\<lambda>n. AList.update n (new_healthState n)) ns acc). hs_name s = n))" for ns acc
  proof (induction ns arbitrary: acc)
    case (Cons n ns)
    show ?case using Cons.IH [of "AList.update n (new_healthState n) acc"]
        set_update_subset [of n "new_healthState n" acc]
      by (auto simp: dom_update new_healthState_def)
  qed simp
  from this [of names "[]"] show "newHealthTracker names iv = Some t \<Longrightarrow> health_wf (set names) (Some t)"
    by (simp add: newHealthTracker_def health_wf_def split: if_splits) force+
qed

lemma health_run_Some: "\<exists>t'. fold health_step es (Some t) = Some t'"
proof (induction es arbitrary: t)
  case (Cons e es)
  have "\<exists>t'. health_step e (Some t) = Some t'"
    by (cases e) (auto simp: health_op_defs split: option.splits prod.splits)
  then show ?case using Cons.IH by auto
qed simp

section \<open>Properties\<close>

text \<open>C11: Health decisions are a function of the recorded history. For an outbound the tracker knows, as long as
  fewer than three recoverable failures were recorded since its last success, every attempt is
  admitted as healthy, whatever else was recorded and at whatever time.\<close>

theorem health_admission_follows_history:
  assumes "newHealthTracker names iv = Some t" and "n \<in> set names"
    and "length (failures_since_success n es) < 3"
  shows "fst (health_BeforeAttempt now n (fold health_step es (Some t))) = health_allow"
proof -
  obtain s where "health_view n (fold health_step es (Some t)) = Some (ht_probeInterval t, s)"
    "health_tracks (failures_since_success n es) s (ht_probeInterval t)"
    using health_run_tracks [OF assms(1,2)] by blast
  then show ?thesis using assms(3)
    by (simp add: health_BeforeAttempt_view health_before_state_def health_tracks_def
        DefaultHealthFailureThreshold_def)
qed

theorem health_admission_follows_history_witness:
  "fst (health_BeforeAttempt 9 ''a''
     (fold health_step [HFailure 1 ''a'' ErrorKindRetryable, HFailure 2 ''a'' ErrorKindRetryable,
        HSuccess 3 ''a'', HFailure 4 ''a'' ErrorKindRetryable] (newHealthTracker [''a''] 10))) = health_allow"
  (is "fst (health_BeforeAttempt 9 ''a'' (fold health_step ?es _)) = _")
proof -
  obtain t where "newHealthTracker [''a''] 10 = Some t" by (simp add: newHealthTracker_def)
  moreover have "length (failures_since_success ''a'' ?es) < 3" by code_simp
  ultimately show ?thesis using health_admission_follows_history [of "[''a'']" 10 t "''a''" ?es 9] by simp
qed

text \<open>Once three recoverable failures have been recorded since the last success, an attempt is admitted
  exactly when the probe interval has passed since the last of them; events on other outbounds do
  not matter.\<close>

theorem health_probe_after_interval:
  assumes "newHealthTracker names iv = Some t" and "n \<in> set names"
    and "3 \<le> length (failures_since_success n (es @ [HFailure tf n k]))" and "isRecoverable k"
    and "\<forall>e \<in> set es'. health_key e \<noteq> n" and "0 \<le> now"
  shows "hd_Allowed (fst (health_BeforeAttempt now n (fold health_step (es @ [HFailure tf n k] @ es') (Some t))))
     \<longleftrightarrow> tf + ht_probeInterval t \<le> now"
proof -
  let ?t = "fold health_step es (Some t)"
  obtain s where s: "health_view n ?t = Some (ht_probeInterval t, s)"
    "health_tracks (failures_since_success n es) s (ht_probeInterval t)"
    using health_run_tracks [OF assms(1,2)] by blast
  let ?s = "health_failure_state (ht_probeInterval t) tf k s"
  have "health_view n (health_step (HFailure tf n k) ?t) = Some (ht_probeInterval t, ?s)"
    using health.same_key [of "HFailure tf n k" ?t] s(1) assms(4) by simp
  then have v: "health_view n (fold health_step (es @ [HFailure tf n k] @ es') (Some t)) = Some (ht_probeInterval t, ?s)"
    using health.run_other_keys [of es' n] assms(5) by simp
  show ?thesis using s(2) assms(3,4,6) unfolding health_BeforeAttempt_view v
    by (auto simp: health_before_state_def health_tracks_def health_failure_state_def blockDecision_def
        DefaultHealthFailureThreshold_def failures_since_success_snoc Let_def IsZero_def)
qed

theorem health_probe_after_interval_witness:
  "let t = fold health_step (replicate 3 (HFailure 5 ''a'' ErrorKindRetryable)) (newHealthTracker [''a''] 10)
   in hd_Allowed (fst (health_BeforeAttempt 15 ''a'' t)) \<and> \<not> hd_Allowed (fst (health_BeforeAttempt 14 ''a'' t))"
proof -
  let ?f = "HFailure 5 ''a'' ErrorKindRetryable"
  obtain t where t: "newHealthTracker [''a''] 10 = Some t" "ht_probeInterval t = 10"
    by (simp add: newHealthTracker_def)
  have "3 \<le> length (failures_since_success ''a'' ([?f, ?f] @ [?f]))" "isRecoverable ErrorKindRetryable"
    by code_simp+
  note P = health_probe_after_interval [OF t(1) _ this, of "[]"]
  show ?thesis using P [of 15] P [of 14] t by (simp add: numeral_3_eq_3)
qed

text \<open>C12: After an attempt was admitted as a probe, every further attempt on that outbound is denied until a success or a
  recoverable failure of the outbound is recorded, of whichever attempt: an outcome of an attempt that was admitted before the probe
  ends the wait, too.\<close>

theorem health_single_probe:
  assumes "hd_Probe (fst (health_BeforeAttempt now n t))"
    and "\<forall>e \<in> set es. health_key e = n \<longrightarrow> \<not> health_releases e"
  shows "\<not> hd_Allowed (fst (health_BeforeAttempt later n
           (fold health_step es (snd (health_BeforeAttempt now n t)))))"
  using assms health.locked_run [OF probe_locks [OF assms(1)]] by (intro health_locked_blocks) auto

definition sample_degraded :: "HealthTracker option" where
  "sample_degraded =
     fold health_step (replicate 3 (HFailure 5 ''a'' ErrorKindRetryable)) (newHealthTracker [''a'', ''b''] 10)"

theorem health_single_probe_witness:
  "\<not> hd_Allowed (fst (health_BeforeAttempt 30 ''a''
      (fold health_step [HBefore 20 ''a'', HSuccess 21 ''b''] (snd (health_BeforeAttempt 15 ''a'' sample_degraded)))))"
  by (rule health_single_probe) code_simp+

text \<open>A recorded outcome is not tied to its attempt: when an attempt that was admitted before the outbound degraded fails while a probe is
  under way, another probe is admitted after the interval.\<close>

theorem older_failure_frees_probe:
  "hd_Probe (fst (health_BeforeAttempt 15 ''a'' sample_degraded)) \<and>
   hd_Probe (fst (health_BeforeAttempt 26 ''a''
     (fold health_step [HFailure 16 ''a'' ErrorKindRetryable] (snd (health_BeforeAttempt 15 ''a'' sample_degraded)))))"
  by code_simp

text \<open>A probe that ends in a failure of a non-recoverable kind is never given back: RecordFailure returns
  before it clears the flag, and all later attempts on the outbound are denied, at every later time,
  until some success or recoverable failure of it is recorded, which no attempt can produce.\<close>

theorem health_probe_stuck:
  assumes "hd_Probe (fst (health_BeforeAttempt now n t))" and "\<not> isRecoverable k"
    and "\<forall>e \<in> set es. health_key e = n \<longrightarrow> \<not> is_success e \<and> \<not> recoverable_failure e"
  shows "\<not> hd_Allowed (fst (health_BeforeAttempt later n
           (fold health_step (HFailure done n k # es) (snd (health_BeforeAttempt now n t)))))"
proof -
  have "\<not> health_releases e" if "\<not> is_success e" "\<not> recoverable_failure e" for e
    using that by (cases e) auto
  then have "\<forall>e \<in> set (HFailure done n k # es). health_key e = n \<longrightarrow> \<not> health_releases e"
    using assms(2,3) by auto
  then show ?thesis
    by (intro health_locked_blocks health.locked_run [OF probe_locks [OF assms(1)]]) blast
qed

theorem health_probe_stuck_witness:
  "\<not> hd_Allowed (fst (health_BeforeAttempt 1000000 ''a''
      (fold health_step [HFailure 16 ''a'' ErrorKindFatal] (snd (health_BeforeAttempt 15 ''a'' sample_degraded)))))"
  by (rule health_probe_stuck) code_simp+

text \<open>The health snapshot lists every outbound the tracker was built with exactly once and in the order
  of the names, whatever calls were made before.\<close>

theorem health_Snapshot_items:
  assumes "newHealthTracker names iv = Some t"
  shows "map hsi_Outbound (health_Snapshot clock (fold health_step es (Some t))) = sorted_list_of_set (set names)"
proof -
  obtain t' where t': "fold health_step es (Some t) = Some t'" and wf: "health_wf (set names) (Some t')"
    using health_inv.run_ok [OF newHealthTracker_wf [OF assms], of es] health_run_Some by metis
  let ?xs = "map (\<lambda>(n, s). health_snapshot_item (clock n) s) (ht_outbounds t')"
  have "map hsi_Outbound ?xs = map fst (ht_outbounds t')"
    using wf by (auto simp: health_wf_def health_snapshot_item_def)
  then have "distinct (map hsi_Outbound ?xs)" "set (map hsi_Outbound ?xs) = set names"
    using wf by (simp_all only: health_wf_def keys_ok_def option.case simp_thms)
  moreover have "distinct (map hsi_Outbound (sort_key hsi_Outbound ?xs))"
    using \<open>distinct (map hsi_Outbound ?xs)\<close> by (simp only: distinct_map [of hsi_Outbound] distinct_sort set_sort)
  ultimately show ?thesis
    unfolding t' health_Snapshot_def option.case
    by (intro sorted_distinct_set_unique) (simp_all only: sorted_sort_key set_map set_sort sorted_sorted_list_of_set
        distinct_sorted_list_of_set set_sorted_list_of_set finite_set)
qed

theorem health_Snapshot_items_witness:
  "map hsi_Outbound (health_Snapshot (\<lambda>_. 7) (newHealthTracker [''b'', ''a'', ''b''] 10)) = [''a'', ''b'']"
proof -
  obtain t where t: "newHealthTracker [''b'', ''a'', ''b''] 10 = Some t" by (simp add: newHealthTracker_def)
  have "sorted_list_of_set (set [''b'', ''a'', ''b'']) = [''a'', ''b'']"
    unfolding sorted_list_of_set_sort_remdups by code_simp
  then show ?thesis using health_Snapshot_items [OF t, of "\<lambda>_. 7" "[]"] t by simp
qed

end
