(* ===== verification/Go_Parse.thy ===== *)
theory Go_Parse
  imports Go_Time "HOL-Library.Monad_Syntax" Complex_Main
begin

text \<open>
  What Syrogo reads back from text with the standard library: \<open>time.Parse\<close> with the layouts
  \<open>RFC3339\<close>, \<open>RFC3339Nano\<close>, \<open>15:04\<close> and \<open>15:04:05\<close>, \<open>time.ParseDuration\<close> and
  \<open>strings.EqualFold\<close>; and that parsing a formatted instant gives the instant back.
\<close>

section \<open>Case folding\<close>

text \<open>
  \<open>strings.EqualFold(s, t)\<close> for an ASCII \<open>t\<close>: besides the ASCII letters, simple folding maps the
  long s (U+017F) to \<open>s\<close> and the Kelvin sign (U+212A) to \<open>k\<close>.
\<close>

definition lower_byte :: "nat \<Rightarrow> nat" where
  "lower_byte c = (if 65 \<le> c \<and> c \<le> 90 then c + 32 else c)"

fun fold_case :: "nat list \<Rightarrow> nat list" where
  "fold_case [] = []"
| "fold_case [a] = [lower_byte a]"
| "fold_case [a, b] = (if a = 197 \<and> b = 191 then [115] else lower_byte a # fold_case [b])"
| "fold_case (a # b # c # s) =
     (if a = 197 \<and> b = 191 then 115 # fold_case (c # s)
      else if a = 226 \<and> b = 132 \<and> c = 170 then 107 # fold_case s
      else lower_byte a # fold_case (b # c # s))"

definition EqualFold :: "string \<Rightarrow> string \<Rightarrow> bool" where
  "EqualFold s t = (fold_case (map of_char s) = fold_case (map of_char t))"

definition weekday_names :: "string list" where
  "weekday_names = [''Sunday'', ''Monday'', ''Tuesday'', ''Wednesday'', ''Thursday'', ''Friday'', ''Saturday'']"

definition weekday_String :: "int \<Rightarrow> string" where
  "weekday_String d =
     (if 0 \<le> d \<and> d \<le> 6 then weekday_names ! nat d else ''%!Weekday('' @ show_int d @ '')'')"

section \<open>\<open>time.Parse\<close>\<close>

text \<open>\<open>getnum\<close>: one or two digits, exactly two when \<open>fixed\<close>.\<close>

fun getnum :: "bool \<Rightarrow> string \<Rightarrow> (int \<times> string) option" where
  "getnum fixed [] = None"
| "getnum fixed [c] = (if is_digit c \<and> \<not> fixed then Some (digit_value c, []) else None)"
| "getnum fixed (c # d # s) =
     (if \<not> is_digit c then None
      else if \<not> is_digit d then (if fixed then None else Some (digit_value c, d # s))
      else Some (digit_value c * 10 + digit_value d, s))"

fun skip_char :: "char \<Rightarrow> string \<Rightarrow> string option" where
  "skip_char c [] = None"
| "skip_char c (x # s) = (if x = c then Some s else None)"

definition guard_opt :: "bool \<Rightarrow> unit option" where
  "guard_opt b = (if b then Some () else None)"

definition parse_year :: "string \<Rightarrow> (int \<times> string) option" where
  "parse_year s =
     (if 4 \<le> length s \<and> list_all is_digit (take 4 s) then Some (digits_value (take 4 s), drop 4 s) else None)"

text \<open>A fraction of a second is read after the seconds whether or not the layout has one.\<close>

definition parse_fraction :: "string \<Rightarrow> int \<times> string" where
  "parse_fraction s =
     (case s of
        c # d # r \<Rightarrow>
          if (c = CHR ''.'' \<or> c = CHR '','') \<and> is_digit d then
            (let ds = takeWhile is_digit (d # r); ds9 = take 9 ds
             in (digits_value ds9 * 10 ^ (9 - length ds9), dropWhile is_digit (d # r)))
          else (0, s)
      | _ \<Rightarrow> (0, s))"

definition parse_zone :: "string \<Rightarrow> (int \<times> string) option" where
  "parse_zone s =
     (if s \<noteq> [] \<and> hd s = CHR ''Z'' then Some (0, tl s)
      else if length s < 6 \<or> s ! 3 \<noteq> CHR '':'' then None
      else do {
        (hr, _) \<leftarrow> getnum True (take 2 (drop 1 s));
        (mm, _) \<leftarrow> getnum True (take 2 (drop 4 s));
        guard_opt (hr \<le> 24 \<and> mm \<le> 60);
        guard_opt (s ! 0 = CHR ''+'' \<or> s ! 0 = CHR ''-'');
        Some ((if s ! 0 = CHR ''+'' then 1 else -1) * ((hr * 60 + mm) * 60), drop 6 s)
      })"

definition is_leap :: "int \<Rightarrow> bool" where
  "is_leap y = (4 dvd y \<and> (\<not> 100 dvd y \<or> 400 dvd y))"

definition daysIn :: "int \<Rightarrow> int \<Rightarrow> int" where
  "daysIn m y =
     (if m = 2 then (if is_leap y then 29 else 28)
      else if m = 4 \<or> m = 6 \<or> m = 9 \<or> m = 11 then 30 else 31)"

definition parse_clock_fields :: "bool \<Rightarrow> string \<Rightarrow> ((int \<times> int \<times> int \<times> int) \<times> string) option" where
  "parse_clock_fields seconds s = do {
     (h, s) \<leftarrow> getnum False s;
     guard_opt (h < 24);
     s \<leftarrow> skip_char (CHR '':'') s;
     (mi, s) \<leftarrow> getnum True s;
     guard_opt (mi < 60);
     if \<not> seconds then Some ((h, mi, 0, 0), s)
     else do {
       s \<leftarrow> skip_char (CHR '':'') s;
       (sec, s) \<leftarrow> getnum True s;
       guard_opt (sec < 60);
       (case parse_fraction s of (ns, s) \<Rightarrow> Some ((h, mi, sec, ns), s))
     }
   }"

text \<open>\<open>time.Parse\<close> with the layouts \<open>RFC3339\<close> and \<open>RFC3339Nano\<close> (they accept the same strings).\<close>

definition parse_RFC3339 :: "string \<Rightarrow> gotime option" where
  "parse_RFC3339 s = do {
     (y, s) \<leftarrow> parse_year s;
     s \<leftarrow> skip_char (CHR ''-'') s;
     (m, s) \<leftarrow> getnum True s;
     guard_opt (1 \<le> m \<and> m \<le> 12);
     s \<leftarrow> skip_char (CHR ''-'') s;
     (d, s) \<leftarrow> getnum True s;
     s \<leftarrow> skip_char (CHR ''T'') s;
     ((h, mi, sec, ns), s) \<leftarrow> parse_clock_fields True s;
     (offset, s) \<leftarrow> parse_zone s;
     guard_opt (s = []);
     guard_opt (1 \<le> d \<and> d \<le> daysIn m y);
     Some (time_Date y m d h mi sec ns UTC - offset * Second)
   }"

text \<open>\<open>time.Parse\<close> with the layouts \<open>15:04\<close> and \<open>15:04:05\<close>: hour, minute and second.\<close>

definition parse_clock :: "bool \<Rightarrow> string \<Rightarrow> (int \<times> int \<times> int) option" where
  "parse_clock seconds s = do {
     ((h, mi, sec, _), s) \<leftarrow> parse_clock_fields seconds s;
     guard_opt (s = []);
     Some (h, mi, sec)
   }"

section \<open>\<open>time.ParseDuration\<close>\<close>

definition duration_units :: "(string \<times> int) list" where
  "duration_units = [(''ns'', 1), (''us'', 1000), (bytes_of [194, 181] @ ''s'', 1000),
     (bytes_of [206, 188] @ ''s'', 1000), (''ms'', 1000000), (''s'', Second), (''m'', Minute), (''h'', Hour)]"

text \<open>\<open>leadingFraction\<close> stops accumulating once the number would overflow.\<close>

fun leading_fraction :: "string \<Rightarrow> int \<times> int \<Rightarrow> int \<times> int" where
  "leading_fraction [] (x, scale) = (x, scale)"
| "leading_fraction (c # s) (x, scale) =
     (if (2 ^ 63 - 1) div 10 < x \<or> 2 ^ 63 < x * 10 + digit_value c then (x, scale)
      else leading_fraction s (x * 10 + digit_value c, scale * 10))"

definition unit_char :: "char \<Rightarrow> bool" where
  "unit_char c = (c \<noteq> CHR ''.'' \<and> \<not> is_digit c)"

text \<open>
  The loop: one group of number and unit per iteration. \<open>rnd\<close> is the rounding of a float64
  operation; the conversion to \<open>uint64\<close> truncates.
\<close>

function duration_groups :: "(rat \<Rightarrow> rat) \<Rightarrow> string \<Rightarrow> int \<Rightarrow> int option" where
  "duration_groups rnd s d =
     (if s = [] then Some d
      else if \<not> (hd s = CHR ''.'' \<or> is_digit (hd s)) then None
      else
        (let ds = takeWhile is_digit s;
             v = digits_value ds;
             s1 = dropWhile is_digit s;
             point = (s1 \<noteq> [] \<and> hd s1 = CHR ''.'');
             fs = (if point then takeWhile is_digit (tl s1) else []);
             s2 = (if point then dropWhile is_digit (tl s1) else s1);
             (f, scale) = leading_fraction fs (0, 1);
             u = takeWhile unit_char s2;
             s3 = dropWhile unit_char s2
         in if 2 ^ 63 < v then None
            else if ds = [] \<and> fs = [] then None
            else if u = [] then None
            else (case map_of duration_units u of
                    None \<Rightarrow> None
                  | Some m \<Rightarrow>
                      if 2 ^ 63 div m < v then None
                      else
                        (let v1 = (if 0 < f
                                   then v * m + \<lfloor>rnd (rat_of_int f * rnd (rat_of_int m / rat_of_int scale))\<rfloor>
                                   else v * m);
                             d1 = (d + v1) mod 2 ^ 64
                         in if 2 ^ 63 < v1 then None
                            else if 2 ^ 63 < d1 then None
                            else duration_groups rnd s3 d1))))"
  by pat_completeness auto
termination
proof (relation "measure (\<lambda>(_, s, _). length s)", simp, goal_cases)
  case (1 rnd s d ds v s1 point fs s2 fscale f scale u s3 m v1 d1)
  have s: "s1 = dropWhile is_digit s" "s2 = (if point then dropWhile is_digit (tl s1) else s1)"
    "u = takeWhile unit_char s2" "s3 = dropWhile unit_char s2"
    using 1 by (simp_all add: Let_def)
  have "length s2 \<le> length s1" "length s1 \<le> length s"
    using length_dropWhile_le [of is_digit "tl s1"] by (auto simp: s length_dropWhile_le)
  moreover have "length s2 = length u + length s3"
    unfolding s(3,4) by (metis length_append takeWhile_dropWhile_id)
  moreover have "u \<noteq> []" using 1 by blast
  ultimately show ?case by (cases u) simp_all
qed

declare duration_groups.simps [simp del]

definition ParseDuration :: "(rat \<Rightarrow> rat) \<Rightarrow> string \<Rightarrow> duration option" where
  "ParseDuration rnd s =
     (let neg = (s \<noteq> [] \<and> hd s = CHR ''-'');
          s' = (if s \<noteq> [] \<and> (hd s = CHR ''-'' \<or> hd s = CHR ''+'') then tl s else s)
      in if s' = ''0'' then Some 0
         else if s' = [] then None
         else (case duration_groups rnd s' 0 of
                 None \<Rightarrow> None
               | Some d \<Rightarrow>
                   if neg then Some (wrap64 (- wrap64 d))
                   else if 2 ^ 63 - 1 < d then None else Some d))"

section \<open>Printing and parsing instants\<close>

lemma digit_char_digit: "0 \<le> d \<Longrightarrow> d \<le> 9 \<Longrightarrow> is_digit (digit_char d) \<and> digit_value (digit_char d) = d"
proof -
  assume "0 \<le> d" "d \<le> 9"
  then have "d \<in> {0, 1, 2, 3, 4, 5, 6, 7, 8, 9}" by (simp, arith)
  then show ?thesis by (auto simp: digit_char_def is_digit_def digit_value_def numeral_eq_Suc)
qed

lemma digits_value_append:
  "digits_value (a @ b) = digits_value a * 10 ^ length b + digits_value b"
proof (induction b rule: rev_induct)
  case (snoc c b)
  have "digits_value (a @ b @ [c]) = digits_value (a @ b) * 10 + digit_value c"
    "digits_value (b @ [c]) = digits_value b * 10 + digit_value c"
    by (simp_all add: digits_value_def)
  then show ?case using snoc by (simp add: algebra_simps)
qed (simp add: digits_value_def)

lemma digits_value_Nil [simp]: "digits_value [] = 0"
  by (simp add: digits_value_def)

lemma digits_value_single [simp]: "digits_value [c] = digit_value c"
  by (simp add: digits_value_def)

lemma digits_value_zeros [simp]: "digits_value (replicate k (CHR ''0'')) = 0"
proof (induction k)
  case (Suc k)
  then show ?case using digits_value_append [of "[CHR ''0'']" "replicate k (CHR ''0'')"]
    by (simp add: digit_value_def)
qed simp

lemma show_uint_digits:
  "0 \<le> n \<Longrightarrow> list_all is_digit (show_uint n) \<and> digits_value (show_uint n) = n"
proof (induction n rule: show_uint.induct)
  case (1 n)
  show ?case
  proof (cases "n < 10")
    case True
    then show ?thesis using 1 digit_char_digit [of n] by (simp add: show_uint.simps [of n])
  next
    case False
    then have IH: "list_all is_digit (show_uint (n div 10))" "digits_value (show_uint (n div 10)) = n div 10"
      using 1 by simp_all
    have "is_digit (digit_char (n mod 10))" "digit_value (digit_char (n mod 10)) = n mod 10"
      using digit_char_digit [of "n mod 10"] by simp_all
    then show ?thesis using False IH by (simp add: show_uint.simps [of n] digits_value_append)
  qed
qed

lemma length_show_uint: "0 \<le> n \<Longrightarrow> n < 10 ^ Suc w \<Longrightarrow> length (show_uint n) \<le> Suc w"
proof (induction w arbitrary: n)
  case 0
  then show ?case by (simp add: show_uint.simps [of n])
next
  case (Suc w)
  show ?case
  proof (cases "n < 10")
    case True
    then show ?thesis by (simp add: show_uint.simps [of n])
  next
    case False
    have "n div 10 < 10 ^ Suc w" using Suc.prems by (simp add: div_less_iff_less_mult)
    then show ?thesis using Suc.IH [of "n div 10"] Suc.prems False by (simp add: show_uint.simps [of n])
  qed
qed

lemma pad_zero_digits:
  assumes "0 \<le> n" "n < 10 ^ Suc w"
  shows "length (pad_zero (Suc w) (show_uint n)) = Suc w" "list_all is_digit (pad_zero (Suc w) (show_uint n))"
    "digits_value (pad_zero (Suc w) (show_uint n)) = n"
proof -
  have "is_digit (CHR ''0'')" by (simp add: is_digit_def digit_value_def)
  then show "length (pad_zero (Suc w) (show_uint n)) = Suc w" "list_all is_digit (pad_zero (Suc w) (show_uint n))"
    "digits_value (pad_zero (Suc w) (show_uint n)) = n"
    using length_show_uint [OF assms] show_uint_digits [OF assms(1)]
    by (auto simp: pad_zero_def digits_value_append list_all_iff)
qed

lemma getnum_show_fixed:
  assumes "0 \<le> n" "n < 100"
  shows "getnum fixed (show_fixed 2 n @ s) = Some (n, s)"
proof -
  note p = pad_zero_digits [of n 1, simplified, OF assms]
  obtain c d where cd: "pad_zero 2 (show_uint n) = [c, d]"
    using p(1) by (metis length_Suc_conv length_0_conv numeral_2_eq_2)
  then have "is_digit c" "is_digit d" "digit_value c * 10 + digit_value d = n"
    using p(2,3) digits_value_append [of "[c]" "[d]"] by (simp_all add: numeral_2_eq_2)
  then show ?thesis using assms cd by (simp add: show_fixed_def)
qed

lemma parse_year_show_fixed:
  assumes "0 \<le> y" "y < 10000"
  shows "parse_year (show_fixed 4 y @ s) = Some (y, s)"
  using pad_zero_digits [of y 3] assms by (simp add: parse_year_def show_fixed_def numeral_eq_Suc)

lemma skip_char_append [simp]: "skip_char c (c # s) = Some s"
  by simp

lemma TrimRightChar_split: "\<exists>k. s = TrimRightChar s c @ replicate k c"
proof -
  have "rev s = takeWhile (\<lambda>x. x = c) (rev s) @ dropWhile (\<lambda>x. x = c) (rev s)" by simp
  then have "s = TrimRightChar s c @ rev (takeWhile (\<lambda>x. x = c) (rev s))"
    by (metis TrimRightChar_def rev_append rev_rev_ident)
  moreover have "rev (takeWhile (\<lambda>x. x = c) (rev s)) = replicate (length (takeWhile (\<lambda>x. x = c) (rev s))) c"
    by (intro replicate_eqI) (auto dest: set_takeWhileD)
  ultimately show ?thesis by metis
qed

lemma parse_fraction_show:
  assumes "0 \<le> ns" "ns < 1000000000"
  shows "parse_fraction (show_fraction 9 ns @ CHR ''Z'' # s) = (ns, CHR ''Z'' # s)"
proof -
  let ?p = "pad_zero 9 (show_uint ns)" and ?t = "TrimRightChar (pad_zero 9 (show_uint ns)) (CHR ''0'')"
  have p: "length ?p = 9" "list_all is_digit ?p" "digits_value ?p = ns"
    using pad_zero_digits [of ns 8] assms by simp_all
  obtain k where k: "?p = ?t @ replicate k (CHR ''0'')" using TrimRightChar_split by blast
  have len: "length ?t + k = 9" using p(1) arg_cong [OF k, of length] by simp
  have digits: "list_all is_digit ?t" using p(2) k by (metis list_all_append)
  have val: "digits_value ?t * 10 ^ (9 - length ?t) = ns"
  proof -
    have "9 - length ?t = k" using len by simp
    then show ?thesis using p(3) arg_cong [OF k, of digits_value] by (simp only: digits_value_append digits_value_zeros length_replicate add_0_right)
  qed
  have z: "\<not> is_digit (CHR ''Z'')" by (simp add: is_digit_def digit_value_def)
  show ?thesis
  proof (cases ?t)
    case Nil
    then show ?thesis using val by (simp add: show_fraction_def parse_fraction_def Let_def split: list.split)
  next
    case (Cons d r)
    have "takeWhile is_digit (?t @ CHR ''Z'' # s) = ?t" "dropWhile is_digit (?t @ CHR ''Z'' # s) = CHR ''Z'' # s"
      using digits z by (simp_all add: takeWhile_append2 dropWhile_append2 list_all_iff)
    then show ?thesis using Cons val len digits
      by (simp add: show_fraction_def parse_fraction_def Let_def)
  qed
qed

lemma civil_valid:
  assumes "civil_from_days n = (y, m, d)"
  shows "1 \<le> m \<and> m \<le> 12 \<and> 1 \<le> d \<and> d \<le> daysIn m y"
  using assms
proof (cases rule: civil_parts)
  case (1 era c q a doy mp)
  have leap: "is_leap y" if "doy = 365" "10 \<le> mp"
  proof -
    have y: "y = 4 * (25 * c + q + 1 + era * 100)" using 1(13) [OF that(1)] that(2) by (simp add: 1(15))
    have "400 dvd y" if "100 dvd y"
    proof -
      have "4 * 25 dvd 4 * (25 * (c + 4 * era) + (q + 1))" using that by (simp add: y algebra_simps)
      then have "25 dvd q + 1" unfolding dvd_mult_cancel_left by (simp only: dvd_add_right_iff [OF dvd_triv_left]) simp
      then have "q = 24" using 1(3,4) by presburger
      then show ?thesis using y 1(14) [OF \<open>doy = 365\<close>] by simp
    qed
    then show ?thesis using y by (auto simp: is_leap_def)
  qed
  have b: "153 * mp \<le> 5 * doy + 2" "5 * doy + 2 < 153 * mp + 153" by (simp_all add: 1(12))
  have "mp = 0 \<or> mp = 1 \<or> mp = 2 \<or> mp = 3 \<or> mp = 4 \<or> mp = 5 \<or> mp = 6 \<or> mp = 7 \<or> mp = 8 \<or> mp = 9
      \<or> mp = 10 \<or> mp = 11" using 1(9,10) by arith
  then show ?thesis using b 1(7,8) leap unfolding 1(16,17) daysIn_def
    by (elim disjE) (simp_all, cases "doy = 365", auto)
qed

lemma local_clock_UTC_range:
  "local_clock UTC t = (h, mi, s) \<Longrightarrow> 0 \<le> h \<and> h < 24 \<and> 0 \<le> mi \<and> mi < 60 \<and> 0 \<le> s \<and> s < 60"
proof -
  assume "local_clock UTC t = (h, mi, s)"
  then have *: "h = seconds_of t mod 86400 div 3600" "mi = seconds_of t mod 86400 mod 3600 div 60"
    "s = seconds_of t mod 86400 mod 60" by (auto simp: local_clock_def Let_def)
  have "0 \<le> x mod 3600 div 60 \<and> x mod 3600 div 60 < 60" for x :: int
    by (simp add: pos_imp_zdiv_nonneg_iff div_less_iff_less_mult)
  then show ?thesis unfolding * by (simp add: pos_imp_zdiv_nonneg_iff div_less_iff_less_mult)
qed

text \<open>An instant the layout can represent: its year has four digits.\<close>

definition year_ok :: "gotime \<Rightarrow> bool" where
  "year_ok t = (0 \<le> fst (local_date UTC t) \<and> fst (local_date UTC t) \<le> 9999)"

lemma parse_format_RFC3339:
  assumes "year_ok t"
  shows "parse_RFC3339 (format_RFC3339Nano t) = Some t"
proof -
  obtain y m d where ymd: "local_date UTC t = (y, m, d)" by (cases "local_date UTC t")
  obtain h mi s where hms: "local_clock UTC t = (h, mi, s)" by (cases "local_clock UTC t")
  note v = civil_valid [OF ymd [unfolded local_date_def]] and r = local_clock_UTC_range [OF hms]
  have y: "0 \<le> y" "y < 10000" using assms ymd by (simp_all add: year_ok_def)
  have d: "d < 100" using v by (auto simp: daysIn_def split: if_splits)
  have ns: "0 \<le> nsec_of t" "nsec_of t < 1000000000" by (simp_all add: nsec_of_def Second_def)
  have "parse_RFC3339 (format_RFC3339Nano t) = Some (time_Date y m d h mi s (nsec_of t) UTC)"
    using v r d parse_fraction_show [OF ns, of "[]"]
    by (simp add: format_RFC3339Nano_def ymd hms parse_RFC3339_def parse_year_show_fixed [OF y] getnum_show_fixed
        parse_clock_fields_def parse_zone_def guard_opt_def)
  also have "time_Date y m d h mi s (nsec_of t) UTC = add_days UTC t 0"
    by (simp add: add_days_def ymd hms)
  finally show ?thesis by (simp add: add_days_UTC)
qed

end
