(* ===== verification/Quota_Window.thy ===== *)
theory Quota_Window
  imports Go_Parse
begin

text \<open>
  Package \<open>internal/quota\<close>, file \<open>tracker.go\<close>, the window level: schedules and their bounds,
  the usage events of a window, what rolls out of it, when it limits and for how long. The time
  zone database is the argument \<open>loadLocation\<close> (\<open>None\<close> for the error of \<open>time.LoadLocation\<close>).
\<close>

section \<open>Data\<close>

record WindowConfig =
  wc_Name :: string
  wc_Type :: string
  wc_Reset :: string
  wc_Duration :: duration
  wc_FixedPeriod :: string
  wc_Anchor :: gotime
  wc_Time :: string
  wc_Timezone :: string
  wc_Weekday :: int
  wc_MaxRequests :: int
  wc_MaxTokens :: int
  wc_MaxCostMicroUSD :: int

record usageEvent =
  ev_At :: gotime
  ev_Requests :: int
  ev_Tokens :: int
  ev_CostMicroUSD :: int
  ev_Unpriced :: int

record schedule =
  sch_period :: string
  sch_duration :: duration
  sch_anchor :: gotime
  sch_clock :: string
  sch_location :: "location option"
  sch_weekday :: int

record windowState =
  w_name :: string
  w_typeName :: string
  w_reset :: string
  w_duration :: duration
  w_fixed :: schedule
  w_maxRequests :: int
  w_maxTokens :: int
  w_maxCostMicroUSD :: int
  w_events :: "usageEvent list"

definition empty_schedule :: schedule where
  "empty_schedule = \<lparr>sch_period = [], sch_duration = 0, sch_anchor = zeroTime, sch_clock = [],
     sch_location = None, sch_weekday = 0\<rparr>"

definition newSchedule ::
  "(string \<Rightarrow> location option) \<Rightarrow> string \<Rightarrow> duration \<Rightarrow> gotime \<Rightarrow> string \<Rightarrow> string \<Rightarrow> int \<Rightarrow> schedule" where
  "newSchedule loadLocation period dur anchor clock timezone weekday =
     \<lparr>sch_period = period, sch_duration = dur, sch_anchor = anchor, sch_clock = clock,
      sch_location =
        Some (if timezone \<noteq> [] then (case loadLocation timezone of Some loaded \<Rightarrow> loaded | None \<Rightarrow> UTC) else UTC),
      sch_weekday = weekday\<rparr>"

definition newWindowState :: "(string \<Rightarrow> location option) \<Rightarrow> WindowConfig \<Rightarrow> windowState" where
  "newWindowState loadLocation cfg =
     \<lparr>w_name = wc_Name cfg, w_typeName = wc_Type cfg,
      w_reset = (if wc_Reset cfg = [] then ''rolling'' else wc_Reset cfg),
      w_duration = wc_Duration cfg,
      w_fixed = newSchedule loadLocation (wc_FixedPeriod cfg) (wc_Duration cfg) (wc_Anchor cfg)
                  (wc_Time cfg) (wc_Timezone cfg) (wc_Weekday cfg),
      w_maxRequests = wc_MaxRequests cfg, w_maxTokens = wc_MaxTokens cfg,
      w_maxCostMicroUSD = wc_MaxCostMicroUSD cfg, w_events = []\<rparr>"

section \<open>Schedules\<close>

text \<open>\<open>floorDuration\<close>: Go's division truncates, so a negative remainder takes one step more.\<close>

definition floorDuration :: "duration \<Rightarrow> duration \<Rightarrow> int" where
  "floorDuration delta interval =
     (let steps = delta sdiv interval
      in if delta < 0 \<and> delta smod interval \<noteq> 0 then steps - 1 else steps)"

text \<open>\<open>time.Unix(0, 0)\<close>: 1970-01-01 counted from 0001-01-01.\<close>

definition unixEpoch :: gotime where
  "unixEpoch = 62135596800 * Second"

definition parseClock :: "string \<Rightarrow> int \<times> int \<times> int" where
  "parseClock val =
     (case parse_clock (count_list val (CHR '':'') = 2) val of
        None \<Rightarrow> (0, 0, 0)
      | Some hms \<Rightarrow> hms)"

definition civilBounds :: "schedule \<Rightarrow> gotime \<Rightarrow> int \<Rightarrow> bool \<Rightarrow> gotime \<times> gotime" where
  "civilBounds s now days weekly =
     (let loc = (case sch_location s of None \<Rightarrow> UTC | Some l \<Rightarrow> l);
          (hour, mnt, sec) = parseClock (sch_clock s);
          date = (if weekly then
                    (let delta = (local_weekday loc now - sch_weekday s + 7) smod 7
                     in add_days loc now (- delta))
                  else now);
          (y, m, d) = local_date loc date;
          start = time_Date y m d hour mnt sec 0 loc;
          start' = (if now < start then add_days loc start (- days) else start)
      in (start', add_days loc start' days))"

definition bounds :: "schedule \<Rightarrow> gotime \<Rightarrow> gotime \<times> gotime" where
  "bounds s now =
     (if sch_period s = ''daily'' then civilBounds s now 1 False
      else if sch_period s = ''weekly'' then civilBounds s now 7 True
      else if sch_duration s \<le> 0 then (zeroTime, zeroTime)
      else
        (let anchor = (if IsZero (sch_anchor s) then unixEpoch else sch_anchor s);
             delta = time_Sub now anchor;
             steps = floorDuration delta (sch_duration s);
             start = anchor + wrap64 (steps * sch_duration s)
         in (start, start + sch_duration s)))"

fun join_bar :: "string list \<Rightarrow> string" where
  "join_bar [] = []"
| "join_bar [s] = s"
| "join_bar (s # ss) = s @ ''|'' @ join_bar ss"

definition schedule_key :: "schedule \<Rightarrow> string" where
  "schedule_key s =
     (if sch_period s = [] then []
      else
        (let zone = (case sch_location s of None \<Rightarrow> [] | Some l \<Rightarrow> loc_name l)
         in join_bar [sch_period s, Duration_String (sch_duration s), format_or_empty (sch_anchor s),
                      sch_clock s, zone, weekday_String (sch_weekday s)]))"

section \<open>Events in a window\<close>

text \<open>The counting loop of \<open>discardBefore\<close> and \<open>discardThrough\<close>, and \<open>drop\<close>.\<close>

fun leading_count :: "(usageEvent \<Rightarrow> bool) \<Rightarrow> usageEvent list \<Rightarrow> nat" where
  "leading_count gone [] = 0"
| "leading_count gone (e # es) = (if gone e then Suc (leading_count gone es) else 0)"

definition window_drop :: "nat \<Rightarrow> windowState \<Rightarrow> windowState" where
  "window_drop n w = (if n = 0 then w else w\<lparr>w_events := drop n (w_events w)\<rparr>)"

definition discardBefore :: "gotime \<Rightarrow> windowState \<Rightarrow> windowState" where
  "discardBefore cutoff w = window_drop (leading_count (\<lambda>e. ev_At e < cutoff) (w_events w)) w"

definition discardThrough :: "gotime \<Rightarrow> windowState \<Rightarrow> windowState" where
  "discardThrough cutoff w = window_drop (leading_count (\<lambda>e. \<not> ev_At e > cutoff) (w_events w)) w"

definition window_rollover :: "gotime \<Rightarrow> windowState \<Rightarrow> windowState" where
  "window_rollover now w =
     (if w_reset w = ''fixed'' then discardBefore (fst (bounds (w_fixed w) now)) w
      else discardThrough (now - w_duration w) w)"

fun usage_sum :: "usageEvent list \<Rightarrow> int \<times> int \<times> int \<times> int \<Rightarrow> int \<times> int \<times> int \<times> int" where
  "usage_sum [] acc = acc"
| "usage_sum (e # es) (requests, tokens, cost, unpriced) =
     usage_sum es (wrap64 (requests + ev_Requests e), wrap64 (tokens + ev_Tokens e),
                   wrap64 (cost + ev_CostMicroUSD e), wrap64 (unpriced + ev_Unpriced e))"

definition window_usage :: "windowState \<Rightarrow> int \<times> int \<times> int \<times> int" where
  "window_usage w = usage_sum (w_events w) (0, 0, 0, 0)"

text \<open>The loop of \<open>retryAfter\<close>: the event whose expiry frees enough of every limited unit.\<close>

fun retry_loop :: "int \<times> int \<times> int \<Rightarrow> int \<times> int \<times> int \<Rightarrow> usageEvent list \<Rightarrow> usageEvent option" where
  "retry_loop need removed [] = None"
| "retry_loop (needR, needT, needC) (r, t, c) (e # es) =
     (let r' = wrap64 (r + ev_Requests e); t' = wrap64 (t + ev_Tokens e); c' = wrap64 (c + ev_CostMicroUSD e)
      in if needR \<le> r' \<and> needT \<le> t' \<and> needC \<le> c' then Some e
         else retry_loop (needR, needT, needC) (r', t', c') es)"

definition retryAfter :: "gotime \<Rightarrow> windowState \<Rightarrow> gotime \<times> bool" where
  "retryAfter now w =
     (case window_usage w of (requests, tokens, cost, _) \<Rightarrow>
        let requestLimited = 0 < w_maxRequests w \<and> w_maxRequests w \<le> requests;
            tokenLimited = 0 < w_maxTokens w \<and> w_maxTokens w \<le> tokens;
            costLimited = 0 < w_maxCostMicroUSD w \<and> w_maxCostMicroUSD w \<le> cost
        in if \<not> requestLimited \<and> \<not> tokenLimited \<and> \<not> costLimited then (zeroTime, False)
           else if w_reset w = ''fixed'' then (snd (bounds (w_fixed w) now), True)
           else
             (let needR = (if requestLimited then wrap64 (requests - w_maxRequests w + 1) else 0);
                  needT = (if tokenLimited then wrap64 (tokens - w_maxTokens w + 1) else 0);
                  needC = (if costLimited then wrap64 (cost - w_maxCostMicroUSD w + 1) else 0)
              in case retry_loop (needR, needT, needC) (0, 0, 0) (w_events w) of
                   Some e \<Rightarrow> (ev_At e + w_duration w, True)
                 | None \<Rightarrow> (ev_At (last (w_events w)) + w_duration w, True)))"

section \<open>Compatibility\<close>

definition scheduleKey :: "windowState \<Rightarrow> string" where
  "scheduleKey w = (if w_reset w = ''rolling'' then Duration_String (w_duration w) else schedule_key (w_fixed w))"

definition window_compatible :: "windowState \<Rightarrow> windowState \<Rightarrow> bool" where
  "window_compatible w other =
     (if w_typeName w \<noteq> w_typeName other \<or> w_reset w \<noteq> w_reset other then False
      else if w_reset w = ''rolling'' then w_duration w = w_duration other
      else scheduleKey w = scheduleKey other)"

section \<open>Amounts\<close>

definition remaining :: "int \<Rightarrow> int \<Rightarrow> int" where
  "remaining maximum used =
     (if maximum = 0 then 0
      else (let val = wrap64 (maximum - used) in if val < 0 then 0 else val))"

text \<open>\<open>%06d\<close>: the sign counts towards the width.\<close>

definition fmt_06d :: "int \<Rightarrow> string" where
  "fmt_06d n = (if n < 0 then CHR ''-'' # pad_zero 5 (show_uint (- n)) else pad_zero 6 (show_uint n))"

definition formatMicroUSD :: "int \<Rightarrow> string" where
  "formatMicroUSD val =
     (if val = 0 then []
      else
        (let whole = val sdiv 1000000; fraction = val smod 1000000
         in if fraction = 0 then show_int whole
            else TrimRightChar (show_int whole @ ''.'' @ fmt_06d fraction) (CHR ''0'')))"

definition durationString :: "windowState \<Rightarrow> string" where
  "durationString w = (if w_duration w \<le> 0 then [] else Duration_String (w_duration w))"

section \<open>Lemmas\<close>

lemma drop_leading_count: "drop (leading_count P es) es = dropWhile P es"
  by (induction es) auto

lemma window_drop_count: "window_drop (leading_count P (w_events w)) w = w\<lparr>w_events := dropWhile P (w_events w)\<rparr>"
  using drop_leading_count [of P "w_events w"] by (cases w) (auto simp: window_drop_def)

lemma discardBefore_events: "discardBefore c w = w\<lparr>w_events := dropWhile (\<lambda>e. ev_At e < c) (w_events w)\<rparr>"
  by (simp add: discardBefore_def window_drop_count)

lemma discardThrough_events: "discardThrough c w = w\<lparr>w_events := dropWhile (\<lambda>e. ev_At e \<le> c) (w_events w)\<rparr>"
  by (simp add: discardThrough_def window_drop_count not_less)

lemmas discard_events = discardBefore_events discardThrough_events

text \<open>The sums of a list of events, without wrap-around.\<close>

definition sum_requests :: "usageEvent list \<Rightarrow> int" where "sum_requests es = sum_list (map ev_Requests es)"
definition sum_tokens :: "usageEvent list \<Rightarrow> int" where "sum_tokens es = sum_list (map ev_Tokens es)"
definition sum_cost :: "usageEvent list \<Rightarrow> int" where "sum_cost es = sum_list (map ev_CostMicroUSD es)"
definition sum_unpriced :: "usageEvent list \<Rightarrow> int" where "sum_unpriced es = sum_list (map ev_Unpriced es)"

lemmas usage_sums = sum_requests_def sum_tokens_def sum_cost_def sum_unpriced_def

lemma usage_sum_wraps:
  "int64 r \<Longrightarrow> int64 t \<Longrightarrow> int64 c \<Longrightarrow> int64 u \<Longrightarrow>
   usage_sum es (r, t, c, u) = (wrap64 (r + sum_requests es), wrap64 (t + sum_tokens es),
     wrap64 (c + sum_cost es), wrap64 (u + sum_unpriced es))"
  by (induction es arbitrary: r t c u) (simp_all add: usage_sums add.assoc)

lemma window_usage_wraps:
  "window_usage w = (wrap64 (sum_requests (w_events w)), wrap64 (sum_tokens (w_events w)),
     wrap64 (sum_cost (w_events w)), wrap64 (sum_unpriced (w_events w)))"
  by (simp add: window_usage_def usage_sum_wraps)

text \<open>Usage that is never negative and never overflows a counter.\<close>

definition usage_ok :: "usageEvent list \<Rightarrow> bool" where
  "usage_ok es \<longleftrightarrow>
     (\<forall>e \<in> set es. 0 \<le> ev_Requests e \<and> 0 \<le> ev_Tokens e \<and> 0 \<le> ev_CostMicroUSD e \<and> 0 \<le> ev_Unpriced e)
     \<and> sum_requests es < 2 ^ 63 \<and> sum_tokens es < 2 ^ 63 \<and> sum_cost es < 2 ^ 63 \<and> sum_unpriced es < 2 ^ 63"

lemma sums_append:
  "sum_requests (a @ b) = sum_requests a + sum_requests b" "sum_tokens (a @ b) = sum_tokens a + sum_tokens b"
  "sum_cost (a @ b) = sum_cost a + sum_cost b" "sum_unpriced (a @ b) = sum_unpriced a + sum_unpriced b"
  by (simp_all add: usage_sums)

lemma sums_Nil [simp]: "sum_requests [] = 0" "sum_tokens [] = 0" "sum_cost [] = 0" "sum_unpriced [] = 0"
  by (simp_all add: usage_sums)

lemma sums_nonneg:
  assumes "\<forall>e \<in> set es. 0 \<le> ev_Requests e \<and> 0 \<le> ev_Tokens e \<and> 0 \<le> ev_CostMicroUSD e \<and> 0 \<le> ev_Unpriced e"
  shows "0 \<le> sum_requests es" "0 \<le> sum_tokens es" "0 \<le> sum_cost es" "0 \<le> sum_unpriced es"
  using assms by (auto simp: usage_sums intro!: sum_list_nonneg)

lemma usage_ok_append: "usage_ok (a @ b) \<Longrightarrow> usage_ok a \<and> usage_ok b"
  using sums_nonneg [of a] sums_nonneg [of b] by (auto simp: usage_ok_def sums_append)

lemma usage_ok_int64:
  assumes "usage_ok es"
  shows "int64 (sum_requests es)" "int64 (sum_tokens es)" "int64 (sum_cost es)" "int64 (sum_unpriced es)"
  using assms sums_nonneg [of es] by (auto simp: usage_ok_def int64_def)

lemma usage_ok_nonneg:
  assumes "usage_ok es"
  shows "0 \<le> sum_requests es" "0 \<le> sum_tokens es" "0 \<le> sum_cost es" "0 \<le> sum_unpriced es"
  using assms sums_nonneg [of es] by (auto simp: usage_ok_def)

lemma usage_ok_dropWhile: "usage_ok es \<Longrightarrow> usage_ok (dropWhile P es)"
  by (metis takeWhile_dropWhile_id usage_ok_append)

lemma window_usage_exact:
  "usage_ok (w_events w) \<Longrightarrow>
     window_usage w = (sum_requests (w_events w), sum_tokens (w_events w), sum_cost (w_events w), sum_unpriced (w_events w))"
  by (simp add: window_usage_wraps usage_ok_int64)

text \<open>The reference notion: a window limits when a configured maximum is reached.\<close>

definition limited :: "windowState \<Rightarrow> usageEvent list \<Rightarrow> bool" where
  "limited w es \<longleftrightarrow>
     0 < w_maxRequests w \<and> w_maxRequests w \<le> sum_requests es \<or>
     0 < w_maxTokens w \<and> w_maxTokens w \<le> sum_tokens es \<or>
     0 < w_maxCostMicroUSD w \<and> w_maxCostMicroUSD w \<le> sum_cost es"

lemma retryAfter_limited:
  "usage_ok (w_events w) \<Longrightarrow> snd (retryAfter now w) = limited w (w_events w)"
  by (auto simp: retryAfter_def window_usage_exact limited_def Let_def split: option.splits)

lemma limited_nonempty: "limited w es \<Longrightarrow> es \<noteq> []"
  by (auto simp: limited_def)

section \<open>When a rolling window opens again\<close>

definition freed :: "int \<times> int \<times> int \<Rightarrow> usageEvent list \<Rightarrow> bool" where
  "freed need es = (case need of (r, t, c) \<Rightarrow> r \<le> sum_requests es \<and> t \<le> sum_tokens es \<and> c \<le> sum_cost es)"

lemma freed_mono: "freed need a \<Longrightarrow> usage_ok b \<Longrightarrow> freed need (a @ b)"
  using usage_ok_nonneg [of b] by (auto simp: freed_def sums_append split: prod.splits)

lemma retry_loop_finds:
  assumes "usage_ok (done @ es)" and "freed need (done @ es)" and "es \<noteq> []"
  shows "\<exists>pre e post. es = pre @ e # post \<and> freed need (done @ pre @ [e])
    \<and> (pre \<noteq> [] \<longrightarrow> \<not> freed need (done @ pre))
    \<and> retry_loop need (sum_requests done, sum_tokens done, sum_cost done) es = Some e"
  using assms
proof (induction es arbitrary: "done")
  case (Cons e es)
  obtain r t c where need: "need = (r, t, c)" by (cases need)
  have ok: "usage_ok (done @ [e])" using usage_ok_append [of "done @ [e]" es] Cons.prems(1) by simp
  have sums: "wrap64 (sum_requests done + ev_Requests e) = sum_requests (done @ [e])"
    "wrap64 (sum_tokens done + ev_Tokens e) = sum_tokens (done @ [e])"
    "wrap64 (sum_cost done + ev_CostMicroUSD e) = sum_cost (done @ [e])"
    using usage_ok_int64 [OF ok] by (simp_all add: usage_sums)
  show ?case
  proof (cases "freed need (done @ [e])")
    case True
    then have "retry_loop need (sum_requests done, sum_tokens done, sum_cost done) (e # es) = Some e"
      by (simp add: need sums Let_def freed_def)
    then show ?thesis using True by (intro exI [of _ "[]"] exI [of _ e] exI [of _ es]) simp
  next
    case False
    then have "es \<noteq> []" using Cons.prems(2) by auto
    have step: "retry_loop need (sum_requests done, sum_tokens done, sum_cost done) (e # es) =
        retry_loop need (sum_requests (done @ [e]), sum_tokens (done @ [e]), sum_cost (done @ [e])) es"
      using False by (auto simp: need sums Let_def freed_def)
    obtain pre e' post where *: "es = pre @ e' # post" "freed need ((done @ [e]) @ pre @ [e'])"
      "pre \<noteq> [] \<longrightarrow> \<not> freed need ((done @ [e]) @ pre)"
      "retry_loop need (sum_requests (done @ [e]), sum_tokens (done @ [e]), sum_cost (done @ [e])) es = Some e'"
      using Cons.IH [of "done @ [e]"] Cons.prems \<open>es \<noteq> []\<close> by auto
    then show ?thesis using False step
      by (intro exI [of _ "e # pre"] exI [of _ e'] exI [of _ post]) (cases pre, auto)
  qed
qed simp

lemma limited_after_drop:
  assumes "usage_ok (a @ b)" and "limited w (a @ b)"
    and "need = (if 0 < w_maxRequests w \<and> w_maxRequests w \<le> sum_requests (a @ b) then sum_requests (a @ b) - w_maxRequests w + 1 else 0,
                 if 0 < w_maxTokens w \<and> w_maxTokens w \<le> sum_tokens (a @ b) then sum_tokens (a @ b) - w_maxTokens w + 1 else 0,
                 if 0 < w_maxCostMicroUSD w \<and> w_maxCostMicroUSD w \<le> sum_cost (a @ b) then sum_cost (a @ b) - w_maxCostMicroUSD w + 1 else 0)"
  shows "limited w b \<longleftrightarrow> \<not> freed need a"
  using assms usage_ok_append [OF assms(1)] usage_ok_nonneg [of a] usage_ok_nonneg [of b]
  by (auto simp: limited_def freed_def sums_append split: if_splits)

lemma rolling_retryAfter_exact:
  assumes "w_reset w \<noteq> ''fixed''" and "sorted (map ev_At (w_events w))" and ok: "usage_ok (w_events w)"
    and ret: "retryAfter now w = (r, True)"
  shows "snd (retryAfter t (window_rollover t w)) \<longleftrightarrow> t < r"
proof -
  let ?es = "w_events w"
  define need where "need =
    (if 0 < w_maxRequests w \<and> w_maxRequests w \<le> sum_requests ?es then sum_requests ?es - w_maxRequests w + 1 else 0,
     if 0 < w_maxTokens w \<and> w_maxTokens w \<le> sum_tokens ?es then sum_tokens ?es - w_maxTokens w + 1 else 0,
     if 0 < w_maxCostMicroUSD w \<and> w_maxCostMicroUSD w \<le> sum_cost ?es then sum_cost ?es - w_maxCostMicroUSD w + 1 else 0)"
  have lim: "limited w ?es" using ret retryAfter_limited [OF ok, of now] by simp
  have "freed need ([] @ ?es)" using usage_ok_nonneg [OF ok] by (auto simp: freed_def need_def)
  then obtain pre e post where split: "?es = pre @ e # post" "freed need (pre @ [e])" "pre \<noteq> [] \<longrightarrow> \<not> freed need pre"
    and loop: "retry_loop need (0, 0, 0) ?es = Some e"
    using retry_loop_finds [of "[]" ?es need] ok limited_nonempty [OF lim]
    unfolding append_Nil sums_Nil by blast
  have "\<not> freed need []" using lim by (auto simp: freed_def need_def limited_def)
  then have notpre: "\<not> freed need pre" using split(3) by (cases pre) auto
  have i64: "int64 (s - m + 1)" if "0 < m" "m \<le> s" "int64 s" for m s :: int
    using that by (auto simp: int64_def)
  have r: "r = ev_At e + w_duration w"
    using ret loop assms(1) lim usage_ok_int64 [OF ok] unfolding need_def
    by (auto simp: retryAfter_def window_usage_exact [OF ok] Let_def i64 limited_def split: if_splits)
  let ?rest = "dropWhile (\<lambda>x. ev_At x \<le> t - w_duration w) ?es"
  have roll: "window_rollover t w = w\<lparr>w_events := ?rest\<rparr>"
    using assms(1) by (simp add: window_rollover_def discardThrough_events)
  have "snd (retryAfter t (window_rollover t w)) = limited w ?rest"
    unfolding roll using retryAfter_limited [of "w\<lparr>w_events := ?rest\<rparr>"] usage_ok_dropWhile [OF ok]
    by (simp add: limited_def)
  also have "\<dots> = (\<not> freed need (takeWhile (\<lambda>x. ev_At x \<le> t - w_duration w) ?es))"
    using limited_after_drop [of "takeWhile (\<lambda>x. ev_At x \<le> t - w_duration w) ?es" ?rest w need] ok lim
    by (simp add: need_def)
  also have "\<dots> = (t < r)"
  proof (cases "t < r")
    case True
    then have "\<not> ev_At e \<le> t - w_duration w" by (simp add: r)
    then have "takeWhile (\<lambda>x. ev_At x \<le> t - w_duration w) ?es = takeWhile (\<lambda>x. ev_At x \<le> t - w_duration w) pre"
      unfolding split(1) by (simp add: takeWhile_append) (metis takeWhile_eq_all_conv)
    then obtain q where "pre = takeWhile (\<lambda>x. ev_At x \<le> t - w_duration w) ?es @ q"
      using takeWhile_dropWhile_id [of "\<lambda>x. ev_At x \<le> t - w_duration w" pre] by metis
    then show ?thesis
      using True notpre freed_mono [of need _ q] ok split(1) usage_ok_append by (metis append.assoc)
  next
    case False
    then have le: "ev_At e \<le> t - w_duration w" by (simp add: r)
    have "\<forall>x \<in> set (pre @ [e]). ev_At x \<le> t - w_duration w"
      using assms(2) le unfolding split(1) by (fastforce simp: sorted_append)
    then have "takeWhile (\<lambda>x. ev_At x \<le> t - w_duration w) ((pre @ [e]) @ post) =
        (pre @ [e]) @ takeWhile (\<lambda>x. ev_At x \<le> t - w_duration w) post"
      by (intro takeWhile_append2) blast
    then obtain more where "takeWhile (\<lambda>x. ev_At x \<le> t - w_duration w) ?es = (pre @ [e]) @ more"
      by (auto simp: split(1))
    then show ?thesis
      using False freed_mono [OF split(2), of more] ok usage_ok_append
      by (metis takeWhile_dropWhile_id)
  qed
  finally show ?thesis .
qed

section \<open>Schedules cut time into consecutive periods\<close>

lemma floorDuration_div:
  assumes "0 < interval"
  shows "floorDuration delta interval = delta div interval"
proof (cases "delta < 0")
  case True
  define x where "x = - delta"
  have x: "delta = - x" "0 < x" using True by (simp_all add: x_def)
  have sdiv: "x sdiv interval = x div interval" "x smod interval = x mod interval"
    using x(2) assms by (simp_all add: signed_divide_int_def signed_modulo_int_def sgn_mult minus_div_mult_eq_mod [symmetric])
  have "(- x) div interval = (if x mod interval = 0 then - (x div interval) else - (x div interval) - 1)"
    by (rule zdiv_zminus1_eq_if) (use assms in simp)
  then show ?thesis using True assms by (simp add: floorDuration_def x(1) sdiv Let_def)
next
  case False
  then show ?thesis using assms
    by (simp add: floorDuration_def signed_divide_int_def sgn_if Let_def div_eq_0_iff zero_le_mult_iff)
qed

text \<open>
  The reference schedule: periods of length \<open>p\<close> that start at the instants congruent to \<open>c\<close>.
\<close>

definition period_start :: "int \<Rightarrow> int \<Rightarrow> gotime \<Rightarrow> gotime" where
  "period_start c p now = now - (now - c) mod p"

lemma period_start_bounds:
  assumes "0 < p"
  shows "period_start c p now \<le> now" "now < period_start c p now + p"
  using assms by (simp_all add: period_start_def)

lemma period_start_div: "period_start c p x = c + (x - c) div p * p"
  by (simp add: period_start_def minus_div_mult_eq_mod [symmetric])

lemma period_start_mono:
  assumes "0 < p" and "t \<le> t'"
  shows "period_start c p t \<le> period_start c p t'"
proof -
  have "(t - c) div p \<le> (t' - c) div p" using assms by (intro zdiv_mono1) simp_all
  then show ?thesis unfolding period_start_div using assms(1) by simp
qed

lemma period_start_same:
  assumes "0 < p" and "period_start c p now \<le> t" "t < period_start c p now + p"
  shows "period_start c p t = period_start c p now"
proof -
  obtain k where k: "period_start c p now = c + k * p"
    using period_start_div by blast
  have "t - c = k * p + (t - c - k * p)" "0 \<le> t - c - k * p" "t - c - k * p < p" using assms k by auto
  then have "(t - c) mod p = t - c - k * p"
    by (metis mod_mult_self3 mod_pos_pos_trivial)
  then show ?thesis by (simp add: period_start_def [of c p t] k)
qed

lemma bounds_interval:
  assumes "sch_period s \<noteq> ''daily''" "sch_period s \<noteq> ''weekly''" "0 < sch_duration s"
    and "a = (if IsZero (sch_anchor s) then unixEpoch else sch_anchor s)"
    and "\<bar>now - a\<bar> + sch_duration s < 2 ^ 63"
  shows "bounds s now =
    (period_start a (sch_duration s) now, period_start a (sch_duration s) now + sch_duration s)"
proof -
  have "int64 (now - a)" using assms(3,5) by (auto simp: int64_def)
  moreover have "(now - a) div sch_duration s * sch_duration s = now - a - (now - a) mod sch_duration s"
    by (simp add: minus_mod_eq_div_mult)
  moreover have "0 \<le> (now - a) mod sch_duration s" "(now - a) mod sch_duration s < sch_duration s"
    using assms(3) by simp_all
  moreover have "int64 (now - a - (now - a) mod sch_duration s)"
    using assms(3,5) \<open>0 \<le> (now - a) mod sch_duration s\<close> \<open>(now - a) mod sch_duration s < sch_duration s\<close>
    unfolding int64_def by linarith
  ultimately show ?thesis using assms(1-3)
    by (simp add: bounds_def assms(4) [symmetric] Let_def floorDuration_div time_Sub_exact period_start_def)
qed

definition day_ns :: int where "day_ns = 86400 * Second"

definition clock_ns :: "int \<times> int \<times> int \<Rightarrow> int" where
  "clock_ns hms = (case hms of (h, m, s) \<Rightarrow> (h * 3600 + m * 60 + s) * Second)"

lemma start_of_day_UTC:
  assumes "local_date UTC t = (y, m, d)"
  shows "time_Date y m d h mi s 0 UTC = period_start 0 day_ns t + clock_ns (h, mi, s)"
proof -
  have "days_from_civil y m d = seconds_of t div 86400"
    using civil_roundtrip [OF assms [unfolded local_date_def]] by simp
  moreover have "seconds_of t div 86400 = t div day_ns"
    by (simp add: seconds_of_def day_ns_def Second_def zdiv_zmult2_eq [symmetric])
  moreover have "t div day_ns * day_ns = t - t mod day_ns" by (simp add: minus_mod_eq_div_mult)
  ultimately show ?thesis
    by (simp add: time_Date_UTC period_start_def clock_ns_def day_ns_def Second_def algebra_simps)
qed

lemma day_ns_pos: "0 < day_ns"
  by (simp add: day_ns_def Second_def)

lemma shift_period:
  assumes "0 \<le> x" "x < p"
  shows "(if now < period_start c p now + x then period_start c p now + x - p else period_start c p now + x) =
    period_start (c + x) p now"
proof -
  have p: "0 < p" using assms by simp
  have "now - (c + x) = (now - c) - x" by simp
  have m: "(now - (c + x)) mod p = ((now - c) mod p - x) mod p"
    by (simp add: mod_diff_left_eq diff_diff_eq)
  have b: "0 \<le> (now - c) mod p" "(now - c) mod p < p" using p by simp_all
  show ?thesis
  proof (cases "(now - c) mod p < x")
    case True
    have "((now - c) mod p - x) mod p = ((now - c) mod p - x + p) mod p" by simp
    also have "\<dots> = (now - c) mod p - x + p" using True assms b by (intro mod_pos_pos_trivial) auto
    finally have "((now - c) mod p - x) mod p = (now - c) mod p - x + p" .
    then show ?thesis using True by (simp add: period_start_def m)
  next
    case False
    then have "((now - c) mod p - x) mod p = (now - c) mod p - x"
      using assms b by (intro mod_pos_pos_trivial) auto
    then show ?thesis using False by (simp add: period_start_def m)
  qed
qed

lemma getnum_nonneg: "getnum fixed s = Some p \<Longrightarrow> 0 \<le> fst p"
  by (induction fixed s rule: getnum.induct) (auto simp: is_digit_def split: if_splits)

lemma parseClock_range:
  assumes "parseClock v = (h, m, s)"
  shows "0 \<le> h \<and> h < 24 \<and> 0 \<le> m \<and> m < 60 \<and> 0 \<le> s \<and> s < 60"
proof (cases "parse_clock (count_list v (CHR '':'') = 2) v")
  case None
  then show ?thesis using assms by (simp add: parseClock_def)
next
  case (Some hms)
  then have "parse_clock (count_list v (CHR '':'') = 2) v = Some (h, m, s)"
    using assms by (simp add: parseClock_def)
  then show ?thesis
    by (auto simp: parse_clock_def parse_clock_fields_def guard_opt_def bind_eq_Some_conv case_prod_beta
        split: if_splits dest!: getnum_nonneg)
qed

lemma clock_ns_range: "parseClock v = hms \<Longrightarrow> 0 \<le> clock_ns hms \<and> clock_ns hms < day_ns"
proof (cases hms)
  case (fields h m s)
  assume "parseClock v = hms"
  then show ?thesis using parseClock_range [of v h m s]
    by (auto simp: fields clock_ns_def day_ns_def Second_def)
qed

definition schedule_loc :: "schedule \<Rightarrow> location" where
  "schedule_loc s = (case sch_location s of None \<Rightarrow> UTC | Some l \<Rightarrow> l)"

lemma add_days_UTC_ns: "add_days UTC t n = t + n * day_ns"
  by (simp add: add_days_UTC day_ns_def)

lemma bounds_daily_UTC:
  assumes "sch_period s = ''daily''" "schedule_loc s = UTC"
  defines "c \<equiv> clock_ns (parseClock (sch_clock s))"
  shows "bounds s now = (period_start c day_ns now, period_start c day_ns now + day_ns)"
proof -
  obtain h m sec where hms: "parseClock (sch_clock s) = (h, m, sec)" by (cases "parseClock (sch_clock s)")
  obtain y mo d where ymd: "local_date UTC now = (y, mo, d)" by (cases "local_date UTC now")
  have "0 \<le> c" "c < day_ns" using clock_ns_range [OF refl] by (auto simp: c_def)
  then have "bounds s now = (let st = (if now < period_start 0 day_ns now + c
        then period_start 0 day_ns now + c - day_ns else period_start 0 day_ns now + c) in (st, st + day_ns))"
    using assms(1,2) start_of_day_UTC [OF ymd, of h m sec]
    by (simp add: bounds_def civilBounds_def schedule_loc_def [symmetric] hms ymd c_def add_days_UTC_ns Let_def)
  then show ?thesis
    using shift_period [of c day_ns now 0] \<open>0 \<le> c\<close> \<open>c < day_ns\<close> by (simp add: Let_def)
qed

lemma mod_two_radix:
  fixes k r p q :: int
  assumes "0 \<le> r" "r < p" "0 < q"
  shows "(k * p + r) mod (q * p) = (k mod q) * p + r"
proof -
  have "k * p + r = (k div q) * (q * p) + ((k mod q) * p + r)"
    by (metis (no_types, opaque_lifting) add.assoc distrib_right div_mult_mod_eq mult.assoc)
  moreover have "0 \<le> (k mod q) * p + r" using assms by simp
  moreover have "(k mod q) * p + r < q * p"
  proof -
    have "k mod q \<le> q - 1" using assms by (simp add: zle_diff1_eq)
    then have "(k mod q) * p \<le> (q - 1) * p" using assms by (intro mult_right_mono) auto
    then show ?thesis using assms by (simp add: left_diff_distrib)
  qed
  ultimately show ?thesis by (metis mod_mult_self3 mod_pos_pos_trivial)
qed

lemma start_of_week:
  assumes "0 \<le> W" "W \<le> 6"
  shows "period_start 0 day_ns now - ((local_weekday UTC now - W + 7) smod 7) * day_ns =
    period_start ((W - 1) * day_ns) (7 * day_ns) now"
proof -
  let ?D = "now div day_ns" and ?r = "now mod day_ns"
  have r: "0 \<le> ?r" "?r < day_ns" using day_ns_pos by simp_all
  have "seconds_of now div 86400 = ?D"
    by (simp add: seconds_of_def day_ns_def Second_def zdiv_zmult2_eq [symmetric])
  then have wd: "local_weekday UTC now = (?D + 1) mod 7" by (simp add: local_weekday_def)
  have "0 < (?D + 1) mod 7 - W + 7" using assms pos_mod_sign [of 7 "?D + 1"] by linarith
  then have "(local_weekday UTC now - W + 7) smod 7 = (local_weekday UTC now - W + 7) mod 7"
    by (simp add: wd signed_modulo_int_def signed_divide_int_def sgn_if minus_div_mult_eq_mod)
  also have "\<dots> = (?D - (W - 1)) mod 7"
    unfolding wd by (metis (no_types, opaque_lifting) add_diff_eq diff_add_eq diff_diff_eq2 mod_add_self2 mod_diff_left_eq)
  finally have delta: "(local_weekday UTC now - W + 7) smod 7 = (?D - (W - 1)) mod 7" .
  have "now - (W - 1) * day_ns = (?D - (W - 1)) * day_ns + ?r"
    by (simp add: left_diff_distrib)
  then have "(now - (W - 1) * day_ns) mod (7 * day_ns) = (?D - (W - 1)) mod 7 * day_ns + ?r"
    using mod_two_radix [OF r, of 7 "?D - (W - 1)"] by simp
  then show ?thesis by (simp add: delta period_start_def)
qed

lemma bounds_weekly_UTC:
  assumes "sch_period s = ''weekly''" "schedule_loc s = UTC" "0 \<le> sch_weekday s" "sch_weekday s \<le> 6"
  defines "c \<equiv> (sch_weekday s - 1) * day_ns + clock_ns (parseClock (sch_clock s))"
  shows "bounds s now = (period_start c (7 * day_ns) now, period_start c (7 * day_ns) now + 7 * day_ns)"
proof -
  let ?x = "clock_ns (parseClock (sch_clock s))"
  let ?delta = "(local_weekday UTC now - sch_weekday s + 7) smod 7"
  let ?date = "now - ?delta * day_ns"
  let ?week = "period_start ((sch_weekday s - 1) * day_ns) (7 * day_ns) now"
  obtain h m sec where hms: "parseClock (sch_clock s) = (h, m, sec)" by (cases "parseClock (sch_clock s)")
  obtain y mo d where ymd: "local_date UTC ?date = (y, mo, d)" by (cases "local_date UTC ?date")
  have x: "0 \<le> ?x" "?x < day_ns" using clock_ns_range [OF refl] by auto
  have "period_start 0 day_ns ?date = period_start 0 day_ns now - ?delta * day_ns"
    using mod_mult_self1 [of now "- ?delta" day_ns] by (simp add: period_start_def)
  then have start: "time_Date y mo d h m sec 0 UTC = ?week + ?x"
    using start_of_day_UTC [OF ymd, of h m sec] start_of_week [OF assms(3,4), of now] hms by simp
  have "bounds s now = (let st = (if now < ?week + ?x then ?week + ?x - 7 * day_ns else ?week + ?x) in (st, st + 7 * day_ns))"
    using assms(1,2) start ymd
    by (simp add: bounds_def civilBounds_def schedule_loc_def [symmetric] hms add_days_UTC_ns Let_def)
  then show ?thesis
    using shift_period [of ?x "7 * day_ns" now "(sch_weekday s - 1) * day_ns"] x
    by (simp add: Let_def c_def)
qed

lemma period_start_congruent: "0 < p \<Longrightarrow> \<exists>k. period_start c p now = c + k * p"
  using period_start_div by blast

lemma clock_of_congruent:
  assumes "parseClock v = (h, m, s)"
  shows "local_clock UTC (clock_ns (h, m, s) + k * day_ns) = (h, m, s)"
    and "local_weekday UTC (clock_ns (h, m, s) + k * day_ns) = (k + 1) mod 7"
proof -
  let ?x = "h * 3600 + m * 60 + s"
  note r = parseClock_range [OF assms]
  have x: "0 \<le> ?x" "?x < 86400" using r by linarith+
  have "clock_ns (h, m, s) + k * day_ns = (k * 86400 + ?x) * Second"
    by (simp add: clock_ns_def day_ns_def algebra_simps)
  then have sec: "seconds_of (clock_ns (h, m, s) + k * day_ns) = k * 86400 + ?x"
    by (simp add: seconds_of_def Second_def)
  have md: "(k * 86400 + ?x) mod 86400 = ?x" "(k * 86400 + ?x) div 86400 = k" using x by simp_all
  have "?x mod 60 = s" using r int_mod_pos_eq [of ?x 60 "h * 60 + m" s] by simp
  moreover have "?x div 3600 = h" "?x mod 3600 = m * 60 + s" "(m * 60 + s) div 60 = m"
    using r by (auto intro!: int_div_pos_eq int_mod_pos_eq)
  ultimately show "local_clock UTC (clock_ns (h, m, s) + k * day_ns) = (h, m, s)"
    unfolding local_clock_def Let_def local_seconds_UTC sec md by simp
  show "local_weekday UTC (clock_ns (h, m, s) + k * day_ns) = (k + 1) mod 7"
    unfolding local_weekday_def local_seconds_UTC sec md by (rule refl)
qed

section \<open>Properties\<close>

text \<open>C14: When a rolling window limits, the instant retryAfter reports is exact: without new usage the
  window still limits at every earlier instant and no longer limits from that instant on.\<close>

theorem retryAfter_is_exact:
  assumes "w_reset w \<noteq> ''fixed''" and "sorted (map ev_At (w_events w))" and "usage_ok (w_events w)"
    and "retryAfter now w = (r, True)"
  shows "snd (retryAfter t (window_rollover t w)) \<longleftrightarrow> t < r"
  using assms by (rule rolling_retryAfter_exact)

definition sample_event :: "gotime \<Rightarrow> int \<Rightarrow> usageEvent" where
  "sample_event t tokens = \<lparr>ev_At = t, ev_Requests = 1, ev_Tokens = tokens, ev_CostMicroUSD = 0, ev_Unpriced = 0\<rparr>"

definition sample_window :: "int \<Rightarrow> int \<Rightarrow> usageEvent list \<Rightarrow> windowState" where
  "sample_window maxRequests maxTokens es = \<lparr>w_name = ''w'', w_typeName = ''requests'', w_reset = ''rolling'',
     w_duration = 100, w_fixed = empty_schedule, w_maxRequests = maxRequests, w_maxTokens = maxTokens,
     w_maxCostMicroUSD = 0, w_events = es\<rparr>"

theorem retryAfter_is_exact_witness:
  "let w = sample_window 3 40 [sample_event 10 5, sample_event 20 30, sample_event 30 10]
   in \<not> snd (retryAfter 120 (window_rollover 120 w)) \<and> snd (retryAfter 119 (window_rollover 119 w))"
proof -
  let ?w = "sample_window 3 40 [sample_event 10 5, sample_event 20 30, sample_event 30 10]"
  have "retryAfter 50 ?w = (120, True)" "usage_ok (w_events ?w)" "sorted (map ev_At (w_events ?w))"
    "w_reset ?w \<noteq> ''fixed''"
    by code_simp+
  then show ?thesis using retryAfter_is_exact [of ?w 50 120] by (simp add: Let_def)
qed

text \<open>Daily and weekly schedules in UTC cut time into consecutive periods that start at the configured
  clock time (and weekday): the current period contains now, and every instant of it has the same
  period.\<close>

theorem civil_bounds_partition:
  assumes "schedule_loc s = UTC" and "0 \<le> sch_weekday s" "sch_weekday s \<le> 6"
    and "sch_period s = ''daily'' \<or> sch_period s = ''weekly''"
    and "bounds s now = (start, finish)"
  shows "start \<le> now \<and> now < finish \<and> (\<forall>t. start \<le> t \<and> t < finish \<longrightarrow> bounds s t = (start, finish))
    \<and> local_clock UTC start = parseClock (sch_clock s)
    \<and> (sch_period s = ''weekly'' \<longrightarrow> local_weekday UTC start = sch_weekday s)"
proof -
  obtain h m sec where hms: "parseClock (sch_clock s) = (h, m, sec)" by (cases "parseClock (sch_clock s)")
  obtain c p j where p: "0 < p" "\<And>t. bounds s t = (period_start c p t, period_start c p t + p)"
    and c: "c = j * day_ns + clock_ns (h, m, sec)"
    and wk: "sch_period s = ''daily'' \<and> p = day_ns \<or> sch_period s = ''weekly'' \<and> p = 7 * day_ns \<and> j = sch_weekday s - 1"
  proof (cases "sch_period s = ''daily''")
    case True
    then show ?thesis
      using that [of day_ns "clock_ns (h, m, sec)" 0] bounds_daily_UTC [OF True assms(1)] hms day_ns_pos by simp
  next
    case False
    then show ?thesis
      using that [of "7 * day_ns" _ "sch_weekday s - 1"] bounds_weekly_UTC [OF _ assms(1-3)] assms(4) hms day_ns_pos by simp
  qed
  have st: "start = period_start c p now" "finish = start + p" using assms(5) p(2) [of now] by auto
  obtain k where k: "start = c + k * p" using period_start_congruent [OF p(1)] st(1) by blast
  let ?q = "if p = day_ns then 1 else 7 :: int"
  have "p = ?q * day_ns" using wk day_ns_pos by auto
  then have start: "start = clock_ns (h, m, sec) + (j + k * ?q) * day_ns"
    unfolding k c by (simp add: algebra_simps)
  have same: "bounds s t = (start, finish)" if "start \<le> t" "t < finish" for t
    using period_start_same [OF p(1), of c now t] that p(2) [of t] st by simp
  have wd: "local_weekday UTC start = sch_weekday s" if "sch_period s = ''weekly''"
  proof -
    have "j = sch_weekday s - 1" "?q = 7" using wk that day_ns_pos by auto
    then show ?thesis unfolding start clock_of_congruent(2) [OF hms]
      using assms(2,3) by (simp del: mult_numeral_left_semiring_numeral)
  qed
  have "local_clock UTC start = parseClock (sch_clock s)"
    unfolding start clock_of_congruent(1) [OF hms] hms ..
  then show ?thesis using period_start_bounds [OF p(1), where c = c and now = now] st same wd by simp
qed

definition sample_schedule :: "string \<Rightarrow> schedule" where
  "sample_schedule period = \<lparr>sch_period = period, sch_duration = 0, sch_anchor = 0, sch_clock = ''06:30'',
     sch_location = Some UTC, sch_weekday = 1\<rparr>"

theorem civil_bounds_partition_witness:
  "local_weekday UTC (fst (bounds (sample_schedule ''weekly'') 63123456789123450000)) = 1"
proof -
  obtain a b where "bounds (sample_schedule ''weekly'') 63123456789123450000 = (a, b)"
    by (cases "bounds (sample_schedule ''weekly'') 63123456789123450000")
  then show ?thesis using civil_bounds_partition [of "sample_schedule ''weekly''" 63123456789123450000 a b]
    by (simp add: sample_schedule_def schedule_loc_def)
qed

text \<open>An interval schedule cuts time into periods of its duration that start at whole multiples of the
  duration from the anchor, and the current period contains now.\<close>

theorem interval_bounds_partition:
  assumes "sch_period s \<noteq> ''daily''" "sch_period s \<noteq> ''weekly''" "0 < sch_duration s"
    and "a = (if IsZero (sch_anchor s) then unixEpoch else sch_anchor s)"
    and "\<bar>now - a\<bar> + sch_duration s < 2 ^ 63"
    and "bounds s now = (start, finish)"
  shows "start \<le> now \<and> now < finish \<and> finish = start + sch_duration s \<and> sch_duration s dvd start - a"
  using bounds_interval [OF assms(1-5)] assms(6) period_start_bounds [OF assms(3), where c = a and now = now]
    period_start_congruent [OF assms(3), of a now] by auto

theorem interval_bounds_partition_witness:
  "bounds (sample_schedule ''interval'' \<lparr>sch_duration := 100, sch_anchor := 1030\<rparr>) 1007 = (930, 1030)"
proof -
  let ?s = "sample_schedule ''interval'' \<lparr>sch_duration := 100, sch_anchor := 1030\<rparr>"
  obtain a b where ab: "bounds ?s 1007 = (a, b)" by (cases "bounds ?s 1007")
  have "a \<le> 1007 \<and> 1007 < b \<and> b = a + 100 \<and> 100 dvd a - 1030"
    using interval_bounds_partition [OF _ _ _ refl _ ab] by (simp add: sample_schedule_def IsZero_def)
  then obtain k where "a - 1030 = 100 * k" "a \<le> 1007" "907 < a" "b = a + 100" by (auto elim!: dvdE)
  then have "k = -1" by presburger
  then show ?thesis using ab \<open>a - 1030 = 100 * k\<close> \<open>b = a + 100\<close> by simp
qed

end
