(* ===== verification/Runtime_Model.thy ===== *)
theory Runtime_Model
  imports Provider_Errors Complex_Main
begin

text \<open>
  Package \<open>internal/runtime\<close>: the neutral request, response, stream and plan types every other
  package exchanges. A \<open>json.RawMessage\<close> is its bytes. A \<open>float64\<close> is a rational; where the
  code computes with floats, the rounding of each operation is written out as a function
  \<open>rnd\<close>. The string-typed enumerations (\<open>ContentPartType\<close>, \<open>MessageRole\<close>, ...) are strings,
  as in the code, with named constants.
\<close>

type_synonym float64 = rat
type_synonym raw_json = string

abbreviation ContentPartTypeText where "ContentPartTypeText \<equiv> ''text''"
abbreviation ContentPartTypeJSON where "ContentPartTypeJSON \<equiv> ''json''"
abbreviation MessageRoleAssistant where "MessageRoleAssistant \<equiv> ''assistant''"
abbreviation StepTypeOutbound where "StepTypeOutbound \<equiv> ''outbound''"
abbreviation FallbackOnRetryable where "FallbackOnRetryable \<equiv> ''retryable''"
abbreviation FinishReasonStop where "FinishReasonStop \<equiv> ''stop''"
abbreviation FinishReasonLength where "FinishReasonLength \<equiv> ''length''"
abbreviation FinishReasonError where "FinishReasonError \<equiv> ''error''"
abbreviation FinishReasonToolUse where "FinishReasonToolUse \<equiv> ''tool_use''"
abbreviation FinishReasonEndTurn where "FinishReasonEndTurn \<equiv> ''end_turn''"
abbreviation StreamEventMessageStart where "StreamEventMessageStart \<equiv> ''message_start''"
abbreviation StreamEventContentDelta where "StreamEventContentDelta \<equiv> ''content_delta''"
abbreviation StreamEventMessageEnd where "StreamEventMessageEnd \<equiv> ''message_end''"
abbreviation StreamEventUsage where "StreamEventUsage \<equiv> ''usage''"
abbreviation StreamEventError where "StreamEventError \<equiv> ''error''"
abbreviation RoutingStrategyRoundRobin where "RoutingStrategyRoundRobin \<equiv> ''round_robin''"
abbreviation RoutingStrategyWeightedRoundRobin where "RoutingStrategyWeightedRoundRobin \<equiv> ''weighted_round_robin''"
abbreviation UsageSourceProvider where "UsageSourceProvider \<equiv> ''provider''"
abbreviation UsageSourceProviderAPI where "UsageSourceProviderAPI \<equiv> ''provider_count_api''"
abbreviation UsageSourceEstimated where "UsageSourceEstimated \<equiv> ''estimated''"
abbreviation UsageStatusSuccess where "UsageStatusSuccess \<equiv> ''success''"
abbreviation UsageStatusError where "UsageStatusError \<equiv> ''error''"

record ContentPart =
  cp_Type :: string
  cp_Text :: string
  cp_Data :: raw_json

record ToolCall =
  tc_ID :: string
  tc_Type :: string
  tc_Name :: string
  tc_Arguments :: string
  tc_Input :: string

record ToolDefinition =
  td_Type :: string
  td_Name :: string
  td_Description :: string
  td_InputSchema :: raw_json
  td_Format :: raw_json
  td_Raw :: raw_json

record Message =
  msg_Role :: string
  msg_Parts :: "ContentPart list"
  msg_ToolCalls :: "ToolCall list"
  msg_ToolCallID :: string
  msg_ToolCallType :: string
  msg_ToolResultIsError :: bool

record Request =
  req_Model :: string
  req_System :: string
  req_MaxTokens :: int
  req_Messages :: "Message list"
  req_Tools :: "ToolDefinition list"
  req_ToolChoice :: raw_json
  req_Stream :: bool
  req_PreviousResponseID :: string
  req_Metadata :: raw_json
  req_ThinkingType :: string
  req_ContextManagement :: raw_json
  req_OutputEffort :: string

record Usage =
  us_InputTokens :: int
  us_OutputTokens :: int
  us_CachedInputReadTokens :: int
  us_CachedInputWriteTokens :: int
  us_TotalTokens :: int
  us_Source :: string

record UsageBreakdown =
  ub_RequestCount :: int
  ub_InputTokens :: int
  ub_OutputTokens :: int
  ub_CachedInputReadTokens :: int
  ub_CachedInputWriteTokens :: int
  ub_TotalTokens :: int
  ub_ToolUnits :: "(string \<times> float64) list"

record UsageRecord =
  ur_RequestID :: string
  ur_ClientName :: string
  ur_InboundName :: string
  ur_InboundProtocol :: string
  ur_ActiveTag :: string
  ur_MatchedRule :: string
  ur_Strategy :: string
  ur_OutboundName :: string
  ur_OutboundProtocol :: string
  ur_ProviderName :: string
  ur_RequestedModel :: string
  ur_ExecutedModel :: string
  ur_UsageSource :: string
  ur_Status :: string
  ur_ErrorKind :: string
  ur_SessionID :: string
  ur_Agent :: string
  ur_CostUSD :: float64
  ur_Priced :: bool
  ur_Breakdown :: UsageBreakdown
  ur_StartedAt :: string
  ur_FinishedAt :: string
  ur_LatencyMs :: int
  ur_FallbackCount :: int

record Response =
  resp_ID :: string
  resp_Object :: string
  resp_Model :: string
  resp_Message :: Message
  resp_FinishReason :: string
  resp_Usage :: "Usage option"

record StreamEvent =
  se_Type :: string
  se_ResponseID :: string
  se_Model :: string
  se_MessageRole :: string
  se_Delta :: "ContentPart option"
  se_ToolCall :: "ToolCall option"
  se_ToolCallIndex :: int
  se_FinishReason :: string
  se_Usage :: "Usage option"
  se_Err :: "go_error option"

text \<open>
  The interface \<open>CompletionProvider\<close>: a dynamic type (what \<open>providerProtocol\<close> switches on),
  a name and the two calls. A call that returns a stream returns the events the channel
  delivers before it is closed.
\<close>

datatype provider_type = MockProvider | OpenAICompatibleProvider | AnthropicMessagesProvider | OtherProvider

record CompletionProvider =
  prov_type :: provider_type
  prov_Name :: string
  prov_ChatCompletion :: "Request \<Rightarrow> go_error + Response"
  prov_StreamCompletion :: "Request \<Rightarrow> go_error + StreamEvent list"

record RouteContext =
  rc_Request :: Request
  rc_ClientName :: string
  rc_InboundName :: string
  rc_InboundProtocol :: string
  rc_ActiveTag :: string

record ExecutionStep =
  es_Type :: string
  es_OutboundName :: string
  es_OutboundProtocol :: string
  es_OutboundTarget :: "CompletionProvider option"
  es_Model :: string
  es_ModelUnavailable :: bool
  es_OnError :: string

record ExecutionPlan =
  pl_ClientName :: string
  pl_InboundName :: string
  pl_InboundProtocol :: string
  pl_ActiveTag :: string
  pl_RequestedModel :: string
  pl_MatchedRule :: string
  pl_Strategy :: string
  pl_ResolvedToTags :: "string list"
  pl_Steps :: "ExecutionStep list"

end
