(* ===== verification/Config_Types.thy ===== *)
theory Config_Types
  imports Runtime_Model
begin

text \<open>
  Package \<open>internal/config\<close>: the configuration records of \<open>config.go\<close> and the resource
  operations of \<open>resources.go\<close>; package \<open>internal/protocol\<close>. A \<open>*bool\<close> is a \<open>bool option\<close>,
  a \<open>DurationValue\<close> and a \<open>json.Number\<close> are their text, a map is an association list.
\<close>

type_synonym DurationValue = string

record AdminLogsRotationConfig =
  rot_MaxSizeMB :: int
  rot_MaxFiles :: int
  rot_MaxAgeDays :: int
  rot_MaxTotalSizeMB :: int
  rot_Compress :: "bool option"

record AdminLogsConfig =
  alog_Enabled :: bool
  alog_Path :: string
  alog_MaxBytes :: int
  alog_Rotation :: AdminLogsRotationConfig

record AdminConfig =
  adm_Enabled :: bool
  adm_Token :: string
  adm_Logs :: AdminLogsConfig

record ListenerSpec =
  ls_Name :: string
  ls_Listen :: string
  ls_Inbounds :: "string list"

record QuotaWindowConfig =
  qw_Name :: string
  qw_Type :: string
  qw_Duration :: DurationValue
  qw_MaxRequests :: int
  qw_MaxTokens :: int
  qw_MaxCostUSD :: string

record ClientQuotaConfig =
  cq_Enabled :: bool
  cq_Windows :: "QuotaWindowConfig list"

record ClientSpec =
  cl_Name :: string
  cl_Token :: string
  cl_Quota :: ClientQuotaConfig

record ClientBindingSpec =
  cb_Ref :: string
  cb_Tag :: string

record QuotaFixedScheduleConfig =
  fx_Period :: string
  fx_Anchor :: string
  fx_Time :: string
  fx_Timezone :: string
  fx_Weekday :: string

record OutboundQuotaWindowConfig =
  oqw_Name :: string
  oqw_Reset :: string
  oqw_Duration :: DurationValue
  oqw_Fixed :: QuotaFixedScheduleConfig
  oqw_MaxRequests :: int
  oqw_MaxTokens :: int

record QuotaResetScheduleConfig =
  rs_Period :: string
  rs_Duration :: DurationValue
  rs_Anchor :: string
  rs_Time :: string
  rs_Timezone :: string
  rs_Weekday :: string

record QuotaResetAllConfig =
  ra_Enabled :: bool
  ra_Schedule :: QuotaResetScheduleConfig

record InboundSpec =
  in_Name :: string
  in_Protocol :: string
  in_Path :: string
  in_Clients :: "ClientBindingSpec list"

text \<open>The match of a rule is a pointer: \<open>None\<close> when absent, else the model patterns.\<close>

record RoutingRule =
  rr_Name :: string
  rr_FromTags :: "string list"
  rr_ToTags :: "string list"
  rr_Strategy :: string
  rr_Weights :: "(string \<times> int) list"
  rr_TargetModel :: string
  rr_ModelMap :: "(string \<times> string) list"
  rr_Match :: "string list option"

record OutboundAuthConfig =
  au_Type :: string
  au_CredentialRef :: string

record OutboundModelSpec =
  om_Name :: string
  om_Aliases :: "string list"

record OutboundCapabilities =
  ca_ResponsesPreviousResponseID :: "bool option"
  ca_ResponsesBuiltinTools :: "bool option"
  ca_ResponsesToolResultStatusError :: "bool option"
  ca_ResponsesAssistantHistoryNative :: "bool option"
  ca_UsageEstimation :: bool
  ca_UsageEstimationMode :: string

record OutboundQuotaConfig =
  oq_Enabled :: bool
  oq_Windows :: "OutboundQuotaWindowConfig list"
  oq_Cooldown :: DurationValue
  oq_ProbeInterval :: DurationValue
  oq_ResetAll :: QuotaResetAllConfig

record OutboundSpec =
  ob_Name :: string
  ob_Protocol :: string
  ob_Endpoint :: string
  ob_AuthToken :: string
  ob_Auth :: OutboundAuthConfig
  ob_Tag :: string
  ob_Enabled :: "bool option"
  ob_Models :: "OutboundModelSpec list"
  ob_Capabilities :: OutboundCapabilities
  ob_Quota :: OutboundQuotaConfig
  ob_ProxyURL :: string

record SessionSnapshotConfig =
  ssc_Enabled :: "bool option"
  ssc_Dir :: string
  ssc_FlushInterval :: DurationValue

record GovernanceConfig =
  gov_SnapshotEnabled :: bool
  gov_SnapshotDir :: string
  gov_SnapshotFlushInterval :: DurationValue
  gov_EventsEnabled :: bool
  gov_EventsMaxEntries :: int

record AccountingPriceConfig =
  pr_Provider :: string
  pr_Model :: string
  pr_InputPerMillionUSD :: float64
  pr_OutputPerMillionUSD :: float64
  pr_CacheCreatePerMillionUSD :: float64
  pr_CacheReadPerMillionUSD :: float64

record AccountingLocalFileConfig =
  alf_Dir :: string
  alf_RotateMaxSizeMB :: int
  alf_RetentionDays :: int
  alf_SnapshotInterval :: DurationValue
  alf_SnapshotRetentionDays :: int
  alf_WriteBufferRecords :: int
  alf_FlushInterval :: DurationValue
  alf_QueueSize :: int

record AccountingConfig =
  ac_Enabled :: bool
  ac_Backend :: string
  ac_ExposeHTTP :: bool
  ac_AdminToken :: string
  ac_LocalFile :: AccountingLocalFileConfig
  ac_Pricing :: "AccountingPriceConfig list"

record Config =
  cfg_ServerListen :: string
  cfg_Listeners :: "ListenerSpec list"
  cfg_Clients :: "ClientSpec list"
  cfg_Inbounds :: "InboundSpec list"
  cfg_Rules :: "RoutingRule list"
  cfg_Outbounds :: "OutboundSpec list"
  cfg_Accounting :: AccountingConfig
  cfg_Governance :: GovernanceConfig
  cfg_SessionSnapshot :: SessionSnapshotConfig
  cfg_OAuthDir :: string
  cfg_Admin :: AdminConfig

section \<open>Protocol names\<close>

definition IsSupportedInbound :: "string \<Rightarrow> bool" where
  "IsSupportedInbound n = (n \<in> {''openai_chat'', ''openai_responses'', ''anthropic_messages''})"

definition IsSupportedOutbound :: "string \<Rightarrow> bool" where
  "IsSupportedOutbound n =
     (n \<in> {''mock'', ''openai_chat'', ''openai_responses'', ''anthropic_messages''})"

section \<open>Resource operations\<close>

text \<open>
  The pattern of \<open>UpsertClient\<close>, \<open>UpsertOutbound\<close>, \<open>UpsertRoute\<close> and of the bindings: replace
  the first item of the same key, or append.
\<close>

fun upsert_by :: "('a \<Rightarrow> 'k) \<Rightarrow> 'a \<Rightarrow> 'a list \<Rightarrow> 'a list" where
  "upsert_by key x [] = [x]"
| "upsert_by key x (y # ys) = (if key y = key x then x # ys else y # upsert_by key x ys)"

definition delete_by :: "('a \<Rightarrow> 'k) \<Rightarrow> 'k \<Rightarrow> 'a list \<Rightarrow> 'a list" where
  "delete_by key k xs = filter (\<lambda>y. key y \<noteq> k) xs"

definition find_by :: "('a \<Rightarrow> 'k) \<Rightarrow> 'k \<Rightarrow> 'a list \<Rightarrow> 'a option" where
  "find_by key k xs = find (\<lambda>y. key y = k) xs"

definition FindClient :: "Config \<Rightarrow> string \<Rightarrow> ClientSpec option" where
  "FindClient cfg n = find_by cl_Name n (cfg_Clients cfg)"

definition UpsertClient :: "Config \<Rightarrow> ClientSpec \<Rightarrow> Config" where
  "UpsertClient cfg c = cfg\<lparr>cfg_Clients := upsert_by cl_Name c (cfg_Clients cfg)\<rparr>"

definition DeleteClient :: "Config \<Rightarrow> string \<Rightarrow> Config" where
  "DeleteClient cfg n = cfg\<lparr>cfg_Clients := delete_by cl_Name n (cfg_Clients cfg)\<rparr>"

definition UpsertOutbound :: "Config \<Rightarrow> OutboundSpec \<Rightarrow> Config" where
  "UpsertOutbound cfg c = cfg\<lparr>cfg_Outbounds := upsert_by ob_Name c (cfg_Outbounds cfg)\<rparr>"

definition DeleteOutbound :: "Config \<Rightarrow> string \<Rightarrow> Config" where
  "DeleteOutbound cfg n = cfg\<lparr>cfg_Outbounds := delete_by ob_Name n (cfg_Outbounds cfg)\<rparr>"

definition UpsertRoute :: "Config \<Rightarrow> RoutingRule \<Rightarrow> Config" where
  "UpsertRoute cfg c = cfg\<lparr>cfg_Rules := upsert_by rr_Name c (cfg_Rules cfg)\<rparr>"

definition DeleteRoute :: "Config \<Rightarrow> string \<Rightarrow> Config" where
  "DeleteRoute cfg n = cfg\<lparr>cfg_Rules := delete_by rr_Name n (cfg_Rules cfg)\<rparr>"

text \<open>The binding operations work on the first inbound of the given name.\<close>

fun on_inbound ::
  "string \<Rightarrow> (ClientBindingSpec list \<Rightarrow> ClientBindingSpec list) \<Rightarrow> InboundSpec list \<Rightarrow> InboundSpec list option"
where
  "on_inbound n f [] = None"
| "on_inbound n f (i # is) =
     (if in_Name i = n then Some (i\<lparr>in_Clients := f (in_Clients i)\<rparr> # is)
      else map_option (\<lambda>is'. i # is') (on_inbound n f is))"

definition FindBinding :: "Config \<Rightarrow> string \<Rightarrow> string \<Rightarrow> string + ClientBindingSpec option" where
  "FindBinding cfg inboundName ref =
     (case find_by in_Name inboundName (cfg_Inbounds cfg) of
        None \<Rightarrow> Inl inboundName
      | Some i \<Rightarrow> Inr (find_by cb_Ref ref (in_Clients i)))"

definition UpsertBinding :: "Config \<Rightarrow> string \<Rightarrow> ClientBindingSpec \<Rightarrow> string + Config" where
  "UpsertBinding cfg inboundName b =
     (case on_inbound inboundName (upsert_by cb_Ref b) (cfg_Inbounds cfg) of
        None \<Rightarrow> Inl inboundName
      | Some is \<Rightarrow> Inr (cfg\<lparr>cfg_Inbounds := is\<rparr>))"

definition DeleteBinding :: "Config \<Rightarrow> string \<Rightarrow> string \<Rightarrow> string + Config" where
  "DeleteBinding cfg inboundName ref =
     (case on_inbound inboundName (delete_by cb_Ref ref) (cfg_Inbounds cfg) of
        None \<Rightarrow> Inl inboundName
      | Some is \<Rightarrow> Inr (cfg\<lparr>cfg_Inbounds := is\<rparr>))"

definition ClientBindings :: "Config \<Rightarrow> string \<Rightarrow> (InboundSpec \<times> ClientBindingSpec) list" where
  "ClientBindings cfg n =
     concat (map (\<lambda>i. map (\<lambda>b. (i, b)) (filter (\<lambda>b. cb_Ref b = n) (in_Clients i))) (cfg_Inbounds cfg))"

record ResolvedClientBinding =
  rcb_Client :: ClientSpec
  rcb_Binding :: ClientBindingSpec

definition ResolveClientBinding :: "Config \<Rightarrow> ClientBindingSpec \<Rightarrow> ResolvedClientBinding option" where
  "ResolveClientBinding cfg b =
     map_option (\<lambda>c. \<lparr>rcb_Client = c, rcb_Binding = b\<rparr>) (FindClient cfg (cb_Ref b))"

definition ResolveInboundClients :: "Config \<Rightarrow> InboundSpec \<Rightarrow> ResolvedClientBinding list" where
  "ResolveInboundClients cfg i = List.map_filter (ResolveClientBinding cfg) (in_Clients i)"

datatype move_error = FromOutOfBounds int | ToOutOfBounds int | SameIndex

text \<open>\<open>MoveRoute\<close>: the \<open>copy\<close> calls shift the rules between the two indices by one place.\<close>

definition move_rules :: "nat \<Rightarrow> nat \<Rightarrow> 'a list \<Rightarrow> 'a list" where
  "move_rules from to rules =
     (let moved = rules ! from;
          shifted =
            (if from < to
             then take from rules @ take (to - from) (drop (Suc from) rules) @ drop to rules
             else take (Suc to) rules @ take (from - to) (drop to rules) @ drop (Suc from) rules)
      in shifted[to := moved])"

definition MoveRoute :: "Config \<Rightarrow> int \<Rightarrow> int \<Rightarrow> move_error + Config" where
  "MoveRoute cfg fromIndex toIndex =
     (let n = int (length (cfg_Rules cfg))
      in if fromIndex < 0 \<or> n \<le> fromIndex then Inl (FromOutOfBounds fromIndex)
         else if toIndex < 0 \<or> n \<le> toIndex then Inl (ToOutOfBounds toIndex)
         else if fromIndex = toIndex then Inl SameIndex
         else Inr (cfg\<lparr>cfg_Rules := move_rules (nat fromIndex) (nat toIndex) (cfg_Rules cfg)\<rparr>))"

definition OutboundEnabled :: "OutboundSpec \<Rightarrow> bool" where
  "OutboundEnabled out = (ob_Enabled out = None \<or> ob_Enabled out = Some True)"

fun set_enabled :: "string \<Rightarrow> bool \<Rightarrow> OutboundSpec list \<Rightarrow> OutboundSpec list option" where
  "set_enabled n b [] = None"
| "set_enabled n b (x # xs) =
     (if ob_Name x = n then Some (x\<lparr>ob_Enabled := Some b\<rparr> # xs)
      else map_option (\<lambda>xs'. x # xs') (set_enabled n b xs))"

definition SetOutboundEnabled :: "Config \<Rightarrow> string \<Rightarrow> bool \<Rightarrow> string + Config" where
  "SetOutboundEnabled cfg n b =
     (case set_enabled n b (cfg_Outbounds cfg) of
        None \<Rightarrow> Inl n
      | Some xs \<Rightarrow> Inr (cfg\<lparr>cfg_Outbounds := xs\<rparr>))"

definition RedactedValue :: string where
  "RedactedValue = ''<redacted>''"

definition redactValue :: "string \<Rightarrow> string" where
  "redactValue v = (if v = [] then [] else RedactedValue)"

definition PreserveSecret :: "string \<Rightarrow> string \<Rightarrow> string" where
  "PreserveSecret nxt current = (if nxt = [] \<or> nxt = RedactedValue then current else nxt)"

definition RedactedConfig :: "Config \<Rightarrow> Config" where
  "RedactedConfig cfg =
     cfg\<lparr>cfg_Admin := (cfg_Admin cfg)\<lparr>adm_Token := redactValue (adm_Token (cfg_Admin cfg))\<rparr>,
         cfg_Accounting := (cfg_Accounting cfg)
           \<lparr>ac_AdminToken := redactValue (ac_AdminToken (cfg_Accounting cfg))\<rparr>,
         cfg_Clients := map (\<lambda>c. c\<lparr>cl_Token := redactValue (cl_Token c)\<rparr>) (cfg_Clients cfg),
         cfg_Outbounds := map (\<lambda>x. x\<lparr>ob_AuthToken := redactValue (ob_AuthToken x)\<rparr>) (cfg_Outbounds cfg)\<rparr>"

section \<open>Lemmas\<close>

lemma find_by_upsert: "find_by key (key x) (upsert_by key x xs) = Some x"
  by (induction xs) (auto simp: find_by_def)

lemma find_by_upsert_other: "k \<noteq> key x \<Longrightarrow> find_by key k (upsert_by key x xs) = find_by key k xs"
  by (induction xs) (auto simp: find_by_def)

lemma find_by_delete: "find_by key k (delete_by key k xs) = None"
  by (auto simp: find_by_def delete_by_def find_None_iff)

lemma find_by_delete_other: "j \<noteq> k \<Longrightarrow> find_by key j (delete_by key k xs) = find_by key j xs"
  by (induction xs) (auto simp: find_by_def delete_by_def)

lemma distinct_upsert: "distinct (map key xs) \<Longrightarrow> distinct (map key (upsert_by key x xs))"
proof (induction xs)
  case (Cons y ys)
  have "key ` set (upsert_by key x ys) = insert (key x) (key ` set ys)"
    by (induction ys) auto
  then show ?case using Cons by auto
qed simp

lemma find_by_SomeD: "find_by key k xs = Some x \<Longrightarrow> x \<in> set xs \<and> key x = k"
  by (auto simp: find_by_def find_Some_iff)

lemma on_inbound_find:
  "on_inbound n f is = Some is' \<Longrightarrow>
     find_by in_Name n is' = map_option (\<lambda>i. i\<lparr>in_Clients := f (in_Clients i)\<rparr>) (find_by in_Name n is)"
  by (induction "is" arbitrary: is') (auto simp: find_by_def split: if_splits)

end
