(* ===== verification/Config_Values.thy ===== *)
theory Config_Values
  imports Config_Types Go_Parse
begin

text \<open>
  Package \<open>internal/config\<close>: the values of the configuration that are written as text, durations
  (\<open>DurationValue\<close>) and amounts of money (\<open>costUSDMicro\<close>), and \<open>strconv.ParseInt\<close>.
\<close>

definition DurationValue_Duration :: "(rat \<Rightarrow> rat) \<Rightarrow> DurationValue \<Rightarrow> duration" where
  "DurationValue_Duration rnd d =
     (if d = [] then 0 else (case ParseDuration rnd d of None \<Rightarrow> 0 | Some parsed \<Rightarrow> parsed))"

text \<open>\<open>strconv.ParseInt(s, 10, 64)\<close>.\<close>

definition ParseInt :: "string \<Rightarrow> int option" where
  "ParseInt s =
     (let neg = (s \<noteq> [] \<and> hd s = CHR ''-'');
          ds = (if s \<noteq> [] \<and> (hd s = CHR ''-'' \<or> hd s = CHR ''+'') then tl s else s);
          v = (if neg then - digits_value ds else digits_value ds)
      in if ds \<noteq> [] \<and> list_all is_digit ds \<and> int64 v then Some v else None)"

datatype cost_error = CostNotPositive | CostNotDecimal | CostTooManyDigits | CostTooLarge

text \<open>The loop that appends zeros until the fraction has six digits.\<close>

definition pad_fraction :: "string \<Rightarrow> string" where
  "pad_fraction f = f @ replicate (6 - length f) (CHR ''0'')"

definition costUSDMicro :: "string \<Rightarrow> cost_error + int" where
  "costUSDMicro txt =
     (let parts = Split txt (CHR ''.'')
      in if txt = [] then Inl CostNotPositive
         else if HasPrefix txt ''+'' \<or> CHR ''e'' \<in> set txt \<or> CHR ''E'' \<in> set txt then Inl CostNotDecimal
         else if 2 < length parts \<or> parts ! 0 = [] \<or> HasPrefix (parts ! 0) ''-'' then Inl CostNotDecimal
         else if length parts = 2 \<and> 6 < length (parts ! 1) then Inl CostTooManyDigits
         else
           (case ParseInt (parts ! 0) of
              None \<Rightarrow> Inl CostNotDecimal
            | Some whole \<Rightarrow>
                if length parts = 2 \<and> parts ! 1 = [] then Inl CostNotDecimal
                else
                  (case ParseInt (pad_fraction (if length parts = 2 then parts ! 1 else [])) of
                     None \<Rightarrow> Inl CostNotDecimal
                   | Some fractionMicro \<Rightarrow>
                       if wrap64 (2 ^ 63 - 1 - fractionMicro) sdiv 1000000 < whole then Inl CostTooLarge
                       else
                         (let micro = wrap64 (wrap64 (whole * 1000000) + fractionMicro)
                          in if micro \<le> 0 then Inl CostNotPositive else Inr micro))))"

definition MaxCostMicroUSD :: "QuotaWindowConfig \<Rightarrow> int" where
  "MaxCostMicroUSD w = (case costUSDMicro (qw_MaxCostUSD w) of Inl _ \<Rightarrow> 0 | Inr v \<Rightarrow> v)"

end
