(* ===== verification/Quota_Tracker.thy ===== *)
theory Quota_Tracker
  imports Quota_Window Config_Values
begin

text \<open>
  Package \<open>internal/quota\<close>, file \<open>tracker.go\<close>, the tracker: one state per outbound or client,
  admission, usage, cooldown and probes, snapshots, persistence and reconfiguration. A nil
  \<open>*Tracker\<close> is \<open>None\<close>; every call takes the instant \<open>now\<close> its clock returns. The mutex makes
  each call atomic, so a run is a sequence of calls.
\<close>

definition StateAvailable :: string where "StateAvailable = ''available''"
definition StateLimited :: string where "StateLimited = ''limited''"
definition StateCooldown :: string where "StateCooldown = ''cooldown''"

section \<open>Data\<close>

record ResetAllConfig =
  rc_Enabled :: bool
  rc_Period :: string
  rc_Duration :: duration
  rc_Anchor :: gotime
  rc_Time :: string
  rc_Timezone :: string
  rc_Weekday :: int

record OutboundConfig =
  oc_Name :: string
  oc_Windows :: "WindowConfig list"
  oc_Cooldown :: duration
  oc_ProbeInterval :: duration
  oc_ResetAll :: ResetAllConfig

record ClientConfig =
  cc_Name :: string
  cc_Inbound :: string
  cc_Windows :: "WindowConfig list"

text \<open>The \<open>any\<close> fields of a blocking window hold an integer or a \<open>json.Number\<close>.\<close>

datatype quota_amount = IntAmount int | TextAmount string

record BlockingWindow =
  bw_Window :: string
  bw_Type :: string
  bw_Limit :: quota_amount
  bw_Used :: quota_amount
  bw_Unit :: string
  bw_RetryAfter :: string

record Decision =
  qd_Allowed :: bool
  qd_Reason :: string
  qd_Probe :: bool
  qd_RetryAfter :: gotime
  qd_BlockingWindows :: "BlockingWindow list"

definition quota_allow :: Decision where
  "quota_allow = \<lparr>qd_Allowed = True, qd_Reason = [], qd_Probe = False, qd_RetryAfter = zeroTime,
     qd_BlockingWindows = []\<rparr>"

record subjectState =
  s_name :: string
  s_inbound :: string
  s_windows :: "windowState list"
  s_cooldown :: duration
  s_probeInterval :: duration
  s_resetAll :: schedule
  s_cooldownUntil :: gotime
  s_nextProbeAt :: gotime
  s_lastQuotaExceededAt :: gotime
  s_lastSuccessAt :: gotime
  s_probeInFlight :: bool

record Tracker =
  t_client :: bool
  t_subjects :: "(string \<times> subjectState) list"

section \<open>Construction\<close>

definition parseConfigTime :: "string \<Rightarrow> gotime" where
  "parseConfigTime val = (case parse_RFC3339 val of None \<Rightarrow> zeroTime | Some t \<Rightarrow> t)"

definition parseWeekday :: "string \<Rightarrow> int" where
  "parseWeekday val =
     (case find (\<lambda>day. EqualFold val (weekday_String day)) [0, 1, 2, 3, 4, 5, 6] of
        None \<Rightarrow> 0
      | Some day \<Rightarrow> day)"

definition clientWindowsFromConfig :: "(rat \<Rightarrow> rat) \<Rightarrow> QuotaWindowConfig list \<Rightarrow> WindowConfig list" where
  "clientWindowsFromConfig rnd windows =
     map (\<lambda>w. \<lparr>wc_Name = qw_Name w, wc_Type = qw_Type w, wc_Reset = ''rolling'',
               wc_Duration = DurationValue_Duration rnd (qw_Duration w), wc_FixedPeriod = [],
               wc_Anchor = zeroTime, wc_Time = [], wc_Timezone = [], wc_Weekday = 0,
               wc_MaxRequests = qw_MaxRequests w, wc_MaxTokens = qw_MaxTokens w,
               wc_MaxCostMicroUSD = MaxCostMicroUSD w\<rparr>) windows"

definition outboundWindowsFromConfig ::
  "(rat \<Rightarrow> rat) \<Rightarrow> OutboundQuotaWindowConfig list \<Rightarrow> WindowConfig list" where
  "outboundWindowsFromConfig rnd windows =
     map (\<lambda>w. \<lparr>wc_Name = oqw_Name w, wc_Type = [],
               wc_Reset = (if oqw_Reset w = [] then ''rolling'' else oqw_Reset w),
               wc_Duration = DurationValue_Duration rnd (oqw_Duration w),
               wc_FixedPeriod = fx_Period (oqw_Fixed w),
               wc_Anchor = parseConfigTime (fx_Anchor (oqw_Fixed w)), wc_Time = fx_Time (oqw_Fixed w),
               wc_Timezone = fx_Timezone (oqw_Fixed w), wc_Weekday = parseWeekday (fx_Weekday (oqw_Fixed w)),
               wc_MaxRequests = oqw_MaxRequests w, wc_MaxTokens = oqw_MaxTokens w,
               wc_MaxCostMicroUSD = 0\<rparr>) windows"

definition resetAllFromConfig :: "(rat \<Rightarrow> rat) \<Rightarrow> QuotaResetAllConfig \<Rightarrow> ResetAllConfig" where
  "resetAllFromConfig rnd v =
     (let s = ra_Schedule v
      in \<lparr>rc_Enabled = ra_Enabled v, rc_Period = rs_Period s,
          rc_Duration = DurationValue_Duration rnd (rs_Duration s),
          rc_Anchor = parseConfigTime (rs_Anchor s), rc_Time = rs_Time s, rc_Timezone = rs_Timezone s,
          rc_Weekday = parseWeekday (rs_Weekday s)\<rparr>)"

definition outboundConfigs :: "(rat \<Rightarrow> rat) \<Rightarrow> OutboundSpec list \<Rightarrow> OutboundConfig list" where
  "outboundConfigs rnd outbounds =
     map (\<lambda>out. \<lparr>oc_Name = ob_Name out,
                 oc_Windows = outboundWindowsFromConfig rnd (oq_Windows (ob_Quota out)),
                 oc_Cooldown = DurationValue_Duration rnd (oq_Cooldown (ob_Quota out)),
                 oc_ProbeInterval = DurationValue_Duration rnd (oq_ProbeInterval (ob_Quota out)),
                 oc_ResetAll = resetAllFromConfig rnd (oq_ResetAll (ob_Quota out))\<rparr>)
       (filter (\<lambda>out. oq_Enabled (ob_Quota out)) outbounds)"

definition clientConfigs :: "(rat \<Rightarrow> rat) \<Rightarrow> ClientSpec list \<Rightarrow> ClientConfig list" where
  "clientConfigs rnd clients =
     map (\<lambda>c. \<lparr>cc_Name = cl_Name c, cc_Inbound = [],
               cc_Windows = clientWindowsFromConfig rnd (cq_Windows (cl_Quota c))\<rparr>)
       (filter (\<lambda>c. cq_Enabled (cl_Quota c)) clients)"

definition newResetSchedule :: "(string \<Rightarrow> location option) \<Rightarrow> ResetAllConfig \<Rightarrow> schedule" where
  "newResetSchedule loadLocation cfg =
     (if \<not> rc_Enabled cfg then empty_schedule
      else newSchedule loadLocation (rc_Period cfg) (rc_Duration cfg) (rc_Anchor cfg) (rc_Time cfg)
             (rc_Timezone cfg) (rc_Weekday cfg))"

definition newSubjectState ::
  "(string \<Rightarrow> location option) \<Rightarrow> string \<Rightarrow> string \<Rightarrow> WindowConfig list \<Rightarrow> duration \<Rightarrow> duration \<Rightarrow>
   ResetAllConfig \<Rightarrow> subjectState" where
  "newSubjectState loadLocation n inbound windows cooldown probeInterval resetAll =
     \<lparr>s_name = n, s_inbound = inbound, s_windows = map (newWindowState loadLocation) windows,
      s_cooldown = cooldown, s_probeInterval = probeInterval,
      s_resetAll = newResetSchedule loadLocation resetAll, s_cooldownUntil = zeroTime,
      s_nextProbeAt = zeroTime, s_lastQuotaExceededAt = zeroTime, s_lastSuccessAt = zeroTime,
      s_probeInFlight = False\<rparr>"

definition noResetAll :: ResetAllConfig where
  "noResetAll = \<lparr>rc_Enabled = False, rc_Period = [], rc_Duration = 0, rc_Anchor = zeroTime, rc_Time = [],
     rc_Timezone = [], rc_Weekday = 0\<rparr>"

definition outboundSubject :: "(string \<Rightarrow> location option) \<Rightarrow> OutboundConfig \<Rightarrow> subjectState" where
  "outboundSubject loadLocation cfg =
     newSubjectState loadLocation (oc_Name cfg) [] (oc_Windows cfg) (oc_Cooldown cfg)
       (oc_ProbeInterval cfg) (oc_ResetAll cfg)"

definition newTrackerFromOutbounds :: "(string \<Rightarrow> location option) \<Rightarrow> OutboundConfig list \<Rightarrow> Tracker" where
  "newTrackerFromOutbounds loadLocation cfgs =
     \<lparr>t_client = False,
      t_subjects = fold (\<lambda>cfg. AList.update (oc_Name cfg) (outboundSubject loadLocation cfg)) cfgs []\<rparr>"

definition normalizeClientWindows :: "WindowConfig list \<Rightarrow> WindowConfig list" where
  "normalizeClientWindows windows =
     map (\<lambda>w. if wc_Type w = [] then w\<lparr>wc_Type := ''requests''\<rparr> else w) windows"

definition clientSubject :: "(string \<Rightarrow> location option) \<Rightarrow> ClientConfig \<Rightarrow> subjectState" where
  "clientSubject loadLocation cfg =
     newSubjectState loadLocation (cc_Name cfg) (cc_Inbound cfg) (normalizeClientWindows (cc_Windows cfg))
       0 0 noResetAll"

definition newTrackerFromClients :: "(string \<Rightarrow> location option) \<Rightarrow> ClientConfig list \<Rightarrow> Tracker" where
  "newTrackerFromClients loadLocation cfgs =
     \<lparr>t_client = True,
      t_subjects = fold (\<lambda>cfg. AList.update (cc_Name cfg) (clientSubject loadLocation cfg)) cfgs []\<rparr>"

definition NewTrackerFromOutbounds ::
  "(rat \<Rightarrow> rat) \<Rightarrow> (string \<Rightarrow> location option) \<Rightarrow> OutboundSpec list \<Rightarrow> Tracker option" where
  "NewTrackerFromOutbounds rnd loadLocation outbounds =
     (let cfgs = outboundConfigs rnd outbounds
      in if cfgs = [] then None else Some (newTrackerFromOutbounds loadLocation cfgs))"

definition NewClientTrackerFromClients ::
  "(rat \<Rightarrow> rat) \<Rightarrow> (string \<Rightarrow> location option) \<Rightarrow> ClientSpec list \<Rightarrow> Tracker option" where
  "NewClientTrackerFromClients rnd loadLocation clients =
     (let cfgs = clientConfigs rnd clients
      in if cfgs = [] then None else Some (newTrackerFromClients loadLocation cfgs))"

section \<open>One subject\<close>

definition subject_rollover :: "gotime \<Rightarrow> subjectState \<Rightarrow> subjectState" where
  "subject_rollover now s =
     (let ws = (if sch_period (s_resetAll s) \<noteq> []
                then map (discardBefore (fst (bounds (s_resetAll s) now))) (s_windows s) else s_windows s);
          s1 = s\<lparr>s_windows := map (window_rollover now) ws\<rparr>
      in if \<not> IsZero (s_cooldownUntil s1) \<and> \<not> now < s_cooldownUntil s1
         then s1\<lparr>s_cooldownUntil := zeroTime, s_nextProbeAt := zeroTime, s_probeInFlight := False\<rparr>
         else s1)"

definition inCooldown :: "gotime \<Rightarrow> subjectState \<Rightarrow> bool" where
  "inCooldown now s = (\<not> IsZero (s_cooldownUntil s) \<and> now < s_cooldownUntil s)"

definition blocking_item :: "gotime \<Rightarrow> windowState \<Rightarrow> BlockingWindow" where
  "blocking_item resetAt w =
     (case window_usage w of (requests, tokens, cost, _) \<Rightarrow>
        let typeName = (if w_typeName w = [] then ''requests'' else w_typeName w)
        in if typeName = ''tokens'' then
             \<lparr>bw_Window = w_name w, bw_Type = typeName, bw_Limit = IntAmount (w_maxTokens w),
              bw_Used = IntAmount tokens, bw_Unit = ''tokens'', bw_RetryAfter = format_or_empty resetAt\<rparr>
           else if typeName = ''cost'' then
             \<lparr>bw_Window = w_name w, bw_Type = typeName,
              bw_Limit = TextAmount (formatMicroUSD (w_maxCostMicroUSD w)),
              bw_Used = TextAmount (formatMicroUSD cost), bw_Unit = ''USD'',
              bw_RetryAfter = format_or_empty resetAt\<rparr>
           else
             \<lparr>bw_Window = w_name w, bw_Type = typeName, bw_Limit = IntAmount (w_maxRequests w),
              bw_Used = IntAmount requests, bw_Unit = ''requests'', bw_RetryAfter = format_or_empty resetAt\<rparr>)"

fun blocking_loop ::
  "gotime \<Rightarrow> windowState list \<Rightarrow> gotime \<times> BlockingWindow list \<Rightarrow> gotime \<times> BlockingWindow list" where
  "blocking_loop now [] acc = acc"
| "blocking_loop now (w # ws) (ra, blocking) =
     (case retryAfter now w of (resetAt, hit) \<Rightarrow>
        if \<not> hit then blocking_loop now ws (ra, blocking)
        else blocking_loop now ws
               (if IsZero ra \<or> resetAt > ra then resetAt else ra, blocking @ [blocking_item resetAt w]))"

definition blockingWindows :: "gotime \<Rightarrow> subjectState \<Rightarrow> gotime \<times> BlockingWindow list" where
  "blockingWindows now s = blocking_loop now (s_windows s) (zeroTime, [])"

definition limitReached :: "gotime \<Rightarrow> subjectState \<Rightarrow> gotime \<times> bool" where
  "limitReached now s = (case blockingWindows now s of (ra, blocking) \<Rightarrow> (ra, blocking \<noteq> []))"

text \<open>The part of \<open>beforeAttempt\<close> that works on the subject.\<close>

definition before_subject :: "gotime \<Rightarrow> bool \<Rightarrow> subjectState \<Rightarrow> Decision \<times> subjectState" where
  "before_subject now allowProbe s0 =
     (let s = subject_rollover now s0
      in if allowProbe \<and> inCooldown now s then
           (if \<not> IsZero (s_nextProbeAt s) \<and> \<not> now < s_nextProbeAt s \<and> \<not> s_probeInFlight s
            then (quota_allow\<lparr>qd_Probe := True\<rparr>, s\<lparr>s_probeInFlight := True\<rparr>)
            else (\<lparr>qd_Allowed = False, qd_Reason = StateCooldown, qd_Probe = False,
                   qd_RetryAfter = s_nextProbeAt s, qd_BlockingWindows = []\<rparr>, s))
         else
           (case blockingWindows now s of (ra, blocking) \<Rightarrow>
              if blocking \<noteq> [] then
                (\<lparr>qd_Allowed = False, qd_Reason = StateLimited, qd_Probe = False, qd_RetryAfter = ra,
                  qd_BlockingWindows = blocking\<rparr>, s)
              else (quota_allow, s)))"

definition window_accepts :: "windowState \<Rightarrow> usageEvent \<Rightarrow> bool" where
  "window_accepts w e =
     (if w_typeName w = ''requests'' then 0 < ev_Requests e
      else if w_typeName w = ''tokens'' then 0 < ev_Tokens e
      else if w_typeName w = ''cost'' then 0 < ev_CostMicroUSD e \<or> 0 < ev_Unpriced e
      else True)"

definition add_event :: "usageEvent \<Rightarrow> windowState \<Rightarrow> windowState" where
  "add_event e w = w\<lparr>w_events := w_events w @ [e]\<rparr>"

definition client_usage_subject :: "gotime \<Rightarrow> usageEvent \<Rightarrow> subjectState \<Rightarrow> subjectState" where
  "client_usage_subject now event s0 =
     (let s = subject_rollover now s0; e = event\<lparr>ev_At := now\<rparr>
      in s\<lparr>s_windows := map (\<lambda>w. if window_accepts w e then add_event e w else w) (s_windows s),
          s_lastSuccessAt := now\<rparr>)"

definition success_subject :: "gotime \<Rightarrow> bool \<Rightarrow> int \<Rightarrow> subjectState \<Rightarrow> subjectState" where
  "success_subject now clearCooldown tokens s0 =
     (let s = subject_rollover now s0;
          s1 = s\<lparr>s_windows := map (add_event \<lparr>ev_At = now, ev_Requests = 1, ev_Tokens = tokens,
                   ev_CostMicroUSD = 0, ev_Unpriced = 0\<rparr>) (s_windows s)\<rparr>;
          s2 = (if clearCooldown
                then s1\<lparr>s_cooldownUntil := zeroTime, s_nextProbeAt := zeroTime, s_probeInFlight := False\<rparr>
                else s1)
      in s2\<lparr>s_lastSuccessAt := now\<rparr>)"

definition exceeded_subject :: "gotime \<Rightarrow> subjectState \<Rightarrow> subjectState" where
  "exceeded_subject now s0 =
     (let s = subject_rollover now s0
      in s\<lparr>s_lastQuotaExceededAt := now, s_cooldownUntil := now + s_cooldown s,
          s_nextProbeAt := now + s_probeInterval s, s_probeInFlight := False\<rparr>)"

section \<open>The tracker's calls\<close>

definition on_subject :: "string \<Rightarrow> (subjectState \<Rightarrow> subjectState) \<Rightarrow> Tracker option \<Rightarrow> Tracker option" where
  "on_subject n f tracker =
     (case tracker of
        None \<Rightarrow> None
      | Some t \<Rightarrow>
          (case map_of (t_subjects t) n of
             None \<Rightarrow> Some t
           | Some s \<Rightarrow> Some (t\<lparr>t_subjects := AList.update n (f s) (t_subjects t)\<rparr>)))"

definition quota_beforeAttempt ::
  "gotime \<Rightarrow> string \<Rightarrow> bool \<Rightarrow> Tracker option \<Rightarrow> Decision \<times> Tracker option" where
  "quota_beforeAttempt now n allowProbe tracker =
     (case tracker of
        None \<Rightarrow> (quota_allow, None)
      | Some t \<Rightarrow>
          (case map_of (t_subjects t) n of
             None \<Rightarrow> (quota_allow, Some t)
           | Some s \<Rightarrow>
               (case before_subject now allowProbe s of (d, s') \<Rightarrow>
                  (d, Some (t\<lparr>t_subjects := AList.update n s' (t_subjects t)\<rparr>)))))"

definition quota_BeforeAttempt :: "gotime \<Rightarrow> string \<Rightarrow> Tracker option \<Rightarrow> Decision \<times> Tracker option" where
  "quota_BeforeAttempt now outbound t = quota_beforeAttempt now outbound True t"

definition BeforeClientRequest :: "gotime \<Rightarrow> string \<Rightarrow> Tracker option \<Rightarrow> Decision \<times> Tracker option" where
  "BeforeClientRequest now client t = quota_beforeAttempt now client False t"

definition recordClientUsage :: "gotime \<Rightarrow> string \<Rightarrow> usageEvent \<Rightarrow> Tracker option \<Rightarrow> Tracker option" where
  "recordClientUsage now n event t = on_subject n (client_usage_subject now event) t"

definition RecordClientRequest :: "gotime \<Rightarrow> string \<Rightarrow> Tracker option \<Rightarrow> Tracker option" where
  "RecordClientRequest now client t =
     recordClientUsage now client
       \<lparr>ev_At = zeroTime, ev_Requests = 1, ev_Tokens = 0, ev_CostMicroUSD = 0, ev_Unpriced = 0\<rparr> t"

definition terminal_event :: "int \<Rightarrow> int \<Rightarrow> bool \<Rightarrow> usageEvent" where
  "terminal_event tokens cost priced =
     \<lparr>ev_At = zeroTime, ev_Requests = 0, ev_Tokens = tokens,
      ev_CostMicroUSD = (if priced then cost else 0), ev_Unpriced = (if priced then 0 else 1)\<rparr>"

definition RecordClientTerminalUsage ::
  "gotime \<Rightarrow> string \<Rightarrow> int \<Rightarrow> int \<Rightarrow> bool \<Rightarrow> Tracker option \<Rightarrow> Tracker option" where
  "RecordClientTerminalUsage now client tokens cost priced t =
     recordClientUsage now client (terminal_event tokens cost priced) t"

definition recordSuccess :: "gotime \<Rightarrow> string \<Rightarrow> bool \<Rightarrow> int \<Rightarrow> Tracker option \<Rightarrow> Tracker option" where
  "recordSuccess now n clearCooldown tokens t = on_subject n (success_subject now clearCooldown tokens) t"

text \<open>\<open>RecordSuccess\<close> adds up its variadic token counts.\<close>

definition quota_RecordSuccess :: "gotime \<Rightarrow> string \<Rightarrow> int list \<Rightarrow> Tracker option \<Rightarrow> Tracker option" where
  "quota_RecordSuccess now outbound tokens t =
     recordSuccess now outbound True (foldl (\<lambda>acc v. wrap64 (acc + v)) 0 tokens) t"

definition RecordQuotaExceeded :: "gotime \<Rightarrow> string \<Rightarrow> Tracker option \<Rightarrow> Tracker option" where
  "RecordQuotaExceeded now outbound t = on_subject outbound (exceeded_subject now) t"

section \<open>Snapshots\<close>

record SnapshotWindow =
  sw_Name :: string
  sw_Type :: string
  sw_Reset :: string
  sw_FixedPeriod :: string
  sw_Duration :: string
  sw_MaxRequests :: int
  sw_UsedRequests :: int
  sw_RemainingRequests :: int
  sw_MaxTokens :: int
  sw_UsedTokens :: int
  sw_RemainingTokens :: int
  sw_MaxCostUSD :: string
  sw_UsedCostUSD :: string
  sw_RemainingCostUSD :: string
  sw_UnpricedCount :: int
  sw_Warning :: string
  sw_ResetAt :: string
  sw_Limit :: int
  sw_Used :: int
  sw_Remaining :: int

record SnapshotItem =
  si_Outbound :: string
  si_Client :: string
  si_Inbound :: string
  si_Enabled :: bool
  si_State :: string
  si_CooldownUntil :: string
  si_NextProbeAt :: string
  si_LastQuotaExceededAt :: string
  si_LastSuccessAt :: string
  si_Windows :: "SnapshotWindow list"

definition window_resetAt :: "gotime \<Rightarrow> windowState \<Rightarrow> gotime" where
  "window_resetAt now w =
     (if w_reset w = ''fixed'' then snd (bounds (w_fixed w) now)
      else (case retryAfter now w of (limitedAt, hit) \<Rightarrow>
              if hit then limitedAt
              else (case w_events w of [] \<Rightarrow> zeroTime | e # _ \<Rightarrow> ev_At e + w_duration w)))"

definition snapshot_window :: "gotime \<Rightarrow> windowState \<Rightarrow> SnapshotWindow" where
  "snapshot_window now w =
     (case window_usage w of (requests, tokens, cost, unpriced) \<Rightarrow>
        \<lparr>sw_Name = w_name w, sw_Type = w_typeName w, sw_Reset = w_reset w,
         sw_FixedPeriod = sch_period (w_fixed w), sw_Duration = durationString w,
         sw_MaxRequests = w_maxRequests w, sw_UsedRequests = requests,
         sw_RemainingRequests = remaining (w_maxRequests w) requests,
         sw_MaxTokens = w_maxTokens w, sw_UsedTokens = tokens,
         sw_RemainingTokens = remaining (w_maxTokens w) tokens,
         sw_MaxCostUSD = formatMicroUSD (w_maxCostMicroUSD w), sw_UsedCostUSD = formatMicroUSD cost,
         sw_RemainingCostUSD = formatMicroUSD (remaining (w_maxCostMicroUSD w) cost),
         sw_UnpricedCount = unpriced,
         sw_Warning = (if 0 < unpriced then ''cost quota excludes unpriced terminal usage'' else []),
         sw_ResetAt = format_or_empty (window_resetAt now w),
         sw_Limit = w_maxRequests w, sw_Used = requests,
         sw_Remaining = remaining (w_maxRequests w) requests\<rparr>)"

definition snapshot_subject :: "gotime \<Rightarrow> bool \<Rightarrow> subjectState \<Rightarrow> SnapshotItem" where
  "snapshot_subject now client s =
     (let (state, ra) =
            (if inCooldown now s then (StateCooldown, zeroTime)
             else (case limitReached now s of (resetAt, hit) \<Rightarrow>
                     if hit then (StateLimited, resetAt) else (StateAvailable, zeroTime)));
          nextProbe = format_or_empty (s_nextProbeAt s)
      in \<lparr>si_Outbound = (if client then [] else s_name s), si_Client = (if client then s_name s else []),
          si_Inbound = (if client then s_inbound s else []), si_Enabled = True, si_State = state,
          si_CooldownUntil = format_or_empty (s_cooldownUntil s),
          si_NextProbeAt = (if state = StateLimited \<and> nextProbe = [] then format_or_empty ra else nextProbe),
          si_LastQuotaExceededAt = format_or_empty (s_lastQuotaExceededAt s),
          si_LastSuccessAt = format_or_empty (s_lastSuccessAt s),
          si_Windows = map (snapshot_window now) (s_windows s)\<rparr>)"

definition rollover_all :: "gotime \<Rightarrow> Tracker \<Rightarrow> Tracker" where
  "rollover_all now t = t\<lparr>t_subjects := map (\<lambda>(n, s). (n, subject_rollover now s)) (t_subjects t)\<rparr>"

definition quota_snapshot :: "gotime \<Rightarrow> bool \<Rightarrow> Tracker option \<Rightarrow> SnapshotItem list \<times> Tracker option" where
  "quota_snapshot now client tracker =
     (case tracker of
        None \<Rightarrow> ([], None)
      | Some t \<Rightarrow>
          (let t' = rollover_all now t
           in (sort_key (if client then si_Client else si_Outbound)
                 (map (\<lambda>(n, s). snapshot_subject now client s) (t_subjects t')), Some t')))"

section \<open>Persistence\<close>

record PersistedEvent =
  pe_At :: string
  pe_Requests :: int
  pe_Tokens :: int
  pe_CostMicroUSD :: int
  pe_Unpriced :: int

record PersistedWindowState =
  pw_Type :: string
  pw_Reset :: string
  pw_Duration :: string
  pw_FixedPeriod :: string
  pw_Schedule :: string
  pw_Events :: "PersistedEvent list"
  pw_legacy :: bool

record PersistedSubject =
  ps_Name :: string
  ps_Inbound :: string
  ps_CooldownUntil :: string
  ps_NextProbeAt :: string
  ps_LastQuotaExceededAt :: string
  ps_LastSuccessAt :: string
  ps_ResetAll :: string
  ps_Windows :: "(string \<times> PersistedWindowState) list"

record PersistedState =
  pst_Version :: int
  pst_CapturedAt :: string
  pst_Subjects :: "(string \<times> PersistedSubject) list"

definition persist_event :: "usageEvent \<Rightarrow> PersistedEvent" where
  "persist_event e = \<lparr>pe_At = format_or_empty (ev_At e), pe_Requests = ev_Requests e,
     pe_Tokens = ev_Tokens e, pe_CostMicroUSD = ev_CostMicroUSD e, pe_Unpriced = ev_Unpriced e\<rparr>"

definition persist_window :: "windowState \<Rightarrow> PersistedWindowState" where
  "persist_window w = \<lparr>pw_Type = w_typeName w, pw_Reset = w_reset w,
     pw_Duration = Duration_String (w_duration w), pw_FixedPeriod = sch_period (w_fixed w),
     pw_Schedule = scheduleKey w, pw_Events = map persist_event (w_events w), pw_legacy = False\<rparr>"

definition persist_subject :: "subjectState \<Rightarrow> PersistedSubject" where
  "persist_subject s = \<lparr>ps_Name = s_name s, ps_Inbound = s_inbound s,
     ps_CooldownUntil = format_or_empty (s_cooldownUntil s),
     ps_NextProbeAt = format_or_empty (s_nextProbeAt s),
     ps_LastQuotaExceededAt = format_or_empty (s_lastQuotaExceededAt s),
     ps_LastSuccessAt = format_or_empty (s_lastSuccessAt s),
     ps_ResetAll = schedule_key (s_resetAll s),
     ps_Windows = fold (\<lambda>w. AList.update (w_name w) (persist_window w)) (s_windows s) []\<rparr>"

text \<open>\<open>wallNow\<close> is the reading of \<open>time.Now\<close>, used when the tracker is nil.\<close>

definition ExportState :: "gotime \<Rightarrow> gotime \<Rightarrow> Tracker option \<Rightarrow> PersistedState \<times> Tracker option" where
  "ExportState wallNow now tracker =
     (case tracker of
        None \<Rightarrow> (\<lparr>pst_Version = 3, pst_CapturedAt = format_or_empty wallNow, pst_Subjects = []\<rparr>, None)
      | Some t \<Rightarrow>
          (let t' = rollover_all now t
           in (\<lparr>pst_Version = 3, pst_CapturedAt = format_or_empty now,
                pst_Subjects = map (\<lambda>(n, s). (n, persist_subject s)) (t_subjects t')\<rparr>, Some t')))"

definition parsePersistedTime :: "string \<Rightarrow> gotime option" where
  "parsePersistedTime val = (if val = [] then None else parse_RFC3339 val)"

definition persistedCompatible :: "PersistedWindowState \<Rightarrow> int \<Rightarrow> bool \<Rightarrow> windowState \<Rightarrow> bool" where
  "persistedCompatible saved version client w =
     (if version < 2 \<or> pw_legacy saved then
        (if client \<and> w_typeName w \<noteq> ''requests'' then False
         else w_reset w = ''rolling''
              \<and> (pw_Duration saved = [] \<or> pw_Duration saved = Duration_String (w_duration w)))
      else if version < 3 then
        (if client \<and> w_typeName w \<noteq> ''requests'' then False
         else pw_Reset saved = w_reset w \<and> pw_Schedule saved = scheduleKey w)
      else pw_Type saved = w_typeName w \<and> pw_Reset saved = w_reset w \<and> pw_Schedule saved = scheduleKey w)"

definition restore_event :: "PersistedEvent \<Rightarrow> usageEvent option" where
  "restore_event e =
     map_option (\<lambda>at'. \<lparr>ev_At = at', ev_Requests = pe_Requests e, ev_Tokens = pe_Tokens e,
                       ev_CostMicroUSD = pe_CostMicroUSD e, ev_Unpriced = pe_Unpriced e\<rparr>)
       (parsePersistedTime (pe_At e))"

definition restore_window :: "PersistedSubject \<Rightarrow> int \<Rightarrow> bool \<Rightarrow> windowState \<Rightarrow> windowState" where
  "restore_window saved version client w =
     (case map_of (ps_Windows saved) (w_name w) of
        None \<Rightarrow> w
      | Some sw \<Rightarrow>
          if \<not> persistedCompatible sw version client w then w
          else w\<lparr>w_events := sort_key ev_At (List.map_filter restore_event (pw_Events sw))\<rparr>)"

definition restore_time :: "string \<Rightarrow> gotime \<Rightarrow> gotime" where
  "restore_time val old = (case parsePersistedTime val of None \<Rightarrow> old | Some t \<Rightarrow> t)"

definition import_subject :: "gotime \<Rightarrow> int \<Rightarrow> bool \<Rightarrow> PersistedSubject \<Rightarrow> subjectState \<Rightarrow> subjectState" where
  "import_subject now version client saved s =
     (let compat = (version < 2 \<or> ps_ResetAll saved = schedule_key (s_resetAll s))
      in subject_rollover now
           (s\<lparr>s_cooldownUntil := restore_time (ps_CooldownUntil saved) (s_cooldownUntil s),
              s_nextProbeAt := restore_time (ps_NextProbeAt saved) (s_nextProbeAt s),
              s_lastQuotaExceededAt := restore_time (ps_LastQuotaExceededAt saved) (s_lastQuotaExceededAt s),
              s_lastSuccessAt := restore_time (ps_LastSuccessAt saved) (s_lastSuccessAt s),
              s_windows := (if compat then map (restore_window saved version client) (s_windows s)
                            else s_windows s)\<rparr>))"

definition ImportState :: "gotime \<Rightarrow> PersistedState \<Rightarrow> Tracker option \<Rightarrow> Tracker option" where
  "ImportState now persisted tracker =
     (case tracker of
        None \<Rightarrow> None
      | Some t \<Rightarrow>
          fold (\<lambda>(n, saved). on_subject n (import_subject now (pst_Version persisted) (t_client t) saved))
            (pst_Subjects persisted) (Some t))"

section \<open>Reconfiguration\<close>

definition hasUsage :: "subjectState \<Rightarrow> bool" where
  "hasUsage s = list_ex (\<lambda>w. w_events w \<noteq> []) (s_windows s)"

text \<open>The loop of \<open>mergeWindows\<close> over the fresh windows: \<open>oldByName\<close> loses each name it meets.\<close>

fun merge_loop ::
  "windowState list \<Rightarrow> (string \<times> windowState) list \<Rightarrow> windowState list \<times> (string \<times> windowState) list \<times> bool" where
  "merge_loop [] oldByName = ([], oldByName, False)"
| "merge_loop (w # ws) oldByName =
     (case map_of oldByName (w_name w) of
        None \<Rightarrow>
          (case merge_loop ws oldByName of (ws', rest, cleared) \<Rightarrow> (w # ws', rest, cleared))
      | Some previous \<Rightarrow>
          (case merge_loop ws (AList.delete (w_name w) oldByName) of (ws', rest, cleared) \<Rightarrow>
             if window_compatible w previous then (w\<lparr>w_events := w_events previous\<rparr> # ws', rest, cleared)
             else (w # ws', rest, cleared \<or> w_events previous \<noteq> [])))"

definition mergeWindows :: "subjectState \<Rightarrow> subjectState \<Rightarrow> subjectState \<times> bool" where
  "mergeWindows old fresh =
     (case merge_loop (s_windows fresh) (fold (\<lambda>w. AList.update (w_name w) w) (s_windows old) []) of
        (ws, rest, cleared) \<Rightarrow>
          (fresh\<lparr>s_windows := ws\<rparr>, cleared \<or> list_ex (\<lambda>(n, w). w_events w \<noteq> []) rest))"

definition reconfigure_outbound_subject :: "subjectState option \<Rightarrow> subjectState \<Rightarrow> subjectState \<times> bool" where
  "reconfigure_outbound_subject old fresh =
     (case old of
        None \<Rightarrow> (fresh, False)
      | Some s \<Rightarrow>
          (let kept = fresh\<lparr>s_cooldownUntil := s_cooldownUntil s, s_nextProbeAt := s_nextProbeAt s,
                        s_lastQuotaExceededAt := s_lastQuotaExceededAt s,
                        s_lastSuccessAt := s_lastSuccessAt s, s_probeInFlight := s_probeInFlight s\<rparr>
           in if schedule_key (s_resetAll s) \<noteq> schedule_key (s_resetAll kept) then (kept, hasUsage s)
              else mergeWindows s kept))"

definition reconfigure_client_subject :: "subjectState option \<Rightarrow> subjectState \<Rightarrow> subjectState \<times> bool" where
  "reconfigure_client_subject old fresh =
     (case old of None \<Rightarrow> (fresh, False) | Some s \<Rightarrow> mergeWindows s fresh)"

text \<open>Both reconfigurations: build the next map, then look for removed subjects with usage.\<close>

definition reconfigure_subjects ::
  "(subjectState option \<Rightarrow> subjectState \<Rightarrow> subjectState \<times> bool) \<Rightarrow> (string \<times> subjectState) list \<Rightarrow>
   (string \<times> subjectState) list \<Rightarrow> (string \<times> subjectState) list \<times> bool" where
  "reconfigure_subjects merge fresh olds =
     (let step = (\<lambda>(n, s) (nxt, changed).
                    (case merge (map_of olds n) s of (s', c) \<Rightarrow> (AList.update n s' nxt, c \<or> changed)));
          (nxt, changed) = fold step fresh ([], False)
      in (nxt, changed \<or> list_ex (\<lambda>(n, s). map_of nxt n = None \<and> hasUsage s) olds))"

definition Reconfigure ::
  "(string \<Rightarrow> location option) \<Rightarrow> OutboundConfig list \<Rightarrow> Tracker option \<Rightarrow> bool \<times> Tracker option" where
  "Reconfigure loadLocation cfgs tracker =
     (case tracker of
        None \<Rightarrow> (False, None)
      | Some t \<Rightarrow>
          (case reconfigure_subjects reconfigure_outbound_subject
                  (map (\<lambda>cfg. (oc_Name cfg, outboundSubject loadLocation cfg)) cfgs) (t_subjects t) of
             (nxt, changed) \<Rightarrow> (changed, Some (t\<lparr>t_subjects := nxt\<rparr>))))"

definition ReconfigureClients ::
  "(string \<Rightarrow> location option) \<Rightarrow> ClientConfig list \<Rightarrow> Tracker option \<Rightarrow> bool \<times> Tracker option" where
  "ReconfigureClients loadLocation cfgs tracker =
     (case tracker of
        None \<Rightarrow> (False, None)
      | Some t \<Rightarrow>
          (case reconfigure_subjects reconfigure_client_subject
                  (map (\<lambda>cfg. (cc_Name cfg, clientSubject loadLocation cfg)) cfgs) (t_subjects t) of
             (nxt, changed) \<Rightarrow> (changed, Some (t\<lparr>t_subjects := nxt\<rparr>))))"

end
