(* ===== verification/Quota_Laws.thy ===== *)
theory Quota_Laws
  imports Quota_Tracker
begin

text \<open>
  What the quota tracker guarantees: the windows of a subject hold exactly the recorded usage
  that still counts, admission follows that history, a client's sequential requests stay within
  its request windows, probes are handed out one at a time, persistence restores what it saved
  and reconfiguration keeps usage that still applies.
\<close>

section \<open>The tracker as a machine\<close>

datatype quota_op =
    QBefore gotime string
  | QBeforeClient gotime string
  | QUsage gotime string usageEvent
  | QSuccess gotime string "int list"
  | QExceeded gotime string

fun quota_step :: "quota_op \<Rightarrow> Tracker option \<Rightarrow> Tracker option" where
  "quota_step (QBefore now n) t = snd (quota_BeforeAttempt now n t)"
| "quota_step (QBeforeClient now n) t = snd (BeforeClientRequest now n t)"
| "quota_step (QUsage now n e) t = recordClientUsage now n e t"
| "quota_step (QSuccess now n tokens) t = quota_RecordSuccess now n tokens t"
| "quota_step (QExceeded now n) t = RecordQuotaExceeded now n t"

fun quota_key :: "quota_op \<Rightarrow> string" where
  "quota_key (QBefore _ n) = n"
| "quota_key (QBeforeClient _ n) = n"
| "quota_key (QUsage _ n _) = n"
| "quota_key (QSuccess _ n _) = n"
| "quota_key (QExceeded _ n) = n"

fun quota_time :: "quota_op \<Rightarrow> gotime" where
  "quota_time (QBefore t _) = t"
| "quota_time (QBeforeClient t _) = t"
| "quota_time (QUsage t _ _) = t"
| "quota_time (QSuccess t _ _) = t"
| "quota_time (QExceeded t _) = t"

definition quota_view :: "string \<Rightarrow> Tracker option \<Rightarrow> subjectState option" where
  "quota_view n tracker = (case tracker of None \<Rightarrow> None | Some t \<Rightarrow> map_of (t_subjects t) n)"

definition token_sum :: "int list \<Rightarrow> int" where
  "token_sum tokens = foldl (\<lambda>acc v. wrap64 (acc + v)) 0 tokens"

fun quota_local :: "quota_op \<Rightarrow> subjectState \<Rightarrow> subjectState" where
  "quota_local (QBefore now _) s = snd (before_subject now True s)"
| "quota_local (QBeforeClient now _) s = snd (before_subject now False s)"
| "quota_local (QUsage now _ e) s = client_usage_subject now e s"
| "quota_local (QSuccess now _ tokens) s = success_subject now True (token_sum tokens) s"
| "quota_local (QExceeded now _) s = exceeded_subject now s"

lemmas quota_op_defs = quota_BeforeAttempt_def BeforeClientRequest_def quota_beforeAttempt_def
  recordClientUsage_def quota_RecordSuccess_def recordSuccess_def RecordQuotaExceeded_def on_subject_def
  token_sum_def [symmetric]

lemma quota_view_other: "quota_key e \<noteq> n \<Longrightarrow> quota_view n (quota_step e t) = quota_view n t"
  by (cases e) (auto simp: quota_view_def quota_op_defs split: option.splits prod.splits)

lemma quota_view_same:
  "quota_view (quota_key e) (quota_step e t) = map_option (quota_local e) (quota_view (quota_key e) t)"
  by (cases e) (auto simp: quota_view_def quota_op_defs split: option.splits prod.splits)

lemma quota_decision_view:
  "fst (quota_beforeAttempt now n allowProbe t) =
     (case quota_view n t of None \<Rightarrow> quota_allow | Some s \<Rightarrow> fst (before_subject now allowProbe s))"
  by (auto simp: quota_beforeAttempt_def quota_view_def split: option.splits prod.splits)

text \<open>A probe locks the subject until an outcome is recorded or the cooldown that ends at \<open>U\<close> is over.\<close>

fun quota_locked :: "gotime \<Rightarrow> subjectState option \<Rightarrow> bool" where
  "quota_locked U None = False"
| "quota_locked U (Some s) = (s_probeInFlight s \<and> s_cooldownUntil s = U \<and> U \<noteq> 0)"

fun quota_releases :: "gotime \<Rightarrow> quota_op \<Rightarrow> bool" where
  "quota_releases U (QSuccess _ _ _) = True"
| "quota_releases U (QExceeded _ _) = True"
| "quota_releases U e = (U \<le> quota_time e)"

lemma subject_rollover_locked:
  assumes "quota_locked U (Some s)" and "now < U"
  shows "quota_locked U (Some (subject_rollover now s))"
  using assms by (simp add: subject_rollover_def Let_def)

lemma before_subject_state:
  "snd (before_subject now allowProbe s) =
     (subject_rollover now s)\<lparr>s_probeInFlight := s_probeInFlight (subject_rollover now s)
        \<or> qd_Probe (fst (before_subject now allowProbe s))\<rparr>"
  by (auto simp: before_subject_def Let_def quota_allow_def split: prod.splits)

interpretation quota: probe_lock quota_step quota_key quota_view
  "\<lambda>e. map_option (quota_local e)" "quota_locked U" "quota_releases U" for U
proof unfold_locales
  fix v e
  assume lock: "quota_locked U v" and keep: "\<not> quota_releases U e"
  obtain s where v: "v = Some s" using lock by (cases v) auto
  have "quota_locked U (Some (subject_rollover (quota_time e) s))"
  proof (rule subject_rollover_locked [OF lock [unfolded v]])
    show "quota_time e < U" using keep by (cases e) auto
  qed
  then show "quota_locked U (map_option (quota_local e) v)"
    using keep by (cases e) (auto simp: v before_subject_state client_usage_subject_def Let_def)
qed (auto simp: quota_view_other quota_view_same)

section \<open>Windows hold the recorded history\<close>

text \<open>What an operation records in a window, and which events still count at an instant.\<close>

fun op_events :: "windowState \<Rightarrow> quota_op \<Rightarrow> usageEvent list" where
  "op_events w (QUsage now _ e) = (if window_accepts w (e\<lparr>ev_At := now\<rparr>) then [e\<lparr>ev_At := now\<rparr>] else [])"
| "op_events w (QSuccess now _ tokens) =
     [\<lparr>ev_At = now, ev_Requests = 1, ev_Tokens = token_sum tokens, ev_CostMicroUSD = 0, ev_Unpriced = 0\<rparr>]"
| "op_events w _ = []"

definition history :: "windowState \<Rightarrow> quota_op list \<Rightarrow> usageEvent list" where
  "history w ops = concat (map (op_events w) ops)"

definition alive :: "schedule \<Rightarrow> windowState \<Rightarrow> gotime \<Rightarrow> usageEvent \<Rightarrow> bool" where
  "alive resetAll w now e \<longleftrightarrow>
     (if w_reset w = ''fixed'' then fst (bounds (w_fixed w) now) \<le> ev_At e else now - w_duration w < ev_At e)
     \<and> (sch_period resetAll \<noteq> [] \<longrightarrow> fst (bounds resetAll now) \<le> ev_At e)"

definition mono_schedule :: "schedule \<Rightarrow> bool" where
  "mono_schedule s \<longleftrightarrow> (\<forall>t t'. t \<le> t' \<longrightarrow> fst (bounds s t) \<le> fst (bounds s t'))"

definition mono_subject :: "subjectState \<Rightarrow> bool" where
  "mono_subject s \<longleftrightarrow>
     (sch_period (s_resetAll s) \<noteq> [] \<longrightarrow> mono_schedule (s_resetAll s)) \<and>
     (\<forall>w \<in> set (s_windows s). w_reset w = ''fixed'' \<longrightarrow> mono_schedule (w_fixed w))"

lemma window_config_only:
  "alive ra (w\<lparr>w_events := es\<rparr>) = alive ra w" "op_events (w\<lparr>w_events := es\<rparr>) = op_events w"
  "history (w\<lparr>w_events := es\<rparr>) = history w" "window_accepts (w\<lparr>w_events := es\<rparr>) = window_accepts w"
proof -
  show acc: "window_accepts (w\<lparr>w_events := es\<rparr>) = window_accepts w" by (simp add: window_accepts_def fun_eq_iff)
  show "alive ra (w\<lparr>w_events := es\<rparr>) = alive ra w" by (simp add: alive_def fun_eq_iff)
  have "op_events (w\<lparr>w_events := es\<rparr>) e = op_events w e" for e by (cases e) (simp_all add: acc)
  then show ops: "op_events (w\<lparr>w_events := es\<rparr>) = op_events w" by blast
  show "history (w\<lparr>w_events := es\<rparr>) = history w" by (simp add: history_def fun_eq_iff ops)
qed

lemma history_snoc: "history w (ops @ [e]) = history w ops @ op_events w e"
  by (simp add: history_def)

lemma op_events_At: "x \<in> set (op_events w e) \<Longrightarrow> ev_At x = quota_time e"
  by (cases e) (auto split: if_splits)

lemma history_At: "x \<in> set (history w ops) \<Longrightarrow> \<exists>e \<in> set ops. ev_At x = quota_time e"
  using op_events_At by (fastforce simp: history_def)

lemma length_op_events: "length (op_events w e) \<le> 1"
  by (cases e) auto

lemma history_sorted: "sorted (map quota_time ops) \<Longrightarrow> sorted (map ev_At (history w ops))"
proof (induction ops rule: rev_induct)
  case (snoc e ops)
  have "\<forall>x \<in> set (history w ops). \<forall>y \<in> set (op_events w e). ev_At x \<le> ev_At y"
    using snoc.prems history_At op_events_At by (fastforce simp: sorted_append)
  moreover have "sorted (map ev_At (op_events w e))"
    using length_op_events [of w e] by (cases "op_events w e") auto
  ultimately show ?case using snoc by (simp add: history_snoc sorted_append)
qed (simp add: history_def)

lemma window_rollover_filter:
  assumes "sorted (map ev_At (w_events w))"
  shows "window_rollover now w = w\<lparr>w_events := filter (alive empty_schedule w now) (w_events w)\<rparr>"
  using dropWhile_sorted_filter [OF assms]
  by (simp add: window_rollover_def discard_events alive_def [abs_def] empty_schedule_def not_less not_le)

lemma subject_rollover_windows:
  assumes "\<forall>w \<in> set (s_windows s). sorted (map ev_At (w_events w))"
  shows "s_windows (subject_rollover now s) =
    map (\<lambda>w. w\<lparr>w_events := filter (alive (s_resetAll s) w now) (w_events w)\<rparr>) (s_windows s)"
proof -
  have roll: "window_rollover now w = w\<lparr>w_events := filter (alive (s_resetAll s) w now) (w_events w)\<rparr>"
    if "w \<in> set (s_windows s)" "sch_period (s_resetAll s) = []" for w
    using window_rollover_filter [of w now] assms that by (simp add: alive_def [abs_def] empty_schedule_def)
  have reset: "window_rollover now (discardBefore (fst (bounds (s_resetAll s) now)) w) =
      w\<lparr>w_events := filter (alive (s_resetAll s) w now) (w_events w)\<rparr>"
    if "w \<in> set (s_windows s)" "sch_period (s_resetAll s) \<noteq> []" for w
  proof -
    let ?c = "fst (bounds (s_resetAll s) now)"
    have srt: "sorted (map ev_At (w_events w))" using assms that by blast
    have d: "discardBefore ?c w = w\<lparr>w_events := filter (\<lambda>e. ?c \<le> ev_At e) (w_events w)\<rparr>"
      using dropWhile_sorted_filter(1) [OF srt] by (simp add: discardBefore_events not_less)
    have "sorted (map ev_At (filter (\<lambda>e. ?c \<le> ev_At e) (w_events w)))" using srt by (rule sorted_filter)
    then show ?thesis unfolding d
      by (subst window_rollover_filter)
        (simp_all add: window_config_only alive_def [abs_def] that(2) empty_schedule_def conj_commute)
  qed
  show ?thesis
    by (auto simp: subject_rollover_def Let_def roll reset)
qed

lemma subject_rollover_frame [simp]:
  "s_resetAll (subject_rollover now s) = s_resetAll s" "s_name (subject_rollover now s) = s_name s"
  "s_cooldown (subject_rollover now s) = s_cooldown s" "s_probeInterval (subject_rollover now s) = s_probeInterval s"
  by (simp_all add: subject_rollover_def Let_def)

lemma quota_local_windows:
  "s_windows (quota_local e s) =
     map (\<lambda>w. w\<lparr>w_events := w_events w @ op_events w e\<rparr>) (s_windows (subject_rollover (quota_time e) s))"
  "s_resetAll (quota_local e s) = s_resetAll s"
  by (cases e; simp add: before_subject_state client_usage_subject_def success_subject_def exceeded_subject_def
      add_event_def Let_def if_distrib [where f = "\<lambda>es. _\<lparr>w_events := _ @ es\<rparr>"] cong: if_cong)+

lemma alive_mono:
  assumes "sch_period ra \<noteq> [] \<longrightarrow> mono_schedule ra" and "w_reset w = ''fixed'' \<longrightarrow> mono_schedule (w_fixed w)"
    and "t \<le> now" and "alive ra w now e"
  shows "alive ra w t e"
  using assms by (fastforce simp: alive_def mono_schedule_def split: if_splits)

lemma subject_history:
  assumes "mono_subject s0" and "\<forall>w \<in> set (s_windows s0). w_events w = []"
    and "sorted (map quota_time ops)" and "\<forall>e \<in> set ops. quota_time e \<le> now"
  shows "s_windows (subject_rollover now (fold quota_local ops s0)) =
      map (\<lambda>w. w\<lparr>w_events := filter (alive (s_resetAll s0) w now) (history w ops)\<rparr>) (s_windows s0)
    \<and> s_resetAll (fold quota_local ops s0) = s_resetAll s0"
  using assms(3,4)
proof (induction ops arbitrary: now rule: rev_induct)
  case Nil
  then show ?case using assms(2) by (simp add: subject_rollover_windows history_def)
next
  case (snoc e ops)
  let ?ra = "s_resetAll s0" and ?t = "quota_time e" and ?s = "fold quota_local ops s0"
  have "sorted (map quota_time ops)" "\<forall>x \<in> set ops. quota_time x \<le> ?t" and t: "?t \<le> now"
    using snoc.prems by (auto simp: sorted_append)
  note IH = snoc.IH [OF this(1,2)]
  let ?old = "\<lambda>w. filter (alive ?ra w ?t) (history w ops)"
  let ?w = "\<lambda>w. w\<lparr>w_events := ?old w @ op_events w e\<rparr>"
  have ws: "s_windows (quota_local e ?s) = map ?w (s_windows s0)"
    using IH by (simp add: quota_local_windows window_config_only)
  have "sorted (map ev_At (?old w @ op_events w e))" for w
  proof -
    have "sorted (map ev_At (history w (ops @ [e])))" by (rule history_sorted [OF snoc.prems(1)])
    then show ?thesis unfolding history_snoc by (simp add: sorted_append sorted_filter)
  qed
  then have "\<forall>w \<in> set (s_windows (quota_local e ?s)). sorted (map ev_At (w_events w))" by (auto simp: ws)
  then have "s_windows (subject_rollover now (quota_local e ?s)) =
      map (\<lambda>w. w\<lparr>w_events := filter (alive ?ra w now) (?old w @ op_events w e)\<rparr>) (s_windows s0)"
    using IH by (simp add: subject_rollover_windows ws quota_local_windows(2) window_config_only)
  moreover have "filter (alive ?ra w now) (?old w @ op_events w e) = filter (alive ?ra w now) (history w (ops @ [e]))"
    if "w \<in> set (s_windows s0)" for w
  proof -
    have "filter (alive ?ra w now) (?old w) = filter (alive ?ra w now) (history w ops)"
      using alive_mono [OF _ _ t, of ?ra w] assms(1) that
      by (auto simp: mono_subject_def filter_filter intro!: filter_cong)
    then show ?thesis by (simp add: history_snoc)
  qed
  ultimately show ?case using IH by (simp add: quota_local_windows(2))
qed

lemma blocking_loop_nonempty:
  "snd (blocking_loop now ws (ra, bs)) \<noteq> [] \<longleftrightarrow> bs \<noteq> [] \<or> (\<exists>w \<in> set ws. snd (retryAfter now w))"
  by (induction ws arbitrary: ra bs) (auto split: prod.splits)

lemma before_subject_allowed:
  assumes "\<not> (allowProbe \<and> inCooldown now (subject_rollover now s))"
  shows "qd_Allowed (fst (before_subject now allowProbe s)) \<longleftrightarrow>
    (\<forall>w \<in> set (s_windows (subject_rollover now s)). \<not> snd (retryAfter now w))"
proof -
  have "snd (blockingWindows now (subject_rollover now s)) = [] \<longleftrightarrow>
      (\<forall>w \<in> set (s_windows (subject_rollover now s)). \<not> snd (retryAfter now w))"
    using blocking_loop_nonempty [of now "s_windows (subject_rollover now s)" 0 "[]"]
    by (auto simp: blockingWindows_def)
  then show ?thesis using assms
    by (auto simp: before_subject_def Let_def quota_allow_def split: prod.splits)
qed

lemma limited_config_only: "limited (w\<lparr>w_events := es\<rparr>) = limited w"
  by (simp add: limited_def fun_eq_iff)

lemma subject_admission:
  assumes "mono_subject s0" and "\<forall>w \<in> set (s_windows s0). w_events w = []"
    and "sorted (map quota_time ops)" and "\<forall>e \<in> set ops. quota_time e \<le> now"
    and "\<forall>w \<in> set (s_windows s0). usage_ok (filter (alive (s_resetAll s0) w now) (history w ops))"
    and "\<not> (allowProbe \<and> inCooldown now (subject_rollover now (fold quota_local ops s0)))"
  shows "qd_Allowed (fst (before_subject now allowProbe (fold quota_local ops s0))) \<longleftrightarrow>
    (\<forall>w \<in> set (s_windows s0). \<not> limited w (filter (alive (s_resetAll s0) w now) (history w ops)))"
  unfolding before_subject_allowed [OF assms(6)]
  using subject_history [OF assms(1-4)] assms(5)
  by (simp add: retryAfter_limited limited_config_only)

text \<open>The subjects of a client tracker: rolling windows without usage, no cooldown.\<close>

lemma tracker_subject:
  assumes "distinct (map key cfgs)" and "cfg \<in> set cfgs"
  shows "map_of (fold (\<lambda>c. AList.update (key c) (mk c)) cfgs []) (key cfg) = Some (mk cfg)"
proof -
  have other: "k \<notin> key ` set cs \<Longrightarrow> map_of (fold (\<lambda>c. AList.update (key c) (mk c)) cs acc) k = map_of acc k" for cs acc k
    by (induction cs arbitrary: acc) auto
  have "distinct (map key cs) \<Longrightarrow> cfg \<in> set cs \<Longrightarrow>
      map_of (fold (\<lambda>c. AList.update (key c) (mk c)) cs acc) (key cfg) = Some (mk cfg)" for cs acc
    by (induction cs arbitrary: acc) (auto simp: other)
  then show ?thesis using assms by blast
qed

definition rolling_config :: "WindowConfig \<Rightarrow> bool" where
  "rolling_config c \<longleftrightarrow> wc_Reset c = [] \<or> wc_Reset c = ''rolling''"

lemma clientSubject_fresh:
  assumes "\<forall>c \<in> set (cc_Windows cfg). rolling_config c"
  shows "mono_subject (clientSubject loc cfg)" "\<forall>w \<in> set (s_windows (clientSubject loc cfg)). w_events w = []"
    "s_resetAll (clientSubject loc cfg) = empty_schedule"
    "\<forall>w \<in> set (s_windows (clientSubject loc cfg)). w_reset w = ''rolling''"
    "s_cooldownUntil (clientSubject loc cfg) = 0"
  using assms
  by (auto simp: clientSubject_def newSubjectState_def normalizeClientWindows_def newWindowState_def
      newResetSchedule_def noResetAll_def mono_subject_def empty_schedule_def rolling_config_def)

lemma alive_rolling: "w_reset w = ''rolling'' \<Longrightarrow> alive empty_schedule w now e \<longleftrightarrow> now - w_duration w < ev_At e"
  by (simp add: alive_def empty_schedule_def)

lemma fold_map_option: "fold (\<lambda>e. map_option (f e)) es (Some s) = Some (fold f es s)"
  by (induction es arbitrary: s) auto

section \<open>Serving a client one request after the other\<close>

text \<open>
  The calls the gateway makes for a client, for requests that do not overlap: the check at
  instant \<open>c\<close>, and the record at \<open>r\<close> when the check allowed the request.
\<close>

fun client_serve :: "string \<Rightarrow> (gotime \<times> gotime) list \<Rightarrow> Tracker option \<Rightarrow> gotime list" where
  "client_serve n [] t = []"
| "client_serve n ((c, r) # rs) t =
     (case BeforeClientRequest c n t of (d, t1) \<Rightarrow>
        if qd_Allowed d then r # client_serve n rs (RecordClientRequest r n t1)
        else client_serve n rs t1)"

definition request_event :: "gotime \<Rightarrow> usageEvent" where
  "request_event t = \<lparr>ev_At = t, ev_Requests = 1, ev_Tokens = 0, ev_CostMicroUSD = 0, ev_Unpriced = 0\<rparr>"

lemma request_event_sums:
  "sum_requests (map request_event ts) = int (length ts)" "sum_tokens (map request_event ts) = 0"
  "sum_cost (map request_event ts) = 0" "sum_unpriced (map request_event ts) = 0"
  by (induction ts) (simp_all add: usage_sums request_event_def)

lemma request_events_ok: "int (length ts) < 2 ^ 63 \<Longrightarrow> usage_ok (map request_event ts)"
  by (auto simp: usage_ok_def request_event_sums) (auto simp: request_event_def)

lemma subject_admission_window:
  assumes "mono_subject s0" and "\<forall>w \<in> set (s_windows s0). w_events w = []"
    and "sorted (map quota_time ops)" and "\<forall>e \<in> set ops. quota_time e \<le> now"
    and "w \<in> set (s_windows s0)" and ok: "usage_ok (filter (alive (s_resetAll s0) w now) (history w ops))"
    and "qd_Allowed (fst (before_subject now False (fold quota_local ops s0)))"
  shows "\<not> limited w (filter (alive (s_resetAll s0) w now) (history w ops))"
proof -
  let ?w = "w\<lparr>w_events := filter (alive (s_resetAll s0) w now) (history w ops)\<rparr>"
  have "?w \<in> set (s_windows (subject_rollover now (fold quota_local ops s0)))"
    using subject_history [OF assms(1-4)] assms(5) by auto
  then have "\<not> snd (retryAfter now ?w)"
    using assms(7) before_subject_allowed [of False now] by simp
  then show ?thesis using retryAfter_limited [of ?w now] ok by (simp add: limited_config_only)
qed

definition in_window :: "duration \<Rightarrow> gotime \<Rightarrow> gotime \<Rightarrow> bool" where
  "in_window dur T t \<longleftrightarrow> T - dur < t \<and> t \<le> T"

lemma window_bound_step:
  assumes "\<forall>T. length (filter (in_window dur T) ts) \<le> m" and "\<forall>t \<in> set ts. t \<le> c" and "c \<le> r"
    and "length (filter (\<lambda>t. c - dur < t) ts) < m"
  shows "length (filter (in_window dur T) (ts @ [r])) \<le> m"
proof (cases "r \<le> T")
  case True
  have "length (filter (in_window dur T) ts) \<le> length (filter (\<lambda>t. c - dur < t) ts)"
  proof -
    have "filter (in_window dur T) ts = filter (in_window dur T) (filter (\<lambda>t. c - dur < t) ts)"
      using True assms(3) by (auto simp: in_window_def intro!: filter_cong)
    then show ?thesis by (metis length_filter_le)
  qed
  then show ?thesis using assms(4) by simp
next
  case False
  then show ?thesis using assms(1) by (simp add: in_window_def)
qed

definition serve_times :: "(gotime \<times> gotime) list \<Rightarrow> gotime list" where
  "serve_times rs = concat (map (\<lambda>(c, r). [c, r]) rs)"

lemma client_serve_bound:
  fixes init w
  defines "m \<equiv> nat (w_maxRequests w)"
  assumes fresh: "mono_subject init" "\<forall>w \<in> set (s_windows init). w_events w = []" "s_resetAll init = empty_schedule"
    and w: "w \<in> set (s_windows init)" "w_typeName w = ''requests''" "w_reset w = ''rolling''" "0 < w_maxRequests w"
    and t0: "quota_view n t0 = Some init"
    and "t = fold quota_step ops t0" and "filter (\<lambda>e. quota_key e = n) ops = ops"
    and "history w ops = map request_event ts"
    and "sorted (map quota_time ops)" and "sorted (serve_times rs)"
    and "\<forall>e \<in> set ops. \<forall>x \<in> set (serve_times rs). quota_time e \<le> x"
    and "\<forall>T. length (filter (in_window (w_duration w) T) ts) \<le> m"
    and "int (length ts + length rs) < 2 ^ 63"
  shows "length (filter (in_window (w_duration w) T) (ts @ client_serve n rs t)) \<le> m"
  using assms(10-)
proof (induction rs arbitrary: t ops ts)
  case Nil
  then show ?case by simp
next
  case (Cons cr rs)
  obtain c r where cr: "cr = (c, r)" by (cases cr)
  let ?s = "fold quota_local ops init"
  have view: "quota_view n t = Some ?s"
    using quota.view_run [of n ops t0] t0 Cons.prems(1,2) by (simp add: fold_map_option)
  have times: "c \<le> r" "sorted (serve_times rs)" "\<forall>x \<in> set (serve_times rs). r \<le> x" "\<forall>e \<in> set ops. quota_time e \<le> c"
    "\<forall>e \<in> set ops. \<forall>x \<in> set (serve_times rs). quota_time e \<le> x"
    using Cons.prems(5,6) by (auto simp: serve_times_def cr)
  have alive_eq: "filter (alive (s_resetAll init) w c) (history w ops) = map request_event (filter (\<lambda>t. c - w_duration w < t) ts)"
    using w(3) by (simp add: fresh(3) Cons.prems(3) filter_map comp_def alive_rolling request_event_def)
  obtain d t1 where d: "BeforeClientRequest c n t = (d, t1)" by (cases "BeforeClientRequest c n t")
  have t1: "t1 = fold quota_step (ops @ [QBeforeClient c n]) t0"
    using d Cons.prems(1) by simp
  show ?case
  proof (cases "qd_Allowed d")
    case True
    have "qd_Allowed (fst (before_subject c False ?s))"
      using True d view quota_decision_view [of c n False t] by (simp add: BeforeClientRequest_def)
    moreover have "usage_ok (map request_event (filter (\<lambda>t. c - w_duration w < t) ts))"
    proof (rule request_events_ok)
      show "int (length (filter (\<lambda>t. c - w_duration w < t) ts)) < 2 ^ 63"
        using Cons.prems(8) length_filter_le [of "\<lambda>t. c - w_duration w < t" ts] by linarith
    qed
    ultimately have "\<not> limited w (map request_event (filter (\<lambda>t. c - w_duration w < t) ts))"
      using subject_admission_window [OF fresh(1,2) Cons.prems(4) times(4) w(1)] alive_eq by simp
    then have few: "length (filter (\<lambda>t. c - w_duration w < t) ts) < m"
      using w(4) by (simp add: limited_def request_event_sums m_def)
    have early: "\<forall>t \<in> set ts. t \<le> c"
    proof
      fix x assume "x \<in> set ts"
      then have "request_event x \<in> set (history w ops)" by (simp add: Cons.prems(3))
      then show "x \<le> c" using history_At times(4) by (fastforce simp: request_event_def)
    qed
    let ?ops = "ops @ [QBeforeClient c n, QUsage r n (request_event 0)]"
    have "length (filter (in_window (w_duration w) T) ((ts @ [r]) @ client_serve n rs (RecordClientRequest r n t1))) \<le> m"
    proof (rule Cons.IH [of _ ?ops])
      show "RecordClientRequest r n t1 = fold quota_step ?ops t0"
        by (simp add: t1 RecordClientRequest_def request_event_def)
      show "history w ?ops = map request_event (ts @ [r])"
        using Cons.prems(3) w(2) by (simp add: history_def window_accepts_def request_event_def)
      show "\<forall>T. length (filter (in_window (w_duration w) T) (ts @ [r])) \<le> m"
        using window_bound_step [OF Cons.prems(7) early times(1) few] by blast
    qed (use Cons.prems times in \<open>auto simp: sorted_append\<close>)
    then show ?thesis using True d by (simp add: cr)
  next
    case False
    have "length (filter (in_window (w_duration w) T) (ts @ client_serve n rs t1)) \<le> m"
    proof (rule Cons.IH [OF t1])
      show "history w (ops @ [QBeforeClient c n]) = map request_event ts"
        by (simp add: history_snoc Cons.prems(3))
    qed (use Cons.prems times in \<open>auto simp: sorted_append\<close>)
    then show ?thesis using False d by (simp add: cr)
  qed
qed

section \<open>Properties\<close>

definition sample_client :: ClientConfig where
  "sample_client = \<lparr>cc_Name = ''c'', cc_Inbound = [], cc_Windows =
     [\<lparr>wc_Name = ''w'', wc_Type = ''requests'', wc_Reset = ''rolling'', wc_Duration = 100, wc_FixedPeriod = [],
       wc_Anchor = 0, wc_Time = [], wc_Timezone = [], wc_Weekday = 0, wc_MaxRequests = 2, wc_MaxTokens = 0,
       wc_MaxCostMicroUSD = 0\<rparr>]\<rparr>"

text \<open>C13: The client admission decision is a function of the recorded history: a request is admitted exactly
  when no window of the client has reached its maximum over the usage recorded within its duration.\<close>

theorem client_admission_follows_history:
  assumes "distinct (map cc_Name cfgs)" and "cfg \<in> set cfgs" and "\<forall>c \<in> set (cc_Windows cfg). rolling_config c"
    and "sorted (map quota_time (filter (\<lambda>e. quota_key e = cc_Name cfg) ops))"
    and "\<forall>e \<in> set ops. quota_key e = cc_Name cfg \<longrightarrow> quota_time e \<le> now"
    and "recent = (\<lambda>w. filter (\<lambda>e. now - w_duration w < ev_At e)
                      (history w (filter (\<lambda>e. quota_key e = cc_Name cfg) ops)))"
    and "\<forall>w \<in> set (s_windows (clientSubject loc cfg)). usage_ok (recent w)"
  shows "qd_Allowed (fst (BeforeClientRequest now (cc_Name cfg)
           (fold quota_step ops (Some (newTrackerFromClients loc cfgs))))) \<longleftrightarrow>
    (\<forall>w \<in> set (s_windows (clientSubject loc cfg)). \<not> limited w (recent w))"
proof -
  let ?n = "cc_Name cfg" and ?s0 = "clientSubject loc cfg"
  let ?ops = "filter (\<lambda>e. quota_key e = ?n) ops" and ?t = "fold quota_step ops (Some (newTrackerFromClients loc cfgs))"
  note fresh = clientSubject_fresh [OF assms(3), of loc]
  have "quota_view ?n (Some (newTrackerFromClients loc cfgs)) = Some ?s0"
    using tracker_subject [OF assms(1,2), of "clientSubject loc"] by (simp add: quota_view_def newTrackerFromClients_def)
  then have view: "quota_view ?n ?t = Some (fold quota_local ?ops ?s0)"
    by (simp add: quota.view_run fold_map_option)
  have eq: "filter (alive (s_resetAll ?s0) w now) (history w ?ops) = recent w" if "w \<in> set (s_windows ?s0)" for w
    using fresh(4) that unfolding assms(6) fresh(3) by (simp add: alive_def [abs_def] empty_schedule_def)
  have "qd_Allowed (fst (before_subject now False (fold quota_local ?ops ?s0))) \<longleftrightarrow>
      (\<forall>w \<in> set (s_windows ?s0). \<not> limited w (filter (alive (s_resetAll ?s0) w now) (history w ?ops)))"
    using assms(5,7) eq by (intro subject_admission [OF fresh(1,2) assms(4)]) auto
  then show ?thesis
    using eq by (simp add: BeforeClientRequest_def quota_decision_view view)
qed

theorem client_admission_follows_history_witness:
  "let t = fold quota_step [QUsage 10 ''c'' (request_event 0), QUsage 20 ''c'' (request_event 0)]
             (Some (newTrackerFromClients (\<lambda>_. None) [sample_client]))
   in \<not> qd_Allowed (fst (BeforeClientRequest 109 ''c'' t)) \<and> qd_Allowed (fst (BeforeClientRequest 110 ''c'' t))"
proof -
  let ?ops = "[QUsage 10 ''c'' (request_event 0), QUsage 20 ''c'' (request_event 0)]"
  have n: "cc_Name sample_client = ''c''" by (simp add: sample_client_def)
  have roll: "\<forall>c \<in> set (cc_Windows sample_client). rolling_config c" by (simp add: sample_client_def rolling_config_def)
  note P = client_admission_follows_history [of "[sample_client]", OF _ _ roll, of ?ops _ _ "\<lambda>_. None", OF _ _ _ _ refl, unfolded n]
  define w where "w = newWindowState (\<lambda>_. None) (hd (cc_Windows sample_client))"
  have w: "s_windows (clientSubject (\<lambda>_. None) sample_client) = [w]"
    by (simp add: clientSubject_def newSubjectState_def normalizeClientWindows_def sample_client_def w_def)
  have h: "history w ?ops = [request_event 10, request_event 20]" "w_duration w = 100"
    "limited w [request_event 10, request_event 20]" "\<not> limited w [request_event 20]"
    "usage_ok [request_event 10, request_event 20]" "usage_ok [request_event 20]"
    "map ev_At [request_event 10, request_event 20] = [10, 20]"
    unfolding w_def by code_simp+
  show ?thesis using P [of 109] P [of 110] h by (simp add: w Let_def)
qed

lemma client_windows_bound:
  assumes "distinct (map cc_Name cfgs)" and "cfg \<in> set cfgs" and "\<forall>c \<in> set (cc_Windows cfg). rolling_config c"
    and "w \<in> set (s_windows (clientSubject loc cfg))" and "w_typeName w = ''requests''" and "0 < w_maxRequests w"
    and "sorted (serve_times rs)" and "int (length rs) < 2 ^ 63"
  shows "int (length (filter (in_window (w_duration w) T)
           (client_serve (cc_Name cfg) rs (Some (newTrackerFromClients loc cfgs))))) \<le> w_maxRequests w"
proof -
  let ?s0 = "clientSubject loc cfg"
  note fresh = clientSubject_fresh [OF assms(3), of loc]
  have "quota_view (cc_Name cfg) (Some (newTrackerFromClients loc cfgs)) = Some ?s0"
    using tracker_subject [OF assms(1,2), of "clientSubject loc"] by (simp add: quota_view_def newTrackerFromClients_def)
  then have "length (filter (in_window (w_duration w) T)
      ([] @ client_serve (cc_Name cfg) rs (Some (newTrackerFromClients loc cfgs)))) \<le> nat (w_maxRequests w)"
    using fresh assms(4-8)
    by (intro client_serve_bound [where init = ?s0 and ops = "[]"]) (auto simp: history_def)
  then show ?thesis using assms(6) by (simp add: nat_le_iff)
qed

text \<open>When a client's requests do not overlap, the requests recorded within any span of a
  request window's duration never exceed its maximum.\<close>

theorem client_requests_bounded:
  assumes "distinct (map cc_Name cfgs)" and "cfg \<in> set cfgs" and "\<forall>c \<in> set (cc_Windows cfg). rolling_config c"
    and "w \<in> set (s_windows (clientSubject loc cfg))" and "w_typeName w = ''requests''" and "0 < w_maxRequests w"
    and "sorted (serve_times rs)" and "int (length rs) < 2 ^ 63"
  shows "int (length (filter (in_window (w_duration w) T)
           (client_serve (cc_Name cfg) rs (Some (newTrackerFromClients loc cfgs))))) \<le> w_maxRequests w"
  by (rule client_windows_bound [OF assms])

theorem client_requests_bounded_witness:
  "length (filter (in_window 100 200) (client_serve ''c'' [(101, 102), (110, 111), (120, 130), (150, 150)]
     (Some (newTrackerFromClients (\<lambda>_. None) [sample_client])))) \<le> 2"
proof -
  let ?w = "newWindowState (\<lambda>_. None) (hd (cc_Windows sample_client))"
  have "w_typeName ?w = ''requests''" "w_maxRequests ?w = 2" "w_duration ?w = 100" "cc_Name sample_client = ''c''"
    "s_windows (clientSubject (\<lambda>_. None) sample_client) = [?w]"
    "\<forall>c \<in> set (cc_Windows sample_client). rolling_config c"
    by (simp_all add: newWindowState_def sample_client_def rolling_config_def clientSubject_def newSubjectState_def
        normalizeClientWindows_def)
  then show ?thesis
    using client_requests_bounded [of "[sample_client]" sample_client ?w "\<lambda>_. None"
        "[(101, 102), (110, 111), (120, 130), (150, 150)]" 200]
    by (simp add: serve_times_def)
qed

lemma quota_probe_excludes:
  assumes "qd_Probe (fst (quota_BeforeAttempt now n t))"
    and "quota_view n (snd (quota_BeforeAttempt now n t)) = Some s" and "U = s_cooldownUntil s"
    and "\<forall>e \<in> set es. quota_key e = n \<longrightarrow> \<not> quota_releases U e" and "later < U"
  shows "\<not> qd_Allowed (fst (quota_BeforeAttempt later n
           (fold quota_step es (snd (quota_BeforeAttempt now n t)))))"
proof -
  let ?t = "snd (quota_BeforeAttempt now n t)"
  obtain s0 where s0: "quota_view n t = Some s0" "qd_Probe (fst (before_subject now True s0))"
    using assms(1) by (auto simp: quota_BeforeAttempt_def quota_decision_view quota_allow_def split: option.splits)
  have "s = snd (before_subject now True s0)"
    using quota.same_key [of "QBefore now n" t] assms(2) s0(1) by simp
  then have "quota_locked U (quota_view n ?t)"
    using s0(2) assms(2,3)
    by (auto simp: before_subject_def Let_def inCooldown_def IsZero_def quota_allow_def split: if_splits prod.splits)
  then have "quota_locked U (quota_view n (fold quota_step es ?t))"
    using assms(4) by (intro quota.locked_run) auto
  then obtain s1 where s1: "quota_view n (fold quota_step es ?t) = Some s1" "quota_locked U (Some s1)"
    by (cases "quota_view n (fold quota_step es ?t)") auto
  then have "quota_locked U (Some (subject_rollover later s1))" using subject_rollover_locked assms(5) by blast
  then show ?thesis using assms(5) s1(1)
    by (auto simp: quota_BeforeAttempt_def quota_decision_view before_subject_def Let_def inCooldown_def IsZero_def)
qed

text \<open>At most one quota probe at a time: after an outbound in cooldown was admitted as a probe, every other
  attempt before the end of the cooldown is denied until a success or another quota error of that
  outbound is recorded.\<close>

theorem quota_single_probe:
  assumes "qd_Probe (fst (quota_BeforeAttempt now n t))"
    and "quota_view n (snd (quota_BeforeAttempt now n t)) = Some s" and "U = s_cooldownUntil s"
    and "\<forall>e \<in> set es. quota_key e = n \<longrightarrow> \<not> quota_releases U e" and "later < U"
  shows "\<not> qd_Allowed (fst (quota_BeforeAttempt later n
           (fold quota_step es (snd (quota_BeforeAttempt now n t)))))"
  by (rule quota_probe_excludes [OF assms])

definition sample_outbound_quota :: OutboundConfig where
  "sample_outbound_quota = \<lparr>oc_Name = ''o'', oc_Windows = [], oc_Cooldown = 100, oc_ProbeInterval = 30,
     oc_ResetAll = noResetAll\<rparr>"

definition sample_exceeded :: "Tracker option" where
  "sample_exceeded = RecordQuotaExceeded 1000 ''o'' (Some (newTrackerFromOutbounds (\<lambda>_. None) [sample_outbound_quota]))"

theorem quota_single_probe_witness:
  "\<not> qd_Allowed (fst (quota_BeforeAttempt 1099 ''o''
     (fold quota_step [QBefore 1050 ''o''] (snd (quota_BeforeAttempt 1030 ''o'' sample_exceeded)))))"
proof -
  let ?t = "snd (quota_BeforeAttempt 1030 ''o'' sample_exceeded)"
  have *: "qd_Probe (fst (quota_BeforeAttempt 1030 ''o'' sample_exceeded))"
    "map_option s_cooldownUntil (quota_view ''o'' ?t) = Some 1100" by code_simp+
  then obtain s where "quota_view ''o'' ?t = Some s" "1100 = s_cooldownUntil s" by (cases "quota_view ''o'' ?t") auto
  from quota_single_probe [OF *(1) this, of "[QBefore 1050 ''o'']" 1099] show ?thesis by simp
qed

text \<open>After an upstream quota error and until the cooldown has passed, an attempt is admitted only as a
  probe, exactly from the probe interval on; before that it is denied with the reason cooldown and the
  instant of the first probe as the retry time.\<close>

theorem quota_cooldown_cycle:
  assumes "quota_view n t = Some s" and "0 < tf + s_cooldown s" and "0 < tf + s_probeInterval s"
    and "tf \<le> now" and "now < tf + s_cooldown s"
  shows "let d = fst (quota_BeforeAttempt now n (RecordQuotaExceeded tf n t))
    in qd_Allowed d = qd_Probe d \<and> (qd_Allowed d \<longleftrightarrow> tf + s_probeInterval s \<le> now)
       \<and> (\<not> qd_Allowed d \<longrightarrow> qd_Reason d = StateCooldown \<and> qd_RetryAfter d = tf + s_probeInterval s)"
proof -
  have v: "quota_view n (RecordQuotaExceeded tf n t) = Some (exceeded_subject tf s)"
    using quota.same_key [of "QExceeded tf n" t] assms(1) by simp
  show ?thesis using assms(2-5)
    unfolding quota_BeforeAttempt_def quota_decision_view v Let_def option.case
    by (auto simp: before_subject_def exceeded_subject_def subject_rollover_def inCooldown_def IsZero_def quota_allow_def Let_def)
qed

theorem quota_cooldown_cycle_witness:
  "let d = fst (quota_BeforeAttempt 1029 ''o'' sample_exceeded)
   in \<not> qd_Allowed d \<and> qd_RetryAfter d = 1030"
proof -
  let ?t = "Some (newTrackerFromOutbounds (\<lambda>_. None) [sample_outbound_quota])"
  have "quota_view ''o'' ?t = Some (outboundSubject (\<lambda>_. None) sample_outbound_quota)"
    by (simp add: quota_view_def newTrackerFromOutbounds_def sample_outbound_quota_def)
  from quota_cooldown_cycle [OF this, of 1000 1029] show ?thesis
    by (auto simp: sample_exceeded_def outboundSubject_def newSubjectState_def sample_outbound_quota_def Let_def)
qed

section \<open>Persistence restores what it saved\<close>

definition forget :: "subjectState \<Rightarrow> subjectState" where
  "forget s = s\<lparr>s_windows := map (\<lambda>w. w\<lparr>w_events := []\<rparr>) (s_windows s), s_cooldownUntil := zeroTime,
     s_nextProbeAt := zeroTime, s_lastQuotaExceededAt := zeroTime, s_lastSuccessAt := zeroTime,
     s_probeInFlight := False\<rparr>"

definition storable :: "subjectState \<Rightarrow> bool" where
  "storable s \<longleftrightarrow> distinct (map w_name (s_windows s))
     \<and> (\<forall>w \<in> set (s_windows s). sorted (map ev_At (w_events w)) \<and> (\<forall>e \<in> set (w_events w). year_ok (ev_At e) \<and> ev_At e \<noteq> zeroTime))
     \<and> year_ok (s_cooldownUntil s) \<and> year_ok (s_nextProbeAt s)
     \<and> year_ok (s_lastQuotaExceededAt s) \<and> year_ok (s_lastSuccessAt s)"

lemma on_subject_fold:
  assumes "keys_ok m"
  shows "quota_view n (fold (\<lambda>(k, v). on_subject k (f v)) m t) =
    map_option (\<lambda>s. case map_of m n of None \<Rightarrow> s | Some v \<Rightarrow> f v s) (quota_view n t)"
  using assms
proof (induction m arbitrary: t)
  case (Cons kv m)
  obtain k v where kv: "kv = (k, v)" by (cases kv)
  have step: "quota_view n (on_subject k g t) = (if k = n then map_option g (quota_view n t) else quota_view n t)" for g
    by (auto simp: quota_view_def on_subject_def split: option.splits)
  have "map_of m k = None" "keys_ok m" using Cons.prems by (auto simp: keys_ok_def kv map_of_eq_None_iff)
  then show ?case using Cons.IH [of "on_subject k (f v) t"] by (auto simp: kv step option.map_comp comp_def map_option.id [unfolded id_def] split: option.splits)
qed (simp add: map_option.id [unfolded id_def])

lemma parse_formatted: "year_ok t \<Longrightarrow> t \<noteq> zeroTime \<Longrightarrow> parsePersistedTime (format_or_empty t) = Some t"
  by (simp add: parsePersistedTime_def IsZero_def parse_format_RFC3339) (simp add: format_or_empty_def IsZero_def parse_format_RFC3339)

lemma restore_formatted: "year_ok t \<Longrightarrow> restore_time (format_or_empty t) zeroTime = t"
  by (cases "t = 0") (simp_all add: restore_time_def parse_formatted, simp add: parsePersistedTime_def IsZero_def)

lemma restore_events:
  "\<forall>e \<in> set es. year_ok (ev_At e) \<and> ev_At e \<noteq> zeroTime \<Longrightarrow> List.map_filter restore_event (map persist_event es) = es"
  by (induction es) (simp_all add: map_filter_def restore_event_def persist_event_def parse_formatted)

lemma restore_window_persisted:
  assumes "distinct (map w_name ws)" and "w \<in> set ws" and "sorted (map ev_At (w_events w))"
    and "\<forall>e \<in> set (w_events w). year_ok (ev_At e) \<and> ev_At e \<noteq> zeroTime"
    and "ps_Windows saved = fold (\<lambda>w. AList.update (w_name w) (persist_window w)) ws []"
  shows "restore_window saved 3 client (w\<lparr>w_events := []\<rparr>) = w"
proof -
  have "map_of (ps_Windows saved) (w_name w) = Some (persist_window w)"
    using tracker_subject [OF assms(1,2), of persist_window] by (simp add: assms(5))
  moreover have "scheduleKey (w\<lparr>w_events := []\<rparr>) = scheduleKey w" by (simp add: scheduleKey_def)
  ultimately show ?thesis using assms(3) restore_events [OF assms(4)]
    by (simp add: restore_window_def persistedCompatible_def persist_window_def sort_key_id_if_sorted)
qed

lemma subject_rollover_quiet:
  assumes "IsZero (s_cooldownUntil x) \<or> now < s_cooldownUntil x"
    and "s_windows (subject_rollover now x) = s_windows x"
  shows "subject_rollover now x = x"
proof -
  have "subject_rollover now x = x\<lparr>s_windows := s_windows (subject_rollover now x)\<rparr>"
    using assms(1) by (auto simp: subject_rollover_def Let_def)
  then show ?thesis using assms(2) by simp
qed

lemma subject_rollover_idem:
  assumes "\<forall>w \<in> set (s_windows s). sorted (map ev_At (w_events w))"
  shows "subject_rollover now ((subject_rollover now s)\<lparr>s_probeInFlight := b\<rparr>) =
    (subject_rollover now s)\<lparr>s_probeInFlight := b\<rparr>"
proof (rule subject_rollover_quiet)
  let ?s = "(subject_rollover now s)\<lparr>s_probeInFlight := b\<rparr>"
  have "\<forall>w \<in> set (s_windows ?s). sorted (map ev_At (w_events w))"
    using assms by (auto simp: subject_rollover_windows sorted_filter)
  then show "s_windows (subject_rollover now ?s) = s_windows ?s"
    using assms by (simp add: subject_rollover_windows window_config_only)
  show "IsZero (s_cooldownUntil ?s) \<or> now < s_cooldownUntil ?s"
    by (auto simp: subject_rollover_def Let_def IsZero_def)
qed

lemma storable_rollover:
  assumes "storable s"
  shows "storable (subject_rollover now s)"
proof -
  have ws: "s_windows (subject_rollover now s) =
      map (\<lambda>w. w\<lparr>w_events := filter (alive (s_resetAll s) w now) (w_events w)\<rparr>) (s_windows s)"
    using assms by (intro subject_rollover_windows) (simp add: storable_def)
  have "year_ok 0" by code_simp
  then show ?thesis using assms unfolding storable_def ws
    by (auto simp: comp_def sorted_filter subject_rollover_def Let_def)
qed

lemma import_persisted:
  assumes "storable s"
  shows "import_subject now' 3 client (persist_subject (subject_rollover now s)) (forget s) =
    subject_rollover now' ((subject_rollover now s)\<lparr>s_probeInFlight := False\<rparr>)"
proof -
  let ?r = "subject_rollover now s"
  have r: "storable ?r" by (rule storable_rollover [OF assms])
  have sorted: "\<forall>w \<in> set (s_windows s). sorted (map ev_At (w_events w))" using assms by (simp add: storable_def)
  have blank: "s_windows (forget s) = map (\<lambda>w. w\<lparr>w_events := []\<rparr>) (s_windows ?r)"
    by (simp add: forget_def subject_rollover_windows [OF sorted])
  have "map (restore_window (persist_subject ?r) 3 client) (s_windows (forget s)) = s_windows ?r"
  proof -
    have "restore_window (persist_subject ?r) 3 client (w\<lparr>w_events := []\<rparr>) = w" if "w \<in> set (s_windows ?r)" for w
      using r that by (intro restore_window_persisted [of "s_windows ?r"]) (auto simp: storable_def persist_subject_def)
    then show ?thesis unfolding blank by (simp add: map_idI)
  qed
  then have "import_subject now' 3 client (persist_subject ?r) (forget s) = subject_rollover now'
      ((forget s)\<lparr>s_cooldownUntil := s_cooldownUntil ?r, s_nextProbeAt := s_nextProbeAt ?r,
        s_lastQuotaExceededAt := s_lastQuotaExceededAt ?r, s_lastSuccessAt := s_lastSuccessAt ?r,
        s_windows := s_windows ?r\<rparr>)"
    using r by (simp add: import_subject_def persist_subject_def Let_def restore_formatted storable_def forget_def)
  also have "(forget s)\<lparr>s_cooldownUntil := s_cooldownUntil ?r, s_nextProbeAt := s_nextProbeAt ?r,
        s_lastQuotaExceededAt := s_lastQuotaExceededAt ?r, s_lastSuccessAt := s_lastSuccessAt ?r,
        s_windows := s_windows ?r\<rparr> = ?r\<lparr>s_probeInFlight := False\<rparr>"
    by (simp add: forget_def subject_rollover_def Let_def)
  finally show ?thesis .
qed

text \<open>Exporting the state of a tracker and importing it later into a fresh tracker of the same configuration gives back every
  subject, less what has expired at both times, and no probe is in flight.\<close>

definition storable_tracker :: "Tracker \<Rightarrow> bool" where
  "storable_tracker t \<longleftrightarrow> keys_ok (t_subjects t) \<and> (\<forall>(n, s) \<in> set (t_subjects t). storable s)"

definition forget_tracker :: "Tracker \<Rightarrow> Tracker" where
  "forget_tracker t = t\<lparr>t_subjects := map (\<lambda>(n, s). (n, forget s)) (t_subjects t)\<rparr>"

definition restored_at :: "gotime \<Rightarrow> gotime \<Rightarrow> subjectState \<Rightarrow> subjectState" where
  "restored_at saved now s = subject_rollover now ((subject_rollover saved s)\<lparr>s_probeInFlight := False\<rparr>)"

lemma export_import_view:
  assumes "storable_tracker t"
  shows "quota_view n (ImportState now (fst (ExportState wallNow saved (Some t))) (Some (forget_tracker t))) =
    map_option (restored_at saved now) (quota_view n (Some t))"
proof -
  let ?m = "map (\<lambda>(n, s). (n, persist_subject (subject_rollover saved s))) (t_subjects t)"
  have m: "pst_Subjects (fst (ExportState wallNow saved (Some t))) = ?m" "pst_Version (fst (ExportState wallNow saved (Some t))) = 3"
    by (simp_all add: ExportState_def rollover_all_def Let_def comp_def case_prod_beta)
  have "keys_ok ?m" using assms by (simp add: storable_tracker_def)
  then have "quota_view n (ImportState now (fst (ExportState wallNow saved (Some t))) (Some (forget_tracker t))) =
      map_option (\<lambda>x. case map_of ?m n of None \<Rightarrow> x | Some v \<Rightarrow> import_subject now 3 (t_client t) v x) (quota_view n (Some (forget_tracker t)))"
    using on_subject_fold [of ?m n "import_subject now 3 (t_client t)"] by (simp add: ImportState_def m forget_tracker_def)
  moreover have "storable s" if "map_of (t_subjects t) n = Some s" for s
    using map_of_SomeD [OF that] assms by (auto simp: storable_tracker_def)
  ultimately show ?thesis
    by (cases "map_of (t_subjects t) n") (simp_all add: quota_view_def forget_tracker_def map_of_map_snd restored_at_def import_persisted)
qed

section \<open>Reconfiguration keeps usage that still applies\<close>

lemma AList_delete_other: "k \<noteq> j \<Longrightarrow> map_of (AList.delete k m) j = map_of m j"
  by (simp add: delete_conv')

lemma scheduleKey_blank [simp]: "scheduleKey (w\<lparr>w_events := es\<rparr>) = scheduleKey w"
  by (simp add: scheduleKey_def)

lemma merge_loop_same:
  assumes "distinct (map w_name ws)" and "\<forall>w \<in> set ws. map_of m (w_name w) = Some w"
  shows "merge_loop (map (\<lambda>w. w\<lparr>w_events := []\<rparr>) ws) m = (ws, fold (\<lambda>w. AList.delete (w_name w)) ws m, False)"
  using assms
proof (induction ws arbitrary: m)
  case (Cons w ws)
  have "\<forall>x \<in> set ws. map_of (AList.delete (w_name w) m) (w_name x) = Some x"
  proof
    fix x assume "x \<in> set ws"
    then have "w_name w \<noteq> w_name x" using Cons.prems(1) by auto
    then show "map_of (AList.delete (w_name w) m) (w_name x) = Some x"
      using Cons.prems(2) \<open>x \<in> set ws\<close> by (simp add: AList_delete_other)
  qed
  then have IH: "merge_loop (map (\<lambda>w. w\<lparr>w_events := []\<rparr>) ws) (AList.delete (w_name w) m) =
      (ws, fold (\<lambda>w. AList.delete (w_name w)) ws (AList.delete (w_name w) m), False)"
    using Cons.IH Cons.prems(1) by simp
  have "window_compatible (w\<lparr>w_events := []\<rparr>) w" by (simp add: window_compatible_def)
  then show ?case using IH Cons.prems(2) by simp
qed simp

lemma fold_delete_keys:
  "set (map fst (fold (\<lambda>w. AList.delete (w_name w)) ws m)) = set (map fst m) - w_name ` set ws"
proof (induction ws arbitrary: m)
  case (Cons w ws)
  have "set (map fst (AList.delete (w_name w) m)) = set (map fst m) - {w_name w}"
    by (simp only: delete_keys set_removeAll)
  then show ?case using Cons.IH [of "AList.delete (w_name w) m"] by auto
qed simp

lemma fold_update_keys:
  "set (map fst (fold (\<lambda>w. AList.update (w_name w) w) ws m)) = set (map fst m) \<union> w_name ` set ws"
  by (induction ws arbitrary: m) (auto simp: dom_update)

lemma mergeWindows_same:
  assumes "distinct (map w_name (s_windows s))" and "s_windows fresh = map (\<lambda>w. w\<lparr>w_events := []\<rparr>) (s_windows s)"
  shows "mergeWindows s fresh = (fresh\<lparr>s_windows := s_windows s\<rparr>, False)"
proof -
  let ?m = "fold (\<lambda>w. AList.update (w_name w) w) (s_windows s) []"
  have "\<forall>w \<in> set (s_windows s). map_of ?m (w_name w) = Some w"
    using tracker_subject [OF assms(1), of _ "\<lambda>w. w"] by blast
  moreover have "fold (\<lambda>w. AList.delete (w_name w)) (s_windows s) ?m = []"
    using fold_delete_keys [of "s_windows s" ?m] fold_update_keys [of "s_windows s" "[]"] by simp
  ultimately show ?thesis
    using merge_loop_same [OF assms(1), of ?m] by (simp add: mergeWindows_def assms(2))
qed

lemma reconfigure_outbound_same:
  assumes "distinct (map w_name (s_windows s))"
  shows "reconfigure_outbound_subject (Some s) (forget s) = (s, False)"
  using mergeWindows_same [OF assms, of "(forget s)\<lparr>s_cooldownUntil := s_cooldownUntil s, s_nextProbeAt := s_nextProbeAt s,
                        s_lastQuotaExceededAt := s_lastQuotaExceededAt s,
                        s_lastSuccessAt := s_lastSuccessAt s, s_probeInFlight := s_probeInFlight s\<rparr>"]
  by (simp add: reconfigure_outbound_subject_def forget_def Let_def)

lemma reconfigure_fold:
  assumes "distinct (map fst fresh)"
    and "fold (\<lambda>(n, s) (nxt, changed). case merge (map_of olds n) s of (s', c) \<Rightarrow> (AList.update n s' nxt, c \<or> changed))
           fresh (acc, ch) = (nxt, changed)"
  shows "map_of nxt n = (case map_of fresh n of Some s \<Rightarrow> Some (fst (merge (map_of olds n) s)) | None \<Rightarrow> map_of acc n)
    \<and> (changed \<longleftrightarrow> ch \<or> list_ex (\<lambda>(n, s). snd (merge (map_of olds n) s)) fresh)"
  using assms
proof (induction fresh arbitrary: acc ch)
  case (Cons ks fresh)
  obtain k s where ks: "ks = (k, s)" by (cases ks)
  obtain s' c where sc: "merge (map_of olds k) s = (s', c)" by (cases "merge (map_of olds k) s")
  have "map_of fresh k = None" using Cons.prems(1) by (simp add: ks map_of_eq_None_iff)
  then show ?case
    using Cons.IH [of "AList.update k s' acc" "c \<or> ch"] Cons.prems by (auto simp: ks sc split: option.splits)
qed simp

lemma fold_map_option_None: "fold (\<lambda>e. map_option (f e)) es None = None"
  by (induction es) auto

lemma quota_run_Some: "\<exists>t'. fold quota_step es (Some t) = Some t'"
proof (induction es arbitrary: t)
  case (Cons e es)
  have "\<exists>t'. quota_step e (Some t) = Some t'"
    by (cases e) (auto simp: quota_op_defs split: option.splits prod.splits)
  then show ?case using Cons.IH by auto
qed simp

lemma fold_update_map_of:
  assumes "distinct (map fst xs)"
  shows "map_of (fold (\<lambda>(k, v). AList.update k v) xs acc) n =
    (case map_of xs n of Some v \<Rightarrow> Some v | None \<Rightarrow> map_of acc n)"
  using assms
proof (induction xs arbitrary: acc)
  case (Cons kv xs)
  obtain k v where kv: "kv = (k, v)" by (cases kv)
  have "map_of xs k = None" using Cons.prems by (simp add: kv map_of_eq_None_iff)
  then show ?case using Cons.IH [of "AList.update k v acc"] Cons.prems by (auto simp: kv split: option.splits)
qed simp

lemma forget_frame:
  "forget (s\<lparr>s_probeInFlight := b\<rparr>) = forget s" "forget (s\<lparr>s_lastSuccessAt := t\<rparr>) = forget s"
  "forget (s\<lparr>s_cooldownUntil := t\<rparr>) = forget s" "forget (s\<lparr>s_nextProbeAt := t\<rparr>) = forget s"
  "forget (s\<lparr>s_lastQuotaExceededAt := t\<rparr>) = forget s"
  by (simp_all add: forget_def)

lemma forget_windows:
  "map (\<lambda>w. w\<lparr>w_events := []\<rparr>) ws = map (\<lambda>w. w\<lparr>w_events := []\<rparr>) (s_windows s) \<Longrightarrow>
     forget (s\<lparr>s_windows := ws\<rparr>) = forget s"
  by (simp add: forget_def)

lemma forget_rollover: "forget (subject_rollover now s) = forget s"
proof -
  have "(window_rollover now w)\<lparr>w_events := []\<rparr> = w\<lparr>w_events := []\<rparr>"
    "(discardBefore c w)\<lparr>w_events := []\<rparr> = w\<lparr>w_events := []\<rparr>" for c w
    by (simp_all add: window_rollover_def discard_events)
  then show ?thesis by (simp add: subject_rollover_def Let_def forget_frame forget_windows comp_def)
qed

lemma quota_local_forget: "forget (quota_local e s) = forget s"
  by (cases e) (simp_all add: before_subject_state client_usage_subject_def success_subject_def exceeded_subject_def
      forget_frame forget_windows forget_rollover add_event_def Let_def comp_def if_distrib cong: if_cong)

lemma forget_run: "forget (fold quota_local es s) = forget s"
  by (induction es arbitrary: s) (simp_all add: quota_local_forget)

lemma outboundSubject_forget: "forget (outboundSubject loc cfg) = outboundSubject loc cfg"
  by (simp add: forget_def outboundSubject_def newSubjectState_def newWindowState_def)

lemma forget_names: "forget s = forget s' \<Longrightarrow> map w_name (s_windows s) = map w_name (s_windows s')"
proof -
  have "map w_name (s_windows s) = map w_name (s_windows (forget s))" for s by (simp add: forget_def)
  then show "forget s = forget s' \<Longrightarrow> map w_name (s_windows s) = map w_name (s_windows s')" by metis
qed

text \<open>Reconfiguring an outbound tracker with the configuration it runs on reports no reset and changes no
  subject, whatever was recorded before.\<close>

theorem reconfigure_same_config:
  assumes "distinct (map oc_Name cfgs)" and "\<forall>cfg \<in> set cfgs. distinct (map wc_Name (oc_Windows cfg))"
    and "t = fold quota_step es (Some (newTrackerFromOutbounds loc cfgs))"
  shows "fst (Reconfigure loc cfgs t) = False \<and> quota_view n (snd (Reconfigure loc cfgs t)) = quota_view n t"
proof -
  let ?fresh = "map (\<lambda>cfg. (oc_Name cfg, outboundSubject loc cfg)) cfgs"
  have fresh: "distinct (map fst ?fresh)" using assms(1) by (simp add: comp_def)
  have view: "quota_view n t = map_option (fold quota_local (filter (\<lambda>e. quota_key e = n) es)) (map_of ?fresh n)" for n
  proof -
    have "quota_view n (Some (newTrackerFromOutbounds loc cfgs)) = map_of ?fresh n"
      using fold_update_map_of [OF fresh, of "[]" n]
      by (simp add: quota_view_def newTrackerFromOutbounds_def fold_map comp_def split: option.splits)
    then show ?thesis unfolding assms(3) quota.view_run
      by (cases "map_of ?fresh n") (simp_all add: fold_map_option fold_map_option_None)
  qed
  obtain t' where t': "t = Some t'" "\<And>n. map_of (t_subjects t') n = quota_view n t"
    using quota_run_Some [of es "newTrackerFromOutbounds loc cfgs"] assms(3) by (auto simp: quota_view_def)
  have same: "reconfigure_outbound_subject (map_of (t_subjects t') n) s = (the (quota_view n t), False)"
    if s: "map_of ?fresh n = Some s" for n s
  proof -
    obtain cfg where cfg: "cfg \<in> set cfgs" "s = outboundSubject loc cfg" using map_of_SomeD [OF s] by auto
    let ?s = "fold quota_local (filter (\<lambda>e. quota_key e = n) es) s"
    have fs: "forget ?s = s" by (simp add: forget_run cfg(2) outboundSubject_forget)
    have "map w_name (s_windows ?s) = map wc_Name (oc_Windows cfg)"
      using forget_names [of ?s s] fs outboundSubject_forget [of loc cfg]
      by (simp add: cfg(2) outboundSubject_def newSubjectState_def newWindowState_def comp_def)
    then have "distinct (map w_name (s_windows ?s))" using assms(2) cfg(1) by simp
    then have "reconfigure_outbound_subject (Some ?s) s = (?s, False)"
      using reconfigure_outbound_same [of ?s] fs by simp
    then show ?thesis using t'(2) [of n] view [of n] s by simp
  qed
  obtain nxt changed where res: "fold (\<lambda>(n, s) (nxt, changed). case reconfigure_outbound_subject (map_of (t_subjects t') n) s of
      (s', c) \<Rightarrow> (AList.update n s' nxt, c \<or> changed)) ?fresh ([], False) = (nxt, changed)"
    by (meson surj_pair)
  note F = reconfigure_fold [OF fresh res]
  have nxt: "map_of nxt n = quota_view n t" for n
    using F [of n] view [of n] same [of n] by (cases "map_of ?fresh n") auto
  have "\<not> changed" using F same fresh by (auto simp: list_ex_iff dest!: map_of_is_SomeI [rotated])
  moreover have "\<not> list_ex (\<lambda>(n, s). map_of nxt n = None \<and> hasUsage s) (t_subjects t')"
  proof -
    have "map_of nxt n \<noteq> None" if "(n, s) \<in> set (t_subjects t')" for n s
      using nxt t'(2) that by (metis fst_conv image_eqI map_of_eq_None_iff)
    then show ?thesis by (fastforce simp: list_ex_iff)
  qed
  ultimately show ?thesis using nxt
    by (simp add: t'(1) Reconfigure_def reconfigure_subjects_def res Let_def) (simp add: quota_view_def t'(1))
qed

theorem reconfigure_same_config_witness:
  "quota_view ''o'' (snd (Reconfigure (\<lambda>_. None) [sample_outbound_quota]
     (fold quota_step [QExceeded 1000 ''o''] (Some (newTrackerFromOutbounds (\<lambda>_. None) [sample_outbound_quota]))))) =
   quota_view ''o'' sample_exceeded"
proof -
  let ?t = "fold quota_step [QExceeded 1000 ''o''] (Some (newTrackerFromOutbounds (\<lambda>_. None) [sample_outbound_quota]))"
  have "distinct (map oc_Name [sample_outbound_quota])"
    "\<forall>cfg \<in> set [sample_outbound_quota]. distinct (map wc_Name (oc_Windows cfg))"
    by (simp_all add: sample_outbound_quota_def)
  from reconfigure_same_config [OF this refl, where n = "''o''" and es = "[QExceeded 1000 ''o'']" and loc = "\<lambda>_. None"]
  show ?thesis by (simp add: sample_exceeded_def)
qed

section \<open>Amounts of money\<close>

lemma digit_not_special: "is_digit c \<Longrightarrow> c \<notin> set ''.eE+-''"
  by (auto simp: is_digit_def digit_value_def)

lemma Split_no_sep: "c \<notin> set s \<Longrightarrow> Split s c = [s]"
  by (induction s) auto

lemma Split_one_sep: "c \<notin> set a \<Longrightarrow> c \<notin> set b \<Longrightarrow> Split (a @ c # b) c = [a, b]"
  by (induction a) (auto simp: Split_no_sep)

lemma ParseInt_digits:
  assumes "s \<noteq> []" "list_all is_digit s" "digits_value s < 2 ^ 63" "0 \<le> digits_value s"
  shows "ParseInt s = Some (digits_value s)"
proof -
  obtain c r where s: "s = c # r" using assms(1) by (cases s) simp_all
  then have "c \<noteq> CHR ''-''" "c \<noteq> CHR ''+''" using assms(2) digit_not_special [of c] by auto
  then show ?thesis using assms s by (simp add: ParseInt_def int64_def)
qed

lemma TrimRightChar_append: "d \<noteq> c \<Longrightarrow> TrimRightChar (a @ d # b) c = a @ d # TrimRightChar b c"
  by (simp add: TrimRightChar_def dropWhile_append)

lemma pad_fraction_trim:
  assumes "length b = 6"
  shows "pad_fraction (TrimRightChar b (CHR ''0'')) = b" "length (TrimRightChar b (CHR ''0'')) \<le> 6"
proof -
  obtain k where k: "b = TrimRightChar b (CHR ''0'') @ replicate k (CHR ''0'')" using TrimRightChar_split by blast
  have "length (TrimRightChar b (CHR ''0'')) + k = 6" using assms arg_cong [OF k, of length] by simp
  then show "pad_fraction (TrimRightChar b (CHR ''0'')) = b" "length (TrimRightChar b (CHR ''0'')) \<le> 6"
    using k by (auto simp: pad_fraction_def) (metis add_diff_cancel_left')
qed

lemma show_uint_nonempty [simp]: "show_uint n \<noteq> []"
  by (simp add: show_uint.simps [of n])

text \<open>Amounts of money survive printing and parsing: the decimal text formatMicroUSD writes for a positive
  amount of micro dollars is read back by costUSDMicro as the same amount.\<close>

theorem cost_roundtrip:
  assumes "0 < v" and "v < 2 ^ 63"
  shows "costUSDMicro (formatMicroUSD v) = Inr v"
proof -
  let ?w = "v div 1000000" and ?f = "v mod 1000000"
  have sgn: "v sdiv 1000000 = ?w" "v smod 1000000 = ?f"
    using assms(1) by (simp_all add: signed_divide_int_def signed_modulo_int_def sgn_mult minus_div_mult_eq_mod [symmetric])
  have w: "0 \<le> ?w" "?w < 2 ^ 63" "0 \<le> ?f" "?f < 1000000" "?w * 1000000 + ?f = v"
    using assms by (simp_all add: pos_imp_zdiv_nonneg_iff div_less_iff_less_mult)
  have le: "?w \<le> (9223372036854775807 - ?f) sdiv 1000000"
  proof -
    have "?w * 1000000 \<le> 9223372036854775807 - ?f"
      using assms(2) by (simp add: minus_mod_eq_div_mult [symmetric])
    then have "?w * 1000000 div 1000000 \<le> (9223372036854775807 - ?f) div 1000000" by (rule zdiv_mono1) simp
    moreover have "(9223372036854775807 - ?f) sdiv 1000000 = (9223372036854775807 - ?f) div 1000000"
      using w(4) by (simp add: signed_divide_int_def sgn_if)
    ultimately show ?thesis by simp
  qed
  have range: "int64 (9223372036854775807 - ?f)" "int64 (?w * 1000000)" "int64 v"
    using w assms by (auto simp: int64_def)
  have ds: "list_all is_digit (show_uint ?w)" "digits_value (show_uint ?w) = ?w" using show_uint_digits [OF w(1)] by auto
  have digits_clean: "CHR ''.'' \<notin> set d" "CHR ''e'' \<notin> set d" "CHR ''E'' \<notin> set d" "CHR ''+'' \<notin> set d" "CHR ''-'' \<notin> set d"
    if "list_all is_digit d" for d using that by (auto simp: list_all_iff dest!: bspec digit_not_special)
  have prefix: "\<not> HasPrefix (show_uint ?w @ z) ''+''" "\<not> HasPrefix (show_uint ?w @ z) ''-''" for z
    using digits_clean(4,5) [OF ds(1)] by (cases "show_uint ?w"; auto simp: HasPrefix_def)+
  have int: "ParseInt (show_uint ?w) = Some ?w" using ParseInt_digits [of "show_uint ?w"] ds w by simp
  show ?thesis
  proof (cases "?f = 0")
    case True
    have "ParseInt (pad_fraction []) = Some 0" by code_simp
    moreover have "formatMicroUSD v = show_uint ?w"
      using True assms(1) w(1) by (simp add: formatMicroUSD_def sgn show_int_def Let_def)
    moreover have "?w * 1000000 = v" using w(5) True by simp
    ultimately show ?thesis
      using le range int prefix [of "[]"] digits_clean [OF ds(1)] assms(1) True
      by (simp add: costUSDMicro_def Split_no_sep Let_def)
  next
    case False
    let ?b = "pad_zero 6 (show_uint ?f)"
    have b: "length ?b = 6" "list_all is_digit ?b" "digits_value ?b = ?f" using pad_zero_digits [of ?f 5] w by simp_all
    let ?t = "TrimRightChar ?b (CHR ''0'')"
    have t: "list_all is_digit ?t" using TrimRightChar_split [of ?b "CHR ''0''"] b(2) by (metis list_all_append)
    have "?t \<noteq> []"
    proof
      assume "?t = []"
      then obtain k where "?b = replicate k (CHR ''0'')" using TrimRightChar_split [of ?b "CHR ''0''"] by auto
      then show False using b(3) False digits_value_zeros by metis
    qed
    moreover have fmt: "formatMicroUSD v = show_uint ?w @ CHR ''.'' # ?t"
    proof -
      have "\<not> ?f < 0" "\<not> ?w < 0" "v \<noteq> 0" using w(1,3) assms(1) by linarith+
      then show ?thesis using False
        by (simp only: formatMicroUSD_def sgn show_int_def fmt_06d_def Let_def if_False append_Cons append_Nil)
          (rule TrimRightChar_append, simp)
    qed
    moreover have "Split (show_uint ?w @ CHR ''.'' # ?t) (CHR ''.'') = [show_uint ?w, ?t]"
      using digits_clean(1) [OF ds(1)] digits_clean(1) [OF t] by (rule Split_one_sep)
    moreover have "ParseInt (pad_fraction ?t) = Some ?f"
      using ParseInt_digits [of ?b] b w by (simp add: pad_fraction_trim) (metis length_0_conv zero_neq_numeral)
    ultimately show ?thesis
      using le range int prefix [of "CHR ''.'' # ?t"] prefix(2) [of "[]"] digits_clean [OF ds(1)] digits_clean [OF t] assms(1) w(5)
        pad_fraction_trim(2) [OF b(1)]
      by (simp add: costUSDMicro_def Let_def)
  qed
qed

theorem cost_roundtrip_witness: "costUSDMicro ''25.07'' = Inr 25070000"
proof -
  have "formatMicroUSD 25070000 = ''25.07''" by code_simp
  then show ?thesis using cost_roundtrip [of 25070000] by simp
qed

text \<open>The fraction of a cost is read by a second signed integer parse, so that a sign after the decimal
  point is accepted: 1.+5 is read as 1.05 dollars and 1.+ as one dollar.\<close>

theorem cost_accepts_signed_fraction: "costUSDMicro ''1.+5'' = Inr 1050000 \<and> costUSDMicro ''1.+'' = Inr 1000000"
  by code_simp

end
