(* ===== verification/Quota_Events.thy ===== *)
theory Quota_Events
  imports Go_Time Config_Types
begin

text \<open>
  Package \<open>internal/quota\<close>, file \<open>events.go\<close>: the bounded log of quota and health events. A nil
  recorder is \<open>None\<close>.
\<close>

abbreviation EventClientLimited where "EventClientLimited \<equiv> ''client_limited''"
abbreviation EventOutboundLimited where "EventOutboundLimited \<equiv> ''outbound_limited''"
abbreviation EventOutboundQuotaExceeded where "EventOutboundQuotaExceeded \<equiv> ''outbound_quota_exceeded''"
abbreviation EventOutboundProbeSucceeded where "EventOutboundProbeSucceeded \<equiv> ''outbound_probe_succeeded''"
abbreviation EventProviderHealthLimited where "EventProviderHealthLimited \<equiv> ''provider_health_limited''"
abbreviation EventProviderProbeSucceeded where "EventProviderProbeSucceeded \<equiv> ''provider_probe_succeeded''"

record QuotaEvent =
  qe_Time :: string
  qe_Type :: string
  qe_Client :: string
  qe_Inbound :: string
  qe_Outbound :: string
  qe_Reason :: string
  qe_RetryAfter :: string

record EventRecorder =
  er_maxEntries :: int
  er_events :: "QuotaEvent list"

definition NewTestEventRecorder :: "int \<Rightarrow> EventRecorder option" where
  "NewTestEventRecorder maxEntries =
     (if maxEntries \<le> 0 then None else Some \<lparr>er_maxEntries = maxEntries, er_events = []\<rparr>)"

definition NewEventRecorder :: "GovernanceConfig \<Rightarrow> EventRecorder option" where
  "NewEventRecorder cfg =
     (if \<not> gov_EventsEnabled cfg then None else NewTestEventRecorder (gov_EventsMaxEntries cfg))"

text \<open>\<open>Record\<close> on a recorder that is not nil: the full log shifts by one place.\<close>

definition record_event :: "gotime \<Rightarrow> QuotaEvent \<Rightarrow> EventRecorder \<Rightarrow> EventRecorder" where
  "record_event now event r =
     (let e = (if qe_Time event = [] then event\<lparr>qe_Time := format_or_empty now\<rparr> else event)
      in if int (length (er_events r)) = er_maxEntries r
         then r\<lparr>er_events := tl (er_events r) @ [e]\<rparr>
         else r\<lparr>er_events := er_events r @ [e]\<rparr>)"

definition events_Record :: "gotime \<Rightarrow> QuotaEvent \<Rightarrow> EventRecorder option \<Rightarrow> EventRecorder option" where
  "events_Record now event r = map_option (record_event now event) r"

definition events_Snapshot :: "EventRecorder option \<Rightarrow> QuotaEvent list" where
  "events_Snapshot r = (case r of None \<Rightarrow> [] | Some rec \<Rightarrow> er_events rec)"

section \<open>The recorder is a bounded log\<close>

definition stamped :: "gotime \<Rightarrow> QuotaEvent \<Rightarrow> QuotaEvent" where
  "stamped now event = (if qe_Time event = [] then event\<lparr>qe_Time := format_or_empty now\<rparr> else event)"

definition recorder_wf :: "EventRecorder \<Rightarrow> bool" where
  "recorder_wf r \<longleftrightarrow> 0 < er_maxEntries r \<and> int (length (er_events r)) \<le> er_maxEntries r"

lemma record_event_contents:
  assumes "recorder_wf r"
  shows "er_events (record_event now e r) =
    keep_last (nat (er_maxEntries r)) (er_events r @ [stamped now e])"
proof (cases "int (length (er_events r)) = er_maxEntries r")
  case True
  then have "length (er_events r) = nat (er_maxEntries r)" "0 < nat (er_maxEntries r)"
    using assms by (simp_all add: recorder_wf_def)
  then show ?thesis using True by (simp add: record_event_def stamped_def Let_def keep_last_snoc_full)
next
  case False
  then have "Suc (length (er_events r)) \<le> nat (er_maxEntries r)" using assms unfolding recorder_wf_def by linarith
  then show ?thesis using False by (simp add: record_event_def stamped_def Let_def)
qed

lemma record_event_wf: "recorder_wf r \<Longrightarrow> recorder_wf (record_event now e r)"
  by (cases "er_events r") (auto simp: record_event_def recorder_wf_def Let_def)

interpretation events: bounded_log er_events "\<lambda>(now, e). record_event now e" "\<lambda>(now, e). stamped now e"
  "\<lambda>r. nat (er_maxEntries r)" recorder_wf
proof (unfold_locales, goal_cases)
  case (2 s x)
  then show ?case by (cases x) (simp add: record_event_def Let_def)
next
  case (4 s)
  then show ?case by (simp add: recorder_wf_def le_nat_iff)
qed (auto simp: record_event_contents record_event_wf split: prod.splits)

lemma events_Record_all:
  "fold (\<lambda>(now, e). events_Record now e) xs (Some r) = Some (fold (\<lambda>(now, e). record_event now e) xs r)"
  by (induction xs arbitrary: r) (auto simp: events_Record_def)

text \<open>After any number of records the log holds the newest entries, at most its maximum, oldest first, each
  stamped with the time of its record unless it carried one.\<close>

theorem events_Snapshot_newest:
  assumes "NewTestEventRecorder m = Some r"
  shows "events_Snapshot (fold (\<lambda>(now, e). events_Record now e) xs (Some r)) =
    keep_last (nat m) (map (\<lambda>(now, e). stamped now e) xs)"
proof -
  have "recorder_wf r" "er_maxEntries r = m" "er_events r = []"
    using assms by (auto simp: NewTestEventRecorder_def recorder_wf_def split: if_splits)
  then show ?thesis using events.contents_push_all [of r xs] by (simp add: events_Record_all events_Snapshot_def)
qed

definition sample_quota_event :: "string \<Rightarrow> QuotaEvent" where
  "sample_quota_event t = \<lparr>qe_Time = t, qe_Type = EventClientLimited, qe_Client = ''c'', qe_Inbound = [],
     qe_Outbound = [], qe_Reason = [], qe_RetryAfter = []\<rparr>"

theorem events_Snapshot_newest_witness:
  "map qe_Time (events_Snapshot (fold (\<lambda>(now, e). events_Record now e)
     [(1, sample_quota_event ''x''), (2, sample_quota_event ''y''), (3, sample_quota_event ''z'')]
     (NewTestEventRecorder 2))) = [''y'', ''z'']"
proof -
  let ?xs = "[(1, sample_quota_event ''x''), (2, sample_quota_event ''y''), (3, sample_quota_event ''z'')]"
  have "NewTestEventRecorder 2 = Some \<lparr>er_maxEntries = 2, er_events = []\<rparr>" by (simp add: NewTestEventRecorder_def)
  from events_Snapshot_newest [OF this, of ?xs] this show ?thesis
    by (simp add: keep_last_def stamped_def sample_quota_event_def)
qed

end
