(* ===== verification/Latency_Store.thy ===== *)
theory Latency_Store
  imports Go_Time Runtime_Model
begin

text \<open>
  Package \<open>internal/latency\<close>: the trace recorder of a request, the store of finished and active
  traces, and the latency summary. \<open>cloneTrace\<close> copies slices and maps; on values it is the
  identity. A recorder without a store, and a nil recorder or store, are \<open>None\<close>. Instants the
  code takes from \<open>time.Now\<close> when it is given the zero time are the argument \<open>now\<close>.
\<close>

section \<open>Data\<close>

record PlanStep =
  lp_OutboundName :: string
  lp_OutboundProtocol :: string
  lp_Model :: string
  lp_OnError :: string

record Span =
  sp_Name :: string
  sp_StartedAt :: string
  sp_DurationMs :: int
  sp_Attrs :: "(string \<times> string) list"

record Trace =
  tr_RequestID :: string
  tr_Method :: string
  tr_Path :: string
  tr_Inbound :: string
  tr_InboundProtocol :: string
  tr_ClientName :: string
  tr_ActiveTag :: string
  tr_MatchedRule :: string
  tr_Strategy :: string
  tr_ResolvedToTags :: "string list"
  tr_PlannedSteps :: "PlanStep list"
  tr_FallbackCount :: int
  tr_Status :: int
  tr_ErrorKind :: string
  tr_StartedAt :: string
  tr_FinishedAt :: string
  tr_DurationMs :: int
  tr_Spans :: "Span list"
  tr_Streaming :: bool
  tr_StreamState :: string
  tr_OutboundName :: string
  tr_OutboundProtocol :: string
  tr_ProviderSelectedAt :: string
  tr_FirstTokenAt :: string
  tr_TTFTMs :: int
  tr_LastStreamEventAt :: string
  tr_StreamEventCount :: int

record Store =
  st_limit :: int
  st_traces :: "Trace list"
  st_active :: "(string \<times> Trace) list"

text \<open>The recorder's pointer to the store is kept beside it: the operations return both.\<close>

record Recorder =
  rec_trace :: Trace
  rec_startedAt :: gotime

type_synonym recording = "Recorder \<times> Store option"

record SummaryItem =
  sum_Count :: int
  sum_AvgMs :: int
  sum_P50Ms :: int
  sum_P95Ms :: int
  sum_P99Ms :: int
  sum_MaxMs :: int

record Summary =
  sy_Count :: int
  sy_Total :: SummaryItem
  sy_Spans :: "(string \<times> SummaryItem) list"

section \<open>The store\<close>

definition NewStore :: "int \<Rightarrow> Store" where
  "NewStore limit = \<lparr>st_limit = (if limit \<le> 0 then 200 else limit), st_traces = [], st_active = []\<rparr>"

definition recordLocked :: "Trace \<Rightarrow> Store \<Rightarrow> Store" where
  "recordLocked trace s =
     (let traces = st_traces s @ [trace];
          overflow = int (length traces) - st_limit s
      in s\<lparr>st_traces := (if 0 < overflow then take (nat (st_limit s)) (drop (nat overflow) traces) else traces)\<rparr>)"

definition latency_Record :: "Trace \<Rightarrow> Store option \<Rightarrow> Store option" where
  "latency_Record trace s = map_option (recordLocked trace) s"

definition updateActive :: "Trace \<Rightarrow> Store option \<Rightarrow> Store option" where
  "updateActive trace s =
     (case s of
        None \<Rightarrow> None
      | Some st \<Rightarrow>
          if tr_RequestID trace = [] then Some st
          else Some (st\<lparr>st_active := AList.update (tr_RequestID trace) trace (st_active st)\<rparr>))"

definition store_finish :: "Trace \<Rightarrow> Store option \<Rightarrow> Store option" where
  "store_finish trace s =
     map_option (\<lambda>st. recordLocked trace (st\<lparr>st_active := AList.delete (tr_RequestID trace) (st_active st)\<rparr>)) s"

definition latency_Snapshot :: "Store option \<Rightarrow> Trace list" where
  "latency_Snapshot s = (case s of None \<Rightarrow> [] | Some st \<Rightarrow> st_traces st)"

definition ActiveSnapshot :: "Store option \<Rightarrow> Trace list" where
  "ActiveSnapshot s = (case s of None \<Rightarrow> [] | Some st \<Rightarrow> sort_key tr_StartedAt (map snd (st_active st)))"

section \<open>The recorder\<close>

definition empty_trace :: Trace where
  "empty_trace = \<lparr>tr_RequestID = [], tr_Method = [], tr_Path = [], tr_Inbound = [], tr_InboundProtocol = [],
     tr_ClientName = [], tr_ActiveTag = [], tr_MatchedRule = [], tr_Strategy = [], tr_ResolvedToTags = [],
     tr_PlannedSteps = [], tr_FallbackCount = 0, tr_Status = 0, tr_ErrorKind = [], tr_StartedAt = [],
     tr_FinishedAt = [], tr_DurationMs = 0, tr_Spans = [], tr_Streaming = False, tr_StreamState = [],
     tr_OutboundName = [], tr_OutboundProtocol = [], tr_ProviderSelectedAt = [], tr_FirstTokenAt = [],
     tr_TTFTMs = 0, tr_LastStreamEventAt = [], tr_StreamEventCount = 0\<rparr>"

definition syncActive :: "recording \<Rightarrow> recording" where
  "syncActive = (\<lambda>(r, s). (r, updateActive (rec_trace r) s))"

text \<open>The shape of most calls: change the trace, then publish it.\<close>

definition update_trace :: "(Trace \<Rightarrow> Trace) \<Rightarrow> recording \<Rightarrow> recording" where
  "update_trace f = (\<lambda>(r, s). syncActive (r\<lparr>rec_trace := f (rec_trace r)\<rparr>, s))"

definition or_now :: "gotime \<Rightarrow> gotime \<Rightarrow> gotime" where
  "or_now now t = (if IsZero t then now else t)"

definition latency_Start :: "gotime \<Rightarrow> Store option \<Rightarrow> string \<Rightarrow> string \<Rightarrow> string \<Rightarrow> gotime \<Rightarrow> recording" where
  "latency_Start now store requestID method path startedAt =
     (let started = or_now now startedAt
      in syncActive (\<lparr>rec_trace = empty_trace\<lparr>tr_RequestID := requestID, tr_Method := method, tr_Path := path,
                        tr_StartedAt := format_RFC3339Nano started\<rparr>,
                      rec_startedAt = started\<rparr>, store))"

definition SetRoute :: "string \<Rightarrow> string \<Rightarrow> string \<Rightarrow> string \<Rightarrow> recording \<Rightarrow> recording" where
  "SetRoute inbound protocol clientName activeTag =
     update_trace (\<lambda>t. t\<lparr>tr_Inbound := inbound, tr_InboundProtocol := protocol, tr_ClientName := clientName,
                        tr_ActiveTag := activeTag\<rparr>)"

definition SetPlan :: "ExecutionPlan \<Rightarrow> recording \<Rightarrow> recording" where
  "SetPlan plan =
     update_trace (\<lambda>t. t\<lparr>tr_MatchedRule := pl_MatchedRule plan, tr_Strategy := pl_Strategy plan,
                        tr_ResolvedToTags := pl_ResolvedToTags plan,
                        tr_PlannedSteps := map (\<lambda>s. \<lparr>lp_OutboundName = es_OutboundName s,
                          lp_OutboundProtocol = es_OutboundProtocol s, lp_Model = es_Model s,
                          lp_OnError = es_OnError s\<rparr>) (pl_Steps plan)\<rparr>)"

definition SetFallbackCount :: "int \<Rightarrow> recording \<Rightarrow> recording" where
  "SetFallbackCount n rs = (if n \<le> 0 then rs else update_trace (\<lambda>t. t\<lparr>tr_FallbackCount := n\<rparr>) rs)"

definition SetErrorKind :: "string \<Rightarrow> recording \<Rightarrow> recording" where
  "SetErrorKind kind rs = (if kind = [] then rs else update_trace (\<lambda>t. t\<lparr>tr_ErrorKind := kind\<rparr>) rs)"

definition AddSpan :: "gotime \<Rightarrow> string \<Rightarrow> gotime \<Rightarrow> (string \<times> string) list \<Rightarrow> recording \<Rightarrow> recording" where
  "AddSpan now n startedAt attrs rs =
     (if n = [] \<or> IsZero startedAt then rs
      else update_trace (\<lambda>t. t\<lparr>tr_Spans := tr_Spans t @
             [\<lparr>sp_Name = n, sp_StartedAt = format_RFC3339Nano startedAt,
               sp_DurationMs = Milliseconds (time_Sub now startedAt),
               sp_Attrs = filter (\<lambda>(k, v). v \<noteq> []) attrs\<rparr>]\<rparr>) rs)"

definition SetStreamState :: "string \<Rightarrow> recording \<Rightarrow> recording" where
  "SetStreamState state rs =
     (if state = [] then rs else update_trace (\<lambda>t. t\<lparr>tr_Streaming := True, tr_StreamState := state\<rparr>) rs)"

definition SetProvider :: "gotime \<Rightarrow> string \<Rightarrow> string \<Rightarrow> gotime \<Rightarrow> recording \<Rightarrow> recording" where
  "SetProvider now outbound protocol selectedAt =
     update_trace (\<lambda>t. t\<lparr>tr_Streaming := True, tr_OutboundName := outbound, tr_OutboundProtocol := protocol,
                        tr_ProviderSelectedAt := format_RFC3339Nano (or_now now selectedAt)\<rparr>)"

definition MarkStreamEvent :: "gotime \<Rightarrow> gotime \<Rightarrow> recording \<Rightarrow> recording" where
  "MarkStreamEvent now at' =
     update_trace (\<lambda>t. t\<lparr>tr_LastStreamEventAt := format_RFC3339Nano (or_now now at'),
                        tr_StreamEventCount := tr_StreamEventCount t + 1\<rparr>)"

definition MarkFirstToken :: "gotime \<Rightarrow> gotime \<Rightarrow> recording \<Rightarrow> recording" where
  "MarkFirstToken now at0 = (\<lambda>(r, s).
     let at' = or_now now at0
     in if tr_FirstTokenAt (rec_trace r) \<noteq> [] then (r, s)
        else update_trace (\<lambda>t.
               let ttft = Milliseconds (time_Sub at' (rec_startedAt r))
               in t\<lparr>tr_FirstTokenAt := format_RFC3339Nano at', tr_TTFTMs := ttft,
                    tr_StreamState := ''streaming'',
                    tr_Spans := tr_Spans t @
                      [\<lparr>sp_Name = ''time_to_first_token'', sp_StartedAt = format_RFC3339Nano (rec_startedAt r),
                        sp_DurationMs = ttft,
                        sp_Attrs = [(''outbound'', tr_OutboundName t), (''protocol'', tr_OutboundProtocol t)]\<rparr>]\<rparr>) (r, s))"

definition latency_Finish :: "gotime \<Rightarrow> int \<Rightarrow> gotime \<Rightarrow> recording \<Rightarrow> recording" where
  "latency_Finish now status finishedAt = (\<lambda>(r, s).
     let fin = or_now now finishedAt;
         t = (rec_trace r)\<lparr>tr_Status := status, tr_FinishedAt := format_RFC3339Nano fin,
               tr_DurationMs := Milliseconds (time_Sub fin (rec_startedAt r))\<rparr>
     in (r\<lparr>rec_trace := t\<rparr>, store_finish t s))"

section \<open>Summaries\<close>

definition percentile :: "int list \<Rightarrow> nat \<Rightarrow> int" where
  "percentile vals p =
     (if vals = [] then 0
      else (let index = (length vals * p + 99) div 100;
                index1 = (if index < 1 then 1 else index);
                index2 = (if index1 > length vals then length vals else index1)
            in vals ! (index2 - 1)))"

definition summarizeDurations :: "int list \<Rightarrow> SummaryItem" where
  "summarizeDurations durations =
     (if durations = [] then \<lparr>sum_Count = 0, sum_AvgMs = 0, sum_P50Ms = 0, sum_P95Ms = 0, sum_P99Ms = 0, sum_MaxMs = 0\<rparr>
      else
        (let vals = sort durations;
             total = foldl (\<lambda>acc v. wrap64 (acc + v)) 0 vals
         in \<lparr>sum_Count = int (length vals), sum_AvgMs = total sdiv int (length vals),
             sum_P50Ms = percentile vals 50, sum_P95Ms = percentile vals 95, sum_P99Ms = percentile vals 99,
             sum_MaxMs = vals ! (length vals - 1)\<rparr>))"

text \<open>The map of durations by span name, built over all spans of all traces.\<close>

definition span_durations :: "Trace list \<Rightarrow> (string \<times> int list) list" where
  "span_durations traces =
     fold (\<lambda>sp m. AList.update (sp_Name sp)
                    ((case map_of m (sp_Name sp) of None \<Rightarrow> [] | Some ds \<Rightarrow> ds) @ [sp_DurationMs sp]) m)
       (concat (map tr_Spans traces)) []"

definition latency_Summary :: "Store option \<Rightarrow> Summary" where
  "latency_Summary s =
     (let items = latency_Snapshot s
      in \<lparr>sy_Count = int (length items), sy_Total = summarizeDurations (map tr_DurationMs items),
          sy_Spans = map (\<lambda>(n, ds). (n, summarizeDurations ds)) (span_durations items)\<rparr>)"

section \<open>The store is a bounded log\<close>

definition store_wf :: "Store \<Rightarrow> bool" where
  "store_wf s \<longleftrightarrow> 0 < st_limit s \<and> int (length (st_traces s)) \<le> st_limit s"

lemma recordLocked_traces:
  assumes "store_wf s"
  shows "st_traces (recordLocked t s) = keep_last (nat (st_limit s)) (st_traces s @ [t])"
proof (cases "int (length (st_traces s)) = st_limit s")
  case True
  then have "length (st_traces s) = nat (st_limit s)" "0 < nat (st_limit s)" using assms by (simp_all add: store_wf_def)
  then show ?thesis using True keep_last_snoc_full [of "st_traces s" "nat (st_limit s)" t]
    by (cases "st_traces s") (auto simp: recordLocked_def Let_def)
next
  case False
  then have "Suc (length (st_traces s)) \<le> nat (st_limit s)" using assms unfolding store_wf_def by linarith
  then show ?thesis using False by (simp add: recordLocked_def Let_def)
qed

lemma recordLocked_frame: "st_limit (recordLocked t s) = st_limit s" "st_active (recordLocked t s) = st_active s"
  by (simp_all add: recordLocked_def Let_def)

lemma recordLocked_wf: "store_wf s \<Longrightarrow> store_wf (recordLocked t s)"
  using recordLocked_traces [of s t] by (auto simp: store_wf_def recordLocked_frame min_def)

interpretation traces: bounded_log st_traces recordLocked "\<lambda>t. t" "\<lambda>s. nat (st_limit s)" store_wf
  by unfold_locales
    (auto simp: recordLocked_traces recordLocked_wf recordLocked_frame store_wf_def le_nat_iff)

section \<open>Percentiles\<close>

text \<open>The rank the code computes is the smallest one that covers the percentage.\<close>

lemma percentile_rank:
  assumes "vals \<noteq> []" and "1 \<le> p" "p \<le> 100"
  defines "i \<equiv> (length vals * p + 99) div 100"
  shows "1 \<le> i" "i \<le> length vals" "percentile vals p = vals ! (i - 1)"
    "length vals * p \<le> 100 * i" "100 * (i - 1) < length vals * p"
proof -
  have n: "1 \<le> length vals" using assms(1) by (simp add: Suc_leI)
  have np: "1 \<le> length vals * p" using n assms(2) by (simp add: Suc_leI)
  show i1: "1 \<le> i" unfolding i_def using np by linarith
  have "length vals * p \<le> length vals * 100" using assms(3) by simp
  then show i2: "i \<le> length vals" unfolding i_def by linarith
  show "percentile vals p = vals ! (i - 1)"
    using assms(1) i1 i2 by (simp add: percentile_def i_def [symmetric] Let_def not_less)
  show "length vals * p \<le> 100 * i" "100 * (i - 1) < length vals * p" unfolding i_def using np by linarith+
qed

lemma sorted_rank_counts:
  fixes vals :: "int list"
  assumes "sorted vals" and "k < length vals"
  shows "Suc k \<le> length (filter (\<lambda>v. v \<le> vals ! k) vals)" "length (filter (\<lambda>v. v < vals ! k) vals) \<le> k"
proof -
  have split: "vals = take (Suc k) vals @ drop (Suc k) vals" "vals = take k vals @ drop k vals" by simp_all
  have "\<forall>v \<in> set (take (Suc k) vals). v \<le> vals ! k"
    using assms by (auto simp: in_set_conv_nth intro!: sorted_nth_mono)
  then have "length (filter (\<lambda>v. v \<le> vals ! k) (take (Suc k) vals)) = Suc k"
    using assms(2) by (simp add: filter_True)
  then show "Suc k \<le> length (filter (\<lambda>v. v \<le> vals ! k) vals)"
    by (metis filter_append le_add1 length_append split(1))
  have "\<forall>v \<in> set (drop k vals). \<not> v < vals ! k"
    using assms by (auto simp: in_set_conv_nth not_less intro!: sorted_nth_mono)
  then have "filter (\<lambda>v. v < vals ! k) (drop k vals) = []" by (simp add: filter_empty_conv)
  then have "length (filter (\<lambda>v. v < vals ! k) vals) = length (filter (\<lambda>v. v < vals ! k) (take k vals))"
    by (metis append_Nil2 filter_append split(2))
  then show "length (filter (\<lambda>v. v < vals ! k) vals) \<le> k"
    using length_filter_le [of "\<lambda>v. v < vals ! k" "take k vals"] by simp
qed

lemma length_filter_sort: "length (filter P (sort xs)) = length (filter P (xs :: int list))"
  by (simp add: filter_sort)

lemma span_durations_of:
  "map_of (span_durations traces) n =
     (let ds = map sp_DurationMs (filter (\<lambda>sp. sp_Name sp = n) (concat (map tr_Spans traces)))
      in if ds = [] then None else Some ds)"
proof -
  have "map_of (fold (\<lambda>sp m. AList.update (sp_Name sp)
                    ((case map_of m (sp_Name sp) of None \<Rightarrow> [] | Some ds \<Rightarrow> ds) @ [sp_DurationMs sp]) m) sps acc) n =
     (let ds = (case map_of acc n of None \<Rightarrow> [] | Some ds \<Rightarrow> ds) @ map sp_DurationMs (filter (\<lambda>sp. sp_Name sp = n) sps)
      in if ds = [] then map_of acc n else Some ds)" for sps acc
    by (induction sps arbitrary: acc) (auto simp: Let_def split: option.splits)
  from this [of "concat (map tr_Spans traces)" "[]"] show ?thesis by (simp add: span_durations_def Let_def)
qed

section \<open>Properties\<close>

text \<open>Percentiles are nearest-rank: for every percentage the value covers at least that share of the
  durations, and no smaller duration does.\<close>

theorem percentile_nearest_rank:
  assumes "ds \<noteq> []" and "1 \<le> p" "p \<le> 100" and "x = percentile (sort ds) p"
  shows "x \<in> set ds \<and> p * length ds \<le> 100 * length (filter (\<lambda>d. d \<le> x) ds)
    \<and> 100 * length (filter (\<lambda>d. d < x) ds) < p * length ds"
proof -
  let ?i = "(length (sort ds) * p + 99) div 100"
  have ne: "sort ds \<noteq> []" using assms(1) by (metis set_empty set_sort)
  note r = percentile_rank [OF ne assms(2,3)]
  have k: "?i - 1 < length (sort ds)" using r(1,2) by linarith
  note c = sorted_rank_counts [OF sorted_sort k, unfolded length_filter_sort r(3) [symmetric] assms(4) [symmetric]]
  have "x \<in> set (sort ds)" unfolding assms(4) r(3) using k by (rule nth_mem)
  then show ?thesis using c r(1,4,5) by (simp add: mult.commute)
qed

theorem percentile_nearest_rank_witness:
  "percentile (sort [30, 10, 20, 50, 40]) 95 = 50 \<and> 95 * 5 \<le> 100 * length (filter (\<lambda>d. d \<le> 50) [30, 10, 20, 50, 40 :: int])"
proof -
  have "percentile (sort [30, 10, 20, 50, 40]) 95 = 50" by code_simp
  then show ?thesis using percentile_nearest_rank [of "[30, 10, 20, 50, 40]" 95 50] by simp
qed

text \<open>In every summary the percentiles are ordered and bounded by the maximum, which is the largest duration.\<close>

theorem summary_ordered:
  assumes "ds \<noteq> []" and "item = summarizeDurations ds"
  shows "sum_P50Ms item \<le> sum_P95Ms item \<and> sum_P95Ms item \<le> sum_P99Ms item \<and> sum_P99Ms item \<le> sum_MaxMs item
    \<and> sum_MaxMs item = Max (set ds) \<and> sum_Count item = int (length ds)"
proof -
  let ?v = "sort ds"
  have ne: "?v \<noteq> []" using assms(1) by (metis set_empty set_sort)
  have mono: "percentile ?v p \<le> percentile ?v q" if "1 \<le> p" "p \<le> q" "q \<le> 100" for p q
  proof -
    have pq: "1 \<le> p" "p \<le> 100" "1 \<le> q" "q \<le> 100" using that by simp_all
    note rp = percentile_rank [OF ne pq(1,2)] and rq = percentile_rank [OF ne pq(3,4)]
    have "(length ?v * p + 99) div 100 \<le> (length ?v * q + 99) div 100" using that by (intro div_le_mono) simp
    then show ?thesis unfolding rp(3) rq(3) using rq(1,2) by (intro sorted_nth_mono) (simp, linarith+)
  qed
  have top: "percentile ?v 100 = ?v ! (length ?v - 1)" using percentile_rank(3) [OF ne, of 100] by simp
  have last: "?v ! (length ?v - 1) = Max (set ds)"
  proof (rule Max_eqI [symmetric])
    show "?v ! (length ?v - 1) \<in> set ds" using ne by (metis last_conv_nth last_in_set set_sort)
    fix y assume "y \<in> set ds"
    then obtain j where "j < length ?v" "y = ?v ! j" by (metis in_set_conv_nth set_sort)
    then show "y \<le> ?v ! (length ?v - 1)" by (auto intro!: sorted_nth_mono)
  qed simp
  show ?thesis
    using assms mono [of 50 95] mono [of 95 99] mono [of 99 100] top last by (simp add: summarizeDurations_def Let_def)
qed

theorem summary_ordered_witness:
  "sum_P50Ms (summarizeDurations [7, 3, 9]) = 7 \<and> sum_MaxMs (summarizeDurations [7, 3, 9]) = 9
   \<and> sum_P50Ms (summarizeDurations [7, 3, 9]) \<le> sum_P95Ms (summarizeDurations [7, 3, 9])"
proof -
  have "sum_P50Ms (summarizeDurations [7, 3, 9]) = 7" "sum_MaxMs (summarizeDurations [7, 3, 9]) = 9" by code_simp+
  then show ?thesis using summary_ordered [of "[7, 3, 9]", OF _ refl] by simp
qed

text \<open>The store keeps the newest traces up to its limit, and a summary counts exactly their spans by name.\<close>

theorem latency_summary_of_newest:
  assumes "st = fold recordLocked ts (NewStore limit)" and "recent = keep_last (if limit \<le> 0 then 200 else nat limit) ts"
  shows "latency_Snapshot (Some st) = recent \<and>
    map_of (sy_Spans (latency_Summary (Some st))) n =
      (let ds = map sp_DurationMs (filter (\<lambda>sp. sp_Name sp = n) (concat (map tr_Spans recent)))
       in if ds = [] then None else Some (summarizeDurations ds))"
proof -
  have "store_wf (NewStore limit)" by (simp add: NewStore_def store_wf_def)
  from traces.contents_push_all [OF this, of ts] have "st_traces st = recent"
    by (simp add: assms NewStore_def)
  then show ?thesis using span_durations_of [of recent n]
    by (simp add: latency_Snapshot_def latency_Summary_def Let_def map_of_map_snd split: if_splits)
qed

theorem latency_summary_of_newest_witness:
  "latency_Snapshot (Some (fold recordLocked [empty_trace, empty_trace\<lparr>tr_Path := ''x''\<rparr>] (NewStore 1))) =
     [empty_trace\<lparr>tr_Path := ''x''\<rparr>]"
  using latency_summary_of_newest [OF refl refl, of "[empty_trace, empty_trace\<lparr>tr_Path := ''x''\<rparr>]" 1]
  by (simp add: keep_last_def)

text \<open>A request that is finished is no longer listed as active, is the newest finished trace, and carries its
  status; other active requests are not touched.\<close>

theorem finished_request_leaves_active:
  assumes "store_wf st" and "latency_Finish now status finishedAt (r, Some st) = (r', Some st')"
  shows "map_of (st_active st') (tr_RequestID (rec_trace r)) = None
    \<and> (\<forall>k. k \<noteq> tr_RequestID (rec_trace r) \<longrightarrow> map_of (st_active st') k = map_of (st_active st) k)
    \<and> last (st_traces st') = rec_trace r' \<and> tr_Status (rec_trace r') = status"
proof -
  let ?st = "st\<lparr>st_active := AList.delete (tr_RequestID (rec_trace r)) (st_active st)\<rparr>"
  have "store_wf ?st" using assms(1) by (simp add: store_wf_def)
  moreover have "st' = recordLocked (rec_trace r') ?st" "tr_Status (rec_trace r') = status"
    using assms(2) by (auto simp: latency_Finish_def store_finish_def Let_def)
  moreover have "0 < nat (st_limit st)" using assms(1) by (simp add: store_wf_def)
  ultimately show ?thesis
    by (simp add: recordLocked_frame recordLocked_traces delete_conv' keep_last_def drop_append)
qed

theorem finished_request_leaves_active_witness:
  "let (r, s) = latency_Start 5 (Some (NewStore 3)) ''q'' ''POST'' ''/v1'' 5;
       (r', s') = latency_Finish 9 200 9 (r, s)
   in ActiveSnapshot s' = [] \<and> map tr_RequestID (latency_Snapshot s') = [''q'']
      \<and> map_of (st_active (the s')) ''q'' = None"
proof -
  obtain r st where s: "latency_Start 5 (Some (NewStore 3)) ''q'' ''POST'' ''/v1'' 5 = (r, Some st)"
    by (cases "latency_Start 5 (Some (NewStore 3)) ''q'' ''POST'' ''/v1'' 5")
      (auto simp: latency_Start_def syncActive_def updateActive_def Let_def split: if_splits)
  then have st: "store_wf st" "tr_RequestID (rec_trace r) = ''q''" "st_traces st = []" "st_active st = [(''q'', rec_trace r)]"
    by (auto simp: latency_Start_def syncActive_def updateActive_def Let_def NewStore_def store_wf_def)
  obtain r' st' where f: "latency_Finish 9 200 9 (r, Some st) = (r', Some st')"
    by (cases "latency_Finish 9 200 9 (r, Some st)") (auto simp: latency_Finish_def store_finish_def Let_def)
  have "map_of (st_active st') ''q'' = None" using finished_request_leaves_active [OF st(1) f] st(2) by simp
  moreover have "st_active st' = []" "map tr_RequestID (st_traces st') = [''q'']"
    using f st by (auto simp: latency_Finish_def store_finish_def recordLocked_frame recordLocked_traces store_wf_def keep_last_def Let_def)
  ultimately show ?thesis using s f by (simp add: ActiveSnapshot_def latency_Snapshot_def)
qed

end
