(* ===== verification/Accounting_Memory.thy ===== *)
theory Accounting_Memory
  imports Go_Parse Config_Types
begin

text \<open>
  Package \<open>internal/accounting\<close>: the in-memory usage store (\<open>memory.go\<close>, \<open>types.go\<close>) and the
  price calculator (\<open>pricing.go\<close>). Counters are 64-bit integers that wrap; an addition or
  product of floats is rounded by \<open>rnd\<close>. The list of embedded default prices, a data file, is an
  argument of \<open>NewPriceCalculator\<close>.
\<close>

section \<open>Data\<close>

abbreviation WindowTotal where "WindowTotal \<equiv> ''total''"
abbreviation WindowDay where "WindowDay \<equiv> ''day''"
abbreviation WindowWeek where "WindowWeek \<equiv> ''week''"
abbreviation WindowMonth where "WindowMonth \<equiv> ''month''"

record StatsItem =
  it_Value :: string
  it_Date :: string
  it_Agent :: string
  it_SessionID :: string
  it_Model :: string
  it_RequestCount :: int
  it_SuccessCount :: int
  it_ErrorCount :: int
  it_FallbackCount :: int
  it_InputTokens :: int
  it_OutputTokens :: int
  it_CachedInputReadTokens :: int
  it_CachedInputWriteTokens :: int
  it_CacheReadTokens :: int
  it_CacheCreateTokens :: int
  it_TotalTokens :: int
  it_CostUSD :: float64
  it_ProviderUsageCount :: int
  it_EstimatedUsageCount :: int
  it_ToolUnits :: "(string \<times> float64) list"
  it_LastSeenAt :: string

definition empty_item :: StatsItem where
  "empty_item = \<lparr>it_Value = [], it_Date = [], it_Agent = [], it_SessionID = [], it_Model = [],
     it_RequestCount = 0, it_SuccessCount = 0, it_ErrorCount = 0, it_FallbackCount = 0, it_InputTokens = 0,
     it_OutputTokens = 0, it_CachedInputReadTokens = 0, it_CachedInputWriteTokens = 0, it_CacheReadTokens = 0,
     it_CacheCreateTokens = 0, it_TotalTokens = 0, it_CostUSD = 0, it_ProviderUsageCount = 0,
     it_EstimatedUsageCount = 0, it_ToolUnits = [], it_LastSeenAt = []\<rparr>"

type_synonym stats_group = "(string \<times> StatsItem) list"

record MemoryStore =
  ms_totals :: "(string \<times> stats_group) list"
  ms_windows :: "(string \<times> (string \<times> stats_group) list) list"
  ms_recent :: "UsageRecord list"
  ms_trackingStartedAt :: gotime
  ms_coverageKnown :: bool

record Coverage =
  cov_TrackingStartedAt :: string
  cov_Known :: bool
  cov_Backend :: string
  cov_AggregatesPersisted :: bool
  cov_RawRetentionDays :: int

record AccountingQuery =
  aq_GroupBy :: string
  aq_Window :: string
  aq_Bucket :: string
  aq_StartDate :: string
  aq_EndDate :: string
  aq_ClientName :: string

definition defaultRecentRecordsLimit :: nat where
  "defaultRecentRecordsLimit = 10000"

definition usageGroupBys :: "string list" where
  "usageGroupBys = [''key'', ''provider'', ''model'', ''inbound'', ''source'', ''outbound'', ''error_kind'',
     ''date'', ''agent'', ''session'']"

definition newMemoryStore :: "gotime \<Rightarrow> bool \<Rightarrow> MemoryStore" where
  "newMemoryStore trackingStartedAt coverageKnown =
     \<lparr>ms_totals = [], ms_windows = [(WindowDay, []), (WindowWeek, []), (WindowMonth, [])], ms_recent = [],
      ms_trackingStartedAt = trackingStartedAt, ms_coverageKnown = coverageKnown\<rparr>"

section \<open>Grouping\<close>

definition record_timestamp :: "UsageRecord \<Rightarrow> string" where
  "record_timestamp r = (if ur_FinishedAt r = [] then ur_StartedAt r else ur_FinishedAt r)"

definition recordTime :: "UsageRecord \<Rightarrow> gotime" where
  "recordTime r = (case parse_RFC3339 (record_timestamp r) of None \<Rightarrow> zeroTime | Some t \<Rightarrow> t)"

text \<open>\<open>Format("2006-01-02")\<close>, \<open>Format("2006-01")\<close> and \<open>ISOWeek\<close>: the week of the year that has its Thursday.\<close>

definition format_date :: "gotime \<Rightarrow> string" where
  "format_date t =
     (case local_date UTC t of (y, m, d) \<Rightarrow> show_fixed 4 y @ ''-'' @ show_fixed 2 m @ ''-'' @ show_fixed 2 d)"

definition format_month :: "gotime \<Rightarrow> string" where
  "format_month t = (case local_date UTC t of (y, m, d) \<Rightarrow> show_fixed 4 y @ ''-'' @ show_fixed 2 m)"

definition ISOWeek :: "gotime \<Rightarrow> int \<times> int" where
  "ISOWeek t =
     (let day = seconds_of t div 86400;
          d = 4 - local_weekday UTC t;
          thursday = day + (if d = 4 then -3 else d);
          year = fst (civil_from_days thursday);
          yday = thursday - days_from_civil year 1 1
      in (year, yday div 7 + 1))"

definition timeBuckets :: "UsageRecord \<Rightarrow> string \<times> string \<times> string" where
  "timeBuckets r =
     (case parse_RFC3339 (record_timestamp r) of
        None \<Rightarrow> (''unknown'', ''unknown'', ''unknown'')
      | Some t \<Rightarrow>
          (case ISOWeek t of (year, week) \<Rightarrow>
             (format_date t, show_fixed 4 year @ ''-W'' @ show_fixed 2 week, format_month t)))"

definition usageGroupValue :: "UsageRecord \<Rightarrow> string \<Rightarrow> string" where
  "usageGroupValue r groupBy =
     (if groupBy = ''key'' then nonEmpty (ur_ClientName r) ''unknown''
      else if groupBy = ''provider'' then nonEmpty (ur_ProviderName r) (nonEmpty (ur_OutboundName r) ''unknown'')
      else if groupBy = ''model'' then nonEmpty (ur_ExecutedModel r) (nonEmpty (ur_RequestedModel r) ''unknown'')
      else if groupBy = ''inbound'' then nonEmpty (ur_InboundName r) ''unknown''
      else if groupBy = ''source'' then nonEmpty (ur_UsageSource r) ''unknown''
      else if groupBy = ''outbound'' then nonEmpty (ur_OutboundName r) ''unknown''
      else if groupBy = ''error_kind'' then nonEmpty (ur_ErrorKind r) ''none''
      else if groupBy = ''date'' then fst (timeBuckets r)
      else if groupBy = ''agent'' then nonEmpty (ur_Agent r) ''unknown''
      else if groupBy = ''session'' then nonEmpty (ur_SessionID r) ''unknown''
      else ''unknown'')"

definition bucketKey :: "string \<Rightarrow> string \<Rightarrow> string \<Rightarrow> string" where
  "bucketKey window bucket groupBy = window @ '':'' @ bucket @ '':'' @ groupBy"

definition supportedGroupBy :: "string \<Rightarrow> bool" where
  "supportedGroupBy groupBy = list_ex (\<lambda>g. groupBy = g) usageGroupBys"

definition supportedWindow :: "string \<Rightarrow> bool" where
  "supportedWindow w = (w = WindowTotal \<or> w = WindowDay \<or> w = WindowWeek \<or> w = WindowMonth)"

section \<open>Recording\<close>

definition add_units ::
  "(rat \<Rightarrow> rat) \<Rightarrow> (string \<times> float64) list \<Rightarrow> (string \<times> float64) list \<Rightarrow> (string \<times> float64) list" where
  "add_units rnd src dst =
     fold (\<lambda>(n, u) m. AList.update n (rnd ((case map_of m n of None \<Rightarrow> 0 | Some x \<Rightarrow> x) + u)) m) src dst"

definition record_count :: "UsageRecord \<Rightarrow> int" where
  "record_count r = (if ub_RequestCount (ur_Breakdown r) \<le> 0 then 1 else ub_RequestCount (ur_Breakdown r))"

definition apply_item :: "(rat \<Rightarrow> rat) \<Rightarrow> string \<Rightarrow> UsageRecord \<Rightarrow> StatsItem \<Rightarrow> StatsItem" where
  "apply_item rnd val r item =
     (let b = ur_Breakdown r;
          n = record_count r;
          cacheRead = wrap64 (it_CachedInputReadTokens item + ub_CachedInputReadTokens b);
          cacheWrite = wrap64 (it_CachedInputWriteTokens item + ub_CachedInputWriteTokens b);
          seenAt = record_timestamp r
      in \<lparr>it_Value = val,
          it_Date = (if it_Date item = [] then usageGroupValue r ''date'' else it_Date item),
          it_Agent = (if it_Agent item = [] \<and> ur_Agent r \<noteq> [] then ur_Agent r else it_Agent item),
          it_SessionID = (if it_SessionID item = [] \<and> ur_SessionID r \<noteq> [] then ur_SessionID r else it_SessionID item),
          it_Model = (if it_Model item = [] then usageGroupValue r ''model'' else it_Model item),
          it_RequestCount = wrap64 (it_RequestCount item + n),
          it_SuccessCount = (if ur_Status r = UsageStatusSuccess then wrap64 (it_SuccessCount item + n) else it_SuccessCount item),
          it_ErrorCount = (if ur_Status r = UsageStatusError then wrap64 (it_ErrorCount item + n) else it_ErrorCount item),
          it_FallbackCount = wrap64 (it_FallbackCount item + ur_FallbackCount r),
          it_InputTokens = wrap64 (it_InputTokens item + ub_InputTokens b),
          it_OutputTokens = wrap64 (it_OutputTokens item + ub_OutputTokens b),
          it_CachedInputReadTokens = cacheRead, it_CachedInputWriteTokens = cacheWrite,
          it_CacheReadTokens = cacheRead, it_CacheCreateTokens = cacheWrite,
          it_TotalTokens = wrap64 (it_TotalTokens item + ub_TotalTokens b),
          it_CostUSD = rnd (it_CostUSD item + ur_CostUSD r),
          it_ProviderUsageCount =
            (if ur_UsageSource r = UsageSourceProvider \<or> ur_UsageSource r = UsageSourceProviderAPI
             then wrap64 (it_ProviderUsageCount item + n) else it_ProviderUsageCount item),
          it_EstimatedUsageCount =
            (if ur_UsageSource r = UsageSourceEstimated then wrap64 (it_EstimatedUsageCount item + n)
             else it_EstimatedUsageCount item),
          it_ToolUnits = add_units rnd (ub_ToolUnits b) (it_ToolUnits item),
          it_LastSeenAt = (if it_LastSeenAt item < seenAt then seenAt else it_LastSeenAt item)\<rparr>)"

definition get_item :: "stats_group \<Rightarrow> string \<Rightarrow> StatsItem" where
  "get_item g v = (case map_of g v of None \<Rightarrow> empty_item | Some i \<Rightarrow> i)"

definition applyToGroup :: "(rat \<Rightarrow> rat) \<Rightarrow> string \<Rightarrow> UsageRecord \<Rightarrow> stats_group \<Rightarrow> stats_group" where
  "applyToGroup rnd val r g = AList.update val (apply_item rnd val r (get_item g val)) g"

text \<open>\<open>ensureTotalGroup\<close> and \<open>ensureWindowGroup\<close> create the group a record goes to.\<close>

definition in_group :: "string \<Rightarrow> (stats_group \<Rightarrow> stats_group) \<Rightarrow> (string \<times> stats_group) list \<Rightarrow> (string \<times> stats_group) list" where
  "in_group k f m = AList.update k (f (case map_of m k of None \<Rightarrow> [] | Some g \<Rightarrow> g)) m"

definition apply_total :: "(rat \<Rightarrow> rat) \<Rightarrow> UsageRecord \<Rightarrow> string \<Rightarrow> MemoryStore \<Rightarrow> MemoryStore" where
  "apply_total rnd r groupBy s =
     s\<lparr>ms_totals := in_group groupBy (applyToGroup rnd (usageGroupValue r groupBy) r) (ms_totals s)\<rparr>"

definition apply_window ::
  "(rat \<Rightarrow> rat) \<Rightarrow> UsageRecord \<Rightarrow> string \<Rightarrow> string \<Rightarrow> string \<Rightarrow> MemoryStore \<Rightarrow> MemoryStore" where
  "apply_window rnd r window bucket groupBy s =
     s\<lparr>ms_windows := AList.update window
        (in_group (bucketKey window bucket groupBy) (applyToGroup rnd (usageGroupValue r groupBy) r)
           (case map_of (ms_windows s) window of None \<Rightarrow> [] | Some gs \<Rightarrow> gs)) (ms_windows s)\<rparr>"

definition applyRecord :: "(rat \<Rightarrow> rat) \<Rightarrow> UsageRecord \<Rightarrow> MemoryStore \<Rightarrow> MemoryStore" where
  "applyRecord rnd r s =
     (case timeBuckets r of (day, week, month) \<Rightarrow>
        fold (\<lambda>g s. apply_window rnd r WindowMonth month g
                     (apply_window rnd r WindowWeek week g (apply_window rnd r WindowDay day g s)))
          usageGroupBys (fold (apply_total rnd r) usageGroupBys s))"

definition memory_Record :: "(rat \<Rightarrow> rat) \<Rightarrow> UsageRecord \<Rightarrow> MemoryStore \<Rightarrow> MemoryStore" where
  "memory_Record rnd r s =
     (let s1 = applyRecord rnd r s; recent = ms_recent s1 @ [r]
      in s1\<lparr>ms_recent :=
           (if defaultRecentRecordsLimit < length recent
            then drop (length recent - defaultRecentRecordsLimit) recent else recent)\<rparr>)"

section \<open>Queries\<close>

text \<open>The loop of \<open>RecentRecords\<close> over the records from the newest, then the reversal in place.\<close>

fun recent_loop :: "gotime \<Rightarrow> nat \<Rightarrow> UsageRecord list \<Rightarrow> UsageRecord list \<Rightarrow> UsageRecord list" where
  "recent_loop since limit [] items = items"
| "recent_loop since limit (r # rs) items =
     (if length items < limit then
        (if \<not> IsZero since \<and> recordTime r < since then recent_loop since limit rs items
         else recent_loop since limit rs (items @ [r]))
      else items)"

definition RecentRecords :: "gotime \<Rightarrow> int \<Rightarrow> MemoryStore \<Rightarrow> UsageRecord list" where
  "RecentRecords since limit s =
     (let n = (if limit \<le> 0 \<or> int (length (ms_recent s)) < limit then length (ms_recent s) else nat limit)
      in rev (recent_loop since n (rev (ms_recent s)) []))"

definition mergeStatsItem :: "(rat \<Rightarrow> rat) \<Rightarrow> StatsItem \<Rightarrow> StatsItem \<Rightarrow> string \<Rightarrow> StatsItem" where
  "mergeStatsItem rnd dst src val =
     (let cacheRead = wrap64 (it_CachedInputReadTokens dst + it_CachedInputReadTokens src);
          cacheWrite = wrap64 (it_CachedInputWriteTokens dst + it_CachedInputWriteTokens src)
      in \<lparr>it_Value = val,
          it_Date = (if it_Date dst = [] then it_Date src else it_Date dst),
          it_Agent = (if it_Agent dst = [] then it_Agent src else it_Agent dst),
          it_SessionID = (if it_SessionID dst = [] then it_SessionID src else it_SessionID dst),
          it_Model = (if it_Model dst = [] then it_Model src else it_Model dst),
          it_RequestCount = wrap64 (it_RequestCount dst + it_RequestCount src),
          it_SuccessCount = wrap64 (it_SuccessCount dst + it_SuccessCount src),
          it_ErrorCount = wrap64 (it_ErrorCount dst + it_ErrorCount src),
          it_FallbackCount = wrap64 (it_FallbackCount dst + it_FallbackCount src),
          it_InputTokens = wrap64 (it_InputTokens dst + it_InputTokens src),
          it_OutputTokens = wrap64 (it_OutputTokens dst + it_OutputTokens src),
          it_CachedInputReadTokens = cacheRead, it_CachedInputWriteTokens = cacheWrite,
          it_CacheReadTokens = cacheRead, it_CacheCreateTokens = cacheWrite,
          it_TotalTokens = wrap64 (it_TotalTokens dst + it_TotalTokens src),
          it_CostUSD = rnd (it_CostUSD dst + it_CostUSD src),
          it_ProviderUsageCount = wrap64 (it_ProviderUsageCount dst + it_ProviderUsageCount src),
          it_EstimatedUsageCount = wrap64 (it_EstimatedUsageCount dst + it_EstimatedUsageCount src),
          it_ToolUnits = add_units rnd (it_ToolUnits src) (it_ToolUnits dst),
          it_LastSeenAt = (if it_LastSeenAt dst < it_LastSeenAt src then it_LastSeenAt src else it_LastSeenAt dst)\<rparr>)"

text \<open>\<open>time.ParseInLocation("2006-01-02", value, time.UTC)\<close>.\<close>

definition parse_date :: "string \<Rightarrow> gotime option" where
  "parse_date s = do {
     (y, s) \<leftarrow> parse_year s;
     s \<leftarrow> skip_char (CHR ''-'') s;
     (m, s) \<leftarrow> getnum True s;
     guard_opt (1 \<le> m \<and> m \<le> 12);
     s \<leftarrow> skip_char (CHR ''-'') s;
     (d, s) \<leftarrow> getnum True s;
     guard_opt (s = []);
     guard_opt (1 \<le> d \<and> d \<le> daysIn m y);
     Some (time_Date y m d 0 0 0 0 UTC)
   }"

datatype query_error =
    ClientNeedsGroupByDate
  | ClientNeedsDateRange
  | ClientWithWindow
  | UnsupportedGroupBy string
  | UnsupportedWindow string
  | DatesTogether
  | InvalidDate string
  | DateOrder
  | RangeWithWindow
  | BucketRequired string

definition parse_range_date :: "string \<Rightarrow> string \<Rightarrow> query_error + gotime" where
  "parse_range_date n v =
     (case parse_date v of
        None \<Rightarrow> Inl (InvalidDate n)
      | Some t \<Rightarrow> if format_date t \<noteq> v then Inl (InvalidDate n) else Inr t)"

definition parseDateRange :: "string \<Rightarrow> string \<Rightarrow> query_error + gotime \<times> gotime" where
  "parseDateRange startDate endDate =
     (if startDate = [] \<or> endDate = [] then Inl DatesTogether
      else (case parse_range_date ''start_date'' startDate of
              Inl e \<Rightarrow> Inl e
            | Inr a \<Rightarrow>
                (case parse_range_date ''end_date'' endDate of
                   Inl e \<Rightarrow> Inl e
                 | Inr b \<Rightarrow> if \<not> a < b then Inl DateOrder else Inr (a, b))))"

definition window_group :: "string \<Rightarrow> string \<Rightarrow> string \<Rightarrow> MemoryStore \<Rightarrow> stats_group" where
  "window_group window bucket groupBy s =
     (case map_of (ms_windows s) window of
        None \<Rightarrow> []
      | Some gs \<Rightarrow> (case map_of gs (bucketKey window bucket groupBy) of None \<Rightarrow> [] | Some g \<Rightarrow> g))"

definition merge_into :: "(rat \<Rightarrow> rat) \<Rightarrow> string \<Rightarrow> StatsItem \<Rightarrow> stats_group \<Rightarrow> stats_group" where
  "merge_into rnd key item merged = AList.update key (mergeStatsItem rnd (get_item merged key) item key) merged"

definition range_day :: "(rat \<Rightarrow> rat) \<Rightarrow> string \<Rightarrow> string \<Rightarrow> MemoryStore \<Rightarrow> string \<Rightarrow> stats_group \<Rightarrow> stats_group" where
  "range_day rnd groupBy clientName s bucket merged =
     (if clientName \<noteq> [] then
        (case map_of (window_group WindowDay bucket ''key'' s) clientName of
           None \<Rightarrow> merged
         | Some item \<Rightarrow> merge_into rnd bucket item merged)
      else fold (\<lambda>(v, item) m. merge_into rnd (if groupBy = ''date'' then bucket else v) item m)
             (window_group WindowDay bucket groupBy s) merged)"

text \<open>The loop over the days: \<open>AddDate(0, 0, 1)\<close> in UTC adds 24 hours, so it ends.\<close>

function range_loop :: "(rat \<Rightarrow> rat) \<Rightarrow> string \<Rightarrow> string \<Rightarrow> MemoryStore \<Rightarrow> gotime \<Rightarrow> gotime \<Rightarrow> stats_group \<Rightarrow> stats_group" where
  "range_loop rnd groupBy clientName s day fin merged =
     (if day < fin then
        range_loop rnd groupBy clientName s (add_days UTC day 1) fin
          (range_day rnd groupBy clientName s (format_date day) merged)
      else merged)"
  by pat_completeness auto
termination
  by (relation "measure (\<lambda>(rnd, g, c, s, day, fin, m). nat (fin - day))") (auto simp: add_days_UTC Second_def)

declare range_loop.simps [simp del]

definition sorted_items :: "stats_group \<Rightarrow> StatsItem list" where
  "sorted_items g = sort_key it_Value (map snd g)"

definition memory_Query :: "(rat \<Rightarrow> rat) \<Rightarrow> AccountingQuery \<Rightarrow> MemoryStore \<Rightarrow> query_error + StatsItem list" where
  "memory_Query rnd q s =
     (let hasLegacy = (aq_Window q \<noteq> [] \<or> aq_Bucket q \<noteq> []);
          hasRange = (aq_StartDate q \<noteq> [] \<or> aq_EndDate q \<noteq> []);
          groupBy = (if aq_GroupBy q = [] then ''key'' else aq_GroupBy q);
          window = (if aq_Window q = [] then WindowTotal else aq_Window q)
      in if aq_ClientName q \<noteq> [] \<and> aq_GroupBy q \<noteq> ''date'' then Inl ClientNeedsGroupByDate
         else if aq_ClientName q \<noteq> [] \<and> \<not> hasRange then Inl ClientNeedsDateRange
         else if aq_ClientName q \<noteq> [] \<and> hasLegacy then Inl ClientWithWindow
         else if \<not> supportedGroupBy groupBy then Inl (UnsupportedGroupBy groupBy)
         else if \<not> supportedWindow window then Inl (UnsupportedWindow window)
         else if hasRange then
           (case parseDateRange (aq_StartDate q) (aq_EndDate q) of
              Inl e \<Rightarrow> Inl e
            | Inr (a, b) \<Rightarrow>
                if window \<noteq> WindowTotal \<or> aq_Bucket q \<noteq> [] then Inl RangeWithWindow
                else Inr (sorted_items (range_loop rnd groupBy (aq_ClientName q) s a b [])))
         else if window = WindowTotal then
           Inr (sorted_items (case map_of (ms_totals s) groupBy of None \<Rightarrow> [] | Some g \<Rightarrow> g))
         else if aq_Bucket q = [] then Inl (BucketRequired window)
         else Inr (sorted_items (window_group window (aq_Bucket q) groupBy s)))"

definition memory_Coverage :: "MemoryStore \<Rightarrow> Coverage" where
  "memory_Coverage s =
     \<lparr>cov_TrackingStartedAt = format_or_empty (ms_trackingStartedAt s), cov_Known = ms_coverageKnown s,
      cov_Backend = ''memory'', cov_AggregatesPersisted = False, cov_RawRetentionDays = 0\<rparr>"

section \<open>Prices\<close>

definition NewPriceCalculator :: "AccountingPriceConfig list \<Rightarrow> AccountingPriceConfig list \<Rightarrow> AccountingPriceConfig list" where
  "NewPriceCalculator builtIn items = builtIn @ items"

text \<open>The backwards loop of \<open>matchExact\<close>, on the reversed list.\<close>

fun match_loop :: "string \<Rightarrow> string \<Rightarrow> AccountingPriceConfig list \<Rightarrow> AccountingPriceConfig option \<Rightarrow> AccountingPriceConfig option" where
  "match_loop prv model [] modelOnly = modelOnly"
| "match_loop prv model (item # items) modelOnly =
     (if pr_Model item \<noteq> model then match_loop prv model items modelOnly
      else if pr_Provider item = prv then Some item
      else if pr_Provider item = [] \<and> modelOnly = None then match_loop prv model items (Some item)
      else match_loop prv model items modelOnly)"

definition matchExact :: "AccountingPriceConfig list \<Rightarrow> string \<Rightarrow> string \<Rightarrow> AccountingPriceConfig option" where
  "matchExact items prv model = match_loop prv model (rev items) None"

text \<open>\<open>strings.LastIndex(model, "/")\<close>: what follows the last slash, \<open>None\<close> without one.\<close>

definition after_last_slash :: "string \<Rightarrow> string option" where
  "after_last_slash s = (if CHR ''/'' \<in> set s then Some (rev (takeWhile (\<lambda>c. c \<noteq> CHR ''/'') (rev s))) else None)"

definition price_match :: "AccountingPriceConfig list \<Rightarrow> string \<Rightarrow> string \<Rightarrow> AccountingPriceConfig option" where
  "price_match items prv0 model0 =
     (let prv = TrimSpace prv0; model = TrimSpace model0
      in case matchExact items prv model of
           Some p \<Rightarrow> Some p
         | None \<Rightarrow>
             (case after_last_slash model of
                Some base \<Rightarrow> matchExact items [] (TrimSpace base)
              | None \<Rightarrow> None))"

definition perMillion :: "(rat \<Rightarrow> rat) \<Rightarrow> int \<Rightarrow> float64 \<Rightarrow> float64" where
  "perMillion rnd tokens rate =
     (if tokens \<le> 0 \<or> rate \<le> 0 then 0 else rnd (rnd (rnd (of_int tokens) * rate) / 1000000))"

definition CostUSDWithMatch ::
  "(rat \<Rightarrow> rat) \<Rightarrow> AccountingPriceConfig list \<Rightarrow> string \<Rightarrow> string \<Rightarrow> UsageBreakdown \<Rightarrow> float64 \<times> bool" where
  "CostUSDWithMatch rnd items prv model u =
     (case price_match items prv model of
        None \<Rightarrow> (0, False)
      | Some p \<Rightarrow>
          (rnd (rnd (rnd (perMillion rnd (ub_InputTokens u) (pr_InputPerMillionUSD p)
                    + perMillion rnd (ub_OutputTokens u) (pr_OutputPerMillionUSD p))
                    + perMillion rnd (ub_CachedInputWriteTokens u) (pr_CacheCreatePerMillionUSD p))
                    + perMillion rnd (ub_CachedInputReadTokens u) (pr_CacheReadPerMillionUSD p)), True))"

definition CostUSD :: "(rat \<Rightarrow> rat) \<Rightarrow> AccountingPriceConfig list \<Rightarrow> string \<Rightarrow> string \<Rightarrow> UsageBreakdown \<Rightarrow> float64" where
  "CostUSD rnd items prv model u = fst (CostUSDWithMatch rnd items prv model u)"

section \<open>What a record changes\<close>

definition total_group :: "string \<Rightarrow> MemoryStore \<Rightarrow> stats_group" where
  "total_group g s = (case map_of (ms_totals s) g of None \<Rightarrow> [] | Some grp \<Rightarrow> grp)"

lemma usageGroupBys_distinct: "distinct usageGroupBys"
  by (simp add: usageGroupBys_def)

lemma total_group_apply:
  "total_group g (apply_total rnd r h s) =
     (if g = h then applyToGroup rnd (usageGroupValue r g) r (total_group g s) else total_group g s)"
  by (auto simp: total_group_def apply_total_def in_group_def)

lemma total_group_window [simp]: "total_group g (apply_window rnd r w b h s) = total_group g s"
  by (simp add: total_group_def apply_window_def)

lemma group_recent [simp]:
  "total_group g (s\<lparr>ms_recent := rs\<rparr>) = total_group g s"
  "window_group w b g (s\<lparr>ms_recent := rs\<rparr>) = window_group w b g s"
  by (simp_all add: total_group_def window_group_def)

lemma total_group_fold_total:
  "distinct hs \<Longrightarrow> total_group g (fold (apply_total rnd r) hs s) =
     (if g \<in> set hs then applyToGroup rnd (usageGroupValue r g) r (total_group g s) else total_group g s)"
  by (induction hs arbitrary: s) (auto simp: total_group_apply)

lemma total_group_fold_window:
  "total_group g (fold (\<lambda>h s. apply_window rnd r WindowMonth m h
     (apply_window rnd r WindowWeek w h (apply_window rnd r WindowDay d h s))) hs s) = total_group g s"
  by (induction hs arbitrary: s) simp_all

lemma total_group_Record:
  "g \<in> set usageGroupBys \<Longrightarrow>
     total_group g (memory_Record rnd r s) = applyToGroup rnd (usageGroupValue r g) r (total_group g s)"
  using total_group_fold_total [OF usageGroupBys_distinct, of g rnd r s]
  by (simp add: memory_Record_def applyRecord_def Let_def total_group_fold_window split: prod.splits)

text \<open>Window groups: a bucket key determines its bucket and its grouping.\<close>

lemma bucketKey_inj:
  assumes "CHR '':'' \<notin> set g" "CHR '':'' \<notin> set h"
  shows "bucketKey w b g = bucketKey w c h \<longleftrightarrow> b = c \<and> g = h"
proof -
  have "b @ '':'' @ g = c @ '':'' @ h \<Longrightarrow> g = h"
  proof -
    assume eq: "b @ '':'' @ g = c @ '':'' @ h"
    have "takeWhile (\<lambda>x. x \<noteq> CHR '':'') (rev (b @ '':'' @ g)) = rev g"
      "takeWhile (\<lambda>x. x \<noteq> CHR '':'') (rev (c @ '':'' @ h)) = rev h"
      using assms by (simp_all add: takeWhile_append2 takeWhile_append)
    then have "rev g = rev h" unfolding eq by (rule trans [OF sym])
    then show "g = h" by simp
  qed
  then show ?thesis by (auto simp: bucketKey_def)
qed

lemma usageGroupBys_no_colon: "g \<in> set usageGroupBys \<Longrightarrow> CHR '':'' \<notin> set g"
  by (auto simp: usageGroupBys_def)

lemma window_group_apply:
  assumes "g \<in> set usageGroupBys" "h \<in> set usageGroupBys"
  shows "window_group w b g (apply_window rnd r w' b' h s) =
    (if w = w' \<and> b = b' \<and> g = h then applyToGroup rnd (usageGroupValue r g) r (window_group w b g s)
     else window_group w b g s)"
  using bucketKey_inj [OF usageGroupBys_no_colon [OF assms(1)] usageGroupBys_no_colon [OF assms(2)], of w b b']
  by (auto simp: window_group_def apply_window_def in_group_def split: option.splits)

lemma window_group_total [simp]: "window_group w b g (apply_total rnd r h s) = window_group w b g s"
  by (simp add: window_group_def apply_total_def)

lemma window_group_fold_total [simp]: "window_group w b g (fold (apply_total rnd r) hs s) = window_group w b g s"
  by (induction hs arbitrary: s) simp_all

lemma window_group_Record:
  assumes "g \<in> set usageGroupBys"
  shows "window_group WindowDay b g (memory_Record rnd r s) =
    (if fst (timeBuckets r) = b then applyToGroup rnd (usageGroupValue r g) r (window_group WindowDay b g s)
     else window_group WindowDay b g s)"
proof -
  obtain d w m where dwm: "timeBuckets r = (d, w, m)" by (cases "timeBuckets r")
  have "distinct hs \<Longrightarrow> set hs \<subseteq> set usageGroupBys \<Longrightarrow>
      window_group WindowDay b g (fold (\<lambda>h s. apply_window rnd r WindowMonth m h
        (apply_window rnd r WindowWeek w h (apply_window rnd r WindowDay d h s))) hs s) =
      (if g \<in> set hs \<and> d = b then applyToGroup rnd (usageGroupValue r g) r (window_group WindowDay b g s)
       else window_group WindowDay b g s)" for hs s
    by (induction hs arbitrary: s) (auto simp: window_group_apply [OF assms])
  from this [OF usageGroupBys_distinct] show ?thesis
    using assms by (simp add: memory_Record_def applyRecord_def Let_def dwm)
qed

section \<open>Sums over a group\<close>

lemma sum_update:
  fixes f :: "StatsItem \<Rightarrow> int"
  assumes "keys_ok g"
  shows "sum_list (map (\<lambda>kv. f (snd kv)) (AList.update k x g)) =
    sum_list (map (\<lambda>kv. f (snd kv)) g) - (case map_of g k of None \<Rightarrow> 0 | Some y \<Rightarrow> f y) + f x"
  using assms
proof (induction g)
  case (Cons kv g)
  have "fst kv \<notin> set (map fst g)" "keys_ok g" using Cons.prems by (simp_all add: keys_ok_def)
  then show ?case using Cons.IH by (cases kv) (auto simp: map_of_eq_None_iff [symmetric] split: option.splits)
qed simp

text \<open>The records of a value of a group, in order.\<close>

definition records_of :: "string \<Rightarrow> string \<Rightarrow> UsageRecord list \<Rightarrow> UsageRecord list" where
  "records_of g v rs = filter (\<lambda>r. usageGroupValue r g = v) rs"

lemma group_of_records:
  "map_of (fold (\<lambda>r. applyToGroup rnd (usageGroupValue r g) r) rs grp) v =
     (if records_of g v rs = [] then map_of grp v
      else Some (fold (apply_item rnd v) (records_of g v rs) (get_item grp v)))"
proof (induction rs arbitrary: grp)
  case (Cons r rs)
  then show ?case
    by (auto simp: applyToGroup_def records_of_def get_item_def comp_def)
qed (simp add: records_of_def)

lemma counters_of_records:
  assumes "int64 (it_RequestCount i)" "int64 (it_InputTokens i)" "int64 (it_OutputTokens i)" "int64 (it_TotalTokens i)"
  shows "it_RequestCount (fold (apply_item rnd v) rs i) = wrap64 (it_RequestCount i + sum_list (map record_count rs))"
    "it_InputTokens (fold (apply_item rnd v) rs i) = wrap64 (it_InputTokens i + sum_list (map (\<lambda>r. ub_InputTokens (ur_Breakdown r)) rs))"
    "it_OutputTokens (fold (apply_item rnd v) rs i) = wrap64 (it_OutputTokens i + sum_list (map (\<lambda>r. ub_OutputTokens (ur_Breakdown r)) rs))"
    "it_TotalTokens (fold (apply_item rnd v) rs i) = wrap64 (it_TotalTokens i + sum_list (map (\<lambda>r. ub_TotalTokens (ur_Breakdown r)) rs))"
  using assms by (induction rs arbitrary: i) (simp_all add: apply_item_def Let_def add.assoc)

lemma total_group_run:
  "g \<in> set usageGroupBys \<Longrightarrow> total_group g (fold (memory_Record rnd) rs s) =
     fold (\<lambda>r. applyToGroup rnd (usageGroupValue r g) r) rs (total_group g s)"
  by (induction rs arbitrary: s) (simp_all add: total_group_Record)

lemma window_group_run:
  "g \<in> set usageGroupBys \<Longrightarrow> window_group WindowDay b g (fold (memory_Record rnd) rs s) =
     fold (\<lambda>r. applyToGroup rnd (usageGroupValue r g) r) (filter (\<lambda>r. fst (timeBuckets r) = b) rs) (window_group WindowDay b g s)"
  by (induction rs arbitrary: s) (simp_all add: window_group_Record)

section \<open>The recent records are a bounded log\<close>

definition memory_wf :: "MemoryStore \<Rightarrow> bool" where
  "memory_wf s \<longleftrightarrow> length (ms_recent s) \<le> defaultRecentRecordsLimit"

lemma recent_apply [simp]: "ms_recent (applyRecord rnd r s) = ms_recent s"
proof -
  have "ms_recent (fold (apply_total rnd r) hs s) = ms_recent s" for hs s
    by (induction hs arbitrary: s) (simp_all add: apply_total_def)
  moreover have "ms_recent (fold (\<lambda>h s. apply_window rnd r WindowMonth m h
        (apply_window rnd r WindowWeek w h (apply_window rnd r WindowDay d h s))) hs s) = ms_recent s" for d w m hs s
    by (induction hs arbitrary: s) (simp_all add: apply_window_def)
  ultimately show ?thesis by (simp add: applyRecord_def split: prod.splits)
qed

lemma memory_Record_recent:
  "ms_recent (memory_Record rnd r s) = keep_last defaultRecentRecordsLimit (ms_recent s @ [r])"
  by (simp add: memory_Record_def Let_def keep_last_def)

interpretation recent: bounded_log ms_recent "memory_Record rnd" "\<lambda>r. r" "\<lambda>_. defaultRecentRecordsLimit" memory_wf for rnd
  by unfold_locales (auto simp: memory_Record_recent memory_wf_def)

lemma recent_loop_take:
  "recent_loop since limit rs items =
     items @ take (limit - length items) (filter (\<lambda>r. IsZero since \<or> since \<le> recordTime r) rs)"
proof (induction rs arbitrary: items)
  case (Cons r rs)
  show ?case
  proof (cases "length items < limit")
    case True
    then obtain k where "limit - length items = Suc k" "limit - Suc (length items) = k" by (metis Suc_diff_Suc)
    then show ?thesis using True Cons.IH by (auto simp: not_less)
  qed simp
qed simp

lemma rev_take_rev: "rev (take n (rev xs)) = keep_last n xs"
  by (simp add: keep_last_def rev_take)

lemma applyToGroup_keys: "keys_ok g \<Longrightarrow> keys_ok (applyToGroup rnd v r g)"
  by (simp add: applyToGroup_def)

definition group_requests :: "stats_group \<Rightarrow> int" where
  "group_requests g = sum_list (map (\<lambda>kv. it_RequestCount (snd kv)) g)"

lemma record_count_pos: "1 \<le> record_count r"
  by (simp add: record_count_def)

lemma applyToGroup_requests:
  assumes "keys_ok g" and "\<forall>kv \<in> set g. 0 \<le> it_RequestCount (snd kv)" and "group_requests g + record_count r < 2 ^ 63"
  shows "group_requests (applyToGroup rnd v r g) = group_requests g + record_count r"
    and "\<forall>kv \<in> set (applyToGroup rnd v r g). 0 \<le> it_RequestCount (snd kv)"
proof -
  have le: "it_RequestCount (get_item g v) \<le> group_requests g" "0 \<le> it_RequestCount (get_item g v)"
  proof -
    show "0 \<le> it_RequestCount (get_item g v)"
      using assms(2) by (auto simp: get_item_def empty_item_def split: option.splits dest!: map_of_SomeD)
    show "it_RequestCount (get_item g v) \<le> group_requests g"
    proof (cases "map_of g v")
      case None
      then show ?thesis using assms(2) by (auto simp: get_item_def empty_item_def group_requests_def intro!: sum_list_nonneg)
    next
      case (Some i)
      then have "i \<in> snd ` set g" by (force dest: map_of_SomeD)
      then have "it_RequestCount i \<in> set (map (\<lambda>kv. it_RequestCount (snd kv)) g)" by auto
      then show ?thesis using assms(2) Some member_le_sum_list [of _ "map (\<lambda>kv. it_RequestCount (snd kv)) g"]
        by (auto simp: get_item_def group_requests_def elem_le_sum_list)
    qed
  qed
  have new: "it_RequestCount (apply_item rnd v r (get_item g v)) = it_RequestCount (get_item g v) + record_count r"
    using le assms(3) record_count_pos [of r] by (simp add: apply_item_def Let_def int64_def)
  show "group_requests (applyToGroup rnd v r g) = group_requests g + record_count r"
    unfolding group_requests_def applyToGroup_def sum_update [OF assms(1)] new
    by (simp add: get_item_def empty_item_def split: option.splits)
  show "\<forall>kv \<in> set (applyToGroup rnd v r g). 0 \<le> it_RequestCount (snd kv)"
  proof
    fix kv assume "kv \<in> set (applyToGroup rnd v r g)"
    moreover have "set (AList.update k x m) \<subseteq> insert (k, x) (set m)" for k :: string and x :: StatsItem and m
      by (induction m) auto
    ultimately have "kv = (v, apply_item rnd v r (get_item g v)) \<or> kv \<in> set g"
      unfolding applyToGroup_def by blast
    then show "0 \<le> it_RequestCount (snd kv)" using assms(2) new le(2) record_count_pos [of r] by auto
  qed
qed

lemma group_requests_run:
  assumes "keys_ok g" and "\<forall>kv \<in> set g. 0 \<le> it_RequestCount (snd kv)"
    and "group_requests g + sum_list (map record_count rs) < 2 ^ 63"
  shows "group_requests (fold (\<lambda>r. applyToGroup rnd (f r) r) rs g) = group_requests g + sum_list (map record_count rs)"
  using assms
proof (induction rs arbitrary: g)
  case (Cons r rs)
  have nn: "0 \<le> sum_list (map record_count rs)"
    using record_count_pos by (intro sum_list_nonneg) (auto intro: order_trans [OF zero_le_one])
  have less: "group_requests g + record_count r < 2 ^ 63" using Cons.prems(3) nn by simp
  note step = applyToGroup_requests [OF Cons.prems(1,2) less, where rnd = rnd and v = "f r"]
  show ?case
    using Cons.IH [of "applyToGroup rnd (f r) r g"] applyToGroup_keys [OF Cons.prems(1)] step Cons.prems(3)
    by (simp add: add.assoc)
qed simp

section \<open>Properties\<close>

definition total_query :: "string \<Rightarrow> AccountingQuery" where
  "total_query g = \<lparr>aq_GroupBy = g, aq_Window = [], aq_Bucket = [], aq_StartDate = [], aq_EndDate = [], aq_ClientName = []\<rparr>"

text \<open>C15: The totals of every supported grouping are exactly the sums over the recorded usage of each value
  (in 64-bit arithmetic), one item per value, in the order of the values.\<close>

theorem usage_totals_exact:
  assumes "g \<in> set usageGroupBys" and "s = fold (memory_Record rnd) rs (newMemoryStore t0 known)"
  shows "memory_Query rnd (total_query g) s = Inr (sorted_items (total_group g s)) \<and>
    (case map_of (total_group g s) v of
       None \<Rightarrow> records_of g v rs = []
     | Some item \<Rightarrow> records_of g v rs \<noteq> []
         \<and> it_RequestCount item = wrap64 (sum_list (map record_count (records_of g v rs)))
         \<and> it_InputTokens item = wrap64 (sum_list (map (\<lambda>r. ub_InputTokens (ur_Breakdown r)) (records_of g v rs)))
         \<and> it_OutputTokens item = wrap64 (sum_list (map (\<lambda>r. ub_OutputTokens (ur_Breakdown r)) (records_of g v rs)))
         \<and> it_TotalTokens item = wrap64 (sum_list (map (\<lambda>r. ub_TotalTokens (ur_Breakdown r)) (records_of g v rs))))"
proof -
  have ne: "g \<noteq> []" using assms(1) by (auto simp: usageGroupBys_def)
  have q: "memory_Query rnd (total_query g) s = Inr (sorted_items (total_group g s))"
    using assms(1) ne by (auto simp: memory_Query_def total_query_def Let_def supportedGroupBy_def supportedWindow_def
        list_ex_iff total_group_def)
  have grp: "total_group g s = fold (\<lambda>r. applyToGroup rnd (usageGroupValue r g) r) rs []"
    using total_group_run [OF assms(1), of rnd rs "newMemoryStore t0 known"]
    by (simp add: assms(2) total_group_def newMemoryStore_def)
  show ?thesis
    unfolding q grp group_of_records
    by (simp add: counters_of_records get_item_def empty_item_def)
qed

definition sample_record :: "string \<Rightarrow> int \<Rightarrow> UsageRecord" where
  "sample_record client tokens = \<lparr>ur_RequestID = [], ur_ClientName = client, ur_InboundName = [], ur_InboundProtocol = [],
     ur_ActiveTag = [], ur_MatchedRule = [], ur_Strategy = [], ur_OutboundName = ''o'', ur_OutboundProtocol = [],
     ur_ProviderName = [], ur_RequestedModel = ''m'', ur_ExecutedModel = [], ur_UsageSource = [],
     ur_Status = UsageStatusSuccess, ur_ErrorKind = [], ur_SessionID = [], ur_Agent = [], ur_CostUSD = 0,
     ur_Priced = False, ur_Breakdown = \<lparr>ub_RequestCount = 1, ub_InputTokens = tokens, ub_OutputTokens = 0,
       ub_CachedInputReadTokens = 0, ub_CachedInputWriteTokens = 0, ub_TotalTokens = tokens, ub_ToolUnits = []\<rparr>,
     ur_StartedAt = ''2024-05-01T10:00:00Z'', ur_FinishedAt = [], ur_LatencyMs = 0, ur_FallbackCount = 0\<rparr>"

theorem usage_totals_exact_witness:
  "let s = fold (memory_Record id) [sample_record ''a'' 5, sample_record ''b'' 7, sample_record ''a'' 9] (newMemoryStore 0 True)
   in map_option it_InputTokens (map_of (total_group ''key'' s) ''a'') = Some 14
      \<and> map_of (total_group ''key'' s) ''z'' = None"
proof -
  let ?rs = "[sample_record ''a'' 5, sample_record ''b'' 7, sample_record ''a'' 9]"
  define s where "s = fold (memory_Record id) ?rs (newMemoryStore 0 True)"
  have g: "''key'' \<in> set usageGroupBys" by (simp add: usageGroupBys_def)
  have r: "map (\<lambda>r. ub_InputTokens (ur_Breakdown r)) (records_of ''key'' ''a'' ?rs) = [5, 9]"
    "records_of ''key'' ''z'' ?rs = []" "wrap64 14 = 14" "records_of ''key'' ''a'' ?rs \<noteq> []"
    by code_simp+
  show ?thesis
    using usage_totals_exact [OF g s_def, of "''a''"] usage_totals_exact [OF g s_def, of "''z''"] r
    unfolding s_def [symmetric] Let_def by (auto split: option.splits)
qed

text \<open>Every grouping accounts for all requests: the request counts of its items add up to the requests
  recorded, so the groupings agree with each other.\<close>

theorem groupings_agree:
  assumes "g \<in> set usageGroupBys" and "sum_list (map record_count rs) < 2 ^ 63"
  shows "group_requests (total_group g (fold (memory_Record rnd) rs (newMemoryStore t0 known))) =
    sum_list (map record_count rs)"
  using total_group_run [OF assms(1), of rnd rs "newMemoryStore t0 known"] assms(2)
    group_requests_run [of "[]" rs rnd "\<lambda>r. usageGroupValue r g"]
  by (simp add: total_group_def newMemoryStore_def group_requests_def)

theorem groupings_agree_witness:
  "group_requests (total_group ''model'' (fold (memory_Record id) [sample_record ''a'' 5, sample_record ''b'' 7] (newMemoryStore 0 True))) = 2"
proof -
  have "sum_list (map record_count [sample_record ''a'' 5, sample_record ''b'' 7]) = 2" by code_simp
  then show ?thesis
    using groupings_agree [of "''model''" "[sample_record ''a'' 5, sample_record ''b'' 7]" id 0 True]
    by (simp add: usageGroupBys_def)
qed

text \<open>RecentRecords returns the newest records since the given instant, oldest first, among the last 10000.\<close>

theorem recent_records_newest:
  assumes "s = fold (memory_Record rnd) rs (newMemoryStore t0 known)" and "kept = keep_last defaultRecentRecordsLimit rs"
  shows "RecentRecords since limit s =
    keep_last (if limit \<le> 0 \<or> int (length kept) < limit then length kept else nat limit)
      (filter (\<lambda>r. IsZero since \<or> since \<le> recordTime r) kept)"
proof -
  have "memory_wf (newMemoryStore t0 known)" by (simp add: memory_wf_def newMemoryStore_def)
  from recent.contents_push_all [OF this, of rnd rs] have "ms_recent s = kept"
    by (simp add: assms newMemoryStore_def)
  then show ?thesis by (simp add: RecentRecords_def Let_def recent_loop_take rev_filter [symmetric] rev_take_rev)
qed

theorem recent_records_newest_witness:
  "map ur_ClientName (RecentRecords 0 2
     (fold (memory_Record id) [sample_record ''a'' 5, sample_record ''b'' 7, sample_record ''c'' 9] (newMemoryStore 0 True)))
   = [''b'', ''c'']"
  unfolding recent_records_newest [OF refl refl]
  by (simp add: keep_last_def defaultRecentRecordsLimit_def IsZero_def sample_record_def)

text \<open>A price is the latest configured one for the provider and model, else the latest one for the model alone;
  configured prices come after the built-in ones and so override them.\<close>

theorem matchExact_latest:
  "matchExact (NewPriceCalculator builtIn items) prv model =
     (case find (\<lambda>i. pr_Model i = model \<and> pr_Provider i = prv) (rev items @ rev builtIn) of
        Some i \<Rightarrow> Some i
      | None \<Rightarrow> find (\<lambda>i. pr_Model i = model \<and> pr_Provider i = []) (rev items @ rev builtIn))"
proof -
  have "match_loop prv model is acc =
     (case find (\<lambda>i. pr_Model i = model \<and> pr_Provider i = prv) is of
        Some i \<Rightarrow> Some i
      | None \<Rightarrow> (case acc of Some i \<Rightarrow> Some i | None \<Rightarrow> find (\<lambda>i. pr_Model i = model \<and> pr_Provider i = []) is))" for "is" acc
    by (induction "is" arbitrary: acc) (auto split: option.splits)
  then show ?thesis by (simp add: matchExact_def NewPriceCalculator_def split: option.split)
qed

end
