(* ===== verification/Router.thy ===== *)
theory Router
  imports Config_Types "HOL-Library.Multiset"
begin

text \<open>
  Package \<open>internal/router\<close>: compiling the routing rules, matching a request to a rule and
  building the execution plan. The round-robin counters are the only mutable state; a plan
  returns the router with its counters updated. Maps that are only looked up are association
  lists read with \<open>map_of\<close>.
\<close>

section \<open>Rules and their patterns\<close>

record wildcardPattern =
  wp_literals :: "string list"
  wp_leadingStar :: bool
  wp_trailingStar :: bool

record compiledRule =
  cr_name :: string
  cr_fromTags :: "string list"
  cr_modelPatterns :: "wildcardPattern list"
  cr_hasModelMatch :: bool
  cr_toTags :: "string list"
  cr_strategy :: string
  cr_modelMap :: "(string \<times> string) list"
  cr_resolvedSet :: "string list"
  cr_weightedResolved :: "string list"

record Router =
  ro_rules :: "compiledRule list"
  ro_providers :: "string \<Rightarrow> CompletionProvider option"
  ro_outboundByTag :: "(string \<times> string list) list"
  ro_modelsByTarget :: "(string \<times> (string \<times> string) list option) list"
  ro_roundRobin :: "(string \<times> nat) list"

definition map_get :: "'v \<Rightarrow> ('k \<times> 'v) list \<Rightarrow> 'k \<Rightarrow> 'v" where
  "map_get d m k = (case map_of m k of None \<Rightarrow> d | Some v \<Rightarrow> v)"

definition matchTag :: "string list \<Rightarrow> string \<Rightarrow> bool" where
  "matchTag tags activeTag = list_ex (\<lambda>t. t = activeTag) tags"

definition compilePattern :: "string \<Rightarrow> wildcardPattern" where
  "compilePattern pattern =
     \<lparr>wp_literals = filter (\<lambda>part. part \<noteq> []) (Split pattern (CHR ''*'')),
      wp_leadingStar = HasPrefix pattern ''*'',
      wp_trailingStar = HasSuffix pattern ''*''\<rparr>"

definition compileModelPatterns :: "string list option \<Rightarrow> wildcardPattern list" where
  "compileModelPatterns m = (case m of None \<Rightarrow> [] | Some models \<Rightarrow> map compilePattern models)"

text \<open>The loop of \<open>matches\<close>: literal number \<open>i\<close> comes next, the value is read up to \<open>position\<close>.\<close>

fun matches_loop :: "wildcardPattern \<Rightarrow> string \<Rightarrow> nat \<Rightarrow> nat \<Rightarrow> string list \<Rightarrow> bool" where
  "matches_loop p val i position [] = (wp_trailingStar p \<or> position = length val)"
| "matches_loop p val i position (literal # rest) =
     (if i = 0 \<and> \<not> wp_leadingStar p then
        HasPrefix val literal \<and> matches_loop p val (Suc i) (length literal) rest
      else if rest = [] \<and> \<not> wp_trailingStar p then
        int position \<le> int (length val) - int (length literal) \<and> HasSuffix val literal
      else
        (case Index (drop position val) literal of
           None \<Rightarrow> False
         | Some index \<Rightarrow> matches_loop p val (Suc i) (position + index + length literal) rest))"

definition pattern_matches :: "wildcardPattern \<Rightarrow> string \<Rightarrow> bool" where
  "pattern_matches p val = (wp_literals p = [] \<or> matches_loop p val 0 0 (wp_literals p))"

definition matchesModel :: "compiledRule \<Rightarrow> string \<Rightarrow> bool" where
  "matchesModel r model =
     (\<not> cr_hasModelMatch r \<or> list_ex (\<lambda>p. pattern_matches p model) (cr_modelPatterns r))"

definition compileModelMap :: "RoutingRule \<Rightarrow> (string \<times> string) list" where
  "compileModelMap rule =
     (if rr_TargetModel rule \<noteq> [] then [(''*'', rr_TargetModel rule)] else rr_ModelMap rule)"

definition resolveModel :: "compiledRule \<Rightarrow> string \<Rightarrow> string" where
  "resolveModel r requested =
     (if map_get [] (cr_modelMap r) requested \<noteq> [] then map_get [] (cr_modelMap r) requested
      else if map_get [] (cr_modelMap r) ''*'' \<noteq> [] then map_get [] (cr_modelMap r) ''*''
      else requested)"

definition compileOutboundModels :: "OutboundModelSpec list \<Rightarrow> (string \<times> string) list option" where
  "compileOutboundModels models =
     (if models = [] then None
      else Some (fold (\<lambda>m acc. fold (\<lambda>alias. AList.update alias (om_Name m)) (om_Aliases m)
                                (AList.update (om_Name m) (om_Name m) acc)) models []))"

definition resolveOutboundModel :: "(string \<times> string) list option \<Rightarrow> string \<Rightarrow> string \<times> bool" where
  "resolveOutboundModel models routedModel =
     (case models of
        None \<Rightarrow> (routedModel, False)
      | Some m \<Rightarrow> (case map_of m routedModel of None \<Rightarrow> (routedModel, True) | Some n \<Rightarrow> (n, False)))"

definition expandWeightedResolved :: "RoutingRule \<Rightarrow> (string \<times> string list) list \<Rightarrow> string list" where
  "expandWeightedResolved rule outboundByTag =
     concat (map (\<lambda>tag. concat (replicate (nat (map_get 0 (rr_Weights rule) tag))
                                (map_get [] outboundByTag tag))) (rr_ToTags rule))"

fun dedupe_loop :: "string list \<Rightarrow> string list \<Rightarrow> string list" where
  "dedupe_loop seen [] = []"
| "dedupe_loop seen (v # vs) =
     (if v \<in> set seen then dedupe_loop seen vs else v # dedupe_loop (v # seen) vs)"

definition dedupePreserveOrder :: "string list \<Rightarrow> string list" where
  "dedupePreserveOrder vals = dedupe_loop [] vals"

definition rotate_values :: "string list \<Rightarrow> nat \<Rightarrow> string list" where
  "rotate_values vals index =
     (if vals = [] then vals
      else (let i = index mod length vals in if i = 0 then vals else drop i vals @ take i vals))"

definition compileRule :: "(string \<times> string list) list \<Rightarrow> nat \<Rightarrow> RoutingRule \<Rightarrow> compiledRule" where
  "compileRule outboundByTag i rule =
     (let resolved = concat (map (map_get [] outboundByTag) (rr_ToTags rule))
      in \<lparr>cr_name = (if rr_Name rule = [] then ''rule-'' @ show_uint (int i) else rr_Name rule),
          cr_fromTags = rr_FromTags rule,
          cr_modelPatterns = compileModelPatterns (rr_Match rule),
          cr_hasModelMatch = (rr_Match rule \<noteq> None),
          cr_toTags = rr_ToTags rule,
          cr_strategy = rr_Strategy rule,
          cr_modelMap = compileModelMap rule,
          cr_resolvedSet = resolved,
          cr_weightedResolved =
            (if rr_Strategy rule = RoutingStrategyWeightedRoundRobin
             then expandWeightedResolved rule outboundByTag else resolved)\<rparr>)"

definition compileRules :: "RoutingRule list \<Rightarrow> (string \<times> string list) list \<Rightarrow> compiledRule list" where
  "compileRules rules outboundByTag =
     map (\<lambda>(i, rule). compileRule outboundByTag i rule) (enumerate 0 rules)"

section \<open>Construction\<close>

datatype router_error =
    OutboundNotFound string
  | UnknownOutboundTag string string

text \<open>The first loop of \<open>New\<close>: tags to enabled outbounds, and the model tables.\<close>

fun index_outbounds ::
  "(string \<Rightarrow> CompletionProvider option) \<Rightarrow> OutboundSpec list \<Rightarrow>
   (string \<times> string list) list \<times> (string \<times> (string \<times> string) list option) list \<Rightarrow>
   router_error + ((string \<times> string list) list \<times> (string \<times> (string \<times> string) list option) list)"
where
  "index_outbounds providers [] acc = Inr acc"
| "index_outbounds providers (out # outs) (byTag, models) =
     (if \<not> OutboundEnabled out then index_outbounds providers outs (byTag, models)
      else if providers (ob_Name out) = None then Inl (OutboundNotFound (ob_Name out))
      else index_outbounds providers outs
             (AList.update (ob_Tag out) (map_get [] byTag (ob_Tag out) @ [ob_Name out]) byTag,
              AList.update (ob_Name out) (compileOutboundModels (ob_Models out)) models))"

definition unknown_tag :: "OutboundSpec list \<Rightarrow> RoutingRule list \<Rightarrow> (string \<times> string) option" where
  "unknown_tag outs rules =
     find (\<lambda>(n, tag). tag \<notin> set (map ob_Tag outs))
       (concat (map (\<lambda>r. map (\<lambda>tag. (rr_Name r, tag)) (rr_ToTags r)) rules))"

definition router_New ::
  "RoutingRule list \<Rightarrow> (string \<Rightarrow> CompletionProvider option) \<Rightarrow> OutboundSpec list \<Rightarrow> router_error + Router"
where
  "router_New rules providers outs =
     (case index_outbounds providers outs ([], []) of
        Inl e \<Rightarrow> Inl e
      | Inr (byTag, models) \<Rightarrow>
          (case unknown_tag outs rules of
             Some (n, tag) \<Rightarrow> Inl (UnknownOutboundTag n tag)
           | None \<Rightarrow>
               Inr \<lparr>ro_rules = compileRules rules byTag, ro_providers = providers,
                    ro_outboundByTag = byTag, ro_modelsByTarget = models, ro_roundRobin = []\<rparr>))"

section \<open>Planning\<close>

definition nextRoundRobinIndex :: "string \<Rightarrow> nat \<Rightarrow> Router \<Rightarrow> nat \<times> Router" where
  "nextRoundRobinIndex key n r =
     (if n = 0 then (0, r)
      else (let index = map_get 0 (ro_roundRobin r) key mod n
            in (index, r\<lparr>ro_roundRobin := AList.update key ((index + 1) mod n) (ro_roundRobin r)\<rparr>)))"

fun providerProtocol :: "CompletionProvider option \<Rightarrow> string" where
  "providerProtocol None = ''unknown''"
| "providerProtocol (Some p) =
     (case prov_type p of
        MockProvider \<Rightarrow> ''mock''
      | OpenAICompatibleProvider \<Rightarrow> ''openai''
      | AnthropicMessagesProvider \<Rightarrow> ''anthropic_messages''
      | OtherProvider \<Rightarrow> ''unknown'')"

definition plan_order :: "bool \<Rightarrow> compiledRule \<Rightarrow> Router \<Rightarrow> string list \<times> Router" where
  "plan_order mutate rule r =
     (if cr_strategy rule = RoutingStrategyRoundRobin then
        (if mutate then
           (case nextRoundRobinIndex (cr_name rule) (length (cr_resolvedSet rule)) r of (i, r') \<Rightarrow>
              (rotate_values (cr_resolvedSet rule) i, r'))
         else (cr_resolvedSet rule, r))
      else if cr_strategy rule = RoutingStrategyWeightedRoundRobin then
        (if mutate then
           (case nextRoundRobinIndex (cr_name rule) (length (cr_weightedResolved rule)) r of (i, r') \<Rightarrow>
              (dedupePreserveOrder (rotate_values (cr_weightedResolved rule) i), r'))
         else (dedupePreserveOrder (cr_weightedResolved rule), r))
      else (cr_resolvedSet rule, r))"

definition plan_step :: "Router \<Rightarrow> string \<Rightarrow> string \<Rightarrow> ExecutionStep" where
  "plan_step r routedModel outboundName =
     (let target = ro_providers r outboundName
      in case resolveOutboundModel (map_get None (ro_modelsByTarget r) outboundName) routedModel of
           (model, unavailable) \<Rightarrow>
             \<lparr>es_Type = StepTypeOutbound, es_OutboundName = outboundName,
              es_OutboundProtocol = providerProtocol target, es_OutboundTarget = target,
              es_Model = model, es_ModelUnavailable = unavailable, es_OnError = FallbackOnRetryable\<rparr>)"

definition rule_matches :: "RouteContext \<Rightarrow> compiledRule \<Rightarrow> bool" where
  "rule_matches ctx rule =
     (matchTag (cr_fromTags rule) (rc_ActiveTag ctx) \<and> matchesModel rule (req_Model (rc_Request ctx)))"

definition no_outbounds_error :: "string \<Rightarrow> go_error" where
  "no_outbounds_error n =
     NewRetryableError (Some (PlainError (''routing rule '' @ quoted n @ '' has no enabled outbounds'')))"

definition no_rule_error :: "string \<Rightarrow> go_error" where
  "no_rule_error tag = PlainError (''no routing rule matched active tag '' @ quoted tag)"

fun plan_rules ::
  "bool \<Rightarrow> RouteContext \<Rightarrow> Router \<Rightarrow> compiledRule list \<Rightarrow> (go_error + ExecutionPlan) \<times> Router"
where
  "plan_rules mutate ctx r [] = (Inl (no_rule_error (rc_ActiveTag ctx)), r)"
| "plan_rules mutate ctx r (rule # rules) =
     (if \<not> matchTag (cr_fromTags rule) (rc_ActiveTag ctx) then plan_rules mutate ctx r rules
      else if \<not> matchesModel rule (req_Model (rc_Request ctx)) then plan_rules mutate ctx r rules
      else if cr_resolvedSet rule = [] then (Inl (no_outbounds_error (cr_name rule)), r)
      else
        (case plan_order mutate rule r of (ordered, r') \<Rightarrow>
           (Inr \<lparr>pl_ClientName = rc_ClientName ctx, pl_InboundName = rc_InboundName ctx,
                 pl_InboundProtocol = rc_InboundProtocol ctx, pl_ActiveTag = rc_ActiveTag ctx,
                 pl_RequestedModel = req_Model (rc_Request ctx), pl_MatchedRule = cr_name rule,
                 pl_Strategy = cr_strategy rule, pl_ResolvedToTags = cr_toTags rule,
                 pl_Steps = map (plan_step r (resolveModel rule (req_Model (rc_Request ctx)))) ordered\<rparr>,
            r')))"

definition router_plan :: "bool \<Rightarrow> RouteContext \<Rightarrow> Router \<Rightarrow> (go_error + ExecutionPlan) \<times> Router" where
  "router_plan mutate ctx r = plan_rules mutate ctx r (ro_rules r)"

definition router_Plan :: "RouteContext \<Rightarrow> Router \<Rightarrow> (go_error + ExecutionPlan) \<times> Router" where
  "router_Plan ctx r = router_plan True ctx r"

definition router_PlanDryRun :: "RouteContext \<Rightarrow> Router \<Rightarrow> (go_error + ExecutionPlan) \<times> Router" where
  "router_PlanDryRun ctx r = router_plan False ctx r"

section \<open>What a pattern means\<close>

text \<open>The reference reading of a pattern: a star stands for any string, any other byte for itself.\<close>

fun glob :: "string \<Rightarrow> string \<Rightarrow> bool" where
  "glob [] v = (v = [])"
| "glob (c # p) v =
     (if c = CHR ''*'' then list_ex (glob p) (suffixes v)
      else (case v of [] \<Rightarrow> False | d # v' \<Rightarrow> d = c \<and> glob p v'))"

text \<open>The same over the star-separated parts of the pattern.\<close>

fun parts_match :: "string list \<Rightarrow> string \<Rightarrow> bool" where
  "parts_match [] v = False"
| "parts_match [a] v = (v = a)"
| "parts_match (a # b # ps) v = (\<exists>u w. v = a @ u @ w \<and> parts_match (b # ps) w)"

lemma parts_match_Cons:
  "ps \<noteq> [] \<Longrightarrow> parts_match (a # ps) v = (\<exists>u w. v = a @ u @ w \<and> parts_match ps w)"
  by (cases ps) auto

lemma glob_parts: "glob p v = parts_match (Split p (CHR ''*'')) v"
proof (induction p v rule: glob.induct)
  case (1 v)
  then show ?case by simp
next
  case (2 c p v)
  show ?case
  proof (cases "c = CHR ''*''")
    case True
    have "glob (c # p) v = (\<exists>w. suffix w v \<and> parts_match (Split p (CHR ''*'')) w)"
      using True 2(1) by (auto simp: list_ex_iff)
    then show ?thesis using True by (auto simp: parts_match_Cons suffix_def)
  next
    case False
    obtain a ps where ps: "Split p (CHR ''*'') = a # ps"
      using Split_nonempty by (metis list.exhaust)
    have "parts_match ((c # a) # ps) v = (case v of [] \<Rightarrow> False | d # v' \<Rightarrow> d = c \<and> parts_match (a # ps) v')"
      by (cases ps; cases v) auto
    then show ?thesis using 2 False ps by (auto split: list.splits)
  qed
qed

text \<open>The literals that remain once a star has been read.\<close>

fun after_star :: "string list \<Rightarrow> bool \<Rightarrow> string \<Rightarrow> bool" where
  "after_star [] tr w = True"
| "after_star (l # ls) tr w =
     (if ls = [] \<and> \<not> tr then (\<exists>u. w = u @ l) else (\<exists>u r. w = u @ l @ r \<and> after_star ls tr r))"

lemma after_star_prefix: "after_star ls tr w \<Longrightarrow> after_star ls tr (u @ w)"
  by (cases ls) (auto, metis append.assoc, metis append.assoc)

lemma after_star_parts:
  assumes "ps \<noteq> []"
  shows "(\<exists>u r. w = u @ r \<and> parts_match ps r) =
         after_star (filter (\<lambda>a. a \<noteq> []) ps) (last ps = []) w"
  using assms
proof (induction ps arbitrary: w)
  case Nil
  then show ?case by simp
next
  case (Cons a ps)
  show ?case
  proof (cases "ps = []")
    case True
    then show ?thesis by auto
  next
    case False
    let ?F = "filter (\<lambda>a. a \<noteq> []) ps" and ?tr = "last ps = []"
    have nontrivial: "?F \<noteq> [] \<or> ?tr"
      using False last_in_set [OF False] by (auto simp: filter_empty_conv)
    have "(\<exists>u r. w = u @ r \<and> parts_match (a # ps) r) =
        (\<exists>u w'. w = u @ a @ w' \<and> (\<exists>u r. w' = u @ r \<and> parts_match ps r))"
      using False by (auto simp: parts_match_Cons)
    also have "\<dots> = (\<exists>u w'. w = u @ a @ w' \<and> after_star ?F ?tr w')"
      by (simp add: Cons.IH [OF False])
    also have "\<dots> = after_star (filter (\<lambda>a. a \<noteq> []) (a # ps)) (last (a # ps) = []) w"
      using False nontrivial by (auto intro: after_star_prefix)
    finally show ?thesis .
  qed
qed

lemma after_star_leftmost:
  assumes "ls \<noteq> [] \<or> tr"
  shows "after_star (l # ls) tr w =
    (case Index w l of None \<Rightarrow> False | Some i \<Rightarrow> after_star ls tr (drop (i + length l) w))"
proof
  assume "after_star (l # ls) tr w"
  then obtain u r where w: "w = u @ l @ r" and r: "after_star ls tr r"
    using assms by auto
  obtain i where i: "Index w l = Some i" "i \<le> length u"
    using Index_least [OF w] by blast
  have "drop (i + length l) w = drop (i + length l) (u @ l) @ r"
    using i w by (simp add: drop_append)
  then show "case Index w l of None \<Rightarrow> False | Some i \<Rightarrow> after_star ls tr (drop (i + length l) w)"
    using i r by (simp add: after_star_prefix)
next
  assume *: "case Index w l of None \<Rightarrow> False | Some i \<Rightarrow> after_star ls tr (drop (i + length l) w)"
  then obtain i where i: "Index w l = Some i" and r: "after_star ls tr (drop (i + length l) w)"
    by (auto split: option.splits)
  obtain r where w: "w = take i w @ l @ r" "length (take i w) = i"
    using Index_SomeD [OF i] by blast
  have "drop (i + length l) w = r"
    by (metis append.assoc append_eq_conv_conj length_append w)
  then show "after_star (l # ls) tr w"
    using assms r w(1) by auto
qed

lemma matches_loop_after_star:
  assumes "0 < i \<or> wp_leadingStar p" and "ls \<noteq> [] \<or> wp_trailingStar p" and "pos \<le> length v"
  shows "matches_loop p v i pos ls = after_star ls (wp_trailingStar p) (drop pos v)"
  using assms
proof (induction ls arbitrary: i pos)
  case Nil
  then show ?case by simp
next
  case (Cons l ls)
  show ?case
  proof (cases "ls = [] \<and> \<not> wp_trailingStar p")
    case True
    have "(int pos \<le> int (length v) - int (length l) \<and> HasSuffix v l) = (\<exists>u. drop pos v = u @ l)"
    proof
      assume *: "int pos \<le> int (length v) - int (length l) \<and> HasSuffix v l"
      then obtain u where v: "v = u @ l" by (auto simp: HasSuffix_iff)
      then show "\<exists>u. drop pos v = u @ l" using * by (auto simp: drop_append)
    next
      assume "\<exists>u. drop pos v = u @ l"
      then obtain u where u: "drop pos v = u @ l" ..
      then have "v = (take pos v @ u) @ l" by (metis append.assoc append_take_drop_id)
      moreover have "length v = pos + length u + length l"
        using Cons.prems(3) arg_cong [OF u, of length] by simp
      ultimately show "int pos \<le> int (length v) - int (length l) \<and> HasSuffix v l"
        by (metis HasSuffix_iff add.commute add_diff_cancel_right' le_add1 of_nat_add of_nat_mono add.assoc)
    qed
    then show ?thesis using True Cons.prems(1) by auto
  next
    case False
    have "matches_loop p v (Suc i) (pos + j + length l) ls =
        after_star ls (wp_trailingStar p) (drop (j + length l) (drop pos v))"
      if j: "Index (drop pos v) l = Some j" for j
    proof -
      obtain r where r: "drop pos v = take j (drop pos v) @ l @ r" "length (take j (drop pos v)) = j"
        using Index_SomeD [OF j] by blast
      have "length (drop pos v) = j + length l + length r"
        using arg_cong [OF r(1), of length] r(2) by simp
      then have "pos + j + length l \<le> length v" using Cons.prems(3) by simp
      then show ?thesis using Cons.IH [of "Suc i" "pos + j + length l"] False
        by (auto simp: add.commute add.left_commute)
    qed
    then show ?thesis using False Cons.prems(1)
      by (subst after_star_leftmost) (auto split: option.splits)
  qed
qed

lemma Split_hd: "p \<noteq> [] \<Longrightarrow> hd (Split p c) = [] \<longleftrightarrow> HasPrefix p [c]"
  by (cases p) (auto simp: HasPrefix_def split: list.splits)

lemma Split_last: "p \<noteq> [] \<Longrightarrow> last (Split p c) = [] \<longleftrightarrow> HasSuffix p [c]"
proof (induction p)
  case (Cons x p)
  show ?case
  proof (cases "p = []")
    case True
    then show ?thesis by (auto simp: HasSuffix_def)
  next
    case False
    have "HasSuffix (x # p) [c] = HasSuffix p [c]"
      using False by (auto simp: HasSuffix_iff Cons_eq_append_conv)
    moreover have "last (Split (x # p) c) = [] \<longleftrightarrow> last (Split p c) = []"
    proof (cases "Split p c")
      case Nil
      then show ?thesis by simp
    next
      case (Cons q qs)
      have "qs \<noteq> [] \<or> q \<noteq> []"
      proof (rule ccontr)
        assume "\<not> (qs \<noteq> [] \<or> q \<noteq> [])"
        then have "Split p c = [[]]" using Cons by simp
        then show False using False by (cases p) (auto split: if_splits list.splits)
      qed
      then show ?thesis using Cons by auto
    qed
    ultimately show ?thesis using Cons False by simp
  qed
qed simp

lemma Split_single: "Split p c = [a] \<Longrightarrow> a = p"
  by (induction p arbitrary: a) (auto split: if_splits list.splits)

theorem pattern_matches_glob:
  assumes "p \<noteq> []"
  shows "pattern_matches (compilePattern p) v = glob p v"
proof -
  let ?c = "CHR ''*''"
  obtain a ps where split: "Split p ?c = a # ps" using Split_nonempty by (metis list.exhaust)
  have lead: "HasPrefix p ''*'' \<longleftrightarrow> a = []" and trail: "HasSuffix p ''*'' \<longleftrightarrow> last (a # ps) = []"
    using Split_hd [OF assms, of ?c] Split_last [OF assms, of ?c] split by simp_all
  show ?thesis
  proof (cases "ps = []")
    case True
    then have "a = p" using split Split_single by simp
    moreover have "HasPrefix v p \<and> length p = length v \<longleftrightarrow> v = p"
      by (auto simp: HasPrefix_def)
    ultimately show ?thesis
      using True assms split lead trail
      by (auto simp: glob_parts pattern_matches_def compilePattern_def)
  next
    case False
    let ?F = "filter (\<lambda>a. a \<noteq> []) ps" and ?P = "compilePattern p"
    have tr: "wp_trailingStar ?P \<longleftrightarrow> last ps = []" and ld: "wp_leadingStar ?P \<longleftrightarrow> a = []"
      and lits: "wp_literals ?P = (if a = [] then ?F else a # ?F)"
      using trail lead split False by (simp_all add: compilePattern_def)
    have nontrivial: "?F \<noteq> [] \<or> last ps = []"
      using last_in_set [OF False] by (auto simp: filter_empty_conv)
    have glob: "glob p v = (\<exists>w. v = a @ w \<and> after_star ?F (last ps = []) w)"
      using after_star_parts [OF False] False by (auto simp: glob_parts split parts_match_Cons)
    show ?thesis
    proof (cases "a = []")
      case True
      then show ?thesis
        using matches_loop_after_star [of 0 ?P ?F 0 v] glob lits ld tr nontrivial
        by (auto simp: pattern_matches_def)
    next
      case a: False
      have "pattern_matches ?P v = (HasPrefix v a \<and> matches_loop ?P v 1 (length a) ?F)"
        using a lits ld by (simp add: pattern_matches_def)
      also have "\<dots> = (\<exists>w. v = a @ w \<and> after_star ?F (last ps = []) w)"
        using matches_loop_after_star [of 1 ?P ?F "length a" v] tr nontrivial
        by (auto simp: HasPrefix_iff)
      finally show ?thesis using glob by simp
    qed
  qed
qed

section \<open>Order and rotation\<close>

lemma rotate_values_rotate: "rotate_values xs i = rotate i xs"
  by (simp add: rotate_values_def rotate_drop_take Let_def)

lemma dedupe_loop_props:
  "set (dedupe_loop seen xs) = set xs - set seen" "distinct (dedupe_loop seen xs)"
  by (induction seen xs rule: dedupe_loop.induct) auto

lemma dedupe_loop_filter: "dedupe_loop seen xs = filter (\<lambda>x. x \<notin> set seen) (dedupe_loop [] xs)"
proof (induction xs arbitrary: seen)
  case (Cons x xs)
  have "dedupe_loop [x] xs = filter (\<lambda>y. y \<noteq> x) (dedupe_loop [] xs)"
    using Cons.IH [of "[x]"] by simp
  then show ?case using Cons.IH [of "x # seen"] Cons.IH [of seen]
    by (auto intro: filter_cong)
qed simp

lemma dedupe_hd: "xs \<noteq> [] \<Longrightarrow> hd (dedupePreserveOrder xs) = hd xs"
  by (cases xs) (auto simp: dedupePreserveOrder_def)

lemma dedupe_nonempty: "xs \<noteq> [] \<Longrightarrow> dedupePreserveOrder xs \<noteq> []"
  by (cases xs) (auto simp: dedupePreserveOrder_def)

lemma dedupe_set [simp]: "set (dedupePreserveOrder xs) = set xs"
  and dedupe_distinct [simp]: "distinct (dedupePreserveOrder xs)"
  by (simp_all add: dedupePreserveOrder_def dedupe_loop_props)

lemma hd_rotate_values: "xs \<noteq> [] \<Longrightarrow> hd (rotate_values xs i) = xs ! (i mod length xs)"
  by (simp add: rotate_values_rotate hd_rotate_conv_nth)

section \<open>Plans\<close>

text \<open>A plan is decided by the first rule that matches.\<close>

lemma plan_rules_find:
  "plan_rules mutate ctx r rules =
     (case find (rule_matches ctx) rules of
        None \<Rightarrow> (Inl (no_rule_error (rc_ActiveTag ctx)), r)
      | Some rule \<Rightarrow> plan_rules mutate ctx r [rule])"
  by (induction rules) (auto simp: rule_matches_def)

lemma router_plan_cases:
  obtains (none) "find (rule_matches ctx) (ro_rules r) = None"
      "router_plan mutate ctx r = (Inl (no_rule_error (rc_ActiveTag ctx)), r)"
  | (empty) rule where "find (rule_matches ctx) (ro_rules r) = Some rule" "cr_resolvedSet rule = []"
      "router_plan mutate ctx r = (Inl (no_outbounds_error (cr_name rule)), r)"
  | (plan) rule ordered r' p where "find (rule_matches ctx) (ro_rules r) = Some rule"
      "cr_resolvedSet rule \<noteq> []" "plan_order mutate rule r = (ordered, r')"
      "router_plan mutate ctx r = (Inr p, r')" "pl_MatchedRule p = cr_name rule"
      "pl_Steps p = map (plan_step r (resolveModel rule (req_Model (rc_Request ctx)))) ordered"
proof (cases "find (rule_matches ctx) (ro_rules r)")
  case None
  then show ?thesis by (intro none) (simp_all add: router_plan_def plan_rules_find [of _ _ _ "ro_rules r"])
next
  case (Some rule)
  then have "rule_matches ctx rule" by (auto simp: find_Some_iff)
  then have step: "plan_rules mutate ctx r [rule] =
      (if cr_resolvedSet rule = [] then (Inl (no_outbounds_error (cr_name rule)), r)
       else plan_rules mutate ctx r [rule])"
    by (simp add: rule_matches_def)
  show ?thesis
  proof (cases "cr_resolvedSet rule = []")
    case True
    then show ?thesis
      using Some step by (intro empty) (simp_all add: router_plan_def plan_rules_find [of _ _ _ "ro_rules r"])
  next
    case False
    obtain ordered r' where "plan_order mutate rule r = (ordered, r')" by (cases "plan_order mutate rule r")
    then show ?thesis using Some False \<open>rule_matches ctx rule\<close>
      by (intro plan [of rule ordered r'])
        (auto simp: router_plan_def plan_rules_find [of _ _ _ "ro_rules r"] rule_matches_def)
  qed
qed

lemma plan_step_name [simp]: "es_OutboundName (plan_step r m n) = n"
  by (simp add: plan_step_def Let_def split: prod.splits)

lemma nextRoundRobinIndex_rules:
  "ro_rules (snd (nextRoundRobinIndex k n r)) = ro_rules r"
  "ro_providers (snd (nextRoundRobinIndex k n r)) = ro_providers r"
  "ro_modelsByTarget (snd (nextRoundRobinIndex k n r)) = ro_modelsByTarget r"
  by (simp_all add: nextRoundRobinIndex_def Let_def)

lemma plan_order_frame:
  "plan_order mutate rule r = (ordered, r') \<Longrightarrow>
     ro_rules r' = ro_rules r \<and> ro_providers r' = ro_providers r \<and> ro_modelsByTarget r' = ro_modelsByTarget r"
  using nextRoundRobinIndex_rules
  by (auto simp: plan_order_def split: if_splits prod.splits) (metis snd_conv)+

lemma plan_order_dry: "snd (plan_order False rule r) = r"
  by (simp add: plan_order_def)

definition rule_cycle :: "compiledRule \<Rightarrow> string list" where
  "rule_cycle rule =
     (if cr_strategy rule = RoutingStrategyRoundRobin then cr_resolvedSet rule
      else if cr_strategy rule = RoutingStrategyWeightedRoundRobin then cr_weightedResolved rule
      else [])"

lemma plan_order_cycle:
  assumes "rule_cycle rule \<noteq> []" and "plan_order True rule r = (ordered, r')"
  defines "n \<equiv> length (rule_cycle rule)"
  shows "ordered \<noteq> []" "hd ordered = rule_cycle rule ! (map_get 0 (ro_roundRobin r) (cr_name rule) mod n)"
    "ro_roundRobin r' = AList.update (cr_name rule)
       (Suc (map_get 0 (ro_roundRobin r) (cr_name rule) mod n) mod n) (ro_roundRobin r)"
  using assms
  by (auto simp: plan_order_def rule_cycle_def nextRoundRobinIndex_def Let_def rotate_values_rotate
      dedupe_nonempty dedupe_hd hd_rotate_conv_nth n_def split: if_splits)

lemma plan_order_no_cycle: "rule_cycle rule = [] \<Longrightarrow> cr_resolvedSet rule \<noteq> [] \<Longrightarrow>
    ro_roundRobin (snd (plan_order mutate rule r)) = ro_roundRobin r"
  by (auto simp: plan_order_def rule_cycle_def nextRoundRobinIndex_def split: if_splits)

lemma plan_order_other:
  "k \<noteq> cr_name rule \<Longrightarrow>
     map_of (ro_roundRobin (snd (plan_order mutate rule r))) k = map_of (ro_roundRobin r) k"
  by (auto simp: plan_order_def nextRoundRobinIndex_def Let_def split: if_splits)

text \<open>A sequence of plans, and the first target of those that a rule made.\<close>

fun plan_all :: "RouteContext list \<Rightarrow> Router \<Rightarrow> (go_error + ExecutionPlan) list" where
  "plan_all [] r = []"
| "plan_all (ctx # ctxs) r = (case router_Plan ctx r of (res, r') \<Rightarrow> res # plan_all ctxs r')"

fun first_targets :: "string \<Rightarrow> (go_error + ExecutionPlan) list \<Rightarrow> string list" where
  "first_targets n [] = []"
| "first_targets n (Inl e # ps) = first_targets n ps"
| "first_targets n (Inr p # ps) =
     (if pl_MatchedRule p = n then es_OutboundName (hd (pl_Steps p)) # first_targets n ps
      else first_targets n ps)"

lemma cycle_shift:
  assumes "0 < n"
  shows "map (\<lambda>k. f ((c + k) mod n)) [0..<Suc m] = f (c mod n) # map (\<lambda>k. f ((Suc (c mod n) mod n + k) mod n)) [0..<m]"
proof -
  have "(c + Suc k) mod n = (Suc (c mod n) mod n + k) mod n" for k
    by (metis add_Suc_right add_Suc mod_add_left_eq mod_Suc_eq)
  then show ?thesis by (simp add: upt_conv_Cons map_Suc_upt [symmetric] del: upt_Suc)
qed

lemma first_targets_cycle:
  assumes "distinct (map cr_name (ro_rules r))" and "rule \<in> set (ro_rules r)"
    and "rule_cycle rule \<noteq> []"
  defines "n \<equiv> length (rule_cycle rule)"
  shows "let ts = first_targets (cr_name rule) (plan_all ctxs r)
    in ts = map (\<lambda>k. rule_cycle rule ! ((map_get 0 (ro_roundRobin r) (cr_name rule) + k) mod n)) [0..<length ts]"
  using assms(1,2)
proof (induction ctxs arbitrary: r)
  case Nil
  then show ?case by simp
next
  case (Cons ctx ctxs)
  have n: "0 < n" using assms(3) by (simp add: n_def)
  show ?case
  proof (cases rule: router_plan_cases [of ctx r True])
    case none
    then show ?thesis using Cons.IH [OF Cons.prems] by (simp add: router_Plan_def)
  next
    case (empty rule')
    then show ?thesis using Cons.IH [OF Cons.prems] by (simp add: router_Plan_def)
  next
    case (plan rule' ordered r' p)
    have in': "rule' \<in> set (ro_rules r)" using plan(1) by (auto simp: find_Some_iff)
    have frame: "ro_rules r' = ro_rules r" using plan_order_frame [OF plan(3)] by simp
    let ?c = "map_get 0 (ro_roundRobin r) (cr_name rule)"
    let ?ts = "first_targets (cr_name rule) (plan_all ctxs r')"
    have IH: "?ts = map (\<lambda>k. rule_cycle rule ! ((map_get 0 (ro_roundRobin r') (cr_name rule) + k) mod n)) [0..<length ?ts]"
      using Cons.IH [of r'] Cons.prems frame by (simp add: Let_def)
    show ?thesis
    proof (cases "cr_name rule' = cr_name rule")
      case True
      then have eq: "rule' = rule"
        using Cons.prems in' by (meson distinct_map inj_onD)
      note cyc = plan_order_cycle [OF assms(3) plan(3) [unfolded eq]]
      have c': "map_get 0 (ro_roundRobin r') (cr_name rule) = Suc (?c mod n) mod n"
        by (simp add: map_get_def cyc(3) n_def)
      have "es_OutboundName (hd (pl_Steps p)) = rule_cycle rule ! (?c mod n)"
        using plan(6) cyc(1,2) by (simp add: hd_map n_def)
      then have "first_targets (cr_name rule) (plan_all (ctx # ctxs) r) = rule_cycle rule ! (?c mod n) # ?ts"
        using plan(4,5) eq by (simp add: router_Plan_def)
      then show ?thesis
        using IH cycle_shift [OF n, of "\<lambda>i. rule_cycle rule ! i" ?c "length ?ts"] c' by (simp add: Let_def)
    next
      case False
      have "map_get 0 (ro_roundRobin r') (cr_name rule) = ?c"
        using plan_order_other [of "cr_name rule" rule' True r] False plan(3) by (simp add: map_get_def)
      then show ?thesis using IH plan(4,5) False by (simp add: router_Plan_def Let_def)
    qed
  qed
qed

section \<open>What construction guarantees\<close>

lemma index_outbounds_byTag:
  "index_outbounds providers outs (byTag, models) = Inr (byTag', models') \<Longrightarrow>
     map_get [] byTag' tag =
       map_get [] byTag tag @ map ob_Name (filter (\<lambda>x. OutboundEnabled x \<and> ob_Tag x = tag) outs)"
proof (induction providers outs "(byTag, models)" arbitrary: byTag models rule: index_outbounds.induct)
  case (2 providers out outs byTag models)
  then show ?case by (auto simp: map_get_def split: if_splits option.splits)
qed simp

lemma index_outbounds_providers:
  "index_outbounds providers outs acc = Inr res \<Longrightarrow>
     \<forall>x \<in> set outs. OutboundEnabled x \<longrightarrow> providers (ob_Name x) \<noteq> None"
  by (induction providers outs acc arbitrary: res rule: index_outbounds.induct) (auto split: if_splits)

lemma index_outbounds_succeeds:
  "\<forall>x \<in> set outs. OutboundEnabled x \<longrightarrow> providers (ob_Name x) \<noteq> None \<Longrightarrow>
     \<exists>res. index_outbounds providers outs acc = Inr res"
  by (induction providers outs acc rule: index_outbounds.induct) auto

lemma unknown_tag_None:
  "unknown_tag outs rules = None \<longleftrightarrow> (\<forall>r \<in> set rules. set (rr_ToTags r) \<subseteq> ob_Tag ` set outs)"
  by (fastforce simp: unknown_tag_def find_None_iff)

lemma router_New_Inr:
  assumes "router_New rules providers outs = Inr r"
  shows "ro_rules r = compileRules rules (ro_outboundByTag r)" "ro_providers r = providers"
    "ro_roundRobin r = []"
    "map_get [] (ro_outboundByTag r) tag =
       map ob_Name (filter (\<lambda>x. OutboundEnabled x \<and> ob_Tag x = tag) outs)"
    "\<forall>x \<in> set outs. OutboundEnabled x \<longrightarrow> providers (ob_Name x) \<noteq> None"
proof -
  obtain byTag models where idx: "index_outbounds providers outs ([], []) = Inr (byTag, models)"
    using assms by (auto simp: router_New_def split: sum.splits)
  then have r: "r = \<lparr>ro_rules = compileRules rules byTag, ro_providers = providers,
      ro_outboundByTag = byTag, ro_modelsByTarget = models, ro_roundRobin = []\<rparr>"
    using assms by (auto simp: router_New_def split: option.splits)
  show "ro_rules r = compileRules rules (ro_outboundByTag r)" "ro_providers r = providers"
    "ro_roundRobin r = []" by (simp_all add: r)
  show "map_get [] (ro_outboundByTag r) tag =
       map ob_Name (filter (\<lambda>x. OutboundEnabled x \<and> ob_Tag x = tag) outs)"
    using index_outbounds_byTag [OF idx, of tag] by (simp add: r map_get_def)
  show "\<forall>x \<in> set outs. OutboundEnabled x \<longrightarrow> providers (ob_Name x) \<noteq> None"
    by (rule index_outbounds_providers [OF idx])
qed

lemma compileRules_elem:
  assumes "rule \<in> set (compileRules rules byTag)"
  obtains i rr where "rr \<in> set rules" "i < length rules" "rules ! i = rr" "rule = compileRule byTag i rr"
proof -
  obtain i rr where "(i, rr) \<in> set (enumerate 0 rules)" "rule = compileRule byTag i rr"
    using assms by (auto simp: compileRules_def)
  then show ?thesis by (intro that [of rr i]) (auto simp: in_set_enumerate_eq)
qed

text \<open>Candidates of a rule: the enabled outbounds of its tags, in tag order.\<close>

lemma compileRule_resolved:
  "cr_resolvedSet (compileRule byTag i rr) = concat (map (map_get [] byTag) (rr_ToTags rr))"
  "cr_name (compileRule byTag i rr) = (if rr_Name rr = [] then ''rule-'' @ show_uint (int i) else rr_Name rr)"
  "cr_strategy (compileRule byTag i rr) = rr_Strategy rr"
  by (simp_all add: compileRule_def Let_def)

lemma compileRule_weighted:
  "rr_Strategy rr = RoutingStrategyWeightedRoundRobin \<Longrightarrow>
     cr_weightedResolved (compileRule byTag i rr) = expandWeightedResolved rr byTag"
  by (simp add: compileRule_def Let_def)

lemma set_expandWeighted:
  assumes "\<forall>tag \<in> set (rr_ToTags rr). 0 < map_get 0 (rr_Weights rr) tag"
  shows "set (expandWeightedResolved rr byTag) = set (concat (map (map_get [] byTag) (rr_ToTags rr)))"
  using assms by (fastforce simp: expandWeightedResolved_def)

lemma count_expandWeighted:
  "count_list (expandWeightedResolved rr byTag) x =
     (\<Sum>tag \<leftarrow> rr_ToTags rr. nat (map_get 0 (rr_Weights rr) tag) * count_list (map_get [] byTag tag) x)"
  unfolding expandWeightedResolved_def
  by (simp add: count_list_concat comp_def sum_list_replicate)

text \<open>The order of a plan permutes or deduplicates the candidates, it never drops one.\<close>

definition weights_positive :: "RoutingRule \<Rightarrow> bool" where
  "weights_positive rr \<longleftrightarrow>
     rr_Strategy rr = RoutingStrategyWeightedRoundRobin \<longrightarrow>
       (\<forall>tag \<in> set (rr_ToTags rr). 0 < map_get 0 (rr_Weights rr) tag)"

lemma plan_order_set:
  assumes "weights_positive rr" and "rule = compileRule byTag i rr"
  shows "set (fst (plan_order mutate rule r)) = set (cr_resolvedSet rule)"
  using assms set_expandWeighted [of rr byTag]
  by (auto simp: plan_order_def compileRule_resolved compileRule_weighted rotate_values_rotate
      weights_positive_def split: prod.splits)


lemma plan_step_fields:
  "es_Type (plan_step r m n) = StepTypeOutbound" "es_OnError (plan_step r m n) = FallbackOnRetryable"
  "es_OutboundTarget (plan_step r m n) = ro_providers r n"
  by (simp_all add: plan_step_def Let_def split: prod.splits)

lemma router_Plan_wf:
  assumes new: "router_New rules providers outs = Inr r0"
    and r: "ro_rules r = ro_rules r0" "ro_providers r = ro_providers r0"
    and pos: "\<forall>rr \<in> set rules. weights_positive rr"
    and plan: "router_plan mutate ctx r = (Inr p, r')"
  shows "pl_Steps p \<noteq> []"
    and "\<forall>s \<in> set (pl_Steps p). es_Type s = StepTypeOutbound \<and> es_OnError s = FallbackOnRetryable
           \<and> es_OutboundTarget s \<noteq> None"
    and "\<exists>rr \<in> set rules. rc_ActiveTag ctx \<in> set (rr_FromTags rr) \<and>
           es_OutboundName ` set (pl_Steps p) =
             {ob_Name x | x. x \<in> set outs \<and> OutboundEnabled x \<and> ob_Tag x \<in> set (rr_ToTags rr)}"
proof -
  note n = router_New_Inr [OF new]
  from plan obtain rule ordered where rule: "find (rule_matches ctx) (ro_rules r) = Some rule"
      "cr_resolvedSet rule \<noteq> []" "plan_order mutate rule r = (ordered, r')"
      "pl_Steps p = map (plan_step r (resolveModel rule (req_Model (rc_Request ctx)))) ordered"
    by (cases rule: router_plan_cases [of ctx r mutate]) auto
  then have "rule \<in> set (compileRules rules (ro_outboundByTag r0))" and m: "rule_matches ctx rule"
    using r(1) n(1) by (auto simp: find_Some_iff)
  then obtain i rr where rr: "rr \<in> set rules" "rule = compileRule (ro_outboundByTag r0) i rr"
    by (elim compileRules_elem)
  have names: "set ordered = {ob_Name x | x. x \<in> set outs \<and> OutboundEnabled x \<and> ob_Tag x \<in> set (rr_ToTags rr)}"
    using plan_order_set [of rr rule "ro_outboundByTag r0" i mutate r] pos rr rule(3)
    by (auto simp: compileRule_resolved n(4))
  show "pl_Steps p \<noteq> []"
    using plan_order_set [of rr rule "ro_outboundByTag r0" i mutate r] pos rr rule by auto
  show "\<forall>s \<in> set (pl_Steps p). es_Type s = StepTypeOutbound \<and> es_OnError s = FallbackOnRetryable
           \<and> es_OutboundTarget s \<noteq> None"
    using names n(2,5) r(2) by (auto simp: rule(4) plan_step_fields)
  show "\<exists>rr \<in> set rules. rc_ActiveTag ctx \<in> set (rr_FromTags rr) \<and>
           es_OutboundName ` set (pl_Steps p) =
             {ob_Name x | x. x \<in> set outs \<and> OutboundEnabled x \<and> ob_Tag x \<in> set (rr_ToTags rr)}"
    using m rr names
    by (intro bexI [of _ rr]) (auto simp: rule(4) image_image rule_matches_def matchTag_def compileRule_def Let_def list_ex_iff)
qed

section \<open>Fair shares over a cycle\<close>

lemma cycle_block: "map (\<lambda>k. xs ! ((c + k) mod length xs)) [0..<length xs] = rotate c xs"
  by (rule nth_equalityI) (simp_all add: nth_rotate)

lemma count_rotate [simp]: "count_list (rotate c xs) x = count_list xs x"
  by (simp add: rotate_drop_take) (metis add.commute append_take_drop_id count_list_append)

lemma cycle_count:
  "count_list (map (\<lambda>k. xs ! ((c + k) mod length xs)) [0..<m * length xs]) x = m * count_list xs x"
proof (induction m)
  case (Suc m)
  have split: "[0..<Suc m * length xs] = [0..<m * length xs] @ map (\<lambda>k. k + m * length xs) [0..<length xs]"
    using upt_add_eq_append [of 0 "m * length xs" "length xs"]
    by (simp only: map_add_upt mult_Suc add.commute [of "length xs"] le0 simp_thms)
  have "map (\<lambda>k. xs ! ((c + (k + m * length xs)) mod length xs)) [0..<length xs] = rotate c xs"
    by (simp add: cycle_block [symmetric] add.assoc [symmetric])
  then show ?case unfolding split using Suc by (simp add: comp_def add.commute)
qed simp

lemma first_targets_share:
  assumes "distinct (map cr_name (ro_rules r))" and "rule \<in> set (ro_rules r)"
    and "rule_cycle rule \<noteq> []"
    and "length (first_targets (cr_name rule) (plan_all ctxs r)) = m * length (rule_cycle rule)"
  shows "count_list (first_targets (cr_name rule) (plan_all ctxs r)) x = m * count_list (rule_cycle rule) x"
  using first_targets_cycle [OF assms(1-3), of ctxs] assms(4) cycle_count [of "rule_cycle rule"]
  by (simp add: Let_def)

section \<open>Model tables\<close>

lemma models_fold_some:
  "map_of (fold (\<lambda>m acc. fold (\<lambda>alias. AList.update alias (om_Name m)) (om_Aliases m)
       (AList.update (om_Name m) (om_Name m) acc)) models acc) k = Some v \<Longrightarrow>
   map_of acc k = Some v \<or> (\<exists>m \<in> set models. v = om_Name m \<and> k \<in> set (om_Name m # om_Aliases m))"
proof (induction models arbitrary: acc)
  case (Cons m ms)
  have upd: "map_of (fold (\<lambda>a. AList.update a (om_Name m)) al acc') k = Some v \<Longrightarrow>
      map_of acc' k = Some v \<or> (v = om_Name m \<and> k \<in> set al)" for al acc'
    by (induction al arbitrary: acc') (force split: if_splits)+
  show ?case
    using Cons.IH [OF Cons.prems [unfolded fold_Cons comp_def]]
      upd [of "om_Aliases m" "AList.update (om_Name m) (om_Name m) acc"]
    by (auto split: if_splits)
qed simp

lemma models_fold_dom:
  "dom (map_of (fold (\<lambda>m acc. fold (\<lambda>alias. AList.update alias (om_Name m)) (om_Aliases m)
       (AList.update (om_Name m) (om_Name m) acc)) models acc)) =
   dom (map_of acc) \<union> (\<Union>m \<in> set models. set (om_Name m # om_Aliases m))"
proof (induction models arbitrary: acc)
  case (Cons m ms)
  have upd: "dom (map_of (fold (\<lambda>a. AList.update a (om_Name m)) al acc')) = dom (map_of acc') \<union> set al" for al acc'
    by (induction al arbitrary: acc') auto
  show ?case by (simp add: Cons.IH upd) blast
qed simp

section \<open>A sample configuration\<close>

text \<open>A small configuration for the witnesses: two outbounds \<open>a\<close> and \<open>b\<close> under tags of their own.\<close>

definition sample_request :: "string \<Rightarrow> Request" where
  "sample_request model = \<lparr>req_Model = model, req_System = [], req_MaxTokens = 0, req_Messages = [],
     req_Tools = [], req_ToolChoice = [], req_Stream = False, req_PreviousResponseID = [],
     req_Metadata = [], req_ThinkingType = [], req_ContextManagement = [], req_OutputEffort = []\<rparr>"

definition sample_response :: Response where
  "sample_response = \<lparr>resp_ID = ''r'', resp_Object = [], resp_Model = ''m'',
     resp_Message = \<lparr>msg_Role = MessageRoleAssistant, msg_Parts = [], msg_ToolCalls = [],
       msg_ToolCallID = [], msg_ToolCallType = [], msg_ToolResultIsError = False\<rparr>,
     resp_FinishReason = FinishReasonStop, resp_Usage = None\<rparr>"

definition sample_provider :: "string \<Rightarrow> CompletionProvider" where
  "sample_provider n = \<lparr>prov_type = MockProvider, prov_Name = n,
     prov_ChatCompletion = (\<lambda>_. Inr sample_response), prov_StreamCompletion = (\<lambda>_. Inr [])\<rparr>"

definition sample_providers :: "string \<Rightarrow> CompletionProvider option" where
  "sample_providers n = (if n = ''a'' \<or> n = ''b'' then Some (sample_provider n) else None)"

definition sample_outbound :: "string \<Rightarrow> string \<Rightarrow> OutboundSpec" where
  "sample_outbound n tag = \<lparr>ob_Name = n, ob_Protocol = ''mock'', ob_Endpoint = [], ob_AuthToken = [],
     ob_Auth = \<lparr>au_Type = [], au_CredentialRef = []\<rparr>, ob_Tag = tag, ob_Enabled = None, ob_Models = [],
     ob_Capabilities = \<lparr>ca_ResponsesPreviousResponseID = None, ca_ResponsesBuiltinTools = None,
       ca_ResponsesToolResultStatusError = None, ca_ResponsesAssistantHistoryNative = None,
       ca_UsageEstimation = False, ca_UsageEstimationMode = []\<rparr>,
     ob_Quota = \<lparr>oq_Enabled = False, oq_Windows = [], oq_Cooldown = [], oq_ProbeInterval = [],
       oq_ResetAll = \<lparr>ra_Enabled = False, ra_Schedule = \<lparr>rs_Period = [], rs_Duration = [], rs_Anchor = [],
         rs_Time = [], rs_Timezone = [], rs_Weekday = []\<rparr>\<rparr>\<rparr>, ob_ProxyURL = []\<rparr>"

definition sample_rule :: "string \<Rightarrow> RoutingRule" where
  "sample_rule strategy = \<lparr>rr_Name = ''main'', rr_FromTags = [''client''], rr_ToTags = [''ta'', ''tb''],
     rr_Strategy = strategy, rr_Weights = [(''ta'', 2), (''tb'', 1)], rr_TargetModel = [], rr_ModelMap = [],
     rr_Match = None\<rparr>"

definition sample_outbounds :: "OutboundSpec list" where
  "sample_outbounds = [sample_outbound ''a'' ''ta'', sample_outbound ''b'' ''tb'']"

definition sample_router :: "string \<Rightarrow> Router" where
  "sample_router strategy =
     \<lparr>ro_rules = compileRules [sample_rule strategy] [(''ta'', [''a'']), (''tb'', [''b''])],
      ro_providers = sample_providers, ro_outboundByTag = [(''ta'', [''a'']), (''tb'', [''b''])],
      ro_modelsByTarget = [(''a'', None), (''b'', None)], ro_roundRobin = []\<rparr>"

definition sample_context :: RouteContext where
  "sample_context = \<lparr>rc_Request = sample_request ''m'', rc_ClientName = ''c'', rc_InboundName = ''in'',
     rc_InboundProtocol = ''openai_chat'', rc_ActiveTag = ''client''\<rparr>"

lemma sample_router_New:
  "router_New [sample_rule strategy] sample_providers sample_outbounds = Inr (sample_router strategy)"
  by (simp add: router_New_def sample_router_def sample_outbounds_def sample_outbound_def sample_rule_def
      sample_providers_def OutboundEnabled_def unknown_tag_def map_get_def compileOutboundModels_def)

section \<open>Properties\<close>

text \<open>C9: A compiled wildcard pattern matches exactly the strings its glob reading describes: a star stands for
  any string, every other character for itself.\<close>

theorem pattern_matches_glob_reading:
  assumes "p \<noteq> []"
  shows "pattern_matches (compilePattern p) v = glob p v"
  using assms by (rule pattern_matches_glob)

theorem pattern_matches_glob_reading_witness:
  "pattern_matches (compilePattern ''gpt-*-mini'') ''gpt-4o-mini''
   \<and> \<not> pattern_matches (compilePattern ''gpt-*-mini'') ''gpt-mini''"
  using pattern_matches_glob_reading [of "''gpt-*-mini''"] by simp

text \<open>C10: Weighted shares are exact when the names of the rules are distinct: whenever the requests a weighted round-robin rule has
  planned make up whole cycles, each outbound was the first choice of precisely its weight's share of them, whatever requests
  other rules planned in between. (Rules of the same name share a counter, and then the shares are not kept.)\<close>

theorem weighted_round_robin_share:
  assumes new: "router_New rules providers outs = Inr r0"
    and state: "ro_rules r = ro_rules r0"
    and names: "distinct (map cr_name (ro_rules r0))"
    and i: "i < length rules" "rr_Strategy (rules ! i) = RoutingStrategyWeightedRoundRobin"
    and turns: "length (first_targets (cr_name (ro_rules r0 ! i)) (plan_all ctxs r)) =
                  m * length (cr_weightedResolved (ro_rules r0 ! i))"
    and "cr_weightedResolved (ro_rules r0 ! i) \<noteq> []"
  shows "count_list (first_targets (cr_name (ro_rules r0 ! i)) (plan_all ctxs r)) x =
    m * (\<Sum>tag \<leftarrow> rr_ToTags (rules ! i). nat (map_get 0 (rr_Weights (rules ! i)) tag) *
           count_list (map ob_Name (filter (\<lambda>out. OutboundEnabled out \<and> ob_Tag out = tag) outs)) x)"
proof -
  note n = router_New_Inr [OF new]
  have rule: "ro_rules r0 ! i = compileRule (ro_outboundByTag r0) i (rules ! i)"
    using i(1) by (simp add: n(1) compileRules_def nth_enumerate_eq)
  have cyc: "rule_cycle (ro_rules r0 ! i) = cr_weightedResolved (ro_rules r0 ! i)"
    using i(2) by (simp add: rule rule_cycle_def compileRule_resolved)
  have "ro_rules r0 ! i \<in> set (ro_rules r)"
    using i(1) state by (simp add: n(1) compileRules_def)
  then have "count_list (first_targets (cr_name (ro_rules r0 ! i)) (plan_all ctxs r)) x =
      m * count_list (cr_weightedResolved (ro_rules r0 ! i)) x"
    using first_targets_share [of r "ro_rules r0 ! i" ctxs m x] assms(7) names state turns cyc by simp
  also have "cr_weightedResolved (ro_rules r0 ! i) = expandWeightedResolved (rules ! i) (ro_outboundByTag r0)"
    by (simp add: rule compileRule_weighted i(2))
  finally show ?thesis by (simp add: count_expandWeighted n(4))
qed

theorem weighted_round_robin_share_witness:
  "count_list (first_targets ''main''
     (plan_all (replicate 6 sample_context) (sample_router RoutingStrategyWeightedRoundRobin))) ''a'' = 4"
proof -
  let ?r = "sample_router RoutingStrategyWeightedRoundRobin"
  have "length (first_targets ''main'' (plan_all (replicate 6 sample_context) ?r)) = 6"
    "cr_weightedResolved (ro_rules ?r ! 0) = [''a'', ''a'', ''b'']" "cr_name (ro_rules ?r ! 0) = ''main''"
    "distinct (map cr_name (ro_rules ?r))"
    by code_simp+
  then show ?thesis
    using weighted_round_robin_share [OF sample_router_New refl, of RoutingStrategyWeightedRoundRobin 0
        "replicate 6 sample_context" 2 "''a''"]
    by (simp add: sample_rule_def sample_outbounds_def sample_outbound_def OutboundEnabled_def map_get_def)
qed

text \<open>Nothing requires the names of rules to be distinct, and rules of one name advance the same counter: of two weighted rules named
  alike, the first sends all its requests to \<open>a\<close> when every one of them is followed by two requests of the second.\<close>

definition same_name_router :: Router where
  "same_name_router = (sample_router RoutingStrategyWeightedRoundRobin)
     \<lparr>ro_rules := compileRules [sample_rule RoutingStrategyWeightedRoundRobin,
        (sample_rule RoutingStrategyWeightedRoundRobin)\<lparr>rr_FromTags := [''other'']\<rparr>] [(''ta'', [''a'']), (''tb'', [''b''])]\<rparr>"

theorem same_name_skews_share:
  "first_targets ''main'' (plan_all (concat (replicate 3 [sample_context, sample_context\<lparr>rc_ActiveTag := ''other''\<rparr>,
     sample_context\<lparr>rc_ActiveTag := ''other''\<rparr>])) same_name_router) = concat (replicate 3 [''a'', ''a'', ''b''])"
  by code_simp

text \<open>The k-th request a round-robin rule plans goes first to the k-th candidate after the rule's counter,
  cyclically, whatever requests other rules planned in between.\<close>

theorem round_robin_rotation:
  assumes "distinct (map cr_name (ro_rules r))" and "rule \<in> set (ro_rules r)"
    and "cr_strategy rule = RoutingStrategyRoundRobin" and "cr_resolvedSet rule \<noteq> []"
    and "k < length (first_targets (cr_name rule) (plan_all ctxs r))"
  shows "first_targets (cr_name rule) (plan_all ctxs r) ! k =
    cr_resolvedSet rule ! ((map_get 0 (ro_roundRobin r) (cr_name rule) + k) mod length (cr_resolvedSet rule))"
proof -
  have cyc: "rule_cycle rule = cr_resolvedSet rule" by (simp add: rule_cycle_def assms(3))
  show ?thesis
    using first_targets_cycle [OF assms(1,2), of ctxs] assms(4,5) unfolding cyc Let_def
    by (metis (no_types, lifting) nth_map_upt diff_zero add_0)
qed

theorem round_robin_rotation_witness:
  "first_targets ''main''
     (plan_all (replicate 3 sample_context) (sample_router RoutingStrategyRoundRobin)) ! 2 = ''a''"
proof -
  let ?r = "sample_router RoutingStrategyRoundRobin"
  have "length (first_targets ''main'' (plan_all (replicate 3 sample_context) ?r)) = 3"
    "cr_resolvedSet (ro_rules ?r ! 0) = [''a'', ''b'']" "cr_name (ro_rules ?r ! 0) = ''main''"
    "distinct (map cr_name (ro_rules ?r))" "map_get 0 (ro_roundRobin ?r) ''main'' = 0"
    "cr_strategy (ro_rules ?r ! 0) = RoutingStrategyRoundRobin" "0 < length (ro_rules ?r)"
    by code_simp+
  then show ?thesis
    using round_robin_rotation [of ?r "ro_rules ?r ! 0" 2 "replicate 3 sample_context"] by simp
qed

text \<open>Every plan of a constructed router has at least one step; each step is an outbound call with a
  provider and the retryable fallback condition, which the dispatcher relies on; and the outbounds of the
  steps are exactly the enabled outbounds whose tag the matched rule names.\<close>

theorem plan_well_formed:
  assumes "router_New rules providers outs = Inr r0"
    and "ro_rules r = ro_rules r0" "ro_providers r = ro_providers r0"
    and "\<forall>rr \<in> set rules. weights_positive rr"
    and "router_plan mutate ctx r = (Inr p, r')"
  shows "pl_Steps p \<noteq> [] \<and>
    (\<forall>s \<in> set (pl_Steps p). es_Type s = StepTypeOutbound \<and> es_OnError s = FallbackOnRetryable
           \<and> es_OutboundTarget s \<noteq> None) \<and>
    (\<exists>rr \<in> set rules. rc_ActiveTag ctx \<in> set (rr_FromTags rr) \<and>
           es_OutboundName ` set (pl_Steps p) =
             {ob_Name x | x. x \<in> set outs \<and> OutboundEnabled x \<and> ob_Tag x \<in> set (rr_ToTags rr)})"
  using router_Plan_wf [OF assms] by blast

theorem plan_well_formed_witness:
  "case router_plan True sample_context (sample_router RoutingStrategyWeightedRoundRobin) of
     (Inr p, _) \<Rightarrow> pl_Steps p \<noteq> [] | _ \<Rightarrow> False"
proof -
  let ?r = "sample_router RoutingStrategyWeightedRoundRobin"
  have pos: "\<forall>rr \<in> set [sample_rule RoutingStrategyWeightedRoundRobin]. weights_positive rr"
    by (simp add: weights_positive_def sample_rule_def map_get_def)
  have "isl (fst (router_plan True sample_context ?r)) = False" by code_simp
  then obtain p r' where "router_plan True sample_context ?r = (Inr p, r')"
    by (metis isl_def old.prod.exhaust sum.exhaust_sel fst_conv sum.collapse(2))
  then show ?thesis using plan_well_formed [OF sample_router_New refl refl pos] by auto
qed

text \<open>PlanDryRun leaves the router as it was, and it agrees with Plan on the error, the matched rule and the
  set of steps.\<close>

theorem plan_dry_run_is_pure:
  "snd (router_PlanDryRun ctx r) = r \<and>
   (case fst (router_PlanDryRun ctx r) of
      Inl e \<Rightarrow> router_Plan ctx r = (Inl e, r)
    | Inr p \<Rightarrow> \<exists>q r'. router_Plan ctx r = (Inr q, r') \<and> pl_MatchedRule q = pl_MatchedRule p
               \<and> set (pl_Steps q) = set (pl_Steps p))"
proof -
  have perm: "set (fst (plan_order True rule r)) = set (fst (plan_order False rule r))" for rule
    by (simp add: plan_order_def rotate_values_rotate split: prod.splits)
  show ?thesis unfolding router_Plan_def router_PlanDryRun_def
  proof (cases rule: router_plan_cases [of ctx r False])
    case (plan rule ordered r' p)
    then show "snd (router_plan False ctx r) = r \<and>
   (case fst (router_plan False ctx r) of
      Inl e \<Rightarrow> router_plan True ctx r = (Inl e, r)
    | Inr p \<Rightarrow> \<exists>q r'. router_plan True ctx r = (Inr q, r') \<and> pl_MatchedRule q = pl_MatchedRule p
               \<and> set (pl_Steps q) = set (pl_Steps p))"
      using plan_order_dry [of rule r] perm [of rule]
      by (cases rule: router_plan_cases [of ctx r True]) auto
  qed (cases rule: router_plan_cases [of ctx r True]; auto)+
qed

lemma router_New_ok:
  "(\<exists>r. router_New rules providers outs = Inr r) \<longleftrightarrow>
     (\<forall>out \<in> set outs. OutboundEnabled out \<longrightarrow> providers (ob_Name out) \<noteq> None) \<and>
     (\<forall>rule \<in> set rules. set (rr_ToTags rule) \<subseteq> ob_Tag ` set outs)"
proof (cases "\<forall>out \<in> set outs. OutboundEnabled out \<longrightarrow> providers (ob_Name out) \<noteq> None")
  case True
  then obtain byTag models where "index_outbounds providers outs ([], []) = Inr (byTag, models)"
    using index_outbounds_succeeds by (metis surj_pair)
  then show ?thesis using True
    by (auto simp: router_New_def unknown_tag_None [symmetric] split: option.splits)
next
  case False
  then show ?thesis using router_New_Inr(5) by blast
qed

text \<open>New returns a router exactly when every enabled outbound has a provider and every tag a rule targets is
  the tag of some outbound.\<close>

theorem router_New_succeeds_iff:
  "(\<exists>r. router_New rules providers outs = Inr r) \<longleftrightarrow>
     (\<forall>out \<in> set outs. OutboundEnabled out \<longrightarrow> providers (ob_Name out) \<noteq> None) \<and>
     (\<forall>rule \<in> set rules. set (rr_ToTags rule) \<subseteq> ob_Tag ` set outs)"
  by (rule router_New_ok)

theorem router_New_succeeds_iff_witness:
  "\<exists>r. router_New [sample_rule []] sample_providers sample_outbounds = Inr r"
  unfolding router_New_succeeds_iff
  by (simp add: sample_rule_def sample_providers_def sample_outbounds_def sample_outbound_def)

text \<open>A routed model is unavailable on an outbound exactly when the outbound lists models and none of them has
  it as name or alias; an available model resolves to the name of a listed model that has it.\<close>

theorem resolveOutboundModel_table:
  "case resolveOutboundModel (compileOutboundModels models) routed of (m, unavailable) \<Rightarrow>
     (unavailable \<longleftrightarrow> models \<noteq> [] \<and> (\<forall>spec \<in> set models. routed \<notin> set (om_Name spec # om_Aliases spec))) \<and>
     (if unavailable \<or> models = [] then m = routed
      else \<exists>spec \<in> set models. m = om_Name spec \<and> routed \<in> set (om_Name spec # om_Aliases spec))"
proof (cases "models = []")
  case False
  let ?t = "fold (\<lambda>m acc. fold (\<lambda>alias. AList.update alias (om_Name m)) (om_Aliases m)
       (AList.update (om_Name m) (om_Name m) acc)) models []"
  have dom: "map_of ?t routed = None \<longleftrightarrow> (\<forall>spec \<in> set models. routed \<notin> set (om_Name spec # om_Aliases spec))"
    using models_fold_dom [of models "[]"] by auto
  show ?thesis
  proof (cases "map_of ?t routed")
    case None
    then show ?thesis using False dom by (simp add: resolveOutboundModel_def compileOutboundModels_def)
  next
    case (Some v)
    then show ?thesis using False dom models_fold_some [OF Some]
      by (auto simp: resolveOutboundModel_def compileOutboundModels_def)
  qed
qed (simp add: resolveOutboundModel_def compileOutboundModels_def)

theorem resolveOutboundModel_table_witness:
  "resolveOutboundModel (compileOutboundModels [\<lparr>om_Name = ''gpt'', om_Aliases = [''g'']\<rparr>]) ''g'' = (''gpt'', False)"
  using resolveOutboundModel_table [of "[\<lparr>om_Name = ''gpt'', om_Aliases = [''g'']\<rparr>]" "''g''"]
  by (auto split: prod.splits if_splits)

end
