(* ===== verification/Dispatcher.thy ===== *)
theory Dispatcher
  imports Provider_Health Quota_Laws Quota_Events Latency_Store Accounting_Memory Router
begin

text \<open>
  Package \<open>internal/execution\<close>: the dispatcher tries the steps of a plan in order, admits each
  attempt with the quota tracker and the health tracker, falls back on recoverable errors, and
  records usage, health, quota and latency.

  The dispatcher's pointers are fields that hold the pointed-to state, \<open>None\<close> for nil; the usage
  store is the memory store. \<open>d_recorder\<close> is the latency recorder of the request's context, whose
  store is the dispatcher's. A clock \<open>clk i point\<close> gives the reading of \<open>time.Now\<close> at a point of
  the \<open>i\<close>-th step; nothing is assumed of it. \<open>rnd\<close> is the rounding of float operations.
\<close>

section \<open>State\<close>

record Dispatcher =
  d_store :: MemoryStore
  d_quotaTracker :: "Tracker option"
  d_clientQuotaTracker :: "Tracker option"
  d_healthTracker :: "HealthTracker option"
  d_eventRecorder :: "EventRecorder option"
  d_latencyStore :: "Store option"
  d_priceCalculator :: "AccountingPriceConfig list"
  d_recorder :: "Recorder option"

record request_context =
  ctx_RequestID :: string
  ctx_SessionID :: string
  ctx_Agent :: string

datatype instant =
    AtStart | AtQuotaCheck | AtHealthCheck | AtLimitedEvent | AtAttempt | AtReturn | AtProvider
  | AtQuotaRecord | AtHealthRecord | AtQuotaEvent | AtHealthEvent | AtFinish | AtClientRecord
  | AtStreamEvent nat | AtFirstToken nat

type_synonym clock = "nat \<Rightarrow> instant \<Rightarrow> gotime"

text \<open>What a Go call with an error result returns (the value is \<open>None\<close> when it is the zero value), or a panic.\<close>

datatype 'a go_return = Returned "'a option" "go_error option" | Panicked

definition NewDispatcher :: "gotime \<Rightarrow> MemoryStore option \<Rightarrow> Tracker option \<Rightarrow> Tracker option \<Rightarrow> HealthTracker option \<Rightarrow>
    EventRecorder option \<Rightarrow> Store option \<Rightarrow> AccountingPriceConfig list \<Rightarrow> Dispatcher" where
  "NewDispatcher now store quota clientQuota health events latency prices =
     \<lparr>d_store = (case store of None \<Rightarrow> newMemoryStore now True | Some s \<Rightarrow> s), d_quotaTracker = quota,
      d_clientQuotaTracker = clientQuota, d_healthTracker = health, d_eventRecorder = events,
      d_latencyStore = latency, d_priceCalculator = prices, d_recorder = None\<rparr>"

section \<open>Queries\<close>

definition QueryUsageBy :: "(rat \<Rightarrow> rat) \<Rightarrow> AccountingQuery \<Rightarrow> Dispatcher \<Rightarrow> query_error + StatsItem list" where
  "QueryUsageBy rnd q d = memory_Query rnd q (d_store d)"

definition QueryUsage :: "(rat \<Rightarrow> rat) \<Rightarrow> string \<Rightarrow> Dispatcher \<Rightarrow> query_error + StatsItem list" where
  "QueryUsage rnd groupBy =
     QueryUsageBy rnd \<lparr>aq_GroupBy = groupBy, aq_Window = WindowTotal, aq_Bucket = [], aq_StartDate = [],
       aq_EndDate = [], aq_ClientName = []\<rparr>"

definition QueryRecentUsage :: "gotime \<Rightarrow> int \<Rightarrow> Dispatcher \<Rightarrow> UsageRecord list" where
  "QueryRecentUsage since limit d = RecentRecords since limit (d_store d)"

definition QueryUsageCoverage :: "Dispatcher \<Rightarrow> Coverage" where
  "QueryUsageCoverage d = memory_Coverage (d_store d)"

definition QueryQuotaEvents :: "Dispatcher \<Rightarrow> QuotaEvent list" where
  "QueryQuotaEvents d = events_Snapshot (d_eventRecorder d)"

definition QueryQuota :: "gotime \<Rightarrow> Dispatcher \<Rightarrow> SnapshotItem list \<times> Dispatcher" where
  "QueryQuota now d =
     (case quota_snapshot now False (d_quotaTracker d) of (items, t) \<Rightarrow> (items, d\<lparr>d_quotaTracker := t\<rparr>))"

definition QueryProviderHealth :: "(string \<Rightarrow> gotime) \<Rightarrow> Dispatcher \<Rightarrow> HealthSnapshotItem list" where
  "QueryProviderHealth now d = health_Snapshot now (d_healthTracker d)"

definition QueryLatency :: "Dispatcher \<Rightarrow> Trace list" where
  "QueryLatency d = latency_Snapshot (d_latencyStore d)"

definition QueryActiveLatency :: "Dispatcher \<Rightarrow> Trace list" where
  "QueryActiveLatency d = ActiveSnapshot (d_latencyStore d)"

definition QueryLatencySummary :: "Dispatcher \<Rightarrow> Summary" where
  "QueryLatencySummary d =
     (case d_latencyStore d of
        None \<Rightarrow> \<lparr>sy_Count = 0, sy_Total = summarizeDurations [], sy_Spans = []\<rparr>
      | Some s \<Rightarrow> latency_Summary (Some s))"

section \<open>Errors\<close>

definition modelUnavailableError :: "ExecutionPlan \<Rightarrow> Request \<Rightarrow> go_error" where
  "modelUnavailableError plan req =
     (let model = (if pl_RequestedModel plan = [] then req_Model req else pl_RequestedModel plan)
      in if model = [] then NewModelUnavailableError (Some (PlainError ''requested model is unavailable''))
         else NewModelUnavailableError (Some (PlainError (''model '' @ quoted model @ '' is unavailable''))))"

definition hasHTTPMetadata :: "go_error \<Rightarrow> bool" where
  "hasHTTPMetadata e =
     (case AsProviderError e of
        Some (ProviderError _ _ code requestID retry) \<Rightarrow> code \<noteq> 0 \<or> requestID \<noteq> [] \<or> retry \<noteq> []
      | _ \<Rightarrow> False)"

definition preferredErrorPriority :: "go_error \<Rightarrow> int" where
  "preferredErrorPriority e =
     (case NormalizeError (Some e) of
        ErrorKindQuotaExceeded \<Rightarrow> if hasHTTPMetadata e then 5 else 4
      | ErrorKindAuthFailed \<Rightarrow> if hasHTTPMetadata e then 5 else 4
      | ErrorKindFatal \<Rightarrow> 3
      | ErrorKindCapabilityUnsupported \<Rightarrow> 3
      | ErrorKindTimeout \<Rightarrow> 2
      | ErrorKindUpstreamServerError \<Rightarrow> 2
      | ErrorKindRetryable \<Rightarrow> 2
      | _ \<Rightarrow> 1)"

definition selectPreferredError :: "go_error option \<Rightarrow> go_error option \<Rightarrow> go_error option" where
  "selectPreferredError current candidate =
     (case current of
        None \<Rightarrow> candidate
      | Some c \<Rightarrow>
          (case candidate of
             None \<Rightarrow> current
           | Some e \<Rightarrow> if preferredErrorPriority c < preferredErrorPriority e then candidate else current))"

section \<open>Admission and recording\<close>

definition quota_event :: "string \<Rightarrow> string \<Rightarrow> string \<Rightarrow> string \<Rightarrow> QuotaEvent" where
  "quota_event typ outbound reason retry =
     \<lparr>qe_Time = [], qe_Type = typ, qe_Client = [], qe_Inbound = [], qe_Outbound = outbound, qe_Reason = reason,
      qe_RetryAfter = retry\<rparr>"

definition formatRetryAfter :: "gotime \<Rightarrow> string" where
  "formatRetryAfter t = (if IsZero t then [] else format_RFC3339Nano t)"

definition record_quota_event :: "gotime \<Rightarrow> QuotaEvent \<Rightarrow> Dispatcher \<Rightarrow> Dispatcher" where
  "record_quota_event now e d = d\<lparr>d_eventRecorder := events_Record now e (d_eventRecorder d)\<rparr>"

definition dispatch_beforeAttempt :: "gotime \<Rightarrow> string \<Rightarrow> Dispatcher \<Rightarrow> Decision \<times> Dispatcher" where
  "dispatch_beforeAttempt now outbound d =
     (case d_quotaTracker d of
        None \<Rightarrow> (quota_allow, d)
      | Some t \<Rightarrow> (case quota_BeforeAttempt now outbound (Some t) of (dec, t') \<Rightarrow> (dec, d\<lparr>d_quotaTracker := t'\<rparr>)))"

definition beforeHealthAttempt :: "gotime \<Rightarrow> string \<Rightarrow> Dispatcher \<Rightarrow> HealthDecision \<times> Dispatcher" where
  "beforeHealthAttempt now outbound d =
     (case d_healthTracker d of
        None \<Rightarrow> (health_allow, d)
      | Some t \<Rightarrow> (case health_BeforeAttempt now outbound (Some t) of (dec, t') \<Rightarrow> (dec, d\<lparr>d_healthTracker := t'\<rparr>)))"

definition recordOutboundLimited :: "gotime \<Rightarrow> string \<Rightarrow> Decision \<Rightarrow> Dispatcher \<Rightarrow> Dispatcher" where
  "recordOutboundLimited now outbound dec =
     record_quota_event now (quota_event EventOutboundLimited outbound (qd_Reason dec) (formatRetryAfter (qd_RetryAfter dec)))"

definition recordProviderHealthLimited :: "gotime \<Rightarrow> string \<Rightarrow> HealthDecision \<Rightarrow> Dispatcher \<Rightarrow> Dispatcher" where
  "recordProviderHealthLimited now outbound dec =
     record_quota_event now (quota_event EventProviderHealthLimited outbound (hd_Reason dec) (formatRetryAfter (hd_RetryAfter dec)))"

definition dispatch_recordSuccess ::
  "(instant \<Rightarrow> gotime) \<Rightarrow> string \<Rightarrow> int \<Rightarrow> bool \<Rightarrow> bool \<Rightarrow> Dispatcher \<Rightarrow> Dispatcher" where
  "dispatch_recordSuccess at' outbound tokens quotaProbe healthProbe d =
     (let d1 = d\<lparr>d_quotaTracker := (case d_quotaTracker d of None \<Rightarrow> None
                   | Some t \<Rightarrow> quota_RecordSuccess (at' AtQuotaRecord) outbound [tokens] (Some t))\<rparr>;
          d2 = d1\<lparr>d_healthTracker := (case d_healthTracker d1 of None \<Rightarrow> None
                   | Some t \<Rightarrow> health_RecordSuccess (at' AtHealthRecord) outbound (Some t))\<rparr>;
          d3 = (if quotaProbe
                then record_quota_event (at' AtQuotaEvent) (quota_event EventOutboundProbeSucceeded outbound [] []) d2 else d2)
      in if healthProbe
         then record_quota_event (at' AtHealthEvent) (quota_event EventProviderProbeSucceeded outbound [] []) d3 else d3)"

definition recordProviderError :: "(instant \<Rightarrow> gotime) \<Rightarrow> string \<Rightarrow> ErrorKind \<Rightarrow> Dispatcher \<Rightarrow> Dispatcher" where
  "recordProviderError at' outbound kind d =
     (let d1 = d\<lparr>d_healthTracker := (case d_healthTracker d of None \<Rightarrow> None
                   | Some t \<Rightarrow> health_RecordFailure (at' AtHealthRecord) outbound kind (Some t))\<rparr>
      in case d_quotaTracker d1 of
           None \<Rightarrow> d1
         | Some t \<Rightarrow>
             if kind = ErrorKindQuotaExceeded
             then record_quota_event (at' AtQuotaEvent)
                    (quota_event EventOutboundQuotaExceeded outbound (kind_string kind) [])
                    (d1\<lparr>d_quotaTracker := RecordQuotaExceeded (at' AtQuotaRecord) outbound (Some t)\<rparr>)
             else d1)"

definition dispatch_record :: "(rat \<Rightarrow> rat) \<Rightarrow> UsageRecord \<Rightarrow> Dispatcher \<Rightarrow> Dispatcher" where
  "dispatch_record rnd r d = d\<lparr>d_store := memory_Record rnd r (d_store d)\<rparr>"

text \<open>
  \<open>math.Round\<close> rounds half away from zero. The conversion to \<open>int64\<close> is exact within its range; out of
  range Go leaves the result to the implementation, which on amd64 is the least value.
\<close>

definition math_Round :: "rat \<Rightarrow> int" where
  "math_Round x = (if 0 \<le> x then \<lfloor>x + 1 / 2\<rfloor> else - \<lfloor>1 / 2 - x\<rfloor>)"

definition to_int64 :: "int \<Rightarrow> int" where
  "to_int64 n = (if int64 n then n else - (2 ^ 63))"

definition recordClientTerminalSuccess :: "(rat \<Rightarrow> rat) \<Rightarrow> gotime \<Rightarrow> UsageRecord \<Rightarrow> Dispatcher \<Rightarrow> Dispatcher" where
  "recordClientTerminalSuccess rnd now r d =
     (case d_clientQuotaTracker d of
        None \<Rightarrow> d
      | Some t \<Rightarrow>
          if ur_Status r \<noteq> UsageStatusSuccess then d
          else d\<lparr>d_clientQuotaTracker :=
                 RecordClientTerminalUsage now (ur_ClientName r) (ub_TotalTokens (ur_Breakdown r))
                   (to_int64 (math_Round (rnd (ur_CostUSD r * 1000000)))) (ur_Priced r) (Some t)\<rparr>)"

definition normalizedUsageTokens :: "Usage option \<Rightarrow> int" where
  "normalizedUsageTokens u =
     (case u of
        None \<Rightarrow> 0
      | Some v \<Rightarrow> if us_TotalTokens v \<noteq> 0 then us_TotalTokens v else wrap64 (us_InputTokens v + us_OutputTokens v))"

definition providerName :: "ExecutionStep \<Rightarrow> string" where
  "providerName step = (case es_OutboundTarget step of None \<Rightarrow> es_OutboundName step | Some p \<Rightarrow> prov_Name p)"

definition usage_breakdown :: "Usage option \<Rightarrow> UsageBreakdown" where
  "usage_breakdown u =
     (case u of
        None \<Rightarrow> \<lparr>ub_RequestCount = 1, ub_InputTokens = 0, ub_OutputTokens = 0, ub_CachedInputReadTokens = 0,
                 ub_CachedInputWriteTokens = 0, ub_TotalTokens = 0, ub_ToolUnits = []\<rparr>
      | Some v \<Rightarrow> \<lparr>ub_RequestCount = 1, ub_InputTokens = us_InputTokens v, ub_OutputTokens = us_OutputTokens v,
                   ub_CachedInputReadTokens = us_CachedInputReadTokens v,
                   ub_CachedInputWriteTokens = us_CachedInputWriteTokens v,
                   ub_TotalTokens = normalizedUsageTokens u, ub_ToolUnits = []\<rparr>)"

definition finalizeUsageRecord :: "(rat \<Rightarrow> rat) \<Rightarrow> request_context \<Rightarrow> ExecutionPlan \<Rightarrow> ExecutionStep \<Rightarrow> string \<Rightarrow> string \<Rightarrow>
    Usage option \<Rightarrow> string \<Rightarrow> string \<Rightarrow> gotime \<Rightarrow> gotime \<Rightarrow> nat \<Rightarrow> Dispatcher \<Rightarrow> UsageRecord" where
  "finalizeUsageRecord rnd ctx plan step requestedModel executedModel0 usage status errorKind startedAt finishedAt fallbackCount d =
     (let breakdown = usage_breakdown usage;
          executedModel = (if executedModel0 = [] then requestedModel else executedModel0)
      in case CostUSDWithMatch rnd (d_priceCalculator d) (providerName step) executedModel breakdown of (cost, priced) \<Rightarrow>
         \<lparr>ur_RequestID = ctx_RequestID ctx, ur_ClientName = pl_ClientName plan, ur_InboundName = pl_InboundName plan,
          ur_InboundProtocol = pl_InboundProtocol plan, ur_ActiveTag = pl_ActiveTag plan,
          ur_MatchedRule = pl_MatchedRule plan, ur_Strategy = pl_Strategy plan,
          ur_OutboundName = es_OutboundName step, ur_OutboundProtocol = es_OutboundProtocol step,
          ur_ProviderName = providerName step, ur_RequestedModel = requestedModel, ur_ExecutedModel = executedModel,
          ur_UsageSource = (case usage of None \<Rightarrow> [] | Some v \<Rightarrow> us_Source v), ur_Status = status,
          ur_ErrorKind = errorKind, ur_SessionID = ctx_SessionID ctx, ur_Agent = ctx_Agent ctx,
          ur_CostUSD = cost, ur_Priced = priced, ur_Breakdown = breakdown,
          ur_StartedAt = format_RFC3339Nano startedAt, ur_FinishedAt = format_RFC3339Nano finishedAt,
          ur_LatencyMs = Milliseconds (time_Sub finishedAt startedAt), ur_FallbackCount = int fallbackCount\<rparr>)"

text \<open>A call on the latency recorder of the context; on a nil recorder it does nothing.\<close>

definition on_recorder :: "(recording \<Rightarrow> recording) \<Rightarrow> Dispatcher \<Rightarrow> Dispatcher" where
  "on_recorder f d =
     (case d_recorder d of
        None \<Rightarrow> d
      | Some r \<Rightarrow> (case f (r, d_latencyStore d) of (r', s') \<Rightarrow> d\<lparr>d_recorder := Some r', d_latencyStore := s'\<rparr>))"

section \<open>Dispatch\<close>

text \<open>
  What the checks at the head of a step decide: the call returns an error at once, the step is passed
  over with a candidate error, or an attempt is made with the provider and the request of the step (with
  the two probe flags).
\<close>

datatype admission =
    Refused go_error
  | PassedOver go_error
  | Admitted CompletionProvider Request bool bool

definition step_request :: "bool \<Rightarrow> ExecutionStep \<Rightarrow> Request \<Rightarrow> Request" where
  "step_request stream step req =
     (let req1 = (if stream then req\<lparr>req_Stream := True\<rparr> else req)
      in if es_Model step \<noteq> [] then req1\<lparr>req_Model := es_Model step\<rparr> else req1)"

definition quota_denied_error :: "string \<Rightarrow> Decision \<Rightarrow> go_error" where
  "quota_denied_error outbound dec =
     NewQuotaExceededError (Some (PlainError (''outbound '' @ quoted outbound @ '' quota '' @ qd_Reason dec)))"

definition health_denied_error :: "string \<Rightarrow> HealthDecision \<Rightarrow> go_error" where
  "health_denied_error outbound dec =
     NewRetryableError (Some (PlainError (''outbound '' @ quoted outbound @ '' health '' @ hd_Reason dec)))"

definition admit_step ::
  "(instant \<Rightarrow> gotime) \<Rightarrow> bool \<Rightarrow> ExecutionPlan \<Rightarrow> Request \<Rightarrow> ExecutionStep \<Rightarrow> Dispatcher \<Rightarrow> admission \<times> Dispatcher" where
  "admit_step at' stream plan req step d =
     (if es_Type step \<noteq> StepTypeOutbound then
        (Refused (PlainError (''unsupported execution step type '' @ quoted (es_Type step))), d)
      else if es_ModelUnavailable step then (PassedOver (modelUnavailableError plan req), d)
      else
        (case es_OutboundTarget step of
           None \<Rightarrow> (Refused (PlainError ''outbound target is required''), d)
         | Some target \<Rightarrow>
             (case dispatch_beforeAttempt (at' AtQuotaCheck) (es_OutboundName step) d of (decision, d1) \<Rightarrow>
                if \<not> qd_Allowed decision then
                  (PassedOver (quota_denied_error (es_OutboundName step) decision),
                   recordOutboundLimited (at' AtLimitedEvent) (es_OutboundName step) decision d1)
                else
                  (case beforeHealthAttempt (at' AtHealthCheck) (es_OutboundName step) d1 of (healthDecision, d2) \<Rightarrow>
                     if \<not> hd_Allowed healthDecision then
                       (PassedOver (health_denied_error (es_OutboundName step) healthDecision),
                        recordProviderHealthLimited (at' AtLimitedEvent) (es_OutboundName step) healthDecision d2)
                     else (Admitted target (step_request stream step req) (qd_Probe decision) (hd_Probe healthDecision), d2)))))"

definition dispatch_attrs :: "bool \<Rightarrow> ExecutionStep \<Rightarrow> (string \<times> string) list" where
  "dispatch_attrs stream step =
     [(''outbound'', es_OutboundName step), (''protocol'', es_OutboundProtocol step)] @
     (if stream then [(''stream'', ''true'')] else [])"

text \<open>The usage record of a failed dispatch, and the end of a plan no step of which succeeded.\<close>

definition record_failure ::
  "clock \<Rightarrow> (rat \<Rightarrow> rat) \<Rightarrow> request_context \<Rightarrow> ExecutionPlan \<Rightarrow> ExecutionStep \<Rightarrow> string \<Rightarrow> go_error option \<Rightarrow> nat \<Rightarrow>
    Dispatcher \<Rightarrow> Dispatcher" where
  "record_failure clk rnd ctx plan step model lastErr i d =
     dispatch_record rnd
       (finalizeUsageRecord rnd ctx plan step model model None UsageStatusError
          (kind_string (NormalizeError lastErr)) (clk 0 AtStart) (clk i AtFinish) i d) d"

definition plan_exhausted ::
  "clock \<Rightarrow> (rat \<Rightarrow> rat) \<Rightarrow> request_context \<Rightarrow> Request \<Rightarrow> ExecutionPlan \<Rightarrow> go_error option \<Rightarrow> Dispatcher \<Rightarrow>
    'a go_return \<times> Dispatcher" where
  "plan_exhausted clk rnd ctx req plan lastErr d =
     (Returned None lastErr,
      (if pl_Steps plan = [] then d
       else record_failure clk rnd ctx plan (last (pl_Steps plan)) (req_Model req) lastErr
              (length (pl_Steps plan) - 1) d))"

text \<open>A failed attempt: record the error, then go on with the next step or give up.\<close>

definition attempt_failed ::
  "clock \<Rightarrow> (rat \<Rightarrow> rat) \<Rightarrow> request_context \<Rightarrow> ExecutionPlan \<Rightarrow> nat \<Rightarrow> ExecutionStep \<Rightarrow> string \<Rightarrow> go_error \<Rightarrow>
    go_error option \<Rightarrow> (go_error option \<Rightarrow> Dispatcher \<Rightarrow> 'a go_return \<times> Dispatcher) \<Rightarrow> Dispatcher \<Rightarrow> 'a go_return \<times> Dispatcher" where
  "attempt_failed clk rnd ctx plan i step model err lastErr0 continue d =
     (let lastErr = selectPreferredError lastErr0 (Some err);
          errorKind = NormalizeError (Some err);
          d1 = recordProviderError (clk i) (es_OutboundName step) errorKind d
      in case FallbackAllowed (es_OnError step) errorKind (i = length (pl_Steps plan) - 1) of
           None \<Rightarrow> (Panicked, d1)
         | Some True \<Rightarrow> continue lastErr d1
         | Some False \<Rightarrow> (Returned None lastErr, record_failure clk rnd ctx plan step model lastErr i d1))"

text \<open>A completed attempt: the success, its usage record and the client's usage.\<close>

definition attempt_succeeded ::
  "clock \<Rightarrow> (rat \<Rightarrow> rat) \<Rightarrow> request_context \<Rightarrow> ExecutionPlan \<Rightarrow> nat \<Rightarrow> ExecutionStep \<Rightarrow> string \<Rightarrow> string \<Rightarrow> Usage option \<Rightarrow>
    bool \<Rightarrow> bool \<Rightarrow> Dispatcher \<Rightarrow> Dispatcher" where
  "attempt_succeeded clk rnd ctx plan i step requestedModel executedModel usage quotaProbe healthProbe d =
     (let d1 = dispatch_recordSuccess (clk i) (es_OutboundName step) (normalizedUsageTokens usage) quotaProbe healthProbe d;
          usageRecord = finalizeUsageRecord rnd ctx plan step requestedModel executedModel usage UsageStatusSuccess []
                          (clk 0 AtStart) (clk i AtFinish) i d1
      in recordClientTerminalSuccess rnd (clk i AtClientRecord) usageRecord (dispatch_record rnd usageRecord d1))"

fun dispatch_loop ::
  "clock \<Rightarrow> (rat \<Rightarrow> rat) \<Rightarrow> request_context \<Rightarrow> Request \<Rightarrow> ExecutionPlan \<Rightarrow> nat \<Rightarrow> ExecutionStep list \<Rightarrow> go_error option \<Rightarrow>
    Dispatcher \<Rightarrow> Response go_return \<times> Dispatcher"
where
  "dispatch_loop clk rnd ctx req plan i [] lastErr d = plan_exhausted clk rnd ctx req plan lastErr d"
| "dispatch_loop clk rnd ctx req plan i (step # steps) lastErr d =
     (case admit_step (clk i) False plan req step d of
        (Refused err, d1) \<Rightarrow> (Returned None (Some err), d1)
      | (PassedOver err, d1) \<Rightarrow>
          dispatch_loop clk rnd ctx req plan (Suc i) steps (selectPreferredError lastErr (Some err)) d1
      | (Admitted target stepReq quotaProbe healthProbe, d1) \<Rightarrow>
          (let outcome = prov_ChatCompletion target stepReq;
               d2 = on_recorder (AddSpan (clk i AtReturn) ''provider_dispatch'' (clk i AtAttempt) (dispatch_attrs False step)) d1
           in case outcome of
                Inr resp \<Rightarrow>
                  (Returned (Some resp) None,
                   attempt_succeeded clk rnd ctx plan i step (req_Model stepReq) (resp_Model resp) (resp_Usage resp)
                     quotaProbe healthProbe (on_recorder (SetFallbackCount (int i)) d2))
              | Inl err \<Rightarrow>
                  attempt_failed clk rnd ctx plan i step (req_Model stepReq) err lastErr
                    (dispatch_loop clk rnd ctx req plan (Suc i) steps) d2))"

definition no_steps_error :: go_error where
  "no_steps_error = PlainError ''execution plan has no steps''"

definition Dispatch ::
  "clock \<Rightarrow> (rat \<Rightarrow> rat) \<Rightarrow> request_context \<Rightarrow> Request \<Rightarrow> ExecutionPlan \<Rightarrow> Dispatcher \<Rightarrow> Response go_return \<times> Dispatcher" where
  "Dispatch clk rnd ctx req plan d =
     (if pl_Steps plan = [] then (Returned None (Some no_steps_error), d)
      else dispatch_loop clk rnd ctx req plan 0 (pl_Steps plan) None d)"

section \<open>Streaming dispatch\<close>

text \<open>The arguments \<open>DispatchStream\<close> hands to \<open>wrapStream\<close> once a provider has opened a stream.\<close>

record open_stream =
  os_step :: ExecutionStep
  os_requestedModel :: string
  os_fallbackCount :: nat
  os_events :: "StreamEvent list"
  os_quotaProbe :: bool
  os_healthProbe :: bool

fun stream_loop ::
  "clock \<Rightarrow> (rat \<Rightarrow> rat) \<Rightarrow> request_context \<Rightarrow> Request \<Rightarrow> ExecutionPlan \<Rightarrow> nat \<Rightarrow> ExecutionStep list \<Rightarrow> go_error option \<Rightarrow>
    Dispatcher \<Rightarrow> open_stream go_return \<times> Dispatcher"
where
  "stream_loop clk rnd ctx req plan i [] lastErr d = plan_exhausted clk rnd ctx req plan lastErr d"
| "stream_loop clk rnd ctx req plan i (step # steps) lastErr d =
     (case admit_step (clk i) True plan req step d of
        (Refused err, d1) \<Rightarrow> (Returned None (Some err), d1)
      | (PassedOver err, d1) \<Rightarrow>
          stream_loop clk rnd ctx req plan (Suc i) steps (selectPreferredError lastErr (Some err)) d1
      | (Admitted target stepReq quotaProbe healthProbe, d1) \<Rightarrow>
          (let d2 = on_recorder (SetStreamState ''dispatching'') d1;
               outcome = prov_StreamCompletion target stepReq;
               d3 = on_recorder (AddSpan (clk i AtReturn) ''provider_dispatch'' (clk i AtAttempt) (dispatch_attrs True step)) d2
           in case outcome of
                Inr events \<Rightarrow>
                  (Returned (Some \<lparr>os_step = step, os_requestedModel = req_Model stepReq, os_fallbackCount = i,
                     os_events = events, os_quotaProbe = quotaProbe, os_healthProbe = healthProbe\<rparr>) None,
                   on_recorder (SetStreamState ''waiting_first_token'')
                     (on_recorder (SetProvider (clk i AtProvider) (es_OutboundName step) (es_OutboundProtocol step) (clk i AtProvider))
                       (on_recorder (SetFallbackCount (int i)) d3)))
              | Inl err \<Rightarrow>
                  attempt_failed clk rnd ctx plan i step (req_Model stepReq) err lastErr
                    (stream_loop clk rnd ctx req plan (Suc i) steps) d3))"

definition DispatchStream ::
  "clock \<Rightarrow> (rat \<Rightarrow> rat) \<Rightarrow> request_context \<Rightarrow> Request \<Rightarrow> ExecutionPlan \<Rightarrow> Dispatcher \<Rightarrow> open_stream go_return \<times> Dispatcher" where
  "DispatchStream clk rnd ctx req plan d =
     (if pl_Steps plan = [] then (Returned None (Some no_steps_error), d)
      else stream_loop clk rnd ctx req plan 0 (pl_Steps plan) None d)"

definition isFirstContentDelta :: "StreamEvent \<Rightarrow> bool" where
  "isFirstContentDelta e =
     (if se_Type e \<noteq> StreamEventContentDelta then False
      else if (case se_Delta e of None \<Rightarrow> False | Some p \<Rightarrow> cp_Text p \<noteq> [] \<or> cp_Data p \<noteq> []) then True
      else (case se_ToolCall e of None \<Rightarrow> False
            | Some c \<Rightarrow> tc_ID c \<noteq> [] \<or> tc_Name c \<noteq> [] \<or> tc_Arguments c \<noteq> [] \<or> tc_Input c \<noteq> []))"

text \<open>
  The goroutine of \<open>wrapStream\<close> waits in two \<open>select\<close> statements. An input is what it meets there: an
  event that is received and sent on, an event received while the context is done before it can be
  sent, the context done while it waits for an event, the channel closed after the context was
  cancelled, and the channel closed.
\<close>

datatype stream_input =
    Forwarded StreamEvent
  | CancelledOnSend StreamEvent
  | CancelledOnReceive
  | ClosedCancelled
  | Closed

record stream_state =
  ss_usage :: "Usage option"
  ss_executedModel :: string
  ss_recorded :: bool
  ss_out :: "StreamEvent list"
  ss_running :: bool

definition receive_event ::
  "clock \<Rightarrow> (rat \<Rightarrow> rat) \<Rightarrow> request_context \<Rightarrow> ExecutionPlan \<Rightarrow> open_stream \<Rightarrow> nat \<Rightarrow> StreamEvent \<Rightarrow> stream_state \<times> Dispatcher \<Rightarrow>
    stream_state \<times> Dispatcher" where
  "receive_event clk rnd ctx plan os k event = (\<lambda>(ss, d).
     let i = os_fallbackCount os;
         d1 = on_recorder (MarkStreamEvent (clk i (AtStreamEvent k)) (clk i (AtStreamEvent k))) d;
         d2 = (if isFirstContentDelta event
               then on_recorder (MarkFirstToken (clk i (AtFirstToken k)) (clk i (AtFirstToken k))) d1 else d1);
         ss1 = (if se_Model event \<noteq> [] then ss\<lparr>ss_executedModel := se_Model event\<rparr> else ss);
         ss2 = (if se_Usage event \<noteq> None then ss1\<lparr>ss_usage := se_Usage event\<rparr> else ss1)
     in case se_Err event of
          Some err \<Rightarrow>
            if se_Type event = StreamEventError \<and> \<not> ss_recorded ss2 then
              (let d3 = on_recorder (SetStreamState ''error'') d2;
                   errorKind = NormalizeError (Some err);
                   d4 = recordProviderError (clk i) (es_OutboundName (os_step os)) errorKind d3
               in (ss2\<lparr>ss_recorded := True\<rparr>,
                   dispatch_record rnd
                     (finalizeUsageRecord rnd ctx plan (os_step os) (os_requestedModel os) (ss_executedModel ss2)
                        (ss_usage ss2) UsageStatusError (kind_string errorKind) (clk 0 AtStart) (clk i AtFinish) i d4) d4))
            else (ss2, d2)
        | None \<Rightarrow> (ss2, d2))"

definition stop_stream :: "stream_state \<times> Dispatcher \<Rightarrow> stream_state \<times> Dispatcher" where
  "stop_stream = (\<lambda>(ss, d). (ss\<lparr>ss_running := False\<rparr>, on_recorder (SetStreamState ''error'') d))"

fun stream_step ::
  "clock \<Rightarrow> (rat \<Rightarrow> rat) \<Rightarrow> request_context \<Rightarrow> ExecutionPlan \<Rightarrow> open_stream \<Rightarrow> nat \<Rightarrow> stream_input \<Rightarrow> stream_state \<times> Dispatcher \<Rightarrow>
    stream_state \<times> Dispatcher"
where
  "stream_step clk rnd ctx plan os k (Forwarded event) s =
     (case receive_event clk rnd ctx plan os k event s of (ss, d) \<Rightarrow> (ss\<lparr>ss_out := ss_out ss @ [event]\<rparr>, d))"
| "stream_step clk rnd ctx plan os k (CancelledOnSend event) s = stop_stream (receive_event clk rnd ctx plan os k event s)"
| "stream_step clk rnd ctx plan os k CancelledOnReceive s = stop_stream s"
| "stream_step clk rnd ctx plan os k ClosedCancelled s = stop_stream s"
| "stream_step clk rnd ctx plan os k Closed (ss, d) =
     (ss\<lparr>ss_running := False\<rparr>,
      if ss_recorded ss then d
      else attempt_succeeded clk rnd ctx plan (os_fallbackCount os) (os_step os) (os_requestedModel os)
             (ss_executedModel ss) (ss_usage ss) (os_quotaProbe os) (os_healthProbe os)
             (on_recorder (SetStreamState ''completed'') d))"

fun wrap_loop ::
  "clock \<Rightarrow> (rat \<Rightarrow> rat) \<Rightarrow> request_context \<Rightarrow> ExecutionPlan \<Rightarrow> open_stream \<Rightarrow> nat \<Rightarrow> stream_input list \<Rightarrow>
    stream_state \<times> Dispatcher \<Rightarrow> stream_state \<times> Dispatcher"
where
  "wrap_loop clk rnd ctx plan os k [] s = s"
| "wrap_loop clk rnd ctx plan os k (x # xs) s =
     (if ss_running (fst s) then wrap_loop clk rnd ctx plan os (Suc k) xs (stream_step clk rnd ctx plan os k x s) else s)"

definition wrapStream ::
  "clock \<Rightarrow> (rat \<Rightarrow> rat) \<Rightarrow> request_context \<Rightarrow> ExecutionPlan \<Rightarrow> open_stream \<Rightarrow> stream_input list \<Rightarrow> Dispatcher \<Rightarrow>
    stream_state \<times> Dispatcher" where
  "wrapStream clk rnd ctx plan os inputs d =
     wrap_loop clk rnd ctx plan os 0 inputs
       (\<lparr>ss_usage = None, ss_executedModel = os_requestedModel os, ss_recorded = False, ss_out = [], ss_running = True\<rparr>, d)"

end
