(* ===== verification/Dispatch_Laws.thy ===== *)
theory Dispatch_Laws
  imports Dispatcher
begin

text \<open>
  What the dispatcher guarantees. The locale \<open>plan_walk\<close> states the loop both dispatch calls share; it is
  interpreted for \<open>Dispatch\<close> and for \<open>DispatchStream\<close>. The properties: one usage record per dispatch, steps tried in
  order, the preferred error returned, streams passed on and recorded once, and two ways a probe is lost.
\<close>

section \<open>What the parts leave alone\<close>

lemma record_quota_event_frame [frame_simps]:
  "d_store (record_quota_event now e d) = d_store d"
  "d_quotaTracker (record_quota_event now e d) = d_quotaTracker d"
  "d_clientQuotaTracker (record_quota_event now e d) = d_clientQuotaTracker d"
  "d_healthTracker (record_quota_event now e d) = d_healthTracker d"
  by (simp_all add: record_quota_event_def)

lemma on_recorder_frame [frame_simps]:
  "d_store (on_recorder f d) = d_store d"
  "d_quotaTracker (on_recorder f d) = d_quotaTracker d"
  "d_clientQuotaTracker (on_recorder f d) = d_clientQuotaTracker d"
  "d_healthTracker (on_recorder f d) = d_healthTracker d"
  "d_eventRecorder (on_recorder f d) = d_eventRecorder d"
  by (simp_all add: on_recorder_def split: option.splits prod.splits)

lemma dispatch_beforeAttempt_frame [frame_simps]:
  "dispatch_beforeAttempt now n d = (dec, d') \<Longrightarrow> d_store d' = d_store d \<and> d_healthTracker d' = d_healthTracker d"
  by (auto simp: dispatch_beforeAttempt_def split: option.splits prod.splits)

lemma beforeHealthAttempt_frame [frame_simps]:
  "beforeHealthAttempt now n d = (dec, d') \<Longrightarrow> d_store d' = d_store d \<and> d_quotaTracker d' = d_quotaTracker d"
  by (auto simp: beforeHealthAttempt_def split: option.splits prod.splits)

lemma admit_step_store:
  "admit_step at' stream plan req step d = (a, d') \<Longrightarrow> d_store d' = d_store d"
  by (auto simp: admit_step_def recordOutboundLimited_def recordProviderHealthLimited_def frame_simps
      dest!: dispatch_beforeAttempt_frame beforeHealthAttempt_frame split: if_splits option.splits prod.splits)

lemma recordProviderError_store [frame_simps]: "d_store (recordProviderError at' n k d) = d_store d"
  by (simp add: recordProviderError_def Let_def frame_simps split: option.splits)

lemma dispatch_recordSuccess_store [frame_simps]:
  "d_store (dispatch_recordSuccess at' n tokens q h d) = d_store d"
  by (simp add: dispatch_recordSuccess_def Let_def frame_simps)

lemma recordClientTerminalSuccess_store [frame_simps]:
  "d_store (recordClientTerminalSuccess rnd now r d) = d_store d"
  by (simp add: recordClientTerminalSuccess_def split: option.splits)

lemma dispatch_record_store [simp]: "d_store (dispatch_record rnd r d) = memory_Record rnd r (d_store d)"
  by (simp add: dispatch_record_def)

lemma finalizeUsageRecord_fields [simp]:
  "ur_Status (finalizeUsageRecord rnd ctx plan step rm em u st ek t0 t1 i d) = st"
  "ur_ErrorKind (finalizeUsageRecord rnd ctx plan step rm em u st ek t0 t1 i d) = ek"
  "ur_FallbackCount (finalizeUsageRecord rnd ctx plan step rm em u st ek t0 t1 i d) = int i"
  "ur_OutboundName (finalizeUsageRecord rnd ctx plan step rm em u st ek t0 t1 i d) = es_OutboundName step"
  "ur_ClientName (finalizeUsageRecord rnd ctx plan step rm em u st ek t0 t1 i d) = pl_ClientName plan"
  "ur_RequestedModel (finalizeUsageRecord rnd ctx plan step rm em u st ek t0 t1 i d) = rm"
  "ur_ExecutedModel (finalizeUsageRecord rnd ctx plan step rm em u st ek t0 t1 i d) = (if em = [] then rm else em)"
  "ur_Breakdown (finalizeUsageRecord rnd ctx plan step rm em u st ek t0 t1 i d) = usage_breakdown u"
  by (simp_all add: finalizeUsageRecord_def Let_def split: prod.splits)

text \<open>Exactly one usage record was written.\<close>

definition recorded_once :: "(rat \<Rightarrow> rat) \<Rightarrow> Dispatcher \<Rightarrow> Dispatcher \<Rightarrow> UsageRecord \<Rightarrow> bool" where
  "recorded_once rnd d d' r \<longleftrightarrow> d_store d' = memory_Record rnd r (d_store d)"

lemma recorded_once_cong: "d_store e = d_store d \<Longrightarrow> recorded_once rnd e d' r = recorded_once rnd d d' r"
  by (simp add: recorded_once_def)

lemma record_failure_once:
  "\<exists>r. recorded_once rnd d (record_failure clk rnd ctx plan step model lastErr i d) r \<and> ur_Status r = UsageStatusError
     \<and> ur_ErrorKind r = kind_string (NormalizeError lastErr) \<and> ur_ClientName r = pl_ClientName plan
     \<and> ur_OutboundName r = es_OutboundName step \<and> ur_FallbackCount r = int i"
  unfolding recorded_once_def record_failure_def by (intro exI conjI, rule dispatch_record_store) simp_all

lemma attempt_succeeded_once:
  "\<exists>r. recorded_once rnd d (attempt_succeeded clk rnd ctx plan i step rm em u q h d) r \<and> ur_Status r = UsageStatusSuccess
     \<and> ur_ErrorKind r = [] \<and> ur_ClientName r = pl_ClientName plan
     \<and> ur_OutboundName r = es_OutboundName step \<and> ur_FallbackCount r = int i
     \<and> ur_Breakdown r = usage_breakdown u \<and> ur_ExecutedModel r = (if em = [] then rm else em)"
  unfolding recorded_once_def attempt_succeeded_def Let_def frame_simps dispatch_record_store
  by (intro exI conjI, rule refl) simp_all

section \<open>Preferred errors\<close>

lemma select_Some: "selectPreferredError lst (Some e) = Some (case lst of None \<Rightarrow> e
    | Some c \<Rightarrow> if preferredErrorPriority c < preferredErrorPriority e then e else c)"
  by (simp add: selectPreferredError_def split: option.splits)

text \<open>The error a run ends with: the first of the highest priority.\<close>

definition first_preferred :: "go_error list \<Rightarrow> go_error \<Rightarrow> bool" where
  "first_preferred es e \<longleftrightarrow> (\<exists>es1 es2. es = es1 @ e # es2
     \<and> (\<forall>x \<in> set es1. preferredErrorPriority x < preferredErrorPriority e)
     \<and> (\<forall>x \<in> set es2. preferredErrorPriority x \<le> preferredErrorPriority e))"

definition run_errors :: "go_error list \<Rightarrow> go_error option" where
  "run_errors es = fold (\<lambda>e lst. selectPreferredError lst (Some e)) es None"

lemma run_errors_snoc: "run_errors (es @ [e]) = selectPreferredError (run_errors es) (Some e)"
  by (simp add: run_errors_def)

lemma run_errors_preferred: "es \<noteq> [] \<Longrightarrow> \<exists>e. run_errors es = Some e \<and> first_preferred es e"
proof (induction es rule: rev_induct)
  case Nil
  then show ?case by simp
next
  case (snoc x es)
  show ?case
  proof (cases "es = []")
    case True
    have "first_preferred [x] x" unfolding first_preferred_def by (intro exI [of _ "[]"]) simp
    then show ?thesis using True by (simp add: run_errors_def select_Some)
  next
    case False
    then obtain c where c: "run_errors es = Some c" "first_preferred es c" using snoc.IH by blast
    then obtain es1 es2 where es: "es = es1 @ c # es2" "\<forall>y \<in> set es1. preferredErrorPriority y < preferredErrorPriority c"
      "\<forall>y \<in> set es2. preferredErrorPriority y \<le> preferredErrorPriority c" by (auto simp: first_preferred_def)
    show ?thesis
    proof (cases "preferredErrorPriority c < preferredErrorPriority x")
      case True
      then have "first_preferred (es @ [x]) x"
        unfolding first_preferred_def using es by (intro exI [of _ es] exI [of _ "[]"]) auto
      then show ?thesis using True c by (simp add: run_errors_snoc select_Some)
    next
      case False
      then have "first_preferred (es @ [x]) c"
        unfolding first_preferred_def using es by (intro exI [of _ es1] exI [of _ "es2 @ [x]"]) auto
      then show ?thesis using False c by (simp add: run_errors_snoc select_Some)
    qed
  qed
qed

section \<open>The walk over a plan\<close>

text \<open>
  \<open>Dispatch\<close> and \<open>DispatchStream\<close> walk a plan in the same way. A run is described by what became of
  the steps it reached: passed over, failed, succeeded with a value, or refused (which ends the call
  without a record).
\<close>

datatype 'a outcome = Rejected go_error | Skipped go_error | Failed ErrorKind go_error | Succeeded nat 'a

fun outcome_error :: "'a outcome \<Rightarrow> go_error option" where
  "outcome_error (Rejected e) = Some e"
| "outcome_error (Skipped e) = Some e"
| "outcome_error (Failed k e) = Some e"
| "outcome_error (Succeeded i v) = None"

definition step_ok :: "ExecutionStep \<Rightarrow> bool" where
  "step_ok s \<longleftrightarrow> es_Type s = StepTypeOutbound \<and> es_OnError s = FallbackOnRetryable \<and> es_OutboundTarget s \<noteq> None"

definition plan_ok :: "ExecutionPlan \<Rightarrow> bool" where
  "plan_ok plan \<longleftrightarrow> pl_Steps plan \<noteq> [] \<and> (\<forall>s \<in> set (pl_Steps plan). step_ok s)"

text \<open>The steps a run reaches and what became of each.\<close>

fun outcomes ::
  "clock \<Rightarrow> bool \<Rightarrow> Request \<Rightarrow> ExecutionPlan \<Rightarrow> (CompletionProvider \<Rightarrow> Request \<Rightarrow> go_error + 'a) \<Rightarrow>
    (nat \<Rightarrow> ExecutionStep \<Rightarrow> Dispatcher \<Rightarrow> Dispatcher) \<Rightarrow> nat \<Rightarrow> ExecutionStep list \<Rightarrow> Dispatcher \<Rightarrow> 'a outcome list"
where
  "outcomes clk stream req plan call around i [] d = []"
| "outcomes clk stream req plan call around i (step # steps) d =
     (case admit_step (clk i) stream plan req step d of
        (Refused e, d1) \<Rightarrow> [Rejected e]
      | (PassedOver e, d1) \<Rightarrow> Skipped e # outcomes clk stream req plan call around (Suc i) steps d1
      | (Admitted target r q h, d1) \<Rightarrow>
          (case call target r of
             Inr v \<Rightarrow> [Succeeded i v]
           | Inl e \<Rightarrow>
               Failed (NormalizeError (Some e)) e #
               (if isRecoverable (NormalizeError (Some e)) \<and> steps \<noteq> []
                then outcomes clk stream req plan call around (Suc i) steps
                       (recordProviderError (clk i) (es_OutboundName step) (NormalizeError (Some e)) (around i step d1))
                else [])))"

text \<open>
  The contract of a walk: a loop with the two equations of the code, where \<open>call\<close> is the provider call,
  \<open>around\<close> the latency bookkeeping of an attempt, and \<open>result\<close> and \<open>settle\<close> what a success returns and records.
\<close>

locale plan_walk =
  fixes clk :: clock and rnd :: "rat \<Rightarrow> rat" and ctx :: request_context and req :: Request and plan :: ExecutionPlan
    and stream :: bool
    and call :: "CompletionProvider \<Rightarrow> Request \<Rightarrow> go_error + 'a"
    and around :: "nat \<Rightarrow> ExecutionStep \<Rightarrow> Dispatcher \<Rightarrow> Dispatcher"
    and result :: "nat \<Rightarrow> ExecutionStep \<Rightarrow> Request \<Rightarrow> bool \<Rightarrow> bool \<Rightarrow> 'a \<Rightarrow> 'b"
    and settle :: "nat \<Rightarrow> ExecutionStep \<Rightarrow> Request \<Rightarrow> bool \<Rightarrow> bool \<Rightarrow> 'a \<Rightarrow> Dispatcher \<Rightarrow> Dispatcher"
    and loop :: "nat \<Rightarrow> ExecutionStep list \<Rightarrow> go_error option \<Rightarrow> Dispatcher \<Rightarrow> 'b go_return \<times> Dispatcher"
  assumes loop_Nil: "loop i [] lastErr d = plan_exhausted clk rnd ctx req plan lastErr d"
    and loop_Cons: "loop i (step # steps) lastErr d =
      (case admit_step (clk i) stream plan req step d of
         (Refused err, d1) \<Rightarrow> (Returned None (Some err), d1)
       | (PassedOver err, d1) \<Rightarrow> loop (Suc i) steps (selectPreferredError lastErr (Some err)) d1
       | (Admitted target r q h, d1) \<Rightarrow>
           (case call target r of
              Inr v \<Rightarrow> (Returned (Some (result i step r q h v)) None, settle i step r q h v (around i step d1))
            | Inl err \<Rightarrow> attempt_failed clk rnd ctx plan i step (req_Model r) err lastErr (loop (Suc i) steps) (around i step d1)))"
    and around_store: "d_store (around i step d) = d_store d"
begin

lemma admit_ok: "step_ok step \<Longrightarrow> admit_step at' stream plan req step d \<noteq> (Refused e, d')"
  by (auto simp: admit_step_def step_ok_def split: prod.splits option.splits)

lemma failed_step:
  assumes "step_ok step" and "Suc i + length steps = length (pl_Steps plan)"
  shows "attempt_failed clk rnd ctx plan i step m err lastErr (loop (Suc i) steps) d =
    (let e = selectPreferredError lastErr (Some err); k = NormalizeError (Some err);
         d1 = recordProviderError (clk i) (es_OutboundName step) k d
     in if isRecoverable k \<and> steps \<noteq> [] then loop (Suc i) steps e d1
        else (Returned None e, record_failure clk rnd ctx plan step m e i d1))"
proof (cases "steps = []")
  case True
  then have "i = length (pl_Steps plan) - 1" using assms by simp
  then show ?thesis using True by (simp add: attempt_failed_def Let_def)
next
  case False
  then have "(i = length (pl_Steps plan) - 1) = False" using assms by (cases steps) auto
  then show ?thesis using False assms(1)
    by (cases "isRecoverable (NormalizeError (Some err))") (simp_all add: attempt_failed_def Let_def step_ok_def)
qed

text \<open>The result of a run is read off its outcomes.\<close>

lemma run_result:
  assumes "\<forall>s \<in> set steps. step_ok s" and "i + length steps = length (pl_Steps plan)" and "steps \<noteq> [] \<or> es \<noteq> []"
  shows "let os = outcomes clk stream req plan call around i steps d
    in case fst (loop i steps (run_errors es) d) of
         Panicked \<Rightarrow> False
       | Returned (Some b) e \<Rightarrow> e = None \<and> os \<noteq> [] \<and>
           (\<exists>j v r q h. last os = Succeeded j v \<and> i \<le> j \<and> j < length (pl_Steps plan) \<and> b = result j (steps ! (j - i)) r q h v)
       | Returned None e \<Rightarrow> (\<forall>x \<in> set os. \<exists>y. outcome_error x = Some y) \<and> e = run_errors (es @ map (the \<circ> outcome_error) os)"
  using assms
proof (induction steps arbitrary: i es d)
  case Nil
  then show ?case by (simp add: loop_Nil plan_exhausted_def)
next
  case (Cons step steps)
  obtain a d1 where a: "admit_step (clk i) stream plan req step d = (a, d1)" by (cases "admit_step (clk i) stream plan req step d")
  have ok: "step_ok step" "\<forall>s \<in> set steps. step_ok s" and len: "Suc i + length steps = length (pl_Steps plan)"
    using Cons.prems by auto
  note IH = Cons.IH [OF ok(2) len, unfolded Let_def]
  show ?case
  proof (cases a)
    case (Refused e)
    then show ?thesis using a admit_ok [OF ok(1)] by blast
  next
    case (PassedOver e)
    then show ?thesis using a IH [of "es @ [e]" d1]
      by (auto simp: loop_Cons Let_def run_errors_snoc Suc_diff_le split: go_return.splits option.splits) blast
  next
    case (Admitted target r q h)
    show ?thesis
    proof (cases "call target r")
      case (Inr v)
      then show ?thesis using a Admitted len by (auto simp: loop_Cons Let_def)
    next
      case (Inl e)
      let ?k = "NormalizeError (Some e)"
      let ?d = "recordProviderError (clk i) (es_OutboundName step) ?k (around i step d1)"
      show ?thesis
      proof (cases "isRecoverable ?k \<and> steps \<noteq> []")
        case True
        then show ?thesis using a Admitted Inl IH [of "es @ [e]" ?d]
          by (auto simp: loop_Cons failed_step [OF ok(1) len] Let_def run_errors_snoc Suc_diff_le
              split: go_return.splits option.splits) blast
      next
        case False
        then show ?thesis using a Admitted Inl by (auto simp: loop_Cons failed_step [OF ok(1) len] Let_def run_errors_snoc)
      qed
    qed
  qed
qed

text \<open>A failed run writes exactly one usage record, an error of the returned kind; nothing else is stored.\<close>

lemma failed_run_record:
  assumes "\<forall>s \<in> set steps. step_ok s" and "i + length steps = length (pl_Steps plan)" and "pl_Steps plan \<noteq> []"
    and "loop i steps lastErr d = (Returned None e, d')"
  shows "\<exists>r. recorded_once rnd d d' r \<and> ur_Status r = UsageStatusError \<and> ur_ErrorKind r = kind_string (NormalizeError e)
    \<and> ur_ClientName r = pl_ClientName plan"
  using assms
proof (induction steps arbitrary: i lastErr d)
  case Nil
  then show ?case using record_failure_once by (auto simp: loop_Nil plan_exhausted_def) blast
next
  case (Cons step steps)
  obtain a d1 where a: "admit_step (clk i) stream plan req step d = (a, d1)" by (cases "admit_step (clk i) stream plan req step d")
  have ok: "step_ok step" "\<forall>s \<in> set steps. step_ok s" and len: "Suc i + length steps = length (pl_Steps plan)"
    using Cons.prems by auto
  note IH = Cons.IH [OF ok(2) len Cons.prems(3)]
  have store: "d_store d1 = d_store d" by (rule admit_step_store [OF a])
  show ?case
  proof (cases a)
    case (Refused e)
    then show ?thesis using a admit_ok [OF ok(1)] by blast
  next
    case (PassedOver e)
    then show ?thesis using a Cons.prems(4) IH [of _ d1] by (simp add: loop_Cons recorded_once_def store)
  next
    case (Admitted target r q h)
    show ?thesis
    proof (cases "call target r")
      case (Inr v)
      then show ?thesis using a Admitted Cons.prems(4) by (simp add: loop_Cons)
    next
      case (Inl err)
      let ?k = "NormalizeError (Some err)"
      let ?e = "selectPreferredError lastErr (Some err)"
      let ?d = "recordProviderError (clk i) (es_OutboundName step) ?k (around i step d1)"
      have d: "d_store ?d = d_store d" by (simp add: frame_simps around_store store)
      show ?thesis
      proof (cases "isRecoverable ?k \<and> steps \<noteq> []")
        case True
        then have "loop (Suc i) steps ?e ?d = (Returned None e, d')"
          using a Admitted Inl Cons.prems(4) failed_step [OF ok(1) len] by (simp add: loop_Cons Let_def)
        then show ?thesis using IH [of ?e ?d] by (simp add: recorded_once_def d)
      next
        case False
        then have "e = ?e" "d' = record_failure clk rnd ctx plan step (req_Model r) ?e i ?d"
          using a Admitted Inl Cons.prems(4) failed_step [OF ok(1) len] by (auto simp: loop_Cons Let_def)
        then show ?thesis using record_failure_once [of rnd ?d clk ctx plan step "req_Model r" ?e i] recorded_once_cong [OF d]
          by auto
      qed
    qed
  qed
qed

end

context plan_walk
begin

text \<open>A successful run settles the attempt of one of its steps and stores nothing before.\<close>

lemma successful_run:
  assumes "\<forall>s \<in> set steps. step_ok s" and "i + length steps = length (pl_Steps plan)"
    and "loop i steps lastErr d = (Returned (Some b) e, d')"
  shows "e = None \<and> (\<exists>j step r q h v d1. step \<in> set steps \<and> b = result j step r q h v \<and> d' = settle j step r q h v d1
    \<and> d_store d1 = d_store d)"
  using assms
proof (induction steps arbitrary: i lastErr d)
  case Nil
  then show ?case by (simp add: loop_Nil plan_exhausted_def)
next
  case (Cons step steps)
  obtain a d1 where a: "admit_step (clk i) stream plan req step d = (a, d1)" by (cases "admit_step (clk i) stream plan req step d")
  have ok: "step_ok step" "\<forall>s \<in> set steps. step_ok s" and len: "Suc i + length steps = length (pl_Steps plan)"
    using Cons.prems by auto
  have store: "d_store d1 = d_store d" by (rule admit_step_store [OF a])
  show ?case
  proof (cases a)
    case (Refused e)
    then show ?thesis using a admit_ok [OF ok(1)] by blast
  next
    case (PassedOver e)
    then show ?thesis using a Cons.prems(3) Cons.IH [OF ok(2) len, of _ d1] by (fastforce simp: loop_Cons store)
  next
    case (Admitted target r q h)
    show ?thesis
    proof (cases "call target r")
      case (Inr v)
      then have "e = None" "b = result i step r q h v" "d' = settle i step r q h v (around i step d1)"
        using a Admitted Cons.prems(3) by (auto simp: loop_Cons)
      moreover have "d_store (around i step d1) = d_store d" by (simp add: around_store store)
      ultimately show ?thesis
        by (intro conjI exI [of _ i] exI [of _ step] exI [of _ r] exI [of _ q] exI [of _ h] exI [of _ v]
            exI [of _ "around i step d1"]) simp_all
    next
      case (Inl err)
      let ?d = "recordProviderError (clk i) (es_OutboundName step) (NormalizeError (Some err)) (around i step d1)"
      have d: "d_store ?d = d_store d" by (simp add: frame_simps around_store store)
      have "loop (Suc i) steps (selectPreferredError lastErr (Some err)) ?d = (Returned (Some b) e, d')"
        using a Admitted Inl Cons.prems(3) by (auto simp: loop_Cons failed_step [OF ok(1) len] Let_def split: if_splits)
      then show ?thesis using Cons.IH [OF ok(2) len, of _ ?d] d by fastforce
    qed
  qed
qed

end

text \<open>A step that lets the walk go on: it was passed over or failed in a recoverable way.\<close>

fun goes_on :: "'a outcome \<Rightarrow> bool" where
  "goes_on (Skipped e) = True"
| "goes_on (Failed k e) = isRecoverable k"
| "goes_on _ = False"

lemma outcomes_shape:
  assumes "os = outcomes clk stream req plan call around i steps d"
  shows "length os \<le> length steps \<and> (\<forall>x \<in> set (butlast os). goes_on x)
    \<and> (\<forall>j v. os \<noteq> [] \<longrightarrow> last os = Succeeded j v \<longrightarrow> j = i + length os - 1)"
  using assms
proof (induction steps arbitrary: i d os)
  case Nil
  then show ?case by simp
next
  case (Cons step steps)
  obtain a d1 where a: "admit_step (clk i) stream plan req step d = (a, d1)" by (cases "admit_step (clk i) stream plan req step d")
  show ?case
    using Cons.prems a Cons.IH [OF refl, of "Suc i"]
    by (cases a) (auto split: sum.splits)
qed

lemma outcomes_nonempty: "steps \<noteq> [] \<Longrightarrow> outcomes clk stream req plan call around i steps d \<noteq> []"
  by (cases steps) (auto split: prod.splits admission.splits sum.splits)

section \<open>Both dispatch loops are walks\<close>

definition dispatch_span :: "clock \<Rightarrow> nat \<Rightarrow> ExecutionStep \<Rightarrow> Dispatcher \<Rightarrow> Dispatcher" where
  "dispatch_span clk i step =
     on_recorder (AddSpan (clk i AtReturn) ''provider_dispatch'' (clk i AtAttempt) (dispatch_attrs False step))"

definition stream_span :: "clock \<Rightarrow> nat \<Rightarrow> ExecutionStep \<Rightarrow> Dispatcher \<Rightarrow> Dispatcher" where
  "stream_span clk i step d =
     on_recorder (AddSpan (clk i AtReturn) ''provider_dispatch'' (clk i AtAttempt) (dispatch_attrs True step))
       (on_recorder (SetStreamState ''dispatching'') d)"

interpretation chat: plan_walk clk rnd ctx req plan False prov_ChatCompletion "dispatch_span clk" "\<lambda>i step r q h resp. resp"
  "\<lambda>i step r q h resp d. attempt_succeeded clk rnd ctx plan i step (req_Model r) (resp_Model resp) (resp_Usage resp) q h
     (on_recorder (SetFallbackCount (int i)) d)"
  "dispatch_loop clk rnd ctx req plan"
  for clk rnd ctx req plan
  by unfold_locales
    (simp_all add: frame_simps dispatch_span_def Let_def split: prod.splits admission.splits sum.splits)

interpretation streaming: plan_walk clk rnd ctx req plan True prov_StreamCompletion "stream_span clk"
  "\<lambda>i step r q h events. \<lparr>os_step = step, os_requestedModel = req_Model r, os_fallbackCount = i,
     os_events = events, os_quotaProbe = q, os_healthProbe = h\<rparr>"
  "\<lambda>i step r q h events d. on_recorder (SetStreamState ''waiting_first_token'')
     (on_recorder (SetProvider (clk i AtProvider) (es_OutboundName step) (es_OutboundProtocol step) (clk i AtProvider))
       (on_recorder (SetFallbackCount (int i)) d))"
  "stream_loop clk rnd ctx req plan"
  for clk rnd ctx req plan
  by unfold_locales
    (simp_all add: frame_simps stream_span_def Let_def split: prod.splits admission.splits sum.splits)

definition dispatch_outcomes :: "clock \<Rightarrow> Request \<Rightarrow> ExecutionPlan \<Rightarrow> Dispatcher \<Rightarrow> Response outcome list" where
  "dispatch_outcomes clk req plan d =
     outcomes clk False req plan prov_ChatCompletion (dispatch_span clk) 0 (pl_Steps plan) d"

lemma Dispatch_loop: "plan_ok plan \<Longrightarrow> Dispatch clk rnd ctx req plan d = dispatch_loop clk rnd ctx req plan 0 (pl_Steps plan) None d"
  by (simp add: Dispatch_def plan_ok_def)

lemma DispatchStream_loop:
  "plan_ok plan \<Longrightarrow> DispatchStream clk rnd ctx req plan d = stream_loop clk rnd ctx req plan 0 (pl_Steps plan) None d"
  by (simp add: DispatchStream_def plan_ok_def)

lemma run_errors_Nil [simp]: "run_errors [] = None"
  by (simp add: run_errors_def)

lemma Dispatch_result:
  assumes "plan_ok plan"
  shows "case fst (Dispatch clk rnd ctx req plan d) of
      Panicked \<Rightarrow> False
    | Returned (Some resp) e \<Rightarrow> e = None \<and> (\<exists>j. last (dispatch_outcomes clk req plan d) = Succeeded j resp)
    | Returned None e \<Rightarrow> (\<forall>x \<in> set (dispatch_outcomes clk req plan d). \<exists>y. outcome_error x = Some y)
        \<and> e = run_errors (map (the \<circ> outcome_error) (dispatch_outcomes clk req plan d))"
  using chat.run_result [where steps = "pl_Steps plan" and i = 0 and plan = plan and es = "[]" and clk = clk and req = req
      and d = d and rnd = rnd and ctx = ctx] assms
  by (auto simp: Dispatch_loop plan_ok_def dispatch_outcomes_def Let_def split: go_return.splits option.splits)

lemma dispatch_outcomes_nonempty: "plan_ok plan \<Longrightarrow> dispatch_outcomes clk req plan d \<noteq> []"
  by (simp add: dispatch_outcomes_def plan_ok_def outcomes_nonempty)

lemma failed_dispatch_outcomes:
  assumes "plan_ok plan" and "fst (Dispatch clk rnd ctx req plan d) = Returned None e"
  shows "\<exists>err. e = Some err \<and> first_preferred (map (the \<circ> outcome_error) (dispatch_outcomes clk req plan d)) err"
  using Dispatch_result [OF assms(1), where clk = clk and rnd = rnd and ctx = ctx and req = req and d = d] assms run_errors_preferred dispatch_outcomes_nonempty by fastforce

lemma usage_breakdown_count [simp]: "ub_RequestCount (usage_breakdown u) = 1"
  by (simp add: usage_breakdown_def split: option.splits)

lemma dispatch_success_record:
  assumes "plan_ok plan" and "Dispatch clk rnd ctx req plan d = (Returned (Some resp) e, d')"
  shows "e = None \<and> (\<exists>r. recorded_once rnd d d' r \<and> ur_Status r = UsageStatusSuccess \<and> ur_ErrorKind r = []
    \<and> ur_ClientName r = pl_ClientName plan \<and> ur_Breakdown r = usage_breakdown (resp_Usage resp))"
proof -
  obtain j step and r :: Request and q h d1 where e: "e = None" and store: "d_store d1 = d_store d"
    and d': "d' = attempt_succeeded clk rnd ctx plan j step (req_Model r) (resp_Model resp) (resp_Usage resp) q h
      (on_recorder (SetFallbackCount (int j)) d1)"
    using chat.successful_run [where steps = "pl_Steps plan" and i = 0 and plan = plan and clk = clk and rnd = rnd
        and ctx = ctx and req = req and d = d and lastErr = None and b = resp and e = e and d' = d'] assms
    by (auto simp: Dispatch_loop plan_ok_def)
  have "d_store (on_recorder (SetFallbackCount (int j)) d1) = d_store d" by (simp add: frame_simps store)
  then show ?thesis
    using e d' attempt_succeeded_once [of rnd "on_recorder (SetFallbackCount (int j)) d1" clk ctx plan j step "req_Model r"
        "resp_Model resp" "resp_Usage resp" q h] recorded_once_cong by blast
qed

lemma dispatch_failure_record:
  assumes "plan_ok plan" and "Dispatch clk rnd ctx req plan d = (Returned None e, d')"
  shows "\<exists>err. e = Some err \<and> (\<exists>r. recorded_once rnd d d' r \<and> ur_Status r = UsageStatusError
    \<and> ur_ErrorKind r = kind_string (NormalizeError (Some err)) \<and> ur_ClientName r = pl_ClientName plan)"
proof -
  obtain err where "e = Some err" using failed_dispatch_outcomes [OF assms(1)] assms(2) by (metis fst_conv)
  then show ?thesis
    using chat.failed_run_record [where steps = "pl_Steps plan" and i = 0 and plan = plan and clk = clk and rnd = rnd
        and ctx = ctx and req = req and d = d and lastErr = None and d' = d' and e = e] assms
    by (auto simp: Dispatch_loop plan_ok_def)
qed

lemma dispatch_no_panic: "plan_ok plan \<Longrightarrow> fst (Dispatch clk rnd ctx req plan d) \<noteq> Panicked"
  using Dispatch_result [where clk = clk and rnd = rnd and ctx = ctx and req = req and d = d and plan = plan] by auto

lemma stream_dispatch_record:
  assumes "plan_ok plan"
  shows "case DispatchStream clk rnd ctx req plan d of
      (Panicked, d') \<Rightarrow> False
    | (Returned (Some os) e, d') \<Rightarrow> e = None \<and> d_store d' = d_store d \<and> os_step os \<in> set (pl_Steps plan)
    | (Returned None e, d') \<Rightarrow> (\<exists>r. recorded_once rnd d d' r \<and> ur_Status r = UsageStatusError
        \<and> ur_ErrorKind r = kind_string (NormalizeError e) \<and> ur_ClientName r = pl_ClientName plan)"
proof -
  obtain res d' where s: "stream_loop clk rnd ctx req plan 0 (pl_Steps plan) None d = (res, d')"
    by (cases "stream_loop clk rnd ctx req plan 0 (pl_Steps plan) None d")
  have ok: "\<forall>s \<in> set (pl_Steps plan). step_ok s" "pl_Steps plan \<noteq> []" using assms by (auto simp: plan_ok_def)
  show ?thesis
  proof (cases res)
    case (Returned v e)
    show ?thesis
    proof (cases v)
      case None
      then show ?thesis using s Returned assms
        streaming.failed_run_record [where steps = "pl_Steps plan" and i = 0 and plan = plan and clk = clk and rnd = rnd
          and ctx = ctx and req = req and d = d and lastErr = None and d' = d' and e = e] ok
        by (simp add: DispatchStream_loop)
    next
      case (Some os)
      then show ?thesis using s Returned assms
        streaming.successful_run [where steps = "pl_Steps plan" and i = 0 and plan = plan and clk = clk and rnd = rnd
          and ctx = ctx and req = req and d = d and lastErr = None and d' = d' and e = e and b = os] ok
        by (auto simp: DispatchStream_loop frame_simps)
    qed
  next
    case Panicked
    then show ?thesis using s ok
      streaming.run_result [where steps = "pl_Steps plan" and i = 0 and plan = plan and clk = clk and rnd = rnd
        and ctx = ctx and req = req and d = d and es = "[]"] by (auto simp: Let_def)
  qed
qed

section \<open>Streams\<close>

text \<open>What a stream reports: its first error, its last usage, its last model.\<close>

definition stream_error :: "StreamEvent \<Rightarrow> go_error option" where
  "stream_error e = (if se_Type e = StreamEventError then se_Err e else None)"

fun first_some :: "'a option list \<Rightarrow> 'a option" where
  "first_some [] = None"
| "first_some (x # xs) = (case x of None \<Rightarrow> first_some xs | Some y \<Rightarrow> Some y)"

definition stream_usage :: "StreamEvent list \<Rightarrow> Usage option" where
  "stream_usage es = first_some (rev (map se_Usage es))"

definition stream_model :: "string \<Rightarrow> StreamEvent list \<Rightarrow> string" where
  "stream_model m es = last (m # filter (\<lambda>x. x \<noteq> []) (map se_Model es))"

lemma stream_usage_snoc: "stream_usage (es @ [e]) = (if se_Usage e \<noteq> None then se_Usage e else stream_usage es)"
  by (auto simp: stream_usage_def)

lemma stream_model_snoc: "stream_model m (es @ [e]) = (if se_Model e \<noteq> [] then se_Model e else stream_model m es)"
  by (simp add: stream_model_def)

lemma first_some_snoc: "first_some (xs @ [x]) = (case first_some xs of None \<Rightarrow> x | Some y \<Rightarrow> Some y)"
  by (induction xs) (auto split: option.splits)

lemma wrap_loop_append:
  "wrap_loop clk rnd ctx plan os k (xs @ ys) s = wrap_loop clk rnd ctx plan os (k + length xs) ys (wrap_loop clk rnd ctx plan os k xs s)"
proof (induction xs arbitrary: k s)
  case Nil
  then show ?case by simp
next
  case (Cons x xs)
  then show ?case by (cases ys) simp_all
qed

text \<open>The state of the goroutine after forwarding some events.\<close>

definition stream_sound ::
  "(rat \<Rightarrow> rat) \<Rightarrow> ExecutionPlan \<Rightarrow> open_stream \<Rightarrow> StreamEvent list \<Rightarrow> Dispatcher \<Rightarrow> stream_state \<times> Dispatcher \<Rightarrow> bool" where
  "stream_sound rnd plan os es d = (\<lambda>(ss, d').
     ss_running ss \<and> ss_out ss = es \<and> ss_usage ss = stream_usage es \<and> ss_executedModel ss = stream_model (os_requestedModel os) es \<and>
     (case first_some (map stream_error es) of
        None \<Rightarrow> \<not> ss_recorded ss \<and> d_store d' = d_store d \<and> d_quotaTracker d' = d_quotaTracker d
          \<and> d_healthTracker d' = d_healthTracker d \<and> d_clientQuotaTracker d' = d_clientQuotaTracker d
          \<and> d_eventRecorder d' = d_eventRecorder d
      | Some err \<Rightarrow> ss_recorded ss \<and> (\<exists>r. recorded_once rnd d d' r \<and> ur_Status r = UsageStatusError
          \<and> ur_ErrorKind r = kind_string (NormalizeError (Some err)) \<and> ur_ClientName r = pl_ClientName plan)))"

lemma receive_event_sound:
  assumes "stream_sound rnd plan os es d s"
  shows "stream_sound rnd plan os (es @ [e]) d (stream_step clk rnd ctx plan os k (Forwarded e) s)"
  using assms
  by (cases s) (auto simp: stream_sound_def receive_event_def Let_def stream_usage_snoc stream_model_snoc first_some_snoc
      stream_error_def recorded_once_def frame_simps split: option.splits if_splits)

lemma forwarded_sound:
  assumes "stream_sound rnd plan os es0 d s"
  shows "stream_sound rnd plan os (es0 @ es) d (wrap_loop clk rnd ctx plan os k (map Forwarded es) s)"
  using assms
proof (induction es arbitrary: es0 k s)
  case Nil
  then show ?case by simp
next
  case (Cons e es)
  then have "ss_running (fst s)" by (auto simp: stream_sound_def)
  then show ?case using Cons.IH [OF receive_event_sound [OF Cons.prems]] by simp
qed

lemma wrapStream_sound:
  "stream_sound rnd plan os es d (wrapStream clk rnd ctx plan os (map Forwarded es) d)"
  using forwarded_sound [of rnd plan os "[]" d]
  by (simp add: wrapStream_def stream_sound_def stream_usage_def stream_model_def)

lemma wrapStream_snoc:
  "ss_running (fst (wrapStream clk rnd ctx plan os xs d)) \<Longrightarrow>
   wrapStream clk rnd ctx plan os (xs @ [x]) d = stream_step clk rnd ctx plan os (length xs) x (wrapStream clk rnd ctx plan os xs d)"
  by (simp add: wrapStream_def wrap_loop_append)

lemma dispatch_walk:
  assumes "plan_ok plan" and "os = dispatch_outcomes clk req plan d"
  shows "os \<noteq> [] \<and> length os \<le> length (pl_Steps plan) \<and> (\<forall>x \<in> set (butlast os). goes_on x)
    \<and> ((\<exists>e. fst (Dispatch clk rnd ctx req plan d) = Returned (Some resp) e) \<longleftrightarrow> last os = Succeeded (length os - 1) resp)"
proof -
  have ne: "os \<noteq> []" using assms by (simp add: dispatch_outcomes_nonempty)
  have shape: "length os \<le> length (pl_Steps plan)" "\<forall>x \<in> set (butlast os). goes_on x"
    "\<And>j v. last os = Succeeded j v \<Longrightarrow> j = length os - 1"
    using outcomes_shape [of os clk False req plan prov_ChatCompletion "dispatch_span clk" 0 "pl_Steps plan" d] assms(2) ne
    by (auto simp: dispatch_outcomes_def)
  have in_os: "last os \<in> set os" using ne by simp
  have "(\<exists>e. fst (Dispatch clk rnd ctx req plan d) = Returned (Some resp) e) \<longleftrightarrow> last os = Succeeded (length os - 1) resp"
    using Dispatch_result [OF assms(1), where clk = clk and rnd = rnd and ctx = ctx and req = req and d = d]
      shape(3) in_os unfolding assms(2) [symmetric]
    by (fastforce split: go_return.splits option.splits)
  then show ?thesis using ne shape by simp
qed

lemma dispatch_fails:
  assumes "plan_ok plan" and "outcome_error (last (dispatch_outcomes clk req plan d)) \<noteq> None"
  shows "\<exists>e. fst (Dispatch clk rnd ctx req plan d) = Returned None e"
  using Dispatch_result [OF assms(1), where clk = clk and rnd = rnd and ctx = ctx and req = req and d = d] assms(2)
  by (auto split: go_return.splits option.splits)

section \<open>A sample dispatcher\<close>

definition failing_provider :: "string \<Rightarrow> go_error \<Rightarrow> CompletionProvider" where
  "failing_provider n e = \<lparr>prov_type = MockProvider, prov_Name = n, prov_ChatCompletion = (\<lambda>_. Inl e),
     prov_StreamCompletion = (\<lambda>_. Inl e)\<rparr>"

definition sample_step :: "string \<Rightarrow> CompletionProvider \<Rightarrow> ExecutionStep" where
  "sample_step n p = \<lparr>es_Type = StepTypeOutbound, es_OutboundName = n, es_OutboundProtocol = ''mock'',
     es_OutboundTarget = Some p, es_Model = [], es_ModelUnavailable = False, es_OnError = FallbackOnRetryable\<rparr>"

definition sample_plan :: "ExecutionStep list \<Rightarrow> ExecutionPlan" where
  "sample_plan steps = \<lparr>pl_ClientName = ''c'', pl_InboundName = ''in'', pl_InboundProtocol = ''p'', pl_ActiveTag = ''client'',
     pl_RequestedModel = ''m'', pl_MatchedRule = ''main'', pl_Strategy = [], pl_ResolvedToTags = [''ta''], pl_Steps = steps\<rparr>"

definition sample_dispatcher :: Dispatcher where
  "sample_dispatcher = NewDispatcher 0 None None None None None None []"

definition sample_ctx :: request_context where
  "sample_ctx = \<lparr>ctx_RequestID = ''r1'', ctx_SessionID = [], ctx_Agent = []\<rparr>"

definition two_steps :: ExecutionPlan where
  "two_steps = sample_plan [sample_step ''a'' (failing_provider ''a'' (NewTimeoutError None)), sample_step ''b'' (sample_provider ''b'')]"

definition two_failures :: ExecutionPlan where
  "two_failures = sample_plan [sample_step ''a'' (failing_provider ''a'' (NewTimeoutError None)),
     sample_step ''b'' (failing_provider ''b'' (NewAuthFailedError None))]"

lemma sample_plan_ok: "steps \<noteq> [] \<Longrightarrow> \<forall>s \<in> set steps. step_ok s \<Longrightarrow> plan_ok (sample_plan steps)"
  by (simp add: plan_ok_def sample_plan_def)

lemma sample_step_ok [simp]: "step_ok (sample_step n p)"
  by (simp add: step_ok_def sample_step_def)

lemma samples_ok: "plan_ok two_steps" "plan_ok two_failures"
  by (simp_all add: two_steps_def two_failures_def sample_plan_ok)

lemma two_steps_outcomes:
  assumes "os = dispatch_outcomes (\<lambda>_ _. 0) (sample_request ''m'') two_steps sample_dispatcher"
  shows "last os = Succeeded (length os - 1) sample_response"
  unfolding assms
  by (simp add: dispatch_outcomes_def two_steps_def sample_plan_def sample_step_def admit_step_def sample_dispatcher_def
      NewDispatcher_def dispatch_beforeAttempt_def beforeHealthAttempt_def failing_provider_def sample_provider_def
      quota_allow_def health_allow_def on_recorder_def dispatch_span_def recordProviderError_def new_error_defs)

section \<open>Properties\<close>

text \<open>C4: Every dispatch of a well-formed plan writes exactly one usage record, and it never panics: a
  success record with the response's usage when a response is returned, and otherwise an error record of the
  kind of the error that is returned (an error always is).\<close>

theorem dispatch_one_record:
  assumes "plan_ok plan"
  shows "case Dispatch clk rnd ctx req plan d of
      (Panicked, d') \<Rightarrow> False
    | (Returned (Some resp) e, d') \<Rightarrow> e = None \<and> (\<exists>r. recorded_once rnd d d' r \<and> ur_Status r = UsageStatusSuccess
        \<and> ur_ErrorKind r = [] \<and> ur_ClientName r = pl_ClientName plan \<and> ur_Breakdown r = usage_breakdown (resp_Usage resp))
    | (Returned None e, d') \<Rightarrow> (\<exists>err. e = Some err \<and> (\<exists>r. recorded_once rnd d d' r \<and> ur_Status r = UsageStatusError
        \<and> ur_ErrorKind r = kind_string (NormalizeError (Some err)) \<and> ur_ClientName r = pl_ClientName plan))"
  using dispatch_no_panic [OF assms, where clk = clk and rnd = rnd and ctx = ctx and req = req and d = d]
    dispatch_success_record [OF assms] dispatch_failure_record [OF assms]
  by (fastforce split: prod.splits go_return.splits option.splits)

theorem dispatch_one_record_witness:
  "case Dispatch (\<lambda>_ _. 0) id sample_ctx (sample_request ''m'') two_steps sample_dispatcher of
     (Returned (Some resp) None, d') \<Rightarrow> \<exists>r. recorded_once id sample_dispatcher d' r | _ \<Rightarrow> False"
proof -
  let ?x = "Dispatch (\<lambda>_ _. 0) id sample_ctx (sample_request ''m'') two_steps sample_dispatcher"
  obtain e where "fst ?x = Returned (Some sample_response) e"
    using two_steps_outcomes [OF refl] dispatch_walk [OF samples_ok(1) refl] by blast
  then show ?thesis
    using dispatch_one_record [OF samples_ok(1), where clk = "\<lambda>_ _. 0" and rnd = id and ctx = sample_ctx
        and req = "sample_request ''m''" and d = sample_dispatcher]
    by (fastforce split: prod.splits go_return.splits option.splits)
qed

text \<open>C5: The steps of a plan are tried in order: every step before the last one reached was passed over or failed in
  a recoverable way, and the call returns a response exactly when the last step reached produced it.\<close>

theorem dispatch_in_order:
  assumes "plan_ok plan" and "os = dispatch_outcomes clk req plan d"
  shows "os \<noteq> [] \<and> length os \<le> length (pl_Steps plan) \<and> (\<forall>x \<in> set (butlast os). goes_on x)
    \<and> ((\<exists>e. fst (Dispatch clk rnd ctx req plan d) = Returned (Some resp) e) \<longleftrightarrow> last os = Succeeded (length os - 1) resp)"
  by (rule dispatch_walk [OF assms])

theorem dispatch_in_order_witness:
  "\<exists>e. fst (Dispatch (\<lambda>_ _. 0) id sample_ctx (sample_request ''m'') two_steps sample_dispatcher) = Returned (Some sample_response) e"
  using two_steps_outcomes [OF refl] dispatch_in_order [OF samples_ok(1) refl] by blast

text \<open>C6: A failed dispatch returns the first error of the highest priority among the errors of the steps it reached:
  upstream quota and credential errors (with response metadata first) before fatal ones, before transient
  ones, before unavailable models.\<close>

theorem dispatch_preferred_error:
  assumes "plan_ok plan" and "fst (Dispatch clk rnd ctx req plan d) = Returned None e"
    and "es = map (the \<circ> outcome_error) (dispatch_outcomes clk req plan d)"
  shows "\<exists>err es1 es2. e = Some err \<and> es = es1 @ err # es2
     \<and> (\<forall>x \<in> set es1. preferredErrorPriority x < preferredErrorPriority err)
     \<and> (\<forall>x \<in> set es2. preferredErrorPriority x \<le> preferredErrorPriority err)"
  using failed_dispatch_outcomes [OF assms(1,2)] assms(3) by (auto simp: first_preferred_def)

theorem dispatch_preferred_error_witness:
  "\<exists>e. fst (Dispatch (\<lambda>_ _. 0) id sample_ctx (sample_request ''m'') two_failures sample_dispatcher) = Returned None e \<and>
    (\<exists>err es1 es2. e = Some err \<and> [NewTimeoutError None, NewAuthFailedError None] = es1 @ err # es2
     \<and> (\<forall>x \<in> set es1. preferredErrorPriority x < preferredErrorPriority err)
     \<and> (\<forall>x \<in> set es2. preferredErrorPriority x \<le> preferredErrorPriority err))"
proof -
  let ?x = "Dispatch (\<lambda>_ _. 0) id sample_ctx (sample_request ''m'') two_failures sample_dispatcher"
  have "outcome_error (last (dispatch_outcomes (\<lambda>_ _. 0) (sample_request ''m'') two_failures sample_dispatcher)) \<noteq> None"
    by code_simp
  then obtain e where e: "fst ?x = Returned None e" using dispatch_fails [OF samples_ok(2)] by blast
  have "[NewTimeoutError None, NewAuthFailedError None] =
      map (the \<circ> outcome_error) (dispatch_outcomes (\<lambda>_ _. 0) (sample_request ''m'') two_failures sample_dispatcher)"
    by code_simp
  from dispatch_preferred_error [OF samples_ok(2) e this] e show ?thesis by (intro exI [of _ e] conjI)
qed

lemma stream_record:
  assumes "wrapStream clk rnd ctx plan os (map Forwarded es @ [Closed]) d = (ss, d')"
  shows "\<not> ss_running ss \<and> ss_out ss = es \<and>
    (\<exists>r. recorded_once rnd d d' r \<and> ur_ClientName r = pl_ClientName plan \<and>
      (case first_some (map stream_error es) of
         Some err \<Rightarrow> ur_Status r = UsageStatusError \<and> ur_ErrorKind r = kind_string (NormalizeError (Some err))
       | None \<Rightarrow> ur_Status r = UsageStatusSuccess \<and> ur_Breakdown r = usage_breakdown (stream_usage es)
           \<and> ur_ExecutedModel r = (if stream_model (os_requestedModel os) es = [] then os_requestedModel os
                                   else stream_model (os_requestedModel os) es)))"
proof -
  obtain ss1 d1 where s1: "wrapStream clk rnd ctx plan os (map Forwarded es) d = (ss1, d1)"
    by (cases "wrapStream clk rnd ctx plan os (map Forwarded es) d")
  have sound: "stream_sound rnd plan os es d (ss1, d1)" using wrapStream_sound [of rnd plan os es d clk ctx] s1 by simp
  then have closed: "ss = ss1\<lparr>ss_running := False\<rparr>"
    "d' = (if ss_recorded ss1 then d1
       else attempt_succeeded clk rnd ctx plan (os_fallbackCount os) (os_step os) (os_requestedModel os) (ss_executedModel ss1)
              (ss_usage ss1) (os_quotaProbe os) (os_healthProbe os) (on_recorder (SetStreamState ''completed'') d1))"
    using assms wrapStream_snoc [of clk rnd ctx plan os "map Forwarded es" d Closed] s1 by (simp_all add: stream_sound_def)
  show ?thesis
  proof (cases "first_some (map stream_error es)")
    case None
    then have "recorded_once rnd (on_recorder (SetStreamState ''completed'') d1) d' r = recorded_once rnd d d' r" for r
      using sound by (simp add: recorded_once_def stream_sound_def frame_simps)
    then show ?thesis using None sound closed attempt_succeeded_once
      [of rnd "on_recorder (SetStreamState ''completed'') d1" clk ctx plan "os_fallbackCount os" "os_step os"
        "os_requestedModel os" "ss_executedModel ss1" "ss_usage ss1" "os_quotaProbe os" "os_healthProbe os"]
      by (auto simp: stream_sound_def)
  next
    case (Some err)
    then show ?thesis using sound closed by (auto simp: stream_sound_def)
  qed
qed

text \<open>C7: A stream that is not cancelled is passed on unchanged, and when its channel closes exactly one usage record
  has been written: an error record of the kind of the first error event, or else a success record with the
  last usage and the last model the stream reported.\<close>

theorem stream_one_record:
  assumes "wrapStream clk rnd ctx plan os (map Forwarded es @ [Closed]) d = (ss, d')"
  shows "\<not> ss_running ss \<and> ss_out ss = es \<and>
    (\<exists>r. recorded_once rnd d d' r \<and> ur_ClientName r = pl_ClientName plan \<and>
      (case first_some (map stream_error es) of
         Some err \<Rightarrow> ur_Status r = UsageStatusError \<and> ur_ErrorKind r = kind_string (NormalizeError (Some err))
       | None \<Rightarrow> ur_Status r = UsageStatusSuccess \<and> ur_Breakdown r = usage_breakdown (stream_usage es)
           \<and> ur_ExecutedModel r = (if stream_model (os_requestedModel os) es = [] then os_requestedModel os
                                   else stream_model (os_requestedModel os) es)))"
  by (rule stream_record [OF assms])

definition sample_event_stream :: "StreamEvent list" where
  "sample_event_stream = [\<lparr>se_Type = StreamEventContentDelta, se_ResponseID = [], se_Model = ''m2'', se_MessageRole = [],
     se_Delta = None, se_ToolCall = None, se_ToolCallIndex = 0, se_FinishReason = [], se_Usage = None, se_Err = None\<rparr>]"

definition sample_open_stream :: open_stream where
  "sample_open_stream = \<lparr>os_step = sample_step ''a'' (sample_provider ''a''), os_requestedModel = ''m'', os_fallbackCount = 0,
     os_events = sample_event_stream, os_quotaProbe = False, os_healthProbe = False\<rparr>"

theorem stream_one_record_witness:
  "case wrapStream (\<lambda>_ _. 0) id sample_ctx two_steps sample_open_stream (map Forwarded sample_event_stream @ [Closed]) sample_dispatcher
   of (ss, d') \<Rightarrow> ss_out ss = sample_event_stream \<and>
     (\<exists>r. recorded_once id sample_dispatcher d' r \<and> ur_Status r = UsageStatusSuccess \<and> ur_ExecutedModel r = ''m2'')"
proof -
  let ?x = "wrapStream (\<lambda>_ _. 0) id sample_ctx two_steps sample_open_stream (map Forwarded sample_event_stream @ [Closed]) sample_dispatcher"
  obtain ss d' where x: "?x = (ss, d')" by (cases ?x)
  have "first_some (map stream_error sample_event_stream) = None" "stream_model m sample_event_stream = ''m2''" for m
    by (simp_all add: sample_event_stream_def stream_error_def stream_model_def)
  then show ?thesis unfolding x using stream_one_record [OF x] by auto
qed

text \<open>A stream that the client cancels before any error event leaves no trace: neither usage nor health nor quota is
  recorded for the attempt, whatever part of it was delivered; a probe it was admitted as stays in flight.\<close>

theorem cancelled_stream_unrecorded:
  assumes "\<forall>e \<in> set es. stream_error e = None" and "stop \<in> {CancelledOnReceive, ClosedCancelled}"
    and "wrapStream clk rnd ctx plan os (map Forwarded es @ [stop]) d = (ss, d')"
  shows "\<not> ss_running ss \<and> d_store d' = d_store d \<and> d_quotaTracker d' = d_quotaTracker d
    \<and> d_healthTracker d' = d_healthTracker d \<and> d_clientQuotaTracker d' = d_clientQuotaTracker d"
proof -
  obtain ss1 d1 where s1: "wrapStream clk rnd ctx plan os (map Forwarded es) d = (ss1, d1)"
    by (cases "wrapStream clk rnd ctx plan os (map Forwarded es) d")
  have sound: "stream_sound rnd plan os es d (ss1, d1)" using wrapStream_sound [of rnd plan os es d clk ctx] s1 by simp
  have none: "first_some (map stream_error es) = None" using assms(1) by (induction es) auto
  have "(ss, d') = stop_stream (ss1, d1)"
    using assms(2,3) wrapStream_snoc [of clk rnd ctx plan os "map Forwarded es" d stop] s1 sound by (auto simp: stream_sound_def)
  then show ?thesis using sound none by (simp add: stop_stream_def stream_sound_def frame_simps)
qed

theorem cancelled_stream_unrecorded_witness:
  "d_store (snd (wrapStream (\<lambda>_ _. 0) id sample_ctx two_steps sample_open_stream
     (map Forwarded sample_event_stream @ [CancelledOnReceive]) sample_dispatcher)) = d_store sample_dispatcher"
proof -
  let ?x = "wrapStream (\<lambda>_ _. 0) id sample_ctx two_steps sample_open_stream (map Forwarded sample_event_stream @ [CancelledOnReceive]) sample_dispatcher"
  obtain ss d' where x: "?x = (ss, d')" by (cases ?x)
  have "\<forall>e \<in> set sample_event_stream. stream_error e = None" by (simp add: sample_event_stream_def stream_error_def)
  then show ?thesis unfolding x using cancelled_stream_unrecorded [OF _ _ x] by simp
qed

text \<open>When the quota tracker admits a step as its one probe and the health tracker then denies it, no attempt is made
  but the quota probe stays in flight: until the cooldown ends every later attempt on the outbound is denied, unless a
  success or another quota error is recorded for it.\<close>

theorem denied_step_keeps_quota_probe:
  assumes "pl_Steps plan = [step]" and "step_ok step" and "\<not> es_ModelUnavailable step" and "n = es_OutboundName step"
    and "d_quotaTracker d = Some qt" and "d_healthTracker d = Some ht"
    and "qd_Allowed (fst (quota_BeforeAttempt (clk 0 AtQuotaCheck) n (Some qt)))"
      "qd_Probe (fst (quota_BeforeAttempt (clk 0 AtQuotaCheck) n (Some qt)))"
    and "\<not> hd_Allowed (fst (health_BeforeAttempt (clk 0 AtHealthCheck) n (Some ht)))"
    and "quota_view n (snd (quota_BeforeAttempt (clk 0 AtQuotaCheck) n (Some qt))) = Some s" and "U = s_cooldownUntil s"
    and "\<forall>e \<in> set es. quota_key e = n \<longrightarrow> \<not> quota_releases U e" and "later < U"
  shows "\<not> qd_Allowed (fst (quota_BeforeAttempt later n
           (fold quota_step es (d_quotaTracker (snd (Dispatch clk rnd ctx req plan d))))))"
proof -
  obtain qdec qt' where q: "quota_BeforeAttempt (clk 0 AtQuotaCheck) n (Some qt) = (qdec, qt')"
    by (cases "quota_BeforeAttempt (clk 0 AtQuotaCheck) n (Some qt)")
  obtain hdec ht' where h: "health_BeforeAttempt (clk 0 AtHealthCheck) n (Some ht) = (hdec, ht')"
    by (cases "health_BeforeAttempt (clk 0 AtHealthCheck) n (Some ht)")
  have "d_quotaTracker (snd (Dispatch clk rnd ctx req plan d)) = qt'"
    using assms(1-9) q h
    by (auto simp: Dispatch_def admit_step_def step_ok_def dispatch_beforeAttempt_def beforeHealthAttempt_def plan_exhausted_def
        record_failure_def dispatch_record_def recordProviderHealthLimited_def frame_simps)
  then show ?thesis using quota_probe_excludes [OF assms(8,10-13)] q by simp
qed


definition sample_probing :: Dispatcher where
  "sample_probing = sample_dispatcher\<lparr>d_quotaTracker := sample_exceeded,
     d_healthTracker := fold (\<lambda>t. health_RecordFailure t ''o'' ErrorKindTimeout) [1000, 1010, 1020] (newHealthTracker [''o''] 1000)\<rparr>"

theorem denied_step_keeps_quota_probe_witness:
  "\<not> qd_Allowed (fst (quota_BeforeAttempt 1099 ''o'' (d_quotaTracker (snd (Dispatch (\<lambda>_ _. 1030) id sample_ctx (sample_request ''m'')
     (sample_plan [sample_step ''o'' (sample_provider ''o'')]) sample_probing)))))"
proof -
  let ?s = "sample_step ''o'' (sample_provider ''o'')"
  let ?q = "quota_BeforeAttempt 1030 ''o'' (d_quotaTracker sample_probing)"
  have "d_quotaTracker sample_probing \<noteq> None" "d_healthTracker sample_probing \<noteq> None" by code_simp+
  then obtain qt ht where t: "d_quotaTracker sample_probing = Some qt" "d_healthTracker sample_probing = Some ht" by blast
  have q: "qd_Allowed (fst ?q)" "qd_Probe (fst ?q)" "map_option s_cooldownUntil (quota_view ''o'' (snd ?q)) = Some 1100"
    "\<not> hd_Allowed (fst (health_BeforeAttempt 1030 ''o'' (d_healthTracker sample_probing)))" by code_simp+
  then obtain s where s: "quota_view ''o'' (snd ?q) = Some s" "1100 = s_cooldownUntil s" by (cases "quota_view ''o'' (snd ?q)") auto
  show ?thesis
    using denied_step_keeps_quota_probe [where clk = "\<lambda>_ _. 1030" and plan = "sample_plan [?s]" and step = ?s and n = "''o''"
      and d = sample_probing and es = "[]" and later = 1099 and U = 1100 and qt = qt and ht = ht and s = s
      and rnd = id and ctx = sample_ctx and req = "sample_request ''m''"] q s t
    by (simp add: sample_plan_def) (simp add: sample_step_def)
qed

end
