(* ===== verification/Config_Validate.thy ===== *)
theory Config_Validate
  imports Config_Values
begin

text \<open>
  Package \<open>internal/config\<close>: defaults and validation. A validation returns the text of the first
  error, \<open>None\<close> for nil. \<open>loadLocation\<close> says which time zones \<open>time.LoadLocation\<close> knows, \<open>parseURL\<close>
  stands for \<open>url.Parse\<close> (the error text, or host and scheme), \<open>timeError\<close> for the text of a
  \<open>time.Parse\<close> error. Maps are ranged over in the order of their association list.
\<close>

section \<open>Checks\<close>

text \<open>A sequence of checks that each return early.\<close>

fun first_error :: "string option list \<Rightarrow> string option" where
  "first_error [] = None"
| "first_error (x # xs) = (case x of None \<Rightarrow> first_error xs | Some e \<Rightarrow> Some e)"

definition fail_if :: "bool \<Rightarrow> string \<Rightarrow> string option" where
  "fail_if b msg = (if b then Some msg else None)"

definition index_text :: "nat \<Rightarrow> string" where
  "index_text i = ''['' @ show_int (int i) @ '']''"

lemma first_error_None [simp]: "first_error xs = None \<longleftrightarrow> (\<forall>x \<in> set xs. x = None)"
  by (induction xs) (auto split: option.splits)

declare first_error.simps [simp del]

lemma fail_if_None [simp]: "fail_if b msg = None \<longleftrightarrow> \<not> b"
  by (simp add: fail_if_def)

text \<open>\<open>strings.IndexFunc(s, unicode.IsControl) >= 0\<close>: a control byte, or U+0080 to U+009F in UTF-8.\<close>

fun has_control :: "string \<Rightarrow> bool" where
  "has_control [] = False"
| "has_control [c] = (of_char c < (32 :: nat) \<or> of_char c = (127 :: nat))"
| "has_control (c # d # cs) =
     (of_char c < (32 :: nat) \<or> of_char c = (127 :: nat)
      \<or> (of_char c = (194 :: nat) \<and> 128 \<le> (of_char d :: nat) \<and> (of_char d :: nat) \<le> 159) \<or> has_control (d # cs))"

section \<open>Defaults\<close>

definition default_to :: "'a \<Rightarrow> 'a \<Rightarrow> 'a \<Rightarrow> 'a" where
  "default_to zero d v = (if v = zero then d else v)"

definition client_defaults :: "ClientSpec \<Rightarrow> ClientSpec" where
  "client_defaults c = c\<lparr>cl_Quota := (cl_Quota c)\<lparr>cq_Windows :=
     map (\<lambda>w. w\<lparr>qw_Type := default_to [] ''requests'' (qw_Type w)\<rparr>) (cq_Windows (cl_Quota c))\<rparr>\<rparr>"

definition outbound_defaults :: "OutboundSpec \<Rightarrow> OutboundSpec" where
  "outbound_defaults x = x\<lparr>ob_Quota := (ob_Quota x)\<lparr>oq_Windows :=
     map (\<lambda>w. w\<lparr>oqw_Reset := default_to [] ''rolling'' (oqw_Reset w)\<rparr>) (oq_Windows (ob_Quota x))\<rparr>\<rparr>"

text \<open>
  The windows are reached through the slices of the configuration, so a call on a copy of the
  configuration sets them in the original too.
\<close>

definition window_defaults :: "Config \<Rightarrow> Config" where
  "window_defaults c =
     c\<lparr>cfg_Clients := map client_defaults (cfg_Clients c), cfg_Outbounds := map outbound_defaults (cfg_Outbounds c)\<rparr>"

definition applyDefaults :: "Config \<Rightarrow> Config" where
  "applyDefaults c =
     (let snapshot = cfg_SessionSnapshot c; logs = adm_Logs (cfg_Admin c); rotation = alog_Rotation logs;
          snapshot' = snapshot\<lparr>ssc_Dir := default_to [] ''./data/sessions'' (ssc_Dir snapshot),
                               ssc_FlushInterval := default_to [] ''5s'' (ssc_FlushInterval snapshot)\<rparr>;
          rotation' = rotation\<lparr>rot_MaxSizeMB := default_to 0 100 (rot_MaxSizeMB rotation),
                               rot_MaxFiles := default_to 0 20 (rot_MaxFiles rotation),
                               rot_MaxAgeDays := default_to 0 14 (rot_MaxAgeDays rotation),
                               rot_MaxTotalSizeMB := default_to 0 1024 (rot_MaxTotalSizeMB rotation)\<rparr>;
          logs' = logs\<lparr>alog_Path := default_to [] ''tmp/dev.log'' (alog_Path logs),
                       alog_MaxBytes := default_to 0 65536 (alog_MaxBytes logs), alog_Rotation := rotation'\<rparr>
      in window_defaults (c\<lparr>cfg_OAuthDir := default_to [] ''./data/oauth'' (cfg_OAuthDir c),
                            cfg_SessionSnapshot := snapshot', cfg_Admin := (cfg_Admin c)\<lparr>adm_Logs := logs'\<rparr>\<rparr>))"

definition EnabledEffective :: "SessionSnapshotConfig \<Rightarrow> bool" where
  "EnabledEffective s = (ssc_Enabled s = None \<or> ssc_Enabled s = Some True)"

definition CompressionEnabled :: "AdminLogsRotationConfig \<Rightarrow> bool" where
  "CompressionEnabled r = (rot_Compress r = None \<or> rot_Compress r = Some True)"

definition ListenAddresses :: "Config \<Rightarrow> string list" where
  "ListenAddresses c =
     (if cfg_Listeners c \<noteq> [] then map ls_Listen (cfg_Listeners c)
      else if cfg_ServerListen c = [] then [] else [cfg_ServerListen c])"

definition ListenAddress :: "Config \<Rightarrow> string" where
  "ListenAddress c = (case ListenAddresses c of [] \<Rightarrow> [] | a # _ \<Rightarrow> a)"

definition InboundByName :: "Config \<Rightarrow> string \<Rightarrow> InboundSpec" where
  "InboundByName c n =
     (case find (\<lambda>i. in_Name i = n) (cfg_Inbounds c) of
        Some i \<Rightarrow> i
      | None \<Rightarrow> \<lparr>in_Name = [], in_Protocol = [], in_Path = [], in_Clients = []\<rparr>)"

definition ListenerInbounds :: "Config \<Rightarrow> ListenerSpec \<Rightarrow> InboundSpec list" where
  "ListenerInbounds c l = filter (\<lambda>i. in_Name i \<noteq> []) (map (InboundByName c) (ls_Inbounds l))"

section \<open>Quota windows\<close>

fun quota_windows_loop :: "(rat \<Rightarrow> rat) \<Rightarrow> string \<Rightarrow> nat \<Rightarrow> string list \<Rightarrow> QuotaWindowConfig list \<Rightarrow> string option" where
  "quota_windows_loop rnd pfx i seen [] = None"
| "quota_windows_loop rnd pfx i seen (w # ws) =
     (let p = pfx @ ''.windows'' @ index_text i
      in first_error
           [fail_if (qw_Name w = []) (p @ ''.name is required''),
            fail_if (qw_Name w \<in> set seen) (p @ ''.name duplicates '' @ quoted (qw_Name w)),
            fail_if (DurationValue_Duration rnd (qw_Duration w) \<le> 0) (p @ ''.duration must be a positive duration''),
            (if qw_Type w = ''requests'' then
               first_error
                 [fail_if (qw_MaxRequests w \<le> 0) (p @ ''.max_requests must be greater than 0''),
                  fail_if (qw_MaxTokens w \<noteq> 0 \<or> qw_MaxCostUSD w \<noteq> []) (p @ '' type=requests only supports max_requests'')]
             else if qw_Type w = ''tokens'' then
               first_error
                 [fail_if (qw_MaxTokens w \<le> 0) (p @ ''.max_tokens must be greater than 0''),
                  fail_if (qw_MaxRequests w \<noteq> 0 \<or> qw_MaxCostUSD w \<noteq> []) (p @ '' type=tokens only supports max_tokens'')]
             else if qw_Type w = ''cost'' then
               first_error
                 [fail_if (qw_MaxRequests w \<noteq> 0 \<or> qw_MaxTokens w \<noteq> 0) (p @ '' type=cost only supports max_cost_usd''),
                  (case costUSDMicro (qw_MaxCostUSD w) of
                     Inr _ \<Rightarrow> None
                   | Inl e \<Rightarrow> Some (p @ ''.max_cost_usd '' @
                       (case e of CostNotPositive \<Rightarrow> ''must be greater than 0''
                        | CostNotDecimal \<Rightarrow> ''must be a positive decimal with at most 6 fractional digits''
                        | CostTooManyDigits \<Rightarrow> ''must have at most 6 fractional digits''
                        | CostTooLarge \<Rightarrow> ''is too large'')))]
             else Some (p @ ''.type '' @ quoted (qw_Type w) @ '' is unsupported'')),
            quota_windows_loop rnd pfx (Suc i) (qw_Name w # seen) ws])"

definition validateQuotaWindows :: "(rat \<Rightarrow> rat) \<Rightarrow> string \<Rightarrow> QuotaWindowConfig list \<Rightarrow> string option" where
  "validateQuotaWindows rnd pfx ws =
     (if ws = [] then Some (pfx @ ''.windows is required when quota is enabled'')
      else quota_windows_loop rnd pfx 0 [] ws)"

definition validateClientQuota :: "(rat \<Rightarrow> rat) \<Rightarrow> nat \<Rightarrow> ClientSpec \<Rightarrow> string option" where
  "validateClientQuota rnd i c =
     (if \<not> cq_Enabled (cl_Quota c) then None
      else validateQuotaWindows rnd (''clients'' @ index_text i @ ''.quota'') (cq_Windows (cl_Quota c)))"

definition validWeekday :: "string \<Rightarrow> bool" where
  "validWeekday v = (v \<in> {''monday'', ''tuesday'', ''wednesday'', ''thursday'', ''friday'', ''saturday'', ''sunday''})"

definition validateWallClock :: "(string \<Rightarrow> location option) \<Rightarrow> string \<Rightarrow> string \<Rightarrow> string \<Rightarrow> string option" where
  "validateWallClock loadLocation pfx clockText timezone =
     first_error
       [fail_if (clockText = []) (pfx @ ''.time is required''),
        fail_if (parse_clock False clockText = None \<and> parse_clock True clockText = None) (pfx @ ''.time must use HH:MM[:SS]''),
        fail_if (timezone = []) (pfx @ ''.timezone is required''),
        fail_if (loadLocation timezone = None) (pfx @ ''.timezone must be a valid IANA timezone'')]"

definition validateRFC3339Anchor :: "(string \<Rightarrow> string) \<Rightarrow> string \<Rightarrow> string \<Rightarrow> string option" where
  "validateRFC3339Anchor timeError field v =
     first_error
       [fail_if (v = []) (field @ '' is required''),
        fail_if (parse_RFC3339 v = None) (field @ '' must be RFC3339: '' @ timeError v),
        fail_if (\<not> HasSuffix v ''Z'' \<and> (length v < 6 \<or> (v ! (length v - 6) \<noteq> CHR ''+'' \<and> v ! (length v - 6) \<noteq> CHR ''-'')))
          (field @ '' must include an explicit offset'')]"

definition validateFixedWindowSchedule ::
  "(rat \<Rightarrow> rat) \<Rightarrow> (string \<Rightarrow> location option) \<Rightarrow> (string \<Rightarrow> string) \<Rightarrow> string \<Rightarrow> OutboundQuotaWindowConfig \<Rightarrow> string option" where
  "validateFixedWindowSchedule rnd loadLocation timeError pfx w =
     (let fixed = oqw_Fixed w
      in if fx_Period fixed = [] then Some (pfx @ ''.fixed.period is required when reset=fixed'')
         else if fx_Period fixed = ''interval'' then
           first_error
             [fail_if (DurationValue_Duration rnd (oqw_Duration w) \<le> 0) (pfx @ ''.duration must be a positive duration when fixed.period=interval''),
              validateRFC3339Anchor timeError (pfx @ ''.fixed.anchor'') (fx_Anchor fixed),
              fail_if (fx_Time fixed \<noteq> [] \<or> fx_Timezone fixed \<noteq> [] \<or> fx_Weekday fixed \<noteq> [])
                (pfx @ ''.fixed time, timezone, and weekday are not supported when period=interval'')]
         else if fx_Period fixed = ''daily'' then
           first_error
             [fail_if (oqw_Duration w \<noteq> [] \<or> fx_Anchor fixed \<noteq> [] \<or> fx_Weekday fixed \<noteq> [])
                (pfx @ '' duration, fixed.anchor, and fixed.weekday are not supported when fixed.period=daily''),
              validateWallClock loadLocation (pfx @ ''.fixed'') (fx_Time fixed) (fx_Timezone fixed)]
         else if fx_Period fixed = ''weekly'' then
           first_error
             [fail_if (oqw_Duration w \<noteq> [] \<or> fx_Anchor fixed \<noteq> [])
                (pfx @ '' duration and fixed.anchor are not supported when fixed.period=weekly''),
              validateWallClock loadLocation (pfx @ ''.fixed'') (fx_Time fixed) (fx_Timezone fixed),
              fail_if (\<not> validWeekday (fx_Weekday fixed)) (pfx @ ''.fixed.weekday must be monday-sunday'')]
         else Some (pfx @ ''.fixed.period '' @ quoted (fx_Period fixed) @ '' is unsupported''))"

definition empty_fixed :: QuotaFixedScheduleConfig where
  "empty_fixed = \<lparr>fx_Period = [], fx_Anchor = [], fx_Time = [], fx_Timezone = [], fx_Weekday = []\<rparr>"

definition empty_reset_schedule :: QuotaResetScheduleConfig where
  "empty_reset_schedule = \<lparr>rs_Period = [], rs_Duration = [], rs_Anchor = [], rs_Time = [], rs_Timezone = [], rs_Weekday = []\<rparr>"

definition validateResetSchedule ::
  "(rat \<Rightarrow> rat) \<Rightarrow> (string \<Rightarrow> location option) \<Rightarrow> (string \<Rightarrow> string) \<Rightarrow> string \<Rightarrow> QuotaResetScheduleConfig \<Rightarrow> string option" where
  "validateResetSchedule rnd loadLocation timeError pfx s =
     (if rs_Period s = ''interval'' then
        first_error
          [fail_if (DurationValue_Duration rnd (rs_Duration s) \<le> 0) (pfx @ ''.duration must be a positive duration when period=interval''),
           validateRFC3339Anchor timeError (pfx @ ''.anchor'') (rs_Anchor s),
           fail_if (rs_Time s \<noteq> [] \<or> rs_Timezone s \<noteq> [] \<or> rs_Weekday s \<noteq> [])
             (pfx @ '' time, timezone, and weekday are not supported when period=interval'')]
      else if rs_Period s = ''daily'' then
        first_error
          [fail_if (rs_Duration s \<noteq> [] \<or> rs_Anchor s \<noteq> [] \<or> rs_Weekday s \<noteq> [])
             (pfx @ '' duration, anchor, and weekday are not supported when period=daily''),
           validateWallClock loadLocation pfx (rs_Time s) (rs_Timezone s)]
      else if rs_Period s = ''weekly'' then
        first_error
          [fail_if (rs_Duration s \<noteq> [] \<or> rs_Anchor s \<noteq> []) (pfx @ '' duration and anchor are not supported when period=weekly''),
           validateWallClock loadLocation pfx (rs_Time s) (rs_Timezone s),
           fail_if (\<not> validWeekday (rs_Weekday s)) (pfx @ ''.weekday must be monday-sunday'')]
      else Some (pfx @ ''.period '' @ quoted (rs_Period s) @ '' is unsupported''))"

fun outbound_windows_loop ::
  "(rat \<Rightarrow> rat) \<Rightarrow> (string \<Rightarrow> location option) \<Rightarrow> (string \<Rightarrow> string) \<Rightarrow> string \<Rightarrow> nat \<Rightarrow> string list \<Rightarrow>
    OutboundQuotaWindowConfig list \<Rightarrow> string option" where
  "outbound_windows_loop rnd loadLocation timeError pfx i seen [] = None"
| "outbound_windows_loop rnd loadLocation timeError pfx i seen (w # ws) =
     (let p = pfx @ ''.windows'' @ index_text i
      in first_error
           [fail_if (oqw_Name w = []) (p @ ''.name is required''),
            fail_if (oqw_Name w \<in> set seen) (p @ ''.name duplicates '' @ quoted (oqw_Name w)),
            fail_if (oqw_MaxRequests w < 0) (p @ ''.max_requests must be greater than or equal to 0''),
            fail_if (oqw_MaxTokens w < 0) (p @ ''.max_tokens must be greater than or equal to 0''),
            fail_if (oqw_MaxRequests w = 0 \<and> oqw_MaxTokens w = 0) (p @ '' requires max_requests or max_tokens greater than 0''),
            (if oqw_Reset w = ''rolling'' then
               first_error
                 [fail_if (DurationValue_Duration rnd (oqw_Duration w) \<le> 0) (p @ ''.duration must be a positive duration when reset=rolling''),
                  fail_if (oqw_Fixed w \<noteq> empty_fixed) (p @ ''.fixed is only supported when reset=fixed'')]
             else if oqw_Reset w = ''fixed'' then validateFixedWindowSchedule rnd loadLocation timeError p w
             else Some (p @ ''.reset '' @ quoted (oqw_Reset w) @ '' is unsupported'')),
            outbound_windows_loop rnd loadLocation timeError pfx (Suc i) (oqw_Name w # seen) ws])"

definition validateOutboundQuotaWindows ::
  "(rat \<Rightarrow> rat) \<Rightarrow> (string \<Rightarrow> location option) \<Rightarrow> (string \<Rightarrow> string) \<Rightarrow> string \<Rightarrow> OutboundQuotaWindowConfig list \<Rightarrow> string option" where
  "validateOutboundQuotaWindows rnd loadLocation timeError pfx ws =
     (if ws = [] then Some (pfx @ ''.windows is required when quota is enabled'')
      else outbound_windows_loop rnd loadLocation timeError pfx 0 [] ws)"

definition validateOutboundQuota ::
  "(rat \<Rightarrow> rat) \<Rightarrow> (string \<Rightarrow> location option) \<Rightarrow> (string \<Rightarrow> string) \<Rightarrow> OutboundSpec \<Rightarrow> string option" where
  "validateOutboundQuota rnd loadLocation timeError x =
     (let quota = ob_Quota x; pfx = ''outbounds.'' @ ob_Name x @ ''.quota''
      in if \<not> oq_Enabled quota then None
         else first_error
           [validateOutboundQuotaWindows rnd loadLocation timeError pfx (oq_Windows quota),
            fail_if (DurationValue_Duration rnd (oq_Cooldown quota) \<le> 0) (pfx @ ''.cooldown must be a positive duration''),
            fail_if (DurationValue_Duration rnd (oq_ProbeInterval quota) \<le> 0) (pfx @ ''.probe_interval must be a positive duration''),
            (if ra_Enabled (oq_ResetAll quota) \<or> ra_Schedule (oq_ResetAll quota) \<noteq> empty_reset_schedule
             then validateResetSchedule rnd loadLocation timeError (pfx @ ''.reset_all.schedule'') (ra_Schedule (oq_ResetAll quota))
             else None)])"

section \<open>Outbounds\<close>

definition ContainsAny :: "string \<Rightarrow> string \<Rightarrow> bool" where
  "ContainsAny s chars = list_ex (\<lambda>c. c \<in> set chars) s"

definition validateOutboundAuth :: "OutboundSpec \<Rightarrow> string option" where
  "validateOutboundAuth x =
     (let authType = TrimSpace (au_Type (ob_Auth x)); credentialRef = TrimSpace (au_CredentialRef (ob_Auth x));
          p = ''outbounds.'' @ ob_Name x
      in if authType = [] then fail_if (credentialRef \<noteq> []) (p @ ''.auth.credential_ref requires auth.type'')
         else first_error
           [fail_if (ob_AuthToken x \<noteq> []) (p @ ''.auth cannot be used with auth_token''),
            fail_if (credentialRef = []) (p @ ''.auth.credential_ref is required''),
            fail_if (ContainsAny credentialRef [CHR ''/'', CHR 92] \<or> TrimSpace credentialRef \<noteq> credentialRef)
              (p @ ''.auth.credential_ref is invalid''),
            (if authType = ''claude_consumer_oauth'' then
               fail_if (ob_Protocol x \<noteq> ''anthropic_messages'') (p @ ''.auth.type claude_consumer_oauth requires anthropic_messages'')
             else if authType = ''codex_consumer_oauth'' then
               fail_if (ob_Protocol x \<noteq> ''openai_responses'') (p @ ''.auth.type codex_consumer_oauth requires openai_responses'')
             else Some (p @ ''.auth.type '' @ quoted authType @ '' is unsupported'')),
            fail_if (ob_Endpoint x \<noteq> []) (p @ ''.endpoint must be empty for OAuth consumer compatibility'')])"

text \<open>\<open>seen\<close> maps a name or alias to the field that declared it.\<close>

fun aliases_loop :: "string \<Rightarrow> nat \<Rightarrow> string list \<Rightarrow> (string \<times> string) list \<Rightarrow> string option \<times> (string \<times> string) list" where
  "aliases_loop pfx j [] seen = (None, seen)"
| "aliases_loop pfx j (a # aliases) seen =
     (let field = pfx @ ''.aliases'' @ index_text j
      in if a = [] \<or> TrimSpace a \<noteq> a then (Some (field @ '' must be non-empty and trimmed''), seen)
         else (case map_of seen a of
                 Some owner \<Rightarrow> (Some (field @ '' '' @ quoted a @ '' conflicts with '' @ owner), seen)
               | None \<Rightarrow> aliases_loop pfx (Suc j) aliases ((a, field) # seen)))"

fun models_loop :: "string \<Rightarrow> nat \<Rightarrow> OutboundModelSpec list \<Rightarrow> (string \<times> string) list \<Rightarrow> string option" where
  "models_loop name i [] seen = None"
| "models_loop name i (m # models) seen =
     (let pfx = ''outbounds.'' @ name @ ''.models'' @ index_text i
      in if om_Name m = [] \<or> TrimSpace (om_Name m) \<noteq> om_Name m then Some (pfx @ ''.name must be non-empty and trimmed'')
         else (case map_of seen (om_Name m) of
                 Some owner \<Rightarrow> Some (pfx @ ''.name '' @ quoted (om_Name m) @ '' conflicts with '' @ owner)
               | None \<Rightarrow>
                   (case aliases_loop pfx 0 (om_Aliases m) ((om_Name m, pfx @ ''.name'') # seen) of
                      (Some e, _) \<Rightarrow> Some e
                    | (None, seen') \<Rightarrow> models_loop name (Suc i) models seen')))"

definition validateOutboundModels :: "OutboundSpec \<Rightarrow> string option" where
  "validateOutboundModels x = models_loop (ob_Name x) 0 (ob_Models x) []"

definition validateOutboundProxy :: "(string \<Rightarrow> string + string \<times> string) \<Rightarrow> OutboundSpec \<Rightarrow> string option" where
  "validateOutboundProxy parseURL x =
     (let proxyURL = TrimSpace (ob_ProxyURL x); p = ''outbounds.'' @ ob_Name x @ ''.proxy.url''
      in if proxyURL = [] then None
         else (case parseURL proxyURL of
                 Inl err \<Rightarrow> Some (p @ '' is invalid: '' @ err)
               | Inr (host, scheme) \<Rightarrow>
                   if host = [] then Some (p @ '' host is required'')
                   else if scheme \<in> {''http'', ''https'', ''socks5''} then None
                   else Some (p @ '' has unsupported scheme '' @ quoted scheme)))"

definition no_capabilities :: OutboundCapabilities where
  "no_capabilities = \<lparr>ca_ResponsesPreviousResponseID = None, ca_ResponsesBuiltinTools = None,
     ca_ResponsesToolResultStatusError = None, ca_ResponsesAssistantHistoryNative = None, ca_UsageEstimation = False,
     ca_UsageEstimationMode = []\<rparr>"

text \<open>The body of the loop over the outbounds.\<close>

definition validate_outbound ::
  "(rat \<Rightarrow> rat) \<Rightarrow> (string \<Rightarrow> location option) \<Rightarrow> (string \<Rightarrow> string) \<Rightarrow> (string \<Rightarrow> string + string \<times> string) \<Rightarrow> OutboundSpec \<Rightarrow> string option" where
  "validate_outbound rnd loadLocation timeError parseURL x =
     (let p = ''outbounds.'' @ ob_Name x; cap = ob_Capabilities x
      in first_error
        [fail_if (ob_Name x = []) ''outbounds.name is required'',
         fail_if (ob_Protocol x = []) (p @ ''.protocol is required''),
         fail_if (\<not> IsSupportedOutbound (ob_Protocol x)) (p @ ''.protocol '' @ quoted (ob_Protocol x) @ '' is unsupported''),
         fail_if (ob_Tag x = []) (p @ ''.tag is required''),
         validateOutboundAuth x,
         (if ob_Protocol x \<in> {''openai_chat'', ''openai_responses'', ''anthropic_messages''}
             \<and> au_Type (ob_Auth x) \<noteq> ''claude_consumer_oauth'' \<and> au_Type (ob_Auth x) \<noteq> ''codex_consumer_oauth''
          then first_error [fail_if (ob_Endpoint x = []) (p @ ''.endpoint is required''),
                            fail_if (ob_AuthToken x = []) (p @ ''.auth_token is required'')]
          else None),
         (if ob_Protocol x \<in> {''openai_chat'', ''anthropic_messages''} then
            fail_if (ca_ResponsesPreviousResponseID cap \<noteq> None \<or> ca_ResponsesBuiltinTools cap \<noteq> None
                     \<or> ca_ResponsesToolResultStatusError cap \<noteq> None \<or> ca_ResponsesAssistantHistoryNative cap \<noteq> None)
              (p @ ''.responses capabilities are only supported for openai_responses'')
          else if ob_Protocol x = ''mock'' then fail_if (cap \<noteq> no_capabilities) (p @ ''.capabilities is unsupported for mock'')
          else None),
         fail_if (ca_UsageEstimationMode cap \<noteq> [] \<and> \<not> ca_UsageEstimation cap) (p @ ''.usage_estimation_mode requires usage_estimation=true''),
         (if ca_UsageEstimation cap then
            first_error
              [fail_if (ob_Protocol x \<noteq> ''openai_chat'' \<and> ob_Protocol x \<noteq> ''anthropic_messages'')
                 (p @ ''.usage_estimation is only supported for openai_chat and anthropic_messages''),
               fail_if (ca_UsageEstimationMode cap = []) (p @ ''.usage_estimation_mode is required when usage_estimation is enabled''),
               fail_if (ca_UsageEstimationMode cap \<noteq> ''heuristic'')
                 (p @ ''.usage_estimation_mode '' @ quoted (ca_UsageEstimationMode cap) @ '' is unsupported'')]
          else None),
         validateOutboundModels x,
         validateOutboundProxy parseURL x,
         validateOutboundQuota rnd loadLocation timeError x])"

section \<open>Clients, inbounds and listeners\<close>

fun clients_loop :: "(rat \<Rightarrow> rat) \<Rightarrow> nat \<Rightarrow> string list \<Rightarrow> (string \<times> string) list \<Rightarrow> ClientSpec list \<Rightarrow> string option" where
  "clients_loop rnd i names tokens [] = None"
| "clients_loop rnd i names tokens (c # cs) =
     (let p = ''clients'' @ index_text i
      in first_error
        [fail_if (cl_Name c = []) (p @ ''.name is required''),
         fail_if (cl_Token c = []) (p @ ''.token is required''),
         fail_if (cl_Name c \<in> set names) (p @ ''.name duplicates '' @ quoted (cl_Name c)),
         (case map_of tokens (cl_Token c) of
            Some owner \<Rightarrow> Some (p @ ''.token duplicates token used by '' @ owner)
          | None \<Rightarrow> None),
         validateClientQuota rnd i c,
         clients_loop rnd (Suc i) (cl_Name c # names) ((cl_Token c, cl_Name c) # tokens) cs])"

fun bindings_loop :: "string \<Rightarrow> string list \<Rightarrow> nat \<Rightarrow> string list \<Rightarrow> ClientBindingSpec list \<Rightarrow> string option" where
  "bindings_loop inbound clientNames i refs [] = None"
| "bindings_loop inbound clientNames i refs (b # bs) =
     (let p = ''inbounds.'' @ inbound @ ''.clients'' @ index_text i
      in first_error
        [fail_if (cb_Ref b = []) (p @ ''.ref is required''),
         fail_if (cb_Tag b = []) (p @ ''.tag is required''),
         fail_if (cb_Ref b \<notin> set clientNames) (p @ ''.ref '' @ quoted (cb_Ref b) @ '' not found in clients''),
         fail_if (cb_Ref b \<in> set refs) (p @ ''.ref duplicates '' @ quoted (cb_Ref b)),
         bindings_loop inbound clientNames (Suc i) (cb_Ref b # refs) bs])"

definition validate_inbound :: "string list \<Rightarrow> InboundSpec \<Rightarrow> string option" where
  "validate_inbound clientNames i =
     (let p = ''inbounds.'' @ in_Name i
      in first_error
        [fail_if (in_Name i = []) ''inbounds.name is required'',
         fail_if (in_Protocol i = []) (p @ ''.protocol is required''),
         fail_if (\<not> IsSupportedInbound (in_Protocol i)) (p @ ''.protocol '' @ quoted (in_Protocol i) @ '' is unsupported''),
         fail_if (in_Path i = []) (p @ ''.path is required''),
         bindings_loop (in_Name i) clientNames 0 [] (in_Clients i)])"

definition validate_listener :: "string list \<Rightarrow> ListenerSpec \<Rightarrow> string option" where
  "validate_listener inputNames l =
     (let p = ''listeners.'' @ ls_Name l
      in first_error
        ([fail_if (ls_Name l = []) ''listeners.name is required'',
          fail_if (ls_Listen l = []) (p @ ''.listen is required''),
          fail_if (ls_Inbounds l = []) (p @ ''.inbounds is required'')] @
         map (\<lambda>n. fail_if (n \<notin> set inputNames) (p @ ''.inbound '' @ quoted n @ '' not found in inbounds'')) (ls_Inbounds l)))"

section \<open>Admin, accounting and governance\<close>

definition validateAdmin :: "AdminConfig \<Rightarrow> (string \<times> string) list \<Rightarrow> AccountingConfig \<Rightarrow> string option" where
  "validateAdmin cfg clientTokens acc =
     (let logs = adm_Logs cfg; rotation = alog_Rotation logs
      in first_error
        [(if alog_Enabled logs then
            first_error
              [fail_if (alog_Path logs = []) ''admin.logs.path is required when admin.logs.enabled=true'',
               fail_if (alog_MaxBytes logs \<le> 0) ''admin.logs.max_bytes must be greater than 0'',
               fail_if (rot_MaxSizeMB rotation \<le> 0) ''admin.logs.rotation.max_size_mb must be greater than 0'',
               fail_if (rot_MaxFiles rotation \<le> 0) ''admin.logs.rotation.max_files must be greater than 0'',
               fail_if (rot_MaxAgeDays rotation \<le> 0) ''admin.logs.rotation.max_age_days must be greater than 0'',
               fail_if (rot_MaxTotalSizeMB rotation \<le> 0) ''admin.logs.rotation.max_total_size_mb must be greater than 0'']
          else None),
         (if \<not> adm_Enabled cfg then None
          else first_error
            [fail_if (adm_Token cfg = []) ''admin.token is required when admin.enabled=true'',
             (case map_of clientTokens (adm_Token cfg) of
                Some owner \<Rightarrow> Some (''admin.token duplicates client token used by '' @ owner)
              | None \<Rightarrow> None),
             fail_if (ac_AdminToken acc \<noteq> [] \<and> adm_Token cfg = ac_AdminToken acc)
               ''admin.token must be different from accounting.admin_token''])])"

definition validateGovernance :: "(rat \<Rightarrow> rat) \<Rightarrow> GovernanceConfig \<Rightarrow> string option" where
  "validateGovernance rnd cfg =
     first_error
       [(if gov_SnapshotEnabled cfg then
           first_error
             [fail_if (gov_SnapshotDir cfg = []) ''governance.quota.snapshot.dir is required when governance.quota.snapshot.enabled=true'',
              fail_if (DurationValue_Duration rnd (gov_SnapshotFlushInterval cfg) \<le> 0)
                ''governance.quota.snapshot.flush_interval must be a positive duration'']
         else None),
        fail_if (gov_EventsEnabled cfg \<and> gov_EventsMaxEntries cfg \<le> 0)
          ''governance.quota.events.max_entries must be greater than 0'']"

definition validateAccountingLocalFile :: "(rat \<Rightarrow> rat) \<Rightarrow> AccountingLocalFileConfig \<Rightarrow> string option" where
  "validateAccountingLocalFile rnd cfg =
     first_error
       [fail_if (alf_Dir cfg = []) ''accounting.local_file.dir is required when accounting.backend=local_file'',
        fail_if (alf_RotateMaxSizeMB cfg \<le> 0) ''accounting.local_file.rotate_max_size_mb must be greater than 0'',
        fail_if (alf_RetentionDays cfg < 0) ''accounting.local_file.retention_days must be greater than or equal to 0'',
        fail_if (alf_SnapshotRetentionDays cfg < 0) ''accounting.local_file.snapshot_retention_days must be greater than or equal to 0'',
        fail_if (alf_WriteBufferRecords cfg \<le> 0) ''accounting.local_file.write_buffer_records must be greater than 0'',
        fail_if (alf_QueueSize cfg \<le> 0) ''accounting.local_file.queue_size must be greater than 0'',
        fail_if (DurationValue_Duration rnd (alf_FlushInterval cfg) \<le> 0) ''accounting.local_file.flush_interval must be a positive duration'',
        fail_if (alf_SnapshotInterval cfg \<noteq> [] \<and> DurationValue_Duration rnd (alf_SnapshotInterval cfg) \<le> 0)
          ''accounting.local_file.snapshot_interval must be a positive duration'']"

fun pricing_loop :: "nat \<Rightarrow> AccountingPriceConfig list \<Rightarrow> string option" where
  "pricing_loop i [] = None"
| "pricing_loop i (item # items) =
     first_error
       [fail_if (pr_Model item = []) (''accounting.pricing'' @ index_text i @ ''.model is required''),
        fail_if (pr_InputPerMillionUSD item < 0 \<or> pr_OutputPerMillionUSD item < 0 \<or> pr_CacheCreatePerMillionUSD item < 0
                 \<or> pr_CacheReadPerMillionUSD item < 0)
          (''accounting.pricing'' @ index_text i @ '' rates must be greater than or equal to 0''),
        pricing_loop (Suc i) items]"

definition validateAccountingPricing :: "AccountingPriceConfig list \<Rightarrow> string option" where
  "validateAccountingPricing items = pricing_loop 0 items"

definition validate_accounting :: "(rat \<Rightarrow> rat) \<Rightarrow> AccountingConfig \<Rightarrow> string option" where
  "validate_accounting rnd acc =
     (if \<not> ac_Enabled acc then None
      else (let backend = default_to [] ''memory'' (ac_Backend acc)
            in first_error
              [(if backend = ''memory'' then None
                else if backend = ''local_file'' then validateAccountingLocalFile rnd (ac_LocalFile acc)
                else Some (''accounting.backend '' @ quoted backend @ '' is unsupported'')),
               fail_if (ac_ExposeHTTP acc \<and> ac_AdminToken acc = [])
                 ''accounting.admin_token is required when accounting.expose_http is enabled'',
               validateAccountingPricing (ac_Pricing acc)]))"

section \<open>Routing rules\<close>

fun patterns_loop :: "string \<Rightarrow> nat \<Rightarrow> string list \<Rightarrow> string list \<Rightarrow> string option" where
  "patterns_loop pfx j seen [] = None"
| "patterns_loop pfx j seen (pat # pats) =
     (let field = pfx @ ''.match.models'' @ index_text j
      in first_error
        [fail_if (pat = []) (field @ '' must not be empty''),
         fail_if (TrimSpace pat \<noteq> pat) (field @ '' must not have leading or trailing whitespace''),
         fail_if (has_control pat) (field @ '' must not contain control characters''),
         fail_if (pat \<in> set seen) (field @ '' duplicates pattern '' @ quoted pat),
         patterns_loop pfx (Suc j) (pat # seen) pats])"

definition validate_rule :: "string list \<Rightarrow> nat \<Rightarrow> RoutingRule \<Rightarrow> string option" where
  "validate_rule outboundTags i rule =
     (let p = ''routing.rules'' @ index_text i
      in first_error
        [fail_if (rr_FromTags rule = []) (p @ ''.from_tags is required''),
         (case rr_Match rule of
            None \<Rightarrow> None
          | Some pats \<Rightarrow>
              if pats = [] then Some (p @ ''.match.models must contain at least one pattern'') else patterns_loop p 0 [] pats),
         fail_if (rr_ToTags rule = []) (p @ ''.to_tags is required''),
         fail_if (rr_Strategy rule = []) (p @ ''.strategy is required''),
         fail_if (rr_Strategy rule \<noteq> ''failover'' \<and> rr_Strategy rule \<noteq> ''round_robin'' \<and> rr_Strategy rule \<noteq> ''weighted_round_robin'')
           (p @ ''.strategy '' @ quoted (rr_Strategy rule) @ '' is unsupported''),
         first_error (map (\<lambda>tag. fail_if (tag \<notin> set outboundTags) (p @ ''.to_tags '' @ quoted tag @ '' not found in outbounds''))
           (rr_ToTags rule)),
         fail_if (rr_TargetModel rule \<noteq> [] \<and> rr_ModelMap rule \<noteq> []) (p @ ''.model_map cannot be used with target_model''),
         first_error (map (\<lambda>(from, to). first_error
             [fail_if (from = []) (p @ ''.model_map contains empty source model''),
              fail_if (to = []) (p @ ''.model_map.'' @ from @ '' must not be empty'')]) (rr_ModelMap rule)),
         (if rr_Strategy rule = ''weighted_round_robin'' then
            first_error
              [fail_if (rr_Weights rule = []) (p @ ''.weights is required when strategy=weighted_round_robin''),
               first_error (map (\<lambda>tag.
                   (case map_of (rr_Weights rule) tag of
                      None \<Rightarrow> Some (p @ ''.weights.'' @ tag @ '' is required'')
                    | Some weight \<Rightarrow> fail_if (weight \<le> 0) (p @ ''.weights.'' @ tag @ '' must be greater than 0''))) (rr_ToTags rule)),
               first_error (map (\<lambda>(tag, w). fail_if (tag \<notin> set (rr_ToTags rule))
                   (p @ ''.weights.'' @ tag @ '' does not match any to_tags entry'')) (rr_Weights rule))]
          else fail_if (rr_Weights rule \<noteq> []) (p @ ''.weights is only supported when strategy=weighted_round_robin''))])"

section \<open>The configuration\<close>

fun rules_loop :: "string list \<Rightarrow> nat \<Rightarrow> RoutingRule list \<Rightarrow> string option" where
  "rules_loop outboundTags i [] = None"
| "rules_loop outboundTags i (r # rs) = first_error [validate_rule outboundTags i r, rules_loop outboundTags (Suc i) rs]"

text \<open>\<open>Validate\<close> returns its error together with the configuration of the caller afterwards.\<close>

definition Validate ::
  "(rat \<Rightarrow> rat) \<Rightarrow> (string \<Rightarrow> location option) \<Rightarrow> (string \<Rightarrow> string) \<Rightarrow> (string \<Rightarrow> string + string \<times> string) \<Rightarrow> Config \<Rightarrow>
    string option \<times> Config" where
  "Validate rnd loadLocation timeError parseURL cfg =
     (let c = applyDefaults cfg; snapshot = cfg_SessionSnapshot c;
          clientNames = map cl_Name (cfg_Clients c);
          tokens = rev (map (\<lambda>x. (cl_Token x, cl_Name x)) (cfg_Clients c))
      in (first_error
        [(if EnabledEffective snapshot then
            first_error
              [fail_if (TrimSpace (ssc_Dir snapshot) = []) ''sessions.snapshot.dir is required'',
               fail_if (DurationValue_Duration rnd (ssc_FlushInterval snapshot) \<le> 0) ''sessions.snapshot.flush_interval must be positive'']
          else None),
         fail_if (ListenAddresses c = []) ''server.listen or listeners is required'',
         fail_if (cfg_Outbounds c = []) ''at least one outbound is required'',
         fail_if (cfg_Rules c = []) ''at least one routing rule is required'',
         clients_loop rnd 0 [] [] (cfg_Clients c),
         first_error (map (validate_inbound clientNames) (cfg_Inbounds c)),
         fail_if (cfg_Listeners c \<noteq> [] \<and> cfg_Inbounds c = []) ''at least one inbound is required when listeners are configured'',
         first_error (map (validate_listener (map in_Name (cfg_Inbounds c))) (cfg_Listeners c)),
         validateAdmin (cfg_Admin c) tokens (cfg_Accounting c),
         validate_accounting rnd (cfg_Accounting c),
         validateGovernance rnd (cfg_Governance c),
         first_error (map (validate_outbound rnd loadLocation timeError parseURL) (cfg_Outbounds c)),
         rules_loop (map ob_Tag (cfg_Outbounds c)) 0 (cfg_Rules c)],
       window_defaults cfg))"

end
