(* ===== verification/Config_Laws.thy ===== *)
theory Config_Laws
  imports Config_Validate Dispatch_Laws
begin

text \<open>
  What a validated configuration guarantees the components that are built from it: the router starts and its
  plans are well formed, and the request limits of the clients hold.
\<close>

section \<open>What the loops check\<close>

lemma clients_loop_ok:
  assumes "clients_loop rnd i names tokens cs = None"
  shows "distinct (map cl_Name cs) \<and> set (map cl_Name cs) \<inter> set names = {} \<and>
    (\<forall>c \<in> set cs. cl_Name c \<noteq> [] \<and> cl_Token c \<noteq> [] \<and> (\<exists>j. validateClientQuota rnd j c = None)) \<and>
    distinct (map cl_Token cs) \<and> set (map cl_Token cs) \<inter> fst ` set tokens = {}"
  using assms
proof (induction cs arbitrary: i names tokens)
  case Nil
  then show ?case by simp
next
  case (Cons c cs)
  then have loop: "clients_loop rnd (Suc i) (cl_Name c # names) ((cl_Token c, cl_Name c) # tokens) cs = None"
    and c: "cl_Name c \<noteq> []" "cl_Token c \<noteq> []" "cl_Name c \<notin> set names" "validateClientQuota rnd i c = None"
      "cl_Token c \<notin> fst ` set tokens"
    by (auto simp: Let_def split: option.splits dest: map_of_eq_None_iff [THEN iffD1])
  show ?case using Cons.IH [OF loop] c by auto
qed

lemma costUSDMicro_positive: "costUSDMicro t = Inr v \<Longrightarrow> 0 < v"
  by (auto simp: costUSDMicro_def Let_def split: if_splits option.splits)

lemma quota_windows_loop_ok:
  assumes "quota_windows_loop rnd pfx i seen ws = None" and "w \<in> set ws"
  shows "0 < DurationValue_Duration rnd (qw_Duration w) \<and> qw_Type w \<in> {''requests'', ''tokens'', ''cost''}
    \<and> (qw_Type w = ''requests'' \<longrightarrow> 0 < qw_MaxRequests w)
    \<and> (qw_Type w = ''tokens'' \<longrightarrow> 0 < qw_MaxTokens w)
    \<and> (qw_Type w = ''cost'' \<longrightarrow> 0 < MaxCostMicroUSD w)"
  using assms
proof (induction ws arbitrary: i seen)
  case Nil
  then show ?case by simp
next
  case (Cons v ws)
  then have "quota_windows_loop rnd pfx (Suc i) (qw_Name v # seen) ws = None" by (simp add: Let_def)
  then show ?case
    using Cons by (cases "w = v") (auto simp: Let_def MaxCostMicroUSD_def costUSDMicro_positive not_le split: if_splits sum.splits)
qed


lemma validateQuotaWindows_ok:
  "validateQuotaWindows rnd pfx ws = None \<Longrightarrow> ws \<noteq> [] \<and> quota_windows_loop rnd pfx 0 [] ws = None"
  by (simp add: validateQuotaWindows_def split: if_splits)

lemma rules_loop_ok: "rules_loop tags i rs = None \<Longrightarrow> r \<in> set rs \<Longrightarrow> \<exists>j. validate_rule tags j r = None"
  by (induction rs arbitrary: i) auto

lemma validate_rule_ok:
  assumes "validate_rule tags i r = None"
  shows "set (rr_ToTags r) \<subseteq> set tags \<and> rr_ToTags r \<noteq> [] \<and> weights_positive r"
  using assms
  by (auto simp: validate_rule_def Let_def weights_positive_def map_get_def not_le split: option.splits if_splits)

text \<open>The configuration the caller has after a successful validation.\<close>

lemma Validate_ok:
  assumes "Validate rnd loc timeError parseURL cfg = (None, cfg')"
  shows "cfg' = window_defaults cfg" "clients_loop rnd 0 [] [] (cfg_Clients cfg') = None"
    "rules_loop (map ob_Tag (cfg_Outbounds cfg')) 0 (cfg_Rules cfg') = None"
    "\<forall>x \<in> set (cfg_Outbounds cfg'). validate_outbound rnd loc timeError parseURL x = None"
    "\<forall>i \<in> set (cfg_Inbounds cfg'). validate_inbound (map cl_Name (cfg_Clients cfg')) i = None"
  using assms by (auto simp: Validate_def Let_def applyDefaults_def window_defaults_def)

lemma Validate_routes:
  assumes "Validate rnd loc timeError parseURL cfg = (None, cfg')"
  shows "\<forall>rule \<in> set (cfg_Rules cfg'). set (rr_ToTags rule) \<subseteq> ob_Tag ` set (cfg_Outbounds cfg') \<and> weights_positive rule"
proof
  fix rule
  assume "rule \<in> set (cfg_Rules cfg')"
  then obtain j where "validate_rule (map ob_Tag (cfg_Outbounds cfg')) j rule = None"
    using rules_loop_ok [OF Validate_ok(3) [OF assms]] by blast
  from validate_rule_ok [OF this]
  show "set (rr_ToTags rule) \<subseteq> ob_Tag ` set (cfg_Outbounds cfg') \<and> weights_positive rule" by simp
qed


lemma router_plan_ok:
  assumes "router_New rules providers outs = Inr r0" and "ro_rules r = ro_rules r0" "ro_providers r = ro_providers r0"
    and "\<forall>rr \<in> set rules. weights_positive rr" and "router_plan mutate ctx r = (Inr p, r')"
  shows "plan_ok p"
  using router_Plan_wf [OF assms] by (auto simp: plan_ok_def step_ok_def)

lemma Validate_client:
  assumes "Validate rnd loc timeError parseURL cfg = (None, cfg')" and "c \<in> set (cfg_Clients cfg')" and "cq_Enabled (cl_Quota c)"
    and "w \<in> set (cq_Windows (cl_Quota c))"
  shows "distinct (map cl_Name (cfg_Clients cfg'))" "0 < DurationValue_Duration rnd (qw_Duration w)"
    "qw_Type w \<in> {''requests'', ''tokens'', ''cost''}" "qw_Type w = ''requests'' \<Longrightarrow> 0 < qw_MaxRequests w"
proof -
  note ok = clients_loop_ok [OF Validate_ok(2) [OF assms(1)]]
  then show "distinct (map cl_Name (cfg_Clients cfg'))" by simp
  obtain j where "validateClientQuota rnd j c = None" using ok assms(2) by blast
  then have "quota_windows_loop rnd (''clients'' @ index_text j @ ''.quota'') 0 [] (cq_Windows (cl_Quota c)) = None"
    using assms(3) validateQuotaWindows_ok by (simp add: validateClientQuota_def)
  from quota_windows_loop_ok [OF this assms(4)]
  show "0 < DurationValue_Duration rnd (qw_Duration w)" "qw_Type w \<in> {''requests'', ''tokens'', ''cost''}"
    "qw_Type w = ''requests'' \<Longrightarrow> 0 < qw_MaxRequests w" by simp_all
qed

lemma clientConfigs_names: "distinct (map cl_Name cs) \<Longrightarrow> distinct (map cc_Name (clientConfigs rnd cs))"
  by (auto simp: clientConfigs_def comp_def distinct_map inj_on_def)

section \<open>Properties\<close>

text \<open>A configuration that passes validation starts: given a provider for every enabled outbound, the router is built, and
  every plan it makes, after any requests, has outbound steps only, each with a provider and a fallback condition the dispatcher
  knows.\<close>

theorem validated_config_routes:
  assumes "Validate rnd loc timeError parseURL cfg = (None, cfg')"
    and "\<forall>x \<in> set (cfg_Outbounds cfg'). OutboundEnabled x \<longrightarrow> providers (ob_Name x) \<noteq> None"
  shows "\<exists>r0. router_New (cfg_Rules cfg') providers (cfg_Outbounds cfg') = Inr r0 \<and>
    (\<forall>r mutate ctx p r'. ro_rules r = ro_rules r0 \<longrightarrow> ro_providers r = ro_providers r0 \<longrightarrow>
       router_plan mutate ctx r = (Inr p, r') \<longrightarrow> plan_ok p)"
proof -
  note routes = Validate_routes [OF assms(1)]
  then obtain r0 where "router_New (cfg_Rules cfg') providers (cfg_Outbounds cfg') = Inr r0"
    using assms(2) router_New_ok [of "cfg_Rules cfg'" providers "cfg_Outbounds cfg'"] by blast
  then show ?thesis using router_plan_ok routes by blast
qed

text \<open>In a validated configuration the request limits of the clients hold: when the requests of a client do not overlap, the
  requests admitted within any span of a request window's duration never exceed the window's maximum.\<close>

theorem validated_client_limits:
  assumes "Validate rnd loc timeError parseURL cfg = (None, cfg')" and "c \<in> set (cfg_Clients cfg')" and "cq_Enabled (cl_Quota c)"
    and "w \<in> set (cq_Windows (cl_Quota c))" and "qw_Type w = ''requests''"
    and "sorted (serve_times rs)" and "int (length rs) < 2 ^ 63"
  shows "int (length (filter (in_window (DurationValue_Duration rnd (qw_Duration w)) T)
           (client_serve (cl_Name c) rs (NewClientTrackerFromClients rnd loc (cfg_Clients cfg'))))) \<le> qw_MaxRequests w"
proof -
  note valid = Validate_client [OF assms(1-4)]
  let ?cfgs = "clientConfigs rnd (cfg_Clients cfg')"
  let ?cfg = "\<lparr>cc_Name = cl_Name c, cc_Inbound = [], cc_Windows = clientWindowsFromConfig rnd (cq_Windows (cl_Quota c))\<rparr>"
  let ?wc = "\<lparr>wc_Name = qw_Name w, wc_Type = qw_Type w, wc_Reset = ''rolling'', wc_Duration = DurationValue_Duration rnd (qw_Duration w),
      wc_FixedPeriod = [], wc_Anchor = zeroTime, wc_Time = [], wc_Timezone = [], wc_Weekday = 0,
      wc_MaxRequests = qw_MaxRequests w, wc_MaxTokens = qw_MaxTokens w, wc_MaxCostMicroUSD = MaxCostMicroUSD w\<rparr>"
  have cfg: "?cfg \<in> set ?cfgs" using assms(2,3) by (auto simp: clientConfigs_def)
  then have tracker: "NewClientTrackerFromClients rnd loc (cfg_Clients cfg') = Some (newTrackerFromClients loc ?cfgs)"
    by (auto simp: NewClientTrackerFromClients_def Let_def)
  have rolling: "\<forall>x \<in> set (cc_Windows ?cfg). rolling_config x" by (auto simp: clientWindowsFromConfig_def rolling_config_def)
  have "?wc \<in> set (normalizeClientWindows (cc_Windows ?cfg))"
    using assms(4,5) by (force simp: clientWindowsFromConfig_def normalizeClientWindows_def)
  then have window: "newWindowState loc ?wc \<in> set (s_windows (clientSubject loc ?cfg))"
    by (simp add: clientSubject_def newSubjectState_def)
  from client_windows_bound [OF clientConfigs_names [OF valid(1)] cfg rolling window _ _ assms(6,7), of T]
  show ?thesis using tracker assms(5) valid(4) by (simp add: newWindowState_def)
qed

definition sample_quota_window :: QuotaWindowConfig where
  "sample_quota_window = \<lparr>qw_Name = ''w'', qw_Type = [], qw_Duration = ''100ns'', qw_MaxRequests = 2, qw_MaxTokens = 0, qw_MaxCostUSD = []\<rparr>"

definition sample_client_spec :: ClientSpec where
  "sample_client_spec = \<lparr>cl_Name = ''c'', cl_Token = ''t'', cl_Quota = \<lparr>cq_Enabled = True, cq_Windows = [sample_quota_window]\<rparr>\<rparr>"

definition sample_outbound_spec :: OutboundSpec where
  "sample_outbound_spec = (sample_outbound ''a'' ''ta'')\<lparr>ob_Capabilities := no_capabilities, ob_ProxyURL := []\<rparr>"

definition sample_config :: Config where
  "sample_config = \<lparr>cfg_ServerListen = '':8080'', cfg_Listeners = [], cfg_Clients = [sample_client_spec], cfg_Inbounds = [],
     cfg_Rules = [(sample_rule RoutingStrategyRoundRobin)\<lparr>rr_ToTags := [''ta''], rr_Weights := [], rr_ModelMap := [], rr_Match := None\<rparr>],
     cfg_Outbounds = [sample_outbound_spec],
     cfg_Accounting = \<lparr>ac_Enabled = False, ac_Backend = [], ac_ExposeHTTP = False, ac_AdminToken = [],
       ac_LocalFile = \<lparr>alf_Dir = [], alf_RotateMaxSizeMB = 0, alf_RetentionDays = 0, alf_SnapshotInterval = [],
         alf_SnapshotRetentionDays = 0, alf_WriteBufferRecords = 0, alf_FlushInterval = [], alf_QueueSize = 0\<rparr>, ac_Pricing = []\<rparr>,
     cfg_Governance = \<lparr>gov_SnapshotEnabled = False, gov_SnapshotDir = [], gov_SnapshotFlushInterval = [], gov_EventsEnabled = False,
       gov_EventsMaxEntries = 0\<rparr>,
     cfg_SessionSnapshot = \<lparr>ssc_Enabled = Some False, ssc_Dir = [], ssc_FlushInterval = []\<rparr>, cfg_OAuthDir = [],
     cfg_Admin = \<lparr>adm_Enabled = False, adm_Token = [], adm_Logs = \<lparr>alog_Enabled = False, alog_Path = [], alog_MaxBytes = 0,
       alog_Rotation = \<lparr>rot_MaxSizeMB = 0, rot_MaxFiles = 0, rot_MaxAgeDays = 0, rot_MaxTotalSizeMB = 0, rot_Compress = None\<rparr>\<rparr>\<rparr>\<rparr>"

lemma sample_duration: "DurationValue_Duration id ''100ns'' = 100"
  by code_simp

lemmas sample_config_defs = sample_config_def sample_client_spec_def sample_quota_window_def sample_outbound_spec_def
  sample_outbound_def sample_rule_def window_defaults_def client_defaults_def outbound_defaults_def default_to_def

lemmas validation_defs = Validate_def Let_def applyDefaults_def EnabledEffective_def ListenAddresses_def validateClientQuota_def
  validateQuotaWindows_def validateAdmin_def validate_accounting_def validateGovernance_def validate_outbound_def
  IsSupportedOutbound_def validateOutboundAuth_def no_capabilities_def validateOutboundModels_def validateOutboundProxy_def
  validateOutboundQuota_def validate_rule_def

lemma sample_config_valid:
  "Validate id (\<lambda>_. None) id (\<lambda>_. Inl []) sample_config = (None, window_defaults sample_config)"
  by (simp add: validation_defs sample_config_defs sample_duration TrimSpace_Nil)

theorem validated_config_routes_witness:
  "\<exists>r0. router_New (cfg_Rules sample_config) sample_providers (cfg_Outbounds (window_defaults sample_config)) = Inr r0"
  using validated_config_routes [OF sample_config_valid, of sample_providers]
  by (auto simp: sample_config_defs sample_providers_def)

theorem validated_client_limits_witness:
  "length (filter (in_window 100 200) (client_serve ''c'' [(101, 102), (110, 111), (120, 130), (150, 150)]
     (NewClientTrackerFromClients id (\<lambda>_. None) (cfg_Clients (window_defaults sample_config))))) \<le> 2"
  using validated_client_limits [OF sample_config_valid, of "client_defaults sample_client_spec"
      "sample_quota_window\<lparr>qw_Type := ''requests''\<rparr>" "[(101, 102), (110, 111), (120, 130), (150, 150)]" 200]
  by (simp add: sample_config_defs sample_duration serve_times_def)

text \<open>Two outbounds of the same name are accepted: the names are collected during validation and then not used.\<close>

theorem duplicate_outbounds_accepted:
  "fst (Validate id (\<lambda>_. None) id (\<lambda>_. Inl []) (sample_config\<lparr>cfg_Outbounds := [sample_outbound_spec, sample_outbound_spec]\<rparr>)) = None"
  by (simp add: validation_defs sample_config_defs sample_duration TrimSpace_Nil)

end
