(* ===== verification/Sessions_Store.thy ===== *)
theory Sessions_Store
  imports Go_Time "HOL-Library.Word"
begin

text \<open>
  Package \<open>internal/sessions\<close>: the store of agent sessions (\<open>store.go\<close>), the status machine driven by hook
  events (\<open>state.go\<close>) and the periodic sweep (\<open>reaper.go\<close>). A pointer field is an option; copies made by
  \<open>cloneSession\<close> are the same value. The clock reading of a call is its argument \<open>now\<close>.
\<close>

section \<open>Data\<close>

abbreviation StatusUnknown where "StatusUnknown \<equiv> ''unknown''"
abbreviation StatusRunning where "StatusRunning \<equiv> ''running''"
abbreviation StatusToolRunning where "StatusToolRunning \<equiv> ''tool_running''"
abbreviation StatusWaitingPermission where "StatusWaitingPermission \<equiv> ''waiting_permission''"
abbreviation StatusIdle where "StatusIdle \<equiv> ''idle''"
abbreviation StatusCompacting where "StatusCompacting \<equiv> ''compacting''"
abbreviation StatusStopped where "StatusStopped \<equiv> ''stopped''"
abbreviation HeartbeatCapabilityV1 where "HeartbeatCapabilityV1 \<equiv> ''heartbeat_v1''"

record TmuxInfo =
  tm_Present :: bool
  tm_Session :: string
  tm_WindowIndex :: string
  tm_WindowName :: string
  tm_PaneIndex :: string
  tm_PaneID :: string

record Session =
  ses_ID :: string
  ses_ClientName :: string
  ses_InboundName :: string
  ses_Tag :: string
  ses_Host :: string
  ses_PID :: int
  ses_CWD :: string
  ses_GitBranch :: string
  ses_Command :: "string list"
  ses_Tmux :: TmuxInfo
  ses_Status :: string
  ses_Mode :: string
  ses_LastEvent :: string
  ses_StartedAt :: gotime
  ses_LastSeenAt :: gotime
  ses_HeartbeatCapability :: string
  ses_LastHeartbeatAt :: "gotime option"
  ses_LeaseExpiresAt :: "gotime option"
  ses_RecoveryPending :: bool
  ses_RecoveredAt :: "gotime option"
  ses_StoppedAt :: "gotime option"
  ses_ExitCode :: "int option"
  ses_statusObservedAt :: gotime

text \<open>The values of a hook payload the code tells apart: strings, booleans, nested objects and all others.\<close>

datatype payload_value = PString string | PBool bool | PObject "(string \<times> payload_value) list" | POther

type_synonym payload = "(string \<times> payload_value) list"

record HookEvent =
  he_SessionID :: string
  he_EventName :: string
  he_Payload :: payload
  he_ReceivedAt :: gotime

record ListFilter =
  lf_Client :: string
  lf_Status :: string
  lf_Host :: string
  lf_CWD :: string

record SweepResult =
  sr_LeaseExpired :: int
  sr_TransientDegraded :: int
  sr_StoppedPruned :: int

record SessionStore =
  sst_sessions :: "(string \<times> Session) list"
  sst_generation :: "64 word"

datatype session_error = ErrSessionOwnerMismatch | ErrHeartbeatCapabilityUnsupported

definition DefaultStoppedRetention :: duration where "DefaultStoppedRetention = Hour"
definition DefaultLeaseTTL :: duration where "DefaultLeaseTTL = 45 * Second"
definition DefaultTransientTTL :: duration where "DefaultTransientTTL = 15 * Minute"

definition NewSessionStore :: SessionStore where
  "NewSessionStore = \<lparr>sst_sessions = [], sst_generation = 0\<rparr>"

section \<open>The status of a session\<close>

text \<open>
  \<open>strings.ToLower\<close> as far as ASCII words can tell: ASCII letters, and the two characters outside ASCII whose
  lower case is an ASCII letter (U+0130 and U+212A).
\<close>

definition low_byte :: "nat \<Rightarrow> nat" where
  "low_byte b = (if 65 \<le> b \<and> b \<le> 90 then b + 32 else b)"

fun ToLower :: "nat list \<Rightarrow> nat list" where
  "ToLower (a # b # c # bs) =
     (if a = 196 \<and> b = 176 then 105 # ToLower (c # bs)
      else if a = 226 \<and> b = 132 \<and> c = 170 then 107 # ToLower bs
      else low_byte a # ToLower (b # c # bs))"
| "ToLower [a, b] = (if a = 196 \<and> b = 176 then [105] else [low_byte a, low_byte b])"
| "ToLower [a] = [low_byte a]"
| "ToLower [] = []"

definition lower_text :: "string \<Rightarrow> string" where
  "lower_text s = bytes_of (ToLower (map of_char s))"

fun joinStringPayloadValues :: "payload \<Rightarrow> string" and payload_text :: "payload_value \<Rightarrow> string" where
  "joinStringPayloadValues [] = []"
| "joinStringPayloadValues ((k, v) # kvs) = payload_text v @ joinStringPayloadValues kvs"
| "payload_text (PString s) = s @ '' ''"
| "payload_text (PObject p) = joinStringPayloadValues p"
| "payload_text v = []"

definition stringValueContains :: "payload \<Rightarrow> string \<Rightarrow> bool" where
  "stringValueContains p needle = Contains (lower_text (joinStringPayloadValues p)) needle"

definition hookPayloadNeedsPermission :: "payload \<Rightarrow> bool" where
  "hookPayloadNeedsPermission p =
     (list_ex (\<lambda>key. map_of p key = Some (PBool True)) [''permission_required'', ''requires_permission'', ''permissionRequired'']
      \<or> (stringValueContains p ''permission'' \<and> stringValueContains p ''request''))"

definition currentOrUnknown :: "string \<Rightarrow> string" where
  "currentOrUnknown current = (if current = [] then StatusUnknown else current)"

definition statusForNotification :: "payload \<Rightarrow> string \<Rightarrow> string" where
  "statusForNotification p current =
     (let message = lower_text (joinStringPayloadValues p)
      in if Contains message ''permission'' \<or> Contains message ''approval'' \<or> Contains message ''approve'' then StatusWaitingPermission
         else if Contains message ''waiting'' \<or> Contains message ''idle'' then StatusIdle
         else currentOrUnknown current)"

definition StatusForHookEvent :: "HookEvent \<Rightarrow> string \<Rightarrow> string" where
  "StatusForHookEvent event current =
     (let e = he_EventName event
      in if current = StatusStopped then StatusStopped
         else if e = ''SessionStart'' then StatusIdle
         else if e = ''UserPromptSubmit'' then StatusRunning
         else if e = ''PreToolUse'' then
           (if hookPayloadNeedsPermission (he_Payload event) then StatusWaitingPermission else StatusToolRunning)
         else if e = ''PostToolUse'' then StatusRunning
         else if e = ''Notification'' then statusForNotification (he_Payload event) current
         else if e = ''Stop'' then StatusIdle
         else if e = ''SubagentStop'' then currentOrUnknown current
         else if e = ''PreCompact'' then StatusCompacting
         else if e = ''SessionEnd'' then StatusStopped
         else currentOrUnknown current)"

section \<open>Operations\<close>

definition setSessionLocked :: "string \<Rightarrow> Session \<Rightarrow> SessionStore \<Rightarrow> SessionStore" where
  "setSessionLocked i s st =
     (if map_of (sst_sessions st) i = Some s then st
      else st\<lparr>sst_sessions := AList.update i s (sst_sessions st), sst_generation := sst_generation st + 1\<rparr>)"

definition owned_by :: "string \<Rightarrow> string \<Rightarrow> Session \<Rightarrow> bool" where
  "owned_by client inbound s \<longleftrightarrow> ses_ClientName s = client \<and> ses_InboundName s = inbound"

definition keep_existing :: "Session option \<Rightarrow> Session \<Rightarrow> Session" where
  "keep_existing existing s =
     (case existing of
        None \<Rightarrow> s
      | Some e \<Rightarrow>
          s\<lparr>ses_Status := ses_Status e, ses_LastEvent := ses_LastEvent e, ses_StartedAt := ses_StartedAt e,
            ses_LastSeenAt := ses_LastSeenAt e, ses_StoppedAt := ses_StoppedAt e, ses_ExitCode := ses_ExitCode e,
            ses_RecoveryPending := ses_RecoveryPending e, ses_RecoveredAt := ses_RecoveredAt e,
            ses_statusObservedAt := ses_statusObservedAt e,
            ses_HeartbeatCapability :=
              (if ses_HeartbeatCapability e \<noteq> [] \<and> ses_HeartbeatCapability s = [] then ses_HeartbeatCapability e
               else ses_HeartbeatCapability s)\<rparr>)"

definition register_defaults :: "gotime \<Rightarrow> Session \<Rightarrow> Session" where
  "register_defaults now s =
     s\<lparr>ses_StartedAt := (if IsZero (ses_StartedAt s) then now else ses_StartedAt s),
       ses_LastSeenAt := (if IsZero (ses_LastSeenAt s) then now else ses_LastSeenAt s),
       ses_Status := (if ses_Status s = [] then StatusUnknown else ses_Status s),
       ses_statusObservedAt := (if IsZero (ses_statusObservedAt s) then now else ses_statusObservedAt s)\<rparr>"

definition register_lease :: "gotime \<Rightarrow> Session \<Rightarrow> Session" where
  "register_lease now s =
     (if ses_HeartbeatCapability s = HeartbeatCapabilityV1
      then s\<lparr>ses_LastHeartbeatAt := Some now, ses_LeaseExpiresAt := Some (now + DefaultLeaseTTL), ses_RecoveryPending := False\<rparr>
      else s\<lparr>ses_LastHeartbeatAt := None, ses_LeaseExpiresAt := None\<rparr>)"

definition session_Register :: "gotime \<Rightarrow> Session \<Rightarrow> SessionStore \<Rightarrow> (session_error + Session) \<times> SessionStore" where
  "session_Register now s st =
     (let existing = map_of (sst_sessions st) (ses_ID s);
          s' = register_lease now (register_defaults now (keep_existing existing s))
      in case existing of
           Some e \<Rightarrow>
             if \<not> owned_by (ses_ClientName s) (ses_InboundName s) e then (Inl ErrSessionOwnerMismatch, st)
             else if ses_Status e = StatusStopped then (Inr e, st)
             else (Inr s', setSessionLocked (ses_ID s) s' st)
         | None \<Rightarrow> (Inr s', setSessionLocked (ses_ID s) s' st))"

text \<open>The lookup at the head of the calls on a session: the session of that id, when the caller owns it.\<close>

definition GetOwned :: "string \<Rightarrow> string \<Rightarrow> string \<Rightarrow> SessionStore \<Rightarrow> Session option" where
  "GetOwned i client inbound st =
     (case map_of (sst_sessions st) i of
        None \<Rightarrow> None
      | Some s \<Rightarrow> if owned_by client inbound s then Some s else None)"

definition ApplyHookEvent ::
  "gotime \<Rightarrow> string \<Rightarrow> string \<Rightarrow> HookEvent \<Rightarrow> SessionStore \<Rightarrow> Session option \<times> SessionStore" where
  "ApplyHookEvent now client inbound event st =
     (case GetOwned (he_SessionID event) client inbound st of
        None \<Rightarrow> (None, st)
      | Some s \<Rightarrow>
          if ses_Status s = StatusStopped then (Some s, st)
          else
            (let receivedAt = (if IsZero (he_ReceivedAt event) then now else he_ReceivedAt event);
                 s1 = s\<lparr>ses_Status := StatusForHookEvent event (ses_Status s), ses_LastEvent := he_EventName event,
                        ses_LastSeenAt := receivedAt, ses_statusObservedAt := now\<rparr>;
                 s2 = (if ses_Status s1 = StatusStopped \<and> ses_StoppedAt s1 = None then s1\<lparr>ses_StoppedAt := Some receivedAt\<rparr> else s1)
             in (Some s2, setSessionLocked (he_SessionID event) s2 st)))"

definition MarkStopped ::
  "gotime \<Rightarrow> string \<Rightarrow> string \<Rightarrow> string \<Rightarrow> int \<Rightarrow> SessionStore \<Rightarrow> Session option \<times> SessionStore" where
  "MarkStopped now client inbound i exitCode st =
     (case GetOwned i client inbound st of
        None \<Rightarrow> (None, st)
      | Some s \<Rightarrow>
          if ses_Status s = StatusStopped then (Some s, st)
          else
            (let s' = s\<lparr>ses_Status := StatusStopped, ses_LastSeenAt := now, ses_StoppedAt := Some now,
                        ses_ExitCode := Some exitCode, ses_statusObservedAt := now\<rparr>
             in (Some s', setSessionLocked i s' st)))"

text \<open>\<open>Heartbeat\<close> returns \<open>None\<close> when the session is not found, else the session or an error.\<close>

definition Heartbeat ::
  "gotime \<Rightarrow> string \<Rightarrow> string \<Rightarrow> string \<Rightarrow> SessionStore \<Rightarrow> (session_error + Session) option \<times> SessionStore" where
  "Heartbeat now client inbound i st =
     (case GetOwned i client inbound st of
        None \<Rightarrow> (None, st)
      | Some s \<Rightarrow>
          if ses_Status s = StatusStopped then (Some (Inr s), st)
          else if ses_HeartbeatCapability s \<noteq> HeartbeatCapabilityV1 then (Some (Inl ErrHeartbeatCapabilityUnsupported), st)
          else
            (let s1 = s\<lparr>ses_LastHeartbeatAt := Some now, ses_LeaseExpiresAt := Some (now + DefaultLeaseTTL)\<rparr>;
                 s2 = (if ses_RecoveryPending s1 then s1\<lparr>ses_RecoveryPending := False, ses_Status := StatusUnknown\<rparr> else s1)
             in (Some (Inr s2), setSessionLocked i s2 st)))"

section \<open>The sweep\<close>

definition lease_expired :: "gotime \<Rightarrow> Session \<Rightarrow> bool" where
  "lease_expired now s \<longleftrightarrow> ses_HeartbeatCapability s = HeartbeatCapabilityV1 \<and>
     (case ses_LeaseExpiresAt s of None \<Rightarrow> False | Some e \<Rightarrow> \<not> now < e)"

definition transient_over :: "gotime \<Rightarrow> duration \<Rightarrow> Session \<Rightarrow> bool" where
  "transient_over now ttl s \<longleftrightarrow> 0 < ttl \<and> (ses_Status s = StatusToolRunning \<or> ses_Status s = StatusCompacting)
     \<and> \<not> IsZero (ses_statusObservedAt s) \<and> \<not> now < ses_statusObservedAt s + ttl"

text \<open>The body of the loop for the session of one id.\<close>

definition sweep_one ::
  "gotime \<Rightarrow> duration \<Rightarrow> duration \<Rightarrow> string \<times> Session \<Rightarrow> SweepResult \<times> SessionStore \<Rightarrow> SweepResult \<times> SessionStore" where
  "sweep_one now retention ttl = (\<lambda>(i, s) (res, st).
     if ses_Status s = StatusStopped then
       (if 0 < retention \<and> ses_LastSeenAt s < now - retention
        then (res\<lparr>sr_StoppedPruned := sr_StoppedPruned res + 1\<rparr>,
              st\<lparr>sst_sessions := AList.delete i (sst_sessions st), sst_generation := sst_generation st + 1\<rparr>)
        else (res, st))
     else if lease_expired now s then
       (res\<lparr>sr_LeaseExpired := sr_LeaseExpired res + 1\<rparr>,
        setSessionLocked i (s\<lparr>ses_Status := StatusStopped, ses_LastSeenAt := now, ses_StoppedAt := Some now,
          ses_ExitCode := None, ses_statusObservedAt := now\<rparr>) st)
     else if transient_over now ttl s then
       (res\<lparr>sr_TransientDegraded := sr_TransientDegraded res + 1\<rparr>,
        setSessionLocked i (s\<lparr>ses_Status := StatusUnknown, ses_statusObservedAt := now\<rparr>) st)
     else (res, st))"

definition Sweep :: "gotime \<Rightarrow> duration \<Rightarrow> duration \<Rightarrow> SessionStore \<Rightarrow> SweepResult \<times> SessionStore" where
  "Sweep now retention ttl st =
     fold (sweep_one now retention ttl) (sst_sessions st)
       (\<lparr>sr_LeaseExpired = 0, sr_TransientDegraded = 0, sr_StoppedPruned = 0\<rparr>, st)"

definition PruneStopped :: "gotime \<Rightarrow> duration \<Rightarrow> SessionStore \<Rightarrow> int \<times> SessionStore" where
  "PruneStopped now maxAge st = (case Sweep now maxAge 0 st of (res, st') \<Rightarrow> (sr_StoppedPruned res, st'))"

text \<open>One tick of the reaper.\<close>

definition reaper_tick :: "gotime \<Rightarrow> SessionStore \<Rightarrow> SessionStore" where
  "reaper_tick now st = snd (Sweep now DefaultStoppedRetention DefaultTransientTTL st)"

section \<open>Listing\<close>

definition matchesFilter :: "Session \<Rightarrow> ListFilter \<Rightarrow> bool" where
  "matchesFilter s f =
     (if lf_Client f \<noteq> [] \<and> ses_ClientName s \<noteq> lf_Client f then False
      else if lf_Status f \<noteq> [] \<and> ses_Status s \<noteq> lf_Status f then False
      else if lf_Host f \<noteq> [] \<and> \<not> Contains (ses_Host s) (lf_Host f) then False
      else if lf_CWD f \<noteq> [] \<and> \<not> Contains (ses_CWD s) (lf_CWD f) then False
      else True)"

definition statusPriority :: "string \<Rightarrow> int" where
  "statusPriority status = (if status = StatusWaitingPermission then 0 else 1)"

text \<open>
  \<open>List\<close> sorts by priority, then by the last sighting, newest first. The order of sessions that agree in both is
  unspecified in Go; here they keep the order of the map.
\<close>

definition session_List :: "ListFilter \<Rightarrow> SessionStore \<Rightarrow> Session list" where
  "session_List f st =
     sort_key (\<lambda>s. statusPriority (ses_Status s))
       (sort_key (\<lambda>s. - ses_LastSeenAt s) (filter (\<lambda>s. matchesFilter s f) (map snd (sst_sessions st))))"

fun latest_loop :: "string \<Rightarrow> string \<Rightarrow> Session list \<Rightarrow> Session option \<Rightarrow> Session option" where
  "latest_loop client inbound [] latest = latest"
| "latest_loop client inbound (s # ss) latest =
     (if ses_ClientName s \<noteq> client \<or> ses_InboundName s \<noteq> inbound \<or> ses_Status s = StatusStopped \<or> ses_RecoveryPending s
      then latest_loop client inbound ss latest
      else (case latest of
              None \<Rightarrow> latest_loop client inbound ss (Some s)
            | Some l \<Rightarrow> latest_loop client inbound ss (if ses_LastSeenAt l < ses_LastSeenAt s then Some s else latest)))"

definition LatestActive :: "string \<Rightarrow> string \<Rightarrow> SessionStore \<Rightarrow> Session option" where
  "LatestActive client inbound st = latest_loop client inbound (map snd (sst_sessions st)) None"

section \<open>The store as a machine\<close>

datatype session_op =
    SRegister gotime Session
  | SHook gotime string string HookEvent
  | SStop gotime string string string int
  | SHeartbeat gotime string string string
  | SSweep gotime duration duration

fun session_step :: "session_op \<Rightarrow> SessionStore \<Rightarrow> SessionStore" where
  "session_step (SRegister now s) st = snd (session_Register now s st)"
| "session_step (SHook now c i e) st = snd (ApplyHookEvent now c i e st)"
| "session_step (SStop now c i sid code) st = snd (MarkStopped now c i sid code st)"
| "session_step (SHeartbeat now c i sid) st = snd (Heartbeat now c i sid st)"
| "session_step (SSweep now r ttl) st = snd (Sweep now r ttl st)"

fun op_session :: "session_op \<Rightarrow> string option" where
  "op_session (SRegister now s) = Some (ses_ID s)"
| "op_session (SHook now c i e) = Some (he_SessionID e)"
| "op_session (SStop now c i sid code) = Some sid"
| "op_session (SHeartbeat now c i sid) = Some sid"
| "op_session (SSweep now r ttl) = None"

fun op_owner :: "session_op \<Rightarrow> (string \<times> string) option" where
  "op_owner (SRegister now s) = Some (ses_ClientName s, ses_InboundName s)"
| "op_owner (SHook now c i e) = Some (c, i)"
| "op_owner (SStop now c i sid code) = Some (c, i)"
| "op_owner (SHeartbeat now c i sid) = Some (c, i)"
| "op_owner (SSweep now r ttl) = None"

definition session_view :: "string \<Rightarrow> SessionStore \<Rightarrow> Session option" where
  "session_view i st = map_of (sst_sessions st) i"

definition session_wf :: "SessionStore \<Rightarrow> bool" where
  "session_wf st \<longleftrightarrow> keys_ok (sst_sessions st)"

lemma setSessionLocked_view [simp]:
  "session_view i (setSessionLocked j s st) = (if i = j then Some s else session_view i st)"
  by (auto simp: session_view_def setSessionLocked_def update_conv')

lemma delete_session_view [simp]:
  "session_view i (st\<lparr>sst_sessions := AList.delete j (sst_sessions st), sst_generation := g\<rparr>) =
     (if i = j then None else session_view i st)"
  by (simp add: session_view_def delete_conv')

lemma setSessionLocked_wf [simp]: "session_wf st \<Longrightarrow> session_wf (setSessionLocked j s st)"
  by (simp add: session_wf_def setSessionLocked_def)

lemma delete_session_wf [simp]:
  "session_wf st \<Longrightarrow> session_wf (st\<lparr>sst_sessions := AList.delete j (sst_sessions st), sst_generation := g\<rparr>)"
  by (simp add: session_wf_def keys_ok_def distinct_delete)

lemma GetOwned_view: "GetOwned i c inb st = (case session_view i st of None \<Rightarrow> None | Some s \<Rightarrow> if owned_by c inb s then Some s else None)"
  by (simp add: GetOwned_def session_view_def)

text \<open>What a sweep does to one session.\<close>

definition sweep_session :: "gotime \<Rightarrow> duration \<Rightarrow> duration \<Rightarrow> Session \<Rightarrow> Session option" where
  "sweep_session now retention ttl s =
     (if ses_Status s = StatusStopped then (if 0 < retention \<and> ses_LastSeenAt s < now - retention then None else Some s)
      else if lease_expired now s then
        Some (s\<lparr>ses_Status := StatusStopped, ses_LastSeenAt := now, ses_StoppedAt := Some now, ses_ExitCode := None,
                ses_statusObservedAt := now\<rparr>)
      else if transient_over now ttl s then Some (s\<lparr>ses_Status := StatusUnknown, ses_statusObservedAt := now\<rparr>)
      else Some s)"

lemma sweep_one_view:
  assumes "session_view j st = Some s"
  shows "session_view i (snd (sweep_one now r ttl (j, s) (res, st))) =
    (if i = j then sweep_session now r ttl s else session_view i st)"
  using assms by (auto simp: sweep_one_def sweep_session_def)

lemma sweep_one_wf: "session_wf st \<Longrightarrow> session_wf (snd (sweep_one now r ttl x (res, st)))"
  by (cases x) (simp add: sweep_one_def)

lemma sweep_fold_view:
  assumes "distinct (map fst xs)" and "\<forall>(j, s) \<in> set xs. session_view j st = Some s"
  shows "session_view i (snd (fold (sweep_one now r ttl) xs (res, st))) =
    (case map_of xs i of None \<Rightarrow> session_view i st | Some s \<Rightarrow> sweep_session now r ttl s)"
  using assms
proof (induction xs arbitrary: res st)
  case Nil
  then show ?case by simp
next
  case (Cons x xs)
  obtain j s where x: "x = (j, s)" by (cases x)
  obtain res' st' where step: "sweep_one now r ttl x (res, st) = (res', st')" by (cases "sweep_one now r ttl x (res, st)")
  have view: "session_view k st' = (if k = j then sweep_session now r ttl s else session_view k st)" for k
    using sweep_one_view [of j st s k now r ttl res] Cons.prems(2) step x by simp
  have "\<forall>(k, u) \<in> set xs. session_view k st' = Some u"
    using Cons.prems x view by (auto simp: rev_image_eqI)
  then show ?case using Cons.IH [of st' res'] Cons.prems step x view
    by (auto simp: map_of_eq_None_iff [THEN iffD2] split: option.splits)
qed

lemma sweep_fold_wf: "session_wf st \<Longrightarrow> session_wf (snd (fold (sweep_one now r ttl) xs (res, st)))"
proof (induction xs arbitrary: res st)
  case Nil
  then show ?case by simp
next
  case (Cons x xs)
  then show ?case using sweep_one_wf [of st now r ttl x res] by (cases "sweep_one now r ttl x (res, st)") simp
qed

lemma Sweep_view:
  assumes "session_wf st"
  shows "session_view i (snd (Sweep now r ttl st)) =
    (case session_view i st of None \<Rightarrow> None | Some s \<Rightarrow> sweep_session now r ttl s)"
  using assms sweep_fold_view [of "sst_sessions st" st i now r ttl]
  by (auto simp: Sweep_def session_wf_def keys_ok_def session_view_def split: option.splits)

lemma session_step_wf: "session_wf st \<Longrightarrow> session_wf (session_step op st)"
  by (cases op) (auto simp: session_Register_def ApplyHookEvent_def MarkStopped_def Heartbeat_def Let_def Sweep_def
      sweep_fold_wf split: option.splits)

interpretation sessions: invariant_machine session_step session_wf
  by unfold_locales (rule session_step_wf)

text \<open>An operation on another session, or by somebody else, does not change a session.\<close>

lemma step_other_id:
  "op_session op \<noteq> None \<Longrightarrow> op_session op \<noteq> Some i \<Longrightarrow> session_view i (session_step op st) = session_view i st"
  by (cases op) (auto simp: session_Register_def ApplyHookEvent_def MarkStopped_def Heartbeat_def Let_def split: option.splits)

lemma step_other_owner:
  assumes "session_view i st = Some s" and "op_owner op \<noteq> None" and "op_owner op \<noteq> Some (ses_ClientName s, ses_InboundName s)"
  shows "session_view i (session_step op st) = Some s"
  using assms
  by (cases op) (auto simp: session_Register_def ApplyHookEvent_def MarkStopped_def Heartbeat_def Let_def GetOwned_view owned_by_def
      session_view_def [symmetric] split: option.splits)

lemma step_stopped:
  assumes "session_view i st = Some s" and "ses_Status s = StatusStopped" and "op_owner op \<noteq> None"
  shows "session_view i (session_step op st) = Some s"
  using assms
  by (cases op) (auto simp: session_Register_def ApplyHookEvent_def MarkStopped_def Heartbeat_def Let_def GetOwned_view owned_by_def
      session_view_def [symmetric] split: option.splits)

section \<open>Leases\<close>

definition ticks_before :: "gotime \<Rightarrow> session_op \<Rightarrow> bool" where
  "ticks_before t op = (case op of SSweep now r ttl \<Rightarrow> now \<le> t | _ \<Rightarrow> True)"

text \<open>A session whose lease ends at \<open>e\<close> and that is not heard of any more, up to \<open>t\<close>.\<close>

definition leased_or_stopped :: "gotime \<Rightarrow> gotime \<Rightarrow> Session option \<Rightarrow> bool" where
  "leased_or_stopped e t v = (case v of None \<Rightarrow> True | Some s \<Rightarrow> ses_LastSeenAt s \<le> t \<and>
     (ses_Status s = StatusStopped \<or> ses_HeartbeatCapability s = HeartbeatCapabilityV1 \<and> ses_LeaseExpiresAt s = Some e))"

definition stopped_by :: "gotime \<Rightarrow> Session option \<Rightarrow> bool" where
  "stopped_by t v = (case v of None \<Rightarrow> True | Some s \<Rightarrow> ses_LastSeenAt s \<le> t \<and> ses_Status s = StatusStopped)"

lemma sweep_leased: "leased_or_stopped e t (Some s) \<Longrightarrow> now \<le> t \<Longrightarrow> leased_or_stopped e t (sweep_session now r ttl s)"
  by (auto simp: leased_or_stopped_def sweep_session_def)

lemma sweep_stopped: "stopped_by t (Some s) \<Longrightarrow> stopped_by t (sweep_session now r ttl s)"
  by (auto simp: stopped_by_def sweep_session_def)

lemma sweep_expired: "leased_or_stopped e t (Some s) \<Longrightarrow> e \<le> t \<Longrightarrow> stopped_by t (sweep_session t r ttl s)"
  by (auto simp: leased_or_stopped_def stopped_by_def sweep_session_def lease_expired_def)

lemma sweep_pruned: "stopped_by t (Some s) \<Longrightarrow> 0 < r \<Longrightarrow> t < now - r \<Longrightarrow> sweep_session now r ttl s = None"
  by (auto simp: stopped_by_def sweep_session_def)

text \<open>Operations that do not name a session act on it only by sweeping.\<close>

lemma silent_step:
  assumes "session_wf st" and "op_session op \<noteq> Some i"
  shows "session_view i (session_step op st) =
    (case op of SSweep now r ttl \<Rightarrow> (case session_view i st of None \<Rightarrow> None | Some s \<Rightarrow> sweep_session now r ttl s)
     | _ \<Rightarrow> session_view i st)"
  using assms step_other_id [of op i st] by (cases op) (simp_all add: Sweep_view)

lemma silent_run:
  assumes "session_wf st" and "\<forall>op \<in> set ops. op_session op \<noteq> Some i \<and> Q op"
    and "P (session_view i st)" and "P None"
    and sweep: "\<And>s now r ttl. P (Some s) \<Longrightarrow> Q (SSweep now r ttl) \<Longrightarrow> P (sweep_session now r ttl s)"
  shows "P (session_view i (fold session_step ops st))"
  using assms(1-3)
proof (induction ops arbitrary: st)
  case Nil
  then show ?case by simp
next
  case (Cons op ops)
  have "P (session_view i (session_step op st))"
    using Cons.prems silent_step [of st op i] sweep assms(4) by (auto split: session_op.splits option.splits)
  then show ?case using Cons.IH [of "session_step op st"] Cons.prems session_step_wf by auto
qed

lemma leased_session_removed:
  assumes "session_wf st" and "leased_or_stopped e t1 (session_view i st)" and "e \<le> t1"
    and "\<forall>op \<in> set ops1. op_session op \<noteq> Some i \<and> ticks_before t1 op" and "\<forall>op \<in> set ops2. op_session op \<noteq> Some i"
    and "t1 + DefaultStoppedRetention < t2"
  shows "session_view i (reaper_tick t2 (fold session_step ops2 (reaper_tick t1 (fold session_step ops1 st)))) = None"
proof -
  let ?st1 = "fold session_step ops1 st"
  let ?st2 = "fold session_step ops2 (reaper_tick t1 ?st1)"
  have tick: "reaper_tick t x = session_step (SSweep t DefaultStoppedRetention DefaultTransientTTL) x" for t x
    by (simp add: reaper_tick_def)
  have wf: "session_wf ?st1" "session_wf ?st2"
    using assms(1) by (simp_all add: tick sessions.run_ok session_step_wf del: session_step.simps)
  have "leased_or_stopped e t1 (session_view i ?st1)"
    by (rule silent_run [OF assms(1) assms(4), where P = "leased_or_stopped e t1"])
      (use assms(2) sweep_leased in \<open>auto simp: leased_or_stopped_def [of _ _ None] ticks_before_def\<close>)
  then have "stopped_by t1 (session_view i (reaper_tick t1 ?st1))"
    using sweep_expired [OF _ assms(3)] wf(1) by (auto simp: reaper_tick_def Sweep_view stopped_by_def [of _ None] split: option.splits)
  then have "stopped_by t1 (session_view i ?st2)"
    using silent_run [where P = "stopped_by t1" and Q = "\<lambda>_. True" and ops = ops2 and i = i and st = "reaper_tick t1 ?st1"]
      assms(5) wf(1) session_step_wf sweep_stopped
    by (auto simp: tick stopped_by_def [of _ None] simp del: session_step.simps)
  moreover have "t1 < t2 - DefaultStoppedRetention" "0 < DefaultStoppedRetention"
    using assms(6) by (simp_all add: DefaultStoppedRetention_def Hour_def Minute_def Second_def)
  ultimately show ?thesis using sweep_pruned wf(2) by (auto simp: reaper_tick_def Sweep_view split: option.splits)
qed

section \<open>Properties\<close>

text \<open>C16: A session can only be changed by its owner: whatever clients of another name or inbound send for it
  (registrations, hook events, heartbeats, stops), it stays as it is.\<close>

theorem session_owner_isolation:
  assumes "session_view i st = Some s"
    and "\<forall>op \<in> set ops. op_owner op \<noteq> None \<and> op_owner op \<noteq> Some (ses_ClientName s, ses_InboundName s)"
  shows "session_view i (fold session_step ops st) = Some s"
  using assms by (induction ops arbitrary: st) (auto simp: step_other_owner)

text \<open>A stopped session is final: no call changes it, and a sweep removes it only after its retention.\<close>

theorem stopped_session_final:
  assumes "session_wf st" and "session_view i st = Some s" and "ses_Status s = StatusStopped"
    and "\<forall>now r ttl. SSweep now r ttl \<in> set ops \<longrightarrow> now - r \<le> ses_LastSeenAt s"
  shows "session_view i (fold session_step ops st) = Some s"
  using assms
proof (induction ops arbitrary: st)
  case Nil
  then show ?case by simp
next
  case (Cons op ops)
  have "session_view i (session_step op st) = Some s"
  proof (cases "op_owner op = None")
    case True
    then obtain now r ttl where op: "op = SSweep now r ttl" by (cases op) auto
    then have "now - r \<le> ses_LastSeenAt s" using Cons.prems(4) by auto
    then show ?thesis using op Cons.prems by (simp add: Sweep_view sweep_session_def)
  next
    case False
    then show ?thesis using step_stopped Cons.prems by blast
  qed
  then show ?case using Cons.IH [of "session_step op st"] Cons.prems session_step_wf by auto
qed

text \<open>C17: An abandoned session goes away: once a session with a heartbeat lease is not mentioned any more, a sweep after the end of
  its lease stops it and a sweep more than the retention later removes it, whatever else the store does.\<close>

theorem abandoned_session_removed:
  assumes "session_wf st" and "session_view i st = Some s" and "ses_LastSeenAt s \<le> t1"
    and "ses_HeartbeatCapability s = HeartbeatCapabilityV1" and "ses_LeaseExpiresAt s = Some e" and "e \<le> t1"
    and "\<forall>op \<in> set ops1. op_session op \<noteq> Some i \<and> ticks_before t1 op" and "\<forall>op \<in> set ops2. op_session op \<noteq> Some i"
    and "t1 + DefaultStoppedRetention < t2"
  shows "session_view i (reaper_tick t2 (fold session_step ops2 (reaper_tick t1 (fold session_step ops1 st)))) = None"
  by (rule leased_session_removed [OF assms(1) _ assms(6-9)]) (use assms(2-5) in \<open>simp add: leased_or_stopped_def\<close>)

definition sample_session :: Session where
  "sample_session = \<lparr>ses_ID = ''s1'', ses_ClientName = ''c'', ses_InboundName = ''in'', ses_Tag = [], ses_Host = [], ses_PID = 1,
     ses_CWD = [], ses_GitBranch = [], ses_Command = [], ses_Tmux = \<lparr>tm_Present = False, tm_Session = [], tm_WindowIndex = [],
     tm_WindowName = [], tm_PaneIndex = [], tm_PaneID = []\<rparr>, ses_Status = [], ses_Mode = [], ses_LastEvent = [], ses_StartedAt = 0,
     ses_LastSeenAt = 0, ses_HeartbeatCapability = HeartbeatCapabilityV1, ses_LastHeartbeatAt = None, ses_LeaseExpiresAt = None,
     ses_RecoveryPending = False, ses_RecoveredAt = None, ses_StoppedAt = None, ses_ExitCode = None, ses_statusObservedAt = 0\<rparr>"

definition sample_sessions :: SessionStore where
  "sample_sessions = snd (session_Register 1000 sample_session NewSessionStore)"

lemma sample_sessions_wf: "session_wf sample_sessions"
  unfolding sample_sessions_def using session_step_wf [of NewSessionStore "SRegister 1000 sample_session"]
  by (simp add: session_wf_def NewSessionStore_def)

lemma sample_sessions_view: "session_view ''s1'' sample_sessions =
    Some (register_lease 1000 (register_defaults 1000 sample_session))"
  by (simp add: sample_sessions_def session_Register_def NewSessionStore_def sample_session_def keep_existing_def Let_def)

theorem session_owner_isolation_witness:
  "session_view ''s1'' (session_step (SStop 2000 ''other'' ''in'' ''s1'' 1) sample_sessions) = session_view ''s1'' sample_sessions"
  using session_owner_isolation [OF sample_sessions_view, of "[SStop 2000 ''other'' ''in'' ''s1'' 1]"]
  by (simp add: sample_sessions_view sample_session_def register_lease_def register_defaults_def)

theorem stopped_session_final_witness:
  "session_view ''s1'' (fold session_step [SHeartbeat 3000 ''c'' ''in'' ''s1'', SSweep 4000 5000 0]
     (session_step (SStop 2000 ''c'' ''in'' ''s1'' 1) sample_sessions)) \<noteq> None"
proof -
  let ?st = "session_step (SStop 2000 ''c'' ''in'' ''s1'' 1) sample_sessions"
  obtain s where s: "session_view ''s1'' ?st = Some s" "ses_Status s = StatusStopped" "ses_LastSeenAt s = 2000"
    by (simp add: MarkStopped_def GetOwned_view sample_sessions_view owned_by_def register_lease_def register_defaults_def
        sample_session_def Let_def)
  show ?thesis
    using stopped_session_final [OF session_step_wf [OF sample_sessions_wf] s(1,2), of "[SHeartbeat 3000 ''c'' ''in'' ''s1'', SSweep 4000 5000 0]"]
      s(3) by simp
qed

theorem abandoned_session_removed_witness:
  "session_view ''s1'' (reaper_tick 8000000000000 (reaper_tick 60000000000 sample_sessions)) = None"
  using abandoned_session_removed [OF sample_sessions_wf sample_sessions_view, of 60000000000 45000001000 "[]" "[]" 8000000000000]
  by (simp add: register_lease_def register_defaults_def sample_session_def DefaultLeaseTTL_def DefaultStoppedRetention_def
      Hour_def Minute_def Second_def IsZero_def)

end
