(* ===== verification/Event_Stream.thy ===== *)
theory Event_Stream
  imports Runtime_Model "HOL-Library.Multiset"
begin

text \<open>
  Package \<open>internal/eventstream\<close>: the block-structured event stream between the runtime's stream events and the
  wire formats, and its two directions (\<open>adapter.go\<close>, \<open>stream.go\<close>). A channel is the list of what it delivers.
  Where \<open>EventStreamFromRuntime\<close> ranges over its map of open tool blocks, the order Go chooses is the argument
  \<open>range_order\<close>, of which the lemmas assume no more than that it permutes its argument.
\<close>

section \<open>Data\<close>

abbreviation EventTypeMessageStart where "EventTypeMessageStart \<equiv> ''message_start''"
abbreviation EventTypeContentBlockStart where "EventTypeContentBlockStart \<equiv> ''content_block_start''"
abbreviation EventTypeContentBlockDelta where "EventTypeContentBlockDelta \<equiv> ''content_block_delta''"
abbreviation EventTypeContentBlockStop where "EventTypeContentBlockStop \<equiv> ''content_block_stop''"
abbreviation EventTypeMessageDelta where "EventTypeMessageDelta \<equiv> ''message_delta''"
abbreviation EventTypeMessageStop where "EventTypeMessageStop \<equiv> ''message_stop''"
abbreviation EventTypeUsage where "EventTypeUsage \<equiv> ''usage''"
abbreviation EventTypeError where "EventTypeError \<equiv> ''error''"
abbreviation BlockTypeText where "BlockTypeText \<equiv> ''text''"
abbreviation BlockTypeToolUse where "BlockTypeToolUse \<equiv> ''tool_use''"
abbreviation BlockTypeJSON where "BlockTypeJSON \<equiv> ''json''"
abbreviation StopReasonEndTurn where "StopReasonEndTurn \<equiv> ''end_turn''"
abbreviation StopReasonToolUse where "StopReasonToolUse \<equiv> ''tool_use''"
abbreviation StopReasonMaxToken where "StopReasonMaxToken \<equiv> ''max_tokens''"
abbreviation StopReasonError where "StopReasonError \<equiv> ''error''"

record ToolCallSnapshot =
  tcs_ID :: string
  tcs_Name :: string
  tcs_Arguments :: string

datatype ContentBlock =
    ContentBlock (blk_Type: string) (blk_Text: string) (blk_Data: raw_json) (blk_ToolCall: "ToolCallSnapshot option")
      (blk_ToolResult: "ToolResultSnapshot option")
and ToolResultSnapshot =
    ToolResultSnapshot (trs_ToolCallID: string) (trs_Blocks: "ContentBlock list") (trs_IsError: bool)

record ResponseSnapshot =
  rsn_ID :: string
  rsn_Model :: string
  rsn_Role :: string
  rsn_Blocks :: "ContentBlock list"
  rsn_FinishReason :: string
  rsn_Usage :: "Usage option"

record Event =
  ev_Type :: string
  ev_MessageID :: string
  ev_Model :: string
  ev_Role :: string
  ev_BlockIndex :: int
  ev_Block :: "ContentBlock option"
  ev_TextDelta :: string
  ev_ToolCall :: "ToolCallSnapshot option"
  ev_Usage :: "Usage option"
  ev_FinishReason :: string
  ev_Err :: "go_error option"

definition StopReasonFromRuntime :: "string \<Rightarrow> string" where
  "StopReasonFromRuntime reason =
     (if reason = FinishReasonToolUse then StopReasonToolUse
      else if reason = FinishReasonLength then StopReasonMaxToken
      else if reason = FinishReasonError then StopReasonError
      else StopReasonEndTurn)"

definition StopReasonToRuntime :: "string \<Rightarrow> string" where
  "StopReasonToRuntime reason =
     (if reason = StopReasonToolUse then FinishReasonToolUse
      else if reason = StopReasonMaxToken then FinishReasonLength
      else if reason = StopReasonError then FinishReasonError
      else FinishReasonEndTurn)"

text \<open>An event with the identity fields of a message and everything else zero.\<close>

definition base_event :: "string \<Rightarrow> string \<Rightarrow> string \<Rightarrow> string \<Rightarrow> Event" where
  "base_event typ mid model role =
     \<lparr>ev_Type = typ, ev_MessageID = mid, ev_Model = model, ev_Role = role, ev_BlockIndex = 0, ev_Block = None, ev_TextDelta = [],
      ev_ToolCall = None, ev_Usage = None, ev_FinishReason = [], ev_Err = None\<rparr>"

section \<open>From a response to events and back\<close>

text \<open>\<open>cloneBlock\<close> copies the block and everything below it, so that the snapshot shares nothing with the event.\<close>

primrec cloneBlock :: "ContentBlock \<Rightarrow> ContentBlock" and clone_result :: "ToolResultSnapshot \<Rightarrow> ToolResultSnapshot" where
  "cloneBlock (ContentBlock typ txt d call result) = ContentBlock typ txt d call (map_option clone_result result)"
| "clone_result (ToolResultSnapshot i bs isError) = ToolResultSnapshot i (map cloneBlock bs) isError"

definition text_block :: "string \<Rightarrow> ContentBlock" where
  "text_block t = ContentBlock BlockTypeText t [] None None"

definition json_block :: "raw_json \<Rightarrow> ContentBlock" where
  "json_block d = ContentBlock BlockTypeJSON [] d None None"

definition tool_block :: "string \<Rightarrow> string \<Rightarrow> string \<Rightarrow> ContentBlock" where
  "tool_block i n a = ContentBlock BlockTypeToolUse [] [] (Some \<lparr>tcs_ID = i, tcs_Name = n, tcs_Arguments = a\<rparr>) None"

definition part_block :: "ContentPart \<Rightarrow> ContentBlock" where
  "part_block p = (if cp_Type p = ContentPartTypeJSON then json_block (cp_Data p) else text_block (cp_Text p))"

definition call_block :: "ToolCall \<Rightarrow> ContentBlock" where
  "call_block c = tool_block (tc_ID c) (tc_Name c) (tc_Arguments c)"

definition block_events :: "Response \<Rightarrow> int \<Rightarrow> ContentBlock \<Rightarrow> Event list" where
  "block_events resp i b =
     (let ev = (\<lambda>t. (base_event t (resp_ID resp) (resp_Model resp) (msg_Role (resp_Message resp)))\<lparr>ev_BlockIndex := i\<rparr>)
      in [(ev EventTypeContentBlockStart)\<lparr>ev_Block := Some b\<rparr>,
          (ev EventTypeContentBlockDelta)\<lparr>ev_Block := Some b,
             ev_TextDelta := (if blk_Type b = BlockTypeText then blk_Text b else []),
             ev_ToolCall := (if blk_Type b = BlockTypeToolUse then blk_ToolCall b else None)\<rparr>,
          ev EventTypeContentBlockStop])"

fun blocks_events :: "Response \<Rightarrow> int \<Rightarrow> ContentBlock list \<Rightarrow> Event list" where
  "blocks_events resp i [] = []"
| "blocks_events resp i (b # bs) = block_events resp i b @ blocks_events resp (i + 1) bs"

definition response_blocks :: "Response \<Rightarrow> ContentBlock list" where
  "response_blocks resp = map part_block (msg_Parts (resp_Message resp)) @ map call_block (msg_ToolCalls (resp_Message resp))"

definition EventsFromRuntimeResponse :: "Response \<Rightarrow> Event list" where
  "EventsFromRuntimeResponse resp =
     (let ev = (\<lambda>t. base_event t (resp_ID resp) (resp_Model resp) (msg_Role (resp_Message resp)));
          finishReason = StopReasonFromRuntime (resp_FinishReason resp)
      in [ev EventTypeMessageStart] @ blocks_events resp 0 (response_blocks resp) @
         (if resp_Usage resp \<noteq> None then [(ev EventTypeUsage)\<lparr>ev_Usage := resp_Usage resp\<rparr>] else []) @
         [(ev EventTypeMessageDelta)\<lparr>ev_FinishReason := finishReason, ev_Usage := resp_Usage resp\<rparr>,
          (ev EventTypeMessageStop)\<lparr>ev_FinishReason := finishReason\<rparr>])"

record snapshot_state =
  sn_snapshot :: ResponseSnapshot
  sn_blocks :: "(int \<times> ContentBlock) list"
  sn_order :: "int list"

definition snapshot_step :: "Event \<Rightarrow> snapshot_state \<Rightarrow> snapshot_state" where
  "snapshot_step e st =
     (let s = sn_snapshot st;
          s1 = s\<lparr>rsn_ID := (if rsn_ID s = [] \<and> ev_MessageID e \<noteq> [] then ev_MessageID e else rsn_ID s),
                 rsn_Model := (if rsn_Model s = [] \<and> ev_Model e \<noteq> [] then ev_Model e else rsn_Model s),
                 rsn_Role := (if rsn_Role s = [] \<and> ev_Role e \<noteq> [] then ev_Role e else rsn_Role s)\<rparr>;
          st1 = (case ev_Block e of
                   None \<Rightarrow> st
                 | Some b \<Rightarrow>
                     st\<lparr>sn_order := (if ev_BlockIndex e \<in> set (sn_order st) then sn_order st else sn_order st @ [ev_BlockIndex e]),
                        sn_blocks := AList.update (ev_BlockIndex e) (cloneBlock b) (sn_blocks st)\<rparr>);
          s2 = (if ev_Type e = EventTypeUsage \<and> ev_Usage e \<noteq> None then s1\<lparr>rsn_Usage := ev_Usage e\<rparr> else s1);
          s3 = (if ev_Type e = EventTypeMessageDelta \<or> ev_Type e = EventTypeMessageStop
                then s2\<lparr>rsn_FinishReason := (if ev_FinishReason e \<noteq> [] then ev_FinishReason e else rsn_FinishReason s2),
                        rsn_Usage := (if ev_Usage e \<noteq> None then ev_Usage e else rsn_Usage s2)\<rparr>
                else s2)
      in st1\<lparr>sn_snapshot := s3\<rparr>)"

text \<open>A block that was never set would be the zero block.\<close>

definition zero_block :: ContentBlock where
  "zero_block = ContentBlock [] [] [] None None"

definition SnapshotFromEvents :: "Event list \<Rightarrow> ResponseSnapshot" where
  "SnapshotFromEvents events =
     (let st = fold snapshot_step events
                 \<lparr>sn_snapshot = \<lparr>rsn_ID = [], rsn_Model = [], rsn_Role = [], rsn_Blocks = [], rsn_FinishReason = [], rsn_Usage = None\<rparr>,
                  sn_blocks = [], sn_order = []\<rparr>
      in (sn_snapshot st)\<lparr>rsn_Blocks := map (\<lambda>i. case map_of (sn_blocks st) i of None \<Rightarrow> zero_block | Some b \<Rightarrow> b) (sn_order st)\<rparr>)"

section \<open>From a runtime stream to events\<close>

record stream_blocks =
  sb_textBlockIndex :: int
  sb_nextBlockIndex :: int
  sb_toolBlockIndexes :: "(int \<times> int) list"

definition runtime_event :: "StreamEvent \<Rightarrow> string \<Rightarrow> Event" where
  "runtime_event e typ = base_event typ (se_ResponseID e) (se_Model e) (se_MessageRole e)"

definition close_text :: "StreamEvent \<Rightarrow> stream_blocks \<Rightarrow> Event list \<times> stream_blocks" where
  "close_text e sb =
     (if sb_textBlockIndex sb \<noteq> -1
      then ([(runtime_event e EventTypeContentBlockStop)\<lparr>ev_BlockIndex := sb_textBlockIndex sb\<rparr>], sb\<lparr>sb_textBlockIndex := -1\<rparr>)
      else ([], sb))"

definition json_delta :: "StreamEvent \<Rightarrow> raw_json \<Rightarrow> stream_blocks \<Rightarrow> Event list \<times> stream_blocks" where
  "json_delta e d sb =
     (case close_text e sb of (stops, sb1) \<Rightarrow>
        let i = sb_nextBlockIndex sb1; ev = (\<lambda>t. (runtime_event e t)\<lparr>ev_BlockIndex := i\<rparr>)
        in (stops @ [(ev EventTypeContentBlockStart)\<lparr>ev_Block := Some (json_block d)\<rparr>,
                      (ev EventTypeContentBlockDelta)\<lparr>ev_Block := Some (json_block d)\<rparr>, ev EventTypeContentBlockStop],
            sb1\<lparr>sb_nextBlockIndex := i + 1\<rparr>))"

definition text_delta :: "StreamEvent \<Rightarrow> string \<Rightarrow> stream_blocks \<Rightarrow> Event list \<times> stream_blocks" where
  "text_delta e t sb =
     (let opens = sb_textBlockIndex sb = -1;
          sb1 = (if opens then sb\<lparr>sb_textBlockIndex := sb_nextBlockIndex sb, sb_nextBlockIndex := sb_nextBlockIndex sb + 1\<rparr> else sb);
          ev = (\<lambda>typ. (runtime_event e typ)\<lparr>ev_BlockIndex := sb_textBlockIndex sb1\<rparr>)
      in ((if opens then [(ev EventTypeContentBlockStart)\<lparr>ev_Block := Some (text_block [])\<rparr>] else []) @
          [(ev EventTypeContentBlockDelta)\<lparr>ev_Block := Some (text_block t), ev_TextDelta := t\<rparr>], sb1))"

definition tool_delta :: "StreamEvent \<Rightarrow> ToolCall \<Rightarrow> stream_blocks \<Rightarrow> Event list \<times> stream_blocks" where
  "tool_delta e c sb =
     (case close_text e sb of (stops, sb1) \<Rightarrow>
        let opens = map_of (sb_toolBlockIndexes sb1) (se_ToolCallIndex e) = None;
            i = (case map_of (sb_toolBlockIndexes sb1) (se_ToolCallIndex e) of None \<Rightarrow> sb_nextBlockIndex sb1 | Some j \<Rightarrow> j);
            sb2 = (if opens then sb1\<lparr>sb_nextBlockIndex := i + 1,
                                     sb_toolBlockIndexes := AList.update (se_ToolCallIndex e) i (sb_toolBlockIndexes sb1)\<rparr> else sb1);
            ev = (\<lambda>typ. (runtime_event e typ)\<lparr>ev_BlockIndex := i\<rparr>)
        in (stops @ (if opens then [(ev EventTypeContentBlockStart)\<lparr>ev_Block := Some (tool_block (tc_ID c) (tc_Name c) [])\<rparr>] else []) @
            [(ev EventTypeContentBlockDelta)\<lparr>ev_Block := Some (tool_block (tc_ID c) (tc_Name c) (tc_Arguments c)),
               ev_ToolCall := Some \<lparr>tcs_ID = tc_ID c, tcs_Name = tc_Name c, tcs_Arguments = tc_Arguments c\<rparr>\<rparr>], sb2))"

definition message_end :: "((int \<times> int) list \<Rightarrow> (int \<times> int) list) \<Rightarrow> StreamEvent \<Rightarrow> stream_blocks \<Rightarrow> Event list \<times> stream_blocks" where
  "message_end range_order e sb =
     (case close_text e sb of (stops, sb1) \<Rightarrow>
        let finishReason = StopReasonFromRuntime (se_FinishReason e)
        in (stops @
            map (\<lambda>(k, i). (runtime_event e EventTypeContentBlockStop)\<lparr>ev_BlockIndex := i\<rparr>) (range_order (sb_toolBlockIndexes sb1)) @
            [(runtime_event e EventTypeMessageDelta)\<lparr>ev_FinishReason := finishReason, ev_Usage := se_Usage e\<rparr>,
             (runtime_event e EventTypeMessageStop)\<lparr>ev_FinishReason := finishReason\<rparr>],
            sb1\<lparr>sb_toolBlockIndexes := []\<rparr>))"

definition content_delta :: "StreamEvent \<Rightarrow> stream_blocks \<Rightarrow> Event list \<times> stream_blocks" where
  "content_delta e sb =
     (case (case se_Delta e of
              None \<Rightarrow> ([], sb)
            | Some p \<Rightarrow> if cp_Type p = ContentPartTypeJSON then json_delta e (cp_Data p) sb else text_delta e (cp_Text p) sb) of
        (evs1, sb1) \<Rightarrow>
          (case se_ToolCall e of
             None \<Rightarrow> (evs1, sb1)
           | Some c \<Rightarrow> (case tool_delta e c sb1 of (evs2, sb2) \<Rightarrow> (evs1 @ evs2, sb2))))"

definition runtime_step :: "((int \<times> int) list \<Rightarrow> (int \<times> int) list) \<Rightarrow> StreamEvent \<Rightarrow> stream_blocks \<Rightarrow> Event list \<times> stream_blocks" where
  "runtime_step range_order e sb =
     (if se_Type e = StreamEventMessageStart then ([runtime_event e EventTypeMessageStart], sb)
      else if se_Type e = StreamEventContentDelta then content_delta e sb
      else if se_Type e = StreamEventUsage then ([(runtime_event e EventTypeUsage)\<lparr>ev_Usage := se_Usage e\<rparr>], sb)
      else if se_Type e = StreamEventMessageEnd then message_end range_order e sb
      else if se_Type e = StreamEventError then ([(runtime_event e EventTypeError)\<lparr>ev_Err := se_Err e\<rparr>], sb)
      else ([], sb))"

fun runtime_loop :: "((int \<times> int) list \<Rightarrow> (int \<times> int) list) \<Rightarrow> StreamEvent list \<Rightarrow> stream_blocks \<Rightarrow> Event list \<times> stream_blocks" where
  "runtime_loop range_order [] sb = ([], sb)"
| "runtime_loop range_order (e # es) sb =
     (case runtime_step range_order e sb of (evs, sb1) \<Rightarrow> (case runtime_loop range_order es sb1 of (evs', sb2) \<Rightarrow> (evs @ evs', sb2)))"

definition no_blocks :: stream_blocks where
  "no_blocks = \<lparr>sb_textBlockIndex = -1, sb_nextBlockIndex = 0, sb_toolBlockIndexes = []\<rparr>"

definition EventStreamFromRuntime :: "((int \<times> int) list \<Rightarrow> (int \<times> int) list) \<Rightarrow> StreamEvent list \<Rightarrow> Event list" where
  "EventStreamFromRuntime range_order events = fst (runtime_loop range_order events no_blocks)"

section \<open>A response survives its event form\<close>

lemma cloneBlock_id [simp]: "cloneBlock b = b" and clone_result_id [simp]: "clone_result r = r"
  by (induction b and r) (auto intro: option.map_ident_strong list.map_ident_strong elim!: option.set_cases)

definition identified :: "Response \<Rightarrow> snapshot_state \<Rightarrow> bool" where
  "identified resp st \<longleftrightarrow> rsn_ID (sn_snapshot st) = resp_ID resp \<and> rsn_Model (sn_snapshot st) = resp_Model resp \<and>
     rsn_Role (sn_snapshot st) = msg_Role (resp_Message resp)"

lemma snapshot_block:
  fixes resp i b st
  assumes "identified resp st" "i \<notin> set (sn_order st)"
  defines "st' \<equiv> fold snapshot_step (block_events resp i b) st"
  shows "sn_snapshot st' = sn_snapshot st" "sn_order st' = sn_order st @ [i]" "map_of (sn_blocks st') = (map_of (sn_blocks st))(i \<mapsto> b)"
  using assms by (simp_all add: identified_def block_events_def base_event_def snapshot_step_def Let_def update_conv')

lemma snapshot_blocks:
  fixes resp i bs st
  assumes "identified resp st" "\<forall>j\<in>set (sn_order st). j < i"
  defines "st' \<equiv> fold snapshot_step (blocks_events resp i bs) st"
  shows "sn_snapshot st' = sn_snapshot st \<and> sn_order st' = sn_order st @ [i..i + int (length bs) - 1] \<and>
    (\<forall>j<i. map_of (sn_blocks st') j = map_of (sn_blocks st) j) \<and>
    (\<forall>k<length bs. map_of (sn_blocks st') (i + int k) = Some (bs ! k))"
  using assms(1,2) unfolding st'_def
proof (induction bs arbitrary: i st)
  case Nil
  then show ?case by simp
next
  case (Cons b bs)
  let ?st1 = "fold snapshot_step (block_events resp i b) st"
  let ?st2 = "fold snapshot_step (blocks_events resp (i + 1) bs) ?st1"
  have one: "sn_snapshot ?st1 = sn_snapshot st" "sn_order ?st1 = sn_order st @ [i]"
    "map_of (sn_blocks ?st1) = (map_of (sn_blocks st))(i \<mapsto> b)"
    using snapshot_block [of resp st i b] Cons.prems by auto
  have "identified resp ?st1" "\<forall>j\<in>set (sn_order ?st1). j < i + 1"
    using Cons.prems one by (auto simp: identified_def)
  then have IH: "sn_snapshot ?st2 = sn_snapshot ?st1 \<and> sn_order ?st2 = sn_order ?st1 @ [i + 1..i + 1 + int (length bs) - 1] \<and>
    (\<forall>j<i + 1. map_of (sn_blocks ?st2) j = map_of (sn_blocks ?st1) j) \<and>
    (\<forall>k<length bs. map_of (sn_blocks ?st2) (i + 1 + int k) = Some (bs ! k))"
    using Cons.IH [of ?st1 "i + 1"] by blast
  have "map_of (sn_blocks ?st2) (i + int k) = Some ((b # bs) ! k)" if k: "k < length (b # bs)" for k
  proof (cases k)
    case 0
    then show ?thesis using IH one by simp
  next
    case (Suc m)
    then have "map_of (sn_blocks ?st2) (i + 1 + int m) = Some (bs ! m)" using IH k by simp
    then show ?thesis using Suc by (simp add: algebra_simps)
  qed
  moreover have "[i..i + int (length (b # bs)) - 1] = i # [i + 1..i + 1 + int (length bs) - 1]"
    by (subst upto_rec1) (auto simp: algebra_simps)
  ultimately show ?case using IH one by simp
qed

lemma StopReasonFromRuntime_nonempty [simp]: "StopReasonFromRuntime r \<noteq> []"
  by (simp add: StopReasonFromRuntime_def)

lemma snapshot_tail:
  fixes resp
  defines "ev \<equiv> \<lambda>t. base_event t (resp_ID resp) (resp_Model resp) (msg_Role (resp_Message resp))"
  assumes "identified resp st" "rsn_Usage (sn_snapshot st) = None" "reason \<noteq> []"
  shows "fold snapshot_step ((if u \<noteq> None then [(ev EventTypeUsage)\<lparr>ev_Usage := u\<rparr>] else []) @
      [(ev EventTypeMessageDelta)\<lparr>ev_FinishReason := reason, ev_Usage := u\<rparr>, (ev EventTypeMessageStop)\<lparr>ev_FinishReason := reason\<rparr>]) st =
    st\<lparr>sn_snapshot := (sn_snapshot st)\<lparr>rsn_FinishReason := reason, rsn_Usage := u\<rparr>\<rparr>"
  using assms(2-) by (cases u) (simp_all add: ev_def identified_def snapshot_step_def base_event_def Let_def)

text \<open>turning a response into events and folding the events back into a snapshot keeps the identity of the response, its
  parts and tool calls in order, the usage, and the finish reason as its stop reason.
\<close>

theorem response_events_roundtrip:
  "SnapshotFromEvents (EventsFromRuntimeResponse resp) =
     \<lparr>rsn_ID = resp_ID resp, rsn_Model = resp_Model resp, rsn_Role = msg_Role (resp_Message resp), rsn_Blocks = response_blocks resp,
      rsn_FinishReason = StopReasonFromRuntime (resp_FinishReason resp), rsn_Usage = resp_Usage resp\<rparr>"
proof -
  let ?ev = "\<lambda>t. base_event t (resp_ID resp) (resp_Model resp) (msg_Role (resp_Message resp))"
  define st0 where "st0 = \<lparr>sn_snapshot = \<lparr>rsn_ID = resp_ID resp, rsn_Model = resp_Model resp, rsn_Role = msg_Role (resp_Message resp),
    rsn_Blocks = [], rsn_FinishReason = [], rsn_Usage = None\<rparr>, sn_blocks = [], sn_order = []\<rparr>"
  define st1 where "st1 = fold snapshot_step (blocks_events resp 0 (response_blocks resp)) st0"
  have s0: "snapshot_step (?ev EventTypeMessageStart)
      \<lparr>sn_snapshot = \<lparr>rsn_ID = [], rsn_Model = [], rsn_Role = [], rsn_Blocks = [], rsn_FinishReason = [], rsn_Usage = None\<rparr>,
       sn_blocks = [], sn_order = []\<rparr> = st0"
    by (simp add: snapshot_step_def base_event_def st0_def Let_def)
  have blocks: "sn_snapshot st1 = sn_snapshot st0" "sn_order st1 = [0..int (length (response_blocks resp)) - 1]"
    "\<And>k. k < length (response_blocks resp) \<Longrightarrow> map_of (sn_blocks st1) (int k) = Some (response_blocks resp ! k)"
    using snapshot_blocks [of resp st0 0 "response_blocks resp"] by (simp_all add: st0_def st1_def identified_def)
  have "map (\<lambda>i. case map_of (sn_blocks st1) i of None \<Rightarrow> zero_block | Some b \<Rightarrow> b) (sn_order st1) = response_blocks resp"
    by (rule nth_equalityI) (simp_all add: blocks)
  moreover have "identified resp st1" "rsn_Usage (sn_snapshot st1) = None"
    using blocks(1) by (simp_all add: identified_def st0_def)
  ultimately show ?thesis
    unfolding SnapshotFromEvents_def EventsFromRuntimeResponse_def Let_def fold_append [of _ "[_]"] fold_append [of _ "blocks_events _ _ _"]
      fold.simps comp_apply id_apply s0 st1_def [symmetric]
    by (simp only: snapshot_tail [OF _ _ StopReasonFromRuntime_nonempty]) (simp add: blocks(1) st0_def)
qed

section \<open>Blocks open and close in order\<close>

text \<open>
  The protocol a consumer of the event stream relies on: the next block to start has the next index, a delta or a stop
  concerns a block that is open, and no block is open when the message ends. The state is the next index and the open
  blocks.
\<close>

definition bracket_step :: "Event \<Rightarrow> int \<times> int set \<Rightarrow> (int \<times> int set) option" where
  "bracket_step e st =
     (case st of (n, opened) \<Rightarrow>
        if ev_Type e = EventTypeContentBlockStart
        then (if ev_BlockIndex e = n then Some (n + 1, insert n opened) else None)
        else if ev_Type e = EventTypeContentBlockDelta then (if ev_BlockIndex e \<in> opened then Some st else None)
        else if ev_Type e = EventTypeContentBlockStop
        then (if ev_BlockIndex e \<in> opened then Some (n, opened - {ev_BlockIndex e}) else None)
        else if ev_Type e = EventTypeMessageDelta \<or> ev_Type e = EventTypeMessageStop
        then (if opened = {} then Some st else None)
        else Some st)"

fun brackets :: "Event list \<Rightarrow> int \<times> int set \<Rightarrow> (int \<times> int set) option" where
  "brackets [] st = Some st"
| "brackets (e # es) st = Option.bind (bracket_step e st) (brackets es)"

lemma brackets_append: "brackets (xs @ ys) st = Option.bind (brackets xs st) (brackets ys)"
  by (induction xs arbitrary: st) (auto split: bind_split)

definition open_blocks :: "stream_blocks \<Rightarrow> int set" where
  "open_blocks sb = (if sb_textBlockIndex sb = -1 then {} else {sb_textBlockIndex sb}) \<union> snd ` set (sb_toolBlockIndexes sb)"

definition blocks_ok :: "stream_blocks \<Rightarrow> bool" where
  "blocks_ok sb \<longleftrightarrow> 0 \<le> sb_nextBlockIndex sb \<and> -1 \<le> sb_textBlockIndex sb \<and> sb_textBlockIndex sb < sb_nextBlockIndex sb \<and>
     distinct (map fst (sb_toolBlockIndexes sb)) \<and> distinct (map snd (sb_toolBlockIndexes sb)) \<and>
     (\<forall>i\<in>snd ` set (sb_toolBlockIndexes sb). 0 \<le> i \<and> i < sb_nextBlockIndex sb \<and> i \<noteq> sb_textBlockIndex sb)"

text \<open>What the events of one step do to the protocol's state is what the step does to the stream's own state.\<close>

definition tracks :: "stream_blocks \<Rightarrow> Event list \<times> stream_blocks \<Rightarrow> bool" where
  "tracks sb r \<longleftrightarrow>
     brackets (fst r) (sb_nextBlockIndex sb, open_blocks sb) = Some (sb_nextBlockIndex (snd r), open_blocks (snd r)) \<and> blocks_ok (snd r)"

lemmas event_defs = runtime_event_def base_event_def bracket_step_def

lemma tracks_trans:
  assumes "tracks sb (evs1, sb1)" "tracks sb1 (evs2, sb2)"
  shows "tracks sb (evs1 @ evs2, sb2)"
  using assms by (simp add: tracks_def brackets_append)

lemma close_text_tracks:
  assumes "blocks_ok sb"
  shows "tracks sb (close_text e sb)"
  using assms by (auto simp: tracks_def close_text_def event_defs blocks_ok_def open_blocks_def)

lemma close_text_closed: "sb_textBlockIndex (snd (close_text e sb)) = -1"
  by (simp add: close_text_def)

lemma json_delta_tracks:
  assumes "blocks_ok sb"
  shows "tracks sb (json_delta e d sb)"
proof -
  obtain evs1 sb1 where c: "close_text e sb = (evs1, sb1)" by fastforce
  then have ok: "blocks_ok sb1" and t: "tracks sb (evs1, sb1)" using close_text_tracks [OF assms, of e] by (auto simp: tracks_def)
  let ?n = "sb_nextBlockIndex sb1" and ?ev = "\<lambda>t. (runtime_event e t)\<lparr>ev_BlockIndex := sb_nextBlockIndex sb1\<rparr>"
  have "?n \<notin> open_blocks sb1" using ok by (auto simp: blocks_ok_def open_blocks_def)
  then have "tracks sb1 ([(?ev EventTypeContentBlockStart)\<lparr>ev_Block := Some (json_block d)\<rparr>,
      (?ev EventTypeContentBlockDelta)\<lparr>ev_Block := Some (json_block d)\<rparr>, ?ev EventTypeContentBlockStop], sb1\<lparr>sb_nextBlockIndex := ?n + 1\<rparr>)"
    using ok by (fastforce simp: tracks_def event_defs blocks_ok_def open_blocks_def)
  from tracks_trans [OF t this] show ?thesis by (simp add: json_delta_def c Let_def)
qed

lemma text_delta_tracks:
  assumes "blocks_ok sb"
  shows "tracks sb (text_delta e t sb)"
  using assms by (fastforce simp: tracks_def text_delta_def event_defs blocks_ok_def open_blocks_def Let_def)

lemma tool_delta_tracks:
  assumes "blocks_ok sb"
  shows "tracks sb (tool_delta e c sb)"
proof -
  obtain evs1 sb1 where cl: "close_text e sb = (evs1, sb1)" by fastforce
  then have ok: "blocks_ok sb1" and t: "tracks sb (evs1, sb1)" using close_text_tracks [OF assms, of e] by (auto simp: tracks_def)
  have notext: "sb_textBlockIndex sb1 = -1" using close_text_closed [of e sb] cl by simp
  obtain evs2 sb2 where two: "tool_delta e c sb = (evs1 @ evs2, sb2)" "tracks sb1 (evs2, sb2)"
  proof (cases "map_of (sb_toolBlockIndexes sb1) (se_ToolCallIndex e)")
    case None
    let ?n = "sb_nextBlockIndex sb1"
    let ?tools = "AList.update (se_ToolCallIndex e) ?n (sb_toolBlockIndexes sb1)"
    have new: "?tools = sb_toolBlockIndexes sb1 @ [(se_ToolCallIndex e, ?n)]"
      using None by (intro update_nonmem) (simp add: map_of_eq_None_iff)
    have fresh: "se_ToolCallIndex e \<notin> fst ` set (sb_toolBlockIndexes sb1)" using None by (simp add: map_of_eq_None_iff)
    let ?ev = "\<lambda>t. (runtime_event e t)\<lparr>ev_BlockIndex := ?n\<rparr>" and ?sb2 = "sb1\<lparr>sb_nextBlockIndex := ?n + 1, sb_toolBlockIndexes := ?tools\<rparr>"
    have "blocks_ok ?sb2" using ok notext fresh unfolding new by (fastforce simp: blocks_ok_def)
    then have "tracks sb1 ([(?ev EventTypeContentBlockStart)\<lparr>ev_Block := Some (tool_block (tc_ID c) (tc_Name c) [])\<rparr>,
        (?ev EventTypeContentBlockDelta)\<lparr>ev_Block := Some (tool_block (tc_ID c) (tc_Name c) (tc_Arguments c)),
          ev_ToolCall := Some \<lparr>tcs_ID = tc_ID c, tcs_Name = tc_Name c, tcs_Arguments = tc_Arguments c\<rparr>\<rparr>], ?sb2)"
      using notext unfolding new by (simp add: tracks_def event_defs open_blocks_def)
    then show ?thesis
      using None by (intro that) (simp_all add: tool_delta_def cl Let_def)
  next
    case (Some i)
    then have "i \<in> open_blocks sb1" by (force simp: open_blocks_def dest: map_of_SomeD)
    then show ?thesis
      using Some ok by (intro that) (auto simp: tool_delta_def cl Let_def tracks_def event_defs)
  qed
  then show ?thesis using tracks_trans [OF t] by simp
qed

lemma brackets_stops:
  assumes "distinct js" "set js \<inter> A = {}"
  shows "brackets (map (\<lambda>i. (runtime_event e EventTypeContentBlockStop)\<lparr>ev_BlockIndex := i\<rparr>) js) (n, set js \<union> A) = Some (n, A)"
  using assms by (induction js arbitrary: A) (auto simp: event_defs insert_Diff_if Un_Diff)

lemma message_end_tracks:
  assumes "blocks_ok sb" and perm: "\<And>xs. mset (range_order xs) = mset xs"
  shows "tracks sb (message_end range_order e sb)"
proof -
  obtain evs1 sb1 where cl: "close_text e sb = (evs1, sb1)" by fastforce
  then have ok: "blocks_ok sb1" and t: "tracks sb (evs1, sb1)" using close_text_tracks [OF assms(1), of e] by (auto simp: tracks_def)
  have notext: "sb_textBlockIndex sb1 = -1" using close_text_closed [of e sb] cl by simp
  define tools where "tools = map snd (range_order (sb_toolBlockIndexes sb1))"
  have "mset tools = mset (map snd (sb_toolBlockIndexes sb1))" using perm by (simp add: tools_def)
  then have "distinct tools \<longleftrightarrow> distinct (map snd (sb_toolBlockIndexes sb1))" "set tools = set (map snd (sb_toolBlockIndexes sb1))"
    by (rule mset_eq_imp_distinct_iff, rule mset_eq_setD)
  then have "distinct tools" "set tools = open_blocks sb1"
    using ok notext by (simp_all add: blocks_ok_def open_blocks_def)
  then have "brackets (map (\<lambda>i. (runtime_event e EventTypeContentBlockStop)\<lparr>ev_BlockIndex := i\<rparr>) tools) (sb_nextBlockIndex sb1, open_blocks sb1) =
      Some (sb_nextBlockIndex sb1, {})"
    using brackets_stops [of tools "{}" e "sb_nextBlockIndex sb1"] by simp
  moreover have "map (\<lambda>i. (runtime_event e EventTypeContentBlockStop)\<lparr>ev_BlockIndex := i\<rparr>) tools =
      map (\<lambda>(k, i). (runtime_event e EventTypeContentBlockStop)\<lparr>ev_BlockIndex := i\<rparr>) (range_order (sb_toolBlockIndexes sb1))"
    by (simp add: tools_def split_def)
  ultimately have "tracks sb1 (map (\<lambda>(k, i). (runtime_event e EventTypeContentBlockStop)\<lparr>ev_BlockIndex := i\<rparr>) (range_order (sb_toolBlockIndexes sb1)) @
      [(runtime_event e EventTypeMessageDelta)\<lparr>ev_FinishReason := StopReasonFromRuntime (se_FinishReason e), ev_Usage := se_Usage e\<rparr>,
       (runtime_event e EventTypeMessageStop)\<lparr>ev_FinishReason := StopReasonFromRuntime (se_FinishReason e)\<rparr>], sb1\<lparr>sb_toolBlockIndexes := []\<rparr>)"
    using ok notext by (simp add: tracks_def brackets_append) (simp add: event_defs open_blocks_def blocks_ok_def)
  from tracks_trans [OF t this] show ?thesis by (simp add: message_end_def cl Let_def)
qed

lemma content_delta_tracks:
  assumes "blocks_ok sb"
  shows "tracks sb (content_delta e sb)"
proof -
  let ?r = "case se_Delta e of None \<Rightarrow> ([], sb)
      | Some p \<Rightarrow> if cp_Type p = ContentPartTypeJSON then json_delta e (cp_Data p) sb else text_delta e (cp_Text p) sb"
  obtain evs1 sb1 where p: "?r = (evs1, sb1)" by fastforce
  have "tracks sb ([], sb)" using assms by (simp add: tracks_def)
  then have "tracks sb ?r"
    using json_delta_tracks [OF assms] text_delta_tracks [OF assms] by (simp split: option.split)
  then have t: "tracks sb (evs1, sb1)" by (simp only: p)
  then have ok: "blocks_ok sb1" by (simp add: tracks_def)
  show ?thesis
    using t tracks_trans [OF t] tool_delta_tracks [OF ok, of e]
    by (cases "se_ToolCall e") (simp_all add: content_delta_def p split: prod.split, metis)
qed

lemma runtime_step_tracks:
  assumes "blocks_ok sb" "\<And>xs. mset (range_order xs) = mset xs"
  shows "tracks sb (runtime_step range_order e sb)"
  using assms content_delta_tracks [of sb e] message_end_tracks [OF assms, of e]
  by (auto simp: runtime_step_def tracks_def event_defs)

lemma runtime_loop_tracks:
  assumes "blocks_ok sb" "\<And>xs. mset (range_order xs) = mset xs"
  shows "tracks sb (runtime_loop range_order es sb)"
  using assms(1)
proof (induction es arbitrary: sb)
  case Nil
  then show ?case by (simp add: tracks_def)
next
  case (Cons e es)
  obtain evs sb1 where s: "runtime_step range_order e sb = (evs, sb1)" by fastforce
  then have t: "tracks sb (evs, sb1)" using runtime_step_tracks [OF Cons.prems assms(2), of e] by simp
  then have "tracks sb1 (runtime_loop range_order es sb1)" using Cons.IH by (simp add: tracks_def)
  then show ?case using tracks_trans [OF t] by (auto simp: s split: prod.splits)
qed

text \<open>C18: whatever events a provider streams and in whatever order Go ranges over the open tool blocks, the emitted events
  follow the block protocol: block starts are numbered consecutively from 0, every delta and every stop concerns a block
  that is open, no block is stopped twice, and when the message ends no block is open.
\<close>

theorem stream_blocks_bracketed:
  assumes "\<And>xs. mset (range_order xs) = mset xs"
  shows "\<exists>n opened. brackets (EventStreamFromRuntime range_order events) (0, {}) = Some (n, opened)"
  using runtime_loop_tracks [of no_blocks range_order events] assms
  by (simp add: tracks_def EventStreamFromRuntime_def no_blocks_def open_blocks_def blocks_ok_def)

definition tool_event :: "int \<Rightarrow> string \<Rightarrow> StreamEvent" where
  "tool_event i a = \<lparr>se_Type = StreamEventContentDelta, se_ResponseID = ''r'', se_Model = ''m'', se_MessageRole = ''assistant'', se_Delta = None,
     se_ToolCall = Some \<lparr>tc_ID = ''c'', tc_Type = [], tc_Name = ''f'', tc_Arguments = a, tc_Input = []\<rparr>, se_ToolCallIndex = i, se_FinishReason = [],
     se_Usage = None, se_Err = None\<rparr>"

theorem stream_blocks_bracketed_witness:
  "\<exists>n opened. brackets (EventStreamFromRuntime rev [tool_event 1 ''{'', tool_event 0 ''{'', (tool_event 0 [])\<lparr>se_Type := StreamEventMessageEnd\<rparr>])
     (0, {}) = Some (n, opened)"
  by (rule stream_blocks_bracketed) simp

end
