(* ===== verification/Go_Json.thy ===== *)
theory Go_Json
  imports Go_Prelude Complex_Main
begin

text \<open>
  What the stream codecs use of package \<open>encoding/json\<close>: the values \<open>json.Marshal\<close> is given (\<open>any\<close>), and
  \<open>json.Compact\<close> with the byte-wise scanner it runs (a state and a stack of what is being parsed). The scanner reads a
  byte at a time, so all of it is structural recursion over the input.
\<close>

section \<open>Values\<close>

text \<open>
  A \<open>map[string]any\<close> literal is the list of its entries; later assignments to a key that is not there yet are appended.
\<close>

datatype any = JNull | JBool bool | JInt int | JFloat rat | JStr string | JArr "any list" | JObj "(string \<times> any) list"

fun field :: "string \<Rightarrow> any \<Rightarrow> any option" where
  "field k (JObj kvs) = map_of kvs k"
| "field k _ = None"

fun elements :: "any \<Rightarrow> any list" where
  "elements (JArr xs) = xs"
| "elements _ = []"

fun string_of :: "any option \<Rightarrow> string" where
  "string_of (Some (JStr s)) = s"
| "string_of _ = []"

section \<open>The scanner\<close>

datatype parse_state = parseObjectKey | parseObjectValue | parseArrayValue

datatype scan_state =
    BeginValue | BeginValueOrEmpty | BeginStringOrEmpty | BeginString | EndValue | EndTop
  | InString | InStringEsc | InStringEscU nat | Neg | Digits | Zero | Dot | DotDigits | Exp | ExpSign | ExpDigits
  | Literal string

record scanner =
  sc_step :: scan_state
  sc_parseState :: "parse_state list"
  sc_endTop :: bool

datatype scan_code = ScanCopy | ScanSkip | ScanError

definition isSpace :: "char \<Rightarrow> bool" where
  "isSpace c \<longleftrightarrow> c \<in> {CHR '' '', CHR 0x09, CHR 0x0D, CHR 0x0A}"

definition is_digit_byte :: "char \<Rightarrow> bool" where
  "is_digit_byte c \<longleftrightarrow> CHR ''0'' \<le> c \<and> c \<le> CHR ''9''"

definition is_hex_byte :: "char \<Rightarrow> bool" where
  "is_hex_byte c \<longleftrightarrow> is_digit_byte c \<or> CHR ''a'' \<le> c \<and> c \<le> CHR ''f'' \<or> CHR ''A'' \<le> c \<and> c \<le> CHR ''F''"

definition maxNestingDepth :: nat where
  "maxNestingDepth = 10000"

definition goto :: "scan_state \<Rightarrow> scanner \<Rightarrow> scan_code \<times> scanner" where
  "goto st s = (ScanCopy, s\<lparr>sc_step := st\<rparr>)"

definition pushParseState :: "parse_state \<Rightarrow> scan_state \<Rightarrow> scanner \<Rightarrow> scan_code \<times> scanner" where
  "pushParseState p st s =
     (if length (sc_parseState s) < maxNestingDepth
      then (ScanCopy, s\<lparr>sc_step := st, sc_parseState := p # sc_parseState s\<rparr>)
      else (ScanError, s))"

definition popParseState :: "scanner \<Rightarrow> scan_code \<times> scanner" where
  "popParseState s =
     (case tl (sc_parseState s) of
        [] \<Rightarrow> (ScanCopy, s\<lparr>sc_parseState := [], sc_step := EndTop, sc_endTop := True\<rparr>)
      | ps \<Rightarrow> (ScanCopy, s\<lparr>sc_parseState := ps, sc_step := EndValue\<rparr>))"

definition stateEndTop :: "char \<Rightarrow> scanner \<Rightarrow> scan_code \<times> scanner" where
  "stateEndTop c s = (if isSpace c then (ScanSkip, s) else (ScanError, s))"

definition stateEndValue :: "char \<Rightarrow> scanner \<Rightarrow> scan_code \<times> scanner" where
  "stateEndValue c s =
     (case sc_parseState s of
        [] \<Rightarrow> stateEndTop c (s\<lparr>sc_step := EndTop, sc_endTop := True\<rparr>)
      | p # ps \<Rightarrow>
          if isSpace c then (ScanSkip, s\<lparr>sc_step := EndValue\<rparr>)
          else (case p of
                  parseObjectKey \<Rightarrow>
                    if c = CHR '':'' then goto BeginValue (s\<lparr>sc_parseState := parseObjectValue # ps\<rparr>) else (ScanError, s)
                | parseObjectValue \<Rightarrow>
                    if c = CHR '','' then goto BeginString (s\<lparr>sc_parseState := parseObjectKey # ps\<rparr>)
                    else if c = CHR ''}'' then popParseState s else (ScanError, s)
                | parseArrayValue \<Rightarrow>
                    if c = CHR '','' then goto BeginValue s
                    else if c = CHR '']'' then popParseState s else (ScanError, s)))"

definition stateBeginValue :: "char \<Rightarrow> scanner \<Rightarrow> scan_code \<times> scanner" where
  "stateBeginValue c s =
     (if isSpace c then (ScanSkip, s)
      else if c = CHR ''{'' then pushParseState parseObjectKey BeginStringOrEmpty s
      else if c = CHR ''['' then pushParseState parseArrayValue BeginValueOrEmpty s
      else if c = CHR 0x22 then goto InString s
      else if c = CHR ''-'' then goto Neg s
      else if c = CHR ''0'' then goto Zero s
      else if c = CHR ''t'' then goto (Literal ''rue'') s
      else if c = CHR ''f'' then goto (Literal ''alse'') s
      else if c = CHR ''n'' then goto (Literal ''ull'') s
      else if is_digit_byte c then goto Digits s
      else (ScanError, s))"

definition stateBeginString :: "char \<Rightarrow> scanner \<Rightarrow> scan_code \<times> scanner" where
  "stateBeginString c s =
     (if isSpace c then (ScanSkip, s) else if c = CHR 0x22 then goto InString s else (ScanError, s))"

definition scan_digits :: "scan_state \<Rightarrow> char \<Rightarrow> scanner \<Rightarrow> scan_code \<times> scanner" where
  "scan_digits st c s = (if is_digit_byte c then goto st s else (ScanError, s))"

definition state0 :: "char \<Rightarrow> scanner \<Rightarrow> scan_code \<times> scanner" where
  "state0 c s =
     (if c = CHR ''.'' then goto Dot s else if c = CHR ''e'' \<or> c = CHR ''E'' then goto Exp s else stateEndValue c s)"

definition scan_step :: "char \<Rightarrow> scanner \<Rightarrow> scan_code \<times> scanner" where
  "scan_step c s =
     (case sc_step s of
        BeginValue \<Rightarrow> stateBeginValue c s
      | BeginValueOrEmpty \<Rightarrow>
          if isSpace c then (ScanSkip, s) else if c = CHR '']'' then stateEndValue c s else stateBeginValue c s
      | BeginStringOrEmpty \<Rightarrow>
          if isSpace c then (ScanSkip, s)
          else if c = CHR ''}'' then stateEndValue c (s\<lparr>sc_parseState := parseObjectValue # tl (sc_parseState s)\<rparr>)
          else stateBeginString c s
      | BeginString \<Rightarrow> stateBeginString c s
      | EndValue \<Rightarrow> stateEndValue c s
      | EndTop \<Rightarrow> stateEndTop c s
      | InString \<Rightarrow>
          if c = CHR 0x22 then goto EndValue s
          else if c = CHR 0x5C then goto InStringEsc s
          else if c < CHR '' '' then (ScanError, s) else (ScanCopy, s)
      | InStringEsc \<Rightarrow>
          if c \<in> set ''bfnrt/'' \<or> c = CHR 0x5C \<or> c = CHR 0x22 then goto InString s
          else if c = CHR ''u'' then goto (InStringEscU 3) s else (ScanError, s)
      | InStringEscU n \<Rightarrow>
          if is_hex_byte c then goto (if n = 0 then InString else InStringEscU (n - 1)) s else (ScanError, s)
      | Neg \<Rightarrow>
          if c = CHR ''0'' then goto Zero s else scan_digits Digits c s
      | Digits \<Rightarrow> if is_digit_byte c then (ScanCopy, s) else state0 c s
      | Zero \<Rightarrow> state0 c s
      | Dot \<Rightarrow> scan_digits DotDigits c s
      | DotDigits \<Rightarrow>
          if is_digit_byte c then (ScanCopy, s)
          else if c = CHR ''e'' \<or> c = CHR ''E'' then goto Exp s else stateEndValue c s
      | Exp \<Rightarrow> if c = CHR ''+'' \<or> c = CHR ''-'' then goto ExpSign s else scan_digits ExpDigits c s
      | ExpSign \<Rightarrow> scan_digits ExpDigits c s
      | ExpDigits \<Rightarrow> if is_digit_byte c then (ScanCopy, s) else stateEndValue c s
      | Literal w \<Rightarrow>
          (case w of
             [] \<Rightarrow> (ScanError, s)
           | d # w' \<Rightarrow> if c = d then goto (if w' = [] then EndValue else Literal w') s else (ScanError, s)))"

definition new_scanner :: scanner where
  "new_scanner = \<lparr>sc_step = BeginValue, sc_parseState = [], sc_endTop = False\<rparr>"

definition scan_eof :: "scanner \<Rightarrow> bool" where
  "scan_eof s = (sc_endTop s \<or> (case scan_step (CHR '' '') s of (code, s') \<Rightarrow> code \<noteq> ScanError \<and> sc_endTop s'))"

text \<open>\<open>json.Compact\<close>: the input without the white space between its tokens, \<open>None\<close> for input that is not JSON.\<close>

fun compact_loop :: "scanner \<Rightarrow> string \<Rightarrow> string option" where
  "compact_loop s [] = (if scan_eof s then Some [] else None)"
| "compact_loop s (c # cs) =
     (case scan_step c s of
        (ScanError, _) \<Rightarrow> None
      | (ScanSkip, s') \<Rightarrow> compact_loop s' cs
      | (ScanCopy, s') \<Rightarrow> map_option (Cons c) (compact_loop s' cs))"

definition json_Compact :: "string \<Rightarrow> string option" where
  "json_Compact src = compact_loop new_scanner src"

end
