(* ===== verification/Provider_Stream.thy ===== *)
theory Provider_Stream
  imports Runtime_Model Go_Json
begin

text \<open>
  The provider side of streaming (package \<open>internal/provider\<close>): the token estimate of \<open>usage_estimation.go\<close>, the stream
  of a complete response (\<open>stream.go\<close>), and the decoder of an OpenAI chat stream (\<open>openai_chat_stream.go\<close>). The decoder
  reads the lines the scanner delivers and the error that \<open>scanner.Err\<close> reports after the loop; the fields of a chunk that are not
  read are left out; \<open>json.Unmarshal\<close> into the chunk struct is the argument
  \<open>unmarshal\<close>. The channel is the list of the events sent on it.
\<close>

section \<open>Token estimate\<close>

text \<open>\<open>utf8.RuneCount\<close>: the bytes of the first rune; an invalid byte is a rune of its own.\<close>

definition continuation :: "nat \<Rightarrow> nat \<Rightarrow> string \<Rightarrow> nat \<Rightarrow> bool" where
  "continuation lo hi s i = (i < length s \<and> lo \<le> of_char (s ! i) \<and> of_char (s ! i) \<le> hi)"

definition rune_size :: "string \<Rightarrow> nat" where
  "rune_size s =
     (let b = (of_char (s ! 0) :: nat); tail = (\<lambda>i. continuation 128 191 s i) in
      if b < 128 then 1
      else if 194 \<le> b \<and> b \<le> 223 \<and> tail 1 then 2
      else if (b = 224 \<and> continuation 160 191 s 1 \<or> b = 237 \<and> continuation 128 159 s 1 \<or>
               225 \<le> b \<and> b \<le> 239 \<and> b \<noteq> 237 \<and> tail 1) \<and> tail 2 then 3
      else if (b = 240 \<and> continuation 144 191 s 1 \<or> 241 \<le> b \<and> b \<le> 243 \<and> tail 1 \<or> b = 244 \<and> continuation 128 143 s 1) \<and>
              tail 2 \<and> tail 3 then 4
      else 1)"

lemma rune_size_bounds: "1 \<le> rune_size s" "rune_size s \<le> 4"
  by (simp_all add: rune_size_def Let_def)

function RuneCount :: "string \<Rightarrow> int" where
  "RuneCount s = (if s = [] then 0 else 1 + RuneCount (drop (rune_size s) s))"
  by pat_completeness auto
termination
  using rune_size_bounds(1) by (relation "measure length") (auto simp: Suc_le_eq)

declare RuneCount.simps [simp del]

definition maxEstimatedTokens :: "int \<Rightarrow> int" where
  "maxEstimatedTokens runes = (if runes \<le> 0 then 0 else let tokens = (runes + 3) div 4 in if tokens < 1 then 1 else tokens)"

definition estimateTextTokens :: "string \<Rightarrow> int" where
  "estimateTextTokens t = (if t = [] then 0 else maxEstimatedTokens (RuneCount t))"

definition estimateBytesTokens :: "raw_json \<Rightarrow> int" where
  "estimateBytesTokens d = (if length d = 0 then 0 else maxEstimatedTokens (RuneCount d))"

definition part_tokens :: "ContentPart \<Rightarrow> int" where
  "part_tokens p = (if cp_Type p = ContentPartTypeJSON then estimateBytesTokens (cp_Data p) + 2 else estimateTextTokens (cp_Text p))"

definition call_tokens :: "ToolCall \<Rightarrow> int" where
  "call_tokens c = 3 + estimateTextTokens (tc_Name c) + estimateTextTokens (tc_Arguments c) + estimateTextTokens (tc_Input c)"

definition message_tokens :: "Message \<Rightarrow> int" where
  "message_tokens m =
     2 + estimateTextTokens (msg_Role m) + sum_list (map part_tokens (msg_Parts m)) +
     (if msg_ToolCallID m \<noteq> [] then estimateTextTokens (msg_ToolCallID m) else 0) + sum_list (map call_tokens (msg_ToolCalls m))"

definition tool_tokens :: "ToolDefinition \<Rightarrow> int" where
  "tool_tokens t =
     6 + estimateTextTokens (td_Type t) + estimateTextTokens (td_Name t) + estimateTextTokens (td_Description t) +
     estimateBytesTokens (td_InputSchema t) + estimateBytesTokens (td_Format t) + estimateBytesTokens (td_Raw t)"

definition estimateRequestTokens :: "Request \<Rightarrow> int" where
  "estimateRequestTokens req =
     (let total = estimateTextTokens (req_System req) + sum_list (map message_tokens (req_Messages req)) +
                  sum_list (map tool_tokens (req_Tools req)) + estimateBytesTokens (req_ToolChoice req) +
                  estimateBytesTokens (req_Metadata req) + estimateBytesTokens (req_ContextManagement req) +
                  estimateTextTokens (req_ThinkingType req) + estimateTextTokens (req_OutputEffort req)
      in if total < 1 then 1 else total)"

definition estimateResponseTokens :: "Response \<Rightarrow> int" where
  "estimateResponseTokens resp =
     (let m = resp_Message resp;
          total = 2 + estimateTextTokens (msg_Role m) + sum_list (map part_tokens (msg_Parts m)) + sum_list (map call_tokens (msg_ToolCalls m))
      in if total < 1 then 1 else total)"

definition estimateUsageHeuristically :: "Request \<Rightarrow> Response \<Rightarrow> Usage" where
  "estimateUsageHeuristically req resp =
     (let input = estimateRequestTokens req; output = estimateResponseTokens resp
      in \<lparr>us_InputTokens = input, us_OutputTokens = output, us_CachedInputReadTokens = 0, us_CachedInputWriteTokens = 0,
          us_TotalTokens = input + output, us_Source = UsageSourceEstimated\<rparr>)"

section \<open>A complete response as a stream\<close>

definition stream_event :: "string \<Rightarrow> string \<Rightarrow> string \<Rightarrow> string \<Rightarrow> StreamEvent" where
  "stream_event typ mid model role =
     \<lparr>se_Type = typ, se_ResponseID = mid, se_Model = model, se_MessageRole = role, se_Delta = None, se_ToolCall = None,
      se_ToolCallIndex = 0, se_FinishReason = [], se_Usage = None, se_Err = None\<rparr>"

definition streamResponse :: "Response \<Rightarrow> StreamEvent list" where
  "streamResponse resp =
     (let ev = (\<lambda>t. stream_event t (resp_ID resp) (resp_Model resp) (msg_Role (resp_Message resp)))
      in [ev StreamEventMessageStart] @
         (if resp_Usage resp \<noteq> None then [(ev StreamEventUsage)\<lparr>se_Usage := resp_Usage resp\<rparr>] else []) @
         map (\<lambda>p. (ev StreamEventContentDelta)\<lparr>se_Delta := Some p\<rparr>) (msg_Parts (resp_Message resp)) @
         map (\<lambda>(i, c). (ev StreamEventContentDelta)\<lparr>se_ToolCall := Some c, se_ToolCallIndex := int i\<rparr>)
           (enumerate 0 (msg_ToolCalls (resp_Message resp))) @
         [(ev StreamEventMessageEnd)\<lparr>se_FinishReason := resp_FinishReason resp, se_Usage := resp_Usage resp\<rparr>])"

section \<open>Decoding an OpenAI chat stream\<close>

record chunk_call =
  cc_Index :: int
  cc_ID :: string
  cc_Name :: string
  cc_Arguments :: string

record chunk_choice =
  ch_Role :: string
  ch_Content :: string
  ch_ToolCalls :: "chunk_call list"
  ch_FinishReason :: string

record chunk_usage =
  cu_InputTokens :: int
  cu_OutputTokens :: int
  cu_PromptTokens :: int
  cu_CompletionTokens :: int
  cu_TotalTokens :: int
  cu_CachedTokens :: "int option"

record openAIChatStreamChunk =
  ck_ID :: string
  ck_Model :: string
  ck_Choices :: "chunk_choice list"
  ck_Usage :: "chunk_usage option"

record toolState =
  ts_id :: string
  ts_name :: string
  ts_arguments :: string

record decode_state =
  ds_messageID :: string
  ds_model :: string
  ds_role :: string
  ds_finishReason :: string
  ds_usage :: "Usage option"
  ds_states :: "(int \<times> toolState) list"
  ds_started :: bool
  ds_content :: string

definition usageFromOpenAIChatStreamChunk :: "chunk_usage \<Rightarrow> Usage" where
  "usageFromOpenAIChatStreamChunk u =
     \<lparr>us_InputTokens = (if cu_InputTokens u = 0 then cu_PromptTokens u else cu_InputTokens u),
      us_OutputTokens = (if cu_OutputTokens u = 0 then cu_CompletionTokens u else cu_OutputTokens u),
      us_CachedInputReadTokens = (case cu_CachedTokens u of None \<Rightarrow> 0 | Some n \<Rightarrow> n), us_CachedInputWriteTokens = 0,
      us_TotalTokens = cu_TotalTokens u, us_Source = UsageSourceProvider\<rparr>"

definition compactJSONString :: "string \<Rightarrow> string" where
  "compactJSONString val =
     (let trimmed = TrimSpace val
      in if trimmed = [] then ''{}''
         else (case json_Compact trimmed of Some buf \<Rightarrow> buf | None \<Rightarrow> trimmed))"

definition decode_event :: "decode_state \<Rightarrow> string \<Rightarrow> StreamEvent" where
  "decode_event st typ = stream_event typ (ds_messageID st) (ds_model st) (ds_role st)"

definition decode_usage :: "chunk_usage option \<Rightarrow> decode_state \<Rightarrow> StreamEvent list \<times> decode_state" where
  "decode_usage u st =
     (case u of
        None \<Rightarrow> ([], st)
      | Some cu \<Rightarrow>
          let usage = Some (usageFromOpenAIChatStreamChunk cu)
          in ([(decode_event st StreamEventUsage)\<lparr>se_Usage := usage\<rparr>], st\<lparr>ds_usage := usage\<rparr>))"

definition tool_of :: "toolState \<Rightarrow> ToolCall" where
  "tool_of ts =
     \<lparr>tc_ID = ts_id ts, tc_Type = [], tc_Name = ts_name ts,
      tc_Arguments = (if ts_arguments ts \<noteq> [] then compactJSONString (ts_arguments ts) else []), tc_Input = []\<rparr>"

definition merge_call :: "toolState option \<Rightarrow> chunk_call \<Rightarrow> toolState" where
  "merge_call old c =
     (let ts = (case old of None \<Rightarrow> \<lparr>ts_id = [], ts_name = [], ts_arguments = []\<rparr> | Some ts \<Rightarrow> ts)
      in \<lparr>ts_id = (if cc_ID c \<noteq> [] then cc_ID c else ts_id ts),
          ts_name = (if cc_Name c \<noteq> [] then cc_Name c else ts_name ts),
          ts_arguments = ts_arguments ts @ cc_Arguments c\<rparr>)"

definition decode_call :: "chunk_call \<Rightarrow> decode_state \<Rightarrow> StreamEvent list \<times> decode_state" where
  "decode_call c st =
     (let ts = merge_call (map_of (ds_states st) (cc_Index c)) c
      in ([(decode_event st StreamEventContentDelta)\<lparr>se_ToolCall := Some (tool_of ts), se_ToolCallIndex := cc_Index c\<rparr>],
          st\<lparr>ds_states := AList.update (cc_Index c) ts (ds_states st)\<rparr>))"

fun decode_calls :: "chunk_call list \<Rightarrow> decode_state \<Rightarrow> StreamEvent list \<times> decode_state" where
  "decode_calls [] st = ([], st)"
| "decode_calls (c # cs) st =
     (case decode_call c st of (evs, st1) \<Rightarrow> (case decode_calls cs st1 of (evs', st2) \<Rightarrow> (evs @ evs', st2)))"

definition decode_finish :: "string \<Rightarrow> decode_state \<Rightarrow> decode_state" where
  "decode_finish reason st =
     (if reason = ''tool_calls'' \<or> reason = ''function_call'' then st\<lparr>ds_finishReason := FinishReasonToolUse\<rparr>
      else if reason = ''length'' then st\<lparr>ds_finishReason := FinishReasonLength\<rparr>
      else if (reason = ''stop'' \<or> reason = []) \<and> ds_states st = [] then st\<lparr>ds_finishReason := FinishReasonStop\<rparr>
      else st)"

definition decode_start :: "decode_state \<Rightarrow> StreamEvent list \<times> decode_state" where
  "decode_start st =
     (if ds_started st then ([], st) else ([decode_event st StreamEventMessageStart], st\<lparr>ds_started := True\<rparr>))"

definition decode_content :: "string \<Rightarrow> decode_state \<Rightarrow> StreamEvent list \<times> decode_state" where
  "decode_content txt st =
     (if txt \<noteq> []
      then ([(decode_event st StreamEventContentDelta)\<lparr>se_Delta := Some \<lparr>cp_Type = ContentPartTypeText, cp_Text = txt, cp_Data = []\<rparr>\<rparr>],
            st\<lparr>ds_content := ds_content st @ txt\<rparr>)
      else ([], st))"

definition decode_choice :: "chunk_choice \<Rightarrow> chunk_usage option \<Rightarrow> decode_state \<Rightarrow> StreamEvent list \<times> decode_state" where
  "decode_choice choice u st =
     (let st0 = (if ch_Role choice \<noteq> [] then st\<lparr>ds_role := ch_Role choice\<rparr> else st);
          (evs1, st1) = decode_start st0;
          (evs2, st2) = decode_content (ch_Content choice) st1;
          (evs3, st3) = decode_calls (ch_ToolCalls choice) st2;
          (evs4, st4) = decode_usage u st3
      in (evs1 @ evs2 @ evs3 @ evs4, decode_finish (ch_FinishReason choice) st4))"

definition decode_chunk :: "openAIChatStreamChunk \<Rightarrow> decode_state \<Rightarrow> StreamEvent list \<times> decode_state" where
  "decode_chunk chunk st =
     (let st1 = st\<lparr>ds_messageID := (if ck_ID chunk \<noteq> [] then ck_ID chunk else ds_messageID st),
                   ds_model := (if ck_Model chunk \<noteq> [] then ck_Model chunk else ds_model st)\<rparr>
      in case ck_Choices chunk of
           [] \<Rightarrow> decode_usage (ck_Usage chunk) st1
         | choice # _ \<Rightarrow> decode_choice choice (ck_Usage chunk) st1)"

text \<open>What a line carries: nothing, the end marker, or a payload.\<close>

datatype sse_line = SkipLine | DoneLine | DataLine string

definition sse_payload :: "string \<Rightarrow> sse_line" where
  "sse_payload txt =
     (let line = TrimSpace txt
      in if line = [] \<or> HasPrefix line '':'' then SkipLine
         else if \<not> HasPrefix line ''data:'' then SkipLine
         else let payload = TrimSpace (drop 5 line)
              in if payload = ''[DONE]'' then DoneLine else DataLine payload)"

text \<open>
  The scanning loop. It leaves with \<open>Inl\<close> the event of a chunk that does not decode, after which the goroutine returns,
  and with \<open>Inr\<close> the state at the end of the input or at the end marker.
\<close>

fun decode_lines ::
  "(string \<Rightarrow> go_error + openAIChatStreamChunk) \<Rightarrow> string list \<Rightarrow> decode_state \<Rightarrow> StreamEvent list \<times> (StreamEvent + decode_state)" where
  "decode_lines unmarshal [] st = ([], Inr st)"
| "decode_lines unmarshal (l # ls) st =
     (case sse_payload l of
        SkipLine \<Rightarrow> decode_lines unmarshal ls st
      | DoneLine \<Rightarrow> ([], Inr st)
      | DataLine payload \<Rightarrow>
          (case unmarshal payload of
             Inl err \<Rightarrow>
               ([], Inl ((decode_event st StreamEventError)\<lparr>se_Err := Some (WrapError (''decode stream chunk: '' @ Error err) (Some err))\<rparr>))
           | Inr chunk \<Rightarrow>
               (case decode_chunk chunk st of (evs, st1) \<Rightarrow>
                  (case decode_lines unmarshal ls st1 of (evs', r) \<Rightarrow> (evs @ evs', r)))))"

definition decoded_response :: "decode_state \<Rightarrow> Response" where
  "decoded_response st =
     \<lparr>resp_ID = ds_messageID st, resp_Object = [], resp_Model = ds_model st,
      resp_Message =
        \<lparr>msg_Role = ds_role st,
         msg_Parts = (if ds_content st \<noteq> [] then [\<lparr>cp_Type = ContentPartTypeText, cp_Text = ds_content st, cp_Data = []\<rparr>] else []),
         msg_ToolCalls = map (\<lambda>i. tool_of (the (map_of (ds_states st) i))) (sort (map fst (ds_states st))),
         msg_ToolCallID = [], msg_ToolCallType = [], msg_ToolResultIsError = False\<rparr>,
      resp_FinishReason = ds_finishReason st, resp_Usage = None\<rparr>"

definition finish_stream :: "Request \<Rightarrow> bool \<Rightarrow> decode_state \<Rightarrow> StreamEvent list" where
  "finish_stream req estimateUsage st =
     (let estimates = ds_usage st = None \<and> estimateUsage \<and> (ds_content st \<noteq> [] \<or> ds_states st \<noteq> []);
          usage = (if estimates then Some (estimateUsageHeuristically req (decoded_response st)) else ds_usage st)
      in (if ds_started st then [] else [decode_event st StreamEventMessageStart]) @
         (if estimates then [(decode_event st StreamEventUsage)\<lparr>se_Usage := usage\<rparr>] else []) @
         [(decode_event st StreamEventMessageEnd)\<lparr>se_FinishReason := ds_finishReason st, se_Usage := usage\<rparr>])"

definition new_decode :: decode_state where
  "new_decode =
     \<lparr>ds_messageID = [], ds_model = [], ds_role = MessageRoleAssistant, ds_finishReason = FinishReasonStop, ds_usage = None,
      ds_states = [], ds_started = False, ds_content = []\<rparr>"

definition decodeOpenAIChatStream ::
  "(string \<Rightarrow> go_error + openAIChatStreamChunk) \<Rightarrow> string list \<Rightarrow> go_error option \<Rightarrow> Request \<Rightarrow> bool \<Rightarrow> StreamEvent list" where
  "decodeOpenAIChatStream unmarshal lines scanErr req estimateUsage =
     (case decode_lines unmarshal lines new_decode of
        (evs, Inl failed) \<Rightarrow> evs @ [failed]
      | (evs, Inr st) \<Rightarrow>
          (case scanErr of
             Some err \<Rightarrow>
               evs @ [(decode_event st StreamEventError)\<lparr>se_Err := Some (WrapError (''read stream chunk: '' @ Error err) (Some err))\<rparr>]
           | None \<Rightarrow> evs @ finish_stream req estimateUsage st))"

end
