(* ===== verification/Gateway_Streams.thy ===== *)
theory Gateway_Streams
  imports Event_Stream Provider_Stream
begin

text \<open>
  What the gateway writes to a client (package \<open>internal/gateway\<close>): the bodies and the stream frames of the OpenAI chat
  codec, of the Anthropic messages codec and of the OpenAI responses codec. \<open>json.Unmarshal\<close> into an \<open>any\<close> is the
  argument \<open>unmarshal\<close>, \<open>None\<close> for an error. The frames of a stream are the list that is written, in order.
\<close>

definition TrimPrefix :: "string \<Rightarrow> string \<Rightarrow> string" where
  "TrimPrefix s p = (if HasPrefix s p then drop (length p) s else s)"

text \<open>A lookup in a \<open>map[int]string\<close>: the empty string when the key is not there.\<close>

definition snapshot_at :: "(int \<times> string) list \<Rightarrow> int \<Rightarrow> string" where
  "snapshot_at m k = (case map_of m k of None \<Rightarrow> [] | Some s \<Rightarrow> s)"

type_synonym unmarshal_any = "raw_json \<Rightarrow> any option"

definition value_or_text :: "unmarshal_any \<Rightarrow> raw_json \<Rightarrow> any" where
  "value_or_text unmarshal d = (case unmarshal d of Some v \<Rightarrow> v | None \<Rightarrow> JStr d)"

definition value_or_object :: "unmarshal_any \<Rightarrow> string \<Rightarrow> any" where
  "value_or_object unmarshal d = (case unmarshal d of Some v \<Rightarrow> v | None \<Rightarrow> JObj [])"

section \<open>OpenAI chat\<close>

definition openAIFinishReason :: "string \<Rightarrow> string" where
  "openAIFinishReason reason =
     (if reason = FinishReasonToolUse then ''tool_calls''
      else if reason = FinishReasonLength then ''length''
      else if reason = FinishReasonStop \<or> reason = FinishReasonEndTurn \<or> reason = FinishReasonError then ''stop''
      else reason)"

definition firstTextPart :: "Message \<Rightarrow> string" where
  "firstTextPart msg = (case find (\<lambda>p. cp_Type p = ContentPartTypeText) (msg_Parts msg) of Some p \<Rightarrow> cp_Text p | None \<Rightarrow> [])"

definition openai_usage :: "Usage \<Rightarrow> any" where
  "openai_usage u =
     JObj [(''prompt_tokens'', JInt (us_InputTokens u)), (''completion_tokens'', JInt (us_OutputTokens u)), (''total_tokens'', JInt (us_TotalTokens u))]"

definition openai_tool_call :: "ToolCall \<Rightarrow> any" where
  "openai_tool_call c =
     JObj [(''id'', JStr (tc_ID c)), (''type'', JStr ''function''),
           (''function'', JObj [(''name'', JStr (tc_Name c)), (''arguments'', JStr (tc_Arguments c))])]"

definition openai_chat_body :: "Response \<Rightarrow> any" where
  "openai_chat_body resp =
     (let msg = resp_Message resp;
          content = firstTextPart msg;
          message = JObj ([(''role'', JStr (msg_Role msg)),
                           (''content'', if msg_ToolCalls msg \<noteq> [] \<and> content = [] then JNull else JStr content)] @
                          (if msg_ToolCalls msg \<noteq> [] then [(''tool_calls'', JArr (map openai_tool_call (msg_ToolCalls msg)))] else []) @
                          (if msg_ToolCallID msg \<noteq> [] then [(''tool_call_id'', JStr (msg_ToolCallID msg))] else []));
          choice = JObj [(''index'', JInt 0), (''message'', message), (''finish_reason'', JStr (openAIFinishReason (resp_FinishReason resp)))]
      in JObj ([(''id'', JStr (resp_ID resp)), (''object'', JStr ''chat.completion''), (''model'', JStr (resp_Model resp)),
                (''choices'', JArr [choice])] @
               (case resp_Usage resp of None \<Rightarrow> [] | Some u \<Rightarrow> [(''usage'', openai_usage u)])))"

definition stream_message :: "go_error option \<Rightarrow> string" where
  "stream_message err = (case err of None \<Rightarrow> ''stream error'' | Some e \<Rightarrow> Error e)"

text \<open>The arguments of a tool call delta, and the snapshots with this one recorded. \<open>None\<close> stands for the nil map.\<close>

definition arguments_delta ::
  "int \<Rightarrow> string \<Rightarrow> (int \<times> string) list option \<Rightarrow> string \<times> (int \<times> string) list option" where
  "arguments_delta i arguments snapshots =
     (case snapshots of
        None \<Rightarrow> (arguments, None)
      | Some m \<Rightarrow> (TrimPrefix arguments (snapshot_at m i), Some (AList.update i arguments m)))"

definition chunk_choices :: "any \<Rightarrow> any" where
  "chunk_choices delta = JArr [JObj [(''index'', JInt 0), (''delta'', delta)]]"

definition openai_content_delta ::
  "StreamEvent \<Rightarrow> (int \<times> string) list option \<Rightarrow> any \<times> (int \<times> string) list option" where
  "openai_content_delta event snapshots =
     (let content = (case se_Delta event of None \<Rightarrow> [] | Some p \<Rightarrow> [(''content'', JStr (cp_Text p))])
      in case se_ToolCall event of
           None \<Rightarrow> (JObj content, snapshots)
         | Some c \<Rightarrow>
             (case arguments_delta (se_ToolCallIndex event) (tc_Arguments c) snapshots of (arguments, snapshots') \<Rightarrow>
                (JObj (content @
                   [(''tool_calls'', JArr [JObj [(''index'', JInt (se_ToolCallIndex event)), (''id'', JStr (tc_ID c)),
                      (''type'', JStr ''function''),
                      (''function'', JObj [(''name'', JStr (tc_Name c)), (''arguments'', JStr arguments)])]])]), snapshots')))"

definition openAIStreamChunkWithArgumentsDelta ::
  "StreamEvent \<Rightarrow> (int \<times> string) list option \<Rightarrow> any \<times> (int \<times> string) list option" where
  "openAIStreamChunkWithArgumentsDelta event snapshots =
     (let chunk = [(''id'', JStr (se_ResponseID event)), (''object'', JStr ''chat.completion.chunk''), (''model'', JStr (se_Model event))]
      in if se_Type event = StreamEventMessageStart
         then (JObj (chunk @ [(''choices'', chunk_choices (JObj [(''role'', JStr (se_MessageRole event))]))]), snapshots)
         else if se_Type event = StreamEventContentDelta
         then (case openai_content_delta event snapshots of (delta, snapshots') \<Rightarrow>
                 (JObj (chunk @ [(''choices'', chunk_choices delta)]), snapshots'))
         else if se_Type event = StreamEventUsage
         then (JObj (chunk @ (case se_Usage event of None \<Rightarrow> [] | Some u \<Rightarrow> [(''usage'', openai_usage u)])), snapshots)
         else if se_Type event = StreamEventMessageEnd
         then (JObj (chunk @ [(''choices'', JArr [JObj [(''index'', JInt 0), (''delta'', JObj []),
                 (''finish_reason'', JStr (openAIFinishReason (se_FinishReason event)))]])]), snapshots)
         else if se_Type event = StreamEventError then (JObj [(''error'', JStr (stream_message (se_Err event)))], snapshots)
         else (JObj chunk, snapshots))"

text \<open>The loop of \<open>handleOpenAIStreaming\<close> over the events of the dispatched stream.\<close>

fun openai_stream_loop :: "StreamEvent list \<Rightarrow> (int \<times> string) list option \<Rightarrow> any list" where
  "openai_stream_loop [] snapshots = []"
| "openai_stream_loop (e # es) snapshots =
     (case openAIStreamChunkWithArgumentsDelta e snapshots of (chunk, snapshots') \<Rightarrow> chunk # openai_stream_loop es snapshots')"

definition handleOpenAIStreaming_chunks :: "StreamEvent list \<Rightarrow> any list" where
  "handleOpenAIStreaming_chunks events = openai_stream_loop events (Some [])"

section \<open>Anthropic messages\<close>

definition anthropicStopReason :: "string \<Rightarrow> string" where
  "anthropicStopReason reason =
     (if reason = FinishReasonToolUse then ''tool_use''
      else if reason = FinishReasonLength then ''max_tokens''
      else ''end_turn'')"

definition anthropic_part :: "unmarshal_any \<Rightarrow> ContentPart \<Rightarrow> any list" where
  "anthropic_part unmarshal p =
     (if cp_Type p = ContentPartTypeText then [JObj [(''type'', JStr ''text''), (''text'', JStr (cp_Text p))]]
      else if cp_Type p = ContentPartTypeJSON then [JObj [(''type'', JStr ''json''), (''value'', value_or_text unmarshal (cp_Data p))]]
      else [])"

definition anthropic_call :: "unmarshal_any \<Rightarrow> ToolCall \<Rightarrow> any" where
  "anthropic_call unmarshal c =
     JObj [(''type'', JStr ''tool_use''), (''id'', JStr (tc_ID c)), (''name'', JStr (tc_Name c)),
           (''input'', value_or_object unmarshal (tc_Arguments c))]"

definition anthropic_content :: "unmarshal_any \<Rightarrow> Response \<Rightarrow> any list" where
  "anthropic_content unmarshal resp =
     (let content = concat (map (anthropic_part unmarshal) (msg_Parts (resp_Message resp))) @
                    map (anthropic_call unmarshal) (msg_ToolCalls (resp_Message resp))
      in if content = [] then [JObj [(''type'', JStr ''text''), (''text'', JStr [])]] else content)"

definition anthropic_message_body :: "unmarshal_any \<Rightarrow> Response \<Rightarrow> any" where
  "anthropic_message_body unmarshal resp =
     JObj ([(''id'', JStr (resp_ID resp)), (''type'', JStr ''message''), (''role'', JStr (msg_Role (resp_Message resp))),
            (''model'', JStr (resp_Model resp)), (''content'', JArr (anthropic_content unmarshal resp)),
            (''stop_reason'', JStr (anthropicStopReason (resp_FinishReason resp)))] @
           (case resp_Usage resp of
              None \<Rightarrow> []
            | Some u \<Rightarrow> [(''usage'', JObj [(''input_tokens'', JInt (us_InputTokens u)), (''output_tokens'', JInt (us_OutputTokens u))])]))"

type_synonym sse_frame = "string \<times> any"

record frame_state =
  fs_usage :: Usage
  fs_messageID :: string
  fs_model :: string
  fs_role :: string
  fs_finishReason :: string
  fs_messageStarted :: bool
  fs_snapshots :: "(int \<times> string) list"

definition message_start_frame :: "frame_state \<Rightarrow> sse_frame" where
  "message_start_frame st =
     (''message_start'', JObj [(''type'', JStr ''message_start''),
        (''message'', JObj [(''id'', JStr (fs_messageID st)), (''type'', JStr ''message''), (''role'', JStr (fs_role st)),
           (''model'', JStr (fs_model st)), (''content'', JArr []), (''stop_reason'', JNull), (''stop_sequence'', JNull),
           (''usage'', JObj [(''input_tokens'', JInt (us_InputTokens (fs_usage st))), (''output_tokens'', JInt 0)])])])"

definition emitMessageStart :: "frame_state \<Rightarrow> sse_frame list \<times> frame_state" where
  "emitMessageStart st =
     (if fs_messageStarted st then ([], st) else ([message_start_frame st], st\<lparr>fs_messageStarted := True\<rparr>))"

definition observe_event :: "Event \<Rightarrow> frame_state \<Rightarrow> frame_state" where
  "observe_event e st =
     st\<lparr>fs_messageID := (if ev_MessageID e \<noteq> [] then ev_MessageID e else fs_messageID st),
        fs_model := (if ev_Model e \<noteq> [] then ev_Model e else fs_model st),
        fs_role := (if ev_Role e \<noteq> [] then ev_Role e else fs_role st),
        fs_usage := (case ev_Usage e of None \<Rightarrow> fs_usage st | Some u \<Rightarrow> u)\<rparr>"

definition block_start_fields :: "unmarshal_any \<Rightarrow> ContentBlock \<Rightarrow> (string \<times> any) list" where
  "block_start_fields unmarshal b =
     (if blk_Type b = BlockTypeText then [(''text'', JStr [])]
      else if blk_Type b = BlockTypeToolUse
      then (''input'', JObj []) #
           (case blk_ToolCall b of None \<Rightarrow> [] | Some c \<Rightarrow> [(''id'', JStr (tcs_ID c)), (''name'', JStr (tcs_Name c))])
      else if blk_Type b = BlockTypeJSON then [(''value'', value_or_text unmarshal (blk_Data b))]
      else [])"

definition block_start :: "unmarshal_any \<Rightarrow> Event \<Rightarrow> frame_state \<Rightarrow> sse_frame list \<times> frame_state" where
  "block_start unmarshal e st =
     (case ev_Block e of
        None \<Rightarrow> ([], st)
      | Some b \<Rightarrow>
          ([(''content_block_start'', JObj [(''type'', JStr ''content_block_start''), (''index'', JInt (ev_BlockIndex e)),
               (''content_block'', JObj ((''type'', JStr (blk_Type b)) # block_start_fields unmarshal b))])],
           if blk_Type b = BlockTypeToolUse then st\<lparr>fs_snapshots := AList.update (ev_BlockIndex e) [] (fs_snapshots st)\<rparr> else st))"

definition delta_frame :: "Event \<Rightarrow> string \<Rightarrow> string \<Rightarrow> string \<Rightarrow> sse_frame" where
  "delta_frame e typ key txt =
     (''content_block_delta'', JObj [(''type'', JStr ''content_block_delta''), (''index'', JInt (ev_BlockIndex e)),
        (''delta'', JObj [(''type'', JStr typ), (key, JStr txt)])])"

definition block_delta :: "Event \<Rightarrow> frame_state \<Rightarrow> sse_frame list \<times> frame_state" where
  "block_delta e st =
     (case ev_Block e of
        None \<Rightarrow> ([], st)
      | Some b \<Rightarrow>
          if blk_Type b = BlockTypeText then ([delta_frame e ''text_delta'' ''text'' (ev_TextDelta e)], st)
          else if blk_Type b = BlockTypeToolUse
          then (case ev_ToolCall e of
                  None \<Rightarrow> ([], st)
                | Some c \<Rightarrow>
                    if tcs_Arguments c = [] then ([], st)
                    else let partial = TrimPrefix (tcs_Arguments c) (snapshot_at (fs_snapshots st) (ev_BlockIndex e))
                         in (if partial = [] then [] else [delta_frame e ''input_json_delta'' ''partial_json'' partial],
                             st\<lparr>fs_snapshots := AList.update (ev_BlockIndex e) (tcs_Arguments c) (fs_snapshots st)\<rparr>))
          else ([], st))"

definition message_delta_frame :: "frame_state \<Rightarrow> sse_frame" where
  "message_delta_frame st =
     (''message_delta'', JObj [(''type'', JStr ''message_delta''),
        (''delta'', JObj [(''stop_reason'', JStr (anthropicStopReason (StopReasonToRuntime (fs_finishReason st)))), (''stop_sequence'', JNull)]),
        (''usage'', JObj [(''input_tokens'', JInt (us_InputTokens (fs_usage st))), (''output_tokens'', JInt (us_OutputTokens (fs_usage st)))])])"

text \<open>The switch of the loop, after \<open>emitMessageStart\<close>.\<close>

definition event_frames :: "unmarshal_any \<Rightarrow> Event \<Rightarrow> frame_state \<Rightarrow> sse_frame list \<times> frame_state" where
  "event_frames unmarshal e st =
     (if ev_Type e = EventTypeContentBlockStart then block_start unmarshal e st
      else if ev_Type e = EventTypeContentBlockDelta then block_delta e st
      else if ev_Type e = EventTypeContentBlockStop
      then ([(''content_block_stop'', JObj [(''type'', JStr ''content_block_stop''), (''index'', JInt (ev_BlockIndex e))])],
            st\<lparr>fs_snapshots := AList.delete (ev_BlockIndex e) (fs_snapshots st)\<rparr>)
      else if ev_Type e = EventTypeMessageDelta
      then (let st1 = (if ev_FinishReason e \<noteq> [] then st\<lparr>fs_finishReason := ev_FinishReason e\<rparr> else st)
            in ([message_delta_frame st1], st1))
      else if ev_Type e = EventTypeMessageStop then ([(''message_stop'', JObj [(''type'', JStr ''message_stop'')])], st)
      else if ev_Type e = EventTypeError
      then ([(''error'', JObj [(''type'', JStr ''error''), (''error'', JObj [(''message'', JStr (stream_message (ev_Err e)))])])], st)
      else ([], st))"

definition emitting_types :: "string list" where
  "emitting_types = [EventTypeContentBlockStart, EventTypeContentBlockDelta, EventTypeContentBlockStop, EventTypeUsage,
     EventTypeMessageDelta, EventTypeMessageStop, EventTypeError]"

definition anthropic_step :: "unmarshal_any \<Rightarrow> Event \<Rightarrow> frame_state \<Rightarrow> sse_frame list \<times> frame_state" where
  "anthropic_step unmarshal e st =
     (let st0 = observe_event e st
      in if ev_Type e \<in> set emitting_types
         then (case emitMessageStart st0 of (starts, st1) \<Rightarrow>
                 (case event_frames unmarshal e st1 of (frames, st2) \<Rightarrow> (starts @ frames, st2)))
         else ([], st0))"

fun anthropic_loop :: "unmarshal_any \<Rightarrow> Event list \<Rightarrow> frame_state \<Rightarrow> sse_frame list" where
  "anthropic_loop unmarshal [] st = []"
| "anthropic_loop unmarshal (e # es) st =
     (case anthropic_step unmarshal e st of (frames, st1) \<Rightarrow> frames @ anthropic_loop unmarshal es st1)"

definition zero_usage :: Usage where
  "zero_usage = \<lparr>us_InputTokens = 0, us_OutputTokens = 0, us_CachedInputReadTokens = 0, us_CachedInputWriteTokens = 0,
     us_TotalTokens = 0, us_Source = []\<rparr>"

definition new_frames :: frame_state where
  "new_frames = \<lparr>fs_usage = zero_usage, fs_messageID = [], fs_model = [], fs_role = MessageRoleAssistant,
     fs_finishReason = StopReasonEndTurn, fs_messageStarted = False, fs_snapshots = []\<rparr>"

definition anthropicStreamFramesFromEventStream :: "unmarshal_any \<Rightarrow> Event list \<Rightarrow> sse_frame list" where
  "anthropicStreamFramesFromEventStream unmarshal events = anthropic_loop unmarshal events new_frames"

end
