(* ===== verification/Stream_Laws.thy ===== *)
theory Stream_Laws
  imports Gateway_Streams
begin

text \<open>
  What a streamed answer keeps on its way from the upstream's chunks through the runtime's events to the frames a client
  reads: the message starts once, and the arguments of a tool call arrive whole.
\<close>

section \<open>The message starts once\<close>

abbreviation is_message_start where "is_message_start \<equiv> \<lambda>f :: sse_frame. fst f = ''message_start''"

lemma event_frames_no_start: "filter is_message_start (fst (event_frames unmarshal e st)) = []"
  by (auto simp: event_frames_def block_start_def block_delta_def delta_frame_def message_delta_frame_def Let_def split: option.split)

lemma event_frames_started: "fs_messageStarted (snd (event_frames unmarshal e st)) = fs_messageStarted st"
  by (auto simp: event_frames_def block_start_def block_delta_def Let_def split: option.split)

lemma observe_event_started: "fs_messageStarted (observe_event e st) = fs_messageStarted st"
  by (simp add: observe_event_def)

lemma started_no_start:
  "fs_messageStarted st \<Longrightarrow> filter is_message_start (anthropic_loop unmarshal es st) = []"
proof (induction es arbitrary: st)
  case (Cons e es)
  obtain frames st1 where f: "event_frames unmarshal e (observe_event e st) = (frames, st1)" by fastforce
  have "fs_messageStarted st1" "filter is_message_start frames = []"
    using event_frames_started [of unmarshal e "observe_event e st"] event_frames_no_start [of unmarshal e "observe_event e st"]
    by (simp_all add: f observe_event_started Cons.prems)
  then show ?case
    using Cons by (simp add: anthropic_step_def emitMessageStart_def observe_event_started f Let_def)
qed simp

lemma anthropic_loop_starts:
  "\<not> fs_messageStarted st \<Longrightarrow> filter is_message_start (anthropic_loop unmarshal es st) = take 1 (anthropic_loop unmarshal es st)"
proof (induction es arbitrary: st)
  case (Cons e es)
  let ?st0 = "observe_event e st"
  obtain frames st1 where f: "event_frames unmarshal e (?st0\<lparr>fs_messageStarted := True\<rparr>) = (frames, st1)" by fastforce
  have "fs_messageStarted st1" "filter is_message_start frames = []"
    using event_frames_started [of unmarshal e "?st0\<lparr>fs_messageStarted := True\<rparr>"]
      event_frames_no_start [of unmarshal e "?st0\<lparr>fs_messageStarted := True\<rparr>"] by (simp_all add: f)
  then show ?case
    using Cons started_no_start [of st1 unmarshal es]
    by (simp add: anthropic_step_def emitMessageStart_def observe_event_started f Let_def message_start_frame_def)
qed simp

text \<open>whatever events are streamed to an Anthropic client, the frame \<open>message_start\<close> is written exactly once, as the first
  frame, before any block, delta, stop or error frame.
\<close>

theorem message_starts_once:
  "filter (\<lambda>f. fst f = ''message_start'') (anthropicStreamFramesFromEventStream unmarshal events) =
     take 1 (anthropicStreamFramesFromEventStream unmarshal events)"
  unfolding anthropicStreamFramesFromEventStream_def by (rule anthropic_loop_starts) (simp add: new_frames_def)

section \<open>Tool call arguments arrive whole\<close>

text \<open>The argument snapshots a runtime stream carries for a tool call.\<close>

definition event_snapshots :: "int \<Rightarrow> StreamEvent \<Rightarrow> string list" where
  "event_snapshots k e =
     (case se_ToolCall e of
        Some c \<Rightarrow> if se_Type e = StreamEventContentDelta \<and> se_ToolCallIndex e = k then [tc_Arguments c] else []
      | None \<Rightarrow> [])"

definition rt_snapshots :: "int \<Rightarrow> StreamEvent list \<Rightarrow> string list" where
  "rt_snapshots k es = concat (map (event_snapshots k) es)"

text \<open>Every snapshot extends the one before, beginning with \<open>p\<close>.\<close>

fun growing :: "string \<Rightarrow> string list \<Rightarrow> bool" where
  "growing p [] = True"
| "growing p (s # ss) = (HasPrefix s p \<and> growing s ss)"

fun arg_diffs :: "string \<Rightarrow> string list \<Rightarrow> string list" where
  "arg_diffs p [] = []"
| "arg_diffs p (s # ss) = TrimPrefix s p # arg_diffs s ss"

lemma TrimPrefix_append: "HasPrefix s p \<Longrightarrow> p @ TrimPrefix s p = s"
  by (auto simp: TrimPrefix_def HasPrefix_iff)

lemma concat_diffs: "growing p ss \<Longrightarrow> p @ concat (arg_diffs p ss) = last (p # ss)"
proof (induction ss arbitrary: p)
  case (Cons s ss)
  have "p @ concat (arg_diffs p (s # ss)) = (p @ TrimPrefix s p) @ concat (arg_diffs s ss)" by simp
  also have "\<dots> = s @ concat (arg_diffs s ss)" using Cons.prems by (simp add: TrimPrefix_append del: append_assoc)
  also have "\<dots> = last (s # ss)" using Cons.IH [of s] Cons.prems by simp
  finally show ?case by simp
qed simp

text \<open>The arguments a chat client reads for a tool call, in the order of the chunks.\<close>

definition call_arguments :: "int \<Rightarrow> any \<Rightarrow> string list" where
  "call_arguments k call =
     (if field ''index'' call = Some (JInt k) then [string_of (Option.bind (field ''function'' call) (field ''arguments''))] else [])"

definition chunk_arguments :: "int \<Rightarrow> any \<Rightarrow> string list" where
  "chunk_arguments k chunk =
     concat (map (\<lambda>choice.
       concat (map (call_arguments k) (case Option.bind (field ''delta'' choice) (field ''tool_calls'') of None \<Rightarrow> [] | Some cs \<Rightarrow> elements cs)))
       (case field ''choices'' chunk of None \<Rightarrow> [] | Some cs \<Rightarrow> elements cs))"

lemma openai_chunk_arguments:
  "openAIStreamChunkWithArgumentsDelta e (Some m) = (chunk, Some m') \<Longrightarrow>
     chunk_arguments k chunk = arg_diffs (snapshot_at m k) (event_snapshots k e) \<and>
     snapshot_at m' k = last (snapshot_at m k # event_snapshots k e)"
  by (auto simp: openAIStreamChunkWithArgumentsDelta_def openai_content_delta_def arguments_delta_def chunk_arguments_def
      event_snapshots_def chunk_choices_def call_arguments_def snapshot_at_def Let_def split: if_splits option.splits)

lemma openai_chunk_state: "\<exists>chunk m'. openAIStreamChunkWithArgumentsDelta e (Some m) = (chunk, Some m')"
  by (auto simp: openAIStreamChunkWithArgumentsDelta_def openai_content_delta_def arguments_delta_def Let_def split: option.splits)

lemma diffs_append: "arg_diffs p (xs @ ys) = arg_diffs p xs @ arg_diffs (last (p # xs)) ys"
  by (induction xs arbitrary: p) auto

lemma openai_stream_arguments:
  "concat (map (chunk_arguments k) (openai_stream_loop es (Some m))) = arg_diffs (snapshot_at m k) (rt_snapshots k es)"
proof (induction es arbitrary: m)
  case (Cons e es)
  obtain chunk m' where s: "openAIStreamChunkWithArgumentsDelta e (Some m) = (chunk, Some m')" using openai_chunk_state by blast
  show ?case using Cons.IH [of m'] openai_chunk_arguments [OF s, of k] by (simp add: s rt_snapshots_def diffs_append)
qed (simp add: rt_snapshots_def)

text \<open>
  When the argument snapshots of a tool call each extend the one before, the argument fragments that a client reads for
  that call concatenate to the last snapshot.
\<close>

lemma openai_arguments_reassemble:
  assumes "growing [] (rt_snapshots k events)"
  shows "concat (concat (map (chunk_arguments k) (handleOpenAIStreaming_chunks events))) = last ([] # rt_snapshots k events)"
  using concat_diffs [OF assms] openai_stream_arguments [of k events "[]"]
  by (simp add: handleOpenAIStreaming_chunks_def snapshot_at_def)

text \<open>The tool call deltas an upstream stream carries, up to its end marker or the first chunk that does not decode.\<close>

fun upstream_calls :: "(string \<Rightarrow> go_error + openAIChatStreamChunk) \<Rightarrow> string list \<Rightarrow> chunk_call list" where
  "upstream_calls unmarshal [] = []"
| "upstream_calls unmarshal (l # ls) =
     (case sse_payload l of
        SkipLine \<Rightarrow> upstream_calls unmarshal ls
      | DoneLine \<Rightarrow> []
      | DataLine payload \<Rightarrow>
          (case unmarshal payload of
             Inl err \<Rightarrow> []
           | Inr chunk \<Rightarrow>
               (case ck_Choices chunk of [] \<Rightarrow> [] | choice # _ \<Rightarrow> ch_ToolCalls choice) @ upstream_calls unmarshal ls))"

definition fragments :: "int \<Rightarrow> chunk_call list \<Rightarrow> string list" where
  "fragments k calls = map cc_Arguments (filter (\<lambda>c. cc_Index c = k) calls)"

fun accumulate :: "string \<Rightarrow> string list \<Rightarrow> string list" where
  "accumulate p [] = []"
| "accumulate p (f # fs) = (p @ f) # accumulate (p @ f) fs"

lemma accumulate_append: "accumulate p (xs @ ys) = accumulate p xs @ accumulate (p @ concat xs) ys"
  by (induction xs arbitrary: p) auto

lemma last_accumulate: "last (p # accumulate p fs) = p @ concat fs"
  by (induction fs arbitrary: p) auto

lemma growing_accumulate: "growing p (accumulate p fs)"
  by (induction fs arbitrary: p) (auto simp: HasPrefix_iff)

definition call_snapshot :: "string \<Rightarrow> string" where
  "call_snapshot s = (if s \<noteq> [] then compactJSONString s else [])"

definition arguments_of :: "decode_state \<Rightarrow> int \<Rightarrow> string" where
  "arguments_of st k = (case map_of (ds_states st) k of None \<Rightarrow> [] | Some ts \<Rightarrow> ts_arguments ts)"

text \<open>A step of the decoder that reads the fragments \<open>fs\<close> of call \<open>k\<close>.\<close>

definition reads :: "int \<Rightarrow> string list \<Rightarrow> decode_state \<Rightarrow> StreamEvent list \<times> decode_state \<Rightarrow> bool" where
  "reads k fs st r \<longleftrightarrow> rt_snapshots k (fst r) = map call_snapshot (accumulate (arguments_of st k) fs) \<and>
     arguments_of (snd r) k = arguments_of st k @ concat fs"

lemma reads_append:
  assumes "reads k fs st (evs, st1)" "reads k fs' st1 (evs', st2)"
  shows "reads k (fs @ fs') st (evs @ evs', st2)"
  using assms by (simp add: reads_def rt_snapshots_def accumulate_append)

lemmas decode_defs = decode_event_def stream_event_def rt_snapshots_def event_snapshots_def arguments_of_def

lemma decode_call_reads: "reads k (fragments k [c]) st (decode_call c st)"
  by (auto simp: reads_def decode_call_def fragments_def decode_defs Let_def tool_of_def merge_call_def call_snapshot_def split: option.splits)

lemma decode_calls_reads: "reads k (fragments k cs) st (decode_calls cs st)"
proof (induction cs arbitrary: st)
  case Nil
  then show ?case by (simp add: reads_def fragments_def rt_snapshots_def)
next
  case (Cons c cs)
  obtain evs st1 where c: "decode_call c st = (evs, st1)" by fastforce
  obtain evs' st2 where cs: "decode_calls cs st1 = (evs', st2)" by fastforce
  have "fragments k (c # cs) = fragments k [c] @ fragments k cs" by (simp add: fragments_def)
  then show ?case
    using reads_append [of k "fragments k [c]" st evs st1] decode_call_reads [of k c st] Cons.IH [of st1] by (simp add: c cs)
qed

lemma decode_quiet:
  "reads k [] st (decode_usage u st)" "reads k [] st (decode_start st)" "reads k [] st (decode_content t st)"
  by (auto simp: reads_def decode_usage_def decode_start_def decode_content_def decode_defs Let_def split: option.split)

lemma decode_chunk_reads:
  "reads k (fragments k (case ck_Choices chunk of [] \<Rightarrow> [] | choice # _ \<Rightarrow> ch_ToolCalls choice)) st (decode_chunk chunk st)"
proof (cases "ck_Choices chunk")
  case Nil
  let ?st1 = "st\<lparr>ds_messageID := (if ck_ID chunk \<noteq> [] then ck_ID chunk else ds_messageID st),
    ds_model := (if ck_Model chunk \<noteq> [] then ck_Model chunk else ds_model st)\<rparr>"
  show ?thesis using Nil decode_quiet(1) [of k ?st1 "ck_Usage chunk"]
    by (simp add: decode_chunk_def Let_def fragments_def reads_def arguments_of_def)
next
  case (Cons choice rest)
  let ?st1 = "st\<lparr>ds_messageID := (if ck_ID chunk \<noteq> [] then ck_ID chunk else ds_messageID st),
    ds_model := (if ck_Model chunk \<noteq> [] then ck_Model chunk else ds_model st)\<rparr>"
  define st0 where "st0 = (if ch_Role choice \<noteq> [] then ?st1\<lparr>ds_role := ch_Role choice\<rparr> else ?st1)"
  obtain e1 s1 where 1: "decode_start st0 = (e1, s1)" by fastforce
  obtain e2 s2 where 2: "decode_content (ch_Content choice) s1 = (e2, s2)" by fastforce
  obtain e3 s3 where 3: "decode_calls (ch_ToolCalls choice) s2 = (e3, s3)" by fastforce
  obtain e4 s4 where 4: "decode_usage (ck_Usage chunk) s3 = (e4, s4)" by fastforce
  have "reads k (fragments k (ch_ToolCalls choice)) s2 (e3 @ e4, s4)"
    using reads_append [of k "fragments k (ch_ToolCalls choice)" s2 e3 s3 "[]" e4 s4]
      decode_calls_reads [of k "ch_ToolCalls choice" s2] decode_quiet(1) [of k s3 "ck_Usage chunk"] by (simp add: 3 4)
  then have "reads k (fragments k (ch_ToolCalls choice)) st0 (e1 @ e2 @ e3 @ e4, s4)"
    using reads_append [of k "[]" st0 e1 s1 "fragments k (ch_ToolCalls choice)" "e2 @ e3 @ e4" s4]
      reads_append [of k "[]" s1 e2 s2 "fragments k (ch_ToolCalls choice)" "e3 @ e4" s4]
      decode_quiet(2) [of k st0] decode_quiet(3) [of k s1 "ch_Content choice"] by (simp add: 1 2)
  moreover have "arguments_of st0 k = arguments_of st k" by (simp add: st0_def arguments_of_def)
  moreover have "arguments_of (decode_finish r s4) k = arguments_of s4 k" for r by (simp add: decode_finish_def arguments_of_def)
  ultimately show ?thesis
    by (simp add: Cons decode_chunk_def decode_choice_def Let_def st0_def [symmetric] 1 2 3 4 reads_def)
qed

lemma decode_lines_reads:
  "rt_snapshots k (fst (decode_lines unmarshal lines st)) =
     map call_snapshot (accumulate (arguments_of st k) (fragments k (upstream_calls unmarshal lines)))"
proof (induction lines arbitrary: st)
  case Nil
  then show ?case by (simp add: rt_snapshots_def fragments_def)
next
  case (Cons l ls)
  show ?case
  proof (cases "sse_payload l")
    case (DataLine payload)
    show ?thesis
    proof (cases "unmarshal payload")
      case (Inr chunk)
      obtain evs st1 where c: "decode_chunk chunk st = (evs, st1)" by fastforce
      then show ?thesis
        using Cons.IH [of st1] decode_chunk_reads [of k chunk st]
        by (simp add: DataLine Inr c reads_def rt_snapshots_def fragments_def accumulate_append case_prod_beta)
    qed (simp add: DataLine rt_snapshots_def fragments_def)
  qed (simp_all add: Cons.IH [unfolded rt_snapshots_def fragments_def] rt_snapshots_def fragments_def)
qed

lemma decode_lines_error: "decode_lines unmarshal lines st = (evs, Inl failed) \<Longrightarrow> se_ToolCall failed = None"
  by (induction lines arbitrary: st evs) (auto simp: decode_defs split: sse_line.splits sum.splits prod.splits)

lemma decoder_snapshots:
  "rt_snapshots k (decodeOpenAIChatStream unmarshal lines scanErr req estimateUsage) =
     map call_snapshot (accumulate [] (fragments k (upstream_calls unmarshal lines)))"
proof -
  have "rt_snapshots k (fst (decode_lines unmarshal lines new_decode)) =
      rt_snapshots k (decodeOpenAIChatStream unmarshal lines scanErr req estimateUsage)"
    by (auto simp: decodeOpenAIChatStream_def finish_stream_def decode_defs Let_def decode_lines_error split: prod.split sum.split option.split)
  then show ?thesis using decode_lines_reads [of k unmarshal lines new_decode] by (simp add: arguments_of_def new_decode_def)
qed


lemma compact_growing:
  assumes "\<forall>s\<in>set (accumulate [] fs). s \<noteq> [] \<longrightarrow> compactJSONString s = s"
  shows "map call_snapshot (accumulate [] fs) = accumulate [] fs"
  using assms by (intro map_idI) (simp add: call_snapshot_def)

text \<open>C20: a tool call streamed by an OpenAI chat upstream reaches an OpenAI chat client unchanged: the argument fragments the
  client reads for the call concatenate to the concatenation of the upstream fragments, as long as none of the text
  accumulated so far is a JSON text that compaction would alter.
\<close>

theorem openai_arguments_preserved:
  assumes "\<forall>s\<in>set (accumulate [] (fragments k (upstream_calls unmarshal lines))). s \<noteq> [] \<longrightarrow> compactJSONString s = s"
  shows "concat (concat (map (chunk_arguments k)
      (handleOpenAIStreaming_chunks (decodeOpenAIChatStream unmarshal lines scanErr req estimateUsage)))) =
    concat (fragments k (upstream_calls unmarshal lines))"
  using openai_arguments_reassemble [of k "decodeOpenAIChatStream unmarshal lines scanErr req estimateUsage"]
    growing_accumulate [of "[]" "fragments k (upstream_calls unmarshal lines)"]
    last_accumulate [of "[]" "fragments k (upstream_calls unmarshal lines)"]
  by (simp add: decoder_snapshots compact_growing [OF assms])

definition call_chunk :: "string \<Rightarrow> openAIChatStreamChunk" where
  "call_chunk a = \<lparr>ck_ID = ''r'', ck_Model = ''m'',
     ck_Choices = [\<lparr>ch_Role = [], ch_Content = [], ch_ToolCalls = [\<lparr>cc_Index = 0, cc_ID = ''c'', cc_Name = ''f'', cc_Arguments = a\<rparr>],
       ch_FinishReason = []\<rparr>], ck_Usage = None\<rparr>"

text \<open>A decoder that reads the payload as the argument fragment of a chunk.\<close>

definition fragment_chunk :: "string \<Rightarrow> go_error + openAIChatStreamChunk" where
  "fragment_chunk payload = Inr (call_chunk payload)"

definition sample_stream_request :: Request where
  "sample_stream_request = \<lparr>req_Model = ''m'', req_System = [], req_MaxTokens = 0, req_Messages = [], req_Tools = [], req_ToolChoice = [],
     req_Stream = True, req_PreviousResponseID = [], req_Metadata = [], req_ThinkingType = [], req_ContextManagement = [], req_OutputEffort = []\<rparr>"

lemma sample_lines:
  "sse_payload ''data:[1,'' = DataLine ''[1,''" "sse_payload ''data:[1, 2,'' = DataLine ''[1, 2,''" "sse_payload ''data:2]'' = DataLine ''2]''"
  "sse_payload ''data:3]'' = DataLine ''3]''" "sse_payload ''data:[DONE]'' = DoneLine"
  by (simp_all add: sse_payload_def trim_eval HasPrefix_def Let_def)

lemma sample_compact:
  "compactJSONString ''[1,'' = ''[1,''" "compactJSONString ''[1,2]'' = ''[1,2]''"
  "compactJSONString ''[1, 2,'' = ''[1, 2,''" "compactJSONString ''[1, 2,3]'' = ''[1,2,3]''"
proof -
  have "json_Compact ''[1,'' = None" "json_Compact ''[1,2]'' = Some ''[1,2]''" "json_Compact ''[1, 2,'' = None"
    "json_Compact ''[1, 2,3]'' = Some ''[1,2,3]''"
    by code_simp+
  then show "compactJSONString ''[1,'' = ''[1,''" "compactJSONString ''[1,2]'' = ''[1,2]''"
    "compactJSONString ''[1, 2,'' = ''[1, 2,''" "compactJSONString ''[1, 2,3]'' = ''[1,2,3]''"
    by (simp_all add: compactJSONString_def trim_eval)
qed

lemma sample_fragments:
  "fragments 0 (upstream_calls fragment_chunk [''data:[1,'', ''data:2]'', ''data:[DONE]'']) = [''[1,'', ''2]'']"
  "fragments 0 (upstream_calls fragment_chunk [''data:[1, 2,'', ''data:3]'', ''data:[DONE]'']) = [''[1, 2,'', ''3]'']"
  by (simp_all add: sample_lines fragment_chunk_def call_chunk_def fragments_def)

theorem openai_arguments_preserved_witness:
  "concat (concat (map (chunk_arguments 0)
      (handleOpenAIStreaming_chunks (decodeOpenAIChatStream fragment_chunk [''data:[1,'', ''data:2]'', ''data:[DONE]''] None sample_stream_request False)))) =
    ''[1,2]''"
proof -
  have "\<forall>s\<in>set (accumulate [] (fragments 0 (upstream_calls fragment_chunk [''data:[1,'', ''data:2]'', ''data:[DONE]'']))).
      s \<noteq> [] \<longrightarrow> compactJSONString s = s"
    by (simp add: sample_fragments sample_compact del: upstream_calls.simps)
  from openai_arguments_preserved [OF this, of None sample_stream_request False] show ?thesis by (simp add: sample_fragments del: upstream_calls.simps)
qed

text \<open>
  A fragment boundary inside a JSON text with insignificant white space breaks the call: the text so far is passed on as
  it is, the completed text is compacted, the compacted text does not extend what was sent, and all of it is sent again.
\<close>

theorem spaced_arguments_corrupted:
  "concat (fragments 0 (upstream_calls fragment_chunk [''data:[1, 2,'', ''data:3]'', ''data:[DONE]''])) = ''[1, 2,3]'' \<and>
   concat (concat (map (chunk_arguments 0)
      (handleOpenAIStreaming_chunks (decodeOpenAIChatStream fragment_chunk [''data:[1, 2,'', ''data:3]'', ''data:[DONE]''] None sample_stream_request False)))) =
    ''[1, 2,[1,2,3]''"
  using openai_stream_arguments [of 0 "decodeOpenAIChatStream fragment_chunk [''data:[1, 2,'', ''data:3]'', ''data:[DONE]''] None sample_stream_request False" "[]"]
  by (simp add: handleOpenAIStreaming_chunks_def decoder_snapshots sample_fragments call_snapshot_def sample_compact snapshot_at_def TrimPrefix_def HasPrefix_def
      del: upstream_calls.simps)

section \<open>The shape of a decoded stream\<close>

definition is_start :: "StreamEvent \<Rightarrow> bool" where
  "is_start e \<longleftrightarrow> se_Type e = StreamEventMessageStart"

definition is_usage :: "StreamEvent \<Rightarrow> bool" where
  "is_usage e \<longleftrightarrow> se_Type e = StreamEventUsage"

definition in_body :: "StreamEvent \<Rightarrow> bool" where
  "in_body e \<longleftrightarrow> is_start e \<or> is_usage e \<or> se_Type e = StreamEventContentDelta"

text \<open>A step that starts the message if the state says so afterwards, and sends only usage before it.\<close>

definition shaped :: "bool \<Rightarrow> StreamEvent list \<Rightarrow> bool \<Rightarrow> bool" where
  "shaped started evs after \<longleftrightarrow> list_all in_body evs \<and> (started \<longrightarrow> after) \<and>
     length (filter is_start evs) = (if after \<and> \<not> started then 1 else 0) \<and>
     (\<not> started \<longrightarrow> list_all is_usage (takeWhile (\<lambda>e. \<not> is_start e) evs))"

lemma shaped_Nil: "shaped b [] b"
  by (simp add: shaped_def)

lemma shaped_append:
  assumes "shaped b evs1 c" "shaped c evs2 d"
  shows "shaped b (evs1 @ evs2) d"
proof (cases "c \<and> \<not> b")
  case True
  then have "filter is_start evs1 \<noteq> []" using assms(1) by (auto simp: shaped_def)
  then have "takeWhile (\<lambda>e. \<not> is_start e) (evs1 @ evs2) = takeWhile (\<lambda>e. \<not> is_start e) evs1"
    by (auto simp: filter_empty_conv takeWhile_append)
  then show ?thesis using assms True by (simp add: shaped_def)
next
  case False
  then have "filter is_start evs1 = []" using assms(1) by (auto simp: shaped_def)
  then have "takeWhile (\<lambda>e. \<not> is_start e) (evs1 @ evs2) = evs1 @ takeWhile (\<lambda>e. \<not> is_start e) evs2"
    "takeWhile (\<lambda>e. \<not> is_start e) evs1 = evs1"
    by (auto simp: filter_empty_conv takeWhile_append takeWhile_eq_all_conv)
  then show ?thesis using assms False by (cases b; cases c; cases d) (simp_all add: shaped_def)
qed

lemmas shape_defs = shaped_def is_start_def is_usage_def in_body_def decode_event_def stream_event_def

abbreviation shaped_step where "shaped_step st r \<equiv> shaped (ds_started st) (fst r) (ds_started (snd r))"

lemma decode_shaped:
  "shaped_step st (decode_usage u st)" "shaped_step st (decode_start st)"
  "ds_started st \<Longrightarrow> shaped_step st (decode_content t st)" "ds_started st \<Longrightarrow> shaped_step st (decode_call c st)"
  by (simp_all add: shape_defs decode_usage_def decode_start_def decode_content_def decode_call_def Let_def split: option.split)

lemma decode_calls_shaped: "ds_started st \<Longrightarrow> shaped_step st (decode_calls cs st)"
proof (induction cs arbitrary: st)
  case Nil
  then show ?case by (simp add: shaped_def)
next
  case (Cons c cs)
  obtain evs st1 where c: "decode_call c st = (evs, st1)" by fastforce
  have "shaped_step st (evs, st1)" using decode_shaped(4) [OF Cons.prems, of c] by (simp add: c)
  moreover have "ds_started st1" using c Cons.prems by (auto simp: decode_call_def Let_def)
  ultimately show ?case
    using Cons.IH [of st1] shaped_append [of "ds_started st" evs "ds_started st1"] by (simp add: c case_prod_beta)
qed

lemma decode_chunk_shaped: "shaped_step st (decode_chunk chunk st)"
proof (cases "ck_Choices chunk")
  case Nil
  let ?st1 = "st\<lparr>ds_messageID := (if ck_ID chunk \<noteq> [] then ck_ID chunk else ds_messageID st),
    ds_model := (if ck_Model chunk \<noteq> [] then ck_Model chunk else ds_model st)\<rparr>"
  show ?thesis using decode_shaped(1) [of ?st1 "ck_Usage chunk"] by (simp add: Nil decode_chunk_def Let_def)
next
  case (Cons choice rest)
  let ?st1 = "st\<lparr>ds_messageID := (if ck_ID chunk \<noteq> [] then ck_ID chunk else ds_messageID st),
    ds_model := (if ck_Model chunk \<noteq> [] then ck_Model chunk else ds_model st)\<rparr>"
  define st0 where "st0 = (if ch_Role choice \<noteq> [] then ?st1\<lparr>ds_role := ch_Role choice\<rparr> else ?st1)"
  obtain e1 s1 where 1: "decode_start st0 = (e1, s1)" by fastforce
  obtain e2 s2 where 2: "decode_content (ch_Content choice) s1 = (e2, s2)" by fastforce
  obtain e3 s3 where 3: "decode_calls (ch_ToolCalls choice) s2 = (e3, s3)" by fastforce
  obtain e4 s4 where 4: "decode_usage (ck_Usage chunk) s3 = (e4, s4)" by fastforce
  have s1: "ds_started s1" and s2: "ds_started s2"
    using arg_cong [OF 1, of "\<lambda>r. ds_started (snd r)"] arg_cong [OF 2, of "\<lambda>r. ds_started (snd r)"]
    by (simp_all add: decode_start_def decode_content_def split: if_splits)
  have "shaped (ds_started st0) e1 (ds_started s1)" "shaped (ds_started s1) e2 (ds_started s2)" "shaped (ds_started s2) e3 (ds_started s3)"
    "shaped (ds_started s3) e4 (ds_started s4)"
    using decode_shaped(2) [of st0] decode_shaped(3) [OF s1, of "ch_Content choice"] decode_calls_shaped [OF s2, of "ch_ToolCalls choice"]
      decode_shaped(1) [of s3 "ck_Usage chunk"] by (simp_all add: 1 2 3 4)
  then have "shaped (ds_started st0) (e1 @ e2 @ e3 @ e4) (ds_started s4)" by (blast intro: shaped_append)
  moreover have "ds_started st0 = ds_started st" "\<And>r. ds_started (decode_finish r s4) = ds_started s4"
    by (simp_all add: st0_def decode_finish_def)
  ultimately show ?thesis by (simp add: Cons decode_chunk_def decode_choice_def Let_def st0_def [symmetric] 1 2 3 4)
qed

lemma decode_lines_shaped:
  "decode_lines unmarshal lines st = (evs, r) \<Longrightarrow>
     \<exists>after. shaped (ds_started st) evs after \<and>
       (case r of Inl failed \<Rightarrow> se_Type failed = StreamEventError | Inr st' \<Rightarrow> ds_started st' = after)"
proof (induction lines arbitrary: st evs r)
  case Nil
  then show ?case using shaped_Nil by (intro exI [of _ "ds_started st"]) auto
next
  case (Cons l ls)
  show ?case
  proof (cases "sse_payload l")
    case (DataLine payload)
    show ?thesis
    proof (cases "unmarshal payload")
      case (Inl err)
      then show ?thesis using Cons.prems DataLine shaped_Nil by (intro exI [of _ "ds_started st"]) (auto simp: decode_event_def stream_event_def)
    next
      case (Inr chunk)
      obtain evs1 st1 where c: "decode_chunk chunk st = (evs1, st1)" by fastforce
      obtain evs2 r2 where d: "decode_lines unmarshal ls st1 = (evs2, r2)" by fastforce
      have "evs = evs1 @ evs2" "r = r2" using Cons.prems DataLine Inr c d by simp_all
      moreover have "shaped (ds_started st) evs1 (ds_started st1)" using decode_chunk_shaped [of st chunk] c by simp
      ultimately show ?thesis using Cons.IH [OF d] shaped_append by blast
    qed
  next
    case SkipLine
    then show ?thesis using Cons by simp
  next
    case DoneLine
    then show ?thesis using Cons.prems shaped_Nil by (intro exI [of _ "ds_started st"]) auto
  qed
qed

lemma finish_stream_shaped:
  "\<exists>body final. finish_stream req estimateUsage st = body @ [final] \<and> se_Type final = StreamEventMessageEnd \<and> shaped (ds_started st) body True"
proof -
  have sh: "shaped (ds_started st) ((if ds_started st then [] else [decode_event st StreamEventMessageStart]) @
      (if c then [(decode_event st StreamEventUsage)\<lparr>se_Usage := u\<rparr>] else [])) True" for c u
    by (simp add: shape_defs)
  show ?thesis
    unfolding finish_stream_def Let_def append_assoc [symmetric]
    by (intro exI conjI, rule refl, simp add: decode_event_def stream_event_def, rule sh)
qed

lemma decoded_stream_body:
  "\<exists>body final. decodeOpenAIChatStream unmarshal lines scanErr req estimateUsage = body @ [final] \<and>
     (se_Type final = StreamEventMessageEnd \<or> se_Type final = StreamEventError) \<and>
     list_all (\<lambda>e. is_start e \<or> is_usage e \<or> se_Type e = StreamEventContentDelta) body \<and>
     length (filter is_start body) \<le> 1 \<and> (se_Type final = StreamEventError \<or> length (filter is_start body) = 1) \<and>
     list_all is_usage (takeWhile (\<lambda>e. \<not> is_start e) body)"
proof -
  obtain evs r where d: "decode_lines unmarshal lines new_decode = (evs, r)" by fastforce
  have "ds_started new_decode = False" by (simp add: new_decode_def)
  then obtain after where sh: "shaped False evs after"
    and r: "case r of Inl failed \<Rightarrow> se_Type failed = StreamEventError | Inr st' \<Rightarrow> ds_started st' = after"
    using decode_lines_shaped [OF d] by auto
  have shapes: "list_all (\<lambda>e. is_start e \<or> is_usage e \<or> se_Type e = StreamEventContentDelta) b"
    "length (filter is_start b) = (if a then 1 else 0)" "list_all is_usage (takeWhile (\<lambda>e. \<not> is_start e) b)"
    if "shaped False b a" for a b
    using that by (simp_all add: shaped_def in_body_def [abs_def])
  show ?thesis
  proof (cases "\<exists>st. r = Inr st \<and> scanErr = None")
    case False
    then obtain final where "decodeOpenAIChatStream unmarshal lines scanErr req estimateUsage = evs @ [final]" "se_Type final = StreamEventError"
      using r by (cases r) (auto simp: decodeOpenAIChatStream_def d decode_event_def stream_event_def split: option.split)
    then show ?thesis using shapes [OF sh] by (intro exI [of _ evs] exI [of _ final]) simp
  next
    case True
    then obtain st where st: "r = Inr st" "scanErr = None" by blast
    obtain body' final where f: "finish_stream req estimateUsage st = body' @ [final]" "se_Type final = StreamEventMessageEnd"
      "shaped (ds_started st) body' True"
      using finish_stream_shaped by blast
    then have "shaped False (evs @ body') True" using shaped_append [OF sh] r st by simp
    then show ?thesis using shapes [of "evs @ body'" True] f by (intro exI [of _ "evs @ body'"] exI [of _ final]) (simp add: decodeOpenAIChatStream_def d st)
  qed
qed

text \<open>C19: whatever the upstream sends, the decoded stream ends: it has exactly one terminal event, its last one, which is the
  end of the message or an error; before it the message is started at most once, exactly once if it ends well, and
  nothing but usage is sent before the start.
\<close>

theorem decoded_stream_shape:
  "\<exists>body final. decodeOpenAIChatStream unmarshal lines scanErr req estimateUsage = body @ [final] \<and>
     (se_Type final = StreamEventMessageEnd \<or> se_Type final = StreamEventError) \<and>
     list_all (\<lambda>e. is_start e \<or> is_usage e \<or> se_Type e = StreamEventContentDelta) body \<and>
     length (filter is_start body) \<le> 1 \<and> (se_Type final = StreamEventError \<or> length (filter is_start body) = 1) \<and>
     list_all is_usage (takeWhile (\<lambda>e. \<not> is_start e) body)"
  by (rule decoded_stream_body)

end
