(* ===== verification/Inbound_Request.thy ===== *)
theory Inbound_Request
  imports Runtime_Model Go_Json
begin

text \<open>
  From a client's request to the runtime's request (package \<open>internal/gateway\<close>, \<open>runtime_request.go\<close> and the request
  half of \<open>openai_responses_codec.go\<close>, over the types of \<open>internal/semantic\<close>). A request is first read into turns of
  segments and then lowered to runtime messages.

  Package \<open>encoding/json\<close> is the argument \<open>J\<close>: one decoder for each Go type the code unmarshals into (\<open>None\<close>, or \<open>Inl\<close>
  and the error's text where the code prints it, for an error) and the encoders it calls. A \<open>json.RawMessage\<close> is its
  bytes, a nil slice is the empty list.
\<close>

section \<open>Types\<close>

abbreviation RoleUser where "RoleUser \<equiv> ''user''"
abbreviation RoleAssistant where "RoleAssistant \<equiv> ''assistant''"
abbreviation RoleTool where "RoleTool \<equiv> ''tool''"
abbreviation SegmentText where "SegmentText \<equiv> ''text''"
abbreviation SegmentToolCall where "SegmentToolCall \<equiv> ''tool_call''"
abbreviation SegmentToolResult where "SegmentToolResult \<equiv> ''tool_result''"
abbreviation SegmentData where "SegmentData \<equiv> ''data''"

record semantic_ToolCall =
  stc_ID :: string
  stc_Type :: string
  stc_Name :: string
  stc_Arguments :: raw_json
  stc_Input :: string

record DataPart =
  dp_Format :: string
  dp_Value :: raw_json

datatype Segment =
    Segment (seg_Kind: string) (seg_Text: string) (seg_ToolCall: "semantic_ToolCall option") (seg_ToolResult: "semantic_ToolResult option")
      (seg_Data: "DataPart option")
and semantic_ToolResult =
    ToolResult (str_ToolCallID: string) (str_ToolCallType: string) (str_Content: "Segment list") (str_IsError: bool)

record Turn =
  turn_Role :: string
  turn_Segments :: "Segment list"

record GenerateOptions =
  go_MaxTokens :: int
  go_Stream :: bool
  go_PreviousResponseID :: string
  go_Metadata :: raw_json
  go_ThinkingType :: string
  go_ContextManagement :: raw_json
  go_OutputEffort :: string
  go_ToolChoice :: raw_json

record semantic_Request =
  sr_Model :: string
  sr_Instructions :: "Segment list"
  sr_Turns :: "Turn list"
  sr_Tools :: "ToolDefinition list"
  sr_Options :: GenerateOptions

record inboundToolCall =
  itc_ID :: string
  itc_Type :: string
  itc_Name :: string
  itc_Arguments :: string

record inboundMessage =
  im_Role :: string
  im_Content :: raw_json
  im_ToolCalls :: "inboundToolCall list"
  im_ToolCallID :: string

record inboundToolDefinition =
  itd_Name :: string
  itd_Description :: string
  itd_InputSchema :: raw_json

record openAIChatToolDefinition =
  otd_Type :: string
  otd_Name :: string
  otd_Description :: string
  otd_Parameters :: raw_json

record inboundRequest =
  ir_Model :: string
  ir_System :: raw_json
  ir_MaxTokens :: int
  ir_Messages :: "inboundMessage list"
  ir_Tools :: "inboundToolDefinition list"
  ir_ToolChoice :: raw_json
  ir_Stream :: bool
  ir_PreviousResponseID :: string
  ir_Metadata :: raw_json
  ir_Thinking :: raw_json
  ir_ContextManagement :: raw_json
  ir_OutputConfig :: raw_json

record text_content =
  tx_Type :: string
  tx_Text :: string

record content_block =
  cb_Type :: string
  cb_Text :: string
  cb_ID :: string
  cb_ToolUseID :: string
  cb_Name :: string
  cb_Input :: raw_json
  cb_Content :: raw_json
  cb_IsError :: bool

record result_block =
  rb_Type :: string
  rb_Text :: string
  rb_Value :: raw_json
  rb_Content :: raw_json

record json_lib =
  js_string :: "raw_json \<Rightarrow> string option"
  js_any :: "raw_json \<Rightarrow> string + any"
  js_object :: "raw_json \<Rightarrow> any option"
  js_raws :: "raw_json \<Rightarrow> raw_json list option"
  js_texts :: "raw_json \<Rightarrow> text_content list option"
  js_blocks :: "raw_json \<Rightarrow> content_block list option"
  js_results :: "raw_json \<Rightarrow> result_block list option"
  js_type :: "raw_json \<Rightarrow> string option"
  js_effort :: "raw_json \<Rightarrow> string option"
  js_marshal :: "any \<Rightarrow> string + raw_json"
  js_marshal_texts :: "text_content list \<Rightarrow> raw_json option"

section \<open>Normal forms of JSON\<close>

definition normalizedJSONOrRaw :: "json_lib \<Rightarrow> raw_json \<Rightarrow> raw_json" where
  "normalizedJSONOrRaw J raw =
     (if length raw = 0 then ''{}''
      else case js_any J raw of
             Inl _ \<Rightarrow> raw
           | Inr v \<Rightarrow> (case js_marshal J v of Inl _ \<Rightarrow> raw | Inr encoded \<Rightarrow> encoded))"

definition normalizedOptionalJSONObject :: "json_lib \<Rightarrow> raw_json \<Rightarrow> raw_json" where
  "normalizedOptionalJSONObject J raw =
     (if length raw = 0 then []
      else case js_object J raw of
             None \<Rightarrow> []
           | Some v \<Rightarrow> (case js_marshal J v of Inl _ \<Rightarrow> [] | Inr encoded \<Rightarrow> encoded))"

definition parseThinkingType :: "json_lib \<Rightarrow> raw_json \<Rightarrow> string" where
  "parseThinkingType J raw = (if length raw = 0 then [] else case js_type J raw of None \<Rightarrow> [] | Some t \<Rightarrow> t)"

definition parseOutputEffort :: "json_lib \<Rightarrow> raw_json \<Rightarrow> string" where
  "parseOutputEffort J raw = (if length raw = 0 then [] else case js_effort J raw of None \<Rightarrow> [] | Some t \<Rightarrow> t)"

definition marshalCompactJSON :: "json_lib \<Rightarrow> raw_json \<Rightarrow> string option" where
  "marshalCompactJSON J raw =
     (if length raw = 0 then Some ''{}''
      else case js_any J raw of
             Inl _ \<Rightarrow> None
           | Inr v \<Rightarrow> (case js_marshal J v of Inl _ \<Rightarrow> None | Inr encoded \<Rightarrow> Some encoded))"

definition marshalCompactJSONOrEmpty :: "json_lib \<Rightarrow> raw_json \<Rightarrow> string" where
  "marshalCompactJSONOrEmpty J raw =
     (if length raw = 0 then ''{}'' else case marshalCompactJSON J raw of None \<Rightarrow> raw | Some encoded \<Rightarrow> encoded)"

section \<open>Reading the parts of a request\<close>

definition text_segment :: "string \<Rightarrow> Segment" where
  "text_segment t = Segment SegmentText t None None None"

definition call_segment :: "semantic_ToolCall \<Rightarrow> Segment" where
  "call_segment c = Segment SegmentToolCall [] (Some c) None None"

definition result_segment :: "semantic_ToolResult \<Rightarrow> Segment" where
  "result_segment r = Segment SegmentToolResult [] None (Some r) None"

definition data_segment :: "string \<Rightarrow> raw_json \<Rightarrow> Segment" where
  "data_segment fmt v = Segment SegmentData [] None None (Some \<lparr>dp_Format = fmt, dp_Value = v\<rparr>)"

fun Join :: "string list \<Rightarrow> string \<Rightarrow> string" where
  "Join [] sep = []"
| "Join [s] sep = s"
| "Join (s # t # ss) sep = s @ sep @ Join (t # ss) sep"

abbreviation newline where "newline \<equiv> [CHR 0x0A]"

definition parseInboundSystem :: "json_lib \<Rightarrow> raw_json \<Rightarrow> string + (Segment list \<times> string)" where
  "parseInboundSystem J raw =
     (if length raw = 0 then Inr ([], [])
      else case js_string J raw of
             Some t \<Rightarrow> Inr ([text_segment t], t)
           | None \<Rightarrow>
               (case js_texts J raw of
                  Some blocks \<Rightarrow>
                    (let parts = map tx_Text (filter (\<lambda>b. tx_Type b = ''text'') blocks)
                     in if parts = [] then Inl ''system content must include at least one text block''
                        else Inr (map text_segment parts, Join parts newline))
                | None \<Rightarrow> Inl ''unsupported system content''))"

text \<open>The input schema of a tool: re-encoded, or \<open>{}\<close> when there is none.\<close>

definition parse_schema :: "json_lib \<Rightarrow> string \<Rightarrow> string \<Rightarrow> raw_json \<Rightarrow> string + raw_json" where
  "parse_schema J what name raw =
     (if length raw > 0
      then case js_any J raw of
             Inl e \<Rightarrow> Inl (''invalid tool '' @ what @ '' for '' @ quoted name @ '': '' @ e)
           | Inr v \<Rightarrow> (case js_marshal J v of
                         Inl e \<Rightarrow> Inl (''marshal tool '' @ what @ '' for '' @ quoted name @ '': '' @ e)
                       | Inr encoded \<Rightarrow> Inr encoded)
      else Inr ''{}'')"

definition function_tool :: "string \<Rightarrow> string \<Rightarrow> raw_json \<Rightarrow> ToolDefinition" where
  "function_tool name desc schema =
     \<lparr>td_Type = ''function'', td_Name = name, td_Description = desc, td_InputSchema = schema, td_Format = [], td_Raw = []\<rparr>"

fun parseOpenAIChatTools :: "json_lib \<Rightarrow> openAIChatToolDefinition list \<Rightarrow> string + ToolDefinition list" where
  "parseOpenAIChatTools J [] = Inr []"
| "parseOpenAIChatTools J (t # ts) =
     (if otd_Type t \<noteq> [] \<and> otd_Type t \<noteq> ''function'' then Inl (''unsupported tool type '' @ quoted (otd_Type t))
      else if otd_Name t = [] then Inl ''tool name is required''
      else case parse_schema J ''parameters'' (otd_Name t) (otd_Parameters t) of
             Inl e \<Rightarrow> Inl e
           | Inr schema \<Rightarrow> map_sum id (Cons (function_tool (otd_Name t) (otd_Description t) schema)) (parseOpenAIChatTools J ts))"

fun parseInboundTools :: "json_lib \<Rightarrow> inboundToolDefinition list \<Rightarrow> string + ToolDefinition list" where
  "parseInboundTools J [] = Inr []"
| "parseInboundTools J (t # ts) =
     (if itd_Name t = [] then Inl ''tool name is required''
      else case parse_schema J ''input_schema'' (itd_Name t) (itd_InputSchema t) of
             Inl e \<Rightarrow> Inl e
           | Inr schema \<Rightarrow> map_sum id (Cons (function_tool (itd_Name t) (itd_Description t) schema)) (parseInboundTools J ts))"

definition result_block_segment :: "result_block \<Rightarrow> Segment" where
  "result_block_segment b =
     (if rb_Type b = ''text'' then text_segment (rb_Text b)
      else let payload = (if length (rb_Value b) = 0 then rb_Content b else rb_Value b)
           in data_segment (rb_Type b) (if length payload = 0 then ''{}'' else payload))"

text \<open>The error result of \<open>parseToolResultContent\<close> is always nil.\<close>

definition parseToolResultContent :: "json_lib \<Rightarrow> raw_json \<Rightarrow> Segment list" where
  "parseToolResultContent J raw =
     (if length raw = 0 then []
      else case js_string J raw of
             Some t \<Rightarrow> [text_segment t]
           | None \<Rightarrow>
               (case js_results J raw of
                  Some blocks \<Rightarrow> map result_block_segment blocks
                | None \<Rightarrow> [data_segment ''json'' (normalizedJSONOrRaw J raw)]))"

definition block_segments :: "json_lib \<Rightarrow> content_block \<Rightarrow> Segment list" where
  "block_segments J b =
     (if cb_Type b = ''text'' then [text_segment (cb_Text b)]
      else if cb_Type b = ''tool_use''
      then [call_segment \<lparr>stc_ID = cb_ID b, stc_Type = ''function'', stc_Name = cb_Name b,
              stc_Arguments = normalizedJSONOrRaw J (cb_Input b), stc_Input = []\<rparr>]
      else if cb_Type b = ''tool_result''
      then [result_segment (ToolResult (cb_ToolUseID b) ''function'' (parseToolResultContent J (cb_Content b)) (cb_IsError b))]
      else [])"

text \<open>The tool call id is that of the last tool result.\<close>

definition blocks_call_id :: "content_block list \<Rightarrow> string" where
  "blocks_call_id blocks =
     fold (\<lambda>b i. if cb_Type b = ''tool_result'' then cb_ToolUseID b else i) blocks []"

definition parseInboundContent :: "json_lib \<Rightarrow> string \<Rightarrow> raw_json \<Rightarrow> string + (Segment list \<times> string)" where
  "parseInboundContent J role raw =
     (if length raw = 0 \<or> raw = ''null'' then Inr ([text_segment []], [])
      else case js_string J raw of
             Some t \<Rightarrow> Inr ([text_segment t], [])
           | None \<Rightarrow>
               (case js_blocks J raw of
                  None \<Rightarrow> Inl ''unsupported message content''
                | Some blocks \<Rightarrow>
                    (let segments = concat (map (block_segments J) blocks); toolCallID = blocks_call_id blocks
                     in if segments = [] then Inl ''message content must include at least one text or tool block''
                        else if role = RoleTool \<and> toolCallID = [] then Inl ''tool message must include tool_call_id''
                        else Inr (segments, toolCallID))))"

section \<open>Messages\<close>

definition is_result :: "Segment \<Rightarrow> bool" where
  "is_result s \<longleftrightarrow> seg_Kind s = SegmentToolResult \<and> seg_ToolResult s \<noteq> None"

definition hasMultipleToolResultSegments :: "Segment list \<Rightarrow> bool" where
  "hasMultipleToolResultSegments segments = (length (filter is_result segments) > 1)"

primrec clone_segment :: "Segment \<Rightarrow> Segment" and clone_tool_result :: "semantic_ToolResult \<Rightarrow> semantic_ToolResult" where
  "clone_segment (Segment kind t call result d) = Segment kind t call (map_option clone_tool_result result) d"
| "clone_tool_result (ToolResult i typ content isError) = ToolResult i typ (map clone_segment content) isError"

definition cloneSegmentsAsToolResultContent :: "Segment list \<Rightarrow> Segment list" where
  "cloneSegmentsAsToolResultContent segments = map clone_segment segments"

fun with_call_id :: "string \<Rightarrow> Segment \<Rightarrow> Segment" where
  "with_call_id i (Segment kind t call (Some (ToolResult _ typ content isError)) d) =
     Segment kind t call (Some (ToolResult i typ content isError)) d"
| "with_call_id i s = s"

definition normalizeToolTurnSegments :: "string \<Rightarrow> Segment list \<Rightarrow> Segment list" where
  "normalizeToolTurnSegments toolCallID segments =
     (if length segments = 1 \<and> is_result (hd segments) then [with_call_id toolCallID (hd segments)]
      else [result_segment (ToolResult toolCallID [] (cloneSegmentsAsToolResultContent segments) False)])"

text \<open>The loop that gives every tool result a turn of its own.\<close>

definition split_step :: "string \<Rightarrow> Segment \<Rightarrow> Turn list \<Rightarrow> Turn list" where
  "split_step role s turns =
     (if is_result s then turns @ [\<lparr>turn_Role = RoleTool, turn_Segments = [s]\<rparr>]
      else let turns1 = (if turns = [] \<or> turn_Role (last turns) \<noteq> role then turns @ [\<lparr>turn_Role = role, turn_Segments = []\<rparr>] else turns)
           in butlast turns1 @ [(last turns1)\<lparr>turn_Segments := turn_Segments (last turns1) @ [s]\<rparr>])"

definition split_turns :: "string \<Rightarrow> Segment list \<Rightarrow> Turn list" where
  "split_turns role segments = fold (split_step role) segments []"

fun call_segments :: "json_lib \<Rightarrow> inboundToolCall list \<Rightarrow> string + Segment list" where
  "call_segments J [] = Inr []"
| "call_segments J (c # cs) =
     (if itc_Type c \<noteq> [] \<and> itc_Type c \<noteq> ''function'' then Inl (''unsupported tool call type '' @ quoted (itc_Type c))
      else map_sum id (Cons (call_segment \<lparr>stc_ID = itc_ID c, stc_Type = [], stc_Name = itc_Name c,
             stc_Arguments = normalizedJSONOrRaw J (itc_Arguments c), stc_Input = []\<rparr>)) (call_segments J cs))"

definition parseInboundMessages :: "json_lib \<Rightarrow> inboundMessage \<Rightarrow> string + Turn list" where
  "parseInboundMessages J msg =
     (case parseInboundContent J (im_Role msg) (im_Content msg) of
        Inl e \<Rightarrow> Inl e
      | Inr (segments0, callID0) \<Rightarrow>
          (case call_segments J (im_ToolCalls msg) of
             Inl e \<Rightarrow> Inl e
           | Inr calls \<Rightarrow>
               (let segments = segments0 @ calls;
                    toolCallID = (if im_ToolCallID msg \<noteq> [] then im_ToolCallID msg else callID0);
                    role = im_Role msg
                in if role \<noteq> RoleTool \<and> hasMultipleToolResultSegments segments then Inr (split_turns role segments)
                   else if toolCallID \<noteq> []
                   then Inr [\<lparr>turn_Role = RoleTool, turn_Segments = normalizeToolTurnSegments toolCallID segments\<rparr>]
                   else Inr [\<lparr>turn_Role = role, turn_Segments = segments\<rparr>])))"

definition shouldSkipInboundMessage :: "json_lib \<Rightarrow> inboundMessage \<Rightarrow> bool" where
  "shouldSkipInboundMessage J msg =
     (if im_ToolCalls msg \<noteq> [] \<or> im_ToolCallID msg \<noteq> [] then False
      else if length (im_Content msg) = 0 then True
      else case js_raws J (im_Content msg) of Some blocks \<Rightarrow> blocks = [] | None \<Rightarrow> False)"

definition isSystemReminderText :: "string \<Rightarrow> bool" where
  "isSystemReminderText t =
     (let trimmed = TrimSpace t in HasPrefix trimmed ''<system-reminder>'' \<and> Contains trimmed ''</system-reminder>'')"

definition stripLeadingSystemReminderText :: "json_lib \<Rightarrow> inboundMessage \<Rightarrow> inboundMessage" where
  "stripLeadingSystemReminderText J msg =
     (if im_Role msg \<noteq> RoleUser \<or> length (im_Content msg) = 0 then msg
      else case js_texts J (im_Content msg) of
             None \<Rightarrow> msg
           | Some blocks \<Rightarrow>
               (let remaining = dropWhile (\<lambda>b. tx_Type b = ''text'' \<and> isSystemReminderText (tx_Text b)) blocks
                in if length remaining = length blocks then msg
                   else case js_marshal_texts J remaining of None \<Rightarrow> msg | Some raw \<Rightarrow> msg\<lparr>im_Content := raw\<rparr>))"

fun parse_messages :: "json_lib \<Rightarrow> inboundMessage list \<Rightarrow> string + Turn list" where
  "parse_messages J [] = Inr []"
| "parse_messages J (m # ms) =
     (let msg = stripLeadingSystemReminderText J m
      in if shouldSkipInboundMessage J msg then parse_messages J ms
         else case parseInboundMessages J msg of
                Inl e \<Rightarrow> Inl e
              | Inr turns \<Rightarrow> map_sum id (append turns) (parse_messages J ms))"

definition buildSemanticRequest :: "json_lib \<Rightarrow> inboundRequest \<Rightarrow> (string + ToolDefinition list) \<Rightarrow> string + semantic_Request" where
  "buildSemanticRequest J req toolsParser =
     (case parseInboundSystem J (ir_System req) of
        Inl e \<Rightarrow> Inl e
      | Inr (instructions, systemText) \<Rightarrow>
          (case toolsParser of
             Inl e \<Rightarrow> Inl e
           | Inr tools \<Rightarrow>
               (case parse_messages J (ir_Messages req) of
                  Inl e \<Rightarrow> Inl e
                | Inr turns \<Rightarrow>
                    Inr \<lparr>sr_Model = ir_Model req,
                         sr_Instructions = (if systemText \<noteq> [] \<and> instructions = [] then [text_segment systemText] else instructions),
                         sr_Turns = turns, sr_Tools = tools,
                         sr_Options = \<lparr>go_MaxTokens = ir_MaxTokens req, go_Stream = ir_Stream req,
                           go_PreviousResponseID = ir_PreviousResponseID req,
                           go_Metadata = normalizedOptionalJSONObject J (ir_Metadata req),
                           go_ThinkingType = parseThinkingType J (ir_Thinking req),
                           go_ContextManagement = normalizedOptionalJSONObject J (ir_ContextManagement req),
                           go_OutputEffort = parseOutputEffort J (ir_OutputConfig req), go_ToolChoice = ir_ToolChoice req\<rparr>\<rparr>)))"

section \<open>Lowering\<close>

definition text_part :: "string \<Rightarrow> ContentPart" where
  "text_part t = \<lparr>cp_Type = ContentPartTypeText, cp_Text = t, cp_Data = []\<rparr>"

definition json_part :: "raw_json \<Rightarrow> ContentPart" where
  "json_part d = \<lparr>cp_Type = ContentPartTypeJSON, cp_Text = [], cp_Data = d\<rparr>"

definition data_parts :: "Segment \<Rightarrow> ContentPart list" where
  "data_parts s = (case seg_Data s of Some d \<Rightarrow> [json_part (dp_Value d)] | None \<Rightarrow> [])"

definition result_parts :: "Segment \<Rightarrow> ContentPart list" where
  "result_parts s =
     (if seg_Kind s = SegmentText then [text_part (seg_Text s)]
      else if seg_Kind s = SegmentData then data_parts s else [])"

definition lowerToolResultContent :: "Segment list \<Rightarrow> ContentPart list" where
  "lowerToolResultContent segments =
     (let parts = concat (map result_parts segments) in if parts = [] then [text_part []] else parts)"

definition lower_call :: "json_lib \<Rightarrow> semantic_ToolCall \<Rightarrow> ToolCall" where
  "lower_call J c =
     \<lparr>tc_ID = stc_ID c, tc_Type = stc_Type c, tc_Name = stc_Name c, tc_Arguments = marshalCompactJSONOrEmpty J (stc_Arguments c),
      tc_Input = stc_Input c\<rparr>"

definition lower_segment :: "json_lib \<Rightarrow> Segment \<Rightarrow> Message \<Rightarrow> Message" where
  "lower_segment J s m =
     (if seg_Kind s = SegmentText then m\<lparr>msg_Parts := msg_Parts m @ [text_part (seg_Text s)]\<rparr>
      else if seg_Kind s = SegmentToolCall
      then (case seg_ToolCall s of None \<Rightarrow> m | Some c \<Rightarrow> m\<lparr>msg_ToolCalls := msg_ToolCalls m @ [lower_call J c]\<rparr>)
      else if seg_Kind s = SegmentToolResult
      then (case seg_ToolResult s of
              None \<Rightarrow> m
            | Some r \<Rightarrow> m\<lparr>msg_ToolCallID := str_ToolCallID r, msg_ToolCallType := str_ToolCallType r, msg_ToolResultIsError := str_IsError r,
                          msg_Parts := msg_Parts m @ lowerToolResultContent (str_Content r)\<rparr>)
      else if seg_Kind s = SegmentData then m\<lparr>msg_Parts := msg_Parts m @ data_parts s\<rparr>
      else m)"

definition lowerSemanticTurn :: "json_lib \<Rightarrow> Turn \<Rightarrow> Message" where
  "lowerSemanticTurn J turn =
     (let m = fold (lower_segment J) (turn_Segments turn)
                \<lparr>msg_Role = turn_Role turn, msg_Parts = [], msg_ToolCalls = [], msg_ToolCallID = [], msg_ToolCallType = [],
                 msg_ToolResultIsError = False\<rparr>
      in if msg_Parts m = [] \<and> msg_ToolCalls m = [] then m\<lparr>msg_Parts := [text_part []]\<rparr> else m)"

definition joinSegmentTexts :: "Segment list \<Rightarrow> string" where
  "joinSegmentTexts segments = Join (map seg_Text (filter (\<lambda>s. seg_Kind s = SegmentText \<and> seg_Text s \<noteq> []) segments)) newline"

definition lowerSemanticRequest :: "json_lib \<Rightarrow> semantic_Request \<Rightarrow> Request" where
  "lowerSemanticRequest J req =
     \<lparr>req_Model = sr_Model req, req_System = joinSegmentTexts (sr_Instructions req), req_MaxTokens = go_MaxTokens (sr_Options req),
      req_Messages = map (lowerSemanticTurn J) (sr_Turns req), req_Tools = sr_Tools req, req_ToolChoice = go_ToolChoice (sr_Options req),
      req_Stream = go_Stream (sr_Options req), req_PreviousResponseID = go_PreviousResponseID (sr_Options req),
      req_Metadata = go_Metadata (sr_Options req), req_ThinkingType = go_ThinkingType (sr_Options req),
      req_ContextManagement = go_ContextManagement (sr_Options req), req_OutputEffort = go_OutputEffort (sr_Options req)\<rparr>"

definition buildRuntimeRequestFromOpenAIChat ::
  "json_lib \<Rightarrow> inboundRequest \<Rightarrow> openAIChatToolDefinition list \<Rightarrow> string + Request" where
  "buildRuntimeRequestFromOpenAIChat J req tools =
     map_sum id (lowerSemanticRequest J) (buildSemanticRequest J req (parseOpenAIChatTools J tools))"

definition buildRuntimeRequest :: "json_lib \<Rightarrow> inboundRequest \<Rightarrow> string + Request" where
  "buildRuntimeRequest J req = map_sum id (lowerSemanticRequest J) (buildSemanticRequest J req (parseInboundTools J (ir_Tools req)))"

section \<open>Well-formed requests\<close>

lemma map_sum_Inr: "map_sum id f x = Inr y \<longleftrightarrow> (\<exists>z. x = Inr z \<and> y = f z)"
  by (cases x) auto

lemma parseInboundTools_named:
  "parseInboundTools J ts = Inr tools \<Longrightarrow> t \<in> set tools \<Longrightarrow> td_Type t = ''function'' \<and> td_Name t \<noteq> []"
  by (induction ts arbitrary: tools) (auto simp: function_tool_def map_sum_Inr split: if_splits sum.splits)

lemma lowered_turn_nonempty: "msg_Parts (lowerSemanticTurn J turn) \<noteq> [] \<or> msg_ToolCalls (lowerSemanticTurn J turn) \<noteq> []"
  by (simp add: lowerSemanticTurn_def Let_def)

text \<open>a request built from an Anthropic message request is well formed: it keeps the model and the stream flag, every
  message has a content part or a tool call, and every tool is a function with a name.
\<close>

theorem built_request_wellformed:
  assumes "buildRuntimeRequest J req = Inr r"
  shows "req_Model r = ir_Model req \<and> req_Stream r = ir_Stream req \<and>
    list_all (\<lambda>m. msg_Parts m \<noteq> [] \<or> msg_ToolCalls m \<noteq> []) (req_Messages r) \<and>
    list_all (\<lambda>t. td_Type t = ''function'' \<and> td_Name t \<noteq> []) (req_Tools r)"
proof -
  obtain sreq where s: "buildSemanticRequest J req (parseInboundTools J (ir_Tools req)) = Inr sreq" "r = lowerSemanticRequest J sreq"
    using assms by (cases "buildSemanticRequest J req (parseInboundTools J (ir_Tools req))") (auto simp: buildRuntimeRequest_def)
  then have "parseInboundTools J (ir_Tools req) = Inr (sr_Tools sreq)" "sr_Model sreq = ir_Model req" "go_Stream (sr_Options sreq) = ir_Stream req"
    by (auto simp: buildSemanticRequest_def split: sum.splits prod.splits)
  then show ?thesis
    using parseInboundTools_named [of J "ir_Tools req"] lowered_turn_nonempty
    by (auto simp: s(2) lowerSemanticRequest_def list_all_iff)
qed

section \<open>Tool results\<close>

text \<open>Splitting the segments of a message into turns keeps them, in order.\<close>

lemma split_step_segments: "concat (map turn_Segments (split_step role s turns)) = concat (map turn_Segments turns) @ [s]"
proof (cases "turns = [] \<or> turn_Role (last turns) \<noteq> role")
  case False
  then obtain ts t where "turns = ts @ [t]" by (metis append_butlast_last_id)
  then show ?thesis using False by (simp add: split_step_def Let_def)
qed (auto simp: split_step_def Let_def)

lemma split_turns_segments: "concat (map turn_Segments (fold (split_step role) segments turns)) = concat (map turn_Segments turns) @ segments"
  by (induction segments arbitrary: turns) (simp_all add: split_step_segments)

definition result_turns :: "Segment list \<Rightarrow> Turn list" where
  "result_turns segments = map (\<lambda>s. \<lparr>turn_Role = RoleTool, turn_Segments = [s]\<rparr>) (filter is_result segments)"

lemma split_step_results:
  assumes "role \<noteq> RoleTool"
  shows "filter (\<lambda>t. turn_Role t = RoleTool) (split_step role s turns) =
    filter (\<lambda>t. turn_Role t = RoleTool) turns @ result_turns [s]"
proof (cases "is_result s \<or> turns = [] \<or> turn_Role (last turns) \<noteq> role")
  case True
  then show ?thesis using assms by (auto simp: split_step_def result_turns_def Let_def)
next
  case False
  then obtain ts t where "turns = ts @ [t]" by (metis append_butlast_last_id)
  then show ?thesis using assms False by (simp add: split_step_def result_turns_def Let_def)
qed

lemma split_turns_results:
  assumes "role \<noteq> RoleTool"
  shows "filter (\<lambda>t. turn_Role t = RoleTool) (fold (split_step role) segments turns) =
    filter (\<lambda>t. turn_Role t = RoleTool) turns @ result_turns segments"
  by (induction segments arbitrary: turns) (simp_all add: split_step_results [OF assms] result_turns_def)

text \<open>The message that answers a tool call with a result.\<close>

definition result_message :: "semantic_ToolResult \<Rightarrow> Message" where
  "result_message r =
     \<lparr>msg_Role = RoleTool, msg_Parts = lowerToolResultContent (str_Content r), msg_ToolCalls = [], msg_ToolCallID = str_ToolCallID r,
      msg_ToolCallType = str_ToolCallType r, msg_ToolResultIsError = str_IsError r\<rparr>"

lemma lowerToolResultContent_nonempty [simp]: "lowerToolResultContent ss \<noteq> []"
  by (simp add: lowerToolResultContent_def Let_def)

lemma lower_result_turn:
  "is_result s \<Longrightarrow> lowerSemanticTurn J \<lparr>turn_Role = RoleTool, turn_Segments = [s]\<rparr> = result_message (the (seg_ToolResult s))"
  by (auto simp: is_result_def lowerSemanticTurn_def lower_segment_def result_message_def Let_def)

lemma lower_role: "msg_Role (lowerSemanticTurn J t) = turn_Role t"
proof -
  have "msg_Role (fold (lower_segment J) ss m) = msg_Role m" for ss m
    by (induction ss arbitrary: m) (simp_all add: lower_segment_def split: option.split)
  then show ?thesis by (simp add: lowerSemanticTurn_def Let_def)
qed

text \<open>a message of the user or the assistant with several tool results is split without loss: its segments are kept in
  order, and the tool messages of the runtime request are exactly its tool results, in order, each with its own call id,
  error flag and content.
\<close>

theorem tool_results_split:
  assumes "role \<noteq> RoleTool"
  shows "concat (map turn_Segments (split_turns role segments)) = segments \<and>
    filter (\<lambda>m. msg_Role m = RoleTool) (map (lowerSemanticTurn J) (split_turns role segments)) =
      map (\<lambda>s. result_message (the (seg_ToolResult s))) (filter is_result segments)"
proof -
  have "filter (\<lambda>m. msg_Role m = RoleTool) (map (lowerSemanticTurn J) (split_turns role segments)) =
      map (lowerSemanticTurn J) (filter (\<lambda>t. turn_Role t = RoleTool) (split_turns role segments))"
    by (simp add: filter_map comp_def lower_role)
  also have "\<dots> = map (lowerSemanticTurn J) (result_turns segments)"
    using split_turns_results [OF assms, of segments "[]"] by (simp add: split_turns_def)
  finally show ?thesis
    using split_turns_segments [of role segments "[]"] by (auto simp: split_turns_def result_turns_def lower_result_turn)
qed

definition sample_json :: json_lib where
  "sample_json = \<lparr>js_string = (\<lambda>d. Some d), js_any = (\<lambda>d. Inr (JStr d)), js_object = (\<lambda>d. None), js_raws = (\<lambda>d. None),
     js_texts = (\<lambda>d. None), js_blocks = (\<lambda>d. None), js_results = (\<lambda>d. None), js_type = (\<lambda>d. None), js_effort = (\<lambda>d. None),
     js_marshal = (\<lambda>v. Inr (string_of (Some v))), js_marshal_texts = (\<lambda>bs. None)\<rparr>"

definition sample_inbound :: inboundRequest where
  "sample_inbound = \<lparr>ir_Model = ''m'', ir_System = [], ir_MaxTokens = 1,
     ir_Messages = [\<lparr>im_Role = RoleUser, im_Content = ''hi'', im_ToolCalls = [], im_ToolCallID = []\<rparr>],
     ir_Tools = [\<lparr>itd_Name = ''f'', itd_Description = [], itd_InputSchema = []\<rparr>], ir_ToolChoice = [], ir_Stream = True,
     ir_PreviousResponseID = [], ir_Metadata = [], ir_Thinking = [], ir_ContextManagement = [], ir_OutputConfig = []\<rparr>"

theorem built_request_wellformed_witness:
  "\<exists>r. buildRuntimeRequest sample_json sample_inbound = Inr r \<and>
     list_all (\<lambda>m. msg_Parts m \<noteq> [] \<or> msg_ToolCalls m \<noteq> []) (req_Messages r) \<and>
     list_all (\<lambda>t. td_Type t = ''function'' \<and> td_Name t \<noteq> []) (req_Tools r)"
proof -
  obtain r where r: "buildRuntimeRequest sample_json sample_inbound = Inr r"
    by (simp add: buildRuntimeRequest_def buildSemanticRequest_def parseInboundSystem_def parse_schema_def sample_json_def sample_inbound_def
        stripLeadingSystemReminderText_def shouldSkipInboundMessage_def parseInboundMessages_def parseInboundContent_def
        hasMultipleToolResultSegments_def is_result_def text_segment_def Let_def)
  from built_request_wellformed [OF r] r show ?thesis by blast
qed

theorem tool_results_split_witness:
  "filter (\<lambda>m. msg_Role m = RoleTool) (map (lowerSemanticTurn sample_json) (split_turns RoleUser
       [result_segment (ToolResult ''a'' [] [] False), text_segment ''x'', result_segment (ToolResult ''b'' [] [] True)])) =
     [result_message (ToolResult ''a'' [] [] False), result_message (ToolResult ''b'' [] [] True)]"
  using tool_results_split [of RoleUser "[result_segment (ToolResult ''a'' [] [] False), text_segment ''x'', result_segment (ToolResult ''b'' [] [] True)]" sample_json]
  by (simp add: result_segment_def text_segment_def is_result_def)

text \<open>
  A message with one tool result and a text loses the result: both become the content of a new result, whose lowering
  keeps only the text.
\<close>

theorem mixed_tool_result_dropped:
  assumes "js_string J (im_Content msg) = None" "js_blocks J (im_Content msg) = Some [b, t]" "im_Content msg \<noteq> []" "im_Content msg \<noteq> ''null''"
    and "cb_Type b = ''tool_result''" "cb_ToolUseID b \<noteq> []" "cb_Type t = ''text''"
    and "im_Role msg = RoleUser" "im_ToolCalls msg = []" "im_ToolCallID msg = []"
  shows "map_sum id (map (lowerSemanticTurn J)) (parseInboundMessages J msg) =
    Inr [\<lparr>msg_Role = RoleTool, msg_Parts = [text_part (cb_Text t)], msg_ToolCalls = [], msg_ToolCallID = cb_ToolUseID b,
          msg_ToolCallType = [], msg_ToolResultIsError = False\<rparr>]"
  using assms
  by (simp add: parseInboundMessages_def parseInboundContent_def block_segments_def blocks_call_id_def hasMultipleToolResultSegments_def
      is_result_def text_segment_def result_segment_def normalizeToolTurnSegments_def cloneSegmentsAsToolResultContent_def
      lowerSemanticTurn_def lower_segment_def lowerToolResultContent_def result_parts_def Let_def)

text \<open>
  A tool result behind a leading system reminder is emptied: the remaining blocks are written back with their type and
  text only, so that the call id and the content of the result are gone when the message is read.
\<close>

theorem reminder_empties_tool_result:
  assumes "js_texts J (im_Content msg) = Some [\<lparr>tx_Type = ''text'', tx_Text = reminder\<rparr>, \<lparr>tx_Type = ''tool_result'', tx_Text = []\<rparr>]"
    and "isSystemReminderText reminder" "im_Role msg = RoleUser" "im_Content msg \<noteq> []" "im_ToolCalls msg = []" "im_ToolCallID msg = []"
    and "js_marshal_texts J [\<lparr>tx_Type = ''tool_result'', tx_Text = []\<rparr>] = Some rest"
    and "rest \<noteq> []" "rest \<noteq> ''null''" "js_string J rest = None" "js_raws J rest = Some [r]"
    and "js_blocks J rest = Some [\<lparr>cb_Type = ''tool_result'', cb_Text = [], cb_ID = [], cb_ToolUseID = [], cb_Name = [], cb_Input = [],
        cb_Content = [], cb_IsError = False\<rparr>]"
  shows "map_sum id (map (lowerSemanticTurn J)) (parse_messages J [msg]) =
    Inr [\<lparr>msg_Role = RoleUser, msg_Parts = [text_part []], msg_ToolCalls = [], msg_ToolCallID = [], msg_ToolCallType = ''function'',
          msg_ToolResultIsError = False\<rparr>]"
  using assms
  by (simp add: stripLeadingSystemReminderText_def shouldSkipInboundMessage_def parseInboundMessages_def parseInboundContent_def
      block_segments_def blocks_call_id_def hasMultipleToolResultSegments_def is_result_def result_segment_def parseToolResultContent_def
      lowerSemanticTurn_def lower_segment_def lowerToolResultContent_def Let_def)

end
