(* ===== verification/Responses_Codec.thy ===== *)
theory Responses_Codec
  imports Stream_Laws Inbound_Request
begin

text \<open>
  The OpenAI responses codec (\<open>openai_responses_codec.go\<close>): reading the \<open>input\<close> of a request, and writing a response or a
  stream. The decoders of the codec's own types are the argument \<open>R\<close>. The stream's frames are collected in a slice and
  encoded after the last event; the part objects in them are shared with the list of message parts and change with it, so
  a collected frame names its part by its position and \<open>resolve\<close> looks it up at the end.
\<close>

section \<open>Requests\<close>

record openAIResponsesTool =
  ort_Type :: string
  ort_Name :: string
  ort_Description :: string
  ort_Parameters :: raw_json
  ort_Format :: raw_json
  ort_Raw :: raw_json

record openAIResponsesRequest =
  orr_Model :: string
  orr_Input :: raw_json
  orr_Instructions :: string
  orr_Stream :: bool
  orr_PreviousResponseID :: string
  orr_Tools :: "openAIResponsesTool list"

record openAIResponsesInputItem =
  oii_Type :: string
  oii_Role :: string
  oii_Content :: raw_json
  oii_CallID :: string
  oii_Name :: string
  oii_Input :: raw_json
  oii_Output :: raw_json
  oii_Status :: string

record openAIResponsesContentPart =
  ocp_Type :: string
  ocp_Text :: string
  ocp_Value :: raw_json

record responses_lib =
  rl_items :: "raw_json \<Rightarrow> openAIResponsesInputItem list option"
  rl_parts :: "raw_json \<Rightarrow> openAIResponsesContentPart list option"
  rl_marshal_tool :: "openAIResponsesTool \<Rightarrow> raw_json option"

definition parse_responses_tool :: "json_lib \<Rightarrow> responses_lib \<Rightarrow> openAIResponsesTool \<Rightarrow> string + ToolDefinition" where
  "parse_responses_tool J R t0 =
     (let t1 = (if ort_Type t0 = [] then t0\<lparr>ort_Type := ''function''\<rparr> else t0)
      in if ort_Name t1 = [] \<and> (ort_Type t1 = ''function'' \<or> ort_Type t1 = ''custom'') then Inl ''tool name is required''
         else let t = (if ort_Name t1 = [] then t1\<lparr>ort_Name := ort_Type t1\<rparr> else t1)
              in case parse_schema J ''parameters'' (ort_Name t) (ort_Parameters t) of
                   Inl e \<Rightarrow> Inl e
                 | Inr schema \<Rightarrow>
                     Inr \<lparr>td_Type = ort_Type t, td_Name = ort_Name t, td_Description = ort_Description t, td_InputSchema = schema,
                          td_Format = (if ort_Type t = ''custom'' then ort_Format t else []),
                          td_Raw = (if length (ort_Raw t) > 0 then ort_Raw t else case rl_marshal_tool R t of None \<Rightarrow> [] | Some raw \<Rightarrow> raw)\<rparr>)"

fun parseOpenAIResponsesTools :: "json_lib \<Rightarrow> responses_lib \<Rightarrow> openAIResponsesTool list \<Rightarrow> string + ToolDefinition list" where
  "parseOpenAIResponsesTools J R [] = Inr []"
| "parseOpenAIResponsesTools J R (t # ts) =
     (case parse_responses_tool J R t of
        Inl e \<Rightarrow> Inl e
      | Inr d \<Rightarrow> map_sum id (Cons d) (parseOpenAIResponsesTools J R ts))"

fun text_parts_only :: "openAIResponsesContentPart list \<Rightarrow> string + Segment list" where
  "text_parts_only [] = Inr []"
| "text_parts_only (p # ps) =
     (if ocp_Type p \<noteq> ''input_text'' \<and> ocp_Type p \<noteq> ''output_text'' \<and> ocp_Type p \<noteq> ''text''
      then Inl (''unsupported responses content part type '' @ quoted (ocp_Type p))
      else map_sum id (Cons (text_segment (ocp_Text p))) (text_parts_only ps))"

definition parseOpenAIResponsesMessageContent :: "json_lib \<Rightarrow> responses_lib \<Rightarrow> raw_json \<Rightarrow> string + Segment list" where
  "parseOpenAIResponsesMessageContent J R raw =
     (case js_string J raw of
        Some t \<Rightarrow> Inr [text_segment t]
      | None \<Rightarrow>
          (case rl_parts R raw of
             None \<Rightarrow> Inl ''unsupported responses message content''
           | Some parts \<Rightarrow>
               if parts = [] then Inl ''message content must include at least one text part'' else text_parts_only parts))"

definition output_segments :: "json_lib \<Rightarrow> openAIResponsesContentPart \<Rightarrow> Segment list" where
  "output_segments J p =
     (if ocp_Type p = ''output_text'' \<or> ocp_Type p = ''text'' \<or> ocp_Type p = ''input_text'' then [text_segment (ocp_Text p)]
      else if ocp_Type p = ''json'' then [data_segment ''json'' (normalizedJSONOrRaw J (ocp_Value p))]
      else [])"

definition parseOpenAIResponsesFunctionOutput :: "json_lib \<Rightarrow> responses_lib \<Rightarrow> raw_json \<Rightarrow> string + Segment list" where
  "parseOpenAIResponsesFunctionOutput J R raw =
     (if length raw = 0 then Inr []
      else case js_string J raw of
             Some t \<Rightarrow> Inr [text_segment t]
           | None \<Rightarrow>
               (case rl_parts R raw of
                  None \<Rightarrow> Inl ''unsupported function_call_output.output''
                | Some parts \<Rightarrow>
                    (let segments = concat (map (output_segments J) parts)
                     in if segments = [] then Inl ''function_call_output.output must include at least one supported part''
                        else Inr segments)))"

definition item_turn :: "json_lib \<Rightarrow> responses_lib \<Rightarrow> openAIResponsesInputItem \<Rightarrow> string + Turn" where
  "item_turn J R item =
     (if oii_Type item = ''message''
      then map_sum id (\<lambda>segments. \<lparr>turn_Role = (if oii_Role item = [] then RoleUser else oii_Role item), turn_Segments = segments\<rparr>)
             (parseOpenAIResponsesMessageContent J R (oii_Content item))
      else if oii_Type item = ''function_call''
      then Inr \<lparr>turn_Role = RoleAssistant, turn_Segments = [call_segment \<lparr>stc_ID = oii_CallID item, stc_Type = ''function'', stc_Name = oii_Name item,
                 stc_Arguments = normalizedJSONOrRaw J (oii_Input item), stc_Input = []\<rparr>]\<rparr>
      else if oii_Type item = ''custom_tool_call''
      then (case js_string J (oii_Input item) of
              None \<Rightarrow> Inl ''custom_tool_call.input must be string''
            | Some input \<Rightarrow>
                Inr \<lparr>turn_Role = RoleAssistant, turn_Segments = [call_segment \<lparr>stc_ID = oii_CallID item, stc_Type = ''custom'', stc_Name = oii_Name item,
                       stc_Arguments = [], stc_Input = input\<rparr>]\<rparr>)
      else if oii_Type item = ''function_call_output'' \<or> oii_Type item = ''custom_tool_call_output''
      then (case parseOpenAIResponsesFunctionOutput J R (oii_Output item) of
              Inl e \<Rightarrow> Inl e
            | Inr content \<Rightarrow>
                if oii_CallID item = [] then Inl ''function_call_output.call_id is required''
                else Inr \<lparr>turn_Role = RoleTool, turn_Segments = [result_segment (ToolResult (oii_CallID item)
                       (if oii_Type item = ''custom_tool_call_output'' then ''custom'' else ''function'') content (oii_Status item = ''error''))]\<rparr>)
      else Inl (''unsupported responses input item type '' @ quoted (oii_Type item)))"

fun item_turns :: "json_lib \<Rightarrow> responses_lib \<Rightarrow> openAIResponsesInputItem list \<Rightarrow> string + Turn list" where
  "item_turns J R [] = Inr []"
| "item_turns J R (item # items) =
     (case item_turn J R item of Inl e \<Rightarrow> Inl e | Inr t \<Rightarrow> map_sum id (Cons t) (item_turns J R items))"

definition parseOpenAIResponsesInput :: "json_lib \<Rightarrow> responses_lib \<Rightarrow> raw_json \<Rightarrow> string + Turn list" where
  "parseOpenAIResponsesInput J R raw =
     (case js_string J raw of
        Some t \<Rightarrow> Inr [\<lparr>turn_Role = RoleUser, turn_Segments = [text_segment t]\<rparr>]
      | None \<Rightarrow>
          (case rl_items R raw of
             None \<Rightarrow> Inl ''unsupported responses input''
           | Some items \<Rightarrow> if items = [] then Inl ''input is required'' else item_turns J R items))"

definition buildSemanticRequestFromResponses :: "json_lib \<Rightarrow> responses_lib \<Rightarrow> openAIResponsesRequest \<Rightarrow> string + semantic_Request" where
  "buildSemanticRequestFromResponses J R req =
     (case parseOpenAIResponsesInput J R (orr_Input req) of
        Inl e \<Rightarrow> Inl e
      | Inr turns \<Rightarrow>
          (case parseOpenAIResponsesTools J R (orr_Tools req) of
             Inl e \<Rightarrow> Inl e
           | Inr tools \<Rightarrow>
               Inr \<lparr>sr_Model = orr_Model req,
                    sr_Instructions = (if orr_Instructions req \<noteq> [] then [text_segment (orr_Instructions req)] else []),
                    sr_Turns = turns, sr_Tools = tools,
                    sr_Options = \<lparr>go_MaxTokens = 0, go_Stream = orr_Stream req, go_PreviousResponseID = orr_PreviousResponseID req,
                      go_Metadata = [], go_ThinkingType = [], go_ContextManagement = [], go_OutputEffort = [], go_ToolChoice = []\<rparr>\<rparr>))"

definition buildRuntimeRequestFromResponses :: "json_lib \<Rightarrow> responses_lib \<Rightarrow> openAIResponsesRequest \<Rightarrow> string + Request" where
  "buildRuntimeRequestFromResponses J R req = map_sum id (lowerSemanticRequest J) (buildSemanticRequestFromResponses J R req)"

section \<open>Responses\<close>

definition responses_usage :: "Usage \<Rightarrow> any" where
  "responses_usage u =
     JObj [(''input_tokens'', JInt (us_InputTokens u)), (''output_tokens'', JInt (us_OutputTokens u)), (''total_tokens'', JInt (us_TotalTokens u))]"

definition responses_part :: "unmarshal_any \<Rightarrow> ContentPart \<Rightarrow> any list" where
  "responses_part unmarshal p =
     (if cp_Type p = ContentPartTypeText then [JObj [(''type'', JStr ''output_text''), (''text'', JStr (cp_Text p))]]
      else if cp_Type p = ContentPartTypeJSON then [JObj [(''type'', JStr ''json''), (''value'', value_or_text unmarshal (cp_Data p))]]
      else [])"

definition responses_call :: "unmarshal_any \<Rightarrow> ToolCall \<Rightarrow> any" where
  "responses_call unmarshal c =
     (if tc_Type c = ''custom''
      then JObj [(''type'', JStr ''custom_tool_call''), (''call_id'', JStr (tc_ID c)), (''name'', JStr (tc_Name c)), (''input'', JStr (tc_Input c))]
      else JObj [(''type'', JStr ''function_call''), (''call_id'', JStr (tc_ID c)), (''name'', JStr (tc_Name c)),
                 (''input'', value_or_object unmarshal (tc_Arguments c))])"

definition buildOpenAIResponsesOutput :: "unmarshal_any \<Rightarrow> Response \<Rightarrow> any list" where
  "buildOpenAIResponsesOutput unmarshal resp =
     (let role = JStr (msg_Role (resp_Message resp));
          content = concat (map (responses_part unmarshal) (msg_Parts (resp_Message resp)));
          output = (if content \<noteq> [] then [JObj [(''type'', JStr ''message''), (''role'', role), (''content'', JArr content)]] else []) @
                   map (responses_call unmarshal) (msg_ToolCalls (resp_Message resp))
      in if output = []
         then [JObj [(''type'', JStr ''message''), (''role'', role),
                     (''content'', JArr [JObj [(''type'', JStr ''output_text''), (''text'', JStr [])]])]]
         else output)"

definition openai_responses_body :: "unmarshal_any \<Rightarrow> Response \<Rightarrow> any" where
  "openai_responses_body unmarshal resp =
     JObj ([(''id'', JStr (resp_ID resp)), (''object'', JStr ''response''), (''model'', JStr (resp_Model resp)),
            (''output'', JArr (buildOpenAIResponsesOutput unmarshal resp))] @
           (case resp_Usage resp of None \<Rightarrow> [] | Some u \<Rightarrow> [(''usage'', responses_usage u)]))"

section \<open>Streams\<close>

record pending_frame =
  pf_event :: string
  pf_payload :: "(string \<times> any) list"
  pf_part :: "nat option"

record responses_state =
  rs_frames :: "pending_frame list"
  rs_responseID :: string
  rs_model :: string
  rs_role :: string
  rs_messageParts :: "any list"
  rs_toolCalls :: "ToolCall list"
  rs_usage :: "Usage option"
  rs_sequence :: int
  rs_currentTextIndex :: "nat option"
  rs_currentText :: string

definition appendFrame :: "string \<Rightarrow> (string \<times> any) list \<Rightarrow> nat option \<Rightarrow> responses_state \<Rightarrow> responses_state" where
  "appendFrame event payload part st =
     st\<lparr>rs_frames := rs_frames st @ [\<lparr>pf_event = event,
          pf_payload = payload @ [(''type'', JStr event), (''sequence_number'', JInt (rs_sequence st))], pf_part = part\<rparr>],
        rs_sequence := rs_sequence st + 1\<rparr>"

definition responseObject :: "responses_state \<Rightarrow> string \<Rightarrow> any list \<Rightarrow> bool \<Rightarrow> any" where
  "responseObject st status output completed =
     JObj [(''id'', JStr (rs_responseID st)), (''object'', JStr ''response''), (''status'', JStr status), (''model'', JStr (rs_model st)),
           (''output'', JArr output), (''parallel_tool_calls'', JBool True), (''previous_response_id'', JNull), (''tools'', JArr []),
           (''metadata'', JObj []), (''usage'', case rs_usage st of None \<Rightarrow> JNull | Some u \<Rightarrow> responses_usage u),
           (''completed_at'', if completed then JInt 0 else JNull)]"

definition messageItemID :: string where
  "messageItemID = ''msg_0''"

definition empty_text_part :: any where
  "empty_text_part = JObj [(''type'', JStr ''output_text''), (''text'', JStr []), (''annotations'', JArr [])]"

definition messageItem :: "responses_state \<Rightarrow> string \<Rightarrow> any" where
  "messageItem st status =
     JObj [(''id'', JStr messageItemID), (''status'', JStr status), (''type'', JStr ''message''), (''role'', JStr (rs_role st)),
           (''content'', JArr (if rs_messageParts st = [] then [empty_text_part] else rs_messageParts st))]"

definition functionCallItem :: "responses_state \<Rightarrow> ToolCall \<Rightarrow> string \<Rightarrow> any" where
  "functionCallItem st c status =
     (let common = [(''id'', JStr (nonEmpty (tc_ID c) (''call_'' @ show_uint (int (length (rs_toolCalls st)))))), (''status'', JStr status)]
      in if tc_Type c = ''custom''
         then JObj (common @ [(''type'', JStr ''custom_tool_call''), (''call_id'', JStr (tc_ID c)), (''name'', JStr (tc_Name c)), (''input'', JStr (tc_Input c))])
         else JObj (common @ [(''type'', JStr ''function_call''), (''call_id'', JStr (tc_ID c)), (''name'', JStr (tc_Name c)),
                              (''arguments'', JStr (tc_Arguments c))]))"

fun set_text :: "string \<Rightarrow> any \<Rightarrow> any" where
  "set_text t (JObj kvs) = JObj (AList.update ''text'' (JStr t) kvs)"
| "set_text t v = v"

definition part_fields :: "nat \<Rightarrow> (string \<times> any) list" where
  "part_fields i = [(''output_index'', JInt 0), (''item_id'', JStr messageItemID), (''content_index'', JInt (int i))]"

definition finalizeTextPart :: "responses_state \<Rightarrow> responses_state" where
  "finalizeTextPart st =
     (case rs_currentTextIndex st of
        None \<Rightarrow> st
      | Some i \<Rightarrow>
          (let st1 = st\<lparr>rs_messageParts := (rs_messageParts st)[i := set_text (rs_currentText st) (rs_messageParts st ! i)]\<rparr>;
               st2 = appendFrame ''response.output_text.done'' (part_fields i @ [(''text'', JStr (rs_currentText st))]) None st1;
               st3 = appendFrame ''response.content_part.done'' (part_fields i) (Some i) st2
           in st3\<lparr>rs_currentTextIndex := None, rs_currentText := []\<rparr>))"

definition responses_json_delta :: "unmarshal_any \<Rightarrow> ContentPart \<Rightarrow> responses_state \<Rightarrow> responses_state" where
  "responses_json_delta unmarshal p st =
     (let st1 = finalizeTextPart st;
          i = length (rs_messageParts st1);
          st2 = st1\<lparr>rs_messageParts := rs_messageParts st1 @ [JObj [(''type'', JStr ''json''), (''value'', value_or_text unmarshal (cp_Data p))]]\<rparr>
      in appendFrame ''response.content_part.done'' (part_fields i) (Some i)
           (appendFrame ''response.content_part.added'' (part_fields i) (Some i) st2))"

definition responses_text_delta :: "ContentPart \<Rightarrow> responses_state \<Rightarrow> responses_state" where
  "responses_text_delta p st =
     (let (i, st1) =
        (case rs_currentTextIndex st of
           Some i \<Rightarrow> (i, st)
         | None \<Rightarrow>
             let i = length (rs_messageParts st)
             in (i, appendFrame ''response.content_part.added'' (part_fields i) (Some i)
                      (st\<lparr>rs_currentTextIndex := Some i, rs_currentText := [], rs_messageParts := rs_messageParts st @ [empty_text_part]\<rparr>)))
      in appendFrame ''response.output_text.delta'' (part_fields i @ [(''delta'', JStr (cp_Text p))]) None
           (st1\<lparr>rs_currentText := rs_currentText st1 @ cp_Text p\<rparr>))"

definition responses_tool_delta :: "int \<Rightarrow> ToolCall \<Rightarrow> responses_state \<Rightarrow> responses_state" where
  "responses_tool_delta toolCallIndex c st =
     (let st0 = finalizeTextPart st;
          st1 = st0\<lparr>rs_toolCalls := rs_toolCalls st0 @ [c]\<rparr>;
          itemID = nonEmpty (tc_ID c) (''call_'' @ show_int toolCallIndex);
          common = [(''id'', JStr itemID), (''status'', JStr ''in_progress'')];
          item = (if tc_Type c = ''custom''
                  then JObj (common @ [(''type'', JStr ''custom_tool_call''), (''call_id'', JStr (tc_ID c)), (''name'', JStr (tc_Name c)), (''input'', JStr (tc_Input c))])
                  else JObj (common @ [(''type'', JStr ''function_call''), (''call_id'', JStr (tc_ID c)), (''name'', JStr (tc_Name c)), (''arguments'', JStr [])]));
          i = (''output_index'', JInt (1 + toolCallIndex));
          st2 = appendFrame ''response.output_item.added'' [i, (''item'', item)] None st1;
          st3 = (if tc_Type c \<noteq> ''custom''
                 then appendFrame ''response.function_call_arguments.done''
                        [i, (''item_id'', JStr itemID), (''name'', JStr (tc_Name c)), (''arguments'', JStr (tc_Arguments c))] None st2
                 else st2)
      in appendFrame ''response.output_item.done'' [i, (''item'', functionCallItem st3 c ''completed'')] None st3)"

definition completed_output :: "responses_state \<Rightarrow> any list" where
  "completed_output st =
     (if rs_messageParts st \<noteq> [] \<or> rs_toolCalls st = [] then [messageItem st ''completed''] else []) @
     map (\<lambda>c. functionCallItem st c ''completed'') (rs_toolCalls st)"

definition responses_observe :: "StreamEvent \<Rightarrow> responses_state \<Rightarrow> responses_state" where
  "responses_observe e st =
     st\<lparr>rs_responseID := (if se_ResponseID e \<noteq> [] then se_ResponseID e else rs_responseID st),
        rs_model := (if se_Model e \<noteq> [] then se_Model e else rs_model st),
        rs_role := (if se_MessageRole e \<noteq> [] then se_MessageRole e else rs_role st)\<rparr>"

definition responses_content :: "unmarshal_any \<Rightarrow> StreamEvent \<Rightarrow> responses_state \<Rightarrow> responses_state" where
  "responses_content unmarshal e st =
     (let st1 = (case se_Delta e of
                   None \<Rightarrow> st
                 | Some p \<Rightarrow> if cp_Type p = ContentPartTypeJSON then responses_json_delta unmarshal p st else responses_text_delta p st)
      in case se_ToolCall e of None \<Rightarrow> st1 | Some c \<Rightarrow> responses_tool_delta (se_ToolCallIndex e) c st1)"

definition responses_step :: "unmarshal_any \<Rightarrow> StreamEvent \<Rightarrow> responses_state \<Rightarrow> responses_state" where
  "responses_step unmarshal e st0 =
     (let st = responses_observe e st0
      in if se_Type e = StreamEventMessageStart
         then appendFrame ''response.output_item.added'' [(''output_index'', JInt 0),
                (''item'', JObj [(''id'', JStr messageItemID), (''status'', JStr ''in_progress''), (''type'', JStr ''message''),
                   (''role'', JStr (rs_role st)), (''content'', JArr [])])] None st
         else if se_Type e = StreamEventContentDelta then responses_content unmarshal e st
         else if se_Type e = StreamEventUsage
         then (case se_Usage e of
                 None \<Rightarrow> st
               | Some u \<Rightarrow> appendFrame ''response.usage'' [(''usage'', responses_usage u)] None (st\<lparr>rs_usage := Some u\<rparr>))
         else if se_Type e = StreamEventMessageEnd
         then (let st1 = finalizeTextPart st; output = completed_output st1;
                   st2 = appendFrame ''response.output_item.done'' [(''output_index'', JInt 0), (''item'', messageItem st1 ''completed'')] None st1
               in appendFrame ''response.completed'' [(''response'', responseObject st2 ''completed'' output True)] None st2)
         else if se_Type e = StreamEventError
         then appendFrame ''error'' [(''message'', JStr (stream_message (se_Err e)))] None st
         else st)"

definition plannedModel :: "ExecutionPlan \<Rightarrow> string" where
  "plannedModel plan = (case pl_Steps plan of [] \<Rightarrow> [] | s # _ \<Rightarrow> es_Model s)"

definition new_responses :: "ExecutionPlan \<Rightarrow> responses_state" where
  "new_responses plan =
     (let st = \<lparr>rs_frames = [], rs_responseID = [], rs_model = plannedModel plan, rs_role = MessageRoleAssistant, rs_messageParts = [],
                rs_toolCalls = [], rs_usage = None, rs_sequence = 1, rs_currentTextIndex = None, rs_currentText = []\<rparr>;
          st1 = appendFrame ''response.created'' [(''response'', responseObject st ''in_progress'' [] False)] None st
      in appendFrame ''response.in_progress'' [(''response'', responseObject st1 ''in_progress'' [] False)] None st1)"

definition resolve :: "any list \<Rightarrow> pending_frame \<Rightarrow> sse_frame" where
  "resolve parts f =
     (pf_event f, JObj (pf_payload f @ (case pf_part f of None \<Rightarrow> [] | Some i \<Rightarrow> [(''part'', parts ! i)])))"

definition openAIResponsesStreamFrames :: "unmarshal_any \<Rightarrow> ExecutionPlan \<Rightarrow> StreamEvent list \<Rightarrow> sse_frame list" where
  "openAIResponsesStreamFrames unmarshal plan events =
     (let st = fold (responses_step unmarshal) events (new_responses plan)
      in map (resolve (rs_messageParts st)) (rs_frames st))"

section \<open>Frame numbers\<close>

definition numbered :: "responses_state \<Rightarrow> bool" where
  "numbered st \<longleftrightarrow>
     map (\<lambda>f. map_of (pf_payload f) ''sequence_number'') (rs_frames st) = map (\<lambda>n. Some (JInt (int n))) [1..<Suc (length (rs_frames st))] \<and>
     rs_sequence st = int (Suc (length (rs_frames st)))"

lemma appendFrame_numbered:
  "numbered st \<Longrightarrow> map_of payload ''sequence_number'' = None \<Longrightarrow> numbered (appendFrame ev payload part st)"
  by (simp add: numbered_def appendFrame_def map_add_def)

lemma numbered_update [simp]:
  "numbered (st\<lparr>rs_messageParts := ps\<rparr>) = numbered st" "numbered (st\<lparr>rs_currentTextIndex := i\<rparr>) = numbered st"
  "numbered (st\<lparr>rs_currentText := t\<rparr>) = numbered st" "numbered (st\<lparr>rs_toolCalls := cs\<rparr>) = numbered st"
  "numbered (st\<lparr>rs_usage := u\<rparr>) = numbered st" "numbered (responses_observe e st) = numbered st"
  by (simp_all add: numbered_def responses_observe_def)

lemma finalizeTextPart_numbered: "numbered st \<Longrightarrow> numbered (finalizeTextPart st)"
  by (simp add: finalizeTextPart_def Let_def appendFrame_numbered part_fields_def split: option.split)

lemma responses_delta_numbered:
  assumes "numbered st"
  shows "numbered (responses_json_delta unmarshal p st)" "numbered (responses_text_delta p st)" "numbered (responses_tool_delta i c st)"
  using assms finalizeTextPart_numbered [OF assms]
  by (simp_all add: responses_json_delta_def responses_text_delta_def responses_tool_delta_def Let_def appendFrame_numbered part_fields_def
      split: option.split)

lemma responses_step_numbered: "numbered st \<Longrightarrow> numbered (responses_step unmarshal e st)"
  by (simp add: responses_step_def responses_content_def Let_def appendFrame_numbered finalizeTextPart_numbered responses_delta_numbered
      split: option.split)

lemma responses_run_numbered: "numbered st \<Longrightarrow> numbered (fold (responses_step unmarshal) es st)"
  by (induction es arbitrary: st) (simp_all add: responses_step_numbered)

lemma new_responses_numbered: "numbered (new_responses plan)"
  unfolding new_responses_def Let_def by (intro appendFrame_numbered) (simp_all add: numbered_def)

text \<open>whatever is streamed to an OpenAI responses client, the frames carry the sequence numbers 1, 2, 3 and so on in the
  order in which they are written, with none missing and none repeated.
\<close>

theorem responses_frames_numbered:
  "map (\<lambda>f. field ''sequence_number'' (snd f)) (openAIResponsesStreamFrames unmarshal plan events) =
     map (\<lambda>n. Some (JInt (int n))) [1..<Suc (length (openAIResponsesStreamFrames unmarshal plan events))]"
proof -
  define st where "st = fold (responses_step unmarshal) events (new_responses plan)"
  have n: "numbered st" unfolding st_def by (intro responses_run_numbered new_responses_numbered)
  have frames: "openAIResponsesStreamFrames unmarshal plan events = map (resolve (rs_messageParts st)) (rs_frames st)"
    by (simp add: openAIResponsesStreamFrames_def st_def Let_def)
  have "field ''sequence_number'' (snd (resolve parts f)) = map_of (pf_payload f) ''sequence_number''" for parts f
    by (auto simp: resolve_def map_add_def split: option.split)
  then show ?thesis using n by (simp add: frames numbered_def comp_def)
qed

section \<open>Repeated tool calls\<close>

definition event_calls :: "StreamEvent \<Rightarrow> ToolCall list" where
  "event_calls e = (if se_Type e = StreamEventContentDelta then (case se_ToolCall e of None \<Rightarrow> [] | Some c \<Rightarrow> [c]) else [])"

lemma finalizeTextPart_calls: "rs_toolCalls (finalizeTextPart st) = rs_toolCalls st"
  by (simp add: finalizeTextPart_def appendFrame_def Let_def split: option.split)

lemma responses_step_calls: "rs_toolCalls (responses_step unmarshal e st) = rs_toolCalls st @ event_calls e"
proof -
  have "rs_toolCalls (responses_json_delta unmarshal p st) = rs_toolCalls st" "rs_toolCalls (responses_text_delta p st) = rs_toolCalls st"
    "rs_toolCalls (responses_tool_delta i c st) = rs_toolCalls st @ [c]" for p i c st
    by (simp_all add: responses_json_delta_def responses_text_delta_def responses_tool_delta_def appendFrame_def finalizeTextPart_calls Let_def
        split: option.split)
  then show ?thesis
    by (simp add: responses_step_def responses_content_def responses_observe_def event_calls_def appendFrame_def finalizeTextPart_calls Let_def
        split: option.split)
qed

lemma responses_run_calls: "rs_toolCalls (fold (responses_step unmarshal) es st) = rs_toolCalls st @ concat (map event_calls es)"
  by (induction es arbitrary: st) (simp_all add: responses_step_calls)

text \<open>
  Every delta of a tool call counts as a call of its own: a call that an OpenAI chat upstream streams in two fragments is
  reported twice to a responses client, first with its incomplete arguments.
\<close>

theorem responses_stream_repeats_calls:
  "map (\<lambda>c. (tc_ID c, tc_Arguments c)) (rs_toolCalls (fold (responses_step unmarshal)
      (decodeOpenAIChatStream fragment_chunk [''data:[1,'', ''data:2]'', ''data:[DONE]''] None sample_stream_request False) (new_responses plan))) =
    [(''c'', ''[1,''), (''c'', ''[1,2]'')]"
proof -
  have "rs_toolCalls (new_responses plan) = []" by (simp add: new_responses_def appendFrame_def Let_def)
  then show ?thesis
    by (simp add: responses_step_calls decodeOpenAIChatStream_def sample_lines fragment_chunk_def call_chunk_def decode_chunk_def decode_choice_def
        decode_start_def decode_content_def decode_call_def decode_usage_def decode_finish_def decode_event_def stream_event_def event_calls_def
        merge_call_def tool_of_def new_decode_def finish_stream_def sample_compact Let_def)
qed

end
