(* ===== verification/Gateway.thy ===== *)
theory Gateway
  imports Dispatch_Laws Config_Laws Sessions_Store Responses_Codec
begin

text \<open>
  The gateway's request path (package \<open>internal/gateway\<close>: \<open>handler.go\<close>, \<open>registry.go\<close>, \<open>codecs.go\<close>, \<open>streaming.go\<close>, the
  \<open>Handle\<close> methods of the three codecs, and \<open>session_ingest.go\<close>): a request is matched to an inbound and a client,
  checked against the client's quota, decoded, planned by the router, dispatched, and answered in the client's protocol.

  The client quota tracker, the event recorder and the latency store that the handler's runtime state points to are
  those of the dispatcher, as the application builds them; they are read through it. What the request meets outside is a
  \<open>gateway_env\<close>: the local time zone, the clocks, the rounding of floats, \<open>encoding/json\<close>, \<open>http.ParseTime\<close>, the order of map ranges, and what
  the goroutine of a stream waits for. A reply is what was written; \<open>None\<close> is a panic. A write that fails is not modelled.
\<close>

section \<open>State\<close>

datatype codec = openAIChatCodec | openAIResponsesCodec | anthropicMessagesCodec

record InboundRegistry =
  ireg_codecs :: "(string \<times> codec) list"

record Handler =
  h_Router :: Router
  h_Dispatcher :: Dispatcher
  h_Inbounds :: "InboundSpec list"
  h_Clients :: "ClientSpec list"
  h_Accounting :: AccountingConfig
  h_accounting :: AccountingConfig
  h_registry :: InboundRegistry
  h_sessionStore :: SessionStore

text \<open>The body is what \<open>io.ReadAll\<close> returns, \<open>None\<close> for an error.\<close>

record http_request =
  rq_Method :: string
  rq_Path :: string
  rq_Header :: "string \<Rightarrow> string"
  rq_Body :: "string option"

text \<open>A JSON object, the chunks of an OpenAI chat stream (closed by \<open>[DONE]\<close>), or the frames of a stream of named events.\<close>

datatype reply_body = JsonBody any | ChunkBody "any list" | FrameBody "sse_frame list"

record http_reply =
  hp_Status :: int
  hp_Header :: "(string \<times> string) list"
  hp_Body :: reply_body

text \<open>\<open>json.Unmarshal\<close> of the request bodies, and of the parts of a request or response.\<close>

record wire_lib =
  wl_json :: json_lib
  wl_responses :: responses_lib
  wl_inbound :: "string \<Rightarrow> inboundRequest option"
  wl_chat :: "string \<Rightarrow> (inboundRequest \<times> openAIChatToolDefinition list) option"
  wl_responses_request :: "string \<Rightarrow> openAIResponsesRequest option"
  wl_any :: unmarshal_any

datatype gw_instant =
    GwStart | GwClientCheck | GwLimited | GwClientRecord | GwPlanStart | GwPlanEnd | GwWriteStart nat | GwWriteEnd nat | GwFinish

record gateway_env =
  ge_local :: location
  ge_now :: "gw_instant \<Rightarrow> gotime"
  ge_clk :: clock
  ge_rnd :: "rat \<Rightarrow> rat"
  ge_wire :: wire_lib
  ge_parseTime :: "string \<Rightarrow> string option"
  ge_range_order :: "(int \<times> int) list \<Rightarrow> (int \<times> int) list"
  ge_inputs :: "open_stream \<Rightarrow> stream_input list"

section \<open>The registry of codecs\<close>

definition NewInboundRegistry :: InboundRegistry where
  "NewInboundRegistry = \<lparr>ireg_codecs = []\<rparr>"

definition registry_Register :: "string \<Rightarrow> codec option \<Rightarrow> InboundRegistry \<Rightarrow> string + InboundRegistry" where
  "registry_Register protocol c r =
     (if protocol = [] then Inl ''inbound protocol is required''
      else case c of
             None \<Rightarrow> Inl (''inbound codec '' @ quoted protocol @ '' is nil'')
           | Some codec \<Rightarrow>
               if map_of (ireg_codecs r) protocol \<noteq> None then Inl (''inbound codec '' @ quoted protocol @ '' already registered'')
               else Inr (r\<lparr>ireg_codecs := AList.update protocol codec (ireg_codecs r)\<rparr>))"

definition registry_Get :: "string \<Rightarrow> InboundRegistry \<Rightarrow> codec option" where
  "registry_Get protocol r = map_of (ireg_codecs r) protocol"

definition registry_Has :: "string \<Rightarrow> InboundRegistry \<Rightarrow> bool" where
  "registry_Has protocol r = (map_of (ireg_codecs r) protocol \<noteq> None)"

definition registry_Protocols :: "InboundRegistry \<Rightarrow> string list" where
  "registry_Protocols r = sort (map fst (ireg_codecs r))"

text \<open>\<open>MustRegister\<close> panics on an error: \<open>None\<close>.\<close>

definition registry_MustRegister :: "string \<Rightarrow> codec option \<Rightarrow> InboundRegistry option \<Rightarrow> InboundRegistry option" where
  "registry_MustRegister protocol c r =
     (case r of None \<Rightarrow> None | Some r0 \<Rightarrow> (case registry_Register protocol c r0 of Inl _ \<Rightarrow> None | Inr r1 \<Rightarrow> Some r1))"

definition newDefaultInboundRegistry :: "InboundRegistry option" where
  "newDefaultInboundRegistry =
     registry_MustRegister ''anthropic_messages'' (Some anthropicMessagesCodec)
       (registry_MustRegister ''openai_responses'' (Some openAIResponsesCodec)
         (registry_MustRegister ''openai_chat'' (Some openAIChatCodec) (Some NewInboundRegistry)))"

section \<open>Replies\<close>

definition json_reply :: "int \<Rightarrow> any \<Rightarrow> http_reply" where
  "json_reply status body = \<lparr>hp_Status = status, hp_Header = [], hp_Body = JsonBody body\<rparr>"

definition writeError :: "int \<Rightarrow> string \<Rightarrow> http_reply" where
  "writeError status message = json_reply status (JObj [(''error'', JStr message)])"

record executionErrorResponse =
  xr_StatusCode :: int
  xr_Message :: string
  xr_Type :: string
  xr_Code :: string
  xr_RequestID :: string
  xr_RetryAfter :: string

definition safeExecutionMetadata :: "string \<Rightarrow> string" where
  "safeExecutionMetadata val =
     (let v = TrimSpace val in if v = [] \<or> length v > 256 \<or> has_line_break v then [] else v)"

definition safeExecutionRetryAfter :: "(string \<Rightarrow> string option) \<Rightarrow> string \<Rightarrow> string" where
  "safeExecutionRetryAfter parseTime val =
     (let v = safeExecutionMetadata val
      in if v = [] then []
         else case ParseUint v of
                Some seconds \<Rightarrow> show_uint seconds
              | None \<Rightarrow> (case parseTime v of Some t \<Rightarrow> t | None \<Rightarrow> []))"

text \<open>Status, message, type and code of an error kind.\<close>

definition error_class :: "go_error \<Rightarrow> int \<times> string \<times> string \<times> string" where
  "error_class err =
     (let kind = NormalizeError (Some err) in
      case kind of
        ErrorKindQuotaExceeded \<Rightarrow> (429, ''upstream quota exceeded'', ''rate_limit_error'', ''rate_limit_exceeded'')
      | ErrorKindRetryable \<Rightarrow> (502, ''upstream temporarily unavailable'', ''api_error'', kind_string kind)
      | ErrorKindTimeout \<Rightarrow> (502, ''upstream temporarily unavailable'', ''api_error'', kind_string kind)
      | ErrorKindUpstreamServerError \<Rightarrow> (502, ''upstream temporarily unavailable'', ''api_error'', kind_string kind)
      | ErrorKindAuthFailed \<Rightarrow> (502, ''upstream authentication failed'', ''authentication_error'', kind_string kind)
      | ErrorKindCapabilityUnsupported \<Rightarrow> (502, Error err, ''invalid_request_error'', kind_string kind)
      | ErrorKindModelUnavailable \<Rightarrow> (404, Error err, ''invalid_request_error'', ''model_not_found'')
      | ErrorKindFatal \<Rightarrow> (502, ''upstream request failed'', ''api_error'', kind_string kind)
      | ErrorKindUnknown \<Rightarrow> (500, ''internal server error'', ''api_error'', ''internal_error''))"

definition gatewayError :: "(string \<Rightarrow> string option) \<Rightarrow> go_error \<Rightarrow> executionErrorResponse" where
  "gatewayError parseTime err =
     (case error_class err of (status, message, typ, code) \<Rightarrow>
        let (requestID, retryAfter) =
              (case AsProviderError err of
                 Some (ProviderError _ _ _ rid retry) \<Rightarrow> (safeExecutionMetadata rid, safeExecutionRetryAfter parseTime retry)
               | _ \<Rightarrow> ([], []))
        in \<lparr>xr_StatusCode = status,
            xr_Message = (if requestID \<noteq> [] then message @ '' (request_id: '' @ requestID @ '')'' else message),
            xr_Type = typ, xr_Code = code, xr_RequestID = requestID, xr_RetryAfter = retryAfter\<rparr>)"

definition error_body :: "string \<Rightarrow> executionErrorResponse \<Rightarrow> any" where
  "error_body protocol x =
     (if protocol = ''anthropic_messages''
      then JObj [(''type'', JStr ''error''), (''error'', JObj [(''type'', JStr (xr_Type x)), (''message'', JStr (xr_Message x))])]
      else if protocol = ''openai_chat'' \<or> protocol = ''openai_responses''
      then JObj [(''error'', JObj [(''message'', JStr (xr_Message x)), (''type'', JStr (xr_Type x)), (''code'', JStr (xr_Code x))])]
      else JObj [(''error'', JStr (xr_Message x))])"

definition writeExecutionError :: "(string \<Rightarrow> string option) \<Rightarrow> string \<Rightarrow> go_error \<Rightarrow> http_reply" where
  "writeExecutionError parseTime protocol err =
     (let x = gatewayError parseTime err;
          ids = (if xr_RequestID x = [] then []
                 else if protocol = ''anthropic_messages'' then [(''request-id'', xr_RequestID x)]
                 else if protocol = ''openai_chat'' \<or> protocol = ''openai_responses'' then [(''x-request-id'', xr_RequestID x)]
                 else []);
          retry = (if xr_RetryAfter x \<noteq> [] then [(''Retry-After'', xr_RetryAfter x)] else [])
      in \<lparr>hp_Status = xr_StatusCode x, hp_Header = ids @ retry, hp_Body = JsonBody (error_body protocol x)\<rparr>)"

definition writeRoutingError :: "(string \<Rightarrow> string option) \<Rightarrow> string \<Rightarrow> go_error \<Rightarrow> http_reply" where
  "writeRoutingError parseTime protocol err =
     (if NormalizeError (Some err) \<noteq> ErrorKindUnknown then writeExecutionError parseTime protocol err else writeError 400 (Error err))"

fun amount_json :: "quota_amount \<Rightarrow> any" where
  "amount_json (IntAmount n) = JInt n"
| "amount_json (TextAmount s) = JStr s"

definition window_json :: "BlockingWindow \<Rightarrow> any" where
  "window_json w =
     JObj [(''window'', JStr (bw_Window w)), (''type'', JStr (bw_Type w)), (''limit'', amount_json (bw_Limit w)),
           (''used'', amount_json (bw_Used w)), (''unit'', JStr (bw_Unit w)), (''retry_after'', JStr (bw_RetryAfter w))]"

definition writeClientQuotaError :: "string \<Rightarrow> string \<Rightarrow> Decision \<Rightarrow> http_reply" where
  "writeClientQuotaError clientName inboundName dec =
     json_reply 429 (JObj [(''error'', JStr ''client quota exceeded''), (''type'', JStr EventClientLimited),
       (''code'', JStr ''client_quota_exceeded''), (''quota_subject'', JStr clientName), (''inbound'', JStr inboundName),
       (''reason'', JStr (qd_Reason dec)), (''retry_after'', JStr (formatRetryAfter (qd_RetryAfter dec))),
       (''blocking_windows'', JArr (map window_json (qd_BlockingWindows dec)))])"

section \<open>Authentication\<close>

definition bearerToken :: "string \<Rightarrow> string" where
  "bearerToken header =
     (if HasPrefix header ''Bearer '' then TrimSpace (TrimPrefix header ''Bearer '') else [])"

text \<open>\<open>config.Config\<close> literals: everything that is not given is zero.\<close>

definition zero_local_file :: AccountingLocalFileConfig where
  "zero_local_file = \<lparr>alf_Dir = [], alf_RotateMaxSizeMB = 0, alf_RetentionDays = 0, alf_SnapshotInterval = [], alf_SnapshotRetentionDays = 0,
     alf_WriteBufferRecords = 0, alf_FlushInterval = [], alf_QueueSize = 0\<rparr>"

definition zero_config :: Config where
  "zero_config =
     \<lparr>cfg_ServerListen = [], cfg_Listeners = [], cfg_Clients = [], cfg_Inbounds = [], cfg_Rules = [], cfg_Outbounds = [],
      cfg_Accounting = \<lparr>ac_Enabled = False, ac_Backend = [], ac_ExposeHTTP = False, ac_AdminToken = [], ac_LocalFile = zero_local_file, ac_Pricing = []\<rparr>,
      cfg_Governance = \<lparr>gov_SnapshotEnabled = False, gov_SnapshotDir = [], gov_SnapshotFlushInterval = [], gov_EventsEnabled = False, gov_EventsMaxEntries = 0\<rparr>,
      cfg_SessionSnapshot = \<lparr>ssc_Enabled = None, ssc_Dir = [], ssc_FlushInterval = []\<rparr>, cfg_OAuthDir = [],
      cfg_Admin = \<lparr>adm_Enabled = False, adm_Token = [], adm_Logs = \<lparr>alog_Enabled = False, alog_Path = [], alog_MaxBytes = 0,
        alog_Rotation = \<lparr>rot_MaxSizeMB = 0, rot_MaxFiles = 0, rot_MaxAgeDays = 0, rot_MaxTotalSizeMB = 0, rot_Compress = None\<rparr>\<rparr>\<rparr>\<rparr>"

definition clients_config :: "ClientSpec list \<Rightarrow> InboundSpec list \<Rightarrow> Config" where
  "clients_config clients inbounds =
     zero_config\<lparr>cfg_Clients := clients, cfg_Inbounds := inbounds\<rparr>"

text \<open>The first inbound of the path that has a client of the token, and that client's binding.\<close>

fun match_inbounds :: "Config \<Rightarrow> string \<Rightarrow> string \<Rightarrow> InboundSpec list \<Rightarrow> (InboundSpec \<times> ResolvedClientBinding) option" where
  "match_inbounds cfg path token [] = None"
| "match_inbounds cfg path token (inbound # inbounds) =
     (if in_Path inbound \<noteq> path then match_inbounds cfg path token inbounds
      else case find (\<lambda>c. cl_Token (rcb_Client c) = token) (ResolveInboundClients cfg inbound) of
             Some c \<Rightarrow> Some (inbound, c)
           | None \<Rightarrow> match_inbounds cfg path token inbounds)"

definition matchInbound :: "http_request \<Rightarrow> Handler \<Rightarrow> (InboundSpec \<times> ResolvedClientBinding) option" where
  "matchInbound r h =
     (let token = bearerToken (rq_Header r ''Authorization'')
      in if token = [] then None else match_inbounds (clients_config (h_Clients h) []) (rq_Path r) token (h_Inbounds h))"

fun match_session_inbounds ::
  "Config \<Rightarrow> string \<Rightarrow> string \<Rightarrow> InboundSpec list \<Rightarrow> (InboundSpec \<times> ResolvedClientBinding) option" where
  "match_session_inbounds cfg name token [] = None"
| "match_session_inbounds cfg name token (inbound # inbounds) =
     (if in_Name inbound \<noteq> name then match_session_inbounds cfg name token inbounds
      else map_option (Pair inbound) (find (\<lambda>c. cl_Token (rcb_Client c) = token) (List.map_filter (ResolveClientBinding cfg) (in_Clients inbound))))"

definition matchSessionClient :: "http_request \<Rightarrow> string \<Rightarrow> Handler \<Rightarrow> (InboundSpec \<times> ResolvedClientBinding) option" where
  "matchSessionClient r inboundName h =
     (let token = bearerToken (rq_Header r ''Authorization'')
      in if token = [] \<or> inboundName = [] then None
         else match_session_inbounds (clients_config (h_Clients h) (h_Inbounds h)) inboundName token (h_Inbounds h))"

definition hasAccountingOverride :: "AccountingConfig \<Rightarrow> bool" where
  "hasAccountingOverride cfg \<longleftrightarrow> ac_Enabled cfg \<or> ac_Backend cfg \<noteq> [] \<or> ac_ExposeHTTP cfg \<or> ac_AdminToken cfg \<noteq> [] \<or>
     ac_LocalFile cfg \<noteq> zero_local_file \<or> ac_Pricing cfg \<noteq> []"

definition runtime_accounting :: "Handler \<Rightarrow> AccountingConfig" where
  "runtime_accounting h = (if hasAccountingOverride (h_accounting h) then h_accounting h else h_Accounting h)"

definition authorizeAccounting :: "http_request \<Rightarrow> Handler \<Rightarrow> bool" where
  "authorizeAccounting r h =
     (let a = runtime_accounting h
      in if \<not> ac_Enabled a \<or> \<not> ac_ExposeHTTP a \<or> ac_AdminToken a = [] then False
         else bearerToken (rq_Header r ''Authorization'') = ac_AdminToken a)"

section \<open>A request's context\<close>

definition request_id :: "location \<Rightarrow> gotime \<Rightarrow> string" where
  "request_id loc t =
     (case local_date loc t of (y, m, d) \<Rightarrow> case local_clock loc t of (hh, mi, s) \<Rightarrow>
        show_fixed 4 y @ show_fixed 2 m @ show_fixed 2 d @ ''-'' @ show_fixed 2 hh @ show_fixed 2 mi @ show_fixed 2 s @ ''.'' @
        show_fixed 9 (nsec_of t))"

text \<open>The session an explicit header names if the client owns it, or the client's latest active one.\<close>

definition context_session :: "string \<Rightarrow> string \<Rightarrow> string \<Rightarrow> SessionStore \<Rightarrow> Session option" where
  "context_session explicit client inbound store =
     (if explicit \<noteq> [] then GetOwned explicit client inbound store else LatestActive client inbound store)"

definition withRequestContext :: "string \<Rightarrow> http_request \<Rightarrow> InboundSpec \<Rightarrow> ResolvedClientBinding \<Rightarrow> SessionStore \<Rightarrow> request_context" where
  "withRequestContext requestID r inbound resolved store =
     (let explicitSessionID = TrimSpace (rq_Header r ''X-Syrogo-Session-ID'');
          agent = TrimSpace (rq_Header r ''X-Syrogo-Agent'');
          session = context_session explicitSessionID (cl_Name (rcb_Client resolved)) (in_Name inbound) store
      in \<lparr>ctx_RequestID = requestID,
          ctx_SessionID = (case session of None \<Rightarrow> [] | Some s \<Rightarrow> ses_ID s),
          ctx_Agent = (case session of
                         Some s \<Rightarrow> if agent = [] \<and> ses_Command s \<noteq> [] then hd (ses_Command s) else agent
                       | None \<Rightarrow> agent)\<rparr>)"

section \<open>Planning and dispatch\<close>

definition on_dispatcher :: "(Dispatcher \<Rightarrow> Dispatcher) \<Rightarrow> Handler \<Rightarrow> Handler" where
  "on_dispatcher f h = h\<lparr>h_Dispatcher := f (h_Dispatcher h)\<rparr>"

definition planRequest ::
  "gateway_env \<Rightarrow> Request \<Rightarrow> InboundSpec \<Rightarrow> ResolvedClientBinding \<Rightarrow> Handler \<Rightarrow> (go_error + ExecutionPlan) \<times> Handler" where
  "planRequest env req inbound client h =
     (case router_Plan \<lparr>rc_Request = req, rc_ClientName = cl_Name (rcb_Client client), rc_InboundName = in_Name inbound,
               rc_InboundProtocol = in_Protocol inbound, rc_ActiveTag = cb_Tag (rcb_Binding client)\<rparr> (h_Router h) of
        (outcome, router) \<Rightarrow>
          let attrs = [(''inbound'', in_Name inbound), (''active_tag'', cb_Tag (rcb_Binding client))];
              h1 = h\<lparr>h_Router := router\<rparr>;
              (attrs', h2) =
                (case outcome of
                   Inr plan \<Rightarrow>
                     (case pl_Steps plan of
                        [] \<Rightarrow> (attrs, h1)
                      | step # _ \<Rightarrow> (attrs @ [(''matched_rule'', pl_MatchedRule plan), (''outbound'', es_OutboundName step)],
                                     on_dispatcher (on_recorder (SetPlan plan)) h1))
                 | Inl _ \<Rightarrow> (attrs, h1))
          in (outcome, on_dispatcher (on_recorder (AddSpan (ge_now env GwPlanEnd) ''route_plan'' (ge_now env GwPlanStart) attrs')) h2))"

definition reply_for :: "codec \<Rightarrow> wire_lib \<Rightarrow> Response \<Rightarrow> http_reply" where
  "reply_for c L resp =
     json_reply 200
       (case c of
          openAIChatCodec \<Rightarrow> openai_chat_body resp
        | openAIResponsesCodec \<Rightarrow> openai_responses_body (wl_any L) resp
        | anthropicMessagesCodec \<Rightarrow> anthropic_message_body (wl_any L) resp)"

definition zero_response :: Response where
  "zero_response = \<lparr>resp_ID = [], resp_Object = [], resp_Model = [], resp_Message = \<lparr>msg_Role = [], msg_Parts = [], msg_ToolCalls = [],
     msg_ToolCallID = [], msg_ToolCallType = [], msg_ToolResultIsError = False\<rparr>, resp_FinishReason = [], resp_Usage = None\<rparr>"

text \<open>\<open>dispatchOrWriteError\<close> and the response of the codec.\<close>

definition dispatch_reply ::
  "gateway_env \<Rightarrow> codec \<Rightarrow> request_context \<Rightarrow> Request \<Rightarrow> ExecutionPlan \<Rightarrow> Handler \<Rightarrow> http_reply option \<times> Handler" where
  "dispatch_reply env c ctx req plan h =
     (case Dispatch (ge_clk env) (ge_rnd env) ctx req plan (h_Dispatcher h) of
        (Panicked, d) \<Rightarrow> (None, h\<lparr>h_Dispatcher := d\<rparr>)
      | (Returned resp (Some err), d) \<Rightarrow>
          (Some (writeExecutionError (ge_parseTime env) (pl_InboundProtocol plan) err),
           h\<lparr>h_Dispatcher := on_recorder (SetErrorKind (kind_string (NormalizeError (Some err)))) d\<rparr>)
      | (Returned (Some resp) None, d) \<Rightarrow> (Some (reply_for c (ge_wire env) resp), h\<lparr>h_Dispatcher := d\<rparr>)
      | (Returned None None, d) \<Rightarrow> (Some (reply_for c (ge_wire env) zero_response), h\<lparr>h_Dispatcher := d\<rparr>))"

definition stream_body :: "gateway_env \<Rightarrow> codec \<Rightarrow> ExecutionPlan \<Rightarrow> StreamEvent list \<Rightarrow> reply_body" where
  "stream_body env c plan events =
     (case c of
        openAIChatCodec \<Rightarrow> ChunkBody (handleOpenAIStreaming_chunks events)
      | openAIResponsesCodec \<Rightarrow> FrameBody (openAIResponsesStreamFrames (wl_any (ge_wire env)) plan events)
      | anthropicMessagesCodec \<Rightarrow>
          FrameBody (anthropicStreamFramesFromEventStream (wl_any (ge_wire env)) (EventStreamFromRuntime (ge_range_order env) events) @
                     [(''done'', JObj [])]))"

definition stream_headers :: "(string \<times> string) list" where
  "stream_headers = [(''Content-Type'', ''text/event-stream''), (''Cache-Control'', ''no-cache''), (''Connection'', ''keep-alive'')]"

text \<open>
  The three streaming handlers; the response writer always supports flushing. Without an error there is a stream; ranging
  over a nil channel would block, which is the last case.
\<close>

definition stream_reply ::
  "gateway_env \<Rightarrow> codec \<Rightarrow> request_context \<Rightarrow> Request \<Rightarrow> ExecutionPlan \<Rightarrow> Handler \<Rightarrow> http_reply option \<times> Handler" where
  "stream_reply env c ctx req plan h =
     (case DispatchStream (ge_clk env) (ge_rnd env) ctx req plan (h_Dispatcher h) of
        (Panicked, d) \<Rightarrow> (None, h\<lparr>h_Dispatcher := d\<rparr>)
      | (Returned opened (Some err), d) \<Rightarrow>
          (Some (writeExecutionError (ge_parseTime env) (pl_InboundProtocol plan) err), h\<lparr>h_Dispatcher := d\<rparr>)
      | (Returned (Some os) None, d) \<Rightarrow>
          (case wrapStream (ge_clk env) (ge_rnd env) ctx plan os (ge_inputs env os) d of
             (ss, d') \<Rightarrow> (Some \<lparr>hp_Status = 200, hp_Header = stream_headers, hp_Body = stream_body env c plan (ss_out ss)\<rparr>,
                          h\<lparr>h_Dispatcher := d'\<rparr>))
      | (Returned None None, d) \<Rightarrow> (None, h\<lparr>h_Dispatcher := d\<rparr>))"

section \<open>The codecs\<close>

text \<open>Unmarshalling, validation and lowering of a body; every error is answered with status 400.\<close>

definition check_inbound :: "inboundRequest \<Rightarrow> string option" where
  "check_inbound req =
     (if ir_Model req = [] then Some ''model is required''
      else if ir_Messages req = [] then Some ''messages is required''
      else None)"

definition decode_body :: "wire_lib \<Rightarrow> codec \<Rightarrow> string \<Rightarrow> string + Request" where
  "decode_body L c body =
     (case c of
        anthropicMessagesCodec \<Rightarrow>
          (case wl_inbound L body of
             None \<Rightarrow> Inl ''invalid json body''
           | Some req \<Rightarrow> (case check_inbound req of Some e \<Rightarrow> Inl e | None \<Rightarrow> buildRuntimeRequest (wl_json L) req))
      | openAIChatCodec \<Rightarrow>
          (case wl_chat L body of
             None \<Rightarrow> Inl ''invalid json body''
           | Some (req, tools) \<Rightarrow>
               (case check_inbound req of
                  Some e \<Rightarrow> Inl e
                | None \<Rightarrow> buildRuntimeRequestFromOpenAIChat (wl_json L) (req\<lparr>ir_Tools := []\<rparr>) tools))
      | openAIResponsesCodec \<Rightarrow>
          (case wl_responses_request L body of
             None \<Rightarrow> Inl ''invalid json body''
           | Some req \<Rightarrow>
               if orr_Model req = [] then Inl ''model is required''
               else if length (orr_Input req) = 0 then Inl ''input is required''
               else buildRuntimeRequestFromResponses (wl_json L) (wl_responses L) req))"

definition codec_Handle ::
  "gateway_env \<Rightarrow> codec \<Rightarrow> http_request \<Rightarrow> request_context \<Rightarrow> InboundSpec \<Rightarrow> ResolvedClientBinding \<Rightarrow> Handler \<Rightarrow>
    http_reply option \<times> Handler" where
  "codec_Handle env c r ctx inbound client h =
     (if rq_Method r \<noteq> ''POST'' then (Some (writeError 405 ''method not allowed''), h)
      else case rq_Body r of
             None \<Rightarrow> (Some (writeError 400 ''invalid json body''), h)
           | Some body \<Rightarrow>
               (case decode_body (ge_wire env) c body of
                  Inl e \<Rightarrow> (Some (writeError 400 e), h)
                | Inr req \<Rightarrow>
                    (case planRequest env req inbound client h of
                       (Inl err, h1) \<Rightarrow> (Some (writeRoutingError (ge_parseTime env) (in_Protocol inbound) err), h1)
                     | (Inr plan, h1) \<Rightarrow>
                         if req_Stream req then stream_reply env c ctx req plan h1
                         else dispatch_reply env c ctx req plan h1)))"

definition handleByCodec ::
  "gateway_env \<Rightarrow> http_request \<Rightarrow> request_context \<Rightarrow> InboundSpec \<Rightarrow> ResolvedClientBinding \<Rightarrow> Handler \<Rightarrow> http_reply option \<times> Handler" where
  "handleByCodec env r ctx inbound client h =
     (case registry_Get (in_Protocol inbound) (h_registry h) of
        None \<Rightarrow> (Some (writeError 404 ''unsupported inbound protocol''), h)
      | Some c \<Rightarrow> codec_Handle env c r ctx inbound client h)"

section \<open>The request handler\<close>

definition beforeClientRequest :: "gotime \<Rightarrow> string \<Rightarrow> Handler \<Rightarrow> Decision \<times> Handler" where
  "beforeClientRequest now clientName h =
     (case d_clientQuotaTracker (h_Dispatcher h) of
        None \<Rightarrow> (quota_allow, h)
      | Some t \<Rightarrow>
          (case BeforeClientRequest now clientName (Some t) of
             (dec, t') \<Rightarrow> (dec, on_dispatcher (\<lambda>d. d\<lparr>d_clientQuotaTracker := t'\<rparr>) h)))"

definition recordClientRequest :: "gotime \<Rightarrow> string \<Rightarrow> Handler \<Rightarrow> Handler" where
  "recordClientRequest now clientName =
     on_dispatcher (\<lambda>d. d\<lparr>d_clientQuotaTracker := RecordClientRequest now clientName (d_clientQuotaTracker d)\<rparr>)"

definition recordClientLimited :: "gotime \<Rightarrow> string \<Rightarrow> string \<Rightarrow> Decision \<Rightarrow> Handler \<Rightarrow> Handler" where
  "recordClientLimited now clientName inboundName dec =
     on_dispatcher (record_quota_event now
       \<lparr>qe_Time = [], qe_Type = EventClientLimited, qe_Client = clientName, qe_Inbound = inboundName, qe_Outbound = [],
        qe_Reason = qd_Reason dec, qe_RetryAfter = formatRetryAfter (qd_RetryAfter dec)\<rparr>)"

text \<open>The number of \<open>Write\<close> calls of a reply, each of which is timed.\<close>

definition reply_writes :: "http_reply \<Rightarrow> nat" where
  "reply_writes p =
     (case hp_Body p of
        JsonBody _ \<Rightarrow> 1
      | ChunkBody cs \<Rightarrow> length cs + 1
      | FrameBody fs \<Rightarrow> (if fs \<noteq> [] \<and> fst (last fs) = ''done'' then 2 * (length fs - 1) + 1 else 2 * length fs))"

definition egress :: "gateway_env \<Rightarrow> nat \<Rightarrow> Dispatcher \<Rightarrow> Dispatcher" where
  "egress env n = fold (\<lambda>i. on_recorder (AddSpan (ge_now env (GwWriteEnd i)) ''egress_write'' (ge_now env (GwWriteStart i)) [])) [0..<n]"

definition start_latency :: "gateway_env \<Rightarrow> http_request \<Rightarrow> Handler \<Rightarrow> Handler" where
  "start_latency env r =
     on_dispatcher (\<lambda>d.
       case latency_Start (ge_now env GwStart) (d_latencyStore d) (request_id (ge_local env) (ge_now env GwStart)) (rq_Method r) (rq_Path r) (ge_now env GwStart) of
         (recorder, store) \<Rightarrow> d\<lparr>d_recorder := Some recorder, d_latencyStore := store\<rparr>)"

text \<open>
  The writes of the reply and the deferred \<open>Finish\<close>. Before a panic nothing is written in the paths modelled; the
  deferred call then runs with the initial status 200. The spans of a stream's writes are added at its end.
\<close>

definition finish_latency :: "gateway_env \<Rightarrow> http_reply option \<Rightarrow> Handler \<Rightarrow> Handler" where
  "finish_latency env reply =
     on_dispatcher (\<lambda>d.
       let d1 = (case reply of None \<Rightarrow> d | Some p \<Rightarrow> egress env (reply_writes p) d);
           status = (case reply of None \<Rightarrow> 200 | Some p \<Rightarrow> hp_Status p)
       in (on_recorder (latency_Finish (ge_now env GwFinish) status (ge_now env GwFinish)) d1)\<lparr>d_recorder := None\<rparr>)"

text \<open>The part of \<open>handleRequest\<close> after the paths of the administration, between start and finish.\<close>

definition serve_request :: "gateway_env \<Rightarrow> http_request \<Rightarrow> Handler \<Rightarrow> http_reply option \<times> Handler" where
  "serve_request env r h =
     (case matchInbound r h of
        None \<Rightarrow> (Some (writeError 401 ''invalid token or inbound''), h)
      | Some (inbound, client) \<Rightarrow>
          (let name = cl_Name (rcb_Client client);
               h1 = on_dispatcher (on_recorder (SetRoute (in_Name inbound) (in_Protocol inbound) name (cb_Tag (rcb_Binding client)))) h;
               ctx = withRequestContext (request_id (ge_local env) (ge_now env GwStart)) r inbound client (h_sessionStore h1)
           in case beforeClientRequest (ge_now env GwClientCheck) name h1 of
                (dec, h2) \<Rightarrow>
                  if \<not> qd_Allowed dec
                  then (Some (writeClientQuotaError name (in_Name inbound) dec), recordClientLimited (ge_now env GwLimited) name (in_Name inbound) dec h2)
                  else handleByCodec env r ctx inbound client (recordClientRequest (ge_now env GwClientRecord) name h2)))"

definition handleInboundRequest :: "gateway_env \<Rightarrow> http_request \<Rightarrow> Handler \<Rightarrow> http_reply option \<times> Handler" where
  "handleInboundRequest env r h =
     (case serve_request env r (start_latency env r h) of (reply, h') \<Rightarrow> (reply, finish_latency env reply h'))"

section \<open>Statistics\<close>

text \<open>The guard of the handlers under \<open>/stats\<close>.\<close>

definition stats_guard :: "http_request \<Rightarrow> Handler \<Rightarrow> http_reply option" where
  "stats_guard r h =
     (if rq_Method r \<noteq> ''GET'' then Some (writeError 405 ''method not allowed'')
      else if \<not> authorizeAccounting r h then Some (writeError 401 ''invalid admin token'')
      else None)"

text \<open>\<open>url.Values\<close>: \<open>Get\<close> is the first value, \<open>Has\<close> whether the key is there.\<close>

type_synonym url_values = "(string \<times> string list) list"

definition values_Get :: "url_values \<Rightarrow> string \<Rightarrow> string" where
  "values_Get vs k = (case map_of vs k of Some (v # _) \<Rightarrow> v | _ \<Rightarrow> [])"

definition values_Has :: "url_values \<Rightarrow> string \<Rightarrow> bool" where
  "values_Has vs k = (map_of vs k \<noteq> None)"

definition parse_usage_date :: "string \<Rightarrow> string \<Rightarrow> string + gotime" where
  "parse_usage_date name v =
     (case parse_date v of
        Some t \<Rightarrow> if format_date t = v then Inr t else Inl (name @ '' must be a valid YYYY-MM-DD UTC date'')
      | None \<Rightarrow> Inl (name @ '' must be a valid YYYY-MM-DD UTC date''))"

definition parseUsageDateRange :: "string \<Rightarrow> string \<Rightarrow> string + gotime \<times> gotime" where
  "parseUsageDateRange startDate endDate =
     (case parse_usage_date ''start_date'' startDate of
        Inl e \<Rightarrow> Inl e
      | Inr start \<Rightarrow>
          (case parse_usage_date ''end_date'' endDate of
             Inl e \<Rightarrow> Inl e
           | Inr fin \<Rightarrow> if start < fin then Inr (start, fin) else Inl ''start_date must be before end_date''))"

text \<open>\<open>now.UTC().Truncate(24*time.Hour)\<close> is the start of the day: the zero time is a midnight.\<close>

definition parseUsageQuery :: "url_values \<Rightarrow> gotime \<Rightarrow> string + AccountingQuery" where
  "parseUsageQuery vs now =
     (let groupBy = TrimSpace (values_Get vs ''group_by'');
          q = \<lparr>aq_GroupBy = (if groupBy = [] then ''key'' else groupBy), aq_Window = TrimSpace (values_Get vs ''window''),
               aq_Bucket = TrimSpace (values_Get vs ''bucket''), aq_StartDate = [], aq_EndDate = [], aq_ClientName = []\<rparr>;
          startDate = TrimSpace (values_Get vs ''start_date''); endDate = TrimSpace (values_Get vs ''end_date'');
          hasLegacy = values_Has vs ''window'' \<or> values_Has vs ''bucket'';
          hasRange = values_Has vs ''start_date'' \<or> values_Has vs ''end_date''
      in if hasLegacy \<and> hasRange then Inl ''start_date/end_date cannot be combined with window/bucket''
         else if hasRange
         then if startDate = [] \<or> endDate = [] then Inl ''start_date and end_date must be provided together''
              else (case parseUsageDateRange startDate endDate of
                      Inl e \<Rightarrow> Inl e
                    | Inr _ \<Rightarrow> Inr (q\<lparr>aq_Window := WindowTotal, aq_StartDate := startDate, aq_EndDate := endDate\<rparr>))
         else if hasLegacy then Inr (if aq_Window q = [] then q\<lparr>aq_Window := WindowTotal\<rparr> else q)
         else let tomorrow = add_days UTC (now - (now - zeroTime) mod (24 * Hour)) 1
              in Inr (q\<lparr>aq_Window := WindowTotal, aq_StartDate := format_date (add_days UTC tomorrow (-7)), aq_EndDate := format_date tomorrow\<rparr>))"

text \<open>The items the statistics handlers encode, or the error they write.\<close>

definition handleUsageStats ::
  "(rat \<Rightarrow> rat) \<Rightarrow> (query_error \<Rightarrow> string) \<Rightarrow> gotime \<Rightarrow> url_values \<Rightarrow> http_request \<Rightarrow> Handler \<Rightarrow> http_reply + StatsItem list" where
  "handleUsageStats rnd errText now vs r h =
     (case stats_guard r h of
        Some p \<Rightarrow> Inl p
      | None \<Rightarrow>
          (case parseUsageQuery vs now of
             Inl e \<Rightarrow> Inl (writeError 400 e)
           | Inr q \<Rightarrow> (case QueryUsageBy rnd q (h_Dispatcher h) of Inl e \<Rightarrow> Inl (writeError 400 (errText e)) | Inr items \<Rightarrow> Inr items)))"

definition handleQuotaStats :: "gotime \<Rightarrow> http_request \<Rightarrow> Handler \<Rightarrow> (http_reply + SnapshotItem list) \<times> Handler" where
  "handleQuotaStats now r h =
     (case stats_guard r h of
        Some p \<Rightarrow> (Inl p, h)
      | None \<Rightarrow> (case QueryQuota now (h_Dispatcher h) of (items, d) \<Rightarrow> (Inr items, h\<lparr>h_Dispatcher := d\<rparr>)))"

definition handleLatencyStats :: "http_request \<Rightarrow> Handler \<Rightarrow> http_reply + Trace list" where
  "handleLatencyStats r h = (case stats_guard r h of Some p \<Rightarrow> Inl p | None \<Rightarrow> Inr (QueryLatency (h_Dispatcher h)))"

definition handleLatencySummaryStats :: "http_request \<Rightarrow> Handler \<Rightarrow> http_reply + Summary" where
  "handleLatencySummaryStats r h = (case stats_guard r h of Some p \<Rightarrow> Inl p | None \<Rightarrow> Inr (QueryLatencySummary (h_Dispatcher h)))"

section \<open>Sessions\<close>

record sessionRegisterRequest =
  srq_SessionID :: string
  srq_ClientName :: string
  srq_InboundName :: string
  srq_Host :: string
  srq_PID :: int
  srq_CWD :: string
  srq_GitBranch :: string
  srq_Command :: "string list"
  srq_Tmux :: TmuxInfo
  srq_StartedAt :: gotime
  srq_HeartbeatCapability :: string

definition new_session :: "sessionRegisterRequest \<Rightarrow> InboundSpec \<Rightarrow> ResolvedClientBinding \<Rightarrow> Session" where
  "new_session req inbound resolved =
     \<lparr>ses_ID = srq_SessionID req, ses_ClientName = cl_Name (rcb_Client resolved), ses_InboundName = in_Name inbound,
      ses_Tag = cb_Tag (rcb_Binding resolved), ses_Host = srq_Host req, ses_PID = srq_PID req, ses_CWD = srq_CWD req,
      ses_GitBranch = srq_GitBranch req, ses_Command = srq_Command req, ses_Tmux = srq_Tmux req, ses_Status = StatusUnknown,
      ses_Mode = [], ses_LastEvent = [], ses_StartedAt = srq_StartedAt req, ses_LastSeenAt = zeroTime,
      ses_HeartbeatCapability = srq_HeartbeatCapability req, ses_LastHeartbeatAt = None, ses_LeaseExpiresAt = None,
      ses_RecoveryPending = False, ses_RecoveredAt = None, ses_StoppedAt = None, ses_ExitCode = None, ses_statusObservedAt = zeroTime\<rparr>"

text \<open>The decoded body is \<open>Inl\<close> and the decoder's error text, or the request; a reply \<open>Inr\<close> is the session.\<close>

definition handleSessionRegister ::
  "gotime \<Rightarrow> http_request \<Rightarrow> string + sessionRegisterRequest \<Rightarrow> Handler \<Rightarrow> (http_reply + Session) \<times> Handler" where
  "handleSessionRegister now r body h =
     (if rq_Method r \<noteq> ''POST'' then (Inl (writeError 405 ''method not allowed''), h)
      else case body of
             Inl e \<Rightarrow> (Inl (writeError 400 (''invalid json: '' @ e)), h)
           | Inr req \<Rightarrow>
               if srq_SessionID req = [] then (Inl (writeError 400 ''session_id is required''), h)
               else if srq_InboundName req = [] then (Inl (writeError 400 ''inbound_name is required''), h)
               else if srq_HeartbeatCapability req \<noteq> [] \<and> srq_HeartbeatCapability req \<noteq> HeartbeatCapabilityV1
               then (Inl (writeError 400 ''unsupported heartbeat_capability''), h)
               else case matchSessionClient r (srq_InboundName req) h of
                      None \<Rightarrow> (Inl (writeError 401 ''invalid client binding''), h)
                    | Some (inbound, resolved) \<Rightarrow>
                        if srq_ClientName req \<noteq> [] \<and> srq_ClientName req \<noteq> cl_Name (rcb_Client resolved)
                        then (Inl (writeError 403 ''client does not match token''), h)
                        else case session_Register now (new_session req inbound resolved) (h_sessionStore h) of
                               (Inl _, st) \<Rightarrow> (Inl (writeError 409 ''session ID belongs to a different owner''), h\<lparr>h_sessionStore := st\<rparr>)
                             | (Inr s, st) \<Rightarrow> (Inr s, h\<lparr>h_sessionStore := st\<rparr>))"

definition handleSessionHookEvent ::
  "gotime \<Rightarrow> http_request \<Rightarrow> string + string \<times> HookEvent \<Rightarrow> Handler \<Rightarrow> (http_reply + Session) \<times> Handler" where
  "handleSessionHookEvent now r body h =
     (if rq_Method r \<noteq> ''POST'' then (Inl (writeError 405 ''method not allowed''), h)
      else case body of
             Inl e \<Rightarrow> (Inl (writeError 400 (''invalid json: '' @ e)), h)
           | Inr (inboundName, event) \<Rightarrow>
               if he_SessionID event = [] \<or> he_EventName event = [] \<or> inboundName = []
               then (Inl (writeError 400 ''session_id, inbound_name, and event_name are required''), h)
               else case matchSessionClient r inboundName h of
                      None \<Rightarrow> (Inl (writeError 401 ''invalid client binding''), h)
                    | Some (inbound, resolved) \<Rightarrow>
                        (case ApplyHookEvent now (cl_Name (rcb_Client resolved)) (in_Name inbound) event (h_sessionStore h) of
                           (None, st) \<Rightarrow> (Inl (writeError 404 ''session not found''), h\<lparr>h_sessionStore := st\<rparr>)
                         | (Some s, st) \<Rightarrow> (Inr s, h\<lparr>h_sessionStore := st\<rparr>)))"

definition handleSessionHeartbeat ::
  "gotime \<Rightarrow> (session_error \<Rightarrow> string) \<Rightarrow> http_request \<Rightarrow> string + string \<times> string \<Rightarrow> Handler \<Rightarrow> (http_reply + Session) \<times> Handler" where
  "handleSessionHeartbeat now errText r body h =
     (if rq_Method r \<noteq> ''POST'' then (Inl (writeError 405 ''method not allowed''), h)
      else case body of
             Inl e \<Rightarrow> (Inl (writeError 400 (''invalid json: '' @ e)), h)
           | Inr (sessionID, inboundName) \<Rightarrow>
               if sessionID = [] \<or> inboundName = [] then (Inl (writeError 400 ''session_id and inbound_name are required''), h)
               else case matchSessionClient r inboundName h of
                      None \<Rightarrow> (Inl (writeError 401 ''invalid client binding''), h)
                    | Some (inbound, resolved) \<Rightarrow>
                        (case Heartbeat now (cl_Name (rcb_Client resolved)) (in_Name inbound) sessionID (h_sessionStore h) of
                           (None, st) \<Rightarrow> (Inl (writeError 404 ''session not found''), h\<lparr>h_sessionStore := st\<rparr>)
                         | (Some (Inl e), st) \<Rightarrow> (Inl (writeError 400 (errText e)), h\<lparr>h_sessionStore := st\<rparr>)
                         | (Some (Inr s), st) \<Rightarrow> (Inr s, h\<lparr>h_sessionStore := st\<rparr>)))"

definition handleSessionStopped ::
  "gotime \<Rightarrow> http_request \<Rightarrow> string + string \<times> string \<times> int \<Rightarrow> Handler \<Rightarrow> (http_reply + Session) \<times> Handler" where
  "handleSessionStopped now r body h =
     (if rq_Method r \<noteq> ''POST'' then (Inl (writeError 405 ''method not allowed''), h)
      else case body of
             Inl e \<Rightarrow> (Inl (writeError 400 (''invalid json: '' @ e)), h)
           | Inr (sessionID, inboundName, exitCode) \<Rightarrow>
               if sessionID = [] \<or> inboundName = [] then (Inl (writeError 400 ''session_id and inbound_name are required''), h)
               else case matchSessionClient r inboundName h of
                      None \<Rightarrow> (Inl (writeError 401 ''invalid client binding''), h)
                    | Some (inbound, resolved) \<Rightarrow>
                        (case MarkStopped now (cl_Name (rcb_Client resolved)) (in_Name inbound) sessionID exitCode (h_sessionStore h) of
                           (None, st) \<Rightarrow> (Inl (writeError 404 ''session not found''), h\<lparr>h_sessionStore := st\<rparr>)
                         | (Some s, st) \<Rightarrow> (Inr s, h\<lparr>h_sessionStore := st\<rparr>)))"

end
