(* ===== verification/Gateway_Laws.thy ===== *)
theory Gateway_Laws
  imports Gateway
begin

text \<open>
  Laws of the gateway's request path: who is served, that every request is answered and counted at most once, what a client over
  its quota gets, and what an upstream can write into the headers of an error reply.
\<close>

lemma digits_value_nonneg: "list_all is_digit s \<Longrightarrow> 0 \<le> digits_value s"
proof (induction s rule: rev_induct)
  case (snoc c s)
  then show ?case by (simp add: digits_value_append is_digit_def)
qed simp

section \<open>Who is served\<close>

lemma ResolveInboundClients_mem:
  assumes "c \<in> set (ResolveInboundClients cfg i)"
  shows "rcb_Binding c \<in> set (in_Clients i) \<and> rcb_Client c \<in> set (cfg_Clients cfg) \<and> cl_Name (rcb_Client c) = cb_Ref (rcb_Binding c)"
proof -
  obtain b where b: "b \<in> set (in_Clients i)" "ResolveClientBinding cfg b = Some c"
    using assms by (auto simp: ResolveInboundClients_def map_filter_def)
  then obtain x where "find (\<lambda>y. cl_Name y = cb_Ref b) (cfg_Clients cfg) = Some x" "c = \<lparr>rcb_Client = x, rcb_Binding = b\<rparr>"
    by (auto simp: ResolveClientBinding_def FindClient_def find_by_def)
  then show ?thesis using b(1) by (auto simp: find_Some_iff)
qed

lemma match_inbounds_sound:
  "match_inbounds cfg path token inbounds = Some (inbound, client) \<Longrightarrow>
     inbound \<in> set inbounds \<and> in_Path inbound = path \<and> rcb_Binding client \<in> set (in_Clients inbound) \<and>
     rcb_Client client \<in> set (cfg_Clients cfg) \<and> cl_Name (rcb_Client client) = cb_Ref (rcb_Binding client) \<and> cl_Token (rcb_Client client) = token"
proof (induction inbounds)
  case (Cons i is')
  show ?case
  proof (cases "in_Path i = path \<and> (\<exists>c. find (\<lambda>c. cl_Token (rcb_Client c) = token) (ResolveInboundClients cfg i) = Some c)")
    case True
    then obtain c where c: "in_Path i = path" "find (\<lambda>c. cl_Token (rcb_Client c) = token) (ResolveInboundClients cfg i) = Some c" by blast
    then have "c \<in> set (ResolveInboundClients cfg i)" "cl_Token (rcb_Client c) = token" by (auto simp: find_Some_iff)
    moreover have "inbound = i" "client = c" using Cons.prems c by simp_all
    ultimately show ?thesis
      using c(1) ResolveInboundClients_mem [of c cfg i] by auto
  next
    case False
    then show ?thesis using Cons by (auto split: if_splits option.splits)
  qed
qed simp

lemma matchInbound_sound:
  assumes "matchInbound r h = Some (inbound, client)"
  shows "inbound \<in> set (h_Inbounds h) \<and> in_Path inbound = rq_Path r \<and> rcb_Binding client \<in> set (in_Clients inbound) \<and>
    rcb_Client client \<in> set (h_Clients h) \<and> cl_Name (rcb_Client client) = cb_Ref (rcb_Binding client) \<and>
    cl_Token (rcb_Client client) = bearerToken (rq_Header r ''Authorization'') \<and> cl_Token (rcb_Client client) \<noteq> []"
  using assms match_inbounds_sound [of "clients_config (h_Clients h) []" "rq_Path r" "bearerToken (rq_Header r ''Authorization'')" "h_Inbounds h"]
  by (auto simp: matchInbound_def clients_config_def Let_def split: if_splits)

text \<open>
  What a request does to the handler besides its own latency record: \<open>handleInboundRequest\<close> starts a latency record for every
  request, served or not, and finishes it when it returns.
\<close>

definition but_latency :: "Handler \<Rightarrow> Handler" where
  "but_latency = on_dispatcher (\<lambda>d. d\<lparr>d_recorder := None, d_latencyStore := None\<rparr>)"

lemma matchInbound_frame [simp]:
  "matchInbound r (on_dispatcher f h) = matchInbound r h" "matchInbound (r\<lparr>rq_Method := m\<rparr>) h = matchInbound r h"
  by (simp_all add: matchInbound_def on_dispatcher_def Let_def)

lemma but_latency_recorder: "but_latency (on_dispatcher (on_recorder f) h) = but_latency h"
  by (simp add: but_latency_def on_dispatcher_def on_recorder_def split: option.split prod.split)

lemma but_latency_store: "but_latency h' = but_latency h \<Longrightarrow> d_store (h_Dispatcher h') = d_store (h_Dispatcher h)"
  by (cases h; cases h'; cases "h_Dispatcher h"; cases "h_Dispatcher h'") (simp add: but_latency_def on_dispatcher_def)

lemma egress_on_recorder: "but_latency (on_dispatcher (egress env n) h) = but_latency h"
proof -
  have "but_latency (on_dispatcher (fold (\<lambda>i. on_recorder (f i)) xs) h) = but_latency h" for f and xs :: "nat list" and h
  proof (induction xs arbitrary: h)
    case Nil
    then show ?case by (simp add: on_dispatcher_def)
  next
    case (Cons x xs)
    have "on_dispatcher (fold (\<lambda>i. on_recorder (f i)) (x # xs)) h =
        on_dispatcher (fold (\<lambda>i. on_recorder (f i)) xs) (on_dispatcher (on_recorder (f x)) h)"
      by (simp add: on_dispatcher_def)
    then show ?case using Cons.IH by (simp only: but_latency_recorder)
  qed
  then show ?thesis by (simp add: egress_def)
qed

lemma latency_only:
  "but_latency (start_latency env r h) = but_latency h" "but_latency (finish_latency env reply h) = but_latency h"
proof -
  show "but_latency (start_latency env r h) = but_latency h"
    by (simp add: but_latency_def start_latency_def on_dispatcher_def split: prod.split)
  define writes where "writes = (case reply of None \<Rightarrow> id | Some p \<Rightarrow> egress env (reply_writes p))"
  define fin where "fin = latency_Finish (ge_now env GwFinish) (case reply of None \<Rightarrow> 200 | Some p \<Rightarrow> hp_Status p) (ge_now env GwFinish)"
  have "finish_latency env reply h =
      on_dispatcher (\<lambda>d. d\<lparr>d_recorder := None\<rparr>) (on_dispatcher (on_recorder fin) (on_dispatcher writes h))"
    by (simp add: finish_latency_def on_dispatcher_def writes_def fin_def split: option.split)
  moreover have "but_latency (on_dispatcher (\<lambda>d. d\<lparr>d_recorder := None\<rparr>) x) = but_latency x" for x
    by (simp add: but_latency_def on_dispatcher_def)
  moreover have "but_latency (on_dispatcher writes h) = but_latency h"
    by (cases reply) (simp_all add: writes_def egress_on_recorder, simp add: on_dispatcher_def)
  ultimately show "but_latency (finish_latency env reply h) = but_latency h" by (simp add: but_latency_recorder)
qed

text \<open>C3: a request that is not refused with 401, or that changes anything of the handler but its latency records, carries a non-empty
  bearer token of a configured client which is bound to an inbound of the request's path. (A refused request, too, leaves a latency record.)
\<close>

theorem only_bound_clients_served:
  assumes "handleInboundRequest env r h = (reply, h')"
    and "reply \<noteq> Some (writeError 401 ''invalid token or inbound'') \<or> but_latency h' \<noteq> but_latency h"
  shows "\<exists>inbound (client :: ResolvedClientBinding). inbound \<in> set (h_Inbounds h) \<and> in_Path inbound = rq_Path r \<and> rcb_Binding client \<in> set (in_Clients inbound) \<and>
    rcb_Client client \<in> set (h_Clients h) \<and> cl_Name (rcb_Client client) = cb_Ref (rcb_Binding client) \<and>
    cl_Token (rcb_Client client) = bearerToken (rq_Header r ''Authorization'') \<and> cl_Token (rcb_Client client) \<noteq> []"
proof (cases "matchInbound r h")
  case None
  then have "matchInbound r (start_latency env r h) = None" by (simp add: start_latency_def)
  then have "reply = Some (writeError 401 ''invalid token or inbound'')" "h' = finish_latency env reply (start_latency env r h)"
    using assms(1) by (auto simp: handleInboundRequest_def serve_request_def)
  then show ?thesis using assms(2) latency_only by simp
next
  case (Some m)
  then have "matchInbound r h = Some (fst m, snd m)" by simp
  from matchInbound_sound [OF this] show ?thesis by blast
qed

section \<open>Every request is answered\<close>

definition handler_ok :: "Handler \<Rightarrow> bool" where
  "handler_ok h \<longleftrightarrow> (\<exists>rules providers outs r0. router_New rules providers outs = Inr r0 \<and> (\<forall>rr \<in> set rules. weights_positive rr) \<and>
     ro_rules (h_Router h) = ro_rules r0 \<and> ro_providers (h_Router h) = ro_providers r0)"

lemma handler_ok_frame:
  "h_Router h' = h_Router h \<Longrightarrow> handler_ok h' = handler_ok h"
  by (simp add: handler_ok_def)

lemma router_Plan_frame:
  "router_Plan ctx r = (outcome, r') \<Longrightarrow> ro_rules r' = ro_rules r \<and> ro_providers r' = ro_providers r"
  by (rule router_plan_cases [of ctx r True]) (auto simp: router_Plan_def dest: plan_order_frame)

lemma router_Plan_client: "router_Plan ctx r = (Inr p, r') \<Longrightarrow> pl_ClientName p = rc_ClientName ctx"
proof -
  have "plan_rules mutate ctx r rules = (Inr p, r') \<Longrightarrow> pl_ClientName p = rc_ClientName ctx" for mutate rules
    by (induction rules) (auto split: if_splits prod.splits)
  then show "router_Plan ctx r = (Inr p, r') \<Longrightarrow> pl_ClientName p = rc_ClientName ctx" by (simp add: router_Plan_def router_plan_def)
qed

lemma on_dispatcher_frame [simp]:
  "h_Router (on_dispatcher f h) = h_Router h" "h_Dispatcher (on_dispatcher f h) = f (h_Dispatcher h)"
  "handler_ok (on_dispatcher f h) = handler_ok h" "handler_ok (h\<lparr>h_Dispatcher := d\<rparr>) = handler_ok h"
  by (simp_all add: on_dispatcher_def handler_ok_def)

lemma planRequest_ok:
  assumes "handler_ok h" "planRequest env req inbound client h = (outcome, h')"
  shows "handler_ok h'" "outcome = Inr plan \<Longrightarrow> plan_ok plan \<and> pl_ClientName plan = cl_Name (rcb_Client client)"
    "d_store (h_Dispatcher h') = d_store (h_Dispatcher h)"
proof -
  let ?ctx = "\<lparr>rc_Request = req, rc_ClientName = cl_Name (rcb_Client client), rc_InboundName = in_Name inbound,
    rc_InboundProtocol = in_Protocol inbound, rc_ActiveTag = cb_Tag (rcb_Binding client)\<rparr>"
  obtain out router where p: "router_Plan ?ctx (h_Router h) = (out, router)" by fastforce
  then have out: "outcome = out" and router: "h_Router h' = router" and store: "d_store (h_Dispatcher h') = d_store (h_Dispatcher h)"
    using assms(2) by (auto simp: planRequest_def Let_def frame_simps split: prod.splits sum.splits list.splits)
  show "handler_ok h'"
    using assms(1) router_Plan_frame [OF p] by (auto simp: handler_ok_def router)
  show "plan_ok plan \<and> pl_ClientName plan = cl_Name (rcb_Client client)" if "outcome = Inr plan"
  proof -
    obtain rules providers outs r0 where "router_New rules providers outs = Inr r0" "\<forall>rr \<in> set rules. weights_positive rr"
      "ro_rules (h_Router h) = ro_rules r0" "ro_providers (h_Router h) = ro_providers r0"
      using assms(1) by (auto simp: handler_ok_def)
    then show ?thesis using p that out router_plan_ok [of rules providers outs r0 "h_Router h" True ?ctx plan router]
        router_Plan_client [of ?ctx "h_Router h" plan router] by (auto simp: router_Plan_def)
  qed
  show "d_store (h_Dispatcher h') = d_store (h_Dispatcher h)" by (rule store)
qed


text \<open>
  What serving does to the usage store: nothing, or one record of the client. Every stream of an environment is consumed to its end
  when no client cancels its request.
\<close>

definition counted :: "(rat \<Rightarrow> rat) \<Rightarrow> string \<Rightarrow> Handler \<Rightarrow> Handler \<Rightarrow> bool" where
  "counted rnd client h h' \<longleftrightarrow> (\<exists>r. recorded_once rnd (h_Dispatcher h) (h_Dispatcher h') r \<and> ur_ClientName r = client)"

definition streams_complete :: "gateway_env \<Rightarrow> bool" where
  "streams_complete env \<longleftrightarrow> (\<forall>os. ge_inputs env os = map Forwarded (os_events os) @ [Closed])"

definition succeeded :: "http_reply option \<Rightarrow> bool" where
  "succeeded reply \<longleftrightarrow> (\<exists>p. reply = Some p \<and> hp_Status p = 200)"

lemma error_status [simp]: "\<not> succeeded (Some (writeRoutingError parseTime protocol err))"
  by (simp add: succeeded_def writeRoutingError_def writeExecutionError_def gatewayError_def error_class_def writeError_def json_reply_def Let_def
      split: ErrorKind.split prod.split)

lemma refused_status [simp]: "succeeded (Some (writeError code msg)) \<longleftrightarrow> code = 200" "\<not> succeeded (Some (writeClientQuotaError c i dec))"
  by (simp_all add: succeeded_def writeError_def json_reply_def writeClientQuotaError_def)

lemma counted_cong: "d_store (h_Dispatcher h1) = d_store (h_Dispatcher h) \<Longrightarrow> counted rnd c h1 h' = counted rnd c h h'"
  by (simp add: counted_def recorded_once_def)

lemma dispatch_reply_counted:
  assumes "plan_ok plan" "dispatch_reply env c ctx req plan h = (reply, h')"
  shows "reply \<noteq> None" "counted (ge_rnd env) (pl_ClientName plan) h h'" "h_Router h' = h_Router h"
proof -
  obtain res d where D: "Dispatch (ge_clk env) (ge_rnd env) ctx req plan (h_Dispatcher h) = (res, d)" by fastforce
  then have np: "res \<noteq> Panicked"
    using dispatch_no_panic [OF assms(1), where clk = "ge_clk env" and rnd = "ge_rnd env" and ctx = ctx and req = req and d = "h_Dispatcher h"] by simp
  then obtain v e where res: "res = Returned v e" by (cases res) auto
  have "reply \<noteq> None \<and> counted (ge_rnd env) (pl_ClientName plan) h h' \<and> h_Router h' = h_Router h"
  proof (cases v)
    case None
    then obtain err r where "e = Some err" "recorded_once (ge_rnd env) (h_Dispatcher h) d r" "ur_ClientName r = pl_ClientName plan"
      using dispatch_failure_record [OF assms(1), of "ge_clk env" "ge_rnd env" ctx req "h_Dispatcher h" e d] D res by auto
    then show ?thesis using assms(2) D res None by (auto simp: dispatch_reply_def counted_def recorded_once_def frame_simps)
  next
    case (Some resp)
    then obtain r where "e = None" "recorded_once (ge_rnd env) (h_Dispatcher h) d r" "ur_ClientName r = pl_ClientName plan"
      using dispatch_success_record [OF assms(1), of "ge_clk env" "ge_rnd env" ctx req "h_Dispatcher h" resp e d] D res by auto
    then show ?thesis using assms(2) D res Some by (auto simp: dispatch_reply_def counted_def)
  qed
  then show "reply \<noteq> None" "counted (ge_rnd env) (pl_ClientName plan) h h'" "h_Router h' = h_Router h" by auto
qed

lemma stream_loop_error:
  assumes "stream_loop clk rnd ctx req plan i steps lastErr d = (Returned None e, d')" "steps \<noteq> [] \<or> lastErr \<noteq> None"
  shows "e \<noteq> None"
  using assms
proof (induction steps arbitrary: i lastErr d)
  case Nil
  then show ?case by (simp add: plan_exhausted_def)
next
  case (Cons step steps)
  have some: "selectPreferredError l (Some x) \<noteq> None" for l x by (simp add: selectPreferredError_def split: option.split)
  obtain a d1 where a: "admit_step (clk i) True plan req step d = (a, d1)" by fastforce
  show ?case
    using Cons.prems Cons.IH some
    by (cases a) (force simp: a attempt_failed_def Let_def split: sum.splits option.splits bool.splits)+
qed

lemma streaming_failure_error:
  assumes "plan_ok plan" "DispatchStream clk rnd ctx req plan d = (Returned None e, d')"
  shows "\<exists>err. e = Some err"
  using stream_loop_error [of clk rnd ctx req plan 0 "pl_Steps plan" None d e d'] assms by (auto simp: DispatchStream_loop plan_ok_def)

definition stream_counted :: "(rat \<Rightarrow> rat) \<Rightarrow> ExecutionPlan \<Rightarrow> Dispatcher \<Rightarrow> stream_state \<times> Dispatcher \<Rightarrow> bool" where
  "stream_counted rnd plan d0 = (\<lambda>(ss, d).
     (d_store d = d_store d0 \<or> (\<exists>r. recorded_once rnd d0 d r \<and> ur_ClientName r = pl_ClientName plan)) \<and>
     (ss_running ss \<and> \<not> ss_recorded ss \<longrightarrow> d_store d = d_store d0))"

lemma stream_step_counted:
  assumes "stream_counted rnd plan d0 s" "ss_running (fst s)"
  shows "stream_counted rnd plan d0 (stream_step clk rnd ctx plan os k x s)"
proof -
  obtain ss d where s: "s = (ss, d)" by fastforce
  have received: "stream_counted rnd plan d0 (receive_event clk rnd ctx plan os k e s)" for e
    using assms by (auto simp: s stream_counted_def receive_event_def Let_def recorded_once_def frame_simps split: option.splits if_splits)
  have stopped: "stream_counted rnd plan d0 (stop_stream s')" if "stream_counted rnd plan d0 s'" for s'
    using that by (auto simp: stream_counted_def stop_stream_def recorded_once_def frame_simps)
  show ?thesis
  proof (cases x)
    case (Forwarded e)
    then show ?thesis using received [of e] by (auto simp: stream_counted_def split: prod.splits)
  next
    case Closed
    let ?d = "on_recorder (SetStreamState ''completed'') d"
    have "\<exists>r. recorded_once rnd ?d (attempt_succeeded clk rnd ctx plan (os_fallbackCount os) (os_step os) (os_requestedModel os)
        (ss_executedModel ss) (ss_usage ss) (os_quotaProbe os) (os_healthProbe os) ?d) r \<and> ur_ClientName r = pl_ClientName plan"
      using attempt_succeeded_once by blast
    then show ?thesis using assms Closed by (auto simp: s stream_counted_def recorded_once_def frame_simps)
  qed (use received stopped assms(1) in simp_all)
qed

lemma wrap_loop_counted:
  "stream_counted rnd plan d0 s \<Longrightarrow> stream_counted rnd plan d0 (wrap_loop clk rnd ctx plan os k xs s)"
  by (induction xs arbitrary: k s) (simp_all add: stream_step_counted)

lemma wrapStream_at_most_once:
  assumes "wrapStream clk rnd ctx plan os xs d = (ss, d')"
  shows "d_store d' = d_store d \<or> (\<exists>r. recorded_once rnd d d' r \<and> ur_ClientName r = pl_ClientName plan)"
proof -
  have "stream_counted rnd plan d (ss, d')"
    unfolding assms [symmetric] wrapStream_def by (rule wrap_loop_counted) (simp add: stream_counted_def)
  then show ?thesis by (simp add: stream_counted_def)
qed

lemma stream_reply_total:
  assumes "plan_ok plan" "stream_reply env c ctx req plan h = (reply, h')"
  shows "reply \<noteq> None" "h_Router h' = h_Router h"
    "d_store (h_Dispatcher h') = d_store (h_Dispatcher h) \<or> counted (ge_rnd env) (pl_ClientName plan) h h'"
    "streams_complete env \<Longrightarrow> counted (ge_rnd env) (pl_ClientName plan) h h'"
proof -
  obtain res d where D: "DispatchStream (ge_clk env) (ge_rnd env) ctx req plan (h_Dispatcher h) = (res, d)" by fastforce
  note rec = stream_dispatch_record [OF assms(1), where clk = "ge_clk env" and rnd = "ge_rnd env" and ctx = ctx and req = req and d = "h_Dispatcher h"]
  then obtain v e where res: "res = Returned v e" using D by (cases res) auto
  have "reply \<noteq> None \<and> h_Router h' = h_Router h \<and> (d_store (h_Dispatcher h') = d_store (h_Dispatcher h) \<or> counted (ge_rnd env) (pl_ClientName plan) h h') \<and>
      (streams_complete env \<longrightarrow> counted (ge_rnd env) (pl_ClientName plan) h h')"
  proof (cases v)
    case None
    then obtain r where r: "recorded_once (ge_rnd env) (h_Dispatcher h) d r" "ur_ClientName r = pl_ClientName plan"
      using rec D res by auto
    obtain err where "e = Some err"
      using streaming_failure_error [OF assms(1) D [unfolded res None]] by blast
    then show ?thesis using assms(2) D res None r by (auto simp: stream_reply_def counted_def)
  next
    case (Some os)
    then have e: "e = None" "d_store d = d_store (h_Dispatcher h)" using rec D res by auto
    obtain ss d' where w: "wrapStream (ge_clk env) (ge_rnd env) ctx plan os (ge_inputs env os) d = (ss, d')" by fastforce
    then have h': "h' = h\<lparr>h_Dispatcher := d'\<rparr>" "reply \<noteq> None" using assms(2) D res Some e by (auto simp: stream_reply_def)
    have "\<exists>r. recorded_once (ge_rnd env) d d' r \<and> ur_ClientName r = pl_ClientName plan" if "streams_complete env"
      using stream_record [of "ge_clk env" "ge_rnd env" ctx plan os "os_events os" d ss d'] w that by (auto simp: streams_complete_def)
    moreover have "d_store d' = d_store d \<or> (\<exists>r. recorded_once (ge_rnd env) d d' r \<and> ur_ClientName r = pl_ClientName plan)"
      using wrapStream_at_most_once [OF w] .
    ultimately show ?thesis using h' e(2) by (auto simp: counted_def recorded_once_def)
  qed
  then show "reply \<noteq> None" "h_Router h' = h_Router h"
    "d_store (h_Dispatcher h') = d_store (h_Dispatcher h) \<or> counted (ge_rnd env) (pl_ClientName plan) h h'"
    "streams_complete env \<Longrightarrow> counted (ge_rnd env) (pl_ClientName plan) h h'" by auto
qed


text \<open>The contract of a handler step: it replies, keeps the router, and stores nothing or one record of the client; one record if the
  answer is a success and its stream was not cancelled.\<close>

definition serves :: "gateway_env \<Rightarrow> string \<Rightarrow> Handler \<Rightarrow> http_reply option \<times> Handler \<Rightarrow> bool" where
  "serves env client h r \<longleftrightarrow> fst r \<noteq> None \<and> handler_ok (snd r) \<and>
     (d_store (h_Dispatcher (snd r)) = d_store (h_Dispatcher h) \<or> counted (ge_rnd env) client h (snd r)) \<and>
     (streams_complete env \<and> succeeded (fst r) \<longrightarrow> counted (ge_rnd env) client h (snd r))"

lemma serves_cong: "d_store (h_Dispatcher h1) = d_store (h_Dispatcher h) \<Longrightarrow> serves env c h1 r = serves env c h r"
  by (simp add: serves_def counted_def recorded_once_def)

lemma codec_Handle_serves:
  assumes "handler_ok h"
  shows "serves env (cl_Name (rcb_Client client)) h (codec_Handle env c r ctx inbound client h)"
proof (cases "rq_Method r = ''POST'' \<and> (\<exists>body req. rq_Body r = Some body \<and> decode_body (ge_wire env) c body = Inr req)")
  case False
  then show ?thesis using assms by (auto simp: codec_Handle_def serves_def split: option.split sum.split)
next
  case True
  then obtain body req where b: "rq_Method r = ''POST''" "rq_Body r = Some body" "decode_body (ge_wire env) c body = Inr req" by blast
  obtain outcome h1 where p: "planRequest env req inbound client h = (outcome, h1)" by fastforce
  note ok = planRequest_ok [OF assms p]
  show ?thesis
  proof (cases outcome)
    case (Inl err)
    then show ?thesis using ok by (simp add: codec_Handle_def b p serves_def)
  next
    case (Inr plan)
    then have plan: "plan_ok plan" "pl_ClientName plan = cl_Name (rcb_Client client)" using ok(2) by auto
    let ?r = "if req_Stream req then stream_reply env c ctx req plan h1 else dispatch_reply env c ctx req plan h1"
    have "serves env (cl_Name (rcb_Client client)) h1 ?r"
      using stream_reply_total [OF plan(1), of env c ctx req h1 "fst ?r" "snd ?r"]
        dispatch_reply_counted [OF plan(1), of env c ctx req h1 "fst ?r" "snd ?r"] ok(1) handler_ok_frame [of "snd ?r" h1]
      by (cases "req_Stream req") (simp_all add: serves_def plan(2))
    then show ?thesis using serves_cong [OF ok(3)] by (simp add: codec_Handle_def b p Inr)
  qed
qed

lemma serve_request_serves:
  assumes "handler_ok h"
  shows "fst (serve_request env r h) \<noteq> None \<and> handler_ok (snd (serve_request env r h)) \<and>
    (case matchInbound r h of None \<Rightarrow> snd (serve_request env r h) = h
     | Some (inbound, client) \<Rightarrow> serves env (cl_Name (rcb_Client client)) h (serve_request env r h))"
proof (cases "matchInbound r h")
  case None
  then show ?thesis using assms by (simp add: serve_request_def)
next
  case (Some m)
  obtain inbound client where m: "matchInbound r h = Some (inbound, client)" using Some by (cases m) simp
  let ?name = "cl_Name (rcb_Client client)"
  define h1 where "h1 = on_dispatcher (on_recorder (SetRoute (in_Name inbound) (in_Protocol inbound) ?name (cb_Tag (rcb_Binding client)))) h"
  obtain dec h2 where b: "beforeClientRequest (ge_now env GwClientCheck) ?name h1 = (dec, h2)" by fastforce
  have h2: "handler_ok h2" "d_store (h_Dispatcher h2) = d_store (h_Dispatcher h)"
    using b assms by (auto simp: beforeClientRequest_def h1_def frame_simps split: option.splits prod.splits)
  let ?h3 = "recordClientRequest (ge_now env GwClientRecord) ?name h2"
  have h3: "handler_ok ?h3" "d_store (h_Dispatcher ?h3) = d_store (h_Dispatcher h)"
    using h2 by (simp_all add: recordClientRequest_def)
  have "serves env ?name h (serve_request env r h)"
  proof (cases "qd_Allowed dec")
    case True
    then have "serve_request env r h = handleByCodec env r (withRequestContext (request_id (ge_local env) (ge_now env GwStart)) r inbound client (h_sessionStore h1)) inbound client ?h3"
      using m b by (simp add: serve_request_def Let_def h1_def)
    then show ?thesis
      using serves_cong [OF h3(2)] codec_Handle_serves [OF h3(1)] h3
      by (auto simp: handleByCodec_def serves_def split: option.split)
  next
    case False
    then show ?thesis using m b h2 by (simp add: serve_request_def Let_def h1_def serves_def recordClientLimited_def frame_simps)
  qed
  then show ?thesis using m by (simp add: serves_def)
qed

lemma handleInboundRequest_ok:
  assumes "handler_ok h"
  shows "fst (handleInboundRequest env r h) \<noteq> None" "handler_ok (snd (handleInboundRequest env r h))"
proof -
  have "handler_ok (start_latency env r h)" using assms by (simp add: start_latency_def)
  from serve_request_serves [OF this, of env r]
  show "fst (handleInboundRequest env r h) \<noteq> None" "handler_ok (snd (handleInboundRequest env r h))"
    by (auto simp: handleInboundRequest_def finish_latency_def case_prod_beta)
qed

interpretation gateway: invariant_machine "\<lambda>(env, r). snd \<circ> handleInboundRequest env r" handler_ok
  by unfold_locales (auto simp: handleInboundRequest_ok)

fun serve_all :: "(gateway_env \<times> http_request) list \<Rightarrow> Handler \<Rightarrow> http_reply option list" where
  "serve_all [] h = []"
| "serve_all ((env, r) # rs) h = (case handleInboundRequest env r h of (reply, h') \<Rightarrow> reply # serve_all rs h')"

lemma serve_all_replies: "handler_ok h \<Longrightarrow> None \<notin> set (serve_all rs h)"
proof (induction rs arbitrary: h)
  case (Cons x rs)
  obtain env r where x: "x = (env, r)" by fastforce
  obtain reply h' where e: "handleInboundRequest env r h = (reply, h')" by fastforce
  then have "None \<noteq> reply" "handler_ok h'" using handleInboundRequest_ok [OF Cons.prems, of env r] by auto
  then show ?case using Cons.IH [of h'] by (simp add: x e)
qed simp

lemma validated_handler_ok:
  assumes "Validate rnd loc timeError parseURL cfg = (None, cfg')"
    and "router_New (cfg_Rules cfg') providers (cfg_Outbounds cfg') = Inr (h_Router h)"
  shows "handler_ok h"
  unfolding handler_ok_def
  using Validate_routes [OF assms(1)] assms(2)
  by (intro exI [of _ "cfg_Rules cfg'"] exI [of _ providers] exI [of _ "cfg_Outbounds cfg'"] exI [of _ "h_Router h"]) simp


section \<open>Properties\<close>

text \<open>C1: A gateway started from a validated configuration answers every request of any sequence (to paths other than those of
  the statistics and the administration, which have their own handlers): whatever the requests carry, and
  whatever the clocks, the upstream streams and the decoders of their bodies do, no handler panics.\<close>

theorem gateway_always_replies:
  assumes "Validate rnd loc timeError parseURL cfg = (None, cfg')"
    and "router_New (cfg_Rules cfg') providers (cfg_Outbounds cfg') = Inr (h_Router h)"
  shows "None \<notin> set (serve_all requests h)"
  by (rule serve_all_replies [OF validated_handler_ok [OF assms]])

text \<open>C2: After any requests served by a gateway of a validated configuration, one more request adds nothing to the usage store or exactly one
  record, which is of the client whose token the request carries, whether its stream runs to the end, fails or is cancelled; a request that no
  client is bound to adds nothing. A request that is answered with status 200 adds nothing only when a stream was cancelled.\<close>

theorem request_counted_once:
  assumes "Validate rnd loc timeError parseURL cfg = (None, cfg')"
    and "router_New (cfg_Rules cfg') providers (cfg_Outbounds cfg') = Inr (h_Router h0)"
    and "h = fold (\<lambda>(env, r) h. snd (handleInboundRequest env r h)) earlier h0"
    and "handleInboundRequest env r h = (reply, h')"
  shows "d_store (h_Dispatcher h') = d_store (h_Dispatcher h) \<and> (succeeded reply \<longrightarrow> \<not> streams_complete env) \<or>
    (\<exists>inbound (client :: ResolvedClientBinding) usage. matchInbound r h = Some (inbound, client) \<and>
       d_store (h_Dispatcher h') = memory_Record (ge_rnd env) usage (d_store (h_Dispatcher h)) \<and>
       ur_ClientName usage = cl_Name (rcb_Client client))"
proof -
  have "fold (\<lambda>(env, r) h. snd (handleInboundRequest env r h)) earlier h0 = fold (\<lambda>(env, r). snd \<circ> handleInboundRequest env r) earlier h0"
    by (rule arg_cong [of _ _ "\<lambda>f. fold f earlier h0"]) (auto simp: fun_eq_iff)
  then have "handler_ok h"
    using gateway.run_ok [OF validated_handler_ok [OF assms(1,2)]] by (simp add: assms(3))
  then have ok: "handler_ok (start_latency env r h)" by (simp add: start_latency_def)
  have store: "d_store (h_Dispatcher h') = d_store (h_Dispatcher (snd (serve_request env r (start_latency env r h))))"
    "d_store (h_Dispatcher (start_latency env r h)) = d_store (h_Dispatcher h)" "reply = fst (serve_request env r (start_latency env r h))"
    using assms(4) but_latency_store [OF latency_only(2)] but_latency_store [OF latency_only(1)]
    by (auto simp: handleInboundRequest_def split: prod.splits)
  have m: "matchInbound r (start_latency env r h) = matchInbound r h" by (simp add: start_latency_def)
  show ?thesis
  proof (cases "matchInbound r h")
    case None
    then show ?thesis using store m by (auto simp: serve_request_def)
  next
    case (Some mc)
    then show ?thesis
      using serve_request_serves [OF ok, of env r] m store
      by (auto simp: serves_def counted_def recorded_once_def split: prod.splits)
  qed
qed

text \<open>C8: A request over its client's quota is refused with status 429 before any outbound is tried: the router, the usage store and
  the health and quota trackers of the outbounds keep their states.\<close>

theorem limited_client_refused:
  assumes "matchInbound r h = Some (inbound, client)"
    and "d_clientQuotaTracker (h_Dispatcher h) = Some tracker"
    and "\<not> qd_Allowed (fst (BeforeClientRequest (ge_now env GwClientCheck) (cl_Name (rcb_Client client)) (Some tracker)))"
    and "serve_request env r h = (reply, h')"
  shows "(\<exists>dec. reply = Some (writeClientQuotaError (cl_Name (rcb_Client client)) (in_Name inbound) dec)) \<and>
    h_Router h' = h_Router h \<and> d_store (h_Dispatcher h') = d_store (h_Dispatcher h) \<and>
    d_quotaTracker (h_Dispatcher h') = d_quotaTracker (h_Dispatcher h) \<and> d_healthTracker (h_Dispatcher h') = d_healthTracker (h_Dispatcher h)"
  using assms
  by (auto simp: serve_request_def Let_def beforeClientRequest_def recordClientLimited_def on_dispatcher_def frame_simps split: prod.splits)

text \<open>No upstream can split the headers of an error reply: their values have no line break, provided that \<open>http.ParseTime\<close>
  gives times whose HTTP format has none.\<close>

theorem error_headers_safe:
  assumes "\<forall>v t. parseTime v = Some t \<longrightarrow> \<not> has_line_break t"
  shows "list_all (\<lambda>(name, val). \<not> has_line_break val \<and> val \<noteq> []) (hp_Header (writeExecutionError parseTime protocol err))"
proof -
  have safe: "\<not> has_line_break (safeExecutionMetadata v)" for v
    by (simp add: safeExecutionMetadata_def Let_def has_line_break_def)
  have digits: "\<not> has_line_break (show_uint n)" if "0 \<le> n" for n
    using show_uint_digits [OF that] by (auto simp: has_line_break_def list_all_iff is_digit_def digit_value_def)
  have nonneg: "0 \<le> n" if "ParseUint v = Some n" for v n
    using that digits_value_nonneg [of v] by (auto simp: ParseUint_def split: if_splits)
  have "\<not> has_line_break (safeExecutionRetryAfter parseTime v)" for v
  proof -
    have "\<not> has_line_break []" by (simp add: has_line_break_def)
    then show ?thesis using assms digits nonneg
      by (simp add: safeExecutionRetryAfter_def Let_def split: option.split)
  qed
  then show ?thesis using safe
    by (auto simp: writeExecutionError_def gatewayError_def Let_def split: prod.splits option.splits go_error.splits if_splits)
qed


section \<open>Witnesses\<close>

definition sample_wire :: wire_lib where
  "sample_wire = \<lparr>wl_json = sample_json, wl_responses = \<lparr>rl_items = (\<lambda>d. None), rl_parts = (\<lambda>d. None), rl_marshal_tool = (\<lambda>t. None)\<rparr>,
     wl_inbound = (\<lambda>d. Some sample_inbound), wl_chat = (\<lambda>d. Some (sample_inbound, [])), wl_responses_request = (\<lambda>d. None),
     wl_any = (\<lambda>d. None)\<rparr>"

definition sample_env :: gateway_env where
  "sample_env = \<lparr>ge_local = UTC, ge_now = (\<lambda>_. 0), ge_clk = (\<lambda>_ _. 0), ge_rnd = id, ge_wire = sample_wire, ge_parseTime = (\<lambda>v. None),
     ge_range_order = rev, ge_inputs = (\<lambda>os. map Forwarded (os_events os) @ [Closed])\<rparr>"

definition sample_http :: "string \<Rightarrow> http_request" where
  "sample_http token = \<lparr>rq_Method = ''POST'', rq_Path = ''/v1/messages'',
     rq_Header = (\<lambda>name. if name = ''Authorization'' then ''Bearer '' @ token else []), rq_Body = Some ''{}''\<rparr>"

definition sample_handler :: Handler where
  "sample_handler = \<lparr>h_Router = projr (router_New (cfg_Rules sample_config) sample_providers (cfg_Outbounds (window_defaults sample_config))),
     h_Dispatcher = NewDispatcher 0 None None (NewClientTrackerFromClients id (\<lambda>_. None) (cfg_Clients (window_defaults sample_config))) None None None [],
     h_Inbounds = [\<lparr>in_Name = ''in'', in_Protocol = ''anthropic_messages'', in_Path = ''/v1/messages'', in_Clients = [\<lparr>cb_Ref = ''c'', cb_Tag = ''client''\<rparr>]\<rparr>],
     h_Clients = cfg_Clients (window_defaults sample_config),
     h_Accounting = cfg_Accounting sample_config, h_accounting = cfg_Accounting sample_config,
     h_registry = the newDefaultInboundRegistry, h_sessionStore = NewSessionStore\<rparr>"

lemma sample_handler_router:
  "router_New (cfg_Rules (window_defaults sample_config)) sample_providers (cfg_Outbounds (window_defaults sample_config)) = Inr (h_Router sample_handler)"
proof -
  have rules: "cfg_Rules (window_defaults sample_config) = cfg_Rules sample_config" by (simp add: window_defaults_def)
  obtain r0 where "router_New (cfg_Rules sample_config) sample_providers (cfg_Outbounds (window_defaults sample_config)) = Inr r0"
    using router_New_ok [of "cfg_Rules sample_config" sample_providers "cfg_Outbounds (window_defaults sample_config)"]
      Validate_routes [OF sample_config_valid] rules
    by (auto simp: sample_config_defs sample_providers_def)
  then show ?thesis by (simp add: sample_handler_def rules)
qed

lemma sample_match:
  "\<exists>inbound. matchInbound (sample_http ''t'') sample_handler = Some (inbound, \<lparr>rcb_Client = client_defaults sample_client_spec, rcb_Binding = \<lparr>cb_Ref = ''c'', cb_Tag = ''client''\<rparr>\<rparr>)"
  by (simp add: matchInbound_def Let_def sample_http_def sample_handler_def bearerToken_def trim_eval ResolveInboundClients_def map_filter_def
      ResolveClientBinding_def FindClient_def find_by_def clients_config_def sample_config_defs HasPrefix_def TrimPrefix_def)

theorem gateway_always_replies_witness:
  "None \<notin> set (serve_all [(sample_env, sample_http ''t''), (sample_env, sample_http ''x''), (sample_env, sample_http ''t'')] sample_handler)"
  by (rule gateway_always_replies [OF sample_config_valid sample_handler_router])

theorem request_counted_once_witness:
  "let h = snd (handleInboundRequest sample_env (sample_http ''t'') sample_handler); h' = snd (handleInboundRequest sample_env (sample_http ''t'') h)
   in d_store (h_Dispatcher h') = d_store (h_Dispatcher h) \<or> (\<exists>usage. d_store (h_Dispatcher h') = memory_Record id usage (d_store (h_Dispatcher h)))"
proof -
  let ?h = "snd (handleInboundRequest sample_env (sample_http ''t'') sample_handler)"
  have "?h = fold (\<lambda>(env, r) h. snd (handleInboundRequest env r h)) [(sample_env, sample_http ''t'')] sample_handler" by simp
  note counted = request_counted_once [OF sample_config_valid sample_handler_router this]
  have "ge_rnd sample_env = id" by (simp add: sample_env_def)
  then show ?thesis
    using counted [of sample_env "sample_http ''t''", OF prod.collapse [symmetric]] by (auto simp: Let_def)
qed

definition limited_handler :: Handler where
  "limited_handler = on_dispatcher (\<lambda>d. d\<lparr>d_clientQuotaTracker := RecordClientRequest 0 ''c'' (RecordClientRequest 0 ''c''
     (Some (newTrackerFromClients (\<lambda>_. None) [sample_client])))\<rparr>) sample_handler"

theorem limited_client_refused_witness:
  "\<exists>reply. fst (serve_request sample_env (sample_http ''t'') limited_handler) = Some reply \<and> hp_Status reply = 429"
proof -
  let ?t = "RecordClientRequest 0 ''c'' (RecordClientRequest 0 ''c'' (Some (newTrackerFromClients (\<lambda>_. None) [sample_client])))"
  have denied: "\<not> qd_Allowed (fst (BeforeClientRequest 0 ''c'' ?t))" by code_simp
  have name: "cl_Name (client_defaults sample_client_spec) = ''c''" by (simp add: sample_config_defs)
  obtain inbound where m: "matchInbound (sample_http ''t'') limited_handler =
      Some (inbound, \<lparr>rcb_Client = client_defaults sample_client_spec, rcb_Binding = \<lparr>cb_Ref = ''c'', cb_Tag = ''client''\<rparr>\<rparr>)"
    using sample_match by (auto simp: limited_handler_def)
  have "?t \<noteq> None" by code_simp
  then obtain tr where tr: "?t = Some tr" by blast
  show ?thesis
    using limited_client_refused [OF m, of tr sample_env] denied
    by (cases "serve_request sample_env (sample_http ''t'') limited_handler")
      (auto simp: tr name sample_env_def limited_handler_def writeClientQuotaError_def json_reply_def)
qed

lemma fst_finished: "fst (case x of (reply, h) \<Rightarrow> (reply, f reply h)) = fst x"
  by (cases x) simp

theorem only_bound_clients_served_witness:
  "\<exists>inbound (client :: ResolvedClientBinding). inbound \<in> set (h_Inbounds limited_handler) \<and> rcb_Binding client \<in> set (in_Clients inbound) \<and>
    cl_Token (rcb_Client client) = bearerToken (rq_Header (sample_http ''t'') ''Authorization'')"
proof -
  let ?r = "(sample_http ''t'')\<lparr>rq_Method := ''GET''\<rparr>" and ?h = "on_dispatcher (\<lambda>d. d\<lparr>d_clientQuotaTracker := None\<rparr>) limited_handler"
  obtain inbound where "matchInbound (sample_http ''t'') sample_handler =
      Some (inbound, \<lparr>rcb_Client = client_defaults sample_client_spec, rcb_Binding = \<lparr>cb_Ref = ''c'', cb_Tag = ''client''\<rparr>\<rparr>)"
    using sample_match by blast
  then have m: "matchInbound ?r ?h = Some (inbound, \<lparr>rcb_Client = client_defaults sample_client_spec, rcb_Binding = \<lparr>cb_Ref = ''c'', cb_Tag = ''client''\<rparr>\<rparr>)"
    by (simp add: limited_handler_def)
  have m1: "matchInbound ?r (start_latency sample_env ?r ?h) = matchInbound ?r ?h" by (simp add: start_latency_def)
  have "d_clientQuotaTracker (h_Dispatcher (start_latency sample_env ?r ?h)) = None"
    by (simp add: start_latency_def split: prod.split)
  then have "fst (handleInboundRequest sample_env ?r ?h) \<noteq> Some (writeError 401 ''invalid token or inbound'')"
    unfolding handleInboundRequest_def serve_request_def m1 m option.case prod.case Let_def
    by (simp add: beforeClientRequest_def handleByCodec_def codec_Handle_def writeError_def json_reply_def frame_simps
        quota_allow_def fst_finished split: option.split)
  then show ?thesis
    using only_bound_clients_served [of sample_env ?r ?h, OF prod.collapse [symmetric]]
    by (auto simp: on_dispatcher_def)
qed

theorem error_headers_safe_witness:
  "list_all (\<lambda>(name, val). \<not> has_line_break val \<and> val \<noteq> []) (hp_Header (writeExecutionError (\<lambda>v. None) ''openai_chat''
     (ProviderError ErrorKindRetryable None 500 ''req-1'' (CHR ''1'' # CHR 0x0A # ''x: y''))))"
  by (rule error_headers_safe) simp

end
