(* ===== verification/Anthropic_Laws.thy ===== *)
theory Anthropic_Laws
  imports Stream_Laws
begin

text \<open>
  The longest path of a streamed tool call: from the chunks of an OpenAI chat upstream through the runtime's events and
  the block-structured event stream to the frames an Anthropic client reads.
\<close>

section \<open>Tool call arguments of an Anthropic client\<close>

abbreviation starts_at where "starts_at i e \<equiv> ev_Type e = EventTypeContentBlockStart \<and> ev_BlockIndex e = i"
abbreviation stops_at where "stops_at i e \<equiv> ev_Type e = EventTypeContentBlockStop \<and> ev_BlockIndex e = i"

definition block_snapshots :: "int \<Rightarrow> Event \<Rightarrow> string list" where
  "block_snapshots i e =
     (case (ev_Block e, ev_ToolCall e) of
        (Some b, Some c) \<Rightarrow>
          if ev_Type e = EventTypeContentBlockDelta \<and> ev_BlockIndex e = i \<and> blk_Type b = BlockTypeToolUse then [tcs_Arguments c] else []
      | _ \<Rightarrow> [])"

definition frame_arguments :: "int \<Rightarrow> sse_frame \<Rightarrow> string list" where
  "frame_arguments i f =
     (if fst f = ''content_block_delta'' \<and> field ''index'' (snd f) = Some (JInt i)
      then (case Option.bind (field ''delta'' (snd f)) (field ''partial_json'') of None \<Rightarrow> [] | Some a \<Rightarrow> [string_of (Some a)])
      else [])"

text \<open>The events of block \<open>i\<close> between its start and its stop: it is not restarted once a delta was \<open>seen\<close>, and not stopped.\<close>

fun block_run :: "int \<Rightarrow> bool \<Rightarrow> Event list \<Rightarrow> bool" where
  "block_run i seen [] = True"
| "block_run i seen (e # es) =
     (\<not> stops_at i e \<and> (starts_at i e \<longrightarrow> \<not> seen) \<and> block_run i (seen \<or> block_snapshots i e \<noteq> []) es)"

lemma block_run_append:
  "block_run i seen (xs @ ys) \<longleftrightarrow> block_run i seen xs \<and> block_run i (seen \<or> concat (map (block_snapshots i) xs) \<noteq> []) ys"
  by (induction xs arbitrary: seen) (auto simp: disj_assoc)

text \<open>One event: what it adds for block \<open>i\<close>, and the snapshot it leaves.\<close>

lemma anthropic_step_arguments:
  assumes "\<not> stops_at i e" "starts_at i e \<longrightarrow> snapshot_at (fs_snapshots st) i = []"
    and "growing (snapshot_at (fs_snapshots st) i) (block_snapshots i e)"
  shows "concat (concat (map (frame_arguments i) (fst (anthropic_step unmarshal e st)))) =
      concat (arg_diffs (snapshot_at (fs_snapshots st) i) (block_snapshots i e))"
    and "snapshot_at (fs_snapshots (snd (anthropic_step unmarshal e st))) i = last (snapshot_at (fs_snapshots st) i # block_snapshots i e)"
proof -
  have obs: "fs_snapshots (observe_event e st) = fs_snapshots st" for st by (simp add: observe_event_def)
  obtain starts st1 where m: "emitMessageStart (observe_event e st) = (starts, st1)" by fastforce
  then have st1: "fs_snapshots st1 = fs_snapshots st" "concat (map (frame_arguments i) starts) = []"
    by (auto simp: emitMessageStart_def obs frame_arguments_def message_start_frame_def split: if_splits)
  have quiet: "block_snapshots i e = []" if "ev_Type e \<noteq> EventTypeContentBlockDelta"
    using that by (auto simp: block_snapshots_def split: option.split)
  consider (delta) "ev_Type e = EventTypeContentBlockDelta" | (start) "ev_Type e = EventTypeContentBlockStart"
    | (stop) "ev_Type e = EventTypeContentBlockStop"
    | (other) "ev_Type e \<noteq> EventTypeContentBlockDelta" "ev_Type e \<noteq> EventTypeContentBlockStart" "ev_Type e \<noteq> EventTypeContentBlockStop"
    by blast
  then have "concat (concat (map (frame_arguments i) (fst (event_frames unmarshal e st1)))) =
      concat (arg_diffs (snapshot_at (fs_snapshots st) i) (block_snapshots i e)) \<and>
      snapshot_at (fs_snapshots (snd (event_frames unmarshal e st1))) i = last (snapshot_at (fs_snapshots st) i # block_snapshots i e)"
  proof cases
    case delta
    then show ?thesis
      using assms(3) st1(1)
      by (auto simp: event_frames_def block_delta_def block_snapshots_def frame_arguments_def delta_frame_def snapshot_at_def Let_def
          HasPrefix_def TrimPrefix_def split: option.splits if_splits)
  next
    case start
    then show ?thesis
      using assms(2) st1(1) quiet
      by (auto simp: event_frames_def block_start_def frame_arguments_def snapshot_at_def split: option.splits)
  next
    case stop
    then show ?thesis
      using assms(1) st1(1) quiet by (auto simp: event_frames_def frame_arguments_def snapshot_at_def delete_conv')
  next
    case other
    then show ?thesis
      using st1(1) quiet by (auto simp: event_frames_def frame_arguments_def message_delta_frame_def Let_def)
  qed
  then show "concat (concat (map (frame_arguments i) (fst (anthropic_step unmarshal e st)))) =
      concat (arg_diffs (snapshot_at (fs_snapshots st) i) (block_snapshots i e))"
    and "snapshot_at (fs_snapshots (snd (anthropic_step unmarshal e st))) i = last (snapshot_at (fs_snapshots st) i # block_snapshots i e)"
    using st1 quiet by (auto simp: anthropic_step_def m Let_def emitting_types_def case_prod_beta obs)
qed

lemma growing_append: "growing p (xs @ ys) \<longleftrightarrow> growing p xs \<and> growing (last (p # xs)) ys"
  by (induction xs arbitrary: p) auto

lemma anthropic_loop_arguments:
  assumes "block_run i seen es" "\<not> seen \<longrightarrow> snapshot_at (fs_snapshots st) i = []"
    and "growing (snapshot_at (fs_snapshots st) i) (concat (map (block_snapshots i) es))"
  shows "concat (concat (map (frame_arguments i) (anthropic_loop unmarshal es st))) =
    concat (arg_diffs (snapshot_at (fs_snapshots st) i) (concat (map (block_snapshots i) es)))"
  using assms
proof (induction es arbitrary: st seen)
  case (Cons e es)
  let ?p = "snapshot_at (fs_snapshots st) i"
  obtain frames st1 where s: "anthropic_step unmarshal e st = (frames, st1)" by fastforce
  have g: "growing ?p (block_snapshots i e)" "growing (last (?p # block_snapshots i e)) (concat (map (block_snapshots i) es))"
    using Cons.prems(3) by (simp_all add: growing_append)
  have step: "concat (concat (map (frame_arguments i) frames)) = concat (arg_diffs ?p (block_snapshots i e))"
    "snapshot_at (fs_snapshots st1) i = last (?p # block_snapshots i e)"
    using anthropic_step_arguments [OF _ _ g(1), of unmarshal] Cons.prems(1,2) by (auto simp: s)
  have "concat (concat (map (frame_arguments i) (anthropic_loop unmarshal es st1))) =
      concat (arg_diffs (snapshot_at (fs_snapshots st1) i) (concat (map (block_snapshots i) es)))"
    using Cons.prems(1,2) g(2) step(2) by (intro Cons.IH [of "seen \<or> block_snapshots i e \<noteq> []"]) auto
  then show ?case using step by (simp add: s diffs_append)
qed simp


text \<open>
  The runtime's stream without its end: call \<open>k\<close> owns block \<open>i\<close> or may still be given it, and the events of block \<open>i\<close>
  carry the snapshots of call \<open>k\<close>.
\<close>

definition owns :: "int \<Rightarrow> int \<Rightarrow> stream_blocks \<Rightarrow> bool" where
  "owns k i sb \<longleftrightarrow> map_of (sb_toolBlockIndexes sb) k = Some i"

definition awaits :: "int \<Rightarrow> int \<Rightarrow> stream_blocks \<Rightarrow> bool" where
  "awaits k i sb \<longleftrightarrow> owns k i sb \<or> map_of (sb_toolBlockIndexes sb) k = None \<and> sb_nextBlockIndex sb \<le> i"

definition carries :: "int \<Rightarrow> int \<Rightarrow> stream_blocks \<Rightarrow> Event list \<times> stream_blocks \<Rightarrow> string list \<Rightarrow> bool" where
  "carries k i sb r ss \<longleftrightarrow>
     (awaits k i (snd r) \<longrightarrow> awaits k i sb \<and> concat (map (block_snapshots i) (fst r)) = ss \<and> block_run i (owns k i sb) (fst r) \<and>
        owns k i (snd r) = (owns k i sb \<or> ss \<noteq> []))"

lemma carries_Nil: "carries k i sb ([], sb) []"
  by (simp add: carries_def)

lemma carries_trans:
  assumes "carries k i sb (evs1, sb1) ss1" "carries k i sb1 (evs2, sb2) ss2"
  shows "carries k i sb (evs1 @ evs2, sb2) (ss1 @ ss2)"
  using assms by (auto simp: carries_def block_run_append)

lemmas carries_defs = carries_def awaits_def owns_def runtime_event_def base_event_def block_snapshots_def

lemma awaits_not_open:
  assumes "blocks_ok sb" "awaits k i sb" "sb_textBlockIndex sb \<noteq> -1"
  shows "sb_textBlockIndex sb \<noteq> i"
  using assms by (force simp: blocks_ok_def awaits_def owns_def dest: map_of_SomeD)

lemma close_text_carries:
  assumes "blocks_ok sb"
  shows "carries k i sb (close_text e sb) []"
proof (cases "sb_textBlockIndex sb = -1")
  case False
  have "awaits k i sb \<Longrightarrow> sb_textBlockIndex sb \<noteq> i" using awaits_not_open [OF assms _ False] by blast
  then show ?thesis using False by (auto simp: carries_defs close_text_def)
qed (simp add: close_text_def carries_Nil)

lemma json_delta_carries:
  assumes "blocks_ok sb"
  shows "carries k i sb (json_delta e d sb) []"
proof -
  obtain evs1 sb1 where c: "close_text e sb = (evs1, sb1)" by fastforce
  let ?n = "sb_nextBlockIndex sb1" and ?ev = "\<lambda>t. (runtime_event e t)\<lparr>ev_BlockIndex := sb_nextBlockIndex sb1\<rparr>"
  have ok: "blocks_ok sb1" using close_text_tracks [OF assms, of e] c by (simp add: tracks_def)
  have "i \<noteq> ?n" if "awaits k i (sb1\<lparr>sb_nextBlockIndex := ?n + 1\<rparr>)"
    using that ok by (force simp: blocks_ok_def awaits_def owns_def dest: map_of_SomeD)
  then have "carries k i sb1 ([(?ev EventTypeContentBlockStart)\<lparr>ev_Block := Some (json_block d)\<rparr>,
      (?ev EventTypeContentBlockDelta)\<lparr>ev_Block := Some (json_block d)\<rparr>, ?ev EventTypeContentBlockStop], sb1\<lparr>sb_nextBlockIndex := ?n + 1\<rparr>) []"
    by (auto simp: carries_defs)
  then show ?thesis
    using carries_trans [of k i sb evs1 sb1 "[]"] close_text_carries [OF assms, of k i e] by (simp add: json_delta_def c Let_def)
qed

lemma text_delta_carries:
  assumes "blocks_ok sb"
  shows "carries k i sb (text_delta e t sb) []"
proof -
  have "sb_nextBlockIndex sb \<noteq> i" if "awaits k i (sb\<lparr>sb_textBlockIndex := sb_nextBlockIndex sb, sb_nextBlockIndex := sb_nextBlockIndex sb + 1\<rparr>)"
    using that assms by (force simp: blocks_ok_def awaits_def owns_def dest: map_of_SomeD)
  then show ?thesis
    by (auto simp: carries_defs text_delta_def Let_def text_block_def)
qed

lemma distinct_snd: "distinct (map snd xs) \<Longrightarrow> (a, j) \<in> set xs \<Longrightarrow> (b, j) \<in> set xs \<Longrightarrow> a = b"
  by (metis distinct_map inj_onD prod.inject snd_conv)

lemma tool_delta_carries:
  assumes "blocks_ok sb"
  shows "carries k i sb (tool_delta e c sb) (if se_ToolCallIndex e = k then [tc_Arguments c] else [])"
    (is "carries _ _ _ _ ?ss")
proof -
  obtain evs1 sb1 where cl: "close_text e sb = (evs1, sb1)" by fastforce
  have ok: "blocks_ok sb1" using close_text_tracks [OF assms, of e] cl by (simp add: tracks_def)
  have "\<exists>evs2 sb2. tool_delta e c sb = (evs1 @ evs2, sb2) \<and> carries k i sb1 (evs2, sb2) ?ss"
  proof (cases "map_of (sb_toolBlockIndexes sb1) (se_ToolCallIndex e)")
    case None
    let ?n = "sb_nextBlockIndex sb1"
    let ?ev = "\<lambda>t. (runtime_event e t)\<lparr>ev_BlockIndex := ?n\<rparr>"
    let ?sb2 = "sb1\<lparr>sb_nextBlockIndex := ?n + 1, sb_toolBlockIndexes := AList.update (se_ToolCallIndex e) ?n (sb_toolBlockIndexes sb1)\<rparr>"
    have "i \<noteq> ?n" if "awaits k i ?sb2" "se_ToolCallIndex e \<noteq> k"
      using that ok by (force simp: blocks_ok_def awaits_def owns_def dest: map_of_SomeD)
    then have "carries k i sb1 ([(?ev EventTypeContentBlockStart)\<lparr>ev_Block := Some (tool_block (tc_ID c) (tc_Name c) [])\<rparr>,
        (?ev EventTypeContentBlockDelta)\<lparr>ev_Block := Some (tool_block (tc_ID c) (tc_Name c) (tc_Arguments c)),
          ev_ToolCall := Some \<lparr>tcs_ID = tc_ID c, tcs_Name = tc_Name c, tcs_Arguments = tc_Arguments c\<rparr>\<rparr>], ?sb2) ?ss"
      using None by (auto simp: carries_defs tool_block_def split: if_splits)
    then show ?thesis
      using None by (intro exI conjI) (simp_all add: tool_delta_def cl Let_def)
  next
    case (Some j)
    have "i \<noteq> j" if "awaits k i sb1" "se_ToolCallIndex e \<noteq> k"
    proof
      assume "i = j"
      moreover have "(se_ToolCallIndex e, j) \<in> set (sb_toolBlockIndexes sb1)" using Some by (rule map_of_SomeD)
      ultimately show False
        using that ok distinct_snd [of "sb_toolBlockIndexes sb1" "se_ToolCallIndex e" j k]
        by (force simp: blocks_ok_def awaits_def owns_def dest: map_of_SomeD)
    qed
    then have "carries k i sb1 ([((runtime_event e EventTypeContentBlockDelta)\<lparr>ev_BlockIndex := j\<rparr>)
        \<lparr>ev_Block := Some (tool_block (tc_ID c) (tc_Name c) (tc_Arguments c)),
          ev_ToolCall := Some \<lparr>tcs_ID = tc_ID c, tcs_Name = tc_Name c, tcs_Arguments = tc_Arguments c\<rparr>\<rparr>], sb1) ?ss"
      using Some by (auto simp: carries_defs tool_block_def split: if_splits)
    then show ?thesis
      using Some by (intro exI conjI) (simp_all add: tool_delta_def cl Let_def)
  qed
  then show ?thesis
    using carries_trans [of k i sb evs1 sb1 "[]"] close_text_carries [OF assms, of k i e] by (auto simp: cl)
qed


lemma content_delta_carries:
  assumes "blocks_ok sb" "se_Type e = StreamEventContentDelta"
  shows "carries k i sb (content_delta e sb) (event_snapshots k e)"
proof -
  let ?r = "case se_Delta e of None \<Rightarrow> ([], sb)
      | Some p \<Rightarrow> if cp_Type p = ContentPartTypeJSON then json_delta e (cp_Data p) sb else text_delta e (cp_Text p) sb"
  obtain evs1 sb1 where p: "?r = (evs1, sb1)" by fastforce
  have "carries k i sb ?r []" "blocks_ok (snd ?r)"
    using json_delta_carries [OF assms(1)] text_delta_carries [OF assms(1)] carries_Nil
      json_delta_tracks [OF assms(1)] text_delta_tracks [OF assms(1)] assms(1) by (simp_all add: tracks_def split: option.split)
  then have c: "carries k i sb (evs1, sb1) []" and ok: "blocks_ok sb1" by (simp_all only: p snd_conv)
  show ?thesis
  proof (cases "se_ToolCall e")
    case None
    then show ?thesis using c by (simp add: content_delta_def p event_snapshots_def)
  next
    case (Some call)
    obtain evs2 sb2 where t: "tool_delta e call sb1 = (evs2, sb2)" by fastforce
    have "carries k i sb (evs1 @ evs2, sb2) ([] @ event_snapshots k e)"
      using carries_trans [OF c] tool_delta_carries [OF ok, of k i e call] assms(2) by (simp add: t event_snapshots_def Some)
    then show ?thesis by (simp add: content_delta_def p Some t)
  qed
qed

lemma runtime_step_carries:
  assumes "blocks_ok sb" "se_Type e \<noteq> StreamEventMessageEnd"
  shows "carries k i sb (runtime_step range_order e sb) (event_snapshots k e)"
proof (cases "se_Type e = StreamEventContentDelta")
  case False
  then have "event_snapshots k e = []" by (simp add: event_snapshots_def split: option.split)
  then show ?thesis using False assms(2) by (simp add: runtime_step_def carries_defs)
qed (simp add: runtime_step_def content_delta_carries assms(1))

lemma runtime_loop_carries:
  assumes "blocks_ok sb" "list_all (\<lambda>e. se_Type e \<noteq> StreamEventMessageEnd) es" "\<And>xs. mset (range_order xs) = mset xs"
  shows "carries k i sb (runtime_loop range_order es sb) (rt_snapshots k es)"
  using assms(1,2)
proof (induction es arbitrary: sb)
  case Nil
  then show ?case by (simp add: rt_snapshots_def carries_Nil)
next
  case (Cons e es)
  obtain evs1 sb1 where s: "runtime_step range_order e sb = (evs1, sb1)" by fastforce
  obtain evs2 sb2 where l: "runtime_loop range_order es sb1 = (evs2, sb2)" by fastforce
  have "blocks_ok sb1" using runtime_step_tracks [OF Cons.prems(1) assms(3), of e] by (simp add: s tracks_def)
  then have "carries k i sb1 (evs2, sb2) (rt_snapshots k es)" using Cons by (simp add: l [symmetric])
  moreover have "carries k i sb (evs1, sb1) (event_snapshots k e)"
    using runtime_step_carries [OF Cons.prems(1)] Cons.prems(2) by (simp add: s [symmetric])
  ultimately show ?case using carries_trans by (auto simp: s l rt_snapshots_def)
qed

text \<open>Call \<open>k\<close> was given a block.\<close>

lemma runtime_loop_owner:
  assumes "blocks_ok sb" "list_all (\<lambda>e. se_Type e \<noteq> StreamEventMessageEnd) es" "\<And>xs. mset (range_order xs) = mset xs"
    and "rt_snapshots k es \<noteq> []"
  shows "\<exists>i. owns k i (snd (runtime_loop range_order es sb))"
proof (rule ccontr)
  let ?sb = "snd (runtime_loop range_order es sb)"
  assume no: "\<nexists>i. owns k i ?sb"
  then have "awaits k (sb_nextBlockIndex ?sb) ?sb" by (auto simp: awaits_def owns_def)
  then show False using no runtime_loop_carries [OF assms(1-3), of k "sb_nextBlockIndex ?sb"] assms(4) by (simp add: carries_def)
qed

lemma runtime_loop_append:
  "runtime_loop range_order (xs @ ys) sb =
     (case runtime_loop range_order xs sb of (evs1, sb1) \<Rightarrow> case runtime_loop range_order ys sb1 of (evs2, sb2) \<Rightarrow> (evs1 @ evs2, sb2))"
  by (induction xs arbitrary: sb) (auto split: prod.splits)

text \<open>The last event of a stream adds no arguments.\<close>

lemma final_step_quiet:
  assumes "se_Type e = StreamEventMessageEnd \<or> se_Type e = StreamEventError"
  shows "list_all (\<lambda>ev. ev_Type ev \<noteq> EventTypeContentBlockDelta) (fst (runtime_step range_order e sb))"
  using assms
  by (auto simp: runtime_step_def message_end_def close_text_def runtime_event_def base_event_def list_all_iff Let_def split: prod.splits if_splits)

lemma quiet_frames:
  "list_all (\<lambda>ev. ev_Type ev \<noteq> EventTypeContentBlockDelta) es \<Longrightarrow> concat (map (frame_arguments i) (anthropic_loop unmarshal es st)) = []"
proof (induction es arbitrary: st)
  case (Cons e es)
  have "concat (map (frame_arguments i) (fst (event_frames unmarshal e st'))) = []" for st'
    using Cons.prems by (auto simp: event_frames_def block_start_def frame_arguments_def message_delta_frame_def Let_def split: option.split)
  moreover have "concat (map (frame_arguments i) (fst (emitMessageStart st'))) = []" for st'
    by (auto simp: emitMessageStart_def frame_arguments_def message_start_frame_def)
  ultimately have "concat (map (frame_arguments i) (fst (anthropic_step unmarshal e st))) = []"
    by (auto simp: anthropic_step_def Let_def case_prod_beta)
  then show ?case using Cons by (simp add: case_prod_beta)
qed simp

lemma anthropic_loop_append:
  "\<exists>st'. anthropic_loop unmarshal (xs @ ys) st = anthropic_loop unmarshal xs st @ anthropic_loop unmarshal ys st'"
proof (induction xs arbitrary: st)
  case (Cons e xs)
  then show ?case by (auto split: prod.splits)
qed auto

lemma anthropic_arguments_reassemble:
  assumes "list_all (\<lambda>e. se_Type e \<noteq> StreamEventMessageEnd) body" "se_Type final = StreamEventMessageEnd \<or> se_Type final = StreamEventError"
    and perm: "\<And>xs. mset (range_order xs) = mset xs" and "growing [] (rt_snapshots k body)" "rt_snapshots k body \<noteq> []"
  shows "\<exists>i. concat (concat (map (frame_arguments i)
      (anthropicStreamFramesFromEventStream unmarshal (EventStreamFromRuntime range_order (body @ [final]))))) = last (rt_snapshots k body)"
proof -
  obtain evs sb where l: "runtime_loop range_order body no_blocks = (evs, sb)" by fastforce
  obtain evs' sb' where f: "runtime_step range_order final sb = (evs', sb')" by fastforce
  have ok: "blocks_ok no_blocks" by (simp add: blocks_ok_def no_blocks_def)
  have none: "\<not> owns k i no_blocks" for i by (simp add: owns_def no_blocks_def)
  obtain i where own: "owns k i sb" using runtime_loop_owner [OF ok assms(1) perm assms(5)] by (auto simp: l)
  then have run: "concat (map (block_snapshots i) evs) = rt_snapshots k body" "block_run i False evs"
    using runtime_loop_carries [OF ok assms(1) perm, of k i] none by (simp_all add: l carries_def awaits_def)
  have "EventStreamFromRuntime range_order (body @ [final]) = evs @ evs'"
    by (simp add: EventStreamFromRuntime_def runtime_loop_append l f)
  moreover obtain st' where "anthropic_loop unmarshal (evs @ evs') new_frames =
      anthropic_loop unmarshal evs new_frames @ anthropic_loop unmarshal evs' st'"
    using anthropic_loop_append by blast
  moreover have "concat (map (frame_arguments i) (anthropic_loop unmarshal evs' st')) = []"
    using quiet_frames final_step_quiet [OF assms(2), of range_order sb] by (simp add: f)
  moreover have "concat (concat (map (frame_arguments i) (anthropic_loop unmarshal evs new_frames))) = concat (arg_diffs [] (rt_snapshots k body))"
    using anthropic_loop_arguments [OF run(2), of new_frames unmarshal] assms(4) run(1) by (simp add: new_frames_def snapshot_at_def)
  moreover have "concat (arg_diffs [] (rt_snapshots k body)) = last (rt_snapshots k body)"
    using concat_diffs [OF assms(4)] assms(5) by simp
  ultimately show ?thesis by (intro exI [of _ i]) (simp add: anthropicStreamFramesFromEventStream_def)
qed

text \<open>a tool call streamed by an OpenAI chat upstream reaches an Anthropic client unchanged: some block of the client's
  stream has \<open>partial_json\<close> fragments that concatenate to the concatenation of the upstream's argument fragments, under
  the same condition on compaction, whatever order Go chooses for the open blocks.
\<close>

theorem anthropic_arguments_preserved:
  assumes "\<And>xs. mset (range_order xs) = mset xs" "fragments k (upstream_calls unmarshal lines) \<noteq> []"
    and "\<forall>s\<in>set (accumulate [] (fragments k (upstream_calls unmarshal lines))). s \<noteq> [] \<longrightarrow> compactJSONString s = s"
  shows "\<exists>i. concat (concat (map (frame_arguments i) (anthropicStreamFramesFromEventStream unmarshal_any
      (EventStreamFromRuntime range_order (decodeOpenAIChatStream unmarshal lines scanErr req estimateUsage))))) =
    concat (fragments k (upstream_calls unmarshal lines))"
proof -
  let ?fs = "fragments k (upstream_calls unmarshal lines)"
  obtain body final where d: "decodeOpenAIChatStream unmarshal lines scanErr req estimateUsage = body @ [final]"
    "se_Type final = StreamEventMessageEnd \<or> se_Type final = StreamEventError"
    "list_all (\<lambda>e. is_start e \<or> is_usage e \<or> se_Type e = StreamEventContentDelta) body"
    using decoded_stream_body by blast
  have body: "list_all (\<lambda>e. se_Type e \<noteq> StreamEventMessageEnd) body"
    using d(3) by (auto simp: list_all_iff is_start_def is_usage_def)
  have "rt_snapshots k [final] = []" using d(2) by (auto simp: rt_snapshots_def event_snapshots_def split: option.split)
  then have snaps: "rt_snapshots k body = accumulate [] ?fs"
    using decoder_snapshots [of k unmarshal lines scanErr req estimateUsage] compact_growing [OF assms(3)]
    by (simp add: d(1) rt_snapshots_def)
  have "accumulate [] ?fs \<noteq> []" using assms(2) by (cases ?fs) auto
  then show ?thesis
    using anthropic_arguments_reassemble [OF body d(2) assms(1), of k unmarshal_any] growing_accumulate [of "[]" ?fs]
      last_accumulate [of "[]" ?fs] by (simp add: snaps d(1))
qed

theorem anthropic_arguments_preserved_witness:
  "\<exists>i. concat (concat (map (frame_arguments i) (anthropicStreamFramesFromEventStream (\<lambda>d. None)
      (EventStreamFromRuntime rev (decodeOpenAIChatStream fragment_chunk [''data:[1,'', ''data:2]'', ''data:[DONE]''] None sample_stream_request False))))) =
    ''[1,2]''"
proof -
  have "\<forall>s\<in>set (accumulate [] (fragments 0 (upstream_calls fragment_chunk [''data:[1,'', ''data:2]'', ''data:[DONE]'']))).
      s \<noteq> [] \<longrightarrow> compactJSONString s = s"
    by (simp add: sample_fragments sample_compact del: upstream_calls.simps)
  from anthropic_arguments_preserved [OF _ _ this, of rev "\<lambda>d. None" None sample_stream_request False] show ?thesis
    by (simp add: sample_fragments del: upstream_calls.simps)
qed

end
