(* ===== verification/Provider_Codecs.thy ===== *)
theory Provider_Codecs
  imports Provider_Stream Inbound_Request
begin

text \<open>
  The codecs towards upstreams (package \<open>internal/provider\<close>: \<open>openai_chat_codec.go\<close>, \<open>openai_responses_codec.go\<close>,
  \<open>anthropic_messages_codec.go\<close>, \<open>provider_codec_helpers.go\<close>): the payload of a runtime request in each protocol, and the
  runtime response of a decoded answer. Payloads and answers are the structs that \<open>encoding/json\<close> writes and reads;
  what it does with raw messages is the record \<open>json_lib\<close>.
\<close>

abbreviation MessageRoleSystem where "MessageRoleSystem \<equiv> ''system''"
abbreviation MessageRoleUser where "MessageRoleUser \<equiv> ''user''"
abbreviation MessageRoleTool where "MessageRoleTool \<equiv> ''tool''"

section \<open>Helpers\<close>

definition normalizedToolSchema :: "json_lib \<Rightarrow> raw_json \<Rightarrow> raw_json" where
  "normalizedToolSchema J raw =
     (if length raw = 0 then ''{}''
      else case js_any J raw of
             Inl _ \<Rightarrow> raw
           | Inr v \<Rightarrow> (case js_marshal J v of Inl _ \<Rightarrow> raw | Inr encoded \<Rightarrow> encoded))"

definition compactJSONOrEmpty :: "json_lib \<Rightarrow> raw_json \<Rightarrow> string" where
  "compactJSONOrEmpty J raw =
     (if length raw = 0 then ''{}''
      else case js_any J raw of
             Inl _ \<Rightarrow> raw
           | Inr v \<Rightarrow> (case js_marshal J v of Inl _ \<Rightarrow> raw | Inr encoded \<Rightarrow> encoded))"

definition joinedTextParts :: "Message \<Rightarrow> string" where
  "joinedTextParts msg =
     Join (map cp_Text (filter (\<lambda>p. cp_Type p = ContentPartTypeText \<and> cp_Text p \<noteq> []) (msg_Parts msg))) newline"

definition tool_result_text :: "json_lib \<Rightarrow> ContentPart \<Rightarrow> string list" where
  "tool_result_text J p =
     (if cp_Type p = ContentPartTypeText then (if cp_Text p \<noteq> [] then [cp_Text p] else [])
      else if cp_Type p = ContentPartTypeJSON then (if length (cp_Data p) > 0 then [compactJSONOrEmpty J (cp_Data p)] else [])
      else [])"

definition joinedToolResultParts :: "json_lib \<Rightarrow> Message \<Rightarrow> string" where
  "joinedToolResultParts J msg = Join (concat (map (tool_result_text J) (msg_Parts msg))) newline"

definition provider_firstTextPart :: "Message \<Rightarrow> string" where
  "provider_firstTextPart msg = (case find (\<lambda>p. cp_Type p = ContentPartTypeText) (msg_Parts msg) of Some p \<Rightarrow> cp_Text p | None \<Rightarrow> [])"

text \<open>A tool whose schema is an object with a type other than \<open>object\<close> is not sent.\<close>

definition foreign_schema :: "json_lib \<Rightarrow> ToolDefinition \<Rightarrow> bool" where
  "foreign_schema J tool =
     (length (td_InputSchema tool) > 0 \<and>
      (case js_object J (td_InputSchema tool) of
         None \<Rightarrow> False
       | Some schema \<Rightarrow> (let kind = string_of (field ''type'' schema) in kind \<noteq> [] \<and> kind \<noteq> ''object'')))"

section \<open>OpenAI chat\<close>

record openAIToolCall =
  oac_ID :: string
  oac_Type :: string
  oac_Name :: string
  oac_Arguments :: string

record openAIChatMessage =
  ocm_Role :: string
  ocm_Content :: string
  ocm_ReasoningContent :: string
  ocm_ToolCalls :: "openAIToolCall list"
  ocm_ToolCallID :: string
  ocm_Status :: string

record openAIToolDefinition =
  oad_Type :: string
  oad_Name :: string
  oad_Description :: string
  oad_Parameters :: raw_json

record openAIChatRequest =
  ocq_Model :: string
  ocq_Messages :: "openAIChatMessage list"
  ocq_MaxTokens :: int
  ocq_Tools :: "openAIToolDefinition list"
  ocq_ToolChoice :: raw_json

record chat_envelope_choice =
  oec_FinishReason :: string
  oec_Message :: openAIChatMessage

text \<open>Input, output, total and (when the details are there) cached tokens.\<close>

record envelope_usage =
  eu_Input :: int
  eu_Output :: int
  eu_Total :: int
  eu_Cached :: "int option"

record openAIChatResponseEnvelope =
  oce_ID :: string
  oce_Object :: string
  oce_Model :: string
  oce_Choices :: "chat_envelope_choice list"
  oce_Usage :: "envelope_usage option"

definition encode_chat_call :: "ToolCall \<Rightarrow> openAIToolCall" where
  "encode_chat_call c = \<lparr>oac_ID = tc_ID c, oac_Type = ''function'', oac_Name = tc_Name c, oac_Arguments = tc_Arguments c\<rparr>"

definition encode_chat_message :: "json_lib \<Rightarrow> Message \<Rightarrow> openAIChatMessage" where
  "encode_chat_message J msg =
     \<lparr>ocm_Role = msg_Role msg,
      ocm_Content = (if msg_Role msg = MessageRoleTool then joinedToolResultParts J msg else joinedTextParts msg),
      ocm_ReasoningContent = [], ocm_ToolCalls = map encode_chat_call (msg_ToolCalls msg), ocm_ToolCallID = msg_ToolCallID msg,
      ocm_Status = (if msg_Role msg = MessageRoleTool \<and> msg_ToolResultIsError msg then ''error'' else [])\<rparr>"

definition shouldDropOpenAIChatTool :: "json_lib \<Rightarrow> ToolDefinition \<Rightarrow> bool" where
  "shouldDropOpenAIChatTool J tool = foreign_schema J tool"

definition encode_chat_tool :: "json_lib \<Rightarrow> ToolDefinition \<Rightarrow> openAIToolDefinition" where
  "encode_chat_tool J tool =
     \<lparr>oad_Type = ''function'', oad_Name = td_Name tool, oad_Description = td_Description tool,
      oad_Parameters = normalizedToolSchema J (td_InputSchema tool)\<rparr>"

definition encodeOpenAIChatRequest :: "json_lib \<Rightarrow> Request \<Rightarrow> openAIChatRequest" where
  "encodeOpenAIChatRequest J req =
     (let sys = (if req_System req = [] then []
                 else [\<lparr>ocm_Role = MessageRoleSystem, ocm_Content = req_System req, ocm_ReasoningContent = [], ocm_ToolCalls = [],
                        ocm_ToolCallID = [], ocm_Status = []\<rparr>]);
          tools = map (encode_chat_tool J) (filter (\<lambda>t. \<not> shouldDropOpenAIChatTool J t) (req_Tools req))
      in \<lparr>ocq_Model = req_Model req, ocq_Messages = sys @ map (encode_chat_message J) (req_Messages req),
          ocq_MaxTokens = (if req_MaxTokens req > 0 then req_MaxTokens req else 0), ocq_Tools = tools,
          ocq_ToolChoice = (if tools = [] then []
                            else if length (req_ToolChoice req) > 0 then req_ToolChoice req
                            else [CHR 0x22] @ ''auto'' @ [CHR 0x22])\<rparr>)"

definition provider_usage :: "int \<Rightarrow> int \<Rightarrow> int \<Rightarrow> int \<Rightarrow> int \<Rightarrow> Usage" where
  "provider_usage input output cached_read cached_write tokens =
     \<lparr>us_InputTokens = input, us_OutputTokens = output, us_CachedInputReadTokens = cached_read, us_CachedInputWriteTokens = cached_write,
      us_TotalTokens = tokens, us_Source = UsageSourceProvider\<rparr>"

definition envelope_usage_of :: "envelope_usage option \<Rightarrow> Usage option" where
  "envelope_usage_of u =
     map_option (\<lambda>u. provider_usage (eu_Input u) (eu_Output u) (case eu_Cached u of None \<Rightarrow> 0 | Some n \<Rightarrow> n) 0 (eu_Total u)) u"

definition usageFromOpenAIChatEnvelope :: "openAIChatResponseEnvelope \<Rightarrow> Usage option" where
  "usageFromOpenAIChatEnvelope resp = envelope_usage_of (oce_Usage resp)"

definition fatal :: "string \<Rightarrow> go_error" where
  "fatal m = NewFatalError (Some (PlainError m))"

definition response_message :: "string \<Rightarrow> ContentPart list \<Rightarrow> ToolCall list \<Rightarrow> Message" where
  "response_message role parts calls =
     \<lparr>msg_Role = role, msg_Parts = parts, msg_ToolCalls = calls, msg_ToolCallID = [], msg_ToolCallType = [], msg_ToolResultIsError = False\<rparr>"

definition chat_finish_reason :: "string \<Rightarrow> ToolCall list \<Rightarrow> string" where
  "chat_finish_reason reason calls =
     (let d = (if calls \<noteq> [] then FinishReasonToolUse else FinishReasonStop)
      in if reason = ''tool_calls'' \<or> reason = ''function_call'' then FinishReasonToolUse
         else if reason = ''length'' then FinishReasonLength
         else if (reason = ''stop'' \<or> reason = [] \<or> reason = ''content_filter'') \<and> calls = [] then FinishReasonStop
         else d)"

definition decodeOpenAIChatResponse :: "openAIChatResponseEnvelope \<Rightarrow> go_error + Response" where
  "decodeOpenAIChatResponse resp =
     (case oce_Choices resp of
        [] \<Rightarrow> Inl (fatal ''upstream response missing choices'')
      | choice # _ \<Rightarrow>
          (let m = oec_Message choice;
               t = (if ocm_Content m = [] then ocm_ReasoningContent m else ocm_Content m);
               parts = (if t \<noteq> [] then [text_part t] else []);
               calls = map (\<lambda>c. \<lparr>tc_ID = oac_ID c, tc_Type = [], tc_Name = oac_Name c, tc_Arguments = oac_Arguments c, tc_Input = []\<rparr>)
                         (ocm_ToolCalls m)
           in if parts = [] \<and> calls = [] then Inl (fatal ''upstream returned no content and no tool calls'')
              else Inr \<lparr>resp_ID = oce_ID resp, resp_Object = oce_Object resp, resp_Model = oce_Model resp,
                        resp_Message = response_message (ocm_Role m) parts calls,
                        resp_FinishReason = chat_finish_reason (oec_FinishReason choice) calls,
                        resp_Usage = usageFromOpenAIChatEnvelope resp\<rparr>))"

section \<open>OpenAI responses\<close>

record openAIResponsesTextPart =
  otp_Type :: string
  otp_Text :: string
  otp_Value :: raw_json

text \<open>\<open>Input\<close> is nil or the string of a custom tool call.\<close>

record upstream_input_item =
  oii_Type :: string
  oii_Role :: string
  oii_Content :: "openAIResponsesTextPart list"
  oii_CallID :: string
  oii_Name :: string
  oii_Arguments :: string
  oii_Input :: "string option"
  oii_Output :: string
  oii_Status :: string

record upstream_tool =
  oot_Type :: string
  oot_Name :: string
  oot_Description :: string
  oot_Parameters :: raw_json
  oot_Format :: raw_json

text \<open>The tools are \<open>[]any\<close>: the struct, or a decoded raw value.\<close>

datatype responses_tool_value = StructTool upstream_tool | AnyTool any

record upstream_responses_request =
  orq_Model :: string
  orq_Instructions :: string
  orq_MaxOutputTokens :: int
  orq_Input :: "upstream_input_item list"
  orq_Tools :: "responses_tool_value list"
  orq_ToolChoice :: string
  orq_PreviousResponseID :: string
  orq_Metadata :: raw_json
  orq_Reasoning :: "string option"
  orq_ContextManagement :: raw_json

record openAIResponsesOutputItem =
  ooi_Type :: string
  ooi_Role :: string
  ooi_Content :: "openAIResponsesTextPart list"
  ooi_CallID :: string
  ooi_Name :: string
  ooi_Arguments :: string
  ooi_Input :: raw_json

record openAIResponsesEnvelope =
  ore_ID :: string
  ore_Object :: string
  ore_Model :: string
  ore_Status :: string
  ore_Output :: "openAIResponsesOutputItem list"
  ore_Usage :: "envelope_usage option"

record openAIResponsesCompatibility =
  rc_DropMetadata :: bool
  rc_DropContextManagement :: bool
  rc_RewriteAssistantToUser :: bool
  rc_DropToolErrorStatus :: bool
  rc_RejectPreviousResponse :: bool
  rc_RejectBuiltinTools :: bool

definition zero_item :: upstream_input_item where
  "zero_item = \<lparr>oii_Type = [], oii_Role = [], oii_Content = [], oii_CallID = [], oii_Name = [], oii_Arguments = [], oii_Input = None,
     oii_Output = [], oii_Status = []\<rparr>"

definition result_item :: "json_lib \<Rightarrow> openAIResponsesCompatibility \<Rightarrow> Message \<Rightarrow> upstream_input_item" where
  "result_item J cmp msg =
     zero_item\<lparr>oii_Type := (if msg_ToolCallType msg = ''custom'' then ''custom_tool_call_output'' else ''function_call_output''),
       oii_CallID := msg_ToolCallID msg, oii_Output := joinedToolResultParts J msg,
       oii_Status := (if msg_ToolResultIsError msg \<and> \<not> rc_DropToolErrorStatus cmp then ''error'' else [])\<rparr>"

definition call_item :: "json_lib \<Rightarrow> ToolCall \<Rightarrow> upstream_input_item" where
  "call_item J c =
     (let i = zero_item\<lparr>oii_Type := ''function_call'', oii_CallID := tc_ID c, oii_Name := tc_Name c\<rparr>
      in if tc_Type c = ''custom'' then i\<lparr>oii_Type := ''custom_tool_call'', oii_Input := Some (tc_Input c)\<rparr>
         else i\<lparr>oii_Arguments := compactJSONOrEmpty J (tc_Arguments c)\<rparr>)"

definition message_item :: "openAIResponsesCompatibility \<Rightarrow> Message \<Rightarrow> upstream_input_item" where
  "message_item cmp msg =
     (let rewrite = (rc_RewriteAssistantToUser cmp \<and> msg_Role msg = MessageRoleAssistant);
          t = joinedTextParts msg
      in zero_item\<lparr>oii_Type := ''message'', oii_Role := (if rewrite then MessageRoleUser else msg_Role msg),
           oii_Content := [\<lparr>otp_Type = ''input_text'',
             otp_Text = (if rewrite then ''Previous assistant message:'' @ newline @ t else t), otp_Value = []\<rparr>]\<rparr>)"

definition message_items :: "json_lib \<Rightarrow> openAIResponsesCompatibility \<Rightarrow> Message \<Rightarrow> upstream_input_item list" where
  "message_items J cmp msg =
     (if msg_Role msg = MessageRoleTool then [result_item J cmp msg]
      else if msg_ToolCalls msg \<noteq> [] then map (call_item J) (msg_ToolCalls msg)
      else [message_item cmp msg])"

definition shouldDropOpenAIResponsesTool :: "json_lib \<Rightarrow> ToolDefinition \<Rightarrow> bool" where
  "shouldDropOpenAIResponsesTool J tool = (if td_Type tool = ''custom'' then False else foreign_schema J tool)"

definition encode_responses_tool :: "json_lib \<Rightarrow> ToolDefinition \<Rightarrow> responses_tool_value" where
  "encode_responses_tool J tool =
     (let toolType = (if td_Type tool = [] then ''function'' else td_Type tool);
          struct = (\<lambda>params fmt. StructTool \<lparr>oot_Type = toolType, oot_Name = td_Name tool, oot_Description = td_Description tool,
                      oot_Parameters = params, oot_Format = fmt\<rparr>);
          bare = AnyTool (JObj [(''type'', JStr toolType)])
      in if toolType = ''function'' then struct (normalizedToolSchema J (td_InputSchema tool)) []
         else if toolType = ''custom'' then struct [] (td_Format tool)
         else if length (td_Raw tool) > 0
         then (case js_any J (td_Raw tool) of Inr raw \<Rightarrow> AnyTool raw | Inl _ \<Rightarrow> bare)
         else bare)"

definition encodeOpenAIResponsesRequest ::
  "json_lib \<Rightarrow> openAIResponsesCompatibility \<Rightarrow> Request \<Rightarrow> upstream_responses_request" where
  "encodeOpenAIResponsesRequest J cmp req =
     (let tools = map (encode_responses_tool J) (filter (\<lambda>t. \<not> shouldDropOpenAIResponsesTool J t) (req_Tools req))
      in \<lparr>orq_Model = req_Model req, orq_Instructions = req_System req,
          orq_MaxOutputTokens = (if req_MaxTokens req > 0 then req_MaxTokens req else 0),
          orq_Input = concat (map (message_items J cmp) (req_Messages req)), orq_Tools = tools,
          orq_ToolChoice = (if tools \<noteq> [] then ''auto'' else []), orq_PreviousResponseID = req_PreviousResponseID req,
          orq_Metadata = (if length (req_Metadata req) > 0 \<and> \<not> rc_DropMetadata cmp then req_Metadata req else []),
          orq_Reasoning = (if req_OutputEffort req \<noteq> [] then Some (req_OutputEffort req) else None),
          orq_ContextManagement = (if length (req_ContextManagement req) > 0 \<and> \<not> rc_DropContextManagement cmp
                                   then req_ContextManagement req else [])\<rparr>)"

text \<open>The payload of a JSON part is its value, or its text.\<close>

definition json_payload_part :: "raw_json \<Rightarrow> string \<Rightarrow> ContentPart list" where
  "json_payload_part val t =
     (let payload = (if length val = 0 then t else val) in if length payload > 0 then [json_part payload] else [])"

definition output_part :: "openAIResponsesTextPart \<Rightarrow> ContentPart list" where
  "output_part p =
     (if otp_Type p = ''json'' then json_payload_part (otp_Value p) (otp_Text p)
      else if otp_Text p \<noteq> [] then [text_part (otp_Text p)] else [])"

definition output_call :: "json_lib \<Rightarrow> openAIResponsesOutputItem \<Rightarrow> ToolCall list" where
  "output_call J i =
     (if ooi_Type i = ''function_call''
      then [\<lparr>tc_ID = ooi_CallID i, tc_Type = ''function'', tc_Name = ooi_Name i,
             tc_Arguments = (if ooi_Arguments i = [] \<and> length (ooi_Input i) > 0 then compactJSONOrEmpty J (ooi_Input i) else ooi_Arguments i),
             tc_Input = []\<rparr>]
      else if ooi_Type i = ''custom_tool_call''
      then [\<lparr>tc_ID = ooi_CallID i, tc_Type = ''custom'', tc_Name = ooi_Name i, tc_Arguments = [],
             tc_Input = (if length (ooi_Input i) > 0
                         then case js_string J (ooi_Input i) of Some s \<Rightarrow> s | None \<Rightarrow> ooi_Input i else [])\<rparr>]
      else [])"

text \<open>One item of the output: the message so far is its role, parts and calls.\<close>

definition output_step :: "json_lib \<Rightarrow> openAIResponsesOutputItem \<Rightarrow> Message \<Rightarrow> Message" where
  "output_step J i m =
     (if ooi_Type i = ''message''
      then m\<lparr>msg_Role := (if ooi_Role i \<noteq> [] then ooi_Role i else msg_Role m),
             msg_Parts := msg_Parts m @ concat (map output_part (ooi_Content i))\<rparr>
      else m\<lparr>msg_ToolCalls := msg_ToolCalls m @ output_call J i\<rparr>)"

definition responses_finish_reason :: "string \<Rightarrow> ToolCall list \<Rightarrow> string" where
  "responses_finish_reason status calls =
     (if calls \<noteq> [] then FinishReasonToolUse else if status = ''incomplete'' then FinishReasonLength else FinishReasonStop)"

definition decodeOpenAIResponsesResponse :: "json_lib \<Rightarrow> openAIResponsesEnvelope \<Rightarrow> go_error + Response" where
  "decodeOpenAIResponsesResponse J resp =
     (if ore_Output resp = [] then Inl (fatal ''upstream response missing output'')
      else let m = fold (output_step J) (ore_Output resp) (response_message MessageRoleAssistant [] [])
           in if msg_Parts m = [] \<and> msg_ToolCalls m = [] then Inl (fatal ''upstream returned no content and no tool calls'')
              else Inr \<lparr>resp_ID = ore_ID resp, resp_Object = ore_Object resp, resp_Model = ore_Model resp, resp_Message = m,
                        resp_FinishReason = responses_finish_reason (ore_Status resp) (msg_ToolCalls m),
                        resp_Usage = envelope_usage_of (ore_Usage resp)\<rparr>)"

section \<open>Anthropic messages\<close>

record anthropicContentBlock =
  acb_Type :: string
  acb_Text :: string
  acb_ID :: string
  acb_Name :: string
  acb_Input :: raw_json
  acb_Value :: raw_json
  acb_ToolUseID :: string
  acb_IsError :: bool
  acb_Content :: "any option"

record anthropicMessage =
  am_Role :: string
  am_Content :: "anthropicContentBlock list"

record anthropicToolDefinition =
  atd_Name :: string
  atd_Description :: string
  atd_InputSchema :: raw_json

record anthropicMessagesRequest =
  amr_Model :: string
  amr_System :: string
  amr_MaxTokens :: int
  amr_Messages :: "anthropicMessage list"
  amr_Tools :: "anthropicToolDefinition list"
  amr_Stream :: bool

record anthropic_usage =
  au_InputTokens :: int
  au_OutputTokens :: int
  au_CacheCreationInputTokens :: int
  au_CacheReadInputTokens :: int

record anthropicMessagesEnvelope =
  ame_ID :: string
  ame_Type :: string
  ame_Role :: string
  ame_Model :: string
  ame_Content :: "anthropicContentBlock list"
  ame_StopReason :: string
  ame_Usage :: "anthropic_usage option"

definition zero_anthropic_block :: anthropicContentBlock where
  "zero_anthropic_block = \<lparr>acb_Type = [], acb_Text = [], acb_ID = [], acb_Name = [], acb_Input = [], acb_Value = [], acb_ToolUseID = [],
     acb_IsError = False, acb_Content = None\<rparr>"

definition anthropic_result_block :: "json_lib \<Rightarrow> ContentPart \<Rightarrow> any list" where
  "anthropic_result_block J p =
     (let text = (\<lambda>t. JObj [(''type'', JStr ''text''), (''text'', JStr t)])
      in if cp_Type p = ContentPartTypeText then [text (cp_Text p)]
         else if cp_Type p = ContentPartTypeJSON
         then (case js_any J (cp_Data p) of Inl _ \<Rightarrow> [text (cp_Data p)] | Inr v \<Rightarrow> [JObj [(''type'', JStr ''json''), (''value'', v)]])
         else [])"

definition anthropicToolResultContent :: "json_lib \<Rightarrow> Message \<Rightarrow> any" where
  "anthropicToolResultContent J msg =
     (let blocks = concat (map (anthropic_result_block J) (msg_Parts msg))
      in case blocks of
           [] \<Rightarrow> JStr []
         | [b] \<Rightarrow> if field ''type'' b = Some (JStr ''text'') then JStr (string_of (field ''text'' b)) else JArr blocks
         | _ \<Rightarrow> JArr blocks)"

definition anthropic_request_part :: "json_lib \<Rightarrow> ContentPart \<Rightarrow> anthropicContentBlock list" where
  "anthropic_request_part J p =
     (let text = (\<lambda>t. zero_anthropic_block\<lparr>acb_Type := ''text'', acb_Text := t\<rparr>)
      in if cp_Type p = ContentPartTypeText then (if cp_Text p \<noteq> [] then [text (cp_Text p)] else [])
         else if cp_Type p = ContentPartTypeJSON
         then (case js_any J (cp_Data p) of
                 Inl _ \<Rightarrow> [text (cp_Data p)]
               | Inr v \<Rightarrow> (case js_marshal J v of
                             Inl _ \<Rightarrow> [text (cp_Data p)]
                           | Inr raw \<Rightarrow> [zero_anthropic_block\<lparr>acb_Type := ''json'', acb_Value := raw\<rparr>]))
         else [])"

definition anthropic_request_call :: "json_lib \<Rightarrow> ToolCall \<Rightarrow> anthropicContentBlock" where
  "anthropic_request_call J c =
     zero_anthropic_block\<lparr>acb_Type := ''tool_use'', acb_ID := tc_ID c, acb_Name := tc_Name c, acb_Input := compactJSONOrEmpty J (tc_Arguments c)\<rparr>"

definition anthropic_request_message :: "json_lib \<Rightarrow> Message \<Rightarrow> anthropicMessage list" where
  "anthropic_request_message J msg =
     (if msg_Role msg = MessageRoleSystem then []
      else if msg_Role msg = MessageRoleTool
      then [\<lparr>am_Role = ''user'', am_Content = [zero_anthropic_block\<lparr>acb_Type := ''tool_result'', acb_ToolUseID := msg_ToolCallID msg,
              acb_IsError := msg_ToolResultIsError msg, acb_Content := Some (anthropicToolResultContent J msg)\<rparr>]\<rparr>]
      else let content = concat (map (anthropic_request_part J) (msg_Parts msg)) @ map (anthropic_request_call J) (msg_ToolCalls msg)
           in if content \<noteq> [] then [\<lparr>am_Role = msg_Role msg, am_Content = content\<rparr>] else [])"

text \<open>The system text is the request's, or the first text of the first system message that has one.\<close>

definition anthropic_system :: "Request \<Rightarrow> string" where
  "anthropic_system req =
     fold (\<lambda>msg sys. if msg_Role msg = MessageRoleSystem \<and> sys = [] then provider_firstTextPart msg else sys) (req_Messages req) (req_System req)"

definition encodeAnthropicMessagesRequest :: "json_lib \<Rightarrow> Request \<Rightarrow> anthropicMessagesRequest" where
  "encodeAnthropicMessagesRequest J req =
     \<lparr>amr_Model = req_Model req, amr_System = anthropic_system req,
      amr_MaxTokens = (if req_MaxTokens req \<le> 0 then 1024 else req_MaxTokens req),
      amr_Messages = concat (map (anthropic_request_message J) (req_Messages req)),
      amr_Tools = map (\<lambda>t. \<lparr>atd_Name = td_Name t, atd_Description = td_Description t, atd_InputSchema = normalizedToolSchema J (td_InputSchema t)\<rparr>)
                    (req_Tools req),
      amr_Stream = req_Stream req\<rparr>"

definition anthropicFinishReason :: "string \<Rightarrow> string" where
  "anthropicFinishReason reason =
     (if reason = ''tool_use'' then FinishReasonToolUse
      else if reason = ''max_tokens'' then FinishReasonLength
      else if reason = ''end_turn'' \<or> reason = [] then FinishReasonEndTurn
      else FinishReasonStop)"

definition answer_part :: "anthropicContentBlock \<Rightarrow> ContentPart list" where
  "answer_part b =
     (if acb_Type b = ''text'' then (if acb_Text b \<noteq> [] then [text_part (acb_Text b)] else [])
      else if acb_Type b = ''json'' then json_payload_part (acb_Value b) (acb_Text b)
      else [])"

definition answer_call :: "json_lib \<Rightarrow> anthropicContentBlock \<Rightarrow> ToolCall list" where
  "answer_call J b =
     (if acb_Type b = ''tool_use''
      then [\<lparr>tc_ID = acb_ID b, tc_Type = [], tc_Name = acb_Name b, tc_Arguments = compactJSONOrEmpty J (acb_Input b), tc_Input = []\<rparr>]
      else [])"

definition anthropic_answer_usage :: "anthropic_usage \<Rightarrow> Usage" where
  "anthropic_answer_usage u =
     provider_usage (au_InputTokens u) (au_OutputTokens u) (au_CacheReadInputTokens u) (au_CacheCreationInputTokens u)
       (wrap64 (au_InputTokens u + au_OutputTokens u + au_CacheCreationInputTokens u + au_CacheReadInputTokens u))"

definition decodeAnthropicMessagesResponse :: "json_lib \<Rightarrow> anthropicMessagesEnvelope \<Rightarrow> go_error + Response" where
  "decodeAnthropicMessagesResponse J resp =
     (if ame_Content resp = [] then Inl (fatal ''upstream response missing content'')
      else let parts = concat (map answer_part (ame_Content resp));
               calls = concat (map (answer_call J) (ame_Content resp))
           in if parts = [] \<and> calls = [] then Inl (fatal ''upstream returned no content and no tool calls'')
              else Inr \<lparr>resp_ID = ame_ID resp, resp_Object = ame_Type resp, resp_Model = ame_Model resp,
                        resp_Message = response_message (if ame_Role resp \<noteq> [] then ame_Role resp else MessageRoleAssistant) parts calls,
                        resp_FinishReason = anthropicFinishReason (ame_StopReason resp),
                        resp_Usage = map_option anthropic_answer_usage (ame_Usage resp)\<rparr>)"

end
