(* ===== verification/Provider_Clients.thy ===== *)
theory Provider_Clients
  imports Provider_Codecs Config_Types Sessions_Store
begin

text \<open>
  The providers (package \<open>internal/provider\<close>: \<open>provider.go\<close>, \<open>openai_chat.go\<close>, \<open>anthropic_messages.go\<close>,
  \<open>codex_consumer.go\<close>, \<open>credential.go\<close>, \<open>oauth_credential.go\<close>, \<open>registry.go\<close>): how a request is sent upstream, which key it is
  sent with, and what an answer or a failure becomes.

  What is outside is an \<open>upstream_env\<close>. The upstream is \<open>uv_send\<close>: what it answers to a call, given the calls made before; the
  calls made so far are the log that every operation extends. \<open>http.NewRequest\<close> fails on some URLs (\<open>uv_newRequest\<close>);
  \<open>encoding/json\<close> on the payloads and answers, \<open>http.ParseTime\<close>, and the credentials of the OAuth manager are functions too.
  Trace files and latency spans are not modelled.
\<close>

section \<open>Upstream\<close>

record http_call =
  hc_URL :: string
  hc_Header :: "(string \<times> string) list"
  hc_Body :: raw_json

text \<open>
  An answer: status and headers, the status line, what \<open>io.ReadAll\<close> makes of the body (what was read, and the error), and what a
  scanner makes of it: its lines and the error it ends with.
\<close>

record upstream_reply =
  up_Response :: http_response
  up_Status :: string
  up_Body :: string
  up_ReadErr :: "go_error option"
  up_Lines :: "string list"
  up_ScanErr :: "go_error option"

record upstream_env =
  uv_send :: "http_call list \<Rightarrow> http_call \<Rightarrow> go_error + upstream_reply"
  uv_newRequest :: "string \<Rightarrow> go_error option"
  uv_json :: json_lib
  uv_object :: "raw_json \<Rightarrow> go_error + (string \<times> any) list option"
  uv_marshal_chat :: "openAIChatRequest \<Rightarrow> go_error + raw_json"
  uv_marshal_responses :: "upstream_responses_request \<Rightarrow> go_error + raw_json"
  uv_marshal_anthropic :: "anthropicMessagesRequest \<Rightarrow> go_error + raw_json"
  uv_chat_envelope :: "string \<Rightarrow> go_error + openAIChatResponseEnvelope"
  uv_responses_envelope :: "string \<Rightarrow> go_error + openAIResponsesEnvelope"
  uv_anthropic_envelope :: "string \<Rightarrow> go_error + anthropicMessagesEnvelope"
  uv_chunk :: "string \<Rightarrow> go_error + openAIChatStreamChunk"
  uv_parseTime :: "string \<Rightarrow> string option"
  uv_credential :: "http_call list \<Rightarrow> string \<Rightarrow> go_error + string"
  uv_refresh :: "http_call list \<Rightarrow> string \<Rightarrow> go_error + string"

text \<open>\<open>fmt.Errorf("...: %w", err)\<close>.\<close>

definition wrapf :: "string \<Rightarrow> go_error \<Rightarrow> go_error" where
  "wrapf m e = WrapError (m @ Error e) (Some e)"

definition transient :: "string \<Rightarrow> go_error \<Rightarrow> go_error" where
  "transient m e = the (NewTransientError (Some (wrapf m e)))"

definition previewResponseBody :: "string \<Rightarrow> string" where
  "previewResponseBody body =
     (let trimmed = TrimSpace body
      in if trimmed = [] then [CHR 0x22, CHR 0x22]
         else if length trimmed \<le> 1024 then trimmed
         else take 1024 trimmed @ ''...'')"

definition with_metadata :: "upstream_env \<Rightarrow> upstream_reply \<Rightarrow> go_error \<Rightarrow> go_error" where
  "with_metadata env r e = the (withResponseMetadata (uv_parseTime env) (Some e) (Some (up_Response r)))"

text \<open>The error of a status: quota, server, authentication or other failures; \<open>None\<close> below 400.\<close>

definition status_error :: "upstream_env \<Rightarrow> upstream_reply \<Rightarrow> string \<Rightarrow> go_error option" where
  "status_error env r body =
     (let code = hr_StatusCode (up_Response r); preview = previewResponseBody body;
          described = (\<lambda>what. PlainError (what @ up_Status r @ '' body='' @ preview))
      in if code = 429 then Some (with_metadata env r (NewQuotaExceededError (Some (PlainError (''upstream quota exceeded: '' @ preview)))))
         else if code \<ge> 500 then Some (with_metadata env r (NewUpstreamServerError (Some (described ''upstream server error: ''))))
         else if code = 401 \<or> code = 403 then Some (with_metadata env r (NewAuthFailedError (Some (described ''upstream auth failed: ''))))
         else if code \<ge> 400 then Some (with_metadata env r (NewFatalError (Some (described ''upstream request failed: ''))))
         else None)"

section \<open>Traces\<close>

definition maskCredential :: "string \<Rightarrow> string \<Rightarrow> string" where
  "maskCredential val pre =
     (if val = [] then []
      else if pre \<noteq> [] then (if \<not> HasPrefix val pre then ''***'' else pre @ ''***'')
      else ''***'')"

definition redact_header :: "string \<times> string \<Rightarrow> string \<times> string" where
  "redact_header h =
     (case h of (key, val) \<Rightarrow>
        if lower_text key = ''authorization'' then (key, maskCredential val ''Bearer '')
        else if lower_text key = ''x-api-key'' then (key, maskCredential val [])
        else (key, val))"

definition redactHeaders :: "(string \<times> string) list \<Rightarrow> (string \<times> string) list" where
  "redactHeaders headers = map redact_header headers"

text \<open>What a trace records of the headers of a call: the named ones, empty when they are not set.\<close>

definition traced_headers :: "string list \<Rightarrow> http_call \<Rightarrow> (string \<times> string) list" where
  "traced_headers names call =
     redactHeaders (map (\<lambda>name. (name, case map_of (hc_Header call) name of None \<Rightarrow> [] | Some v \<Rightarrow> v)) names)"

section \<open>OpenAI compatible providers\<close>

datatype openAIProtocolMode = openAIProtocolModeChat | openAIProtocolModeResponses

record usageEstimationConfig =
  uec_Enabled :: bool
  uec_Mode :: string

record OpenAI_provider =
  op_providerName :: string
  op_baseURL :: string
  op_apiKeys :: "string list"
  op_path :: string
  op_mode :: openAIProtocolMode
  op_responsesCompat :: openAIResponsesCompatibility
  op_usageEstimation :: usageEstimationConfig
  op_nextAPIKeyIx :: nat

definition usageEstimationFromCapabilities :: "OutboundCapabilities \<Rightarrow> usageEstimationConfig" where
  "usageEstimationFromCapabilities c = \<lparr>uec_Enabled = ca_UsageEstimation c, uec_Mode = TrimSpace (ca_UsageEstimationMode c)\<rparr>"

definition heuristicEnabled :: "usageEstimationConfig \<Rightarrow> bool" where
  "heuristicEnabled c = (uec_Enabled c \<and> uec_Mode c = ''heuristic'')"

definition no_compatibility :: openAIResponsesCompatibility where
  "no_compatibility = \<lparr>rc_DropMetadata = False, rc_DropContextManagement = False, rc_RewriteAssistantToUser = False,
     rc_DropToolErrorStatus = False, rc_RejectPreviousResponse = False, rc_RejectBuiltinTools = False\<rparr>"

text \<open>\<open>parseHost\<close> is \<open>url.Parse\<close> followed by \<open>Hostname\<close>, \<open>None\<close> for an error.\<close>

definition detectOpenAIResponsesCompatibility :: "(string \<Rightarrow> string option) \<Rightarrow> string \<Rightarrow> openAIResponsesCompatibility" where
  "detectOpenAIResponsesCompatibility parseHost baseURL =
     (case parseHost (TrimSpace baseURL) of
        None \<Rightarrow> no_compatibility
      | Some host \<Rightarrow>
          if lower_text host = ''api.paypal-ai.com''
          then \<lparr>rc_DropMetadata = True, rc_DropContextManagement = True, rc_RewriteAssistantToUser = True, rc_DropToolErrorStatus = True,
                rc_RejectPreviousResponse = True, rc_RejectBuiltinTools = True\<rparr>
          else no_compatibility)"

definition unless_given :: "bool \<Rightarrow> bool option \<Rightarrow> bool" where
  "unless_given d given = (case given of None \<Rightarrow> d | Some b \<Rightarrow> \<not> b)"

definition mergeOpenAIResponsesCompatibility ::
  "openAIResponsesCompatibility \<Rightarrow> OutboundCapabilities \<Rightarrow> openAIResponsesCompatibility" where
  "mergeOpenAIResponsesCompatibility base c =
     base\<lparr>rc_RejectPreviousResponse := unless_given (rc_RejectPreviousResponse base) (ca_ResponsesPreviousResponseID c),
          rc_RejectBuiltinTools := unless_given (rc_RejectBuiltinTools base) (ca_ResponsesBuiltinTools c),
          rc_DropToolErrorStatus := unless_given (rc_DropToolErrorStatus base) (ca_ResponsesToolResultStatusError c),
          rc_RewriteAssistantToUser := unless_given (rc_RewriteAssistantToUser base) (ca_ResponsesAssistantHistoryNative c)\<rparr>"

definition newOpenAIProvider ::
  "(string \<Rightarrow> string option) \<Rightarrow> string \<Rightarrow> string \<Rightarrow> string list \<Rightarrow> OutboundCapabilities \<Rightarrow> string \<Rightarrow> openAIProtocolMode \<Rightarrow> OpenAI_provider" where
  "newOpenAIProvider parseHost name baseURL apiKeys capabilities path mode =
     \<lparr>op_providerName = name, op_baseURL = TrimRightChar baseURL (CHR 0x2F), op_apiKeys = apiKeys, op_path = path, op_mode = mode,
      op_responsesCompat = mergeOpenAIResponsesCompatibility (detectOpenAIResponsesCompatibility parseHost baseURL) capabilities,
      op_usageEstimation = usageEstimationFromCapabilities capabilities, op_nextAPIKeyIx = 0\<rparr>"

definition NewOpenAICompatibleWithCapabilities ::
  "(string \<Rightarrow> string option) \<Rightarrow> string \<Rightarrow> string \<Rightarrow> string list \<Rightarrow> OutboundCapabilities \<Rightarrow> OpenAI_provider" where
  "NewOpenAICompatibleWithCapabilities parseHost name baseURL apiKeys capabilities =
     newOpenAIProvider parseHost name baseURL apiKeys capabilities ''/chat/completions'' openAIProtocolModeChat"

definition NewOpenAIResponsesCompatible ::
  "(string \<Rightarrow> string option) \<Rightarrow> string \<Rightarrow> string \<Rightarrow> string list \<Rightarrow> OutboundCapabilities \<Rightarrow> OpenAI_provider" where
  "NewOpenAIResponsesCompatible parseHost name baseURL apiKeys capabilities =
     newOpenAIProvider parseHost name baseURL apiKeys capabilities ''/responses'' openAIProtocolModeResponses"

definition hasBuiltinResponsesTools :: "ToolDefinition list \<Rightarrow> bool" where
  "hasBuiltinResponsesTools tools =
     list_ex (\<lambda>t. let toolType = TrimSpace (td_Type t) in \<not> (toolType = [] \<or> toolType = ''function'' \<or> toolType = ''custom'')) tools"

definition validateOpenAIResponsesRequest :: "Request \<Rightarrow> openAIResponsesCompatibility \<Rightarrow> go_error option" where
  "validateOpenAIResponsesRequest req cmp =
     (if rc_RejectPreviousResponse cmp \<and> req_PreviousResponseID req \<noteq> []
      then Some (NewCapabilityUnsupportedError (Some (PlainError ''outbound does not support responses previous_response_id continuation'')))
      else if rc_RejectBuiltinTools cmp \<and> hasBuiltinResponsesTools (req_Tools req)
      then Some (NewCapabilityUnsupportedError (Some (PlainError ''outbound does not support responses builtin tools'')))
      else None)"

definition bearer_headers :: "string \<Rightarrow> (string \<times> string) list" where
  "bearer_headers key = [(''Content-Type'', ''application/json''), (''Authorization'', ''Bearer '' @ key)]"

definition completion_call :: "OpenAI_provider \<Rightarrow> raw_json \<Rightarrow> string \<Rightarrow> http_call" where
  "completion_call p payload key = \<lparr>hc_URL = op_baseURL p @ op_path p, hc_Header = bearer_headers key, hc_Body = payload\<rparr>"

definition completion_trace_headers :: "http_call \<Rightarrow> (string \<times> string) list" where
  "completion_trace_headers call = traced_headers [''Content-Type'', ''Authorization''] call"

definition with_estimate :: "bool \<Rightarrow> Request \<Rightarrow> Response \<Rightarrow> Response" where
  "with_estimate enabled req resp =
     (if resp_Usage resp = None \<and> enabled then resp\<lparr>resp_Usage := Some (estimateUsageHeuristically req resp)\<rparr> else resp)"

definition decode_completion :: "upstream_env \<Rightarrow> OpenAI_provider \<Rightarrow> Request \<Rightarrow> string \<Rightarrow> go_error + Response" where
  "decode_completion env p req body =
     (case op_mode p of
        openAIProtocolModeResponses \<Rightarrow>
          (case uv_responses_envelope env body of
             Inl e \<Rightarrow> Inl (transient ''decode response: '' e)
           | Inr resp \<Rightarrow> decodeOpenAIResponsesResponse (uv_json env) resp)
      | openAIProtocolModeChat \<Rightarrow>
          (case uv_chat_envelope env body of
             Inl e \<Rightarrow> Inl (transient ''decode response: '' e)
           | Inr resp \<Rightarrow> map_sum id (with_estimate (heuristicEnabled (op_usageEstimation p)) req) (decodeOpenAIChatResponse resp)))"

text \<open>A call whose answer is read whole: sent unless the URL is invalid, and logged when it is sent.\<close>

definition complete_call ::
  "upstream_env \<Rightarrow> http_call \<Rightarrow> (string \<Rightarrow> go_error + 'a) \<Rightarrow> http_call list \<Rightarrow> (go_error + 'a) \<times> http_call list" where
  "complete_call env call decode made =
     (case uv_newRequest env (hc_URL call) of
        Some e \<Rightarrow> (Inl (wrapf ''build request: '' e), made)
      | None \<Rightarrow>
          (case uv_send env made call of
             Inl e \<Rightarrow> Inl (transient ''send request: '' e)
           | Inr r \<Rightarrow>
               (case up_ReadErr r of
                  Some e \<Rightarrow> Inl (transient ''read response body: '' e)
                | None \<Rightarrow> (case status_error env r (up_Body r) of Some e \<Rightarrow> Inl e | None \<Rightarrow> decode (up_Body r))),
           made @ [call]))"

definition completionWithAPIKey ::
  "upstream_env \<Rightarrow> OpenAI_provider \<Rightarrow> Request \<Rightarrow> raw_json \<Rightarrow> string \<Rightarrow> http_call list \<Rightarrow> (go_error + Response) \<times> http_call list" where
  "completionWithAPIKey env p req payload key made = complete_call env (completion_call p payload key) (decode_completion env p req) made"

text \<open>
  The loop over the keys of \<open>ChatCompletion\<close> and \<open>StreamCompletion\<close>: the remaining offsets, the last error (nil only
  if there are no keys), and the counter of the next key.
\<close>

fun try_keys ::
  "(string \<Rightarrow> http_call list \<Rightarrow> (go_error + 'a) \<times> http_call list) \<Rightarrow> nat \<Rightarrow> nat list \<Rightarrow> go_error option \<Rightarrow> OpenAI_provider \<Rightarrow> http_call list \<Rightarrow>
    (go_error option + 'a) \<times> OpenAI_provider \<times> http_call list" where
  "try_keys attempt start [] lastErr p made = (Inl lastErr, p, made)"
| "try_keys attempt start (offset # offsets) lastErr p made =
     (let n = length (op_apiKeys p); keyIx = (start + offset) mod n
      in case attempt (op_apiKeys p ! keyIx) made of
           (Inr x, made') \<Rightarrow> (Inr x, p\<lparr>op_nextAPIKeyIx := (keyIx + 1) mod n\<rparr>, made')
         | (Inl err, made') \<Rightarrow>
             if NormalizeError (Some err) \<noteq> ErrorKindQuotaExceeded \<or> offset = n - 1 then (Inl (Some err), p, made')
             else try_keys attempt start offsets (Some err) (p\<lparr>op_nextAPIKeyIx := (keyIx + 1) mod n\<rparr>) made')"

definition chat_payload :: "upstream_env \<Rightarrow> Request \<Rightarrow> go_error + raw_json" where
  "chat_payload env req =
     (case uv_marshal_chat env (encodeOpenAIChatRequest (uv_json env) req) of Inl e \<Rightarrow> Inl (wrapf ''marshal request: '' e) | Inr b \<Rightarrow> Inr b)"

definition completion_payload :: "upstream_env \<Rightarrow> Request \<Rightarrow> OpenAI_provider \<Rightarrow> go_error + raw_json" where
  "completion_payload env req p =
     (case op_mode p of
        openAIProtocolModeResponses \<Rightarrow>
          (case validateOpenAIResponsesRequest req (op_responsesCompat p) of
             Some e \<Rightarrow> Inl e
           | None \<Rightarrow>
               (case uv_marshal_responses env (encodeOpenAIResponsesRequest (uv_json env) (op_responsesCompat p) req) of
                  Inl e \<Rightarrow> Inl (wrapf ''marshal request: '' e)
                | Inr b \<Rightarrow> Inr b))
      | openAIProtocolModeChat \<Rightarrow> chat_payload env req)"

definition openai_ChatCompletion ::
  "upstream_env \<Rightarrow> Request \<Rightarrow> OpenAI_provider \<Rightarrow> http_call list \<Rightarrow> (go_error option + Response) \<times> OpenAI_provider \<times> http_call list" where
  "openai_ChatCompletion env req p made =
     (if req_Model req = [] then (Inl (Some (PlainError ''model is required'')), p, made)
      else if op_apiKeys p = [] then (Inl (Some (PlainError ''api key is required'')), p, made)
      else case completion_payload env req p of
             Inl e \<Rightarrow> (Inl (Some e), p, made)
           | Inr payload \<Rightarrow>
               try_keys (completionWithAPIKey env p req payload) (op_nextAPIKeyIx p) [0..<length (op_apiKeys p)] None p made)"

text \<open>Assigning to the nil map of a JSON null panics (\<open>None\<close>); the payload of a struct is never null.\<close>

definition enableStreamOnPayload :: "upstream_env \<Rightarrow> raw_json \<Rightarrow> (go_error + raw_json) option" where
  "enableStreamOnPayload env payload =
     (case uv_object env payload of
        Inl e \<Rightarrow> Some (Inl (wrapf ''decode stream payload: '' e))
      | Inr None \<Rightarrow> None
      | Inr (Some body) \<Rightarrow>
          (case js_marshal (uv_json env) (JObj (AList.update ''stream'' (JBool True) body)) of
             Inl e \<Rightarrow> Some (Inl (wrapf ''encode stream payload: '' (PlainError e)))
           | Inr encoded \<Rightarrow> Some (Inr encoded)))"

definition stream_call :: "OpenAI_provider \<Rightarrow> raw_json \<Rightarrow> string \<Rightarrow> http_call" where
  "stream_call p payload key =
     \<lparr>hc_URL = op_baseURL p @ op_path p, hc_Header = bearer_headers key @ [(''Accept'', ''text/event-stream'')], hc_Body = payload\<rparr>"

definition stream_trace_headers :: "http_call \<Rightarrow> (string \<times> string) list" where
  "stream_trace_headers call = traced_headers [''Content-Type'', ''Authorization'', ''Accept''] call"

text \<open>The answer of a stream call: the events of the stream, or of the complete response when there is no event stream.\<close>

definition decode_stream :: "upstream_env \<Rightarrow> OpenAI_provider \<Rightarrow> Request \<Rightarrow> upstream_reply \<Rightarrow> go_error + StreamEvent list" where
  "decode_stream env p req r =
     (if \<not> Contains (hr_Header (up_Response r) ''Content-Type'') ''text/event-stream''
      then case up_ReadErr r of
             Some e \<Rightarrow> Inl (transient ''read fallback response body: '' e)
           | None \<Rightarrow>
               (case uv_chat_envelope env (up_Body r) of
                  Inl e \<Rightarrow> Inl (transient ''decode fallback response: '' e)
                | Inr resp \<Rightarrow> map_sum id streamResponse (decodeOpenAIChatResponse resp))
      else Inr (decodeOpenAIChatStream (uv_chunk env) (up_Lines r) (up_ScanErr r) req (heuristicEnabled (op_usageEstimation p))))"

text \<open>For the error of a status, an error while reading the body is ignored.\<close>

definition streamWithAPIKey ::
  "upstream_env \<Rightarrow> OpenAI_provider \<Rightarrow> Request \<Rightarrow> raw_json \<Rightarrow> string \<Rightarrow> http_call list \<Rightarrow> (go_error + StreamEvent list) \<times> http_call list" where
  "streamWithAPIKey env p req payload key made =
     (let call = stream_call p payload key
      in case uv_newRequest env (hc_URL call) of
           Some e \<Rightarrow> (Inl (wrapf ''build request: '' e), made)
         | None \<Rightarrow>
             (case uv_send env made call of
                Inl e \<Rightarrow> Inl (transient ''send stream request: '' e)
              | Inr r \<Rightarrow>
                  (case status_error env r (up_Body r) of
                     Some e \<Rightarrow> Inl e
                   | None \<Rightarrow> decode_stream env p req r),
              made @ [call]))"

definition openai_StreamCompletion ::
  "upstream_env \<Rightarrow> Request \<Rightarrow> OpenAI_provider \<Rightarrow> http_call list \<Rightarrow>
    ((go_error option + StreamEvent list) \<times> OpenAI_provider \<times> http_call list) option" where
  "openai_StreamCompletion env req p made =
     (case op_mode p of
        openAIProtocolModeResponses \<Rightarrow>
          (case openai_ChatCompletion env req p made of (res, p', made') \<Rightarrow> Some (map_sum id streamResponse res, p', made'))
      | openAIProtocolModeChat \<Rightarrow>
          if req_Model req = [] then Some (Inl (Some (PlainError ''model is required'')), p, made)
          else if op_apiKeys p = [] then Some (Inl (Some (PlainError ''api key is required'')), p, made)
          else case chat_payload env req of
                 Inl e \<Rightarrow> Some (Inl (Some e), p, made)
               | Inr payload \<Rightarrow>
                   (case enableStreamOnPayload env payload of
                      None \<Rightarrow> None
                    | Some (Inl e) \<Rightarrow> Some (Inl (Some e), p, made)
                    | Some (Inr streamPayload) \<Rightarrow>
                        (case try_keys (streamWithAPIKey env p req streamPayload) (op_nextAPIKeyIx p) [0..<length (op_apiKeys p)] None p made of
                           (Inr events, p1, made1) \<Rightarrow> Some (Inr events, p1, made1)
                         | (Inl lastErr, p1, made1) \<Rightarrow>
                             (case openai_ChatCompletion env req p1 made1 of
                                (Inr resp, p2, made2) \<Rightarrow> Some (Inr (streamResponse resp), p2, made2)
                              | (Inl err, p2, made2) \<Rightarrow> Some (Inl (if lastErr \<noteq> None then lastErr else err), p2, made2)))))"

section \<open>Credentials\<close>

text \<open>
  \<open>Static\<close>: \<open>StaticCredentialSource\<close> (an empty value has no credential). \<open>OAuth\<close>: \<open>OAuthCredentialSource\<close> with a manager, its
  id and the flag \<open>invalidated\<close>.
\<close>

datatype credential_source = StaticSource string | OAuthSource string bool

definition oauth_Credential :: "upstream_env \<Rightarrow> http_call list \<Rightarrow> string \<Rightarrow> bool \<Rightarrow> (go_error + string) \<times> bool" where
  "oauth_Credential env made i invalidated = (if invalidated then uv_refresh env made i else uv_credential env made i, False)"

fun source_Credential :: "upstream_env \<Rightarrow> http_call list \<Rightarrow> credential_source \<Rightarrow> (go_error + string) \<times> credential_source" where
  "source_Credential env made (StaticSource v) = (if v = [] then Inl (PlainError ''api key is required'') else Inr v, StaticSource v)"
| "source_Credential env made (OAuthSource i invalidated) =
     map_prod id (OAuthSource i) (oauth_Credential env made i invalidated)"

fun source_Invalidate :: "credential_source \<Rightarrow> credential_source" where
  "source_Invalidate (StaticSource v) = StaticSource v"
| "source_Invalidate (OAuthSource i invalidated) = OAuthSource i True"

text \<open>A call with a credential, repeated once with a new one after an authentication failure.\<close>

definition with_credential ::
  "upstream_env \<Rightarrow> (string \<Rightarrow> http_call list \<Rightarrow> (go_error option + Response) \<times> http_call list) \<Rightarrow> credential_source \<Rightarrow> http_call list \<Rightarrow>
    (go_error option + Response) \<times> credential_source \<times> http_call list" where
  "with_credential env call source made =
     (case source_Credential env made source of
        (Inl e, source1) \<Rightarrow> (Inl (Some e), source1, made)
      | (Inr credential, source1) \<Rightarrow>
          (case call credential made of
             (res, made1) \<Rightarrow>
               if (case res of Inl err \<Rightarrow> NormalizeError err | Inr _ \<Rightarrow> NormalizeError None) \<noteq> ErrorKindAuthFailed then (res, source1, made1)
               else (case source_Credential env made1 (source_Invalidate source1) of
                       (Inl e, source2) \<Rightarrow> (Inl (Some e), source2, made1)
                     | (Inr credential2, source2) \<Rightarrow> (case call credential2 made1 of (res2, made2) \<Rightarrow> (res2, source2, made2)))))"

section \<open>Anthropic\<close>

record Anthropic_provider =
  ap_providerName :: string
  ap_baseURL :: string
  ap_apiKeys :: "string list"
  ap_credentialSource :: "credential_source option"
  ap_usageEstimation :: usageEstimationConfig

definition newAnthropicMessagesProvider :: "string \<Rightarrow> string \<Rightarrow> string list \<Rightarrow> OutboundCapabilities \<Rightarrow> Anthropic_provider" where
  "newAnthropicMessagesProvider name baseURL apiKeys capabilities =
     \<lparr>ap_providerName = name, ap_baseURL = TrimRightChar baseURL (CHR 0x2F), ap_apiKeys = apiKeys, ap_credentialSource = None,
      ap_usageEstimation = usageEstimationFromCapabilities capabilities\<rparr>"

definition NewAnthropicMessagesOAuthCompatible :: "string \<Rightarrow> string \<Rightarrow> credential_source option \<Rightarrow> OutboundCapabilities \<Rightarrow> Anthropic_provider" where
  "NewAnthropicMessagesOAuthCompatible name baseURL source capabilities =
     (newAnthropicMessagesProvider name baseURL [] capabilities)\<lparr>ap_credentialSource := source\<rparr>"

definition anthropic_upstream_call :: "Anthropic_provider \<Rightarrow> raw_json \<Rightarrow> string \<Rightarrow> bool \<Rightarrow> http_call" where
  "anthropic_upstream_call p payload credential oauth =
     \<lparr>hc_URL = ap_baseURL p @ ''/messages'',
      hc_Header = [(''Content-Type'', ''application/json''),
                   if oauth then (''Authorization'', ''Bearer '' @ credential) else (''x-api-key'', credential),
                   (''anthropic-version'', ''2023-06-01'')],
      hc_Body = payload\<rparr>"

definition anthropic_trace_headers :: "http_call \<Rightarrow> (string \<times> string) list" where
  "anthropic_trace_headers call = traced_headers [''Content-Type'', ''x-api-key'', ''anthropic-version''] call"

definition completionWithCredential ::
  "upstream_env \<Rightarrow> Anthropic_provider \<Rightarrow> Request \<Rightarrow> raw_json \<Rightarrow> bool \<Rightarrow> string \<Rightarrow> http_call list \<Rightarrow> (go_error option + Response) \<times> http_call list" where
  "completionWithCredential env p req payload oauth credential made =
     map_prod (map_sum Some id) id
       (complete_call env (anthropic_upstream_call p payload credential oauth)
          (\<lambda>body. case uv_anthropic_envelope env body of
                    Inl e \<Rightarrow> Inl (transient ''decode response: '' e)
                  | Inr resp \<Rightarrow> map_sum id (with_estimate (heuristicEnabled (ap_usageEstimation p)) req)
                                  (decodeAnthropicMessagesResponse (uv_json env) resp))
          made)"

definition anthropic_ChatCompletion ::
  "upstream_env \<Rightarrow> Request \<Rightarrow> Anthropic_provider \<Rightarrow> http_call list \<Rightarrow> (go_error option + Response) \<times> Anthropic_provider \<times> http_call list" where
  "anthropic_ChatCompletion env req p made =
     (if req_Model req = [] then (Inl (Some (PlainError ''model is required'')), p, made)
      else if ap_apiKeys p = [] \<and> ap_credentialSource p = None then (Inl (Some (PlainError ''api key is required'')), p, made)
      else case uv_marshal_anthropic env (encodeAnthropicMessagesRequest (uv_json env) req) of
             Inl e \<Rightarrow> (Inl (Some (wrapf ''marshal request: '' e)), p, made)
           | Inr payload \<Rightarrow>
               (case ap_credentialSource p of
                  Some source \<Rightarrow>
                    (case with_credential env (completionWithCredential env p req payload True) source made of
                       (res, source', made') \<Rightarrow> (res, p\<lparr>ap_credentialSource := Some source'\<rparr>, made'))
                | None \<Rightarrow>
                    (case completionWithCredential env p req payload False (hd (ap_apiKeys p)) made of (res, made') \<Rightarrow> (res, p, made'))))"

definition anthropic_StreamCompletion ::
  "upstream_env \<Rightarrow> Request \<Rightarrow> Anthropic_provider \<Rightarrow> http_call list \<Rightarrow> (go_error option + StreamEvent list) \<times> Anthropic_provider \<times> http_call list" where
  "anthropic_StreamCompletion env req p made =
     map_prod (map_sum id streamResponse) id (anthropic_ChatCompletion env (req\<lparr>req_Stream := False\<rparr>) p made)"

section \<open>Codex and mock\<close>

definition codexConsumerBaseURL :: string where
  "codexConsumerBaseURL = ''https://chatgpt.com/backend-api/codex''"

definition no_outbound_capabilities :: OutboundCapabilities where
  "no_outbound_capabilities = \<lparr>ca_ResponsesPreviousResponseID = None, ca_ResponsesBuiltinTools = None, ca_ResponsesToolResultStatusError = None,
     ca_ResponsesAssistantHistoryNative = None, ca_UsageEstimation = False, ca_UsageEstimationMode = []\<rparr>"

definition codex_call ::
  "(string \<Rightarrow> string option) \<Rightarrow> upstream_env \<Rightarrow> string \<Rightarrow> Request \<Rightarrow> string \<Rightarrow> http_call list \<Rightarrow> (go_error option + Response) \<times> http_call list" where
  "codex_call parseHost env name req credential made =
     (case openai_ChatCompletion env req (NewOpenAIResponsesCompatible parseHost name codexConsumerBaseURL [credential] no_outbound_capabilities) made of
        (res, _, made') \<Rightarrow> (res, made'))"

definition codex_ChatCompletion ::
  "(string \<Rightarrow> string option) \<Rightarrow> upstream_env \<Rightarrow> string \<Rightarrow> Request \<Rightarrow> credential_source option \<Rightarrow> http_call list \<Rightarrow>
    (go_error option + Response) \<times> credential_source option \<times> http_call list" where
  "codex_ChatCompletion parseHost env name req source made =
     (case source of
        None \<Rightarrow> (Inl (Some (PlainError ''codex OAuth credential is required'')), None, made)
      | Some s \<Rightarrow>
          (case with_credential env (codex_call parseHost env name req) s made of (res, s', made') \<Rightarrow> (res, Some s', made')))"

text \<open>\<open>StreamCompletion\<close> of Codex has no stream.\<close>

definition codex_StreamCompletion :: "go_error + StreamEvent list" where
  "codex_StreamCompletion = Inl (PlainError ''codex OAuth streaming is not supported'')"

definition mock_ChatCompletion :: "Request \<Rightarrow> go_error + Response" where
  "mock_ChatCompletion req =
     (if req_Model req = [] then Inl (PlainError ''model is required'')
      else Inr \<lparr>resp_ID = ''chatcmpl-mock'', resp_Object = ''chat.completion'', resp_Model = req_Model req,
                resp_Message = response_message MessageRoleAssistant [text_part ''syrogo mock response''] [],
                resp_FinishReason = FinishReasonStop, resp_Usage = None\<rparr>)"

definition mock_StreamCompletion :: "Request \<Rightarrow> go_error + StreamEvent list" where
  "mock_StreamCompletion req = map_sum id streamResponse (mock_ChatCompletion req)"

section \<open>The registry of factories\<close>

datatype provider_value = MockValue string | OpenAIValue OpenAI_provider | AnthropicValue Anthropic_provider

type_synonym Factory = "string \<Rightarrow> string \<Rightarrow> string list \<Rightarrow> OutboundCapabilities \<Rightarrow> go_error + provider_value"

record FactoryRegistry =
  freg_factories :: "(string \<times> Factory) list"

definition NewFactoryRegistry :: FactoryRegistry where
  "NewFactoryRegistry = \<lparr>freg_factories = []\<rparr>"

definition factory_Register :: "string \<Rightarrow> Factory option \<Rightarrow> FactoryRegistry \<Rightarrow> string + FactoryRegistry" where
  "factory_Register protocol factory r =
     (if protocol = [] then Inl ''provider protocol is required''
      else case factory of
             None \<Rightarrow> Inl (''provider factory '' @ quoted protocol @ '' is nil'')
           | Some f \<Rightarrow>
               if map_of (freg_factories r) protocol \<noteq> None then Inl (''provider factory '' @ quoted protocol @ '' already registered'')
               else Inr (r\<lparr>freg_factories := AList.update protocol f (freg_factories r)\<rparr>))"

definition factory_New ::
  "string \<Rightarrow> string \<Rightarrow> string \<Rightarrow> string \<Rightarrow> OutboundCapabilities \<Rightarrow> FactoryRegistry \<Rightarrow> go_error + provider_value" where
  "factory_New protocol name endpoint authToken capabilities r =
     (case map_of (freg_factories r) protocol of
        None \<Rightarrow> Inl (PlainError (''unsupported provider protocol '' @ quoted protocol))
      | Some factory \<Rightarrow> factory name endpoint (if authToken \<noteq> [] then [authToken] else []) capabilities)"

definition factory_Has :: "string \<Rightarrow> FactoryRegistry \<Rightarrow> bool" where
  "factory_Has protocol r = (map_of (freg_factories r) protocol \<noteq> None)"

definition factory_Protocols :: "FactoryRegistry \<Rightarrow> string list" where
  "factory_Protocols r = sort (map fst (freg_factories r))"

definition default_factories :: "(string \<Rightarrow> string option) \<Rightarrow> (string \<times> Factory) list" where
  "default_factories parseHost =
     [(''mock'', \<lambda>name _ _ _. Inr (MockValue name)),
      (''openai_chat'', \<lambda>name endpoint apiKeys c. Inr (OpenAIValue (NewOpenAICompatibleWithCapabilities parseHost name endpoint apiKeys c))),
      (''openai_responses'', \<lambda>name endpoint apiKeys c. Inr (OpenAIValue (NewOpenAIResponsesCompatible parseHost name endpoint apiKeys c))),
      (''anthropic_messages'', \<lambda>name endpoint apiKeys c. Inr (AnthropicValue (newAnthropicMessagesProvider name endpoint apiKeys c)))]"

text \<open>\<open>MustRegister\<close> panics on an error: \<open>None\<close>.\<close>

definition newDefaultFactoryRegistry :: "(string \<Rightarrow> string option) \<Rightarrow> FactoryRegistry option" where
  "newDefaultFactoryRegistry parseHost =
     fold (\<lambda>(protocol, f) r. case r of
             None \<Rightarrow> None
           | Some r0 \<Rightarrow> (case factory_Register protocol (Some f) r0 of Inl _ \<Rightarrow> None | Inr r1 \<Rightarrow> Some r1))
       (default_factories parseHost) (Some NewFactoryRegistry)"

end
