(* ===== verification/Provider_Laws.thy ===== *)
theory Provider_Laws
  imports Provider_Clients Stream_Laws
begin

text \<open>
  Properties of the providers: what a decoded answer is, which tool calls and results an encoded request carries, how many calls
  an operation makes and with which keys, and what of a call a trace shows.
\<close>

section \<open>Answers\<close>

text \<open>A decoded message has something in it, and no empty part.\<close>

definition part_filled :: "ContentPart \<Rightarrow> bool" where
  "part_filled p \<longleftrightarrow> cp_Type p = ContentPartTypeText \<and> cp_Text p \<noteq> [] \<or> cp_Type p = ContentPartTypeJSON \<and> cp_Data p \<noteq> []"

definition usable :: "go_error + Response \<Rightarrow> bool" where
  "usable r =
     (case r of
        Inl e \<Rightarrow> NormalizeError (Some e) = ErrorKindFatal
      | Inr resp \<Rightarrow> (msg_Parts (resp_Message resp) \<noteq> [] \<or> msg_ToolCalls (resp_Message resp) \<noteq> []) \<and>
          list_all part_filled (msg_Parts (resp_Message resp)))"

lemma fatal_kind [simp]: "NormalizeError (Some (fatal m)) = ErrorKindFatal"
  by (simp add: fatal_def NewFatalError_def)

lemma filled_parts:
  "t \<noteq> [] \<Longrightarrow> part_filled (text_part t)" "list_all part_filled (json_payload_part v t)" "list_all part_filled (output_part p)"
  "list_all part_filled (answer_part b)"
  by (auto simp: part_filled_def text_part_def json_part_def json_payload_part_def output_part_def answer_part_def Let_def)

lemma output_step_filled: "list_all part_filled (msg_Parts m) \<Longrightarrow> list_all part_filled (msg_Parts (output_step J i m))"
  using filled_parts(3) by (auto simp: output_step_def list_all_iff)

lemma output_fold_filled:
  "list_all part_filled (msg_Parts m) \<Longrightarrow> list_all part_filled (msg_Parts (fold (output_step J) items m))"
  by (induction items arbitrary: m) (simp_all add: output_step_filled)

section \<open>Requests\<close>

text \<open>The tool calls and tool results of a conversation, by id and in order, in the runtime model and in each protocol.\<close>

datatype tool_ref = CallRef string | ResultRef string

definition message_refs :: "Message \<Rightarrow> tool_ref list" where
  "message_refs m = (if msg_Role m = MessageRoleTool then [ResultRef (msg_ToolCallID m)] else map (CallRef \<circ> tc_ID) (msg_ToolCalls m))"

definition chat_refs :: "openAIChatMessage \<Rightarrow> tool_ref list" where
  "chat_refs m = (if ocm_Role m = MessageRoleTool then [ResultRef (ocm_ToolCallID m)] else map (CallRef \<circ> oac_ID) (ocm_ToolCalls m))"

definition item_refs :: "upstream_input_item \<Rightarrow> tool_ref list" where
  "item_refs i =
     (if oii_Type i = ''function_call'' \<or> oii_Type i = ''custom_tool_call'' then [CallRef (oii_CallID i)]
      else if oii_Type i = ''function_call_output'' \<or> oii_Type i = ''custom_tool_call_output'' then [ResultRef (oii_CallID i)]
      else [])"

definition block_refs :: "anthropicContentBlock \<Rightarrow> tool_ref list" where
  "block_refs b =
     (if acb_Type b = ''tool_use'' then [CallRef (acb_ID b)]
      else if acb_Type b = ''tool_result'' then [ResultRef (acb_ToolUseID b)] else [])"

lemma encode_chat_refs: "chat_refs (encode_chat_message J m) = message_refs m"
  by (simp add: chat_refs_def message_refs_def encode_chat_message_def encode_chat_call_def comp_def)

lemma call_item_refs: "item_refs (call_item J c) = [CallRef (tc_ID c)]"
  by (cases "tc_Type c = ''custom''") (simp_all add: item_refs_def call_item_def zero_item_def)

lemma result_item_refs: "item_refs (result_item J cmp m) = [ResultRef (msg_ToolCallID m)]"
  by (cases "msg_ToolCallType m = ''custom''") (simp_all add: item_refs_def result_item_def zero_item_def)

lemma message_item_refs: "item_refs (message_item cmp m) = []"
  by (simp add: item_refs_def message_item_def zero_item_def Let_def)

lemma encode_item_refs: "concat (map item_refs (message_items J cmp m)) = message_refs m"
proof -
  have "concat (map item_refs (map (call_item J) cs)) = map (CallRef \<circ> tc_ID) cs" for cs
    by (induction cs) (simp_all add: call_item_refs)
  then show ?thesis
    by (simp add: message_items_def message_refs_def result_item_refs message_item_refs)
qed

lemma request_part_refs: "b \<in> set (anthropic_request_part J p) \<Longrightarrow> block_refs b = []"
  by (auto simp: anthropic_request_part_def block_refs_def zero_anthropic_block_def Let_def split: sum.splits if_splits)

lemma encode_block_refs:
  "msg_Role m = MessageRoleSystem \<Longrightarrow> msg_ToolCalls m = [] \<Longrightarrow> concat (map block_refs (concat (map am_Content (anthropic_request_message J m)))) = message_refs m"
  "msg_Role m \<noteq> MessageRoleSystem \<Longrightarrow> concat (map block_refs (concat (map am_Content (anthropic_request_message J m)))) = message_refs m"
proof -
  have parts: "concat (map block_refs (concat (map (anthropic_request_part J) ps))) = []" for ps
    by (auto simp: request_part_refs)
  have calls: "concat (map block_refs (map (anthropic_request_call J) cs)) = map (CallRef \<circ> tc_ID) cs" for cs
    by (induction cs) (simp_all add: block_refs_def anthropic_request_call_def zero_anthropic_block_def)
  show "msg_Role m = MessageRoleSystem \<Longrightarrow> msg_ToolCalls m = [] \<Longrightarrow> concat (map block_refs (concat (map am_Content (anthropic_request_message J m)))) = message_refs m"
    by (simp add: anthropic_request_message_def message_refs_def)
  let ?content = "concat (map (anthropic_request_part J) (msg_Parts m)) @ map (anthropic_request_call J) (msg_ToolCalls m)"
  have content: "concat (map block_refs ?content) = map (CallRef \<circ> tc_ID) (msg_ToolCalls m)"
    unfolding map_append concat_append parts calls by simp
  show "msg_Role m \<noteq> MessageRoleSystem \<Longrightarrow> concat (map block_refs (concat (map am_Content (anthropic_request_message J m)))) = message_refs m"
  proof (cases "msg_Role m = MessageRoleTool")
    case True
    then show ?thesis by (simp add: anthropic_request_message_def message_refs_def block_refs_def)
  next
    case False
    moreover assume "msg_Role m \<noteq> MessageRoleSystem"
    ultimately show ?thesis
      using content unfolding anthropic_request_message_def message_refs_def Let_def by (cases "?content = []") auto
  qed
qed

section \<open>Calls and keys\<close>

text \<open>\<open>sends n made made'\<close>: at most \<open>n\<close> calls were made after those of \<open>made\<close>.\<close>

definition sends :: "nat \<Rightarrow> http_call list \<Rightarrow> http_call list \<Rightarrow> bool" where
  "sends n made made' \<longleftrightarrow> (\<exists>sent. made' = made @ sent \<and> length sent \<le> n)"

lemma sends_none [simp]: "sends n made made"
  by (simp add: sends_def)

lemma sends_one [simp]: "sends (Suc n) made (made @ [call])"
  by (simp add: sends_def)

lemma sends_trans: "sends a made made1 \<Longrightarrow> sends b made1 made2 \<Longrightarrow> a + b \<le> n \<Longrightarrow> sends n made made2"
  by (fastforce simp: sends_def)

lemma sends_mono: "sends m made made' \<Longrightarrow> m \<le> n \<Longrightarrow> sends n made made'"
  by (fastforce simp: sends_def)

text \<open>An attempt makes at most one call.\<close>

lemma complete_call_once: "sends 1 made (snd (complete_call env call decode made))"
  by (simp add: complete_call_def split: option.split)

lemma stream_call_once: "sends 1 made (snd (streamWithAPIKey env p req payload key made))"
  by (simp add: streamWithAPIKey_def Let_def split: option.split)

lemma complete_call_sent:
  "uv_newRequest env (hc_URL call) = None \<Longrightarrow> snd (complete_call env call decode made) = made @ [call]"
  by (simp add: complete_call_def)

lemma try_keys_keeps:
  "try_keys attempt start offsets lastErr p made = (res, p', made') \<Longrightarrow> op_apiKeys p' = op_apiKeys p"
  by (induction attempt start offsets lastErr p made rule: try_keys.induct)
    (auto simp: Let_def split: prod.splits sum.splits if_splits)

lemma try_keys_bound:
  assumes "\<And>key made. sends 1 made (snd (attempt key made))"
  shows "sends (length offsets) made (snd (snd (try_keys attempt start offsets lastErr p made)))"
proof (induction offsets arbitrary: lastErr p made)
  case (Cons offset offsets)
  let ?key = "op_apiKeys p ! ((start + offset) mod length (op_apiKeys p))"
  obtain res made1 where at_key: "attempt ?key made = (res, made1)" by fastforce
  then have first: "sends 1 made made1" using assms [of made ?key] by simp
  then have "sends (length (offset # offsets)) made made1"
    and "\<And>err p1. sends (length (offset # offsets)) made (snd (snd (try_keys attempt start offsets (Some err) p1 made1)))"
    by (auto intro: sends_mono sends_trans [OF first Cons.IH])
  then show ?case using at_key by (cases res) (simp_all add: Let_def)
qed simp

text \<open>
  The keys from offset \<open>k\<close> on are tried in turn. Every key before the last one that was tried had a quota error, the last one gave the
  result, and the loop ends with a quota error only at the last key of all.
\<close>

definition tried :: "(string \<Rightarrow> http_call) \<Rightarrow> string list \<Rightarrow> nat \<Rightarrow> http_call list \<Rightarrow> nat \<Rightarrow> nat \<Rightarrow> http_call list" where
  "tried mk keys start made k i = made @ map (\<lambda>j. mk (keys ! ((start + j) mod length keys))) [k..<i]"

definition turns ::
  "(string \<Rightarrow> http_call list \<Rightarrow> (go_error + 'a) \<times> http_call list) \<Rightarrow> (string \<Rightarrow> http_call) \<Rightarrow> string list \<Rightarrow> nat \<Rightarrow> http_call list \<Rightarrow> nat \<Rightarrow> nat \<Rightarrow>
    go_error option + 'a \<Rightarrow> nat \<Rightarrow> bool" where
  "turns attempt mk keys start made k n res next \<longleftrightarrow>
     (let answer = (\<lambda>i. fst (attempt (keys ! ((start + i) mod length keys)) (tried mk keys start made k i)))
      in (\<forall>i \<in> {k..<n - 1}. \<exists>e. answer i = Inl e \<and> NormalizeError (Some e) = ErrorKindQuotaExceeded) \<and>
         (case res of
            Inr x \<Rightarrow> answer (n - 1) = Inr x \<and> next = (start + n) mod length keys
          | Inl err \<Rightarrow> \<exists>e. err = Some e \<and> answer (n - 1) = Inl e \<and> next mod length keys = (start + (n - 1)) mod length keys \<and>
              (NormalizeError (Some e) = ErrorKindQuotaExceeded \<longrightarrow> n = length keys)))"

lemma turns_Cons:
  assumes "turns attempt mk keys start (made @ [mk (keys ! ((start + k) mod length keys))]) (Suc k) n res next" "Suc k < n"
    and "fst (attempt (keys ! ((start + k) mod length keys)) made) = Inl e" "NormalizeError (Some e) = ErrorKindQuotaExceeded"
  shows "turns attempt mk keys start made k n res next"
proof -
  have later: "tried mk keys start (made @ [mk (keys ! ((start + k) mod length keys))]) (Suc k) i = tried mk keys start made k i" if "k < i" for i
    using that by (simp add: tried_def upt_conv_Cons)
  have first: "tried mk keys start made k k = made" by (simp add: tried_def)
  have range: "{k..<n - 1} = insert k {Suc k..<n - 1}" using assms(2) by auto
  show ?thesis
    using assms(1,2) unfolding turns_def Let_def range by (auto simp: later first assms(3,4) split: sum.splits)
qed

lemma try_keys_turns:
  assumes "\<And>key made. snd (attempt key made) = made @ [mk key]" and "k < length (op_apiKeys p)"
    and "op_nextAPIKeyIx p mod length (op_apiKeys p) = (start + k) mod length (op_apiKeys p)"
    and "try_keys attempt start [k..<length (op_apiKeys p)] lastErr p made = (res, p', made')"
  shows "\<exists>n. k < n \<and> n \<le> length (op_apiKeys p) \<and> made' = tried mk (op_apiKeys p) start made k n \<and>
    turns attempt mk (op_apiKeys p) start made k n res (op_nextAPIKeyIx p')"
  using assms(2-)
proof (induction "length (op_apiKeys p) - k" arbitrary: k lastErr p made)
  case (Suc d)
  let ?len = "length (op_apiKeys p)" and ?key = "op_apiKeys p ! ((start + k) mod length (op_apiKeys p))"
  obtain r where at_key: "attempt ?key made = (r, made @ [mk ?key])" using assms(1) [of ?key made] by (cases "attempt ?key made") auto
  have unfolded: "[k..<?len] = k # [Suc k..<?len]" using Suc.prems(1) by (simp add: upt_conv_Cons)
  show ?case
  proof (cases "\<exists>err. r = Inl err \<and> NormalizeError (Some err) = ErrorKindQuotaExceeded \<and> k \<noteq> ?len - 1")
    case False
    then show ?thesis
      using Suc.prems at_key unfolding unfolded
      by (intro exI [of _ "Suc k"]) (cases r; auto simp: Let_def mod_Suc_eq turns_def tried_def split: if_splits)
  next
    case True
    obtain err where err: "r = Inl err" "NormalizeError (Some err) = ErrorKindQuotaExceeded" "k \<noteq> ?len - 1" using True by auto
    obtain p1 where p1: "op_apiKeys p1 = op_apiKeys p" "op_nextAPIKeyIx p1 = ((start + k) mod ?len + 1) mod ?len"
      "try_keys attempt start [Suc k..<?len] (Some err) p1 (made @ [mk ?key]) = (res, p', made')"
      using Suc.prems(3) at_key err unfolding unfolded try_keys.simps Let_def
      by (intro that [of "p\<lparr>op_nextAPIKeyIx := ((start + k) mod ?len + 1) mod ?len\<rparr>"]) simp_all
    have more: "d = length (op_apiKeys p1) - Suc k" "Suc k < length (op_apiKeys p1)" using Suc.hyps(2) Suc.prems(1) err p1 by simp_all
    have at: "op_nextAPIKeyIx p1 mod length (op_apiKeys p1) = (start + Suc k) mod length (op_apiKeys p1)"
      using p1 by (simp add: mod_Suc_eq)
    have again: "try_keys attempt start [Suc k..<length (op_apiKeys p1)] (Some err) p1 (made @ [mk ?key]) = (res, p', made')"
      using p1 by simp
    obtain n where n: "Suc k < n" "n \<le> ?len" "made' = tried mk (op_apiKeys p) start (made @ [mk ?key]) (Suc k) n"
      "turns attempt mk (op_apiKeys p) start (made @ [mk ?key]) (Suc k) n res (op_nextAPIKeyIx p')"
      using Suc.hyps(1) [OF more at again] unfolding p1(1) by blast
    moreover have "turns attempt mk (op_apiKeys p) start made k n res (op_nextAPIKeyIx p')"
      using turns_Cons [OF n(4,1)] at_key err by simp
    ultimately show ?thesis by (intro exI [of _ n]) (simp add: tried_def upt_conv_Cons)
  qed
qed simp

lemma take_rotate: "n \<le> length xs \<Longrightarrow> map (\<lambda>i. xs ! ((start + i) mod length xs)) [0..<n] = take n (rotate start xs)"
  by (rule nth_equalityI) (simp_all add: nth_rotate)

lemma chat_completion_bound: "sends (length (op_apiKeys p)) made (snd (snd (openai_ChatCompletion env req p made)))"
proof -
  have "sends 1 made (snd (completionWithAPIKey env p req payload key made))" for payload key made
    unfolding completionWithAPIKey_def by (rule complete_call_once)
  then have "sends (length (op_apiKeys p)) made
      (snd (snd (try_keys (completionWithAPIKey env p req payload) start [0..<length (op_apiKeys p)] e p made)))" for payload start e
    using try_keys_bound [of "completionWithAPIKey env p req payload" "[0..<length (op_apiKeys p)]"] by simp
  then show ?thesis by (simp add: openai_ChatCompletion_def split: sum.split)
qed

lemma stream_keys_bound:
  "sends (length (op_apiKeys p)) made (snd (snd (try_keys (streamWithAPIKey env p req payload) start [0..<length (op_apiKeys p)] e p made)))"
  using try_keys_bound [of "streamWithAPIKey env p req payload" "[0..<length (op_apiKeys p)]"] stream_call_once by simp

lemma stream_completion_bound:
  assumes "openai_StreamCompletion env req p made = Some (res, p', made')"
  shows "sends (2 * length (op_apiKeys p)) made made'"
proof (cases "op_mode p")
  case openAIProtocolModeResponses
  then show ?thesis
    using assms sends_mono [OF chat_completion_bound [of p made env req], of "2 * length (op_apiKeys p)"]
    by (auto simp: openai_StreamCompletion_def split: prod.splits)
next
  case openAIProtocolModeChat
  have after: "sends (2 * length (op_apiKeys p)) made made1"
    "sends (2 * length (op_apiKeys p)) made (snd (snd (openai_ChatCompletion env req p1 made1)))"
    if "try_keys (streamWithAPIKey env p req payload) (op_nextAPIKeyIx p) [0..<length (op_apiKeys p)] None p made = (r, p1, made1)"
    for payload r p1 made1
  proof -
    have first: "sends (length (op_apiKeys p)) made made1"
      using stream_keys_bound [of p made env req payload "op_nextAPIKeyIx p" None] that by simp
    then show "sends (2 * length (op_apiKeys p)) made made1" by (rule sends_mono) simp
    show "sends (2 * length (op_apiKeys p)) made (snd (snd (openai_ChatCompletion env req p1 made1)))"
      using sends_trans [OF first chat_completion_bound] try_keys_keeps [OF that] by simp
  qed
  then show ?thesis
    using assms openAIProtocolModeChat unfolding openai_StreamCompletion_def
    by (fastforce split: sum.splits option.splits if_splits prod.splits)
qed

lemma with_credential_bound:
  assumes "\<And>credential made. sends 1 made (snd (call credential made))"
  shows "sends 2 made (snd (snd (with_credential env call source made)))"
proof -
  have once: "sends 1 made made1" if "call credential made = (res, made1)" for credential res made made1
    using assms [of made credential] that by simp
  have "sends 2 made made2" if "call c1 made = (res1, made1)" "call c2 made1 = (res2, made2)" for c1 c2 res1 res2 made1 made2
    using sends_trans [OF once [OF that(1)] once [OF that(2)]] by simp
  moreover have "sends 2 made made1" if "call credential made = (res, made1)" for credential res made1
    using sends_mono [OF once [OF that]] by simp
  ultimately show ?thesis
    unfolding with_credential_def by (auto split: prod.split sum.split)
qed

lemma codex_call_once: "sends 1 made (snd (codex_call parseHost env name req credential made))"
  using chat_completion_bound [of "NewOpenAIResponsesCompatible parseHost name codexConsumerBaseURL [credential] no_outbound_capabilities"]
  by (simp add: codex_call_def NewOpenAIResponsesCompatible_def newOpenAIProvider_def split: prod.split)
    (metis snd_conv)

lemma anthropic_call_once: "sends 1 made (snd (completionWithCredential env p req payload oauth credential made))"
  unfolding completionWithCredential_def using complete_call_once by simp

section \<open>Properties\<close>

text \<open>C24: Whatever an upstream answers in any of the three protocols, decoding it gives a fatal error or a response that is not empty:
  it has a part or a tool call, and every part has a text or data.\<close>

theorem decoded_answers_usable:
  "usable (decodeOpenAIChatResponse chat) \<and> usable (decodeOpenAIResponsesResponse J responses) \<and> usable (decodeAnthropicMessagesResponse J messages)"
proof (intro conjI)
  show "usable (decodeOpenAIChatResponse chat)"
    by (auto simp: usable_def decodeOpenAIChatResponse_def response_message_def Let_def filled_parts split: list.split)
  show "usable (decodeOpenAIResponsesResponse J responses)"
    using output_fold_filled [of "response_message MessageRoleAssistant [] []" J "ore_Output responses"]
    by (auto simp: usable_def decodeOpenAIResponsesResponse_def response_message_def Let_def)
  have "list_all part_filled (concat (map answer_part bs))" for bs
    by (induction bs) (simp_all add: filled_parts)
  then show "usable (decodeAnthropicMessagesResponse J messages)"
    by (auto simp: usable_def decodeAnthropicMessagesResponse_def response_message_def Let_def)
qed

text \<open>C23: The three upstream protocols carry the same tool exchange: the ids of the tool calls and of the tool results appear in each
  payload in the order of the conversation, none lost and none added, provided that no system message has tool calls.\<close>

theorem tool_exchange_preserved:
  assumes "\<forall>m \<in> set (req_Messages req). msg_Role m = MessageRoleSystem \<longrightarrow> msg_ToolCalls m = []"
  shows "concat (map chat_refs (ocq_Messages (encodeOpenAIChatRequest J req))) = concat (map message_refs (req_Messages req)) \<and>
    concat (map item_refs (orq_Input (encodeOpenAIResponsesRequest J cmp req))) = concat (map message_refs (req_Messages req)) \<and>
    concat (map block_refs (concat (map am_Content (amr_Messages (encodeAnthropicMessagesRequest J req))))) =
      concat (map message_refs (req_Messages req))"
proof (intro conjI)
  show "concat (map chat_refs (ocq_Messages (encodeOpenAIChatRequest J req))) = concat (map message_refs (req_Messages req))"
    by (simp add: encodeOpenAIChatRequest_def Let_def encode_chat_refs comp_def) (simp add: chat_refs_def)
  have "concat (map item_refs (concat (map (message_items J cmp) ms))) = concat (map message_refs ms)" for ms
    by (induction ms) (simp_all add: encode_item_refs)
  then show "concat (map item_refs (orq_Input (encodeOpenAIResponsesRequest J cmp req))) = concat (map message_refs (req_Messages req))"
    by (simp add: encodeOpenAIResponsesRequest_def Let_def)
  have "\<forall>m \<in> set ms. msg_Role m = MessageRoleSystem \<longrightarrow> msg_ToolCalls m = [] \<Longrightarrow>
    concat (map block_refs (concat (map am_Content (concat (map (anthropic_request_message J) ms))))) = concat (map message_refs ms)" for ms
  proof (induction ms)
    case (Cons m ms)
    have "concat (map block_refs (concat (map am_Content (anthropic_request_message J m)))) = message_refs m"
      using Cons.prems encode_block_refs [of m J] by (cases "msg_Role m = MessageRoleSystem") auto
    then show ?case using Cons by simp
  qed simp
  then show "concat (map block_refs (concat (map am_Content (amr_Messages (encodeAnthropicMessagesRequest J req))))) = concat (map message_refs (req_Messages req))"
    using assms by (simp add: encodeAnthropicMessagesRequest_def)
qed

text \<open>C22: Every operation makes a bounded number of upstream calls, whatever the upstream answers: one per API key for a completion, two
  per API key for a stream (the keys are tried again without streaming), one for Anthropic with an API key, and two when a credential
  source can renew the credential.\<close>

theorem upstream_calls_bounded:
  "sends (length (op_apiKeys p)) made (snd (snd (openai_ChatCompletion env req p made))) \<and>
   (case openai_StreamCompletion env req p made of
      None \<Rightarrow> \<exists>payload. chat_payload env req = Inr payload \<and> uv_object env payload = Inr None
    | Some (_, _, made') \<Rightarrow> sends (2 * length (op_apiKeys p)) made made') \<and>
   sends (if ap_credentialSource a = None then 1 else 2) made (snd (snd (anthropic_ChatCompletion env req a made))) \<and>
   sends 2 made (snd (snd (codex_ChatCompletion parseHost env name req source made)))"
proof (intro conjI)
  show "sends (length (op_apiKeys p)) made (snd (snd (openai_ChatCompletion env req p made)))" by (rule chat_completion_bound)
  show "case openai_StreamCompletion env req p made of
      None \<Rightarrow> \<exists>payload. chat_payload env req = Inr payload \<and> uv_object env payload = Inr None
    | Some (_, _, made') \<Rightarrow> sends (2 * length (op_apiKeys p)) made made'"
  proof (cases "openai_StreamCompletion env req p made")
    case None
    then show ?thesis
      by (auto simp: openai_StreamCompletion_def enableStreamOnPayload_def
          split: openAIProtocolMode.splits prod.splits sum.splits option.splits if_splits)
  next
    case (Some out)
    then show ?thesis by (cases out) (simp add: stream_completion_bound)
  qed
  show "sends (if ap_credentialSource a = None then 1 else 2) made (snd (snd (anthropic_ChatCompletion env req a made)))"
  proof (cases "ap_credentialSource a")
    case None
    then show ?thesis
      using anthropic_call_once [of made env a req _ False "hd (ap_apiKeys a)"]
      by (simp add: anthropic_ChatCompletion_def split: sum.split prod.split) (metis snd_conv)
  next
    case (Some source)
    then show ?thesis
      using with_credential_bound [of "completionWithCredential env a req payload True" for payload, OF anthropic_call_once]
      by (simp add: anthropic_ChatCompletion_def split: sum.split prod.split) (metis snd_conv)
  qed
  show "sends 2 made (snd (snd (codex_ChatCompletion parseHost env name req source made)))"
    using with_credential_bound [of "codex_call parseHost env name req", OF codex_call_once]
    by (simp add: codex_ChatCompletion_def split: option.split prod.split) (metis snd_conv)
qed

text \<open>The answer of a completion to its \<open>i\<close>-th key in the rotation, after those before it.\<close>

definition key_answer ::
  "upstream_env \<Rightarrow> Request \<Rightarrow> raw_json \<Rightarrow> OpenAI_provider \<Rightarrow> http_call list \<Rightarrow> nat \<Rightarrow> go_error + Response" where
  "key_answer env req payload p made i =
     (let keys = rotate (op_nextAPIKeyIx p) (op_apiKeys p)
      in fst (completionWithAPIKey env p req payload (keys ! i) (made @ map (completion_call p payload) (take i keys))))"

text \<open>C21: The API keys are used in rotation: a completion with a valid URL sends the same payload with the keys from the next index on, in
  order and each at most once. Every key before the last one that it used was answered with a quota error, and the answer to the last one
  is the result: the first answer that is not a quota error, or the quota error of the last of all keys. After a success the next
  completion starts with the key after the one that worked, after an error with the key that had it.\<close>

theorem keys_used_in_rotation:
  assumes "req_Model req \<noteq> []" "op_apiKeys p \<noteq> []" "completion_payload env req p = Inr payload"
    and "uv_newRequest env (op_baseURL p @ op_path p) = None"
    and "openai_ChatCompletion env req p made = (res, p', made')"
  shows "\<exists>n. 0 < n \<and> n \<le> length (op_apiKeys p) \<and>
    made' = made @ map (completion_call p payload) (take n (rotate (op_nextAPIKeyIx p) (op_apiKeys p))) \<and>
    (\<forall>i < n - 1. \<exists>e. key_answer env req payload p made i = Inl e \<and> NormalizeError (Some e) = ErrorKindQuotaExceeded) \<and>
    (case res of
       Inr resp \<Rightarrow> key_answer env req payload p made (n - 1) = Inr resp \<and> op_nextAPIKeyIx p' = (op_nextAPIKeyIx p + n) mod length (op_apiKeys p)
     | Inl err \<Rightarrow> \<exists>e. err = Some e \<and> key_answer env req payload p made (n - 1) = Inl e \<and>
         op_nextAPIKeyIx p' mod length (op_apiKeys p) = (op_nextAPIKeyIx p + (n - 1)) mod length (op_apiKeys p) \<and>
         (NormalizeError (Some e) = ErrorKindQuotaExceeded \<longrightarrow> n = length (op_apiKeys p)))"
proof -
  let ?keys = "op_apiKeys p" and ?start = "op_nextAPIKeyIx p" and ?mk = "completion_call p payload"
  have sent: "snd (completionWithAPIKey env p req payload key made) = made @ [?mk key]" for key made
    unfolding completionWithAPIKey_def using assms(4) by (intro complete_call_sent) (simp add: completion_call_def)
  have loop: "try_keys (completionWithAPIKey env p req payload) ?start [0..<length ?keys] None p made = (res, p', made')"
    using assms by (simp add: openai_ChatCompletion_def)
  have tried: "tried ?mk ?keys ?start made 0 i = made @ map ?mk (take i (rotate ?start ?keys))" if "i \<le> length ?keys" for i
    using that by (simp add: tried_def comp_def flip: take_rotate)
  have answer: "fst (completionWithAPIKey env p req payload (?keys ! ((?start + i) mod length ?keys)) (tried ?mk ?keys ?start made 0 i)) =
      key_answer env req payload p made i" if "i < length ?keys" for i
    using that tried [of i] by (simp add: key_answer_def nth_rotate)
  have "0 < length ?keys" "?start mod length ?keys = (?start + 0) mod length ?keys" using assms(2) by simp_all
  from try_keys_turns [OF sent this loop] obtain n where n: "0 < n" "n \<le> length ?keys" "made' = tried ?mk ?keys ?start made 0 n"
    "turns (completionWithAPIKey env p req payload) ?mk ?keys ?start made 0 n res (op_nextAPIKeyIx p')" by blast
  show ?thesis
  proof (intro exI [of _ n] conjI)
    show "made' = made @ map ?mk (take n (rotate ?start ?keys))" using n(3) tried [OF n(2)] by simp
    show "\<forall>i < n - 1. \<exists>e. key_answer env req payload p made i = Inl e \<and> NormalizeError (Some e) = ErrorKindQuotaExceeded"
    proof (intro allI impI)
      fix i
      assume "i < n - 1"
      then have i: "i \<in> {0..<n - 1}" "i < length ?keys" using n(2) by simp_all
      from n(4) i(1) have "\<exists>e. fst (completionWithAPIKey env p req payload (?keys ! ((?start + i) mod length ?keys)) (tried ?mk ?keys ?start made 0 i)) =
          Inl e \<and> NormalizeError (Some e) = ErrorKindQuotaExceeded"
        unfolding turns_def Let_def by blast
      then show "\<exists>e. key_answer env req payload p made i = Inl e \<and> NormalizeError (Some e) = ErrorKindQuotaExceeded"
        unfolding answer [OF i(2)] .
    qed
    have "n - 1 < length ?keys" using n(1,2) by simp
    from answer [OF this] n(4) show "case res of
       Inr resp \<Rightarrow> key_answer env req payload p made (n - 1) = Inr resp \<and> op_nextAPIKeyIx p' = (?start + n) mod length ?keys
     | Inl err \<Rightarrow> \<exists>e. err = Some e \<and> key_answer env req payload p made (n - 1) = Inl e \<and>
         op_nextAPIKeyIx p' mod length ?keys = (?start + (n - 1)) mod length ?keys \<and>
         (NormalizeError (Some e) = ErrorKindQuotaExceeded \<longrightarrow> n = length ?keys)"
      by (simp add: turns_def Let_def split: sum.splits)
  qed (use n in auto)
qed

text \<open>A trace of a call does not depend on the credential: for any two credentials that are not empty, the recorded headers are
  equal, for completions, streams, and Anthropic with an API key or an OAuth credential.\<close>

theorem traced_headers_hide_keys:
  assumes "key1 \<noteq> []" "key2 \<noteq> []"
  shows "completion_trace_headers (completion_call p payload key1) = completion_trace_headers (completion_call p payload key2) \<and>
    stream_trace_headers (stream_call p payload key1) = stream_trace_headers (stream_call p payload key2) \<and>
    anthropic_trace_headers (anthropic_upstream_call a payload key1 oauth) = anthropic_trace_headers (anthropic_upstream_call a payload key2 oauth)"
proof -
  have names: "lower_text ''Authorization'' = ''authorization''" "lower_text ''x-api-key'' = ''x-api-key''"
    "lower_text ''Content-Type'' = ''content-type''" "lower_text ''Accept'' = ''accept''" "lower_text ''anthropic-version'' = ''anthropic-version''"
    by code_simp+
  have "maskCredential (''Bearer '' @ key) ''Bearer '' = ''Bearer ***''" for key
    by (simp add: maskCredential_def HasPrefix_def)
  then show ?thesis
    using assms names
    by (simp add: completion_trace_headers_def stream_trace_headers_def anthropic_trace_headers_def traced_headers_def redactHeaders_def
        redact_header_def completion_call_def stream_call_def bearer_headers_def anthropic_upstream_call_def maskCredential_def)
qed

text \<open>A message of the assistant with a text and tool calls loses its text in the responses protocol: the encoded items hold no
  content at all.\<close>

theorem responses_drop_text:
  assumes "msg_Role m \<noteq> MessageRoleTool" "msg_ToolCalls m \<noteq> []"
  shows "concat (map oii_Content (message_items J cmp m)) = [] \<and> concat (map oii_Output (message_items J cmp m)) = []"
  using assms by (auto simp: message_items_def call_item_def zero_item_def Let_def)

section \<open>Witnesses\<close>

text \<open>An upstream that has a quota error for its first call and answers the second one with a text.\<close>

definition sample_upstream :: upstream_env where
  "sample_upstream =
     \<lparr>uv_send = (\<lambda>made call. Inr \<lparr>up_Response = \<lparr>hr_StatusCode = (if made = [] then 429 else 200), hr_Header = (\<lambda>_. [])\<rparr>, up_Status = [],
                  up_Body = ''b'', up_ReadErr = None, up_Lines = [], up_ScanErr = None\<rparr>),
      uv_newRequest = (\<lambda>_. None), uv_json = sample_json, uv_object = (\<lambda>_. Inr (Some [])), uv_marshal_chat = (\<lambda>_. Inr ''{}''),
      uv_marshal_responses = (\<lambda>_. Inr ''{}''), uv_marshal_anthropic = (\<lambda>_. Inr ''{}''),
      uv_chat_envelope = (\<lambda>_. Inr \<lparr>oce_ID = [], oce_Object = [], oce_Model = ''m'',
        oce_Choices = [\<lparr>oec_FinishReason = ''stop'', oec_Message = \<lparr>ocm_Role = ''assistant'', ocm_Content = ''hello'', ocm_ReasoningContent = [],
          ocm_ToolCalls = [], ocm_ToolCallID = [], ocm_Status = []\<rparr>\<rparr>], oce_Usage = None\<rparr>),
      uv_responses_envelope = (\<lambda>_. Inl (PlainError [])), uv_anthropic_envelope = (\<lambda>_. Inl (PlainError [])),
      uv_chunk = (\<lambda>_. Inl (PlainError [])), uv_parseTime = (\<lambda>_. None), uv_credential = (\<lambda>_ _. Inr ''c''), uv_refresh = (\<lambda>_ _. Inr ''r'')\<rparr>"

definition sample_provider :: OpenAI_provider where
  "sample_provider = \<lparr>op_providerName = ''p'', op_baseURL = ''u'', op_apiKeys = [''k0'', ''k1'', ''k2''], op_path = ''/c'', op_mode = openAIProtocolModeChat,
     op_responsesCompat = no_compatibility, op_usageEstimation = \<lparr>uec_Enabled = False, uec_Mode = []\<rparr>, op_nextAPIKeyIx = 2\<rparr>"

definition sample_conversation :: Request where
  "sample_conversation =
     sample_stream_request\<lparr>req_Model := ''m'', req_Messages :=
       [(response_message ''assistant'' [] [\<lparr>tc_ID = ''t1'', tc_Type = [], tc_Name = ''f'', tc_Arguments = [], tc_Input = []\<rparr>]),
        (response_message MessageRoleTool [] [])\<lparr>msg_ToolCallID := ''t1''\<rparr>]\<rparr>"

theorem tool_exchange_preserved_witness:
  "concat (map chat_refs (ocq_Messages (encodeOpenAIChatRequest sample_json sample_conversation))) = [CallRef ''t1'', ResultRef ''t1'']"
proof -
  have "\<forall>m \<in> set (req_Messages sample_conversation). msg_Role m = MessageRoleSystem \<longrightarrow> msg_ToolCalls m = []"
    by (simp add: sample_conversation_def response_message_def)
  from tool_exchange_preserved [OF this, of sample_json] show ?thesis
    by (simp add: sample_conversation_def response_message_def message_refs_def)
qed

theorem keys_used_in_rotation_witness:
  "\<exists>n. 0 < n \<and> n \<le> 3 \<and> snd (snd (openai_ChatCompletion sample_upstream sample_conversation sample_provider [])) =
     map (completion_call sample_provider ''{}'') (take n (rotate 2 [''k0'', ''k1'', ''k2'']))"
proof -
  obtain res p' made' where run: "openai_ChatCompletion sample_upstream sample_conversation sample_provider [] = (res, p', made')"
    by (rule prod_cases3)
  have "completion_payload sample_upstream sample_conversation sample_provider = Inr ''{}''"
    by (simp add: completion_payload_def chat_payload_def sample_upstream_def sample_provider_def)
  from keys_used_in_rotation [OF _ _ this _ run] run show ?thesis
    by (fastforce simp: sample_upstream_def sample_provider_def sample_conversation_def)
qed

theorem traced_headers_hide_keys_witness:
  "completion_trace_headers (completion_call sample_provider [] ''k1'') = completion_trace_headers (completion_call sample_provider [] ''k2'')"
  using traced_headers_hide_keys [of "''k1''" "''k2''"] by simp

theorem responses_drop_text_witness:
  "concat (map oii_Content (concat (map (message_items sample_json no_compatibility)
     [response_message ''assistant'' [text_part ''thinking aloud''] [\<lparr>tc_ID = ''t1'', tc_Type = [], tc_Name = ''f'', tc_Arguments = [], tc_Input = []\<rparr>]]))) = []"
  using responses_drop_text [of "response_message ''assistant'' [text_part ''thinking aloud'']
     [\<lparr>tc_ID = ''t1'', tc_Type = [], tc_Name = ''f'', tc_Arguments = [], tc_Input = []\<rparr>]" sample_json no_compatibility]
  by (simp add: response_message_def)

end
