(* ===== verification/OAuth.thy ===== *)
theory OAuth
  imports Provider_Clients
begin

text \<open>
  OAuth credentials (package \<open>internal/oauth\<close>): \<open>store.go\<close>, one file per credential, and \<open>manager.go\<close>, the login flows
  and the refresh of access tokens.

  The directory of the store is the table of its entries; what can fail in the operating system is \<open>ov_fault\<close>, for every
  operation the code calls. The authorization servers are \<open>ov_post\<close>, which answers a request given those sent before. JSON, the
  random source, SHA-256, base64 and URLs are functions of the environment. The instants an operation reads from the clock are
  its arguments \<open>clk 0\<close>, \<open>clk 1\<close>, in this order. Every operation is the sequential composition of the sections the code
  runs under a lock and the requests between them; \<open>PollCodexDeviceFlow\<close> has two such sections, \<open>poll_lookup\<close> and \<open>poll_take\<close>,
  and \<open>CompleteClaudeFlow\<close> one, \<open>take_flow\<close>. Other operations may run between any two of these parts.
\<close>

section \<open>Environment\<close>

record Credential =
  cr_ID :: string
  cr_Provider :: string
  cr_AccessToken :: string
  cr_RefreshToken :: string
  cr_ExpiresAt :: gotime
  cr_AccountLabel :: string
  cr_Scope :: string
  cr_CreatedAt :: gotime
  cr_UpdatedAt :: gotime

record persistedCredential =
  pc_Version :: int
  pc_Credential :: Credential

datatype io_op =
    OpMkdirAll | OpChmodDir | OpReadDir | OpStat string | OpReadFile string | OpRemove string
  | OpCreateTemp | OpChmodTemp | OpWriteTemp | OpSyncTemp | OpCloseTemp | OpRename | OpOpenDir | OpSyncDir

record dir_entry =
  en_IsDir :: bool
  en_Perm :: nat
  en_Data :: raw_json

text \<open>The directory, \<open>None\<close> before it is created.\<close>

type_synonym disk = "(string \<times> dir_entry) list option"

record post_reply =
  pr_Status :: int
  pr_Body :: string
  pr_ReadErr :: "go_error option"

record oauth_token =
  tk_AccessToken :: string
  tk_RefreshToken :: string
  tk_ExpiresIn :: int
  tk_Scope :: string
  tk_Email :: string

record device_code =
  dc_DeviceAuthID :: string
  dc_UserCode :: string
  dc_Interval :: int
  dc_ExpiresIn :: int

record oauth_env =
  ov_fault :: "disk \<Rightarrow> io_op \<Rightarrow> go_error option"
  ov_encode :: "persistedCredential \<Rightarrow> go_error + raw_json"
  ov_decode :: "raw_json \<Rightarrow> go_error + persistedCredential"
  ov_newRequest :: "string \<Rightarrow> go_error option"
  ov_post :: "(string \<times> raw_json) list \<Rightarrow> string \<Rightarrow> raw_json \<Rightarrow> go_error + post_reply"
  ov_fields :: "(string \<times> string) list \<Rightarrow> go_error + raw_json"
  ov_token :: "raw_json \<Rightarrow> go_error + oauth_token"
  ov_device :: "raw_json \<Rightarrow> go_error + device_code"
  ov_deviceToken :: "raw_json \<Rightarrow> go_error + string \<times> string"
  ov_random :: "nat \<Rightarrow> nat \<Rightarrow> go_error + string"
  ov_sha256 :: "string \<Rightarrow> string"
  ov_base64 :: "string \<Rightarrow> string"
  ov_encodeQuery :: "(string \<times> string) list \<Rightarrow> string"
  ov_query :: "string \<Rightarrow> go_error + (string \<Rightarrow> string)"

section \<open>The store\<close>

definition credentialVersion :: int where "credentialVersion = 1"

abbreviation ProviderClaude where "ProviderClaude \<equiv> ''claude_consumer_oauth''"
abbreviation ProviderCodex where "ProviderCodex \<equiv> ''codex_consumer_oauth''"

definition id_first :: "char \<Rightarrow> bool" where
  "id_first c = (let n = of_char c :: nat in 65 \<le> n \<and> n \<le> 90 \<or> 97 \<le> n \<and> n \<le> 122 \<or> 48 \<le> n \<and> n \<le> 57)"

definition id_rest :: "char \<Rightarrow> bool" where
  "id_rest c = (id_first c \<or> c \<in> {CHR ''.'', CHR ''_'', CHR ''-''})"

definition credentialIDPattern :: "string \<Rightarrow> bool" where
  "credentialIDPattern i = (case i of [] \<Rightarrow> False | c # cs \<Rightarrow> id_first c \<and> list_all id_rest cs \<and> length cs \<le> 127)"

definition validateCredentialID :: "string \<Rightarrow> go_error option" where
  "validateCredentialID i = (if credentialIDPattern i then None else Some (PlainError (''oauth credential id '' @ quoted i @ '' is invalid'')))"

definition validateCredential :: "Credential \<Rightarrow> go_error option" where
  "validateCredential c =
     (case validateCredentialID (cr_ID c) of
        Some e \<Rightarrow> Some e
      | None \<Rightarrow>
          (let problem = (\<lambda>m. Some (PlainError (''oauth credential '' @ quoted (cr_ID c) @ m)))
           in if cr_Provider c \<noteq> ProviderClaude \<and> cr_Provider c \<noteq> ProviderCodex then problem ('' has unsupported provider '' @ quoted (cr_Provider c))
              else if TrimSpace (cr_AccessToken c) = [] then problem '' access token is required''
              else if IsZero (cr_ExpiresAt c) then problem '' expiry is required''
              else None))"

definition cred_path :: "string \<Rightarrow> string" where
  "cred_path i = i @ ''.json''"

definition entries :: "disk \<Rightarrow> (string \<times> dir_entry) list" where
  "entries d = (case d of None \<Rightarrow> [] | Some es \<Rightarrow> es)"

text \<open>The first of some operations that fails, with the message of its error.\<close>

fun first_fault :: "oauth_env \<Rightarrow> disk \<Rightarrow> (io_op \<times> string) list \<Rightarrow> go_error option" where
  "first_fault env d [] = None"
| "first_fault env d ((opn, m) # ops) = (case ov_fault env d opn of Some e \<Rightarrow> Some (wrapf m e) | None \<Rightarrow> first_fault env d ops)"

text \<open>The new file is complete before it replaces the old one; an error after that is reported although the file is replaced.\<close>

definition writeLocked :: "oauth_env \<Rightarrow> Credential \<Rightarrow> disk \<Rightarrow> go_error option \<times> disk" where
  "writeLocked env c d =
     (case ov_encode env \<lparr>pc_Version = credentialVersion, pc_Credential = c\<rparr> of
        Inl e \<Rightarrow> (Some (wrapf ''encode oauth credential: '' e), d)
      | Inr data \<Rightarrow>
          (case first_fault env d
                  [(OpCreateTemp, ''create oauth credential temp file: ''), (OpChmodTemp, ''chmod oauth credential temp file: ''),
                   (OpWriteTemp, ''write oauth credential: ''), (OpSyncTemp, ''sync oauth credential: ''),
                   (OpCloseTemp, ''close oauth credential: ''), (OpRename, ''replace oauth credential: '')] of
             Some e \<Rightarrow> (Some e, d)
           | None \<Rightarrow>
               (let d' = Some (AList.update (cred_path (cr_ID c)) \<lparr>en_IsDir = False, en_Perm = 384, en_Data = data\<rparr> (entries d))
                in (first_fault env d [(OpOpenDir, ''open oauth credential directory: ''), (OpSyncDir, ''sync oauth credential directory: '')], d'))))"

definition store_Save :: "oauth_env \<Rightarrow> gotime \<Rightarrow> Credential \<Rightarrow> disk \<Rightarrow> go_error option \<times> disk" where
  "store_Save env now c d =
     (case validateCredential c of
        Some e \<Rightarrow> (Some e, d)
      | None \<Rightarrow>
          (case ov_fault env d OpMkdirAll of
             Some e \<Rightarrow> (Some (wrapf ''create oauth credential directory: '' e), d)
           | None \<Rightarrow>
               (let d1 = Some (entries d)
                in case ov_fault env d1 OpChmodDir of
                     Some e \<Rightarrow> (Some (wrapf ''chmod oauth credential directory: '' e), d1)
                   | None \<Rightarrow>
                       writeLocked env
                         (c\<lparr>cr_CreatedAt := (if IsZero (cr_CreatedAt c) then now else cr_CreatedAt c), cr_UpdatedAt := now\<rparr>) d1)))"

definition loadLocked :: "oauth_env \<Rightarrow> string \<Rightarrow> disk \<Rightarrow> go_error + Credential" where
  "loadLocked env i d =
     (let problem = (\<lambda>m. Inl (PlainError (''oauth credential '' @ quoted i @ m)))
      in case ov_fault env d (OpStat (cred_path i)) of
           Some e \<Rightarrow> Inl (wrapf ''stat oauth credential: '' e)
         | None \<Rightarrow>
             (case map_of (entries d) (cred_path i) of
                None \<Rightarrow> problem '' not found''
              | Some entry \<Rightarrow>
                  if en_Perm entry mod 64 \<noteq> 0 then problem '' has insecure permissions''
                  else case ov_fault env d (OpReadFile (cred_path i)) of
                         Some e \<Rightarrow> Inl (wrapf ''read oauth credential: '' e)
                       | None \<Rightarrow>
                           (case ov_decode env (en_Data entry) of
                              Inl e \<Rightarrow> Inl (wrapf (''decode oauth credential '' @ quoted i @ '': '') e)
                            | Inr persisted \<Rightarrow>
                                if pc_Version persisted \<noteq> credentialVersion
                                then problem ('' has unsupported version '' @ show_int (pc_Version persisted))
                                else if cr_ID (pc_Credential persisted) \<noteq> i then problem '' has mismatched id''
                                else case validateCredential (pc_Credential persisted) of
                                       Some e \<Rightarrow> Inl e
                                     | None \<Rightarrow> Inr (pc_Credential persisted))))"

definition store_Load :: "oauth_env \<Rightarrow> string \<Rightarrow> disk \<Rightarrow> go_error + Credential" where
  "store_Load env i d = (case validateCredentialID i of Some e \<Rightarrow> Inl e | None \<Rightarrow> loadLocked env i d)"

record Metadata =
  md_ID :: string
  md_Provider :: string
  md_ExpiresAt :: gotime
  md_AccountLabel :: string
  md_Scope :: string
  md_CreatedAt :: gotime
  md_UpdatedAt :: gotime

definition credential_Metadata :: "Credential \<Rightarrow> Metadata" where
  "credential_Metadata c =
     \<lparr>md_ID = cr_ID c, md_Provider = cr_Provider c, md_ExpiresAt = cr_ExpiresAt c, md_AccountLabel = cr_AccountLabel c,
      md_Scope = cr_Scope c, md_CreatedAt = cr_CreatedAt c, md_UpdatedAt = cr_UpdatedAt c\<rparr>"

text \<open>The entries in the order of \<open>os.ReadDir\<close>, by name; \<open>filepath.Ext\<close> of a name is what follows its last dot, with the dot.\<close>

fun list_entries :: "oauth_env \<Rightarrow> disk \<Rightarrow> (string \<times> dir_entry) list \<Rightarrow> go_error + Metadata list" where
  "list_entries env d [] = Inr []"
| "list_entries env d ((name, entry) # es) =
     (if en_IsDir entry \<or> \<not> HasSuffix name ''.json'' then list_entries env d es
      else case loadLocked env (take (length name - 5) name) d of
             Inl e \<Rightarrow> Inl e
           | Inr c \<Rightarrow> map_sum id (\<lambda>items. credential_Metadata c # items) (list_entries env d es))"

definition store_List :: "oauth_env \<Rightarrow> disk \<Rightarrow> go_error + Metadata list" where
  "store_List env d =
     (case d of
        None \<Rightarrow> Inr []
      | Some es \<Rightarrow>
          (case ov_fault env d OpReadDir of
             Some e \<Rightarrow> Inl (wrapf ''read oauth credential directory: '' e)
           | None \<Rightarrow> map_sum id (sort_key md_ID) (list_entries env d (sort_key fst es))))"

definition store_Delete :: "oauth_env \<Rightarrow> string \<Rightarrow> disk \<Rightarrow> go_error option \<times> disk" where
  "store_Delete env i d =
     (case validateCredentialID i of
        Some e \<Rightarrow> (Some e, d)
      | None \<Rightarrow>
          (case ov_fault env d (OpRemove (cred_path i)) of
             Some e \<Rightarrow> (Some (wrapf ''remove oauth credential: '' e), d)
           | None \<Rightarrow> (None, map_option (AList.delete (cred_path i)) d)))"

section \<open>The manager\<close>

definition claudeAuthorizationURL :: string where "claudeAuthorizationURL = ''https://claude.ai/oauth/authorize''"
definition claudeTokenURL :: string where "claudeTokenURL = ''https://api.anthropic.com/v1/oauth/token''"
definition claudeClientID :: string where "claudeClientID = ''9d1c250a-e61b-44d9-88ed-5944d1962f5e''"
definition claudeRedirectURI :: string where "claudeRedirectURI = ''http://localhost:54545/callback''"
definition codexClientID :: string where "codexClientID = ''app_EMoamEEZ73f0CkXaXp7hrann''"
definition codexDeviceCodeURL :: string where "codexDeviceCodeURL = ''https://auth.openai.com/api/accounts/deviceauth/usercode''"
definition codexDeviceTokenURL :: string where "codexDeviceTokenURL = ''https://auth.openai.com/api/accounts/deviceauth/token''"
definition codexVerificationURL :: string where "codexVerificationURL = ''https://auth.openai.com/codex/device''"
definition codexTokenURL :: string where "codexTokenURL = ''https://auth.openai.com/oauth/token''"
definition codexRedirectURI :: string where "codexRedirectURI = ''https://auth.openai.com/deviceauth/callback''"
definition maxOAuthResponseBytes :: nat where "maxOAuthResponseBytes = 1048576"
definition codexDeviceFlowTTL :: duration where "codexDeviceFlowTTL = 15 * Minute"
definition codexPollInterval :: int where "codexPollInterval = 5"

record Flow =
  fl_ID :: string
  fl_Provider :: string
  fl_CredentialID :: string
  fl_AuthorizationURL :: string
  fl_VerificationURL :: string
  fl_UserCode :: string
  fl_Interval :: int
  fl_ExpiresAt :: gotime
  fl_state :: string
  fl_verifier :: string
  fl_deviceAuthID :: string

record Manager =
  mg_flows :: "(string \<times> Flow) list"
  mg_disk :: disk
  mg_posts :: "(string \<times> raw_json) list"

definition publicFlow :: "Flow \<Rightarrow> Flow" where
  "publicFlow f = f\<lparr>fl_state := [], fl_verifier := []\<rparr>"

definition randomURLValue :: "oauth_env \<Rightarrow> nat \<Rightarrow> nat \<Rightarrow> go_error + string" where
  "randomURLValue env k n = (case ov_random env k n of Inl e \<Rightarrow> Inl (wrapf ''generate OAuth random value: '' e) | Inr data \<Rightarrow> Inr (ov_base64 env data))"

definition pkceChallenge :: "oauth_env \<Rightarrow> string \<Rightarrow> string" where
  "pkceChallenge env verifier = ov_base64 env (ov_sha256 env verifier)"

definition cleanupLocked :: "gotime \<Rightarrow> Manager \<Rightarrow> Manager" where
  "cleanupLocked now m = m\<lparr>mg_flows := filter (\<lambda>(i, f). fl_ExpiresAt f > now) (mg_flows m)\<rparr>"

text \<open>The section under the lock that starts a flow.\<close>

definition add_flow :: "gotime \<Rightarrow> Flow \<Rightarrow> Manager \<Rightarrow> Manager" where
  "add_flow now f m = (let m1 = cleanupLocked now m in m1\<lparr>mg_flows := AList.update (fl_ID f) f (mg_flows m1)\<rparr>)"

definition StartClaudeFlow :: "oauth_env \<Rightarrow> (nat \<Rightarrow> gotime) \<Rightarrow> string \<Rightarrow> Manager \<Rightarrow> (go_error + Flow) \<times> Manager" where
  "StartClaudeFlow env clk credentialID m =
     (case validateCredentialID credentialID of
        Some e \<Rightarrow> (Inl e, m)
      | None \<Rightarrow>
          (case randomURLValue env 0 24 of
             Inl e \<Rightarrow> (Inl e, m)
           | Inr flowID \<Rightarrow>
               (case randomURLValue env 1 24 of
                  Inl e \<Rightarrow> (Inl e, m)
                | Inr state \<Rightarrow>
                    (case randomURLValue env 2 48 of
                       Inl e \<Rightarrow> (Inl e, m)
                     | Inr verifier \<Rightarrow>
                         (let values =
                                [(''code'', ''true''), (''client_id'', claudeClientID), (''response_type'', ''code''), (''redirect_uri'', claudeRedirectURI),
                                 (''scope'', ''user:profile user:inference user:sessions:claude_code user:mcp_servers user:file_upload''),
                                 (''code_challenge'', pkceChallenge env verifier), (''code_challenge_method'', ''S256''), (''state'', state)];
                              f = \<lparr>fl_ID = flowID, fl_Provider = ProviderClaude, fl_CredentialID = credentialID,
                                   fl_AuthorizationURL = claudeAuthorizationURL @ ''?'' @ ov_encodeQuery env values, fl_VerificationURL = [],
                                   fl_UserCode = [], fl_Interval = 0, fl_ExpiresAt = clk 0 + 10 * Minute, fl_state = state,
                                   fl_verifier = verifier, fl_deviceAuthID = []\<rparr>
                          in (Inr (publicFlow f), add_flow (clk 1) f m))))))"

text \<open>
  A request to an authorization server: the fields of the JSON body, and the prefixes of its errors. The body is read up to
  \<open>maxOAuthResponseBytes\<close>, so an error behind that limit is not seen.
\<close>

record post_errors =
  pe_encode :: string
  pe_create :: string
  pe_send :: string
  pe_read :: string

definition oauth_post ::
  "oauth_env \<Rightarrow> post_errors \<Rightarrow> string \<Rightarrow> (string \<times> string) list \<Rightarrow> Manager \<Rightarrow> (go_error + int \<times> raw_json) \<times> Manager" where
  "oauth_post env msgs url flds m =
     (case ov_fields env flds of
        Inl e \<Rightarrow> (Inl (wrapf (pe_encode msgs) e), m)
      | Inr body \<Rightarrow>
          (case ov_newRequest env url of
             Some e \<Rightarrow> (Inl (wrapf (pe_create msgs) e), m)
           | None \<Rightarrow>
               (case ov_post env (mg_posts m) url body of
                  Inl e \<Rightarrow> Inl (wrapf (pe_send msgs) e)
                | Inr r \<Rightarrow>
                    (case pr_ReadErr r of
                       Some e \<Rightarrow> if length (pr_Body r) < maxOAuthResponseBytes then Inl (wrapf (pe_read msgs) e)
                                 else Inr (pr_Status r, take maxOAuthResponseBytes (pr_Body r))
                     | None \<Rightarrow> Inr (pr_Status r, take maxOAuthResponseBytes (pr_Body r))),
                m\<lparr>mg_posts := mg_posts m @ [(url, body)]\<rparr>)))"

definition StartCodexDeviceFlow :: "oauth_env \<Rightarrow> (nat \<Rightarrow> gotime) \<Rightarrow> string \<Rightarrow> Manager \<Rightarrow> (go_error + Flow) \<times> Manager" where
  "StartCodexDeviceFlow env clk credentialID m =
     (case validateCredentialID credentialID of
        Some e \<Rightarrow> (Inl e, m)
      | None \<Rightarrow>
          (case randomURLValue env 0 24 of
             Inl e \<Rightarrow> (Inl e, m)
           | Inr flowID \<Rightarrow>
               (case oauth_post env
                       \<lparr>pe_encode = ''encode Codex device authorization request: '', pe_create = ''create Codex device authorization request: '',
                        pe_send = ''codex device authorization request: '', pe_read = ''read Codex device authorization response: ''\<rparr>
                       codexDeviceCodeURL [(''client_id'', codexClientID)] m of
                  (Inl e, m1) \<Rightarrow> (Inl e, m1)
                | (Inr (status, payload), m1) \<Rightarrow>
                    if status \<noteq> 200 then (Inl (PlainError (''codex device authorization failed with status '' @ show_int status)), m1)
                    else case ov_device env payload of
                           Inl e \<Rightarrow> (Inl (wrapf ''decode Codex device authorization response: '' e), m1)
                         | Inr device \<Rightarrow>
                             if TrimSpace (dc_DeviceAuthID device) = [] \<or> TrimSpace (dc_UserCode device) = []
                             then (Inl (PlainError ''codex device authorization response is invalid''), m1)
                             else let ttl = wrap64 (dc_ExpiresIn device * Second);
                                      expiresAt = (if dc_ExpiresIn device > 0 \<and> ttl < codexDeviceFlowTTL then clk 1 + ttl else clk 0 + codexDeviceFlowTTL);
                                      f = \<lparr>fl_ID = flowID, fl_Provider = ProviderCodex, fl_CredentialID = credentialID, fl_AuthorizationURL = [],
                                           fl_VerificationURL = codexVerificationURL, fl_UserCode = dc_UserCode device,
                                           fl_Interval = (if dc_Interval device \<le> 0 then codexPollInterval else dc_Interval device),
                                           fl_ExpiresAt = expiresAt, fl_state = [], fl_verifier = [], fl_deviceAuthID = dc_DeviceAuthID device\<rparr>
                                  in (Inr (publicFlow f), add_flow (clk 2) f m1))))"

definition flow_not_found :: go_error where
  "flow_not_found = PlainError ''oauth flow not found or expired''"

definition ErrCodexDeviceAuthorizationPending :: go_error where
  "ErrCodexDeviceAuthorizationPending = PlainError ''codex device authorization pending''"

definition save_result :: "oauth_env \<Rightarrow> gotime \<Rightarrow> Credential \<Rightarrow> Manager \<Rightarrow> (go_error + Metadata) \<times> Manager" where
  "save_result env now c m =
     (case store_Save env now c (mg_disk m) of
        (Some e, d) \<Rightarrow> (Inl e, m\<lparr>mg_disk := d\<rparr>)
      | (None, d) \<Rightarrow> (Inr (credential_Metadata c), m\<lparr>mg_disk := d\<rparr>))"

definition exchangeCodexAuthorizationCode ::
  "oauth_env \<Rightarrow> (nat \<Rightarrow> gotime) \<Rightarrow> Flow \<Rightarrow> string \<Rightarrow> string \<Rightarrow> Manager \<Rightarrow> (go_error + Metadata) \<times> Manager" where
  "exchangeCodexAuthorizationCode env clk f authorizationCode codeVerifier m =
     (case oauth_post env
             \<lparr>pe_encode = ''encode Codex OAuth exchange: '', pe_create = ''create Codex OAuth exchange: '',
              pe_send = ''codex OAuth exchange request: '', pe_read = ''read Codex OAuth exchange response: ''\<rparr>
             codexTokenURL
             [(''client_id'', codexClientID), (''code'', authorizationCode), (''code_verifier'', codeVerifier),
              (''grant_type'', ''authorization_code''), (''redirect_uri'', codexRedirectURI)] m of
        (Inl e, m1) \<Rightarrow> (Inl e, m1)
      | (Inr (status, payload), m1) \<Rightarrow>
          if status \<noteq> 200 then (Inl (PlainError (''codex OAuth exchange failed with status '' @ show_int status)), m1)
          else case ov_token env payload of
                 Inl e \<Rightarrow> (Inl (wrapf ''decode Codex OAuth exchange response: '' e), m1)
               | Inr token \<Rightarrow>
                   if TrimSpace (tk_AccessToken token) = [] \<or> tk_ExpiresIn token \<le> 0
                   then (Inl (PlainError ''codex OAuth exchange response is invalid''), m1)
                   else save_result env (clk 2)
                          \<lparr>cr_ID = fl_CredentialID f, cr_Provider = ProviderCodex, cr_AccessToken = tk_AccessToken token,
                           cr_RefreshToken = tk_RefreshToken token, cr_ExpiresAt = clk 1 + wrap64 (tk_ExpiresIn token * Second),
                           cr_AccountLabel = [], cr_Scope = tk_Scope token, cr_CreatedAt = zeroTime, cr_UpdatedAt = zeroTime\<rparr> m1)"

text \<open>The two locked sections of a poll.\<close>

definition poll_lookup :: "gotime \<Rightarrow> string \<Rightarrow> Manager \<Rightarrow> Flow option \<times> Manager" where
  "poll_lookup now flowID m =
     (let m1 = cleanupLocked now m
      in (case map_of (mg_flows m1) flowID of
            None \<Rightarrow> None
          | Some f \<Rightarrow> if fl_Provider f \<noteq> ProviderCodex then None else Some f, m1))"

definition poll_take :: "string \<Rightarrow> Flow \<Rightarrow> Manager \<Rightarrow> bool \<times> Manager" where
  "poll_take flowID f m =
     (case map_of (mg_flows m) flowID of
        None \<Rightarrow> (False, m)
      | Some current \<Rightarrow>
          if fl_deviceAuthID current \<noteq> fl_deviceAuthID f then (False, m)
          else (True, m\<lparr>mg_flows := AList.delete flowID (mg_flows m)\<rparr>))"

definition poll_request :: "oauth_env \<Rightarrow> Flow \<Rightarrow> Manager \<Rightarrow> (go_error + string \<times> string) \<times> Manager" where
  "poll_request env f m =
     (case oauth_post env
             \<lparr>pe_encode = ''encode Codex device token request: '', pe_create = ''create Codex device token request: '',
              pe_send = ''codex device token request: '', pe_read = ''read Codex device token response: ''\<rparr>
             codexDeviceTokenURL
             [(''client_id'', codexClientID), (''device_auth_id'', fl_deviceAuthID f), (''user_code'', fl_UserCode f)] m of
        (Inl e, m1) \<Rightarrow> (Inl e, m1)
      | (Inr (status, payload), m1) \<Rightarrow>
          (if status = 403 \<or> status = 401 then Inl ErrCodexDeviceAuthorizationPending
           else if status \<noteq> 200 then Inl (PlainError (''codex device token request failed with status '' @ show_int status))
           else case ov_deviceToken env payload of
                  Inl e \<Rightarrow> Inl (wrapf ''decode Codex device token response: '' e)
                | Inr (code, verifier) \<Rightarrow>
                    if TrimSpace code = [] \<or> TrimSpace verifier = [] then Inl (PlainError ''codex device token response is invalid'')
                    else Inr (code, verifier), m1))"

definition PollCodexDeviceFlow :: "oauth_env \<Rightarrow> (nat \<Rightarrow> gotime) \<Rightarrow> string \<Rightarrow> Manager \<Rightarrow> (go_error + Metadata) \<times> Manager" where
  "PollCodexDeviceFlow env clk flowID m =
     (case poll_lookup (clk 0) flowID m of
        (None, m1) \<Rightarrow> (Inl flow_not_found, m1)
      | (Some f, m1) \<Rightarrow>
          (case poll_request env f m1 of
             (Inl e, m2) \<Rightarrow> (Inl e, m2)
           | (Inr (code, verifier), m2) \<Rightarrow>
               (case poll_take flowID f m2 of
                  (False, m3) \<Rightarrow> (Inl flow_not_found, m3)
                | (True, m3) \<Rightarrow> exchangeCodexAuthorizationCode env clk f code verifier m3)))"

text \<open>The section that takes a Claude flow: it is deleted whatever its provider is.\<close>

definition take_flow :: "gotime \<Rightarrow> string \<Rightarrow> Manager \<Rightarrow> Flow option \<times> Manager" where
  "take_flow now flowID m =
     (let m1 = cleanupLocked now m
      in case map_of (mg_flows m1) flowID of
           None \<Rightarrow> (None, m1)
         | Some f \<Rightarrow> (Some f, m1\<lparr>mg_flows := AList.delete flowID (mg_flows m1)\<rparr>))"

text \<open>What follows the section: the check of the callback, the exchange of its code, and the credential.\<close>

definition exchangeClaudeCallback ::
  "oauth_env \<Rightarrow> (nat \<Rightarrow> gotime) \<Rightarrow> Flow \<Rightarrow> string \<Rightarrow> Manager \<Rightarrow> (go_error + Metadata) \<times> Manager" where
  "exchangeClaudeCallback env clk f callback m1 =
     (if fl_Provider f \<noteq> ProviderClaude then (Inl flow_not_found, m1)
     else case ov_query env (TrimSpace callback) of
            Inl e \<Rightarrow> (Inl (wrapf ''parse OAuth callback: '' e), m1)
          | Inr query \<Rightarrow>
              (let code = query ''code''; state = query ''state''
               in if code = [] \<or> state = [] \<or> state \<noteq> fl_state f then (Inl (PlainError ''OAuth callback is invalid''), m1)
                  else case oauth_post env
                              \<lparr>pe_encode = ''encode OAuth exchange: '', pe_create = ''create OAuth exchange: '',
                               pe_send = ''OAuth exchange request: '', pe_read = ''read OAuth exchange response: ''\<rparr>
                              claudeTokenURL
                              [(''client_id'', claudeClientID), (''code'', code), (''code_verifier'', fl_verifier f),
                               (''grant_type'', ''authorization_code''), (''redirect_uri'', claudeRedirectURI), (''state'', state)] m1 of
                         (Inl e, m2) \<Rightarrow> (Inl e, m2)
                       | (Inr (status, payload), m2) \<Rightarrow>
                           if status \<noteq> 200 then (Inl (PlainError (''OAuth exchange failed with status '' @ show_int status)), m2)
                           else case ov_token env payload of
                                  Inl e \<Rightarrow> (Inl (wrapf ''decode OAuth exchange response: '' e), m2)
                                | Inr token \<Rightarrow>
                                    save_result env (clk 2)
                                      \<lparr>cr_ID = fl_CredentialID f, cr_Provider = ProviderClaude, cr_AccessToken = tk_AccessToken token,
                                       cr_RefreshToken = tk_RefreshToken token, cr_ExpiresAt = clk 1 + wrap64 (tk_ExpiresIn token * Second),
                                       cr_AccountLabel = tk_Email token, cr_Scope = tk_Scope token, cr_CreatedAt = zeroTime,
                                       cr_UpdatedAt = zeroTime\<rparr> m2))"

definition CompleteClaudeFlow :: "oauth_env \<Rightarrow> (nat \<Rightarrow> gotime) \<Rightarrow> string \<Rightarrow> string \<Rightarrow> Manager \<Rightarrow> (go_error + Metadata) \<times> Manager" where
  "CompleteClaudeFlow env clk flowID callback m =
     (case take_flow (clk 0) flowID m of
        (None, m1) \<Rightarrow> (Inl flow_not_found, m1)
      | (Some f, m1) \<Rightarrow>
          exchangeClaudeCallback env clk f callback m1)"

definition oauthRefreshEndpoint :: "string \<Rightarrow> string \<times> string" where
  "oauthRefreshEndpoint provider = (if provider = ProviderCodex then (codexTokenURL, codexClientID) else (claudeTokenURL, claudeClientID))"

text \<open>The token of a refresh replaces that of the credential; an empty refresh token or scope keeps the old one.\<close>

definition refreshed :: "gotime \<Rightarrow> oauth_token \<Rightarrow> Credential \<Rightarrow> Credential" where
  "refreshed now token c =
     c\<lparr>cr_AccessToken := tk_AccessToken token,
       cr_RefreshToken := (if TrimSpace (tk_RefreshToken token) \<noteq> [] then tk_RefreshToken token else cr_RefreshToken c),
       cr_Scope := (if TrimSpace (tk_Scope token) \<noteq> [] then tk_Scope token else cr_Scope c),
       cr_ExpiresAt := now + wrap64 (tk_ExpiresIn token * Second)\<rparr>"

definition refreshCredential :: "oauth_env \<Rightarrow> (nat \<Rightarrow> gotime) \<Rightarrow> Credential \<Rightarrow> Manager \<Rightarrow> (go_error + Credential) \<times> Manager" where
  "refreshCredential env clk c m =
     (case store_Load env (cr_ID c) (mg_disk m) of
        Inl e \<Rightarrow> (Inl e, m)
      | Inr current \<Rightarrow>
          if cr_Provider current \<noteq> cr_Provider c then (Inl (PlainError (''oauth credential '' @ quoted (cr_ID c) @ '' provider changed'')), m)
          else if cr_ExpiresAt current > clk 1 + Minute \<and> cr_AccessToken current \<noteq> cr_AccessToken c then (Inr current, m)
          else if TrimSpace (cr_RefreshToken current) = []
          then (Inl (PlainError (''oauth credential '' @ quoted (cr_ID current) @ '' requires reconnect'')), m)
          else case oauthRefreshEndpoint (cr_Provider current) of
                 (endpoint, clientID) \<Rightarrow>
                   (case oauth_post env
                           \<lparr>pe_encode = ''encode OAuth refresh: '', pe_create = ''create OAuth refresh: '',
                            pe_send = ''OAuth refresh request: '', pe_read = ''read OAuth refresh response: ''\<rparr>
                           endpoint [(''client_id'', clientID), (''grant_type'', ''refresh_token''), (''refresh_token'', cr_RefreshToken current)] m of
                      (Inl e, m1) \<Rightarrow> (Inl e, m1)
                    | (Inr (status, payload), m1) \<Rightarrow>
                        if status \<noteq> 200
                        then (Inl (PlainError (''OAuth refresh failed with status '' @ show_int status @ ''; reconnect is required'')), m1)
                        else case ov_token env payload of
                               Inl e \<Rightarrow> (Inl (wrapf ''decode OAuth refresh response: '' e), m1)
                             | Inr token \<Rightarrow>
                                 if TrimSpace (tk_AccessToken token) = [] \<or> tk_ExpiresIn token \<le> 0
                                 then (Inl (PlainError ''OAuth refresh response is invalid; reconnect is required''), m1)
                                 else case store_Save env (clk 3) (refreshed (clk 2) token current) (mg_disk m1) of
                                        (Some e, d) \<Rightarrow> (Inl e, m1\<lparr>mg_disk := d\<rparr>)
                                      | (None, d) \<Rightarrow> (store_Load env (cr_ID current) d, m1\<lparr>mg_disk := d\<rparr>)))"

definition wrong_provider :: "string \<Rightarrow> string \<Rightarrow> go_error" where
  "wrong_provider i provider = PlainError (''oauth credential '' @ quoted i @ '' is not a '' @ provider @ '' credential'')"

definition manager_Credential :: "oauth_env \<Rightarrow> (nat \<Rightarrow> gotime) \<Rightarrow> string \<Rightarrow> string \<Rightarrow> Manager \<Rightarrow> (go_error + Credential) \<times> Manager" where
  "manager_Credential env clk i provider m =
     (case store_Load env i (mg_disk m) of
        Inl e \<Rightarrow> (Inl e, m)
      | Inr c \<Rightarrow>
          if cr_Provider c \<noteq> provider then (Inl (wrong_provider i provider), m)
          else if cr_ExpiresAt c > clk 0 + Minute then (Inr c, m)
          else refreshCredential env clk c m)"

definition RefreshCredential :: "oauth_env \<Rightarrow> (nat \<Rightarrow> gotime) \<Rightarrow> string \<Rightarrow> string \<Rightarrow> Manager \<Rightarrow> (go_error + Credential) \<times> Manager" where
  "RefreshCredential env clk i provider m =
     (case store_Load env i (mg_disk m) of
        Inl e \<Rightarrow> (Inl e, m)
      | Inr c \<Rightarrow> if cr_Provider c \<noteq> provider then (Inl (wrong_provider i provider), m) else refreshCredential env clk c m)"

end
