(* ===== verification/OAuth_Laws.thy ===== *)
theory OAuth_Laws
  imports OAuth
begin

text \<open>
  Properties of the OAuth store and manager: what a saved credential is when it is loaded, which credential a request gets, when a
  login may write a credential, and that interleaved operations use a flow at most once.
\<close>

section \<open>The store\<close>


definition stamped :: "gotime \<Rightarrow> Credential \<Rightarrow> Credential" where
  "stamped now c = c\<lparr>cr_CreatedAt := (if IsZero (cr_CreatedAt c) then now else cr_CreatedAt c), cr_UpdatedAt := now\<rparr>"

lemma stamped_simps [simp]:
  "cr_ID (stamped now c) = cr_ID c" "cr_Provider (stamped now c) = cr_Provider c" "cr_AccessToken (stamped now c) = cr_AccessToken c"
  "cr_ExpiresAt (stamped now c) = cr_ExpiresAt c" "cr_RefreshToken (stamped now c) = cr_RefreshToken c" "cr_Scope (stamped now c) = cr_Scope c"
  "validateCredential (stamped now c) = validateCredential c"
  by (simp_all add: stamped_def validateCredential_def Let_def split: option.split)

lemma cred_path_inj [simp]: "cred_path i = cred_path j \<longleftrightarrow> i = j"
  by (simp add: cred_path_def)

text \<open>A save writes the file of its credential only, if it writes at all.\<close>

lemma store_Save_cases:
  assumes "store_Save env now c d = (res, d')"
  obtains (kept) "res \<noteq> None" "entries d' = entries d"
  | (written) data where "ov_encode env \<lparr>pc_Version = credentialVersion, pc_Credential = stamped now c\<rparr> = Inr data"
      "validateCredential c = None" "entries d' = AList.update (cred_path (cr_ID c)) \<lparr>en_IsDir = False, en_Perm = 384, en_Data = data\<rparr> (entries d)"
proof (cases "validateCredential c")
  case (Some e)
  then have "res = Some e" "d' = d" using assms by (simp_all add: store_Save_def)
  then show ?thesis using kept by simp
next
  case None
  then show ?thesis
    using assms kept written
    by (auto simp: store_Save_def writeLocked_def Let_def entries_def simp flip: stamped_def split: option.splits sum.splits prod.splits if_splits)
qed

lemma store_Save_frame:
  assumes "store_Save env now c d = (res, d')" and "name \<noteq> cred_path (cr_ID c)"
  shows "map_of (entries d') name = map_of (entries d) name"
  using assms(1) by (cases rule: store_Save_cases) (use assms(2) in \<open>simp_all add: AList.update_conv\<close>)



section \<open>Flows\<close>

lemma cleanup_flows: "(i, f) \<in> set (mg_flows (cleanupLocked now m)) \<longleftrightarrow> (i, f) \<in> set (mg_flows m) \<and> fl_ExpiresAt f > now"
  by (auto simp: cleanupLocked_def)

lemma take_flow_some:
  assumes "take_flow now i m = (Some f, m')"
  shows "(i, f) \<in> set (mg_flows m)" "fl_ExpiresAt f > now" "i \<notin> fst ` set (mg_flows m')" "mg_disk m' = mg_disk m"
    "set (mg_flows m') \<subseteq> set (mg_flows m)"
proof -
  let ?m = "cleanupLocked now m"
  from assms have "map_of (mg_flows ?m) i = Some f" and m': "m' = ?m\<lparr>mg_flows := AList.delete i (mg_flows ?m)\<rparr>"
    by (auto simp: take_flow_def Let_def split: option.splits)
  then have "(i, f) \<in> set (mg_flows ?m)" by (simp add: map_of_SomeD)
  then show "(i, f) \<in> set (mg_flows m)" "fl_ExpiresAt f > now" by (simp_all add: cleanup_flows)
  show "i \<notin> fst ` set (mg_flows m')" "mg_disk m' = mg_disk m" using m' by (auto simp: AList.delete_eq cleanupLocked_def)
  show "set (mg_flows m') \<subseteq> set (mg_flows m)" using m' by (auto simp: AList.delete_eq cleanupLocked_def)
qed

lemma oauth_post_frame [simp]:
  "mg_flows (snd (oauth_post env msgs url flds m)) = mg_flows m" "mg_disk (snd (oauth_post env msgs url flds m)) = mg_disk m"
  by (simp_all add: oauth_post_def split: sum.split option.split)

lemma oauth_post_frameD: "oauth_post env msgs url flds m = (r, m') \<Longrightarrow> mg_flows m' = mg_flows m \<and> mg_disk m' = mg_disk m"
  using oauth_post_frame [of env msgs url flds m] by simp


lemma save_result_frame:
  "mg_flows (snd (save_result env now c m)) = mg_flows m"
  "name \<noteq> cred_path (cr_ID c) \<Longrightarrow> map_of (entries (mg_disk (snd (save_result env now c m)))) name = map_of (entries (mg_disk m)) name"
  using store_Save_frame [of env now c "mg_disk m"]
  by (auto simp: save_result_def split: prod.split option.split)


section \<open>Interleaved operations\<close>

text \<open>
  A login is cut where other operations may run: between the sections under the lock and the requests to the servers.
\<close>

datatype login =
    PollLookup string
  | PollRequest string Flow
  | PollTake string Flow string string
  | PollExchange string Flow string string
  | ClaudeTake string string
  | ClaudeExchange string Flow string
  | LoginDone string "go_error + Metadata"

fun login_step :: "oauth_env \<Rightarrow> (nat \<Rightarrow> gotime) \<Rightarrow> login \<times> Manager \<Rightarrow> login \<times> Manager" where
  "login_step env clk (PollLookup i, m) =
     (case poll_lookup (clk 0) i m of (None, m1) \<Rightarrow> (LoginDone i (Inl flow_not_found), m1) | (Some f, m1) \<Rightarrow> (PollRequest i f, m1))"
| "login_step env clk (PollRequest i f, m) =
     (case poll_request env f m of (Inl e, m1) \<Rightarrow> (LoginDone i (Inl e), m1) | (Inr (code, verifier), m1) \<Rightarrow> (PollTake i f code verifier, m1))"
| "login_step env clk (PollTake i f code verifier, m) =
     (case poll_take i f m of (False, m1) \<Rightarrow> (LoginDone i (Inl flow_not_found), m1) | (True, m1) \<Rightarrow> (PollExchange i f code verifier, m1))"
| "login_step env clk (PollExchange i f code verifier, m) = apfst (LoginDone i) (exchangeCodexAuthorizationCode env clk f code verifier m)"
| "login_step env clk (ClaudeTake i callback, m) =
     (case take_flow (clk 0) i m of (None, m1) \<Rightarrow> (LoginDone i (Inl flow_not_found), m1) | (Some f, m1) \<Rightarrow> (ClaudeExchange i f callback, m1))"
| "login_step env clk (ClaudeExchange i f callback, m) = apfst (LoginDone i) (exchangeClaudeCallback env clk f callback m)"
| "login_step env clk (LoginDone i result, m) = (LoginDone i result, m)"

text \<open>Run to its end with nothing in between, these are the operations of the manager.\<close>

definition login_alone :: "oauth_env \<Rightarrow> (nat \<Rightarrow> gotime) \<Rightarrow> login \<Rightarrow> Manager \<Rightarrow> login \<times> Manager" where
  "login_alone env clk op m = (login_step env clk ^^ 4) (op, m)"

lemma poll_alone: "login_alone env clk (PollLookup i) m = apfst (LoginDone i) (PollCodexDeviceFlow env clk i m)"
  by (simp add: login_alone_def eval_nat_numeral PollCodexDeviceFlow_def apfst_def map_prod_def
      split: prod.split option.split sum.split bool.split)

lemma complete_alone: "login_alone env clk (ClaudeTake i callback) m = apfst (LoginDone i) (CompleteClaudeFlow env clk i callback m)"
  by (simp add: login_alone_def eval_nat_numeral CompleteClaudeFlow_def apfst_def map_prod_def split: prod.split option.split)

primrec login_flow :: "login \<Rightarrow> string" where
  "login_flow (PollLookup i) = i"
| "login_flow (PollRequest i f) = i"
| "login_flow (PollTake i f code verifier) = i"
| "login_flow (PollExchange i f code verifier) = i"
| "login_flow (ClaudeTake i callback) = i"
| "login_flow (ClaudeExchange i f callback) = i"
| "login_flow (LoginDone i result) = i"

text \<open>
  A request that exchanges an authorization code, and what \<open>json.Marshal\<close> promises of it: its text determines whether it has that grant
  type.
\<close>

definition code_grant :: "string \<times> string" where
  "code_grant = (''grant_type'', ''authorization_code'')"

definition fields_ok :: "((string \<times> string) list \<Rightarrow> go_error + raw_json) \<Rightarrow> bool" where
  "fields_ok encode \<longleftrightarrow> (\<forall>xs ys body. encode xs = Inr body \<and> encode ys = Inr body \<longrightarrow> (code_grant \<in> set xs \<longleftrightarrow> code_grant \<in> set ys))"

definition exchanges_code :: "((string \<times> string) list \<Rightarrow> go_error + raw_json) \<Rightarrow> string \<times> raw_json \<Rightarrow> bool" where
  "exchanges_code encode post \<longleftrightarrow> (\<exists>xs. encode xs = Inr (snd post) \<and> code_grant \<in> set xs)"

text \<open>
  A world is the manager, the ids of the flows that were started, the logins under way, and the requests sent so far that exchange a code,
  each with the flow id of the login that sent it. The steps: a flow is started, a login begins, a login goes on to its next cut,
  any request without a code grant is sent (those of the device flow and of a refresh), any file is written.
\<close>

record world =
  wo_manager :: Manager
  wo_started :: "string list"
  wo_logins :: "login list"
  wo_exchanges :: "(string \<times> string \<times> raw_json) list"

definition sent_since :: "Manager \<Rightarrow> Manager \<Rightarrow> (string \<times> raw_json) list" where
  "sent_since m m' = drop (length (mg_posts m)) (mg_posts m')"

inductive flow_step :: "((string \<times> string) list \<Rightarrow> go_error + raw_json) \<Rightarrow> world \<Rightarrow> world \<Rightarrow> bool" for encode where
  start: "flow_step encode w (w\<lparr>wo_manager := add_flow now f (wo_manager w), wo_started := fl_ID f # wo_started w\<rparr>)"
| begin_poll: "flow_step encode w (w\<lparr>wo_logins := wo_logins w @ [PollLookup i]\<rparr>)"
| begin_complete: "flow_step encode w (w\<lparr>wo_logins := wo_logins w @ [ClaudeTake i callback]\<rparr>)"
| proceed: "k < length (wo_logins w) \<Longrightarrow> ov_fields env = encode \<Longrightarrow>
    login_step env clk (wo_logins w ! k, wo_manager w) = (op', m') \<Longrightarrow>
    flow_step encode w (w\<lparr>wo_manager := m', wo_logins := (wo_logins w)[k := op'],
      wo_exchanges := wo_exchanges w @ map (Pair (login_flow op')) (filter (exchanges_code encode) (sent_since (wo_manager w) m'))\<rparr>)"
| request: "code_grant \<notin> set flds \<Longrightarrow> ov_fields env = encode \<Longrightarrow>
    flow_step encode w (w\<lparr>wo_manager := snd (oauth_post env msgs url flds (wo_manager w))\<rparr>)"
| file_write: "flow_step encode w (w\<lparr>wo_manager := (wo_manager w)\<lparr>mg_disk := d\<rparr>\<rparr>)"

inductive_cases flow_stepE: "flow_step encode w w'"

definition live :: "string \<Rightarrow> Manager \<Rightarrow> nat" where
  "live i m = (if i \<in> fst ` set (mg_flows m) then 1 else 0)"

lemma live_mono: "fst ` set (mg_flows m') \<subseteq> fst ` set (mg_flows m) \<Longrightarrow> live i m' \<le> live i m"
  by (auto simp: live_def)

lemma live_cleanup: "live i (cleanupLocked now m) \<le> live i m"
  by (rule live_mono) (auto simp: cleanupLocked_def)

lemma live_add: "live i (add_flow now f m) \<le> (if i = fl_ID f then 1 else live i m)"
proof -
  have "fst ` set (mg_flows (add_flow now f m)) = insert (fl_ID f) (fst ` set (mg_flows (cleanupLocked now m)))"
    by (simp add: add_flow_def Let_def dom_update)
  then show ?thesis by (auto simp: live_def cleanupLocked_def)
qed

lemma live_delete: "live i (m\<lparr>mg_flows := AList.delete j (mg_flows m)\<rparr>) = (if i = j then 0 else live i m)"
  by (auto simp: live_def AList.delete_eq image_iff)

lemma live_poll_take: "poll_take j f m = (won, m') \<Longrightarrow> live i m' + count_list (if won then [j] else []) i \<le> live i m"
  by (auto simp: poll_take_def live_delete split: option.splits if_splits dest!: map_of_SomeD) (force simp: live_def)

lemma live_take_flow: "take_flow now j m = (found, m') \<Longrightarrow> live i m' + count_list (if found = None then [] else [j]) i \<le> live i m"
proof (cases found)
  case None
  assume "take_flow now j m = (found, m')"
  with None show ?thesis using live_cleanup [of i now m] by (auto simp: take_flow_def Let_def split: option.splits)
next
  case (Some f)
  assume "take_flow now j m = (found, m')"
  with Some have t: "take_flow now j m = (Some f, m')" by simp
  have "live j m = 1" using take_flow_some(1) [OF t] by (force simp: live_def)
  moreover have "live j m' = 0" using take_flow_some(3) [OF t] by (simp add: live_def)
  moreover have "live i m' \<le> live i m" by (rule live_mono) (use take_flow_some(5) [OF t] in auto)
  ultimately show ?thesis using Some by auto
qed

text \<open>A login that holds a flow may still exchange its code.\<close>

fun holds :: "string \<Rightarrow> login \<Rightarrow> nat" where
  "holds i (PollExchange j f code verifier) = (if j = i then 1 else 0)"
| "holds i (ClaudeExchange j f callback) = (if j = i then 1 else 0)"
| "holds i _ = 0"

text \<open>The code grants among the requests of an operation, at most one each, and that it keeps the flows.\<close>

definition posts_codes :: "((string \<times> string) list \<Rightarrow> go_error + raw_json) \<Rightarrow> nat \<Rightarrow> Manager \<Rightarrow> Manager \<Rightarrow> bool" where
  "posts_codes encode n m m' \<longleftrightarrow> mg_flows m' = mg_flows m \<and>
     (\<exists>new. mg_posts m' = mg_posts m @ new \<and> length (filter (exchanges_code encode) new) \<le> n)"

lemma posts_codes_refl: "posts_codes encode n m m" "posts_codes encode n m (m\<lparr>mg_disk := d\<rparr>)"
  by (simp_all add: posts_codes_def)

lemma oauth_post_codes:
  assumes "fields_ok (ov_fields env)"
  shows "posts_codes (ov_fields env) (if code_grant \<in> set flds then 1 else 0) m (snd (oauth_post env msgs url flds m))"
proof -
  have "\<not> exchanges_code (ov_fields env) (url, body)" if "ov_fields env flds = Inr body" "code_grant \<notin> set flds" for body
    using assms that unfolding fields_ok_def exchanges_code_def snd_conv by blast
  then show ?thesis by (auto simp: oauth_post_def posts_codes_def split: sum.split option.split)
qed

lemma posts_codes_save: "posts_codes encode n m (snd (save_result env now c m1)) = posts_codes encode n m m1"
  by (simp add: save_result_def posts_codes_def split: prod.split option.split)

lemma oauth_post_codesD:
  assumes "oauth_post env msgs url flds m = (r, m1)" "fields_ok (ov_fields env)" "code_grant \<in> set flds \<longrightarrow> n = 1"
  shows "posts_codes (ov_fields env) n m m1"
proof -
  have "posts_codes (ov_fields env) (if code_grant \<in> set flds then 1 else 0) m m1"
    using oauth_post_codes [OF assms(2), of flds m msgs url] assms(1) by simp
  then show ?thesis using assms(3) by (auto simp: posts_codes_def split: if_splits)
qed

lemma poll_request_codes:
  assumes "fields_ok (ov_fields env)"
  shows "posts_codes (ov_fields env) 0 m (snd (poll_request env f m))"
proof -
  obtain r m1 where p: "oauth_post env \<lparr>pe_encode = ''encode Codex device token request: '', pe_create = ''create Codex device token request: '',
      pe_send = ''codex device token request: '', pe_read = ''read Codex device token response: ''\<rparr> codexDeviceTokenURL
      [(''client_id'', codexClientID), (''device_auth_id'', fl_deviceAuthID f), (''user_code'', fl_UserCode f)] m = (r, m1)" by fastforce
  then have "snd (poll_request env f m) = m1" by (simp add: poll_request_def split: sum.split)
  then show ?thesis using oauth_post_codesD [OF p assms, of 0] by (simp add: code_grant_def)
qed

lemma codex_exchange_codes:
  assumes "fields_ok (ov_fields env)"
  shows "posts_codes (ov_fields env) 1 m (snd (exchangeCodexAuthorizationCode env clk f code verifier m))"
  unfolding exchangeCodexAuthorizationCode_def
  by (auto simp: posts_codes_save split: prod.split sum.split intro: oauth_post_codesD [OF _ assms])

lemma claude_exchange_codes:
  assumes "fields_ok (ov_fields env)"
  shows "posts_codes (ov_fields env) 1 m (snd (exchangeClaudeCallback env clk f callback m))"
  unfolding exchangeClaudeCallback_def Let_def
  by (auto simp: posts_codes_save posts_codes_refl split: prod.split sum.split intro: oauth_post_codesD [OF _ assms])

text \<open>A login that goes on keeps its flow id, and what it sends, holds and leaves in the table is no more than it held and found.\<close>

lemma posts_codes_live: "posts_codes encode n m m' \<Longrightarrow> live i m' = live i m"
  by (simp add: posts_codes_def live_def)

lemma login_step_once:
  assumes "login_step env clk (op, m) = (op', m')" "fields_ok (ov_fields env)"
  shows "login_flow op' = login_flow op \<and> (\<exists>new. mg_posts m' = mg_posts m @ new \<and>
    (\<forall>i. (if login_flow op = i then length (filter (exchanges_code (ov_fields env)) new) else 0) + holds i op' + live i m' \<le> holds i op + live i m))"
proof -
  have by_posts: ?thesis
    if sent: "posts_codes (ov_fields env) n m m'" and same: "login_flow op' = login_flow op"
      and held: "\<And>i. holds i op' + (if login_flow op = i then n else 0) \<le> holds i op" for n
  proof -
    obtain new where new: "mg_posts m' = mg_posts m @ new" "length (filter (exchanges_code (ov_fields env)) new) \<le> n"
      using sent by (auto simp: posts_codes_def)
    have "(if login_flow op = i then length (filter (exchanges_code (ov_fields env)) new) else 0) + holds i op' + live i m' \<le> holds i op + live i m" for i
      using held [of i] new(2) posts_codes_live [OF sent, of i] by (simp split: if_splits)
    then show ?thesis using same new(1) by blast
  qed
  have quiet: ?thesis if "mg_posts m' = mg_posts m" "login_flow op' = login_flow op" "\<And>i. holds i op' + live i m' \<le> holds i op + live i m"
    using that by (intro conjI exI [of _ "[]"]) auto
  show ?thesis
  proof (cases op)
    case (PollLookup i)
    obtain found m1 where l: "poll_lookup (clk 0) i m = (found, m1)" by fastforce
    then have "m1 = cleanupLocked (clk 0) m" by (simp add: poll_lookup_def Let_def)
    then show ?thesis using assms(1) PollLookup l live_cleanup
      by (cases found) (auto intro!: quiet simp: cleanupLocked_def)
  next
    case (PollRequest i f)
    then have "m' = snd (poll_request env f m)" "login_flow op' = i" "\<And>j. holds j op' = 0"
      using assms(1) by (auto split: prod.splits sum.splits)
    then show ?thesis using poll_request_codes [OF assms(2), of m f] PollRequest by (intro by_posts [of 0]) auto
  next
    case (PollTake i f code verifier)
    obtain won m1 where t: "poll_take i f m = (won, m1)" by fastforce
    then have "mg_posts m1 = mg_posts m" by (auto simp: poll_take_def split: option.splits if_splits)
    moreover have "holds j op' + live j m1 \<le> live j m" for j
      using assms(1) PollTake t live_poll_take [OF t, of j] by (cases won) (auto split: if_splits)
    ultimately show ?thesis using assms(1) PollTake t by (cases won) (auto intro!: quiet)
  next
    case (PollExchange i f code verifier)
    then have "m' = snd (exchangeCodexAuthorizationCode env clk f code verifier m)" "login_flow op' = i" "\<And>j. holds j op' = 0"
      using assms(1) by (auto simp: apfst_def map_prod_def split: prod.splits)
    then show ?thesis using codex_exchange_codes [OF assms(2), of m clk f code verifier] PollExchange by (intro by_posts [of 1]) auto
  next
    case (ClaudeTake i callback)
    obtain found m1 where t: "take_flow (clk 0) i m = (found, m1)" by fastforce
    then have "mg_posts m1 = mg_posts m" by (auto simp: take_flow_def cleanupLocked_def Let_def split: option.splits)
    moreover have "holds j op' + live j m1 \<le> live j m" for j
      using assms(1) ClaudeTake t live_take_flow [OF t, of j] by (cases found) (auto split: if_splits)
    ultimately show ?thesis using assms(1) ClaudeTake t by (cases found) (auto intro!: quiet)
  next
    case (ClaudeExchange i f callback)
    then have "m' = snd (exchangeClaudeCallback env clk f callback m)" "login_flow op' = i" "\<And>j. holds j op' = 0"
      using assms(1) by (auto simp: apfst_def map_prod_def split: prod.splits)
    then show ?thesis using claude_exchange_codes [OF assms(2), of m clk f callback] ClaudeExchange by (intro by_posts [of 1]) auto
  next
    case (LoginDone i result)
    then show ?thesis using assms(1) by (intro quiet) auto
  qed
qed

text \<open>
  The invariant: the exchanges are the requests with a code grant in the order they were sent, and those of a flow id, the logins that hold
  the flow and the flow in the table are together no more than the flows started with that id.
\<close>

definition exchanges_of :: "string \<Rightarrow> world \<Rightarrow> nat" where
  "exchanges_of i w = length (filter (\<lambda>x. fst x = i) (wo_exchanges w))"

definition used_once :: "((string \<times> string) list \<Rightarrow> go_error + raw_json) \<Rightarrow> world \<Rightarrow> bool" where
  "used_once encode w \<longleftrightarrow> map snd (wo_exchanges w) = filter (exchanges_code encode) (mg_posts (wo_manager w)) \<and>
     (\<forall>i. exchanges_of i w + sum_list (map (holds i) (wo_logins w)) + live i (wo_manager w) \<le> count_list (wo_started w) i)"

lemma holds_update:
  "k < length ops \<Longrightarrow> sum_list (map (holds i) (ops[k := op])) + holds i (ops ! k) = sum_list (map (holds i) ops) + holds i op"
  by (induction ops arbitrary: k) (auto split: nat.split simp: nth_Cons)

lemma flow_step_used_once: "flow_step encode w w' \<Longrightarrow> fields_ok encode \<Longrightarrow> used_once encode w \<Longrightarrow> used_once encode w'"
proof (induction rule: flow_step.induct)
  case (start w f now)
  have "mg_posts (add_flow now f m) = mg_posts m" for m by (simp add: add_flow_def cleanupLocked_def Let_def)
  moreover have "exchanges_of j w + sum_list (map (holds j) (wo_logins w)) + live j (add_flow now f (wo_manager w)) \<le> count_list (fl_ID f # wo_started w) j" for j
  proof -
    have "exchanges_of j w + sum_list (map (holds j) (wo_logins w)) + live j (wo_manager w) \<le> count_list (wo_started w) j"
      using start.prems by (simp add: used_once_def)
    then show ?thesis using live_add [of j now f "wo_manager w"] by (simp split: if_splits)
  qed
  ultimately show ?case using start.prems by (simp add: used_once_def exchanges_of_def)
next
  case (proceed k w env clk op' m')
  let ?op = "wo_logins w ! k" and ?new = "sent_since (wo_manager w) m'"
  obtain new where new: "login_flow op' = login_flow ?op" "mg_posts m' = mg_posts (wo_manager w) @ new"
    "\<And>i. (if login_flow ?op = i then length (filter (exchanges_code encode) new) else 0) + holds i op' + live i m' \<le> holds i ?op + live i (wo_manager w)"
    using login_step_once [OF proceed(3)] proceed(2,4) by auto
  then have sent: "?new = new" by (simp add: sent_since_def)
  have "exchanges_of i (w\<lparr>wo_manager := m', wo_logins := (wo_logins w)[k := op'],
      wo_exchanges := wo_exchanges w @ map (Pair (login_flow op')) (filter (exchanges_code encode) ?new)\<rparr>) =
      exchanges_of i w + (if login_flow ?op = i then length (filter (exchanges_code encode) new) else 0)" for i
    using new(1) by (simp add: exchanges_of_def sent filter_map comp_def)
  note exchanges = this
  have before: "exchanges_of i w + sum_list (map (holds i) (wo_logins w)) + live i (wo_manager w) \<le> count_list (wo_started w) i" for i
    using proceed.prems by (simp add: used_once_def)
  have "exchanges_of i (w\<lparr>wo_manager := m', wo_logins := (wo_logins w)[k := op'],
      wo_exchanges := wo_exchanges w @ map (Pair (login_flow op')) (filter (exchanges_code encode) ?new)\<rparr>) +
      sum_list (map (holds i) ((wo_logins w)[k := op'])) + live i m' \<le> count_list (wo_started w) i" for i
  proof -
    have arith: "e + n + s' + l' \<le> c" if "n + h' + l' \<le> h + l" "s' + h = s0 + h'" "e + s0 + l \<le> c" for e n s' l' c h' h l s0 :: nat
      using that by linarith
    show ?thesis
      unfolding exchanges by (rule arith [OF new(3) [of i] holds_update [OF proceed(1), of i op'] before [of i]])
  qed
  then show ?case using proceed.prems new(2) sent by (simp add: used_once_def comp_def)
next
  case (request flds env w msgs url)
  let ?m = "snd (oauth_post env msgs url flds (wo_manager w))"
  obtain new where new: "mg_posts ?m = mg_posts (wo_manager w) @ new" "filter (exchanges_code encode) new = []" "mg_flows ?m = mg_flows (wo_manager w)"
    using oauth_post_codes [of env flds "wo_manager w" msgs url] request by (auto simp: posts_codes_def)
  then show ?case using request.prems by (simp add: used_once_def exchanges_of_def live_def)
qed (simp_all add: used_once_def exchanges_of_def live_def)

section \<open>Refresh\<close>


lemmas claude_defs = CompleteClaudeFlow_def exchangeClaudeCallback_def

section \<open>Properties\<close>

text \<open>C25: However the logins of any number of clients interleave with each other and with refreshes, no login flow is used twice: the
  requests that exchange an authorization code are those of the logins, and for no flow id are there more of them than flows started with
  that id. The logins are those of the manager: run without interruption they are \<open>PollCodexDeviceFlow\<close> and \<open>CompleteClaudeFlow\<close>.
  The manager starts without flows, and the text of a request determines its grant type.\<close>

theorem flow_used_once:
  assumes "(flow_step encode)\<^sup>*\<^sup>* \<lparr>wo_manager = \<lparr>mg_flows = [], mg_disk = d, mg_posts = []\<rparr>, wo_started = [], wo_logins = [], wo_exchanges = []\<rparr> w"
    and "fields_ok encode"
  shows "map snd (wo_exchanges w) = filter (exchanges_code encode) (mg_posts (wo_manager w)) \<and>
    length (filter (\<lambda>x. fst x = i) (wo_exchanges w)) \<le> count_list (wo_started w) i \<and>
    login_alone env clk (PollLookup i) m = apfst (LoginDone i) (PollCodexDeviceFlow env clk i m) \<and>
    login_alone env clk (ClaudeTake i callback) m = apfst (LoginDone i) (CompleteClaudeFlow env clk i callback m)"
proof -
  from assms have "used_once encode w"
  proof (induction rule: rtranclp_induct)
    case base
    then show ?case by (simp add: used_once_def exchanges_of_def live_def)
  qed (rule flow_step_used_once)
  then have "map snd (wo_exchanges w) = filter (exchanges_code encode) (mg_posts (wo_manager w))"
    "length (filter (\<lambda>x. fst x = i) (wo_exchanges w)) \<le> count_list (wo_started w) i"
    unfolding used_once_def exchanges_of_def by (auto dest: add_leD1)
  then show ?thesis using poll_alone complete_alone by blast
qed

text \<open>C26: A Claude login writes a credential only for a flow that was started, has not expired and is used up by it, and only when the
  callback carries the state of that flow; it writes no file but that of the credential the flow was started for.\<close>

theorem login_checks_state:
  assumes "CompleteClaudeFlow env clk flowID callback m = (res, m')" and "mg_disk m' \<noteq> mg_disk m"
  shows "\<exists>f query. (flowID, f) \<in> set (mg_flows m) \<and> clk 0 < fl_ExpiresAt f \<and> fl_Provider f = ProviderClaude \<and>
    ov_query env (TrimSpace callback) = Inr query \<and> query ''state'' = fl_state f \<and> fl_state f \<noteq> [] \<and>
    flowID \<notin> fst ` set (mg_flows m') \<and>
    (\<forall>name. name \<noteq> cred_path (fl_CredentialID f) \<longrightarrow> map_of (entries (mg_disk m')) name = map_of (entries (mg_disk m)) name)"
proof -
  obtain found m1 where t: "take_flow (clk 0) flowID m = (found, m1)" by fastforce
  have kept: "mg_disk m1 = mg_disk m" using t by (auto simp: take_flow_def Let_def cleanupLocked_def split: option.splits)
  obtain f where f: "take_flow (clk 0) flowID m = (Some f, m1)"
    using assms t kept by (cases found) (auto simp: claude_defs)
  have claude: "fl_Provider f = ProviderClaude" using assms f kept by (auto simp: claude_defs split: if_splits)
  obtain query where query: "ov_query env (TrimSpace callback) = Inr query"
    using assms f kept claude by (cases "ov_query env (TrimSpace callback)") (auto simp: claude_defs)
  have state: "query ''state'' = fl_state f" "fl_state f \<noteq> []"
    using assms f kept claude query by (auto simp: claude_defs Let_def split: if_splits)
  obtain now c m2 where saved: "save_result env now c m2 = (res, m')" "cr_ID c = fl_CredentialID f" "mg_flows m2 = mg_flows m1" "mg_disk m2 = mg_disk m1"
    using assms f kept claude query state
    by (auto simp: claude_defs Let_def split: prod.splits sum.splits if_splits dest!: oauth_post_frameD)
  show ?thesis
    using take_flow_some [OF f] claude query state saved(2-) kept save_result_frame(1) [of env now c m2]
      save_result_frame(2) [of _ c env now m2] unfolding saved(1)
    by (intro exI [of _ f] exI [of _ query]) simp
qed


section \<open>Witnesses\<close>

text \<open>A credential file holds the id, the access token and the expiry of a Claude credential, all of fixed shape; the server answers
  every request with the token \<open>new\<close>.\<close>

definition sample_credential :: Credential where
  "sample_credential = \<lparr>cr_ID = ''c'', cr_Provider = ProviderClaude, cr_AccessToken = ''old'', cr_RefreshToken = ''r'', cr_ExpiresAt = 1,
     cr_AccountLabel = [], cr_Scope = [], cr_CreatedAt = 1, cr_UpdatedAt = 1\<rparr>"

definition sample_oauth :: oauth_env where
  "sample_oauth =
     \<lparr>ov_fault = (\<lambda>_ _. None),
      ov_encode = (\<lambda>p. if p = \<lparr>pc_Version = 1, pc_Credential = sample_credential\<rparr> then Inr ''old file'' else
        if p = \<lparr>pc_Version = 1, pc_Credential = sample_credential\<lparr>cr_AccessToken := ''new'', cr_ExpiresAt := Hour, cr_UpdatedAt := 0\<rparr>\<rparr>
        then Inr ''new file'' else Inl (PlainError [])),
      ov_decode = (\<lambda>d. Inr \<lparr>pc_Version = 1, pc_Credential = (if d = ''old file'' then sample_credential
        else sample_credential\<lparr>cr_AccessToken := ''new'', cr_ExpiresAt := Hour, cr_UpdatedAt := 0\<rparr>)\<rparr>),
      ov_newRequest = (\<lambda>_. None), ov_post = (\<lambda>_ _ _. Inr \<lparr>pr_Status = 200, pr_Body = [], pr_ReadErr = None\<rparr>), ov_fields = (\<lambda>_. Inr []),
      ov_token = (\<lambda>_. Inr \<lparr>tk_AccessToken = ''new'', tk_RefreshToken = [], tk_ExpiresIn = 3600, tk_Scope = [], tk_Email = []\<rparr>),
      ov_device = (\<lambda>_. Inl (PlainError [])), ov_deviceToken = (\<lambda>_. Inl (PlainError [])), ov_random = (\<lambda>_ _. Inl (PlainError [])),
      ov_sha256 = id, ov_base64 = id, ov_encodeQuery = (\<lambda>_. []), ov_query = (\<lambda>_. Inr (\<lambda>k. if k = ''state'' then ''s'' else ''c''))\<rparr>"

definition sample_flow :: Flow where
  "sample_flow = \<lparr>fl_ID = ''f'', fl_Provider = ProviderClaude, fl_CredentialID = ''c'', fl_AuthorizationURL = [], fl_VerificationURL = [],
     fl_UserCode = [], fl_Interval = 0, fl_ExpiresAt = 5, fl_state = ''s'', fl_verifier = [], fl_deviceAuthID = []\<rparr>"

definition sample_manager :: Manager where
  "sample_manager = \<lparr>mg_flows = [(''f'', sample_flow)],
     mg_disk = Some [(''c.json'', \<lparr>en_IsDir = False, en_Perm = 384, en_Data = ''old file''\<rparr>)], mg_posts = []\<rparr>"


lemma sample_id: "validateCredentialID ''c'' = None"
  by (simp add: validateCredentialID_def credentialIDPattern_def id_first_def)

lemma sample_valid: "cr_ID c = ''c'' \<Longrightarrow> cr_Provider c = ProviderClaude \<Longrightarrow> cr_AccessToken c \<in> {''old'', ''new''} \<Longrightarrow> cr_ExpiresAt c \<noteq> 0 \<Longrightarrow>
    validateCredential c = None"
  by (auto simp: validateCredential_def sample_id IsZero_def trim_eval)









text \<open>The login of the sample flow: the saved credential cannot be encoded here, so the file is written only with an encoder for it.\<close>

definition login_oauth :: oauth_env where
  "login_oauth = sample_oauth\<lparr>ov_encode := (\<lambda>_. Inr ''login file'')\<rparr>"

theorem login_checks_state_witness:
  "mg_disk (snd (CompleteClaudeFlow login_oauth (\<lambda>_. 1) ''f'' ''u'' sample_manager)) \<noteq> mg_disk sample_manager \<and>
   ''f'' \<notin> fst ` set (mg_flows (snd (CompleteClaudeFlow login_oauth (\<lambda>_. 1) ''f'' ''u'' sample_manager)))"
proof -
  let ?run = "CompleteClaudeFlow login_oauth (\<lambda>_. 1) ''f'' ''u'' sample_manager"
  have taken: "take_flow 1 ''f'' sample_manager = (Some sample_flow, sample_manager\<lparr>mg_flows := []\<rparr>)"
    by (simp add: take_flow_def Let_def cleanupLocked_def sample_manager_def sample_flow_def)
  have "validateCredential \<lparr>cr_ID = ''c'', cr_Provider = ProviderClaude, cr_AccessToken = ''new'', cr_RefreshToken = [],
      cr_ExpiresAt = 1 + wrap64 (3600 * Second), cr_AccountLabel = [], cr_Scope = [], cr_CreatedAt = 0, cr_UpdatedAt = 0\<rparr> = None"
    by (rule sample_valid) (simp_all add: wrap64_def duration_defs)
  then have "mg_disk (snd ?run) \<noteq> mg_disk sample_manager"
    by (simp add: claude_defs taken, simp add: sample_flow_def login_oauth_def sample_oauth_def oauth_post_def,
        simp add: sample_manager_def save_result_def store_Save_def writeLocked_def entries_def cred_path_def Let_def IsZero_def)
  moreover obtain res m' where run: "?run = (res, m')" by fastforce
  ultimately show ?thesis using login_checks_state [OF run] by auto
qed

text \<open>A login of the sample flow from its start to the exchange of the code.\<close>

definition sample_encode :: "(string \<times> string) list \<Rightarrow> go_error + raw_json" where
  "sample_encode flds = Inr (if code_grant \<in> set flds then ''code'' else ''other'')"

definition code_oauth :: oauth_env where
  "code_oauth = sample_oauth\<lparr>ov_fields := sample_encode\<rparr>"

theorem flow_used_once_witness:
  "\<exists>w. (flow_step sample_encode)\<^sup>*\<^sup>* \<lparr>wo_manager = \<lparr>mg_flows = [], mg_disk = None, mg_posts = []\<rparr>, wo_started = [], wo_logins = [], wo_exchanges = []\<rparr> w \<and>
     wo_exchanges w = [(''f'', claudeTokenURL, ''code'')] \<and> length (filter (\<lambda>x. fst x = ''f'') (wo_exchanges w)) \<le> count_list (wo_started w) ''f''"
proof -
  let ?m0 = "\<lparr>mg_flows = [], mg_disk = None, mg_posts = []\<rparr>"
  let ?w0 = "\<lparr>wo_manager = ?m0, wo_started = [], wo_logins = [], wo_exchanges = []\<rparr>"
  let ?w1 = "\<lparr>wo_manager = ?m0\<lparr>mg_flows := [(''f'', sample_flow)]\<rparr>, wo_started = [''f''], wo_logins = [], wo_exchanges = []\<rparr>"
  let ?w2 = "?w1\<lparr>wo_logins := [ClaudeTake ''f'' ''u'']\<rparr>"
  let ?w3 = "\<lparr>wo_manager = ?m0, wo_started = [''f''], wo_logins = [ClaudeExchange ''f'' sample_flow ''u''], wo_exchanges = []\<rparr>"
  obtain res m4 where x: "exchangeClaudeCallback code_oauth (\<lambda>_. 0) sample_flow ''u'' ?m0 = (res, m4)" by fastforce
  have fields: "ov_fields code_oauth = sample_encode" by (simp add: code_oauth_def)
  have ok: "fields_ok sample_encode" by (auto simp: fields_ok_def sample_encode_def split: if_splits)
  have posts: "mg_posts m4 = [(claudeTokenURL, ''code'')]"
    using x by (cases "store_Save code_oauth 0 \<lparr>cr_ID = ''c'', cr_Provider = ProviderClaude, cr_AccessToken = ''new'', cr_RefreshToken = [],
        cr_ExpiresAt = wrap64 (3600 * Second), cr_AccountLabel = [], cr_Scope = [], cr_CreatedAt = 0, cr_UpdatedAt = 0\<rparr> None")
      (auto simp: exchangeClaudeCallback_def code_oauth_def sample_oauth_def sample_flow_def oauth_post_def sample_encode_def code_grant_def
        save_result_def split: prod.splits option.splits)
  have code: "exchanges_code sample_encode (claudeTokenURL, ''code'')"
    by (auto simp: exchanges_code_def sample_encode_def intro!: exI [of _ "[code_grant]"])
  let ?w4 = "\<lparr>wo_manager = m4, wo_started = [''f''], wo_logins = [LoginDone ''f'' res], wo_exchanges = [(''f'', claudeTokenURL, ''code'')]\<rparr>"
  have "flow_step sample_encode ?w0 ?w1" using start [of sample_encode ?w0 sample_flow 0] by (simp add: add_flow_def cleanupLocked_def sample_flow_def)
  moreover have "flow_step sample_encode ?w1 ?w2" using begin_complete [of sample_encode ?w1 "''f''" "''u''"] by simp
  moreover have "flow_step sample_encode ?w2 ?w3"
    using proceed [of 0 ?w2 code_oauth sample_encode "\<lambda>_. 0" "ClaudeExchange ''f'' sample_flow ''u''" ?m0] fields
    by (simp add: take_flow_def cleanupLocked_def sample_flow_def sent_since_def)
  moreover have "flow_step sample_encode ?w3 ?w4"
    using proceed [of 0 ?w3 code_oauth sample_encode "\<lambda>_. 0" "LoginDone ''f'' res" m4] fields x posts code by (simp add: sent_since_def)
  ultimately have reach: "(flow_step sample_encode)\<^sup>*\<^sup>* ?w0 ?w4" by (meson converse_rtranclp_into_rtranclp rtranclp.rtrancl_refl)
  from flow_used_once [OF this ok, of "''f''"] reach show ?thesis by (intro exI [of _ ?w4]) simp
qed

end
