(* ===== verification/Local_File.thy ===== *)
theory Local_File
  imports Accounting_Memory Provider_Errors
begin

text \<open>
  The persistent usage store (package \<open>internal/accounting\<close>, \<open>local_file.go\<close>): the memory store, the queue of records towards the
  writer goroutine, the record files with their rotation, the snapshots, and recovery.

  The disk is the table of the record files, each its bytes, with the snapshots. The buffered writer is the \<open>bufio.Writer\<close> of the code: it
  holds up to 4096 bytes, writes them to the file when a line does not fit, passes longer lines through, and keeps an error for good; what
  is on disk may end within a line. The operating system and \<open>encoding/json\<close> are an \<open>lf_env\<close>. An operation that panics is \<open>None\<close>. The goroutine is the function \<open>run_receive\<close> for a
  record taken from the queue, \<open>run_tick\<close> for the ticker and \<open>run_close\<close> for the closed queue.
\<close>

section \<open>State\<close>

record snapshotCursor =
  sc_RecordFile :: string
  sc_RecordLine :: int

record snapshotState =
  sn_Totals :: "(string \<times> stats_group) list"
  sn_Windows :: "(string \<times> (string \<times> stats_group) list) list"
  sn_Cursor :: snapshotCursor
  sn_CapturedAt :: string
  sn_TrackingStartedAt :: string

record lf_disk =
  dk_records :: "(string \<times> string) list"
  dk_latest :: "raw_json option"
  dk_snapshots :: "(string \<times> raw_json) list"

datatype lf_op =
    LfMkdir string | LfOpen string | LfStat string | LfSync string | LfClose string | LfWriteFile string | LfRead string | LfWalk string | LfRemove string

text \<open>A decoded line: a record, an error that is \<open>io.EOF\<close> or \<open>io.ErrUnexpectedEOF\<close>, or another error.\<close>

datatype line_result = LineRecord UsageRecord | LineEOF | LineBad

text \<open>
  \<open>lv_write path content p\<close> is the error of writing \<open>p\<close> to a file with this content, with the number of bytes that were written.
\<close>

record lf_env =
  lv_fault :: "lf_op \<Rightarrow> go_error option"
  lv_write :: "string \<Rightarrow> string \<Rightarrow> string \<Rightarrow> (nat \<times> go_error) option"
  lv_clean :: "string \<Rightarrow> string"
  lv_encode :: "UsageRecord \<Rightarrow> go_error + string"
  lv_decode :: "string \<Rightarrow> line_result"
  lv_snapshot :: "snapshotState \<Rightarrow> go_error + raw_json"
  lv_state :: "raw_json \<Rightarrow> go_error + snapshotState"
  lv_modTime :: "string \<Rightarrow> gotime"

text \<open>The writer: the buffered bytes and its sticky error; \<open>None\<close> when no file is open.\<close>

type_synonym buf_writer = "string \<times> go_error option"

record LocalFileStore =
  lf_memory :: MemoryStore
  lf_cfg :: AccountingLocalFileConfig
  lf_queue :: "UsageRecord list"
  lf_batch :: "UsageRecord list"
  lf_writer :: "buf_writer option"
  lf_currentPath :: string
  lf_currentSize :: int
  lf_currentLine :: int
  lf_currentDay :: string
  lf_currentPart :: int
  lf_dropped :: int
  lf_lastRecordRef :: snapshotCursor
  lf_disk :: lf_disk

definition content_of :: "string \<Rightarrow> lf_disk \<Rightarrow> string" where
  "content_of path d = (case map_of (dk_records d) path of None \<Rightarrow> [] | Some c \<Rightarrow> c)"

definition add_bytes :: "string \<Rightarrow> string \<Rightarrow> lf_disk \<Rightarrow> lf_disk" where
  "add_bytes path p d = d\<lparr>dk_records := AList.update path (content_of path d @ p) (dk_records d)\<rparr>"

definition records_root :: "lf_env \<Rightarrow> LocalFileStore \<Rightarrow> string" where
  "records_root env s = lv_clean env (alf_Dir (lf_cfg s)) @ ''/records''"

definition snapshots_root :: "lf_env \<Rightarrow> LocalFileStore \<Rightarrow> string" where
  "snapshots_root env s = lv_clean env (alf_Dir (lf_cfg s)) @ ''/snapshots''"

section \<open>Recording\<close>

definition lf_Record :: "(rat \<Rightarrow> rat) \<Rightarrow> UsageRecord \<Rightarrow> LocalFileStore \<Rightarrow> LocalFileStore" where
  "lf_Record rnd r s =
     (let s1 = s\<lparr>lf_memory := memory_Record rnd r (lf_memory s)\<rparr>
      in if int (length (lf_queue s1)) < alf_QueueSize (lf_cfg s1) then s1\<lparr>lf_queue := lf_queue s1 @ [r]\<rparr>
         else s1\<lparr>lf_dropped := wrap64 (lf_dropped s1 + 1)\<rparr>)"

definition lf_Query :: "(rat \<Rightarrow> rat) \<Rightarrow> AccountingQuery \<Rightarrow> LocalFileStore \<Rightarrow> query_error + StatsItem list" where
  "lf_Query rnd q s = memory_Query rnd q (lf_memory s)"

definition lf_Coverage :: "LocalFileStore \<Rightarrow> Coverage" where
  "lf_Coverage s =
     (memory_Coverage (lf_memory s))\<lparr>cov_Backend := ''local_file'', cov_AggregatesPersisted := True, cov_RawRetentionDays := alf_RetentionDays (lf_cfg s)\<rparr>"

definition lf_RecentRecords :: "gotime \<Rightarrow> int \<Rightarrow> LocalFileStore \<Rightarrow> UsageRecord list" where
  "lf_RecentRecords since limit s = RecentRecords since limit (lf_memory s)"

section \<open>The writer\<close>

text \<open>\<open>os.File.Write\<close> on a file opened for appending.\<close>

definition file_Write :: "lf_env \<Rightarrow> string \<Rightarrow> string \<Rightarrow> lf_disk \<Rightarrow> (nat \<times> go_error) option \<times> lf_disk" where
  "file_Write env path p d =
     (case lv_write env path (content_of path d) p of
        Some (k, e) \<Rightarrow> (Some (k, e), add_bytes path (take k p) d)
      | None \<Rightarrow> (None, add_bytes path p d))"

text \<open>\<open>bufio.Writer\<close> of the default size. An error stays, with the bytes that were not written.\<close>

definition bufio_size :: nat where "bufio_size = 4096"

definition bufio_Flush :: "lf_env \<Rightarrow> string \<Rightarrow> buf_writer \<Rightarrow> lf_disk \<Rightarrow> go_error option \<times> buf_writer \<times> lf_disk" where
  "bufio_Flush env path w d =
     (case w of
        (buffered, Some e) \<Rightarrow> (Some e, w, d)
      | (buffered, None) \<Rightarrow>
          if buffered = [] then (None, w, d)
          else (case file_Write env path buffered d of
                  (Some (k, e), d1) \<Rightarrow> (Some e, (drop k buffered, Some e), d1)
                | (None, d1) \<Rightarrow> (None, ([], None), d1)))"

text \<open>
  The loop of \<open>Write\<close> runs at most twice: a text that does not fit fills the buffer, which is flushed; into the empty buffer the rest
  goes if it fits, and otherwise it is written at once.
\<close>

definition bufio_Write_empty :: "lf_env \<Rightarrow> string \<Rightarrow> string \<Rightarrow> lf_disk \<Rightarrow> go_error option \<times> buf_writer \<times> lf_disk" where
  "bufio_Write_empty env path p d =
     (if length p \<le> bufio_size then (None, (p, None), d)
      else (case file_Write env path p d of
              (Some (k, e), d1) \<Rightarrow> (Some e, ([], Some e), d1)
            | (None, d1) \<Rightarrow> (None, ([], None), d1)))"

definition bufio_Write :: "lf_env \<Rightarrow> string \<Rightarrow> string \<Rightarrow> buf_writer \<Rightarrow> lf_disk \<Rightarrow> go_error option \<times> buf_writer \<times> lf_disk" where
  "bufio_Write env path p w d =
     (case w of
        (buffered, Some e) \<Rightarrow> (Some e, w, d)
      | (buffered, None) \<Rightarrow>
          (let n = bufio_size - length buffered
           in if length p \<le> n then (None, (buffered @ p, None), d)
              else if buffered = [] then bufio_Write_empty env path p d
              else (case bufio_Flush env path (buffered @ take n p, None) d of
                      (Some e, w1, d1) \<Rightarrow> (Some e, w1, d1)
                    | (None, w1, d1) \<Rightarrow> bufio_Write_empty env path (drop n p) d1)))"

definition flushWriter :: "lf_env \<Rightarrow> LocalFileStore \<Rightarrow> go_error option \<times> LocalFileStore" where
  "flushWriter env s =
     (case lf_writer s of
        None \<Rightarrow> (None, s)
      | Some w \<Rightarrow>
          (case bufio_Flush env (lf_currentPath s) w (lf_disk s) of
             (Some e, w1, d) \<Rightarrow> (Some e, s\<lparr>lf_writer := Some w1, lf_disk := d\<rparr>)
           | (None, w1, d) \<Rightarrow> (lv_fault env (LfSync (lf_currentPath s)), s\<lparr>lf_writer := Some w1, lf_disk := d\<rparr>)))"

text \<open>What is still buffered when the file is closed is lost.\<close>

definition closeWriter :: "lf_env \<Rightarrow> LocalFileStore \<Rightarrow> go_error option \<times> LocalFileStore" where
  "closeWriter env s =
     (case lf_writer s of
        None \<Rightarrow> (None, s)
      | Some _ \<Rightarrow> (lv_fault env (LfClose (lf_currentPath s)), s\<lparr>lf_writer := None, lf_currentPath := [], lf_currentSize := 0\<rparr>))"

text \<open>\<open>day[0:4]\<close>, \<open>day[5:7]\<close> and \<open>day[8:10]\<close> panic on a shorter text.\<close>

definition record_dir :: "lf_env \<Rightarrow> LocalFileStore \<Rightarrow> string \<Rightarrow> string option" where
  "record_dir env s day =
     (if length day < 10 then None
      else Some (records_root env s @ ''/'' @ take 4 day @ ''/'' @ take 2 (drop 5 day) @ ''/'' @ take 2 (drop 8 day)))"

definition part_path :: "string \<Rightarrow> int \<Rightarrow> string" where
  "part_path dir part = dir @ ''/'' @ show_fixed 4 part @ ''.jsonl''"

definition openWriter :: "lf_env \<Rightarrow> string \<Rightarrow> int \<Rightarrow> LocalFileStore \<Rightarrow> (go_error option \<times> LocalFileStore) option" where
  "openWriter env day part s =
     (case flushWriter env s of
        (Some e, s1) \<Rightarrow> Some (Some e, s1)
      | (None, s1) \<Rightarrow>
          (case closeWriter env s1 of
             (Some e, s2) \<Rightarrow> Some (Some e, s2)
           | (None, s2) \<Rightarrow>
               (case record_dir env s2 day of
                  None \<Rightarrow> None
                | Some dir \<Rightarrow>
                    (let path = part_path dir part
                     in case lv_fault env (LfMkdir dir) of
                          Some e \<Rightarrow> Some (Some e, s2)
                        | None \<Rightarrow>
                            (case lv_fault env (LfOpen path) of
                               Some e \<Rightarrow> Some (Some e, s2)
                             | None \<Rightarrow>
                                 (let s3 = s2\<lparr>lf_disk := add_bytes path [] (lf_disk s2)\<rparr>; size = int (length (content_of path (lf_disk s2)))
                                  in case lv_fault env (LfStat path) of
                                       Some e \<Rightarrow> Some (Some e, s3)
                                     | None \<Rightarrow>
                                         Some (None, s3\<lparr>lf_writer := Some ([], None), lf_currentPath := path, lf_currentSize := size,
                                           lf_currentDay := day, lf_currentLine := (if size = 0 then 0 else lf_currentLine s3)\<rparr>)))))))"

definition rotateIfNeeded :: "lf_env \<Rightarrow> UsageRecord \<Rightarrow> LocalFileStore \<Rightarrow> (go_error option \<times> LocalFileStore) option" where
  "rotateIfNeeded env r s =
     (let day = fst (timeBuckets r)
      in if lf_writer s = None \<or> lf_currentDay s \<noteq> day \<or> lf_currentSize s \<ge> wrap64 (alf_RotateMaxSizeMB (lf_cfg s) * 1024 * 1024)
         then let part = (if lf_currentDay s \<noteq> day then 0 else lf_currentPart s) + 1
              in openWriter env day part (s\<lparr>lf_currentPart := part\<rparr>)
         else Some (None, s))"

text \<open>The line and its end in one \<open>Write\<close>; without an open file the writer is nil, and the call panics.\<close>

abbreviation line_end where "line_end \<equiv> CHR 0x0A"

definition write_line :: "lf_env \<Rightarrow> string \<Rightarrow> LocalFileStore \<Rightarrow> (go_error option \<times> LocalFileStore) option" where
  "write_line env payload s =
     (case lf_writer s of
        None \<Rightarrow> None
      | Some w \<Rightarrow>
          (case bufio_Write env (lf_currentPath s) (payload @ [line_end]) w (lf_disk s) of
             (e, w1, d) \<Rightarrow> Some (e, s\<lparr>lf_writer := Some w1, lf_disk := d\<rparr>)))"

definition appendRecord :: "lf_env \<Rightarrow> UsageRecord \<Rightarrow> LocalFileStore \<Rightarrow> (go_error option \<times> LocalFileStore) option" where
  "appendRecord env r s =
     (case rotateIfNeeded env r s of
        None \<Rightarrow> None
      | Some (Some e, s1) \<Rightarrow> Some (Some e, s1)
      | Some (None, s1) \<Rightarrow>
          (case lv_encode env r of
             Inl e \<Rightarrow> Some (Some e, s1)
           | Inr payload \<Rightarrow>
               (case write_line env payload s1 of
                  None \<Rightarrow> None
                | Some (Some e, s2) \<Rightarrow> Some (Some e, s2)
                | Some (None, s2) \<Rightarrow>
                    (let n = lf_currentLine s2 + 1
                     in Some (None, s2\<lparr>lf_currentSize := lf_currentSize s2 + int (length payload) + 1, lf_currentLine := n,
                          lf_lastRecordRef := \<lparr>sc_RecordFile = lf_currentPath s2, sc_RecordLine = n\<rparr>\<rparr>)))))"

section \<open>Snapshots and retention\<close>

text \<open>Maps are values here, so the copies are their arguments; a window that is not supported is left out when it is read back.\<close>

definition cloneStatsGroups :: "(string \<times> stats_group) list \<Rightarrow> (string \<times> stats_group) list" where
  "cloneStatsGroups src = src"

definition cloneWindowGroups ::
  "(string \<times> (string \<times> stats_group) list) list \<Rightarrow> (string \<times> (string \<times> stats_group) list) list" where
  "cloneWindowGroups src = src"

definition clone_window ::
  "string \<times> (string \<times> stats_group) list \<Rightarrow> (string \<times> (string \<times> stats_group) list) list \<Rightarrow> (string \<times> (string \<times> stats_group) list) list" where
  "clone_window src out =
     (case src of (window, groups) \<Rightarrow>
        if \<not> supportedWindow window \<or> window = WindowTotal then out
        else AList.update window
               (fold (\<lambda>(key, group). AList.update key group) groups (case map_of out window of None \<Rightarrow> [] | Some gs \<Rightarrow> gs)) out)"

definition cloneWindowGroupsFromStrings ::
  "(string \<times> (string \<times> stats_group) list) list \<Rightarrow> (string \<times> (string \<times> stats_group) list) list" where
  "cloneWindowGroupsFromStrings src = fold clone_window src [(WindowDay, []), (WindowWeek, []), (WindowMonth, [])]"

text \<open>The loop of a walk that removes expired files: it stops at the first error.\<close>

fun remove_expired :: "lf_env \<Rightarrow> (string \<Rightarrow> bool) \<Rightarrow> string list \<Rightarrow> (string \<times> 'a) list \<Rightarrow> go_error option \<times> (string \<times> 'a) list" where
  "remove_expired env expired [] files = (None, files)"
| "remove_expired env expired (path # paths) files =
     (if expired path then
        (case lv_fault env (LfRemove path) of
           Some e \<Rightarrow> (Some e, files)
         | None \<Rightarrow> remove_expired env expired paths (AList.delete path files))
      else remove_expired env expired paths files)"

definition cleanupSnapshotExpired :: "lf_env \<Rightarrow> gotime \<Rightarrow> LocalFileStore \<Rightarrow> go_error option \<times> LocalFileStore" where
  "cleanupSnapshotExpired env now s =
     (if alf_SnapshotRetentionDays (lf_cfg s) \<le> 0 then (None, s)
      else case lv_fault env (LfWalk (snapshots_root env s)) of
             Some e \<Rightarrow> (Some e, s)
           | None \<Rightarrow>
               (case remove_expired env (\<lambda>path. lv_modTime env path < add_days UTC now (- alf_SnapshotRetentionDays (lf_cfg s)))
                       (sort (map fst (dk_snapshots (lf_disk s)))) (dk_snapshots (lf_disk s)) of
                  (e, files) \<Rightarrow> (e, s\<lparr>lf_disk := (lf_disk s)\<lparr>dk_snapshots := files\<rparr>\<rparr>)))"

definition cleanupExpired :: "lf_env \<Rightarrow> gotime \<Rightarrow> LocalFileStore \<Rightarrow> go_error option \<times> LocalFileStore" where
  "cleanupExpired env now s =
     (if alf_RetentionDays (lf_cfg s) \<le> 0 then (None, s)
      else case lv_fault env (LfWalk (records_root env s)) of
             Some e \<Rightarrow> (Some e, s)
           | None \<Rightarrow>
               (case remove_expired env
                       (\<lambda>path. lv_modTime env path < add_days UTC now (- alf_RetentionDays (lf_cfg s)) \<and> path \<noteq> sc_RecordFile (lf_lastRecordRef s))
                       (sort (map fst (dk_records (lf_disk s)))) (dk_records (lf_disk s)) of
                  (e, files) \<Rightarrow> (e, s\<lparr>lf_disk := (lf_disk s)\<lparr>dk_records := files\<rparr>\<rparr>)))"

text \<open>\<open>Format("2006-01-02T15-04-05Z")\<close> names a snapshot.\<close>

definition snapshot_name :: "gotime \<Rightarrow> string" where
  "snapshot_name t =
     (case local_clock UTC t of (h, mi, sec) \<Rightarrow>
        format_date t @ ''T'' @ show_fixed 2 h @ ''-'' @ show_fixed 2 mi @ ''-'' @ show_fixed 2 sec @ ''Z.json'')"

definition capture :: "gotime \<Rightarrow> LocalFileStore \<Rightarrow> snapshotState" where
  "capture now s =
     \<lparr>sn_Totals = cloneStatsGroups (ms_totals (lf_memory s)), sn_Windows = cloneWindowGroups (ms_windows (lf_memory s)),
      sn_Cursor = lf_lastRecordRef s, sn_CapturedAt = format_RFC3339Nano now,
      sn_TrackingStartedAt = (if ms_coverageKnown (lf_memory s) \<and> \<not> IsZero (ms_trackingStartedAt (lf_memory s))
                              then format_RFC3339Nano (ms_trackingStartedAt (lf_memory s)) else [])\<rparr>"

definition writeSnapshot :: "lf_env \<Rightarrow> (nat \<Rightarrow> gotime) \<Rightarrow> LocalFileStore \<Rightarrow> go_error option \<times> LocalFileStore" where
  "writeSnapshot env clk s =
     (case lv_snapshot env (capture (clk 0) s) of
        Inl e \<Rightarrow> (Some e, s)
      | Inr payload \<Rightarrow>
          (let fullPath = snapshots_root env s @ ''/'' @ snapshot_name (clk 1)
           in case lv_fault env (LfWriteFile fullPath) of
                Some e \<Rightarrow> (Some e, s)
              | None \<Rightarrow>
                  (let s1 = s\<lparr>lf_disk := (lf_disk s)\<lparr>dk_snapshots := AList.update fullPath payload (dk_snapshots (lf_disk s))\<rparr>\<rparr>
                   in case lv_fault env (LfWriteFile (snapshots_root env s @ ''/latest.json'')) of
                        Some e \<Rightarrow> (Some e, s1)
                      | None \<Rightarrow> cleanupSnapshotExpired env (clk 2) (s1\<lparr>lf_disk := (lf_disk s1)\<lparr>dk_latest := Some payload\<rparr>\<rparr>))))"

section \<open>The goroutine\<close>

fun append_batch :: "lf_env \<Rightarrow> UsageRecord list \<Rightarrow> LocalFileStore \<Rightarrow> LocalFileStore option" where
  "append_batch env [] s = Some s"
| "append_batch env (r # rs) s =
     (case appendRecord env r s of
        None \<Rightarrow> None
      | Some (Some e, s1) \<Rightarrow> Some s1
      | Some (None, s1) \<Rightarrow> append_batch env rs s1)"

definition run_flush :: "lf_env \<Rightarrow> (nat \<Rightarrow> gotime) \<Rightarrow> bool \<Rightarrow> LocalFileStore \<Rightarrow> LocalFileStore option" where
  "run_flush env clk forceSnapshot s =
     (case append_batch env (lf_batch s) s of
        None \<Rightarrow> None
      | Some s1 \<Rightarrow>
          (let s2 = snd (flushWriter env (s1\<lparr>lf_batch := []\<rparr>))
           in if forceSnapshot then Some (snd (cleanupExpired env (clk 3) (snd (writeSnapshot env clk s2)))) else Some s2))"

definition run_receive :: "lf_env \<Rightarrow> (nat \<Rightarrow> gotime) \<Rightarrow> LocalFileStore \<Rightarrow> LocalFileStore option" where
  "run_receive env clk s =
     (case lf_queue s of
        [] \<Rightarrow> Some s
      | r # rs \<Rightarrow>
          (let s1 = s\<lparr>lf_queue := rs, lf_batch := lf_batch s @ [r]\<rparr>
           in if int (length (lf_batch s1)) \<ge> alf_WriteBufferRecords (lf_cfg s1) then run_flush env clk False s1 else Some s1))"

definition run_tick :: "lf_env \<Rightarrow> (nat \<Rightarrow> gotime) \<Rightarrow> LocalFileStore \<Rightarrow> LocalFileStore option" where
  "run_tick env clk s = run_flush env clk True s"

definition run_close :: "lf_env \<Rightarrow> (nat \<Rightarrow> gotime) \<Rightarrow> LocalFileStore \<Rightarrow> LocalFileStore option" where
  "run_close env clk s = map_option (\<lambda>s1. snd (closeWriter env s1)) (run_flush env clk True s)"

text \<open>After \<open>Close\<close> the goroutine takes what is queued, then ends.\<close>

fun run_drain :: "lf_env \<Rightarrow> (nat \<Rightarrow> gotime) \<Rightarrow> nat \<Rightarrow> LocalFileStore \<Rightarrow> LocalFileStore option" where
  "run_drain env clk 0 s = run_close env clk s"
| "run_drain env clk (Suc n) s = (case run_receive env clk s of None \<Rightarrow> None | Some s1 \<Rightarrow> run_drain env clk n s1)"

definition lf_Close :: "lf_env \<Rightarrow> (nat \<Rightarrow> gotime) \<Rightarrow> LocalFileStore \<Rightarrow> LocalFileStore option" where
  "lf_Close env clk s = run_drain env clk (length (lf_queue s)) s"

section \<open>Recovery\<close>

text \<open>
  \<open>bufio.ScanLines\<close>: the texts up to each line end, and what follows the last one if it is not empty. A carriage return at the end of
  a line is not part of it. A line that does not fit the scanner's buffer ends the scan with an error.
\<close>

definition maxScanTokenSize :: nat where "maxScanTokenSize = 65536"

function scan_lines :: "string \<Rightarrow> string list" where
  "scan_lines p =
     (if p = [] then []
      else takeWhile (\<lambda>c. c \<noteq> line_end) p # scan_lines (drop 1 (dropWhile (\<lambda>c. c \<noteq> line_end) p)))"
  by pat_completeness auto
termination
proof (relation "measure length")
  fix p :: string
  assume "p \<noteq> []"
  then have "0 < length p" by simp
  moreover have "length (dropWhile (\<lambda>c. c \<noteq> line_end) p) \<le> length p" by (rule length_dropWhile_le)
  ultimately show "(drop 1 (dropWhile (\<lambda>c. c \<noteq> line_end) p), p) \<in> measure length" by (simp del: length_greater_0_conv)
qed simp

declare scan_lines.simps [simp del]

definition drop_cr :: "string \<Rightarrow> string" where
  "drop_cr l = (if l \<noteq> [] \<and> last l = CHR 0x0D then butlast l else l)"

fun replay_lines ::
  "lf_env \<Rightarrow> (rat \<Rightarrow> rat) \<Rightarrow> string \<Rightarrow> string list \<Rightarrow> int \<Rightarrow> LocalFileStore \<Rightarrow> go_error option \<times> LocalFileStore" where
  "replay_lines env rnd path [] line s = (None, s)"
| "replay_lines env rnd path (l # ls) line s =
     (if length l \<ge> maxScanTokenSize then (Some (PlainError ''bufio.Scanner: token too long''), s)
      else if path = sc_RecordFile (lf_lastRecordRef s) \<and> line + 1 \<le> sc_RecordLine (lf_lastRecordRef s)
      then replay_lines env rnd path ls (line + 1) s
      else case lv_decode env (drop_cr l) of
             LineEOF \<Rightarrow> (None, s)
           | LineBad \<Rightarrow> replay_lines env rnd path ls (line + 1) s
           | LineRecord r \<Rightarrow>
               replay_lines env rnd path ls (line + 1)
                 (s\<lparr>lf_memory := memory_Record rnd r (lf_memory s),
                    lf_lastRecordRef := \<lparr>sc_RecordFile = path, sc_RecordLine = line + 1\<rparr>\<rparr>))"

definition replayFile :: "lf_env \<Rightarrow> (rat \<Rightarrow> rat) \<Rightarrow> string \<Rightarrow> LocalFileStore \<Rightarrow> go_error option \<times> LocalFileStore" where
  "replayFile env rnd path s =
     (case lv_fault env (LfOpen path) of
        Some e \<Rightarrow> (Some e, s)
      | None \<Rightarrow>
          (case replay_lines env rnd path (scan_lines (content_of path (lf_disk s))) 0 s of
             (Some e, s1) \<Rightarrow> (Some e, s1)
           | (None, s1) \<Rightarrow> (lv_fault env (LfClose path), s1)))"

fun replay_files :: "lf_env \<Rightarrow> (rat \<Rightarrow> rat) \<Rightarrow> string list \<Rightarrow> LocalFileStore \<Rightarrow> go_error option \<times> LocalFileStore" where
  "replay_files env rnd [] s = (None, s)"
| "replay_files env rnd (path # paths) s =
     (if sc_RecordFile (lf_lastRecordRef s) \<noteq> [] \<and> path < sc_RecordFile (lf_lastRecordRef s) then replay_files env rnd paths s
      else case replayFile env rnd path s of
             (Some e, s1) \<Rightarrow> (Some e, s1)
           | (None, s1) \<Rightarrow> replay_files env rnd paths s1)"

definition replayRecords :: "lf_env \<Rightarrow> (rat \<Rightarrow> rat) \<Rightarrow> LocalFileStore \<Rightarrow> go_error option \<times> LocalFileStore" where
  "replayRecords env rnd s =
     (case lv_fault env (LfWalk (records_root env s)) of
        Some e \<Rightarrow> (Some e, s)
      | None \<Rightarrow> replay_files env rnd (sort (map fst (dk_records (lf_disk s)))) s)"

definition restore_snapshot :: "snapshotState \<Rightarrow> LocalFileStore \<Rightarrow> LocalFileStore" where
  "restore_snapshot st s =
     (let m = (lf_memory s)\<lparr>ms_totals := cloneStatsGroups (sn_Totals st), ms_windows := cloneWindowGroupsFromStrings (sn_Windows st)\<rparr>
      in s\<lparr>lf_memory := (case parse_RFC3339 (sn_TrackingStartedAt st) of
                          Some t \<Rightarrow> m\<lparr>ms_trackingStartedAt := t, ms_coverageKnown := True\<rparr>
                        | None \<Rightarrow> m\<lparr>ms_trackingStartedAt := zeroTime, ms_coverageKnown := False\<rparr>),
           lf_lastRecordRef := sn_Cursor st\<rparr>)"

definition lf_recover :: "lf_env \<Rightarrow> (rat \<Rightarrow> rat) \<Rightarrow> LocalFileStore \<Rightarrow> go_error option \<times> LocalFileStore" where
  "lf_recover env rnd s =
     (let latest = snapshots_root env s @ ''/latest.json'';
          s1 = (case (if lv_fault env (LfRead latest) = None then dk_latest (lf_disk s) else None) of
                  None \<Rightarrow> s
                | Some payload \<Rightarrow> (case lv_state env payload of Inl _ \<Rightarrow> s | Inr st \<Rightarrow> restore_snapshot st s))
      in replayRecords env rnd s1)"

definition fresh_store :: "gotime \<Rightarrow> AccountingLocalFileConfig \<Rightarrow> lf_disk \<Rightarrow> LocalFileStore" where
  "fresh_store now cfg d =
     \<lparr>lf_memory = newMemoryStore now True, lf_cfg = cfg, lf_queue = [], lf_batch = [], lf_writer = None, lf_currentPath = [],
      lf_currentSize = 0, lf_currentLine = 0, lf_currentDay = [], lf_currentPart = 0, lf_dropped = 0,
      lf_lastRecordRef = \<lparr>sc_RecordFile = [], sc_RecordLine = 0\<rparr>, lf_disk = d\<rparr>"

definition NewLocalFileStore ::
  "lf_env \<Rightarrow> (rat \<Rightarrow> rat) \<Rightarrow> gotime \<Rightarrow> AccountingLocalFileConfig \<Rightarrow> lf_disk \<Rightarrow> go_error + LocalFileStore" where
  "NewLocalFileStore env rnd now cfg d =
     (let s = fresh_store now cfg d
      in case lv_fault env (LfMkdir (records_root env s)) of
           Some e \<Rightarrow> Inl (WrapError (''create records dir: '' @ Error e) (Some e))
         | None \<Rightarrow>
             (case lv_fault env (LfMkdir (snapshots_root env s)) of
                Some e \<Rightarrow> Inl (WrapError (''create snapshots dir: '' @ Error e) (Some e))
              | None \<Rightarrow> (case lf_recover env rnd s of (Some e, _) \<Rightarrow> Inl e | (None, s1) \<Rightarrow> Inr s1)))"

end
