(* ===== verification/Local_File_Laws.thy ===== *)
theory Local_File_Laws
  imports Local_File "HOL-Library.Sublist" "HOL-Library.Countable"
begin

text \<open>
  What the persistent usage store keeps. Without faults of the operating system, a store that ran from an empty directory and was closed
  gives back its totals and windows when it is opened again, provided its records came in the order of their days, no file reached its
  rotation size and no line exceeds the scanner's buffer. The last section shows what happens when a second store continues the file of the first one.
\<close>

section \<open>Days, paths and sizes\<close>

lemma less_append_same_length:
  fixes x y :: string
  assumes "length x = length y"
  shows "x @ u \<le> y @ v \<longleftrightarrow> x < y \<or> x = y \<and> u \<le> v"
  using assms by (induction x y rule: list_induct2) (auto simp: order_class.le_less)

abbreviation day_of where "day_of r \<equiv> fst (timeBuckets r)"

definition calendar_day :: "string \<Rightarrow> bool" where
  "calendar_day day \<longleftrightarrow> (\<exists>y m d. day = y @ ''-'' @ m @ ''-'' @ d \<and> length y = 4 \<and> length m = 2 \<and> length d = 2)"

definition day_dir :: "lf_env \<Rightarrow> AccountingLocalFileConfig \<Rightarrow> string \<Rightarrow> string" where
  "day_dir env cfg day =
     lv_clean env (alf_Dir cfg) @ ''/records'' @ ''/'' @ take 4 day @ ''/'' @ take 2 (drop 5 day) @ ''/'' @ take 2 (drop 8 day)"

abbreviation day_path where "day_path env cfg day \<equiv> part_path (day_dir env cfg day) 1"

lemma record_dir_day: "calendar_day day \<Longrightarrow> record_dir env s day = Some (day_dir env (lf_cfg s) day)"
  by (auto simp: calendar_day_def record_dir_def day_dir_def records_root_def)

lemma day_path_le:
  assumes "calendar_day a" "calendar_day b"
  shows "day_path env cfg a \<le> day_path env cfg b \<longleftrightarrow> a \<le> b"
proof -
  obtain y m d where a: "a = y @ ''-'' @ m @ ''-'' @ d" "length y = 4" "length m = 2" "length d = 2"
    using assms(1) by (auto simp: calendar_day_def)
  obtain y' m' d' where b: "b = y' @ ''-'' @ m' @ ''-'' @ d'" "length y' = 4" "length m' = 2" "length d' = 2"
    using assms(2) by (auto simp: calendar_day_def)
  show ?thesis
    unfolding a(1) b(1) day_dir_def part_path_def
    using a(2-) b(2-) less_append_same_length [of d d' _ _] by (simp add: less_append_same_length) (auto simp: order_class.le_less)
qed

text \<open>The text of some lines, and its lines again.\<close>

definition text_of :: "string list \<Rightarrow> string" where
  "text_of ls = concat (map (\<lambda>l. l @ [line_end]) ls)"

lemma text_of_simps [simp]:
  "text_of [] = []" "text_of (l # ls) = l @ line_end # text_of ls" "text_of (xs @ ys) = text_of xs @ text_of ys"
  by (simp_all add: text_of_def)

lemma scan_text_of: "\<forall>l \<in> set ls. line_end \<notin> set l \<Longrightarrow> scan_lines (text_of ls) = ls"
proof (induction ls)
  case Nil
  then show ?case by (simp add: scan_lines.simps)
next
  case (Cons l ls)
  have "takeWhile (\<lambda>c. c \<noteq> line_end) (l @ line_end # x) = l" "dropWhile (\<lambda>c. c \<noteq> line_end) (l @ line_end # x) = line_end # x" for x
    using Cons.prems by (auto simp: takeWhile_append dropWhile_append)
  then show ?case using Cons by (simp add: scan_lines.simps [of "l @ line_end # text_of ls"])
qed

section \<open>No faults\<close>

definition no_faults :: "lf_env \<Rightarrow> bool" where
  "no_faults env \<longleftrightarrow> (\<forall>opn. lv_fault env opn = None) \<and> (\<forall>path content p. lv_write env path content p = None) \<and>
     (\<forall>st. \<exists>p. lv_snapshot env st = Inr p)"

text \<open>A record whose line the scanner can read; \<open>encoding/json\<close> escapes the line breaks of its texts.\<close>

definition line_storable :: "lf_env \<Rightarrow> UsageRecord \<Rightarrow> bool" where
  "line_storable env r \<longleftrightarrow> (\<exists>l. lv_encode env r = Inr l \<and> length l < maxScanTokenSize \<and> CHR 0x0A \<notin> set l \<and> CHR 0x0D \<notin> set l)"

text \<open>A snapshot of these totals and windows is read back as it was written, whatever its cursor and times are.\<close>

definition reads_back :: "lf_env \<Rightarrow> MemoryStore \<Rightarrow> bool" where
  "reads_back env m \<longleftrightarrow> (\<forall>st. sn_Totals st = ms_totals m \<and> sn_Windows st = ms_windows m \<longrightarrow>
     (\<exists>p. lv_snapshot env st = Inr p \<and> lv_state env p = Inr st))"

definition line_of :: "lf_env \<Rightarrow> UsageRecord \<Rightarrow> string" where
  "line_of env r = projr (lv_encode env r)"

lemma line_storableD:
  assumes "line_storable env r"
  shows "lv_encode env r = Inr (line_of env r)" "length (line_of env r) < maxScanTokenSize" "CHR 0x0A \<notin> set (line_of env r)"
    "drop_cr (line_of env r) = line_of env r"
  using assms by (auto simp: line_storable_def line_of_def drop_cr_def dest: last_in_set)

lemma no_faultsD [simp]:
  assumes "no_faults env"
  shows "lv_fault env opn = None" "lv_write env path content p = None"
  using assms by (simp_all add: no_faults_def)

lemma content_of_add [simp]: "content_of p (add_bytes q x d) = (if p = q then content_of q d @ x else content_of p d)"
  by (simp add: content_of_def add_bytes_def)

definition paths_of :: "lf_disk \<Rightarrow> string set" where
  "paths_of d = fst ` set (dk_records d)"

lemma content_of_absent: "p \<notin> paths_of d \<Longrightarrow> content_of p d = []"
  by (simp add: paths_of_def content_of_def flip: map_of_eq_None_iff)

lemma add_bytes_simps [simp]:
  "dk_latest (add_bytes q x d) = dk_latest d" "dk_snapshots (add_bytes q x d) = dk_snapshots d"
  "paths_of (add_bytes q x d) = insert q (paths_of d)" "keys_ok (dk_records d) \<Longrightarrow> keys_ok (dk_records (add_bytes q x d))"
  by (simp_all add: paths_of_def add_bytes_def dom_update keys_ok_def distinct_update)

text \<open>A disk on which bytes were added to one file.\<close>

definition grown :: "string \<Rightarrow> lf_disk \<Rightarrow> lf_disk \<Rightarrow> bool" where
  "grown q d d' \<longleftrightarrow> dk_latest d' = dk_latest d \<and> (\<forall>p. p \<noteq> q \<longrightarrow> content_of p d' = content_of p d) \<and>
     paths_of d \<subseteq> paths_of d' \<and> paths_of d' \<subseteq> insert q (paths_of d) \<and> (keys_ok (dk_records d) \<longrightarrow> keys_ok (dk_records d'))"

lemma grown_refl [simp]: "grown q d d" "grown q d (add_bytes q x d)"
  by (auto simp: grown_def)

lemma grown_trans: "grown q d1 d2 \<Longrightarrow> grown q d2 d3 \<Longrightarrow> grown q d1 d3"
  by (auto simp: grown_def)

lemma bufio_Flush_ok:
  assumes "no_faults env"
  obtains d' where "bufio_Flush env path (b, None) d = (None, ([], None), d')" "content_of path d' = content_of path d @ b" "grown path d d'"
  using assms by (cases "b = []") (simp_all add: bufio_Flush_def file_Write_def)

lemma bufio_Write_ok:
  assumes "no_faults env"
  obtains b' d' where "bufio_Write env path p (b, None) d = (None, (b', None), d')" "content_of path d' @ b' = content_of path d @ b @ p" "grown path d d'"
proof -
  have empty: "\<exists>b' d'. bufio_Write_empty env path p d = (None, (b', None), d') \<and> content_of path d' @ b' = content_of path d @ p \<and> grown path d d'" for p d
    using assms by (simp add: bufio_Write_empty_def file_Write_def)
  let ?n = "bufio_size - length b"
  show ?thesis
  proof (cases "length p \<le> ?n \<or> b = []")
    case True
    then show ?thesis using that empty [of p d] by (cases "length p \<le> ?n") (auto simp: bufio_Write_def Let_def)
  next
    case False
    obtain d1 where d1: "bufio_Flush env path (b @ take ?n p, None) d = (None, ([], None), d1)"
      "content_of path d1 = content_of path d @ b @ take ?n p" "grown path d d1"
      using bufio_Flush_ok [OF assms] by blast
    obtain b' d' where "bufio_Write_empty env path (drop ?n p) d1 = (None, (b', None), d')"
      "content_of path d' @ b' = content_of path d1 @ drop ?n p" "grown path d1 d'" using empty by blast
    then show ?thesis using that False d1 grown_trans [OF d1(3)] by (simp add: bufio_Write_def Let_def)
  qed
qed

lemma flush_none: "lf_writer s = None \<Longrightarrow> flushWriter env s = (None, s)"
  by (simp add: flushWriter_def)

lemma flush_some:
  assumes "no_faults env" "lf_writer s = Some (b, None)"
  obtains d' where "flushWriter env s = (None, s\<lparr>lf_writer := Some ([], None), lf_disk := d'\<rparr>)"
    "content_of (lf_currentPath s) d' = content_of (lf_currentPath s) (lf_disk s) @ b" "grown (lf_currentPath s) (lf_disk s) d'"
proof -
  obtain d' where "bufio_Flush env (lf_currentPath s) (b, None) (lf_disk s) = (None, ([], None), d')"
    "content_of (lf_currentPath s) d' = content_of (lf_currentPath s) (lf_disk s) @ b" "grown (lf_currentPath s) (lf_disk s) d'"
    using bufio_Flush_ok [OF assms(1)] by blast
  then show ?thesis using that assms by (simp add: flushWriter_def)
qed

section \<open>The invariant\<close>

text \<open>
  The records \<open>xs\<close> can be written in this order: every day is a date, every line can be read back, the days do not decrease, and the
  lines of a day stay below the rotation size.
\<close>

abbreviation day_text where "day_text env day xs \<equiv> text_of (map (line_of env) (filter (\<lambda>r. day_of r = day) xs))"

definition writable :: "lf_env \<Rightarrow> AccountingLocalFileConfig \<Rightarrow> UsageRecord list \<Rightarrow> bool" where
  "writable env cfg xs \<longleftrightarrow> (\<forall>r \<in> set xs. calendar_day (day_of r) \<and> line_storable env r) \<and> sorted_wrt (\<lambda>a b. day_of a \<le> day_of b) xs \<and>
     (\<forall>day. int (length (day_text env day xs)) < wrap64 (alf_RotateMaxSizeMB cfg * 1024 * 1024))"

text \<open>
  \<open>written env xs s\<close>: \<open>xs\<close> are the records appended so far. Every record file is at most the current one, which holds the lines of the
  current day together with the buffer, and the cursor is at its last line.
\<close>

definition written :: "lf_env \<Rightarrow> UsageRecord list \<Rightarrow> LocalFileStore \<Rightarrow> bool" where
  "written env xs s \<longleftrightarrow> (\<forall>r \<in> set xs. line_storable env r) \<and>
     (case lf_writer s of
        None \<Rightarrow> xs = [] \<and> paths_of (lf_disk s) = {} \<and> lf_lastRecordRef s = \<lparr>sc_RecordFile = [], sc_RecordLine = 0\<rparr> \<and> lf_currentDay s = []
      | Some (buffered, err) \<Rightarrow>
          err = None \<and> xs \<noteq> [] \<and> day_of (last xs) = lf_currentDay s \<and>
          lf_currentPath s = day_path env (lf_cfg s) (lf_currentDay s) \<and>
          content_of (lf_currentPath s) (lf_disk s) @ buffered = day_text env (lf_currentDay s) xs \<and>
          lf_currentSize s = int (length (day_text env (lf_currentDay s) xs)) \<and>
          lf_currentLine s = int (length (filter (\<lambda>r. day_of r = lf_currentDay s) xs)) \<and>
          lf_lastRecordRef s = \<lparr>sc_RecordFile = lf_currentPath s, sc_RecordLine = lf_currentLine s\<rparr> \<and>
          (\<forall>path \<in> paths_of (lf_disk s). path \<le> lf_currentPath s))"

lemma writable_subseq:
  assumes "writable env cfg ys" "subseq xs ys"
  shows "writable env cfg xs"
proof -
  have "length (text_of (map (line_of env) (filter P xs))) \<le> length (text_of (map (line_of env) (filter P ys)))" for P
    using assms(2) by (induction rule: list_emb.induct) auto
  then have "int (length (day_text env day xs)) \<le> int (length (day_text env day ys))" for day by simp
  moreover have "set xs \<subseteq> set ys" using assms(2) by (auto dest: list_emb_set)
  moreover have "sorted_wrt (\<lambda>a b. day_of a \<le> day_of b) xs"
    using assms(2) assms(1)[unfolded writable_def, THEN conjunct2, THEN conjunct1] by (induction rule: list_emb.induct) (auto dest: list_emb_set)
  ultimately show ?thesis using assms(1) unfolding writable_def by (blast intro: order.strict_trans1)
qed

lemma writable_prefix: "writable env cfg (xs @ ys) \<Longrightarrow> writable env cfg xs"
  by (erule writable_subseq) (rule list_emb_prefix [OF subseq_order.refl])

text \<open>The parts of a store that writing does not touch.\<close>

definition same_rest :: "LocalFileStore \<Rightarrow> LocalFileStore \<Rightarrow> bool" where
  "same_rest s s' \<longleftrightarrow> lf_memory s' = lf_memory s \<and> lf_cfg s' = lf_cfg s \<and> lf_queue s' = lf_queue s \<and> lf_batch s' = lf_batch s \<and>
     dk_latest (lf_disk s') = dk_latest (lf_disk s)"

lemma same_rest_trans: "same_rest s1 s2 \<Longrightarrow> same_rest s2 s3 \<Longrightarrow> same_rest s1 s3"
  by (simp add: same_rest_def)

lemma open_new_day:
  assumes "no_faults env" "written env xs s" "writable env (lf_cfg s) (xs @ [r])" "lf_writer s = None \<or> lf_currentDay s \<noteq> day_of r"
  shows "\<exists>s'. openWriter env (day_of r) 1 s = Some (None, s') \<and> same_rest s s' \<and> lf_writer s' = Some ([], None) \<and>
    lf_currentPath s' = day_path env (lf_cfg s) (day_of r) \<and> lf_currentDay s' = day_of r \<and> lf_currentSize s' = 0 \<and> lf_currentLine s' = 0 \<and>
    content_of (lf_currentPath s') (lf_disk s') = [] \<and> filter (\<lambda>x. day_of x = day_of r) xs = [] \<and>
    (\<forall>path \<in> paths_of (lf_disk s'). path \<le> lf_currentPath s')"
proof (cases "lf_writer s")
  case None
  then have "xs = []" "paths_of (lf_disk s) = {}" using assms(2) by (simp_all add: written_def)
  moreover have "calendar_day (day_of r)" using assms(3) by (simp add: writable_def)
  ultimately show ?thesis
    using assms(1) None by (simp add: openWriter_def flush_none closeWriter_def record_dir_day Let_def content_of_absent same_rest_def)
next
  case (Some w)
  obtain buffered where w: "lf_writer s = Some (buffered, None)" using Some assms(2) by (cases w) (auto simp: written_def)
  let ?old = "day_path env (lf_cfg s) (lf_currentDay s)" and ?new = "day_path env (lf_cfg s) (day_of r)"
  from assms(2) w have s: "xs \<noteq> []" "day_of (last xs) = lf_currentDay s" "lf_currentPath s = ?old"
    "\<forall>path \<in> paths_of (lf_disk s). path \<le> ?old"
    by (auto simp: written_def)
  have day: "calendar_day (day_of r)" and days: "\<forall>x \<in> set xs. calendar_day (day_of x) \<and> day_of x \<le> day_of r"
    "sorted_wrt (\<lambda>a b. day_of a \<le> day_of b) xs"
    using assms(3) by (auto simp: writable_def sorted_wrt_append)
  have last: "\<forall>x \<in> set xs. day_of x \<le> lf_currentDay s"
    using days(2) s(1,2) by (cases xs rule: rev_cases) (auto simp: sorted_wrt_append)
  have less: "lf_currentDay s < day_of r" using assms(4) w days(1) s(1,2) by (metis last_in_set option.distinct(1) order_class.le_less)
  have cal: "calendar_day (lf_currentDay s)" using days(1) s(1,2) by (metis last_in_set)
  have le: "?old \<le> ?new" using day_path_le [OF cal day] less by simp
  moreover have "\<not> ?new \<le> ?old" using day_path_le [OF day cal] less by simp
  ultimately have new: "?old \<noteq> ?new" "?new \<notin> paths_of (lf_disk s)" using s(4) by auto
  have none: "filter (\<lambda>x. day_of x = day_of r) xs = []" using last less by (auto simp: filter_empty_conv)
  obtain d where d: "flushWriter env s = (None, s\<lparr>lf_writer := Some ([], None), lf_disk := d\<rparr>)" "grown ?old (lf_disk s) d"
    using flush_some [OF assms(1) w] s(3) by metis
  have fresh: "content_of ?new d = []" "dk_latest d = dk_latest (lf_disk s)" "\<forall>path \<in> paths_of d. path \<le> ?new"
    using d(2) new s(4) le content_of_absent [OF new(2)] by (auto simp: grown_def intro: order_trans)
  show ?thesis
    using assms(1) d(1) fresh none day
    by (simp add: openWriter_def closeWriter_def record_dir_day Let_def same_rest_def)
qed

text \<open>The writer of a day, at the end of its file.\<close>

lemma write_line_ok:
  assumes "no_faults env" "lf_writer s = Some (b, None)"
  obtains b' d' where "write_line env payload s = Some (None, s\<lparr>lf_writer := Some (b', None), lf_disk := d'\<rparr>)"
    "content_of (lf_currentPath s) d' @ b' = content_of (lf_currentPath s) (lf_disk s) @ b @ payload @ [line_end]" "grown (lf_currentPath s) (lf_disk s) d'"
proof -
  obtain b' d' where "bufio_Write env (lf_currentPath s) (payload @ [line_end]) (b, None) (lf_disk s) = (None, (b', None), d')"
    "content_of (lf_currentPath s) d' @ b' = content_of (lf_currentPath s) (lf_disk s) @ b @ payload @ [line_end]" "grown (lf_currentPath s) (lf_disk s) d'"
    using bufio_Write_ok [OF assms(1)] by blast
  then show ?thesis using that assms(2) by (simp add: write_line_def)
qed

lemma append_written:
  assumes "no_faults env" "written env xs s" "writable env (lf_cfg s) (xs @ [r])"
  shows "\<exists>s'. appendRecord env r s = Some (None, s') \<and> same_rest s s' \<and> written env (xs @ [r]) s'"
proof -
  let ?day = "day_of r"
  have r: "line_storable env r" "\<forall>x \<in> set xs. line_storable env x" using assms(3) by (simp_all add: writable_def)
  have fits: "int (length (day_text env ?day xs)) < wrap64 (alf_RotateMaxSizeMB (lf_cfg s) * 1024 * 1024)"
    using writable_prefix [OF assms(3)] unfolding writable_def by blast
  have "\<exists>s1. rotateIfNeeded env r s = Some (None, s1) \<and> same_rest s s1 \<and> lf_currentDay s1 = ?day \<and>
      lf_currentPath s1 = day_path env (lf_cfg s) ?day \<and>
      (\<exists>buffered. lf_writer s1 = Some (buffered, None) \<and>
         content_of (lf_currentPath s1) (lf_disk s1) @ buffered = day_text env ?day xs \<and>
         lf_currentSize s1 = int (length (day_text env ?day xs)) \<and>
         lf_currentLine s1 = int (length (filter (\<lambda>x. day_of x = ?day) xs))) \<and>
      (\<forall>path \<in> paths_of (lf_disk s1). path \<le> lf_currentPath s1)"
  proof (cases "lf_writer s = None \<or> lf_currentDay s \<noteq> ?day")
    case True
    let ?s = "s\<lparr>lf_currentPart := 1\<rparr>"
    have "written env xs ?s" "writable env (lf_cfg ?s) (xs @ [r])" "lf_writer ?s = None \<or> lf_currentDay ?s \<noteq> ?day" "same_rest s ?s"
      using assms True by (auto simp: written_def same_rest_def split: option.splits)
    moreover have "lf_writer s = None \<Longrightarrow> lf_currentDay s \<noteq> ?day"
      using assms(2,3) by (auto simp: written_def writable_def calendar_day_def)
    ultimately show ?thesis
      using open_new_day [OF assms(1), of xs ?s r] True by (auto simp: rotateIfNeeded_def Let_def intro: same_rest_trans)
  next
    case False
    then obtain buffered where w: "lf_writer s = Some (buffered, None)" using assms(2) by (auto simp: written_def split: option.splits)
    have "lf_currentSize s = int (length (day_text env ?day xs))" using assms(2) w False by (auto simp: written_def)
    then have "rotateIfNeeded env r s = Some (None, s)" using fits w False by (simp add: rotateIfNeeded_def)
    then show ?thesis using assms(2) w False by (intro exI [of _ s]) (auto simp: written_def same_rest_def)
  qed
  then obtain s1 buffered where s1: "rotateIfNeeded env r s = Some (None, s1)" "same_rest s s1" "lf_currentDay s1 = ?day"
    "lf_currentPath s1 = day_path env (lf_cfg s) ?day" "lf_writer s1 = Some (buffered, None)"
    "content_of (lf_currentPath s1) (lf_disk s1) @ buffered = day_text env ?day xs"
    "lf_currentSize s1 = int (length (day_text env ?day xs))" "lf_currentLine s1 = int (length (filter (\<lambda>x. day_of x = ?day) xs))"
    "\<forall>path \<in> paths_of (lf_disk s1). path \<le> lf_currentPath s1" by blast
  obtain b' d' where w: "write_line env (line_of env r) s1 = Some (None, s1\<lparr>lf_writer := Some (b', None), lf_disk := d'\<rparr>)"
    "content_of (lf_currentPath s1) d' @ b' = content_of (lf_currentPath s1) (lf_disk s1) @ buffered @ line_of env r @ [line_end]"
    "grown (lf_currentPath s1) (lf_disk s1) d'"
    using write_line_ok [OF assms(1) s1(5)] by blast
  have lines: "content_of (lf_currentPath s1) d' @ b' = day_text env ?day (xs @ [r])"
  proof -
    have "content_of (lf_currentPath s1) d' @ b' = (content_of (lf_currentPath s1) (lf_disk s1) @ buffered) @ line_of env r @ [line_end]"
      using w(2) by simp
    then show ?thesis unfolding s1(6) by simp
  qed
  have paths: "\<forall>path \<in> paths_of d'. path \<le> lf_currentPath s1" "dk_latest d' = dk_latest (lf_disk s1)" using w(3) s1(9) by (auto simp: grown_def)
  show ?thesis
    using s1 w(1) lines paths r line_storableD(1) [OF r(1)]
    by (simp add: appendRecord_def written_def same_rest_def Let_def)
qed

lemma append_batch_written:
  assumes "no_faults env" "written env xs s" "writable env (lf_cfg s) (xs @ rs)"
  shows "\<exists>s'. append_batch env rs s = Some s' \<and> same_rest s s' \<and> written env (xs @ rs) s'"
  using assms(2,3)
proof (induction rs arbitrary: xs s)
  case Nil
  then show ?case by (simp add: same_rest_def)
next
  case (Cons r rs)
  have "writable env (lf_cfg s) (xs @ [r])" using writable_prefix [of env _ "xs @ [r]" rs] Cons.prems(2) by simp
  then obtain s1 where s1: "appendRecord env r s = Some (None, s1)" "same_rest s s1" "written env (xs @ [r]) s1"
    using append_written [OF assms(1) Cons.prems(1)] by blast
  have "writable env (lf_cfg s1) ((xs @ [r]) @ rs)" using Cons.prems(2) s1(2) by (simp add: same_rest_def)
  from Cons.IH [OF s1(3) this] show ?case using s1 by (auto intro: same_rest_trans)
qed

lemma flush_written:
  assumes "no_faults env" "written env xs s"
  shows "written env xs (snd (flushWriter env s)) \<and> same_rest s (snd (flushWriter env s)) \<and>
    (case lf_writer (snd (flushWriter env s)) of None \<Rightarrow> True | Some (buffered, _) \<Rightarrow> buffered = [])"
proof (cases "lf_writer s")
  case None
  then show ?thesis using assms(2) by (simp add: flush_none same_rest_def)
next
  case (Some w)
  then obtain b where b: "lf_writer s = Some (b, None)" using assms(2) by (cases w) (simp add: written_def)
  obtain d' where "flushWriter env s = (None, s\<lparr>lf_writer := Some ([], None), lf_disk := d'\<rparr>)"
    "content_of (lf_currentPath s) d' = content_of (lf_currentPath s) (lf_disk s) @ b" "grown (lf_currentPath s) (lf_disk s) d'"
    using flush_some [OF assms(1) b] by metis
  then show ?thesis using assms(2) b by (auto simp: written_def same_rest_def grown_def)
qed

lemma remove_expired_no_faults:
  assumes "no_faults env"
  shows "remove_expired env expired paths files = (None, filter (\<lambda>(p, x). \<not> (p \<in> set paths \<and> expired p)) files)"
  using assms by (induction paths arbitrary: files) (auto simp: AList.delete_eq intro!: filter_cong)

lemma content_of_filter: "P path \<Longrightarrow> content_of path (d\<lparr>dk_records := filter (\<lambda>(p, x). P p) (dk_records d)\<rparr>) = content_of path d"
proof -
  assume "P path"
  then have "map_of (filter (\<lambda>(p, x). P p) xs) path = map_of xs path" for xs :: "(string \<times> string) list"
    by (induction xs) auto
  then show ?thesis by (simp add: content_of_def)
qed

lemma cleanup_keeps:
  assumes "no_faults env"
  obtains keep where "snd (cleanupExpired env now s) = s\<lparr>lf_disk := (lf_disk s)\<lparr>dk_records := filter (\<lambda>(p, x). keep p) (dk_records (lf_disk s))\<rparr>\<rparr>"
    and "keep (sc_RecordFile (lf_lastRecordRef s))"
proof (cases "alf_RetentionDays (lf_cfg s) \<le> 0")
  case True
  then show ?thesis by (intro that [of "\<lambda>_. True"]) (simp_all add: cleanupExpired_def)
next
  case False
  show ?thesis
  proof (rule that)
    show "snd (cleanupExpired env now s) = s\<lparr>lf_disk := (lf_disk s)\<lparr>dk_records := filter (\<lambda>(p, x).
        (\<lambda>p. \<not> (p \<in> set (sort (map fst (dk_records (lf_disk s)))) \<and> lv_modTime env p < add_days UTC now (- alf_RetentionDays (lf_cfg s)) \<and>
           p \<noteq> sc_RecordFile (lf_lastRecordRef s))) p) (dk_records (lf_disk s))\<rparr>\<rparr>"
      unfolding cleanupExpired_def remove_expired_no_faults [OF assms] no_faultsD(1) [OF assms] using False by (simp only: if_False option.case prod.case snd_conv)
  qed simp
qed

lemma cleanup_written:
  assumes "no_faults env" "written env xs s"
  shows "written env xs (snd (cleanupExpired env now s)) \<and> same_rest s (snd (cleanupExpired env now s))"
proof -
  obtain keep where s': "snd (cleanupExpired env now s) =
      s\<lparr>lf_disk := (lf_disk s)\<lparr>dk_records := filter (\<lambda>(p, x). keep p) (dk_records (lf_disk s))\<rparr>\<rparr>" (is "_ = ?s")
    and keep: "keep (sc_RecordFile (lf_lastRecordRef s))"
    using cleanup_keeps [OF assms(1)] by blast
  have sub: "paths_of (lf_disk ?s) \<subseteq> paths_of (lf_disk s)" by (auto simp: paths_of_def)
  have kept: "content_of (sc_RecordFile (lf_lastRecordRef s)) (lf_disk ?s) = content_of (sc_RecordFile (lf_lastRecordRef s)) (lf_disk s)"
    using content_of_filter [of keep, OF keep] by simp
  have "written env xs ?s"
    using assms(2) sub kept by (auto simp: written_def split: option.splits)
  then show ?thesis unfolding s' by (simp add: same_rest_def)
qed

section \<open>Runs\<close>

datatype lf_event = LfRecorded UsageRecord | LfReceived "nat \<Rightarrow> gotime" | LfTicked "nat \<Rightarrow> gotime"

fun lf_step :: "lf_env \<Rightarrow> (rat \<Rightarrow> rat) \<Rightarrow> lf_event \<Rightarrow> LocalFileStore \<Rightarrow> LocalFileStore option" where
  "lf_step env rnd (LfRecorded r) s = Some (lf_Record rnd r s)"
| "lf_step env rnd (LfReceived clk) s = run_receive env clk s"
| "lf_step env rnd (LfTicked clk) s = run_tick env clk s"

fun lf_run :: "lf_env \<Rightarrow> (rat \<Rightarrow> rat) \<Rightarrow> lf_event list \<Rightarrow> LocalFileStore \<Rightarrow> LocalFileStore option" where
  "lf_run env rnd [] s = Some s"
| "lf_run env rnd (e # es) s = (case lf_step env rnd e s of None \<Rightarrow> None | Some s1 \<Rightarrow> lf_run env rnd es s1)"

fun recorded :: "lf_event list \<Rightarrow> UsageRecord list" where
  "recorded [] = []"
| "recorded (LfRecorded r # es) = r # recorded es"
| "recorded (_ # es) = recorded es"

text \<open>The records of \<open>rs\<close> that were not dropped are written, in the batch, or in the queue, in this order.\<close>

definition tracked :: "lf_env \<Rightarrow> UsageRecord list \<Rightarrow> LocalFileStore \<Rightarrow> bool" where
  "tracked env rs s \<longleftrightarrow> (\<exists>xs. written env xs s \<and> subseq (xs @ lf_batch s @ lf_queue s) rs)"

lemma written_rest:
  "written env xs (s\<lparr>lf_memory := m\<rparr>) = written env xs s" "written env xs (s\<lparr>lf_queue := q\<rparr>) = written env xs s"
  "written env xs (s\<lparr>lf_batch := b\<rparr>) = written env xs s" "written env xs (s\<lparr>lf_dropped := n\<rparr>) = written env xs s"
  "written env xs (s\<lparr>lf_disk := (lf_disk s)\<lparr>dk_latest := l, dk_snapshots := ss\<rparr>\<rparr>) = written env xs s"
  "written env xs (s\<lparr>lf_disk := (lf_disk s)\<lparr>dk_snapshots := ss\<rparr>\<rparr>) = written env xs s"
  by (simp_all add: written_def paths_of_def content_of_def split: option.split)

lemma record_tracked: "tracked env rs s \<Longrightarrow> tracked env (rs @ [r]) (lf_Record rnd r s)"
  unfolding tracked_def lf_Record_def Let_def
  by (auto simp: written_rest intro!: exI list_emb_prefix list_emb_append_mono simp flip: append_assoc)

text \<open>A snapshot holds the memory and the cursor, and keeps the rest.\<close>

lemma snapshot_no_faults:
  assumes "no_faults env"
  obtains p ss where "snd (writeSnapshot env clk s) = s\<lparr>lf_disk := (lf_disk s)\<lparr>dk_latest := Some p, dk_snapshots := ss\<rparr>\<rparr>"
    and "reads_back env (lf_memory s) \<Longrightarrow> lv_state env p = Inr (capture (clk 0) s)"
proof -
  obtain p where p: "lv_snapshot env (capture (clk 0) s) = Inr p" using assms unfolding no_faults_def by blast
  have kept: "lv_state env p = Inr (capture (clk 0) s)" if rb: "reads_back env (lf_memory s)"
  proof -
    have "sn_Totals (capture (clk 0) s) = ms_totals (lf_memory s) \<and> sn_Windows (capture (clk 0) s) = ms_windows (lf_memory s)"
      by (simp add: capture_def cloneStatsGroups_def cloneWindowGroups_def)
    then obtain p' where "lv_snapshot env (capture (clk 0) s) = Inr p'" "lv_state env p' = Inr (capture (clk 0) s)"
      using rb unfolding reads_back_def by blast
    then show ?thesis using p by simp
  qed
  let ?ss = "dk_snapshots (lf_disk (snd (writeSnapshot env clk s)))"
  have "snd (writeSnapshot env clk s) = s\<lparr>lf_disk := (lf_disk s)\<lparr>dk_latest := Some p, dk_snapshots := ?ss\<rparr>\<rparr>"
    using assms p by (simp add: writeSnapshot_def cleanupSnapshotExpired_def Let_def split: prod.split)
  then show ?thesis using that kept by blast
qed

lemma run_flush_tracked:
  assumes "no_faults env" "writable env (lf_cfg s) rs" "tracked env rs s"
  obtains s' where "run_flush env clk force s = Some s'" "tracked env rs s'" "lf_batch s' = []" "lf_queue s' = lf_queue s" "lf_cfg s' = lf_cfg s"
    "lf_memory s' = lf_memory s" "force \<Longrightarrow> (\<exists>p. dk_latest (lf_disk s') = Some p \<and> (reads_back env (lf_memory s) \<longrightarrow> lv_state env p = Inr (capture (clk 0) s')))"
    "case lf_writer s' of None \<Rightarrow> True | Some (buffered, _) \<Rightarrow> buffered = []"
proof -
  obtain xs where xs: "written env xs s" "subseq (xs @ lf_batch s @ lf_queue s) rs" using assms(3) by (auto simp: tracked_def)
  have "writable env (lf_cfg s) (xs @ lf_batch s)"
    using writable_prefix writable_subseq [OF assms(2) xs(2)] by (simp flip: append_assoc)
  then obtain s1 where s1: "append_batch env (lf_batch s) s = Some s1" "same_rest s s1" "written env (xs @ lf_batch s) s1"
    using append_batch_written [OF assms(1) xs(1)] by blast
  define s2 where "s2 = snd (flushWriter env (s1\<lparr>lf_batch := []\<rparr>))"
  have s2: "written env (xs @ lf_batch s) s2" "same_rest (s1\<lparr>lf_batch := []\<rparr>) s2"
    "case lf_writer s2 of None \<Rightarrow> True | Some (buffered, _) \<Rightarrow> buffered = []"
    unfolding s2_def using flush_written [OF assms(1), of "xs @ lf_batch s" "s1\<lparr>lf_batch := []\<rparr>"] s1(3) by (simp_all add: written_rest)
  obtain p ss where s3: "snd (writeSnapshot env clk s2) = s2\<lparr>lf_disk := (lf_disk s2)\<lparr>dk_latest := Some p, dk_snapshots := ss\<rparr>\<rparr>" (is "_ = ?s3")
    and p: "reads_back env (lf_memory s2) \<Longrightarrow> lv_state env p = Inr (capture (clk 0) s2)"
    using snapshot_no_faults [OF assms(1)] by blast
  obtain keep where s4: "snd (cleanupExpired env (clk 3) ?s3) =
      ?s3\<lparr>lf_disk := (lf_disk ?s3)\<lparr>dk_records := filter (\<lambda>(p, x). keep p) (dk_records (lf_disk ?s3))\<rparr>\<rparr>" (is "_ = ?s4")
    using cleanup_keeps [OF assms(1)] by blast
  have w4: "written env (xs @ lf_batch s) ?s4"
    using cleanup_written [OF assms(1), of "xs @ lf_batch s" ?s3 "clk 3"] s2(1) unfolding s4 by (simp add: written_rest)
  have run: "run_flush env clk force s = Some (if force then ?s4 else s2)"
    using s1(1) s3 s4 by (simp add: run_flush_def s2_def Let_def)
  show ?thesis
  proof (rule that [OF run])
    show "tracked env rs (if force then ?s4 else s2)"
      using w4 s2 s1(2) xs(2) by (auto simp: tracked_def same_rest_def intro!: exI [of _ "xs @ lf_batch s"])
    show "force \<Longrightarrow> \<exists>p. dk_latest (lf_disk (if force then ?s4 else s2)) = Some p \<and>
        (reads_back env (lf_memory s) \<longrightarrow> lv_state env p = Inr (capture (clk 0) (if force then ?s4 else s2)))"
      using p s2(2) s1(2) by (simp add: capture_def same_rest_def)
  qed (use s2 s1(2) in \<open>auto simp: same_rest_def\<close>)
qed

lemma receive_tracked:
  assumes "no_faults env" "writable env (lf_cfg s) rs" "tracked env rs s"
  obtains s' where "run_receive env clk s = Some s'" "tracked env rs s'" "lf_cfg s' = lf_cfg s" "lf_memory s' = lf_memory s"
    "length (lf_queue s') = length (lf_queue s) - 1"
proof (cases "lf_queue s")
  case Nil
  then show ?thesis using assms(3) by (intro that [of s]) (simp_all add: run_receive_def)
next
  case (Cons r q)
  let ?s = "s\<lparr>lf_queue := q, lf_batch := lf_batch s @ [r]\<rparr>"
  have t: "tracked env rs ?s" using assms(3) Cons by (auto simp: tracked_def written_rest)
  show ?thesis
  proof (cases "int (length (lf_batch ?s)) \<ge> alf_WriteBufferRecords (lf_cfg ?s)")
    case True
    have "writable env (lf_cfg ?s) rs" using assms(2) by simp
    from run_flush_tracked [OF assms(1) this t, of clk False] obtain s' where
      "run_flush env clk False ?s = Some s'" "tracked env rs s'" "lf_queue s' = lf_queue ?s" "lf_cfg s' = lf_cfg ?s" "lf_memory s' = lf_memory ?s"
      by metis
    then show ?thesis using True Cons by (intro that [of s']) (simp_all add: run_receive_def Let_def)
  next
    case False
    then show ?thesis using t Cons by (intro that [of ?s]) (simp_all add: run_receive_def Let_def)
  qed
qed

lemma tracked_more: "tracked env rs s \<Longrightarrow> tracked env (rs @ rs') s"
  by (auto simp: tracked_def intro: list_emb_prefix)

text \<open>The windows of the memory are the three of the query interface, each with distinct keys.\<close>

definition windows_ok :: "MemoryStore \<Rightarrow> bool" where
  "windows_ok m \<longleftrightarrow> map fst (ms_windows m) = [WindowDay, WindowWeek, WindowMonth] \<and> (\<forall>(w, gs) \<in> set (ms_windows m). keys_ok gs)"

lemma windows_ok_apply:
  assumes "windows_ok m" "w \<in> {WindowDay, WindowWeek, WindowMonth}"
  shows "windows_ok (apply_window rnd r w b g m)"
proof -
  obtain gd gw gm where "ms_windows m = [(WindowDay, gd), (WindowWeek, gw), (WindowMonth, gm)]" "keys_ok gd" "keys_ok gw" "keys_ok gm"
    using assms(1) by (auto simp: windows_ok_def map_eq_Cons_conv)
  then show ?thesis using assms(2) by (auto simp: windows_ok_def apply_window_def in_group_def)
qed

lemma windows_ok_Record: "windows_ok m \<Longrightarrow> windows_ok (memory_Record rnd r m)"
proof -
  assume m: "windows_ok m"
  have totals: "windows_ok m \<Longrightarrow> windows_ok (fold (apply_total rnd r) hs m)" for hs m
  proof (induction hs arbitrary: m)
    case (Cons h hs)
    have "windows_ok (apply_total rnd r h m)" using Cons.prems by (simp add: apply_total_def windows_ok_def)
    then show ?case using Cons.IH by simp
  qed simp
  have windows: "windows_ok m \<Longrightarrow> windows_ok (fold (\<lambda>g s. apply_window rnd r WindowMonth mo g
      (apply_window rnd r WindowWeek we g (apply_window rnd r WindowDay da g s))) hs m)" for hs m mo we da
    by (induction hs arbitrary: m) (simp_all add: windows_ok_apply)
  show "windows_ok (memory_Record rnd r m)"
    using windows [OF totals [OF m]] by (simp add: memory_Record_def applyRecord_def Let_def windows_ok_def split: prod.split)
qed

lemma fold_update_groups: "keys_ok (out @ gs) \<Longrightarrow> fold (\<lambda>(key, group). AList.update key group) gs out = out @ gs"
proof (induction gs arbitrary: out)
  case (Cons kg gs)
  obtain k g where kg: "kg = (k, g)" by fastforce
  have "k \<notin> fst ` set out" using Cons.prems kg by (auto simp: keys_ok_def)
  then have "AList.update k g out = out @ [(k, g)]" by (induction out) auto
  then show ?case using Cons.IH [of "out @ [(k, g)]"] Cons.prems kg by simp
qed simp

lemma clone_windows: "windows_ok m \<Longrightarrow> cloneWindowGroupsFromStrings (cloneWindowGroups (ms_windows m)) = ms_windows m"
proof -
  assume "windows_ok m"
  then obtain gd gw gm where ws: "ms_windows m = [(WindowDay, gd), (WindowWeek, gw), (WindowMonth, gm)]" and "keys_ok gd" "keys_ok gw" "keys_ok gm"
    by (auto simp: windows_ok_def map_eq_Cons_conv)
  then have "fold (\<lambda>(key, group). AList.update key group) gs [] = gs" if "gs \<in> {gd, gw, gm}" for gs
    using that fold_update_groups [of "[]"] by auto
  then show ?thesis
    by (simp add: ws cloneWindowGroupsFromStrings_def cloneWindowGroups_def clone_window_def supportedWindow_def)
qed

lemma run_tracked:
  assumes "no_faults env"
  shows "tracked env rs s \<Longrightarrow> writable env (lf_cfg s) (rs @ recorded es) \<Longrightarrow> windows_ok (lf_memory s) \<Longrightarrow>
    \<exists>s'. lf_run env rnd es s = Some s' \<and> tracked env (rs @ recorded es) s' \<and> windows_ok (lf_memory s') \<and> lf_cfg s' = lf_cfg s"
proof (induction es arbitrary: rs s)
  case (Cons e es)
  show ?case
  proof (cases e)
    case (LfRecorded r)
    have "tracked env (rs @ [r]) (lf_Record rnd r s)" using record_tracked [OF Cons.prems(1)] .
    moreover have "lf_cfg (lf_Record rnd r s) = lf_cfg s" "lf_memory (lf_Record rnd r s) = memory_Record rnd r (lf_memory s)"
      by (simp_all add: lf_Record_def Let_def)
    ultimately show ?thesis using Cons.IH [of "rs @ [r]" "lf_Record rnd r s"] Cons.prems LfRecorded by (simp add: windows_ok_Record)
  next
    case (LfReceived clk)
    have "writable env (lf_cfg s) rs" using writable_prefix [OF Cons.prems(2)] .
    from receive_tracked [OF assms this Cons.prems(1), of clk] obtain s1 where
      "run_receive env clk s = Some s1" "tracked env rs s1" "lf_cfg s1 = lf_cfg s" "lf_memory s1 = lf_memory s" by metis
    then show ?thesis using Cons.IH [of rs s1] Cons.prems LfReceived by simp
  next
    case (LfTicked clk)
    have "writable env (lf_cfg s) rs" using writable_prefix [OF Cons.prems(2)] .
    from run_flush_tracked [OF assms this Cons.prems(1), of clk True] obtain s1 where
      "run_flush env clk True s = Some s1" "tracked env rs s1" "lf_cfg s1 = lf_cfg s" "lf_memory s1 = lf_memory s" by metis
    then show ?thesis using Cons.IH [of rs s1] Cons.prems LfTicked by (simp add: run_tick_def)
  qed
qed simp

text \<open>A closed store: nothing is left in memory only, and the last snapshot is of its memory and cursor.\<close>

lemma close_tracked:
  assumes "no_faults env"
  shows "tracked env rs s \<Longrightarrow> writable env (lf_cfg s) rs \<Longrightarrow> length (lf_queue s) \<le> n \<Longrightarrow>
    \<exists>s1 xs p. run_drain env clk n s = Some (snd (closeWriter env s1)) \<and> written env xs s1 \<and> lf_memory s1 = lf_memory s \<and> lf_cfg s1 = lf_cfg s \<and>
      (case lf_writer s1 of None \<Rightarrow> True | Some (buffered, _) \<Rightarrow> buffered = []) \<and>
      dk_latest (lf_disk s1) = Some p \<and> (reads_back env (lf_memory s) \<longrightarrow> lv_state env p = Inr (capture (clk 0) s1))"
proof (induction n arbitrary: s)
  case 0
  from run_flush_tracked [OF assms 0(2,1), of clk True] obtain s1 where
    "run_flush env clk True s = Some s1" "tracked env rs s1" "lf_cfg s1 = lf_cfg s" "lf_memory s1 = lf_memory s"
    "\<exists>p. dk_latest (lf_disk s1) = Some p \<and> (reads_back env (lf_memory s) \<longrightarrow> lv_state env p = Inr (capture (clk 0) s1))"
    "case lf_writer s1 of None \<Rightarrow> True | Some (buffered, _) \<Rightarrow> buffered = []" by metis
  then show ?case by (auto simp: run_close_def tracked_def)
next
  case (Suc n)
  from receive_tracked [OF assms Suc.prems(2,1), of clk] obtain s1 where s1:
    "run_receive env clk s = Some s1" "tracked env rs s1" "lf_cfg s1 = lf_cfg s" "lf_memory s1 = lf_memory s"
    "length (lf_queue s1) = length (lf_queue s) - 1" by metis
  have "length (lf_queue s1) \<le> n" "writable env (lf_cfg s1) rs" using s1 Suc.prems by simp_all
  from Suc.IH [OF s1(2) this(2,1)] show ?case using s1 by simp
qed

section \<open>Recovery\<close>

lemma replay_lines_seen:
  assumes "path = sc_RecordFile (lf_lastRecordRef s)" "\<forall>l \<in> set ls. length l < maxScanTokenSize"
    "line + int (length ls) \<le> sc_RecordLine (lf_lastRecordRef s)"
  shows "replay_lines env rnd path ls line s = (None, s)"
  using assms(2,3)
proof (induction ls arbitrary: line)
  case (Cons l ls)
  then show ?case using assms(1) Cons.IH [of "line + 1"] by (simp add: not_le)
qed simp

lemma replay_files_seen:
  assumes "no_faults env" "\<forall>path \<in> set paths. path \<le> sc_RecordFile (lf_lastRecordRef s)" "sc_RecordFile (lf_lastRecordRef s) \<noteq> [] \<or> paths = []"
    and "scan_lines (content_of (sc_RecordFile (lf_lastRecordRef s)) (lf_disk s)) = ls" "\<forall>l \<in> set ls. length l < maxScanTokenSize"
    and "int (length ls) \<le> sc_RecordLine (lf_lastRecordRef s)"
  shows "replay_files env rnd paths s = (None, s)"
  using assms(2,3)
proof (induction paths)
  case (Cons path paths)
  have "replayFile env rnd path s = (None, s)" if "\<not> path < sc_RecordFile (lf_lastRecordRef s)"
  proof -
    have path: "path = sc_RecordFile (lf_lastRecordRef s)" using Cons.prems that by auto
    show ?thesis
      using replay_lines_seen [OF path, of ls 0 env rnd] assms(1,4-6) path by (simp add: replayFile_def)
  qed
  then show ?case using Cons by auto
qed simp

text \<open>Opening a directory whose snapshot is of a closed store replays nothing.\<close>

lemma reopen_written:
  assumes "no_faults env" "written env xs s" "case lf_writer s of None \<Rightarrow> True | Some (buffered, _) \<Rightarrow> buffered = []"
    and "dk_latest (lf_disk s) = Some p" "lv_state env p = Inr (capture t s)" "windows_ok (lf_memory s)"
  shows "\<exists>s'. NewLocalFileStore env rnd now (lf_cfg s) (lf_disk s) = Inr s' \<and> ms_totals (lf_memory s') = ms_totals (lf_memory s) \<and>
    ms_windows (lf_memory s') = ms_windows (lf_memory s)"
proof -
  define s1 where "s1 = restore_snapshot (capture t s) (fresh_store now (lf_cfg s) (lf_disk s))"
  have s1: "lf_lastRecordRef s1 = lf_lastRecordRef s" "lf_disk s1 = lf_disk s" "ms_totals (lf_memory s1) = ms_totals (lf_memory s)"
    "ms_windows (lf_memory s1) = ms_windows (lf_memory s)"
    using clone_windows [OF assms(6)]
    by (simp_all add: s1_def restore_snapshot_def capture_def fresh_store_def cloneStatsGroups_def Let_def split: option.split)
  have "replay_files env rnd (sort (map fst (dk_records (lf_disk s1)))) s1 = (None, s1)"
  proof (cases "lf_writer s")
    case None
    then have "dk_records (lf_disk s1) = []" using assms(2) s1(2) by (simp add: written_def paths_of_def)
    then show ?thesis by simp
  next
    case (Some w)
    then obtain e where "lf_writer s = Some ([], e)" using assms(3) by (cases w) auto
    then have at: "sc_RecordFile (lf_lastRecordRef s) = lf_currentPath s" "lf_currentPath s \<noteq> []"
      "sc_RecordLine (lf_lastRecordRef s) = int (length (filter (\<lambda>r. day_of r = lf_currentDay s) xs))" "\<forall>r \<in> set xs. line_storable env r"
      "content_of (lf_currentPath s) (lf_disk s) = day_text env (lf_currentDay s) xs" "\<forall>path \<in> paths_of (lf_disk s). path \<le> lf_currentPath s"
      using assms(2) by (auto simp: written_def part_path_def)
    let ?ls = "map (line_of env) (filter (\<lambda>r. day_of r = lf_currentDay s) xs)"
    have "scan_lines (day_text env (lf_currentDay s) xs) = ?ls" using at(4) line_storableD(3) by (intro scan_text_of) auto
    then show ?thesis
      using assms(1) s1 at line_storableD(2) by (intro replay_files_seen [where ls = ?ls]) (auto simp: paths_of_def)
  qed
  moreover have "lf_recover env rnd (fresh_store now (lf_cfg s) (lf_disk s)) = replayRecords env rnd s1"
    using assms(1,4,5) by (simp add: lf_recover_def s1_def fresh_store_def)
  ultimately show ?thesis
    using assms(1) s1 by (simp add: NewLocalFileStore_def replayRecords_def)
qed

lemma query_same:
  assumes "ms_totals m' = ms_totals m" "ms_windows m' = ms_windows m"
  shows "memory_Query rnd q m' = memory_Query rnd q m"
proof -
  have window: "window_group w b g m' = window_group w b g m" for w b g using assms by (simp add: window_group_def)
  then have "range_day rnd g c m' = range_day rnd g c m" for g c by (simp add: range_day_def fun_eq_iff)
  then have range: "range_loop rnd g c m' day fin merged = range_loop rnd g c m day fin merged" for g c day fin merged
    by (induction rnd g c m day fin merged rule: range_loop.induct) (simp add: range_loop.simps)
  show ?thesis unfolding memory_Query_def window range assms(1) by (rule refl)
qed

section \<open>A second store on the same day\<close>

text \<open>A store that was just opened, records \<open>r\<close> and is closed: the line is appended to the file of the day, but the cursor is at line 1.\<close>

definition idle :: "LocalFileStore \<Rightarrow> bool" where
  "idle s \<longleftrightarrow> lf_queue s = [] \<and> lf_batch s = [] \<and> lf_writer s = None \<and> lf_currentDay s = [] \<and> lf_currentLine s = 0"

lemma append_idle:
  assumes "no_faults env" "idle s" "calendar_day (day_of r)" "line_storable env r"
  defines "path \<equiv> day_path env (lf_cfg s) (day_of r)"
  obtains s' b where "\<And>batch. appendRecord env r (s\<lparr>lf_batch := batch\<rparr>) = Some (None, s'\<lparr>lf_batch := batch\<rparr>)" "same_rest s s'" "lf_writer s' = Some (b, None)"
    "lf_currentPath s' = path" "lf_lastRecordRef s' = \<lparr>sc_RecordFile = path, sc_RecordLine = 1\<rparr>"
    "content_of path (lf_disk s') @ b = content_of path (lf_disk s) @ line_of env r @ [line_end]" "grown path (lf_disk s) (lf_disk s')"
proof -
  have day: "day_of r \<noteq> []" using assms(3) by (auto simp: calendar_day_def)
  let ?d = "add_bytes path [] (lf_disk s)"
  let ?s1 = "s\<lparr>lf_currentPart := 1, lf_disk := ?d, lf_writer := Some ([], None), lf_currentPath := path,
    lf_currentSize := int (length (content_of path (lf_disk s))), lf_currentDay := day_of r, lf_currentLine := 0\<rparr>"
  have opened: "rotateIfNeeded env r (s\<lparr>lf_batch := batch\<rparr>) = Some (None, ?s1\<lparr>lf_batch := batch\<rparr>)" for batch
    using assms(1,2,3) day
    by (simp add: idle_def rotateIfNeeded_def openWriter_def flush_none closeWriter_def record_dir_day path_def Let_def)
  obtain b d' where w: "bufio_Write env path (line_of env r @ [line_end]) ([], None) ?d = (None, (b, None), d')"
    "content_of path d' @ b = content_of path ?d @ [] @ line_of env r @ [line_end]" "grown path ?d d'"
    using bufio_Write_ok [OF assms(1)] by metis
  let ?s' = "?s1\<lparr>lf_writer := Some (b, None), lf_disk := d', lf_currentSize := lf_currentSize ?s1 + int (length (line_of env r)) + 1,
    lf_currentLine := 1, lf_lastRecordRef := \<lparr>sc_RecordFile = path, sc_RecordLine = 1\<rparr>\<rparr>"
  show ?thesis
  proof (rule that)
    show "appendRecord env r (s\<lparr>lf_batch := batch\<rparr>) = Some (None, ?s'\<lparr>lf_batch := batch\<rparr>)" for batch
      using opened w(1) line_storableD(1) [OF assms(4)] by (simp add: appendRecord_def write_line_def Let_def)
    show "grown path (lf_disk s) (lf_disk ?s')" using grown_trans [OF grown_refl(2) w(3)] by simp
    show "same_rest s ?s'" using w(3) assms(2) by (simp add: same_rest_def grown_def)
  qed (use w(2) in simp_all)
qed

lemma session_idle:
  assumes "no_faults env" "idle s" "calendar_day (day_of r)" "1 \<le> alf_QueueSize (lf_cfg s)" "1 < alf_WriteBufferRecords (lf_cfg s)" "line_storable env r"
    and "\<And>m. reads_back env m"
  defines "path \<equiv> day_path env (lf_cfg s) (day_of r)"
  obtains s' p st where "lf_Close env clk (lf_Record rnd r s) = Some s'" "lf_memory s' = memory_Record rnd r (lf_memory s)" "lf_cfg s' = lf_cfg s"
    "content_of path (lf_disk s') = content_of path (lf_disk s) @ line_of env r @ [line_end]" "paths_of (lf_disk s') \<subseteq> insert path (paths_of (lf_disk s))"
    "keys_ok (dk_records (lf_disk s))  \<Longrightarrow> keys_ok (dk_records (lf_disk s'))" "dk_latest (lf_disk s') = Some p" "lv_state env p = Inr st" "sn_Totals st = ms_totals (lf_memory s')" "sn_Windows st = ms_windows (lf_memory s')"
    "sn_Cursor st = \<lparr>sc_RecordFile = path, sc_RecordLine = 1\<rparr>"
proof -
  let ?s0 = "s\<lparr>lf_memory := memory_Record rnd r (lf_memory s), lf_queue := []\<rparr>"
  have s0: "idle ?s0" "lf_cfg ?s0 = lf_cfg s" using assms(2) by (simp_all add: idle_def)
  obtain s1 b where s1: "\<And>batch. appendRecord env r (?s0\<lparr>lf_batch := batch\<rparr>) = Some (None, s1\<lparr>lf_batch := batch\<rparr>)" "same_rest ?s0 s1"
    "lf_writer s1 = Some (b, None)" "lf_currentPath s1 = path" "lf_lastRecordRef s1 = \<lparr>sc_RecordFile = path, sc_RecordLine = 1\<rparr>"
    "content_of path (lf_disk s1) @ b = content_of path (lf_disk ?s0) @ line_of env r @ [line_end]" "grown path (lf_disk ?s0) (lf_disk s1)"
    using append_idle [OF assms(1) s0(1) assms(3,6)] unfolding path_def s0(2) by blast
  have "lf_writer (s1\<lparr>lf_batch := []\<rparr>) = Some (b, None)" using s1(3) by simp
  from flush_some [OF assms(1) this] obtain d where flush: "flushWriter env (s1\<lparr>lf_batch := []\<rparr>) = (None, s1\<lparr>lf_batch := [], lf_writer := Some ([], None), lf_disk := d\<rparr>)"
    "content_of path d = content_of path (lf_disk s1) @ b" "grown path (lf_disk s1) d"
    using s1(4) by auto
  define s2 where "s2 = s1\<lparr>lf_batch := [], lf_writer := Some ([], None), lf_disk := d\<rparr>"
  obtain p ss where s3: "snd (writeSnapshot env clk s2) = s2\<lparr>lf_disk := (lf_disk s2)\<lparr>dk_latest := Some p, dk_snapshots := ss\<rparr>\<rparr>" (is "_ = ?s3")
    and p: "lv_state env p = Inr (capture (clk 0) s2)"
    using snapshot_no_faults [OF assms(1)] assms(7) by metis
  obtain keep where s4: "snd (cleanupExpired env (clk 3) ?s3) =
      ?s3\<lparr>lf_disk := (lf_disk ?s3)\<lparr>dk_records := filter (\<lambda>(p, x). keep p) (dk_records (lf_disk ?s3))\<rparr>\<rparr>" (is "_ = ?s4")
    and keep: "keep (sc_RecordFile (lf_lastRecordRef ?s3))"
    using cleanup_keeps [OF assms(1)] by blast
  have run: "lf_Close env clk (lf_Record rnd r s) = Some (snd (closeWriter env ?s4))"
    using assms(2,4,5) s1(1) [of "[r]"] flush(1) s3 s4
    by (simp add: idle_def lf_Close_def lf_Record_def run_receive_def run_close_def run_flush_def s2_def Let_def)
  have disk: "lf_disk (snd (closeWriter env ?s4)) = lf_disk ?s4" "lf_memory (snd (closeWriter env ?s4)) = lf_memory ?s4"
    "lf_cfg (snd (closeWriter env ?s4)) = lf_cfg ?s4"
    by (simp_all add: closeWriter_def split: option.split)
  have mem: "lf_memory ?s4 = memory_Record rnd r (lf_memory s)" "lf_cfg ?s4 = lf_cfg s" using s1(2) by (simp_all add: s2_def same_rest_def)
  have "content_of path (lf_disk ?s4) = content_of path (lf_disk ?s3)"
    using content_of_filter [of keep path "lf_disk ?s3"] keep s1(5) by (simp add: s2_def)
  also have "\<dots> = content_of path (lf_disk s2)" by (simp add: content_of_def)
  also have "\<dots> = content_of path (lf_disk s) @ line_of env r @ [line_end]" using s1(6) flush(2) by (simp add: s2_def)
  finally have lines: "content_of path (lf_disk ?s4) = content_of path (lf_disk s) @ line_of env r @ [line_end]" .
  have grown: "grown path (lf_disk s) (lf_disk s2)" using grown_trans [OF s1(7) flush(3)] by (simp add: s2_def)
  have paths: "paths_of (lf_disk ?s4) \<subseteq> insert path (paths_of (lf_disk s))"
  proof -
    have "paths_of (lf_disk ?s4) \<subseteq> paths_of (lf_disk s2)" by (auto simp: paths_of_def)
    then show ?thesis using grown by (auto simp: grown_def)
  qed
  have keys: "keys_ok (dk_records (lf_disk s)) \<Longrightarrow> keys_ok (dk_records (lf_disk ?s4))"
    using grown by (simp add: grown_def keys_ok_def distinct_map_filter)
  show ?thesis
    using that [OF run, of p "capture (clk 0) s2"] disk mem lines paths keys p s1(2,5) by (simp add: capture_def cloneStatsGroups_def cloneWindowGroups_def s2_def same_rest_def)
qed

definition replayed :: "lf_env \<Rightarrow> string list \<Rightarrow> UsageRecord list" where
  "replayed env ls = concat (map (\<lambda>l. case lv_decode env l of LineRecord r \<Rightarrow> [r] | _ \<Rightarrow> []) (map drop_cr ls))"

lemma replay_lines_new:
  assumes "\<forall>l \<in> set ls. length l < maxScanTokenSize \<and> lv_decode env (drop_cr l) \<noteq> LineEOF"
  shows "sc_RecordFile (lf_lastRecordRef s) = path \<Longrightarrow> sc_RecordLine (lf_lastRecordRef s) \<le> line \<Longrightarrow>
    \<exists>ref. replay_lines env rnd path ls line s = (None, s\<lparr>lf_memory := fold (memory_Record rnd) (replayed env ls) (lf_memory s), lf_lastRecordRef := ref\<rparr>)"
  using assms
proof (induction ls arbitrary: line s)
  case Nil
  then show ?case by (intro exI [of _ "lf_lastRecordRef s"]) (simp add: replayed_def)
next
  case (Cons l ls)
  have l: "length l < maxScanTokenSize" "lv_decode env (drop_cr l) \<noteq> LineEOF" using Cons.prems by simp_all
  show ?case
  proof (cases "lv_decode env (drop_cr l)")
    case (LineRecord r)
    let ?s = "s\<lparr>lf_memory := memory_Record rnd r (lf_memory s), lf_lastRecordRef := \<lparr>sc_RecordFile = path, sc_RecordLine = line + 1\<rparr>\<rparr>"
    show ?thesis using Cons.IH [of ?s "line + 1"] Cons.prems l LineRecord by (auto simp: replayed_def)
  next
    case LineBad
    then show ?thesis using Cons.IH [of s "line + 1"] Cons.prems l by (auto simp: replayed_def)
  qed (use l in simp)
qed

lemma reopen_lines:
  assumes "no_faults env" "dk_latest d = Some p" "lv_state env p = Inr st" "sn_Cursor st = \<lparr>sc_RecordFile = path, sc_RecordLine = 1\<rparr>"
    and "scan_lines (content_of path d) = l # ls" "paths_of d \<subseteq> {path}" "keys_ok (dk_records d)" "length l < maxScanTokenSize"
    and "\<forall>l \<in> set ls. length l < maxScanTokenSize \<and> lv_decode env (drop_cr l) \<noteq> LineEOF"
  shows "\<exists>s m. NewLocalFileStore env rnd now cfg d = Inr s \<and> lf_disk s = d \<and> lf_cfg s = cfg \<and> idle s \<and>
    lf_memory s = fold (memory_Record rnd) (replayed env ls) m \<and> ms_totals m = sn_Totals st"
proof -
  define s1 where "s1 = restore_snapshot st (fresh_store now cfg d)"
  have s1: "lf_lastRecordRef s1 = \<lparr>sc_RecordFile = path, sc_RecordLine = 1\<rparr>" "lf_disk s1 = d" "ms_totals (lf_memory s1) = sn_Totals st"
    "idle s1" "lf_cfg s1 = cfg"
    using assms(4) by (simp_all add: s1_def restore_snapshot_def fresh_store_def cloneStatsGroups_def idle_def Let_def split: option.split)
  have files: "map fst (dk_records d) = [path]"
  proof -
    have "content_of path d \<noteq> []" using assms(5) by (auto simp: scan_lines.simps [of "[]"])
    then have "path \<in> paths_of d" using content_of_absent [of path d] by blast
    then show ?thesis using assms(6,7) by (cases "dk_records d"; cases "tl (dk_records d)") (auto simp: paths_of_def keys_ok_def)
  qed
  obtain ref where "replay_lines env rnd path ls 1 s1 =
      (None, s1\<lparr>lf_memory := fold (memory_Record rnd) (replayed env ls) (lf_memory s1), lf_lastRecordRef := ref\<rparr>)"
    using replay_lines_new [OF assms(9), of s1 path 1 rnd] s1(1) by auto
  then have "replay_lines env rnd path (scan_lines (content_of path d)) 0 s1 =
      (None, s1\<lparr>lf_memory := fold (memory_Record rnd) (replayed env ls) (lf_memory s1), lf_lastRecordRef := ref\<rparr>)" (is "_ = (None, ?s)")
    using assms(5,8) s1(1) by simp
  then have "NewLocalFileStore env rnd now cfg d = Inr ?s"
    using assms(1-3) files s1 by (simp add: NewLocalFileStore_def lf_recover_def replayRecords_def replayFile_def s1_def fresh_store_def Let_def)
  then show ?thesis using s1 by (intro exI [of _ ?s] exI [of _ "lf_memory s1"]) (simp add: idle_def)
qed

section \<open>Properties\<close>

text \<open>C35: A store that ran from an empty directory and was closed answers every query after it is opened again as it did before, whatever
  the order in which records, the queue and the ticker were served, and also when records were dropped because the queue was full. This
  holds when the operating system reports no fault, the records came in the order of their days, no record file reached its rotation size,
  every line is shorter than the scanner's 64 KiB, and \<open>encoding/json\<close> gives back the totals and windows of the last snapshot.\<close>

theorem usage_survives_restart:
  assumes "no_faults env" "writable env cfg (recorded es)"
  shows "\<exists>s. lf_run env rnd es (fresh_store t0 cfg \<lparr>dk_records = [], dk_latest = None, dk_snapshots = []\<rparr>) = Some s \<and>
    (reads_back env (lf_memory s) \<longrightarrow>
      (\<exists>s' s''. lf_Close env clk s = Some s' \<and> NewLocalFileStore env rnd t1 cfg (lf_disk s') = Inr s'' \<and> (\<forall>q. lf_Query rnd q s'' = lf_Query rnd q s)))"
proof -
  let ?s0 = "fresh_store t0 cfg \<lparr>dk_records = [], dk_latest = None, dk_snapshots = []\<rparr>"
  have "tracked env [] ?s0" by (simp add: tracked_def fresh_store_def written_def paths_of_def)
  moreover have "windows_ok (lf_memory ?s0)" "lf_cfg ?s0 = cfg" by (simp_all add: fresh_store_def newMemoryStore_def windows_ok_def)
  ultimately obtain s where s: "lf_run env rnd es ?s0 = Some s" "tracked env (recorded es) s" "windows_ok (lf_memory s)" "lf_cfg s = cfg"
    using run_tracked [OF assms(1), of "[]" ?s0 es rnd] assms(2) by auto
  have "\<exists>s' s''. lf_Close env clk s = Some s' \<and> NewLocalFileStore env rnd t1 cfg (lf_disk s') = Inr s'' \<and> (\<forall>q. lf_Query rnd q s'' = lf_Query rnd q s)"
    if kept: "reads_back env (lf_memory s)"
  proof -
    obtain s1 xs p where s1: "run_drain env clk (length (lf_queue s)) s = Some (snd (closeWriter env s1))" "written env xs s1"
      "lf_memory s1 = lf_memory s" "lf_cfg s1 = cfg" "case lf_writer s1 of None \<Rightarrow> True | Some (buffered, _) \<Rightarrow> buffered = []"
      "dk_latest (lf_disk s1) = Some p" "lv_state env p = Inr (capture (clk 0) s1)"
      using close_tracked [OF assms(1) s(2), of "length (lf_queue s)" clk] assms(2) s(4) kept by auto
    have disk: "lf_disk (snd (closeWriter env s1)) = lf_disk s1" by (simp add: closeWriter_def split: option.split)
    obtain s'' where s'': "NewLocalFileStore env rnd t1 cfg (lf_disk s1) = Inr s''" "ms_totals (lf_memory s'') = ms_totals (lf_memory s)"
      "ms_windows (lf_memory s'') = ms_windows (lf_memory s)"
      using reopen_written [OF assms(1) s1(2,5,6,7), of rnd t1] s(3) s1(3,4) by auto
    have "lf_Close env clk s = Some (snd (closeWriter env s1))" using s1(1) by (simp add: lf_Close_def)
    moreover have "NewLocalFileStore env rnd t1 cfg (lf_disk (snd (closeWriter env s1))) = Inr s''" using s''(1) disk by simp
    moreover have "\<forall>q. lf_Query rnd q s'' = lf_Query rnd q s" unfolding lf_Query_def using query_same [OF s''(2,3)] by blast
    ultimately show ?thesis by blast
  qed
  with s(1) show ?thesis by blast
qed

text \<open>A second store on the same day counts its records twice after the next restart: it continues the file of the first one with its line
  count at zero, so the cursor of its snapshot points before its own lines, and they are replayed on top of a snapshot that has them.\<close>

theorem restart_counts_twice:
  assumes "no_faults env" "calendar_day (day_of r1)" "day_of r2 = day_of r1" "lv_decode env (line_of env r2) = LineRecord r2"
    and "1 \<le> alf_QueueSize cfg" "1 < alf_WriteBufferRecords cfg" and "line_storable env r1" "line_storable env r2" and "\<And>m. reads_back env m"
  shows "\<exists>s1 s2 s3 s4. lf_Close env clk (lf_Record rnd r1 (fresh_store t0 cfg \<lparr>dk_records = [], dk_latest = None, dk_snapshots = []\<rparr>)) = Some s1 \<and>
    NewLocalFileStore env rnd t1 cfg (lf_disk s1) = Inr s2 \<and> lf_Close env clk (lf_Record rnd r2 s2) = Some s3 \<and>
    NewLocalFileStore env rnd t2 cfg (lf_disk s3) = Inr s4 \<and>
    (\<forall>g \<in> set usageGroupBys. total_group g (lf_memory s4) = applyToGroup rnd (usageGroupValue r2 g) r2 (total_group g (lf_memory s3)))"
proof -
  let ?s0 = "fresh_store t0 cfg \<lparr>dk_records = [], dk_latest = None, dk_snapshots = []\<rparr>" and ?path = "day_path env cfg (day_of r1)"
  have i0: "idle ?s0" "lf_cfg ?s0 = cfg" "content_of ?path (lf_disk ?s0) = []" "paths_of (lf_disk ?s0) = {}" "keys_ok (dk_records (lf_disk ?s0))"
    by (simp_all add: idle_def fresh_store_def content_of_def paths_of_def)
  have path: "day_path env (lf_cfg ?s0) (day_of r1) = ?path" using i0(2) by simp
  obtain s1 p1 st1 where s1: "lf_Close env clk (lf_Record rnd r1 ?s0) = Some s1" "content_of ?path (lf_disk s1) = text_of [line_of env r1]"
    "paths_of (lf_disk s1) \<subseteq> {?path}" "keys_ok (dk_records (lf_disk s1))" "dk_latest (lf_disk s1) = Some p1" "lv_state env p1 = Inr st1"
    "sn_Cursor st1 = \<lparr>sc_RecordFile = ?path, sc_RecordLine = 1\<rparr>"
    by (rule session_idle [OF assms(1) i0(1) assms(2), of clk rnd]) (use assms(5-) i0 path in auto)
  have scan: "scan_lines (text_of [line_of env r1]) = [line_of env r1]" "scan_lines (text_of [line_of env r1, line_of env r2]) = [line_of env r1, line_of env r2]"
    using line_storableD(3) [OF assms(7)] line_storableD(3) [OF assms(8)] by (intro scan_text_of, simp)+
  obtain s2 where s2: "NewLocalFileStore env rnd t1 cfg (lf_disk s1) = Inr s2" "lf_disk s2 = lf_disk s1" "idle s2" "lf_cfg s2 = cfg"
    using reopen_lines [OF assms(1) s1(5-7) _ s1(3,4), of "line_of env r1" "[]" rnd t1 cfg] s1(2) scan(1) line_storableD(2) [OF assms(7)] by auto
  have path2: "day_path env (lf_cfg s2) (day_of r2) = ?path" using s2(4) assms(3) by simp
  obtain s3 p3 st3 where s3: "lf_Close env clk (lf_Record rnd r2 s2) = Some s3" "content_of ?path (lf_disk s3) = text_of [line_of env r1, line_of env r2]"
    "paths_of (lf_disk s3) \<subseteq> insert ?path (paths_of (lf_disk s2))" "keys_ok (dk_records (lf_disk s3))" "dk_latest (lf_disk s3) = Some p3" "lv_state env p3 = Inr st3"
    "sn_Totals st3 = ms_totals (lf_memory s3)" "sn_Cursor st3 = \<lparr>sc_RecordFile = ?path, sc_RecordLine = 1\<rparr>"
    by (rule session_idle [OF assms(1) s2(3), of r2 clk rnd]) (use assms s1 s2 path2 in auto)
  have paths3: "paths_of (lf_disk s3) \<subseteq> {?path}" using s3(3) s1(3) s2(2) by auto
  obtain s4 m where s4: "NewLocalFileStore env rnd t2 cfg (lf_disk s3) = Inr s4" "lf_memory s4 = fold (memory_Record rnd) (replayed env [line_of env r2]) m"
    "ms_totals m = sn_Totals st3"
    using reopen_lines [OF assms(1) s3(5,6,8) _ paths3 s3(4), of "line_of env r1" "[line_of env r2]" rnd t2 cfg] s3(2) scan(2)
      line_storableD [OF assms(7)] line_storableD [OF assms(8)] assms(4) by auto
  have "lf_memory s4 = memory_Record rnd r2 m" using s4(2) assms(4) line_storableD(4) [OF assms(8)] by (simp add: replayed_def)
  then have "\<forall>g \<in> set usageGroupBys. total_group g (lf_memory s4) = applyToGroup rnd (usageGroupValue r2 g) r2 (total_group g (lf_memory s3))"
    using total_group_Record [of _ rnd r2 m] s4(3) s3(7) by (simp add: total_group_def)
  then show ?thesis using s1(1) s2(1) s3(1) s4(1) by blast
qed

section \<open>Witnesses\<close>

text \<open>Snapshots are countable, so that a text can stand for each of them.\<close>

instance StatsItem_ext :: (countable) countable
  by (rule countable_classI [of "\<lambda>x. to_nat ((it_Value x, it_Date x, it_Agent x, it_SessionID x, it_Model x, it_RequestCount x, it_SuccessCount x,
        it_ErrorCount x, it_FallbackCount x, it_InputTokens x, it_OutputTokens x),
       (it_CachedInputReadTokens x, it_CachedInputWriteTokens x, it_CacheReadTokens x, it_CacheCreateTokens x, it_TotalTokens x, it_CostUSD x,
        it_ProviderUsageCount x, it_EstimatedUsageCount x, it_ToolUnits x, it_LastSeenAt x, StatsItem.more x))"])
    (simp add: StatsItem.equality)

instance snapshotCursor_ext :: (countable) countable
  by (rule countable_classI [of "\<lambda>x. to_nat (sc_RecordFile x, sc_RecordLine x, snapshotCursor.more x)"]) (simp add: snapshotCursor.equality)

instance snapshotState_ext :: (countable) countable
  by (rule countable_classI [of "\<lambda>x. to_nat (sn_Totals x, sn_Windows x, sn_Cursor x, sn_CapturedAt x, sn_TrackingStartedAt x, snapshotState.more x)"])
    (simp add: snapshotState.equality)

definition sample_files :: lf_env where
  "sample_files = \<lparr>lv_fault = (\<lambda>_. None), lv_write = (\<lambda>_ _ _. None), lv_clean = id, lv_encode = (\<lambda>_. Inr ''{}''),
     lv_decode = (\<lambda>_. LineRecord (sample_record ''a'' 5)), lv_snapshot = (\<lambda>st. Inr (replicate (to_nat st) (CHR ''x''))),
     lv_state = (\<lambda>p. Inr (from_nat (length p))), lv_modTime = (\<lambda>_. 0)\<rparr>"

definition sample_files_config :: AccountingLocalFileConfig where
  "sample_files_config = \<lparr>alf_Dir = ''data'', alf_RotateMaxSizeMB = 64, alf_RetentionDays = 0, alf_SnapshotInterval = [], alf_SnapshotRetentionDays = 0,
     alf_WriteBufferRecords = 100, alf_FlushInterval = [], alf_QueueSize = 10\<rparr>"

lemma sample_no_faults: "no_faults sample_files" "line_storable sample_files r" "reads_back sample_files m"
  by (simp_all add: no_faults_def line_storable_def reads_back_def sample_files_def maxScanTokenSize_def)

lemma sample_day: "day_of (sample_record c n) = ''2024-05-01''"
proof -
  have "fst (timeBuckets (sample_record [] 0)) = ''2024-05-01''" by code_simp
  moreover have "timeBuckets (sample_record c n) = timeBuckets (sample_record [] 0)" by (simp add: timeBuckets_def record_timestamp_def sample_record_def)
  ultimately show ?thesis by simp
qed

lemma sample_calendar: "calendar_day ''2024-05-01''"
  unfolding calendar_day_def by (intro exI [of _ "''2024''"] exI [of _ "''05''"] exI [of _ "''01''"]) simp

lemma sample_line: "line_of sample_files r = ''{}''"
  by (simp add: line_of_def sample_files_def)

theorem usage_survives_restart_witness:
  "\<exists>s s' s''. lf_run sample_files id [LfRecorded (sample_record ''a'' 5), LfReceived (\<lambda>_. 0), LfTicked (\<lambda>_. 0), LfRecorded (sample_record ''b'' 7)]
       (fresh_store 0 sample_files_config \<lparr>dk_records = [], dk_latest = None, dk_snapshots = []\<rparr>) = Some s \<and>
     lf_Close sample_files (\<lambda>_. 0) s = Some s' \<and> NewLocalFileStore sample_files id 0 sample_files_config (lf_disk s') = Inr s'' \<and>
     (\<forall>q. lf_Query id q s'' = lf_Query id q s)"
proof -
  have "writable sample_files sample_files_config
      (recorded [LfRecorded (sample_record ''a'' 5), LfReceived (\<lambda>_. 0), LfTicked (\<lambda>_. 0), LfRecorded (sample_record ''b'' 7)])"
    using sample_line by (simp add: writable_def sample_day sample_calendar sample_no_faults sample_files_config_def wrap64_def)
  from usage_survives_restart [OF sample_no_faults(1) this, of id 0 "\<lambda>_. 0" 0] sample_no_faults(3) show ?thesis by blast
qed

theorem restart_counts_twice_witness:
  "\<exists>s1 s2 s3 s4. lf_Close sample_files (\<lambda>_. 0) (lf_Record id (sample_record ''a'' 5)
       (fresh_store 0 sample_files_config \<lparr>dk_records = [], dk_latest = None, dk_snapshots = []\<rparr>)) = Some s1 \<and>
     NewLocalFileStore sample_files id 0 sample_files_config (lf_disk s1) = Inr s2 \<and>
     lf_Close sample_files (\<lambda>_. 0) (lf_Record id (sample_record ''a'' 5) s2) = Some s3 \<and>
     NewLocalFileStore sample_files id 0 sample_files_config (lf_disk s3) = Inr s4 \<and>
     total_group ''key'' (lf_memory s4) = applyToGroup id ''a'' (sample_record ''a'' 5) (total_group ''key'' (lf_memory s3))"
proof -
  have "lv_decode sample_files (line_of sample_files (sample_record ''a'' 5)) = LineRecord (sample_record ''a'' 5)"
    "1 \<le> alf_QueueSize sample_files_config" "1 < alf_WriteBufferRecords sample_files_config" "calendar_day (day_of (sample_record ''a'' 5))"
    by (simp_all add: sample_files_def sample_files_config_def sample_day sample_calendar)
  moreover have "''key'' \<in> set usageGroupBys" "usageGroupValue (sample_record ''a'' 5) ''key'' = ''a''"
    by (simp_all add: usageGroupBys_def usageGroupValue_def sample_record_def nonEmpty_def)
  ultimately show ?thesis
    using restart_counts_twice [OF sample_no_faults(1), of "sample_record ''a'' 5" "sample_record ''a'' 5" sample_files_config "\<lambda>_. 0" id 0 0 0] sample_no_faults by auto
qed

end
