(* ===== verification/Snapshot_Files.thy ===== *)
theory Snapshot_Files
  imports Provider_Errors
begin

text \<open>
  The directory of a snapshot store, as the sessions and the quota store use it: the table of its files, the calls of the operating
  system that can fail (\<open>snap_env\<close>), and the locale \<open>snapshot_slot\<close>, the contract of a file that is replaced as a whole by a
  rename. The names in the table are relative to the directory.
\<close>

type_synonym snap_files = "(string \<times> string) list"

abbreviation latest_json where "latest_json \<equiv> ''latest.json''"

datatype snap_op =
    SnapMkdir | SnapChmod | SnapRead | SnapCreateTemp | SnapTempChmod | SnapSync | SnapTempClose | SnapRename | SnapRemove
  | SnapOpenDir | SnapSyncDir

text \<open>
  \<open>sv_fault\<close> gives the error of a call that fails, \<open>sv_write\<close> how much a failing write leaves behind, \<open>sv_temp\<close> the part of a
  temporary name that \<open>os.CreateTemp\<close> chooses, and the last two are \<open>encoding/json\<close>. A missing file is not a fault: it is not in the table.
\<close>

record 'v snap_env =
  sv_fault :: "snap_op \<Rightarrow> go_error option"
  sv_write :: "string \<Rightarrow> (nat \<times> go_error) option"
  sv_temp :: string
  sv_encode :: "'v \<Rightarrow> go_error + string"
  sv_decode :: "string \<Rightarrow> go_error + 'v"

definition wrap_error :: "string \<Rightarrow> go_error \<Rightarrow> go_error" where
  "wrap_error context e = WrapError (context @ '': '' @ Error e) (Some e)"

text \<open>A sequence of calls, each with the context of its error and what is left when it fails; the result is the first failure.\<close>

fun first_failure :: "(go_error option \<times> (go_error \<Rightarrow> 'r)) list \<Rightarrow> 'r \<Rightarrow> 'r" where
  "first_failure [] r = r"
| "first_failure ((Some e, left) # calls) r = left e"
| "first_failure ((None, left) # calls) r = first_failure calls r"

lemma first_failure_holds:
  assumes "P r" and "\<And>e left. (Some e, left) \<in> set calls \<Longrightarrow> P (left e)"
  shows "P (first_failure calls r)"
  using assms by (induction calls r rule: first_failure.induct) auto

text \<open>
  The contract of a snapshot file: a write either replaces it by the encoding of the new value or leaves it as it was, and a
  write without an error replaces it.
\<close>

locale snapshot_slot =
  fixes put :: "'e \<Rightarrow> 'v \<Rightarrow> snap_files \<Rightarrow> go_error option \<times> snap_files"
    and encoded :: "'e \<Rightarrow> 'v \<Rightarrow> go_error + string"
  assumes write_old_or_new:
      "map_of (snd (put e v fs)) latest_json = map_of fs latest_json \<or>
       (\<exists>p. encoded e v = Inr p \<and> map_of (snd (put e v fs)) latest_json = Some p)"
    and write_success: "fst (put e v fs) = None \<Longrightarrow> \<exists>p. encoded e v = Inr p \<and> map_of (snd (put e v fs)) latest_json = Some p"
begin

lemma writes_never_partial:
  "map_of (fold (\<lambda>(e, v) fs. snd (put e v fs)) ws fs) latest_json = map_of fs latest_json \<or>
   (\<exists>(e, v) \<in> set ws. \<exists>p. encoded e v = Inr p \<and> map_of (fold (\<lambda>(e, v) fs. snd (put e v fs)) ws fs) latest_json = Some p)"
proof (induction ws arbitrary: fs)
  case (Cons w ws)
  obtain e v where w: "w = (e, v)" by (cases w)
  show ?case using Cons.IH [of "snd (put e v fs)"] write_old_or_new [of e v fs] w by auto
qed simp

end

end
