(* ===== verification/Sessions_Snapshot.thy ===== *)
theory Sessions_Snapshot
  imports Sessions_Store Snapshot_Files
begin

text \<open>
  The persistence of sessions (package \<open>internal/sessions\<close>, \<open>snapshot_store.go\<close> and \<open>instance_lock.go\<close>): export and import of the
  store, the atomic replacement of \<open>latest.json\<close>, saving by generation, the final save of \<open>Close\<close>, and the lock that keeps a second
  process out of the directory. A tick of the goroutine is \<open>snapshot_tick\<close>.
\<close>

section \<open>Data\<close>

abbreviation snapshotVersion :: int where "snapshotVersion \<equiv> 1"

record SnapshotConfig =
  snc_Enabled :: bool
  snc_Dir :: string
  snc_FlushInterval :: duration

text \<open>The field \<open>statusObservedAt\<close> of a session is not exported, so it is persisted beside it.\<close>

record persistedSession =
  psn_Session :: Session
  psn_StatusObservedAt :: gotime

record sessionSnapshot =
  sns_Version :: int
  sns_CapturedAt :: gotime
  sns_Generation :: "64 word"
  sns_Sessions :: "persistedSession list"

type_synonym session_env = "sessionSnapshot snap_env"

record SessionSnapshotStore =
  ssn_store :: SessionStore
  ssn_dir :: string
  ssn_persisted :: "64 word"
  ssn_closed :: bool
  ssn_closeErr :: "go_error option"
  ssn_files :: snap_files

section \<open>Export and import\<close>

definition exportSnapshot :: "SessionStore \<Rightarrow> sessionSnapshot" where
  "exportSnapshot st =
     \<lparr>sns_Version = 0, sns_CapturedAt = zeroTime, sns_Generation = sst_generation st,
      sns_Sessions = map (\<lambda>(i, s). \<lparr>psn_Session = s, psn_StatusObservedAt = ses_statusObservedAt s\<rparr>) (sst_sessions st)\<rparr>"

text \<open>The body of the import loop: \<open>None\<close> when the session is left out; the flag says whether it was normalized.\<close>

definition recover_session :: "gotime \<Rightarrow> persistedSession \<Rightarrow> Session option \<times> bool" where
  "recover_session now item =
     (let s = (psn_Session item)\<lparr>ses_statusObservedAt := psn_StatusObservedAt item\<rparr>
      in if ses_Status s = StatusStopped then
           (if ses_LastSeenAt s < now - DefaultStoppedRetention then (None, True) else (Some s, False))
         else if ses_HeartbeatCapability s = HeartbeatCapabilityV1 then
           (Some (s\<lparr>ses_Status := StatusUnknown, ses_RecoveryPending := True, ses_RecoveredAt := Some now, ses_LastHeartbeatAt := None,
                    ses_LeaseExpiresAt := Some (now + DefaultLeaseTTL), ses_statusObservedAt := now\<rparr>), True)
         else
           (Some (s\<lparr>ses_Status := StatusStopped, ses_RecoveryPending := False, ses_RecoveredAt := None, ses_StoppedAt := Some now,
                    ses_LastSeenAt := now, ses_ExitCode := None, ses_statusObservedAt := now\<rparr>), True))"

definition import_one :: "gotime \<Rightarrow> persistedSession \<Rightarrow> (string \<times> Session) list \<times> bool \<Rightarrow> (string \<times> Session) list \<times> bool" where
  "import_one now item = (\<lambda>(imported, normalized).
     case recover_session now item of
       (None, n) \<Rightarrow> (imported, normalized \<or> n)
     | (Some s, n) \<Rightarrow> (AList.update (ses_ID s) s imported, normalized \<or> n))"

definition importSnapshot :: "gotime \<Rightarrow> persistedSession list \<Rightarrow> 64 word \<Rightarrow> SessionStore" where
  "importSnapshot now persisted generation =
     (case fold (import_one now) persisted ([], False) of
        (imported, normalized) \<Rightarrow> \<lparr>sst_sessions = imported, sst_generation = (if normalized then generation + 1 else generation)\<rparr>)"

section \<open>The file\<close>

definition temp_name :: "'v snap_env \<Rightarrow> string" where
  "temp_name env = ''.latest.json-'' @ sv_temp env @ ''.tmp''"

definition remove_temp :: "'v snap_env \<Rightarrow> snap_files \<Rightarrow> snap_files" where
  "remove_temp env fs = (if sv_fault env SnapRemove = None then AList.delete (temp_name env) fs else fs)"

text \<open>From the complete temporary file to the replaced one.\<close>

definition publish_temp :: "'v snap_env \<Rightarrow> string \<Rightarrow> snap_files \<Rightarrow> go_error option \<times> snap_files" where
  "publish_temp env payload fs =
     (let fault = sv_fault env; left = (\<lambda>context fs e. (Some (wrap_error context e), fs));
          replaced = AList.update latest_json payload (AList.delete (temp_name env) fs)
      in first_failure
           [(fault SnapSync, left ''sync session snapshot temp file'' (remove_temp env fs)),
            (fault SnapTempClose, left ''close session snapshot temp file'' (remove_temp env fs)),
            (fault SnapRename, left ''replace session snapshot'' (remove_temp env fs)),
            (fault SnapOpenDir, left ''open session snapshot dir'' replaced),
            (fault SnapSyncDir, left ''sync session snapshot dir'' replaced)]
           (None, replaced))"

definition writeSnapshotAtomic :: "'v snap_env \<Rightarrow> 'v \<Rightarrow> snap_files \<Rightarrow> go_error option \<times> snap_files" where
  "writeSnapshotAtomic env snapshot fs =
     (let fault = sv_fault env; temp = (\<lambda>c. AList.update (temp_name env) c fs);
          left = (\<lambda>context fs e. (Some (wrap_error context e), fs))
      in first_failure
           [(fault SnapCreateTemp, left ''create session snapshot temp file'' fs),
            (fault SnapTempChmod, left ''secure session snapshot temp file'' (remove_temp env (temp [])))]
           (case sv_encode env snapshot of
              Inl e \<Rightarrow> left ''encode session snapshot'' (remove_temp env (temp [])) e
            | Inr payload \<Rightarrow>
                (case sv_write env payload of
                   Some (k, e) \<Rightarrow> left ''encode session snapshot'' (remove_temp env (temp (take k payload))) e
                 | None \<Rightarrow> publish_temp env payload (temp payload))))"

section \<open>The store\<close>

definition session_Load :: "session_env \<Rightarrow> gotime \<Rightarrow> SessionSnapshotStore \<Rightarrow> go_error option \<times> SessionSnapshotStore" where
  "session_Load env now s =
     (case sv_fault env SnapRead of
        Some e \<Rightarrow> (Some (wrap_error ''read session snapshot'' e), s)
      | None \<Rightarrow>
          (case map_of (ssn_files s) latest_json of
             None \<Rightarrow> (None, s)
           | Some payload \<Rightarrow>
               (case sv_decode env payload of
                  Inl e \<Rightarrow> (Some (wrap_error ''decode session snapshot'' e), s)
                | Inr snapshot \<Rightarrow>
                    if sns_Version snapshot \<noteq> snapshotVersion
                    then (Some (PlainError (''unsupported session snapshot version '' @ show_int (sns_Version snapshot))), s)
                    else (None, s\<lparr>ssn_store := importSnapshot now (sns_Sessions snapshot) (sns_Generation snapshot),
                                  ssn_persisted := sns_Generation snapshot\<rparr>))))"

definition stamped :: "gotime \<Rightarrow> SessionStore \<Rightarrow> sessionSnapshot" where
  "stamped now st = (exportSnapshot st)\<lparr>sns_Version := snapshotVersion, sns_CapturedAt := now\<rparr>"

definition session_save :: "session_env \<Rightarrow> gotime \<Rightarrow> bool \<Rightarrow> SessionSnapshotStore \<Rightarrow> go_error option \<times> SessionSnapshotStore" where
  "session_save env now force s =
     (if \<not> force \<and> sst_generation (ssn_store s) = ssn_persisted s then (None, s)
      else case writeSnapshotAtomic env (stamped now (ssn_store s)) (ssn_files s) of
             (Some e, fs) \<Rightarrow> (Some e, s\<lparr>ssn_files := fs\<rparr>)
           | (None, fs) \<Rightarrow> (None, s\<lparr>ssn_files := fs, ssn_persisted := sst_generation (ssn_store s)\<rparr>))"

definition session_Save :: "session_env \<Rightarrow> gotime \<Rightarrow> SessionSnapshotStore \<Rightarrow> go_error option \<times> SessionSnapshotStore" where
  "session_Save env now s = session_save env now False s"

definition snapshot_tick :: "session_env \<Rightarrow> gotime \<Rightarrow> SessionSnapshotStore \<Rightarrow> SessionSnapshotStore" where
  "snapshot_tick env now s = (if ssn_closed s then s else snd (session_Save env now s))"

text \<open>\<open>ctxErr\<close> is the error of the context when it ends before the final save has finished; the save still happens.\<close>

definition session_Close ::
  "session_env \<Rightarrow> gotime \<Rightarrow> go_error option \<Rightarrow> SessionSnapshotStore \<Rightarrow> go_error option \<times> SessionSnapshotStore" where
  "session_Close env now ctxErr s =
     (let s1 = (if ssn_closed s then s
                else case session_save env now True (s\<lparr>ssn_closed := True\<rparr>) of
                       (None, s') \<Rightarrow> s'
                     | (Some e, s') \<Rightarrow> s'\<lparr>ssn_closeErr := Some e\<rparr>)
      in (case ctxErr of Some e \<Rightarrow> Some e | None \<Rightarrow> ssn_closeErr s1, s1))"

text \<open>The result is \<open>Inr None\<close> when snapshots are disabled.\<close>

definition NewSessionSnapshotStore ::
  "session_env \<Rightarrow> gotime \<Rightarrow> SnapshotConfig \<Rightarrow> SessionStore option \<Rightarrow> snap_files \<Rightarrow> go_error + SessionSnapshotStore option" where
  "NewSessionSnapshotStore env now cfg store fs =
     (case store of
        None \<Rightarrow> Inr None
      | Some st \<Rightarrow>
          if \<not> snc_Enabled cfg then Inr None
          else if snc_Dir cfg = [] then Inl (PlainError ''session snapshot dir is required'')
          else if snc_FlushInterval cfg \<le> 0 then Inl (PlainError ''session snapshot flush interval must be positive'')
          else first_failure
                 [(sv_fault env SnapMkdir, \<lambda>e. Inl (wrap_error ''create session snapshot dir'' e)),
                  (sv_fault env SnapChmod, \<lambda>e. Inl (wrap_error ''secure session snapshot dir'' e))]
                 (case session_Load env now
                         \<lparr>ssn_store = st, ssn_dir = snc_Dir cfg, ssn_persisted = 0, ssn_closed = False, ssn_closeErr = None, ssn_files = fs\<rparr> of
                    (Some e, _) \<Rightarrow> Inl e
                  | (None, s) \<Rightarrow> Inr (Some s)))"

section \<open>The instance lock\<close>

text \<open>
  The open lock files and the locks the kernel has granted by \<open>flock\<close>, each for a file descriptor. An exclusive lock that does
  not wait fails with \<open>EWOULDBLOCK\<close> when another descriptor holds the lock of the file; closing a descriptor releases its lock.
\<close>

record lock_os =
  lo_open :: "(nat \<times> string) list"
  lo_locks :: "(nat \<times> string) list"

datatype lock_op = LockMkdir | LockChmod | LockOpen | LockFchmod | LockFlock | LockUnlock | LockFileClose

type_synonym lock_env = "lock_op \<Rightarrow> go_error option"

abbreviation ErrInstanceLocked where
  "ErrInstanceLocked \<equiv> PlainError ''session data directory is already in use by another core instance''"

definition close_fd :: "nat \<Rightarrow> lock_os \<Rightarrow> lock_os" where
  "close_fd fd k = k\<lparr>lo_open := filter (\<lambda>(f, p). f \<noteq> fd) (lo_open k), lo_locks := filter (\<lambda>(f, p). f \<noteq> fd) (lo_locks k)\<rparr>"

text \<open>\<open>fd\<close> is the descriptor that the kernel gives to the opened file.\<close>

definition AcquireInstanceLock :: "lock_env \<Rightarrow> string \<Rightarrow> nat \<Rightarrow> lock_os \<Rightarrow> (go_error + nat option) \<times> lock_os" where
  "AcquireInstanceLock env dir fd k =
     (if dir = [] then (Inl (PlainError ''session data dir is required''), k)
      else case env LockMkdir of
        Some e \<Rightarrow> (Inl (wrap_error ''create session data dir'' e), k)
      | None \<Rightarrow>
      case env LockChmod of
        Some e \<Rightarrow> (Inl (wrap_error ''secure session data dir'' e), k)
      | None \<Rightarrow>
      case env LockOpen of
        Some e \<Rightarrow> (Inl (wrap_error ''open session instance lock'' e), k)
      | None \<Rightarrow>
          (let path = dir @ ''/core.lock''; k1 = k\<lparr>lo_open := (fd, path) # lo_open k\<rparr>
           in case env LockFchmod of
                Some e \<Rightarrow> (Inl (wrap_error ''secure session instance lock'' e), close_fd fd k1)
              | None \<Rightarrow>
                  if list_ex (\<lambda>(f, p). p = path \<and> f \<noteq> fd) (lo_locks k1)
                  then (Inl (WrapError (Error ErrInstanceLocked @ '': '' @ dir) (Some ErrInstanceLocked)), close_fd fd k1)
                  else (case env LockFlock of
                          Some e \<Rightarrow> (Inl (wrap_error ''lock session data dir'' e), close_fd fd k1)
                        | None \<Rightarrow> (Inr (Some fd), k1\<lparr>lo_locks := (fd, path) # lo_locks k1\<rparr>))))"

text \<open>The handle is the file it still has; a second call does nothing.\<close>

definition lock_Close :: "lock_env \<Rightarrow> nat option \<Rightarrow> lock_os \<Rightarrow> go_error option \<times> nat option \<times> lock_os" where
  "lock_Close env l k =
     (case l of
        None \<Rightarrow> (None, None, k)
      | Some fd \<Rightarrow>
          (case env LockUnlock of
             Some e \<Rightarrow> (Some (wrap_error ''unlock session data dir'' e), None, close_fd fd k)
           | None \<Rightarrow>
               (map_option (wrap_error ''close session instance lock'') (env LockFileClose), None, close_fd fd k)))"

end
