(* ===== verification/Quota_Snapshot.thy ===== *)
theory Quota_Snapshot
  imports Quota_Tracker Config_Values Snapshot_Files
begin

text \<open>
  The persistence of quota usage (package \<open>internal/quota\<close>, \<open>snapshot_store.go\<close>): the file with the states of both trackers, its
  loading and saving, and the final save. The trackers read the clock of each call from \<open>clk\<close>. Creating the ticker with a period
  that is not positive panics: \<open>None\<close>.
\<close>

record snapshotFile =
  qsf_Version :: int
  qsf_CapturedAt :: string
  qsf_Outbound :: PersistedState
  qsf_Client :: PersistedState

type_synonym quota_env = "snapshotFile snap_env"

record QuotaSnapshotStore =
  qsn_outboundTracker :: "Tracker option"
  qsn_clientTracker :: "Tracker option"
  qsn_dir :: string
  qsn_flushInterval :: duration
  qsn_closed :: bool
  qsn_files :: snap_files

definition no_state :: PersistedState where
  "no_state = \<lparr>pst_Version = 0, pst_CapturedAt = [], pst_Subjects = []\<rparr>"

text \<open>A part without a version has the version of the file.\<close>

definition default_version :: "int \<Rightarrow> PersistedState \<Rightarrow> PersistedState" where
  "default_version v p = (if pst_Version p = 0 then p\<lparr>pst_Version := v\<rparr> else p)"

definition quota_Load :: "quota_env \<Rightarrow> (nat \<Rightarrow> gotime) \<Rightarrow> QuotaSnapshotStore \<Rightarrow> go_error option \<times> QuotaSnapshotStore" where
  "quota_Load env clk s =
     (case sv_fault env SnapRead of
        Some e \<Rightarrow> (Some (wrap_error ''read quota snapshot'' e), s)
      | None \<Rightarrow>
          (case map_of (qsn_files s) latest_json of
             None \<Rightarrow> (None, s)
           | Some payload \<Rightarrow>
               (case sv_decode env payload of
                  Inl e \<Rightarrow> (Some (wrap_error ''decode quota snapshot'' e), s)
                | Inr snapshot \<Rightarrow>
                    (None, s\<lparr>qsn_outboundTracker :=
                               ImportState (clk 0) (default_version (qsf_Version snapshot) (qsf_Outbound snapshot)) (qsn_outboundTracker s),
                             qsn_clientTracker :=
                               ImportState (clk 1) (default_version (qsf_Version snapshot) (qsf_Client snapshot)) (qsn_clientTracker s)\<rparr>))))"

text \<open>\<open>os.WriteFile\<close> on the fixed temporary name, then the rename.\<close>

definition rename_temp :: "'v snap_env \<Rightarrow> string \<Rightarrow> snap_files \<Rightarrow> go_error option \<times> snap_files" where
  "rename_temp env payload fs =
     first_failure [(sv_fault env SnapTempClose, \<lambda>e. (Some e, fs)), (sv_fault env SnapRename, \<lambda>e. (Some e, fs))]
       (None, AList.update latest_json payload (AList.delete ''latest.json.tmp'' fs))"

definition quota_write :: "'v snap_env \<Rightarrow> 'v \<Rightarrow> snap_files \<Rightarrow> go_error option \<times> snap_files" where
  "quota_write env snapshot fs =
     (let temp = (\<lambda>c. AList.update ''latest.json.tmp'' c fs)
      in case sv_encode env snapshot of
           Inl e \<Rightarrow> (Some e, fs)
         | Inr payload \<Rightarrow>
             first_failure [(sv_fault env SnapCreateTemp, \<lambda>e. (Some e, fs))]
               (case sv_write env payload of
                  Some (k, e) \<Rightarrow> (Some e, temp (take k payload))
                | None \<Rightarrow> rename_temp env payload (temp payload)))"

definition export_part :: "gotime \<Rightarrow> Tracker option \<Rightarrow> PersistedState \<times> Tracker option" where
  "export_part now tracker = (case tracker of None \<Rightarrow> (no_state, None) | Some t \<Rightarrow> ExportState now now (Some t))"

definition quota_Save :: "quota_env \<Rightarrow> (nat \<Rightarrow> gotime) \<Rightarrow> QuotaSnapshotStore \<Rightarrow> go_error option \<times> QuotaSnapshotStore" where
  "quota_Save env clk s =
     (case export_part (clk 1) (qsn_outboundTracker s) of (outbound, ot) \<Rightarrow>
      case export_part (clk 2) (qsn_clientTracker s) of (client, ct) \<Rightarrow>
      case quota_write env \<lparr>qsf_Version = 3, qsf_CapturedAt = format_RFC3339Nano (clk 0), qsf_Outbound = outbound, qsf_Client = client\<rparr>
             (qsn_files s) of (e, fs) \<Rightarrow>
        (e, s\<lparr>qsn_outboundTracker := ot, qsn_clientTracker := ct, qsn_files := fs\<rparr>))"

definition quota_tick :: "quota_env \<Rightarrow> (nat \<Rightarrow> gotime) \<Rightarrow> QuotaSnapshotStore \<Rightarrow> QuotaSnapshotStore" where
  "quota_tick env clk s = (if qsn_closed s then s else snd (quota_Save env clk s))"

text \<open>\<open>ctxErr\<close> is the error of the context when it ends before the goroutine does. Only the first call saves and reports.\<close>

definition quota_Close ::
  "quota_env \<Rightarrow> (nat \<Rightarrow> gotime) \<Rightarrow> go_error option \<Rightarrow> QuotaSnapshotStore \<Rightarrow> go_error option \<times> QuotaSnapshotStore" where
  "quota_Close env clk ctxErr s =
     (if qsn_closed s then (None, s)
      else case quota_Save env clk (s\<lparr>qsn_closed := True\<rparr>) of
             (saveErr, s1) \<Rightarrow> ((case ctxErr of Some e \<Rightarrow> Some e | None \<Rightarrow> saveErr), s1))"

definition newQuotaSnapshotStore ::
  "quota_env \<Rightarrow> (rat \<Rightarrow> rat) \<Rightarrow> (nat \<Rightarrow> gotime) \<Rightarrow> GovernanceConfig \<Rightarrow> Tracker option \<Rightarrow> Tracker option \<Rightarrow> bool \<Rightarrow> snap_files \<Rightarrow>
     (go_error + QuotaSnapshotStore option) option" where
  "newQuotaSnapshotStore env rnd clk cfg outboundTracker clientTracker load fs =
     (if \<not> gov_SnapshotEnabled cfg \<or> (outboundTracker = None \<and> clientTracker = None) then Some (Inr None)
      else case sv_fault env SnapMkdir of
             Some e \<Rightarrow> Some (Inl (wrap_error ''create quota snapshot dir'' e))
           | None \<Rightarrow>
               (let s = \<lparr>qsn_outboundTracker = outboundTracker, qsn_clientTracker = clientTracker, qsn_dir = gov_SnapshotDir cfg,
                         qsn_flushInterval = DurationValue_Duration rnd (gov_SnapshotFlushInterval cfg), qsn_closed = False, qsn_files = fs\<rparr>
                in case (if load then quota_Load env clk s else (None, s)) of
                     (Some e, _) \<Rightarrow> Some (Inl e)
                   | (None, s1) \<Rightarrow> if qsn_flushInterval s1 \<le> 0 then None else Some (Inr (Some s1))))"

definition NewQuotaSnapshotStore ::
  "quota_env \<Rightarrow> (rat \<Rightarrow> rat) \<Rightarrow> (nat \<Rightarrow> gotime) \<Rightarrow> GovernanceConfig \<Rightarrow> Tracker option \<Rightarrow> Tracker option \<Rightarrow> snap_files \<Rightarrow>
     (go_error + QuotaSnapshotStore option) option" where
  "NewQuotaSnapshotStore env rnd clk cfg ot ct fs = newQuotaSnapshotStore env rnd clk cfg ot ct True fs"

definition NewSnapshotStoreWithoutLoad ::
  "quota_env \<Rightarrow> (rat \<Rightarrow> rat) \<Rightarrow> (nat \<Rightarrow> gotime) \<Rightarrow> GovernanceConfig \<Rightarrow> Tracker option \<Rightarrow> Tracker option \<Rightarrow> snap_files \<Rightarrow>
     (go_error + QuotaSnapshotStore option) option" where
  "NewSnapshotStoreWithoutLoad env rnd clk cfg ot ct fs = newQuotaSnapshotStore env rnd clk cfg ot ct False fs"

end
