(* ===== verification/Recovery_Laws.thy ===== *)
theory Recovery_Laws
  imports Sessions_Snapshot Quota_Snapshot Quota_Laws
begin

text \<open>
  What survives a restart. The files of the stores are replaced as a whole (interpretations of \<open>snapshot_slot\<close>); the
  generation of the session store changes with every change, so that a save that is skipped had nothing to save; and the sessions of a
  loaded snapshot are those that were saved, as recovery leaves them.
\<close>

section \<open>The file is replaced as a whole\<close>

lemma temp_name_other [simp]: "temp_name env \<noteq> latest_json" "latest_json \<noteq> temp_name env"
  by (simp_all add: temp_name_def)

lemma remove_temp_latest [simp]: "map_of (remove_temp env fs) latest_json = map_of fs latest_json"
  by (simp add: remove_temp_def delete_conv')

lemma put_temp_latest [simp]: "map_of (AList.update (temp_name env) c fs) latest_json = map_of fs latest_json"
  by (simp add: update_conv')

definition replaced_or_failed :: "snap_files \<Rightarrow> go_error + string \<Rightarrow> go_error option \<times> snap_files \<Rightarrow> bool" where
  "replaced_or_failed fs enc res \<longleftrightarrow>
     (fst res \<noteq> None \<and> map_of (snd res) latest_json = map_of fs latest_json) \<or> (\<exists>p. enc = Inr p \<and> map_of (snd res) latest_json = Some p)"

lemma failed_keeps: "map_of fs1 latest_json = map_of fs latest_json \<Longrightarrow> replaced_or_failed fs enc (Some e, fs1)"
  by (simp add: replaced_or_failed_def)

lemma replaced_or_failedD:
  assumes "replaced_or_failed fs enc res"
  shows "map_of (snd res) latest_json = map_of fs latest_json \<or> (\<exists>p. enc = Inr p \<and> map_of (snd res) latest_json = Some p)"
    "fst res = None \<Longrightarrow> \<exists>p. enc = Inr p \<and> map_of (snd res) latest_json = Some p"
  using assms by (auto simp: replaced_or_failed_def)

lemma publish_temp_replaces:
  "map_of fs1 latest_json = map_of fs latest_json \<Longrightarrow> replaced_or_failed fs (Inr payload) (publish_temp env payload fs1)"
  unfolding publish_temp_def Let_def
  by (rule first_failure_holds) (auto simp: replaced_or_failed_def update_conv')

lemma writeSnapshotAtomic_replaces: "replaced_or_failed fs (sv_encode env v) (writeSnapshotAtomic env v fs)"
  unfolding writeSnapshotAtomic_def Let_def
  by (rule first_failure_holds) (auto intro: failed_keeps publish_temp_replaces split: sum.split option.split)

interpretation session_file: snapshot_slot writeSnapshotAtomic sv_encode
  using replaced_or_failedD [OF writeSnapshotAtomic_replaces] by unfold_locales

section \<open>The generation counts the changes\<close>

text \<open>\<open>n\<close> changes were made; without any the store is as it was.\<close>

definition changed_by :: "nat \<Rightarrow> SessionStore \<Rightarrow> SessionStore \<Rightarrow> bool" where
  "changed_by n st st' \<longleftrightarrow> sst_generation st' = sst_generation st + of_nat n \<and> (n = 0 \<longrightarrow> st' = st)"

lemma changed_by_refl: "changed_by 0 st st"
  by (simp add: changed_by_def)

lemma changed_by_trans: "changed_by m a b \<Longrightarrow> changed_by n b c \<Longrightarrow> changed_by (m + n) a c"
  by (simp add: changed_by_def)

lemma setSessionLocked_changed: "\<exists>n\<le>1. changed_by n st (setSessionLocked i s st)"
  by (cases "map_of (sst_sessions st) i = Some s") (auto simp: changed_by_def setSessionLocked_def intro: exI [of _ 0] exI [of _ 1])

lemma sweep_one_changed: "\<exists>n\<le>1. changed_by n st (snd (sweep_one now r ttl x (res, st)))"
proof -
  have "changed_by 1 st (st\<lparr>sst_sessions := l, sst_generation := sst_generation st + 1\<rparr>)" for l by (simp add: changed_by_def)
  then show ?thesis
    using setSessionLocked_changed [of st] changed_by_refl [of st]
    by (cases x) (auto simp: sweep_one_def intro: exI [of _ 0] exI [of _ 1])
qed

lemma sweep_fold_changed: "\<exists>n\<le>length xs. changed_by n st (snd (fold (sweep_one now r ttl) xs (res, st)))"
proof (induction xs arbitrary: res st)
  case Nil
  show ?case using changed_by_refl by simp
next
  case (Cons x xs)
  obtain res' st' where step: "sweep_one now r ttl x (res, st) = (res', st')" by (cases "sweep_one now r ttl x (res, st)")
  obtain m where m: "m \<le> 1" "changed_by m st st'" using sweep_one_changed [of st now r ttl x res] step by auto
  obtain n where n: "n \<le> length xs" "changed_by n st' (snd (fold (sweep_one now r ttl) xs (res', st')))" using Cons.IH by blast
  show ?case using changed_by_trans [OF m(2) n(2)] m(1) n(1) step by (intro exI [of _ "m + n"]) simp
qed

text \<open>The number of sessions grows by at most one per call, so the changes of a run are bounded.\<close>

lemma session_step_ids: "session_wf st \<Longrightarrow>
    {i. session_view i (session_step op st) \<noteq> None} \<subseteq> {i. session_view i st \<noteq> None} \<union> {i. op_session op = Some i}"
proof
  fix i
  assume wf: "session_wf st" and i: "i \<in> {i. session_view i (session_step op st) \<noteq> None}"
  show "i \<in> {i. session_view i st \<noteq> None} \<union> {i. op_session op = Some i}"
    using i silent_step [OF wf, of op i] by (cases "op_session op = Some i") (auto split: session_op.splits option.splits)
qed

lemma sessions_counted: "session_wf st \<Longrightarrow> length (sst_sessions st) = card {i. session_view i st \<noteq> None}"
proof -
  assume "session_wf st"
  moreover have "{i. session_view i st \<noteq> None} = fst ` set (sst_sessions st)"
    by (auto simp: session_view_def map_of_eq_None_iff intro: rev_image_eqI)
  ultimately show ?thesis by (metis distinct_card keys_ok_def length_map session_wf_def set_map)
qed

lemma sessions_finite: "finite {i. session_view i st \<noteq> None}"
  unfolding session_view_def using finite_dom_map_of [of "sst_sessions st"] by (simp add: dom_def)

lemma step_length: "session_wf st \<Longrightarrow> length (sst_sessions (session_step op st)) \<le> Suc (length (sst_sessions st))"
proof -
  assume wf: "session_wf st"
  have "card ({i. session_view i st \<noteq> None} \<union> {i. op_session op = Some i}) \<le> Suc (card {i. session_view i st \<noteq> None})"
    by (cases "op_session op") (simp_all add: card_insert_if sessions_finite del: not_None_eq)
  moreover have "finite ({i. session_view i st \<noteq> None} \<union> {i. op_session op = Some i})"
    by (cases "op_session op") (simp_all add: sessions_finite del: not_None_eq)
  ultimately show ?thesis
    unfolding sessions_counted [OF wf] sessions_counted [OF session_step_wf [OF wf]]
    using card_mono [OF _ session_step_ids [OF wf, of op]] by linarith
qed

lemma call_sets_one: "op_session op \<noteq> None \<Longrightarrow> session_step op st = st \<or> (\<exists>i s. session_step op st = setSessionLocked i s st)"
  by (cases op) (auto simp: session_Register_def ApplyHookEvent_def MarkStopped_def Heartbeat_def Let_def split: option.splits)

lemma step_changed: "\<exists>n \<le> Suc (length (sst_sessions st)). changed_by n st (session_step op st)"
proof (cases "op_session op = None")
  case True
  then obtain now r ttl where "op = SSweep now r ttl" by (cases op) auto
  then show ?thesis using sweep_fold_changed [of "sst_sessions st" st now r ttl] by (auto simp: Sweep_def le_Suc_eq)
next
  case False
  then show ?thesis using call_sets_one [of op st] setSessionLocked_changed [of st] changed_by_refl [of st]
    by (metis One_nat_def Suc_le_mono le0 order_trans)
qed

lemma run_changed:
  "session_wf st \<Longrightarrow> \<exists>n \<le> length ops * (length (sst_sessions st) + length ops). changed_by n st (fold session_step ops st)"
proof (induction ops arbitrary: st)
  case Nil
  show ?case using changed_by_refl by simp
next
  case (Cons op ops)
  let ?st = "session_step op st"
  obtain m where m: "m \<le> Suc (length (sst_sessions st))" "changed_by m st ?st" using step_changed by blast
  obtain n where n: "n \<le> length ops * (length (sst_sessions ?st) + length ops)" "changed_by n ?st (fold session_step ops ?st)"
    using Cons.IH [OF session_step_wf [OF Cons.prems]] by blast
  have "n \<le> length ops * (Suc (length (sst_sessions st)) + length ops)"
    by (rule order_trans [OF n(1) mult_le_mono2]) (use step_length [OF Cons.prems, of op] in simp)
  then have "m + n \<le> length (op # ops) * (length (sst_sessions st) + length (op # ops))"
    using m(1) by (simp add: algebra_simps)
  then show ?case using changed_by_trans [OF m(2) n(2)] by auto
qed

text \<open>With fewer than \<open>2 ^ 64\<close> changes, an equal generation means an unchanged store.\<close>

lemma same_generation:
  assumes "session_wf st" "length ops * (length (sst_sessions st) + length ops) < 2 ^ 64"
    "sst_generation (fold session_step ops st) = sst_generation st"
  shows "fold session_step ops st = st"
proof -
  obtain n where n: "n < 2 ^ 64" "changed_by n st (fold session_step ops st)" using run_changed [OF assms(1), of ops] assms(2) le_less_trans by blast
  then have "(of_nat n :: 64 word) = 0" using assms(3) by (simp add: changed_by_def)
  then have "n = 0" using n(1) nat_dvd_not_less [of n "2 ^ 64"] by (auto simp: word_of_nat_eq_0_iff)
  then show ?thesis using n(2) by (simp add: changed_by_def)
qed

section \<open>Recovery\<close>

text \<open>What a restart at \<open>now\<close> makes of a session.\<close>

definition recovered :: "gotime \<Rightarrow> Session \<Rightarrow> Session option" where
  "recovered now s =
     (if ses_Status s = StatusStopped then (if ses_LastSeenAt s < now - DefaultStoppedRetention then None else Some s)
      else if ses_HeartbeatCapability s = HeartbeatCapabilityV1
      then Some (s\<lparr>ses_Status := StatusUnknown, ses_RecoveryPending := True, ses_RecoveredAt := Some now, ses_LastHeartbeatAt := None,
                   ses_LeaseExpiresAt := Some (now + DefaultLeaseTTL), ses_statusObservedAt := now\<rparr>)
      else Some (s\<lparr>ses_Status := StatusStopped, ses_RecoveryPending := False, ses_RecoveredAt := None, ses_StoppedAt := Some now,
                   ses_LastSeenAt := now, ses_ExitCode := None, ses_statusObservedAt := now\<rparr>))"

text \<open>JSON leaves out the field that is not exported; everything else comes back.\<close>

definition exported_fields :: "sessionSnapshot \<Rightarrow> sessionSnapshot" where
  "exported_fields v =
     v\<lparr>sns_Sessions := map (\<lambda>item. item\<lparr>psn_Session := (psn_Session item)\<lparr>ses_statusObservedAt := zeroTime\<rparr>\<rparr>) (sns_Sessions v)\<rparr>"

definition snapshot_codec :: "session_env \<Rightarrow> bool" where
  "snapshot_codec env \<longleftrightarrow> (\<forall>v p. sv_encode env v = Inr p \<longrightarrow> sv_decode env p = Inr (exported_fields v))"

definition session_ids :: "SessionStore \<Rightarrow> bool" where
  "session_ids st \<longleftrightarrow> (\<forall>i s. session_view i st = Some s \<longrightarrow> ses_ID s = i)"

lemma keep_existing_ID [simp]: "ses_ID (keep_existing e s) = ses_ID s"
  by (simp add: keep_existing_def split: option.split)

lemma register_ID [simp]: "ses_ID (register_lease now s) = ses_ID s" "ses_ID (register_defaults now s) = ses_ID s"
  by (simp_all add: register_lease_def register_defaults_def)

lemma sweep_session_ID: "sweep_session now r ttl s = Some s' \<Longrightarrow> ses_ID s' = ses_ID s"
  by (auto simp: sweep_session_def split: if_splits)

lemma session_step_keeps_ids:
  assumes "session_wf st" "session_ids st"
  shows "session_ids (session_step op st)"
proof (cases op)
  case (SSweep now r ttl)
  then show ?thesis using assms sweep_session_ID by (fastforce simp: session_ids_def Sweep_view split: option.splits)
qed (use assms in \<open>auto simp: session_ids_def session_Register_def ApplyHookEvent_def MarkStopped_def Heartbeat_def GetOwned_view Let_def
    split: option.splits if_splits\<close>)

interpretation recoverable: invariant_machine session_step "\<lambda>st. session_wf st \<and> session_ids st"
  by unfold_locales (simp add: session_step_wf session_step_keeps_ids)

definition persist_session :: "Session \<Rightarrow> persistedSession" where
  "persist_session s = \<lparr>psn_Session = s\<lparr>ses_statusObservedAt := zeroTime\<rparr>, psn_StatusObservedAt = ses_statusObservedAt s\<rparr>"

lemma recover_persisted: "fst (recover_session now (persist_session s)) = recovered now s"
  by (simp add: recover_session_def persist_session_def recovered_def Let_def)

lemma recovered_ID: "recovered now s = Some s' \<Longrightarrow> ses_ID s' = ses_ID s"
  by (auto simp: recovered_def split: if_splits)

lemma exported_sessions: "sns_Sessions (exported_fields (stamped now st)) = map persist_session (map snd (sst_sessions st))"
  "sns_Version (exported_fields (stamped now st)) = snapshotVersion"
  "sns_Generation (exported_fields (stamped now st)) = sst_generation st"
  by (simp_all add: exported_fields_def stamped_def exportSnapshot_def persist_session_def case_prod_beta)

lemma import_one_view:
  "map_of (fst (import_one now item acc)) i =
     (case fst (recover_session now item) of None \<Rightarrow> map_of (fst acc) i | Some s \<Rightarrow> if i = ses_ID s then Some s else map_of (fst acc) i)"
  by (cases acc; cases "recover_session now item") (simp add: import_one_def update_conv' split: option.split)

lemma import_fold_view:
  assumes "distinct (map fst xs)" "\<forall>(i, s) \<in> set xs. ses_ID s = i"
  shows "map_of (fst (fold (import_one now) (map persist_session (map snd xs)) acc)) i =
    (case Option.bind (map_of xs i) (recovered now) of None \<Rightarrow> map_of (fst acc) i | Some s \<Rightarrow> Some s)"
  using assms
proof (induction xs arbitrary: acc)
  case (Cons x xs)
  obtain j s where x: "x = (j, s)" by (cases x)
  have step: "map_of (fst (import_one now (persist_session s) acc)) i =
      (case (if i = j then recovered now s else None) of None \<Rightarrow> map_of (fst acc) i | Some s \<Rightarrow> Some s)"
  proof (cases "recovered now s")
    case None
    then show ?thesis by (simp add: import_one_view recover_persisted)
  next
    case (Some s')
    then have "ses_ID s' = j" using recovered_ID [OF Some] Cons.prems(2) x by auto
    then show ?thesis using Some by (simp add: import_one_view recover_persisted)
  qed
  have "map_of xs i = None" if "i = j" using that Cons.prems(1) x by (simp add: map_of_eq_None_iff)
  then show ?case using Cons.IH [of "import_one now (persist_session s) acc"] Cons.prems x step by (cases "i = j") (simp_all split: option.split)
qed simp

lemma import_fold_keys: "keys_ok (fst acc) \<Longrightarrow> keys_ok (fst (fold (import_one now) items acc))"
proof (induction items arbitrary: acc)
  case (Cons x items)
  then show ?case by (cases acc) (auto simp: import_one_def split: prod.split option.split)
qed simp

lemma importSnapshot_wf: "session_wf (importSnapshot now items g)"
  using import_fold_keys [of "([], False)" now items] by (simp add: importSnapshot_def session_wf_def keys_ok_def case_prod_beta)

lemma import_view:
  assumes "session_wf st" "session_ids st"
  shows "session_view i (importSnapshot now (map persist_session (map snd (sst_sessions st))) g) = Option.bind (session_view i st) (recovered now)"
proof -
  have "\<forall>(i, s) \<in> set (sst_sessions st). ses_ID s = i"
    using assms by (auto simp: session_ids_def session_view_def session_wf_def keys_ok_def)
  then show ?thesis
    using import_fold_view [of "sst_sessions st" now "([], False)" i] assms(1)
    by (simp add: importSnapshot_def session_view_def session_wf_def keys_ok_def case_prod_beta split: option.splits)
qed

section \<open>Saving\<close>

text \<open>The file holds the sessions of the store.\<close>

definition file_current :: "session_env \<Rightarrow> SessionSnapshotStore \<Rightarrow> bool" where
  "file_current env s \<longleftrightarrow>
     (\<exists>p v. map_of (ssn_files s) latest_json = Some p \<and> sv_decode env p = Inr v \<and> sns_Version v = snapshotVersion \<and>
        sns_Sessions v = map persist_session (map snd (sst_sessions (ssn_store s))))"

lemma session_save_written:
  assumes "snapshot_codec env" "session_save env now force s = (None, s')" "force \<or> sst_generation (ssn_store s) \<noteq> ssn_persisted s"
  shows "file_current env s' \<and> ssn_store s' = ssn_store s \<and> ssn_persisted s' = sst_generation (ssn_store s)"
proof -
  let ?v = "stamped now (ssn_store s)"
  obtain fs where w: "writeSnapshotAtomic env ?v (ssn_files s) = (None, fs)"
    and s': "s' = s\<lparr>ssn_files := fs, ssn_persisted := sst_generation (ssn_store s)\<rparr>"
    using assms(2,3) by (auto simp: session_save_def split: prod.splits option.splits if_splits)
  obtain p where "sv_encode env ?v = Inr p" "map_of fs latest_json = Some p"
    using session_file.write_success [of env ?v "ssn_files s"] w by auto
  then show ?thesis using assms(1) s' by (auto simp: file_current_def snapshot_codec_def exported_sessions)
qed

lemma session_Save_current:
  assumes "snapshot_codec env" "session_Save env now s = (None, s')"
    "sst_generation (ssn_store s) = ssn_persisted s \<Longrightarrow> file_current env s"
  shows "file_current env s' \<and> ssn_store s' = ssn_store s"
proof (cases "sst_generation (ssn_store s) = ssn_persisted s")
  case True
  then show ?thesis using assms by (auto simp: session_Save_def session_save_def)
next
  case False
  then show ?thesis using session_save_written [OF assms(1) assms(2) [unfolded session_Save_def]] by blast
qed

lemma load_current:
  assumes "NewSessionSnapshotStore env now cfg (Some st0) fs = Inr (Some s')" "file_current env s" "ssn_files s = fs"
    "session_wf (ssn_store s)" "session_ids (ssn_store s)"
  shows "session_view i (ssn_store s') = Option.bind (session_view i (ssn_store s)) (recovered now)"
proof -
  obtain p v where v: "map_of fs latest_json = Some p" "sv_decode env p = Inr v" "sns_Version v = snapshotVersion"
    "sns_Sessions v = map persist_session (map snd (sst_sessions (ssn_store s)))"
    using assms(2,3) by (auto simp: file_current_def)
  have "ssn_store s' = importSnapshot now (sns_Sessions v) (sns_Generation v)"
    using assms(1) v
    by (cases "sv_fault env SnapMkdir"; cases "sv_fault env SnapChmod"; cases "sv_fault env SnapRead")
      (auto simp: NewSessionSnapshotStore_def session_Load_def split: if_splits)
  then show ?thesis using import_view [OF assms(4,5)] v(4) by simp
qed

text \<open>C36: Sessions survive a restart. After a save that succeeded, calls on the store and the next save without an error, a
  process that starts on the files at \<open>now3\<close> has exactly the sessions of the store: those stopped within the retention as they were,
  those with a heartbeat as unknown and pending under a fresh lease, all others as stopped. In particular a save that is skipped because the
  generation is the persisted one misses no change (as long as the run makes fewer than \<open>2 ^ 64\<close> changes).\<close>

theorem restart_recovers_sessions:
  assumes "snapshot_codec env1" "snapshot_codec env2" "sv_decode env2 = sv_decode env1" "sv_decode env3 = sv_decode env1"
    and "session_wf (ssn_store s)" "session_ids (ssn_store s)"
    and "session_save env1 now1 True s = (None, s1)"
    and "length ops * (length (sst_sessions (ssn_store s)) + length ops) < 2 ^ 64"
    and "session_Save env2 now2 (s1\<lparr>ssn_store := fold session_step ops (ssn_store s1)\<rparr>) = (None, s2)"
    and "NewSessionSnapshotStore env3 now3 cfg (Some NewSessionStore) (ssn_files s2) = Inr (Some s3)"
  shows "session_view i (ssn_store s3) = Option.bind (session_view i (fold session_step ops (ssn_store s))) (recovered now3)"
proof -
  let ?s = "s1\<lparr>ssn_store := fold session_step ops (ssn_store s1)\<rparr>"
  have s1: "file_current env1 s1" "ssn_store s1 = ssn_store s" "ssn_persisted s1 = sst_generation (ssn_store s)"
    using session_save_written [OF assms(1,7)] by simp_all
  have "file_current env2 ?s" if "sst_generation (ssn_store ?s) = ssn_persisted ?s"
    using same_generation [OF assms(5,8)] that s1 assms(3) by (simp add: file_current_def)
  then have "file_current env2 s2" "ssn_store s2 = fold session_step ops (ssn_store s)"
    using session_Save_current [OF assms(2,9)] s1(2) by simp_all
  moreover have "session_wf (fold session_step ops (ssn_store s))" "session_ids (fold session_step ops (ssn_store s))"
    using recoverable.run_ok assms(5,6) by blast+
  ultimately show ?thesis using load_current [OF assms(10), of s2] assms(3,4) by (simp add: file_current_def)
qed

section \<open>Crashes and failed calls\<close>

datatype snap_event = StoreCall session_op | SnapTick session_env gotime | SnapClose session_env gotime "go_error option"

fun snap_step :: "snap_event \<Rightarrow> SessionSnapshotStore \<Rightarrow> SessionSnapshotStore" where
  "snap_step (StoreCall op) s = s\<lparr>ssn_store := session_step op (ssn_store s)\<rparr>"
| "snap_step (SnapTick env now) s = snapshot_tick env now s"
| "snap_step (SnapClose env now ctxErr) s = snd (session_Close env now ctxErr s)"

text \<open>The snapshot of \<open>st\<close> that an event writes.\<close>

fun event_snapshot :: "snap_event \<Rightarrow> SessionStore \<Rightarrow> string option" where
  "event_snapshot (StoreCall op) st = None"
| "event_snapshot (SnapTick env now) st = (case sv_encode env (stamped now st) of Inl _ \<Rightarrow> None | Inr p \<Rightarrow> Some p)"
| "event_snapshot (SnapClose env now ctxErr) st = (case sv_encode env (stamped now st) of Inl _ \<Rightarrow> None | Inr p \<Rightarrow> Some p)"

lemma session_save_file:
  "map_of (ssn_files (snd (session_save env now force s))) latest_json = map_of (ssn_files s) latest_json \<or>
   (\<exists>p. sv_encode env (stamped now (ssn_store s)) = Inr p \<and> map_of (ssn_files (snd (session_save env now force s))) latest_json = Some p)"
  using session_file.write_old_or_new [of env "stamped now (ssn_store s)" "ssn_files s"]
  by (auto simp: session_save_def split: prod.splits option.splits)

lemma snap_step_file:
  "map_of (ssn_files (snap_step e s)) latest_json = map_of (ssn_files s) latest_json \<or>
   (\<exists>p. event_snapshot e (ssn_store s) = Some p \<and> map_of (ssn_files (snap_step e s)) latest_json = Some p)"
proof (cases e)
  case (SnapTick env now)
  then show ?thesis using session_save_file [of env now False s] by (auto simp: snapshot_tick_def session_Save_def)
next
  case (SnapClose env now ctxErr)
  then show ?thesis using session_save_file [of env now True "s\<lparr>ssn_closed := True\<rparr>"]
    by (auto simp: session_Close_def Let_def split: prod.splits option.splits)
qed simp

text \<open>C37: Whatever fails, and wherever the process dies between two operations, \<open>latest.json\<close> is never partial: it is the file of
  the start, or the complete snapshot, written by a tick or by \<open>Close\<close>, of the state that the store was in at that moment.\<close>

theorem session_file_never_partial:
  "map_of (ssn_files (fold snap_step es s)) latest_json = map_of (ssn_files s) latest_json \<or>
   (\<exists>es1 e es2 p. es = es1 @ e # es2 \<and> event_snapshot e (ssn_store (fold snap_step es1 s)) = Some p \<and>
      map_of (ssn_files (fold snap_step es s)) latest_json = Some p)"
proof (induction es rule: rev_induct)
  case (snoc e es)
  have step: "fold snap_step (es @ [e]) s = snap_step e (fold snap_step es s)" by simp
  show ?case
  proof (cases "map_of (ssn_files (snap_step e (fold snap_step es s))) latest_json = map_of (ssn_files (fold snap_step es s)) latest_json")
    case True
    then show ?thesis using snoc.IH unfolding step by (metis append_Cons append_assoc)
  next
    case False
    then show ?thesis using snap_step_file [of e "fold snap_step es s"] unfolding step by blast
  qed
qed simp

section \<open>Sessions that do not come back\<close>

lemma recovered_leased:
  "recovered now s = Some s' \<Longrightarrow> ses_LastSeenAt s \<le> t \<Longrightarrow> now \<le> t \<Longrightarrow> leased_or_stopped (now + DefaultLeaseTTL) t (Some s')"
  by (auto simp: recovered_def leased_or_stopped_def split: if_splits)

lemma leased_or_stopped_none: "leased_or_stopped e t None"
  by (simp add: leased_or_stopped_def)

text \<open>A session that was saved and does not report again after a restart is forgotten, with or without heartbeats: after its
  lease and the retention it is gone.\<close>

theorem silent_session_forgotten:
  assumes "session_wf st" "session_ids st" "st' = importSnapshot now (map persist_session (map snd (sst_sessions st))) g"
    and "\<forall>s. session_view i st = Some s \<longrightarrow> ses_LastSeenAt s \<le> now" and "now + DefaultLeaseTTL \<le> t1"
    and "\<forall>op \<in> set ops1. op_session op \<noteq> Some i \<and> ticks_before t1 op" and "\<forall>op \<in> set ops2. op_session op \<noteq> Some i"
    and "t1 + DefaultStoppedRetention < t2"
  shows "session_view i (reaper_tick t2 (fold session_step ops2 (reaper_tick t1 (fold session_step ops1 st')))) = None"
proof (rule leased_session_removed [OF _ _ assms(5-8)])
  have "now \<le> t1" using assms(5) by (simp add: DefaultLeaseTTL_def Second_def)
  then show "leased_or_stopped (now + DefaultLeaseTTL) t1 (session_view i st')"
    using import_view [OF assms(1,2), of i now g] assms(3,4) recovered_leased [of now _ _ t1] leased_or_stopped_none
    by (cases "session_view i st"; cases "session_view i st'") (auto intro: order_trans)
  show "session_wf st'" using importSnapshot_wf assms(3) by simp
qed

section \<open>Quota usage\<close>

lemma rename_temp_replaces:
  "map_of fs1 latest_json = map_of fs latest_json \<Longrightarrow> replaced_or_failed fs (Inr payload) (rename_temp env payload fs1)"
  unfolding rename_temp_def by (rule first_failure_holds) (auto simp: replaced_or_failed_def update_conv' dest!: sym [of "Some _"])

lemma quota_write_replaces: "replaced_or_failed fs (sv_encode env v) (quota_write env v fs)"
proof (cases "sv_encode env v")
  case (Inl e)
  then show ?thesis by (simp add: quota_write_def failed_keeps)
next
  case (Inr payload)
  show ?thesis unfolding quota_write_def Inr Let_def sum.case
    by (rule first_failure_holds) (auto simp: update_conv' intro: failed_keeps rename_temp_replaces dest!: sym [of "Some _"] split: option.split)
qed

interpretation quota_file: snapshot_slot quota_write sv_encode
  using replaced_or_failedD [OF quota_write_replaces] by unfold_locales

text \<open>The file format written today; older files have windows whose events are bare times.\<close>

definition current_format :: "PersistedState \<Rightarrow> bool" where
  "current_format p \<longleftrightarrow> (\<forall>(n, sub) \<in> set (pst_Subjects p). \<forall>(m, w) \<in> set (ps_Windows sub). \<not> pw_legacy w)"

definition quota_codec :: "quota_env \<Rightarrow> bool" where
  "quota_codec env \<longleftrightarrow>
     (\<forall>v p. current_format (qsf_Outbound v) \<and> current_format (qsf_Client v) \<and> sv_encode env v = Inr p \<longrightarrow> sv_decode env p = Inr v)"

lemma persisted_windows_current: "(m, w) \<in> set (fold (\<lambda>w. AList.update (w_name w) (persist_window w)) ws acc) \<Longrightarrow>
    (\<forall>(m, w) \<in> set acc. \<not> pw_legacy w) \<Longrightarrow> \<not> pw_legacy w"
proof (induction ws arbitrary: acc)
  case (Cons x ws)
  have "\<forall>(m, w) \<in> set (AList.update (w_name x) (persist_window x) acc). \<not> pw_legacy w"
    using Cons.prems(2) by (induction acc) (auto simp: persist_window_def)
  then show ?case using Cons by simp
qed auto

lemma export_part_current: "current_format (fst (export_part now tracker))"
  using persisted_windows_current [where acc = "[]"]
  by (cases tracker) (fastforce simp: export_part_def no_state_def current_format_def ExportState_def Let_def persist_subject_def)+

lemma export_part_version: "default_version 3 (fst (export_part now (Some t))) = fst (ExportState now now (Some t))"
  by (simp add: export_part_def default_version_def ExportState_def Let_def)

lemma quota_Save_written:
  assumes "quota_codec env" "quota_Save env clk s = (None, s')"
  obtains p v where "map_of (qsn_files s') latest_json = Some p" "sv_decode env p = Inr v" "qsf_Version v = 3"
    "qsf_Outbound v = fst (export_part (clk 1) (qsn_outboundTracker s))" "qsf_Client v = fst (export_part (clk 2) (qsn_clientTracker s))"
proof -
  let ?v = "\<lparr>qsf_Version = 3, qsf_CapturedAt = format_RFC3339Nano (clk 0),
    qsf_Outbound = fst (export_part (clk 1) (qsn_outboundTracker s)), qsf_Client = fst (export_part (clk 2) (qsn_clientTracker s))\<rparr>"
  have w: "fst (quota_write env ?v (qsn_files s)) = None" "qsn_files s' = snd (quota_write env ?v (qsn_files s))"
    using assms(2) by (auto simp: quota_Save_def case_prod_beta)
  obtain p where p: "sv_encode env ?v = Inr p" "map_of (qsn_files s') latest_json = Some p"
    using quota_file.write_success [OF w(1)] w(2) by auto
  then have "sv_decode env p = Inr ?v" using assms(1) export_part_current by (simp add: quota_codec_def)
  then show thesis using p(2) that by auto
qed

text \<open>C38: Quota usage survives a restart: after a save without an error, a process that starts on the files with trackers of the same
  configuration has every subject of both trackers with the usage, cooldown and probe times that it had, less what expired, and
  with no probe in flight.\<close>

theorem quota_survives_restart:
  assumes "quota_codec env" "sv_decode env' = sv_decode env"
    and "qsn_outboundTracker s = Some to" "qsn_clientTracker s = Some tc" "storable_tracker to" "storable_tracker tc"
    and "quota_Save env clk s = (None, s1)"
    and "NewQuotaSnapshotStore env' rnd clk' cfg (Some (forget_tracker to)) (Some (forget_tracker tc)) (qsn_files s1) = Some (Inr (Some s2))"
  shows "quota_view n (qsn_outboundTracker s2) = map_option (restored_at (clk 1) (clk' 0)) (quota_view n (Some to)) \<and>
    quota_view n (qsn_clientTracker s2) = map_option (restored_at (clk 2) (clk' 1)) (quota_view n (Some tc))"
proof -
  obtain p v where v: "map_of (qsn_files s1) latest_json = Some p" "sv_decode env p = Inr v" "qsf_Version v = 3"
    "qsf_Outbound v = fst (export_part (clk 1) (Some to))" "qsf_Client v = fst (export_part (clk 2) (Some tc))"
    using quota_Save_written [OF assms(1,7)] unfolding assms(3,4) by metis
  have "qsn_outboundTracker s2 = ImportState (clk' 0) (default_version 3 (qsf_Outbound v)) (Some (forget_tracker to))"
    "qsn_clientTracker s2 = ImportState (clk' 1) (default_version 3 (qsf_Client v)) (Some (forget_tracker tc))"
    using assms(2,8) v(1-3)
    by (auto simp: NewQuotaSnapshotStore_def newQuotaSnapshotStore_def quota_Load_def Let_def split: if_splits option.splits)
  then show ?thesis using export_import_view assms(5,6) v(4,5) by (simp add: export_part_version)
qed

section \<open>One process per directory\<close>

text \<open>
  Processes acquire and close locks, or die, which closes their files. The handles that \<open>AcquireInstanceLock\<close> has returned hold
  their locks until then.
\<close>

inductive lock_step :: "lock_os \<Rightarrow> lock_os \<Rightarrow> bool" where
  acquire: "fd \<notin> set (map fst (lo_open k)) \<Longrightarrow> lock_step k (snd (AcquireInstanceLock env dir fd k))"
| close: "lock_step k (snd (snd (lock_Close env l k)))"
| die: "lock_step k (close_fd fd k)"

definition one_holder :: "lock_os \<Rightarrow> bool" where
  "one_holder k \<longleftrightarrow> (\<forall>fd fd' path. (fd, path) \<in> set (lo_locks k) \<and> (fd', path) \<in> set (lo_locks k) \<longrightarrow> fd = fd')"

lemma close_fd_locks: "set (lo_locks (close_fd fd k)) \<subseteq> set (lo_locks k)"
  by (auto simp: close_fd_def)

lemma one_holder_mono: "set (lo_locks k') \<subseteq> set (lo_locks k) \<Longrightarrow> one_holder k \<Longrightarrow> one_holder k'"
  unfolding one_holder_def by blast

lemma one_holder_insert:
  "one_holder k \<Longrightarrow> set (lo_locks k') = insert (fd, path) (set (lo_locks k)) \<Longrightarrow> \<forall>fd'. (fd', path) \<in> set (lo_locks k) \<longrightarrow> fd' = fd \<Longrightarrow> one_holder k'"
  unfolding one_holder_def by auto

lemma acquire_locks:
  "set (lo_locks (snd (AcquireInstanceLock env dir fd k))) \<subseteq> set (lo_locks k) \<or>
   (set (lo_locks (snd (AcquireInstanceLock env dir fd k))) = insert (fd, dir @ ''/core.lock'') (set (lo_locks k)) \<and>
    (\<forall>fd'. (fd', dir @ ''/core.lock'') \<in> set (lo_locks k) \<longrightarrow> fd' = fd))"
  by (simp add: AcquireInstanceLock_def close_fd_def Let_def list_ex_iff split: option.split) auto

lemma lock_step_one_holder: "lock_step k k' \<Longrightarrow> one_holder k \<Longrightarrow> one_holder k'"
proof (induction rule: lock_step.induct)
  case (acquire fd k env dir)
  then show ?case using acquire_locks [of env dir fd k] one_holder_mono one_holder_insert by metis
next
  case (close k env l)
  then show ?case by (auto intro: one_holder_mono [of _ k] simp: lock_Close_def close_fd_def split: option.split)
next
  case (die k fd)
  then show ?case using one_holder_mono [OF close_fd_locks] by blast
qed

lemma instance_lock_exclusive: "lock_step\<^sup>*\<^sup>* k k' \<Longrightarrow> one_holder k \<Longrightarrow> one_holder k'"
  by (induction rule: rtranclp_induct) (auto intro: lock_step_one_holder)

section \<open>Witnesses\<close>

lemma write_without_faults:
  assumes "sv_fault env = (\<lambda>_. None)" "sv_write env = (\<lambda>_. None)" "sv_encode env v = Inr p"
  shows "fst (writeSnapshotAtomic env v fs) = None"
    "map_of (snd (writeSnapshotAtomic env v fs)) latest_json = Some p" "fst (quota_write env v fs) = None"
    "map_of (snd (quota_write env v fs)) latest_json = Some p"
  using assms by (simp_all add: writeSnapshotAtomic_def publish_temp_def quota_write_def rename_temp_def Let_def update_conv')

definition busy_sessions :: SessionStore where
  "busy_sessions = session_step (SHeartbeat 2500 ''c'' ''in'' ''s1'') sample_sessions"

definition sample_snap_env :: session_env where
  "sample_snap_env = \<lparr>sv_fault = \<lambda>_. None, sv_write = \<lambda>_. None, sv_temp = ''7'',
     sv_encode = (\<lambda>v. if v = stamped 2000 sample_sessions then Inr ''1'' else if v = stamped 3000 busy_sessions then Inr ''2''
                      else Inl (PlainError ''not encoded'')),
     sv_decode = (\<lambda>p. if p = ''1'' then Inr (exported_fields (stamped 2000 sample_sessions))
                      else if p = ''2'' then Inr (exported_fields (stamped 3000 busy_sessions)) else Inl (PlainError ''bad''))\<rparr>"

definition sample_snap_store :: SessionSnapshotStore where
  "sample_snap_store = \<lparr>ssn_store = sample_sessions, ssn_dir = ''d'', ssn_persisted = 0, ssn_closed = False, ssn_closeErr = None, ssn_files = []\<rparr>"

lemma sample_snap_codec: "snapshot_codec sample_snap_env"
  by (auto simp: snapshot_codec_def sample_snap_env_def)

lemma stamped_times: "stamped 3000 a \<noteq> stamped 2000 b"
  by (simp add: stamped_def exportSnapshot_def)

lemma save_without_faults:
  assumes "sv_fault env = (\<lambda>_. None)" "sv_write env = (\<lambda>_. None)" "sv_encode env (stamped now (ssn_store s)) = Inr p"
    "force \<or> sst_generation (ssn_store s) \<noteq> ssn_persisted s"
  obtains fs where "session_save env now force s = (None, s\<lparr>ssn_files := fs, ssn_persisted := sst_generation (ssn_store s)\<rparr>)"
    "map_of fs latest_json = Some p"
  using write_without_faults(1,2) [OF assms(1-3), of "ssn_files s"] assms(4) that
  by (cases "writeSnapshotAtomic env (stamped now (ssn_store s)) (ssn_files s)") (auto simp: session_save_def)

lemma sample_snap_env_fields: "sv_fault sample_snap_env = (\<lambda>_. None)" "sv_write sample_snap_env = (\<lambda>_. None)"
  "sv_encode sample_snap_env (stamped 2000 sample_sessions) = Inr ''1''" "sv_encode sample_snap_env (stamped 3000 busy_sessions) = Inr ''2''"
  by (simp_all add: sample_snap_env_def stamped_times)

lemma busy_generation: "sst_generation sample_sessions = 1" "sst_generation busy_sessions = 2" "length (sst_sessions sample_sessions) = 1"
  by code_simp+

lemma sample_saves:
  obtains s1 s2 where "session_save sample_snap_env 2000 True sample_snap_store = (None, s1)"
    "session_Save sample_snap_env 3000 (s1\<lparr>ssn_store := fold session_step [SHeartbeat 2500 ''c'' ''in'' ''s1''] (ssn_store s1)\<rparr>) = (None, s2)"
    "map_of (ssn_files s2) latest_json = Some ''2''"
proof -
  obtain fs where s1: "session_save sample_snap_env 2000 True sample_snap_store =
      (None, sample_snap_store\<lparr>ssn_files := fs, ssn_persisted := sst_generation (ssn_store sample_snap_store)\<rparr>)"
    using save_without_faults [OF sample_snap_env_fields(1,2), of 2000 sample_snap_store "''1''" True] sample_snap_env_fields(3)
    by (auto simp: sample_snap_store_def)
  let ?s = "sample_snap_store\<lparr>ssn_files := fs, ssn_persisted := sst_generation (ssn_store sample_snap_store), ssn_store := busy_sessions\<rparr>"
  obtain fs2 where "session_save sample_snap_env 3000 False ?s = (None, ?s\<lparr>ssn_files := fs2, ssn_persisted := sst_generation (ssn_store ?s)\<rparr>)"
    "map_of fs2 latest_json = Some ''2''"
    by (rule save_without_faults [OF sample_snap_env_fields(1,2), of 3000 ?s "''2''" False])
      (simp_all add: sample_snap_env_fields(4) busy_generation sample_snap_store_def)
  then show thesis using that [OF s1] by (simp add: session_Save_def sample_snap_store_def busy_sessions_def)
qed

lemma sample_session_ids: "session_ids sample_sessions"
  using session_step_keeps_ids [of NewSessionStore "SRegister 1000 sample_session"]
  by (simp add: sample_sessions_def session_wf_def session_ids_def session_view_def NewSessionStore_def)

theorem restart_recovers_sessions_witness:
  "\<exists>fs s3. NewSessionSnapshotStore sample_snap_env 4000 \<lparr>snc_Enabled = True, snc_Dir = ''d'', snc_FlushInterval = 5\<rparr> (Some NewSessionStore) fs =
     Inr (Some s3) \<and> map_option (\<lambda>s. (ses_Status s, ses_RecoveryPending s)) (session_view ''s1'' (ssn_store s3)) = Some (StatusUnknown, True)"
proof -
  let ?op = "SHeartbeat 2500 ''c'' ''in'' ''s1''"
  let ?cfg = "\<lparr>snc_Enabled = True, snc_Dir = ''d'', snc_FlushInterval = 5\<rparr>"
  obtain s1 s2 where s1: "session_save sample_snap_env 2000 True sample_snap_store = (None, s1)"
    and s2: "session_Save sample_snap_env 3000 (s1\<lparr>ssn_store := fold session_step [?op] (ssn_store s1)\<rparr>) = (None, s2)"
    and two: "map_of (ssn_files s2) latest_json = Some ''2''" by (rule sample_saves)
  obtain s3 where s3: "NewSessionSnapshotStore sample_snap_env 4000 ?cfg (Some NewSessionStore) (ssn_files s2) = Inr (Some s3)"
    using two by (simp add: NewSessionSnapshotStore_def session_Load_def exported_sessions sample_snap_env_def)
  obtain s where s: "session_view ''s1'' (session_step ?op sample_sessions) = Some s" "ses_Status s \<noteq> StatusStopped"
    "ses_HeartbeatCapability s = HeartbeatCapabilityV1"
    by (simp add: Heartbeat_def GetOwned_view sample_sessions_view owned_by_def register_lease_def register_defaults_def sample_session_def Let_def)
  have "session_view ''s1'' (ssn_store s3) = recovered 4000 s"
    using restart_recovers_sessions [OF sample_snap_codec sample_snap_codec refl refl _ _ s1 _ s2 s3, of "''s1''"] s(1)
      sample_sessions_wf sample_session_ids by (simp add: sample_snap_store_def busy_generation)
  then have "map_option (\<lambda>s. (ses_Status s, ses_RecoveryPending s)) (session_view ''s1'' (ssn_store s3)) = Some (StatusUnknown, True)"
    using s by (simp add: recovered_def)
  then show ?thesis using s3 by blast
qed

theorem silent_session_forgotten_witness:
  "session_view ''s1'' (reaper_tick 8000000000000 (reaper_tick 60000000000
     (importSnapshot 4000 (map persist_session (map snd (sst_sessions sample_sessions))) 1))) = None"
  using silent_session_forgotten [OF sample_sessions_wf sample_session_ids refl, of "''s1''" 4000 60000000000 "[]" "[]" 8000000000000 1]
  by (simp add: sample_sessions_view register_lease_def register_defaults_def sample_session_def DefaultLeaseTTL_def DefaultStoppedRetention_def
      duration_defs IsZero_def)

definition sample_quota_tracker :: Tracker where
  "sample_quota_tracker = \<lparr>t_client = True, t_subjects = [(''c'', (clientSubject (\<lambda>_. None) sample_client)
     \<lparr>s_windows := [sample_window 2 0 [sample_event 10 1, sample_event 70 1]], s_lastSuccessAt := 70\<rparr>)]\<rparr>"

definition sample_quota_store :: QuotaSnapshotStore where
  "sample_quota_store = \<lparr>qsn_outboundTracker = Some sample_quota_tracker, qsn_clientTracker = Some sample_quota_tracker, qsn_dir = ''q'',
     qsn_flushInterval = 100, qsn_closed = False, qsn_files = []\<rparr>"

definition sample_quota_file :: snapshotFile where
  "sample_quota_file = \<lparr>qsf_Version = 3, qsf_CapturedAt = format_RFC3339Nano 120, qsf_Outbound = fst (export_part 120 (Some sample_quota_tracker)),
     qsf_Client = fst (export_part 120 (Some sample_quota_tracker))\<rparr>"

definition sample_quota_env :: quota_env where
  "sample_quota_env = \<lparr>sv_fault = \<lambda>_. None, sv_write = \<lambda>_. None, sv_temp = [],
     sv_encode = (\<lambda>v. if v = sample_quota_file then Inr ''q'' else Inl (PlainError ''not encoded'')), sv_decode = (\<lambda>p. Inr sample_quota_file)\<rparr>"

theorem quota_survives_restart_witness:
  "\<exists>fs s2. NewQuotaSnapshotStore sample_quota_env id (\<lambda>_. 120) \<lparr>gov_SnapshotEnabled = True, gov_SnapshotDir = ''q'', gov_SnapshotFlushInterval = ''100ns'',
       gov_EventsEnabled = False, gov_EventsMaxEntries = 0\<rparr> (Some (forget_tracker sample_quota_tracker)) (Some (forget_tracker sample_quota_tracker)) fs =
     Some (Inr (Some s2)) \<and>
     map_option (\<lambda>s. map (\<lambda>w. map ev_At (w_events w)) (s_windows s)) (quota_view ''c'' (qsn_clientTracker s2)) = Some [[70]]"
proof -
  let ?cfg = "\<lparr>gov_SnapshotEnabled = True, gov_SnapshotDir = ''q'', gov_SnapshotFlushInterval = ''100ns'', gov_EventsEnabled = False, gov_EventsMaxEntries = 0\<rparr>"
  let ?t = "Some (forget_tracker sample_quota_tracker)"
  have d: "DurationValue_Duration id ''100ns'' = 100" by code_simp
  have codec: "quota_codec sample_quota_env" by (auto simp: quota_codec_def sample_quota_env_def)
  have storable: "storable_tracker sample_quota_tracker" by code_simp
  have "fst (quota_Save sample_quota_env (\<lambda>_. 120) sample_quota_store) = None"
    using write_without_faults(3) [of sample_quota_env sample_quota_file "''q''" "[]"]
    by (simp add: quota_Save_def sample_quota_store_def sample_quota_file_def sample_quota_env_def case_prod_beta)
  then obtain s1 where s1: "quota_Save sample_quota_env (\<lambda>_. 120) sample_quota_store = (None, s1)" by (metis prod.collapse)
  obtain s2 where s2: "NewQuotaSnapshotStore sample_quota_env id (\<lambda>_. 120) ?cfg ?t ?t (qsn_files s1) = Some (Inr (Some s2))"
    by (cases "map_of (qsn_files s1) latest_json")
      (simp_all add: NewQuotaSnapshotStore_def newQuotaSnapshotStore_def quota_Load_def sample_quota_env_def d Let_def)
  have "quota_view ''c'' (qsn_clientTracker s2) = map_option (restored_at 120 120) (quota_view ''c'' (Some sample_quota_tracker))"
    using quota_survives_restart [OF codec refl _ _ storable storable s1 s2, of "''c''"] by (simp add: sample_quota_store_def)
  moreover have "map_option (\<lambda>s. map (\<lambda>w. map ev_At (w_events w)) (s_windows s))
      (map_option (restored_at 120 120) (quota_view ''c'' (Some sample_quota_tracker))) = Some [[70]]" by code_simp
  ultimately show ?thesis using s2 by metis
qed

end
