(* ===== verification/Log_Rotate.thy ===== *)
theory Log_Rotate
  imports Go_Parse Snapshot_Files "HOL-Library.Product_Lexorder"
begin

text \<open>
  The rotated log file (package \<open>internal/logging\<close>, \<open>rotate.go\<close>): writing with rotation by size and date, the names of archives,
  their discovery, compression and retention.

  The directory of the log is a table of entries by name, in the order of the names. The calls of the operating system and the
  compressor are a \<open>log_env\<close>; the archive worker is \<open>processArchives\<close>, run whenever the worker wakes up.
\<close>

section \<open>State\<close>

record log_entry =
  le_Data :: string
  le_ModTime :: gotime
  le_Regular :: bool
  le_Symlink :: bool

type_synonym log_dir = "(string \<times> log_entry) list"

datatype log_op =
    LogClose | LogRename | LogOpen | LogStat | LogLstat string | LogReadDir | LogRemove string | LogInfo string
  | GzOpen | GzSourceClose | GzTemp | GzCopy | GzFinish | GzClose | GzPublish

text \<open>\<open>lw_write\<close> is how much of the text a failing write has written; \<open>lw_temp\<close> the part of a temporary name the system chooses.\<close>

record log_env =
  lw_fault :: "log_op \<Rightarrow> go_error option"
  lw_write :: "string \<Rightarrow> (nat \<times> go_error) option"
  lw_gzip :: "string \<Rightarrow> string"
  lw_temp :: string
  lw_local :: location

record LogOptions =
  lg_Path :: string
  lg_Dir :: string
  lg_Base :: string
  lg_MaxSizeBytes :: int
  lg_MaxFiles :: int
  lg_MaxAge :: duration
  lg_MaxTotalSize :: int
  lg_Compress :: bool

text \<open>The file of a writer: open, nil after a failed reopening, or closed by a failed rotation or by \<open>Close\<close>.\<close>

datatype log_handle = LogOpened | LogNil | LogShut

record RotatingWriter =
  rw_opts :: LogOptions
  rw_file :: log_handle
  rw_size :: int
  rw_openDate :: string
  rw_sequence :: nat
  rw_closed :: bool

record Archive =
  ar_Name :: string
  ar_Compressed :: bool
  ar_ModTime :: gotime
  ar_Size :: int
  ar_stamp :: gotime
  ar_nanos :: int
  ar_sequence :: int

abbreviation ErrFileClosed where "ErrFileClosed \<equiv> PlainError ''file already closed''"
abbreviation ErrFileInvalid where "ErrFileInvalid \<equiv> PlainError ''invalid argument''"

definition entry_data :: "string \<Rightarrow> log_dir \<Rightarrow> string" where
  "entry_data name d = (case map_of d name of None \<Rightarrow> [] | Some e \<Rightarrow> le_Data e)"

definition regular_file :: "string \<Rightarrow> gotime \<Rightarrow> log_entry" where
  "regular_file content t = \<lparr>le_Data = content, le_ModTime = t, le_Regular = True, le_Symlink = False\<rparr>"

section \<open>Names\<close>

definition localDate :: "location \<Rightarrow> gotime \<Rightarrow> string" where
  "localDate loc t = (case local_date loc t of (y, m, d) \<Rightarrow> show_fixed 4 y @ ''-'' @ show_fixed 2 m @ ''-'' @ show_fixed 2 d)"

definition log_stamp :: "location \<Rightarrow> gotime \<Rightarrow> string" where
  "log_stamp loc t =
     (case local_date loc t of (y, m, d) \<Rightarrow> case local_clock loc t of (h, mi, s) \<Rightarrow>
        show_fixed 4 y @ show_fixed 2 m @ show_fixed 2 d @ ''-'' @ show_fixed 2 h @ show_fixed 2 mi @ show_fixed 2 s)"

text \<open>\<open>filepath.Ext\<close>: the part of the name from its last dot on.\<close>

definition file_ext :: "string \<Rightarrow> string" where
  "file_ext name =
     (if CHR ''.'' \<in> set name then CHR ''.'' # rev (takeWhile (\<lambda>c. c \<noteq> CHR ''.'') (rev name)) else [])"

definition archive_prefix :: "LogOptions \<Rightarrow> string" where
  "archive_prefix opts = take (length (lg_Base opts) - length (file_ext (lg_Base opts))) (lg_Base opts)"

definition archive_name :: "string \<Rightarrow> string \<Rightarrow> string \<Rightarrow> nat \<Rightarrow> string" where
  "archive_name pre stamp nanos n = pre @ ''.'' @ stamp @ ''.'' @ nanos @ ''.'' @ show_uint (int n) @ ''.log''"

text \<open>The loop looks at one more name than the directory has entries, so it always finds a free one.\<close>

fun archive_search :: "log_env \<Rightarrow> (nat \<Rightarrow> string) \<Rightarrow> nat \<Rightarrow> nat \<Rightarrow> log_dir \<Rightarrow> (go_error + string) \<times> nat" where
  "archive_search env name 0 n d = (Inl (PlainError ''no free name''), n)"
| "archive_search env name (Suc tries) n d =
     (let path = name (Suc n)
      in case lw_fault env (LogLstat path) of
           Some e \<Rightarrow> (Inl (wrap_error ''logging: inspect archive path'' e), Suc n)
         | None \<Rightarrow> if map_of d path = None then (Inr path, Suc n) else archive_search env name tries (Suc n) d)"

definition nextArchiveName :: "log_env \<Rightarrow> gotime \<Rightarrow> RotatingWriter \<Rightarrow> log_dir \<Rightarrow> (go_error + string) \<times> RotatingWriter" where
  "nextArchiveName env now w d =
     (case archive_search env (archive_name (archive_prefix (rw_opts w)) (log_stamp (lw_local env) now) (show_fixed 9 (nsec_of now)))
             (Suc (length d)) (rw_sequence w) d of
        (r, n) \<Rightarrow> (r, w\<lparr>rw_sequence := n\<rparr>))"

section \<open>Writing\<close>

definition open_current :: "LogOptions \<Rightarrow> gotime \<Rightarrow> log_dir \<Rightarrow> log_dir" where
  "open_current opts now d = (if map_of d (lg_Base opts) = None then AList.update (lg_Base opts) (regular_file [] now) d else d)"

definition reopenCurrent :: "log_env \<Rightarrow> gotime \<Rightarrow> RotatingWriter \<Rightarrow> log_dir \<Rightarrow> go_error option \<times> RotatingWriter \<times> log_dir" where
  "reopenCurrent env now w d =
     (case lw_fault env LogOpen of
        Some e \<Rightarrow> (Some (wrap_error ''logging: reopen current file'' e), w\<lparr>rw_file := LogNil\<rparr>, d)
      | None \<Rightarrow>
          (let d1 = open_current (rw_opts w) now d
           in case lw_fault env LogStat of
                Some e \<Rightarrow> (Some (wrap_error ''logging: stat reopened file'' e), w\<lparr>rw_file := LogNil\<rparr>, d1)
              | None \<Rightarrow>
                  (None, w\<lparr>rw_file := LogOpened, rw_size := int (length (entry_data (lg_Base (rw_opts w)) d1)),
                           rw_openDate := localDate (lw_local env) now\<rparr>, d1)))"

text \<open>\<open>errors.Join\<close> of two errors, the second of which may be nil.\<close>

definition join_errors :: "go_error \<Rightarrow> go_error option \<Rightarrow> go_error" where
  "join_errors e f = (case f of None \<Rightarrow> e | Some g \<Rightarrow> WrapError (Error e @ [CHR 0x0A] @ Error g) (Some e))"

definition rotate :: "log_env \<Rightarrow> gotime \<Rightarrow> RotatingWriter \<Rightarrow> log_dir \<Rightarrow> (go_error + string) \<times> RotatingWriter \<times> log_dir" where
  "rotate env now w d =
     (case (case rw_file w of LogNil \<Rightarrow> Some ErrFileInvalid | LogShut \<Rightarrow> Some ErrFileClosed | LogOpened \<Rightarrow> lw_fault env LogClose) of
        Some e \<Rightarrow>
          (Inl (wrap_error ''logging: close for rotation'' e), w\<lparr>rw_file := (if rw_file w = LogNil then LogNil else LogShut)\<rparr>, d)
      | None \<Rightarrow>
          (case nextArchiveName env now w d of
             (Inl e, w1) \<Rightarrow> (case reopenCurrent env now w1 d of (f, w2, d2) \<Rightarrow> (Inl (join_errors e f), w2, d2))
           | (Inr archive, w1) \<Rightarrow>
               (case (if map_of d (lg_Base (rw_opts w)) = None then Some (PlainError ''no such file or directory'') else lw_fault env LogRename) of
                  Some e \<Rightarrow>
                    (case reopenCurrent env now w1 d of
                       (f, w2, d2) \<Rightarrow> (Inl (join_errors (wrap_error ''logging: archive current file'' e) f), w2, d2))
                | None \<Rightarrow>
                    (let d1 = AList.update archive (the (map_of d (lg_Base (rw_opts w)))) (AList.delete (lg_Base (rw_opts w)) d)
                     in case reopenCurrent env now w1 d1 of
                          (Some e, w2, d2) \<Rightarrow> (Inl e, w2, d2)
                        | (None, w2, d2) \<Rightarrow> (Inr archive, w2, d2)))))"

definition append_text :: "string \<Rightarrow> string \<Rightarrow> gotime \<Rightarrow> log_dir \<Rightarrow> log_dir" where
  "append_text name p now d =
     (case map_of d name of
        None \<Rightarrow> d
      | Some e \<Rightarrow> AList.update name (e\<lparr>le_Data := le_Data e @ p, le_ModTime := now\<rparr>) d)"

definition write_current :: "log_env \<Rightarrow> gotime \<Rightarrow> string \<Rightarrow> RotatingWriter \<Rightarrow> log_dir \<Rightarrow> (int \<times> go_error option) \<times> RotatingWriter \<times> log_dir" where
  "write_current env now p w d =
     (case rw_file w of
        LogNil \<Rightarrow> ((0, Some ErrFileInvalid), w, d)
      | LogShut \<Rightarrow> ((0, Some ErrFileClosed), w, d)
      | LogOpened \<Rightarrow>
          (case lw_write env p of
             Some (k, e) \<Rightarrow>
               ((int (length (take k p)), Some e), w\<lparr>rw_size := rw_size w + int (length (take k p))\<rparr>, append_text (lg_Base (rw_opts w)) (take k p) now d)
           | None \<Rightarrow>
               ((int (length p), None), w\<lparr>rw_size := rw_size w + int (length p)\<rparr>, append_text (lg_Base (rw_opts w)) p now d)))"

definition needs_rotation :: "log_env \<Rightarrow> gotime \<Rightarrow> string \<Rightarrow> RotatingWriter \<Rightarrow> bool" where
  "needs_rotation env now p w \<longleftrightarrow>
     (0 < rw_size w \<and> rw_size w + int (length p) > lg_MaxSizeBytes (rw_opts w)) \<or> localDate (lw_local env) now \<noteq> rw_openDate w"

definition rotating_Write :: "log_env \<Rightarrow> gotime \<Rightarrow> string \<Rightarrow> RotatingWriter \<Rightarrow> log_dir \<Rightarrow> (int \<times> go_error option) \<times> RotatingWriter \<times> log_dir" where
  "rotating_Write env now p w d =
     (if rw_closed w then ((0, Some ErrFileClosed), w, d)
      else if needs_rotation env now p w then
        (case rotate env now w d of
           (Inl e, w1, d1) \<Rightarrow> ((0, Some e), w1, d1)
         | (Inr _, w1, d1) \<Rightarrow> write_current env now p w1 d1)
      else write_current env now p w d)"

definition rotating_Close :: "log_env \<Rightarrow> RotatingWriter \<Rightarrow> go_error option \<times> RotatingWriter" where
  "rotating_Close env w =
     (if rw_closed w then (None, w)
      else (case rw_file w of LogNil \<Rightarrow> None | LogShut \<Rightarrow> Some ErrFileClosed | LogOpened \<Rightarrow> lw_fault env LogClose,
            w\<lparr>rw_closed := True, rw_file := (if rw_file w = LogNil then LogNil else LogShut)\<rparr>))"

definition NewRotatingWriter :: "log_env \<Rightarrow> (go_error option) \<Rightarrow> gotime \<Rightarrow> LogOptions \<Rightarrow> log_dir \<Rightarrow> (go_error + RotatingWriter) \<times> log_dir" where
  "NewRotatingWriter env mkdirErr now opts d =
     (if lg_Path opts = [] then (Inl (PlainError ''logging: path is required''), d)
      else if lg_MaxSizeBytes opts \<le> 0 then (Inl (PlainError ''logging: max size must be greater than zero''), d)
      else case mkdirErr of
        Some e \<Rightarrow> (Inl (wrap_error ''logging: create directory'' e), d)
      | None \<Rightarrow>
      case lw_fault env LogOpen of
        Some e \<Rightarrow> (Inl (wrap_error ''logging: open current file'' e), d)
      | None \<Rightarrow>
          (let d1 = open_current opts now d
           in case lw_fault env LogStat of
                Some e \<Rightarrow> (Inl (wrap_error ''logging: stat current file'' e), d1)
              | None \<Rightarrow>
                  (Inr \<lparr>rw_opts = opts, rw_file = LogOpened, rw_size = int (length (entry_data (lg_Base opts) d1)),
                        rw_openDate = localDate (lw_local env) now, rw_sequence = 0, rw_closed = False\<rparr>, d1)))"

section \<open>Discovery\<close>

text \<open>The pattern of archive names, after the prefix: the stamp, nine digits, a sequence number, \<open>.log\<close> and perhaps \<open>.gz\<close>.\<close>

definition take_digits :: "nat \<Rightarrow> string \<Rightarrow> (string \<times> string) option" where
  "take_digits n s = (if n \<le> length s \<and> list_all is_digit (take n s) then Some (take n s, drop n s) else None)"

definition take_text :: "string \<Rightarrow> string \<Rightarrow> string option" where
  "take_text t s = (if HasPrefix s t then Some (drop (length t) s) else None)"

definition match_archive :: "string \<Rightarrow> string \<Rightarrow> (string \<times> string \<times> string \<times> bool) option" where
  "match_archive pre name = do {
     r0 \<leftarrow> take_text (pre @ ''.'') name;
     (date, r1) \<leftarrow> take_digits 8 r0;
     r2 \<leftarrow> take_text ''-'' r1;
     (clk, r3) \<leftarrow> take_digits 6 r2;
     r4 \<leftarrow> take_text ''.'' r3;
     (nanos, r5) \<leftarrow> take_digits 9 r4;
     r6 \<leftarrow> take_text ''.'' r5;
     let ds = takeWhile is_digit r6;
     r7 \<leftarrow> take_text ''.log'' (dropWhile is_digit r6);
     guard_opt (ds \<noteq> [] \<and> (r7 = [] \<or> r7 = ''.gz''));
     Some (date @ ''-'' @ clk, nanos, ds, r7 = ''.gz'')
   }"

text \<open>\<open>time.ParseInLocation\<close> with the layout of the stamp.\<close>

definition parse_stamp :: "location \<Rightarrow> string \<Rightarrow> gotime option" where
  "parse_stamp loc s = do {
     (y, r1) \<leftarrow> take_digits 4 s;
     (m, r2) \<leftarrow> take_digits 2 r1;
     (d, r3) \<leftarrow> take_digits 2 r2;
     r4 \<leftarrow> take_text ''-'' r3;
     (h, r5) \<leftarrow> take_digits 2 r4;
     (mi, r6) \<leftarrow> take_digits 2 r5;
     (sec, r7) \<leftarrow> take_digits 2 r6;
     guard_opt (r7 = [] \<and> 1 \<le> digits_value m \<and> digits_value m \<le> 12 \<and> 1 \<le> digits_value d
       \<and> digits_value d \<le> daysIn (digits_value m) (digits_value y) \<and> digits_value h < 24 \<and> digits_value mi < 60 \<and> digits_value sec < 60);
     Some (time_Date (digits_value y) (digits_value m) (digits_value d) (digits_value h) (digits_value mi) (digits_value sec) 0 loc)
   }"

definition archive_of :: "log_env \<Rightarrow> LogOptions \<Rightarrow> string \<times> log_entry \<Rightarrow> Archive option" where
  "archive_of env opts = (\<lambda>(name, e). do {
     (stamp, nanos, sequence, compressed) \<leftarrow> match_archive (archive_prefix opts) name;
     guard_opt (\<not> le_Symlink e);
     t \<leftarrow> parse_stamp (lw_local env) stamp;
     n \<leftarrow> ParseUint nanos;
     guard_opt (n < 1000000000);
     k \<leftarrow> ParseUint sequence;
     guard_opt (k \<noteq> 0 \<and> lw_fault env (LogInfo name) = None \<and> le_Regular e);
     Some \<lparr>ar_Name = name, ar_Compressed = HasSuffix name ''.gz'', ar_ModTime = le_ModTime e, ar_Size = int (length (le_Data e)),
          ar_stamp = t, ar_nanos = n, ar_sequence = k\<rparr>
   })"

text \<open>The order of \<open>sort.Slice\<close>, newest first; archives that agree in everything keep the order of the directory.\<close>

definition archive_rank :: "Archive \<Rightarrow> int \<times> int \<times> int \<times> bool" where
  "archive_rank a = (- ar_stamp a, - ar_nanos a, - ar_sequence a, \<not> ar_Compressed a)"

definition DiscoverArchives :: "log_env \<Rightarrow> LogOptions \<Rightarrow> log_dir \<Rightarrow> go_error + Archive list" where
  "DiscoverArchives env opts d =
     (case lw_fault env LogReadDir of
        Some e \<Rightarrow> Inl (wrap_error ''logging: read archive directory'' e)
      | None \<Rightarrow> Inr (sort_key archive_rank (List.map_filter (archive_of env opts) (sort_key fst d))))"

section \<open>Compression\<close>

definition remove_entry :: "log_env \<Rightarrow> string \<Rightarrow> log_dir \<Rightarrow> log_dir" where
  "remove_entry env name d = (if lw_fault env (LogRemove name) = None then AList.delete name d else d)"

definition gz_temp :: "log_env \<Rightarrow> string" where
  "gz_temp env = ''.log-gzip-'' @ lw_temp env @ ''.tmp''"

text \<open>From the temporary file with the compressed text on.\<close>

definition gz_publish :: "log_env \<Rightarrow> string \<Rightarrow> string \<Rightarrow> gotime \<Rightarrow> log_dir \<Rightarrow> go_error option \<times> log_dir" where
  "gz_publish env name content now d =
     (let left = (\<lambda>context e. (Some (wrap_error context e), remove_entry env (gz_temp env) d));
          d2 = AList.update (name @ ''.gz'') (regular_file content now) (AList.delete (gz_temp env) d)
      in first_failure
           [(lw_fault env GzFinish, left ''finish archive gzip''),
            (lw_fault env GzClose, left ''close archive gzip''),
            (lw_fault env GzPublish, left ''publish archive gzip''),
            (lw_fault env (LogRemove name),
              \<lambda>e. (Some (wrap_error ''remove uncompressed archive'' e), remove_entry env (name @ ''.gz'') d2))]
           (None, AList.delete name d2))"

definition gz_compress :: "log_env \<Rightarrow> string \<Rightarrow> gotime \<Rightarrow> log_dir \<Rightarrow> go_error option \<times> log_dir" where
  "gz_compress env name now d =
     (let temp = (\<lambda>content. AList.update (gz_temp env) (regular_file content now) d)
      in first_failure
           [(lw_fault env GzTemp, \<lambda>e. (Some (wrap_error ''create gzip temporary file'' e), d)),
            (lw_fault env GzCopy, \<lambda>e. (Some (wrap_error ''compress archive'' e), remove_entry env (gz_temp env) (temp [])))]
           (let content = lw_gzip env (entry_data name d) in gz_publish env name content now (temp content)))"

definition gzipArchive :: "log_env \<Rightarrow> string \<Rightarrow> gotime \<Rightarrow> log_dir \<Rightarrow> go_error option \<times> log_dir" where
  "gzipArchive env name now d =
     (case lw_fault env GzOpen of
        Some e \<Rightarrow> (Some (wrap_error ''open archive for gzip'' e), d)
      | None \<Rightarrow>
          (case gz_compress env name now d of
             (None, d1) \<Rightarrow> (lw_fault env GzSourceClose, d1)
           | (Some e, d1) \<Rightarrow> (Some (join_errors e (lw_fault env GzSourceClose)), d1)))"

section \<open>Retention\<close>

definition remove_archives :: "log_env \<Rightarrow> Archive list \<Rightarrow> log_dir \<Rightarrow> go_error list \<times> log_dir" where
  "remove_archives env xs d =
     (List.map_filter (\<lambda>a. lw_fault env (LogRemove (ar_Name a))) xs, fold (\<lambda>a. remove_entry env (ar_Name a)) xs d)"

text \<open>The loop over the kept archives from the oldest on.\<close>

fun trim_total :: "log_env \<Rightarrow> int \<Rightarrow> int \<Rightarrow> Archive list \<Rightarrow> log_dir \<Rightarrow> go_error list \<times> log_dir" where
  "trim_total env limit used [] d = ([], d)"
| "trim_total env limit used (a # xs) d =
     (if used > limit then
        (case lw_fault env (LogRemove (ar_Name a)) of
           Some e \<Rightarrow> (case trim_total env limit used xs d of (es, d') \<Rightarrow> (e # es, d'))
         | None \<Rightarrow> trim_total env limit (used - ar_Size a) xs (AList.delete (ar_Name a) d))
      else ([], d))"

definition too_old :: "LogOptions \<Rightarrow> gotime \<Rightarrow> Archive \<Rightarrow> bool" where
  "too_old opts now a \<longleftrightarrow> 0 < lg_MaxAge opts \<and> time_Sub now (ar_ModTime a) > lg_MaxAge opts"

definition current_size :: "log_env \<Rightarrow> LogOptions \<Rightarrow> log_dir \<Rightarrow> go_error list \<times> int" where
  "current_size env opts d =
     (case lw_fault env (LogInfo (lg_Base opts)) of
        Some e \<Rightarrow> ([e], 0)
      | None \<Rightarrow> ([], case map_of d (lg_Base opts) of None \<Rightarrow> 0 | Some x \<Rightarrow> if le_Regular x then int (length (le_Data x)) else 0))"

definition keep_count :: "LogOptions \<Rightarrow> Archive list \<Rightarrow> nat" where
  "keep_count opts xs = (if 0 < lg_MaxFiles opts \<and> int (length xs) > lg_MaxFiles opts then nat (lg_MaxFiles opts) else length xs)"

definition log_cleanup :: "log_env \<Rightarrow> gotime \<Rightarrow> LogOptions \<Rightarrow> log_dir \<Rightarrow> go_error list \<times> log_dir" where
  "log_cleanup env now opts d =
     (case DiscoverArchives env opts d of
        Inl e \<Rightarrow> ([e], d)
      | Inr archives \<Rightarrow>
          (let fresh = filter (\<lambda>a. \<not> too_old opts now a) archives;
               kept = take (keep_count opts fresh) fresh;
               (e1, d1) = remove_archives env (filter (too_old opts now) archives) d;
               (e2, d2) = remove_archives env (drop (keep_count opts fresh) fresh) d1
           in if 0 < lg_MaxTotalSize opts then
                (case current_size env opts d2 of (e3, current) \<Rightarrow>
                   case trim_total env (lg_MaxTotalSize opts) (current + sum_list (map ar_Size kept)) (rev kept) d2 of
                     (e4, d3) \<Rightarrow> (e1 @ e2 @ e3 @ e4, d3))
              else (e1 @ e2, d2)))"

definition compress_all :: "log_env \<Rightarrow> gotime \<Rightarrow> Archive list \<Rightarrow> log_dir \<Rightarrow> go_error list \<times> log_dir" where
  "compress_all env now xs d =
     fold (\<lambda>a (es, d). if ar_Compressed a then (es, d)
             else case gzipArchive env (ar_Name a) now d of (None, d') \<Rightarrow> (es, d') | (Some e, d') \<Rightarrow> (es @ [e], d')) xs ([], d)"

text \<open>The errors are those handed to \<open>reportError\<close>.\<close>

definition processArchives :: "log_env \<Rightarrow> gotime \<Rightarrow> LogOptions \<Rightarrow> log_dir \<Rightarrow> go_error list \<times> log_dir" where
  "processArchives env now opts d =
     (case (if lg_Compress opts
            then (case DiscoverArchives env opts d of Inl e \<Rightarrow> ([e], d) | Inr archives \<Rightarrow> compress_all env now archives d)
            else ([], d)) of
        (e1, d1) \<Rightarrow> (case log_cleanup env now opts d1 of (e2, d2) \<Rightarrow> (e1 @ e2, d2)))"

end
