(* ===== verification/Recent_Log.thy ===== *)
theory Recent_Log
  imports Go_Time
begin

text \<open>
  The buffer of recent log lines (package \<open>internal/logging\<close>, \<open>recent.go\<close>): chunks of bytes go in, complete lines are kept within an age
  and a number of bytes. The clock reading of an operation is its argument \<open>now\<close>.
\<close>

section \<open>The buffer\<close>

record recentLine =
  rl_at :: gotime
  rl_content :: string
  rl_size :: int

record RecentBuffer =
  rb_maxAge :: duration
  rb_maxBytes :: int
  rb_startedAt :: gotime
  rb_coverageFrom :: gotime
  rb_lines :: "recentLine list"
  rb_bytes :: int
  rb_partial :: string
  rb_dropping :: bool

record RecentSnapshot =
  rs_Lines :: "(gotime \<times> string) list"
  rs_LineCount :: int
  rs_Bytes :: int
  rs_StartedAt :: gotime

definition NewRecentBuffer :: "gotime \<Rightarrow> duration \<Rightarrow> int \<Rightarrow> RecentBuffer" where
  "NewRecentBuffer startedAt maxAge maxBytes =
     \<lparr>rb_maxAge = maxAge, rb_maxBytes = maxBytes, rb_startedAt = startedAt, rb_coverageFrom = startedAt, rb_lines = [], rb_bytes = 0,
      rb_partial = [], rb_dropping = False\<rparr>"

definition advanceCoverageLocked :: "gotime \<Rightarrow> RecentBuffer \<Rightarrow> RecentBuffer" where
  "advanceCoverageLocked val b = (if val > rb_coverageFrom b then b\<lparr>rb_coverageFrom := val\<rparr> else b)"

text \<open>The loop of \<open>evictLocked\<close> over the lines: what is left of the buffer.\<close>

fun evict_lines :: "gotime \<Rightarrow> recentLine list \<Rightarrow> RecentBuffer \<Rightarrow> RecentBuffer" where
  "evict_lines now [] b = b\<lparr>rb_lines := []\<rparr>"
| "evict_lines now (l # ls) b =
     (if rb_maxAge b > 0 \<and> rl_at l < now - rb_maxAge b \<or> rb_maxBytes b \<le> 0 \<or> rb_bytes b > rb_maxBytes b
      then evict_lines now ls (advanceCoverageLocked (rl_at l + 1) (b\<lparr>rb_bytes := rb_bytes b - rl_size l\<rparr>))
      else b\<lparr>rb_lines := l # ls\<rparr>)"

definition evictLocked :: "gotime \<Rightarrow> RecentBuffer \<Rightarrow> RecentBuffer" where
  "evictLocked now b = evict_lines now (rb_lines b) b"

definition appendPartialLocked :: "string \<Rightarrow> gotime \<Rightarrow> RecentBuffer \<Rightarrow> RecentBuffer" where
  "appendPartialLocked p now b =
     (if p = [] then b
      else if rb_maxBytes b \<le> 0 \<or> int (length (rb_partial b)) + int (length p) + 1 > rb_maxBytes b
      then advanceCoverageLocked (now + 1) (b\<lparr>rb_partial := [], rb_dropping := True\<rparr>)
      else b\<lparr>rb_partial := rb_partial b @ p\<rparr>)"

text \<open>A newline ends the partial line.\<close>

definition finish_line :: "gotime \<Rightarrow> RecentBuffer \<Rightarrow> RecentBuffer" where
  "finish_line now b =
     (if rb_dropping b then b\<lparr>rb_dropping := False, rb_partial := []\<rparr>
      else let n = int (length (rb_partial b)) + 1
           in evictLocked now (b\<lparr>rb_partial := [], rb_lines := rb_lines b @ [\<lparr>rl_at = now, rl_content = rb_partial b, rl_size = n\<rparr>],
                                  rb_bytes := rb_bytes b + n\<rparr>))"

abbreviation newline_char where "newline_char \<equiv> CHR 0x0A"

lemma shorter_rest: "p \<noteq> [] \<Longrightarrow> length (dropWhile P p) - Suc 0 < length p"
proof -
  assume "p \<noteq> []"
  then have "0 < length p" by simp
  then show ?thesis using length_dropWhile_le [of P p] by linarith
qed

function write_loop :: "gotime \<Rightarrow> string \<Rightarrow> RecentBuffer \<Rightarrow> RecentBuffer" where
  "write_loop now p b =
     (if p = [] then b
      else let rest = dropWhile (\<lambda>c. c \<noteq> newline_char) p
           in if rb_dropping b then (if rest = [] then b else write_loop now (tl rest) (b\<lparr>rb_dropping := False\<rparr>))
              else if rest = [] then appendPartialLocked p now b
              else write_loop now (tl rest) (finish_line now (appendPartialLocked (takeWhile (\<lambda>c. c \<noteq> newline_char) p) now b)))"
  by pat_completeness auto
termination
  by (relation "measure (\<lambda>(now, p, b). length p)") (auto intro: shorter_rest)

declare write_loop.simps [simp del]

definition recent_Write :: "gotime \<Rightarrow> string \<Rightarrow> RecentBuffer \<Rightarrow> RecentBuffer" where
  "recent_Write now p b = (if p = [] then b else write_loop now p (evictLocked now b))"

definition in_range :: "gotime \<Rightarrow> gotime \<Rightarrow> gotime \<Rightarrow> bool" where
  "in_range since until t = (\<not> (\<not> IsZero since \<and> t < since \<or> \<not> IsZero until \<and> t > until))"

definition recent_Snapshot :: "gotime \<Rightarrow> gotime \<Rightarrow> gotime \<Rightarrow> RecentBuffer \<Rightarrow> (RecentSnapshot \<times> bool) \<times> RecentBuffer" where
  "recent_Snapshot now since until b =
     (let b1 = evictLocked now b;
          ageBoundary = now - rb_maxAge b1;
          coverageFrom = (if rb_maxAge b1 > 0 \<and> ageBoundary > rb_coverageFrom b1 then ageBoundary else rb_coverageFrom b1);
          kept = filter (\<lambda>l. in_range since until (rl_at l)) (rb_lines b1)
      in ((\<lparr>rs_Lines = map (\<lambda>l. (rl_at l, rl_content l)) kept, rs_LineCount = int (length kept), rs_Bytes = sum_list (map rl_size kept),
            rs_StartedAt = rb_startedAt b1\<rparr>, \<not> IsZero since \<and> since \<ge> coverageFrom), b1))"

section \<open>Bounds\<close>

definition recent_wf :: "RecentBuffer \<Rightarrow> bool" where
  "recent_wf b \<longleftrightarrow> rb_bytes b = sum_list (map rl_size (rb_lines b)) \<and> (\<forall>l \<in> set (rb_lines b). rl_size l = int (length (rl_content l)) + 1) \<and>
     rb_bytes b \<le> max 0 (rb_maxBytes b) \<and> (rb_partial b = [] \<or> int (length (rb_partial b)) + 1 \<le> rb_maxBytes b)"

lemma advance_simps [simp]:
  "rb_lines (advanceCoverageLocked t b) = rb_lines b" "rb_bytes (advanceCoverageLocked t b) = rb_bytes b"
  "rb_partial (advanceCoverageLocked t b) = rb_partial b" "rb_dropping (advanceCoverageLocked t b) = rb_dropping b"
  "rb_maxBytes (advanceCoverageLocked t b) = rb_maxBytes b" "rb_maxAge (advanceCoverageLocked t b) = rb_maxAge b"
  "t \<le> rb_coverageFrom (advanceCoverageLocked t b)" "rb_coverageFrom b \<le> rb_coverageFrom (advanceCoverageLocked t b)"
  by (simp_all add: advanceCoverageLocked_def)

lemma evict_lines_keeps [simp]:
  "rb_partial (evict_lines now ls b) = rb_partial b" "rb_dropping (evict_lines now ls b) = rb_dropping b"
  "rb_maxBytes (evict_lines now ls b) = rb_maxBytes b" "rb_maxAge (evict_lines now ls b) = rb_maxAge b"
  by (induction now ls b rule: evict_lines.induct) simp_all

lemma evict_lines_suffix:
  "\<exists>gone. ls = gone @ rb_lines (evict_lines now ls b) \<and> (\<forall>l \<in> set gone. rl_at l < rb_coverageFrom (evict_lines now ls b)) \<and>
     rb_coverageFrom b \<le> rb_coverageFrom (evict_lines now ls b) \<and>
     (rb_bytes b = sum_list (map rl_size ls) \<longrightarrow> rb_bytes (evict_lines now ls b) = sum_list (map rl_size (rb_lines (evict_lines now ls b)))) \<and>
     (rb_lines (evict_lines now ls b) = [] \<or> rb_bytes (evict_lines now ls b) \<le> rb_maxBytes b \<and> rb_maxBytes b > 0)"
proof (induction now ls b rule: evict_lines.induct)
  case (2 now l ls b)
  show ?case
  proof (cases "rb_maxAge b > 0 \<and> rl_at l < now - rb_maxAge b \<or> rb_maxBytes b \<le> 0 \<or> rb_bytes b > rb_maxBytes b")
    case True
    let ?b = "advanceCoverageLocked (rl_at l + 1) (b\<lparr>rb_bytes := rb_bytes b - rl_size l\<rparr>)"
    from 2 [OF True] obtain gone where gone: "ls = gone @ rb_lines (evict_lines now ls ?b)"
      "\<forall>l \<in> set gone. rl_at l < rb_coverageFrom (evict_lines now ls ?b)" "rb_coverageFrom ?b \<le> rb_coverageFrom (evict_lines now ls ?b)"
      "rb_bytes ?b = sum_list (map rl_size ls) \<longrightarrow> rb_bytes (evict_lines now ls ?b) = sum_list (map rl_size (rb_lines (evict_lines now ls ?b)))"
      "rb_lines (evict_lines now ls ?b) = [] \<or> rb_bytes (evict_lines now ls ?b) \<le> rb_maxBytes ?b \<and> rb_maxBytes ?b > 0"
      by blast
    have "rl_at l + 1 \<le> rb_coverageFrom ?b" "rb_coverageFrom b \<le> rb_coverageFrom ?b"
      by (simp_all add: advanceCoverageLocked_def)
    then have "rl_at l < rb_coverageFrom (evict_lines now ls ?b)" "rb_coverageFrom b \<le> rb_coverageFrom (evict_lines now ls ?b)"
      using gone(3) by linarith+
    moreover have "evict_lines now (l # ls) b = evict_lines now ls ?b" using True by simp
    ultimately show ?thesis
      using gone(1,2,4,5) by (intro exI [of _ "l # gone"]) (simp del: evict_lines.simps)
  qed auto
qed auto

lemma evict_simps [simp]:
  "rb_partial (evictLocked now b) = rb_partial b" "rb_dropping (evictLocked now b) = rb_dropping b"
  "rb_maxBytes (evictLocked now b) = rb_maxBytes b" "rb_maxAge (evictLocked now b) = rb_maxAge b"
  by (simp_all add: evictLocked_def)

text \<open>Eviction restores the bound, whatever was appended before.\<close>

lemma evict_wf:
  assumes "rb_bytes b = sum_list (map rl_size (rb_lines b))" "\<forall>l \<in> set (rb_lines b). rl_size l = int (length (rl_content l)) + 1"
    and "rb_partial b = [] \<or> int (length (rb_partial b)) + 1 \<le> rb_maxBytes b"
  shows "recent_wf (evictLocked now b)"
proof -
  obtain gone where gone: "rb_lines b = gone @ rb_lines (evictLocked now b)"
    "rb_bytes b = sum_list (map rl_size (rb_lines b)) \<longrightarrow> rb_bytes (evictLocked now b) = sum_list (map rl_size (rb_lines (evictLocked now b)))"
    "rb_lines (evictLocked now b) = [] \<or> rb_bytes (evictLocked now b) \<le> rb_maxBytes b \<and> rb_maxBytes b > 0"
    using evict_lines_suffix [of "rb_lines b" now b] by (auto simp: evictLocked_def)
  have "set (rb_lines (evictLocked now b)) \<subseteq> set (rb_lines b)" using arg_cong [OF gone(1), of set] by simp
  then show ?thesis using assms gone by (auto simp: recent_wf_def)
qed

lemma append_wf: "recent_wf b \<Longrightarrow> recent_wf (appendPartialLocked p now b)"
  by (auto simp: recent_wf_def appendPartialLocked_def)

lemma finish_wf:
  assumes "recent_wf b"
  shows "recent_wf (finish_line now b)"
proof (cases "rb_dropping b")
  case False
  then have "finish_line now b = evictLocked now (b\<lparr>rb_partial := [], rb_lines := rb_lines b @ [\<lparr>rl_at = now, rl_content = rb_partial b,
      rl_size = int (length (rb_partial b)) + 1\<rparr>], rb_bytes := rb_bytes b + (int (length (rb_partial b)) + 1)\<rparr>)"
    by (simp add: finish_line_def Let_def)
  moreover have "recent_wf \<dots>" by (rule evict_wf) (use assms in \<open>auto simp: recent_wf_def\<close>)
  ultimately show ?thesis by simp
qed (use assms in \<open>simp add: finish_line_def recent_wf_def\<close>)

lemma write_loop_wf: "recent_wf b \<Longrightarrow> recent_wf (write_loop now p b)"
proof (induction now p b rule: write_loop.induct)
  case (1 now p b)
  have "recent_wf (b\<lparr>rb_dropping := False\<rparr>)" using 1(3) by (simp add: recent_wf_def)
  then show ?case
    using 1 by (subst write_loop.simps) (auto simp: Let_def append_wf finish_wf)
qed

lemma recent_wf_Write: "recent_wf b \<Longrightarrow> recent_wf (recent_Write now p b)"
  by (auto simp: recent_Write_def intro!: write_loop_wf evict_wf) (auto simp: recent_wf_def)

section \<open>The lines of a stream of bytes\<close>

text \<open>The reference: bytes one by one. A state is the finished lines with their times, and the line so far.\<close>

definition feed_byte :: "gotime \<Rightarrow> char \<Rightarrow> (gotime \<times> string) list \<times> string \<Rightarrow> (gotime \<times> string) list \<times> string" where
  "feed_byte now c st = (case st of (don, cur) \<Rightarrow> if c = newline_char then (don @ [(now, cur)], []) else (don, cur @ [c]))"

definition feed :: "gotime \<times> string \<Rightarrow> (gotime \<times> string) list \<times> string \<Rightarrow> (gotime \<times> string) list \<times> string" where
  "feed chunk st = (case chunk of (now, p) \<Rightarrow> fold (feed_byte now) p st)"

lemma feed_text: "newline_char \<notin> set p \<Longrightarrow> fold (feed_byte now) p (don, cur) = (don, cur @ p)"
  by (induction p arbitrary: cur) (auto simp: feed_byte_def)

lemma feed_split:
  assumes "dropWhile (\<lambda>c. c \<noteq> newline_char) p = c # rest"
  shows "fold (feed_byte now) p (don, cur) = fold (feed_byte now) rest (don @ [(now, cur @ takeWhile (\<lambda>c. c \<noteq> newline_char) p)], [])"
proof -
  have c: "c = newline_char" using assms hd_dropWhile [of "\<lambda>c. c \<noteq> newline_char" p] by simp
  have p: "p = takeWhile (\<lambda>c. c \<noteq> newline_char) p @ c # rest" using takeWhile_dropWhile_id [of "\<lambda>c. c \<noteq> newline_char" p] assms by simp
  have "newline_char \<notin> set (takeWhile (\<lambda>c. c \<noteq> newline_char) p)" by (auto dest: set_takeWhileD)
  from feed_text [OF this, of now don cur] show ?thesis by (subst p) (simp add: c feed_byte_def)
qed

text \<open>
  \<open>covers b st\<close>: the buffer holds the last of the finished lines that fit, all others are before its coverage, and its partial line is the line
  so far unless that is already too long.
\<close>

definition fits :: "RecentBuffer \<Rightarrow> string \<Rightarrow> bool" where
  "fits b l \<longleftrightarrow> int (length l) + 1 \<le> rb_maxBytes b"

definition kept_lines :: "RecentBuffer \<Rightarrow> (gotime \<times> string) list" where
  "kept_lines b = map (\<lambda>l. (rl_at l, rl_content l)) (rb_lines b)"

definition covers :: "RecentBuffer \<Rightarrow> (gotime \<times> string) list \<times> string \<Rightarrow> bool" where
  "covers b st \<longleftrightarrow> (case st of (don, cur) \<Rightarrow>
     (\<exists>gone. filter (\<lambda>(t, l). fits b l) don = gone @ kept_lines b \<and> (\<forall>(t, l) \<in> set gone. t < rb_coverageFrom b)) \<and>
     (if rb_dropping b then \<not> fits b cur \<and> rb_partial b = [] else rb_partial b = cur \<and> (cur = [] \<or> fits b cur)))"

lemma covers_evict:
  assumes "covers b st"
  shows "covers (evictLocked now b) st"
proof -
  obtain gone where gone: "rb_lines b = gone @ rb_lines (evictLocked now b)" "\<forall>l \<in> set gone. rl_at l < rb_coverageFrom (evictLocked now b)"
    "rb_coverageFrom b \<le> rb_coverageFrom (evictLocked now b)"
    using evict_lines_suffix [of "rb_lines b" now b] by (auto simp: evictLocked_def)
  obtain don cur old where st: "st = (don, cur)" "filter (\<lambda>(t, l). fits b l) don = old @ kept_lines b" "\<forall>(t, l) \<in> set old. t < rb_coverageFrom b"
    using assms by (cases st) (auto simp: covers_def)
  have "kept_lines b = map (\<lambda>l. (rl_at l, rl_content l)) gone @ kept_lines (evictLocked now b)"
    using arg_cong [OF gone(1), of "map (\<lambda>l. (rl_at l, rl_content l))"] by (simp add: kept_lines_def)
  then have "filter (\<lambda>(t, l). fits b l) don = (old @ map (\<lambda>l. (rl_at l, rl_content l)) gone) @ kept_lines (evictLocked now b)" using st by simp
  moreover have "\<forall>(t, l) \<in> set (old @ map (\<lambda>l. (rl_at l, rl_content l)) gone). t < rb_coverageFrom (evictLocked now b)"
    using st(3) gone(2,3) by fastforce
  ultimately show ?thesis using assms st(1) unfolding covers_def fits_def by auto
qed

lemma covers_append:
  assumes "covers b (don, cur)" "\<not> rb_dropping b"
  shows "covers (appendPartialLocked p now b) (don, cur @ p)"
  using assms by (auto simp: covers_def appendPartialLocked_def fits_def kept_lines_def advanceCoverageLocked_def split: if_splits) fastforce+

lemma covers_finish:
  assumes "covers b (don, cur)"
  shows "covers (finish_line now b) (don @ [(now, cur)], [])"
proof (cases "rb_dropping b")
  case True
  then show ?thesis using assms by (auto simp: covers_def finish_line_def fits_def kept_lines_def)
next
  case False
  let ?b = "b\<lparr>rb_partial := [], rb_lines := rb_lines b @ [\<lparr>rl_at = now, rl_content = rb_partial b, rl_size = int (length (rb_partial b)) + 1\<rparr>],
    rb_bytes := rb_bytes b + (int (length (rb_partial b)) + 1)\<rparr>"
  have finish: "finish_line now b = evictLocked now ?b" using False by (simp add: finish_line_def Let_def)
  have cur: "rb_partial b = cur" "cur = [] \<or> fits b cur" using assms False by (simp_all add: covers_def)
  show ?thesis
  proof (cases "fits b cur")
    case True
    then have "covers ?b (don @ [(now, cur)], [])"
      using assms False cur by (auto simp: covers_def kept_lines_def fits_def)
    then show ?thesis unfolding finish by (rule covers_evict)
  next
    case no_fit: False
    then have none: "rb_maxBytes b \<le> 0" using cur(2) by (simp add: fits_def)
    then have "rb_lines (evictLocked now ?b) = []"
      using evict_lines_suffix [of "rb_lines ?b" now ?b] by (auto simp: evictLocked_def)
    moreover have "\<not> fits b l" for l using none by (simp add: fits_def)
    ultimately show ?thesis unfolding finish using False by (simp add: covers_def fits_def kept_lines_def)
  qed
qed

lemma covers_write_loop: "covers b (don, cur) \<Longrightarrow> covers (write_loop now p b) (fold (feed_byte now) p (don, cur))"
proof (induction now p b arbitrary: don cur rule: write_loop.induct)
  case (1 now p b)
  show ?case
  proof (cases "dropWhile (\<lambda>c. c \<noteq> newline_char) p")
    case Nil
    then have no_newline: "newline_char \<notin> set p" by (auto simp: dropWhile_eq_Nil_conv)
    show ?thesis
    proof (cases "rb_dropping b")
      case True
      then have "covers b (don, cur @ p)" using 1(3) by (auto simp: covers_def fits_def)
      then show ?thesis using True Nil 1(3) by (subst write_loop.simps) (auto simp: feed_text [OF no_newline] Let_def)
    next
      case False
      then show ?thesis
        using covers_append [OF 1(3) False, of p now] 1(3) Nil
        by (subst write_loop.simps) (auto simp: feed_text [OF no_newline] Let_def)
    qed
  next
    case (Cons c rest)
    then have p: "p \<noteq> []" by auto
    note split = feed_split [OF Cons, of now don cur]
    show ?thesis
    proof (cases "rb_dropping b")
      case True
      let ?line = "cur @ takeWhile (\<lambda>c. c \<noteq> newline_char) p"
      have "covers (b\<lparr>rb_dropping := False, rb_partial := []\<rparr>) (don @ [(now, ?line)], [])"
        using 1(3) True by (auto simp: covers_def fits_def kept_lines_def)
      then have "covers (b\<lparr>rb_dropping := False\<rparr>) (don @ [(now, ?line)], [])"
        using 1(3) True by (auto simp: covers_def fits_def kept_lines_def)
      then show ?thesis
        using 1(1) [OF p refl True] Cons True p unfolding split by (subst write_loop.simps) (simp add: Let_def)
    next
      case False
      from covers_finish [OF covers_append [OF 1(3) False]] show ?thesis
        using 1(2) [OF p refl False] Cons False p unfolding split by (subst write_loop.simps) (simp add: Let_def)
    qed
  qed
qed

lemma covers_Write: "covers b st \<Longrightarrow> covers (recent_Write now p b) (feed (now, p) st)"
  using covers_write_loop [OF covers_evict] by (cases st) (simp add: recent_Write_def feed_def)

lemma write_maxBytes: "rb_maxBytes (recent_Write now p b) = rb_maxBytes b"
proof -
  have "rb_maxBytes (write_loop now p b) = rb_maxBytes b" for b
  proof (induction now p b rule: write_loop.induct)
    case (1 now p b)
    then show ?case by (subst write_loop.simps) (auto simp: Let_def finish_line_def appendPartialLocked_def)
  qed
  then show ?thesis by (simp add: recent_Write_def)
qed

section \<open>Properties\<close>

definition write_all :: "(gotime \<times> string) list \<Rightarrow> RecentBuffer \<Rightarrow> RecentBuffer" where
  "write_all chunks b = fold (\<lambda>(now, p). recent_Write now p) chunks b"

lemma write_all_invariants:
  "covers b st \<Longrightarrow> recent_wf b \<Longrightarrow> covers (write_all chunks b) (fold feed chunks st) \<and> recent_wf (write_all chunks b) \<and>
     rb_maxBytes (write_all chunks b) = rb_maxBytes b"
proof (induction chunks arbitrary: b st)
  case (Cons chunk chunks)
  obtain now p where chunk: "chunk = (now, p)" by fastforce
  show ?case
    using Cons.IH [OF covers_Write [OF Cons.prems(1), of now p] recent_wf_Write [OF Cons.prems(2), of now p]] chunk
    by (simp add: write_all_def write_maxBytes)
qed (simp add: write_all_def)

lemma new_buffer: "covers (NewRecentBuffer t age n) ([], [])" "recent_wf (NewRecentBuffer t age n)"
  by (simp_all add: covers_def recent_wf_def NewRecentBuffer_def kept_lines_def)

text \<open>Whatever chunks are written, the buffer stays within its limit: the kept lines with their newlines, and the unfinished line, never
  take more bytes than the maximum, and the byte count it keeps is exact.\<close>

theorem recent_bytes_bounded:
  "let b = write_all chunks (NewRecentBuffer t age n) in
     rb_bytes b = sum_list (map (\<lambda>l. int (length (rl_content l)) + 1) (rb_lines b)) \<and> rb_bytes b \<le> max 0 n \<and>
     int (length (rb_partial b)) \<le> max 0 (n - 1)"
proof -
  let ?b = "write_all chunks (NewRecentBuffer t age n)"
  have wf: "recent_wf ?b" "rb_maxBytes ?b = n"
    using write_all_invariants [OF new_buffer, of chunks t age n] by (simp_all add: NewRecentBuffer_def)
  have "sum_list (map rl_size ls) = sum_list (map (\<lambda>l. int (length (rl_content l)) + 1) ls)"
    if "\<forall>l \<in> set ls. rl_size l = int (length (rl_content l)) + 1" for ls :: "recentLine list"
    using that by (induction ls) auto
  then show ?thesis using wf by (auto simp: recent_wf_def Let_def)
qed

text \<open>C40: A snapshot that reports its range as covered is complete: it holds exactly the lines finished within the range, in order, with the time
  at which they were finished, except those that are longer than the buffer, for every way the text was cut into chunks.\<close>

theorem covered_snapshot_complete:
  assumes "recent_Snapshot now since until (write_all chunks (NewRecentBuffer t age n)) = ((snapshot, True), b)"
  shows "rs_Lines snapshot = filter (\<lambda>(t, l). int (length l) + 1 \<le> n \<and> in_range since until t) (fst (fold feed chunks ([], [])))"
proof -
  let ?b = "write_all chunks (NewRecentBuffer t age n)"
  obtain don cur where st: "fold feed chunks ([], []) = (don, cur)" by fastforce
  have b: "covers ?b (don, cur)" "rb_maxBytes ?b = n"
    using write_all_invariants [OF new_buffer, of chunks t age n] st by (simp_all add: NewRecentBuffer_def)
  have "covers (evictLocked now ?b) (don, cur)" by (rule covers_evict [OF b(1)])
  then obtain gone where gone: "filter (\<lambda>(t, l). int (length l) + 1 \<le> n) don = gone @ kept_lines (evictLocked now ?b)"
    "\<forall>(t, l) \<in> set gone. t < rb_coverageFrom (evictLocked now ?b)"
    using b(2) by (auto simp: covers_def fits_def)
  have since: "\<not> IsZero since" "since \<ge> rb_coverageFrom (evictLocked now ?b)"
    using assms by (auto simp: recent_Snapshot_def Let_def split: if_splits)
  have lines: "rs_Lines snapshot = filter (\<lambda>(t, l). in_range since until t) (kept_lines (evictLocked now ?b))"
    using assms by (auto simp: recent_Snapshot_def Let_def kept_lines_def filter_map comp_def)
  have "filter (\<lambda>(t, l). in_range since until t) gone = []"
    using gone(2) since by (fastforce simp: filter_empty_conv in_range_def)
  then have "rs_Lines snapshot = filter (\<lambda>(t, l). in_range since until t) (filter (\<lambda>(t, l). int (length l) + 1 \<le> n) don)"
    unfolding gone(1) lines by simp
  then show ?thesis by (simp add: st case_prod_beta' conj_commute)
qed

theorem covered_snapshot_complete_witness:
  "\<exists>snapshot b. recent_Snapshot 9 2 0 (write_all [(3, ''ab'' @ [newline_char] @ ''c''), (5, ''d'' @ [newline_char])] (NewRecentBuffer 1 0 100)) = ((snapshot, True), b) \<and>
     rs_Lines snapshot = [(3, ''ab''), (5, ''cd'')]"
proof -
  have "snd (fst (recent_Snapshot 9 2 0 (write_all [(3, ''ab'' @ [newline_char] @ ''c''), (5, ''d'' @ [newline_char])] (NewRecentBuffer 1 0 100))))"
    by code_simp
  then obtain snapshot b where run: "recent_Snapshot 9 2 0 (write_all [(3, ''ab'' @ [newline_char] @ ''c''), (5, ''d'' @ [newline_char])] (NewRecentBuffer 1 0 100)) = ((snapshot, True), b)"
    by (metis prod.collapse)
  from covered_snapshot_complete [OF run] run show ?thesis
    by (simp add: feed_def feed_byte_def in_range_def IsZero_def)
qed

text \<open>A line that is too long and comes in two writes is not covered, although a snapshot that starts between the writes says so: the
  coverage is advanced to the first write only, and the line is finished by the second one.\<close>

theorem long_line_uncovered:
  "\<exists>snapshot b. recent_Snapshot 9 5 0 (write_all [(3, ''abcd''), (6, ''e'' @ [newline_char])] (NewRecentBuffer 1 0 4)) = ((snapshot, True), b) \<and>
     rs_Lines snapshot = [] \<and> fst (fold feed [(3, ''abcd''), (6, ''e'' @ [newline_char])] ([], [])) = [(6, ''abcde'')]"
proof -
  let ?run = "recent_Snapshot 9 5 0 (write_all [(3, ''abcd''), (6, ''e'' @ [newline_char])] (NewRecentBuffer 1 0 4))"
  have "snd (fst ?run)" "rs_Lines (fst (fst ?run)) = []" by code_simp+
  then show ?thesis by (intro exI [of _ "fst (fst ?run)"] exI [of _ "snd ?run"]) (simp add: feed_def feed_byte_def prod_eq_iff)
qed

end
