(* ===== verification/Log_Laws.thy ===== *)
theory Log_Laws
  imports Log_Rotate Recent_Log
begin

text \<open>
  What the rotated log guarantees: every text that was written stays readable, in order, over the archives and the current file; the
  current file respects its size; retention removes the oldest archives only, down to its limits; and compression never loses an archive.
\<close>

section \<open>Free names\<close>

lemma show_uint_inj: "show_uint (int m) = show_uint (int n) \<Longrightarrow> m = n"
  by (metis nat_int of_nat_0_le_iff show_uint_digits)

lemma archive_name_inj: "inj (archive_name pre stamp nanos)"
  by (rule injI) (simp add: archive_name_def show_uint_inj)

lemma free_name:
  assumes "inj name" "length d < tries"
  shows "\<exists>k<tries. map_of d (name (n + k)) = None"
proof (rule ccontr)
  assume "\<not> ?thesis"
  then have "(\<lambda>k. name (n + k)) ` {..<tries} \<subseteq> fst ` set d" by (auto simp: map_of_eq_None_iff)
  then have "card ((\<lambda>k. name (n + k)) ` {..<tries}) \<le> length d"
    by (metis List.finite_set card_image_le card_length card_mono finite_imageI le_trans)
  moreover have "inj_on (\<lambda>k. name (n + k)) {..<tries}" by (auto intro!: inj_onI dest!: injD [OF assms(1)])
  ultimately show False using assms(2) by (simp add: card_image)
qed

definition log_no_faults :: "log_env \<Rightarrow> bool" where
  "log_no_faults env \<longleftrightarrow> (\<forall>op. lw_fault env op = None) \<and> (\<forall>p. lw_write env p = None)"

lemma archive_search_finds:
  assumes "log_no_faults env" "\<exists>k<tries. map_of d (name (Suc n + k)) = None"
  shows "\<exists>path m. archive_search env name tries n d = (Inr path, m) \<and> map_of d path = None"
  using assms(2)
proof (induction tries arbitrary: n)
  case (Suc tries)
  show ?case
  proof (cases "map_of d (name (Suc n)) = None")
    case True
    then show ?thesis using assms(1) by (simp add: log_no_faults_def Let_def)
  next
    case False
    obtain k where k: "k < Suc tries" "map_of d (name (Suc n + k)) = None" using Suc.prems by blast
    then obtain j where "k = Suc j" using False by (cases k) auto
    then have "\<exists>j<tries. map_of d (name (Suc (Suc n) + j)) = None" using k by auto
    then show ?thesis using Suc.IH [of "Suc n"] False assms(1) by (simp add: log_no_faults_def Let_def)
  qed
qed simp

lemma nextArchiveName_finds:
  assumes "log_no_faults env"
  obtains path n where "nextArchiveName env now w d = (Inr path, w\<lparr>rw_sequence := n\<rparr>)" "map_of d path = None"
proof -
  let ?name = "archive_name (archive_prefix (rw_opts w)) (log_stamp (lw_local env) now) (show_fixed 9 (nsec_of now))"
  obtain path n where "archive_search env ?name (Suc (length d)) (rw_sequence w) d = (Inr path, n)" "map_of d path = None"
    using archive_search_finds [OF assms free_name [OF archive_name_inj]] by (metis lessI)
  then show thesis using that by (simp add: nextArchiveName_def)
qed

section \<open>Writing\<close>

text \<open>A writer in order: its file is open and has the size it thinks.\<close>

definition writer_ok :: "RotatingWriter \<Rightarrow> log_dir \<Rightarrow> bool" where
  "writer_ok w d \<longleftrightarrow> rw_file w = LogOpened \<and> \<not> rw_closed w \<and> map_of d (lg_Base (rw_opts w)) \<noteq> None
     \<and> rw_size w = int (length (entry_data (lg_Base (rw_opts w)) d))"

text \<open>\<open>names\<close> are the archives made on the way from \<open>d\<close> to \<open>d'\<close>, and \<open>text\<close> what was written.\<close>

definition logged :: "string \<Rightarrow> string list \<Rightarrow> string \<Rightarrow> log_dir \<Rightarrow> log_dir \<Rightarrow> bool" where
  "logged base names txt d d' \<longleftrightarrow>
     distinct names \<and> base \<notin> set names \<and> (\<forall>n \<in> set names. map_of d n = None \<and> map_of d' n \<noteq> None) \<and>
     concat (map (\<lambda>n. entry_data n d') names) @ entry_data base d' = entry_data base d @ txt \<and>
     (\<forall>n. n \<noteq> base \<and> n \<notin> set names \<longrightarrow> map_of d' n = map_of d n)"

lemma logged_refl: "logged base [] [] d d"
  by (simp add: logged_def)

lemma logged_append: "map_of d base \<noteq> None \<Longrightarrow> logged base [] p d (append_text base p now d)"
  by (auto simp: logged_def append_text_def entry_data_def update_conv')

lemma append_text_size: "map_of d base \<noteq> None \<Longrightarrow> length (entry_data base (append_text base p now d)) = length (entry_data base d) + length p"
  by (auto simp: append_text_def entry_data_def update_conv')

lemma append_text_there: "map_of d base \<noteq> None \<Longrightarrow> map_of (append_text base p now d) base \<noteq> None"
  by (auto simp: append_text_def update_conv')

lemma logged_trans:
  assumes "logged base ns s d d1" "logged base ms t d1 d2"
  shows "logged base (ns @ ms) (s @ t) d d2"
proof -
  have ns: "map_of d2 n = map_of d1 n" if "n \<in> set ns" for n
    using that assms unfolding logged_def by (metis option.distinct(1))
  then have old: "map (\<lambda>n. entry_data n d2) ns = map (\<lambda>n. entry_data n d1) ns" by (simp add: entry_data_def)
  have apart: "set ns \<inter> set ms = {}" using assms unfolding logged_def by blast
  have new: "map_of d n = None" if "n \<in> set ms" for n using that assms apart unfolding logged_def by (metis disjoint_iff)
  have texts: "concat (map (\<lambda>n. entry_data n d1) ns) @ entry_data base d1 = entry_data base d @ s"
    "concat (map (\<lambda>n. entry_data n d2) ms) @ entry_data base d2 = entry_data base d1 @ t"
    using assms by (simp_all add: logged_def)
  have "concat (map (\<lambda>n. entry_data n d2) (ns @ ms)) @ entry_data base d2 = entry_data base d @ s @ t"
    using texts(1) by (simp add: old texts(2))
  moreover have "distinct (ns @ ms)" "base \<notin> set (ns @ ms)" using assms apart by (simp_all add: logged_def)
  moreover have "\<forall>n \<in> set (ns @ ms). map_of d n = None \<and> map_of d2 n \<noteq> None" using assms ns new by (auto simp: logged_def)
  moreover have "\<forall>n. n \<noteq> base \<and> n \<notin> set (ns @ ms) \<longrightarrow> map_of d2 n = map_of d n" using assms by (simp add: logged_def)
  ultimately show ?thesis unfolding logged_def by blast
qed

lemma write_current_ok:
  assumes "log_no_faults env" "writer_ok w d"
  shows "\<exists>w' d'. write_current env now p w d = ((int (length p), None), w', d') \<and> writer_ok w' d' \<and> rw_opts w' = rw_opts w \<and>
    logged (lg_Base (rw_opts w)) [] p d d' \<and> length (entry_data (lg_Base (rw_opts w)) d') = length (entry_data (lg_Base (rw_opts w)) d) + length p"
  using assms logged_append [of d "lg_Base (rw_opts w)" p now] append_text_size [of d "lg_Base (rw_opts w)" p now]
    append_text_there [of d "lg_Base (rw_opts w)" p now]
  by (auto simp: write_current_def log_no_faults_def writer_ok_def)

lemma rotate_ok:
  assumes "log_no_faults env" "writer_ok w d"
  shows "\<exists>archive w' d'. rotate env now w d = (Inr archive, w', d') \<and> writer_ok w' d' \<and> rw_opts w' = rw_opts w \<and>
    logged (lg_Base (rw_opts w)) [archive] [] d d' \<and> entry_data (lg_Base (rw_opts w)) d' = []"
proof -
  obtain path n where path: "nextArchiveName env now w d = (Inr path, w\<lparr>rw_sequence := n\<rparr>)" "map_of d path = None"
    using nextArchiveName_finds [OF assms(1)] .
  obtain e where e: "map_of d (lg_Base (rw_opts w)) = Some e" using assms(2) by (auto simp: writer_ok_def)
  then have other: "path \<noteq> lg_Base (rw_opts w)" using path(2) by auto
  show ?thesis
    using assms path e other
    by (auto simp: rotate_def reopenCurrent_def open_current_def log_no_faults_def writer_ok_def logged_def entry_data_def
        update_conv' delete_conv' regular_file_def Let_def)
qed

lemma Write_ok:
  assumes "log_no_faults env" "writer_ok w d"
  shows "\<exists>names w' d'. rotating_Write env now p w d = ((int (length p), None), w', d') \<and> writer_ok w' d' \<and> rw_opts w' = rw_opts w \<and>
    logged (lg_Base (rw_opts w)) names p d d' \<and>
    (length (entry_data (lg_Base (rw_opts w)) d') = length p \<or> int (length (entry_data (lg_Base (rw_opts w)) d')) \<le> lg_MaxSizeBytes (rw_opts w))"
proof (cases "needs_rotation env now p w")
  case True
  obtain archive w1 d1 where r: "rotate env now w d = (Inr archive, w1, d1)" "writer_ok w1 d1" "rw_opts w1 = rw_opts w"
    "logged (lg_Base (rw_opts w)) [archive] [] d d1" "entry_data (lg_Base (rw_opts w)) d1 = []"
    using rotate_ok [OF assms] by blast
  obtain w2 d2 where c: "write_current env now p w1 d1 = ((int (length p), None), w2, d2)" "writer_ok w2 d2" "rw_opts w2 = rw_opts w"
    "logged (lg_Base (rw_opts w)) [] p d1 d2" "length (entry_data (lg_Base (rw_opts w)) d2) = length p"
    using write_current_ok [OF assms(1) r(2), of now p] r(3,5) by auto
  show ?thesis using True assms(2) r c logged_trans [OF r(4) c(4)] by (auto simp: rotating_Write_def writer_ok_def)
next
  case False
  obtain w2 d2 where c: "write_current env now p w d = ((int (length p), None), w2, d2)" "writer_ok w2 d2" "rw_opts w2 = rw_opts w"
    "logged (lg_Base (rw_opts w)) [] p d d2" "length (entry_data (lg_Base (rw_opts w)) d2) = length (entry_data (lg_Base (rw_opts w)) d) + length p"
    using write_current_ok [OF assms, of now p] by blast
  then show ?thesis using False assms(2) by (auto simp: rotating_Write_def needs_rotation_def writer_ok_def)
qed

definition write_log :: "log_env \<Rightarrow> gotime \<times> string \<Rightarrow> RotatingWriter \<times> log_dir \<Rightarrow> RotatingWriter \<times> log_dir" where
  "write_log env = (\<lambda>(now, p) (w, d). snd (rotating_Write env now p w d))"

lemma writes_ok:
  assumes "log_no_faults env" "writer_ok w d" "fold (write_log env) ws (w, d) = (w', d')"
  shows "writer_ok w' d' \<and> rw_opts w' = rw_opts w \<and> (\<exists>names. logged (lg_Base (rw_opts w)) names (concat (map snd ws)) d d')"
  using assms(2,3)
proof (induction ws arbitrary: w d)
  case Nil
  then show ?case using logged_refl by auto
next
  case (Cons x ws)
  obtain now p where x: "x = (now, p)" by (cases x)
  obtain names w1 d1 where s: "rotating_Write env now p w d = ((int (length p), None), w1, d1)" "writer_ok w1 d1" "rw_opts w1 = rw_opts w"
    "logged (lg_Base (rw_opts w)) names p d d1"
    using Write_ok [OF assms(1) Cons.prems(1)] by blast
  then have "fold (write_log env) ws (w1, d1) = (w', d')" using Cons.prems(2) x by (simp add: write_log_def)
  then obtain names' where "writer_ok w' d'" "rw_opts w' = rw_opts w1" "logged (lg_Base (rw_opts w1)) names' (concat (map snd ws)) d1 d'"
    using Cons.IH [OF s(2)] by blast
  then show ?case using logged_trans [OF s(4)] s(3) x by auto
qed

lemma writes_bounded:
  assumes "log_no_faults env" "writer_ok w d" "fold (write_log env) ws (w, d) = (w', d')"
    "\<forall>(now, p) \<in> set ws. int (length p) \<le> lg_MaxSizeBytes (rw_opts w)" "rw_size w \<le> lg_MaxSizeBytes (rw_opts w)"
  shows "rw_size w' \<le> lg_MaxSizeBytes (rw_opts w) \<and> rw_size w' = int (length (entry_data (lg_Base (rw_opts w)) d'))"
  using assms(2-)
proof (induction ws arbitrary: w d)
  case Nil
  then show ?case by (auto simp: writer_ok_def)
next
  case (Cons x ws)
  obtain now p where x: "x = (now, p)" by (cases x)
  obtain names w1 d1 where s: "rotating_Write env now p w d = ((int (length p), None), w1, d1)" "writer_ok w1 d1" "rw_opts w1 = rw_opts w"
    "length (entry_data (lg_Base (rw_opts w)) d1) = length p \<or> int (length (entry_data (lg_Base (rw_opts w)) d1)) \<le> lg_MaxSizeBytes (rw_opts w)"
    using Write_ok [OF assms(1) Cons.prems(1)] by blast
  have "rw_size w1 \<le> lg_MaxSizeBytes (rw_opts w)" using s(2-4) Cons.prems(3) x by (auto simp: writer_ok_def)
  then show ?case using Cons.IH [OF s(2)] Cons.prems(2,3) s(1,3) x by (simp add: write_log_def)
qed

section \<open>Retention\<close>

lemma sort_key_sorted: "sorted (map f (sort_key f xs))"
  by simp

lemma remove_entry_none: "log_no_faults env \<Longrightarrow> remove_entry env name d = AList.delete name d"
  by (simp add: remove_entry_def log_no_faults_def)

lemma remove_archives_map_of:
  assumes "log_no_faults env"
  shows "map_of (snd (remove_archives env xs d)) name = (if name \<in> ar_Name ` set xs then None else map_of d name)"
  unfolding remove_archives_def snd_conv
  by (induction xs arbitrary: d) (auto simp: remove_entry_none [OF assms] delete_conv')

text \<open>The loop over the total size removes the shortest end that brings the total below the limit.\<close>

lemma trim_total_prefix:
  assumes "log_no_faults env"
  shows "\<exists>j \<le> length xs. (\<forall>name. map_of (snd (trim_total env limit used xs d)) name = (if name \<in> ar_Name ` set (take j xs) then None else map_of d name))
    \<and> (used - sum_list (map ar_Size (take j xs)) \<le> limit \<or> j = length xs)
    \<and> (\<forall>i<j. used - sum_list (map ar_Size (take i xs)) > limit)"
proof (induction xs arbitrary: used d)
  case Nil
  then show ?case by simp
next
  case (Cons a xs)
  show ?case
  proof (cases "used > limit")
    case True
    obtain j where j: "j \<le> length xs"
      "\<forall>name. map_of (snd (trim_total env limit (used - ar_Size a) xs (AList.delete (ar_Name a) d))) name =
         (if name \<in> ar_Name ` set (take j xs) then None else map_of (AList.delete (ar_Name a) d) name)"
      "used - ar_Size a - sum_list (map ar_Size (take j xs)) \<le> limit \<or> j = length xs"
      "\<forall>i<j. used - ar_Size a - sum_list (map ar_Size (take i xs)) > limit"
      using Cons.IH [of "used - ar_Size a" "AList.delete (ar_Name a) d"] by blast
    have "\<forall>i<Suc j. used - sum_list (map ar_Size (take i (a # xs))) > limit"
      using j(4) True by (auto simp: less_Suc_eq_0_disj algebra_simps)
    then show ?thesis using True assms j(1-3)
      by (intro exI [of _ "Suc j"]) (auto simp: log_no_faults_def delete_conv' algebra_simps)
  next
    case False
    then show ?thesis by (intro exI [of _ 0]) simp
  qed
qed

definition fresh_archives :: "LogOptions \<Rightarrow> gotime \<Rightarrow> Archive list \<Rightarrow> Archive list" where
  "fresh_archives opts now xs = filter (\<lambda>a. \<not> too_old opts now a) xs"

lemma archive_of_name: "archive_of env opts (name, e) = Some a \<Longrightarrow> ar_Name a = name \<and> ar_Size a = int (length (le_Data e))"
  by (auto simp: archive_of_def bind_eq_Some_conv split: prod.splits)

lemma archives_listed:
  assumes "log_no_faults env" "DiscoverArchives env opts d = Inr xs" "a \<in> set xs"
  obtains e where "(ar_Name a, e) \<in> set d" "archive_of env opts (ar_Name a, e) = Some a"
proof -
  have "a \<in> set (List.map_filter (archive_of env opts) (sort_key fst d))" using assms by (auto simp: DiscoverArchives_def log_no_faults_def)
  then obtain name e where "(name, e) \<in> set d" "archive_of env opts (name, e) = Some a"
    by (auto simp: map_filter_def)
  then show thesis using that archive_of_name by blast
qed

lemma archives_sorted: "DiscoverArchives env opts d = Inr xs \<Longrightarrow> sorted (map archive_rank xs)"
  by (auto simp: DiscoverArchives_def split: option.splits)

lemma kept_parts:
  assumes "n \<le> length xs" "j \<le> n"
  shows "take j (rev (take n xs)) = rev (drop (n - j) (take n xs))"
    "sum_list (map f (take n xs)) = sum_list (map f (take (n - j) xs)) + sum_list (map f (drop (n - j) (take n xs)))"
    "set (drop (n - j) (take n xs)) \<union> set (drop n xs) = set (drop (n - j) xs)"
proof -
  have "take n xs = take (n - j) xs @ drop (n - j) (take n xs)" by (metis append_take_drop_id diff_le_self min.absorb1 take_take)
  then show "sum_list (map f (take n xs)) = sum_list (map f (take (n - j) xs)) + sum_list (map f (drop (n - j) (take n xs)))"
    by (metis map_append sum_list_append)
  have "drop (n - j) xs = drop (n - j) (take n xs) @ drop n xs"
    using drop_append [of "n - j" "take n xs" "drop n xs"] assms(1) by simp
  then show "set (drop (n - j) (take n xs)) \<union> set (drop n xs) = set (drop (n - j) xs)" by simp
qed (use assms in \<open>simp add: take_rev min_absorb2\<close>)

text \<open>Retention keeps the newest archives. Without faults, a cleanup removes exactly the archives that are too old and, of the
  others, all after the newest \<open>k\<close>, where \<open>k\<close> is at most \<open>MaxFiles\<close> and the \<open>k\<close> archives with the current file take at most
  \<open>MaxTotalSize\<close> (unless none is left); every other file stays as it is.\<close>

theorem log_retention_bounds:
  assumes "log_no_faults env" "DiscoverArchives env opts d = Inr archives" "kept = fresh_archives opts now archives"
    and "current = (case map_of d (lg_Base opts) of None \<Rightarrow> 0 | Some e \<Rightarrow> if le_Regular e then int (length (le_Data e)) else 0)"
    and "lg_Base opts \<notin> ar_Name ` set archives"
  shows "sorted (map archive_rank kept) \<and> (\<exists>k \<le> length kept.
    (\<forall>name. map_of (snd (log_cleanup env now opts d)) name =
       (if name \<in> ar_Name ` (set (filter (too_old opts now) archives) \<union> set (drop k kept)) then None else map_of d name)) \<and>
    (0 < lg_MaxFiles opts \<longrightarrow> int k \<le> lg_MaxFiles opts) \<and>
    (0 < lg_MaxTotalSize opts \<longrightarrow> k = 0 \<or> current + sum_list (map ar_Size (take k kept)) \<le> lg_MaxTotalSize opts))"
proof
  show "sorted (map archive_rank kept)"
    using archives_sorted [OF assms(2)] unfolding assms(3) fresh_archives_def by (rule sorted_filter)
  define n where "n = keep_count opts kept"
  define d2 where "d2 = snd (remove_archives env (drop n kept) (snd (remove_archives env (filter (too_old opts now) archives) d)))"
  have d2: "map_of d2 name = (if name \<in> ar_Name ` (set (filter (too_old opts now) archives) \<union> set (drop n kept)) then None else map_of d name)" for name
    unfolding d2_def by (auto simp: remove_archives_map_of [OF assms(1)])
  have n: "n \<le> length kept" "0 < lg_MaxFiles opts \<longrightarrow> int n \<le> lg_MaxFiles opts" by (auto simp: n_def keep_count_def)
  show "\<exists>k \<le> length kept.
    (\<forall>name. map_of (snd (log_cleanup env now opts d)) name =
       (if name \<in> ar_Name ` (set (filter (too_old opts now) archives) \<union> set (drop k kept)) then None else map_of d name)) \<and>
    (0 < lg_MaxFiles opts \<longrightarrow> int k \<le> lg_MaxFiles opts) \<and>
    (0 < lg_MaxTotalSize opts \<longrightarrow> k = 0 \<or> current + sum_list (map ar_Size (take k kept)) \<le> lg_MaxTotalSize opts)"
  proof (cases "0 < lg_MaxTotalSize opts")
    case False
    then have "snd (log_cleanup env now opts d) = d2"
      using assms(2,3) by (simp add: log_cleanup_def d2_def n_def fresh_archives_def Let_def case_prod_beta)
    then show ?thesis using d2 n False by (intro exI [of _ n]) simp
  next
    case True
    let ?used = "current + sum_list (map ar_Size (take n kept))"
    have "set kept \<subseteq> set archives" by (auto simp: assms(3) fresh_archives_def)
    then have "map_of d2 (lg_Base opts) = map_of d (lg_Base opts)" using assms(5) by (subst d2) (auto dest: in_set_dropD)
    then have cur: "current_size env opts d2 = ([], current)" using assms(1,4) by (simp add: current_size_def log_no_faults_def)
    have clean: "snd (log_cleanup env now opts d) = snd (trim_total env (lg_MaxTotalSize opts) ?used (rev (take n kept)) d2)"
      using assms(2,3) True cur by (simp add: log_cleanup_def d2_def n_def fresh_archives_def Let_def case_prod_beta)
    obtain j where j: "j \<le> n" "\<And>name. map_of (snd (log_cleanup env now opts d)) name =
        (if name \<in> ar_Name ` set (take j (rev (take n kept))) then None else map_of d2 name)"
      "?used - sum_list (map ar_Size (take j (rev (take n kept)))) \<le> lg_MaxTotalSize opts \<or> j = n"
      using trim_total_prefix [OF assms(1), of "rev (take n kept)" "lg_MaxTotalSize opts" ?used d2] n(1) unfolding clean
      by (auto simp: min_absorb2)
    note parts = kept_parts [OF n(1) j(1)]
    show ?thesis
    proof (intro exI [of _ "n - j"] conjI allI impI)
      fix name
      show "map_of (snd (log_cleanup env now opts d)) name =
          (if name \<in> ar_Name ` (set (filter (too_old opts now) archives) \<union> set (drop (n - j) kept)) then None else map_of d name)"
        unfolding j(2) d2 parts(1) parts(3) [symmetric] by auto
      show "n - j = 0 \<or> current + sum_list (map ar_Size (take (n - j) kept)) \<le> lg_MaxTotalSize opts"
        using j(1,3) parts(2) [of ar_Size] unfolding parts(1) by (auto simp: rev_map [symmetric])
    qed (use n in auto)
  qed
qed

section \<open>Nothing that was written is lost\<close>

text \<open>C39: Rotation loses nothing and keeps the order: without faults of the operating system, after any writes at any times and before the
  archive worker runs, there are archives, all new, whose texts followed by that of the current file are the text of the file at the start
  and everything that was written, and no other file changed. The size that the writer tracks is exact, and is within the limit when the
  file was within it at the start and no single write is over it. (What the worker does to the archives is shown below.)\<close>

theorem rotation_loses_nothing:
  assumes "log_no_faults env" "writer_ok w d" "fold (write_log env) ws (w, d) = (w', d')"
  shows "(\<exists>names. distinct names \<and> (\<forall>n \<in> set names. map_of d n = None \<and> map_of d' n \<noteq> None) \<and>
      concat (map (\<lambda>n. entry_data n d') names) @ entry_data (lg_Base (rw_opts w)) d' = entry_data (lg_Base (rw_opts w)) d @ concat (map snd ws) \<and>
      (\<forall>n. n \<noteq> lg_Base (rw_opts w) \<and> n \<notin> set names \<longrightarrow> map_of d' n = map_of d n)) \<and>
    rw_size w' = int (length (entry_data (lg_Base (rw_opts w)) d')) \<and>
    ((\<forall>(now, p) \<in> set ws. int (length p) \<le> lg_MaxSizeBytes (rw_opts w)) \<and> rw_size w \<le> lg_MaxSizeBytes (rw_opts w) \<longrightarrow>
      rw_size w' \<le> lg_MaxSizeBytes (rw_opts w))"
proof (intro conjI)
  note ok = writes_ok [OF assms]
  show "\<exists>names. distinct names \<and> (\<forall>n \<in> set names. map_of d n = None \<and> map_of d' n \<noteq> None) \<and>
      concat (map (\<lambda>n. entry_data n d') names) @ entry_data (lg_Base (rw_opts w)) d' = entry_data (lg_Base (rw_opts w)) d @ concat (map snd ws) \<and>
      (\<forall>n. n \<noteq> lg_Base (rw_opts w) \<and> n \<notin> set names \<longrightarrow> map_of d' n = map_of d n)"
    using ok unfolding logged_def by blast
  show "rw_size w' = int (length (entry_data (lg_Base (rw_opts w)) d'))" using ok by (simp add: writer_ok_def)
qed (use writes_bounded [OF assms] in blast)

section \<open>Compression\<close>

lemma gz_names [simp]: "name @ ''.gz'' \<noteq> name" "name \<noteq> name @ ''.gz''"
  by simp_all

definition archive_kept :: "(string \<Rightarrow> string) \<Rightarrow> string \<Rightarrow> string \<Rightarrow> log_dir \<Rightarrow> bool" where
  "archive_kept gunzip name txt d \<longleftrightarrow>
     (\<exists>e. map_of d name = Some e \<and> le_Data e = txt) \<or> (\<exists>e. map_of d (name @ ''.gz'') = Some e \<and> gunzip (le_Data e) = txt)"

lemma remove_other: "n \<noteq> m \<Longrightarrow> map_of (remove_entry env n d) m = map_of d m"
  by (simp add: remove_entry_def delete_conv')

lemma gz_publish_keeps:
  assumes "map_of d name = Some e" "le_Data e = txt" "gunzip content = txt" "gz_temp env \<noteq> name"
  shows "archive_kept gunzip name txt (snd (gz_publish env name content now d))"
  unfolding gz_publish_def Let_def
  by (rule first_failure_holds)
    (use assms in \<open>auto simp: archive_kept_def update_conv' delete_conv' regular_file_def remove_other dest!: sym [of "Some _"]\<close>)

lemma gz_compress_keeps:
  assumes "map_of d name = Some e" "\<And>x. gunzip (lw_gzip env x) = x" "gz_temp env \<noteq> name"
  shows "archive_kept gunzip name (le_Data e) (snd (gz_compress env name now d))"
proof -
  have "archive_kept gunzip name (le_Data e) (AList.update (gz_temp env) f d)" for f using assms(1,3) by (simp add: archive_kept_def update_conv')
  moreover have "map_of (AList.update (gz_temp env) f d) name = Some e" for f using assms(1,3) by (simp add: update_conv')
  ultimately show ?thesis unfolding gz_compress_def Let_def
    by (intro first_failure_holds [where P = "\<lambda>r. archive_kept gunzip name (le_Data e) (snd r)"] gz_publish_keeps)
      (use assms in \<open>auto simp: archive_kept_def entry_data_def update_conv' remove_other dest!: sym [of "Some _"]\<close>)
qed

text \<open>Compression never loses an archive, whatever fails: its text is there as it was, or compressed.\<close>

theorem compression_keeps_archives:
  assumes "map_of d name = Some e" "\<And>x. gunzip (lw_gzip env x) = x" "gz_temp env \<noteq> name"
  shows "archive_kept gunzip name (le_Data e) (snd (gzipArchive env name now d))"
  using gz_compress_keeps [OF assms, of now] assms(1)
  by (auto simp: gzipArchive_def archive_kept_def split: option.split prod.splits)

section \<open>A writer that lost its file\<close>

text \<open>A failed rotation can leave the writer without an open file, and then no later call opens one: every write fails for good and
  nothing is written, also when the cause is gone.\<close>

theorem lost_file_is_permanent:
  assumes "rw_file w \<noteq> LogOpened" "log_no_faults env"
  shows "\<exists>e w'. rotating_Write env now p w d = ((0, Some e), w', d) \<and> rw_file w' \<noteq> LogOpened"
  using assms by (cases "rw_file w") (auto simp: rotating_Write_def rotate_def write_current_def)

theorem lost_file_is_permanent_witness:
  "\<exists>env env' w' d'. log_no_faults env' \<and>
     snd (rotating_Write env 0 ''b'' \<lparr>rw_opts = \<lparr>lg_Path = ''l/x.log'', lg_Dir = ''l'', lg_Base = ''x.log'', lg_MaxSizeBytes = 1, lg_MaxFiles = 0,
        lg_MaxAge = 0, lg_MaxTotalSize = 0, lg_Compress = False\<rparr>, rw_file = LogOpened, rw_size = 1, rw_openDate = localDate UTC 0,
        rw_sequence = 0, rw_closed = False\<rparr> [(''x.log'', regular_file ''a'' 0)]) = (w', d') \<and>
     (\<exists>e w''. rotating_Write env' 1 ''c'' w' d' = ((0, Some e), w'', d'))"
proof -
  let ?env = "\<lparr>lw_fault = \<lambda>op. if op = LogOpen then Some (PlainError ''disk full'') else None, lw_write = \<lambda>_. None, lw_gzip = id, lw_temp = [], lw_local = UTC\<rparr>"
  let ?env' = "\<lparr>lw_fault = \<lambda>op. None, lw_write = \<lambda>_. None, lw_gzip = id, lw_temp = [], lw_local = UTC\<rparr>"
  let ?w = "\<lparr>rw_opts = \<lparr>lg_Path = ''l/x.log'', lg_Dir = ''l'', lg_Base = ''x.log'', lg_MaxSizeBytes = 1, lg_MaxFiles = 0,
        lg_MaxAge = 0, lg_MaxTotalSize = 0, lg_Compress = False\<rparr>, rw_file = LogOpened, rw_size = 1, rw_openDate = localDate UTC 0,
        rw_sequence = 0, rw_closed = False\<rparr>"
  obtain r w' d' where step: "rotating_Write ?env 0 ''b'' ?w [(''x.log'', regular_file ''a'' 0)] = (r, w', d')"
    by (cases "rotating_Write ?env 0 ''b'' ?w [(''x.log'', regular_file ''a'' 0)]")
  then have "rw_file w' \<noteq> LogOpened"
    by (auto simp: rotating_Write_def needs_rotation_def rotate_def reopenCurrent_def nextArchiveName_def split: prod.splits sum.splits if_splits)
  moreover have env': "log_no_faults ?env'" by (simp add: log_no_faults_def)
  ultimately have "\<exists>e w''. rotating_Write ?env' 1 ''c'' w' d' = ((0, Some e), w'', d')" using lost_file_is_permanent by blast
  then show ?thesis using step env' by (metis snd_conv)
qed

section \<open>Witnesses\<close>

definition sample_log_env :: log_env where
  "sample_log_env = \<lparr>lw_fault = \<lambda>op. None, lw_write = \<lambda>_. None, lw_gzip = id, lw_temp = [], lw_local = UTC\<rparr>"

definition sample_log_options :: LogOptions where
  "sample_log_options = \<lparr>lg_Path = ''l/x.log'', lg_Dir = ''l'', lg_Base = ''x.log'', lg_MaxSizeBytes = 1, lg_MaxFiles = 1, lg_MaxAge = 0,
     lg_MaxTotalSize = 9, lg_Compress = False\<rparr>"

lemma sample_log_no_faults: "log_no_faults sample_log_env"
  by (simp add: log_no_faults_def sample_log_env_def)

definition sample_log_writer :: RotatingWriter where
  "sample_log_writer = \<lparr>rw_opts = sample_log_options, rw_file = LogOpened, rw_size = 1, rw_openDate = localDate UTC 0, rw_sequence = 0, rw_closed = False\<rparr>"

theorem rotation_loses_nothing_witness:
  "\<exists>names w' d'. fold (write_log sample_log_env) [(0, ''b''), (5, ''c'')] (sample_log_writer, [(''x.log'', regular_file ''a'' 0)]) = (w', d') \<and>
     concat (map (\<lambda>n. entry_data n d') names) @ entry_data ''x.log'' d' = ''abc'' \<and> rw_size w' \<le> 1"
proof -
  let ?d = "[(''x.log'', regular_file ''a'' 0)]"
  obtain w' d' where run: "fold (write_log sample_log_env) [(0, ''b''), (5, ''c'')] (sample_log_writer, ?d) = (w', d')" by fastforce
  have ok: "writer_ok sample_log_writer ?d" by (simp add: writer_ok_def sample_log_writer_def sample_log_options_def entry_data_def regular_file_def)
  have base: "lg_Base (rw_opts sample_log_writer) = ''x.log''" "lg_MaxSizeBytes (rw_opts sample_log_writer) = 1" "rw_size sample_log_writer = 1"
    "entry_data ''x.log'' ?d = ''a''"
    by (simp_all add: sample_log_writer_def sample_log_options_def entry_data_def regular_file_def)
  note R = rotation_loses_nothing [OF sample_log_no_faults ok run, unfolded base]
  have "rw_size w' \<le> 1" using R by simp
  moreover obtain names where "concat (map (\<lambda>n. entry_data n d') names) @ entry_data ''x.log'' d' = ''a'' @ concat (map snd [(0::gotime, ''b''), (5, ''c'')])"
    using R by blast
  ultimately show ?thesis using run by (intro exI conjI) simp_all
qed

definition sample_log_dir :: log_dir where
  "sample_log_dir = [(''x.20240102-030405.000000007.1.log'', regular_file ''old'' 0), (''x.20240102-030405.000000007.2.log'', regular_file ''new'' 0),
     (''x.log'', regular_file ''now'' 0), (''y.txt'', regular_file ''other'' 0)]"

lemma sample_discovered:
  obtains x y where "DiscoverArchives sample_log_env sample_log_options sample_log_dir = Inr [x, y]"
    "ar_Name x = ''x.20240102-030405.000000007.2.log''" "ar_Name y = ''x.20240102-030405.000000007.1.log''"
proof -
  have "(case DiscoverArchives sample_log_env sample_log_options sample_log_dir of
      Inr [x, y] \<Rightarrow> ar_Name x = ''x.20240102-030405.000000007.2.log'' \<and> ar_Name y = ''x.20240102-030405.000000007.1.log'' | _ \<Rightarrow> False)"
    by code_simp
  then show thesis using that by (simp split: sum.splits list.splits)
qed

theorem log_retention_bounds_witness:
  "map_of (snd (log_cleanup sample_log_env 5 sample_log_options sample_log_dir)) ''x.20240102-030405.000000007.1.log'' = None \<and>
   map_of (snd (log_cleanup sample_log_env 5 sample_log_options sample_log_dir)) ''y.txt'' = Some (regular_file ''other'' 0)"
proof -
  obtain x y where a: "DiscoverArchives sample_log_env sample_log_options sample_log_dir = Inr [x, y]"
    "ar_Name x = ''x.20240102-030405.000000007.2.log''" "ar_Name y = ''x.20240102-030405.000000007.1.log''"
    by (rule sample_discovered)
  have kept: "fresh_archives sample_log_options 5 [x, y] = [x, y]" by (simp add: fresh_archives_def too_old_def sample_log_options_def)
  have base: "lg_Base sample_log_options = ''x.log''" "lg_MaxFiles sample_log_options = 1" by (simp_all add: sample_log_options_def)
  have other: "lg_Base sample_log_options \<notin> ar_Name ` set [x, y]" using a by (simp add: base)
  obtain k where mx: "0 < lg_MaxFiles sample_log_options \<longrightarrow> int k \<le> lg_MaxFiles sample_log_options"
    and names: "\<forall>name. map_of (snd (log_cleanup sample_log_env 5 sample_log_options sample_log_dir)) name =
      (if name \<in> ar_Name ` (set (filter (too_old sample_log_options 5) [x, y]) \<union> set (drop k [x, y])) then None else map_of sample_log_dir name)"
    using log_retention_bounds [OF sample_log_no_faults a(1) kept [symmetric] refl other] by blast
  have k: "int k \<le> 1" "\<And>name. map_of (snd (log_cleanup sample_log_env 5 sample_log_options sample_log_dir)) name =
      (if name \<in> ar_Name ` (set (filter (too_old sample_log_options 5) [x, y]) \<union> set (drop k [x, y])) then None else map_of sample_log_dir name)"
    using mx names by (simp add: base, blast)
  have "y \<in> set (drop k [x, y])" using k(1) by (cases k) auto
  then have "''x.20240102-030405.000000007.1.log'' \<in> ar_Name ` (set (filter (too_old sample_log_options 5) [x, y]) \<union> set (drop k [x, y]))"
    using a(3) by (metis UnCI image_eqI)
  moreover have "''y.txt'' \<notin> ar_Name ` (set (filter (too_old sample_log_options 5) [x, y]) \<union> set (drop k [x, y]))"
  proof -
    have "ar_Name ` (set (filter (too_old sample_log_options 5) [x, y]) \<union> set (drop k [x, y])) \<subseteq> {ar_Name x, ar_Name y}"
      using set_drop_subset [of k "[x, y]"] by auto
    moreover have "''y.txt'' \<notin> {ar_Name x, ar_Name y}" unfolding a(2,3) by simp
    ultimately show ?thesis by blast
  qed
  ultimately show ?thesis unfolding k(2) by (simp add: sample_log_dir_def)
qed

text \<open>Archive names carry the local time without its offset, so the hour that repeats at the end of daylight saving time sorts wrongly: an
  archive made later has the name of an earlier time, and retention takes it for the older one.\<close>

definition sample_dst :: location where
  "sample_dst = \<lparr>loc_name = ''dst'', loc_lookup = (\<lambda>u. if u < 86400 then (3600, 0, 86400) else (0, 86400, 172800))\<rparr>"

theorem archives_misordered_over_dst:
  "\<exists>t1 t2 s1 s2. t1 < t2 \<and> parse_stamp sample_dst (log_stamp sample_dst t1) = Some s1 \<and> parse_stamp sample_dst (log_stamp sample_dst t2) = Some s2
     \<and> s2 < s1"
proof -
  have "parse_stamp sample_dst (log_stamp sample_dst 84600000000000) = Some 88200000000000"
    "parse_stamp sample_dst (log_stamp sample_dst 87000000000000) = Some 87000000000000" by code_simp+
  moreover have "(84600000000000 :: gotime) < 87000000000000" "(87000000000000 :: gotime) < 88200000000000" by simp_all
  ultimately show ?thesis by blast
qed

end
