(* ===== verification/Config_File.thy ===== *)
theory Config_File
  imports Config_Validate Sessions_Store Snapshot_Files
begin

text \<open>
  The configuration file (package \<open>internal/config\<close>, \<open>config.go\<close>: \<open>Load\<close>, \<open>ParseBytes\<close>, \<open>WriteValidatedFile\<close> and the detection of
  the older client format) and the redaction of its text (package \<open>internal/app\<close>, \<open>reload.go\<close>). The YAML library is a \<open>yaml_lib\<close>: reading a
  text into its nodes, decoding nodes, and writing. A node is its kind, tag, text and children.
\<close>

section \<open>YAML\<close>

datatype yaml_kind = DocumentNode | SequenceNode | MappingNode | ScalarNode | AliasNode

datatype ynode = YNode (y_Kind: yaml_kind) (y_Tag: string) (y_Value: string) (y_Content: "ynode list")

record legacyClientSpec =
  lc_Name :: string
  lc_Token :: string
  lc_Tag :: string
  lc_Quota :: ClientQuotaConfig

text \<open>
  Decoding the same document into the configuration and into the legacy types gives the same inbounds, so the clients of the legacy
  inbounds are given by index.
\<close>

record yaml_lib =
  yl_unmarshal :: "string \<Rightarrow> go_error + ynode"
  yl_decode :: "ynode \<Rightarrow> go_error + Config"
  yl_legacy :: "ynode \<Rightarrow> go_error + (nat \<Rightarrow> legacyClientSpec list)"
  yl_marshal :: "Config \<Rightarrow> go_error + string"
  yl_marshal_node :: "ynode \<Rightarrow> go_error + string"

record config_lib =
  cf_yaml :: yaml_lib
  cf_rnd :: "rat \<Rightarrow> rat"
  cf_loadLocation :: "string \<Rightarrow> location option"
  cf_timeError :: "string \<Rightarrow> string"
  cf_parseURL :: "string \<Rightarrow> string + string \<times> string"

fun mapping_pairs :: "string \<Rightarrow> ynode list \<Rightarrow> ynode option" where
  "mapping_pairs key (k # v # rest) = (if y_Value k = key then Some v else mapping_pairs key rest)"
| "mapping_pairs key _ = None"

definition mappingValue :: "ynode \<Rightarrow> string \<Rightarrow> ynode option" where
  "mappingValue node key = (if y_Kind node \<noteq> MappingNode then None else mapping_pairs key (y_Content node))"

datatype clientConfigFormat = clientConfigCanonical | clientConfigLegacy

definition client_bindings_of :: "ynode \<Rightarrow> ynode list" where
  "client_bindings_of rootnode =
     (case mappingValue rootnode ''inbounds'' of
        None \<Rightarrow> []
      | Some inbounds \<Rightarrow>
          if y_Kind inbounds \<noteq> SequenceNode then []
          else concat (map (\<lambda>inbound. case mappingValue inbound ''clients'' of
                                        None \<Rightarrow> []
                                      | Some b \<Rightarrow> if y_Kind b = SequenceNode then y_Content b else []) (y_Content inbounds)))"

definition detectClientConfigFormat :: "ynode \<Rightarrow> go_error + clientConfigFormat" where
  "detectClientConfigFormat document =
     (let rootnode = (if y_Kind document = DocumentNode \<and> y_Content document \<noteq> [] then hd (y_Content document) else document)
      in if y_Kind rootnode \<noteq> MappingNode then Inr clientConfigCanonical
         else
           (let bindings = client_bindings_of rootnode;
                hasTopLevelClients = (mappingValue rootnode ''clients'' \<noteq> None);
                hasCanonicalBindings = list_ex (\<lambda>b. mappingValue b ''ref'' \<noteq> None) bindings;
                hasLegacyBindings = list_ex (\<lambda>b. mappingValue b ''name'' \<noteq> None \<or> mappingValue b ''token'' \<noteq> None \<or> mappingValue b ''quota'' \<noteq> None) bindings
            in if hasLegacyBindings \<and> (hasTopLevelClients \<or> hasCanonicalBindings)
               then Inl (PlainError ''mixed canonical and legacy client configuration is not supported'')
               else if hasLegacyBindings then Inr clientConfigLegacy
               else Inr clientConfigCanonical))"

section \<open>Parsing\<close>

text \<open>The clients of the legacy inbounds become clients and bindings.\<close>

definition from_legacy :: "(nat \<Rightarrow> legacyClientSpec list) \<Rightarrow> Config \<Rightarrow> Config" where
  "from_legacy legacy cfg =
     (let n = length (cfg_Inbounds cfg)
      in cfg\<lparr>cfg_Clients := cfg_Clients cfg @
               concat (map (\<lambda>i. map (\<lambda>c. \<lparr>cl_Name = lc_Name c, cl_Token = lc_Token c, cl_Quota = lc_Quota c\<rparr>) (legacy i)) [0..<n]),
             cfg_Inbounds := map (\<lambda>i. (cfg_Inbounds cfg ! i)\<lparr>in_Clients := map (\<lambda>c. \<lparr>cb_Ref = lc_Name c, cb_Tag = lc_Tag c\<rparr>) (legacy i)\<rparr>) [0..<n]\<rparr>)"

definition decode_config :: "config_lib \<Rightarrow> string \<Rightarrow> go_error + Config" where
  "decode_config lib content =
     (case yl_unmarshal (cf_yaml lib) content of
        Inl e \<Rightarrow> Inl (wrap_error ''unmarshal config'' e)
      | Inr document \<Rightarrow>
          (case detectClientConfigFormat document of
             Inl e \<Rightarrow> Inl e
           | Inr format \<Rightarrow>
               (case yl_decode (cf_yaml lib) document of
                  Inl e \<Rightarrow> Inl (wrap_error ''unmarshal config'' e)
                | Inr cfg \<Rightarrow>
                    if format = clientConfigLegacy
                    then (case yl_legacy (cf_yaml lib) document of
                            Inl e \<Rightarrow> Inl (wrap_error ''unmarshal config'' e)
                          | Inr legacy \<Rightarrow> Inr (from_legacy legacy cfg))
                    else Inr cfg)))"

definition ParseBytes :: "config_lib \<Rightarrow> string \<Rightarrow> go_error + Config" where
  "ParseBytes lib content =
     (case decode_config lib content of
        Inl e \<Rightarrow> Inl e
      | Inr cfg \<Rightarrow>
          (case Validate (cf_rnd lib) (cf_loadLocation lib) (cf_timeError lib) (cf_parseURL lib) (applyDefaults cfg) of
             (Some message, _) \<Rightarrow> Inl (PlainError message)
           | (None, valid) \<Rightarrow> Inr valid))"

section \<open>Files\<close>

text \<open>The files are a table by path; \<open>cv_temp\<close> is the part of a temporary name that the system chooses.\<close>

type_synonym config_files = "(string \<times> string) list"

datatype config_op = CfgRead string | CfgMkdir string | CfgTemp string | CfgChmod | CfgTempClose | CfgRename string | CfgRemove string
  | CfgWrite string | CfgReadDir string

record config_env =
  cv_lib :: config_lib
  cv_fault :: "config_op \<Rightarrow> go_error option"
  cv_write :: "string \<Rightarrow> (nat \<times> go_error) option"
  cv_temp :: string

abbreviation file_missing where "file_missing \<equiv> PlainError ''no such file or directory''"

definition ReadFile :: "config_env \<Rightarrow> string \<Rightarrow> config_files \<Rightarrow> go_error + string" where
  "ReadFile env path fs =
     (case cv_fault env (CfgRead path) of
        Some e \<Rightarrow> Inl e
      | None \<Rightarrow> (case map_of fs path of None \<Rightarrow> Inl file_missing | Some content \<Rightarrow> Inr content))"

definition config_Load :: "config_env \<Rightarrow> string \<Rightarrow> config_files \<Rightarrow> go_error + Config" where
  "config_Load env path fs =
     (case ReadFile env path fs of Inl e \<Rightarrow> Inl (wrap_error ''read config'' e) | Inr content \<Rightarrow> ParseBytes (cv_lib env) content)"

definition config_temp :: "config_env \<Rightarrow> string \<Rightarrow> string" where
  "config_temp env path = path @ ''.'' @ cv_temp env @ ''.tmp''"

definition drop_temp :: "config_env \<Rightarrow> string \<Rightarrow> config_files \<Rightarrow> config_files" where
  "drop_temp env path fs =
     (if cv_fault env (CfgRemove (config_temp env path)) = None then AList.delete (config_temp env path) fs else fs)"

definition WriteValidatedFile :: "config_env \<Rightarrow> string \<Rightarrow> string \<Rightarrow> config_files \<Rightarrow> go_error option \<times> config_files" where
  "WriteValidatedFile env path content fs =
     (case ParseBytes (cv_lib env) content of
        Inl e \<Rightarrow> (Some e, fs)
      | Inr _ \<Rightarrow>
          if path = [] then (Some (PlainError ''config path is required''), fs)
          else
            (let temp = (\<lambda>c. AList.update (config_temp env path) c fs);
                 left = (\<lambda>context fs e. (Some (wrap_error context e), fs))
             in first_failure
                  [(cv_fault env (CfgMkdir path), left ''create config dir'' fs),
                   (cv_fault env (CfgTemp path), left ''create temp config'' fs)]
                  (case cv_write env content of
                     Some (k, e) \<Rightarrow> left ''write temp config'' (drop_temp env path (temp (take k content))) e
                   | None \<Rightarrow>
                       first_failure
                         [(cv_fault env CfgChmod, left ''chmod temp config'' (drop_temp env path (temp content))),
                          (cv_fault env CfgTempClose, left ''close temp config'' (drop_temp env path (temp content))),
                          (cv_fault env (CfgRename path), left ''replace config'' (drop_temp env path (temp content)))]
                         (None, AList.update path content (AList.delete (config_temp env path) (temp content))))))"

section \<open>Replacing the file\<close>

text \<open>
  The contract of a file that is replaced as a whole by a validated text: a write without an error puts the text there, and the text is
  valid; a write with an error leaves the file as it was; no file but the target and the scratch file is touched.
\<close>

locale validated_slot =
  fixes put :: "'e \<Rightarrow> string \<Rightarrow> string \<Rightarrow> config_files \<Rightarrow> go_error option \<times> config_files"
    and valid :: "'e \<Rightarrow> string \<Rightarrow> bool"
    and scratch :: "'e \<Rightarrow> string \<Rightarrow> string"
  assumes put_ok: "fst (put e p c fs) = None \<Longrightarrow> valid e c \<and> map_of (snd (put e p c fs)) p = Some c"
    and put_failed: "fst (put e p c fs) = Some x \<Longrightarrow> map_of (snd (put e p c fs)) p = map_of fs p"
    and put_other: "q \<noteq> p \<Longrightarrow> q \<noteq> scratch e p \<Longrightarrow> map_of (snd (put e p c fs)) q = map_of fs q"
begin

lemma put_either: "map_of (snd (put e p c fs)) p = map_of fs p \<or> valid e c \<and> map_of (snd (put e p c fs)) p = Some c"
  by (cases "fst (put e p c fs)") (auto dest: put_ok put_failed)

lemma puts_keep_valid:
  assumes "\<And>e. valid e = good" and "\<exists>c. map_of fs p = Some c \<and> good c"
  shows "\<exists>c. map_of (fold (\<lambda>(e, c) fs. snd (put e p c fs)) ws fs) p = Some c \<and> good c"
  using assms(2)
proof (induction ws arbitrary: fs)
  case (Cons w ws)
  obtain e c where w: "w = (e, c)" by (cases w)
  have "\<exists>c'. map_of (snd (put e p c fs)) p = Some c' \<and> good c'" using Cons.prems put_either [of e p c fs] assms(1) [of e] by auto
  then show ?case using Cons.IH w by simp
qed simp

end

lemma config_temp_other [simp]: "config_temp env p \<noteq> p" "p \<noteq> config_temp env p"
  by (auto simp: config_temp_def)

lemma drop_temp_other: "q \<noteq> config_temp env p \<Longrightarrow> map_of (drop_temp env p fs) q = map_of fs q"
  by (simp add: drop_temp_def delete_conv')

lemma first_failure_step: "first_failure ((x, left) # calls) r = (case x of Some e \<Rightarrow> left e | None \<Rightarrow> first_failure calls r)"
  by (cases x) simp_all

lemmas write_defs = WriteValidatedFile_def Let_def first_failure_step update_conv' delete_conv' drop_temp_other

interpretation config_slot: validated_slot WriteValidatedFile "\<lambda>env c. \<exists>cfg. ParseBytes (cv_lib env) c = Inr cfg" config_temp
proof
  fix e p c fs
  assume "fst (WriteValidatedFile e p c fs) = None"
  then show "(\<exists>cfg. ParseBytes (cv_lib e) c = Inr cfg) \<and> map_of (snd (WriteValidatedFile e p c fs)) p = Some c"
    by (auto simp: write_defs split: sum.splits if_splits option.splits)
next
  fix e p c fs x
  assume "fst (WriteValidatedFile e p c fs) = Some x"
  then show "map_of (snd (WriteValidatedFile e p c fs)) p = map_of fs p"
    by (auto simp: write_defs split: sum.splits if_splits option.splits)
next
  fix e p c fs q
  assume "q \<noteq> p" "q \<noteq> config_temp e p"
  then show "map_of (snd (WriteValidatedFile e p c fs)) q = map_of fs q"
    by (auto simp: write_defs split: sum.splits option.splits)
qed

section \<open>Redaction\<close>

definition isSensitiveConfigKey :: "string \<Rightarrow> bool" where
  "isSensitiveConfigKey key =
     (let normalized = map (\<lambda>c. if c = CHR ''-'' then CHR ''_'' else c) (lower_text (TrimSpace key))
      in normalized \<in> {''token'', ''auth_token'', ''admin_token'', ''api_key'', ''secret''}
         \<or> HasSuffix normalized ''_secret'' \<or> HasSuffix normalized ''_token'')"

fun redactYAMLNode :: "ynode \<Rightarrow> ynode" and redact_pairs :: "ynode list \<Rightarrow> ynode list" and redact_list :: "ynode list \<Rightarrow> ynode list" where
  "redactYAMLNode (YNode kind tag val content) =
     YNode kind tag val (if kind = MappingNode then redact_pairs content else redact_list content)"
| "redact_pairs (k # v # rest) =
     k # (if isSensitiveConfigKey (y_Value k) then YNode ScalarNode ''!!str'' RedactedValue [] else redactYAMLNode v) # redact_pairs rest"
| "redact_pairs xs = xs"
| "redact_list [] = []"
| "redact_list (x # xs) = redactYAMLNode x # redact_list xs"

definition redactedConfigYAML :: "yaml_lib \<Rightarrow> string \<Rightarrow> go_error + string" where
  "redactedConfigYAML lib content =
     (case yl_unmarshal lib content of
        Inl e \<Rightarrow> Inl e
      | Inr document \<Rightarrow> yl_marshal_node lib (redactYAMLNode document))"

end
