(* ===== verification/App_Runtime.thy ===== *)
theory App_Runtime
  imports Gateway Provider_Clients Quota_Snapshot Sessions_Snapshot Local_File Config_File
begin

text \<open>
  The application (package \<open>internal/app\<close>, \<open>app.go\<close>): the providers of the enabled outbounds, the router, the trackers and the
  dispatcher built from a configuration, the listeners, and the start and end of the process. What a provider instance does when it is
  called is the parameter \<open>be_provider\<close>, from the instance to the results of its calls.
\<close>

section \<open>Providers\<close>

datatype provider_instance =
    RegistryInstance provider_value
  | ClaudeInstance Anthropic_provider
  | CodexInstance string credential_source

text \<open>
  \<open>be_source\<close> is the credential source of the OAuth manager for a reference and a provider, \<open>None\<close> when there is no manager;
  \<open>be_parseURL\<close> is \<open>url.Parse\<close>, to an error or the scheme and the host; \<open>be_provider\<close> makes the calls of an instance over the proxy
  of its HTTP client, if any; \<open>be_builtIn\<close> is the table of built-in prices.
\<close>

record build_env =
  be_parseHost :: "string \<Rightarrow> string option"
  be_source :: "string \<Rightarrow> string \<Rightarrow> credential_source option"
  be_parseURL :: "string \<Rightarrow> go_error + string \<times> string"
  be_provider :: "provider_instance \<Rightarrow> string option \<Rightarrow> CompletionProvider"
  be_builtIn :: "AccountingPriceConfig list"
  be_quota :: quota_env
  be_rnd :: "rat \<Rightarrow> rat"
  be_loadLocation :: "string \<Rightarrow> location option"
  be_now :: gotime

text \<open>The client is its proxy; \<open>None\<close> is the client of the provider package.\<close>

definition NewHTTPClient :: "build_env \<Rightarrow> string \<Rightarrow> go_error + string option" where
  "NewHTTPClient env proxy =
     (let proxyURL = TrimSpace proxy
      in if proxyURL = [] then Inr None
         else case be_parseURL env proxyURL of
                Inl e \<Rightarrow> Inl (wrap_error ''parse proxy url'' e)
              | Inr (scheme, host) \<Rightarrow>
                  if host = [] then Inl (PlainError ''proxy url host is required'')
                  else if scheme \<notin> {''http'', ''https'', ''socks5''}
                  then Inl (PlainError (''proxy url scheme '' @ quoted scheme @ '' is unsupported''))
                  else Inr (Some proxyURL))"

definition newProviderInstance :: "build_env \<Rightarrow> FactoryRegistry \<Rightarrow> OutboundSpec \<Rightarrow> go_error + provider_instance" where
  "newProviderInstance env registry spec =
     (let typ = au_Type (ob_Auth spec)
      in if typ = [] then
           map_sum id RegistryInstance (factory_New (ob_Protocol spec) (ob_Name spec) (ob_Endpoint spec) (ob_AuthToken spec) (ob_Capabilities spec) registry)
         else if typ = ''claude_consumer_oauth'' then
           (case be_source env (au_CredentialRef (ob_Auth spec)) ''claude'' of
              None \<Rightarrow> Inl (PlainError (''oauth manager is required for outbound '' @ quoted (ob_Name spec)))
            | Some source \<Rightarrow>
                Inr (ClaudeInstance (NewAnthropicMessagesOAuthCompatible (ob_Name spec) ''https://api.anthropic.com/v1'' (Some source) (ob_Capabilities spec))))
         else if typ = ''codex_consumer_oauth'' then
           (case be_source env (au_CredentialRef (ob_Auth spec)) ''codex'' of
              None \<Rightarrow> Inl (PlainError (''oauth manager is required for outbound '' @ quoted (ob_Name spec)))
            | Some source \<Rightarrow> Inr (CodexInstance (ob_Name spec) source))
         else Inl (PlainError (''outbound '' @ quoted (ob_Name spec) @ '' has unsupported auth type '' @ quoted typ)))"

definition enabledOutbounds :: "Config \<Rightarrow> OutboundSpec list" where
  "enabledOutbounds cfg = filter OutboundEnabled (cfg_Outbounds cfg)"

definition hasQuotaConfig :: "OutboundSpec list \<Rightarrow> ClientSpec list \<Rightarrow> bool" where
  "hasQuotaConfig outbounds clients \<longleftrightarrow>
     list_ex (\<lambda>x. oq_Enabled (ob_Quota x)) outbounds \<or> list_ex (\<lambda>c. cq_Enabled (cl_Quota c)) clients"

fun build_providers ::
  "build_env \<Rightarrow> FactoryRegistry \<Rightarrow> OutboundSpec list \<Rightarrow> (string \<times> CompletionProvider) list \<Rightarrow> go_error + (string \<times> CompletionProvider) list" where
  "build_providers env registry [] providers = Inr providers"
| "build_providers env registry (spec # specs) providers =
     (if \<not> OutboundEnabled spec then build_providers env registry specs providers
      else case NewHTTPClient env (ob_ProxyURL spec) of
             Inl e \<Rightarrow> Inl (wrap_error (''create outbound '' @ quoted (ob_Name spec) @ '' http client'') e)
           | Inr client \<Rightarrow>
               (case newProviderInstance env registry spec of
                  Inl e \<Rightarrow> Inl e
                | Inr x \<Rightarrow> build_providers env registry specs (AList.update (ob_Name spec) (be_provider env x client) providers)))"

section \<open>The runtime\<close>

text \<open>The trackers live in the dispatcher, which shares them; the snapshot store is told by whether there is one.\<close>

record appRuntime =
  ar_router :: Router
  ar_dispatcher :: Dispatcher
  ar_snapshotStore :: "QuotaSnapshotStore option"

definition router_error_text :: "router_error \<Rightarrow> go_error" where
  "router_error_text e =
     (case e of
        OutboundNotFound n \<Rightarrow> PlainError (''outbound '' @ quoted n @ '' not found'')
      | UnknownOutboundTag n tag \<Rightarrow> PlainError (''routing rule '' @ quoted n @ '' references unknown outbound tag '' @ quoted tag))"

definition tracker_or_new :: "build_env \<Rightarrow> Tracker option \<Rightarrow> Tracker option" where
  "tracker_or_new env t = (case t of None \<Rightarrow> Some (newTrackerFromOutbounds (be_loadLocation env) []) | Some x \<Rightarrow> Some x)"

definition client_tracker_or_new :: "build_env \<Rightarrow> Tracker option \<Rightarrow> Tracker option" where
  "client_tracker_or_new env t = (case t of None \<Rightarrow> Some (newTrackerFromClients (be_loadLocation env) []) | Some x \<Rightarrow> Some x)"

definition ReconfigureOutbounds :: "build_env \<Rightarrow> OutboundSpec list \<Rightarrow> Tracker option \<Rightarrow> bool \<times> Tracker option" where
  "ReconfigureOutbounds env outbounds t = Reconfigure (be_loadLocation env) (outboundConfigs (be_rnd env) outbounds) t"

definition ReconfigureClientSpecs :: "build_env \<Rightarrow> ClientSpec list \<Rightarrow> Tracker option \<Rightarrow> bool \<times> Tracker option" where
  "ReconfigureClientSpecs env clients t = ReconfigureClients (be_loadLocation env) (clientConfigs (be_rnd env) clients) t"

text \<open>\<open>None\<close> is the panic of a snapshot store with a flush interval that is not positive.\<close>

definition build_snapshot_store ::
  "build_env \<Rightarrow> (nat \<Rightarrow> gotime) \<Rightarrow> bool \<Rightarrow> Config \<Rightarrow> Tracker option \<Rightarrow> Tracker option \<Rightarrow> snap_files \<Rightarrow> (go_error + QuotaSnapshotStore option) option" where
  "build_snapshot_store env clk load cfg ot ct fs =
     (if hasQuotaConfig (enabledOutbounds cfg) (cfg_Clients cfg)
      then newQuotaSnapshotStore (be_quota env) (be_rnd env) clk (cfg_Governance cfg) ot ct load fs
      else Some (Inr None))"

definition build_dispatcher :: "build_env \<Rightarrow> MemoryStore \<Rightarrow> Config \<Rightarrow> Tracker option \<Rightarrow> Tracker option \<Rightarrow> Dispatcher" where
  "build_dispatcher env store cfg ot ct =
     NewDispatcher (be_now env) (Some store) ot ct (newHealthTracker (map ob_Name (enabledOutbounds cfg)) 0)
       (NewEventRecorder (cfg_Governance cfg)) (Some (NewStore 200)) (NewPriceCalculator (be_builtIn env) (ac_Pricing (cfg_Accounting cfg)))"

definition buildRuntimeWithTrackersAndOAuth ::
  "build_env \<Rightarrow> (nat \<Rightarrow> gotime) \<Rightarrow> Config \<Rightarrow> MemoryStore \<Rightarrow> Tracker option \<Rightarrow> Tracker option \<Rightarrow> bool \<Rightarrow> snap_files \<Rightarrow> (go_error + appRuntime) option" where
  "buildRuntimeWithTrackersAndOAuth env clk cfg store outboundTracker clientTracker loadSnapshot fs =
     (case newDefaultFactoryRegistry (be_parseHost env) of
        None \<Rightarrow> None
      | Some registry \<Rightarrow>
      case build_providers env registry (cfg_Outbounds cfg) [] of
        Inl e \<Rightarrow> Some (Inl e)
      | Inr providers \<Rightarrow>
      case router_New (cfg_Rules cfg) (map_of providers) (cfg_Outbounds cfg) of
        Inl e \<Rightarrow> Some (Inl (router_error_text e))
      | Inr r \<Rightarrow>
          (let ot0 = tracker_or_new env outboundTracker; ct0 = client_tracker_or_new env clientTracker;
               ot = (if loadSnapshot then snd (ReconfigureOutbounds env (enabledOutbounds cfg) ot0) else ot0);
               ct = (if loadSnapshot then snd (ReconfigureClientSpecs env (cfg_Clients cfg) ct0) else ct0)
           in case build_snapshot_store env clk loadSnapshot cfg ot ct fs of
                None \<Rightarrow> None
              | Some (Inl e) \<Rightarrow> Some (Inl e)
              | Some (Inr None) \<Rightarrow>
                  Some (Inr \<lparr>ar_router = r, ar_dispatcher = build_dispatcher env store cfg ot ct, ar_snapshotStore = None\<rparr>)
              | Some (Inr (Some s)) \<Rightarrow>
                  Some (Inr \<lparr>ar_router = r, ar_dispatcher = build_dispatcher env store cfg (qsn_outboundTracker s) (qsn_clientTracker s),
                             ar_snapshotStore = Some s\<rparr>)))"

definition normalizedListeners :: "Config \<Rightarrow> ListenerSpec list" where
  "normalizedListeners cfg =
     (if cfg_Listeners cfg \<noteq> [] then cfg_Listeners cfg
      else [\<lparr>ls_Name = ''default'', ls_Listen = cfg_ServerListen cfg, ls_Inbounds = map in_Name (cfg_Inbounds cfg)\<rparr>])"

text \<open>The part of a handler's state that \<open>ApplyRuntime\<close> replaces, less the router and the dispatcher, which all handlers share.\<close>

record RuntimeState =
  rs_Clients :: "ClientSpec list"
  rs_Inbounds :: "InboundSpec list"
  rs_Accounting :: AccountingConfig
  rs_Admin :: AdminConfig
  rs_ConfigPath :: string

definition normalizeAdminConfig :: "AdminConfig \<Rightarrow> AdminConfig" where
  "normalizeAdminConfig cfg =
     (let logs = adm_Logs cfg
      in cfg\<lparr>adm_Logs := logs\<lparr>alog_Path := (if alog_Path logs = [] then ''tmp/dev.log'' else alog_Path logs),
                               alog_MaxBytes := (if alog_MaxBytes logs \<le> 0 then 64 * 1024 else alog_MaxBytes logs)\<rparr>\<rparr>)"

definition listener_state :: "Config \<Rightarrow> string \<Rightarrow> ListenerSpec \<Rightarrow> RuntimeState" where
  "listener_state cfg configPath l =
     \<lparr>rs_Clients = cfg_Clients cfg, rs_Inbounds = ListenerInbounds cfg l, rs_Accounting = cfg_Accounting cfg, rs_Admin = normalizeAdminConfig (cfg_Admin cfg),
      rs_ConfigPath = configPath\<rparr>"

definition buildListeners :: "Config \<Rightarrow> string \<Rightarrow> (ListenerSpec \<times> RuntimeState) list" where
  "buildListeners cfg configPath = map (\<lambda>l. (l, listener_state cfg configPath l)) (normalizedListeners cfg)"

section \<open>The process\<close>

datatype accounting_store = MemoryBackend MemoryStore | LocalFileBackend LocalFileStore

definition store_memory :: "accounting_store \<Rightarrow> MemoryStore" where
  "store_memory s = (case s of MemoryBackend m \<Rightarrow> m | LocalFileBackend l \<Rightarrow> lf_memory l)"

definition newAccountingStore :: "lf_env \<Rightarrow> (rat \<Rightarrow> rat) \<Rightarrow> gotime \<Rightarrow> AccountingConfig \<Rightarrow> lf_disk \<Rightarrow> go_error + accounting_store" where
  "newAccountingStore env rnd now cfg disk =
     (let backend = (if ac_Backend cfg = [] then ''memory'' else ac_Backend cfg)
      in if backend = ''memory'' then Inr (MemoryBackend (newMemoryStore now True))
         else if backend = ''local_file'' then
           (case NewLocalFileStore env rnd now (ac_LocalFile cfg) disk of
              Inl e \<Rightarrow> Inl (wrap_error ''create accounting local_file store'' e)
            | Inr s \<Rightarrow> Inr (LocalFileBackend s))
         else Inl (PlainError (''unsupported accounting backend '' @ quoted backend)))"

text \<open>
  The directories of quota snapshots are a table by path; a store has the files of its own. \<open>close_store\<close> is the final save of a store
  that shares the trackers given. A nil store does nothing.
\<close>

type_synonym quota_dirs = "string \<Rightarrow> snap_files"

definition close_store ::
  "build_env \<Rightarrow> (nat \<Rightarrow> gotime) \<Rightarrow> Tracker option \<Rightarrow> Tracker option \<Rightarrow> QuotaSnapshotStore option \<Rightarrow> quota_dirs \<Rightarrow>
     go_error option \<times> Tracker option \<times> Tracker option \<times> quota_dirs" where
  "close_store env clk ot ct store dirs =
     (case store of
        None \<Rightarrow> (None, ot, ct, dirs)
      | Some s \<Rightarrow>
          (case quota_Close (be_quota env) clk None (s\<lparr>qsn_outboundTracker := ot, qsn_clientTracker := ct, qsn_files := dirs (qsn_dir s)\<rparr>) of
             (e, s1) \<Rightarrow> (e, qsn_outboundTracker s1, qsn_clientTracker s1, dirs(qsn_dir s := qsn_files s1))))"

text \<open>
  \<open>ae_oauthStore\<close> is the error of opening the directory of credentials. What an accounting store writes when it is closed is in
  the theory of that store.
\<close>

record app_env =
  ae_build :: build_env
  ae_clk :: "nat \<Rightarrow> gotime"
  ae_lf :: lf_env
  ae_disk :: lf_disk
  ae_oauthStore :: "string \<Rightarrow> go_error option"
  ae_sessions :: session_env
  ae_sessionFiles :: snap_files
  ae_lock :: lock_env
  ae_fd :: nat

record App =
  app_store :: accounting_store
  app_runtime :: appRuntime
  app_sessionSnapshot :: "SessionSnapshotStore option"
  app_lock :: "nat option"
  app_cfg :: Config
  app_configPath :: string
  app_bindings :: "(ListenerSpec \<times> RuntimeState) list"

definition session_snapshot_config :: "Config \<Rightarrow> SessionSnapshotConfig" where
  "session_snapshot_config cfg =
     (let s = cfg_SessionSnapshot cfg
      in s\<lparr>ssc_Dir := (if ssc_Dir s = [] then ''./data/sessions'' else ssc_Dir s),
           ssc_FlushInterval := (if ssc_FlushInterval s = [] then ''5s'' else ssc_FlushInterval s)\<rparr>)"

definition buildRuntimeWithOAuth :: "app_env \<Rightarrow> Config \<Rightarrow> accounting_store \<Rightarrow> quota_dirs \<Rightarrow> (go_error + appRuntime) option" where
  "buildRuntimeWithOAuth env cfg store dirs =
     (let b = ae_build env
      in buildRuntimeWithTrackersAndOAuth b (ae_clk env) cfg (store_memory store) (Some (newTrackerFromOutbounds (be_loadLocation b) []))
           (Some (newTrackerFromClients (be_loadLocation b) [])) True (dirs (gov_SnapshotDir (cfg_Governance cfg))))"

text \<open>A start that fails after the runtime was built closes the quota snapshot store, which saves it.\<close>

definition abandon :: "app_env \<Rightarrow> appRuntime \<Rightarrow> quota_dirs \<Rightarrow> quota_dirs" where
  "abandon env r dirs =
     (let d = ar_dispatcher r
      in snd (snd (snd (close_store (ae_build env) (ae_clk env) (d_quotaTracker d) (d_clientQuotaTracker d) (ar_snapshotStore r) dirs))))"

text \<open>\<open>k\<close> is the table of locks of the machine. \<open>None\<close> is a panic.\<close>

definition NewWithOptions :: "app_env \<Rightarrow> Config \<Rightarrow> string \<Rightarrow> lock_os \<Rightarrow> quota_dirs \<Rightarrow> ((go_error + App) \<times> lock_os \<times> quota_dirs) option" where
  "NewWithOptions env cfg configPath k dirs =
     (case newAccountingStore (ae_lf env) (be_rnd (ae_build env)) (be_now (ae_build env)) (cfg_Accounting cfg) (ae_disk env) of
        Inl e \<Rightarrow> Some (Inl e, k, dirs)
      | Inr store \<Rightarrow>
      case ae_oauthStore env (if cfg_OAuthDir cfg = [] then ''./data/oauth'' else cfg_OAuthDir cfg) of
        Some e \<Rightarrow> Some (Inl e, k, dirs)
      | None \<Rightarrow>
      case buildRuntimeWithOAuth env cfg store dirs of
        None \<Rightarrow> None
      | Some (Inl e) \<Rightarrow> Some (Inl e, k, dirs)
      | Some (Inr r) \<Rightarrow>
          (let snapshot = session_snapshot_config cfg
           in case (if EnabledEffective snapshot then AcquireInstanceLock (ae_lock env) (ssc_Dir snapshot) (ae_fd env) k else (Inr None, k)) of
                (Inl e, k1) \<Rightarrow> Some (Inl (wrap_error ''acquire session instance lock'' e), k1, abandon env r dirs)
              | (Inr lock, k1) \<Rightarrow>
                  (case NewSessionSnapshotStore (ae_sessions env) (ae_clk env 9)
                          \<lparr>snc_Enabled = EnabledEffective snapshot, snc_Dir = ssc_Dir snapshot,
                           snc_FlushInterval = DurationValue_Duration (be_rnd (ae_build env)) (ssc_FlushInterval snapshot)\<rparr>
                          (Some NewSessionStore) (ae_sessionFiles env) of
                     Inl e \<Rightarrow>
                       Some (Inl (wrap_error ''create session snapshot store'' e), snd (snd (lock_Close (ae_lock env) lock k1)), abandon env r dirs)
                   | Inr sessions \<Rightarrow>
                       Some (Inr \<lparr>app_store = store, app_runtime = r, app_sessionSnapshot = sessions, app_lock = lock, app_cfg = cfg,
                                  app_configPath = configPath, app_bindings = buildListeners cfg configPath\<rparr>, k1, dirs))))"

text \<open>
  The end: the errors of the reaper and of the accounting store are parameters; the first error is reported, and every part is closed
  whatever the others report.
\<close>

definition first_close_error :: "go_error option list \<Rightarrow> go_error option" where
  "first_close_error es = (case filter (\<lambda>e. e \<noteq> None) es of [] \<Rightarrow> None | e # _ \<Rightarrow> e)"

definition app_Close ::
  "app_env \<Rightarrow> go_error option \<Rightarrow> go_error option \<Rightarrow> App \<Rightarrow> lock_os \<Rightarrow> quota_dirs \<Rightarrow> go_error option \<times> App \<times> lock_os \<times> quota_dirs" where
  "app_Close env reaperErr storeErr a k dirs =
     (case (case app_sessionSnapshot a of
              None \<Rightarrow> (None, None)
            | Some s \<Rightarrow> map_prod id Some (session_Close (ae_sessions env) (ae_clk env 9) None s)) of (e1, sessions) \<Rightarrow>
      case lock_Close (ae_lock env) (app_lock a) k of (e2, lock, k1) \<Rightarrow>
      case (let d = ar_dispatcher (app_runtime a)
            in close_store (ae_build env) (ae_clk env) (d_quotaTracker d) (d_clientQuotaTracker d) (ar_snapshotStore (app_runtime a)) dirs)
        of (e3, ot, ct, dirs1) \<Rightarrow>
        (first_close_error [reaperErr, e1, e2, storeErr, e3],
         a\<lparr>app_sessionSnapshot := sessions, app_lock := lock,
           app_runtime := (app_runtime a)\<lparr>ar_dispatcher := (ar_dispatcher (app_runtime a))\<lparr>d_quotaTracker := ot, d_clientQuotaTracker := ct\<rparr>,
                                              ar_snapshotStore := map_option (\<lambda>s. s\<lparr>qsn_closed := True\<rparr>) (ar_snapshotStore (app_runtime a))\<rparr>\<rparr>,
         k1, dirs1))"

end
