(* ===== verification/Config_Reload.thy ===== *)
theory Config_Reload
  imports App_Runtime Log_Rotate
begin

text \<open>
  The reload manager (package \<open>internal/app\<close>, \<open>reload.go\<close>): applying, mutating, updating and rolling back the configuration file
  while the process runs, which changes need a restart, and the history of configurations.

  A call holds the manager's lock, so it is one step. SHA-256, the JSON of history items and the failures of the file system are
  parameters in a \<open>reload_env\<close>. All handlers share the router, the dispatcher and the trackers of \<open>rm_runtime\<close>. An operation that
  panics is \<open>None\<close>.
\<close>

section \<open>State\<close>

definition configHistoryLimit :: nat where "configHistoryLimit = 20"

record ReloadResult =
  rr_OK :: bool
  rr_Saved :: bool
  rr_Applied :: bool
  rr_RestartRequired :: bool
  rr_Reason :: string
  rr_HistoryID :: string
  rr_QuotaStateReset :: bool

record HistoryItem =
  hi_ID :: string
  hi_CreatedAt :: string
  hi_Reason :: string
  hi_Path :: string
  hi_Checksum :: string

record gateway_HistoryItem =
  gh_ID :: string
  gh_CreatedAt :: string
  gh_Reason :: string
  gh_Checksum :: string

record HistoryDiff =
  df_ID :: string
  df_CurrentContent :: string
  df_HistoryContent :: string

record ConfigUpdateResult =
  cu_Saved :: bool
  cu_Applied :: bool
  cu_Revision :: string
  cu_Checksum :: string

text \<open>The errors the handlers tell apart, and all others.\<close>

datatype admin_error =
    AdminFailure go_error
  | ConfigRevisionConflict string
  | BindingTagLastSource string string string string "string list"
  | RouteOrderConflict string

type_synonym ConfigMutation = "Config \<Rightarrow> admin_error + Config"

record ReloadManager =
  rm_configPath :: string
  rm_historyDir :: string
  rm_files :: config_files
  rm_cfg :: Config
  rm_runtime :: appRuntime
  rm_bindings :: "RuntimeState list"
  rm_quotaDirs :: quota_dirs

text \<open>\<open>rl_part\<close> says how much of a file a failing \<open>os.WriteFile\<close> leaves, \<open>None\<close> when the file is as it was.\<close>

record reload_env =
  rl_config :: config_env
  rl_build :: build_env
  rl_clk :: "nat \<Rightarrow> gotime"
  rl_now :: gotime
  rl_sha :: "string \<Rightarrow> string"
  rl_encode_item :: "HistoryItem \<Rightarrow> go_error + string"
  rl_decode_item :: "string \<Rightarrow> go_error + HistoryItem"
  rl_part :: "string \<Rightarrow> nat option"

definition no_result :: ReloadResult where
  "no_result = \<lparr>rr_OK = False, rr_Saved = False, rr_Applied = False, rr_RestartRequired = False, rr_Reason = [], rr_HistoryID = [],
     rr_QuotaStateReset = False\<rparr>"

definition configRevision :: "reload_env \<Rightarrow> string \<Rightarrow> string" where
  "configRevision env content = ''sha256:'' @ rl_sha env content"

section \<open>Changes that need a restart\<close>

definition effectiveOAuthDir :: "string \<Rightarrow> string" where
  "effectiveOAuthDir dir = (if dir = [] then ''./data/oauth'' else dir)"

definition effectiveSessionSnapshotConfig :: "SessionSnapshotConfig \<Rightarrow> SessionSnapshotConfig" where
  "effectiveSessionSnapshotConfig s =
     s\<lparr>ssc_Dir := (if ssc_Dir s = [] then ''./data/sessions'' else ssc_Dir s),
       ssc_FlushInterval := (if ssc_FlushInterval s = [] then ''5s'' else ssc_FlushInterval s)\<rparr>"

definition effectiveAdminLogsConfig :: "AdminLogsConfig \<Rightarrow> AdminLogsConfig" where
  "effectiveAdminLogsConfig logs =
     (let r = alog_Rotation logs
      in logs\<lparr>alog_Path := (if alog_Path logs = [] then ''tmp/dev.log'' else alog_Path logs),
              alog_Rotation := r\<lparr>rot_MaxSizeMB := (if rot_MaxSizeMB r = 0 then 100 else rot_MaxSizeMB r),
                                 rot_MaxFiles := (if rot_MaxFiles r = 0 then 20 else rot_MaxFiles r),
                                 rot_MaxAgeDays := (if rot_MaxAgeDays r = 0 then 14 else rot_MaxAgeDays r),
                                 rot_MaxTotalSizeMB := (if rot_MaxTotalSizeMB r = 0 then 1024 else rot_MaxTotalSizeMB r)\<rparr>\<rparr>)"

definition loggingConfigurationChanged :: "AdminLogsConfig \<Rightarrow> AdminLogsConfig \<Rightarrow> bool" where
  "loggingConfigurationChanged current nxt =
     (let c = effectiveAdminLogsConfig current; n = effectiveAdminLogsConfig nxt; cr = alog_Rotation c; nr = alog_Rotation n
      in alog_Path c \<noteq> alog_Path n \<or> rot_MaxSizeMB cr \<noteq> rot_MaxSizeMB nr \<or> rot_MaxFiles cr \<noteq> rot_MaxFiles nr
         \<or> rot_MaxAgeDays cr \<noteq> rot_MaxAgeDays nr \<or> rot_MaxTotalSizeMB cr \<noteq> rot_MaxTotalSizeMB nr
         \<or> CompressionEnabled cr \<noteq> CompressionEnabled nr)"

fun listeners_changed :: "ListenerSpec list \<Rightarrow> ListenerSpec list \<Rightarrow> string" where
  "listeners_changed (c # cs) (n # ns) =
     (if ls_Name c \<noteq> ls_Name n then ''listener name changed''
      else if ls_Listen c \<noteq> ls_Listen n then ''listener listen address changed''
      else if Join (ls_Inbounds c) [CHR 0x00] \<noteq> Join (ls_Inbounds n) [CHR 0x00] then ''listener inbound binding changed''
      else listeners_changed cs ns)"
| "listeners_changed _ _ = []"

definition restartRequiredReason :: "(rat \<Rightarrow> rat) \<Rightarrow> Config \<Rightarrow> Config \<Rightarrow> string" where
  "restartRequiredReason rnd current nxt =
     (let cs = effectiveSessionSnapshotConfig (cfg_SessionSnapshot current); ns = effectiveSessionSnapshotConfig (cfg_SessionSnapshot nxt);
          cl = normalizedListeners current; nl = normalizedListeners nxt
      in if effectiveOAuthDir (cfg_OAuthDir current) \<noteq> effectiveOAuthDir (cfg_OAuthDir nxt) then ''OAuth credential directory changed''
         else if EnabledEffective cs \<noteq> EnabledEffective ns \<or> ssc_Dir cs \<noteq> ssc_Dir ns
           \<or> DurationValue_Duration rnd (ssc_FlushInterval cs) \<noteq> DurationValue_Duration rnd (ssc_FlushInterval ns)
         then ''session snapshot configuration changed''
         else if length cl \<noteq> length nl then ''listener count changed''
         else if listeners_changed cl nl \<noteq> [] then listeners_changed cl nl
         else if loggingConfigurationChanged (adm_Logs (cfg_Admin current)) (adm_Logs (cfg_Admin nxt)) then ''logging configuration changed''
         else [])"

section \<open>History\<close>

definition write_file :: "reload_env \<Rightarrow> string \<Rightarrow> string \<Rightarrow> config_files \<Rightarrow> go_error option \<times> config_files" where
  "write_file env path content fs =
     (case cv_fault (rl_config env) (CfgWrite path) of
        None \<Rightarrow> (None, AList.update path content fs)
      | Some e \<Rightarrow> (Some e, case rl_part env path of None \<Rightarrow> fs | Some k \<Rightarrow> AList.update path (take k content) fs))"

definition remove_file :: "reload_env \<Rightarrow> string \<Rightarrow> config_files \<Rightarrow> config_files" where
  "remove_file env path fs = (if cv_fault (rl_config env) (CfgRemove path) = None then AList.delete path fs else fs)"

definition dir_entries :: "string \<Rightarrow> config_files \<Rightarrow> string list" where
  "dir_entries dir fs =
     sort (List.map_filter (\<lambda>(p, _). if HasPrefix p (dir @ ''/'') \<and> CHR ''/'' \<notin> set (drop (length dir + 1) p)
                                     then Some (drop (length dir + 1) p) else None) fs)"

fun read_items :: "reload_env \<Rightarrow> string \<Rightarrow> config_files \<Rightarrow> string list \<Rightarrow> go_error + HistoryItem list" where
  "read_items env dir fs [] = Inr []"
| "read_items env dir fs (name # names) =
     (if \<not> HasSuffix name ''.json'' then read_items env dir fs names
      else case ReadFile (rl_config env) (dir @ ''/'' @ name) fs of
             Inl e \<Rightarrow> Inl e
           | Inr content \<Rightarrow>
               (case rl_decode_item env content of
                  Inl e \<Rightarrow> Inl e
                | Inr item \<Rightarrow> (case read_items env dir fs names of Inl e \<Rightarrow> Inl e | Inr items \<Rightarrow> Inr (item # items))))"

text \<open>
  Newest first by the text of \<open>CreatedAt\<close>. Items with the same text keep the order of the directory, as \<open>sort.Slice\<close> leaves them
  where it sorts by insertion (up to twelve items); for more items the order of such items is not specified.
\<close>

definition newest_first :: "HistoryItem list \<Rightarrow> HistoryItem list" where
  "newest_first items = rev (sort_key hi_CreatedAt (rev items))"

definition history_List :: "reload_env \<Rightarrow> string \<Rightarrow> config_files \<Rightarrow> go_error + HistoryItem list" where
  "history_List env dir fs =
     (case cv_fault (rl_config env) (CfgReadDir dir) of
        Some e \<Rightarrow> Inl e
      | None \<Rightarrow> map_sum id newest_first (read_items env dir fs (dir_entries dir fs)))"

definition history_Read :: "reload_env \<Rightarrow> string \<Rightarrow> string \<Rightarrow> config_files \<Rightarrow> go_error + (string \<times> HistoryItem)" where
  "history_Read env dir i fs =
     (case history_List env dir fs of
        Inl e \<Rightarrow> Inl e
      | Inr items \<Rightarrow>
          (let wanted = (if i = [] \<and> items \<noteq> [] then hi_ID (hd items) else i)
           in case find (\<lambda>item. hi_ID item = wanted) items of
                None \<Rightarrow> Inl (PlainError (''history item '' @ quoted wanted @ '' not found''))
              | Some item \<Rightarrow>
                  (case ReadFile (rl_config env) (hi_Path item) fs of Inl e \<Rightarrow> Inl e | Inr content \<Rightarrow> Inr (content, item))))"

definition history_Prune :: "reload_env \<Rightarrow> string \<Rightarrow> nat \<Rightarrow> config_files \<Rightarrow> go_error option \<times> config_files" where
  "history_Prune env dir limit fs =
     (case history_List env dir fs of
        Inl e \<Rightarrow> (Some e, fs)
      | Inr items \<Rightarrow>
          (None, fold (\<lambda>item fs. remove_file env (dir @ ''/'' @ hi_ID item @ ''.json'') (remove_file env (hi_Path item) fs)) (drop limit items) fs))"

definition history_id :: "reload_env \<Rightarrow> string \<Rightarrow> string" where
  "history_id env content = log_stamp UTC (rl_now env) @ ''-'' @ take 8 (rl_sha env content)"

definition history_SaveBytes :: "reload_env \<Rightarrow> string \<Rightarrow> string \<Rightarrow> string \<Rightarrow> config_files \<Rightarrow> (go_error + string) \<times> config_files" where
  "history_SaveBytes env dir content reason fs =
     (case cv_fault (rl_config env) (CfgMkdir dir) of
        Some e \<Rightarrow> (Inl (wrap_error ''create config history dir'' e), fs)
      | None \<Rightarrow>
          (let i = history_id env content; yamlPath = dir @ ''/'' @ i @ ''.yaml''; metaPath = dir @ ''/'' @ i @ ''.json''
           in case write_file env yamlPath content fs of
                (Some e, fs1) \<Rightarrow> (Inl (wrap_error ''write config history'' e), fs1)
              | (None, fs1) \<Rightarrow>
                  (case rl_encode_item env \<lparr>hi_ID = i, hi_CreatedAt = format_RFC3339Nano (rl_now env), hi_Reason = reason, hi_Path = yamlPath,
                                            hi_Checksum = rl_sha env content\<rparr> of
                     Inl e \<Rightarrow> (Inl e, fs1)
                   | Inr meta \<Rightarrow>
                       (case write_file env metaPath meta fs1 of
                          (Some e, fs2) \<Rightarrow> (Inl (wrap_error ''write config history metadata'' e), fs2)
                        | (None, fs2) \<Rightarrow>
                            (case history_Prune env dir configHistoryLimit fs2 of
                               (Some e, fs3) \<Rightarrow> (Inl e, fs3)
                             | (None, fs3) \<Rightarrow> (Inr i, fs3))))))"

definition history_Save :: "reload_env \<Rightarrow> string \<Rightarrow> string \<Rightarrow> string \<Rightarrow> config_files \<Rightarrow> (go_error + string) \<times> config_files" where
  "history_Save env dir sourcePath reason fs =
     (case ReadFile (rl_config env) sourcePath fs of
        Inl e \<Rightarrow> (Inl (wrap_error ''read config for history'' e), fs)
      | Inr content \<Rightarrow> history_SaveBytes env dir content reason fs)"

definition history_SaveConfig :: "reload_env \<Rightarrow> string \<Rightarrow> Config \<Rightarrow> string \<Rightarrow> config_files \<Rightarrow> (go_error + string) \<times> config_files" where
  "history_SaveConfig env dir cfg reason fs =
     (case yl_marshal (cf_yaml (cv_lib (rl_config env))) cfg of
        Inl e \<Rightarrow> (Inl e, fs)
      | Inr content \<Rightarrow> history_SaveBytes env dir content reason fs)"

section \<open>Applying\<close>

abbreviation reload_parse :: "reload_env \<Rightarrow> string \<Rightarrow> go_error + Config" where
  "reload_parse env \<equiv> ParseBytes (cv_lib (rl_config env))"

abbreviation reload_rnd :: "reload_env \<Rightarrow> rat \<Rightarrow> rat" where
  "reload_rnd env \<equiv> cf_rnd (cv_lib (rl_config env))"

text \<open>The dispatcher and the snapshot store share the trackers, so both see their new state.\<close>

definition with_trackers :: "Tracker option \<Rightarrow> Tracker option \<Rightarrow> appRuntime \<Rightarrow> appRuntime" where
  "with_trackers ot ct r =
     r\<lparr>ar_dispatcher := (ar_dispatcher r)\<lparr>d_quotaTracker := ot, d_clientQuotaTracker := ct\<rparr>,
       ar_snapshotStore := map_option (\<lambda>s. s\<lparr>qsn_outboundTracker := ot, qsn_clientTracker := ct\<rparr>) (ar_snapshotStore r)\<rparr>"

text \<open>Closing a snapshot store exports the shared trackers, which brings them up to date.\<close>

definition close_quota :: "reload_env \<Rightarrow> QuotaSnapshotStore option \<Rightarrow> ReloadManager \<Rightarrow> ReloadManager" where
  "close_quota env store m =
     (let d = ar_dispatcher (rm_runtime m)
      in case close_store (rl_build env) (rl_clk env) (d_quotaTracker d) (d_clientQuotaTracker d) store (rm_quotaDirs m) of
           (_, ot, ct, dirs) \<Rightarrow> m\<lparr>rm_runtime := with_trackers ot ct (rm_runtime m), rm_quotaDirs := dirs\<rparr>)"

definition applyRuntimeLocked :: "reload_env \<Rightarrow> Config \<Rightarrow> appRuntime \<Rightarrow> ReloadManager \<Rightarrow> (bool \<times> ReloadManager) option" where
  "applyRuntimeLocked env nxt r m =
     (case ReconfigureOutbounds (rl_build env) (enabledOutbounds nxt) (d_quotaTracker (ar_dispatcher r)) of (c1, ot) \<Rightarrow>
      case ReconfigureClientSpecs (rl_build env) (cfg_Clients nxt) (d_clientQuotaTracker (ar_dispatcher r)) of (c2, ct) \<Rightarrow>
        (let listeners = normalizedListeners nxt
         in if length (rm_bindings m) > length listeners then None
            else Some (c2 \<or> c1,
              close_quota env (ar_snapshotStore (rm_runtime m))
                (m\<lparr>rm_cfg := nxt, rm_runtime := with_trackers ot ct r,
                   rm_bindings := map (listener_state nxt (rm_configPath m)) (take (length (rm_bindings m)) listeners)\<rparr>))))"

definition rebuild :: "reload_env \<Rightarrow> Config \<Rightarrow> ReloadManager \<Rightarrow> (go_error + appRuntime) option" where
  "rebuild env nxt m =
     (let d = ar_dispatcher (rm_runtime m)
      in buildRuntimeWithTrackersAndOAuth (rl_build env) (rl_clk env) nxt (d_store d) (d_quotaTracker d) (d_clientQuotaTracker d) False
           (rm_quotaDirs m (gov_SnapshotDir (cfg_Governance nxt))))"

type_synonym reload_outcome = "((admin_error + ReloadResult) \<times> ReloadResult \<times> ReloadManager) option"

text \<open>An outcome is the error or the result, and the result that accompanies an error.\<close>

definition failed :: "go_error \<Rightarrow> ReloadManager \<Rightarrow> reload_outcome" where
  "failed e m = Some (Inl (AdminFailure e), no_result, m)"

definition answered :: "ReloadResult \<Rightarrow> ReloadManager \<Rightarrow> reload_outcome" where
  "answered r m = Some (Inr r, r, m)"

definition applyConfigLocked :: "reload_env \<Rightarrow> string \<Rightarrow> ReloadManager \<Rightarrow> reload_outcome" where
  "applyConfigLocked env reason m =
     (if rm_configPath m = [] then failed (PlainError ''config path is not configured'') m
      else case ReadFile (rl_config env) (rm_configPath m) (rm_files m) of
        Inl e \<Rightarrow> failed (wrap_error ''read config'' e) m
      | Inr content \<Rightarrow>
      case reload_parse env content of
        Inl e \<Rightarrow> failed e m
      | Inr nxt \<Rightarrow>
          (let restart = restartRequiredReason (reload_rnd env) (rm_cfg m) nxt
           in if restart \<noteq> [] then answered (no_result\<lparr>rr_OK := True, rr_RestartRequired := True, rr_Reason := restart\<rparr>) m
              else case rebuild env nxt m of
                     None \<Rightarrow> None
                   | Some (Inl e) \<Rightarrow> failed e m
                   | Some (Inr r) \<Rightarrow>
                       (case history_SaveConfig env (rm_historyDir m) (rm_cfg m) reason (rm_files m) of
                          (Inl e, fs) \<Rightarrow> failed e (close_quota env (ar_snapshotStore r) (m\<lparr>rm_files := fs\<rparr>))
                        | (Inr historyID, fs) \<Rightarrow>
                            (case applyRuntimeLocked env nxt r (m\<lparr>rm_files := fs\<rparr>) of
                               None \<Rightarrow> None
                             | Some (reset, m') \<Rightarrow>
                                 answered (no_result\<lparr>rr_OK := True, rr_Applied := True, rr_Reason := reason, rr_HistoryID := historyID,
                                   rr_QuotaStateReset := reset\<rparr>) m'))))"

definition ApplyConfig :: "reload_env \<Rightarrow> ReloadManager \<Rightarrow> reload_outcome" where
  "ApplyConfig env m = applyConfigLocked env ''apply'' m"

section \<open>Mutating\<close>

text \<open>The part of a mutation after the new configuration has been parsed.\<close>

definition store_mutation :: "reload_env \<Rightarrow> string \<Rightarrow> string \<Rightarrow> string \<Rightarrow> Config \<Rightarrow> ReloadManager \<Rightarrow> reload_outcome" where
  "store_mutation env reason currentData nextData nxt m =
     (let restart = restartRequiredReason (reload_rnd env) (rm_cfg m) nxt
      in if restart \<noteq> []
         then Some (Inl (AdminFailure (PlainError (''config mutation requires restart: '' @ restart))),
                    no_result\<lparr>rr_RestartRequired := True, rr_Reason := restart\<rparr>, m)
         else case rebuild env nxt m of
                None \<Rightarrow> None
              | Some (Inl e) \<Rightarrow> failed e m
              | Some (Inr r) \<Rightarrow>
                  (case history_SaveBytes env (rm_historyDir m) currentData reason (rm_files m) of
                     (Inl e, fs) \<Rightarrow> failed e (close_quota env (ar_snapshotStore r) (m\<lparr>rm_files := fs\<rparr>))
                   | (Inr historyID, fs) \<Rightarrow>
                       (case WriteValidatedFile (rl_config env) (rm_configPath m) nextData fs of
                          (Some e, fs1) \<Rightarrow> failed e (close_quota env (ar_snapshotStore r) (m\<lparr>rm_files := fs1\<rparr>))
                        | (None, fs1) \<Rightarrow>
                            (case applyRuntimeLocked env nxt r (m\<lparr>rm_files := fs1\<rparr>) of
                               None \<Rightarrow> None
                             | Some (reset, m') \<Rightarrow>
                                 answered (no_result\<lparr>rr_OK := True, rr_Saved := True, rr_Applied := True, rr_Reason := reason,
                                   rr_HistoryID := historyID, rr_QuotaStateReset := reset\<rparr>) m'))))"

definition MutateConfig :: "reload_env \<Rightarrow> string \<Rightarrow> ConfigMutation option \<Rightarrow> ReloadManager \<Rightarrow> reload_outcome" where
  "MutateConfig env reason mutate m =
     (if rm_configPath m = [] then failed (PlainError ''config path is not configured'') m
      else case mutate of
        None \<Rightarrow> failed (PlainError ''config mutation is required'') m
      | Some f \<Rightarrow>
      case ReadFile (rl_config env) (rm_configPath m) (rm_files m) of
        Inl e \<Rightarrow> failed (wrap_error ''read config'' e) m
      | Inr currentData \<Rightarrow>
      case reload_parse env currentData of
        Inl e \<Rightarrow> failed e m
      | Inr current \<Rightarrow>
          (let pending = restartRequiredReason (reload_rnd env) (rm_cfg m) current
           in if pending \<noteq> []
              then Some (Inl (AdminFailure (PlainError (''config has pending restart-required change: '' @ pending))),
                         no_result\<lparr>rr_RestartRequired := True, rr_Reason := pending\<rparr>, m)
              else case f current of
                     Inl e \<Rightarrow> Some (Inl e, no_result, m)
                   | Inr edited \<Rightarrow>
                       (case yl_marshal (cf_yaml (cv_lib (rl_config env))) edited of
                          Inl e \<Rightarrow> failed (wrap_error ''marshal config'' e) m
                        | Inr nextData \<Rightarrow>
                            (case reload_parse env nextData of
                               Inl e \<Rightarrow> failed e m
                             | Inr nxt \<Rightarrow> store_mutation env reason currentData nextData nxt m))))"

definition revision_matches :: "reload_env \<Rightarrow> string \<Rightarrow> string \<Rightarrow> bool" where
  "revision_matches env expectedRevision current \<longleftrightarrow>
     expectedRevision = ''*'' \<or> TrimSpace expectedRevision = configRevision env current"

definition UpdateConfig :: "reload_env \<Rightarrow> string \<Rightarrow> string \<Rightarrow> ReloadManager \<Rightarrow> (admin_error + ConfigUpdateResult) \<times> ReloadManager" where
  "UpdateConfig env expectedRevision content m =
     (if rm_configPath m = [] then (Inl (AdminFailure (PlainError ''config path is not configured'')), m)
      else case ReadFile (rl_config env) (rm_configPath m) (rm_files m) of
        Inl e \<Rightarrow> (Inl (AdminFailure (wrap_error ''read current config'' e)), m)
      | Inr current \<Rightarrow>
          if \<not> revision_matches env expectedRevision current
          then (Inl (ConfigRevisionConflict (configRevision env current)), m)
          else case reload_parse env content of
                 Inl e \<Rightarrow> (Inl (AdminFailure e), m)
               | Inr _ \<Rightarrow>
                   (case WriteValidatedFile (rl_config env) (rm_configPath m) content (rm_files m) of
                      (Some e, fs) \<Rightarrow> (Inl (AdminFailure e), m\<lparr>rm_files := fs\<rparr>)
                    | (None, fs) \<Rightarrow>
                        (Inr \<lparr>cu_Saved = True, cu_Applied = False, cu_Revision = configRevision env content, cu_Checksum = rl_sha env content\<rparr>,
                         m\<lparr>rm_files := fs\<rparr>)))"

section \<open>History and rollback\<close>

definition History :: "reload_env \<Rightarrow> ReloadManager \<Rightarrow> gateway_HistoryItem list" where
  "History env m =
     (case history_List env (rm_historyDir m) (rm_files m) of
        Inl _ \<Rightarrow> []
      | Inr items \<Rightarrow>
          map (\<lambda>i. \<lparr>gh_ID = hi_ID i, gh_CreatedAt = hi_CreatedAt i, gh_Reason = hi_Reason i, gh_Checksum = hi_Checksum i\<rparr>) items)"

definition history_Diff :: "reload_env \<Rightarrow> string \<Rightarrow> ReloadManager \<Rightarrow> go_error + HistoryDiff" where
  "history_Diff env i m =
     (if rm_configPath m = [] then Inl (PlainError ''config path is not configured'')
      else case ReadFile (rl_config env) (rm_configPath m) (rm_files m) of
        Inl e \<Rightarrow> Inl (wrap_error ''read current config'' e)
      | Inr current \<Rightarrow>
      case history_Read env (rm_historyDir m) (TrimSpace i) (rm_files m) of
        Inl e \<Rightarrow> Inl e
      | Inr (old, item) \<Rightarrow>
      case redactedConfigYAML (cf_yaml (cv_lib (rl_config env))) current of
        Inl e \<Rightarrow> Inl (wrap_error ''parse current config'' e)
      | Inr currentContent \<Rightarrow>
      case redactedConfigYAML (cf_yaml (cv_lib (rl_config env))) old of
        Inl e \<Rightarrow> Inl (wrap_error ''parse history config'' e)
      | Inr historyContent \<Rightarrow> Inr \<lparr>df_ID = hi_ID item, df_CurrentContent = currentContent, df_HistoryContent = historyContent\<rparr>)"

text \<open>
  \<open>env2\<close> is the environment of the second half: the clock and the faults have moved on. When the old text does not apply, the text
  before the rollback is written back.
\<close>

definition rollback_apply :: "reload_env \<Rightarrow> string \<Rightarrow> string \<Rightarrow> ReloadManager \<Rightarrow> reload_outcome" where
  "rollback_apply env2 current i m =
     (case applyConfigLocked env2 (''rollback_'' @ i) m of
        None \<Rightarrow> None
      | Some (Inr r, x, m') \<Rightarrow> Some (Inr r, x, m')
      | Some (Inl e, x, m') \<Rightarrow>
          Some (Inl e, x, m'\<lparr>rm_files := snd (WriteValidatedFile (rl_config env2) (rm_configPath m') current (rm_files m'))\<rparr>))"

definition rollback_to :: "reload_env \<Rightarrow> reload_env \<Rightarrow> string \<Rightarrow> string \<Rightarrow> string \<Rightarrow> ReloadManager \<Rightarrow> reload_outcome" where
  "rollback_to env env2 old current i m =
     (case history_SaveBytes env (rm_historyDir m) current (''rollback_before_'' @ i) (rm_files m) of
        (Inl e, fs) \<Rightarrow> failed e (m\<lparr>rm_files := fs\<rparr>)
      | (Inr _, fs) \<Rightarrow>
      case WriteValidatedFile (rl_config env) (rm_configPath m) old fs of
        (Some e, fs1) \<Rightarrow> failed e (m\<lparr>rm_files := fs1\<rparr>)
      | (None, fs1) \<Rightarrow> rollback_apply env2 current i (m\<lparr>rm_files := fs1\<rparr>))"

definition Rollback :: "reload_env \<Rightarrow> reload_env \<Rightarrow> string \<Rightarrow> ReloadManager \<Rightarrow> reload_outcome" where
  "Rollback env env2 i m =
     (if rm_configPath m = [] then failed (PlainError ''config path is not configured'') m
      else case history_Read env (rm_historyDir m) i (rm_files m) of
        Inl e \<Rightarrow> failed e m
      | Inr (old, item) \<Rightarrow>
      case reload_parse env old of
        Inl e \<Rightarrow> failed e m
      | Inr _ \<Rightarrow>
      case ReadFile (rl_config env) (rm_configPath m) (rm_files m) of
        Inl e \<Rightarrow> failed (wrap_error ''read current config'' e) m
      | Inr current \<Rightarrow> rollback_to env env2 old current (hi_ID item) m)"

end
