(* ===== verification/Admin_Config.thy ===== *)
theory Admin_Config
  imports Config_Reload
begin

text \<open>
  The administration of the configuration over HTTP (package \<open>internal/gateway\<close>, \<open>admin_config_resources.go\<close>, \<open>admin_ui.go\<close> and the
  validation and update of \<open>handler.go\<close>). A handler runs on the reload manager; its own runtime state is one of the manager's bindings.
  A reply is its status and what its JSON object holds. The overriding fields \<open>h.admin\<close> and \<open>h.configPath\<close> of a handler, which no
  constructor sets, are not in the model. A handler that panics is \<open>None\<close>.
\<close>

section \<open>Requests and replies\<close>

record providerResourceRequest =
  prq_Name :: string
  prq_Protocol :: string
  prq_Endpoint :: string
  prq_AuthToken :: string
  prq_Auth :: OutboundAuthConfig
  prq_Tag :: string
  prq_Enabled :: "bool option"
  prq_Models :: "OutboundModelSpec list"
  prq_Capabilities :: OutboundCapabilities
  prq_Quota :: OutboundQuotaConfig
  prq_ProxyURL :: string

record setProviderEnabledRequest =
  seq_Name :: string
  seq_Enabled :: bool

record clientResourceRequest =
  crq_Name :: string
  crq_Token :: string
  crq_Quota :: ClientQuotaConfig

record clientBindingRequest =
  bnq_Inbound :: string
  bnq_Ref :: string
  bnq_Tag :: string

record deleteClientBindingRequest =
  dbq_Inbound :: string
  dbq_Ref :: string

record routeResourceRequest =
  rtq_Name :: string
  rtq_FromTags :: "string list"
  rtq_ToTags :: "string list"
  rtq_Strategy :: string
  rtq_Weights :: "(string \<times> int) list"
  rtq_TargetModel :: string
  rtq_ModelMap :: "(string \<times> string) list"
  rtq_Match :: "string list option"

record reorderRoutesRequest =
  roq_FromIndex :: int
  roq_ToIndex :: int
  roq_ExpectedRevision :: string

record routeDryRunRequest =
  drq_Inbound :: string
  drq_Client :: string
  drq_Model :: string
  drq_Stream :: bool

record providerResourceResponse =
  prp_Name :: string
  prp_Protocol :: string
  prp_Endpoint :: string
  prp_AuthToken :: string
  prp_Auth :: OutboundAuthConfig
  prp_Tag :: string
  prp_Enabled :: bool
  prp_Models :: "OutboundModelSpec list"
  prp_Capabilities :: OutboundCapabilities
  prp_Quota :: OutboundQuotaConfig
  prp_ProxyURL :: string

record clientBindingResourceResponse =
  cbp_Inbound :: string
  cbp_InboundProtocol :: string
  cbp_InboundPath :: string
  cbp_Ref :: string
  cbp_Tag :: string

record clientResourceResponse =
  crp_Name :: string
  crp_Token :: string
  crp_Quota :: ClientQuotaConfig
  crp_Bindings :: "clientBindingResourceResponse list"

record routeDryRunStep =
  drs_Index :: nat
  drs_OutboundName :: string
  drs_OutboundProtocol :: string
  drs_Model :: string
  drs_OnError :: string

record routeDryRunResponse =
  drp_Inbound :: string
  drp_InboundProtocol :: string
  drp_Client :: string
  drp_ActiveTag :: string
  drp_RequestedModel :: string
  drp_MatchedRule :: string
  drp_Strategy :: string
  drp_ResolvedToTags :: "string list"
  drp_Steps :: "routeDryRunStep list"

record config_options =
  op_path :: string
  op_inbounds :: "InboundSpec list"
  op_outbounds :: "(string \<times> string \<times> string) list"
  op_client_tags :: "string list"
  op_outbound_tags :: "string list"

text \<open>\<open>writeError\<close>, \<open>{"ok": false, "error": ...}\<close>, the answers to changes, and the listings.\<close>

datatype admin_reply =
    ErrorReply int string
  | FailureReply int string
  | MutationErrorReply ReloadResult string "(string \<times> string \<times> string \<times> string \<times> string list) option"
  | RouteOrderConflictReply string
  | IfMatchRequiredReply
  | RevisionConflictReply string
  | ResultReply ReloadResult
  | UpdatedReply ConfigUpdateResult
  | ValidReply
  | SessionReply bool string
  | ConfigTextReply "(string \<times> string \<times> string) option"
  | OptionsReply config_options
  | ProvidersReply "providerResourceResponse list"
  | ClientsReply "clientResourceResponse list"
  | RoutesReply "RoutingRule list" string
  | HistoryReply "gateway_HistoryItem list"
  | DiffReply HistoryDiff
  | DryRunReply routeDryRunResponse

fun reply_status :: "admin_reply \<Rightarrow> int" where
  "reply_status (ErrorReply s _) = s"
| "reply_status (FailureReply s _) = s"
| "reply_status (MutationErrorReply _ _ _) = 400"
| "reply_status (RouteOrderConflictReply _) = 409"
| "reply_status IfMatchRequiredReply = 428"
| "reply_status (RevisionConflictReply _) = 409"
| "reply_status _ = 200"

text \<open>
  The decoders are \<open>encoding/json\<close> on the body limited by \<open>http.MaxBytesReader\<close>: an error, or the value and whether the body ends
  after it. Those of the dry run and of the rollback take an empty body for an empty object. \<open>ad_readErr\<close> is the text of a failed
  read, \<open>ad_query\<close> the parameters of the URL, \<open>ad_rules\<close> the JSON of rules, \<open>ad_index\<close> the binding of the handler, and \<open>ad_reloader\<close> whether a reload manager was set.
\<close>

type_synonym 'a decoded = "go_error + 'a \<times> bool"

record admin_env =
  ad_reload :: reload_env
  ad_reload2 :: reload_env
  ad_index :: nat
  ad_reloader :: bool
  ad_query :: url_values
  ad_readErr :: string
  ad_rules :: "RoutingRule list \<Rightarrow> string"
  ad_provider :: "string option \<Rightarrow> providerResourceRequest decoded"
  ad_enabled :: "string option \<Rightarrow> setProviderEnabledRequest decoded"
  ad_name :: "string option \<Rightarrow> string decoded"
  ad_client :: "string option \<Rightarrow> clientResourceRequest decoded"
  ad_binding :: "string option \<Rightarrow> clientBindingRequest decoded"
  ad_unbind :: "string option \<Rightarrow> deleteClientBindingRequest decoded"
  ad_route :: "string option \<Rightarrow> routeResourceRequest decoded"
  ad_reorder :: "string option \<Rightarrow> reorderRoutesRequest decoded"
  ad_rollback :: "string option \<Rightarrow> go_error + string"
  ad_dryRun :: "string option \<Rightarrow> go_error + routeDryRunRequest"

type_synonym admin_outcome = "(admin_reply \<times> ReloadManager) option"

definition admin_state :: "admin_env \<Rightarrow> ReloadManager \<Rightarrow> RuntimeState" where
  "admin_state env m = rm_bindings m ! ad_index env"

definition authorizeAdmin :: "http_request \<Rightarrow> RuntimeState \<Rightarrow> bool" where
  "authorizeAdmin r state =
     (let admin = rs_Admin state
      in if \<not> adm_Enabled admin \<or> adm_Token admin = [] then False
         else bearerToken (rq_Header r ''Authorization'') = adm_Token admin)"

text \<open>The gateway's handler of a binding.\<close>

definition binding_handler :: "InboundRegistry \<Rightarrow> SessionStore \<Rightarrow> nat \<Rightarrow> ReloadManager \<Rightarrow> Handler" where
  "binding_handler reg sessions i m =
     \<lparr>h_Router = ar_router (rm_runtime m), h_Dispatcher = ar_dispatcher (rm_runtime m), h_Inbounds = rs_Inbounds (rm_bindings m ! i),
      h_Clients = rs_Clients (rm_bindings m ! i), h_Accounting = rs_Accounting (rm_bindings m ! i), h_accounting = cfg_Accounting zero_config,
      h_registry = reg, h_sessionStore = sessions\<rparr>"

definition authorizeAdminOrAccounting :: "admin_env \<Rightarrow> http_request \<Rightarrow> ReloadManager \<Rightarrow> bool" where
  "authorizeAdminOrAccounting env r m \<longleftrightarrow>
     authorizeAdmin r (admin_state env m) \<or> authorizeAccounting r (binding_handler \<lparr>ireg_codecs = []\<rparr> NewSessionStore (ad_index env) m)"

text \<open>The guard of every handler under \<open>/admin\<close>.\<close>

definition admin_guard :: "string \<Rightarrow> admin_env \<Rightarrow> http_request \<Rightarrow> ReloadManager \<Rightarrow> admin_reply option" where
  "admin_guard verb env r m =
     (if rq_Method r \<noteq> verb then Some (ErrorReply 405 ''method not allowed'')
      else if \<not> authorizeAdmin r (admin_state env m) then Some (ErrorReply 401 ''invalid admin token'')
      else None)"

definition guarded :: "string \<Rightarrow> admin_env \<Rightarrow> http_request \<Rightarrow> ReloadManager \<Rightarrow> admin_outcome \<Rightarrow> admin_outcome" where
  "guarded verb env r m body = (case admin_guard verb env r m of Some reply \<Rightarrow> Some (reply, m) | None \<Rightarrow> body)"

definition decodeJSONResourceRequest :: "'a decoded \<Rightarrow> admin_reply + 'a" where
  "decodeJSONResourceRequest d =
     (case d of
        Inl e \<Rightarrow> Inl (ErrorReply 400 (''decode request: '' @ Error e))
      | Inr (x, eof) \<Rightarrow> if eof then Inr x else Inl (ErrorReply 400 ''decode request: multiple JSON values''))"

definition with_request :: "'a decoded \<Rightarrow> ReloadManager \<Rightarrow> ('a \<Rightarrow> admin_outcome) \<Rightarrow> admin_outcome" where
  "with_request d m body = (case decodeJSONResourceRequest d of Inl reply \<Rightarrow> Some (reply, m) | Inr x \<Rightarrow> body x)"

section \<open>Errors of a change\<close>

definition admin_error_text :: "admin_error \<Rightarrow> string" where
  "admin_error_text e =
     (case e of
        AdminFailure x \<Rightarrow> Error x
      | ConfigRevisionConflict _ \<Rightarrow> ''config revision conflict''
      | RouteOrderConflict _ \<Rightarrow> ''route order revision conflict''
      | BindingTagLastSource operation client inbound tag routes \<Rightarrow>
          ''cannot '' @ operation @ '' tag '' @ quoted tag @ '' from client binding '' @ quoted client @ '' in inbound '' @ quoted inbound
          @ '': routing rule(s) '' @ Join routes '', '' @ '' reference tag '' @ quoted tag)"

definition writeAdminConfigMutationError :: "ReloadResult \<Rightarrow> admin_error \<Rightarrow> admin_reply" where
  "writeAdminConfigMutationError result e =
     MutationErrorReply (result\<lparr>rr_OK := False\<rparr>) (admin_error_text e)
       (case e of BindingTagLastSource operation client inbound tag routes \<Rightarrow> Some (operation, client, inbound, tag, routes) | _ \<Rightarrow> None)"

definition writeAdminConfigMutation :: "admin_env \<Rightarrow> string \<Rightarrow> ConfigMutation \<Rightarrow> ReloadManager \<Rightarrow> admin_outcome" where
  "writeAdminConfigMutation env reason mutate m =
     (if \<not> ad_reloader env then Some (ErrorReply 503 ''config reload is not configured'', m)
      else case MutateConfig (ad_reload env) reason (Some mutate) m of
             None \<Rightarrow> None
           | Some (Inl e, result, m') \<Rightarrow> Some (writeAdminConfigMutationError result e, m')
           | Some (Inr result, _, m') \<Rightarrow> Some (ResultReply result, m'))"

section \<open>Providers\<close>

definition provider_upsert :: "providerResourceRequest \<Rightarrow> ConfigMutation" where
  "provider_upsert req cfg =
     (let nxt = \<lparr>ob_Name = prq_Name req, ob_Protocol = prq_Protocol req, ob_Endpoint = prq_Endpoint req, ob_AuthToken = prq_AuthToken req,
                 ob_Auth = prq_Auth req, ob_Tag = prq_Tag req, ob_Enabled = prq_Enabled req, ob_Models = prq_Models req,
                 ob_Capabilities = prq_Capabilities req, ob_Quota = prq_Quota req, ob_ProxyURL = prq_ProxyURL req\<rparr>
      in Inr (UpsertOutbound cfg
               (case find_by ob_Name (ob_Name nxt) (cfg_Outbounds cfg) of
                  None \<Rightarrow> nxt
                | Some x \<Rightarrow> nxt\<lparr>ob_AuthToken := PreserveSecret (ob_AuthToken nxt) (ob_AuthToken x)\<rparr>)))"

fun provider_in_rules :: "string \<Rightarrow> string \<Rightarrow> RoutingRule list \<Rightarrow> string option" where
  "provider_in_rules n tag [] = None"
| "provider_in_rules n tag (rule # rules) =
     (if tag \<in> set (rr_ToTags rule)
      then Some (''cannot delete outbound '' @ quoted n @ '': routing rule '' @ quoted (rr_Name rule) @ '' references tag '' @ quoted tag)
      else if map_of (rr_Weights rule) tag \<noteq> None
      then Some (''cannot delete outbound '' @ quoted n @ '': routing rule '' @ quoted (rr_Name rule) @ '' weights reference tag '' @ quoted tag)
      else provider_in_rules n tag rules)"

definition validateProviderDelete :: "Config \<Rightarrow> string \<Rightarrow> string option" where
  "validateProviderDelete cfg n =
     (case find_by ob_Name n (cfg_Outbounds cfg) of
        None \<Rightarrow> Some (''outbound '' @ quoted n @ '' not found'')
      | Some x \<Rightarrow>
          (case provider_in_rules n (ob_Tag x) (cfg_Rules cfg) of
             Some e \<Rightarrow> Some e
           | None \<Rightarrow>
               map_option (\<lambda>p. ''cannot delete outbound '' @ quoted n @ '': accounting pricing references provider '' @ quoted (pr_Provider p))
                 (find (\<lambda>p. pr_Provider p = n) (ac_Pricing (cfg_Accounting cfg)))))"

definition provider_delete :: "string \<Rightarrow> ConfigMutation" where
  "provider_delete n cfg =
     (case validateProviderDelete cfg n of Some e \<Rightarrow> Inl (AdminFailure (PlainError e)) | None \<Rightarrow> Inr (DeleteOutbound cfg n))"

definition provider_enabled :: "setProviderEnabledRequest \<Rightarrow> ConfigMutation" where
  "provider_enabled req cfg =
     map_sum (\<lambda>n. AdminFailure (PlainError (''outbound '' @ quoted n @ '' not found''))) id (SetOutboundEnabled cfg (seq_Name req) (seq_Enabled req))"

definition handleConfigProviderUpsert :: "admin_env \<Rightarrow> http_request \<Rightarrow> ReloadManager \<Rightarrow> admin_outcome" where
  "handleConfigProviderUpsert env r m =
     guarded ''POST'' env r m (with_request (ad_provider env (rq_Body r)) m (\<lambda>req.
       writeAdminConfigMutation env (''provider_upsert_'' @ prq_Name req) (provider_upsert req) m))"

definition handleConfigProviderDelete :: "admin_env \<Rightarrow> http_request \<Rightarrow> ReloadManager \<Rightarrow> admin_outcome" where
  "handleConfigProviderDelete env r m =
     guarded ''POST'' env r m (with_request (ad_name env (rq_Body r)) m (\<lambda>n.
       writeAdminConfigMutation env (''provider_delete_'' @ n) (provider_delete n) m))"

definition handleConfigProviderEnabled :: "admin_env \<Rightarrow> http_request \<Rightarrow> ReloadManager \<Rightarrow> admin_outcome" where
  "handleConfigProviderEnabled env r m =
     guarded ''POST'' env r m (with_request (ad_enabled env (rq_Body r)) m (\<lambda>req.
       writeAdminConfigMutation env (''provider_enabled_'' @ seq_Name req @ ''_'' @ (if seq_Enabled req then ''true'' else ''false''))
         (provider_enabled req) m))"

section \<open>Clients and bindings\<close>

definition client_upsert :: "clientResourceRequest \<Rightarrow> ConfigMutation" where
  "client_upsert req cfg =
     (let nxt = \<lparr>cl_Name = crq_Name req, cl_Token = crq_Token req, cl_Quota = crq_Quota req\<rparr>
      in case FindClient cfg (crq_Name req) of
           Some current \<Rightarrow> Inr (UpsertClient cfg (nxt\<lparr>cl_Token := PreserveSecret (cl_Token nxt) (cl_Token current)\<rparr>))
         | None \<Rightarrow>
             if cl_Token nxt = [] \<or> cl_Token nxt = RedactedValue
             then Inl (AdminFailure (PlainError (''cannot create client '' @ quoted (crq_Name req) @ '': token is required'')))
             else Inr (UpsertClient cfg nxt))"

definition client_delete :: "string \<Rightarrow> ConfigMutation" where
  "client_delete n cfg =
     (case FindClient cfg n of
        None \<Rightarrow> Inl (AdminFailure (PlainError (''client '' @ quoted n @ '' not found'')))
      | Some _ \<Rightarrow>
          (let bindings = ClientBindings cfg n
           in if bindings \<noteq> []
              then Inl (AdminFailure (PlainError (''cannot delete client '' @ quoted n @ '': '' @ show_int (int (length bindings))
                     @ '' binding(s) still reference it'')))
              else Inr (DeleteClient cfg n)))"

text \<open>A tag may go when another binding has it or no rule starts from it.\<close>

definition other_bindings :: "Config \<Rightarrow> string \<Rightarrow> string \<Rightarrow> ClientBindingSpec list" where
  "other_bindings cfg inboundName ref =
     concat (map (\<lambda>i. filter (\<lambda>b. \<not> (in_Name i = inboundName \<and> cb_Ref b = ref)) (in_Clients i)) (cfg_Inbounds cfg))"

definition validateClientTagRemoval :: "Config \<Rightarrow> string \<Rightarrow> string \<Rightarrow> string \<Rightarrow> string \<Rightarrow> admin_error option" where
  "validateClientTagRemoval cfg operation inboundName ref tag =
     (if list_ex (\<lambda>b. cb_Tag b = tag) (other_bindings cfg inboundName ref) then None
      else
        (let routeNames = map rr_Name (filter (\<lambda>rule. tag \<in> set (rr_FromTags rule)) (cfg_Rules cfg))
         in if routeNames = [] then None else Some (BindingTagLastSource operation ref inboundName tag (sort routeNames))))"

definition inbound_missing :: "string \<Rightarrow> admin_error" where
  "inbound_missing n = AdminFailure (PlainError (''inbound '' @ quoted n @ '' not found''))"

definition binding_upsert :: "clientBindingRequest \<Rightarrow> ConfigMutation" where
  "binding_upsert req cfg =
     (let put = map_sum inbound_missing id (UpsertBinding cfg (bnq_Inbound req) \<lparr>cb_Ref = bnq_Ref req, cb_Tag = bnq_Tag req\<rparr>)
      in case FindBinding cfg (bnq_Inbound req) (bnq_Ref req) of
           Inl n \<Rightarrow> Inl (inbound_missing n)
         | Inr None \<Rightarrow> put
         | Inr (Some current) \<Rightarrow>
             if cb_Tag current \<noteq> bnq_Tag req
             then (case validateClientTagRemoval cfg ''update'' (bnq_Inbound req) (bnq_Ref req) (cb_Tag current) of Some e \<Rightarrow> Inl e | None \<Rightarrow> put)
             else put)"

definition binding_delete :: "deleteClientBindingRequest \<Rightarrow> ConfigMutation" where
  "binding_delete req cfg =
     (case FindBinding cfg (dbq_Inbound req) (dbq_Ref req) of
        Inl n \<Rightarrow> Inl (inbound_missing n)
      | Inr None \<Rightarrow>
          Inl (AdminFailure (PlainError (''client binding for '' @ quoted (dbq_Ref req) @ '' not found in inbound '' @ quoted (dbq_Inbound req))))
      | Inr (Some current) \<Rightarrow>
          (case validateClientTagRemoval cfg ''delete'' (dbq_Inbound req) (dbq_Ref req) (cb_Tag current) of
             Some e \<Rightarrow> Inl e
           | None \<Rightarrow> map_sum inbound_missing id (DeleteBinding cfg (dbq_Inbound req) (dbq_Ref req))))"

definition handleConfigClientUpsert :: "admin_env \<Rightarrow> http_request \<Rightarrow> ReloadManager \<Rightarrow> admin_outcome" where
  "handleConfigClientUpsert env r m =
     guarded ''POST'' env r m (with_request (ad_client env (rq_Body r)) m (\<lambda>req.
       writeAdminConfigMutation env (''client_upsert_'' @ crq_Name req) (client_upsert req) m))"

definition handleConfigClientDelete :: "admin_env \<Rightarrow> http_request \<Rightarrow> ReloadManager \<Rightarrow> admin_outcome" where
  "handleConfigClientDelete env r m =
     guarded ''POST'' env r m (with_request (ad_name env (rq_Body r)) m (\<lambda>n.
       writeAdminConfigMutation env (''client_delete_'' @ n) (client_delete n) m))"

definition handleConfigClientBindingUpsert :: "admin_env \<Rightarrow> http_request \<Rightarrow> ReloadManager \<Rightarrow> admin_outcome" where
  "handleConfigClientBindingUpsert env r m =
     guarded ''POST'' env r m (with_request (ad_binding env (rq_Body r)) m (\<lambda>req.
       writeAdminConfigMutation env (''client_binding_upsert_'' @ bnq_Inbound req @ ''_'' @ bnq_Ref req) (binding_upsert req) m))"

definition handleConfigClientBindingDelete :: "admin_env \<Rightarrow> http_request \<Rightarrow> ReloadManager \<Rightarrow> admin_outcome" where
  "handleConfigClientBindingDelete env r m =
     guarded ''POST'' env r m (with_request (ad_unbind env (rq_Body r)) m (\<lambda>req.
       writeAdminConfigMutation env (''client_binding_delete_'' @ dbq_Inbound req @ ''_'' @ dbq_Ref req) (binding_delete req) m))"

section \<open>Routes\<close>

definition RouteOrderRevision :: "admin_env \<Rightarrow> RoutingRule list \<Rightarrow> string" where
  "RouteOrderRevision env rules = ''sha256:'' @ rl_sha (ad_reload env) (ad_rules env rules)"

definition route_upsert :: "routeResourceRequest \<Rightarrow> ConfigMutation" where
  "route_upsert req cfg =
     Inr (UpsertRoute cfg
       \<lparr>rr_Name = rtq_Name req, rr_FromTags = rtq_FromTags req, rr_ToTags = rtq_ToTags req, rr_Strategy = rtq_Strategy req,
        rr_Weights = rtq_Weights req, rr_TargetModel = rtq_TargetModel req, rr_ModelMap = rtq_ModelMap req, rr_Match = rtq_Match req\<rparr>)"

definition move_error_text :: "move_error \<Rightarrow> string" where
  "move_error_text e =
     (case e of
        FromOutOfBounds i \<Rightarrow> ''from_index '' @ show_int i @ '' is out of bounds''
      | ToOutOfBounds i \<Rightarrow> ''to_index '' @ show_int i @ '' is out of bounds''
      | SameIndex \<Rightarrow> ''from_index and to_index must differ'')"

definition routes_reorder :: "admin_env \<Rightarrow> reorderRoutesRequest \<Rightarrow> ConfigMutation" where
  "routes_reorder env req cfg =
     (let currentRevision = RouteOrderRevision env (cfg_Rules cfg)
      in if roq_ExpectedRevision req \<noteq> currentRevision then Inl (RouteOrderConflict currentRevision)
         else map_sum (\<lambda>e. AdminFailure (PlainError (move_error_text e))) id (MoveRoute cfg (roq_FromIndex req) (roq_ToIndex req)))"

definition route_delete :: "string \<Rightarrow> ConfigMutation" where
  "route_delete n cfg = Inr (DeleteRoute cfg n)"

definition handleConfigRouteUpsert :: "admin_env \<Rightarrow> http_request \<Rightarrow> ReloadManager \<Rightarrow> admin_outcome" where
  "handleConfigRouteUpsert env r m =
     guarded ''POST'' env r m (with_request (ad_route env (rq_Body r)) m (\<lambda>req.
       writeAdminConfigMutation env (''route_upsert_'' @ rtq_Name req) (route_upsert req) m))"

definition handleConfigRoutesReorder :: "admin_env \<Rightarrow> http_request \<Rightarrow> ReloadManager \<Rightarrow> admin_outcome" where
  "handleConfigRoutesReorder env r m =
     guarded ''POST'' env r m (with_request (ad_reorder env (rq_Body r)) m (\<lambda>req.
       if roq_FromIndex req < 0 \<or> roq_ToIndex req < 0 \<or> roq_FromIndex req = roq_ToIndex req
       then Some (ErrorReply 400 ''from_index and to_index must be distinct non-negative indexes'', m)
       else if roq_ExpectedRevision req = [] then Some (ErrorReply 400 ''expected_revision is required'', m)
       else if \<not> ad_reloader env then Some (ErrorReply 503 ''config reload is not configured'', m)
       else case MutateConfig (ad_reload env) ''routes_reorder'' (Some (routes_reorder env req)) m of
              None \<Rightarrow> None
            | Some (Inl e, result, m') \<Rightarrow>
                Some (case e of RouteOrderConflict current \<Rightarrow> RouteOrderConflictReply current | _ \<Rightarrow> writeAdminConfigMutationError result e, m')
            | Some (Inr result, _, m') \<Rightarrow> Some (ResultReply result, m')))"

definition handleConfigRouteDelete :: "admin_env \<Rightarrow> http_request \<Rightarrow> ReloadManager \<Rightarrow> admin_outcome" where
  "handleConfigRouteDelete env r m =
     guarded ''POST'' env r m (with_request (ad_name env (rq_Body r)) m (\<lambda>n.
       writeAdminConfigMutation env (''route_delete_'' @ n) (route_delete n) m))"

section \<open>Listings\<close>

definition sortedKeys :: "string list \<Rightarrow> string list" where
  "sortedKeys values = sort (filter (\<lambda>k. k \<noteq> []) (remdups values))"

definition readAdminConfigForResource :: "admin_env \<Rightarrow> ReloadManager \<Rightarrow> admin_reply + Config" where
  "readAdminConfigForResource env m =
     (let path = rs_ConfigPath (admin_state env m)
      in if path = [] then Inl (ErrorReply 503 ''config path is not configured'')
         else case ReadFile (rl_config (ad_reload env)) path (rm_files m) of
                Inl e \<Rightarrow> Inl (ErrorReply 500 (''read config: '' @ Error e))
              | Inr content \<Rightarrow>
                  (case reload_parse (ad_reload env) content of Inl e \<Rightarrow> Inl (FailureReply 400 (Error e)) | Inr cfg \<Rightarrow> Inr cfg))"

definition listing :: "(Config \<Rightarrow> admin_reply) \<Rightarrow> admin_env \<Rightarrow> http_request \<Rightarrow> ReloadManager \<Rightarrow> admin_outcome" where
  "listing reply env r m =
     guarded ''GET'' env r m
       (Some (case readAdminConfigForResource env m of Inl e \<Rightarrow> e | Inr cfg \<Rightarrow> reply cfg, m))"

definition handleAdminSession :: "admin_env \<Rightarrow> http_request \<Rightarrow> ReloadManager \<Rightarrow> admin_outcome" where
  "handleAdminSession env r m =
     guarded ''GET'' env r m
       (Some (SessionReply (adm_Enabled (rs_Admin (admin_state env m))) (rs_ConfigPath (admin_state env m)), m))"

definition handleConfigOptions :: "admin_env \<Rightarrow> http_request \<Rightarrow> ReloadManager \<Rightarrow> admin_outcome" where
  "handleConfigOptions env r m =
     listing (\<lambda>cfg. let redacted = RedactedConfig cfg in OptionsReply
       \<lparr>op_path = rs_ConfigPath (admin_state env m), op_inbounds = cfg_Inbounds redacted,
        op_outbounds = map (\<lambda>x. (ob_Name x, ob_Protocol x, ob_Tag x)) (cfg_Outbounds redacted),
        op_client_tags = sortedKeys (concat (map (\<lambda>i. map cb_Tag (in_Clients i)) (cfg_Inbounds redacted))),
        op_outbound_tags = sortedKeys (map ob_Tag (cfg_Outbounds redacted))\<rparr>) env r m"

definition provider_resource :: "OutboundSpec \<Rightarrow> providerResourceResponse" where
  "provider_resource x =
     \<lparr>prp_Name = ob_Name x, prp_Protocol = ob_Protocol x, prp_Endpoint = ob_Endpoint x, prp_AuthToken = ob_AuthToken x, prp_Auth = ob_Auth x,
      prp_Tag = ob_Tag x, prp_Enabled = OutboundEnabled x, prp_Models = ob_Models x, prp_Capabilities = ob_Capabilities x,
      prp_Quota = ob_Quota x, prp_ProxyURL = ob_ProxyURL x\<rparr>"

definition handleConfigProviders :: "admin_env \<Rightarrow> http_request \<Rightarrow> ReloadManager \<Rightarrow> admin_outcome" where
  "handleConfigProviders env r m = listing (\<lambda>cfg. ProvidersReply (map provider_resource (cfg_Outbounds (RedactedConfig cfg)))) env r m"

definition clientResource :: "Config \<Rightarrow> ClientSpec \<Rightarrow> clientResourceResponse" where
  "clientResource cfg c =
     \<lparr>crp_Name = cl_Name c, crp_Token = cl_Token c, crp_Quota = cl_Quota c,
      crp_Bindings = map (\<lambda>(i, b). \<lparr>cbp_Inbound = in_Name i, cbp_InboundProtocol = in_Protocol i, cbp_InboundPath = in_Path i,
                                    cbp_Ref = cb_Ref b, cbp_Tag = cb_Tag b\<rparr>) (ClientBindings cfg (cl_Name c))\<rparr>"

definition handleConfigClients :: "admin_env \<Rightarrow> http_request \<Rightarrow> ReloadManager \<Rightarrow> admin_outcome" where
  "handleConfigClients env r m =
     listing (\<lambda>cfg. let redacted = RedactedConfig cfg in ClientsReply (map (clientResource redacted) (cfg_Clients redacted))) env r m"

definition handleConfigRoutes :: "admin_env \<Rightarrow> http_request \<Rightarrow> ReloadManager \<Rightarrow> admin_outcome" where
  "handleConfigRoutes env r m = listing (\<lambda>cfg. RoutesReply (cfg_Rules cfg) (RouteOrderRevision env (cfg_Rules cfg))) env r m"

section \<open>The configuration as a text\<close>

definition handleAdminConfig :: "admin_env \<Rightarrow> http_request \<Rightarrow> ReloadManager \<Rightarrow> admin_outcome" where
  "handleAdminConfig env r m =
     guarded ''GET'' env r m
       (let path = rs_ConfigPath (admin_state env m); rl = ad_reload env
        in if path = [] then Some (ConfigTextReply None, m)
           else case ReadFile (rl_config rl) path (rm_files m) of
                  Inl e \<Rightarrow> Some (ErrorReply 500 (''read config: '' @ Error e), m)
                | Inr content \<Rightarrow>
                    (case redactedConfigYAML (cf_yaml (cv_lib (rl_config rl))) content of
                       Inl e \<Rightarrow> Some (ErrorReply 500 (''redact config: '' @ Error e), m)
                     | Inr redacted \<Rightarrow> Some (ConfigTextReply (Some (redacted, configRevision rl content, rl_sha rl content)), m)))"

definition handleConfigValidate :: "admin_env \<Rightarrow> http_request \<Rightarrow> ReloadManager \<Rightarrow> admin_outcome" where
  "handleConfigValidate env r m =
     (if rq_Method r \<noteq> ''POST'' then Some (ErrorReply 405 ''method not allowed'', m)
      else if \<not> authorizeAdminOrAccounting env r m then Some (ErrorReply 401 ''invalid admin token'', m)
      else case rq_Body r of
             None \<Rightarrow> Some (ErrorReply 400 (''read config: '' @ ad_readErr env), m)
           | Some content \<Rightarrow>
               Some (case reload_parse (ad_reload env) content of Inl e \<Rightarrow> FailureReply 400 (Error e) | Inr _ \<Rightarrow> ValidReply, m))"

definition reloading :: "admin_env \<Rightarrow> ReloadManager \<Rightarrow> admin_outcome \<Rightarrow> admin_outcome" where
  "reloading env m body = (if \<not> ad_reloader env then Some (ErrorReply 503 ''config reload is not configured'', m) else body)"

definition handleConfigUpdate :: "admin_env \<Rightarrow> http_request \<Rightarrow> ReloadManager \<Rightarrow> admin_outcome" where
  "handleConfigUpdate env r m =
     guarded ''POST'' env r m (reloading env m
       (let ifMatch = TrimSpace (rq_Header r ''If-Match'')
        in if ifMatch = [] then Some (IfMatchRequiredReply, m)
           else case rq_Body r of
                  None \<Rightarrow> Some (ErrorReply 400 (''read config: '' @ ad_readErr env), m)
                | Some content \<Rightarrow>
                    (case UpdateConfig (ad_reload env) ifMatch content m of
                       (Inl (ConfigRevisionConflict current), m') \<Rightarrow> Some (RevisionConflictReply current, m')
                     | (Inl e, m') \<Rightarrow> Some (FailureReply 400 (admin_error_text e), m')
                     | (Inr result, m') \<Rightarrow> Some (UpdatedReply result, m'))))"

definition reload_reply :: "reload_outcome \<Rightarrow> admin_outcome" where
  "reload_reply res =
     (case res of
        None \<Rightarrow> None
      | Some (Inl e, _, m') \<Rightarrow> Some (FailureReply 400 (admin_error_text e), m')
      | Some (Inr result, _, m') \<Rightarrow> Some (ResultReply result, m'))"

definition handleConfigApply :: "admin_env \<Rightarrow> http_request \<Rightarrow> ReloadManager \<Rightarrow> admin_outcome" where
  "handleConfigApply env r m = guarded ''POST'' env r m (reloading env m (reload_reply (ApplyConfig (ad_reload env) m)))"

definition handleConfigHistory :: "admin_env \<Rightarrow> http_request \<Rightarrow> ReloadManager \<Rightarrow> admin_outcome" where
  "handleConfigHistory env r m = guarded ''GET'' env r m (reloading env m (Some (HistoryReply (History (ad_reload env) m), m)))"

definition handleConfigHistoryDiff :: "admin_env \<Rightarrow> http_request \<Rightarrow> ReloadManager \<Rightarrow> admin_outcome" where
  "handleConfigHistoryDiff env r m =
     guarded ''GET'' env r m (reloading env m
       (Some (case history_Diff (ad_reload env) (TrimSpace (values_Get (ad_query env) ''id'')) m of
                Inl e \<Rightarrow> FailureReply 400 (Error e)
              | Inr diff \<Rightarrow> DiffReply diff, m)))"

definition handleConfigRollback :: "admin_env \<Rightarrow> http_request \<Rightarrow> ReloadManager \<Rightarrow> admin_outcome" where
  "handleConfigRollback env r m =
     guarded ''POST'' env r m (reloading env m
       (case ad_rollback env (rq_Body r) of
          Inl e \<Rightarrow> Some (ErrorReply 400 (''read rollback request: '' @ Error e), m)
        | Inr i \<Rightarrow> reload_reply (Rollback (ad_reload env) (ad_reload2 env) (TrimSpace i) m)))"

section \<open>Dry runs\<close>

definition findDryRunClient ::
  "ClientSpec list \<Rightarrow> InboundSpec list \<Rightarrow> string \<Rightarrow> string \<Rightarrow> (InboundSpec \<times> ClientSpec \<times> ClientBindingSpec) option" where
  "findDryRunClient clients inbounds inboundName clientName =
     (case find_by in_Name inboundName inbounds of
        None \<Rightarrow> None
      | Some inbound \<Rightarrow>
          (case find_by cb_Ref clientName (in_Clients inbound) of
             None \<Rightarrow> None
           | Some binding \<Rightarrow> map_option (\<lambda>c. (inbound, c, binding)) (FindClient (clients_config clients inbounds) (cb_Ref binding))))"

definition dryRunResponse :: "ExecutionPlan \<Rightarrow> routeDryRunResponse" where
  "dryRunResponse plan =
     \<lparr>drp_Inbound = pl_InboundName plan, drp_InboundProtocol = pl_InboundProtocol plan, drp_Client = pl_ClientName plan,
      drp_ActiveTag = pl_ActiveTag plan, drp_RequestedModel = pl_RequestedModel plan, drp_MatchedRule = pl_MatchedRule plan,
      drp_Strategy = pl_Strategy plan, drp_ResolvedToTags = pl_ResolvedToTags plan,
      drp_Steps = map (\<lambda>(i, step). \<lparr>drs_Index = i, drs_OutboundName = es_OutboundName step, drs_OutboundProtocol = es_OutboundProtocol step,
                                     drs_Model = es_Model step, drs_OnError = es_OnError step\<rparr>) (enumerate 0 (pl_Steps plan))\<rparr>"

definition dry_request :: "string \<Rightarrow> bool \<Rightarrow> Request" where
  "dry_request model stream =
     \<lparr>req_Model = model, req_System = [], req_MaxTokens = 0, req_Messages = [], req_Tools = [], req_ToolChoice = [], req_Stream = stream,
      req_PreviousResponseID = [], req_Metadata = [], req_ThinkingType = [], req_ContextManagement = [], req_OutputEffort = []\<rparr>"

definition handleRouteDryRun :: "admin_env \<Rightarrow> http_request \<Rightarrow> ReloadManager \<Rightarrow> admin_outcome" where
  "handleRouteDryRun env r m =
     guarded ''POST'' env r m
       (case ad_dryRun env (rq_Body r) of
          Inl e \<Rightarrow> Some (ErrorReply 400 (''read dry-run request: '' @ Error e), m)
        | Inr payload \<Rightarrow>
            (let inboundName = TrimSpace (drq_Inbound payload); clientName = TrimSpace (drq_Client payload); model = TrimSpace (drq_Model payload);
                 state = admin_state env m
             in if inboundName = [] \<or> clientName = [] \<or> model = []
                then Some (ErrorReply 400 ''inbound, client, and model are required'', m)
                else case findDryRunClient (rs_Clients state) (rs_Inbounds state) inboundName clientName of
                       None \<Rightarrow> Some (ErrorReply 404 ''inbound or client not found'', m)
                     | Some (inbound, client, binding) \<Rightarrow>
                         (case router_PlanDryRun
                                 \<lparr>rc_Request = dry_request model (drq_Stream payload), rc_ClientName = cl_Name client,
                                  rc_InboundName = in_Name inbound, rc_InboundProtocol = in_Protocol inbound, rc_ActiveTag = cb_Tag binding\<rparr>
                                 (ar_router (rm_runtime m)) of
                            (res, rt) \<Rightarrow>
                              (let m' = m\<lparr>rm_runtime := (rm_runtime m)\<lparr>ar_router := rt\<rparr>\<rparr>
                               in case res of
                                    Inl e \<Rightarrow> Some (ErrorReply 400 (Error e), m')
                                  | Inr plan \<Rightarrow> Some (DryRunReply (dryRunResponse plan), m')))))"

section \<open>Paths\<close>

text \<open>The paths of \<open>Register\<close> whose handlers are in this theory.\<close>

definition admin_routes :: "(string \<times> (admin_env \<Rightarrow> http_request \<Rightarrow> ReloadManager \<Rightarrow> admin_outcome)) list" where
  "admin_routes =
     [(''/admin/session'', handleAdminSession),
      (''/admin/config'', handleAdminConfig),
      (''/admin/config/options'', handleConfigOptions),
      (''/admin/config/providers'', handleConfigProviders),
      (''/admin/config/provider/upsert'', handleConfigProviderUpsert),
      (''/admin/config/provider/enabled'', handleConfigProviderEnabled),
      (''/admin/config/provider/delete'', handleConfigProviderDelete),
      (''/admin/config/clients'', handleConfigClients),
      (''/admin/config/client/upsert'', handleConfigClientUpsert),
      (''/admin/config/client/delete'', handleConfigClientDelete),
      (''/admin/config/client-binding/upsert'', handleConfigClientBindingUpsert),
      (''/admin/config/client-binding/delete'', handleConfigClientBindingDelete),
      (''/admin/config/routes'', handleConfigRoutes),
      (''/admin/config/routes/reorder'', handleConfigRoutesReorder),
      (''/admin/config/route/upsert'', handleConfigRouteUpsert),
      (''/admin/config/route/delete'', handleConfigRouteDelete),
      (''/admin/config/validate'', handleConfigValidate),
      (''/admin/config/update'', handleConfigUpdate),
      (''/admin/config/apply'', handleConfigApply),
      (''/admin/config/history'', handleConfigHistory),
      (''/admin/config/history/diff'', handleConfigHistoryDiff),
      (''/admin/config/rollback'', handleConfigRollback),
      (''/admin/debug/route-dry-run'', handleRouteDryRun)]"

end
