(* ===== verification/Reload_Laws.thy ===== *)
theory Reload_Laws
  imports Admin_Config Config_Laws
begin

text \<open>
  What the reload manager and the administration of the configuration guarantee: the configuration file stays valid whatever fails, a
  failed change changes nothing, an applied change is the one that was saved, settings that need a restart do not change under a
  running process, secrets do not show, and only the administrator changes anything.
\<close>

section \<open>The history keeps to its directory\<close>

definition in_dir :: "string \<Rightarrow> string \<Rightarrow> bool" where
  "in_dir dir p = HasPrefix p (dir @ ''/'')"

text \<open>Every readable item of the history is about a file of the history directory.\<close>

definition clean_history :: "(string \<Rightarrow> go_error + HistoryItem) \<Rightarrow> string \<Rightarrow> config_files \<Rightarrow> bool" where
  "clean_history decode dir fs \<longleftrightarrow>
     (\<forall>p c item. in_dir dir p \<longrightarrow> HasSuffix p ''.json'' \<longrightarrow> map_of fs p = Some c \<longrightarrow> decode c = Inr item \<longrightarrow> in_dir dir (hi_Path item))"

text \<open>
  What is known of the libraries: a history item that was cut off does not decode as another one (\<open>encoding/json\<close>), and the
  part of a temporary name chosen by the system has no slash (\<open>os.CreateTemp\<close>).
\<close>

definition reload_env_ok :: "config_lib \<Rightarrow> (string \<Rightarrow> go_error + HistoryItem) \<Rightarrow> reload_env \<Rightarrow> bool" where
  "reload_env_ok lib decode env \<longleftrightarrow>
     cv_lib (rl_config env) = lib \<and> rl_decode_item env = decode \<and> CHR ''/'' \<notin> set (cv_temp (rl_config env)) \<and>
     (\<forall>item c k item'. rl_encode_item env item = Inr c \<longrightarrow> decode (take k c) = Inr item' \<longrightarrow> item' = item)"

lemma in_dir_child [simp]: "in_dir dir (dir @ ''/'' @ x)" "in_dir dir (dir @ CHR ''/'' # x)"
  by (auto simp: in_dir_def HasPrefix_iff)

lemma HasSuffix_append: "HasSuffix n x \<Longrightarrow> HasSuffix (a @ n) x"
  by (metis HasSuffix_iff append.assoc)

lemma clean_historyD:
  assumes "clean_history decode dir fs" and "map_of fs (dir @ ''/'' @ n) = Some c" and "HasSuffix n ''.json''" and "decode c = Inr item"
  shows "in_dir dir (hi_Path item)"
proof -
  have "HasSuffix (dir @ ''/'' @ n) ''.json''" using HasSuffix_append [OF assms(3), of "dir @ ''/''"] by (simp only: append_assoc)
  then show ?thesis using assms(1,2,4) in_dir_child(1) [of dir n] unfolding clean_history_def by blast
qed

lemma clean_history_sub:
  assumes "clean_history decode dir fs" and "\<And>p. in_dir dir p \<Longrightarrow> HasSuffix p ''.json'' \<Longrightarrow> map_of fs' p = map_of fs p \<or> map_of fs' p = None"
  shows "clean_history decode dir fs'"
  using assms unfolding clean_history_def by fastforce

lemma clean_history_write:
  assumes "clean_history decode dir fs" and "\<And>item. HasSuffix p ''.json'' \<Longrightarrow> decode c = Inr item \<Longrightarrow> in_dir dir (hi_Path item)"
  shows "clean_history decode dir (AList.update p c fs)"
  using assms unfolding clean_history_def by (auto simp: update_conv')

lemma read_items_clean:
  assumes "read_items env dir fs names = Inr items" and "clean_history (rl_decode_item env) dir fs" and "item \<in> set items"
  shows "in_dir dir (hi_Path item)"
  using assms
proof (induction env dir fs names arbitrary: items rule: read_items.induct)
  case (2 env dir fs name names)
  then show ?case by (auto simp: ReadFile_def split: if_splits sum.splits option.splits dest: clean_historyD [unfolded append_Cons append_Nil])
qed simp

lemma history_List_clean:
  assumes "history_List env dir fs = Inr items" and "clean_history (rl_decode_item env) dir fs" and "item \<in> set items"
  shows "in_dir dir (hi_Path item)"
proof -
  obtain xs where "read_items env dir fs (dir_entries dir fs) = Inr xs" "items = newest_first xs"
    using assms(1) by (cases "read_items env dir fs (dir_entries dir fs)") (auto simp: history_List_def split: option.splits)
  then show ?thesis using read_items_clean [OF _ assms(2), of _ xs] assms(3) by (simp add: newest_first_def)
qed

lemma remove_file_other: "p \<noteq> q \<Longrightarrow> map_of (remove_file env p fs) q = map_of fs q"
  by (simp add: remove_file_def delete_conv')

lemma remove_file_either: "map_of (remove_file env p fs) q = map_of fs q \<or> map_of (remove_file env p fs) q = None"
  by (simp add: remove_file_def delete_conv')

lemma remove_file_clean: "clean_history decode dir fs \<Longrightarrow> clean_history decode dir (remove_file env p fs)"
  by (erule clean_history_sub) (rule remove_file_either)

lemma prune_items:
  fixes env :: reload_env
  assumes "\<forall>item \<in> set items. in_dir dir (hi_Path item)"
  defines "f \<equiv> \<lambda>item fs. remove_file env (dir @ ''/'' @ hi_ID item @ ''.json'') (remove_file env (hi_Path item) fs)"
  shows "\<not> in_dir dir p \<Longrightarrow> map_of (fold f items fs) p = map_of fs p"
    and "clean_history decode dir fs \<Longrightarrow> clean_history decode dir (fold f items fs)"
proof -
  have other: "map_of (f item fs) p = map_of fs p" if "\<not> in_dir dir p" "in_dir dir (hi_Path item)" for item fs p
  proof -
    have "hi_Path item \<noteq> p" "dir @ ''/'' @ hi_ID item @ ''.json'' \<noteq> p" using that in_dir_child(1) [of dir "hi_ID item @ ''.json''"] by auto
    then show ?thesis by (simp add: f_def remove_file_other)
  qed
  show "\<not> in_dir dir p \<Longrightarrow> map_of (fold f items fs) p = map_of fs p"
    using assms(1) by (induction items arbitrary: fs) (simp_all add: other)
  show "clean_history decode dir fs \<Longrightarrow> clean_history decode dir (fold f items fs)"
    by (induction items arbitrary: fs) (simp_all add: f_def remove_file_clean)
qed

lemma history_Prune_keeps:
  assumes "clean_history (rl_decode_item env) dir fs"
  shows "\<not> in_dir dir p \<Longrightarrow> map_of (snd (history_Prune env dir limit fs)) p = map_of fs p"
    and "clean_history (rl_decode_item env) dir (snd (history_Prune env dir limit fs))"
proof -
  have items: "\<forall>item \<in> set (drop limit items). in_dir dir (hi_Path item)" if "history_List env dir fs = Inr items" for items
    using history_List_clean [OF that assms] by (auto dest: in_set_dropD)
  show "\<not> in_dir dir p \<Longrightarrow> map_of (snd (history_Prune env dir limit fs)) p = map_of fs p"
    using items by (auto simp: history_Prune_def prune_items(1) simp del: append_Cons append_Nil split: sum.splits)
  show "clean_history (rl_decode_item env) dir (snd (history_Prune env dir limit fs))"
    using items assms by (auto simp: history_Prune_def prune_items(2) simp del: append_Cons append_Nil split: sum.splits)
qed

lemma write_file_other: "p \<noteq> q \<Longrightarrow> map_of (snd (write_file env p c fs)) q = map_of fs q"
  by (auto simp: write_file_def update_conv' split: option.splits)

lemma write_file_clean:
  assumes "clean_history decode dir fs" and "\<And>k item. HasSuffix p ''.json'' \<Longrightarrow> decode (take k c) = Inr item \<Longrightarrow> in_dir dir (hi_Path item)"
  shows "clean_history decode dir (snd (write_file env p c fs))"
proof -
  have "clean_history decode dir (AList.update p (take k c) fs)" for k
    by (rule clean_history_write [OF assms(1)]) (rule assms(2))
  from this [of "length c"] this show ?thesis using assms(1) by (auto simp: write_file_def split: option.splits)
qed

text \<open>Saving a history item touches no file outside the directory, whatever fails.\<close>

lemma history_SaveBytes_keeps:
  assumes "clean_history decode dir fs" and "reload_env_ok lib decode env"
  shows "\<not> in_dir dir p \<Longrightarrow> map_of (snd (history_SaveBytes env dir c reason fs)) p = map_of fs p"
    and "clean_history decode dir (snd (history_SaveBytes env dir c reason fs))"
proof -
  have dec: "rl_decode_item env = decode" using assms(2) by (simp add: reload_env_ok_def)
  let ?i = "history_id env c"
  let ?y = "dir @ ''/'' @ ?i @ ''.yaml''" and ?j = "dir @ ''/'' @ ?i @ ''.json''"
  let ?item = "\<lparr>hi_ID = ?i, hi_CreatedAt = format_RFC3339Nano (rl_now env), hi_Reason = reason, hi_Path = ?y, hi_Checksum = rl_sha env c\<rparr>"
  let ?fs1 = "snd (write_file env ?y c fs)"
  have y: "\<not> HasSuffix ?y ''.json''" by (auto simp: HasSuffix_iff)
  have clean1: "clean_history decode dir ?fs1" by (rule write_file_clean [OF assms(1)]) (use y in blast)
  have clean2: "clean_history decode dir (snd (write_file env ?j meta ?fs1))" if "rl_encode_item env ?item = Inr meta" for meta
    by (rule write_file_clean [OF clean1]) (use that assms(2) in \<open>fastforce simp: reload_env_ok_def\<close>)
  have out1: "map_of ?fs1 p = map_of fs p" if "\<not> in_dir dir p" for p
    using that in_dir_child(1) [of dir "?i @ ''.yaml''"] write_file_other [of ?y p] by metis
  have out2: "map_of (snd (write_file env ?j meta ?fs1)) p = map_of fs p" if "\<not> in_dir dir p" for p meta
    using that in_dir_child(1) [of dir "?i @ ''.json''"] write_file_other [of ?j p] out1 [OF that] by metis
  note prune = history_Prune_keeps [of env dir, unfolded dec, OF clean2]
  show "\<not> in_dir dir p \<Longrightarrow> map_of (snd (history_SaveBytes env dir c reason fs)) p = map_of fs p"
    using out1 out2 prune(1)
    by (auto simp: history_SaveBytes_def Let_def simp del: append_Cons append_Nil split: option.splits prod.splits sum.splits)
       (metis (no_types, lifting) snd_conv)+
  show "clean_history decode dir (snd (history_SaveBytes env dir c reason fs))"
    using assms(1) clean1 clean2 prune(2)
    by (auto simp: history_SaveBytes_def Let_def simp del: append_Cons append_Nil split: option.splits prod.splits sum.splits)
       (metis (no_types, lifting) snd_conv)+
qed

section \<open>What needs a restart\<close>

text \<open>The settings that a running process keeps: the directories of credentials and sessions, the listeners, and the log files.\<close>

definition rotation_settings :: "AdminLogsConfig \<Rightarrow> int \<times> int \<times> int \<times> int \<times> bool" where
  "rotation_settings logs =
     (let r = alog_Rotation (effectiveAdminLogsConfig logs)
      in (rot_MaxSizeMB r, rot_MaxFiles r, rot_MaxAgeDays r, rot_MaxTotalSizeMB r, CompressionEnabled r))"

definition listener_settings :: "ListenerSpec \<Rightarrow> string \<times> string \<times> string" where
  "listener_settings l = (ls_Name l, ls_Listen l, Join (ls_Inbounds l) [CHR 0x00])"

definition restart_settings ::
  "(rat \<Rightarrow> rat) \<Rightarrow> Config \<Rightarrow>
     string \<times> (bool \<times> string \<times> int) \<times> (string \<times> string \<times> string) list \<times> string \<times> int \<times> int \<times> int \<times> int \<times> bool" where
  "restart_settings rnd cfg =
     (let s = effectiveSessionSnapshotConfig (cfg_SessionSnapshot cfg); logs = adm_Logs (cfg_Admin cfg)
      in (effectiveOAuthDir (cfg_OAuthDir cfg), (EnabledEffective s, ssc_Dir s, DurationValue_Duration rnd (ssc_FlushInterval s)),
          map listener_settings (normalizedListeners cfg), alog_Path (effectiveAdminLogsConfig logs), rotation_settings logs))"

lemma listeners_changed_iff:
  "length cs = length ns \<Longrightarrow> listeners_changed cs ns = [] \<longleftrightarrow> map listener_settings cs = map listener_settings ns"
  by (induction cs ns rule: list_induct2) (simp_all add: listener_settings_def)

lemma logging_changed_iff:
  "loggingConfigurationChanged c n \<longleftrightarrow>
     \<not> (alog_Path (effectiveAdminLogsConfig c) = alog_Path (effectiveAdminLogsConfig n) \<and> rotation_settings c = rotation_settings n)"
  by (auto simp: loggingConfigurationChanged_def rotation_settings_def Let_def)

lemma restartRequiredReason_iff: "restartRequiredReason rnd c n = [] \<longleftrightarrow> restart_settings rnd c = restart_settings rnd n"
proof -
  let ?c = "normalizedListeners c" and ?n = "normalizedListeners n"
  have "length ?c = length ?n \<and> listeners_changed ?c ?n = [] \<longleftrightarrow> map listener_settings ?c = map listener_settings ?n"
    using listeners_changed_iff [of ?c ?n] by (auto dest: map_eq_imp_length_eq)
  moreover have "restartRequiredReason rnd c n = [] \<longleftrightarrow>
      effectiveOAuthDir (cfg_OAuthDir c) = effectiveOAuthDir (cfg_OAuthDir n) \<and>
      (let s = effectiveSessionSnapshotConfig (cfg_SessionSnapshot c); t = effectiveSessionSnapshotConfig (cfg_SessionSnapshot n)
       in EnabledEffective s = EnabledEffective t \<and> ssc_Dir s = ssc_Dir t \<and>
          DurationValue_Duration rnd (ssc_FlushInterval s) = DurationValue_Duration rnd (ssc_FlushInterval t)) \<and>
      (length ?c = length ?n \<and> listeners_changed ?c ?n = []) \<and>
      \<not> loggingConfigurationChanged (adm_Logs (cfg_Admin c)) (adm_Logs (cfg_Admin n))"
    by (auto simp: restartRequiredReason_def Let_def)
  ultimately show ?thesis by (auto simp: restart_settings_def Let_def logging_changed_iff)
qed

section \<open>What a call does to the manager\<close>

definition config_text :: "ReloadManager \<Rightarrow> string option" where
  "config_text m = map_of (rm_files m) (rm_configPath m)"

lemma close_quota_same [simp]:
  "rm_cfg (close_quota env s m) = rm_cfg m" "rm_files (close_quota env s m) = rm_files m" "rm_bindings (close_quota env s m) = rm_bindings m"
  "rm_configPath (close_quota env s m) = rm_configPath m" "rm_historyDir (close_quota env s m) = rm_historyDir m"
  "ar_router (rm_runtime (close_quota env s m)) = ar_router (rm_runtime m)"
  by (simp_all add: close_quota_def Let_def with_trackers_def split: prod.splits)

text \<open>The configuration and the router that run, and the handlers of the listeners.\<close>

definition running :: "ReloadManager \<Rightarrow> Config \<times> Router \<times> RuntimeState list" where
  "running m = (rm_cfg m, ar_router (rm_runtime m), rm_bindings m)"

text \<open>A running configuration was replaced by a valid one that needs no restart, and the handlers have it.\<close>

definition replaced :: "config_lib \<Rightarrow> ReloadManager \<Rightarrow> ReloadManager \<Rightarrow> bool" where
  "replaced lib m m' \<longleftrightarrow>
     (\<exists>c. ParseBytes lib c = Inr (rm_cfg m')) \<and> restart_settings (cf_rnd lib) (rm_cfg m) = restart_settings (cf_rnd lib) (rm_cfg m') \<and>
     rm_bindings m' = map (listener_state (rm_cfg m') (rm_configPath m)) (normalizedListeners (rm_cfg m'))"

text \<open>
  A runtime that was built from a configuration by a reload: its router and providers are those of the configuration, its dispatcher
  goes on with the usage store and has the prices and the outbounds of the configuration, and its quota trackers are the earlier ones
  reconfigured for it, rolled over when a snapshot store was closed in between.
\<close>

definition tracker_for :: "Tracker option \<Rightarrow> Tracker option \<Rightarrow> bool" where
  "tracker_for reconfigured t \<longleftrightarrow> t = reconfigured \<or> (\<exists>now. t = map_option (rollover_all now) reconfigured)"

definition built_for :: "reload_env \<Rightarrow> Config \<Rightarrow> Dispatcher \<Rightarrow> appRuntime \<Rightarrow> bool" where
  "built_for env cfg before r \<longleftrightarrow>
     (\<exists>registry providers. newDefaultFactoryRegistry (be_parseHost (rl_build env)) = Some registry \<and>
        build_providers (rl_build env) registry (cfg_Outbounds cfg) [] = Inr providers \<and>
        router_New (cfg_Rules cfg) (map_of providers) (cfg_Outbounds cfg) = Inr (ar_router r)) \<and>
     (\<exists>ot ct. ar_dispatcher r = build_dispatcher (rl_build env) (d_store before) cfg ot ct \<and>
        tracker_for (snd (ReconfigureOutbounds (rl_build env) (enabledOutbounds cfg) (tracker_or_new (rl_build env) (d_quotaTracker before)))) ot \<and>
        tracker_for (snd (ReconfigureClientSpecs (rl_build env) (cfg_Clients cfg) (client_tracker_or_new (rl_build env) (d_clientQuotaTracker before)))) ct)"

lemma build_dispatcher_trackers:
  "(build_dispatcher env store cfg ot ct)\<lparr>d_quotaTracker := ot', d_clientQuotaTracker := ct'\<rparr> = build_dispatcher env store cfg ot' ct'"
  "d_quotaTracker (build_dispatcher env store cfg ot ct) = ot" "d_clientQuotaTracker (build_dispatcher env store cfg ot ct) = ct"
  by (simp_all add: build_dispatcher_def NewDispatcher_def)

lemma snapshot_store_trackers:
  assumes "build_snapshot_store env clk False cfg ot ct fs = Some (Inr (Some s))"
  shows "qsn_outboundTracker s = ot \<and> qsn_clientTracker s = ct"
  using assms by (auto simp: build_snapshot_store_def newQuotaSnapshotStore_def Let_def split: if_splits option.splits)

lemma rebuilt_runtime:
  assumes "rebuild env cfg m = Some (Inr r)"
  shows "(\<exists>registry providers. newDefaultFactoryRegistry (be_parseHost (rl_build env)) = Some registry \<and>
      build_providers (rl_build env) registry (cfg_Outbounds cfg) [] = Inr providers \<and>
      router_New (cfg_Rules cfg) (map_of providers) (cfg_Outbounds cfg) = Inr (ar_router r)) \<and>
    ar_dispatcher r = build_dispatcher (rl_build env) (d_store (ar_dispatcher (rm_runtime m))) cfg
      (tracker_or_new (rl_build env) (d_quotaTracker (ar_dispatcher (rm_runtime m))))
      (client_tracker_or_new (rl_build env) (d_clientQuotaTracker (ar_dispatcher (rm_runtime m))))"
  using assms
  by (auto simp: rebuild_def buildRuntimeWithTrackersAndOAuth_def Let_def split: option.splits sum.splits dest!: snapshot_store_trackers)

lemma close_store_trackers:
  assumes "close_store env clk ot ct store dirs = (e, ot', ct', dirs')"
  shows "tracker_for ot ot'" "tracker_for ct ct'"
proof -
  have "tracker_for t (snd (export_part now t))" for t now
    by (cases t) (auto simp: tracker_for_def export_part_def ExportState_def Let_def)
  then show "tracker_for ot ot'" "tracker_for ct ct'"
    using assms by (auto simp: close_store_def quota_Close_def quota_Save_def tracker_for_def split: option.splits if_splits prod.splits)
      (metis snd_conv)+
qed

lemma applied_runtime:
  assumes "rebuild env nxt m0 = Some (Inr r)" and "applyRuntimeLocked env nxt r m = Some (reset, m')"
  shows "built_for env nxt (ar_dispatcher (rm_runtime m0)) (rm_runtime m')"
proof -
  let ?old = "ar_dispatcher (rm_runtime m0)" and ?env = "rl_build env"
  note r = rebuilt_runtime [OF assms(1)]
  obtain c1 ot where ot: "ReconfigureOutbounds ?env (enabledOutbounds nxt) (tracker_or_new ?env (d_quotaTracker ?old)) = (c1, ot)" by fastforce
  obtain c2 ct where ct: "ReconfigureClientSpecs ?env (cfg_Clients nxt) (client_tracker_or_new ?env (d_clientQuotaTracker ?old)) = (c2, ct)" by fastforce
  let ?bindings = "map (listener_state nxt (rm_configPath m)) (take (length (rm_bindings m)) (normalizedListeners nxt))"
  let ?m1 = "m\<lparr>rm_cfg := nxt, rm_runtime := with_trackers ot ct r, rm_bindings := ?bindings\<rparr>"
  have m': "m' = close_quota env (ar_snapshotStore (rm_runtime m)) ?m1"
    using assms(2) r ot ct by (simp add: applyRuntimeLocked_def build_dispatcher_trackers Let_def split: if_splits)
  obtain e ot' ct' dirs where c: "close_store ?env (rl_clk env) ot ct (ar_snapshotStore (rm_runtime m)) (rm_quotaDirs m) = (e, ot', ct', dirs)"
    by (metis prod_cases4)
  have "rm_runtime m' = with_trackers ot' ct' (with_trackers ot ct r)"
    unfolding m' close_quota_def Let_def using c by (simp add: with_trackers_def)
  then have "ar_dispatcher (rm_runtime m') = build_dispatcher ?env (d_store ?old) nxt ot' ct'" "ar_router (rm_runtime m') = ar_router r"
    using r by (simp_all add: with_trackers_def build_dispatcher_trackers)
  then show ?thesis using r ot ct close_store_trackers [OF c] by (auto simp: built_for_def)
qed

lemma restart_listeners:
  "restart_settings rnd c = restart_settings rnd n \<Longrightarrow> length (normalizedListeners c) = length (normalizedListeners n)"
  by (auto simp: restart_settings_def Let_def dest: map_eq_imp_length_eq)

lemma applyRuntimeLocked_does:
  assumes "applyRuntimeLocked env nxt r m = Some (reset, m')"
  shows "rm_cfg m' = nxt" "rm_files m' = rm_files m" "rm_configPath m' = rm_configPath m" "rm_historyDir m' = rm_historyDir m"
    "rm_bindings m' = map (listener_state nxt (rm_configPath m)) (take (length (rm_bindings m)) (normalizedListeners nxt))"
  using assms by (auto simp: applyRuntimeLocked_def Let_def split: prod.splits if_splits)

text \<open>The configuration file is outside the history, the history is clean, and every listener has its handler.\<close>

definition sound_manager :: "(string \<Rightarrow> go_error + HistoryItem) \<Rightarrow> ReloadManager \<Rightarrow> bool" where
  "sound_manager decode m \<longleftrightarrow> \<not> in_dir (rm_historyDir m) (rm_configPath m) \<and> clean_history decode (rm_historyDir m) (rm_files m) \<and>
     length (rm_bindings m) = length (normalizedListeners (rm_cfg m))"

text \<open>A step that leaves the text of the configuration, or puts a valid one there, and leaves what runs, or replaces it.\<close>

definition reload_frame :: "config_lib \<Rightarrow> (string \<Rightarrow> go_error + HistoryItem) \<Rightarrow> ReloadManager \<Rightarrow> ReloadManager \<Rightarrow> bool" where
  "reload_frame lib decode m m' \<longleftrightarrow>
     rm_configPath m' = rm_configPath m \<and> sound_manager decode m' \<and>
     (config_text m' = config_text m \<or> (\<exists>c cfg. config_text m' = Some c \<and> ParseBytes lib c = Inr cfg)) \<and>
     (running m' = running m \<or> replaced lib m m')"

lemma in_dir_temp:
  assumes "in_dir dir (config_temp env p)" and "CHR ''/'' \<notin> set (cv_temp env)"
  shows "in_dir dir p"
proof -
  define x where "x = ''.'' @ cv_temp env @ ''.tmp''"
  have x: "CHR ''/'' \<notin> set x" using assms(2) by (simp add: x_def)
  obtain r where "p @ x = dir @ CHR ''/'' # r" using assms(1) by (auto simp: in_dir_def HasPrefix_iff config_temp_def x_def)
  then obtain us where "p = dir @ us \<and> us @ x = CHR ''/'' # r \<or> p @ us = dir \<and> x = us @ CHR ''/'' # r"
    by (auto simp: append_eq_append_conv2)
  then show ?thesis using x by (cases us) auto
qed

lemma WriteValidatedFile_clean:
  assumes "clean_history decode dir fs" and "\<not> in_dir dir p" and "CHR ''/'' \<notin> set (cv_temp env)"
  shows "clean_history decode dir (snd (WriteValidatedFile env p c fs))"
proof (rule clean_history_sub [OF assms(1)])
  fix q assume "in_dir dir q"
  then have "q \<noteq> p" "q \<noteq> config_temp env p" using assms(2,3) in_dir_temp by blast+
  then show "map_of (snd (WriteValidatedFile env p c fs)) q = map_of fs q \<or> map_of (snd (WriteValidatedFile env p c fs)) q = None"
    by (simp add: config_slot.put_other)
qed

lemma frame_refl: "sound_manager decode m \<Longrightarrow> reload_frame lib decode m m"
  by (simp add: reload_frame_def)

text \<open>Saving history and writing the configuration, as they occur in the calls.\<close>

lemma saved_history:
  assumes "history_SaveBytes env (rm_historyDir m) c reason (rm_files m) = (res, fs)" and "sound_manager decode m" and "reload_env_ok lib decode env"
  shows "sound_manager decode (m\<lparr>rm_files := fs\<rparr>)" "config_text (m\<lparr>rm_files := fs\<rparr>) = config_text m"
  using history_SaveBytes_keeps [of decode "rm_historyDir m" "rm_files m" lib env] assms by (auto simp: sound_manager_def config_text_def)
    (metis snd_conv)+

lemma written_config:
  assumes "WriteValidatedFile (rl_config env) (rm_configPath m) c (rm_files m) = (res, fs)" and "sound_manager decode m"
    and "reload_env_ok lib decode env"
  shows "sound_manager decode (m\<lparr>rm_files := fs\<rparr>)"
    "res = None \<Longrightarrow> config_text (m\<lparr>rm_files := fs\<rparr>) = Some c \<and> (\<exists>cfg. ParseBytes lib c = Inr cfg)"
    "res = Some e \<Longrightarrow> config_text (m\<lparr>rm_files := fs\<rparr>) = config_text m"
  using WriteValidatedFile_clean [of decode "rm_historyDir m" "rm_files m" "rm_configPath m" "rl_config env" c]
    config_slot.put_ok [of "rl_config env" "rm_configPath m" c "rm_files m"]
    config_slot.put_failed [of "rl_config env" "rm_configPath m" c "rm_files m" e] assms
  by (auto simp: sound_manager_def config_text_def reload_env_ok_def)

lemma read_config: "ReadFile env (rm_configPath m) (rm_files m) = Inr c \<Longrightarrow> config_text m = Some c"
  by (auto simp: ReadFile_def config_text_def split: option.splits)

text \<open>What each call does, on every branch: the outcomes of an apply, of a change, of an update and of a rollback.\<close>

lemma files_then_apply:
  assumes "applyRuntimeLocked env nxt r (m\<lparr>rm_files := fs\<rparr>) = Some (reset, m')"
  shows "rm_cfg m' = nxt" "rm_files m' = fs" "rm_configPath m' = rm_configPath m" "rm_historyDir m' = rm_historyDir m"
    "rm_bindings m' = map (listener_state nxt (rm_configPath m)) (take (length (rm_bindings m)) (normalizedListeners nxt))"
  using applyRuntimeLocked_does [OF assms] by simp_all

lemma saved_config_history:
  assumes "history_SaveConfig env (rm_historyDir m) cfg reason (rm_files m) = (res, fs)" and "sound_manager decode m" and "reload_env_ok lib decode env"
  shows "sound_manager decode (m\<lparr>rm_files := fs\<rparr>)" "config_text (m\<lparr>rm_files := fs\<rparr>) = config_text m"
  using assms saved_history [OF _ assms(2,3)] by (auto simp: history_SaveConfig_def split: sum.splits)

lemma applyConfigLocked_cases:
  assumes "applyConfigLocked env reason m = Some (res, x, m')"
  shows "m' = m \<or>
    (\<exists>e st fs. history_SaveConfig env (rm_historyDir m) (rm_cfg m) reason (rm_files m) = (Inl e, fs) \<and>
       res = Inl (AdminFailure e) \<and> m' = close_quota env st (m\<lparr>rm_files := fs\<rparr>)) \<or>
    (\<exists>c nxt i fs r reset. ReadFile (rl_config env) (rm_configPath m) (rm_files m) = Inr c \<and> reload_parse env c = Inr nxt \<and>
       restartRequiredReason (reload_rnd env) (rm_cfg m) nxt = [] \<and>
       history_SaveConfig env (rm_historyDir m) (rm_cfg m) reason (rm_files m) = (Inr i, fs) \<and>
       applyRuntimeLocked env nxt r (m\<lparr>rm_files := fs\<rparr>) = Some (reset, m') \<and> res = Inr x)"
  using assms unfolding applyConfigLocked_def failed_def answered_def Let_def
  by (auto split: if_splits sum.splits option.splits prod.splits)

lemma store_mutation_cases:
  assumes "store_mutation env reason old text nxt m = Some (res, x, m')"
  shows "(m' = m \<and> (\<exists>e. res = Inl e)) \<or>
    (\<exists>e st fs. history_SaveBytes env (rm_historyDir m) old reason (rm_files m) = (Inl e, fs) \<and>
       res = Inl (AdminFailure e) \<and> m' = close_quota env st (m\<lparr>rm_files := fs\<rparr>)) \<or>
    (\<exists>i fs e st fs1. history_SaveBytes env (rm_historyDir m) old reason (rm_files m) = (Inr i, fs) \<and>
       WriteValidatedFile (rl_config env) (rm_configPath m) text fs = (Some e, fs1) \<and>
       res = Inl (AdminFailure e) \<and> m' = close_quota env st (m\<lparr>rm_files := fs1\<rparr>)) \<or>
    (\<exists>i fs fs1 r reset. restartRequiredReason (reload_rnd env) (rm_cfg m) nxt = [] \<and>
       history_SaveBytes env (rm_historyDir m) old reason (rm_files m) = (Inr i, fs) \<and>
       WriteValidatedFile (rl_config env) (rm_configPath m) text fs = (None, fs1) \<and>
       applyRuntimeLocked env nxt r (m\<lparr>rm_files := fs1\<rparr>) = Some (reset, m') \<and> res = Inr x \<and> rr_HistoryID x = i)"
  using assms unfolding store_mutation_def failed_def answered_def Let_def
  by (auto split: if_splits sum.splits option.splits prod.splits)

lemma MutateConfig_cases:
  assumes "MutateConfig env reason f m = Some (res, x, m')"
  shows "(m' = m \<and> (\<exists>e. res = Inl e)) \<or>
    (\<exists>g old current edited text nxt. f = Some g \<and> ReadFile (rl_config env) (rm_configPath m) (rm_files m) = Inr old \<and>
       reload_parse env old = Inr current \<and> restartRequiredReason (reload_rnd env) (rm_cfg m) current = [] \<and>
       g current = Inr edited \<and> yl_marshal (cf_yaml (cv_lib (rl_config env))) edited = Inr text \<and>
       reload_parse env text = Inr nxt \<and> store_mutation env reason old text nxt m = Some (res, x, m'))"
  using assms unfolding MutateConfig_def failed_def Let_def
  by (auto split: if_splits sum.splits option.splits)

lemma UpdateConfig_cases:
  assumes "UpdateConfig env expected content m = (res, m')"
  shows "(m' = m \<and> (\<exists>e. res = Inl e)) \<or>
    (\<exists>old e fs. WriteValidatedFile (rl_config env) (rm_configPath m) content (rm_files m) = (e, fs) \<and> m' = m\<lparr>rm_files := fs\<rparr> \<and>
       ReadFile (rl_config env) (rm_configPath m) (rm_files m) = Inr old \<and> revision_matches env expected old \<and>
       (e = None \<longrightarrow> (\<exists>u. res = Inr u \<and> cu_Revision u = configRevision env content)) \<and> (\<forall>err. e = Some err \<longrightarrow> res = Inl (AdminFailure err)))"
proof (cases "rm_configPath m \<noteq> [] \<and> (\<exists>cfg. reload_parse env content = Inr cfg) \<and>
    (\<exists>old. ReadFile (rl_config env) (rm_configPath m) (rm_files m) = Inr old \<and> revision_matches env expected old)")
  case False
  then show ?thesis using assms by (intro disjI1) (auto simp: UpdateConfig_def split: if_splits sum.splits)
next
  case True
  obtain e fs where "WriteValidatedFile (rl_config env) (rm_configPath m) content (rm_files m) = (e, fs)" by (meson surj_pair)
  then show ?thesis using assms True by (cases e) (auto simp: UpdateConfig_def)
qed

text \<open>Chaining: a change of files that keeps what runs, then another step.\<close>

lemma frame_files:
  assumes "sound_manager decode (m\<lparr>rm_files := fs\<rparr>)"
    and "config_text (m\<lparr>rm_files := fs\<rparr>) = config_text m \<or> (\<exists>c cfg. config_text (m\<lparr>rm_files := fs\<rparr>) = Some c \<and> ParseBytes lib c = Inr cfg)"
  shows "reload_frame lib decode m (m\<lparr>rm_files := fs\<rparr>)"
  using assms by (simp add: reload_frame_def running_def)

lemma frame_close:
  "reload_frame lib decode m m' \<Longrightarrow> reload_frame lib decode m (close_quota env st m')"
  by (auto simp: reload_frame_def running_def replaced_def sound_manager_def config_text_def)

lemma frame_applied:
  assumes "applyRuntimeLocked env nxt r (m\<lparr>rm_files := fs\<rparr>) = Some (reset, m')" and "reload_frame lib decode m (m\<lparr>rm_files := fs\<rparr>)"
    and "ParseBytes lib c = Inr nxt" and "restartRequiredReason (cf_rnd lib) (rm_cfg m) nxt = []"
  shows "reload_frame lib decode m m'" "replaced lib m m'"
proof -
  note m' = files_then_apply [OF assms(1)]
  have same: "restart_settings (cf_rnd lib) (rm_cfg m) = restart_settings (cf_rnd lib) nxt" using assms(4) by (simp add: restartRequiredReason_iff)
  then have n: "length (rm_bindings m) = length (normalizedListeners nxt)"
    using assms(2) restart_listeners [OF same] by (simp add: reload_frame_def sound_manager_def)
  show r: "replaced lib m m'" using assms(3) same m' n by (auto simp: replaced_def)
  show "reload_frame lib decode m m'"
    using assms(2) r m' n by (auto simp: reload_frame_def sound_manager_def config_text_def)
qed

lemma frame_trans:
  assumes "reload_frame lib decode m m1" and "reload_frame lib decode m1 m2"
  shows "reload_frame lib decode m m2"
  using assms by (auto simp: reload_frame_def running_def replaced_def)

lemma written_frame:
  assumes "WriteValidatedFile (rl_config env) (rm_configPath m) c (rm_files m) = (res, fs)" and "sound_manager decode m"
    and "reload_env_ok lib decode env"
  shows "reload_frame lib decode m (m\<lparr>rm_files := fs\<rparr>)"
  using written_config [OF assms] by (intro frame_files) (cases res, auto)+

lemma applyConfigLocked_frame:
  assumes "applyConfigLocked env reason m = Some (res, x, m')" and "sound_manager decode m" and "reload_env_ok lib decode env"
  shows "reload_frame lib decode m m'" "\<And>e. res = Inl e \<Longrightarrow> running m' = running m"
proof -
  have lib: "cv_lib (rl_config env) = lib" using assms(3) by (simp add: reload_env_ok_def)
  have saved: "reload_frame lib decode m (m\<lparr>rm_files := fs\<rparr>)"
    if "history_SaveConfig env (rm_historyDir m) (rm_cfg m) reason (rm_files m) = (y, fs)" for y fs
    using saved_config_history [OF that assms(2,3)] by (auto intro: frame_files)
  show "reload_frame lib decode m m'"
    using applyConfigLocked_cases [OF assms(1), unfolded lib] frame_refl [OF assms(2)] saved frame_close frame_applied(1) by blast
  show "running m' = running m" if "res = Inl e" for e
    using applyConfigLocked_cases [OF assms(1), unfolded lib] that by (auto simp: running_def)
qed

text \<open>The outcomes of a change once its text is parsed: what it leaves of the file, and what runs then.\<close>

definition mutation_outcome ::
  "config_lib \<Rightarrow> (string \<Rightarrow> go_error + HistoryItem) \<Rightarrow> string \<Rightarrow> Config \<Rightarrow> admin_error + ReloadResult \<Rightarrow> ReloadManager \<Rightarrow> ReloadManager \<Rightarrow> bool" where
  "mutation_outcome lib decode text nxt res m m' \<longleftrightarrow> reload_frame lib decode m m' \<and>
     (case res of
        Inl e \<Rightarrow> running m' = running m \<and> config_text m' = config_text m
      | Inr r \<Rightarrow> config_text m' = Some text \<and> rm_cfg m' = nxt \<and> replaced lib m m')"

lemma failed_outcome:
  assumes "sound_manager decode (m\<lparr>rm_files := fs\<rparr>)" and "config_text (m\<lparr>rm_files := fs\<rparr>) = config_text m"
  shows "mutation_outcome lib decode text nxt (Inl e) m (close_quota env st (m\<lparr>rm_files := fs\<rparr>))"
  using frame_close [OF frame_files [OF assms(1) disjI1 [OF assms(2)], of lib]] assms(2)
  by (simp add: mutation_outcome_def running_def config_text_def)

lemma store_mutation_does:
  assumes "store_mutation env reason old text nxt m = Some (res, x, m')" and "ParseBytes lib text = Inr nxt"
    and "sound_manager decode m" and "reload_env_ok lib decode env"
  shows "mutation_outcome lib decode text nxt res m m'"
proof -
  have lib: "cv_lib (rl_config env) = lib" using assms(4) by (simp add: reload_env_ok_def)
  note saved = saved_history [OF _ assms(3,4), of old reason]
  have wr: "sound_manager decode (m\<lparr>rm_files := fs1\<rparr>)" "y = None \<Longrightarrow> config_text (m\<lparr>rm_files := fs1\<rparr>) = Some text"
    "y = Some e \<Longrightarrow> config_text (m\<lparr>rm_files := fs1\<rparr>) = config_text m"
    if "history_SaveBytes env (rm_historyDir m) old reason (rm_files m) = (Inr i, fs)"
      "WriteValidatedFile (rl_config env) (rm_configPath m) text fs = (y, fs1)" for i fs y fs1 e
    using written_config [where m = "m\<lparr>rm_files := fs\<rparr>" and env = env and c = "text" and res = y and fs = fs1] that saved [OF that(1)] assms(4)
    by (auto simp: config_text_def sound_manager_def)
  consider (early) e where "m' = m" "res = Inl e"
    | (history) e st fs where "history_SaveBytes env (rm_historyDir m) old reason (rm_files m) = (Inl e, fs)"
        "res = Inl (AdminFailure e)" "m' = close_quota env st (m\<lparr>rm_files := fs\<rparr>)"
    | (unwritten) i fs e st fs1 where "history_SaveBytes env (rm_historyDir m) old reason (rm_files m) = (Inr i, fs)"
        "WriteValidatedFile (rl_config env) (rm_configPath m) text fs = (Some e, fs1)"
        "res = Inl (AdminFailure e)" "m' = close_quota env st (m\<lparr>rm_files := fs1\<rparr>)"
    | (installed) i fs fs1 r reset where "restartRequiredReason (cf_rnd lib) (rm_cfg m) nxt = []"
        "history_SaveBytes env (rm_historyDir m) old reason (rm_files m) = (Inr i, fs)"
        "WriteValidatedFile (rl_config env) (rm_configPath m) text fs = (None, fs1)"
        "applyRuntimeLocked env nxt r (m\<lparr>rm_files := fs1\<rparr>) = Some (reset, m')" "res = Inr x"
    using store_mutation_cases [OF assms(1), unfolded lib] by (elim disjE exE conjE) blast+
  then show ?thesis
  proof cases
    case early
    then show ?thesis using frame_refl [OF assms(3)] by (simp add: mutation_outcome_def)
  next
    case history
    then show ?thesis using failed_outcome [OF saved] by simp
  next
    case unwritten
    then show ?thesis using failed_outcome [OF wr(1,3)] by simp
  next
    case installed
    note w = wr(1,2) [OF installed(2,3)]
    have "reload_frame lib decode m (m\<lparr>rm_files := fs1\<rparr>)" using w assms(2) by (intro frame_files) auto
    from frame_applied [OF installed(4) this assms(2) installed(1)] files_then_apply [OF installed(4)] show ?thesis
      using w installed(5) by (simp add: mutation_outcome_def config_text_def)
  qed
qed

lemma MutateConfig_does:
  assumes "MutateConfig env reason f m = Some (res, x, m')" and "sound_manager decode m" and "reload_env_ok lib decode env"
  shows "(\<exists>e. res = Inl e \<and> m' = m) \<or>
    (\<exists>g old current edited text nxt. f = Some g \<and> config_text m = Some old \<and> ParseBytes lib old = Inr current \<and>
       g current = Inr edited \<and> yl_marshal (cf_yaml lib) edited = Inr text \<and> ParseBytes lib text = Inr nxt \<and>
       mutation_outcome lib decode text nxt res m m')"
proof -
  have "cv_lib (rl_config env) = lib" using assms(3) by (simp add: reload_env_ok_def)
  from MutateConfig_cases [OF assms(1), unfolded this] store_mutation_does [OF _ _ assms(2,3)] read_config
  show ?thesis by (metis (no_types, lifting))
qed

lemma MutateConfig_frame:
  assumes "MutateConfig env reason f m = Some (res, x, m')" and "sound_manager decode m" and "reload_env_ok lib decode env"
  shows "reload_frame lib decode m m'"
  using MutateConfig_does [OF assms] frame_refl [OF assms(2)] by (auto simp: mutation_outcome_def)

lemma MutateConfig_runtime:
  assumes "MutateConfig env reason f m = Some (Inr r, x, m')"
  shows "built_for env (rm_cfg m') (ar_dispatcher (rm_runtime m)) (rm_runtime m')"
proof -
  obtain old nextData nxt where "store_mutation env reason old nextData nxt m = Some (Inr r, x, m')" using MutateConfig_cases [OF assms] by blast
  then obtain rt fs reset where rt: "rebuild env nxt m = Some (Inr rt)" "applyRuntimeLocked env nxt rt (m\<lparr>rm_files := fs\<rparr>) = Some (reset, m')"
    unfolding store_mutation_def failed_def answered_def Let_def by (auto split: if_splits sum.splits option.splits prod.splits)
  from applied_runtime [OF rt] files_then_apply(1) [OF rt(2)] show ?thesis by simp
qed

lemma UpdateConfig_frame:
  assumes "UpdateConfig env expected content m = (res, m')" and "sound_manager decode m" and "reload_env_ok lib decode env"
  shows "reload_frame lib decode m m'"
  using UpdateConfig_cases [OF assms(1)] written_frame [OF _ assms(2,3)] frame_refl [OF assms(2)] by blast

lemma rollback_apply_frame:
  assumes "rollback_apply env current i m = Some (res, x, m')" and "sound_manager decode m" and "reload_env_ok lib decode env"
  shows "reload_frame lib decode m m'"
proof -
  obtain res1 m1 where m1: "applyConfigLocked env (''rollback_'' @ i) m = Some (res1, x, m1)"
    and m': "m' = m1 \<or> m' = m1\<lparr>rm_files := snd (WriteValidatedFile (rl_config env) (rm_configPath m1) current (rm_files m1))\<rparr>"
    using assms(1) by (auto simp: rollback_apply_def split: option.splits sum.splits)
  note frame = applyConfigLocked_frame(1) [OF m1 assms(2,3)]
  then have "reload_frame lib decode m1 m'"
    using m' written_frame [OF _ _ assms(3), where m = m1, OF surjective_pairing] frame_refl by (auto simp: reload_frame_def)
  with frame show ?thesis by (rule frame_trans)
qed

lemma rollback_to_frame:
  assumes "rollback_to env env2 old current i m = Some (res, x, m')" and "sound_manager decode m"
    and "reload_env_ok lib decode env" and "reload_env_ok lib decode env2"
  shows "reload_frame lib decode m m'"
proof -
  obtain y fs where h: "history_SaveBytes env (rm_historyDir m) current (''rollback_before_'' @ i) (rm_files m) = (y, fs)" by (meson surj_pair)
  note saved = saved_history [OF h assms(2,3)]
  then have f: "reload_frame lib decode m (m\<lparr>rm_files := fs\<rparr>)" by (auto intro: frame_files)
  obtain z fs1 where w: "WriteValidatedFile (rl_config env) (rm_configPath m) old fs = (z, fs1)" by (meson surj_pair)
  have "reload_frame lib decode (m\<lparr>rm_files := fs\<rparr>) (m\<lparr>rm_files := fs1\<rparr>)"
    using written_frame [of env "m\<lparr>rm_files := fs\<rparr>", OF _ saved(1) assms(3)] w by simp
  with f have f1: "reload_frame lib decode m (m\<lparr>rm_files := fs1\<rparr>)" by (rule frame_trans)
  then have "sound_manager decode (m\<lparr>rm_files := fs1\<rparr>)" by (simp add: reload_frame_def)
  from frame_trans [OF f1 rollback_apply_frame [OF _ this assms(4)]] show ?thesis
    using assms(1) f f1 h w by (auto simp: rollback_to_def failed_def split: sum.splits option.splits)
qed

lemma Rollback_frame:
  assumes "Rollback env env2 i m = Some (res, x, m')" and "sound_manager decode m"
    and "reload_env_ok lib decode env" and "reload_env_ok lib decode env2"
  shows "reload_frame lib decode m m'"
  using assms(1) rollback_to_frame [OF _ assms(2-4)] frame_refl [OF assms(2)]
  by (auto simp: Rollback_def failed_def split: if_splits sum.splits prod.splits)

section \<open>Sequences of calls\<close>

text \<open>The calls of the administrators, with whatever faults.\<close>

inductive reload_step :: "config_lib \<Rightarrow> (string \<Rightarrow> go_error + HistoryItem) \<Rightarrow> ReloadManager \<Rightarrow> ReloadManager \<Rightarrow> bool"
  for lib decode where
  apply_step: "reload_env_ok lib decode env \<Longrightarrow> ApplyConfig env m = Some (res, x, m') \<Longrightarrow> reload_step lib decode m m'"
| mutate_step: "reload_env_ok lib decode env \<Longrightarrow> MutateConfig env reason f m = Some (res, x, m') \<Longrightarrow> reload_step lib decode m m'"
| update_step: "reload_env_ok lib decode env \<Longrightarrow> UpdateConfig env expected content m = (upd, m') \<Longrightarrow> reload_step lib decode m m'"
| rollback_step: "reload_env_ok lib decode env \<Longrightarrow> reload_env_ok lib decode env2 \<Longrightarrow> Rollback env env2 i m = Some (res, x, m') \<Longrightarrow>
    reload_step lib decode m m'"

lemma reload_step_frame: "reload_step lib decode m m' \<Longrightarrow> sound_manager decode m \<Longrightarrow> reload_frame lib decode m m'"
  by (induction rule: reload_step.induct)
     (auto simp: ApplyConfig_def intro: applyConfigLocked_frame(1) MutateConfig_frame UpdateConfig_frame Rollback_frame)

lemma reload_steps_frame: "(reload_step lib decode)\<^sup>*\<^sup>* m m' \<Longrightarrow> sound_manager decode m \<Longrightarrow> reload_frame lib decode m m'"
proof (induction rule: rtranclp_induct)
  case (step m1 m2)
  then have "reload_frame lib decode m m1" "sound_manager decode m1" by (auto simp: reload_frame_def)
  with reload_step_frame [OF step(2)] show ?case by (blast intro: frame_trans)
qed (rule frame_refl)

section \<open>No call panics\<close>

lemma default_registry: "newDefaultFactoryRegistry parseHost \<noteq> None"
  by (simp add: newDefaultFactoryRegistry_def default_factories_def factory_Register_def NewFactoryRegistry_def trim_eval)

lemma ParseBytes_flush:
  assumes "ParseBytes lib c = Inr cfg" and "gov_SnapshotEnabled (cfg_Governance cfg)"
  shows "0 < DurationValue_Duration (cf_rnd lib) (gov_SnapshotFlushInterval (cfg_Governance cfg))"
proof -
  obtain raw where v: "Validate (cf_rnd lib) (cf_loadLocation lib) (cf_timeError lib) (cf_parseURL lib) (applyDefaults raw) = (None, cfg)"
    using assms(1) by (auto simp: ParseBytes_def split: sum.splits prod.splits option.splits)
  have "cfg_Governance (applyDefaults x) = cfg_Governance x" "cfg_Governance (window_defaults x) = cfg_Governance x" for x
    by (simp_all add: applyDefaults_def window_defaults_def Let_def)
  then have "cfg_Governance cfg = cfg_Governance raw" "validateGovernance (cf_rnd lib) (cfg_Governance raw) = None"
    using v by (auto simp: Validate_def Let_def)
  then show ?thesis using assms(2) by (auto simp: validateGovernance_def)
qed

lemma rebuild_returns:
  assumes "ParseBytes lib c = Inr nxt" and "be_rnd (rl_build env) = cf_rnd lib"
  shows "rebuild env nxt m \<noteq> None"
  using default_registry [of "be_parseHost (rl_build env)"] ParseBytes_flush [OF assms(1)] assms(2)
  by (auto simp: rebuild_def buildRuntimeWithTrackersAndOAuth_def build_snapshot_store_def newQuotaSnapshotStore_def Let_def
      split: option.splits sum.splits)

lemma apply_returns:
  assumes "sound_manager decode m" and "restartRequiredReason rnd (rm_cfg m) nxt = []"
  shows "applyRuntimeLocked env nxt r (m\<lparr>rm_files := fs\<rparr>) \<noteq> None"
  using assms restart_listeners [of rnd "rm_cfg m" nxt]
  by (auto simp: applyRuntimeLocked_def Let_def sound_manager_def restartRequiredReason_iff split: prod.splits)

lemma applyConfigLocked_panics:
  assumes "applyConfigLocked env reason m = None"
  shows "\<exists>c nxt. reload_parse env c = Inr nxt \<and> restartRequiredReason (reload_rnd env) (rm_cfg m) nxt = [] \<and>
    (rebuild env nxt m = None \<or> (\<exists>r fs. applyRuntimeLocked env nxt r (m\<lparr>rm_files := fs\<rparr>) = None))"
  using assms unfolding applyConfigLocked_def failed_def answered_def Let_def
  by (auto split: if_splits sum.splits option.splits prod.splits)

lemma MutateConfig_panics:
  assumes "MutateConfig env reason f m = None"
  shows "\<exists>c nxt. reload_parse env c = Inr nxt \<and> restartRequiredReason (reload_rnd env) (rm_cfg m) nxt = [] \<and>
    (rebuild env nxt m = None \<or> (\<exists>r fs. applyRuntimeLocked env nxt r (m\<lparr>rm_files := fs\<rparr>) = None))"
  using assms unfolding MutateConfig_def store_mutation_def failed_def answered_def Let_def
  by (auto split: if_splits sum.splits option.splits prod.splits)

section \<open>Properties\<close>

text \<open>C28: Whatever the administrators do and whatever fails on disk, the configuration file always parses and validates, the running
  configuration is one that did, every listener's handler runs on it, and the settings that need a restart (the directories of
  credentials and sessions, the listeners, the log files) are those the process started with.\<close>

theorem config_stays_valid:
  assumes "(reload_step lib decode)\<^sup>*\<^sup>* m m'" and "sound_manager decode m"
    and "config_text m = Some c" and "ParseBytes lib c = Inr cfg" and "ParseBytes lib c0 = Inr (rm_cfg m)"
    and "rm_bindings m = map (listener_state (rm_cfg m) (rm_configPath m)) (normalizedListeners (rm_cfg m))"
  shows "(\<exists>c cfg. config_text m' = Some c \<and> ParseBytes lib c = Inr cfg) \<and> (\<exists>c0. ParseBytes lib c0 = Inr (rm_cfg m')) \<and>
    rm_bindings m' = map (listener_state (rm_cfg m') (rm_configPath m')) (normalizedListeners (rm_cfg m')) \<and>
    restart_settings (cf_rnd lib) (rm_cfg m') = restart_settings (cf_rnd lib) (rm_cfg m)"
  using reload_steps_frame [OF assms(1,2)] assms(3-6) by (auto simp: reload_frame_def running_def replaced_def)

text \<open>C29: A change through the administration that fails, at whatever point, leaves the configuration file, the running
  configuration, the router and the handlers as they were.\<close>

theorem failed_change_changes_nothing:
  assumes "MutateConfig env reason f m = Some (Inl e, x, m')" and "sound_manager decode m" and "reload_env_ok lib decode env"
  shows "config_text m' = config_text m \<and> running m' = running m"
  using MutateConfig_does [OF assms] by (auto simp: mutation_outcome_def)

text \<open>C30: A change that succeeds is the one that was asked for: it was made on the configuration in the file, its text is what the
  file now holds, the configuration that runs is the one read back from that text, every handler has its clients and inbounds, and the
  router, the providers and the dispatcher that all handlers share were built from it, with the usage store and the quota trackers kept.\<close>

theorem applied_change_is_saved:
  assumes "MutateConfig env reason f m = Some (Inr r, x, m')" and "sound_manager decode m" and "reload_env_ok lib decode env"
  shows "\<exists>g old current edited saved. f = Some g \<and> config_text m = Some old \<and> ParseBytes lib old = Inr current \<and> g current = Inr edited \<and>
    yl_marshal (cf_yaml lib) edited = Inr saved \<and> config_text m' = Some saved \<and> ParseBytes lib saved = Inr (rm_cfg m') \<and>
    rm_bindings m' = map (listener_state (rm_cfg m') (rm_configPath m)) (normalizedListeners (rm_cfg m')) \<and>
    built_for env (rm_cfg m') (ar_dispatcher (rm_runtime m)) (rm_runtime m')"
  using MutateConfig_does [OF assms] MutateConfig_runtime [OF assms(1)] by (auto simp: mutation_outcome_def replaced_def)

text \<open>C31: No update is lost: of two administrators who both start from the same revision, the second to save is refused and nothing
  is written, unless the first saved a text of the same checksum.\<close>

theorem stale_update_rejected:
  assumes "UpdateConfig env1 revision first m = (Inr u, m1)" and "revision \<noteq> ''*''" and "rl_sha env2 = rl_sha env1"
    and "config_text m = Some base" and "rl_sha env1 first \<noteq> rl_sha env1 base" and "sound_manager decode m" and "reload_env_ok lib decode env1"
  shows "\<exists>e. UpdateConfig env2 revision second m1 = (Inl e, m1)"
proof -
  obtain old fs where w: "WriteValidatedFile (rl_config env1) (rm_configPath m) first (rm_files m) = (None, fs)" "m1 = m\<lparr>rm_files := fs\<rparr>"
    and old: "ReadFile (rl_config env1) (rm_configPath m) (rm_files m) = Inr old" "revision_matches env1 revision old"
    using UpdateConfig_cases [OF assms(1)] by auto
  have "config_text m1 = Some first" using written_config(2) [OF w(1) assms(6,7)] w(2) by simp
  moreover have "TrimSpace revision = ''sha256:'' @ rl_sha env1 base"
    using old read_config [OF old(1)] assms(2,4) by (simp add: revision_matches_def configRevision_def)
  ultimately have "\<not> revision_matches env2 revision c" if "ReadFile (rl_config env2) (rm_configPath m1) (rm_files m1) = Inr c" for c
    using read_config [OF that] assms(2,3,5) by (simp add: revision_matches_def configRevision_def)
  then show ?thesis by (auto simp: UpdateConfig_def split: sum.splits)
qed

text \<open>No call of the reload manager panics: applying or changing a configuration always returns a result or an error, because a
  valid configuration has a positive flush interval and a change that needs no restart keeps the number of listeners.\<close>

theorem reload_never_panics:
  assumes "sound_manager decode m" and "be_rnd (rl_build env) = cf_rnd (cv_lib (rl_config env))"
  shows "ApplyConfig env m \<noteq> None \<and> MutateConfig env reason f m \<noteq> None"
  using applyConfigLocked_panics [of env "''apply''" m] MutateConfig_panics [of env reason f m] rebuild_returns [OF _ assms(2)]
    apply_returns [OF assms(1)]
  unfolding ApplyConfig_def by blast

section \<open>Witnesses\<close>

definition sample_inbound_spec :: "string \<Rightarrow> string \<Rightarrow> InboundSpec" where
  "sample_inbound_spec n path = \<lparr>in_Name = n, in_Protocol = ''openai_chat'', in_Path = path, in_Clients = [\<lparr>cb_Ref = ''d'', cb_Tag = ''client''\<rparr>]\<rparr>"

definition sample_file :: Config where
  "sample_file = sample_config
     \<lparr>cfg_Clients := [sample_client_spec, sample_client_spec\<lparr>cl_Name := ''d'', cl_Token := ''u''\<rparr>],
      cfg_Inbounds := [sample_inbound_spec ''in'' ''/v1'', sample_inbound_spec ''in2'' ''/v2''],
      cfg_Admin := (cfg_Admin sample_config)\<lparr>adm_Enabled := True, adm_Token := ''s''\<rparr>\<rparr>"

lemmas sample_file_defs = sample_file_def sample_inbound_spec_def sample_config_defs

definition sample_running :: Config where
  "sample_running = window_defaults (applyDefaults sample_file)"

definition sample_next :: Config where
  "sample_next = DeleteClient sample_running ''c''"

definition sample_yaml :: yaml_lib where
  "sample_yaml =
     \<lparr>yl_unmarshal = \<lambda>t. Inr (YNode ScalarNode [] t []),
      yl_decode = \<lambda>n. if y_Value n = ''a'' then Inr sample_file else if y_Value n = ''b'' then Inr sample_next else Inl (PlainError ''yaml''),
      yl_legacy = \<lambda>_. Inl (PlainError ''yaml''),
      yl_marshal = \<lambda>cfg. if cfg = sample_next then Inr ''b'' else Inl (PlainError ''yaml''),
      yl_marshal_node = \<lambda>n. Inr (y_Value n)\<rparr>"

definition sample_config_lib :: config_lib where
  "sample_config_lib = \<lparr>cf_yaml = sample_yaml, cf_rnd = id, cf_loadLocation = \<lambda>_. None, cf_timeError = id, cf_parseURL = \<lambda>_. Inl []\<rparr>"

lemma sample_decoded: "decode_config sample_config_lib ''a'' = Inr sample_file" "decode_config sample_config_lib ''b'' = Inr sample_next"
  by (simp_all add: decode_config_def sample_config_lib_def sample_yaml_def detectClientConfigFormat_def Let_def)

lemma sample_default_valid:
  "Validate id (\<lambda>_. None) id (\<lambda>_. Inl []) (applyDefaults sample_file) = (None, window_defaults (applyDefaults sample_file))"
  by (simp add: validation_defs sample_file_defs sample_duration trim_eval validate_inbound_def IsSupportedInbound_def index_text_def)

lemma sample_next_valid:
  "Validate id (\<lambda>_. None) id (\<lambda>_. Inl []) (applyDefaults sample_next) = (None, window_defaults (applyDefaults sample_next))"
  by (simp add: sample_next_def sample_running_def DeleteClient_def delete_by_def validation_defs sample_file_defs sample_duration trim_eval validate_inbound_def IsSupportedInbound_def index_text_def)

lemma sample_parsed:
  "ParseBytes sample_config_lib ''a'' = Inr sample_running"
  "ParseBytes sample_config_lib ''b'' = Inr (window_defaults (applyDefaults sample_next))"
  using sample_default_valid sample_next_valid
  by (simp_all add: ParseBytes_def sample_decoded sample_running_def) (simp_all add: sample_config_lib_def)

definition sample_item :: HistoryItem where
  "sample_item = \<lparr>hi_ID = ''00010101-000000-a'', hi_CreatedAt = format_RFC3339Nano 0, hi_Reason = ''client_delete_c'',
     hi_Path = ''h/00010101-000000-a.yaml'', hi_Checksum = ''a''\<rparr>"

definition sample_build :: build_env where
  "sample_build = \<lparr>be_parseHost = \<lambda>_. None, be_source = \<lambda>_ _. None, be_parseURL = \<lambda>_. Inl (PlainError ''url''),
     be_provider = \<lambda>_ _. sample_provider ''a'', be_builtIn = [],
     be_quota = \<lparr>sv_fault = \<lambda>_. None, sv_write = \<lambda>_. None, sv_temp = [], sv_encode = \<lambda>_. Inl (PlainError ''json''),
       sv_decode = \<lambda>_. Inl (PlainError ''json'')\<rparr>, be_rnd = id, be_loadLocation = \<lambda>_. None, be_now = 0\<rparr>"

definition sample_decode :: "string \<Rightarrow> go_error + HistoryItem" where
  "sample_decode c = (if c = ''x'' then Inr sample_item else Inl (PlainError ''json''))"

definition sample_reload :: "(config_op \<Rightarrow> go_error option) \<Rightarrow> reload_env" where
  "sample_reload fault = \<lparr>rl_config = \<lparr>cv_lib = sample_config_lib, cv_fault = fault, cv_write = \<lambda>_. None, cv_temp = ''7''\<rparr>,
     rl_build = sample_build, rl_clk = \<lambda>_. 0, rl_now = 0, rl_sha = id,
     rl_encode_item = \<lambda>item. if item = sample_item then Inr ''x'' else Inl (PlainError ''json''),
     rl_decode_item = sample_decode, rl_part = \<lambda>_. None\<rparr>"

lemma sample_reload_ok: "reload_env_ok sample_config_lib sample_decode (sample_reload fault)"
  by (auto simp: reload_env_ok_def sample_reload_def sample_decode_def take_Cons' split: if_splits)

definition sample_manager :: ReloadManager where
  "sample_manager = \<lparr>rm_configPath = ''c'', rm_historyDir = ''h'', rm_files = [(''c'', ''a'')], rm_cfg = sample_running,
     rm_runtime = \<lparr>ar_router = sample_router RoutingStrategyRoundRobin, ar_dispatcher = NewDispatcher 0 None None None None None None [],
       ar_snapshotStore = None\<rparr>,
     rm_bindings = map (listener_state sample_running ''c'') (normalizedListeners sample_running), rm_quotaDirs = \<lambda>_. []\<rparr>"

lemma sample_manager_sound: "sound_manager sample_decode sample_manager"
  by (auto simp: sound_manager_def sample_manager_def in_dir_def HasPrefix_def clean_history_def split: if_splits)

lemma sample_manager_fields [simp]:
  "rm_configPath sample_manager = ''c''" "rm_historyDir sample_manager = ''h''" "rm_files sample_manager = [(''c'', ''a'')]"
  "rm_cfg sample_manager = sample_running"
  by (simp_all add: sample_manager_def)

lemma sample_stamp: "log_stamp UTC 0 = ''00010101-000000''"
  by code_simp

definition broken_rename :: "config_op \<Rightarrow> go_error option" where
  "broken_rename call = (if call = CfgRename ''c'' then Some (PlainError ''io'') else None)"

lemma sample_saved:
  "history_SaveBytes (sample_reload (\<lambda>_. None)) ''h'' ''a'' ''client_delete_c'' [(''c'', ''a'')] =
    (Inr ''00010101-000000-a'', [(''c'', ''a''), (''h/00010101-000000-a.yaml'', ''a''), (''h/00010101-000000-a.json'', ''x'')])"
  "history_SaveBytes (sample_reload broken_rename) ''h'' ''a'' ''client_delete_c'' [(''c'', ''a'')] =
    (Inr ''00010101-000000-a'', [(''c'', ''a''), (''h/00010101-000000-a.yaml'', ''a''), (''h/00010101-000000-a.json'', ''x'')])"
  by code_simp+

lemma sample_rebuilt: "\<exists>r. rebuild (sample_reload fault) (window_defaults (applyDefaults sample_next)) sample_manager = Some (Inr r)"
proof -
  let ?cfg = "window_defaults (applyDefaults sample_next)"
  obtain registry where reg: "newDefaultFactoryRegistry (\<lambda>_. None) = Some registry" using default_registry by blast
  then have mock: "map_of (freg_factories registry) ''mock'' = Some (\<lambda>name _ _ _. Inr (MockValue name))"
    by (auto simp: newDefaultFactoryRegistry_def default_factories_def factory_Register_def NewFactoryRegistry_def)
  note cfg_defs = sample_next_def sample_running_def DeleteClient_def applyDefaults_def sample_file_defs
  have providers: "build_providers sample_build registry (cfg_Outbounds ?cfg) [] = Inr [(''a'', sample_provider ''a'')]"
    using mock
    by (simp add: cfg_defs Let_def OutboundEnabled_def NewHTTPClient_def newProviderInstance_def factory_New_def sample_build_def TrimSpace_Nil)
  moreover have "\<exists>r. router_New (cfg_Rules ?cfg) (map_of [(''a'', sample_provider ''a'')]) (cfg_Outbounds ?cfg) = Inr r"
    unfolding router_New_ok by (simp add: cfg_defs Let_def)
  moreover have "\<not> gov_SnapshotEnabled (cfg_Governance ?cfg)" by (simp add: cfg_defs Let_def)
  ultimately show ?thesis using reg
    by (auto simp: rebuild_def buildRuntimeWithTrackersAndOAuth_def build_snapshot_store_def newQuotaSnapshotStore_def sample_reload_def sample_build_def Let_def)
qed

lemma sample_parse [simp]: "reload_parse (sample_reload fault) = ParseBytes sample_config_lib" "reload_rnd (sample_reload fault) = id"
  "cf_yaml (cv_lib (rl_config (sample_reload fault))) = sample_yaml"
  by (simp_all add: sample_reload_def sample_config_lib_def)

lemma sample_deleted: "client_delete ''c'' sample_running = Inr sample_next"
  by (simp add: client_delete_def FindClient_def find_by_def ClientBindings_def sample_next_def sample_running_def applyDefaults_def sample_file_defs Let_def)

lemma sample_restart: "restartRequiredReason id sample_running (window_defaults (applyDefaults sample_next)) = []"
  by (simp add: restartRequiredReason_iff restart_settings_def rotation_settings_def effectiveAdminLogsConfig_def effectiveSessionSnapshotConfig_def
      effectiveOAuthDir_def normalizedListeners_def sample_next_def sample_running_def DeleteClient_def applyDefaults_def sample_file_defs Let_def)

lemma sample_mutation:
  assumes "fault (CfgRead ''c'') = None"
  shows "MutateConfig (sample_reload fault) ''client_delete_c'' (Some (client_delete ''c'')) sample_manager =
     store_mutation (sample_reload fault) ''client_delete_c'' ''a'' ''b'' (window_defaults (applyDefaults sample_next)) sample_manager"
proof -
  have "ReadFile (rl_config (sample_reload fault)) (rm_configPath sample_manager) (rm_files sample_manager) = Inr ''a''"
    using assms by (simp add: ReadFile_def sample_reload_def sample_manager_def)
  moreover have "rm_configPath sample_manager \<noteq> []" "rm_cfg sample_manager = sample_running" by (simp_all add: sample_manager_def)
  moreover have "yl_marshal sample_yaml sample_next = Inr ''b''" by (simp add: sample_yaml_def)
  moreover have "restartRequiredReason id sample_running sample_running = []" by (simp add: restartRequiredReason_iff)
  ultimately show ?thesis by (simp add: MutateConfig_def sample_parsed sample_deleted Let_def)
qed

lemma sample_applies:
  "\<exists>r x m'. MutateConfig (sample_reload (\<lambda>_. None)) ''client_delete_c'' (Some (client_delete ''c'')) sample_manager = Some (Inr r, x, m') \<and>
     rm_cfg m' = window_defaults (applyDefaults sample_next)"
proof -
  let ?env = "sample_reload (\<lambda>_. None)" and ?cfg = "window_defaults (applyDefaults sample_next)"
  obtain r where r: "rebuild ?env ?cfg sample_manager = Some (Inr r)" using sample_rebuilt by blast
  obtain fs where w: "WriteValidatedFile (rl_config ?env) ''c'' ''b'' [(''c'', ''a''), (''h/00010101-000000-a.yaml'', ''a''), (''h/00010101-000000-a.json'', ''x'')] = (None, fs)"
    by (simp add: WriteValidatedFile_def sample_parsed sample_reload_def Let_def)
  have "applyRuntimeLocked ?env ?cfg r (sample_manager\<lparr>rm_files := fs\<rparr>) \<noteq> None"
    by (rule apply_returns [OF sample_manager_sound, of id]) (simp add: sample_restart)
  then obtain y where "applyRuntimeLocked ?env ?cfg r (sample_manager\<lparr>rm_files := fs\<rparr>) = Some y" by blast
  then obtain reset m' where m': "applyRuntimeLocked ?env ?cfg r (sample_manager\<lparr>rm_files := fs\<rparr>) = Some (reset, m')" by (cases y) auto
  then show ?thesis
    using r w sample_saved(1) sample_restart files_then_apply(1) [OF m']
    by (simp add: sample_mutation store_mutation_def answered_def Let_def)
qed

lemma sample_fails: "\<exists>e x m'. MutateConfig (sample_reload broken_rename) ''client_delete_c'' (Some (client_delete ''c'')) sample_manager = Some (Inl e, x, m')"
proof -
  let ?env = "sample_reload broken_rename" and ?cfg = "window_defaults (applyDefaults sample_next)"
  obtain r where r: "rebuild ?env ?cfg sample_manager = Some (Inr r)" using sample_rebuilt by blast
  obtain e fs where w: "WriteValidatedFile (rl_config ?env) ''c'' ''b'' [(''c'', ''a''), (''h/00010101-000000-a.yaml'', ''a''), (''h/00010101-000000-a.json'', ''x'')] = (Some e, fs)"
    by (simp add: WriteValidatedFile_def sample_parsed sample_reload_def broken_rename_def Let_def)
  have "broken_rename (CfgRead ''c'') = None" by (simp add: broken_rename_def)
  then show ?thesis
    using r w sample_saved(2) sample_restart
    by (simp add: sample_mutation store_mutation_def failed_def Let_def)
qed

theorem failed_change_changes_nothing_witness:
  "\<exists>e x m'. MutateConfig (sample_reload broken_rename) ''client_delete_c'' (Some (client_delete ''c'')) sample_manager = Some (Inl e, x, m') \<and>
     config_text m' = Some ''a'' \<and> rm_cfg m' = sample_running"
proof -
  obtain e x m' where m': "MutateConfig (sample_reload broken_rename) ''client_delete_c'' (Some (client_delete ''c'')) sample_manager = Some (Inl e, x, m')"
    using sample_fails by blast
  from failed_change_changes_nothing [OF m' sample_manager_sound sample_reload_ok] have "config_text m' = Some ''a''" "rm_cfg m' = sample_running"
    by (simp_all add: config_text_def sample_manager_def running_def)
  with m' show ?thesis by blast
qed

theorem applied_change_is_saved_witness:
  "\<exists>r x m'. MutateConfig (sample_reload (\<lambda>_. None)) ''client_delete_c'' (Some (client_delete ''c'')) sample_manager = Some (Inr r, x, m') \<and>
     (\<exists>saved. config_text m' = Some saved \<and> ParseBytes sample_config_lib saved = Inr (rm_cfg m')) \<and>
     built_for (sample_reload (\<lambda>_. None)) (rm_cfg m') (ar_dispatcher (rm_runtime sample_manager)) (rm_runtime m')"
proof -
  obtain r x m' where m': "MutateConfig (sample_reload (\<lambda>_. None)) ''client_delete_c'' (Some (client_delete ''c'')) sample_manager = Some (Inr r, x, m')"
    using sample_applies by blast
  from applied_change_is_saved [OF m' sample_manager_sound sample_reload_ok]
  have "\<exists>saved. config_text m' = Some saved \<and> ParseBytes sample_config_lib saved = Inr (rm_cfg m')"
    "built_for (sample_reload (\<lambda>_. None)) (rm_cfg m') (ar_dispatcher (rm_runtime sample_manager)) (rm_runtime m')" by blast+
  with m' show ?thesis by blast
qed

theorem config_stays_valid_witness:
  "\<exists>m'. (reload_step sample_config_lib sample_decode)\<^sup>*\<^sup>* sample_manager m' \<and>
     restart_settings id (rm_cfg m') = restart_settings id sample_running \<and> (\<exists>c cfg. config_text m' = Some c \<and> ParseBytes sample_config_lib c = Inr cfg)"
proof -
  obtain r x m' where "MutateConfig (sample_reload (\<lambda>_. None)) ''client_delete_c'' (Some (client_delete ''c'')) sample_manager = Some (Inr r, x, m')"
    using sample_applies by blast
  then have steps: "(reload_step sample_config_lib sample_decode)\<^sup>*\<^sup>* sample_manager m'"
    using mutate_step [OF sample_reload_ok] by blast
  have "config_text sample_manager = Some ''a''" "ParseBytes sample_config_lib ''a'' = Inr (rm_cfg sample_manager)"
    "rm_bindings sample_manager = map (listener_state (rm_cfg sample_manager) (rm_configPath sample_manager)) (normalizedListeners (rm_cfg sample_manager))"
    by (simp_all add: config_text_def sample_parsed) (simp add: sample_manager_def)
  note valid = config_stays_valid [OF steps sample_manager_sound this(1) sample_parsed(1) this(2,3)]
  have "cf_rnd sample_config_lib = id" by (simp add: sample_config_lib_def)
  with valid have "restart_settings id (rm_cfg m') = restart_settings id sample_running" by simp
  with steps valid show ?thesis by blast
qed

theorem stale_update_rejected_witness:
  "\<exists>u m1. UpdateConfig (sample_reload (\<lambda>_. None)) ''sha256:a'' ''b'' sample_manager = (Inr u, m1) \<and>
     (\<exists>e. UpdateConfig (sample_reload broken_rename) ''sha256:a'' ''a'' m1 = (Inl e, m1))"
proof -
  let ?env = "sample_reload (\<lambda>_. None)"
  have "ReadFile (rl_config ?env) ''c'' [(''c'', ''a'')] = Inr ''a''" by (simp add: ReadFile_def sample_reload_def)
  moreover have "revision_matches ?env ''sha256:a'' ''a''" by (simp add: revision_matches_def configRevision_def sample_reload_def trim_eval)
  moreover obtain fs where "WriteValidatedFile (rl_config ?env) ''c'' ''b'' [(''c'', ''a'')] = (None, fs)"
    by (simp add: WriteValidatedFile_def sample_parsed sample_reload_def Let_def)
  ultimately have "\<exists>u m1. UpdateConfig ?env ''sha256:a'' ''b'' sample_manager = (Inr u, m1)" by (simp add: UpdateConfig_def sample_parsed)
  then obtain u m1 where u: "UpdateConfig (sample_reload (\<lambda>_. None)) ''sha256:a'' ''b'' sample_manager = (Inr u, m1)" by blast
  have "\<exists>e. UpdateConfig (sample_reload broken_rename) ''sha256:a'' ''a'' m1 = (Inl e, m1)"
    by (rule stale_update_rejected [OF u _ _ _ _ sample_manager_sound sample_reload_ok, of _ "''a''"])
       (simp_all add: config_text_def sample_manager_def sample_reload_def)
  with u show ?thesis by blast
qed

theorem reload_never_panics_witness:
  "ApplyConfig (sample_reload broken_rename) sample_manager \<noteq> None \<and> MutateConfig (sample_reload broken_rename) [] None sample_manager \<noteq> None"
  by (rule reload_never_panics [OF sample_manager_sound]) (simp add: sample_reload_def sample_build_def sample_config_lib_def)

end
