(* ===== verification/Admin_Laws.thy ===== *)
theory Admin_Laws
  imports Reload_Laws Gateway_Laws Recovery_Laws
begin

text \<open>
  What the administration of the configuration guarantees across components: nobody but the administrator changes anything, secrets do
  not show, a deleted client is refused at once, a tag that routes start from keeps a source, and how the process starts and ends.
\<close>

section \<open>Redaction\<close>

text \<open>Documents that differ at most in the values under sensitive keys.\<close>

fun same_public :: "ynode \<Rightarrow> ynode \<Rightarrow> bool" and same_pairs :: "ynode list \<Rightarrow> ynode list \<Rightarrow> bool"
  and same_nodes :: "ynode list \<Rightarrow> ynode list \<Rightarrow> bool" where
  "same_public (YNode k t v c) (YNode k' t' v' c') \<longleftrightarrow>
     k = k' \<and> t = t' \<and> v = v' \<and> (if k = MappingNode then same_pairs c c' else same_nodes c c')"
| "same_pairs (k # v # r) (k' # v' # r') \<longleftrightarrow> k = k' \<and> (isSensitiveConfigKey (y_Value k) \<or> same_public v v') \<and> same_pairs r r'"
| "same_pairs xs ys \<longleftrightarrow> xs = ys"
| "same_nodes (x # xs) (y # ys) \<longleftrightarrow> same_public x y \<and> same_nodes xs ys"
| "same_nodes xs ys \<longleftrightarrow> xs = ys"

lemma redact_short [simp]:
  "redact_pairs ys = [] \<longleftrightarrow> ys = []" "[] = redact_pairs ys \<longleftrightarrow> ys = []" "redact_pairs ys = [v] \<longleftrightarrow> ys = [v]" "[v] = redact_pairs ys \<longleftrightarrow> ys = [v]"
  "redact_list ys = [] \<longleftrightarrow> ys = []" "[] = redact_list ys \<longleftrightarrow> ys = []"
proof -
  have pairs: "redact_pairs ys = xs \<longleftrightarrow> ys = xs" if "length xs < 2" for xs using that by (cases ys rule: redact_pairs.cases) (auto simp: less_Suc_eq)
  show "redact_pairs ys = [] \<longleftrightarrow> ys = []" "[] = redact_pairs ys \<longleftrightarrow> ys = []" "redact_pairs ys = [v] \<longleftrightarrow> ys = [v]" "[v] = redact_pairs ys \<longleftrightarrow> ys = [v]"
    using pairs [of "[]"] pairs [of "[v]"] by auto
  show "redact_list ys = [] \<longleftrightarrow> ys = []" "[] = redact_list ys \<longleftrightarrow> ys = []" by (cases ys; simp)+
qed

lemma redact_same_public:
  "same_public x y \<longleftrightarrow> redactYAMLNode x = redactYAMLNode y"
  "same_pairs xs ys \<longleftrightarrow> redact_pairs xs = redact_pairs ys"
  "same_nodes xs ys \<longleftrightarrow> redact_list xs = redact_list ys"
proof (induction x y and xs ys and xs ys rule: same_public_same_pairs_same_nodes.induct)
qed auto

text \<open>Every value under a sensitive key is the placeholder.\<close>

fun redacted :: "ynode \<Rightarrow> bool" and redacted_pairs :: "ynode list \<Rightarrow> bool" and redacted_nodes :: "ynode list \<Rightarrow> bool" where
  "redacted (YNode k t v c) \<longleftrightarrow> (if k = MappingNode then redacted_pairs c else redacted_nodes c)"
| "redacted_pairs (k # v # r) \<longleftrightarrow>
     (if isSensitiveConfigKey (y_Value k) then v = YNode ScalarNode ''!!str'' RedactedValue [] else redacted v) \<and> redacted_pairs r"
| "redacted_pairs xs \<longleftrightarrow> True"
| "redacted_nodes (x # xs) \<longleftrightarrow> redacted x \<and> redacted_nodes xs"
| "redacted_nodes [] \<longleftrightarrow> True"

lemma redact_redacted:
  "redacted (redactYAMLNode x)" "redacted_pairs (redact_pairs xs)" "redacted_nodes (redact_list xs)"
  by (induction x and xs and xs rule: redactYAMLNode_redact_pairs_redact_list.induct) auto

text \<open>The redacted text of a configuration, as the administration shows it, says nothing of the secrets: the document behind it has the
  placeholder under every sensitive key, and two configurations give the same document exactly when they differ at most in the
  values under those keys.\<close>

theorem redaction_hides_secrets:
  "redacted (redactYAMLNode x) \<and> (redactYAMLNode x = redactYAMLNode y \<longleftrightarrow> same_public x y)"
  by (simp add: redact_redacted redact_same_public)

section \<open>Who may change the configuration\<close>

lemma guarded_refused:
  assumes "\<not> authorizeAdmin r (admin_state env m)"
  shows "\<exists>reply. guarded verb env r m body = Some (reply, m) \<and> reply_status reply \<in> {401, 405}"
  using assms by (simp add: guarded_def admin_guard_def)

lemma validate_unchanged: "\<exists>reply. handleConfigValidate env r m = Some (reply, m)"
  by (auto simp: handleConfigValidate_def split: option.splits)

lemmas admin_handlers = handleAdminSession_def handleAdminConfig_def handleConfigOptions_def handleConfigProviders_def
  handleConfigProviderUpsert_def handleConfigProviderEnabled_def handleConfigProviderDelete_def handleConfigClients_def
  handleConfigClientUpsert_def handleConfigClientDelete_def handleConfigClientBindingUpsert_def handleConfigClientBindingDelete_def
  handleConfigRoutes_def handleConfigRoutesReorder_def handleConfigRouteUpsert_def handleConfigRouteDelete_def handleConfigUpdate_def
  handleConfigApply_def handleConfigHistory_def handleConfigHistoryDiff_def handleConfigRollback_def handleRouteDryRun_def listing_def

text \<open>C32: Only the administrator changes the configuration: whichever path in \<open>admin_routes\<close> a request without the
  administrator's token asks for, the file, the history and what runs stay as they are, and the answer is 401, or 405 for a
  wrong method, except that validating a text is also open to the holder of the accounting token. (The table has the modelled paths
  of the configuration interface; the four that only read metrics, usage or the state of a provider are not among them.)\<close>

theorem only_admin_changes_config:
  assumes "(path, handler) \<in> set admin_routes" and "\<not> authorizeAdmin r (admin_state env m)"
  shows "\<exists>reply. handler env r m = Some (reply, m) \<and> (reply_status reply \<in> {401, 405} \<or> path = ''/admin/config/validate'')"
proof -
  have "\<forall>(path, handler) \<in> set admin_routes. \<exists>reply. handler env r m = Some (reply, m) \<and>
      (reply_status reply \<in> {401, 405} \<or> path = ''/admin/config/validate'')"
    unfolding admin_routes_def list.set ball_simps prod.case admin_handlers
    using guarded_refused [OF assms(2)] validate_unchanged by (intro conjI TrueI; blast)
  then show ?thesis using assms(1) by blast
qed

section \<open>Clients\<close>

text \<open>What the deletion of a client relies on of the YAML library: the clients that were written are read back, in their order.\<close>

definition yaml_faithful :: "config_lib \<Rightarrow> bool" where
  "yaml_faithful lib \<longleftrightarrow> (\<forall>cfg c. yl_marshal (cf_yaml lib) cfg = Inr c \<longrightarrow>
     (\<exists>raw. decode_config lib c = Inr raw \<and> map cl_Name (cfg_Clients raw) = map cl_Name (cfg_Clients cfg)))"

lemma parsed_clients:
  assumes "ParseBytes lib c = Inr cfg" and "decode_config lib c = Inr raw"
  shows "map cl_Name (cfg_Clients cfg) = map cl_Name (cfg_Clients raw)" "map cl_Token (cfg_Clients cfg) = map cl_Token (cfg_Clients raw)"
proof -
  have "Validate (cf_rnd lib) (cf_loadLocation lib) (cf_timeError lib) (cf_parseURL lib) (applyDefaults raw) = (None, cfg)"
    using assms by (auto simp: ParseBytes_def split: prod.splits option.splits)
  then have "cfg = window_defaults (applyDefaults raw)" by (auto simp: Validate_def Let_def)
  then show "map cl_Name (cfg_Clients cfg) = map cl_Name (cfg_Clients raw)" "map cl_Token (cfg_Clients cfg) = map cl_Token (cfg_Clients raw)"
    by (simp_all add: window_defaults_def applyDefaults_def client_defaults_def Let_def)
qed

lemma mutation_reply:
  assumes "writeAdminConfigMutation env reason f m = Some (ResultReply r, m')"
  obtains x where "MutateConfig (ad_reload env) reason (Some f) m = Some (Inr r, x, m')"
  using assms by (auto simp: writeAdminConfigMutation_def writeAdminConfigMutationError_def split: if_splits option.splits prod.splits sum.splits)

lemma deleted_client_gone:
  assumes "handleConfigClientDelete env r m = Some (ResultReply result, m')" and "ad_name env (rq_Body r) = Inr (n, True)"
    and "sound_manager decode m" and "reload_env_ok lib decode (ad_reload env)" and "yaml_faithful lib"
  shows "n \<notin> cl_Name ` set (cfg_Clients (rm_cfg m'))"
    "rm_bindings m' = map (listener_state (rm_cfg m') (rm_configPath m)) (normalizedListeners (rm_cfg m'))"
proof -
  have "writeAdminConfigMutation env (''client_delete_'' @ n) (client_delete n) m = Some (ResultReply result, m')"
    using assms(1,2) by (auto simp: handleConfigClientDelete_def guarded_def admin_guard_def with_request_def decodeJSONResourceRequest_def split: if_splits)
  then obtain x where "MutateConfig (ad_reload env) (''client_delete_'' @ n) (Some (client_delete n)) m = Some (Inr result, x, m')"
    by (rule mutation_reply)
  from MutateConfig_does [OF this assms(3,4)] obtain current edited c
    where e: "client_delete n current = Inr edited" "yl_marshal (cf_yaml lib) edited = Inr c" "ParseBytes lib c = Inr (rm_cfg m')"
      and bindings: "replaced lib m m'"
    by (auto simp: mutation_outcome_def)
  obtain raw where raw: "decode_config lib c = Inr raw" "map cl_Name (cfg_Clients raw) = map cl_Name (cfg_Clients edited)"
    using assms(5) e(2) unfolding yaml_faithful_def by blast
  from parsed_clients(1) [OF e(3) raw(1)] raw(2) have "cl_Name ` set (cfg_Clients (rm_cfg m')) = cl_Name ` set (cfg_Clients edited)" by (metis set_map)
  moreover have "edited = DeleteClient current n" using e(1) by (auto simp: client_delete_def Let_def split: option.splits if_splits)
  ultimately show "n \<notin> cl_Name ` set (cfg_Clients (rm_cfg m'))" by (auto simp: DeleteClient_def delete_by_def)
  show "rm_bindings m' = map (listener_state (rm_cfg m') (rm_configPath m)) (normalizedListeners (rm_cfg m'))"
    using bindings by (simp add: replaced_def)
qed

text \<open>C33: When the administration answers that a client was deleted, no listener lets that client in any more: no request, with whatever
  token, is taken for one of that client from then on.\<close>

theorem deleted_client_refused:
  assumes "handleConfigClientDelete env r m = Some (ResultReply result, m')" and "ad_name env (rq_Body r) = Inr (n, True)"
    and "sound_manager decode m" and "reload_env_ok lib decode (ad_reload env)" and "yaml_faithful lib"
    and "i < length (rm_bindings m')" and "matchInbound req (binding_handler reg sessions i m') = Some (inbound, client)"
  shows "cl_Name (rcb_Client client) \<noteq> n"
proof -
  note gone = deleted_client_gone [OF assms(1-5)]
  have "rcb_Client client \<in> set (rs_Clients (rm_bindings m' ! i))" using matchInbound_sound [OF assms(7)] by (simp add: binding_handler_def)
  also have "rs_Clients (rm_bindings m' ! i) = cfg_Clients (rm_cfg m')" using gone(2) assms(6) by (simp add: listener_state_def)
  finally show ?thesis using gone(1) by auto
qed

section \<open>Tags keep their sources\<close>

definition sourced :: "Config \<Rightarrow> string \<Rightarrow> bool" where
  "sourced cfg tag \<longleftrightarrow> (\<exists>i \<in> set (cfg_Inbounds cfg). \<exists>b \<in> set (in_Clients i). cb_Tag b = tag)"

lemma on_inbound_split:
  "on_inbound n f is = Some is' \<Longrightarrow>
     \<exists>pre i post. is = pre @ i # post \<and> in_Name i = n \<and> find_by in_Name n is = Some i \<and> is' = pre @ i\<lparr>in_Clients := f (in_Clients i)\<rparr> # post"
proof (induction "is" arbitrary: is')
  case (Cons x xs)
  show ?case
  proof (cases "in_Name x = n")
    case True
    then show ?thesis using Cons.prems by (intro exI [of _ "[]"]) (auto simp: find_by_def)
  next
    case False
    then obtain ys where "on_inbound n f xs = Some ys" "is' = x # ys" using Cons.prems by auto
    then obtain pre i post where "xs = pre @ i # post" "in_Name i = n" "find_by in_Name n xs = Some i" "ys = pre @ i\<lparr>in_Clients := f (in_Clients i)\<rparr> # post"
      using Cons.IH by blast
    then show ?thesis using False \<open>is' = x # ys\<close> by (intro exI [of _ "x # pre"] exI) (auto simp: find_by_def)
  qed
qed simp

text \<open>A change of the bindings of one inbound that removes at most the binding of one client.\<close>

lemma removal_keeps_source:
  assumes "on_inbound n f (cfg_Inbounds cfg) = Some is'" and "FindBinding cfg n ref = Inr (Some current)"
    and "validateClientTagRemoval cfg operation n ref (cb_Tag current) = None"
    and "\<And>bs b. b \<in> set bs \<Longrightarrow> cb_Ref b \<noteq> ref \<Longrightarrow> b \<in> set (f bs)"
    and "\<forall>i \<in> set (cfg_Inbounds cfg). distinct (map cb_Ref (in_Clients i))"
    and "rule \<in> set (cfg_Rules cfg)" and "tag \<in> set (rr_FromTags rule)" and "sourced cfg tag"
  shows "sourced (cfg\<lparr>cfg_Inbounds := is'\<rparr>) tag"
proof -
  obtain pre i post where split: "cfg_Inbounds cfg = pre @ i # post" "in_Name i = n" "find_by in_Name n (cfg_Inbounds cfg) = Some i"
    "is' = pre @ i\<lparr>in_Clients := f (in_Clients i)\<rparr> # post" using on_inbound_split [OF assms(1)] by blast
  have current: "find (\<lambda>b. cb_Ref b = ref) (in_Clients i) = Some current" using assms(2) split(3) by (simp add: FindBinding_def find_by_def)
  have survives: "sourced (cfg\<lparr>cfg_Inbounds := is'\<rparr>) tag"
    if "j \<in> set (cfg_Inbounds cfg)" "b \<in> set (in_Clients j)" "cb_Tag b = tag" "j \<noteq> i \<or> cb_Ref b \<noteq> ref" for j b
    using that split(1,4) assms(4) [of b "in_Clients i"] unfolding sourced_def by (auto simp: split)
  show ?thesis
  proof (cases "tag = cb_Tag current")
    case True
    then have "filter (\<lambda>r. tag \<in> set (rr_FromTags r)) (cfg_Rules cfg) \<noteq> []" using assms(6,7) by (auto simp: filter_empty_conv)
    then obtain b where "b \<in> set (other_bindings cfg n ref)" "cb_Tag b = tag"
      using assms(3) True by (auto simp: validateClientTagRemoval_def Let_def list_ex_iff split: if_splits)
    then obtain j where "j \<in> set (cfg_Inbounds cfg)" "b \<in> set (in_Clients j)" "\<not> (in_Name j = n \<and> cb_Ref b = ref)"
      by (auto simp: other_bindings_def)
    then show ?thesis using survives \<open>cb_Tag b = tag\<close> split(2) by blast
  next
    case False
    obtain j b where jb: "j \<in> set (cfg_Inbounds cfg)" "b \<in> set (in_Clients j)" "cb_Tag b = tag" using assms(8) by (auto simp: sourced_def)
    have "b = current" if "j = i" "cb_Ref b = ref"
      using that jb current assms(5) split(1) by (auto simp: find_Some_iff distinct_map inj_on_def)
    then show ?thesis using survives [OF jb] jb(3) False by blast
  qed
qed

lemma bindings_loop_ok:
  "bindings_loop n names i refs bs = None \<Longrightarrow> distinct (map cb_Ref bs) \<and> set (map cb_Ref bs) \<inter> set refs = {}"
  by (induction n names i refs bs rule: bindings_loop.induct) (auto simp: Let_def)

lemma parsed_bindings:
  assumes "ParseBytes lib c = Inr cfg"
  shows "\<forall>i \<in> set (cfg_Inbounds cfg). distinct (map cb_Ref (in_Clients i))"
proof -
  obtain raw where "Validate (cf_rnd lib) (cf_loadLocation lib) (cf_timeError lib) (cf_parseURL lib) raw = (None, cfg)"
    using assms by (auto simp: ParseBytes_def split: sum.splits prod.splits option.splits)
  from Validate_ok(5) [OF this] show ?thesis using bindings_loop_ok by (fastforce simp: validate_inbound_def Let_def)
qed

lemma upsert_by_kept: "b \<in> set bs \<Longrightarrow> key b \<noteq> key x \<Longrightarrow> b \<in> set (upsert_by key x bs)"
  by (induction bs) auto

lemma upsert_by_there: "x \<in> set (upsert_by key x bs)"
  by (induction bs) auto

text \<open>A binding that is new, or that keeps its tag, takes no source away.\<close>

lemma same_tag_keeps_source:
  assumes "on_inbound n (upsert_by cb_Ref b') (cfg_Inbounds cfg) = Some is'" and "FindBinding cfg n (cb_Ref b') = Inr found"
    and "\<And>x. found = Some x \<Longrightarrow> cb_Tag x = cb_Tag b'"
    and "\<forall>i \<in> set (cfg_Inbounds cfg). distinct (map cb_Ref (in_Clients i))" and "sourced cfg tag"
  shows "sourced (cfg\<lparr>cfg_Inbounds := is'\<rparr>) tag"
proof -
  obtain pre i post where split: "cfg_Inbounds cfg = pre @ i # post" "find_by in_Name n (cfg_Inbounds cfg) = Some i"
    "is' = pre @ i\<lparr>in_Clients := upsert_by cb_Ref b' (in_Clients i)\<rparr> # post" using on_inbound_split [OF assms(1)] by blast
  have found: "find (\<lambda>b. cb_Ref b = cb_Ref b') (in_Clients i) = found" using assms(2) split(2) by (simp add: FindBinding_def find_by_def)
  obtain j b where jb: "j \<in> set (cfg_Inbounds cfg)" "b \<in> set (in_Clients j)" "cb_Tag b = tag" using assms(5) by (auto simp: sourced_def)
  show ?thesis
  proof (cases "j = i \<and> cb_Ref b = cb_Ref b'")
    case True
    then obtain x where x: "found = Some x" using found jb(2) by (cases found) (auto simp: find_None_iff)
    then have "x \<in> set (in_Clients i)" "cb_Ref x = cb_Ref b'" using found by (auto simp: find_Some_iff)
    then have "b = x" using True jb(2) assms(4) split(1) by (auto simp: distinct_map inj_on_def)
    then show ?thesis using assms(3) [OF x] jb(3) split(3) upsert_by_there [of b' cb_Ref "in_Clients i"] by (auto simp: sourced_def)
  next
    case False
    then show ?thesis using jb split(1,3) upsert_by_kept [of b "in_Clients i" cb_Ref b'] unfolding sourced_def by (auto simp: split)
  qed
qed

text \<open>C34: Changing or deleting the binding of a client never leaves a route without requests: when the administration accepts such a change of
  a valid configuration, every tag that a rule starts from and that some binding gave before is still given by some binding.\<close>

theorem tags_keep_sources:
  assumes "binding_delete del cfg = Inr cfg' \<or> binding_upsert ups cfg = Inr cfg'" and "ParseBytes lib c = Inr cfg"
    and "rule \<in> set (cfg_Rules cfg')" and "tag \<in> set (rr_FromTags rule)" and "sourced cfg tag"
  shows "sourced cfg' tag"
proof -
  note distinct = parsed_bindings [OF assms(2)]
  let ?b = "\<lparr>cb_Ref = bnq_Ref ups, cb_Tag = bnq_Tag ups\<rparr>"
  consider (del) current is' where "FindBinding cfg (dbq_Inbound del) (dbq_Ref del) = Inr (Some current)"
      "validateClientTagRemoval cfg ''delete'' (dbq_Inbound del) (dbq_Ref del) (cb_Tag current) = None"
      "on_inbound (dbq_Inbound del) (delete_by cb_Ref (dbq_Ref del)) (cfg_Inbounds cfg) = Some is'" "cfg' = cfg\<lparr>cfg_Inbounds := is'\<rparr>"
    | (same) found is' where "FindBinding cfg (bnq_Inbound ups) (bnq_Ref ups) = Inr found" "\<And>x. found = Some x \<Longrightarrow> cb_Tag x = bnq_Tag ups"
      "on_inbound (bnq_Inbound ups) (upsert_by cb_Ref ?b) (cfg_Inbounds cfg) = Some is'" "cfg' = cfg\<lparr>cfg_Inbounds := is'\<rparr>"
    | (tag) current is' where "FindBinding cfg (bnq_Inbound ups) (bnq_Ref ups) = Inr (Some current)"
      "validateClientTagRemoval cfg ''update'' (bnq_Inbound ups) (bnq_Ref ups) (cb_Tag current) = None"
      "on_inbound (bnq_Inbound ups) (upsert_by cb_Ref ?b) (cfg_Inbounds cfg) = Some is'" "cfg' = cfg\<lparr>cfg_Inbounds := is'\<rparr>"
    using assms(1)
    by (auto simp: binding_delete_def DeleteBinding_def binding_upsert_def UpsertBinding_def Let_def split: sum.splits option.splits if_splits)
  then show ?thesis
  proof cases
    case del
    then show ?thesis using removal_keeps_source [OF del(3,1,2) _ distinct] assms(3-5) by (auto simp: delete_by_def)
  next
    case same
    then show ?thesis using same_tag_keeps_source [OF same(3) _ _ distinct assms(5)] by simp
  next
    case tag
    then show ?thesis using removal_keeps_source [OF tag(3,1,2) _ distinct] upsert_by_kept [of _ _ cb_Ref ?b] assms(3-5) by auto
  qed
qed

section \<open>Start and end of the process\<close>

definition fresh_fd :: "nat \<Rightarrow> lock_os \<Rightarrow> bool" where
  "fresh_fd fd k \<longleftrightarrow> fd \<notin> fst ` set (lo_open k) \<and> fd \<notin> fst ` set (lo_locks k)"

lemma close_fresh:
  assumes "fresh_fd fd k"
  shows "close_fd fd k = k" "close_fd fd (k\<lparr>lo_open := (fd, p) # lo_open k\<rparr>) = k"
    "close_fd fd (k\<lparr>lo_open := (fd, p) # lo_open k, lo_locks := (fd, p) # lo_locks k\<rparr>) = k"
proof -
  have "filter (\<lambda>(f, p). f \<noteq> fd) (lo_open k) = lo_open k" "filter (\<lambda>(f, p). f \<noteq> fd) (lo_locks k) = lo_locks k"
    using assms by (auto simp: fresh_fd_def filter_id_conv image_iff)
  then show "close_fd fd k = k" "close_fd fd (k\<lparr>lo_open := (fd, p) # lo_open k\<rparr>) = k"
    "close_fd fd (k\<lparr>lo_open := (fd, p) # lo_open k, lo_locks := (fd, p) # lo_locks k\<rparr>) = k"
    by (simp_all add: close_fd_def)
qed

lemma acquire_close:
  assumes "fresh_fd fd k" and "AcquireInstanceLock env dir fd k = (res, k1)"
  shows "(\<exists>e. res = Inl e \<and> k1 = k) \<or> (res = Inr (Some fd) \<and> close_fd fd k1 = k)"
  using assms(2) by (auto simp: AcquireInstanceLock_def Let_def close_fresh [OF assms(1)] split: if_splits option.splits)

lemma lock_Close_table: "snd (snd (lock_Close env l k)) = (case l of None \<Rightarrow> k | Some fd \<Rightarrow> close_fd fd k)"
  by (simp add: lock_Close_def split: option.splits)

text \<open>The lock on the session directory never outlives the process that holds it: a start that fails, at whatever point, leaves the
  table of locks and open files as it was, and so does a start followed by the end of the process, whatever errors the end meets.\<close>

theorem instance_lock_returned:
  assumes "NewWithOptions env cfg path k dirs = Some (res, k1, dirs1)" and "fresh_fd (ae_fd env) k"
  shows "case res of Inl e \<Rightarrow> k1 = k | Inr a \<Rightarrow> fst (snd (snd (app_Close env2 e1 e2 a k1 dirs2))) = k"
proof -
  let ?s = "session_snapshot_config cfg"
  obtain lk k2 where lk: "(if EnabledEffective ?s then AcquireInstanceLock (ae_lock env) (ssc_Dir ?s) (ae_fd env) k else (Inr None, k)) = (lk, k2)"
    by (meson surj_pair)
  then have table: "(\<exists>e. lk = Inl e \<and> k2 = k) \<or> (\<exists>l. lk = Inr l \<and> (case l of None \<Rightarrow> k2 | Some fd \<Rightarrow> close_fd fd k2) = k)"
    using acquire_close [OF assms(2), of "ae_lock env" "ssc_Dir ?s"] by (auto split: if_splits)
  show ?thesis
    using assms(1) table unfolding NewWithOptions_def Let_def lk
    by (auto simp: app_Close_def lock_Close_table case_prod_beta split: sum.splits option.splits prod.splits)
qed

section \<open>Where the code falls short\<close>

lemma read_items_fails:
  assumes "name \<in> set names" and "HasSuffix name ''.json''" and "map_of fs (dir @ ''/'' @ name) = Some c" and "rl_decode_item env c = Inl e"
  shows "\<exists>e. read_items env dir fs names = Inl e"
  using assms(1)
proof (induction names)
  case (Cons n names)
  show ?case
  proof (cases "n = name")
    case True
    then show ?thesis using assms(2-4) by (auto simp: ReadFile_def split: sum.splits option.splits)
  next
    case False
    then show ?thesis using Cons by (auto split: sum.splits)
  qed
qed simp

lemma dir_entries_there:
  assumes "map_of fs (dir @ ''/'' @ name) = Some c" and "CHR ''/'' \<notin> set name"
  shows "name \<in> set (dir_entries dir fs)"
proof -
  have "HasPrefix (dir @ ''/'' @ name) (dir @ ''/'')" by (simp add: HasPrefix_def)
  then show ?thesis using map_of_SomeD [OF assms(1)] assms(2)
    by (force simp: dir_entries_def map_filter_def image_iff)
qed

lemma unreadable_item_blocks_history:
  assumes "map_of fs (dir @ ''/'' @ name) = Some c" and "CHR ''/'' \<notin> set name" and "HasSuffix name ''.json''"
    and "rl_decode_item env c = Inl e" and "name \<noteq> history_id env content @ ''.yaml''" and "name \<noteq> history_id env content @ ''.json''"
  shows "\<exists>e. fst (history_SaveBytes env dir content reason fs) = Inl e"
proof -
  have prune: "\<exists>e. fst (history_Prune env dir n fs') = Some e" if "map_of fs' (dir @ ''/'' @ name) = Some c" for n fs'
    using read_items_fails [OF dir_entries_there [OF that assms(2)] assms(3) that assms(4)]
    by (auto simp: history_Prune_def history_List_def split: option.splits sum.splits)
  have kept: "map_of (snd (write_file env (dir @ ''/'' @ x) y fs')) (dir @ ''/'' @ name) = Some c"
    if "x \<noteq> name" "map_of fs' (dir @ ''/'' @ name) = Some c" for x y fs'
    using that by (simp add: write_file_other)
  have "\<exists>e. fst (history_Prune env dir n (snd (write_file env (dir @ ''/'' @ history_id env content @ ''.json'') meta
      (snd (write_file env (dir @ ''/'' @ history_id env content @ ''.yaml'') content fs))))) = Some e" for n meta
    using assms(1,5,6) by (intro prune kept) auto
  then show ?thesis
    by (auto simp: history_SaveBytes_def Let_def simp del: append_Cons append_Nil split: option.splits prod.splits sum.splits)
       (metis fst_conv option.distinct(1) snd_conv)+
qed

text \<open>One item of the history that cannot be decoded, such as a cut-off write leaves behind, makes every later change fail: the
  history is listed on every save, and no call removes the item.\<close>

theorem unreadable_item_blocks_changes:
  assumes "map_of (rm_files m) (rm_historyDir m @ ''/'' @ name) = Some c" and "CHR ''/'' \<notin> set name" and "HasSuffix name ''.json''"
    and "rl_decode_item env c = Inl e" and "\<forall>content. name \<noteq> history_id env content @ ''.yaml'' \<and> name \<noteq> history_id env content @ ''.json''"
    and "MutateConfig env reason f m = Some (res, x, m')"
  shows "\<exists>e. res = Inl e"
proof -
  have "history_SaveBytes env (rm_historyDir m) old reason (rm_files m) \<noteq> (Inr i, fs)" for old i fs
    using unreadable_item_blocks_history [OF assms(1-4), of old reason] assms(5) by (metis Inl_Inr_False fst_conv)
  then show ?thesis using MutateConfig_cases [OF assms(6)] store_mutation_cases by blast
qed

text \<open>The history is ordered by the text of the times, and trailing zeros are not in the text: of two items of one second the older can
  come out as the newer.\<close>

theorem history_misordered:
  "let older = \<lparr>hi_ID = ''old'', hi_CreatedAt = format_RFC3339Nano 500000000, hi_Reason = [], hi_Path = [], hi_Checksum = []\<rparr>;
       newer = \<lparr>hi_ID = ''new'', hi_CreatedAt = format_RFC3339Nano 510000000, hi_Reason = [], hi_Path = [], hi_Checksum = []\<rparr>
   in map hi_ID (newest_first [older, newer]) = [''old'', ''new'']"
  by code_simp

text \<open>The placeholder is stored as the token of a new provider, though a new client is refused with it.\<close>

theorem placeholder_becomes_token:
  assumes "find_by ob_Name (prq_Name req) (cfg_Outbounds cfg) = None" and "prq_AuthToken req = RedactedValue"
    and "FindClient cfg (crq_Name creq) = None" and "crq_Token creq = RedactedValue"
  shows "\<exists>cfg'. provider_upsert req cfg = Inr cfg' \<and>
      (\<exists>x \<in> set (cfg_Outbounds cfg'). ob_Name x = prq_Name req \<and> ob_AuthToken x = RedactedValue)"
    and "\<exists>e. client_upsert creq cfg = Inl e"
proof -
  define x where "x = \<lparr>ob_Name = prq_Name req, ob_Protocol = prq_Protocol req, ob_Endpoint = prq_Endpoint req, ob_AuthToken = prq_AuthToken req,
                 ob_Auth = prq_Auth req, ob_Tag = prq_Tag req, ob_Enabled = prq_Enabled req, ob_Models = prq_Models req,
                 ob_Capabilities = prq_Capabilities req, ob_Quota = prq_Quota req, ob_ProxyURL = prq_ProxyURL req\<rparr>"
  have "provider_upsert req cfg = Inr (UpsertOutbound cfg x)" using assms(1) by (simp add: provider_upsert_def x_def)
  moreover have "x \<in> set (cfg_Outbounds (UpsertOutbound cfg x))" by (simp add: UpsertOutbound_def upsert_by_there)
  ultimately show "\<exists>cfg'. provider_upsert req cfg = Inr cfg' \<and>
      (\<exists>x \<in> set (cfg_Outbounds cfg'). ob_Name x = prq_Name req \<and> ob_AuthToken x = RedactedValue)"
    using assms(2) by (intro exI [of _ "UpsertOutbound cfg x"] conjI bexI [of _ x]) (simp_all add: x_def)
  show "\<exists>e. client_upsert creq cfg = Inl e" using assms(3,4) by (simp add: client_upsert_def)
qed

text \<open>A second process that is refused because the first holds the lock has by then loaded the first one's quota snapshot, and on its
  way out it writes that snapshot over the file of the running process.\<close>

theorem refused_start_overwrites_quota:
  assumes "newAccountingStore (ae_lf env) (be_rnd (ae_build env)) (be_now (ae_build env)) (cfg_Accounting cfg) (ae_disk env) = Inr store"
    and "ae_oauthStore env (if cfg_OAuthDir cfg = [] then ''./data/oauth'' else cfg_OAuthDir cfg) = None"
    and "buildRuntimeWithOAuth env cfg store dirs = Some (Inr r)" and "ar_snapshotStore r = Some s" and "\<not> qsn_closed s"
    and "EnabledEffective (session_snapshot_config cfg)"
    and "AcquireInstanceLock (ae_lock env) (ssc_Dir (session_snapshot_config cfg)) (ae_fd env) k = (Inl e, k1)"
    and "quota_codec (be_quota (ae_build env))"
    and "fst (close_store (ae_build env) (ae_clk env) (d_quotaTracker (ar_dispatcher r)) (d_clientQuotaTracker (ar_dispatcher r)) (Some s) dirs) = None"
  shows "\<exists>dirs1 p v. NewWithOptions env cfg path k dirs = Some (Inl (wrap_error ''acquire session instance lock'' e), k1, dirs1) \<and>
    map_of (dirs1 (qsn_dir s)) latest_json = Some p \<and> sv_decode (be_quota (ae_build env)) p = Inr v \<and>
    qsf_Outbound v = fst (export_part (ae_clk env 1) (d_quotaTracker (ar_dispatcher r)))"
proof -
  let ?b = "ae_build env" and ?d = "ar_dispatcher r"
  let ?s = "s\<lparr>qsn_outboundTracker := d_quotaTracker ?d, qsn_clientTracker := d_clientQuotaTracker ?d, qsn_files := dirs (qsn_dir s), qsn_closed := True\<rparr>"
  obtain s1 where save: "quota_Save (be_quota ?b) (ae_clk env) ?s = (None, s1)"
    and dirs1: "abandon env r dirs = dirs(qsn_dir s := qsn_files s1)"
    using assms(4,5,9) by (auto simp: close_store_def abandon_def quota_Close_def Let_def case_prod_beta prod_eq_iff)
  obtain p v where "map_of (qsn_files s1) latest_json = Some p" "sv_decode (be_quota ?b) p = Inr v"
    "qsf_Outbound v = fst (export_part (ae_clk env 1) (qsn_outboundTracker ?s))" by (rule quota_Save_written [OF assms(8) save])
  moreover have "NewWithOptions env cfg path k dirs =
      Some (Inl (wrap_error ''acquire session instance lock'' e), k1, dirs(qsn_dir s := qsn_files s1))"
    using assms(1-3,6,7) dirs1 by (simp add: NewWithOptions_def Let_def)
  ultimately show ?thesis by auto
qed

section \<open>Witnesses\<close>

definition sample_admin :: admin_env where
  "sample_admin = \<lparr>ad_reload = sample_reload (\<lambda>_. None), ad_reload2 = sample_reload (\<lambda>_. None), ad_index = 0, ad_reloader = True, ad_query = [],
     ad_readErr = ''eof'', ad_rules = \<lambda>_. [], ad_provider = \<lambda>_. Inl (PlainError ''json''), ad_enabled = \<lambda>_. Inl (PlainError ''json''),
     ad_name = \<lambda>_. Inr (''c'', True), ad_client = \<lambda>_. Inl (PlainError ''json''), ad_binding = \<lambda>_. Inl (PlainError ''json''),
     ad_unbind = \<lambda>_. Inl (PlainError ''json''), ad_route = \<lambda>_. Inl (PlainError ''json''), ad_reorder = \<lambda>_. Inl (PlainError ''json''),
     ad_rollback = \<lambda>_. Inr [], ad_dryRun = \<lambda>_. Inl (PlainError ''json'')\<rparr>"

definition token_request :: "string \<Rightarrow> string \<Rightarrow> http_request" where
  "token_request path token = \<lparr>rq_Method = ''POST'', rq_Path = path, rq_Header = \<lambda>h. if h = ''Authorization'' then ''Bearer '' @ token else [],
     rq_Body = Some []\<rparr>"

lemma token_request_bearer:
  "t \<noteq> [] \<Longrightarrow> printable (hd t) \<Longrightarrow> printable (last t) \<Longrightarrow> bearerToken (rq_Header (token_request path t) ''Authorization'') = t"
  by (simp add: token_request_def bearerToken_def HasPrefix_def TrimPrefix_def TrimSpace_printable)

lemma sample_admin_token: "rs_Admin (admin_state sample_admin sample_manager) = normalizeAdminConfig (cfg_Admin sample_running)"
  "adm_Enabled (normalizeAdminConfig (cfg_Admin sample_running))" "adm_Token (normalizeAdminConfig (cfg_Admin sample_running)) = ''s''"
  by (simp_all add: admin_state_def sample_admin_def sample_manager_def normalizedListeners_def listener_state_def normalizeAdminConfig_def
      sample_running_def applyDefaults_def sample_file_defs Let_def)

theorem only_admin_changes_config_witness:
  "\<exists>reply. handleConfigRollback sample_admin (token_request ''/admin/config/rollback'' ''u'') sample_manager = Some (reply, sample_manager) \<and>
     reply_status reply \<in> {401, 405}"
proof -
  let ?r = "token_request ''/admin/config/rollback'' ''u''"
  have "bearerToken (rq_Header ?r ''Authorization'') = ''u''" by (rule token_request_bearer) (simp_all add: printable_def)
  then have "\<not> authorizeAdmin ?r (admin_state sample_admin sample_manager)" by (simp add: authorizeAdmin_def sample_admin_token Let_def)
  from only_admin_changes_config [OF _ this, of "''/admin/config/rollback''" handleConfigRollback] show ?thesis by (simp add: admin_routes_def)
qed

theorem deleted_client_refused_witness:
  "\<exists>result m' inbound client. handleConfigClientDelete sample_admin (token_request ''/admin/config/client/delete'' ''s'') sample_manager =
       Some (ResultReply result, m') \<and>
     matchInbound (token_request ''/v1'' ''u'') (binding_handler \<lparr>ireg_codecs = []\<rparr> NewSessionStore 0 m') = Some (inbound, client) \<and>
     cl_Name (rcb_Client client) \<noteq> ''c''"
proof -
  let ?r = "token_request ''/admin/config/client/delete'' ''s''" and ?q = "token_request ''/v1'' ''u''"
  obtain result x m' where m': "MutateConfig (sample_reload (\<lambda>_. None)) ''client_delete_c'' (Some (client_delete ''c'')) sample_manager = Some (Inr result, x, m')"
    and cfg: "rm_cfg m' = window_defaults (applyDefaults sample_next)" using sample_applies by blast
  have "bearerToken (rq_Header ?r ''Authorization'') = ''s''" by (rule token_request_bearer) (simp_all add: printable_def)
  then have "admin_guard ''POST'' sample_admin ?r sample_manager = None"
    by (simp add: admin_guard_def authorizeAdmin_def sample_admin_token Let_def) (simp add: token_request_def)
  then have h: "handleConfigClientDelete sample_admin ?r sample_manager = Some (ResultReply result, m')"
    using m' by (simp add: handleConfigClientDelete_def guarded_def with_request_def decodeJSONResourceRequest_def sample_admin_def writeAdminConfigMutation_def)
  have name: "ad_name sample_admin (rq_Body ?r) = Inr (''c'', True)" by (simp add: sample_admin_def)
  have ok: "reload_env_ok sample_config_lib sample_decode (ad_reload sample_admin)" using sample_reload_ok by (simp add: sample_admin_def)
  have yaml: "yaml_faithful sample_config_lib"
    by (auto simp: yaml_faithful_def sample_config_lib_def sample_yaml_def sample_decoded [unfolded sample_config_lib_def sample_yaml_def] split: if_splits)
  have bindings: "rm_bindings m' = map (listener_state (rm_cfg m') ''c'') (normalizedListeners (rm_cfg m'))"
    using deleted_client_gone(2) [OF h name sample_manager_sound ok yaml] by simp
  have "bearerToken (rq_Header ?q ''Authorization'') = ''u''" by (rule token_request_bearer) (simp_all add: printable_def)
  then have "\<exists>inbound client. matchInbound ?q (binding_handler \<lparr>ireg_codecs = []\<rparr> NewSessionStore 0 m') = Some (inbound, client)"
    unfolding matchInbound_def Let_def
    by (simp add: binding_handler_def bindings cfg normalizedListeners_def listener_state_def ListenerInbounds_def InboundByName_def clients_config_def
        ResolveInboundClients_def ResolveClientBinding_def FindClient_def find_by_def map_filter_def
        sample_next_def sample_running_def DeleteClient_def delete_by_def applyDefaults_def sample_file_defs Let_def)
       (simp add: token_request_def)
  then obtain inbound client where q: "matchInbound ?q (binding_handler \<lparr>ireg_codecs = []\<rparr> NewSessionStore 0 m') = Some (inbound, client)" by blast
  have "0 < length (rm_bindings m')" by (simp add: bindings normalizedListeners_def)
  from deleted_client_refused [OF h name sample_manager_sound ok yaml this q] h q show ?thesis by blast
qed

theorem tags_keep_sources_witness:
  "\<exists>cfg'. binding_delete \<lparr>dbq_Inbound = ''in2'', dbq_Ref = ''d''\<rparr> sample_running = Inr cfg' \<and> sourced cfg' ''client''"
proof -
  let ?del = "\<lparr>dbq_Inbound = ''in2'', dbq_Ref = ''d''\<rparr>"
  have "\<exists>cfg'. binding_delete ?del sample_running = Inr cfg' \<and> cfg_Rules cfg' = cfg_Rules sample_running"
    by (simp add: binding_delete_def FindBinding_def find_by_def validateClientTagRemoval_def other_bindings_def DeleteBinding_def
        sample_running_def applyDefaults_def sample_file_defs Let_def)
  then obtain cfg' where cfg': "binding_delete ?del sample_running = Inr cfg'" "cfg_Rules cfg' = cfg_Rules sample_running" by blast
  have "sourced sample_running ''client''" by (simp add: sourced_def sample_running_def applyDefaults_def sample_file_defs Let_def)
  then have "sourced cfg' ''client''"
    by (intro tags_keep_sources [OF disjI1 [OF cfg'(1)] sample_parsed(1), of "hd (cfg_Rules sample_running)"])
       (simp_all add: cfg'(2) sample_running_def applyDefaults_def sample_file_defs Let_def)
  with cfg'(1) show ?thesis by blast
qed

end
