(* ===== verification/Spec2Isabelle.thy ===== *)
theory Spec2Isabelle
  imports Gateway_Laws Anthropic_Laws Provider_Laws OAuth_Laws Local_File_Laws Recovery_Laws Log_Laws Admin_Laws
begin

text \<open>
  \<^bold>\<open>Syrogo, an LLM gateway: a verification development.\<close>

  Syrogo (\<open>src/\<close>, Go) accepts requests of the OpenAI chat, OpenAI responses and Anthropic messages protocols, checks the
  client's token and quota, selects outbounds by routing rules, tries them in order with fallback, translates the answer
  or the stream back into the client's protocol, and accounts for the usage. Its state survives restarts in files, it
  renews OAuth credentials, rotates its logs, and an administrator changes its configuration while it runs. This development translates that
  code into executable definitions and proves the properties that make it correct. A theory per part:

  \<^item> Foundations. \<open>Go_Prelude\<close> has the shared automation: strings and their trimming, association lists with a default,
    64-bit wrap-around, and the locales \<open>invariant_machine\<close>, the keyed machines and the lock of a probe, which the stateful
    components interpret. \<open>Go_Time\<close> models package \<open>time\<close> (instants are integers of nanoseconds, calendar and zones),
    \<open>Go_Parse\<close> the parsing and printing of durations, dates and numbers, \<open>Go_Json\<close> JSON values and the scanner behind
    \<open>json.Compact\<close>.
  \<^item> Model types. \<open>Runtime_Model\<close> is \<open>internal/runtime\<close> and \<open>internal/protocol\<close>; \<open>Config_Types\<close> the records of
    \<open>internal/config/config.go\<close> with the lookups and all resource operations of \<open>resources.go\<close>.
  \<^item> Configuration. \<open>Config_Values\<close> (durations, costs), \<open>Config_Validate\<close> (\<open>applyDefaults\<close> and \<open>Validate\<close> with all its
    errors), \<open>Config_Laws\<close>: a validated configuration gives a router, only executable plans, and effective client limits.
    \<open>Config_File\<close> is the file: the two formats of clients, \<open>ParseBytes\<close>, the replacement of the file as a whole (the locale
    \<open>validated_slot\<close>, interpreted on \<open>WriteValidatedFile\<close>) and the redaction of its text.
  \<^item> Routing. \<open>Router\<close> is \<open>internal/router\<close>: glob patterns (equivalent to a reference reading), rule compilation, the
    round-robin counters, weights, plans and dry runs.
  \<^item> Providers. \<open>Provider_Errors\<close>, \<open>Provider_Health\<close> and \<open>Provider_Stream\<close> are \<open>errors.go\<close>, \<open>health.go\<close>, and the stream
    decoder with the usage estimate. For the request path a provider is a value that gives the results of its calls;
    \<open>Provider_Codecs\<close> and \<open>Provider_Clients\<close> are the code behind it: the codecs towards the three upstream protocols, the
    rotation of API keys, credentials, the Codex and mock providers and the registry. \<open>Provider_Laws\<close>: keys are used in rotation, calls are
    bounded, the three protocols carry the same tool exchange, traces do not show keys.
  \<^item> OAuth. \<open>OAuth\<close> is \<open>internal/oauth\<close>: the credential files, the login flows and the refresh. \<open>OAuth_Laws\<close>: the code of
    a flow is exchanged once, however logins interleave, a login checks its state, and a request gets the stored credential, current.
  \<^item> Quota. \<open>Quota_Window\<close> and \<open>Quota_Tracker\<close> are \<open>internal/quota/tracker.go\<close>, \<open>Quota_Events\<close> its event log.
    \<open>Quota_Laws\<close>: admission refines the reading over the recorded history, retry times are exact, cooldown admits one
    probe per interval, export and import round-trip, reconfiguration with the same configuration changes nothing.
  \<^item> Accounting and latency. \<open>Accounting_Memory\<close> (memory store and prices) and \<open>Latency_Store\<close>. \<open>Local_File\<close> is the usage store on
    files with its queue, buffered writer, rotation, snapshots and recovery, on the bytes of its files; \<open>Local_File_Laws\<close>: a store that
    ran from an empty directory without faults and was closed answers after a restart as before.
  \<^item> Execution. \<open>Dispatcher\<close> is \<open>internal/execution/dispatcher.go\<close>; \<open>Dispatch_Laws\<close>: steps are tried in order, the
    preferred error is returned, and every dispatch and every uncancelled stream writes exactly one usage record.
  \<^item> Sessions. \<open>Sessions_Store\<close> is \<open>internal/sessions\<close> without its files: ownership, finality of stopped sessions,
    removal of abandoned ones.
  \<^item> Snapshots. \<open>Snapshot_Files\<close> has the locale \<open>snapshot_slot\<close>, the contract of a file that is replaced as a whole;
    \<open>Sessions_Snapshot\<close> (with the instance lock) and \<open>Quota_Snapshot\<close> are the stores that use it. \<open>Recovery_Laws\<close>: sessions
    and quotas are recovered as they were saved, the session file is never partial, and one process holds the lock.
  \<^item> Logs. \<open>Recent_Log\<close> is the buffer of recent lines, \<open>Log_Rotate\<close> the rotated file with its archives. \<open>Log_Laws\<close>: without
    faults rotation and compression lose nothing, and retention removes exactly what the limits say.
  \<^item> Streams. \<open>Event_Stream\<close> is \<open>internal/eventstream\<close>, \<open>Gateway_Streams\<close> the bodies, chunks and frames of the chat and
    messages codecs. \<open>Stream_Laws\<close> and \<open>Anthropic_Laws\<close>: decoded streams end, blocks are bracketed, messages start once, and tool
    arguments arrive as the upstream sent them.
  \<^item> Gateway. \<open>Inbound_Request\<close> is \<open>runtime_request.go\<close> with \<open>internal/semantic\<close>, \<open>Responses_Codec\<close> is
    \<open>openai_responses_codec.go\<close>, \<open>Gateway\<close> the handler: authentication, client quota, planning, dispatch, replies, statistics
    and session ingestion. \<open>Gateway_Laws\<close> composes the parts: only bound clients are served, every request is answered,
    and each is counted at most once, for the client that sent it, also when its stream is cancelled.
  \<^item> Application. \<open>App_Runtime\<close> is \<open>internal/app/app.go\<close>: the runtime built from a configuration, the start and the end of the process.
    \<open>Config_Reload\<close> is \<open>reload.go\<close>: applying, changing, updating and rolling back the configuration, and its history.
    \<open>Reload_Laws\<close>: the file stays valid whatever fails, a failed change changes nothing, an applied change is the saved one and what runs was built from it, stale
    updates are refused, settings that need a restart stay, and no call panics.
  \<^item> Administration. \<open>Admin_Config\<close> has the handlers of the configuration interface (\<open>admin_config_resources.go\<close> and parts of
    \<open>admin_ui.go\<close> and \<open>handler.go\<close>). \<open>Admin_Laws\<close>: only the administrator changes anything, secrets do not show, a deleted client is
    refused at once, tags keep their sources, and the instance lock is always returned.

  \<^bold>\<open>Conventions.\<close> Structs are records whose fields carry a short prefix; a pointer that may be nil is an \<open>option\<close>; a Go map is an
  association list, and where the order of a range shows, that order is a parameter (\<open>range_order\<close>). A method takes the
  state and returns it updated; a mutex makes each call one step, and interleavings are sequences of steps. Clock
  readings are arguments. Errors are \<open>Inl\<close> values or the type \<open>go_error\<close>; a panic is the value \<open>Panicked\<close> or \<open>None\<close>. Integers
  that can overflow wrap at 64 bits; \<open>float64\<close> is a rational with a rounding function \<open>rnd\<close>. Files are a table from paths to
  contents; which call of the operating system fails, and how much a failing write leaves, is a parameter, so a theorem about files
  holds for every fault unless it says otherwise. No definition uses fuel: every loop is structural or has a measure.

  \<^bold>\<open>Parameters\<close> stand for code outside the repository: \<open>encoding/json\<close> (the records \<open>json_lib\<close>, \<open>responses_lib\<close>, \<open>wire_lib\<close>),
  \<open>http.ParseTime\<close>, \<open>url.Parse\<close>, the loading of time zones, float rounding, the built-in price table (a generated
  file), the order of map ranges, what the goroutine of a stream receives, the upstreams and authorization servers
  (\<open>upstream_env\<close>, \<open>oauth_env\<close>), the YAML library (\<open>yaml_lib\<close>), SHA-256, gzip, and the file system with its faults (\<open>lf_env\<close>,
  \<open>snap_env\<close>, \<open>lock_env\<close>, \<open>log_env\<close>, \<open>config_env\<close>). The theorems hold for all of them, up to the hypotheses they state.

  \<^bold>\<open>Findings\<close> that the proofs brought out are theorems too, next to the definitions they concern: a probe that is never
  released (\<open>health_probe_stuck\<close>, \<open>denied_step_keeps_quota_probe\<close>), a cancelled stream that is not accounted
  (\<open>cancelled_stream_unrecorded\<close>), tool arguments that compaction corrupts (\<open>spaced_arguments_corrupted\<close>), tool results that are lost
  (\<open>mixed_tool_result_dropped\<close>, \<open>reminder_empties_tool_result\<close>), repeated calls (\<open>responses_stream_repeats_calls\<close>), duplicate
  outbounds (\<open>duplicate_outbounds_accepted\<close>), signed fractions of costs (\<open>cost_accepts_signed_fraction\<close>), usage counted twice after a
  restart (\<open>restart_counts_twice\<close>), text not sent to an upstream (\<open>responses_drop_text\<close>), log lines reported as covered that are not
  there (\<open>long_line_uncovered\<close>), a log file that is never reopened (\<open>lost_file_is_permanent\<close>), archives and history out of order
  (\<open>archives_misordered_over_dst\<close>, \<open>history_misordered\<close>), an unreadable history item that blocks every change
  (\<open>unreadable_item_blocks_changes\<close>), rules of one name that share a round-robin counter (\<open>same_name_skews_share\<close>), an older
  attempt whose outcome ends the wait for a probe (\<open>older_failure_frees_probe\<close>), a placeholder stored as a token (\<open>placeholder_becomes_token\<close>), and a refused start that
  overwrites the running process's quota file (\<open>refused_start_overwrites_quota\<close>).

  \<^bold>\<open>Not modelled:\<close> the administration's views of logs, usage, sessions and credentials (\<open>admin_logs.go\<close>, the metrics, \<open>admin_oauth.go\<close>,
  \<open>admin_sessions.go\<close>, \<open>admin_streaming.go\<close> and the rest of \<open>admin_ui.go\<close>), which read the modelled stores and render JSON; debug files
  (\<open>debug.go\<close>, upstream traces); HTTP servers (\<open>internal/server\<close>); the timers and goroutines that drive ticks, whose steps are modelled; the
  decoding of YAML and JSON into records, which are parameters; and the commands (\<open>cmd/syrogo\<close>), which start processes and
  terminals. Data races between goroutines are not modelled: calls on a component are atomic.
\<close>

end
